(* ===== verification/Cmdb_Prelude.thy ===== *)
theory Cmdb_Prelude
  imports Main "HOL-Library.Word" "HOL-Library.Monad_Syntax"
begin

text \<open>
  Shared vocabulary of the development: the machine types, the buffer lengths and return codes
  of include/ailsacmdb.h, the C library's string functions as the sources use them, the
  idiom \<open>if ((retval = f(...)) != 0) goto cleanup;\<close> as a combinator, and the generic lemmas
  the components share.

  Conventions.  A C pointer that may be NULL is an \<open>option\<close>, with \<open>None\<close> for NULL.  A C string
  is a HOL string without its terminating NUL; \<open>cstr\<close> is the type of a \<open>char *\<close>.  A function
  that may dereference NULL, read freed memory or run forever has an \<open>option\<close> result, and
  \<open>None\<close> stands for that undefined behaviour; its ordinary result is the C return code with the
  objects it changed.
\<close>

subsection \<open>Collections of rules\<close>

named_theorems heap_simps \<open>reading and writing list cells\<close>
named_theorems res_simps \<open>one step of the return-code idiom\<close>
named_theorems net_simps \<open>IP address and prefix arithmetic\<close>

subsection \<open>Machine types\<close>

type_synonym u32 = "32 word"
type_synonym u64 = "64 word"
type_synonym i16 = "16 word"
type_synonym cstr = "string option"

subsection \<open>Buffer lengths\<close>

abbreviation BYTE_LEN :: nat where "BYTE_LEN \<equiv> 8"
abbreviation SERVICE_LEN :: nat where "SERVICE_LEN \<equiv> 16"
abbreviation MAC_LEN :: nat where "MAC_LEN \<equiv> 32"
abbreviation HOST_LEN :: nat where "HOST_LEN \<equiv> 64"
abbreviation CONFIG_LEN :: nat where "CONFIG_LEN \<equiv> 256"
abbreviation DOMAIN_LEN :: nat where "DOMAIN_LEN \<equiv> 256"
abbreviation BUFFER_LEN :: nat where "BUFFER_LEN \<equiv> 1024"
abbreviation FILE_LEN :: nat where "FILE_LEN \<equiv> 4096"
abbreviation SQL_TEXT_MAX :: nat where "SQL_TEXT_MAX \<equiv> 4096"

subsection \<open>Return codes\<close>

text \<open>Only the codes the modelled functions return; 0 is success.\<close>

abbreviation AILSA_LIST_CLONE_FAILED :: int where "AILSA_LIST_CLONE_FAILED \<equiv> 56"
abbreviation AILSA_PREFIX_OUT_OF_RANGE :: int where "AILSA_PREFIX_OUT_OF_RANGE \<equiv> 57"
abbreviation AILSA_NO_MASTER :: int where "AILSA_NO_MASTER \<equiv> 34"
abbreviation AILSA_INPUT_INVALID :: int where "AILSA_INPUT_INVALID \<equiv> 34"
abbreviation AILSA_NO_DATA :: int where "AILSA_NO_DATA \<equiv> 200"
abbreviation AILSA_IP_CONVERT_FAILED :: int where "AILSA_IP_CONVERT_FAILED \<equiv> 216"
abbreviation AILSA_BUILD_DOMAIN_OVERLAP :: int where "AILSA_BUILD_DOMAIN_OVERLAP \<equiv> 236"
abbreviation AILSA_REV_ZONE_OVERLAP :: int where "AILSA_REV_ZONE_OVERLAP \<equiv> 242"
abbreviation AILSA_NO_OS :: int where "AILSA_NO_OS \<equiv> 217"
abbreviation CANNOT_FIND_IDENTITY_ID :: int where "CANNOT_FIND_IDENTITY_ID \<equiv> 225"
abbreviation AILSA_WRONG_LIST_LENGHT :: int where "AILSA_WRONG_LIST_LENGHT \<equiv> 226"
abbreviation AILSA_WRONG_ZONE_TYPE :: int where "AILSA_WRONG_ZONE_TYPE \<equiv> 227"
abbreviation AILSA_NO_SCHEME :: int where "AILSA_NO_SCHEME \<equiv> 237"
abbreviation AILSA_NO_VM_HOST :: int where "AILSA_NO_VM_HOST \<equiv> 239"
abbreviation AILSA_STRING_FAIL :: int where "AILSA_STRING_FAIL \<equiv> 240"
abbreviation AILSA_INVALID_DBTYPE :: int where "AILSA_INVALID_DBTYPE \<equiv> 302"
abbreviation AILSA_QUERY_FAIL :: int where "AILSA_QUERY_FAIL \<equiv> 306"
abbreviation AILSA_STATEMENT_FAIL :: int where "AILSA_STATEMENT_FAIL \<equiv> 308"
abbreviation AILSA_SQL_FILE_INIT_FAIL :: int where "AILSA_SQL_FILE_INIT_FAIL \<equiv> 309"
abbreviation AILSA_WRONG_DBTYPE :: int where "AILSA_WRONG_DBTYPE \<equiv> 311"
abbreviation AILSA_SERVER_NOT_FOUND :: int where "AILSA_SERVER_NOT_FOUND \<equiv> 700"
abbreviation AILSA_CUSTOMER_NOT_FOUND :: int where "AILSA_CUSTOMER_NOT_FOUND \<equiv> 701"
abbreviation AILSA_ZONE_NOT_FOUND :: int where "AILSA_ZONE_NOT_FOUND \<equiv> 702"
abbreviation AILSA_BUILD_IP_NOT_FOUND :: int where "AILSA_BUILD_IP_NOT_FOUND \<equiv> 703"
abbreviation AILSA_VARIENT_NOT_FOUND :: int where "AILSA_VARIENT_NOT_FOUND \<equiv> 704"

text \<open>The actions of the DNS command and the codes of its checks.\<close>

abbreviation NONE :: int where "NONE \<equiv> 0"
abbreviation DNSA_DISPLAY :: int where "DNSA_DISPLAY \<equiv> 11"
abbreviation DNSA_LIST :: int where "DNSA_LIST \<equiv> 12"
abbreviation DNSA_COMMIT :: int where "DNSA_COMMIT \<equiv> 13"
abbreviation DNSA_AZONE :: int where "DNSA_AZONE \<equiv> 14"
abbreviation DNSA_AHOST :: int where "DNSA_AHOST \<equiv> 15"
abbreviation DNSA_BREV :: int where "DNSA_BREV \<equiv> 16"
abbreviation DNSA_DISPLAY_MULTI :: int where "DNSA_DISPLAY_MULTI \<equiv> 17"
abbreviation DNSA_ADD_MULTI :: int where "DNSA_ADD_MULTI \<equiv> 18"
abbreviation DNSA_DZONE :: int where "DNSA_DZONE \<equiv> 19"
abbreviation DNSA_DREC :: int where "DNSA_DREC \<equiv> 20"
abbreviation DNSA_DPREFA :: int where "DNSA_DPREFA \<equiv> 21"
abbreviation DNSA_CNAME :: int where "DNSA_CNAME \<equiv> 22"
abbreviation AILSA_VERSION :: int where "AILSA_VERSION \<equiv> 101"
abbreviation AILSA_DISPLAY_USAGE :: int where "AILSA_DISPLAY_USAGE \<equiv> 102"
abbreviation AILSA_NO_ACTION :: int where "AILSA_NO_ACTION \<equiv> 1"
abbreviation AILSA_NO_TYPE :: int where "AILSA_NO_TYPE \<equiv> 2"
abbreviation AILSA_NO_DOMAIN_NAME :: int where "AILSA_NO_DOMAIN_NAME \<equiv> 32"
abbreviation AILSA_NO_IP_ADDRESS :: int where "AILSA_NO_IP_ADDRESS \<equiv> 33"
abbreviation AILSA_NO_RECORD_TYPE :: int where "AILSA_NO_RECORD_TYPE \<equiv> 35"
abbreviation AILSA_NO_GLUE_NS :: int where "AILSA_NO_GLUE_NS \<equiv> 36"
abbreviation AILSA_NO_PREFIX :: int where "AILSA_NO_PREFIX \<equiv> 37"
abbreviation AILSA_NO_HOST_NAME :: int where "AILSA_NO_HOST_NAME \<equiv> 38"
abbreviation AILSA_UNKNOWN_ZONE_TYPE :: int where "AILSA_UNKNOWN_ZONE_TYPE \<equiv> 39"
abbreviation AILSA_DOMAIN_AND_IP_GIVEN :: int where "AILSA_DOMAIN_AND_IP_GIVEN \<equiv> 51"
abbreviation AILSA_NO_TOP_LEVEL_DOMAIN :: int where "AILSA_NO_TOP_LEVEL_DOMAIN \<equiv> 204"
abbreviation AILSA_NO_PRIORITY :: int where "AILSA_NO_PRIORITY \<equiv> 205"
abbreviation AILSA_NO_PROTOCOL :: int where "AILSA_NO_PROTOCOL \<equiv> 206"
abbreviation AILSA_NO_SERVICE :: int where "AILSA_NO_SERVICE \<equiv> 207"
abbreviation AILSA_BUFFER_TOO_SMALL :: int where "AILSA_BUFFER_TOO_SMALL \<equiv> 230"
abbreviation RTYPE_INPUT_INVALID :: int where "RTYPE_INPUT_INVALID \<equiv> 600"
abbreviation SERVICE_INPUT_INVALID :: int where "SERVICE_INPUT_INVALID \<equiv> 602"
abbreviation DOMAIN_INPUT_INVALID :: int where "DOMAIN_INPUT_INVALID \<equiv> 604"
abbreviation HOST_INPUT_INVALID :: int where "HOST_INPUT_INVALID \<equiv> 606"
abbreviation DEST_INPUT_INVALID :: int where "DEST_INPUT_INVALID \<equiv> 607"
abbreviation GLUE_IP_INPUT_INVALID :: int where "GLUE_IP_INPUT_INVALID \<equiv> 609"
abbreviation GLUE_NS_INPUT_INVALID :: int where "GLUE_NS_INPUT_INVALID \<equiv> 610"
abbreviation PROTOCOL_INVALID :: int where "PROTOCOL_INVALID \<equiv> 623"
abbreviation AILSA_RANGE_ERROR :: int where "AILSA_RANGE_ERROR \<equiv> 208"
abbreviation AILSA_CANNOT_GET_PARENT :: int where "AILSA_CANNOT_GET_PARENT \<equiv> 212"
abbreviation AILSA_HOST_EXISTS :: int where "AILSA_HOST_EXISTS \<equiv> 203"
abbreviation AILSA_NO_HOST :: int where "AILSA_NO_HOST \<equiv> 202"
abbreviation AILSA_LIST_NO_DESTROY :: int where "AILSA_LIST_NO_DESTROY \<equiv> 209"
abbreviation AILSA_LIST_CANNOT_REMOVE :: int where "AILSA_LIST_CANNOT_REMOVE \<equiv> 210"
abbreviation AILSA_CHKZONE_FAIL :: int where "AILSA_CHKZONE_FAIL \<equiv> 233"
abbreviation AILSA_FILE_ERROR :: int where "AILSA_FILE_ERROR \<equiv> 233"
abbreviation AILSA_GETADDR_FAIL :: int where "AILSA_GETADDR_FAIL \<equiv> 231"

subsection \<open>The return-code idiom\<close>

text \<open>
  \<open>chk0 m k\<close> is \<open>if ((retval = m) != 0) goto cleanup; k\<close>: the rest runs only when the call
  returned 0; otherwise the code and the objects as the call left them go to the cleanup label.
\<close>

definition chk0 :: "(int \<times> 's) option \<Rightarrow> ('s \<Rightarrow> (int \<times> 's) option) \<Rightarrow> (int \<times> 's) option" where
  "chk0 m k = do { (retval, s) \<leftarrow> m; if retval \<noteq> 0 then Some (retval, s) else k s }"

lemma chk0_simps [simp, res_simps]:
  "chk0 (Some (0, s)) k = k s"
  "r \<noteq> 0 \<Longrightarrow> chk0 (Some (r, s)) k = Some (r, s)"
  "chk0 None k = None"
  by (simp_all add: chk0_def)

lemma chk0_zeroE:
  assumes "chk0 m k = Some (0, t)"
  obtains s where "m = Some (0, s)" and "k s = Some (0, t)"
  using assms by (auto simp: chk0_def bind_eq_Some_conv split: if_splits)

text \<open>A predicate kept by the call and by the rest is kept by both in sequence.\<close>

lemma chk0_keeps:
  assumes "chk0 m k = Some (r, t)"
    and "\<And>r s. m = Some (r, s) \<Longrightarrow> P s"
    and "\<And>r s t. P s \<Longrightarrow> k s = Some (r, t) \<Longrightarrow> P t"
  shows "P t"
  using assms by (auto simp: chk0_def bind_eq_Some_conv split: if_splits)

lemma chk0_defined:
  "m = Some (r, s) \<Longrightarrow> (r = 0 \<Longrightarrow> k s \<noteq> None) \<Longrightarrow> chk0 m k \<noteq> None"
  by (auto simp: chk0_def)

subsection \<open>C strings\<close>

text \<open>\<open>strndup(s, n)\<close> keeps at most \<open>n\<close> characters.\<close>

definition strndup :: "string \<Rightarrow> nat \<Rightarrow> string" where
  "strndup s n = take n s"

text \<open>\<open>snprintf(buf, n, "%s", s)\<close> writes at most \<open>n - 1\<close> characters and a NUL.\<close>

definition snprintf_s :: "nat \<Rightarrow> string \<Rightarrow> string" where
  "snprintf_s n s = take (n - 1) s"

text \<open>\<open>strncmp(a, b, n) == 0\<close>.\<close>

definition strncmp_eq :: "string \<Rightarrow> string \<Rightarrow> nat \<Rightarrow> bool" where
  "strncmp_eq a b n \<longleftrightarrow> take n a = take n b"

lemma length_strndup [simp]: "length (strndup s n) = min (length s) n"
  by (simp add: strndup_def)

lemma strndup_short [simp]: "length s \<le> n \<Longrightarrow> strndup s n = s"
  by (simp add: strndup_def)

lemma strncmp_eq_refl [simp]: "strncmp_eq s s n"
  by (simp add: strncmp_eq_def)

lemma strncmp_eq_short:
  "length b < n \<Longrightarrow> strncmp_eq a b n \<longleftrightarrow> a = b"
  by (cases "length a \<le> n")
     (auto simp: strncmp_eq_def dest: arg_cong [where f = length])

text \<open>\<open>strchr\<close> and \<open>strrchr\<close>: the first and the last position of a character.\<close>

fun strchr :: "string \<Rightarrow> char \<Rightarrow> nat option" where
  "strchr [] c = None"
| "strchr (x # xs) c = (if x = c then Some 0 else map_option Suc (strchr xs c))"

definition strrchr :: "string \<Rightarrow> char \<Rightarrow> nat option" where
  "strrchr s c = map_option (\<lambda>i. length s - Suc i) (strchr (rev s) c)"

lemma strchr_Some:
  "strchr s c = Some i \<Longrightarrow> i < length s \<and> s ! i = c \<and> c \<notin> set (take i s)"
  by (induction s arbitrary: i) (auto split: if_splits)

lemma strchr_None: "strchr s c = None \<longleftrightarrow> c \<notin> set s"
  by (induction s) auto

lemma strchr_append_first:
  "c \<notin> set xs \<Longrightarrow> strchr (xs @ c # ys) c = Some (length xs)"
  by (induction xs) auto

lemma strrchr_append_last:
  "c \<notin> set ys \<Longrightarrow> strrchr (xs @ c # ys) c = Some (length xs)"
  by (simp add: strrchr_def strchr_append_first)

lemma strrchr_None: "strrchr s c = None \<longleftrightarrow> c \<notin> set s"
  by (simp add: strrchr_def strchr_None)

end
