(* ===== verification/Ailsa_List.thy ===== *)
theory Ailsa_List
  imports Cmdb_Prelude
begin

text \<open>
  lib/list.c: the doubly linked list \<open>AILLIST\<close> every other part of the library builds on.

  The heap holds the \<open>AILELEM\<close> cells; a pointer is an address or NULL.  The operations read and
  write cells in the order of the source, dereferencing an unallocated cell gives \<open>None\<close>, and
  a loop that does not end has the value \<open>None\<close> too.  \<open>list_rep\<close> relates a list and its cells
  to the sequence of (address, data) pairs it represents: each operation is proved to refine the
  corresponding operation on that sequence, and to leave every other cell as it was.  The locale
  \<open>ail_sequence\<close> is what the rest of the library relies on.
\<close>

subsection \<open>Cells, the heap and the list header\<close>

type_synonym addr = nat

record 'a AILELEM =
  el_prev :: "addr option"
  el_next :: "addr option"
  el_data :: "'a option"

record 'a heap =
  cells :: "addr \<Rightarrow> 'a AILELEM option"
  brk :: addr
  destroyed :: "'a option list"

text \<open>
  \<open>l_destroy\<close> tells whether the list has a destroy function (\<open>list->destroy != NULL\<close>); the heap
  keeps the log of the data pointers given to it.
\<close>

record AILLIST =
  l_total :: nat
  l_destroy :: bool
  l_head :: "addr option"
  l_tail :: "addr option"

datatype clone_action = AILSA_NOACTION | AILSA_BEFORE | AILSA_AFTER | AILSA_HEAD | AILSA_TAIL
  | AILSA_OTHER_ACTION

text \<open>\<open>*p\<close>, and \<open>p->field = v\<close>.\<close>

definition deref :: "'a heap \<Rightarrow> addr option \<Rightarrow> 'a AILELEM option" where
  "deref h p = (case p of None \<Rightarrow> None | Some a \<Rightarrow> cells h a)"

definition store :: "addr option \<Rightarrow> ('a AILELEM \<Rightarrow> 'a AILELEM) \<Rightarrow> 'a heap \<Rightarrow> 'a heap option" where
  "store p f h = (case p of None \<Rightarrow> None | Some a \<Rightarrow>
     (case cells h a of None \<Rightarrow> None | Some e \<Rightarrow> Some (h\<lparr>cells := (cells h)(a := Some (f e))\<rparr>)))"

definition set_prev :: "addr option \<Rightarrow> addr option \<Rightarrow> 'a heap \<Rightarrow> 'a heap option" where
  "set_prev p v = store p (\<lambda>e. e\<lparr>el_prev := v\<rparr>)"

definition set_next :: "addr option \<Rightarrow> addr option \<Rightarrow> 'a heap \<Rightarrow> 'a heap option" where
  "set_next p v = store p (\<lambda>e. e\<lparr>el_next := v\<rparr>)"

definition set_data :: "addr option \<Rightarrow> 'a option \<Rightarrow> 'a heap \<Rightarrow> 'a heap option" where
  "set_data p v = store p (\<lambda>e. e\<lparr>el_data := v\<rparr>)"

text \<open>\<open>ailsa_calloc(sizeof(AILELEM))\<close> returns a zeroed cell (the program exits when there is no
  memory), \<open>my_free\<close> gives a cell back, \<open>run_destroy\<close> is the call \<open>list->destroy(data)\<close>.\<close>

definition calloc_elem :: "'a heap \<Rightarrow> addr option \<times> 'a heap" where
  "calloc_elem h = (Some (brk h),
     h\<lparr>cells := (cells h)(brk h := Some \<lparr>el_prev = None, el_next = None, el_data = None\<rparr>),
       brk := Suc (brk h)\<rparr>)"

definition my_free :: "addr option \<Rightarrow> 'a heap \<Rightarrow> 'a heap option" where
  "my_free p h = (case p of None \<Rightarrow> Some h | Some a \<Rightarrow>
     (if cells h a = None then None else Some (h\<lparr>cells := (cells h)(a := None)\<rparr>)))"

definition run_destroy :: "'a option \<Rightarrow> 'a heap \<Rightarrow> 'a heap" where
  "run_destroy d h = h\<lparr>destroyed := destroyed h @ [d]\<rparr>"

subsection \<open>The operations of list.c\<close>

definition ailsa_list_init :: "bool \<Rightarrow> AILLIST" where
  "ailsa_list_init destroy =
     \<lparr>l_total = 0, l_destroy = destroy, l_head = None, l_tail = None\<rparr>"

definition ailsa_list_ins_next ::
  "'a heap \<Rightarrow> AILLIST \<Rightarrow> addr option \<Rightarrow> 'a option \<Rightarrow> (int \<times> 'a heap \<times> AILLIST) option" where
  "ailsa_list_ins_next h list element data =
    (if element = None \<and> l_total list \<noteq> 0 then Some (-1, h, list)
     else let (new, h) = calloc_elem h in do {
       h \<leftarrow> set_data new data h;
       (h, list) \<leftarrow>
         (if l_total list = 0 then do {
            h \<leftarrow> set_prev new None h;
            h \<leftarrow> set_next new None h;
            Some (h, list\<lparr>l_head := new, l_tail := new\<rparr>)
          } else do {
            e \<leftarrow> deref h element;
            h \<leftarrow> set_next new (el_next e) h;
            h \<leftarrow> set_prev new element h;
            (h, list) \<leftarrow>
              (if el_next e = None then Some (h, list\<lparr>l_tail := new\<rparr>)
               else do { h \<leftarrow> set_prev (el_next e) new h; Some (h, list) });
            h \<leftarrow> set_next element new h;
            Some (h, list)
          });
       Some (0, h, list\<lparr>l_total := l_total list + 1\<rparr>)
     })"

definition ailsa_list_ins_prev ::
  "'a heap \<Rightarrow> AILLIST \<Rightarrow> addr option \<Rightarrow> 'a option \<Rightarrow> (int \<times> 'a heap \<times> AILLIST) option" where
  "ailsa_list_ins_prev h list element data =
    (if element = None \<and> l_total list \<noteq> 0 then Some (-1, h, list)
     else let (new, h) = calloc_elem h in do {
       h \<leftarrow> set_data new data h;
       (h, list) \<leftarrow>
         (if l_total list = 0 then do {
            h \<leftarrow> set_prev new None h;
            h \<leftarrow> set_next new None h;
            Some (h, list\<lparr>l_head := new, l_tail := new\<rparr>)
          } else do {
            e \<leftarrow> deref h element;
            h \<leftarrow> set_next new element h;
            h \<leftarrow> set_prev new (el_prev e) h;
            (h, list) \<leftarrow>
              (if el_prev e = None then Some (h, list\<lparr>l_head := new\<rparr>)
               else do { h \<leftarrow> set_next (el_prev e) new h; Some (h, list) });
            h \<leftarrow> set_prev element new h;
            Some (h, list)
          });
       Some (0, h, list\<lparr>l_total := l_total list + 1\<rparr>)
     })"

definition ailsa_list_insert ::
  "'a heap \<Rightarrow> AILLIST option \<Rightarrow> 'a option \<Rightarrow> (int \<times> 'a heap \<times> AILLIST option) option" where
  "ailsa_list_insert h lst data = (case lst of None \<Rightarrow> Some (-1, h, lst) | Some list \<Rightarrow>
     if data = None then Some (-1, h, lst)
     else if l_total list = 0 then do {
       (retval, h, list) \<leftarrow> ailsa_list_ins_next h list None data;
       Some (retval, h, Some list)
     } else let (new, h) = calloc_elem h; tmp = l_tail list in do {
       h \<leftarrow> set_data new data h;
       h \<leftarrow> set_next tmp new h;
       h \<leftarrow> set_prev new (l_tail list) h;
       h \<leftarrow> set_next new None h;
       Some (0, h, Some (list\<lparr>l_tail := new, l_total := l_total list + 1\<rparr>))
     })"

text \<open>\<open>ailsa_list_remove(list, element, &data)\<close>: \<open>data\<close> is the value the caller's variable has
  before the call; the result holds the value it has after it.\<close>

definition ailsa_list_remove ::
  "'a heap \<Rightarrow> AILLIST \<Rightarrow> addr option \<Rightarrow> 'a option \<Rightarrow>
   (int \<times> 'a option \<times> 'a heap \<times> AILLIST) option" where
  "ailsa_list_remove h list element data =
    (if element = None \<or> l_total list = 0 then Some (-1, data, h, list)
     else do {
       e \<leftarrow> deref h element;
       let data = el_data e;
       (h, list) \<leftarrow>
         (if element = l_head list then do {
            let list = list\<lparr>l_head := el_next e\<rparr>;
            if l_head list = None then Some (h, list\<lparr>l_tail := None\<rparr>)
            else do { h \<leftarrow> set_prev (el_next e) None h; Some (h, list) }
          } else do {
            h \<leftarrow> set_next (el_prev e) (el_next e) h;
            if el_next e = None then Some (h, list\<lparr>l_tail := el_prev e\<rparr>)
            else do { h \<leftarrow> set_prev (el_next e) (el_prev e) h; Some (h, list) }
          });
       let list = list\<lparr>l_total := l_total list - 1\<rparr>;
       h \<leftarrow> my_free element h;
       Some (0, data, h, list)
     })"

partial_function (option) clean_loop :: "'a heap \<Rightarrow> AILLIST \<Rightarrow> ('a heap \<times> AILLIST) option" where
  [code]: "clean_loop h list =
    (if 0 < l_total list then do {
       (retval, data, h, list) \<leftarrow> ailsa_list_remove h list (l_tail list) None;
       let h = (if retval = 0 \<and> l_destroy list then run_destroy data h else h);
       clean_loop h list
     } else Some (h, list))"

definition ailsa_list_clean ::
  "'a heap \<Rightarrow> AILLIST option \<Rightarrow> ('a heap \<times> AILLIST option) option" where
  "ailsa_list_clean h lst = (case lst of None \<Rightarrow> Some (h, lst) | Some list \<Rightarrow> do {
     (h, list) \<leftarrow> clean_loop h list;
     Some (h, Some list)
   })"

definition ailsa_list_destroy ::
  "'a heap \<Rightarrow> AILLIST option \<Rightarrow> ('a heap \<times> AILLIST option) option" where
  "ailsa_list_destroy h lst = (case lst of None \<Rightarrow> Some (h, lst) | Some list \<Rightarrow> do {
     (h, _) \<leftarrow> ailsa_list_clean h lst;
     Some (h, Some \<lparr>l_total = 0, l_destroy = False, l_head = None, l_tail = None\<rparr>)
   })"

text \<open>\<open>ailsa_list_full_clean\<close> also frees the header: afterwards there is no list.\<close>

definition ailsa_list_full_clean :: "'a heap \<Rightarrow> AILLIST option \<Rightarrow> 'a heap option" where
  "ailsa_list_full_clean h lst = do { (h, _) \<leftarrow> ailsa_list_destroy h lst; Some h }"

text \<open>The loop of \<open>ailsa_list_remove_elements\<close>: \<open>count\<close> iterations are left, \<open>no\<close> elements have
  been destroyed.\<close>

fun remove_elements_loop ::
  "nat \<Rightarrow> 'a heap \<Rightarrow> AILLIST \<Rightarrow> addr option \<Rightarrow> 'a option \<Rightarrow> nat \<Rightarrow>
   (nat \<times> 'a heap \<times> AILLIST) option" where
  "remove_elements_loop 0 h l p d no = Some (no, h, l)"
| "remove_elements_loop (Suc count) h l p d no = do {
     e \<leftarrow> deref h p;
     let n = el_next e;
     (retval, d, h, l) \<leftarrow> ailsa_list_remove h l p d;
     if retval = 0 \<and> l_destroy l
     then remove_elements_loop count (run_destroy d h) l n d (no + 1)
     else remove_elements_loop count h l n d no
   }"

definition ailsa_list_remove_elements ::
  "'a heap \<Rightarrow> AILLIST option \<Rightarrow> addr option \<Rightarrow> nat \<Rightarrow> (int \<times> 'a heap \<times> AILLIST option) option" where
  "ailsa_list_remove_elements h lst e len = (case lst of None \<Rightarrow> Some (AILSA_NO_DATA, h, lst)
   | Some l \<Rightarrow>
     if e = None then Some (AILSA_NO_DATA, h, lst)
     else do {
       (no, h, l) \<leftarrow> remove_elements_loop len h l e None 0;
       Some (if no \<noteq> len then 1 else 0, h, Some l)
     })"

text \<open>
  The two search loops of \<open>ailsa_list_pop_element\<close> test the same cell for ever when the first
  test fails: nothing in their bodies advances \<open>e\<close> or \<open>f\<close>.
\<close>

partial_function (option) pop_search_next ::
  "'a heap \<Rightarrow> addr option \<Rightarrow> addr option \<Rightarrow> addr option option" where
  [code]: "pop_search_next h element e =
    (if e = None then Some e
     else do { c \<leftarrow> deref h e; if el_next c = element then Some e else pop_search_next h element e })"

partial_function (option) pop_search_prev ::
  "'a heap \<Rightarrow> addr option \<Rightarrow> addr option \<Rightarrow> addr option option" where
  [code]: "pop_search_prev h element f =
    (if f = None then Some f
     else do { c \<leftarrow> deref h f; if el_prev c = element then Some f else pop_search_prev h element f })"

definition ailsa_list_pop_element ::
  "'a heap \<Rightarrow> AILLIST \<Rightarrow> addr option \<Rightarrow> (int \<times> 'a heap \<times> AILLIST) option" where
  "ailsa_list_pop_element h list element =
    (if element = None \<or> l_total list = 0 then Some (-1, h, list)
     else do {
       (h, list) \<leftarrow>
         (if element = l_head list then do {
            c \<leftarrow> deref h element;
            if el_next c \<noteq> None then Some (h, list\<lparr>l_head := el_next c\<rparr>)
            else Some (h, list\<lparr>l_head := None\<rparr>)
          } else if element = l_tail list then do {
            t \<leftarrow> deref h (l_tail list);
            let list = list\<lparr>l_tail := el_prev t\<rparr>;
            h \<leftarrow> set_next (l_tail list) None h;
            Some (h, list)
          } else do {
            e \<leftarrow> pop_search_next h element (l_head list);
            f \<leftarrow> pop_search_prev h element (l_tail list);
            h \<leftarrow> set_prev f e h;
            h \<leftarrow> set_next e f h;
            Some (h, list)
          });
       Some (0, h, list\<lparr>l_total := l_total list - 1\<rparr>)
     })"

text \<open>\<open>copy_data sz\<close> is the object that a block of \<open>sz\<close> bytes holds after
  \<open>memcpy(block, data, size)\<close>: the data is opaque to the list.\<close>

definition ailsa_list_insert_clone ::
  "(nat \<Rightarrow> 'a \<Rightarrow> 'a) \<Rightarrow> 'a heap \<Rightarrow> AILLIST option \<Rightarrow> addr option \<Rightarrow> addr option \<Rightarrow> clone_action \<Rightarrow>
   nat \<Rightarrow> (int \<times> 'a heap \<times> AILLIST option) option" where
  "ailsa_list_insert_clone copy_data h lst copy ptr action sz =
    (case lst of None \<Rightarrow> Some (-1, h, lst) | Some list \<Rightarrow>
     if copy = None \<or> action = AILSA_NOACTION \<or> sz = 0 then Some (-1, h, lst)
     else do {
       c \<leftarrow> deref h copy;
       src \<leftarrow> el_data c;
       let data = Some (copy_data sz src);
       let finish = (\<lambda>r. do {
         (retval, h, list) \<leftarrow> r;
         Some (if retval \<noteq> 0 then AILSA_LIST_CLONE_FAILED else retval, h, Some list) });
       (case action of
          AILSA_BEFORE \<Rightarrow> (if ptr = None then Some (AILSA_LIST_CLONE_FAILED, h, lst)
                           else finish (ailsa_list_ins_prev h list ptr data))
        | AILSA_AFTER \<Rightarrow> (if ptr = None then Some (AILSA_LIST_CLONE_FAILED, h, lst)
                          else finish (ailsa_list_ins_next h list ptr data))
        | AILSA_HEAD \<Rightarrow> finish (ailsa_list_ins_prev h list (l_head list) data)
        | AILSA_TAIL \<Rightarrow> finish (ailsa_list_ins_next h list (l_tail list) data)
        | _ \<Rightarrow> Some (AILSA_LIST_CLONE_FAILED, h, lst))
     })"

text \<open>\<open>ailsa_insert_clone\<close>: \<open>clone\<close> is the list's function pointer, which returns a cell of its
  own or NULL; only the data of that cell stays in the list.\<close>

definition ailsa_insert_clone ::
  "('a heap \<Rightarrow> addr option \<Rightarrow> (addr option \<times> 'a heap) option) \<Rightarrow> 'a heap \<Rightarrow> AILLIST option \<Rightarrow>
   addr option \<Rightarrow> (int \<times> 'a heap \<times> AILLIST option) option" where
  "ailsa_insert_clone clone h lst elem =
    (if lst = None \<or> elem = None then Some (AILSA_NO_DATA, h, lst)
     else do {
       (copy, h) \<leftarrow> clone h elem;
       if copy \<noteq> None then do {
         c \<leftarrow> deref h copy;
         (retval, h, lst) \<leftarrow> ailsa_list_insert h lst (el_data c);
         h \<leftarrow> my_free copy h;
         Some (retval, h, lst)
       } else Some (AILSA_LIST_CLONE_FAILED, h, lst)
     })"

definition ailsa_clone_element ::
  "(nat \<Rightarrow> 'a \<Rightarrow> 'a) \<Rightarrow> 'a heap \<Rightarrow> addr option \<Rightarrow> nat \<Rightarrow> (addr option \<times> 'a heap) option" where
  "ailsa_clone_element copy_data h e sz =
    (if e = None then Some (None, h)
     else let (c, h) = calloc_elem h in do {
       x \<leftarrow> deref h e;
       src \<leftarrow> el_data x;
       h \<leftarrow> set_data c (Some (copy_data sz src)) h;
       Some (c, h)
     })"

definition ailsa_clean_element ::
  "'a heap \<Rightarrow> AILLIST option \<Rightarrow> addr option \<Rightarrow> 'a heap option" where
  "ailsa_clean_element h lst e = (case lst of None \<Rightarrow> Some h | Some list \<Rightarrow>
     if e = None then Some h
     else do {
       c \<leftarrow> deref h e;
       if l_destroy list then my_free e (run_destroy (el_data c) h) else None
     })"

fun move_next :: "nat \<Rightarrow> 'a heap \<Rightarrow> addr option \<Rightarrow> addr option option" where
  "move_next 0 h element = Some element"
| "move_next (Suc i) h element = do { e \<leftarrow> deref h element; move_next i h (el_next e) }"

definition ailsa_list_get_element ::
  "'a heap \<Rightarrow> AILLIST option \<Rightarrow> nat \<Rightarrow> addr option option" where
  "ailsa_list_get_element h lst number = (case lst of None \<Rightarrow> Some None | Some list \<Rightarrow>
     if number = 0 then Some None
     else if l_total list < number then Some None
     else move_next (number - 1) h (l_head list))"

fun move_down :: "nat \<Rightarrow> 'a heap \<Rightarrow> addr option \<Rightarrow> addr option option" where
  "move_down 0 h e = Some e"
| "move_down (Suc i) h e =
     (if e \<noteq> None then do { c \<leftarrow> deref h e; move_down i h (el_next c) } else move_down i h e)"

definition ailsa_move_down_list :: "'a heap \<Rightarrow> addr option \<Rightarrow> nat \<Rightarrow> addr option option" where
  "ailsa_move_down_list h element number =
     (if element = None then Some None else move_down number h element)"

subsection \<open>The sequence a list represents\<close>

definition first :: "addr option \<Rightarrow> (addr \<times> 'b) list \<Rightarrow> addr option" where
  "first n ps = (case ps of [] \<Rightarrow> n | p # _ \<Rightarrow> Some (fst p))"

definition final :: "addr option \<Rightarrow> (addr \<times> 'b) list \<Rightarrow> addr option" where
  "final p ps = (if ps = [] then p else Some (fst (last ps)))"

fun dseg :: "(addr \<Rightarrow> 'a AILELEM option) \<Rightarrow> addr option \<Rightarrow> (addr \<times> 'a option) list \<Rightarrow>
  addr option \<Rightarrow> bool" where
  "dseg C p [] n = True"
| "dseg C p ((a, x) # ps) n \<longleftrightarrow>
     C a = Some \<lparr>el_prev = p, el_next = first n ps, el_data = x\<rparr> \<and> dseg C (Some a) ps n"

definition list_rep :: "'a heap \<Rightarrow> AILLIST \<Rightarrow> (addr \<times> 'a option) list \<Rightarrow> bool" where
  "list_rep h l ps \<longleftrightarrow> dseg (cells h) None ps None \<and> distinct (map fst ps) \<and>
     l_head l = first None ps \<and> l_tail l = final None ps \<and> l_total l = length ps"

text \<open>Allocation never returns a cell in use.\<close>

definition heap_ok :: "'a heap \<Rightarrow> bool" where
  "heap_ok h \<longleftrightarrow> (\<forall>a. brk h \<le> a \<longrightarrow> cells h a = None)"

text \<open>What an operation may change: only the cells of \<open>A\<close>, and nothing in the destroy log.\<close>

definition frame :: "addr set \<Rightarrow> 'a heap \<Rightarrow> 'a heap \<Rightarrow> bool" where
  "frame A h h' \<longleftrightarrow> heap_ok h' \<and> brk h \<le> brk h' \<and> destroyed h' = destroyed h \<and>
     (\<forall>a. a \<notin> A \<longrightarrow> cells h' a = cells h a)"

lemma first_simps [simp]:
  "first n [] = n" "first n (p # ps) = Some (fst p)"
  "first n (xs @ ys) = first (first n ys) xs"
  by (cases xs; simp add: first_def)+

lemma final_simps [simp]:
  "final p [] = p" "final p (x # xs) = final (Some (fst x)) xs"
  by (auto simp: final_def)

lemma final_append [simp]: "final p (xs @ ys) = final (final p xs) ys"
  by (induction xs arbitrary: p) simp_all

lemma first_eq_Some: "first None ps = None \<longleftrightarrow> ps = []"
  by (cases ps) simp_all

lemma final_eq_None [simp]: "final None ps = None \<longleftrightarrow> ps = []"
  by (simp add: final_def)

lemma dseg_append [simp]:
  "dseg C p (xs @ ys) n \<longleftrightarrow> dseg C p xs (first n ys) \<and> dseg C (final p xs) ys n"
proof (induction xs arbitrary: p)
  case (Cons q xs)
  then show ?case by (cases q) simp
qed simp

lemma dseg_upd [simp]:
  "a \<notin> fst ` set ps \<Longrightarrow> dseg (C(a := c)) p ps n = dseg C p ps n"
  by (induction ps arbitrary: p) auto

lemma dseg_cong:
  "(\<And>a. a \<in> fst ` set ps \<Longrightarrow> C' a = C a) \<Longrightarrow> dseg C' p ps n = dseg C p ps n"
  by (induction ps arbitrary: p) auto

lemma dseg_allocated:
  "dseg C p ps n \<Longrightarrow> fst ` set ps \<subseteq> dom C"
  by (induction ps arbitrary: p) fastforce+

lemma list_rep_below_brk:
  "heap_ok h \<Longrightarrow> list_rep h l ps \<Longrightarrow> a \<in> fst ` set ps \<Longrightarrow> a < brk h"
  using dseg_allocated [of "cells h" None ps None]
  by (force simp: heap_ok_def list_rep_def not_le [symmetric])

text \<open>A list none of whose cells an operation may change is unchanged.\<close>

lemma list_rep_frame:
  "frame A h h' \<Longrightarrow> list_rep h l ps \<Longrightarrow> A \<inter> fst ` set ps = {} \<Longrightarrow> list_rep h' l ps"
  using dseg_cong [of ps "cells h'" "cells h" None None]
  by (auto simp: frame_def list_rep_def)

lemma deref_simps [simp, heap_simps]:
  "deref h None = None" "deref h (Some a) = cells h a"
  by (simp_all add: deref_def)

lemmas heap_defs = store_def set_prev_def set_next_def set_data_def calloc_elem_def my_free_def
  Let_def

subsection \<open>Each operation refines its sequence operation\<close>

text \<open>The call returned \<open>r\<close> and a list that represents \<open>ps\<close>, having changed only cells of \<open>A\<close>.\<close>

definition yields :: "int \<Rightarrow> (addr \<times> 'a option) list \<Rightarrow> addr set \<Rightarrow> 'a heap \<Rightarrow> AILLIST \<Rightarrow>
  (int \<times> 'a heap \<times> AILLIST) option \<Rightarrow> bool" where
  "yields r ps A h l res \<longleftrightarrow> (\<exists>h' l'. res = Some (r, h', l') \<and> list_rep h' l' ps \<and>
     frame A h h' \<and> l_destroy l' = l_destroy l)"

lemma list_rep_init [simp]: "list_rep h (ailsa_list_init d) []"
  by (simp add: list_rep_def ailsa_list_init_def)

lemma heap_ok_fresh [simp]: "heap_ok h \<Longrightarrow> cells h (brk h) = None"
  by (simp add: heap_ok_def)

lemma list_rep_fresh:
  assumes "heap_ok h" "list_rep h l ps"
  shows "brk h \<notin> fst ` set ps" "\<forall>a \<in> fst ` set ps. a < brk h"
  using list_rep_below_brk [OF assms] by blast+

lemmas op_defs = image_Un yields_def heap_defs list_rep_def frame_def heap_ok_def

lemma ins_next_empty:
  assumes "heap_ok h" "list_rep h l []"
  shows "yields 0 [(brk h, d)] {brk h} h l (ailsa_list_ins_next h l e d)"
  using assms
  by (auto simp: yields_def ailsa_list_ins_next_def heap_defs list_rep_def frame_def heap_ok_def)

lemma ins_prev_empty:
  assumes "heap_ok h" "list_rep h l []"
  shows "yields 0 [(brk h, d)] {brk h} h l (ailsa_list_ins_prev h l e d)"
  using assms
  by (auto simp: yields_def ailsa_list_ins_prev_def heap_defs list_rep_def frame_def heap_ok_def)

lemma ins_next_middle:
  assumes "heap_ok h" "list_rep h l (xs @ (a, x) # ys)"
  shows "yields 0 (xs @ (a, x) # (brk h, d) # ys) (insert (brk h) (fst ` set (xs @ (a, x) # ys)))
           h l (ailsa_list_ins_next h l (Some a) d)"
proof (cases ys)
  case Nil
  show ?thesis
    using assms list_rep_fresh [OF assms] unfolding Nil
    by (simp add: op_defs ailsa_list_ins_next_def)
next
  case (Cons q zs)
  obtain b y where q: "q = (b, y)" by (cases q)
  show ?thesis
    using assms list_rep_fresh [OF assms] unfolding Cons q
    by (simp add: op_defs ailsa_list_ins_next_def)
qed

lemma ins_prev_middle:
  assumes "heap_ok h" "list_rep h l (xs @ (a, x) # ys)"
  shows "yields 0 (xs @ (brk h, d) # (a, x) # ys) (insert (brk h) (fst ` set (xs @ (a, x) # ys)))
           h l (ailsa_list_ins_prev h l (Some a) d)"
proof (cases xs rule: rev_cases)
  case Nil
  show ?thesis
    using assms list_rep_fresh [OF assms] unfolding Nil
    by (simp add: op_defs ailsa_list_ins_prev_def)
next
  case (snoc zs q)
  obtain b y where q: "q = (b, y)" by (cases q)
  show ?thesis
    using assms list_rep_fresh [OF assms] unfolding snoc q
    by (simp add: op_defs ailsa_list_ins_prev_def)
qed

lemma insert_yields:
  assumes "heap_ok h" "list_rep h l ps"
  shows "\<exists>h' l'. ailsa_list_insert h (Some l) (Some d) = Some (0, h', Some l') \<and>
    list_rep h' l' (ps @ [(brk h, Some d)]) \<and> frame (insert (brk h) (fst ` set ps)) h h' \<and>
    l_destroy l' = l_destroy l"
proof (cases ps rule: rev_cases)
  case Nil
  then have "l_total l = 0" using assms by (simp add: list_rep_def)
  then show ?thesis
    using ins_next_empty [of h l "Some d" None] assms unfolding Nil
    by (auto simp: ailsa_list_insert_def yields_def)
next
  case (snoc zs q)
  obtain b y where q: "q = (b, y)" by (cases q)
  show ?thesis
    using assms list_rep_fresh [OF assms] unfolding snoc q
    by (simp add: op_defs ailsa_list_insert_def)
qed

lemma remove_yields:
  assumes "heap_ok h" "list_rep h l (xs @ (a, x) # ys)"
  shows "\<exists>h' l'. ailsa_list_remove h l (Some a) d0 = Some (0, x, h', l') \<and>
    list_rep h' l' (xs @ ys) \<and> frame (fst ` set (xs @ (a, x) # ys)) h h' \<and>
    cells h' a = None \<and> l_destroy l' = l_destroy l"
proof (cases xs rule: rev_cases)
  case Nil
  show ?thesis
    using assms list_rep_fresh [OF assms] unfolding Nil
    by (cases ys) (auto simp: op_defs ailsa_list_remove_def first_eq_Some)
next
  case (snoc zs q)
  obtain b y where q: "q = (b, y)" by (cases q)
  have ne: "first (Some b) zs \<noteq> Some a"
    using assms unfolding snoc q by (cases zs) (auto simp: list_rep_def)
  show ?thesis
    using assms list_rep_fresh [OF assms] ne unfolding snoc q
    by (cases ys) (auto simp: op_defs ailsa_list_remove_def)
qed

subsection \<open>Loops over a list\<close>

text \<open>\<open>ailsa_list_clean\<close> removes from the tail, so the data is destroyed in reverse order.\<close>

lemma clean_loop_list:
  assumes "heap_ok h" "list_rep h l ps"
  shows "\<exists>h' l'. clean_loop h l = Some (h', l') \<and> list_rep h' l' [] \<and> heap_ok h' \<and>
    destroyed h' = destroyed h @ (if l_destroy l then rev (map snd ps) else []) \<and>
    (\<forall>a. a \<notin> fst ` set ps \<longrightarrow> cells h' a = cells h a) \<and> (\<forall>a \<in> fst ` set ps. cells h' a = None) \<and>
    l_destroy l' = l_destroy l"
  using assms
proof (induction ps arbitrary: h l rule: rev_induct)
  case Nil
  then have "l_total l = 0" by (simp add: list_rep_def)
  with Nil show ?case by (subst clean_loop.simps) auto
next
  case (snoc q ps)
  obtain a x where q: "q = (a, x)" by (cases q)
  have l: "0 < l_total l" "l_tail l = Some a" "a \<notin> fst ` set ps"
    using snoc.prems by (auto simp: list_rep_def q)
  from remove_yields [of h l ps a x "[]" None] snoc.prems q obtain h1 l1 where
    r: "ailsa_list_remove h l (Some a) None = Some (0, x, h1, l1)" "list_rep h1 l1 ps"
       "frame (fst ` set (ps @ [(a, x)])) h h1" "cells h1 a = None" "l_destroy l1 = l_destroy l"
    by auto
  define h2 where "h2 = (if l_destroy l then run_destroy x h1 else h1)"
  have h2: "heap_ok h2" "list_rep h2 l1 ps" "cells h2 = cells h1"
    using r by (auto simp: h2_def run_destroy_def frame_def heap_ok_def list_rep_def)
  have step: "clean_loop h l = clean_loop h2 l1"
    using l r by (subst clean_loop.simps) (simp add: h2_def)
  show ?case
    using snoc.IH [OF h2(1,2)] r l(3) unfolding step q
    by (auto simp: h2 frame_def) (auto simp: h2_def run_destroy_def)
qed

lemma move_next_dseg:
  "dseg (cells h) p ps n \<Longrightarrow> i \<le> length ps \<Longrightarrow> move_next i h (first n ps) = Some (first n (drop i ps))"
proof (induction i arbitrary: p ps)
  case (Suc i)
  then obtain a x qs where "ps = (a, x) # qs" by (cases ps) auto
  with Suc show ?case by auto
qed simp

lemma move_down_None [simp]: "move_down i h None = Some None"
  by (induction i) auto

lemma move_down_dseg:
  "dseg (cells h) p ps None \<Longrightarrow> move_down i h (first None ps) = Some (first None (drop i ps))"
proof (induction i arbitrary: p ps)
  case (Suc i)
  then show ?case by (cases ps) auto
qed simp

lemma first_drop: "i < length ps \<Longrightarrow> first n (drop i ps) = Some (fst (ps ! i))"
  by (metis Cons_nth_drop_Suc first_simps(2))

lemma remove_elements_loop_list:
  assumes "heap_ok h" "list_rep h l (xs @ zs @ ys)"
  shows "\<exists>h' l'. remove_elements_loop (length zs) h l (first None (zs @ ys)) d no =
      Some (no + (if l_destroy l then length zs else 0), h', l') \<and> list_rep h' l' (xs @ ys) \<and>
    heap_ok h' \<and> destroyed h' = destroyed h @ (if l_destroy l then map snd zs else []) \<and>
    (\<forall>a. a \<notin> fst ` set (xs @ zs @ ys) \<longrightarrow> cells h' a = cells h a)"
  using assms
proof (induction zs arbitrary: h l d no)
  case (Cons q zs)
  obtain a x where q: "q = (a, x)" by (cases q)
  from remove_yields [of h l xs a x "zs @ ys" d] Cons.prems obtain h1 l1 where
    r: "ailsa_list_remove h l (Some a) d = Some (0, x, h1, l1)" "list_rep h1 l1 (xs @ zs @ ys)"
       "frame (fst ` set (xs @ q # zs @ ys)) h h1" "l_destroy l1 = l_destroy l"
    by (auto simp: q)
  have cell: "cells h a = Some \<lparr>el_prev = final None xs, el_next = first None (zs @ ys), el_data = x\<rparr>"
    using Cons.prems by (simp add: list_rep_def q)
  define h2 where "h2 = (if l_destroy l then run_destroy x h1 else h1)"
  have step: "remove_elements_loop (length (q # zs)) h l (first None ((q # zs) @ ys)) d no =
      remove_elements_loop (length zs) h2 l1 (first None (zs @ ys)) x
        (if l_destroy l then no + 1 else no)"
    using r cell by (simp add: q h2_def)
  have h2: "heap_ok h2" "list_rep h2 l1 (xs @ zs @ ys)" "cells h2 = cells h1"
    "destroyed h2 = destroyed h @ (if l_destroy l then [x] else [])"
    using r by (auto simp: h2_def run_destroy_def frame_def heap_ok_def list_rep_def)
  show ?case
    using Cons.IH [OF h2(1,2), of x "if l_destroy l then no + 1 else no"] r(3,4) h2(3,4)
    unfolding step by (auto simp: q frame_def)
qed auto

subsection \<open>The search loops of pop\_element\<close>

text \<open>Each loop returns only when its first test succeeds.\<close>

lemma pop_search_next_first:
  "pop_search_next h el e = Some r \<Longrightarrow>
    r = e \<and> (e = None \<or> (\<exists>c. deref h e = Some c \<and> el_next c = el))"
  by (rule pop_search_next.raw_induct [where P = "\<lambda>h el e r. r = e \<and>
        (e = None \<or> (\<exists>c. deref h e = Some c \<and> el_next c = el))"])
     (fastforce simp: bind_eq_Some_conv split: if_splits)

lemma pop_search_prev_first:
  "pop_search_prev h el e = Some r \<Longrightarrow>
    r = e \<and> (e = None \<or> (\<exists>c. deref h e = Some c \<and> el_prev c = el))"
  by (rule pop_search_prev.raw_induct [where P = "\<lambda>h el e r. r = e \<and>
        (e = None \<or> (\<exists>c. deref h e = Some c \<and> el_prev c = el))"])
     (fastforce simp: bind_eq_Some_conv split: if_splits)

lemma pop_search_next_iff:
  assumes "cells h b = Some c"
  shows "pop_search_next h el (Some b) = (if el_next c = el then Some (Some b) else None)"
proof (cases "el_next c = el")
  case True
  then show ?thesis using assms by (subst pop_search_next.simps) simp
next
  case False
  then show ?thesis
    using assms pop_search_next_first [of h el "Some b"]
    by (cases "pop_search_next h el (Some b)") auto
qed

lemma pop_search_prev_iff:
  assumes "cells h b = Some c"
  shows "pop_search_prev h el (Some b) = (if el_prev c = el then Some (Some b) else None)"
proof (cases "el_prev c = el")
  case True
  then show ?thesis using assms by (subst pop_search_prev.simps) simp
next
  case False
  then show ?thesis
    using assms pop_search_prev_first [of h el "Some b"]
    by (cases "pop_search_prev h el (Some b)") auto
qed

text \<open>An element with neighbours \<open>b\<close> before it and \<open>c\<close> after it: only when these are the head and
  the tail do the two loops return.\<close>

lemma pop_middle:
  assumes "heap_ok h" "list_rep h l ((b, y) # xs @ (a, x) # ys @ [(c, z)])"
  shows "ailsa_list_pop_element h l (Some a) =
    (if xs = [] \<and> ys = [] then
       Some (0, h\<lparr>cells := (cells h)(b \<mapsto> \<lparr>el_prev = None, el_next = Some c, el_data = y\<rparr>,
                                     c \<mapsto> \<lparr>el_prev = Some b, el_next = None, el_data = z\<rparr>)\<rparr>,
             l\<lparr>l_total := 2\<rparr>)
     else None)"
proof -
  have a: "a \<noteq> b" "a \<noteq> c" "b \<noteq> c" "l_head l = Some b" "l_tail l = Some c"
    "l_total l = Suc (Suc (Suc (length xs + length ys)))"
    using assms by (auto simp: list_rep_def)
  have b: "cells h b = Some \<lparr>el_prev = None, el_next = first (Some a) xs, el_data = y\<rparr>"
    using assms by (simp add: list_rep_def)
  have c: "cells h c = Some \<lparr>el_prev = final (Some a) ys, el_next = None, el_data = z\<rparr>"
    using assms by (simp add: list_rep_def)
  have xs: "first (Some a) xs = Some a \<longleftrightarrow> xs = []"
    using assms by (cases xs) (auto simp: list_rep_def)
  have ys: "final (Some a) ys = Some a \<longleftrightarrow> ys = []"
    using assms by (cases ys rule: rev_cases) (auto simp: list_rep_def)
  show ?thesis
    using a b c xs ys
    by (auto simp: ailsa_list_pop_element_def pop_search_next_iff pop_search_prev_iff heap_defs
        fun_upd_twist)
qed

subsection \<open>Cloning into a list\<close>

lemma insert_clone_yields:
  fixes copy_data :: "nat \<Rightarrow> 'a \<Rightarrow> 'a"
  assumes "heap_ok h" "list_rep h l ps" "deref h copy = Some c" "el_data c = Some src" "sz \<noteq> 0"
  defines "new \<equiv> (brk h, Some (copy_data sz src))"
  shows "\<exists>h' l'. ailsa_list_insert_clone copy_data h (Some l) copy ptr AILSA_HEAD sz =
      Some (0, h', Some l') \<and> list_rep h' l' (new # ps) \<and> frame (insert (brk h) (fst ` set ps)) h h'"
    "\<exists>h' l'. ailsa_list_insert_clone copy_data h (Some l) copy ptr AILSA_TAIL sz =
      Some (0, h', Some l') \<and> list_rep h' l' (ps @ [new]) \<and> frame (insert (brk h) (fst ` set ps)) h h'"
proof -
  have n: "copy \<noteq> None" using assms(3) by (cases copy) auto
  have "yields 0 (new # ps) (insert (brk h) (fst ` set ps)) h l
      (ailsa_list_ins_prev h l (l_head l) (Some (copy_data sz src)))"
  proof (cases ps)
    case Nil
    with assms show ?thesis using ins_prev_empty by (fastforce simp: new_def)
  next
    case (Cons q qs)
    then have "l_head l = Some (fst q)" using assms(2) by (simp add: list_rep_def)
    then show ?thesis
      using ins_prev_middle [of h l "[]" "fst q" "snd q" qs] assms(1,2) Cons by (simp add: new_def)
  qed
  then show "\<exists>h' l'. ailsa_list_insert_clone copy_data h (Some l) copy ptr AILSA_HEAD sz =
      Some (0, h', Some l') \<and> list_rep h' l' (new # ps) \<and> frame (insert (brk h) (fst ` set ps)) h h'"
    using assms n by (auto simp: ailsa_list_insert_clone_def yields_def Let_def)
  have "yields 0 (ps @ [new]) (insert (brk h) (fst ` set ps)) h l
      (ailsa_list_ins_next h l (l_tail l) (Some (copy_data sz src)))"
  proof (cases ps rule: rev_cases)
    case Nil
    with assms show ?thesis using ins_next_empty by (fastforce simp: new_def)
  next
    case (snoc qs q)
    then have "l_tail l = Some (fst q)" using assms(2) by (simp add: list_rep_def)
    then show ?thesis
      using ins_next_middle [of h l qs "fst q" "snd q" "[]"] assms(1,2) snoc by (simp add: new_def)
  qed
  then show "\<exists>h' l'. ailsa_list_insert_clone copy_data h (Some l) copy ptr AILSA_TAIL sz =
      Some (0, h', Some l') \<and> list_rep h' l' (ps @ [new]) \<and> frame (insert (brk h) (fst ` set ps)) h h'"
    using assms n by (auto simp: ailsa_list_insert_clone_def yields_def Let_def)
qed

subsection \<open>The interface the rest of the library uses\<close>

text \<open>
  A chain of calls that stops at the first one whose return code is not 0, as the callers append
  the fields of a row one after the other.
\<close>

fun append_all :: "('s \<Rightarrow> 'a \<Rightarrow> (int \<times> 's) option) \<Rightarrow> 'a list \<Rightarrow> 's \<Rightarrow> (int \<times> 's) option" where
  "append_all f [] s = Some (0, s)"
| "append_all f (x # xs) s = chk0 (f s x) (append_all f xs)"

locale ail_sequence =
  fixes rep :: "'s \<Rightarrow> 'a list \<Rightarrow> bool"
    and append :: "'s \<Rightarrow> 'a \<Rightarrow> (int \<times> 's) option"
    and total :: "'s \<Rightarrow> nat"
    and nth_data :: "'s \<Rightarrow> nat \<Rightarrow> 'a option"
  assumes append_rep: "rep s xs \<Longrightarrow> \<exists>s'. append s x = Some (0, s') \<and> rep s' (xs @ [x])"
    and total_rep: "rep s xs \<Longrightarrow> total s = length xs"
    and nth_rep: "rep s xs \<Longrightarrow> 0 < n \<Longrightarrow> n \<le> length xs \<Longrightarrow> nth_data s n = Some (xs ! (n - 1))"
begin

lemma append_all_rep:
  "rep s xs \<Longrightarrow> \<exists>s'. append_all append ys s = Some (0, s') \<and> rep s' (xs @ ys)"
proof (induction ys arbitrary: s xs)
  case (Cons y ys)
  obtain s1 where s1: "append s y = Some (0, s1)" "rep s1 (xs @ [y])"
    using append_rep [OF Cons.prems] by blast
  then show ?case using Cons.IH [OF s1(2)] by auto
qed auto

lemma append_all_reads_back:
  assumes "rep s []"
  obtains s' where "append_all append ys s = Some (0, s')" "total s' = length ys"
    "\<And>n. 0 < n \<Longrightarrow> n \<le> length ys \<Longrightarrow> nth_data s' n = Some (ys ! (n - 1))"
  using append_all_rep [OF assms, of ys] by (auto simp: total_rep nth_rep)

end

text \<open>The heap lists provide it: a list with non-NULL data, read with
  \<open>ailsa_list_get_element\<close>.\<close>

definition heap_rep :: "'a heap \<times> AILLIST \<Rightarrow> 'a list \<Rightarrow> bool" where
  "heap_rep s xs \<longleftrightarrow> heap_ok (fst s) \<and>
     (\<exists>ps. list_rep (fst s) (snd s) ps \<and> map snd ps = map Some xs)"

definition heap_append :: "'a heap \<times> AILLIST \<Rightarrow> 'a \<Rightarrow> (int \<times> 'a heap \<times> AILLIST) option" where
  "heap_append s x = (case ailsa_list_insert (fst s) (Some (snd s)) (Some x) of
     Some (r, h, Some l) \<Rightarrow> Some (r, h, l) | _ \<Rightarrow> None)"

definition heap_nth :: "'a heap \<times> AILLIST \<Rightarrow> nat \<Rightarrow> 'a option" where
  "heap_nth s n = do {
     p \<leftarrow> ailsa_list_get_element (fst s) (Some (snd s)) n;
     e \<leftarrow> deref (fst s) p;
     el_data e }"

lemma get_element_list:
  "list_rep h l ps \<Longrightarrow> 0 < n \<Longrightarrow> n \<le> length ps \<Longrightarrow>
    ailsa_list_get_element h (Some l) n = Some (Some (fst (ps ! (n - 1))))"
  using move_next_dseg [of h None ps None "n - 1"] first_drop [of "n - 1" ps None]
  by (auto simp: ailsa_list_get_element_def list_rep_def)

lemma dseg_nth:
  "dseg C p ps n \<Longrightarrow> i < length ps \<Longrightarrow>
    \<exists>e. C (fst (ps ! i)) = Some e \<and> el_data e = snd (ps ! i)"
proof (induction ps arbitrary: p i)
  case (Cons q ps)
  then show ?case by (cases q; cases i) auto
qed simp

interpretation hl: ail_sequence heap_rep heap_append "\<lambda>s. l_total (snd s)" heap_nth
proof
  fix s :: "'a heap \<times> AILLIST" and xs x
  assume "heap_rep s xs"
  then obtain ps where ps: "heap_ok (fst s)" "list_rep (fst s) (snd s) ps" "map snd ps = map Some xs"
    by (auto simp: heap_rep_def)
  show "\<exists>s'. heap_append s x = Some (0, s') \<and> heap_rep s' (xs @ [x])"
    using insert_yields [OF ps(1,2), of x] ps(3)
    by (fastforce simp: heap_append_def heap_rep_def frame_def)
  show "l_total (snd s) = length xs"
    using ps map_eq_imp_length_eq [OF ps(3)] by (simp add: list_rep_def)
next
  fix s :: "'a heap \<times> AILLIST" and xs n
  assume r: "heap_rep s xs" and n: "0 < n" "n \<le> length xs"
  then obtain ps where ps: "list_rep (fst s) (snd s) ps" "map snd ps = map Some xs"
    by (auto simp: heap_rep_def)
  then have len: "length ps = length xs" using map_eq_imp_length_eq by blast
  then have "snd (ps ! (n - 1)) = Some (xs ! (n - 1))"
    using ps(2) n by (metis Suc_diff_1 Suc_le_lessD nth_map)
  moreover have "n - 1 < length ps" using n len by simp
  ultimately show "heap_nth s n = Some (xs ! (n - 1))"
    using get_element_list [OF ps(1) n(1)] n len dseg_nth [of "cells (fst s)" None ps None "n - 1"] ps(1)
    by (auto simp: heap_nth_def list_rep_def)
qed

lemma heap_rep_init: "heap_ok h \<Longrightarrow> heap_rep (h, ailsa_list_init d) []"
  by (auto simp: heap_rep_def intro: list_rep_init)

subsection \<open>Properties\<close>

text \<open>A list of three cells, for the witnesses.\<close>

definition heap3 :: "nat heap" where
  "heap3 = \<lparr>cells = [0 \<mapsto> \<lparr>el_prev = None, el_next = Some 1, el_data = Some 10\<rparr>,
                     1 \<mapsto> \<lparr>el_prev = Some 0, el_next = Some 2, el_data = Some 20\<rparr>,
                     2 \<mapsto> \<lparr>el_prev = Some 1, el_next = None, el_data = Some 30\<rparr>],
             brk = 3, destroyed = []\<rparr>"

definition list3 :: AILLIST where
  "list3 = \<lparr>l_total = 3, l_destroy = True, l_head = Some 0, l_tail = Some 2\<rparr>"

lemma heap3_ok: "heap_ok heap3"
  by (simp add: heap_ok_def heap3_def)

lemma list3_rep: "list_rep heap3 list3 [(0, Some 10), (1, Some 20), (2, Some 30)]"
  by (simp add: list_rep_def heap3_def list3_def)

text \<open>C35: Inserting after or before a cell of a well-formed list returns 0 and gives the list with
  exactly the new cell added next to it; no cell outside the list changes.\<close>

theorem insertion_refines:
  assumes "heap_ok h" "list_rep h l (xs @ (a, x) # ys)"
  shows "yields 0 (xs @ (a, x) # (brk h, d) # ys) (insert (brk h) (fst ` set (xs @ (a, x) # ys)))
           h l (ailsa_list_ins_next h l (Some a) d) \<and>
         yields 0 (xs @ (brk h, d) # (a, x) # ys) (insert (brk h) (fst ` set (xs @ (a, x) # ys)))
           h l (ailsa_list_ins_prev h l (Some a) d)"
  using ins_next_middle [OF assms] ins_prev_middle [OF assms] by blast

theorem insertion_refines_witness:
  "yields 0 [(0, Some 10), (1, Some 20), (3, None), (2, Some 30)] {0, 1, 2, 3} heap3 list3
     (ailsa_list_ins_next heap3 list3 (Some 1) None)"
proof -
  have "brk heap3 = 3" by (simp add: heap3_def)
  moreover have "insert 3 (fst ` set ([(0, Some 10)] @ (1, Some 20) # [(2, Some (30::nat))])) = {0, 1, 2, 3::nat}"
    by auto
  ultimately show ?thesis
    using insertion_refines [of heap3 list3 "[(0, Some 10)]" 1 "Some 20" "[(2, Some 30)]" None]
      heap3_ok list3_rep by simp
qed

text \<open>C36: Removing a cell of a well-formed list returns 0 with the data of that cell, gives the list
  without it, frees the cell and leaves every cell outside the list as it was.\<close>

theorem removal_refines:
  assumes "heap_ok h" "list_rep h l (xs @ (a, x) # ys)"
  shows "\<exists>h' l'. ailsa_list_remove h l (Some a) d0 = Some (0, x, h', l') \<and>
    list_rep h' l' (xs @ ys) \<and> frame (fst ` set (xs @ (a, x) # ys)) h h' \<and>
    cells h' a = None \<and> l_destroy l' = l_destroy l"
  using remove_yields [OF assms] .

theorem removal_refines_witness:
  "\<exists>h' l'. ailsa_list_remove heap3 list3 (Some 1) None = Some (0, Some 20, h', l') \<and>
     list_rep h' l' [(0, Some 10), (2, Some 30)] \<and> cells h' 1 = None"
  using removal_refines [of heap3 list3 "[(0, Some 10)]" 1 "Some 20" "[(2, Some 30)]" None]
    heap3_ok list3_rep by auto

text \<open>Cleaning a well-formed list terminates, frees every cell of it, gives each data pointer to
  the destroy function exactly once, from the tail to the head, and leaves an empty list.\<close>

theorem clean_destroys_in_reverse:
  assumes "heap_ok h" "list_rep h l ps"
  shows "\<exists>h' l'. ailsa_list_clean h (Some l) = Some (h', Some l') \<and> list_rep h' l' [] \<and>
    destroyed h' = destroyed h @ (if l_destroy l then rev (map snd ps) else []) \<and>
    (\<forall>a. cells h' a = (if a \<in> fst ` set ps then None else cells h a))"
  using clean_loop_list [OF assms] by (auto simp: ailsa_list_clean_def)

theorem clean_destroys_in_reverse_witness:
  "\<exists>h' l'. ailsa_list_clean heap3 (Some list3) = Some (h', Some l') \<and>
     destroyed h' = [Some 30, Some 20, Some 10] \<and> cells h' 2 = None"
  using clean_destroys_in_reverse [OF heap3_ok list3_rep] by (auto simp: heap3_def list3_def)

text \<open>After appending any data to an empty list with \<open>ailsa_list_insert\<close>, every call returned 0,
  the total is their number and \<open>ailsa_list_get_element\<close> finds the n-th (from 1) in order.\<close>

theorem inserted_data_reads_back:
  assumes "heap_ok h"
  shows "\<exists>s'. append_all heap_append ys (h, ailsa_list_init d) = Some (0, s') \<and>
    l_total (snd s') = length ys \<and>
    (\<forall>n. 0 < n \<longrightarrow> n \<le> length ys \<longrightarrow> heap_nth s' n = Some (ys ! (n - 1)))"
  using hl.append_all_reads_back [OF heap_rep_init [OF assms], where ys = ys] by metis

theorem inserted_data_reads_back_witness:
  "\<exists>s'. append_all heap_append ''abc'' (\<lparr>cells = \<lambda>_. None, brk = 0, destroyed = []\<rparr>, ailsa_list_init True) =
     Some (0, s') \<and> heap_nth s' 2 = Some (CHR ''b'')"
proof -
  have "heap_ok \<lparr>cells = \<lambda>_. None, brk = 0, destroyed = []\<rparr>" by (simp add: heap_ok_def)
  from inserted_data_reads_back [OF this, of "''abc''" True] obtain s' where
    "append_all heap_append ''abc'' (\<lparr>cells = \<lambda>_. None, brk = 0, destroyed = []\<rparr>, ailsa_list_init True) =
      Some (0, s')" "\<forall>n. 0 < n \<longrightarrow> n \<le> length ''abc'' \<longrightarrow> heap_nth s' n = Some (''abc'' ! (n - 1))"
    by blast
  then show ?thesis by force
qed

text \<open>\<open>ailsa_list_remove_elements\<close> removes a run of cells, destroying their data in order.  It
  counts only the elements it destroys: it returns 0 on a list with a destroy function and 1, with
  the run removed all the same, on a list without one.\<close>

theorem remove_elements_removes_run:
  assumes "heap_ok h" "list_rep h l (xs @ (a, x) # zs @ ys)"
  shows "\<exists>h' l'. ailsa_list_remove_elements h (Some l) (Some a) (Suc (length zs)) =
      Some (if l_destroy l then 0 else 1, h', Some l') \<and> list_rep h' l' (xs @ ys) \<and>
    destroyed h' = destroyed h @ (if l_destroy l then x # map snd zs else []) \<and>
    (\<forall>b. b \<notin> fst ` set (xs @ (a, x) # zs @ ys) \<longrightarrow> cells h' b = cells h b)"
  using remove_elements_loop_list [of h l xs "(a, x) # zs" ys None 0] assms
  by (fastforce simp: ailsa_list_remove_elements_def simp del: remove_elements_loop.simps)

theorem remove_elements_removes_run_witness:
  "\<exists>h' l'. ailsa_list_remove_elements heap3 (Some list3) (Some 1) 2 = Some (0, h', Some l') \<and>
     list_rep h' l' [(0, Some 10)] \<and> destroyed h' = [Some 20, Some 30]"
proof -
  have "l_destroy list3" "destroyed heap3 = []" by (simp_all add: list3_def heap3_def)
  then show ?thesis
    using remove_elements_removes_run [of heap3 list3 "[(0, Some 10)]" 1 "Some 20" "[(2, Some 30)]" "[]"]
      heap3_ok list3_rep by (auto simp: numeral_2_eq_2)
qed

text \<open>\<open>ailsa_list_pop_element\<close> on an element that is neither head nor tail returns only when it is
  the middle one of three: otherwise a search loop, which never advances, runs for ever.\<close>

theorem pop_element_middle_returns_iff:
  assumes "heap_ok h" "list_rep h l ((b, y) # xs @ (a, x) # ys @ [(c, z)])"
  shows "ailsa_list_pop_element h l (Some a) \<noteq> None \<longleftrightarrow> xs = [] \<and> ys = []"
  using pop_middle [OF assms] by simp

theorem pop_element_middle_returns_iff_witness:
  "ailsa_list_pop_element heap3 list3 (Some 1) \<noteq> None"
  using pop_element_middle_returns_iff [of heap3 list3 0 "Some 10" "[]" 1 "Some 20" "[]" 2 "Some 30"]
    heap3_ok list3_rep by simp

text \<open>Cloning to the head or the tail returns 0 and adds exactly the copied object there, in a cell
  of its own.\<close>

theorem insert_clone_adds_copy:
  assumes "heap_ok h" "list_rep h l ps" "deref h copy = Some c" "el_data c = Some src" "sz \<noteq> 0"
  shows "(\<exists>h' l'. ailsa_list_insert_clone cp h (Some l) copy ptr AILSA_HEAD sz = Some (0, h', Some l') \<and>
      list_rep h' l' ((brk h, Some (cp sz src)) # ps) \<and> frame (insert (brk h) (fst ` set ps)) h h') \<and>
    (\<exists>h' l'. ailsa_list_insert_clone cp h (Some l) copy ptr AILSA_TAIL sz = Some (0, h', Some l') \<and>
      list_rep h' l' (ps @ [(brk h, Some (cp sz src))]) \<and> frame (insert (brk h) (fst ` set ps)) h h')"
  using insert_clone_yields [OF assms] by blast

theorem insert_clone_adds_copy_witness:
  "\<exists>h' l'. ailsa_list_insert_clone (\<lambda>_ x. x) heap3 (Some list3) (Some 1) None AILSA_HEAD 8 =
     Some (0, h', Some l') \<and>
     list_rep h' l' [(3, Some 20), (0, Some 10), (1, Some 20), (2, Some 30)]"
proof -
  have "brk heap3 = 3" "deref heap3 (Some 1) = Some \<lparr>el_prev = Some 0, el_next = Some 2, el_data = Some 20\<rparr>"
    by (simp_all add: heap3_def)
  then show ?thesis
    using insert_clone_adds_copy [OF heap3_ok list3_rep, of "Some 1" _ 20 8 "\<lambda>_ x. x" None] by auto
qed

end
