(* ===== verification/Ailsa_Hash.thy ===== *)
theory Ailsa_Hash
  imports Ailsa_List
begin

text \<open>
  lib/hash.c: the string hash \<open>ailsa_hash\<close> and the chained hash table \<open>AILHASH\<close> over the heap
  lists of theory Ailsa\_List.  The table keeps its function pointers \<open>h\<close> and \<open>match\<close> as fields.
  The lemmas describe every table reachable through the operations: the code never chains a
  second element in a bucket and never removes one.
\<close>

unbundle bit_operations_syntax

subsection \<open>The hash of a string\<close>

text \<open>\<open>(unsigned)(*ptr)\<close>: \<open>char\<close> is signed, so bytes from 128 on are sign-extended.\<close>

definition char_unsigned :: "char \<Rightarrow> u32" where
  "char_unsigned c = scast (of_char c :: 8 word)"

definition hash_step :: "u32 \<Rightarrow> char \<Rightarrow> u32" where
  "hash_step val c =
    (let val = push_bit 4 val + char_unsigned c;
         tmp = val AND 0xf0000000
     in if tmp \<noteq> 0 then (val XOR drop_bit 24 tmp) XOR tmp else val)"

fun hash_loop :: "u32 \<Rightarrow> string \<Rightarrow> u32" where
  "hash_loop val [] = val"
| "hash_loop val (c # cs) = hash_loop (hash_step val c) cs"

definition ailsa_hash :: "string \<Rightarrow> u32" where
  "ailsa_hash key = hash_loop 0 key"

subsection \<open>The table and its operations\<close>

record 'a AILHASH =
  ht_buckets :: u32
  ht_h :: "string \<Rightarrow> u32"
  ht_match :: "'a option \<Rightarrow> 'a option \<Rightarrow> bool"
  ht_size :: u32
  ht_table :: "AILLIST list"

definition ailsa_hash_init ::
  "u32 \<Rightarrow> (string \<Rightarrow> u32) \<Rightarrow> ('a option \<Rightarrow> 'a option \<Rightarrow> bool) \<Rightarrow> bool \<Rightarrow> int \<times> 'a AILHASH" where
  "ailsa_hash_init buckets h match destroy =
    (0, \<lparr>ht_buckets = buckets, ht_h = h, ht_match = match, ht_size = 0,
         ht_table = map (\<lambda>i. ailsa_list_init destroy) [0..<unat buckets]\<rparr>)"

text \<open>\<open>htbl->h(key) % htbl->buckets\<close>; a table without buckets divides by zero.\<close>

definition bucket_of :: "'a AILHASH \<Rightarrow> string \<Rightarrow> nat option" where
  "bucket_of htbl key =
    (if ht_buckets htbl = 0 then None else Some (unat (ht_h htbl key mod ht_buckets htbl)))"

partial_function (option) lookup_loop ::
  "('a option \<Rightarrow> 'a option \<Rightarrow> bool) \<Rightarrow> 'a heap \<Rightarrow> 'a option \<Rightarrow> addr option \<Rightarrow> (int \<times> 'a option) option" where
  [code]: "lookup_loop match hp data em =
    (if em = None then Some (-1, data)
     else do {
       e \<leftarrow> deref hp em;
       if match data (el_data e) then Some (0, el_data e)
       else lookup_loop match hp data (el_next e)
     })"

definition ailsa_hash_lookup ::
  "'a heap \<Rightarrow> 'a AILHASH \<Rightarrow> 'a option \<Rightarrow> string \<Rightarrow> (int \<times> 'a option) option" where
  "ailsa_hash_lookup hp htbl data key = do {
     bucket \<leftarrow> bucket_of htbl key;
     lookup_loop (ht_match htbl) hp data (l_head (ht_table htbl ! bucket))
   }"

definition ailsa_hash_insert ::
  "'a heap \<Rightarrow> 'a AILHASH \<Rightarrow> 'a option \<Rightarrow> string \<Rightarrow> (int \<times> 'a heap \<times> 'a AILHASH) option" where
  "ailsa_hash_insert hp htbl data key = do {
     (found, data) \<leftarrow> ailsa_hash_lookup hp htbl data key;
     if found = 0 then Some (1, hp, htbl)
     else do {
       bucket \<leftarrow> bucket_of htbl key;
       (retval, hp, l) \<leftarrow> ailsa_list_ins_next hp (ht_table htbl ! bucket) None data;
       let htbl = htbl\<lparr>ht_table := (ht_table htbl)[bucket := l]\<rparr>;
       Some (retval, hp, if retval = 0 then htbl\<lparr>ht_size := ht_size htbl + 1\<rparr> else htbl)
     }
   }"

text \<open>The loop of \<open>ailsa_hash_remove\<close>: \<open>prev\<close> is the element before \<open>em\<close>, and it is \<open>prev\<close> that
  the code hands to \<open>ailsa_list_remove\<close>.\<close>

partial_function (option) remove_loop ::
  "nat \<Rightarrow> 'a heap \<Rightarrow> 'a AILHASH \<Rightarrow> 'a option \<Rightarrow> addr option \<Rightarrow> addr option \<Rightarrow>
   (int \<times> 'a option \<times> 'a heap \<times> 'a AILHASH) option" where
  [code]: "remove_loop bucket hp htbl data prev em =
    (if em = None then Some (-1, data, hp, htbl)
     else do {
       e \<leftarrow> deref hp em;
       if ht_match htbl data (el_data e) then do {
         (retval, data, hp, l) \<leftarrow> ailsa_list_remove hp (ht_table htbl ! bucket) prev data;
         let htbl = htbl\<lparr>ht_table := (ht_table htbl)[bucket := l]\<rparr>;
         if retval = 0 then Some (0, data, hp, htbl\<lparr>ht_size := ht_size htbl - 1\<rparr>)
         else Some (1, data, hp, htbl)
       } else remove_loop bucket hp htbl data em (el_next e)
     })"

definition ailsa_hash_remove ::
  "'a heap \<Rightarrow> 'a AILHASH \<Rightarrow> 'a option \<Rightarrow> string \<Rightarrow>
   (int \<times> 'a option \<times> 'a heap \<times> 'a AILHASH) option" where
  "ailsa_hash_remove hp htbl data key = do {
     bucket \<leftarrow> bucket_of htbl key;
     remove_loop bucket hp htbl data None (l_head (ht_table htbl ! bucket))
   }"

text \<open>\<open>ailsa_hash_destroy\<close> destroys the lists one bucket after the other and then zeroes the table.\<close>

fun destroy_buckets :: "'a heap \<Rightarrow> AILLIST list \<Rightarrow> 'a heap option" where
  "destroy_buckets hp [] = Some hp"
| "destroy_buckets hp (l # ls) = do {
     (hp, _) \<leftarrow> ailsa_list_destroy hp (Some l);
     destroy_buckets hp ls }"

definition ailsa_hash_destroy :: "'a heap \<Rightarrow> 'a AILHASH \<Rightarrow> ('a heap \<times> 'a AILHASH) option" where
  "ailsa_hash_destroy hp htbl = do {
     hp \<leftarrow> destroy_buckets hp (take (unat (ht_buckets htbl)) (ht_table htbl));
     Some (hp, htbl\<lparr>ht_buckets := 0, ht_size := 0, ht_table := []\<rparr>)
   }"

subsection \<open>The hash value\<close>

text \<open>After every step the top four bits are clear.\<close>

lemma hash_step_top: "hash_step val c AND 0xf0000000 = 0"
proof -
  have m: "(0xf0000000 :: u32) = push_bit 28 (mask 4)"
    by (simp add: mask_eq_exp_minus_1 push_bit_eq_mult)
  show ?thesis
    unfolding hash_step_def Let_def m
    by (auto intro!: bit_word_eqI simp: bit_simps)
qed

lemma hash_loop_top: "val AND 0xf0000000 = 0 \<Longrightarrow> hash_loop val key AND 0xf0000000 = 0"
  by (induction key arbitrary: val) (simp_all add: hash_step_top)

lemma top_clear_less:
  assumes "(v :: u32) AND 0xf0000000 = 0"
  shows "v < 2 ^ 28"
proof -
  have m: "(0xf0000000 :: u32) = push_bit 28 (mask 4)"
    by (simp add: mask_eq_exp_minus_1 push_bit_eq_mult)
  have "\<not> bit v n" if "28 \<le> n" for n
  proof
    assume b: "bit v n"
    then have "n < 32" using bit_imp_le_length [of v n] by simp
    then have "bit (v AND push_bit 28 (mask 4)) n" using b that by (auto simp: bit_simps)
    then show False using assms by (simp add: m)
  qed
  then have "take_bit 28 v = v"
    by (auto intro!: bit_word_eqI simp: bit_simps) (meson not_less)
  then have "v mod 2 ^ 28 = v" by (simp add: take_bit_eq_mod)
  moreover have "v mod 2 ^ 28 < 2 ^ 28" by (rule word_mod_less_divisor) simp
  ultimately show ?thesis by simp
qed

lemma ailsa_hash_less: "ailsa_hash key < 2 ^ 28"
  unfolding ailsa_hash_def by (rule top_clear_less, rule hash_loop_top) simp

subsection \<open>The reachable tables\<close>

text \<open>\<open>hash_rep hp t bs\<close>: the buckets of the table hold the sequences \<open>bs\<close> in disjoint cells,
  and the size counts them.\<close>

definition hash_rep :: "'a heap \<Rightarrow> 'a AILHASH \<Rightarrow> (addr \<times> 'a option) list list \<Rightarrow> bool" where
  "hash_rep hp t bs \<longleftrightarrow> heap_ok hp \<and> length bs = unat (ht_buckets t) \<and>
     list_all2 (list_rep hp) (ht_table t) bs \<and> ht_size t = of_nat (length (concat bs))"

text \<open>The states a program can bring a table into: the operations in any order, on any data.\<close>

inductive hash_reach :: "(string \<Rightarrow> u32) \<Rightarrow> ('a option \<Rightarrow> 'a option \<Rightarrow> bool) \<Rightarrow> bool \<Rightarrow>
  'a heap \<Rightarrow> 'a AILHASH \<Rightarrow> bool" for h match destroy where
  init: "heap_ok hp \<Longrightarrow> n \<noteq> 0 \<Longrightarrow> ailsa_hash_init n h match destroy = (0, t) \<Longrightarrow>
    hash_reach h match destroy hp t"
| insert: "hash_reach h match destroy hp t \<Longrightarrow>
    ailsa_hash_insert hp t data key = Some (r, hp', t') \<Longrightarrow> hash_reach h match destroy hp' t'"
| remove: "hash_reach h match destroy hp t \<Longrightarrow>
    ailsa_hash_remove hp t data key = Some (r, data', hp', t') \<Longrightarrow> hash_reach h match destroy hp' t'"

lemma hash_rep_bucket:
  assumes "hash_rep hp t bs" "bucket_of t key = Some i"
  shows "i < length bs" "i < length (ht_table t)" "list_rep hp (ht_table t ! i) (bs ! i)"
proof -
  have "i < unat (ht_buckets t)"
    using assms(2) unat_eq_zero [of "ht_buckets t"]
    by (auto simp: bucket_of_def unat_mod split: if_splits)
  then show "i < length bs" using assms by (simp add: hash_rep_def)
  then show "i < length (ht_table t)" "list_rep hp (ht_table t ! i) (bs ! i)"
    using assms by (auto simp: hash_rep_def list_all2_conv_all_nth)
qed

text \<open>The bucket's sequence decides what the loops do.\<close>

lemma lookup_loop_rep:
  assumes "dseg (cells hp) p ps None"
  shows "lookup_loop match hp data (first None ps) =
    Some (case List.find (\<lambda>q. match data (snd q)) ps of None \<Rightarrow> (-1, data) | Some q \<Rightarrow> (0, snd q))"
  using assms
proof (induction ps arbitrary: p)
  case Nil
  then show ?case by (subst lookup_loop.simps) simp
next
  case (Cons q ps)
  then show ?case by (cases q; subst lookup_loop.simps) auto
qed

lemma lookup_rep:
  assumes "hash_rep hp t bs" "bucket_of t key = Some i"
  shows "ailsa_hash_lookup hp t data key =
    Some (case List.find (\<lambda>q. ht_match t data (snd q)) (bs ! i) of
            None \<Rightarrow> (-1, data) | Some q \<Rightarrow> (0, snd q))"
  using hash_rep_bucket [OF assms] assms(2) lookup_loop_rep [of hp None "bs ! i" "ht_match t" data]
  by (simp add: ailsa_hash_lookup_def list_rep_def)

lemma find_Some_match:
  "List.find P xs = None \<longleftrightarrow> (\<forall>x \<in> set xs. \<not> P x)"
  by (auto simp: find_None_iff)

lemma length_concat_update:
  "i < length bs \<Longrightarrow> bs ! i = [] \<Longrightarrow> length (concat (bs[i := [x]])) = Suc (length (concat bs))"
  by (induction bs arbitrary: i) (auto split: nat.splits)

text \<open>An insertion only ever fills an empty bucket.\<close>

lemma hash_insert_found:
  assumes "hash_rep hp t bs" "bucket_of t key = Some i" "q \<in> set (bs ! i)" "ht_match t data (snd q)"
  shows "ailsa_hash_insert hp t data key = Some (1, hp, t)"
proof -
  obtain r where "List.find (\<lambda>q. ht_match t data (snd q)) (bs ! i) = Some r"
    using assms(3,4) find_Some_match [of "\<lambda>q. ht_match t data (snd q)" "bs ! i"] by fastforce
  then show ?thesis
    using lookup_rep [OF assms(1,2), of data] by (simp add: ailsa_hash_insert_def)
qed

lemma hash_insert_occupied:
  assumes "hash_rep hp t bs" "bucket_of t key = Some i" "bs ! i \<noteq> []"
    "\<forall>q \<in> set (bs ! i). \<not> ht_match t data (snd q)"
  shows "ailsa_hash_insert hp t data key = Some (-1, hp, t)"
proof -
  have "List.find (\<lambda>q. ht_match t data (snd q)) (bs ! i) = None"
    using assms(4) by (simp add: find_Some_match)
  moreover have "l_total (ht_table t ! i) \<noteq> 0"
    using hash_rep_bucket [OF assms(1,2)] assms(3) by (simp add: list_rep_def)
  ultimately show ?thesis
    using lookup_rep [OF assms(1,2), of data] assms(2)
    by (simp add: ailsa_hash_insert_def ailsa_list_ins_next_def)
qed

lemma hash_insert_empty:
  assumes "hash_rep hp t bs" "bucket_of t key = Some i" "bs ! i = []"
  shows "\<exists>hp' t'. ailsa_hash_insert hp t data key = Some (0, hp', t') \<and>
    hash_rep hp' t' (bs[i := [(brk hp, data)]]) \<and> ht_match t' = ht_match t \<and>
    ht_h t' = ht_h t \<and> ht_buckets t' = ht_buckets t"
proof -
  note b = hash_rep_bucket [OF assms(1,2)]
  have ok: "heap_ok hp" using assms(1) by (simp add: hash_rep_def)
  from ins_next_empty [OF ok, of "ht_table t ! i" data None] b(3) assms(3) obtain hp' l' where
    ins: "ailsa_list_ins_next hp (ht_table t ! i) None data = Some (0, hp', l')"
      "list_rep hp' l' [(brk hp, data)]" "frame {brk hp} hp hp'"
    by (auto simp: yields_def)
  have keep: "list_rep hp' (ht_table t ! j) (bs ! j)" if "j < length bs" for j
  proof -
    have r: "list_rep hp (ht_table t ! j) (bs ! j)"
      using assms(1) that by (auto simp: hash_rep_def list_all2_conv_all_nth)
    show ?thesis using list_rep_frame [OF ins(3) r] list_rep_fresh(1) [OF ok r] by auto
  qed
  have "list_all2 (list_rep hp') ((ht_table t)[i := l']) (bs[i := [(brk hp, data)]])"
    using ins(2) keep assms(1) b(1,2)
    by (auto simp: list_all2_conv_all_nth hash_rep_def nth_list_update)
  moreover have "heap_ok hp'" using ins(3) by (simp add: frame_def)
  ultimately show ?thesis
    using assms b(1) ins(1) lookup_rep [OF assms(1,2), of data] length_concat_update [OF b(1) assms(3)]
    by (simp add: ailsa_hash_insert_def hash_rep_def Let_def)
qed

text \<open>A removal looks at the single element of the bucket and hands NULL to the list.\<close>

lemma hash_remove_single:
  assumes "hash_rep hp t bs" "bucket_of t key = Some i" "length (bs ! i) \<le> 1"
  shows "ailsa_hash_remove hp t data key =
    Some (if \<exists>q \<in> set (bs ! i). ht_match t data (snd q) then 1 else -1, data, hp, t)"
proof (cases "bs ! i")
  case Nil
  then have "l_head (ht_table t ! i) = None"
    using hash_rep_bucket [OF assms(1,2)] by (simp add: list_rep_def)
  then show ?thesis
    using assms(2) Nil by (simp add: ailsa_hash_remove_def remove_loop.simps)
next
  case (Cons q qs)
  then obtain a x where q: "bs ! i = [(a, x)]" using assms(3) by (cases q) auto
  then have "l_head (ht_table t ! i) = Some a"
    "cells hp a = Some \<lparr>el_prev = None, el_next = None, el_data = x\<rparr>"
    using hash_rep_bucket [OF assms(1,2)] by (simp_all add: list_rep_def)
  then show ?thesis
    using assms(2) q
    by (simp add: ailsa_hash_remove_def remove_loop.simps ailsa_list_remove_def Let_def)
qed

definition hash_inv :: "(string \<Rightarrow> u32) \<Rightarrow> ('a option \<Rightarrow> 'a option \<Rightarrow> bool) \<Rightarrow> 'a heap \<Rightarrow>
  'a AILHASH \<Rightarrow> (addr \<times> 'a option) list list \<Rightarrow> bool" where
  "hash_inv h match hp t bs \<longleftrightarrow> hash_rep hp t bs \<and> (\<forall>b \<in> set bs. length b \<le> 1) \<and>
     ht_h t = h \<and> ht_match t = match \<and> ht_buckets t \<noteq> 0"

lemma hash_init_inv:
  assumes "heap_ok hp" "n \<noteq> 0" "ailsa_hash_init n h match destroy = (0, t)"
  shows "hash_inv h match hp t (replicate (unat n) [])"
proof -
  have "length (concat (replicate k [])) = 0" for k by (induction k) auto
  then show ?thesis
    using assms
    by (auto simp: ailsa_hash_init_def hash_inv_def hash_rep_def list_all2_conv_all_nth)
qed

lemma hash_reach_inv: "hash_reach h match destroy hp t \<Longrightarrow> \<exists>bs. hash_inv h match hp t bs"
proof (induction rule: hash_reach.induct)
  case (init hp n t)
  then show ?case using hash_init_inv by blast
next
  case (insert hp t data key r hp' t')
  then obtain bs where inv: "hash_inv h match hp t bs" by blast
  then have rep: "hash_rep hp t bs" by (simp add: hash_inv_def)
  obtain i where i: "bucket_of t key = Some i" using inv by (auto simp: hash_inv_def bucket_of_def)
  consider (found) q where "q \<in> set (bs ! i)" "ht_match t data (snd q)"
    | (occupied) "bs ! i \<noteq> []" "\<forall>q \<in> set (bs ! i). \<not> ht_match t data (snd q)"
    | (empty) "bs ! i = []" by blast
  then show ?case
  proof cases
    case found
    then show ?thesis using hash_insert_found [OF rep i] insert.hyps(2) inv by auto
  next
    case occupied
    then show ?thesis using hash_insert_occupied [OF rep i] insert.hyps(2) inv by auto
  next
    case empty
    from hash_insert_empty [OF rep i this, of data] insert.hyps(2) inv show ?thesis
      by (auto simp: hash_inv_def intro!: exI [of _ "bs[i := [(brk hp, data)]]"]
          dest!: set_update_subset_insert [THEN subsetD])
  qed
next
  case (remove hp t data key r data' hp' t')
  then obtain bs where inv: "hash_inv h match hp t bs" by blast
  then have rep: "hash_rep hp t bs" by (simp add: hash_inv_def)
  obtain i where i: "bucket_of t key = Some i" using inv by (auto simp: hash_inv_def bucket_of_def)
  have "length (bs ! i) \<le> 1" using inv hash_rep_bucket(1) [OF rep i] by (simp add: hash_inv_def)
  from hash_remove_single [OF rep i this, of data] remove.hyps(2) inv show ?case by auto
qed

lemma length_concat_singles: "\<forall>b \<in> set bs. length b \<le> 1 \<Longrightarrow> length (concat bs) \<le> length bs"
  by (induction bs) auto

lemma hash_inv_size:
  assumes "hash_inv h match hp t bs"
  shows "unat (ht_size t) = length (concat bs)" "length (concat bs) \<le> unat (ht_buckets t)"
proof -
  show le: "length (concat bs) \<le> unat (ht_buckets t)"
    using assms length_concat_singles [of bs] by (simp add: hash_inv_def hash_rep_def)
  then have "length (concat bs) < 2 ^ 32"
    using unsigned_less [where w = "ht_buckets t" and ?'a = nat] by simp
  then show "unat (ht_size t) = length (concat bs)"
    using assms by (simp add: hash_inv_def hash_rep_def unat_of_nat)
qed

lemma bucket_exists: "hash_inv h match hp t bs \<Longrightarrow> \<exists>i. bucket_of t key = Some i"
  by (simp add: hash_inv_def bucket_of_def)

subsection \<open>Properties\<close>

definition empty_heap :: "string heap" where
  "empty_heap = \<lparr>cells = (\<lambda>_. None), brk = 0, destroyed = []\<rparr>"

definition table4 :: "string AILHASH" where
  "table4 = snd (ailsa_hash_init 4 ailsa_hash (=) True)"

lemma table4_reach: "hash_reach ailsa_hash (=) True empty_heap table4"
  by (rule hash_reach.init [where n = 4])
     (simp_all add: table4_def ailsa_hash_init_def empty_heap_def heap_ok_def)

lemma table4_inv: "hash_inv ailsa_hash (=) empty_heap table4 (replicate 4 [])"
  using hash_init_inv [of empty_heap 4 ailsa_hash "(=)" True table4]
  by (simp add: empty_heap_def heap_ok_def table4_def ailsa_hash_init_def)

lemma table4_insert:
  "\<exists>hp' t'. ailsa_hash_insert empty_heap table4 (Some ''x'') ''key'' = Some (0, hp', t')"
proof -
  have rep: "hash_rep empty_heap table4 (replicate 4 [])" using table4_inv by (simp add: hash_inv_def)
  obtain i where i: "bucket_of table4 ''key'' = Some i" using bucket_exists [OF table4_inv] by blast
  have "replicate 4 [] ! i = []" using hash_rep_bucket(1) [OF rep i] by simp
  from hash_insert_empty [OF rep i this] show ?thesis by blast
qed

text \<open>C40: In every table the operations can produce, each bucket is a well-formed list of at most one
  element, and \<open>size\<close> is the number of elements, at most the number of buckets: it never wraps.\<close>

theorem reachable_tables_invariant:
  assumes "hash_reach h match destroy hp t"
  shows "\<exists>bs. list_all2 (list_rep hp) (ht_table t) bs \<and> (\<forall>b \<in> set bs. length b \<le> 1) \<and>
    length bs = unat (ht_buckets t) \<and> unat (ht_size t) = length (concat bs) \<and>
    unat (ht_size t) \<le> unat (ht_buckets t)"
proof -
  obtain bs where inv: "hash_inv h match hp t bs" using hash_reach_inv [OF assms] by blast
  then show ?thesis
    using hash_inv_size [OF inv] by (auto simp: hash_inv_def hash_rep_def)
qed

theorem reachable_tables_invariant_witness:
  "\<exists>bs. list_all2 (list_rep empty_heap) (ht_table table4) bs \<and> (\<forall>b \<in> set bs. length b \<le> 1)"
  using reachable_tables_invariant [OF table4_reach] by blast

text \<open>When an insertion into a reachable table returns 0, a lookup with any data that matches the
  inserted one finds it.\<close>

theorem hash_insert_then_lookup:
  assumes "hash_reach h match destroy hp t"
    and "ailsa_hash_insert hp t data key = Some (0, hp', t')" and "match probe data"
  shows "ailsa_hash_lookup hp' t' probe key = Some (0, data)"
proof -
  obtain bs where inv: "hash_inv h match hp t bs" using hash_reach_inv [OF assms(1)] by blast
  then have rep: "hash_rep hp t bs" and m: "ht_match t = match" by (simp_all add: hash_inv_def)
  obtain i where i: "bucket_of t key = Some i" using bucket_exists [OF inv] by blast
  have e: "bs ! i = []"
    using hash_insert_found [OF rep i, of _ data] hash_insert_occupied [OF rep i, of data] assms(2)
    by fastforce
  from hash_insert_empty [OF rep i e, of data] assms(2) have
    t': "hash_rep hp' t' (bs[i := [(brk hp, data)]])" "ht_match t' = match" "bucket_of t' key = Some i"
    using i m by (auto simp: bucket_of_def)
  show ?thesis
    using lookup_rep [OF t'(1,3), of probe] hash_rep_bucket(1) [OF rep i] t'(2) assms(3) by simp
qed

theorem hash_insert_then_lookup_witness:
  "\<exists>hp' t'. ailsa_hash_lookup hp' t' (Some ''x'') ''key'' = Some (0, Some ''x'')"
  using table4_insert hash_insert_then_lookup [OF table4_reach] by blast

text \<open>Once an insertion under a key has returned 0, every later insertion into the same bucket is
  refused and changes nothing: 1 for matching data, -1 for a collision.  The table does not chain.\<close>

theorem hash_collision_refused:
  assumes "hash_reach h match destroy hp t"
    and "ailsa_hash_insert hp t data key = Some (0, hp', t')" and "bucket_of t key2 = bucket_of t key"
  shows "ailsa_hash_insert hp' t' data2 key2 = Some (if match data2 data then 1 else -1, hp', t')"
proof -
  obtain bs where inv: "hash_inv h match hp t bs" using hash_reach_inv [OF assms(1)] by blast
  then have rep: "hash_rep hp t bs" and m: "ht_match t = match" by (simp_all add: hash_inv_def)
  obtain i where i: "bucket_of t key = Some i" using bucket_exists [OF inv] by blast
  have e: "bs ! i = []"
    using hash_insert_found [OF rep i, of _ data] hash_insert_occupied [OF rep i, of data] assms(2)
    by fastforce
  from hash_insert_empty [OF rep i e, of data] assms(2,3) have
    t': "hash_rep hp' t' (bs[i := [(brk hp, data)]])" "ht_match t' = match" "bucket_of t' key2 = Some i"
    using i m by (auto simp: bucket_of_def)
  have b: "bs[i := [(brk hp, data)]] ! i = [(brk hp, data)]"
    using hash_rep_bucket(1) [OF rep i] by simp
  show ?thesis
    using hash_insert_found [OF t'(1,3), of "(brk hp, data)" data2]
      hash_insert_occupied [OF t'(1,3), of data2] b t'(2) by auto
qed

theorem hash_collision_refused_witness:
  "\<exists>hp' t'. ailsa_hash_insert hp' t' (Some ''y'') ''key'' = Some (-1, hp', t')"
  using table4_insert hash_collision_refused [OF table4_reach, of "Some ''x''" "''key''" _ _ "''key''" "Some ''y''"]
  by fastforce

text \<open>\<open>ailsa_hash_remove\<close> never removes anything from a reachable table: it hands the
  predecessor, NULL, to the list, so it returns 1 on a match and -1 otherwise.\<close>

theorem hash_remove_never_removes:
  assumes "hash_reach h match destroy hp t"
  shows "\<exists>r \<in> {1, -1}. ailsa_hash_remove hp t data key = Some (r, data, hp, t) \<and>
    (r = 1 \<longleftrightarrow> (\<exists>d. ailsa_hash_lookup hp t data key = Some (0, d)))"
proof -
  obtain bs where inv: "hash_inv h match hp t bs" using hash_reach_inv [OF assms] by blast
  then have rep: "hash_rep hp t bs" by (simp add: hash_inv_def)
  obtain i where i: "bucket_of t key = Some i" using bucket_exists [OF inv] by blast
  have "length (bs ! i) \<le> 1" using inv hash_rep_bucket(1) [OF rep i] by (simp add: hash_inv_def)
  note rm = hash_remove_single [OF rep i this, of data]
  show ?thesis
  proof (cases "List.find (\<lambda>q. ht_match t data (snd q)) (bs ! i)")
    case None
    then have "\<not> (\<exists>q \<in> set (bs ! i). ht_match t data (snd q))" by (simp add: find_Some_match)
    then show ?thesis using rm lookup_rep [OF rep i, of data] None by (simp only: if_False) simp
  next
    case (Some q)
    then have "\<exists>q \<in> set (bs ! i). ht_match t data (snd q)"
      using find_Some_match [of "\<lambda>q. ht_match t data (snd q)" "bs ! i"] by fastforce
    then show ?thesis using rm lookup_rep [OF rep i, of data] Some by simp
  qed
qed

theorem hash_remove_never_removes_witness:
  "\<exists>r \<in> {1, -1}. ailsa_hash_remove empty_heap table4 (Some ''x'') ''key'' =
     Some (r, Some ''x'', empty_heap, table4)"
  using hash_remove_never_removes [OF table4_reach, of "Some ''x''" "''key''"] by blast

end
