(* ===== verification/Cmdb_Types.thy ===== *)
theory Cmdb_Types
  imports Cmdb_Prelude
begin

text \<open>
  The data the components exchange: \<open>ailsa_data_s\<close>, the row elements of every list of arguments
  or results, the configuration \<open>ailsa_cmdb_s\<close>, and the outside world as the library sees it: a
  database behind the SQLite C interface and the number of connections that are open.

  The configuration modelled is the build with SQLite and without MySQL (\<open>HAVE_SQLITE3\<close> set,
  \<open>HAVE_MYSQL\<close> not set).
\<close>

subsection \<open>Row elements\<close>

datatype db_type = AILSA_DB_NULL | AILSA_DB_TEXT | AILSA_DB_LINT | AILSA_DB_SINT | AILSA_DB_TINY
  | AILSA_DB_FLOAT | AILSA_DB_TIME

text \<open>
  \<open>ailsa_data_s\<close> is a type tag with a union.  The constructor is the tag together with the member
  that was written; \<open>D_NULL\<close> is the zeroed object of \<open>ailsa_init_data\<close>.  A double is its 64 bits.
\<close>

datatype ailsa_data = D_NULL | D_TEXT string | D_LINT u64 | D_SINT i16 | D_FLOAT "64 word"

fun data_type :: "ailsa_data \<Rightarrow> db_type" where
  "data_type D_NULL = AILSA_DB_NULL"
| "data_type (D_TEXT _) = AILSA_DB_TEXT"
| "data_type (D_LINT _) = AILSA_DB_LINT"
| "data_type (D_SINT _) = AILSA_DB_SINT"
| "data_type (D_FLOAT _) = AILSA_DB_FLOAT"

text \<open>Reading a member of the union: \<open>None\<close> when another member was written.  All members of the
  zeroed union read as zero, and its \<open>text\<close> as the NULL pointer.  The small integer is the low half word
  of a long one (the machine is little-endian): rows of SQLite hold long integers, and statements with
  small ones read them from such rows.\<close>

fun get_text :: "ailsa_data \<Rightarrow> cstr option" where
  "get_text (D_TEXT s) = Some (Some s)"
| "get_text D_NULL = Some None"
| "get_text _ = None"

fun get_number :: "ailsa_data \<Rightarrow> u64 option" where
  "get_number (D_LINT n) = Some n"
| "get_number D_NULL = Some 0"
| "get_number _ = None"

fun get_small :: "ailsa_data \<Rightarrow> i16 option" where
  "get_small (D_SINT n) = Some n"
| "get_small (D_LINT n) = Some (ucast n)"
| "get_small D_NULL = Some 0"
| "get_small _ = None"

fun get_point :: "ailsa_data \<Rightarrow> 64 word option" where
  "get_point (D_FLOAT x) = Some x"
| "get_point D_NULL = Some 0"
| "get_point _ = None"

text \<open>A list pointer with the data of its elements, at the level where the cells no longer matter
  (theory Ailsa\_List shows that the heap lists behave as these sequences).\<close>

type_synonym db_list = "ailsa_data list option"

subsection \<open>The configuration\<close>

record ailsa_cmdb_s =
  cc_dbtype :: cstr
  cc_db :: cstr
  cc_file :: cstr
  cc_user :: cstr
  cc_pass :: cstr
  cc_host :: cstr
  cc_dir :: cstr
  cc_bind :: cstr
  cc_dnsa :: cstr
  cc_rev :: cstr
  cc_rndc :: cstr
  cc_chkz :: cstr
  cc_chkc :: cstr
  cc_socket :: cstr
  cc_hostmaster :: cstr
  cc_prins :: cstr
  cc_secns :: cstr
  cc_pridns :: cstr
  cc_secdns :: cstr
  cc_toplevelos :: cstr
  cc_pxe :: cstr
  cc_tmpdir :: cstr
  cc_tftpdir :: cstr
  cc_dhcpconf :: cstr
  cc_port :: u32
  cc_refresh :: u64
  cc_retry :: u64
  cc_expire :: u64
  cc_ttl :: u64
  cc_cliflag :: u64

subsection \<open>The database\<close>

datatype sql_value = SQL_NULL | SQL_INT u64 | SQL_TEXT string | SQL_FLOAT "64 word" | SQL_BLOB

abbreviation SQLITE_ROW :: int where "SQLITE_ROW \<equiv> 100"
abbreviation SQLITE_DONE :: int where "SQLITE_DONE \<equiv> 101"

text \<open>
  The SQLite library is not part of the sources.  What the code uses of it is a parameter of the
  model: the return code of opening a file, of preparing a statement and of binding a value; the
  rows a prepared read statement with bound values delivers, with the code of the
  step after the last row; and the code and the new database of a write statement's step.
\<close>

record 'db sqlite3_api =
  s3_open :: "'db \<Rightarrow> cstr \<Rightarrow> bool \<Rightarrow> int"
  s3_prepare :: "'db \<Rightarrow> string \<Rightarrow> int"
  s3_bind :: "'db \<Rightarrow> string \<Rightarrow> nat \<Rightarrow> sql_value \<Rightarrow> int"
  s3_rows :: "'db \<Rightarrow> string \<Rightarrow> sql_value list \<Rightarrow> sql_value list list \<times> int"
  s3_write :: "'db \<Rightarrow> string \<Rightarrow> sql_value list \<Rightarrow> int \<times> 'db"

record 'db world =
  w_db :: 'db
  w_open :: nat

type_synonym 'db query_result = "(int \<times> 'db world \<times> db_list) option"

end
