(* ===== verification/Sql_Queries.thy ===== *)
theory Sql_Queries
  imports Cmdb_Types
begin

text \<open>
  The query numbers of include/ailsasql.h and the statement tables of lib/queries.c, row by row: the
  text of the statement, its number of parameters and the type of each.  The callers name a
  statement by its number only, so everything they rely on (how many values to pass, and
  their types) is a fact about these tables; theory Sql\_Exec proves that the executing code
  and the tables agree.
\<close>

subsection \<open>Statements\<close>

record ailsa_sql_query =
  q_query :: string
  q_number :: nat
  q_fields :: "db_type list"

abbreviation sql_query :: "string \<Rightarrow> nat \<Rightarrow> db_type list \<Rightarrow> ailsa_sql_query" where
  "sql_query q n fs \<equiv> \<lparr>q_query = q, q_number = n, q_fields = fs\<rparr>"

subsection \<open>The query numbers of ailsasql.h\<close>

paragraph \<open>Sql basic queries\<close>

abbreviation SERVER_NAME_COID :: nat where "SERVER_NAME_COID \<equiv> 0"
abbreviation COID_NAME_CITY :: nat where "COID_NAME_CITY \<equiv> 1"
abbreviation VM_SERVERS :: nat where "VM_SERVERS \<equiv> 2"
abbreviation SERVICE_TYPES_ALL :: nat where "SERVICE_TYPES_ALL \<equiv> 3"
abbreviation HARDWARE_TYPES_ALL :: nat where "HARDWARE_TYPES_ALL \<equiv> 4"
abbreviation BUILD_OS_NAME_TYPE :: nat where "BUILD_OS_NAME_TYPE \<equiv> 5"
abbreviation BUILD_OSES :: nat where "BUILD_OSES \<equiv> 6"
abbreviation BUILD_VARIENTS :: nat where "BUILD_VARIENTS \<equiv> 7"
abbreviation BUILD_OS_ALIASES :: nat where "BUILD_OS_ALIASES \<equiv> 8"
abbreviation BASE_VARIENT_PACKAGES :: nat where "BASE_VARIENT_PACKAGES \<equiv> 9"
abbreviation DEFAULT_LOCALE :: nat where "DEFAULT_LOCALE \<equiv> 10"
abbreviation LOCALE_NAMES :: nat where "LOCALE_NAMES \<equiv> 11"
abbreviation PARTITION_SCHEME_NAMES :: nat where "PARTITION_SCHEME_NAMES \<equiv> 12"
abbreviation BUILD_DOMAIN_NAMES :: nat where "BUILD_DOMAIN_NAMES \<equiv> 13"
abbreviation BUILD_DOMAIN_NETWORKS :: nat where "BUILD_DOMAIN_NETWORKS \<equiv> 14"
abbreviation FWD_ZONE_CONFIG :: nat where "FWD_ZONE_CONFIG \<equiv> 15"
abbreviation SYSTEM_PACKAGE_NAMES :: nat where "SYSTEM_PACKAGE_NAMES \<equiv> 16"
abbreviation SYSTEM_SCRIPT_NAMES :: nat where "SYSTEM_SCRIPT_NAMES \<equiv> 17"
abbreviation ZONE_NAME_TYPES :: nat where "ZONE_NAME_TYPES \<equiv> 18"
abbreviation ZONE_INFORMATION :: nat where "ZONE_INFORMATION \<equiv> 19"
abbreviation REV_ZONE_INFORMATION :: nat where "REV_ZONE_INFORMATION \<equiv> 20"
abbreviation GLUE_ZONE_INFORMATION :: nat where "GLUE_ZONE_INFORMATION \<equiv> 21"
abbreviation REV_ZONES_NET_RANGE :: nat where "REV_ZONES_NET_RANGE \<equiv> 22"
abbreviation REV_ZONE_CONFIG :: nat where "REV_ZONE_CONFIG \<equiv> 23"
abbreviation ALL_SERVERS_WITH_BUILD :: nat where "ALL_SERVERS_WITH_BUILD \<equiv> 24"
abbreviation DHCP_INFORMATION :: nat where "DHCP_INFORMATION \<equiv> 25"
abbreviation DEFAULT_OS :: nat where "DEFAULT_OS \<equiv> 26"
abbreviation DEFAULT_SCHEME :: nat where "DEFAULT_SCHEME \<equiv> 27"
abbreviation DEFAULT_VARIENT :: nat where "DEFAULT_VARIENT \<equiv> 28"
abbreviation DEFAULT_DOMAIN :: nat where "DEFAULT_DOMAIN \<equiv> 29"
abbreviation DEFAULT_CUSTOMER :: nat where "DEFAULT_CUSTOMER \<equiv> 30"
abbreviation DEFAULT_OS_DETAILS :: nat where "DEFAULT_OS_DETAILS \<equiv> 31"
abbreviation DEFAULT_SCHEME_DETAILS :: nat where "DEFAULT_SCHEME_DETAILS \<equiv> 32"
abbreviation DEFAULT_VARIENT_DETAILS :: nat where "DEFAULT_VARIENT_DETAILS \<equiv> 33"
abbreviation DEFAULT_DOMAIN_DETAILS :: nat where "DEFAULT_DOMAIN_DETAILS \<equiv> 34"
abbreviation DEFAULT_CUSTOMER_DETAILS :: nat where "DEFAULT_CUSTOMER_DETAILS \<equiv> 35"
abbreviation IDENTITIES :: nat where "IDENTITIES \<equiv> 36"
abbreviation IDENTITIES_NO_SERVER_NAME :: nat where "IDENTITIES_NO_SERVER_NAME \<equiv> 37"

paragraph \<open>Sql argument queries\<close>

abbreviation CONTACT_DETAILS_ON_COID :: nat where "CONTACT_DETAILS_ON_COID \<equiv> 0"
abbreviation SERVICES_ON_SERVER :: nat where "SERVICES_ON_SERVER \<equiv> 1"
abbreviation HARDWARE_ON_SERVER :: nat where "HARDWARE_ON_SERVER \<equiv> 2"
abbreviation SERVER_DETAILS_ON_NAME :: nat where "SERVER_DETAILS_ON_NAME \<equiv> 3"
abbreviation VM_HOST_BUILT_SERVERS :: nat where "VM_HOST_BUILT_SERVERS \<equiv> 4"
abbreviation CUSTOMER_DETAILS_ON_COID :: nat where "CUSTOMER_DETAILS_ON_COID \<equiv> 5"
abbreviation CUST_ID_ON_COID :: nat where "CUST_ID_ON_COID \<equiv> 6"
abbreviation CONT_ID_ON_CONTACT_DETAILS :: nat where "CONT_ID_ON_CONTACT_DETAILS \<equiv> 7"
abbreviation VM_SERVER_ID_ON_NAME :: nat where "VM_SERVER_ID_ON_NAME \<equiv> 8"
abbreviation SERVICE_TYPE_ID_ON_DETAILS :: nat where "SERVICE_TYPE_ID_ON_DETAILS \<equiv> 9"
abbreviation HARDWARE_TYPE_ID_ON_DETAILS :: nat where "HARDWARE_TYPE_ID_ON_DETAILS \<equiv> 10"
abbreviation SERVER_ID_ON_NAME :: nat where "SERVER_ID_ON_NAME \<equiv> 11"
abbreviation HARDWARE_TYPE_ID_ON_CLASS :: nat where "HARDWARE_TYPE_ID_ON_CLASS \<equiv> 12"
abbreviation HARDWARE_ID_ON_DETAILS :: nat where "HARDWARE_ID_ON_DETAILS \<equiv> 13"
abbreviation SERVICE_TYPE_ID_ON_SERVICE :: nat where "SERVICE_TYPE_ID_ON_SERVICE \<equiv> 14"
abbreviation SERVICE_ID_ON_DETAILS :: nat where "SERVICE_ID_ON_DETAILS \<equiv> 15"
abbreviation BT_ID_ON_ALIAS :: nat where "BT_ID_ON_ALIAS \<equiv> 16"
abbreviation CHECK_BUILD_OS :: nat where "CHECK_BUILD_OS \<equiv> 17"
abbreviation BUILD_OS_ON_NAME_OR_ALIAS :: nat where "BUILD_OS_ON_NAME_OR_ALIAS \<equiv> 18"
abbreviation BUILD_OS_ON_NAME_VERSION :: nat where "BUILD_OS_ON_NAME_VERSION \<equiv> 19"
abbreviation BUILD_OS_ON_NAME_ARCH :: nat where "BUILD_OS_ON_NAME_ARCH \<equiv> 20"
abbreviation BUILD_OS_ON_ALL :: nat where "BUILD_OS_ON_ALL \<equiv> 21"
abbreviation OS_FROM_BUILD_TYPE_AND_ARCH :: nat where "OS_FROM_BUILD_TYPE_AND_ARCH \<equiv> 22"
abbreviation PACKAGE_DETAIL_ON_OS_ID :: nat where "PACKAGE_DETAIL_ON_OS_ID \<equiv> 23"
abbreviation SERVERS_WITH_BUILDS_ON_OS_ID :: nat where "SERVERS_WITH_BUILDS_ON_OS_ID \<equiv> 24"
abbreviation VARIENT_ID_ON_VARIANT_OR_VALIAS :: nat where "VARIENT_ID_ON_VARIANT_OR_VALIAS \<equiv> 25"
abbreviation PACKAGE_DETAILS_FOR_VARIENT :: nat where "PACKAGE_DETAILS_FOR_VARIENT \<equiv> 26"
abbreviation LOCALE_ON_NAME :: nat where "LOCALE_ON_NAME \<equiv> 27"
abbreviation PARTITIONS_ON_SCHEME_NAME :: nat where "PARTITIONS_ON_SCHEME_NAME \<equiv> 28"
abbreviation SEED_SCHEME_ON_NAME :: nat where "SEED_SCHEME_ON_NAME \<equiv> 29"
abbreviation PART_OPTIONS_ON_SCHEME_NAME_AND_PARTITION :: nat where "PART_OPTIONS_ON_SCHEME_NAME_AND_PARTITION \<equiv> 30"
abbreviation IDENTIFY_PARTITION :: nat where "IDENTIFY_PARTITION \<equiv> 31"
abbreviation SCHEME_LVM_INFO :: nat where "SCHEME_LVM_INFO \<equiv> 32"
abbreviation SCHEME_ID_ON_NAME :: nat where "SCHEME_ID_ON_NAME \<equiv> 33"
abbreviation PARTITION_ID_ON_SEED_MOUNT :: nat where "PARTITION_ID_ON_SEED_MOUNT \<equiv> 34"
abbreviation IDENTIFY_PART_OPTION :: nat where "IDENTIFY_PART_OPTION \<equiv> 35"
abbreviation BUILD_DOMAIN_ID_ON_DOMAIN :: nat where "BUILD_DOMAIN_ID_ON_DOMAIN \<equiv> 36"
abbreviation BUILD_DOMAIN_OVERLAP :: nat where "BUILD_DOMAIN_OVERLAP \<equiv> 37"
abbreviation BUILD_DOMAIN_DETAILS_ON_NAME :: nat where "BUILD_DOMAIN_DETAILS_ON_NAME \<equiv> 38"
abbreviation BUILD_DETAILS_ON_DOMAIN :: nat where "BUILD_DETAILS_ON_DOMAIN \<equiv> 39"
abbreviation FWD_ZONE_ID_ON_ZONE_NAME :: nat where "FWD_ZONE_ID_ON_ZONE_NAME \<equiv> 40"
abbreviation REV_ZONE_ID_ON_RANGE :: nat where "REV_ZONE_ID_ON_RANGE \<equiv> 41"
abbreviation NAME_SERVERS_ON_NAME :: nat where "NAME_SERVERS_ON_NAME \<equiv> 42"
abbreviation ZONE_SOA_ON_NAME :: nat where "ZONE_SOA_ON_NAME \<equiv> 43"
abbreviation NS_MX_SRV_RECORDS :: nat where "NS_MX_SRV_RECORDS \<equiv> 44"
abbreviation ZONE_RECORDS_ON_NAME :: nat where "ZONE_RECORDS_ON_NAME \<equiv> 45"
abbreviation SYS_PACK_DETAILS_ON_DOMAIN :: nat where "SYS_PACK_DETAILS_ON_DOMAIN \<equiv> 46"
abbreviation SYS_PACK_DETAILS_ON_NAME_DOMAIN :: nat where "SYS_PACK_DETAILS_ON_NAME_DOMAIN \<equiv> 47"
abbreviation SYS_PACK_DETAILS_MIN :: nat where "SYS_PACK_DETAILS_MIN \<equiv> 48"
abbreviation SYS_PACK_ARGS_ON_NAME :: nat where "SYS_PACK_ARGS_ON_NAME \<equiv> 49"
abbreviation SYSTEM_PACKAGE_ID :: nat where "SYSTEM_PACKAGE_ID \<equiv> 50"
abbreviation SYSTEM_PACKAGE_ARG_ID :: nat where "SYSTEM_PACKAGE_ARG_ID \<equiv> 51"
abbreviation SYSTEM_SCRIPTS_ON_NAME :: nat where "SYSTEM_SCRIPTS_ON_NAME \<equiv> 52"
abbreviation SYSTEM_SCRIPTS_ON_NAME_DOMAIN :: nat where "SYSTEM_SCRIPTS_ON_NAME_DOMAIN \<equiv> 53"
abbreviation SYSTEM_SCRIPTS_ON_DOMAIN :: nat where "SYSTEM_SCRIPTS_ON_DOMAIN \<equiv> 54"
abbreviation SYSTEM_SCRIPT_ID_ON_NAME :: nat where "SYSTEM_SCRIPT_ID_ON_NAME \<equiv> 55"
abbreviation SYSTEM_SCRIPT_ARG_ID :: nat where "SYSTEM_SCRIPT_ARG_ID \<equiv> 56"
abbreviation GLUE_ZONE_ON_ZONE_NAME :: nat where "GLUE_ZONE_ON_ZONE_NAME \<equiv> 57"
abbreviation DESTINATION_ON_NAME_ZONE :: nat where "DESTINATION_ON_NAME_ZONE \<equiv> 58"
abbreviation ZONE_TYPE_ON_NAME :: nat where "ZONE_TYPE_ON_NAME \<equiv> 59"
abbreviation ZONE_SERIAL_ON_NAME :: nat where "ZONE_SERIAL_ON_NAME \<equiv> 60"
abbreviation REV_ZONE_INFO_ON_RANGE :: nat where "REV_ZONE_INFO_ON_RANGE \<equiv> 61"
abbreviation REV_RECORDS_ON_ZONE_ID :: nat where "REV_RECORDS_ON_ZONE_ID \<equiv> 62"
abbreviation REV_SOA_ON_NET_RANGE :: nat where "REV_SOA_ON_NET_RANGE \<equiv> 63"
abbreviation REV_RECORDS_ON_NET_RANGE :: nat where "REV_RECORDS_ON_NET_RANGE \<equiv> 64"
abbreviation FULL_REV_RECORDS :: nat where "FULL_REV_RECORDS \<equiv> 65"
abbreviation RECORD_ID_BASE :: nat where "RECORD_ID_BASE \<equiv> 66"
abbreviation RECORD_ID_MX :: nat where "RECORD_ID_MX \<equiv> 67"
abbreviation RECORD_ID_SRV :: nat where "RECORD_ID_SRV \<equiv> 68"
abbreviation RECORD_ON_ZONE_AND_HOST :: nat where "RECORD_ON_ZONE_AND_HOST \<equiv> 69"
abbreviation RECORD_ON_ZONE_AND_HOST_AND_A :: nat where "RECORD_ON_ZONE_AND_HOST_AND_A \<equiv> 70"
abbreviation RECORD_ID_ON_HOST_ZONE_TYPE :: nat where "RECORD_ID_ON_HOST_ZONE_TYPE \<equiv> 71"
abbreviation RECORD_IN_ON_PRI :: nat where "RECORD_IN_ON_PRI \<equiv> 72"
abbreviation RECORD_IN_ON_PROTOCOL :: nat where "RECORD_IN_ON_PROTOCOL \<equiv> 73"
abbreviation DUP_IP_NET_RANGE :: nat where "DUP_IP_NET_RANGE \<equiv> 74"
abbreviation DUP_IP_A_RECORD :: nat where "DUP_IP_A_RECORD \<equiv> 75"
abbreviation A_RECORDS_WITH_IP :: nat where "A_RECORDS_WITH_IP \<equiv> 76"
abbreviation FQDN_PREF_A_ON_IP :: nat where "FQDN_PREF_A_ON_IP \<equiv> 77"
abbreviation NET_START_FINISH_ON_RANGE :: nat where "NET_START_FINISH_ON_RANGE \<equiv> 78"
abbreviation PREFIX_ON_NET_RANGE :: nat where "PREFIX_ON_NET_RANGE \<equiv> 79"
abbreviation PREFER_A_INFO_ON_RANGE :: nat where "PREFER_A_INFO_ON_RANGE \<equiv> 80"
abbreviation RECORDS_ON_NET_RANGE :: nat where "RECORDS_ON_NET_RANGE \<equiv> 81"
abbreviation REV_RECORD_ID_ON_ZONE_HOST :: nat where "REV_RECORD_ID_ON_ZONE_HOST \<equiv> 82"
abbreviation DESTINATION_ON_RECORD_ID :: nat where "DESTINATION_ON_RECORD_ID \<equiv> 83"
abbreviation BUILD_IP_ON_SERVER_ID :: nat where "BUILD_IP_ON_SERVER_ID \<equiv> 84"
abbreviation BUILD_DOMAIN_NET_INFO :: nat where "BUILD_DOMAIN_NET_INFO \<equiv> 85"
abbreviation BUILD_IP_ON_BUILD_DOMAIN_ID :: nat where "BUILD_IP_ON_BUILD_DOMAIN_ID \<equiv> 86"
abbreviation BUILD_ID_ON_SERVER_NAME :: nat where "BUILD_ID_ON_SERVER_NAME \<equiv> 87"
abbreviation MAC_ADDRESS_FOR_BUILD :: nat where "MAC_ADDRESS_FOR_BUILD \<equiv> 88"
abbreviation LOCALE_ID_FROM_NAME :: nat where "LOCALE_ID_FROM_NAME \<equiv> 89"
abbreviation DISK_ID_ON_SERVER_NAME :: nat where "DISK_ID_ON_SERVER_NAME \<equiv> 90"
abbreviation SEED_SCHEME_LVM_ON_ID :: nat where "SEED_SCHEME_LVM_ON_ID \<equiv> 91"
abbreviation IP_ID_ON_SERVER_NAME :: nat where "IP_ID_ON_SERVER_NAME \<equiv> 92"
abbreviation BUILD_DETAILS_ON_SERVER_NAME :: nat where "BUILD_DETAILS_ON_SERVER_NAME \<equiv> 93"
abbreviation BUILD_OS_DETAILS_ON_OS_ID :: nat where "BUILD_OS_DETAILS_ON_OS_ID \<equiv> 94"
abbreviation IP_NET_ON_SERVER_ID :: nat where "IP_NET_ON_SERVER_ID \<equiv> 95"
abbreviation BUILD_OS_AND_TYPE :: nat where "BUILD_OS_AND_TYPE \<equiv> 96"
abbreviation BUILD_VARIENT_ON_SERVER_ID :: nat where "BUILD_VARIENT_ON_SERVER_ID \<equiv> 97"
abbreviation LOCALE_DETAILS_ON_SERVER_ID :: nat where "LOCALE_DETAILS_ON_SERVER_ID \<equiv> 98"
abbreviation BUILD_TIMES_AND_USERS :: nat where "BUILD_TIMES_AND_USERS \<equiv> 99"
abbreviation PART_SCHEME_NAME_ON_SERVER_ID :: nat where "PART_SCHEME_NAME_ON_SERVER_ID \<equiv> 100"
abbreviation PARTITIOINS_ON_SERVER_ID :: nat where "PARTITIOINS_ON_SERVER_ID \<equiv> 101"
abbreviation OS_ALIAS_ON_OS_NAME :: nat where "OS_ALIAS_ON_OS_NAME \<equiv> 102"
abbreviation BUILD_OS_DETAILS_ON_SERVER_ID :: nat where "BUILD_OS_DETAILS_ON_SERVER_ID \<equiv> 103"
abbreviation FULL_LOCALE_DETAILS_ON_SERVER_ID :: nat where "FULL_LOCALE_DETAILS_ON_SERVER_ID \<equiv> 104"
abbreviation TFTP_DETAILS_ON_SERVER_ID :: nat where "TFTP_DETAILS_ON_SERVER_ID \<equiv> 105"
abbreviation BUILD_DETAILS :: nat where "BUILD_DETAILS \<equiv> 106"
abbreviation BUILD_TYPE_ON_SERVER_ID :: nat where "BUILD_TYPE_ON_SERVER_ID \<equiv> 107"
abbreviation BUILD_PARTITIONS_ON_SERVER_ID :: nat where "BUILD_PARTITIONS_ON_SERVER_ID \<equiv> 108"
abbreviation BUILD_PACKAGES_ON_SERVER_ID :: nat where "BUILD_PACKAGES_ON_SERVER_ID \<equiv> 109"
abbreviation DISK_DEV_DETAILS_ON_SERVER_ID :: nat where "DISK_DEV_DETAILS_ON_SERVER_ID \<equiv> 110"
abbreviation PART_OPTIONS_ON_SCHEME_NAME_MOUNT :: nat where "PART_OPTIONS_ON_SCHEME_NAME_MOUNT \<equiv> 111"
abbreviation SYSTEM_PACKAGES_ON_SERVER_ID :: nat where "SYSTEM_PACKAGES_ON_SERVER_ID \<equiv> 112"
abbreviation SYSTEM_SCRIPTS_ON_DOMAIN_AND_BUILD_TYPE :: nat where "SYSTEM_SCRIPTS_ON_DOMAIN_AND_BUILD_TYPE \<equiv> 113"
abbreviation DOMAIN_BUILD_ALIAS_ON_SERVER_ID :: nat where "DOMAIN_BUILD_ALIAS_ON_SERVER_ID \<equiv> 114"
abbreviation MIRROR_ON_BUILD_ALIAS :: nat where "MIRROR_ON_BUILD_ALIAS \<equiv> 115"
abbreviation PACKAGE_FULL :: nat where "PACKAGE_FULL \<equiv> 116"
abbreviation IDENTITY_ID_ON_SERVER_USER :: nat where "IDENTITY_ID_ON_SERVER_USER \<equiv> 117"
abbreviation IDENTITIES_ON_SERVER_NAME :: nat where "IDENTITIES_ON_SERVER_NAME \<equiv> 118"
abbreviation PARENT_ZONE_ID_ON_GLUE_ZONE :: nat where "PARENT_ZONE_ID_ON_GLUE_ZONE \<equiv> 119"
abbreviation REV_ZONE_OVERLAP :: nat where "REV_ZONE_OVERLAP \<equiv> 120"
abbreviation SERVERS_IN_LOCALE :: nat where "SERVERS_IN_LOCALE \<equiv> 121"
abbreviation SERVERS_IN_SCHEME :: nat where "SERVERS_IN_SCHEME \<equiv> 122"
abbreviation SERVERS_IN_VARIENT :: nat where "SERVERS_IN_VARIENT \<equiv> 123"

paragraph \<open>Sql insert queries\<close>

abbreviation INSERT_CONTACT :: nat where "INSERT_CONTACT \<equiv> 0"
abbreviation INSERT_SERVER :: nat where "INSERT_SERVER \<equiv> 1"
abbreviation INSERT_SERVICE_TYPE :: nat where "INSERT_SERVICE_TYPE \<equiv> 2"
abbreviation INSERT_HARDWARE_TYPE :: nat where "INSERT_HARDWARE_TYPE \<equiv> 3"
abbreviation INSERT_VM_HOST :: nat where "INSERT_VM_HOST \<equiv> 4"
abbreviation INSERT_HARDWARE :: nat where "INSERT_HARDWARE \<equiv> 5"
abbreviation INSERT_SERVICE :: nat where "INSERT_SERVICE \<equiv> 6"
abbreviation INSERT_CUSTOMER :: nat where "INSERT_CUSTOMER \<equiv> 7"
abbreviation INSERT_BUILD_OS :: nat where "INSERT_BUILD_OS \<equiv> 8"
abbreviation INSERT_BUILD_PACKAGE :: nat where "INSERT_BUILD_PACKAGE \<equiv> 9"
abbreviation INSERT_VARIENT :: nat where "INSERT_VARIENT \<equiv> 10"
abbreviation INSERT_LOCALE :: nat where "INSERT_LOCALE \<equiv> 11"
abbreviation INSERT_SEED_SCHEME :: nat where "INSERT_SEED_SCHEME \<equiv> 12"
abbreviation INSERT_PARTITION :: nat where "INSERT_PARTITION \<equiv> 13"
abbreviation INSERT_PART_OPTION :: nat where "INSERT_PART_OPTION \<equiv> 14"
abbreviation INSERT_BUILD_DOMAIN :: nat where "INSERT_BUILD_DOMAIN \<equiv> 15"
abbreviation INSERT_BUILD_DOMAIN_NO_NTP :: nat where "INSERT_BUILD_DOMAIN_NO_NTP \<equiv> 16"
abbreviation INSERT_FORWARD_ZONE :: nat where "INSERT_FORWARD_ZONE \<equiv> 17"
abbreviation INSERT_FORWARD_SLAVE_ZONE :: nat where "INSERT_FORWARD_SLAVE_ZONE \<equiv> 18"
abbreviation INSERT_SYSTEM_PACKAGE :: nat where "INSERT_SYSTEM_PACKAGE \<equiv> 19"
abbreviation INSERT_SYSTEM_PACKAGE_ARGS :: nat where "INSERT_SYSTEM_PACKAGE_ARGS \<equiv> 20"
abbreviation INSERT_SYSTEM_PACKAGE_CONF :: nat where "INSERT_SYSTEM_PACKAGE_CONF \<equiv> 21"
abbreviation INSERT_SYSTEM_SCRIPT :: nat where "INSERT_SYSTEM_SCRIPT \<equiv> 22"
abbreviation INSERT_SYSTEM_SCRIPT_ARGS :: nat where "INSERT_SYSTEM_SCRIPT_ARGS \<equiv> 23"
abbreviation INSERT_REVERSE_ZONE :: nat where "INSERT_REVERSE_ZONE \<equiv> 24"
abbreviation INSERT_RECORD_BASE :: nat where "INSERT_RECORD_BASE \<equiv> 25"
abbreviation INSERT_RECORD_MX :: nat where "INSERT_RECORD_MX \<equiv> 26"
abbreviation INSERT_RECORD_SRV :: nat where "INSERT_RECORD_SRV \<equiv> 27"
abbreviation INSERT_REVERSE_RECORD :: nat where "INSERT_REVERSE_RECORD \<equiv> 28"
abbreviation INSERT_GLUE_ZONE :: nat where "INSERT_GLUE_ZONE \<equiv> 29"
abbreviation INSERT_PREF_A :: nat where "INSERT_PREF_A \<equiv> 30"
abbreviation INSERT_DISK_DEV :: nat where "INSERT_DISK_DEV \<equiv> 31"
abbreviation INSERT_BUILD_IP :: nat where "INSERT_BUILD_IP \<equiv> 32"
abbreviation INSERT_BUILD :: nat where "INSERT_BUILD \<equiv> 33"
abbreviation INSERT_DEFAULT_OS :: nat where "INSERT_DEFAULT_OS \<equiv> 34"
abbreviation INSERT_DEFAULT_SCHEME :: nat where "INSERT_DEFAULT_SCHEME \<equiv> 35"
abbreviation INSERT_DEFAULT_VARIENT :: nat where "INSERT_DEFAULT_VARIENT \<equiv> 36"
abbreviation INSERT_DEFAULT_DOMAIN :: nat where "INSERT_DEFAULT_DOMAIN \<equiv> 37"
abbreviation INSERT_DEFAULT_CUSTOMER :: nat where "INSERT_DEFAULT_CUSTOMER \<equiv> 38"
abbreviation INSERT_IDENTITY :: nat where "INSERT_IDENTITY \<equiv> 39"

paragraph \<open>Sql delete queries\<close>

abbreviation DELETE_BUILD_OS :: nat where "DELETE_BUILD_OS \<equiv> 0"
abbreviation DELETE_VARIENT :: nat where "DELETE_VARIENT \<equiv> 1"
abbreviation DELETE_LOCALE :: nat where "DELETE_LOCALE \<equiv> 2"
abbreviation DELETE_PART_OPTION :: nat where "DELETE_PART_OPTION \<equiv> 3"
abbreviation DELETE_PARTITION :: nat where "DELETE_PARTITION \<equiv> 4"
abbreviation DELETE_SCHEME_ON_NAME :: nat where "DELETE_SCHEME_ON_NAME \<equiv> 5"
abbreviation DELETE_BUILD_DOMAIN_ON_NAME :: nat where "DELETE_BUILD_DOMAIN_ON_NAME \<equiv> 6"
abbreviation DELETE_SYS_PACK_CONF :: nat where "DELETE_SYS_PACK_CONF \<equiv> 7"
abbreviation DELETE_SYS_PACK_ARG :: nat where "DELETE_SYS_PACK_ARG \<equiv> 8"
abbreviation DELETE_SYSTEM_PACKAGE :: nat where "DELETE_SYSTEM_PACKAGE \<equiv> 9"
abbreviation DELETE_SYSTEM_SCRIPT_ARG :: nat where "DELETE_SYSTEM_SCRIPT_ARG \<equiv> 10"
abbreviation DELETE_SYSTEM_SCRIPT :: nat where "DELETE_SYSTEM_SCRIPT \<equiv> 11"
abbreviation DELETE_FWD_ZONE :: nat where "DELETE_FWD_ZONE \<equiv> 12"
abbreviation DELETE_REV_ZONE :: nat where "DELETE_REV_ZONE \<equiv> 13"
abbreviation DELETE_REC_TYPE_HOST :: nat where "DELETE_REC_TYPE_HOST \<equiv> 14"
abbreviation DELETE_REC_PRI :: nat where "DELETE_REC_PRI \<equiv> 15"
abbreviation DELETE_REC_PROTO :: nat where "DELETE_REC_PROTO \<equiv> 16"
abbreviation DELETE_REVERSE_RECORD :: nat where "DELETE_REVERSE_RECORD \<equiv> 17"
abbreviation DELETE_GLUE_ZONE :: nat where "DELETE_GLUE_ZONE \<equiv> 18"
abbreviation DELETE_PREF_A :: nat where "DELETE_PREF_A \<equiv> 19"
abbreviation DELETE_BUILD_IP :: nat where "DELETE_BUILD_IP \<equiv> 20"
abbreviation DELETE_DISK_DEV :: nat where "DELETE_DISK_DEV \<equiv> 21"
abbreviation DELETE_BUILD_ON_SERVER_ID :: nat where "DELETE_BUILD_ON_SERVER_ID \<equiv> 22"
abbreviation DELETE_SERVER_ON_ID :: nat where "DELETE_SERVER_ON_ID \<equiv> 23"
abbreviation DELETE_IDENTITY :: nat where "DELETE_IDENTITY \<equiv> 24"
abbreviation DELETE_CUSTOMER :: nat where "DELETE_CUSTOMER \<equiv> 25"

paragraph \<open>Sql update queries\<close>

abbreviation SET_DEFAULT_LOCALE :: nat where "SET_DEFAULT_LOCALE \<equiv> 0"
abbreviation SET_PART_SCHEME_UPDATED :: nat where "SET_PART_SCHEME_UPDATED \<equiv> 1"
abbreviation UPDATE_BUILD_DOMAIN :: nat where "UPDATE_BUILD_DOMAIN \<equiv> 2"
abbreviation FWD_ZONE_VALIDATE :: nat where "FWD_ZONE_VALIDATE \<equiv> 3"
abbreviation FWD_ZONE_SERIAL_UPDATE :: nat where "FWD_ZONE_SERIAL_UPDATE \<equiv> 4"
abbreviation REV_ZONE_VALIDATE :: nat where "REV_ZONE_VALIDATE \<equiv> 5"
abbreviation REV_ZONE_SERIAL_UPDATE :: nat where "REV_ZONE_SERIAL_UPDATE \<equiv> 6"
abbreviation SET_FWD_ZONE_UPDATED :: nat where "SET_FWD_ZONE_UPDATED \<equiv> 7"
abbreviation SET_FWD_ZONE_UPDATED_ON_NAME :: nat where "SET_FWD_ZONE_UPDATED_ON_NAME \<equiv> 8"
abbreviation SET_REV_ZONE_UPDATED :: nat where "SET_REV_ZONE_UPDATED \<equiv> 9"
abbreviation UPDATE_BUILD :: nat where "UPDATE_BUILD \<equiv> 10"
abbreviation UPDATE_DISK_DEV_LVM :: nat where "UPDATE_DISK_DEV_LVM \<equiv> 11"
abbreviation UPDATE_DEFAULT_OS :: nat where "UPDATE_DEFAULT_OS \<equiv> 12"
abbreviation UPDATE_DEFAULT_SCHEME :: nat where "UPDATE_DEFAULT_SCHEME \<equiv> 13"
abbreviation UPDATE_DEFAULT_VARIENT :: nat where "UPDATE_DEFAULT_VARIENT \<equiv> 14"
abbreviation UPDATE_DEFAULT_DOMAIN :: nat where "UPDATE_DEFAULT_DOMAIN \<equiv> 15"
abbreviation UPDATE_DEFAULT_CUSTOMER :: nat where "UPDATE_DEFAULT_CUSTOMER \<equiv> 16"
abbreviation UPDATE_IDENTITY :: nat where "UPDATE_IDENTITY \<equiv> 17"
abbreviation UPDATE_VARIENT_NAME :: nat where "UPDATE_VARIENT_NAME \<equiv> 18"

subsection \<open>The statement tables of queries.c\<close>

definition basic_queries :: "string list" where
  \<open>basic_queries = [
    ''SELECT s.name, c.coid FROM server s INNER JOIN customer c on c.cust_id = s.cust_id'',
    ''SELECT coid, name, city FROM customer ORDER BY coid'',
    ''SELECT vm_server, type FROM vm_server_hosts'',
    ''SELECT service, detail FROM service_type'',
    ''SELECT type, class FROM hard_type'',
    ''SELECT DISTINCT bo.os FROM build_os bo JOIN build_type bt ON bt.alias=bo.alias ORDER BY bo.os'',
    ''SELECT os, os_version, alias, arch, ver_alias, cuser, ctime FROM build_os ORDER BY os,  length(os_version), os_version'',
    ''SELECT varient_id, valias, varient, cuser, muser, ctime, mtime FROM varient'',
    ''SELECT DISTINCT alias FROM build_os'',
    (''SELECT p.package, p.os_id FROM packages p LEFT JOIN varient v ON v.varient_id = p.varient_id   WHERE valias = \'base\' OR varient = \'base'' @ [CHR 0x27]),
    ''SELECT locale_id FROM default_locale WHERE locale_id > 0'',
    ''SELECT locale_id, name FROM locale'',
    ''SELECT scheme_name, lvm from seed_schemes'',
    ''SELECT domain FROM build_domain'',
    ''SELECT domain, ns, start_ip, gateway, netmask from build_domain'',
    (''SELECT name, type, sec_dns, master FROM zones WHERE valid = \'yes'' @ [CHR 0x27]),
    ''SELECT name FROM system_packages'',
    ''SELECT name FROM system_scripts'',
    ''SELECT name, type FROM zones'',
    ''SELECT name, valid, serial, type, master FROM zones'',
    ''SELECT net_range, prefix, valid, serial,type, master FROM rev_zones'',
    ''SELECT z.name, g.name, g.pri_ns, g.sec_ns, g.pri_dns, g.sec_dns  FROM glue_zones g LEFT JOIN zones z ON z.id = g.zone_id'',
    ''SELECT net_range, type, prefix FROM rev_zones'',
    ''SELECT type, net_range, pri_dns, sec_dns, master, prefix FROM rev_zones'',
    ''select name, domain from server s JOIN build b on b.server_id = s.server_id   JOIN build_ip bi ON bi.server_id = s.server_id   JOIN build_domain bd ON bd.bd_id = bi.bd_id;'',
    ''SELECT s.name, b.mac_addr, ip.ip, db.domain FROM build b  LEFT JOIN server s ON s.server_id = b.server_id  LEFT JOIN build_ip ip ON ip.ip_id = b.ip_id  LEFT JOIN build_domain db ON db.bd_id = ip.bd_id'',
    ''SELECT os_id FROM default_os'',
    ''SELECT def_scheme_id FROM default_scheme'',
    ''SELECT varient_id FROM default_varient'',
    ''SELECT bd_id FROM default_domain'',
    ''SELECT cust_id FROM default_customer'',
    ''SELECT os, os_version, arch FROM build_os WHERE os_id = (SELECT os_id FROM default_os)'',
    ''SELECT scheme_name FROM seed_schemes WHERE def_scheme_id = (SELECT def_scheme_id FROM default_scheme)'',
    ''SELECT varient FROM varient WHERE varient_id = (SELECT varient_id FROM default_varient)'',
    ''SELECT domain FROM build_domain WHERE bd_id = (SELECT bd_id FROM default_domain)'',
    ''SELECT coid, name FROM customer WHERE cust_id = (SELECT cust_id FROM default_customer)'',
    ''SELECT s.name, i.username, i.cuser, i.muser, i.ctime, i.mtime FROM server s   LEFT JOIN identity i WHERE s.server_id = i.server_id'',
    ''SELECT server_id, username, cuser, muser, ctime, mtime from identity'']\<close>

definition argument_queries_1 :: "ailsa_sql_query list" where
  \<open>argument_queries_1 = [
    sql_query ''SELECT co.name, co.phone, co.email FROM customer cu INNER JOIN contacts co ON co.cust_id = cu.cust_id WHERE cu.coid = ?'' 1
      [AILSA_DB_TEXT],
    sql_query ''SELECT st.service, s.url, s.detail FROM service_type st 	LEFT JOIN services s ON st.service_type_id = s.service_type_id 	LEFT JOIN server se ON s.server_id = se.server_id 	WHERE se.name = ?'' 1
      [AILSA_DB_TEXT],
    sql_query ''SELECT ht.class, h.device, h.detail FROM hardware h 	LEFT JOIN hard_type ht ON ht.hard_type_id = h.hard_type_id 	LEFT JOIN server s ON h.server_id = s.server_id 	WHERE s.name = ?'' 1
      [AILSA_DB_TEXT],
    sql_query ''SELECT s.vendor, s.make, s.model, s.uuid, c.coid, 	s.cuser, s.ctime, s.muser, s.mtime FROM server s 	JOIN customer c ON s.cust_id = c.cust_id 	WHERE s.name = ?'' 1
      [AILSA_DB_TEXT],
    sql_query ''SELECT s.name, v.varient from varient v 	JOIN build b ON v.varient_id = b.varient_id 	JOIN server s ON b.server_id = s.server_id 	JOIN vm_server_hosts vm ON s.vm_server_id = vm.vm_server_id 	WHERE vm.vm_server = ?'' 1
      [AILSA_DB_TEXT],
    sql_query ''SELECT name, address, city, county, postcode, cuser, ctime, muser, mtime FROM customer WHERE coid = ?'' 1
      [AILSA_DB_TEXT],
    sql_query ''SELECT cust_id FROM customer WHERE coid = ?'' 1
      [AILSA_DB_TEXT],
    sql_query ''SELECT cont_id FROM contacts WHERE name = ? AND phone = ? and email = ? and cust_id = ?'' 4
      [AILSA_DB_TEXT, AILSA_DB_TEXT, AILSA_DB_TEXT, AILSA_DB_LINT],
    sql_query ''SELECT vm_server_id FROM vm_server_hosts WHERE vm_server = ?'' 1
      [AILSA_DB_TEXT],
    sql_query ''SELECT service_type_id FROM service_type WHERE service = ? AND detail = ?'' 2
      [AILSA_DB_TEXT, AILSA_DB_TEXT],
    sql_query ''SELECT hard_type_id FROM hard_type WHERE type = ? AND class = ?'' 2
      [AILSA_DB_TEXT, AILSA_DB_TEXT],
    sql_query ''SELECT server_id FROM server WHERE name = ?'' 1
      [AILSA_DB_TEXT],
    sql_query ''SELECT hard_type_id FROM hard_type WHERE class = ?'' 1
      [AILSA_DB_TEXT],
    sql_query ''SELECT hard_id FROM hardware WHERE server_id = ? AND hard_type_id = ? AND detail = ? AND device = ?'' 4
      [AILSA_DB_LINT, AILSA_DB_LINT, AILSA_DB_TEXT, AILSA_DB_TEXT],
    sql_query ''SELECT service_type_id FROM service_type WHERE service = ?'' 1
      [AILSA_DB_TEXT],
    sql_query ''SELECT service_id FROM services WHERE server_id = ? AND cust_id = ? AND service_type_id = ? AND detail = ? AND url = ?'' 5
      [AILSA_DB_LINT, AILSA_DB_LINT, AILSA_DB_LINT, AILSA_DB_TEXT, AILSA_DB_TEXT],
    sql_query ''SELECT bt_id FROM build_type WHERE alias = ?'' 1
      [AILSA_DB_TEXT],
    sql_query ''SELECT os_id FROM build_os WHERE os = ? AND arch = ? AND os_version = ?'' 3
      [AILSA_DB_TEXT, AILSA_DB_TEXT, AILSA_DB_TEXT],
    sql_query ''SELECT os_id FROM build_os WHERE (os = ? OR alias = ?)'' 2
      [AILSA_DB_TEXT, AILSA_DB_TEXT],
    sql_query ''SELECT os_id FROM build_os WHERE (os = ? OR alias = ?) AND (os_version = ? OR ver_alias = ?)'' 4
      [AILSA_DB_TEXT, AILSA_DB_TEXT, AILSA_DB_TEXT, AILSA_DB_TEXT],
    sql_query ''SELECT os_id FROM build_os WHERE (os = ? OR ALIAS = ?) AND arch = ?'' 3
      [AILSA_DB_TEXT, AILSA_DB_TEXT, AILSA_DB_TEXT],
    sql_query ''SELECT os_id FROM build_os WHERE (os = ? OR alias = ?) AND (os_version = ? OR ver_alias = ?) AND arch = ?'' 5
      [AILSA_DB_TEXT, AILSA_DB_TEXT, AILSA_DB_TEXT, AILSA_DB_TEXT, AILSA_DB_TEXT],
    sql_query ''SELECT os_id FROM build_os WHERE bt_id = ? AND arch = ? ORDER BY ctime DESC LIMIT 2'' 2
      [AILSA_DB_LINT, AILSA_DB_TEXT],
    sql_query ''SELECT package, varient_id FROM packages WHERE os_id = ?'' 1
      [AILSA_DB_LINT],
    sql_query ''SELECT s.name FROM server s LEFT JOIN build b ON b.server_id = s.server_id LEFT JOIN build_os bo ON bo.os_id = b.os_id WHERE bo.os_id = ?'' 1
      [AILSA_DB_LINT],
    sql_query ''SELECT varient_id FROM varient WHERE varient = ? OR valias = ?'' 2
      [AILSA_DB_TEXT, AILSA_DB_TEXT]]\<close>

definition argument_queries_2 :: "ailsa_sql_query list" where
  \<open>argument_queries_2 = [
    sql_query ''SELECT p.package, o.os, o.os_version, o.arch FROM packages p JOIN build_os o ON p.os_id = o.os_id WHERE p.varient_id = ? ORDER BY o.os, o.os_version, o.arch'' 1
      [AILSA_DB_LINT],
    sql_query ''SELECT locale_id, locale, country, language, keymap, timezone, cuser, ctime FROM locale WHERE name = ?'' 1
      [AILSA_DB_TEXT],
    sql_query ''SELECT minimum, maximum, priority, mount_point, filesystem, logical_volume FROM default_part dp LEFT JOIN seed_schemes ss ON ss.def_scheme_id = dp.def_scheme_id WHERE ss.scheme_name = ?'' 1
      [AILSA_DB_TEXT],
    sql_query ''SELECT def_scheme_id, lvm, cuser, ctime from seed_schemes where scheme_name = ?'' 1
      [AILSA_DB_TEXT],
    sql_query ''SELECT poption FROM part_options po LEFT JOIN default_part dp ON po.def_part_id = dp.def_part_id LEFT JOIN seed_schemes ss ON ss.def_scheme_id = dp.def_scheme_id WHERE scheme_name = ? and mount_point = ?'' 2
      [AILSA_DB_TEXT, AILSA_DB_TEXT],
    sql_query ''SELECT def_part_id, ss.def_scheme_id FROM seed_schemes ss LEFT JOIN default_part dp ON ss.def_scheme_id = dp.def_scheme_id WHERE scheme_name = ? AND mount_point = ?'' 2
      [AILSA_DB_TEXT, AILSA_DB_TEXT],
    sql_query ''SELECT lvm FROM seed_schemes WHERE scheme_name = ?'' 1
      [AILSA_DB_TEXT],
    sql_query ''SELECT def_scheme_id FROM seed_schemes WHERE scheme_name = ?'' 1
      [AILSA_DB_TEXT],
    sql_query ''SELECT def_part_id FROM default_part dp LEFT JOIN seed_schemes ss on dp.def_scheme_id = ss.def_scheme_id WHERE scheme_name = ? AND mount_point = ?'' 2
      [AILSA_DB_TEXT, AILSA_DB_TEXT],
    sql_query ''SELECT part_options_id FROM part_options WHERE def_scheme_id = ? AND def_part_id = ? AND poption = ?'' 3
      [AILSA_DB_LINT, AILSA_DB_LINT, AILSA_DB_TEXT],
    sql_query ''SELECT bd_id FROM build_domain WHERE domain = ?'' 1
      [AILSA_DB_TEXT],
    sql_query ''SELECT bd_id FROM build_domain WHERE (start_ip >= ? AND end_ip <= ?) OR (start_ip <= ? AND end_ip >= ?) OR (start_ip <= ? AND end_ip >= ?)'' 6
      [AILSA_DB_LINT, AILSA_DB_LINT, AILSA_DB_LINT, AILSA_DB_LINT, AILSA_DB_LINT, AILSA_DB_LINT],
    sql_query ''SELECT start_ip, end_ip, netmask, gateway, ns, config_ntp, ntp_server, cuser, ctime, muser, mtime FROM build_domain WHERE domain = ?'' 1
      [AILSA_DB_TEXT],
    sql_query ''SELECT hostname, ip, varient FROM varient v LEFT JOIN build b ON v.varient_id = b.varient_id LEFT JOIN build_ip bi on bi.ip_id = b.ip_id LEFT JOIN build_domain bd ON bi.bd_id = bd.bd_id WHERE bd.domain = ?'' 1
      [AILSA_DB_TEXT],
    sql_query ''SELECT id FROM zones WHERE name = ? AND type = ?'' 2
      [AILSA_DB_TEXT, AILSA_DB_TEXT],
    sql_query ''SELECT rev_zone_id FROM rev_zones WHERE net_range = ? and type = ?'' 2
      [AILSA_DB_TEXT, AILSA_DB_TEXT],
    sql_query ''SELECT pri_dns, sec_dns FROM zones WHERE name = ?'' 1
      [AILSA_DB_TEXT],
    sql_query ''SELECT ttl, serial, refresh, retry, expire, updated FROM zones WHERE name = ?'' 1
      [AILSA_DB_TEXT],
    sql_query ''SELECT type, host, protocol, service, pri, destination FROM records WHERE zone = (SELECT id FROM zones WHERE name = ?) AND (type = \'NS\' OR type = \'MX\' OR type = \'SRV\')'' 1
      [AILSA_DB_TEXT],
    sql_query ''SELECT type, host, destination FROM records WHERE type != \'NS\' AND type != \'MX\' AND type != \'SRV\' AND zone = (SELECT id FROM zones WHERE name = ?) ORDER BY type, host'' 1
      [AILSA_DB_TEXT],
    sql_query ''SELECT name, field, type, arg from system_packages sp LEFT JOIN system_package_conf spc ON sp.syspack_id = spc.syspack_id LEFT JOIN build_domain bd  ON bd.bd_id = spc.bd_id LEFT JOIN system_package_args spa ON spa.syspack_arg_id = spc.syspack_arg_id WHERE domain = ?'' 1
      [AILSA_DB_TEXT],
    sql_query ''SELECT name, field, type, arg from system_packages sp LEFT JOIN system_package_conf spc ON sp.syspack_id = spc.syspack_id LEFT JOIN build_domain bd  ON bd.bd_id = spc.bd_id LEFT JOIN system_package_args spa ON spa.syspack_arg_id = spc.syspack_arg_id WHERE domain = ? AND name = ?'' 2
      [AILSA_DB_TEXT, AILSA_DB_TEXT],
    sql_query ''SELECT name, field, type, arg from system_packages sp LEFT JOIN system_package_conf spc ON sp.syspack_id = spc.syspack_id LEFT JOIN build_domain bd  ON bd.bd_id = spc.bd_id LEFT JOIN system_package_args spa ON spa.syspack_arg_id = spc.syspack_arg_id WHERE domain = ? AND name = ? AND field = ?'' 3
      [AILSA_DB_TEXT, AILSA_DB_TEXT, AILSA_DB_TEXT],
    sql_query ''SELECT field, type FROM system_package_args spa LEFT JOIN system_packages sp ON sp.syspack_id = spa.syspack_id WHERE name = ? ORDER BY field'' 1
      [AILSA_DB_TEXT],
    sql_query ''SELECT syspack_id FROM system_packages WHERE name = ?'' 1
      [AILSA_DB_TEXT],
    sql_query ''SELECT syspack_arg_id FROM system_package_args spa LEFT JOIN system_packages sp ON sp.syspack_id = spa.syspack_id WHERE sp.name = ? AND spa.field = ?'' 2
      [AILSA_DB_TEXT, AILSA_DB_TEXT],
    sql_query ''SELECT domain, alias, no, ssa.arg FROM system_scripts_args ssa LEFT JOIN build_domain bd ON ssa.bd_id = bd.bd_id LEFT JOIN build_type bt ON ssa.bt_id = bt.bt_id LEFT JOIN system_scripts ss ON ssa.systscr_id = ss.systscr_id WHERE name = ? ORDER BY domain, alias, no'' 1
      [AILSA_DB_TEXT],
    sql_query ''SELECT alias, no, ssa.arg FROM system_scripts_args ssa LEFT JOIN build_domain bd ON ssa.bd_id = bd.bd_id LEFT JOIN build_type bt ON ssa.bt_id = bt.bt_id LEFT JOIN system_scripts ss ON ssa.systscr_id = ss.systscr_id WHERE name = ? AND domain = ? ORDER BY alias, no'' 2
      [AILSA_DB_TEXT, AILSA_DB_TEXT],
    sql_query ''SELECT name, alias, no, ssa.arg FROM system_scripts_args ssa LEFT JOIN build_domain bd ON ssa.bd_id = bd.bd_id LEFT JOIN build_type bt ON ssa.bt_id = bt.bt_id LEFT JOIN system_scripts ss ON ssa.systscr_id = ss.systscr_id WHERE domain = ? ORDER BY alias, name, no'' 1
      [AILSA_DB_TEXT]]\<close>

definition argument_queries_3 :: "ailsa_sql_query list" where
  \<open>argument_queries_3 = [
    sql_query ''SELECT systscr_id FROM system_scripts WHERE name = ?'' 1
      [AILSA_DB_TEXT],
    sql_query ''SELECT systscr_arg_id FROM system_scripts_args WHERE arg = ? AND no = ? AND systscr_id = ? AND bd_id = ? AND bt_id = ?'' 5
      [AILSA_DB_TEXT, AILSA_DB_LINT, AILSA_DB_LINT, AILSA_DB_LINT, AILSA_DB_LINT],
    sql_query ''SELECT g.name, g.pri_ns, g.sec_ns FROM glue_zones g LEFT JOIN zones z ON z.id = g.zone_id WHERE z.name = ?'' 1
      [AILSA_DB_TEXT],
    sql_query ''SELECT r.destination FROM records r LEFT JOIN zones z ON r.zone = z.id WHERE z.name = ? AND r.host = ?'' 2
      [AILSA_DB_TEXT, AILSA_DB_TEXT],
    sql_query ''SELECT type FROM zones WHERE name = ?'' 1
      [AILSA_DB_TEXT],
    sql_query ''SELECT serial FROM zones WHERE name = ?'' 1
      [AILSA_DB_TEXT],
    sql_query ''SELECT serial, pri_dns, prefix, type FROM rev_zones WHERE net_range = ?'' 1
      [AILSA_DB_TEXT],
    sql_query ''SELECT host, destination FROM rev_records WHERE rev_zone = ?'' 1
      [AILSA_DB_LINT],
    sql_query ''SELECT ttl, pri_dns, sec_dns, serial, refresh, retry, expire, updated FROM rev_zones WHERE net_range = ?'' 1
      [AILSA_DB_TEXT],
    sql_query ''SELECT host, destination FROM rev_records WHERE rev_zone = (SELECT rev_zone_id FROM rev_zones WHERE net_range = ?) AND zone_index = ?'' 2
      [AILSA_DB_TEXT, AILSA_DB_LINT],
    sql_query ''SELECT host, destination, rev_record_id, rev_zone FROM rev_records WHERE rev_zone = (SELECT rev_zone_id FROM rev_zones WHERE net_range = ?) AND zone_index = ?'' 2
      [AILSA_DB_TEXT, AILSA_DB_LINT],
    sql_query ''SELECT id FROM records WHERE zone = ? AND type = ? AND host = ? AND destination = ?'' 4
      [AILSA_DB_LINT, AILSA_DB_TEXT, AILSA_DB_TEXT, AILSA_DB_TEXT],
    sql_query ''SELECT id FROM records WHERE zone = ? AND type = ? AND host = ? AND destination = ? AND pri = ?'' 5
      [AILSA_DB_LINT, AILSA_DB_TEXT, AILSA_DB_TEXT, AILSA_DB_TEXT, AILSA_DB_LINT],
    sql_query ''SELECT id FROM records WHERE zone = ? AND type = ? AND host = ? AND destination = ? AND pri = ? AND protocol = ? AND service = ?'' 7
      [AILSA_DB_LINT, AILSA_DB_TEXT, AILSA_DB_TEXT, AILSA_DB_TEXT, AILSA_DB_LINT, AILSA_DB_TEXT, AILSA_DB_TEXT],
    sql_query ''SELECT id, type FROM records WHERE zone = ? AND host = ?'' 2
      [AILSA_DB_LINT, AILSA_DB_TEXT],
    sql_query (''SELECT id FROM records WHERE zone = ? AND host = ? AND type = \'A'' @ [CHR 0x27]) 2
      [AILSA_DB_LINT, AILSA_DB_TEXT],
    sql_query ''SELECT id FROM records WHERE zone = ? AND type = ? AND host = ?'' 3
      [AILSA_DB_LINT, AILSA_DB_TEXT, AILSA_DB_TEXT],
    sql_query ''SELECT id FROM records WHERE zone = ? AND type = ? AND host = ? AND pri = ?'' 4
      [AILSA_DB_LINT, AILSA_DB_TEXT, AILSA_DB_TEXT, AILSA_DB_LINT],
    sql_query ''SELECT id FROM records WHERE zone = ? AND type = ? AND host = ? AND pri = ? AND protocol = ? AND service = ?'' 6
      [AILSA_DB_LINT, AILSA_DB_TEXT, AILSA_DB_TEXT, AILSA_DB_LINT, AILSA_DB_TEXT, AILSA_DB_TEXT],
    sql_query ''SELECT destination, count(*) c FROM records WHERE type = \'A\' AND destination LIKE ? GROUP BY destination HAVING c > 1'' 1
      [AILSA_DB_TEXT],
    sql_query ''SELECT destination, count(*) c FROM records WHERE type = \'A\' AND destination = ? GROUP BY destination HAVING c > 1'' 1
      [AILSA_DB_TEXT],
    sql_query ''SELECT r.host, z.name FROM records r LEFT JOIN zones z ON r.zone = z.id WHERE destination = ?'' 1
      [AILSA_DB_TEXT],
    sql_query ''SELECT fqdn FROM preferred_a WHERE ip = ?'' 1
      [AILSA_DB_TEXT],
    sql_query ''SELECT net_start, net_finish FROM rev_zones WHERE net_range = ?'' 1
      [AILSA_DB_TEXT],
    sql_query ''SELECT prefix FROM rev_zones WHERE net_range = ?'' 1
      [AILSA_DB_TEXT],
    sql_query ''SELECT ip, fqdn, record_id FROM preferred_a WHERE ip LIKE ?'' 1
      [AILSA_DB_TEXT],
    sql_query ''SELECT destination, r.id, host, name FROM records r LEFT JOIN zones z ON z.id = r.zone WHERE destination LIKE ?'' 1
      [AILSA_DB_TEXT],
    sql_query ''SELECT rev_record_id FROM rev_records WHERE rev_zone = ? AND host = ?'' 2
      [AILSA_DB_LINT, AILSA_DB_TEXT],
    sql_query ''SELECT destination, host, name FROM records r LEFT JOIN zones z ON r.zone = z.id WHERE r.id = ?'' 1
      [AILSA_DB_LINT]]\<close>

definition argument_queries_4 :: "ailsa_sql_query list" where
  \<open>argument_queries_4 = [
    sql_query ''SELECT ip_id FROM build_ip WHERE server_id = ?'' 1
      [AILSA_DB_LINT],
    sql_query ''SELECT bd_id, start_ip, end_ip FROM build_domain WHERE domain = ?'' 1
      [AILSA_DB_TEXT],
    sql_query ''SELECT ip FROM build_ip WHERE bd_id = ? ORDER BY ip'' 1
      [AILSA_DB_LINT],
    sql_query ''SELECT build_id FROM build WHERE server_id = (SELECT server_id FROM server WHERE name = ?)'' 1
      [AILSA_DB_TEXT],
    sql_query ''SELECT detail FROM hardware WHERE server_id = ? AND device = ?'' 2
      [AILSA_DB_LINT, AILSA_DB_TEXT],
    sql_query ''SELECT locale_id FROM locale WHERE name = ?'' 1
      [AILSA_DB_TEXT],
    sql_query ''SELECT disk_id FROM disk_dev WHERE server_id = (SELECT server_id FROM server WHERE name = ?)'' 1
      [AILSA_DB_TEXT],
    sql_query ''SELECT lvm FROM seed_schemes WHERE def_scheme_id = ?'' 1
      [AILSA_DB_LINT],
    sql_query ''SELECT ip_id FROM build_ip WHERE server_id = (SELECT server_id FROM server WHERE name = ?)'' 1
      [AILSA_DB_TEXT],
    sql_query ''SELECT varient_id, os_id, ip_id, locale_id, def_scheme_id, mac_addr, net_inst_int FROM build WHERE server_id = (SELECT server_id FROM server WHERE name = ?)'' 1
      [AILSA_DB_TEXT],
    sql_query ''SELECT os, os_version, arch FROM build_os WHERE os_id = ?'' 1
      [AILSA_DB_LINT],
    sql_query ''SELECT domainname, ip FROM build_ip WHERE server_id = ?'' 1
      [AILSA_DB_LINT],
    sql_query ''SELECT os, os_version, arch, build_type FROM build_os bo  LEFT JOIN build_type bt ON bt.bt_id = bo.bt_id  LEFT JOIN build b ON b.os_id = bo.os_id WHERE server_id = ?'' 1
      [AILSA_DB_LINT],
    sql_query ''SELECT varient FROM varient v LEFT JOIN build b ON v.varient_id = b.varient_id WHERE b.server_id = ?'' 1
      [AILSA_DB_LINT],
    sql_query ''SELECT locale, language, timezone FROM locale l LEFT JOIN build b ON l.locale_id = b.locale_id where server_id = ?'' 1
      [AILSA_DB_LINT],
    sql_query ''SELECT cuser, ctime, muser, mtime FROM build WHERE server_id = ?'' 1
      [AILSA_DB_LINT],
    sql_query ''SELECT scheme_name FROM seed_schemes ss LEFT JOIN build b ON b.def_scheme_id = ss.def_scheme_id WHERE b.server_id = ?'' 1
      [AILSA_DB_LINT],
    sql_query ''SELECT mount_point, filesystem, logical_volume FROM default_part dp LEFT JOIN build b ON dp.def_scheme_id = b.def_scheme_id WHERE b.server_id = ?'' 1
      [AILSA_DB_LINT],
    sql_query ''SELECT DISTINCT alias FROM build_os WHERE os = ?'' 1
      [AILSA_DB_TEXT],
    sql_query ''SELECT alias, os_version, arch FROM build_os WHERE os_id = (SELECT os_id FROM build WHERE server_id = ?)'' 1
      [AILSA_DB_LINT],
    sql_query ''SELECT country, locale, keymap, timezone FROM locale WHERE locale_id = (SELECT locale_id FROM build WHERE server_id = ?)'' 1
      [AILSA_DB_LINT],
    sql_query ''SELECT boot_line, net_inst_int, arg, url, build_type FROM build b LEFT JOIN build_os bo on b.os_id = bo.os_id LEFT JOIN build_type bt on bt.bt_id = bo.bt_id WHERE server_id = ?'' 1
      [AILSA_DB_LINT],
    sql_query ''SELECT locale, language, keymap, country, net_inst_int, ip, ns, netmask, gateway, config_ntp, ntp_server, hostname, domain, mirror, bt.alias, ver_alias, os_version, arch, url  FROM build b LEFT JOIN build_ip bi ON b.ip_id = bi.ip_id  LEFT JOIN build_os bo ON b.os_id = bo.os_id  LEFT JOIN build_domain bd ON bd.bd_id = bi.bd_id  LEFT JOIN locale l ON b.locale_id = l.locale_id  LEFT JOIN build_type bt ON bt.bt_id = bo.bt_id WHERE b.server_id = ?'' 1
      [AILSA_DB_LINT],
    sql_query ''SELECT build_type FROM build_type WHERE bt_id = (SELECT bt_id FROM build_os WHERE os_id = (SELECT os_id FROM build WHERE server_id = ?))'' 1
      [AILSA_DB_LINT],
    sql_query ''SELECT minimum, maximum, priority, mount_point, filesystem, logical_volume FROM default_part WHERE def_scheme_id = (SELECT def_scheme_id FROM build WHERE server_id = ?)'' 1
      [AILSA_DB_LINT],
    sql_query ''SELECT package FROM packages p   LEFT JOIN build b ON p.varient_id = b.varient_id AND p.os_id = b.os_id   WHERE server_id = ?'' 1
      [AILSA_DB_LINT],
    sql_query ''SELECT device, lvm FROM disk_dev WHERE server_id = ?'' 1
      [AILSA_DB_LINT]]\<close>

definition argument_queries_5 :: "ailsa_sql_query list" where
  \<open>argument_queries_5 = [
    sql_query ''SELECT poption FROM part_options WHERE def_part_id =   (SELECT def_part_id FROM default_part dp    LEFT JOIN seed_schemes ss on dp.def_scheme_id = ss.def_scheme_id    WHERE scheme_name = ? AND mount_point = ?)'' 2
      [AILSA_DB_TEXT, AILSA_DB_TEXT],
    sql_query ''SELECT sp.name, spa.field, spa.type, spc.arg FROM system_package_args spa   LEFT JOIN system_package_conf spc ON spa.syspack_arg_id = spc.syspack_arg_id   LEFT JOIN system_packages sp ON sp.syspack_id = spc.syspack_id   LEFT JOIN build_ip bd ON spc.bd_id = bd.bd_id   WHERE bd.server_id = ? ORDER BY sp.name, spa.field'' 1
      [AILSA_DB_LINT],
    sql_query ''SELECT ss.name, sa.arg, sa.no FROM system_scripts ss   JOIN system_scripts_args sa ON ss.systscr_id = sa.systscr_id   JOIN build_type bt ON sa.bt_id = bt.bt_id   JOIN build_domain bd ON sa.bd_id = bd.bd_id     WHERE bd.domain = ? AND bt.alias = ? ORDER BY ss.name, sa.no'' 2
      [AILSA_DB_TEXT, AILSA_DB_TEXT],
    sql_query ''SELECT domain, bt.alias, bt.url FROM build_domain bd   JOIN build_ip bi ON bd.bd_id = bi.bd_id   JOIN build b ON b.ip_id = bi.ip_id   JOIN build_os bo ON bo.os_id = b.os_id   JOIN build_type bt ON bo.bt_id = bt.bt_id     WHERE b.server_id = ?'' 1
      [AILSA_DB_LINT],
    sql_query ''SELECT mirror from build_type where alias = ?'' 1
      [AILSA_DB_TEXT],
    sql_query ''SELECT pack_id FROM packages WHERE package = ? AND varient_id = ? and os_id = ?'' 3
      [AILSA_DB_TEXT, AILSA_DB_LINT, AILSA_DB_LINT],
    sql_query ''SELECT identity_id FROM identity WHERE server_id = ? AND username = ?'' 2
      [AILSA_DB_LINT, AILSA_DB_TEXT],
    sql_query ''SELECT username, pass, hash, identity_id FROM identity WHERE server_id = (SELECT server_id FROM server WHERE name = ?)'' 1
      [AILSA_DB_TEXT],
    sql_query ''SELECT zone_id FROM glue_zones WHERE name = ?'' 1
      [AILSA_DB_TEXT],
    sql_query ''SELECT rev_zone_id FROM rev_zones WHERE (start_ip >= ? AND finish_ip <= ?) OR (start_ip <= ? AND finish_ip >= ?) OR (start_ip <= ? AND finish_ip >= ?)'' 6
      [AILSA_DB_LINT, AILSA_DB_LINT, AILSA_DB_LINT, AILSA_DB_LINT, AILSA_DB_LINT, AILSA_DB_LINT],
    sql_query ''SELECT name FROM server WHERE server_id IN (SELECT server_id FROM build WHERE locale_id = (SELECT locale_id FROM locale WHERE name = ?))'' 1
      [AILSA_DB_TEXT],
    sql_query ''SELECT name FROM server WHERE server_id IN (SELECT server_id FROM build WHERE def_scheme_id = (SELECT def_scheme_id FROM seed_schemes WHERE scheme_name = ?))'' 1
      [AILSA_DB_TEXT],
    sql_query ''SELECT name FROM server WHERE server_id IN (SELECT server_id FROM build WHERE varient_id = ?)'' 1
      [AILSA_DB_LINT]]\<close>

definition argument_queries :: "ailsa_sql_query list" where
  "argument_queries = argument_queries_1 @ argument_queries_2 @ argument_queries_3 @ argument_queries_4 @ argument_queries_5"

definition insert_queries_1 :: "ailsa_sql_query list" where
  \<open>insert_queries_1 = [
    sql_query ''INSERT INTO contacts (name, phone, email, cust_id, cuser, muser) VALUES (?, ?, ?, ?, ?, ?)'' 6
      [AILSA_DB_TEXT, AILSA_DB_TEXT, AILSA_DB_TEXT, AILSA_DB_LINT, AILSA_DB_LINT, AILSA_DB_LINT],
    sql_query ''INSERT INTO server (name, make, model, vendor, uuid, cust_id, vm_server_id, cuser, muser) VALUES (?, ?, ?, ?, ?, ?, ?, ?, ?)'' 9
      [AILSA_DB_TEXT, AILSA_DB_TEXT, AILSA_DB_TEXT, AILSA_DB_TEXT, AILSA_DB_TEXT, AILSA_DB_LINT, AILSA_DB_LINT, AILSA_DB_LINT, AILSA_DB_LINT],
    sql_query ''INSERT INTO service_type (service, detail) VALUES (?, ?)'' 2
      [AILSA_DB_TEXT, AILSA_DB_TEXT],
    sql_query ''INSERT INTO hard_type (type, class) VALUES (?, ?)'' 2
      [AILSA_DB_TEXT, AILSA_DB_TEXT],
    sql_query ''INSERT INTO vm_server_hosts (vm_server, type, server_id, cuser, muser) VALUES (?, ?, ?, ?, ?)'' 5
      [AILSA_DB_TEXT, AILSA_DB_TEXT, AILSA_DB_LINT, AILSA_DB_LINT, AILSA_DB_LINT],
    sql_query ''INSERT INTO hardware (server_id, hard_type_id, detail, device, cuser, muser) VALUES (?, ?, ?, ?, ?, ?)'' 6
      [AILSA_DB_LINT, AILSA_DB_LINT, AILSA_DB_TEXT, AILSA_DB_TEXT, AILSA_DB_LINT, AILSA_DB_LINT],
    sql_query ''INSERT INTO services (server_id, cust_id, service_type_id, detail, url, cuser, muser) VALUES (?, ?, ?, ?, ?, ?, ?)'' 7
      [AILSA_DB_LINT, AILSA_DB_LINT, AILSA_DB_LINT, AILSA_DB_TEXT, AILSA_DB_TEXT, AILSA_DB_LINT, AILSA_DB_LINT],
    sql_query ''INSERT INTO customer (name, address, city, county, postcode, coid, cuser, muser) VALUES (?, ?, ?, ?, ?, ?, ?, ?)'' 8
      [AILSA_DB_TEXT, AILSA_DB_TEXT, AILSA_DB_TEXT, AILSA_DB_TEXT, AILSA_DB_TEXT, AILSA_DB_TEXT, AILSA_DB_LINT, AILSA_DB_LINT],
    sql_query ''INSERT INTO build_os (os, os_version, alias, ver_alias, arch, bt_id, cuser, muser) VALUES (?, ?, ?, ?, ?, ?, ?, ?)'' 8
      [AILSA_DB_TEXT, AILSA_DB_TEXT, AILSA_DB_TEXT, AILSA_DB_TEXT, AILSA_DB_TEXT, AILSA_DB_LINT, AILSA_DB_LINT, AILSA_DB_LINT],
    sql_query ''INSERT INTO packages (package, varient_id, os_id, cuser, muser) VALUES (?, ?, ?, ?, ?)'' 5
      [AILSA_DB_TEXT, AILSA_DB_LINT, AILSA_DB_LINT, AILSA_DB_LINT, AILSA_DB_LINT],
    sql_query ''INSERT INTO varient(varient, valias, cuser, muser) VALUES (?, ?, ?, ?)'' 4
      [AILSA_DB_TEXT, AILSA_DB_TEXT, AILSA_DB_LINT, AILSA_DB_LINT],
    sql_query ''INSERT INTO locale(locale, country, language, keymap, timezone, name, cuser, muser) VALUES (?, ?, ?, ?, ?, ?, ?, ?)'' 8
      [AILSA_DB_TEXT, AILSA_DB_TEXT, AILSA_DB_TEXT, AILSA_DB_TEXT, AILSA_DB_TEXT, AILSA_DB_TEXT, AILSA_DB_LINT, AILSA_DB_LINT],
    sql_query ''INSERT INTO seed_schemes (scheme_name, lvm, cuser, muser) VALUES (?, ?, ?, ?)'' 4
      [AILSA_DB_TEXT, AILSA_DB_SINT, AILSA_DB_LINT, AILSA_DB_LINT],
    sql_query ''INSERT INTO default_part (def_scheme_id, minimum, maximum, priority, mount_point, filesystem, logical_volume, cuser, muser) VALUES (?, ?, ?, ?, ?, ?, ?, ?, ?)'' 9
      [AILSA_DB_LINT, AILSA_DB_LINT, AILSA_DB_LINT, AILSA_DB_LINT, AILSA_DB_TEXT, AILSA_DB_TEXT, AILSA_DB_TEXT, AILSA_DB_LINT, AILSA_DB_LINT],
    sql_query ''INSERT INTO part_options (def_scheme_id, def_part_id, poption, cuser, muser) VALUES (?, ?, ?, ?, ?)'' 5
      [AILSA_DB_LINT, AILSA_DB_LINT, AILSA_DB_TEXT, AILSA_DB_LINT, AILSA_DB_LINT],
    sql_query ''INSERT INTO build_domain (start_ip, end_ip, ns, gateway, netmask, domain, config_ntp, ntp_server, cuser, muser) VALUES (?, ?, ?, ?, ?, ?, ?, ?, ?, ?)'' 10
      [AILSA_DB_LINT, AILSA_DB_LINT, AILSA_DB_LINT, AILSA_DB_LINT, AILSA_DB_LINT, AILSA_DB_TEXT, AILSA_DB_SINT, AILSA_DB_TEXT, AILSA_DB_LINT, AILSA_DB_LINT],
    sql_query ''INSERT INTO build_domain (start_ip, end_ip, ns, gateway, netmask, domain, cuser, muser) VALUES (?, ?, ?, ?, ?, ?, ?, ?)'' 8
      [AILSA_DB_LINT, AILSA_DB_LINT, AILSA_DB_LINT, AILSA_DB_LINT, AILSA_DB_LINT, AILSA_DB_TEXT, AILSA_DB_LINT, AILSA_DB_LINT],
    sql_query ''INSERT INTO zones (name, pri_dns, sec_dns, refresh, retry, expire, ttl, serial, type, cuser, muser) VALUES (?, ?, ?, ?, ?, ?, ?, ?, ?, ?, ?)'' 11
      [AILSA_DB_TEXT, AILSA_DB_TEXT, AILSA_DB_TEXT, AILSA_DB_LINT, AILSA_DB_LINT, AILSA_DB_LINT, AILSA_DB_LINT, AILSA_DB_LINT, AILSA_DB_TEXT, AILSA_DB_LINT, AILSA_DB_LINT],
    sql_query ''INSERT INTO zones (name, pri_dns, sec_dns, refresh, retry, expire, ttl, serial, type, master, cuser, muser) VALUES (?, ?, ?, ?, ?, ?, ?, ?, ?, ?, ?, ?)'' 12
      [AILSA_DB_TEXT, AILSA_DB_TEXT, AILSA_DB_TEXT, AILSA_DB_LINT, AILSA_DB_LINT, AILSA_DB_LINT, AILSA_DB_LINT, AILSA_DB_LINT, AILSA_DB_TEXT, AILSA_DB_TEXT, AILSA_DB_LINT, AILSA_DB_LINT],
    sql_query ''INSERT INTO system_packages (name, cuser, muser) VALUES (?, ?, ?)'' 3
      [AILSA_DB_TEXT, AILSA_DB_LINT, AILSA_DB_LINT],
    sql_query ''INSERT INTO system_package_args (field, type, syspack_id, cuser, muser) VALUES (?, ?, ?, ?, ?)'' 5
      [AILSA_DB_TEXT, AILSA_DB_TEXT, AILSA_DB_LINT, AILSA_DB_LINT, AILSA_DB_LINT],
    sql_query ''INSERT INTO system_package_conf (arg, syspack_id, syspack_arg_id, bd_id, cuser, muser) VALUES (?, ?, ?, ?, ?, ?)'' 6
      [AILSA_DB_TEXT, AILSA_DB_LINT, AILSA_DB_LINT, AILSA_DB_LINT, AILSA_DB_LINT, AILSA_DB_LINT],
    sql_query ''INSERT INTO system_scripts(name, cuser, muser) VALUES (?, ?, ?)'' 3
      [AILSA_DB_TEXT, AILSA_DB_LINT, AILSA_DB_LINT],
    sql_query ''INSERT INTO system_scripts_args(arg, no, systscr_id, bd_id, bt_id, cuser, muser) VALUES (?, ?, ?, ?, ?, ?, ?)'' 7
      [AILSA_DB_TEXT, AILSA_DB_LINT, AILSA_DB_LINT, AILSA_DB_LINT, AILSA_DB_LINT, AILSA_DB_LINT, AILSA_DB_LINT],
    sql_query ''INSERT INTO rev_zones (net_range, prefix, net_start, start_ip, net_finish, finish_ip, pri_dns, sec_dns, serial, refresh, retry, expire, ttl, type, master, valid, cuser, muser) VALUES (?, ?, ?, ?, ?, ?, ?, ?, ?, ?, ?, ?, ?, ?, ?, ?, ?, ?)'' 18
      [AILSA_DB_TEXT, AILSA_DB_TEXT, AILSA_DB_TEXT, AILSA_DB_LINT, AILSA_DB_TEXT, AILSA_DB_LINT, AILSA_DB_TEXT, AILSA_DB_TEXT, AILSA_DB_LINT, AILSA_DB_LINT, AILSA_DB_LINT, AILSA_DB_LINT, AILSA_DB_LINT, AILSA_DB_TEXT, AILSA_DB_TEXT, AILSA_DB_TEXT, AILSA_DB_LINT, AILSA_DB_LINT],
    sql_query ''INSERT INTO records (zone, type, host, destination, cuser, muser) VALUES (?, ?, ?, ?, ?, ?)'' 6
      [AILSA_DB_LINT, AILSA_DB_TEXT, AILSA_DB_TEXT, AILSA_DB_TEXT, AILSA_DB_LINT, AILSA_DB_LINT],
    sql_query ''INSERT INTO records (zone, type, host, destination, pri, cuser, muser) VALUES (?, ?, ?, ?, ?, ?, ?)'' 7
      [AILSA_DB_LINT, AILSA_DB_TEXT, AILSA_DB_TEXT, AILSA_DB_TEXT, AILSA_DB_LINT, AILSA_DB_LINT, AILSA_DB_LINT],
    sql_query ''INSERT INTO records (zone, type, host, destination, pri, protocol, service, cuser, muser) VALUES (?, ?, ?, ?, ?, ?, ?, ?, ?)'' 9
      [AILSA_DB_LINT, AILSA_DB_TEXT, AILSA_DB_TEXT, AILSA_DB_TEXT, AILSA_DB_LINT, AILSA_DB_TEXT, AILSA_DB_TEXT, AILSA_DB_LINT, AILSA_DB_LINT],
    sql_query ''INSERT INTO rev_records (rev_zone, zone_index, host, destination, cuser, muser) VALUES (?, ?, ?, ?, ?, ?)'' 6
      [AILSA_DB_LINT, AILSA_DB_LINT, AILSA_DB_TEXT, AILSA_DB_TEXT, AILSA_DB_LINT, AILSA_DB_LINT]]\<close>

definition insert_queries_2 :: "ailsa_sql_query list" where
  \<open>insert_queries_2 = [
    sql_query ''INSERT INTO glue_zones (zone_id, name, pri_ns, sec_ns, pri_dns, sec_dns, cuser, muser) VALUES (?, ?, ?, ?, ?, ?, ?, ?)'' 8
      [AILSA_DB_LINT, AILSA_DB_TEXT, AILSA_DB_TEXT, AILSA_DB_TEXT, AILSA_DB_TEXT, AILSA_DB_TEXT, AILSA_DB_LINT, AILSA_DB_LINT],
    sql_query ''INSERT INTO preferred_a (ip, ip_addr, record_id, fqdn, cuser, muser) VALUES (?, ?, ?, ?, ?, ?)'' 6
      [AILSA_DB_TEXT, AILSA_DB_LINT, AILSA_DB_LINT, AILSA_DB_TEXT, AILSA_DB_LINT, AILSA_DB_LINT],
    sql_query ''INSERT INTO disk_dev (server_id, device, lvm) VALUES (?, ?, ?)'' 3
      [AILSA_DB_LINT, AILSA_DB_TEXT, AILSA_DB_SINT],
    sql_query ''INSERT INTO build_ip (ip, hostname, domainname, bd_id, server_id, cuser, muser) VALUES (?, ?, ?, ?, ?, ?, ?)'' 7
      [AILSA_DB_LINT, AILSA_DB_TEXT, AILSA_DB_TEXT, AILSA_DB_LINT, AILSA_DB_LINT, AILSA_DB_LINT, AILSA_DB_LINT],
    sql_query ''INSERT INTO build (server_id, net_inst_int, mac_addr, varient_id, os_id, locale_id, def_scheme_id, ip_id, cuser, muser) VALUES (?, ?, ?, ?, ?, ?, ?, ?, ?, ?)'' 10
      [AILSA_DB_LINT, AILSA_DB_TEXT, AILSA_DB_TEXT, AILSA_DB_LINT, AILSA_DB_LINT, AILSA_DB_LINT, AILSA_DB_LINT, AILSA_DB_LINT, AILSA_DB_LINT, AILSA_DB_LINT],
    sql_query ''INSERT INTO default_os (os_id, cuser, muser) VALUES (?, ?, ?)'' 3
      [AILSA_DB_LINT, AILSA_DB_LINT, AILSA_DB_LINT],
    sql_query ''INSERT INTO default_scheme (def_scheme_id, cuser, muser) VALUES (?, ?, ?)'' 3
      [AILSA_DB_LINT, AILSA_DB_LINT, AILSA_DB_LINT],
    sql_query ''INSERT INTO default_varient (varient_id, cuser, muser) VALUES (?, ?, ?)'' 3
      [AILSA_DB_LINT, AILSA_DB_LINT, AILSA_DB_LINT],
    sql_query ''INSERT INTO default_domain (bd_id, cuser, muser) VALUES (?, ?, ?)'' 3
      [AILSA_DB_LINT, AILSA_DB_LINT, AILSA_DB_LINT],
    sql_query ''INSERT INTO default_customer(cust_id, cuser, muser) VALUES (?, ?, ?)'' 3
      [AILSA_DB_LINT, AILSA_DB_LINT, AILSA_DB_LINT],
    sql_query ''INSERT INTO identity(server_id, username, pass, hash, cuser, muser) VALUES (?, ?, ?, ?, ?, ?)'' 6
      [AILSA_DB_LINT, AILSA_DB_TEXT, AILSA_DB_TEXT, AILSA_DB_TEXT, AILSA_DB_LINT, AILSA_DB_LINT]]\<close>

definition insert_queries :: "ailsa_sql_query list" where
  "insert_queries = insert_queries_1 @ insert_queries_2"

definition delete_queries :: "ailsa_sql_query list" where
  \<open>delete_queries = [
    sql_query ''DELETE FROM build_os WHERE os_id = ?'' 1
      [AILSA_DB_LINT],
    sql_query ''DELETE FROM varient WHERE varient = ? OR valias = ?'' 2
      [AILSA_DB_TEXT, AILSA_DB_TEXT],
    sql_query ''DELETE FROM locale WHERE name = ?'' 1
      [AILSA_DB_TEXT],
    sql_query ''DELETE FROM part_options WHERE def_scheme_id = ? AND def_part_id = ? and poption = ?'' 3
      [AILSA_DB_LINT, AILSA_DB_LINT, AILSA_DB_TEXT],
    sql_query ''DELETE FROM default_part WHERE def_part_id = ?'' 1
      [AILSA_DB_LINT],
    sql_query ''DELETE FROM seed_schemes WHERE scheme_name = ?'' 1
      [AILSA_DB_TEXT],
    sql_query ''DELETE FROM build_domain WHERE domain = ?'' 1
      [AILSA_DB_TEXT],
    sql_query ''DELETE FROM system_package_conf WHERE arg = ? AND syspack_id = ? AND syspack_arg_id = ? AND bd_id = ?'' 4
      [AILSA_DB_TEXT, AILSA_DB_LINT, AILSA_DB_LINT, AILSA_DB_LINT],
    sql_query ''DELETE FROM system_package_args WHERE field = ? AND syspack_id = ?'' 2
      [AILSA_DB_TEXT, AILSA_DB_LINT],
    sql_query ''DELETE FROM system_packages WHERE name = ?'' 1
      [AILSA_DB_TEXT],
    sql_query ''DELETE FROM system_scripts_args WHERE systscr_arg_id = ?'' 1
      [AILSA_DB_LINT],
    sql_query ''DELETE FROM system_scripts WHERE systscr_id = ?'' 1
      [AILSA_DB_LINT],
    sql_query ''DELETE FROM zones WHERE id = ?'' 1
      [AILSA_DB_LINT],
    sql_query ''DELETE FROM rev_zones WHERE rev_zone_id = ?'' 1
      [AILSA_DB_LINT],
    sql_query ''DELETE FROM records WHERE zone = ? AND type = ? AND host = ?'' 3
      [AILSA_DB_LINT, AILSA_DB_TEXT, AILSA_DB_TEXT],
    sql_query ''DELETE FROM records WHERE zone = ? AND type = ? AND host = ? AND pri = ?'' 4
      [AILSA_DB_LINT, AILSA_DB_TEXT, AILSA_DB_TEXT, AILSA_DB_LINT],
    sql_query ''DELETE FROM records WHERE zone = ? AND type = ? AND host = ? AND pri = ? AND protocol = ? AND service = ?'' 6
      [AILSA_DB_LINT, AILSA_DB_TEXT, AILSA_DB_TEXT, AILSA_DB_LINT, AILSA_DB_TEXT, AILSA_DB_TEXT],
    sql_query ''DELETE FROM rev_records WHERE rev_record_id = ?'' 1
      [AILSA_DB_LINT],
    sql_query ''DELETE FROM glue_zones WHERE name = ?'' 1
      [AILSA_DB_TEXT],
    sql_query ''DELETE FROM preferred_a WHERE ip = ?'' 1
      [AILSA_DB_TEXT],
    sql_query ''DELETE FROM build_ip WHERE ip_id = ?'' 1
      [AILSA_DB_LINT],
    sql_query ''DELETE FROM disk_dev WHERE disk_id = ?'' 1
      [AILSA_DB_LINT],
    sql_query ''DELETE FROM build WHERE server_id = ?'' 1
      [AILSA_DB_LINT],
    sql_query ''DELETE FROM server WHERE server_id = ?'' 1
      [AILSA_DB_LINT],
    sql_query ''DELETE FROM identity WHERE server_id = ? and username = ?'' 2
      [AILSA_DB_LINT, AILSA_DB_TEXT],
    sql_query ''DELETE FROM customer WHERE cust_id = ?'' 1
      [AILSA_DB_LINT]]\<close>

definition update_queries :: "ailsa_sql_query list" where
  \<open>update_queries = [
    sql_query ''UPDATE default_locale SET locale_id = (SELECT locale_id FROM locale WHERE name = ?), muser = ?'' 2
      [AILSA_DB_TEXT, AILSA_DB_LINT],
    sql_query ''UPDATE seed_schemes SET muser = ? WHERE scheme_name = ?'' 2
      [AILSA_DB_LINT, AILSA_DB_TEXT],
    sql_query ''UPDATE build_domain SET ntp_server = ?, muser = ? WHERE domain = ?'' 3
      [AILSA_DB_TEXT, AILSA_DB_LINT, AILSA_DB_TEXT],
    sql_query ''UPDATE zones SET valid = ? WHERE name = ?'' 2
      [AILSA_DB_TEXT, AILSA_DB_TEXT],
    sql_query ''UPDATE zones SET serial = ?, updated = \'no\' WHERE name = ?'' 2
      [AILSA_DB_LINT, AILSA_DB_TEXT],
    sql_query ''UPDATE rev_zones SET valid = ? WHERE net_range = ?'' 2
      [AILSA_DB_TEXT, AILSA_DB_TEXT],
    sql_query ''UPDATE rev_zones SET serial = ?, updated = \'no\' WHERE net_range = ?'' 2
      [AILSA_DB_LINT, AILSA_DB_TEXT],
    sql_query ''UPDATE zones SET muser = ?, updated = \'yes\' WHERE id = ?'' 2
      [AILSA_DB_LINT, AILSA_DB_LINT],
    sql_query ''UPDATE zones SET muser = ?, updated = \'yes\' WHERE name = ?'' 2
      [AILSA_DB_LINT, AILSA_DB_TEXT],
    sql_query ''UPDATE rev_zones SET muser = ?, updated = \'yes\' WHERE net_range = ?'' 2
      [AILSA_DB_LINT, AILSA_DB_TEXT],
    sql_query ''UPDATE build SET varient_id = ?, os_id = ?, ip_id = ?, locale_id = ?,  def_scheme_id = ?, mac_addr = ?, net_inst_int = ?, muser = ?  WHERE server_id = ?'' 9
      [AILSA_DB_LINT, AILSA_DB_LINT, AILSA_DB_LINT, AILSA_DB_LINT, AILSA_DB_LINT, AILSA_DB_TEXT, AILSA_DB_TEXT, AILSA_DB_LINT, AILSA_DB_LINT],
    sql_query ''UPDATE disk_dev SET lvm = ? WHERE server_id = ?'' 2
      [AILSA_DB_SINT, AILSA_DB_LINT],
    sql_query ''UPDATE default_os SET os_id = ?, muser = ?'' 2
      [AILSA_DB_LINT, AILSA_DB_LINT],
    sql_query ''UPDATE default_scheme SET def_scheme_id = ?, muser = ?'' 2
      [AILSA_DB_LINT, AILSA_DB_LINT],
    sql_query ''UPDATE default_varient SET varient_id = ?, muser = ?'' 2
      [AILSA_DB_LINT, AILSA_DB_LINT],
    sql_query ''UPDATE default_domain SET bd_id = ?, muser = ?'' 2
      [AILSA_DB_LINT, AILSA_DB_LINT],
    sql_query ''UPDATE default_customer SET cust_id = ?, muser = ?'' 2
      [AILSA_DB_LINT, AILSA_DB_LINT],
    sql_query ''UPDATE identity SET pass = ?, hash = ?, muser = ? WHERE identity_id = ?'' 4
      [AILSA_DB_TEXT, AILSA_DB_TEXT, AILSA_DB_LINT, AILSA_DB_LINT],
    sql_query ''UPDATE varient SET varient = ?, valias = ? WHERE varient_id = ?'' 3
      [AILSA_DB_TEXT, AILSA_DB_TEXT, AILSA_DB_LINT]]\<close>

subsection \<open>The parameter types of the tables\<close>

lemma argument_fields: "map q_fields argument_queries = [
    [AILSA_DB_TEXT],
    [AILSA_DB_TEXT],
    [AILSA_DB_TEXT],
    [AILSA_DB_TEXT],
    [AILSA_DB_TEXT],
    [AILSA_DB_TEXT],
    [AILSA_DB_TEXT],
    [AILSA_DB_TEXT, AILSA_DB_TEXT, AILSA_DB_TEXT, AILSA_DB_LINT],
    [AILSA_DB_TEXT],
    [AILSA_DB_TEXT, AILSA_DB_TEXT],
    [AILSA_DB_TEXT, AILSA_DB_TEXT],
    [AILSA_DB_TEXT],
    [AILSA_DB_TEXT],
    [AILSA_DB_LINT, AILSA_DB_LINT, AILSA_DB_TEXT, AILSA_DB_TEXT],
    [AILSA_DB_TEXT],
    [AILSA_DB_LINT, AILSA_DB_LINT, AILSA_DB_LINT, AILSA_DB_TEXT, AILSA_DB_TEXT],
    [AILSA_DB_TEXT],
    [AILSA_DB_TEXT, AILSA_DB_TEXT, AILSA_DB_TEXT],
    [AILSA_DB_TEXT, AILSA_DB_TEXT],
    [AILSA_DB_TEXT, AILSA_DB_TEXT, AILSA_DB_TEXT, AILSA_DB_TEXT],
    [AILSA_DB_TEXT, AILSA_DB_TEXT, AILSA_DB_TEXT],
    [AILSA_DB_TEXT, AILSA_DB_TEXT, AILSA_DB_TEXT, AILSA_DB_TEXT, AILSA_DB_TEXT],
    [AILSA_DB_LINT, AILSA_DB_TEXT],
    [AILSA_DB_LINT],
    [AILSA_DB_LINT],
    [AILSA_DB_TEXT, AILSA_DB_TEXT],
    [AILSA_DB_LINT],
    [AILSA_DB_TEXT],
    [AILSA_DB_TEXT],
    [AILSA_DB_TEXT],
    [AILSA_DB_TEXT, AILSA_DB_TEXT],
    [AILSA_DB_TEXT, AILSA_DB_TEXT],
    [AILSA_DB_TEXT],
    [AILSA_DB_TEXT],
    [AILSA_DB_TEXT, AILSA_DB_TEXT],
    [AILSA_DB_LINT, AILSA_DB_LINT, AILSA_DB_TEXT],
    [AILSA_DB_TEXT],
    [AILSA_DB_LINT, AILSA_DB_LINT, AILSA_DB_LINT, AILSA_DB_LINT, AILSA_DB_LINT, AILSA_DB_LINT],
    [AILSA_DB_TEXT],
    [AILSA_DB_TEXT],
    [AILSA_DB_TEXT, AILSA_DB_TEXT],
    [AILSA_DB_TEXT, AILSA_DB_TEXT],
    [AILSA_DB_TEXT],
    [AILSA_DB_TEXT],
    [AILSA_DB_TEXT],
    [AILSA_DB_TEXT],
    [AILSA_DB_TEXT],
    [AILSA_DB_TEXT, AILSA_DB_TEXT],
    [AILSA_DB_TEXT, AILSA_DB_TEXT, AILSA_DB_TEXT],
    [AILSA_DB_TEXT],
    [AILSA_DB_TEXT],
    [AILSA_DB_TEXT, AILSA_DB_TEXT],
    [AILSA_DB_TEXT],
    [AILSA_DB_TEXT, AILSA_DB_TEXT],
    [AILSA_DB_TEXT],
    [AILSA_DB_TEXT],
    [AILSA_DB_TEXT, AILSA_DB_LINT, AILSA_DB_LINT, AILSA_DB_LINT, AILSA_DB_LINT],
    [AILSA_DB_TEXT],
    [AILSA_DB_TEXT, AILSA_DB_TEXT],
    [AILSA_DB_TEXT],
    [AILSA_DB_TEXT],
    [AILSA_DB_TEXT],
    [AILSA_DB_LINT],
    [AILSA_DB_TEXT],
    [AILSA_DB_TEXT, AILSA_DB_LINT],
    [AILSA_DB_TEXT, AILSA_DB_LINT],
    [AILSA_DB_LINT, AILSA_DB_TEXT, AILSA_DB_TEXT, AILSA_DB_TEXT],
    [AILSA_DB_LINT, AILSA_DB_TEXT, AILSA_DB_TEXT, AILSA_DB_TEXT, AILSA_DB_LINT],
    [AILSA_DB_LINT, AILSA_DB_TEXT, AILSA_DB_TEXT, AILSA_DB_TEXT, AILSA_DB_LINT, AILSA_DB_TEXT, AILSA_DB_TEXT],
    [AILSA_DB_LINT, AILSA_DB_TEXT],
    [AILSA_DB_LINT, AILSA_DB_TEXT],
    [AILSA_DB_LINT, AILSA_DB_TEXT, AILSA_DB_TEXT],
    [AILSA_DB_LINT, AILSA_DB_TEXT, AILSA_DB_TEXT, AILSA_DB_LINT],
    [AILSA_DB_LINT, AILSA_DB_TEXT, AILSA_DB_TEXT, AILSA_DB_LINT, AILSA_DB_TEXT, AILSA_DB_TEXT],
    [AILSA_DB_TEXT],
    [AILSA_DB_TEXT],
    [AILSA_DB_TEXT],
    [AILSA_DB_TEXT],
    [AILSA_DB_TEXT],
    [AILSA_DB_TEXT],
    [AILSA_DB_TEXT],
    [AILSA_DB_TEXT],
    [AILSA_DB_LINT, AILSA_DB_TEXT],
    [AILSA_DB_LINT],
    [AILSA_DB_LINT],
    [AILSA_DB_TEXT],
    [AILSA_DB_LINT],
    [AILSA_DB_TEXT],
    [AILSA_DB_LINT, AILSA_DB_TEXT],
    [AILSA_DB_TEXT],
    [AILSA_DB_TEXT],
    [AILSA_DB_LINT],
    [AILSA_DB_TEXT],
    [AILSA_DB_TEXT],
    [AILSA_DB_LINT],
    [AILSA_DB_LINT],
    [AILSA_DB_LINT],
    [AILSA_DB_LINT],
    [AILSA_DB_LINT],
    [AILSA_DB_LINT],
    [AILSA_DB_LINT],
    [AILSA_DB_LINT],
    [AILSA_DB_TEXT],
    [AILSA_DB_LINT],
    [AILSA_DB_LINT],
    [AILSA_DB_LINT],
    [AILSA_DB_LINT],
    [AILSA_DB_LINT],
    [AILSA_DB_LINT],
    [AILSA_DB_LINT],
    [AILSA_DB_LINT],
    [AILSA_DB_TEXT, AILSA_DB_TEXT],
    [AILSA_DB_LINT],
    [AILSA_DB_TEXT, AILSA_DB_TEXT],
    [AILSA_DB_LINT],
    [AILSA_DB_TEXT],
    [AILSA_DB_TEXT, AILSA_DB_LINT, AILSA_DB_LINT],
    [AILSA_DB_LINT, AILSA_DB_TEXT],
    [AILSA_DB_TEXT],
    [AILSA_DB_TEXT],
    [AILSA_DB_LINT, AILSA_DB_LINT, AILSA_DB_LINT, AILSA_DB_LINT, AILSA_DB_LINT, AILSA_DB_LINT],
    [AILSA_DB_TEXT],
    [AILSA_DB_TEXT],
    [AILSA_DB_LINT]]"
  by (simp add: argument_queries_def argument_queries_1_def argument_queries_2_def argument_queries_3_def argument_queries_4_def argument_queries_5_def)

lemma argument_fields_length: "length argument_queries = 124"
  by (simp add: argument_queries_def argument_queries_1_def argument_queries_2_def argument_queries_3_def argument_queries_4_def argument_queries_5_def)

lemma insert_fields: "map q_fields insert_queries = [
    [AILSA_DB_TEXT, AILSA_DB_TEXT, AILSA_DB_TEXT, AILSA_DB_LINT, AILSA_DB_LINT, AILSA_DB_LINT],
    [AILSA_DB_TEXT, AILSA_DB_TEXT, AILSA_DB_TEXT, AILSA_DB_TEXT, AILSA_DB_TEXT, AILSA_DB_LINT, AILSA_DB_LINT, AILSA_DB_LINT, AILSA_DB_LINT],
    [AILSA_DB_TEXT, AILSA_DB_TEXT],
    [AILSA_DB_TEXT, AILSA_DB_TEXT],
    [AILSA_DB_TEXT, AILSA_DB_TEXT, AILSA_DB_LINT, AILSA_DB_LINT, AILSA_DB_LINT],
    [AILSA_DB_LINT, AILSA_DB_LINT, AILSA_DB_TEXT, AILSA_DB_TEXT, AILSA_DB_LINT, AILSA_DB_LINT],
    [AILSA_DB_LINT, AILSA_DB_LINT, AILSA_DB_LINT, AILSA_DB_TEXT, AILSA_DB_TEXT, AILSA_DB_LINT, AILSA_DB_LINT],
    [AILSA_DB_TEXT, AILSA_DB_TEXT, AILSA_DB_TEXT, AILSA_DB_TEXT, AILSA_DB_TEXT, AILSA_DB_TEXT, AILSA_DB_LINT, AILSA_DB_LINT],
    [AILSA_DB_TEXT, AILSA_DB_TEXT, AILSA_DB_TEXT, AILSA_DB_TEXT, AILSA_DB_TEXT, AILSA_DB_LINT, AILSA_DB_LINT, AILSA_DB_LINT],
    [AILSA_DB_TEXT, AILSA_DB_LINT, AILSA_DB_LINT, AILSA_DB_LINT, AILSA_DB_LINT],
    [AILSA_DB_TEXT, AILSA_DB_TEXT, AILSA_DB_LINT, AILSA_DB_LINT],
    [AILSA_DB_TEXT, AILSA_DB_TEXT, AILSA_DB_TEXT, AILSA_DB_TEXT, AILSA_DB_TEXT, AILSA_DB_TEXT, AILSA_DB_LINT, AILSA_DB_LINT],
    [AILSA_DB_TEXT, AILSA_DB_SINT, AILSA_DB_LINT, AILSA_DB_LINT],
    [AILSA_DB_LINT, AILSA_DB_LINT, AILSA_DB_LINT, AILSA_DB_LINT, AILSA_DB_TEXT, AILSA_DB_TEXT, AILSA_DB_TEXT, AILSA_DB_LINT, AILSA_DB_LINT],
    [AILSA_DB_LINT, AILSA_DB_LINT, AILSA_DB_TEXT, AILSA_DB_LINT, AILSA_DB_LINT],
    [AILSA_DB_LINT, AILSA_DB_LINT, AILSA_DB_LINT, AILSA_DB_LINT, AILSA_DB_LINT, AILSA_DB_TEXT, AILSA_DB_SINT, AILSA_DB_TEXT, AILSA_DB_LINT, AILSA_DB_LINT],
    [AILSA_DB_LINT, AILSA_DB_LINT, AILSA_DB_LINT, AILSA_DB_LINT, AILSA_DB_LINT, AILSA_DB_TEXT, AILSA_DB_LINT, AILSA_DB_LINT],
    [AILSA_DB_TEXT, AILSA_DB_TEXT, AILSA_DB_TEXT, AILSA_DB_LINT, AILSA_DB_LINT, AILSA_DB_LINT, AILSA_DB_LINT, AILSA_DB_LINT, AILSA_DB_TEXT, AILSA_DB_LINT, AILSA_DB_LINT],
    [AILSA_DB_TEXT, AILSA_DB_TEXT, AILSA_DB_TEXT, AILSA_DB_LINT, AILSA_DB_LINT, AILSA_DB_LINT, AILSA_DB_LINT, AILSA_DB_LINT, AILSA_DB_TEXT, AILSA_DB_TEXT, AILSA_DB_LINT, AILSA_DB_LINT],
    [AILSA_DB_TEXT, AILSA_DB_LINT, AILSA_DB_LINT],
    [AILSA_DB_TEXT, AILSA_DB_TEXT, AILSA_DB_LINT, AILSA_DB_LINT, AILSA_DB_LINT],
    [AILSA_DB_TEXT, AILSA_DB_LINT, AILSA_DB_LINT, AILSA_DB_LINT, AILSA_DB_LINT, AILSA_DB_LINT],
    [AILSA_DB_TEXT, AILSA_DB_LINT, AILSA_DB_LINT],
    [AILSA_DB_TEXT, AILSA_DB_LINT, AILSA_DB_LINT, AILSA_DB_LINT, AILSA_DB_LINT, AILSA_DB_LINT, AILSA_DB_LINT],
    [AILSA_DB_TEXT, AILSA_DB_TEXT, AILSA_DB_TEXT, AILSA_DB_LINT, AILSA_DB_TEXT, AILSA_DB_LINT, AILSA_DB_TEXT, AILSA_DB_TEXT, AILSA_DB_LINT, AILSA_DB_LINT, AILSA_DB_LINT, AILSA_DB_LINT, AILSA_DB_LINT, AILSA_DB_TEXT, AILSA_DB_TEXT, AILSA_DB_TEXT, AILSA_DB_LINT, AILSA_DB_LINT],
    [AILSA_DB_LINT, AILSA_DB_TEXT, AILSA_DB_TEXT, AILSA_DB_TEXT, AILSA_DB_LINT, AILSA_DB_LINT],
    [AILSA_DB_LINT, AILSA_DB_TEXT, AILSA_DB_TEXT, AILSA_DB_TEXT, AILSA_DB_LINT, AILSA_DB_LINT, AILSA_DB_LINT],
    [AILSA_DB_LINT, AILSA_DB_TEXT, AILSA_DB_TEXT, AILSA_DB_TEXT, AILSA_DB_LINT, AILSA_DB_TEXT, AILSA_DB_TEXT, AILSA_DB_LINT, AILSA_DB_LINT],
    [AILSA_DB_LINT, AILSA_DB_LINT, AILSA_DB_TEXT, AILSA_DB_TEXT, AILSA_DB_LINT, AILSA_DB_LINT],
    [AILSA_DB_LINT, AILSA_DB_TEXT, AILSA_DB_TEXT, AILSA_DB_TEXT, AILSA_DB_TEXT, AILSA_DB_TEXT, AILSA_DB_LINT, AILSA_DB_LINT],
    [AILSA_DB_TEXT, AILSA_DB_LINT, AILSA_DB_LINT, AILSA_DB_TEXT, AILSA_DB_LINT, AILSA_DB_LINT],
    [AILSA_DB_LINT, AILSA_DB_TEXT, AILSA_DB_SINT],
    [AILSA_DB_LINT, AILSA_DB_TEXT, AILSA_DB_TEXT, AILSA_DB_LINT, AILSA_DB_LINT, AILSA_DB_LINT, AILSA_DB_LINT],
    [AILSA_DB_LINT, AILSA_DB_TEXT, AILSA_DB_TEXT, AILSA_DB_LINT, AILSA_DB_LINT, AILSA_DB_LINT, AILSA_DB_LINT, AILSA_DB_LINT, AILSA_DB_LINT, AILSA_DB_LINT],
    [AILSA_DB_LINT, AILSA_DB_LINT, AILSA_DB_LINT],
    [AILSA_DB_LINT, AILSA_DB_LINT, AILSA_DB_LINT],
    [AILSA_DB_LINT, AILSA_DB_LINT, AILSA_DB_LINT],
    [AILSA_DB_LINT, AILSA_DB_LINT, AILSA_DB_LINT],
    [AILSA_DB_LINT, AILSA_DB_LINT, AILSA_DB_LINT],
    [AILSA_DB_LINT, AILSA_DB_TEXT, AILSA_DB_TEXT, AILSA_DB_TEXT, AILSA_DB_LINT, AILSA_DB_LINT]]"
  by (simp add: insert_queries_def insert_queries_1_def insert_queries_2_def)

lemma insert_fields_length: "length insert_queries = 40"
  by (simp add: insert_queries_def insert_queries_1_def insert_queries_2_def)

lemma delete_fields: "map q_fields delete_queries = [
    [AILSA_DB_LINT],
    [AILSA_DB_TEXT, AILSA_DB_TEXT],
    [AILSA_DB_TEXT],
    [AILSA_DB_LINT, AILSA_DB_LINT, AILSA_DB_TEXT],
    [AILSA_DB_LINT],
    [AILSA_DB_TEXT],
    [AILSA_DB_TEXT],
    [AILSA_DB_TEXT, AILSA_DB_LINT, AILSA_DB_LINT, AILSA_DB_LINT],
    [AILSA_DB_TEXT, AILSA_DB_LINT],
    [AILSA_DB_TEXT],
    [AILSA_DB_LINT],
    [AILSA_DB_LINT],
    [AILSA_DB_LINT],
    [AILSA_DB_LINT],
    [AILSA_DB_LINT, AILSA_DB_TEXT, AILSA_DB_TEXT],
    [AILSA_DB_LINT, AILSA_DB_TEXT, AILSA_DB_TEXT, AILSA_DB_LINT],
    [AILSA_DB_LINT, AILSA_DB_TEXT, AILSA_DB_TEXT, AILSA_DB_LINT, AILSA_DB_TEXT, AILSA_DB_TEXT],
    [AILSA_DB_LINT],
    [AILSA_DB_TEXT],
    [AILSA_DB_TEXT],
    [AILSA_DB_LINT],
    [AILSA_DB_LINT],
    [AILSA_DB_LINT],
    [AILSA_DB_LINT],
    [AILSA_DB_LINT, AILSA_DB_TEXT],
    [AILSA_DB_LINT]]"
  by (simp add: delete_queries_def)

lemma delete_fields_length: "length delete_queries = 26"
  by (simp add: delete_queries_def)

lemma update_fields: "map q_fields update_queries = [
    [AILSA_DB_TEXT, AILSA_DB_LINT],
    [AILSA_DB_LINT, AILSA_DB_TEXT],
    [AILSA_DB_TEXT, AILSA_DB_LINT, AILSA_DB_TEXT],
    [AILSA_DB_TEXT, AILSA_DB_TEXT],
    [AILSA_DB_LINT, AILSA_DB_TEXT],
    [AILSA_DB_TEXT, AILSA_DB_TEXT],
    [AILSA_DB_LINT, AILSA_DB_TEXT],
    [AILSA_DB_LINT, AILSA_DB_LINT],
    [AILSA_DB_LINT, AILSA_DB_TEXT],
    [AILSA_DB_LINT, AILSA_DB_TEXT],
    [AILSA_DB_LINT, AILSA_DB_LINT, AILSA_DB_LINT, AILSA_DB_LINT, AILSA_DB_LINT, AILSA_DB_TEXT, AILSA_DB_TEXT, AILSA_DB_LINT, AILSA_DB_LINT],
    [AILSA_DB_SINT, AILSA_DB_LINT],
    [AILSA_DB_LINT, AILSA_DB_LINT],
    [AILSA_DB_LINT, AILSA_DB_LINT],
    [AILSA_DB_LINT, AILSA_DB_LINT],
    [AILSA_DB_LINT, AILSA_DB_LINT],
    [AILSA_DB_LINT, AILSA_DB_LINT],
    [AILSA_DB_TEXT, AILSA_DB_TEXT, AILSA_DB_LINT, AILSA_DB_LINT],
    [AILSA_DB_TEXT, AILSA_DB_TEXT, AILSA_DB_LINT]]"
  by (simp add: update_queries_def)

lemma update_fields_length: "length update_queries = 19"
  by (simp add: update_queries_def)

lemma basic_queries_length: "length basic_queries = 38"
  by (simp add: basic_queries_def)

text \<open>The types of a statement that is known by its number.\<close>

lemma nth_fields:
  "n < length qs \<Longrightarrow> q_fields (qs ! n) = map q_fields qs ! n"
  by simp

lemmas statement_fields =
  nth_fields [of _ argument_queries] nth_fields [of _ insert_queries]
  nth_fields [of _ delete_queries] nth_fields [of _ update_queries]

lemmas table_lengths = argument_fields_length insert_fields_length delete_fields_length
  update_fields_length basic_queries_length

end
