(* ===== verification/Sql_Exec.thy ===== *)
theory Sql_Exec
  imports Sql_Queries
begin

text \<open>
  The executing half of lib/queries.c and lib/sql.c: binding a list of arguments to a statement,
  stepping it, storing the rows, the dispatch on the configured database type, and the statements
  built at run time for several rows (\<open>cmdb_create_multi\<close>) or several keys
  (\<open>cmdb_create_delete_multi\<close>).
\<close>

subsection \<open>Opening and closing (sql.c)\<close>

text \<open>
  \<open>ailsa_setup_ro_sqlite\<close> returns the prepared statement's text: at most \<open>BUFFER_LEN\<close> bytes of the
  query are read.  A connection that was opened is counted until it is closed.
\<close>

definition opened :: "'db world \<Rightarrow> 'db world" where
  "opened w = w\<lparr>w_open := w_open w + 1\<rparr>"

definition ailsa_sqlite_cleanup :: "'db world \<Rightarrow> 'db world" where
  "ailsa_sqlite_cleanup w = w\<lparr>w_open := w_open w - 1\<rparr>"

definition ailsa_setup_ro_sqlite ::
  "'db sqlite3_api \<Rightarrow> string \<Rightarrow> cstr \<Rightarrow> 'db world \<Rightarrow> int \<times> string \<times> 'db world" where
  "ailsa_setup_ro_sqlite api query file w =
    (if s3_open api (w_db w) file False > 0 then (AILSA_SQL_FILE_INIT_FAIL, [], w)
     else
       let w = opened w; stmt = take BUFFER_LEN query; retval = s3_prepare api (w_db w) stmt
       in if retval > 0 then (AILSA_STATEMENT_FAIL, [], ailsa_sqlite_cleanup w)
          else (retval, stmt, w))"

definition ailsa_setup_rw_sqlite ::
  "'db sqlite3_api \<Rightarrow> string \<Rightarrow> nat \<Rightarrow> cstr \<Rightarrow> 'db world \<Rightarrow> int \<times> string \<times> 'db world" where
  "ailsa_setup_rw_sqlite api query len file w =
    (if s3_open api (w_db w) file True > 0 then (AILSA_SQL_FILE_INIT_FAIL, [], w)
     else
       let w = opened w; stmt = take len query; retval = s3_prepare api (w_db w) stmt
       in if retval > 0 then (AILSA_STATEMENT_FAIL, [], ailsa_sqlite_cleanup w)
          else (retval, stmt, w))"

subsection \<open>Binding arguments and storing rows\<close>

text \<open>\<open>f[i]\<close> of the 20 entries of \<open>fields\<close>: the ones the table does not give are 0.\<close>

definition field_at :: "db_type list \<Rightarrow> nat \<Rightarrow> db_type" where
  "field_at fs i = (if i < length fs then fs ! i else AILSA_DB_NULL)"

text \<open>The value bound for one argument, or the code of an unknown type; \<open>None\<close> when the code would
  read a union member that was not written, or take the length of a NULL text.\<close>

fun bind_value :: "db_type \<Rightarrow> ailsa_data \<Rightarrow> (int + sql_value) option" where
  "bind_value AILSA_DB_LINT d = do { n \<leftarrow> get_number d; Some (Inr (SQL_INT n)) }"
| "bind_value AILSA_DB_TEXT d = do { t \<leftarrow> get_text d; s \<leftarrow> t; Some (Inr (SQL_TEXT s)) }"
| "bind_value AILSA_DB_FLOAT d = do { x \<leftarrow> get_point d; Some (Inr (SQL_FLOAT x)) }"
| "bind_value AILSA_DB_SINT d = do { n \<leftarrow> get_small d; Some (Inr (SQL_INT (scast n))) }"
| "bind_value _ d = Some (Inl AILSA_INVALID_DBTYPE)"

text \<open>The test after the call: the text case goes on unless the code is positive.\<close>

definition bind_failed :: "db_type \<Rightarrow> int \<Rightarrow> bool" where
  "bind_failed f retval \<longleftrightarrow> (if f = AILSA_DB_TEXT then retval > 0 else retval \<noteq> 0)"

text \<open>The loop: \<open>fs\<close> are the types of the arguments still to bind, \<open>i\<close> how many are bound, \<open>tmp\<close>
  the rest of the list, \<open>bound\<close> the values bound so far.\<close>

fun bind_loop :: "'db sqlite3_api \<Rightarrow> 'db \<Rightarrow> string \<Rightarrow> db_type list \<Rightarrow> nat \<Rightarrow> ailsa_data list \<Rightarrow> int \<Rightarrow>
  sql_value list \<Rightarrow> (int \<times> sql_value list) option" where
  "bind_loop api db stmt [] i tmp retval bound = Some (retval, bound)"
| "bind_loop api db stmt (f # fs) i [] retval bound = Some (AILSA_WRONG_LIST_LENGHT, bound)"
| "bind_loop api db stmt (f # fs) i (data # tmp) retval bound = do {
     r \<leftarrow> bind_value f data;
     (case r of
        Inl e \<Rightarrow> Some (e, bound)
      | Inr v \<Rightarrow>
          let retval = s3_bind api db stmt (i + 1) v in
          if bind_failed f retval then Some (retval, bound)
          else bind_loop api db stmt fs (i + 1) tmp retval (bound @ [v]))
   }"

definition ailsa_bind_arguments_sqlite ::
  "'db sqlite3_api \<Rightarrow> 'db \<Rightarrow> string \<Rightarrow> db_list \<Rightarrow> nat \<Rightarrow> db_type list \<Rightarrow>
   (int \<times> sql_value list) option" where
  "ailsa_bind_arguments_sqlite api db stmt args t f = (case args of
     None \<Rightarrow> Some (AILSA_NO_DATA, [])
   | Some l \<Rightarrow> bind_loop api db stmt (map (field_at f) [0..<t]) 0 l 0 [])"

text \<open>A column of an unknown type leaves the zeroed object.\<close>

fun store_column :: "sql_value \<Rightarrow> ailsa_data" where
  "store_column (SQL_INT n) = D_LINT n"
| "store_column (SQL_TEXT s) = D_TEXT (strndup s SQL_TEXT_MAX)"
| "store_column (SQL_FLOAT x) = D_FLOAT x"
| "store_column SQL_NULL = D_NULL"
| "store_column SQL_BLOB = D_NULL"

definition ailsa_store_basic_sqlite :: "sql_value list \<Rightarrow> db_list \<Rightarrow> db_list" where
  "ailsa_store_basic_sqlite row results = (case results of None \<Rightarrow> None
     | Some l \<Rightarrow> Some (fold (\<lambda>c l. l @ [store_column c]) row l))"

text \<open>\<open>while ((retval = sqlite3_step(state)) == SQLITE_ROW) ailsa_store_basic_sqlite(state, results);\<close>\<close>

definition step_rows ::
  "'db sqlite3_api \<Rightarrow> 'db \<Rightarrow> string \<Rightarrow> sql_value list \<Rightarrow> db_list \<Rightarrow> int \<times> db_list" where
  "step_rows api db stmt bound results =
    (let (rows, retval) = s3_rows api db stmt bound
     in (retval, fold ailsa_store_basic_sqlite rows results))"

subsection \<open>The SQLite queries\<close>

definition done_code :: "int \<Rightarrow> int" where
  "done_code retval = (if retval = SQLITE_DONE then 0 else retval)"

definition ailsa_basic_query_sqlite ::
  "'db sqlite3_api \<Rightarrow> 'db world \<Rightarrow> ailsa_cmdb_s option \<Rightarrow> string \<Rightarrow> db_list \<Rightarrow> 'db query_result" where
  "ailsa_basic_query_sqlite api w cmdb query results = (case cmdb of
     None \<Rightarrow> Some (AILSA_NO_DATA, w, results)
   | Some cc \<Rightarrow>
     if results = None then Some (AILSA_NO_DATA, w, results)
     else let (retval, stmt, w) = ailsa_setup_ro_sqlite api query (cc_file cc) w in
       if retval \<noteq> 0 then Some (retval, w, results)
       else let (retval, results) = step_rows api (w_db w) stmt [] results
            in Some (done_code retval, ailsa_sqlite_cleanup w, results))"

definition ailsa_argument_query_sqlite ::
  "'db sqlite3_api \<Rightarrow> 'db world \<Rightarrow> ailsa_cmdb_s option \<Rightarrow> ailsa_sql_query \<Rightarrow> db_list \<Rightarrow> db_list \<Rightarrow>
   'db query_result" where
  "ailsa_argument_query_sqlite api w cmdb argument args results = (case cmdb of
     None \<Rightarrow> Some (AILSA_NO_DATA, w, results)
   | Some cc \<Rightarrow>
     if args = None \<or> results = None then Some (AILSA_NO_DATA, w, results)
     else let (retval, stmt, w) = ailsa_setup_ro_sqlite api (q_query argument) (cc_file cc) w in
       if retval \<noteq> 0 then Some (retval, w, results)
       else do {
         (retval, bound) \<leftarrow>
           ailsa_bind_arguments_sqlite api (w_db w) stmt args (q_number argument) (q_fields argument);
         if retval \<noteq> 0 then Some (retval, w, results)
         else let (retval, results) = step_rows api (w_db w) stmt bound results
              in Some (done_code retval, ailsa_sqlite_cleanup w, results)
       })"

text \<open>The three writing queries share their text but for the messages they log.\<close>

definition write_sqlite ::
  "'db sqlite3_api \<Rightarrow> 'db world \<Rightarrow> ailsa_cmdb_s \<Rightarrow> string \<Rightarrow> nat \<Rightarrow> db_type list \<Rightarrow> db_list \<Rightarrow>
   (int \<times> 'db world) option" where
  "write_sqlite api w cc query t f args =
    (let (retval, stmt, w) = ailsa_setup_rw_sqlite api query (length query) (cc_file cc) w in
       if retval \<noteq> 0 then Some (retval, w)
       else do {
         (retval, bound) \<leftarrow> ailsa_bind_arguments_sqlite api (w_db w) stmt args t f;
         if retval \<noteq> 0 then Some (done_code retval, ailsa_sqlite_cleanup w)
         else let (retval, db) = s3_write api (w_db w) stmt bound; w = w\<lparr>w_db := db\<rparr> in
           if retval \<noteq> SQLITE_DONE then Some (AILSA_STATEMENT_FAIL, ailsa_sqlite_cleanup w)
           else Some (done_code retval, ailsa_sqlite_cleanup w)
       })"

definition ailsa_delete_query_sqlite ::
  "'db sqlite3_api \<Rightarrow> 'db world \<Rightarrow> ailsa_cmdb_s option \<Rightarrow> ailsa_sql_query \<Rightarrow> db_list \<Rightarrow>
   (int \<times> 'db world) option" where
  "ailsa_delete_query_sqlite api w cmdb query del = (case cmdb of
     None \<Rightarrow> Some (AILSA_NO_DATA, w)
   | Some cc \<Rightarrow> if del = None then Some (AILSA_NO_DATA, w)
       else write_sqlite api w cc (q_query query) (q_number query) (q_fields query) del)"

definition ailsa_insert_query_sqlite ::
  "'db sqlite3_api \<Rightarrow> 'db world \<Rightarrow> ailsa_cmdb_s option \<Rightarrow> ailsa_sql_query \<Rightarrow> db_list \<Rightarrow>
   (int \<times> 'db world) option" where
  "ailsa_insert_query_sqlite api w cmdb query ins = (case cmdb of
     None \<Rightarrow> Some (AILSA_NO_DATA, w)
   | Some cc \<Rightarrow> if ins = None then Some (AILSA_NO_DATA, w)
       else write_sqlite api w cc (q_query query) (q_number query) (q_fields query) ins)"

record ailsa_sql_multi =
  m_query :: string
  m_number :: nat
  m_total :: nat
  m_fields :: "db_type list"

definition ailsa_multiple_query_sqlite ::
  "'db sqlite3_api \<Rightarrow> 'db world \<Rightarrow> ailsa_cmdb_s option \<Rightarrow> ailsa_sql_multi \<Rightarrow> db_list \<Rightarrow>
   (int \<times> 'db world) option" where
  "ailsa_multiple_query_sqlite api w cmdb sql ins = (case cmdb of
     None \<Rightarrow> Some (AILSA_NO_DATA, w)
   | Some cc \<Rightarrow> if ins = None then Some (AILSA_NO_DATA, w)
       else write_sqlite api w cc (m_query sql) (m_total sql) (m_fields sql) ins)"

subsection \<open>Statements for several rows\<close>

text \<open>\<open>sprintf(buf + off, "%s", s)\<close> into a zeroed buffer of \<open>n\<close> bytes that holds the string \<open>buf\<close>;
  \<open>None\<close> when the text and its NUL do not fit.\<close>

definition sprintf_at :: "nat \<Rightarrow> string \<Rightarrow> nat \<Rightarrow> string \<Rightarrow> string option" where
  "sprintf_at n buf off s = (if off + length s < n then Some (take off buf @ s) else None)"

fun value_marks :: "nat \<Rightarrow> nat \<Rightarrow> string \<Rightarrow> string option" where
  "value_marks n 0 value = Some value"
| "value_marks n (Suc c) value = do {
     value \<leftarrow> sprintf_at n value (length value) ''?, '';
     value_marks n c value }"

definition cmdb_create_value_string :: "ailsa_sql_query \<Rightarrow> string option" where
  "cmdb_create_value_string query = do {
     let n = q_number query * 3 + 4;
     value \<leftarrow> sprintf_at n [] 0 '', ('';
     value \<leftarrow> value_marks n (q_number query) value;
     sprintf_at n value (length value - 2) '')''
   }"

definition cmdb_insert_fields_array :: "nat \<Rightarrow> nat \<Rightarrow> db_type list \<Rightarrow> db_type list" where
  "cmdb_insert_fields_array n tot f =
    (let u = (tot mod 2 ^ 32) div n in
     fold (\<lambda>i m. fold (\<lambda>j m. m[(if i > 0 then i * n + j else j) := field_at f j]) [0..<n] m)
       [0..<u] (replicate tot AILSA_DB_NULL))"

fun append_values :: "nat \<Rightarrow> nat \<Rightarrow> string \<Rightarrow> nat \<Rightarrow> string \<Rightarrow> string option" where
  "append_values n 0 q len_q values = Some q"
| "append_values n (Suc i) q len_q values = do {
     q \<leftarrow> sprintf_at n q len_q values;
     append_values n i q (len_q + length values) values }"

text \<open>\<open>sql\<close> is the caller's fresh structure, never NULL; a query without parameters would divide by
  zero.\<close>

definition cmdb_create_multi :: "ailsa_sql_query \<Rightarrow> nat \<Rightarrow> (int \<times> ailsa_sql_multi option) option" where
  "cmdb_create_multi query items =
    (if items = 0 then Some (AILSA_NO_DATA, None)
     else if q_number query = 0 then None
     else do {
       let n = q_number query;
       let len_q = length (q_query query);
       values \<leftarrow> cmdb_create_value_string query;
       let len_s = length values;
       let len_t = items div n;
       let tot = len_s * len_t + len_q;
       let u = cmdb_insert_fields_array n items (q_fields query);
       q \<leftarrow> sprintf_at tot [] 0 (q_query query);
       q \<leftarrow> append_values tot (len_t - 1) q len_q values;
       Some (0, Some \<lparr>m_query = q, m_number = n, m_total = items, m_fields = u\<rparr>)
     })"

fun key_marks :: "nat \<Rightarrow> nat \<Rightarrow> string \<Rightarrow> nat \<Rightarrow> string option" where
  "key_marks n 0 q tmp = Some q"
| "key_marks n (Suc i) q tmp = do {
     q \<leftarrow> sprintf_at n q tmp ''?, '';
     key_marks n i q (tmp + 3) }"

definition cmdb_create_delete_multi ::
  "ailsa_sql_query \<Rightarrow> nat \<Rightarrow> (int \<times> ailsa_sql_multi option) option" where
  "cmdb_create_delete_multi query items =
    (if items = 0 then Some (AILSA_NO_DATA, None)
     else if q_number query \<noteq> 1 then Some (AILSA_WRONG_LIST_LENGHT, None)
     else
       let len_s = items * 3 + 3 + length (q_query query); field = field_at (q_fields query) 0
       in (case strrchr (q_query query) (CHR ''='') of
         None \<Rightarrow> Some (AILSA_QUERY_FAIL, None)
       | Some tmp \<Rightarrow> do {
           q \<leftarrow> sprintf_at len_s [] 0 (q_query query);
           q \<leftarrow> sprintf_at len_s q tmp ''IN ('';
           q \<leftarrow> key_marks len_s items q (tmp + 4);
           q \<leftarrow> sprintf_at len_s q (tmp + 4 + 3 * items - 2) '')'';
           Some (0, Some \<lparr>m_query = q, m_number = q_number query, m_total = items,
                          m_fields = replicate items field\<rparr>)
         }))"

subsection \<open>Dispatch on the database type\<close>

text \<open>The chain of \<open>strncmp\<close> tests: only \<open>sqlite\<close> runs the query.  The configuration is
  dereferenced before any of the guards above.\<close>

definition on_dbtype :: "ailsa_cmdb_s option \<Rightarrow> 's \<Rightarrow> (int \<times> 's) option \<Rightarrow> (int \<times> 's) option" where
  "on_dbtype cmdb s query = do {
     cc \<leftarrow> cmdb;
     t \<leftarrow> cc_dbtype cc;
     if strncmp_eq t ''none'' SERVICE_LEN then Some (AILSA_WRONG_DBTYPE, s)
     else if strncmp_eq t ''sqlite'' SERVICE_LEN then query
     else Some (AILSA_WRONG_DBTYPE, s)
   }"

definition ailsa_basic_query ::
  "'db sqlite3_api \<Rightarrow> 'db world \<Rightarrow> ailsa_cmdb_s option \<Rightarrow> nat \<Rightarrow> db_list \<Rightarrow> 'db query_result" where
  "ailsa_basic_query api w cmdb query_no results =
    (if query_no < length basic_queries
     then on_dbtype cmdb (w, results)
            (ailsa_basic_query_sqlite api w cmdb (basic_queries ! query_no) results)
     else None)"

definition ailsa_argument_query ::
  "'db sqlite3_api \<Rightarrow> 'db world \<Rightarrow> ailsa_cmdb_s option \<Rightarrow> nat \<Rightarrow> db_list \<Rightarrow> db_list \<Rightarrow>
   'db query_result" where
  "ailsa_argument_query api w cmdb query_no args results =
    (if query_no < length argument_queries
     then on_dbtype cmdb (w, results)
            (ailsa_argument_query_sqlite api w cmdb (argument_queries ! query_no) args results)
     else None)"

definition ailsa_individual_query ::
  "'db sqlite3_api \<Rightarrow> 'db world \<Rightarrow> ailsa_cmdb_s option \<Rightarrow> ailsa_sql_query \<Rightarrow> db_list \<Rightarrow> db_list \<Rightarrow>
   'db query_result" where
  "ailsa_individual_query api w cmdb query args results =
    on_dbtype cmdb (w, results) (ailsa_argument_query_sqlite api w cmdb query args results)"

definition ailsa_delete_query ::
  "'db sqlite3_api \<Rightarrow> 'db world \<Rightarrow> ailsa_cmdb_s option \<Rightarrow> ailsa_sql_query \<Rightarrow> db_list \<Rightarrow>
   (int \<times> 'db world) option" where
  "ailsa_delete_query api w cmdb query del =
    on_dbtype cmdb w (ailsa_delete_query_sqlite api w cmdb query del)"

definition ailsa_update_query ::
  "'db sqlite3_api \<Rightarrow> 'db world \<Rightarrow> ailsa_cmdb_s option \<Rightarrow> ailsa_sql_query \<Rightarrow> db_list \<Rightarrow>
   (int \<times> 'db world) option" where
  "ailsa_update_query api w cmdb query upd =
    on_dbtype cmdb w (ailsa_delete_query_sqlite api w cmdb query upd)"

definition ailsa_insert_query ::
  "'db sqlite3_api \<Rightarrow> 'db world \<Rightarrow> ailsa_cmdb_s option \<Rightarrow> nat \<Rightarrow> db_list \<Rightarrow> (int \<times> 'db world) option" where
  "ailsa_insert_query api w cmdb query_no ins =
    (if query_no < length insert_queries
     then on_dbtype cmdb w (ailsa_insert_query_sqlite api w cmdb (insert_queries ! query_no) ins)
     else None)"

definition ailsa_multiple_query ::
  "'db sqlite3_api \<Rightarrow> 'db world \<Rightarrow> ailsa_cmdb_s option \<Rightarrow> ailsa_sql_query \<Rightarrow> db_list \<Rightarrow>
   (int \<times> 'db world) option" where
  "ailsa_multiple_query api w cmdb query ins = do {
     l \<leftarrow> ins;
     (retval, sql) \<leftarrow> cmdb_create_multi query (length l);
     if retval \<noteq> 0 then Some (retval, w)
     else do {
       sql \<leftarrow> sql;
       on_dbtype cmdb w (ailsa_multiple_query_sqlite api w cmdb sql ins)
     } }"

definition ailsa_multiple_delete ::
  "'db sqlite3_api \<Rightarrow> 'db world \<Rightarrow> ailsa_cmdb_s option \<Rightarrow> ailsa_sql_query \<Rightarrow> db_list \<Rightarrow>
   (int \<times> 'db world) option" where
  "ailsa_multiple_delete api w cmdb query del = do {
     l \<leftarrow> del;
     (retval, sql) \<leftarrow> cmdb_create_delete_multi query (length l);
     if retval \<noteq> 0 then Some (retval, w)
     else do {
       sql \<leftarrow> sql;
       on_dbtype cmdb w (ailsa_multiple_query_sqlite api w cmdb sql del)
     } }"

subsection \<open>Marks\<close>

text \<open>The number of parameters of a statement.\<close>

definition marks :: "string \<Rightarrow> nat" where
  "marks s = length (filter (\<lambda>c. c = CHR ''?'') s)"

lemma marks_append [simp]: "marks (xs @ ys) = marks xs + marks ys"
  by (simp add: marks_def)

lemma marks_Nil [simp]: "marks [] = 0"
  by (simp add: marks_def)

lemma marks_Cons [simp]: "marks (c # s) = (if c = CHR ''?'' then 1 else 0) + marks s"
  by (simp add: marks_def)

lemma marks_concat_replicate [simp]: "marks (concat (replicate n s)) = n * marks s"
  by (induction n) auto

lemma length_concat_replicate [simp]: "length (concat (replicate n s)) = n * length s"
  by (induction n) auto

lemma concat_replicate_Suc: "concat (replicate (Suc n) s) = concat (replicate n s) @ s"
  by (induction n) auto

subsection \<open>The statement built for several rows\<close>

text \<open>The text added for each row after the first.\<close>

definition value_text :: "nat \<Rightarrow> string" where
  "value_text n = '', ('' @ concat (replicate (n - 1) ''?, '') @ ''?)''"

lemma length_value_text: "0 < n \<Longrightarrow> length (value_text n) = 3 * n + 2"
  by (cases n) (simp_all add: value_text_def)

lemma marks_value_text: "0 < n \<Longrightarrow> marks (value_text n) = n"
  by (cases n) (simp_all add: value_text_def)

lemma value_marks_text:
  "length v + 3 * c < n \<Longrightarrow> value_marks n c v = Some (v @ concat (replicate c ''?, ''))"
  by (induction c arbitrary: v) (simp_all add: sprintf_at_def)

text \<open>Overwriting the separator after the last mark.\<close>

lemma sprintf_at_last:
  assumes "length (pre @ x) + length e < n"
  shows "sprintf_at n (pre @ x @ y) (length (pre @ x)) e = Some (pre @ x @ e)"
  using assms by (simp add: sprintf_at_def)

lemma create_value_string:
  assumes "0 < q_number query"
  shows "cmdb_create_value_string query = Some (value_text (q_number query))"
proof -
  obtain m where m: "q_number query = Suc m" using assms by (cases "q_number query") auto
  let ?n = "q_number query * 3 + 4" and ?row = "'', ('' @ concat (replicate m ''?, '')"
  have "value_marks ?n (q_number query) '', ('' = Some ('', ('' @ concat (replicate (Suc m) ''?, ''))"
    using value_marks_text [of "'', (''" "q_number query" ?n] m by simp
  also have "'', ('' @ concat (replicate (Suc m) ''?, '') = ?row @ ''?'' @ '', ''"
    by (simp only: concat_replicate_Suc append_assoc) simp
  finally have marks: "value_marks ?n (q_number query) '', ('' = Some (?row @ ''?'' @ '', '')" .
  have "sprintf_at ?n (?row @ ''?'' @ '', '') (length (?row @ ''?'')) '')'' =
      Some (?row @ ''?'' @ '')'')"
    by (rule sprintf_at_last) (simp add: m)
  moreover have "length (?row @ ''?'') = length (?row @ ''?'' @ '', '') - 2" by simp
  ultimately have "sprintf_at ?n (?row @ ''?'' @ '', '') (length (?row @ ''?'' @ '', '') - 2) '')'' =
      Some (?row @ ''?'' @ '')'')" by metis
  then show ?thesis
    using marks by (simp add: cmdb_create_value_string_def Let_def sprintf_at_def value_text_def m)
qed

lemma append_values_text:
  "length q + i * length v < n \<Longrightarrow>
    append_values n i q (length q) v = Some (q @ concat (replicate i v))"
proof (induction i arbitrary: q)
  case (Suc i)
  then show ?case using Suc.IH [of "q @ v"] by (simp add: sprintf_at_def)
qed simp

lemma fold_row:
  "b + n \<le> length m \<Longrightarrow>
    fold (\<lambda>j m. m[b + j := g j]) [0..<n] m = take b m @ map g [0..<n] @ drop (b + n) m"
proof (induction n)
  case (Suc n)
  then have "drop (b + n) m = m ! (b + n) # drop (b + Suc n) m"
    by (simp add: Cons_nth_drop_Suc)
  with Suc show ?case by (simp add: list_update_append)
qed simp

lemma fields_array_rows:
  assumes "u * n \<le> tot"
  shows "fold (\<lambda>i m. fold (\<lambda>j m. m[(if i > 0 then i * n + j else j) := field_at f j]) [0..<n] m)
      [0..<u] (replicate tot AILSA_DB_NULL) =
    concat (replicate u (map (field_at f) [0..<n])) @ replicate (tot - u * n) AILSA_DB_NULL"
  using assms
proof (induction u)
  case (Suc u)
  let ?row = "map (field_at f) [0..<n]"
  let ?m = "concat (replicate u ?row) @ replicate (tot - u * n) AILSA_DB_NULL"
  have idx: "(\<lambda>j m. m[(if u > 0 then u * n + j else j) := field_at f j]) =
      (\<lambda>j m. m[u * n + j := field_at f j])"
    by auto
  have "fold (\<lambda>j m. m[u * n + j := field_at f j]) [0..<n] ?m =
      concat (replicate u ?row) @ ?row @ replicate (tot - Suc u * n) AILSA_DB_NULL"
    using Suc.prems by (subst fold_row) (simp_all add: algebra_simps)
  then show ?case
    using Suc by (simp add: idx concat_replicate_Suc del: replicate.simps)
qed simp

lemma insert_fields_array:
  assumes "0 < n" "tot < 2 ^ 32"
  shows "cmdb_insert_fields_array n tot f =
    concat (replicate (tot div n) (map (field_at f) [0..<n])) @ replicate (tot mod n) AILSA_DB_NULL"
  using fields_array_rows [of "tot div n" n tot f] assms
  by (simp add: cmdb_insert_fields_array_def div_times_less_eq_dividend minus_div_mult_eq_mod)

lemma create_multi_rows:
  assumes "0 < q_number query" "q_number query \<le> items" "items < 2 ^ 32"
  shows "cmdb_create_multi query items = Some (0, Some
    \<lparr>m_query = q_query query @ concat (replicate (items div q_number query - 1) (value_text (q_number query))),
     m_number = q_number query, m_total = items,
     m_fields = concat (replicate (items div q_number query)
         (map (field_at (q_fields query)) [0..<q_number query])) @
       replicate (items mod q_number query) AILSA_DB_NULL\<rparr>)"
proof -
  let ?n = "q_number query" and ?q = "q_query query"
  obtain k where k: "items div ?n = Suc k"
    using assms by (metis div_greater_zero_iff gr0_implies_Suc)
  have v: "length (value_text ?n) > 0" using assms by (simp add: length_value_text)
  have fits: "length ?q + k * length (value_text ?n) < length (value_text ?n) * Suc k + length ?q"
    using v by (simp add: algebra_simps)
  have "sprintf_at (length (value_text ?n) * Suc k + length ?q) [] 0 ?q = Some ?q"
    using fits by (simp add: sprintf_at_def)
  then show ?thesis
    using assms append_values_text [OF fits] create_value_string [OF assms(1)]
      insert_fields_array [OF assms(1,3)]
    by (simp add: cmdb_create_multi_def Let_def k)
qed

text \<open>With less data than one row the buffer is as long as the query and has no room for its NUL.\<close>

lemma create_multi_overflow:
  assumes "0 < items" "items < q_number query"
  shows "cmdb_create_multi query items = None"
  using assms create_value_string [of query] by (simp add: cmdb_create_multi_def sprintf_at_def)

subsection \<open>The statement built for several keys\<close>

lemma key_marks_text:
  "length q + 3 * i < n \<Longrightarrow> key_marks n i q (length q) = Some (q @ concat (replicate i ''?, ''))"
proof (induction i arbitrary: q)
  case (Suc i)
  have len: "length (q @ ''?, '') = length q + 3" by simp
  show ?case using Suc.IH [of "q @ ''?, ''", unfolded len] Suc.prems by (simp add: sprintf_at_def)
qed simp

lemma create_delete_multi_keys:
  assumes "q_number query = 1" "q_query query = pre @ ''= ?''" "0 < items"
  shows "cmdb_create_delete_multi query items = Some (0, Some
    \<lparr>m_query = pre @ ''IN ('' @ concat (replicate (items - 1) ''?, '') @ ''?)'',
     m_number = 1, m_total = items, m_fields = replicate items (field_at (q_fields query) 0)\<rparr>)"
proof -
  obtain k where k: "items = Suc k" using assms(3) by (cases items) auto
  let ?n = "items * 3 + 3 + length (pre @ ''= ?'')"
  have r: "strrchr (pre @ ''= ?'') (CHR ''='') = Some (length pre)"
    using strrchr_append_last [of "CHR ''=''" "'' ?''" pre] by simp
  have len: "length (pre @ ''IN ('') = length pre + 4" by simp
  have "length (pre @ ''IN ('') + 3 * items < ?n" by simp
  then have km: "key_marks ?n items (pre @ ''IN ('') (length pre + 4) =
      Some ((pre @ ''IN ('') @ concat (replicate items ''?, ''))"
    using key_marks_text [of "pre @ ''IN (''" items ?n] unfolding len by blast
  let ?row = "pre @ ''IN ('' @ concat (replicate k ''?, '')"
  have row: "(pre @ ''IN ('') @ concat (replicate items ''?, '') = ?row @ ''?'' @ '', ''"
    unfolding k by (simp only: concat_replicate_Suc append_assoc) simp
  have "length (?row @ ''?'') = length pre + 4 + 3 * items - 2" by (simp add: k)
  moreover have "sprintf_at ?n (?row @ ''?'' @ '', '') (length (?row @ ''?'')) '')'' =
      Some (?row @ ''?'' @ '')'')"
    by (rule sprintf_at_last) (simp add: k)
  ultimately have last: "sprintf_at ?n (?row @ ''?'' @ '', '') (length pre + 4 + 3 * items - 2) '')'' =
      Some (?row @ ''?'' @ '')'')" by metis
  have first: "sprintf_at ?n [] 0 (pre @ ''= ?'') = Some (pre @ ''= ?'')"
    "sprintf_at ?n (pre @ ''= ?'') (length pre) ''IN ('' = Some (pre @ ''IN ('')"
    by (simp_all add: sprintf_at_def)
  have k1: "items - 1 = k" "items \<noteq> 0" using k by simp_all
  show ?thesis
    unfolding cmdb_create_delete_multi_def assms(1,2) r Let_def k1(1)
    using k1(2) by (simp only: if_False option.case Option.bind.simps first km [unfolded row] last) simp
qed

subsection \<open>Binding\<close>

text \<open>The values of a list of arguments of the given types; \<open>None\<close> when the list is too short or an
  argument is not of its type.  Arguments beyond the types are not looked at.\<close>

fun args_values :: "db_type list \<Rightarrow> ailsa_data list \<Rightarrow> sql_value list option" where
  "args_values [] ds = Some []"
| "args_values (f # fs) [] = None"
| "args_values (f # fs) (d # ds) = (case bind_value f d of
     Some (Inr v) \<Rightarrow> map_option (\<lambda>vs. v # vs) (args_values fs ds) | _ \<Rightarrow> None)"

text \<open>The documented contract of the \<open>sqlite3_bind\<close> functions: a value is accepted for the
  parameters 1, 2, ... of the statement, any other index is \<open>SQLITE_RANGE\<close>.\<close>

definition binds_by_marks :: "'db sqlite3_api \<Rightarrow> bool" where
  "binds_by_marks api \<longleftrightarrow> (\<forall>db stmt i v.
     s3_bind api db stmt i v = (if 1 \<le> i \<and> i \<le> marks stmt then 0 else 25))"

lemma bind_failed_0 [simp]: "\<not> bind_failed f 0"
  by (simp add: bind_failed_def)

lemma field_at_all: "t = length f \<Longrightarrow> map (field_at f) [0..<t] = f"
  by (auto intro!: nth_equalityI simp: field_at_def)

lemma args_values_length: "args_values fs ds = Some vs \<Longrightarrow> length vs = length fs"
  by (induction fs ds arbitrary: vs rule: args_values.induct)
     (auto split: option.splits sum.splits)

lemma bind_loop_all:
  assumes "args_values fs ds = Some vs" "binds_by_marks api" "i + length fs \<le> marks stmt"
  shows "bind_loop api db stmt fs i ds 0 bound = Some (0, bound @ vs)"
  using assms
proof (induction fs ds arbitrary: i vs bound rule: args_values.induct)
  case (3 f fs d ds)
  then obtain v vs' where v: "bind_value f d = Some (Inr v)" "args_values fs ds = Some vs'"
    "vs = v # vs'"
    by (auto split: option.splits sum.splits)
  have "s3_bind api db stmt (i + 1) v = 0"
    using 3 by (simp add: binds_by_marks_def)
  then show ?case using 3 v by simp
qed simp_all

lemma bind_loop_null:
  assumes "args_values fs (take (length fs) ds) = Some vs" "length fs < length ds"
    "binds_by_marks api" "i + length fs \<le> marks stmt"
  shows "bind_loop api db stmt (fs @ AILSA_DB_NULL # fs') i ds 0 bound =
    Some (AILSA_INVALID_DBTYPE, bound @ vs)"
  using assms
proof (induction fs ds arbitrary: i vs bound rule: args_values.induct)
  case (1 ds)
  then show ?case by (cases ds) simp_all
next
  case (3 f fs d ds)
  then obtain v vs' where v: "bind_value f d = Some (Inr v)"
    "args_values fs (take (length fs) ds) = Some vs'" "vs = v # vs'"
    by (auto split: option.splits sum.splits)
  have "s3_bind api db stmt (i + 1) v = 0"
    using 3 by (simp add: binds_by_marks_def)
  then show ?case using 3 v by simp
qed simp_all

lemma bind_loop_short:
  assumes "args_values (take (length ds) fs) ds = Some vs" "length ds < length fs"
    "binds_by_marks api" "i + length fs \<le> marks stmt"
  shows "bind_loop api db stmt fs i ds 0 bound = Some (AILSA_WRONG_LIST_LENGHT, bound @ vs)"
  using assms
proof (induction fs ds arbitrary: i vs bound rule: args_values.induct)
  case (3 f fs d ds)
  then obtain v vs' where v: "bind_value f d = Some (Inr v)"
    "args_values (take (length ds) fs) ds = Some vs'" "vs = v # vs'"
    by (auto split: option.splits sum.splits)
  have "s3_bind api db stmt (i + 1) v = 0"
    using 3 by (simp add: binds_by_marks_def)
  then show ?case using 3 v by simp
qed simp_all

subsection \<open>Running a query\<close>

text \<open>The configured database can be opened and the statement prepared.\<close>

definition sqlite_ready :: "'db sqlite3_api \<Rightarrow> 'db world \<Rightarrow> ailsa_cmdb_s \<Rightarrow> bool \<Rightarrow> string \<Rightarrow> bool" where
  "sqlite_ready api w cc rw stmt \<longleftrightarrow> cc_dbtype cc = Some ''sqlite'' \<and>
     s3_open api (w_db w) (cc_file cc) rw = 0 \<and> s3_prepare api (w_db w) stmt = 0"

text \<open>A list to which something was appended.\<close>

definition appends :: "db_list \<Rightarrow> db_list \<Rightarrow> bool" where
  "appends res res' \<longleftrightarrow> (\<exists>ys. res' = map_option (\<lambda>l. l @ ys) res)"

lemma appends_refl [simp]: "appends res res"
  unfolding appends_def by (rule exI [of _ "[]"]) (cases res; simp)

lemma appends_trans: "appends a b \<Longrightarrow> appends b c \<Longrightarrow> appends a c"
  by (auto simp: appends_def option.map_comp o_def append_assoc)

lemma appends_Some: "appends (Some l) res \<Longrightarrow> \<exists>ys. res = Some (l @ ys)"
  by (auto simp: appends_def)

lemma on_dbtype_sqlite:
  "cc_dbtype cc = Some ''sqlite'' \<Longrightarrow> on_dbtype (Some cc) s q = q"
  by (simp add: on_dbtype_def strncmp_eq_def)

lemma on_dbtype_cases:
  assumes "on_dbtype cmdb s q = Some (r, t)"
  obtains "q = Some (r, t)" | "r = AILSA_WRONG_DBTYPE" "t = s"
  using assms by (auto simp: on_dbtype_def bind_eq_Some_conv split: if_splits)

lemma opened_cleanup [simp]: "ailsa_sqlite_cleanup (opened w) = w"
  by (simp add: ailsa_sqlite_cleanup_def opened_def)

lemma w_db_simps [simp]: "w_db (opened w) = w_db w" "w_db (ailsa_sqlite_cleanup w) = w_db w"
  by (simp_all add: ailsa_sqlite_cleanup_def opened_def)

lemma fold_store_column: "fold (\<lambda>c l. l @ [store_column c]) row l = l @ map store_column row"
  by (induction row arbitrary: l) simp_all

lemma fold_store_rows:
  "fold ailsa_store_basic_sqlite rows (Some l) = Some (l @ map store_column (concat rows))"
  by (induction rows arbitrary: l) (simp_all add: ailsa_store_basic_sqlite_def fold_store_column)

lemma step_rows_Some:
  "step_rows api db stmt bound (Some l) = (snd (s3_rows api db stmt bound),
     Some (l @ map store_column (concat (fst (s3_rows api db stmt bound)))))"
  by (simp add: step_rows_def fold_store_rows split_def Let_def)

lemma step_rows_appends: "appends res (snd (step_rows api db stmt bound res))"
proof (cases res)
  case None
  have "fold ailsa_store_basic_sqlite rows None = None" for rows
    by (induction rows) (simp_all add: ailsa_store_basic_sqlite_def)
  then show ?thesis by (simp add: None step_rows_def split_def appends_def Let_def)
next
  case (Some l)
  then show ?thesis by (auto simp: step_rows_Some appends_def)
qed

text \<open>SQLite's result codes are never negative.\<close>

definition codes_nonneg :: "'db sqlite3_api \<Rightarrow> bool" where
  "codes_nonneg api \<longleftrightarrow> (\<forall>db s. 0 \<le> s3_prepare api db s)"

lemma setup_rw_nonneg:
  "codes_nonneg api \<Longrightarrow> ailsa_setup_rw_sqlite api q n f w = (r, stmt, w') \<Longrightarrow> 0 \<le> r"
  by (auto simp: ailsa_setup_rw_sqlite_def codes_nonneg_def Let_def split: if_splits)

text \<open>A read never writes the database and only appends to the results; it closes its connection
  unless binding failed.\<close>

lemma setup_ro_cases:
  assumes "ailsa_setup_ro_sqlite api q f w = (r, stmt, w')"
  shows "r > 0 \<and> w' = w \<or> r \<le> 0 \<and> w' = opened w \<and> stmt = take BUFFER_LEN q"
  using assms by (auto simp: ailsa_setup_ro_sqlite_def Let_def split: if_splits)

lemma setup_rw_cases:
  assumes "ailsa_setup_rw_sqlite api q n f w = (r, stmt, w')"
  shows "r > 0 \<and> w' = w \<or> r \<le> 0 \<and> w' = opened w \<and> stmt = take n q"
  using assms by (auto simp: ailsa_setup_rw_sqlite_def Let_def split: if_splits)

lemma basic_query_sqlite_reads:
  assumes "ailsa_basic_query_sqlite api w cmdb q res = Some (r, w', res')"
  shows "w_db w' = w_db w \<and> appends res res'"
proof (cases "cmdb = None \<or> res = None")
  case True
  then show ?thesis using assms by (auto simp: ailsa_basic_query_sqlite_def split: option.splits)
next
  case False
  then obtain cc where cc: "cmdb = Some cc" by auto
  obtain r0 stmt w0 where s: "ailsa_setup_ro_sqlite api q (cc_file cc) w = (r0, stmt, w0)"
    by (metis prod_cases3)
  show ?thesis
    using assms False setup_ro_cases [OF s] step_rows_appends [of res api "w_db w" stmt "[]"]
    by (auto simp: ailsa_basic_query_sqlite_def cc s split_def Let_def split: if_splits)
qed

lemma argument_query_sqlite_reads:
  assumes "ailsa_argument_query_sqlite api w cmdb q args res = Some (r, w', res')"
  shows "w_db w' = w_db w \<and> w_open w \<le> w_open w' \<and> w_open w' \<le> w_open w + 1 \<and> appends res res' \<and>
    (w_open w' = w_open w + 1 \<longrightarrow> res' = res)"
proof (cases "cmdb = None \<or> args = None \<or> res = None")
  case True
  then show ?thesis using assms by (auto simp: ailsa_argument_query_sqlite_def split: option.splits)
next
  case False
  then obtain cc where cc: "cmdb = Some cc" by auto
  obtain r0 stmt w0 where s: "ailsa_setup_ro_sqlite api (q_query q) (cc_file cc) w = (r0, stmt, w0)"
    by (metis prod_cases3)
  show ?thesis
    using assms False setup_ro_cases [OF s] step_rows_appends [of res api "w_db w" stmt]
    by (auto simp: ailsa_argument_query_sqlite_def cc s split_def Let_def bind_eq_Some_conv opened_def
        ailsa_sqlite_cleanup_def split: if_splits)
qed

lemma write_sqlite_balanced:
  assumes "write_sqlite api w cc q t f args = Some (r, w')" "codes_nonneg api"
  shows "w_open w' = w_open w"
proof -
  obtain r0 stmt w0 where s: "ailsa_setup_rw_sqlite api q (length q) (cc_file cc) w = (r0, stmt, w0)"
    by (metis prod_cases3)
  show ?thesis
    using assms(1) setup_rw_cases [OF s] setup_rw_nonneg [OF assms(2) s]
    by (auto simp: write_sqlite_def s split_def Let_def bind_eq_Some_conv opened_def
        ailsa_sqlite_cleanup_def split: if_splits)
qed

lemma basic_query_reads:
  assumes "ailsa_basic_query api w cmdb n res = Some (r, w', res')"
  shows "w_db w' = w_db w \<and> appends res res'"
  using assms basic_query_sqlite_reads
  by (fastforce simp: ailsa_basic_query_def split: if_splits elim: on_dbtype_cases)

lemma argument_query_reads:
  assumes "ailsa_argument_query api w cmdb n args res = Some (r, w', res')"
  shows "w_db w' = w_db w \<and> w_open w \<le> w_open w' \<and> w_open w' \<le> w_open w + 1 \<and> appends res res' \<and>
    (w_open w' = w_open w + 1 \<longrightarrow> res' = res)"
proof -
  have n: "n < length argument_queries"
    using assms by (simp add: ailsa_argument_query_def split: if_splits)
  with assms have d: "on_dbtype cmdb (w, res)
      (ailsa_argument_query_sqlite api w cmdb (argument_queries ! n) args res) = Some (r, w', res')"
    by (simp add: ailsa_argument_query_def)
  from d show ?thesis
    by (rule on_dbtype_cases) (use argument_query_sqlite_reads in blast, simp)
qed

text \<open>What a query does when the file opens, the statement is prepared and the arguments conform.\<close>

definition runs_within :: "ailsa_sql_query \<Rightarrow> bool" where
  "runs_within q \<longleftrightarrow> marks (q_query q) = q_number q \<and> length (q_fields q) = q_number q \<and>
     length (q_query q) \<le> BUFFER_LEN"

lemma setup_ro_ready:
  assumes "sqlite_ready api w cc False q" "length q \<le> BUFFER_LEN"
  shows "ailsa_setup_ro_sqlite api q (cc_file cc) w = (0, q, opened w)"
  using assms by (simp add: ailsa_setup_ro_sqlite_def sqlite_ready_def)

lemma setup_rw_ready:
  assumes "sqlite_ready api w cc True q"
  shows "ailsa_setup_rw_sqlite api q (length q) (cc_file cc) w = (0, q, opened w)"
  using assms by (simp add: ailsa_setup_rw_sqlite_def sqlite_ready_def)

lemma argument_query_sqlite_runs:
  assumes "sqlite_ready api w cc False (q_query q)" "runs_within q" "binds_by_marks api"
    "args_values (q_fields q) args = Some vs"
  shows "ailsa_argument_query_sqlite api w (Some cc) q (Some args) (Some res) =
    (let (rows, code) = s3_rows api (w_db w) (q_query q) vs
     in Some (done_code code, w, Some (res @ map store_column (concat rows))))"
proof -
  have f: "map (field_at (q_fields q)) [0..<q_number q] = q_fields q"
    using assms(2) by (simp add: runs_within_def field_at_all)
  have "bind_loop api (w_db w) (q_query q) (q_fields q) 0 args 0 [] = Some (0, [] @ vs)"
    using assms by (intro bind_loop_all) (simp_all add: runs_within_def)
  then show ?thesis
    using assms(2) setup_ro_ready [OF assms(1)]
    by (simp add: ailsa_argument_query_sqlite_def ailsa_bind_arguments_sqlite_def f runs_within_def
        step_rows_Some split_def Let_def)
qed

lemma argument_query_sqlite_short:
  assumes "sqlite_ready api w cc False (q_query q)" "runs_within q" "binds_by_marks api"
    "args_values (take (length args) (q_fields q)) args = Some vs" "length args < q_number q"
  shows "ailsa_argument_query_sqlite api w (Some cc) q (Some args) (Some res) =
    Some (AILSA_WRONG_LIST_LENGHT, opened w, Some res)"
proof -
  have f: "map (field_at (q_fields q)) [0..<q_number q] = q_fields q"
    using assms(2) by (simp add: runs_within_def field_at_all)
  have "bind_loop api (w_db w) (q_query q) (q_fields q) 0 args 0 [] =
      Some (AILSA_WRONG_LIST_LENGHT, [] @ vs)"
    using assms by (intro bind_loop_short) (simp_all add: runs_within_def)
  then show ?thesis
    using assms(2) setup_ro_ready [OF assms(1)]
    by (simp add: ailsa_argument_query_sqlite_def ailsa_bind_arguments_sqlite_def f runs_within_def
        split_def Let_def)
qed

lemma write_sqlite_runs:
  assumes "sqlite_ready api w cc True q" "binds_by_marks api" "t \<le> marks q"
    "args_values (map (field_at f) [0..<t]) args = Some vs"
  shows "write_sqlite api w cc q t f (Some args) =
    (let (code, db) = s3_write api (w_db w) q vs
     in Some (if code = SQLITE_DONE then 0 else AILSA_STATEMENT_FAIL, w\<lparr>w_db := db\<rparr>))"
proof -
  have "bind_loop api (w_db w) q (map (field_at f) [0..<t]) 0 args 0 [] = Some (0, [] @ vs)"
    using assms by (intro bind_loop_all) simp_all
  then show ?thesis
    using setup_rw_ready [OF assms(1)]
    by (simp add: write_sqlite_def ailsa_bind_arguments_sqlite_def split_def Let_def done_code_def
        opened_def ailsa_sqlite_cleanup_def)
qed

end
