(* ===== verification/Sql_Statements.thy ===== *)
theory Sql_Statements
  imports Sql_Exec
begin

text \<open>
  What the statement tables and the executing code guarantee together: every statement of the
  tables is well-formed, so each query of theory Sql\_Exec binds exactly its arguments.  The facts
  about the tables are evaluated row by row.
\<close>

subsection \<open>Facts about the tables\<close>

definition bindable :: "db_type \<Rightarrow> bool" where
  "bindable f \<longleftrightarrow> f = AILSA_DB_TEXT \<or> f = AILSA_DB_LINT \<or> f = AILSA_DB_SINT \<or> f = AILSA_DB_FLOAT"

text \<open>One type for each parameter, one parameter for each mark, none of a type the executing code
  cannot bind, and no more than the 20 the C structure holds.\<close>

definition query_ok :: "ailsa_sql_query \<Rightarrow> bool" where
  "query_ok q \<longleftrightarrow> marks (q_query q) = q_number q \<and> length (q_fields q) = q_number q \<and>
     q_number q \<le> 20 \<and> list_all bindable (q_fields q)"

text \<open>The number of columns an INSERT statement names.\<close>

definition insert_columns :: "string \<Rightarrow> nat" where
  "insert_columns s =
    1 + length (filter (\<lambda>c. c = CHR '','') (takeWhile (\<lambda>c. c \<noteq> CHR '')'') (dropWhile (\<lambda>c. c \<noteq> CHR ''('') s)))"

definition ends_with_key :: "string \<Rightarrow> bool" where
  "ends_with_key s \<longleftrightarrow> 3 \<le> length s \<and> drop (length s - 3) s = ''= ?''"

lemma argument_queries_ok: "list_all query_ok argument_queries"
  by code_simp

lemma insert_queries_ok: "list_all query_ok insert_queries"
  by code_simp

lemma delete_queries_ok: "list_all query_ok delete_queries"
  by code_simp

lemma update_queries_ok: "list_all query_ok update_queries"
  by code_simp

lemma argument_queries_short: "list_all (\<lambda>q. length (q_query q) \<le> 512) argument_queries"
  by code_simp

lemma basic_queries_short: "list_all (\<lambda>q. length q \<le> 512 \<and> marks q = 0) basic_queries"
  by code_simp

lemma insert_queries_columns: "list_all (\<lambda>q. insert_columns (q_query q) = q_number q) insert_queries"
  by code_simp

lemma delete_queries_key: "list_all (\<lambda>q. q_number q = 1 \<longrightarrow> ends_with_key (q_query q)) delete_queries"
  by code_simp

lemma list_all_nth: "list_all P xs \<Longrightarrow> n < length xs \<Longrightarrow> P (xs ! n)"
  by (simp add: list_all_length)

lemma argument_query_within: "n < length argument_queries \<Longrightarrow> runs_within (argument_queries ! n)"
  using list_all_nth [OF argument_queries_ok] list_all_nth [OF argument_queries_short]
  by (fastforce simp: runs_within_def query_ok_def)

lemma insert_queries_number: "list_all (\<lambda>q. 0 < q_number q) insert_queries"
  by (simp add: insert_queries_def insert_queries_1_def insert_queries_2_def)

subsection \<open>An instance of the database, for the witnesses\<close>

definition demo_api :: "nat sqlite3_api" where
  "demo_api = \<lparr>s3_open = (\<lambda>_ _ _. 0), s3_prepare = (\<lambda>_ _. 0),
     s3_bind = (\<lambda>_ stmt i v. if 1 \<le> i \<and> i \<le> marks stmt then 0 else 25),
     s3_rows = (\<lambda>_ _ _. ([[SQL_INT 7]], SQLITE_DONE)),
     s3_write = (\<lambda>db _ vs. (SQLITE_DONE, db + length vs))\<rparr>"

definition demo_cc :: "string \<Rightarrow> ailsa_cmdb_s" where
  "demo_cc t = \<lparr>cc_dbtype = Some t, cc_db = None, cc_file = Some ''/var/lib/cmdb/sql/cmdb.sql'',
     cc_user = None, cc_pass = None, cc_host = None, cc_dir = None,
     cc_bind = None, cc_dnsa = None, cc_rev = None, cc_rndc = None, cc_chkz = None, cc_chkc = None,
     cc_socket = None, cc_hostmaster = None, cc_prins = None, cc_secns = None, cc_pridns = None,
     cc_secdns = None, cc_toplevelos = None, cc_pxe = None, cc_tmpdir = None, cc_tftpdir = None,
     cc_dhcpconf = None, cc_port = 0, cc_refresh = 0, cc_retry = 0, cc_expire = 0, cc_ttl = 0,
     cc_cliflag = 0\<rparr>"

definition demo_world :: "nat world" where
  "demo_world = \<lparr>w_db = 0, w_open = 0\<rparr>"

lemma demo_ready: "sqlite_ready demo_api w (demo_cc ''sqlite'') rw stmt"
  by (simp add: sqlite_ready_def demo_api_def demo_cc_def)

lemma demo_binds: "binds_by_marks demo_api" and demo_nonneg: "codes_nonneg demo_api"
  by (simp_all add: binds_by_marks_def codes_nonneg_def demo_api_def)

lemma insert_query_runs:
  assumes "n < length insert_queries" "sqlite_ready api w cc True (q_query (insert_queries ! n))"
    and "binds_by_marks api" "args_values (q_fields (insert_queries ! n)) args = Some vs"
  shows "ailsa_insert_query api w (Some cc) n (Some args) =
    (let (code, db) = s3_write api (w_db w) (q_query (insert_queries ! n)) vs
     in Some (if code = SQLITE_DONE then 0 else AILSA_STATEMENT_FAIL, w\<lparr>w_db := db\<rparr>))"
proof -
  have db: "cc_dbtype cc = Some ''sqlite''" using assms(2) by (simp add: sqlite_ready_def)
  have ok: "query_ok (insert_queries ! n)" using list_all_nth [OF insert_queries_ok assms(1)] .
  then have "map (field_at (q_fields (insert_queries ! n))) [0..<q_number (insert_queries ! n)] =
      q_fields (insert_queries ! n)"
    by (simp add: query_ok_def field_at_all)
  then show ?thesis
    using write_sqlite_runs [OF assms(2,3), of "q_number (insert_queries ! n)" "q_fields (insert_queries ! n)"]
      assms(1,4) ok
    by (simp add: ailsa_insert_query_def on_dbtype_sqlite [OF db] ailsa_insert_query_sqlite_def query_ok_def)
qed

subsection \<open>Properties\<close>


text \<open>Every INSERT statement names as many columns as it has parameters.\<close>

theorem insert_statements_name_their_columns:
  "list_all (\<lambda>q. insert_columns (q_query q) = q_number q) insert_queries"
  using insert_queries_columns .

text \<open>C1: A query by number with arguments of its types binds exactly those values, in order, to the
  whole statement, appends exactly the converted rows to the results, closes its connection and
  returns 0 when SQLite says it is done.\<close>

theorem argument_query_binds_and_appends:
  assumes "n < length argument_queries" "sqlite_ready api w cc False (q_query (argument_queries ! n))"
    and "binds_by_marks api" "args_values (q_fields (argument_queries ! n)) args = Some vs"
  shows "ailsa_argument_query api w (Some cc) n (Some args) (Some res) =
    (let (rows, code) = s3_rows api (w_db w) (q_query (argument_queries ! n)) vs
     in Some (done_code code, w, Some (res @ map store_column (concat rows))))"
proof -
  have "cc_dbtype cc = Some ''sqlite''" using assms(2) by (simp add: sqlite_ready_def)
  then show ?thesis
    using argument_query_sqlite_runs [OF assms(2) argument_query_within [OF assms(1)] assms(3,4)] assms(1)
    by (simp add: ailsa_argument_query_def on_dbtype_sqlite)
qed

theorem argument_query_binds_and_appends_witness:
  "ailsa_argument_query demo_api demo_world (Some (demo_cc ''sqlite'')) SERVER_ID_ON_NAME
     (Some [D_TEXT ''web01'']) (Some [D_LINT 3]) = Some (0, demo_world, Some [D_LINT 3, D_LINT 7])"
proof -
  have "args_values (q_fields (argument_queries ! SERVER_ID_ON_NAME)) [D_TEXT ''web01''] =
      Some [SQL_TEXT ''web01'']"
    by (simp add: statement_fields argument_fields table_lengths del: nth_map)
  from argument_query_binds_and_appends [OF _ demo_ready demo_binds this] show ?thesis
    by (simp add: table_lengths demo_api_def done_code_def)
qed

text \<open>A query whose argument list ends too early returns AILSA\_WRONG\_LIST\_LENGHT without running
  the statement or touching the results, but it does not close its connection.\<close>

theorem argument_query_short_list:
  assumes "n < length argument_queries" "sqlite_ready api w cc False (q_query (argument_queries ! n))"
    and "binds_by_marks api" "length args < q_number (argument_queries ! n)"
    and "args_values (take (length args) (q_fields (argument_queries ! n))) args = Some vs"
  shows "ailsa_argument_query api w (Some cc) n (Some args) (Some res) =
    Some (AILSA_WRONG_LIST_LENGHT, w\<lparr>w_open := w_open w + 1\<rparr>, Some res)"
proof -
  have "cc_dbtype cc = Some ''sqlite''" using assms(2) by (simp add: sqlite_ready_def)
  then show ?thesis
    using argument_query_sqlite_short [OF assms(2) argument_query_within [OF assms(1)] assms(3,5,4)]
      assms(1)
    by (simp add: ailsa_argument_query_def on_dbtype_sqlite opened_def)
qed

theorem argument_query_short_list_witness:
  "ailsa_argument_query demo_api demo_world (Some (demo_cc ''sqlite'')) SERVER_ID_ON_NAME
     (Some []) (Some [D_LINT 3]) =
   Some (AILSA_WRONG_LIST_LENGHT, demo_world\<lparr>w_open := w_open demo_world + 1\<rparr>, Some [D_LINT 3])"
proof (rule argument_query_short_list [OF _ demo_ready demo_binds])
  show "SERVER_ID_ON_NAME < length argument_queries" by (simp add: table_lengths)
  have "length (q_fields (argument_queries ! SERVER_ID_ON_NAME)) = 1"
    by (simp add: statement_fields argument_fields table_lengths del: nth_map)
  then show "length [] < q_number (argument_queries ! SERVER_ID_ON_NAME)"
    using argument_query_within [of SERVER_ID_ON_NAME]
    by (simp add: runs_within_def table_lengths)
  show "args_values (take (length []) (q_fields (argument_queries ! SERVER_ID_ON_NAME))) [] = Some []"
    by simp
qed

text \<open>An insert by number with arguments of its types executes the whole statement once with
  exactly those values: the new database is SQLite's, the result is 0 or AILSA\_STATEMENT\_FAIL, and
  the connection is closed.\<close>

theorem insert_query_executes_once:
  assumes "n < length insert_queries" "sqlite_ready api w cc True (q_query (insert_queries ! n))"
    and "binds_by_marks api" "args_values (q_fields (insert_queries ! n)) args = Some vs"
  shows "ailsa_insert_query api w (Some cc) n (Some args) =
    (let (code, db) = s3_write api (w_db w) (q_query (insert_queries ! n)) vs
     in Some (if code = SQLITE_DONE then 0 else AILSA_STATEMENT_FAIL, w\<lparr>w_db := db\<rparr>))"
  by (rule insert_query_runs [OF assms])

theorem insert_query_executes_once_witness:
  "ailsa_insert_query demo_api demo_world (Some (demo_cc ''sqlite'')) INSERT_SERVICE_TYPE
     (Some [D_TEXT ''web'', D_TEXT ''http'']) = Some (0, demo_world\<lparr>w_db := 2\<rparr>)"
proof -
  have "args_values (q_fields (insert_queries ! INSERT_SERVICE_TYPE)) [D_TEXT ''web'', D_TEXT ''http''] =
      Some [SQL_TEXT ''web'', SQL_TEXT ''http'']"
    by (simp add: statement_fields insert_fields table_lengths del: nth_map)
  from insert_query_executes_once [OF _ demo_ready demo_binds this] show ?thesis
    by (simp add: table_lengths demo_api_def demo_world_def)
qed

text \<open>Inserts, deletes and updates leave the number of open connections as they found it, whatever
  fails on the way.\<close>

theorem writes_close_their_connection:
  assumes "codes_nonneg api"
    and "ailsa_insert_query api w cmdb n args = Some (r, w') \<or>
      ailsa_delete_query api w cmdb q args = Some (r, w') \<or>
      ailsa_update_query api w cmdb q args = Some (r, w') \<or>
      ailsa_multiple_query api w cmdb q args = Some (r, w') \<or>
      ailsa_multiple_delete api w cmdb q args = Some (r, w')"
  shows "w_open w' = w_open w"
  using assms(2) write_sqlite_balanced [OF _ assms(1)]
  by (auto simp: ailsa_insert_query_def ailsa_delete_query_def ailsa_update_query_def
      ailsa_multiple_query_def ailsa_multiple_delete_def on_dbtype_def ailsa_insert_query_sqlite_def
      ailsa_delete_query_sqlite_def ailsa_multiple_query_sqlite_def bind_eq_Some_conv
      split: if_splits option.splits)

theorem writes_close_their_connection_witness:
  "\<exists>w'. ailsa_delete_query demo_api demo_world (Some (demo_cc ''sqlite''))
     (sql_query ''DELETE FROM t WHERE id = ?'' 1 [AILSA_DB_LINT]) (Some []) = Some (AILSA_WRONG_LIST_LENGHT, w') \<and>
     w_open w' = w_open demo_world"
proof -
  let ?q = "sql_query ''DELETE FROM t WHERE id = ?'' 1 [AILSA_DB_LINT]"
  have "\<exists>w'. ailsa_delete_query demo_api demo_world (Some (demo_cc ''sqlite'')) ?q (Some []) =
      Some (AILSA_WRONG_LIST_LENGHT, w')"
    by (simp add: ailsa_delete_query_def on_dbtype_sqlite demo_cc_def ailsa_delete_query_sqlite_def
        write_sqlite_def ailsa_setup_rw_sqlite_def demo_api_def ailsa_bind_arguments_sqlite_def done_code_def Let_def)
  then show ?thesis using writes_close_their_connection [OF demo_nonneg] by blast
qed

text \<open>With a database type other than sqlite every query returns AILSA\_WRONG\_DBTYPE and leaves the
  results, the database and the connections alone.\<close>

theorem unknown_dbtype_is_refused:
  assumes "cc_dbtype cc = Some t" "\<not> strncmp_eq t ''sqlite'' SERVICE_LEN"
    and "n < length basic_queries" "k < length argument_queries" "m < length insert_queries"
  shows "ailsa_basic_query api w (Some cc) n res = Some (AILSA_WRONG_DBTYPE, w, res) \<and>
    ailsa_argument_query api w (Some cc) k args res = Some (AILSA_WRONG_DBTYPE, w, res) \<and>
    ailsa_insert_query api w (Some cc) m args = Some (AILSA_WRONG_DBTYPE, w) \<and>
    ailsa_delete_query api w (Some cc) q args = Some (AILSA_WRONG_DBTYPE, w) \<and>
    ailsa_update_query api w (Some cc) q args = Some (AILSA_WRONG_DBTYPE, w)"
  using assms
  by (simp add: ailsa_basic_query_def ailsa_argument_query_def ailsa_insert_query_def
      ailsa_delete_query_def ailsa_update_query_def on_dbtype_def)

theorem unknown_dbtype_is_refused_witness:
  "ailsa_basic_query demo_api demo_world (Some (demo_cc ''mysql'')) DEFAULT_OS (Some []) =
     Some (AILSA_WRONG_DBTYPE, demo_world, Some [])"
proof -
  have "cc_dbtype (demo_cc ''mysql'') = Some ''mysql''" by (simp add: demo_cc_def)
  moreover have "\<not> strncmp_eq ''mysql'' ''sqlite'' SERVICE_LEN" by (simp add: strncmp_eq_def)
  ultimately show ?thesis
    using unknown_dbtype_is_refused [of "demo_cc ''mysql''" "''mysql''" DEFAULT_OS 0 0 demo_api demo_world "Some []"]
    by (simp add: table_lengths)
qed

lemma multiple_insert_runs:
  assumes "n < length insert_queries" and "q = insert_queries ! n"
    and "0 < k" "k * q_number q < 2 ^ 32" "length args = k * q_number q"
    and "args_values (concat (replicate k (q_fields q))) args = Some vs"
    and "stmt = q_query q @ concat (replicate (k - 1) (value_text (q_number q)))"
    and "sqlite_ready api w cc True stmt" "binds_by_marks api"
  shows "marks stmt = length args \<and>
    ailsa_multiple_query api w (Some cc) q (Some args) =
      (let (code, db) = s3_write api (w_db w) stmt vs
       in Some (if code = SQLITE_DONE then 0 else AILSA_STATEMENT_FAIL, w\<lparr>w_db := db\<rparr>))"
proof -
  have db: "cc_dbtype cc = Some ''sqlite''" using assms(8) by (simp add: sqlite_ready_def)
  have ok: "query_ok q" and pos: "0 < q_number q"
    using list_all_nth [OF insert_queries_ok assms(1)] list_all_nth [OF insert_queries_number assms(1)]
    by (simp_all add: assms(2))
  have m: "marks stmt = length args"
    using ok pos assms(3,5,7) by (cases k) (simp_all add: query_ok_def marks_value_text)
  let ?f = "concat (replicate k (map (field_at (q_fields q)) [0..<q_number q]))"
  have f: "?f = concat (replicate k (q_fields q))"
    using ok by (simp add: query_ok_def field_at_all)
  have lf: "length ?f = length args" using assms(5) by simp
  have "cmdb_create_multi q (length args) = Some (0, Some
      \<lparr>m_query = stmt, m_number = q_number q, m_total = length args, m_fields = ?f\<rparr>)"
    using create_multi_rows [OF pos, of "length args"] assms(3-5,7) pos by simp
  then show ?thesis
    using write_sqlite_runs [OF assms(8,9), of "length args" ?f args vs] m assms(6) f lf
    by (simp add: ailsa_multiple_query_def on_dbtype_sqlite [OF db] ailsa_multiple_query_sqlite_def
        field_at_all)
qed

text \<open>C2: Inserting k complete rows at once executes one statement with k value groups and as many
  marks as values, with all the values in order.\<close>

theorem multiple_insert_runs_all_rows:
  assumes "n < length insert_queries" and "q = insert_queries ! n"
    and "0 < k" "k * q_number q < 2 ^ 32" "length args = k * q_number q"
    and "args_values (concat (replicate k (q_fields q))) args = Some vs"
    and "stmt = q_query q @ concat (replicate (k - 1) (value_text (q_number q)))"
    and "sqlite_ready api w cc True stmt" "binds_by_marks api"
  shows "marks stmt = length args \<and>
    ailsa_multiple_query api w (Some cc) q (Some args) =
      (let (code, db) = s3_write api (w_db w) stmt vs
       in Some (if code = SQLITE_DONE then 0 else AILSA_STATEMENT_FAIL, w\<lparr>w_db := db\<rparr>))"
  by (rule multiple_insert_runs [OF assms])

theorem multiple_insert_runs_all_rows_witness:
  "\<exists>w'. ailsa_multiple_query demo_api demo_world (Some (demo_cc ''sqlite'')) (insert_queries ! INSERT_SERVICE_TYPE)
     (Some [D_TEXT ''web'', D_TEXT ''http'', D_TEXT ''mail'', D_TEXT ''smtp'']) = Some (0, w') \<and> w_db w' = 4"
proof -
  let ?q = "insert_queries ! INSERT_SERVICE_TYPE"
  let ?args = "[D_TEXT ''web'', D_TEXT ''http'', D_TEXT ''mail'', D_TEXT ''smtp'']"
  have f: "q_fields ?q = [AILSA_DB_TEXT, AILSA_DB_TEXT]"
    by (simp add: statement_fields insert_fields table_lengths del: nth_map)
  have "query_ok ?q" by (rule list_all_nth [OF insert_queries_ok]) (simp add: table_lengths)
  then have n: "q_number ?q = 2" using f by (simp add: query_ok_def)
  have "args_values (concat (replicate 2 (q_fields ?q))) ?args =
      Some [SQL_TEXT ''web'', SQL_TEXT ''http'', SQL_TEXT ''mail'', SQL_TEXT ''smtp'']"
    unfolding f by (simp add: numeral_2_eq_2)
  from multiple_insert_runs_all_rows [OF _ refl _ _ _ this refl demo_ready demo_binds, of demo_world] n
  show ?thesis by (auto simp: table_lengths demo_api_def demo_world_def)
qed

text \<open>A multiple insert whose list is not a whole number of rows never executes: with less than one
  row the statement overruns its buffer, otherwise the values left over are refused with
  AILSA\_INVALID\_DBTYPE.\<close>

theorem multiple_insert_partial_row:
  assumes "n < length insert_queries" and "q = insert_queries ! n"
    and "length args = k * q_number q + rest" "0 < rest" "rest < q_number q" "length args < 2 ^ 32"
    and "args_values (concat (replicate k (q_fields q))) (take (k * q_number q) args) = Some vs"
    and "stmt = q_query q @ concat (replicate (k - 1) (value_text (q_number q)))"
    and "sqlite_ready api w cc True stmt" "binds_by_marks api"
  shows "ailsa_multiple_query api w (Some cc) q (Some args) =
    (if k = 0 then None else Some (AILSA_INVALID_DBTYPE, w))"
proof (cases "k = 0")
  case True
  then show ?thesis
    using create_multi_overflow [of "length args" q] assms(3-5)
    by (simp add: ailsa_multiple_query_def)
next
  case False
  have db: "cc_dbtype cc = Some ''sqlite''" using assms(9) by (simp add: sqlite_ready_def)
  have ok: "query_ok q" and pos: "0 < q_number q"
    using list_all_nth [OF insert_queries_ok assms(1)] list_all_nth [OF insert_queries_number assms(1)]
    by (simp_all add: assms(2))
  have m: "marks stmt = k * q_number q"
    using ok pos False assms(8) by (cases k) (simp_all add: query_ok_def marks_value_text)
  let ?fs = "concat (replicate k (q_fields q))"
  obtain r where r: "rest = Suc r" using assms(4) by (cases rest) auto
  have ql: "length (q_fields q) = q_number q" using ok by (simp add: query_ok_def)
  then have lf: "length ?fs = k * q_number q" by simp
  have fields: "map (field_at (q_fields q)) [0..<q_number q] = q_fields q"
    using ok by (simp add: query_ok_def field_at_all)
  have div: "length args div q_number q = k" "length args mod q_number q = rest"
    using assms(3,5) by simp_all
  let ?sql = "\<lparr>m_query = stmt, m_number = q_number q, m_total = length args,
    m_fields = ?fs @ AILSA_DB_NULL # replicate r AILSA_DB_NULL\<rparr>"
  have "q_number q \<le> length args" using assms(3) False by (cases k) simp_all
  then have create: "cmdb_create_multi q (length args) = Some (0, Some ?sql)"
    using create_multi_rows [OF pos _ assms(6)] assms(8) by (simp add: div fields r)
  have "bind_loop api (w_db w) stmt (?fs @ AILSA_DB_NULL # replicate r AILSA_DB_NULL) 0 args 0 [] =
      Some (AILSA_INVALID_DBTYPE, [] @ vs)"
    using assms(3,4,7,10) lf m by (intro bind_loop_null) (simp_all add: ql)
  moreover have "map (field_at (m_fields ?sql)) [0..<length args] = m_fields ?sql"
    using assms(3) r by (intro field_at_all) (simp add: ql)
  ultimately have "write_sqlite api w cc stmt (length args) (m_fields ?sql) (Some args) =
      Some (AILSA_INVALID_DBTYPE, w)"
    using setup_rw_ready [OF assms(9)]
    by (simp add: write_sqlite_def ailsa_bind_arguments_sqlite_def done_code_def)
  then show ?thesis
    using create False
    by (simp add: ailsa_multiple_query_def on_dbtype_sqlite [OF db] ailsa_multiple_query_sqlite_def)
qed

theorem multiple_insert_partial_row_witness:
  "ailsa_multiple_query demo_api demo_world (Some (demo_cc ''sqlite'')) (insert_queries ! INSERT_SERVICE_TYPE)
     (Some [D_TEXT ''web'']) = None"
proof -
  let ?q = "insert_queries ! INSERT_SERVICE_TYPE"
  have f: "q_fields ?q = [AILSA_DB_TEXT, AILSA_DB_TEXT]"
    by (simp add: statement_fields insert_fields table_lengths del: nth_map)
  have "query_ok ?q" by (rule list_all_nth [OF insert_queries_ok]) (simp add: table_lengths)
  then have n: "q_number ?q = 2" using f by (simp add: query_ok_def)
  show ?thesis
    using multiple_insert_partial_row [OF _ refl _ _ _ _ _ refl demo_ready demo_binds,
        of INSERT_SERVICE_TYPE "[D_TEXT ''web'']" 0 1 "[]" demo_world] n
    by (simp add: table_lengths)
qed

lemma multiple_delete_runs:
  assumes "q \<in> set delete_queries" "q_number q = 1" "args \<noteq> []"
    and "args_values (replicate (length args) (field_at (q_fields q) 0)) args = Some vs"
    and "stmt = take (length (q_query q) - 3) (q_query q) @ ''IN ('' @
      concat (replicate (length args - 1) ''?, '') @ ''?)''"
    and "sqlite_ready api w cc True stmt" "binds_by_marks api"
  shows "marks stmt = length args \<and>
    ailsa_multiple_delete api w (Some cc) q (Some args) =
      (let (code, db) = s3_write api (w_db w) stmt vs
       in Some (if code = SQLITE_DONE then 0 else AILSA_STATEMENT_FAIL, w\<lparr>w_db := db\<rparr>))"
proof -
  have db: "cc_dbtype cc = Some ''sqlite''" using assms(6) by (simp add: sqlite_ready_def)
  let ?pre = "take (length (q_query q) - 3) (q_query q)"
  have key: "ends_with_key (q_query q)" and ok: "query_ok q"
    using delete_queries_key delete_queries_ok assms(1,2) by (auto simp: list_all_iff)
  then have pre: "q_query q = ?pre @ ''= ?''"
    by (metis append_take_drop_id ends_with_key_def)
  have "marks (q_query q) = 1" using ok assms(2) by (simp add: query_ok_def)
  then have "marks ?pre = 0" by (subst (asm) pre) simp
  then have m: "marks stmt = length args"
    using assms(3,5) by (cases args) simp_all
  have create: "cmdb_create_delete_multi q (length args) = Some (0, Some
      \<lparr>m_query = stmt, m_number = 1, m_total = length args,
       m_fields = replicate (length args) (field_at (q_fields q) 0)\<rparr>)"
    using create_delete_multi_keys [OF assms(2) pre, of "length args"] assms(3,5) by simp
  have "map (field_at (replicate (length args) (field_at (q_fields q) 0))) [0..<length args] =
      replicate (length args) (field_at (q_fields q) 0)"
    by (rule field_at_all) simp
  then show ?thesis
    using write_sqlite_runs [OF assms(6,7), of "length args" "replicate (length args) (field_at (q_fields q) 0)"]
      create m assms(4)
    by (simp add: ailsa_multiple_delete_def on_dbtype_sqlite [OF db] ailsa_multiple_query_sqlite_def)
qed



end
