(* ===== verification/Ailsa_Data.thy ===== *)
theory Ailsa_Data
  imports Ailsa_List Cmdb_Types
begin

text \<open>
  The operations of lib/data.c on lists of row elements and on the growing string buffer, with
  \<open>cmdb_replace_data_element\<close> of lib/helper.c, which works on the cells.

  Most callers only append and read, so they are modelled on sequences (\<open>db_list\<close>); \<open>db_insert\<close> is
  \<open>ailsa_list_insert\<close> at that level, and both levels provide the interface \<open>ail_sequence\<close>.
  Cloning and replacing change cells in place and are modelled on the heap.
\<close>

subsection \<open>Appending to a list of row elements\<close>

definition db_insert :: "ailsa_data \<Rightarrow> db_list \<Rightarrow> int \<times> db_list" where
  "db_insert d list = (case list of None \<Rightarrow> (-1, None) | Some l \<Rightarrow> (0, Some (l @ [d])))"

definition cmdb_add_string_to_list :: "cstr \<Rightarrow> db_list \<Rightarrow> int \<times> db_list" where
  "cmdb_add_string_to_list str list = (case str of None \<Rightarrow> (AILSA_NO_DATA, list) | Some s \<Rightarrow>
     if list = None then (AILSA_NO_DATA, list)
     else db_insert (D_TEXT (strndup s CONFIG_LEN)) list)"

definition cmdb_add_number_to_list :: "u64 \<Rightarrow> db_list \<Rightarrow> int \<times> db_list" where
  "cmdb_add_number_to_list number list =
    (if list = None then (AILSA_NO_DATA, list) else db_insert (D_LINT number) list)"

definition cmdb_add_short_to_list :: "i16 \<Rightarrow> db_list \<Rightarrow> int \<times> db_list" where
  "cmdb_add_short_to_list small list =
    (if list = None then (AILSA_NO_DATA, list) else db_insert (D_SINT small) list)"

text \<open>\<open>uid\<close> is the result of \<open>getuid()\<close>.\<close>

definition cmdb_populate_cuser_muser :: "u32 \<Rightarrow> db_list \<Rightarrow> int \<times> db_list" where
  "cmdb_populate_cuser_muser uid list =
    (let (retval, list) = db_insert (D_LINT (ucast uid)) list in
     if retval \<noteq> 0 then (retval, list) else db_insert (D_LINT (ucast uid)) list)"

definition cmdb_add_os_name_or_alias_to_list :: "cstr \<Rightarrow> cstr \<Rightarrow> db_list \<Rightarrow> db_list" where
  "cmdb_add_os_name_or_alias_to_list os alias list =
    (case (case os of Some s \<Rightarrow> Some s | None \<Rightarrow> alias) of None \<Rightarrow> list | Some name \<Rightarrow>
     if list = None then list
     else let (retval, list) = db_insert (D_TEXT (strndup name MAC_LEN)) list in
       if retval \<noteq> 0 then list else snd (db_insert (D_TEXT (strndup name MAC_LEN)) list))"

definition cmdb_add_os_version_or_alias_to_list :: "cstr \<Rightarrow> cstr \<Rightarrow> db_list \<Rightarrow> db_list" where
  "cmdb_add_os_version_or_alias_to_list ver valias list =
    (case (case ver of Some s \<Rightarrow> Some s | None \<Rightarrow> valias) of None \<Rightarrow> list | Some version \<Rightarrow>
     if list = None then list
     else let (retval, list) = db_insert (D_TEXT (strndup version SERVICE_LEN)) list in
       if retval \<noteq> 0 then list else snd (db_insert (D_TEXT (strndup version SERVICE_LEN)) list))"

text \<open>The n-th string (from 1), or NULL.\<close>

definition cmdb_get_string_from_data_list :: "db_list \<Rightarrow> nat \<Rightarrow> cstr" where
  "cmdb_get_string_from_data_list list n = (case list of None \<Rightarrow> None | Some l \<Rightarrow>
     if n = 0 then None
     else if n > length l then None
     else (case l ! (n - 1) of D_TEXT s \<Rightarrow> Some s | _ \<Rightarrow> None))"

subsection \<open>Partition rows\<close>

record ailsa_partition_s =
  p_min :: u64
  p_max :: u64
  p_pri :: u64
  p_mount :: string
  p_fs :: string
  p_logvol :: string

text \<open>The loop over the rows of six columns; following \<open>next\<close> past the end or reading a column of
  another type is undefined.\<close>

fun fill_partitions :: "ailsa_data list \<Rightarrow> ailsa_partition_s list \<Rightarrow> ailsa_partition_s list option" where
  "fill_partitions [] dest = Some dest"
| "fill_partitions (a # b # c # d # e # f # rest) dest = do {
     mn \<leftarrow> get_number a;
     mx \<leftarrow> get_number b;
     pri \<leftarrow> get_number c;
     mount \<leftarrow> get_text d; mount \<leftarrow> mount;
     fs \<leftarrow> get_text e; fs \<leftarrow> fs;
     lv \<leftarrow> get_text f; lv \<leftarrow> lv;
     fill_partitions rest (dest @
       [\<lparr>p_min = mn, p_max = mx, p_pri = pri, p_mount = strndup mount DOMAIN_LEN,
         p_fs = strndup fs SERVICE_LEN, p_logvol = strndup lv MAC_LEN\<rparr>])
   }"
| "fill_partitions _ dest = None"

definition cbc_fill_partition_details ::
  "db_list \<Rightarrow> ailsa_partition_s list option \<Rightarrow> (int \<times> ailsa_partition_s list option) option" where
  "cbc_fill_partition_details list dest = (case (list, dest) of
     (Some l, Some ds) \<Rightarrow>
       if length l mod 6 \<noteq> 0 then Some (AILSA_WRONG_LIST_LENGHT, dest)
       else if length l = 0 then Some (0, dest)
       else do { ds \<leftarrow> fill_partitions l ds; Some (0, Some ds) }
   | _ \<Rightarrow> Some (AILSA_NO_DATA, dest))"

subsection \<open>The growing string buffer\<close>

text \<open>\<open>as_string\<close> is the text up to its NUL, \<open>as_size\<close> the size of the allocated block.\<close>

record ailsa_string_s =
  as_string :: string
  as_len :: nat
  as_size :: nat

definition ailsa_init_string :: ailsa_string_s where
  "ailsa_init_string = \<lparr>as_string = [], as_len = 0, as_size = FILE_LEN\<rparr>"

definition ailsa_resize_string :: "ailsa_string_s \<Rightarrow> ailsa_string_s" where
  "ailsa_resize_string str = str\<lparr>as_size := as_size str * 2\<rparr>"

text \<open>The buffer is doubled once; a text that still does not fit is written past its end.\<close>

definition ailsa_fill_string :: "ailsa_string_s \<Rightarrow> string \<Rightarrow> ailsa_string_s option" where
  "ailsa_fill_string str s =
    (let n = length s;
         str = (if n + as_len str \<ge> as_size str then ailsa_resize_string str else str);
         n = n + 1
     in if as_len str + n > as_size str then None
        else let txt = take (as_len str) (as_string str) @ snprintf_s n s
             in Some (str\<lparr>as_string := txt, as_len := length txt\<rparr>))"

fun fill_strings :: "ailsa_string_s \<Rightarrow> string list \<Rightarrow> ailsa_string_s option" where
  "fill_strings str [] = Some str"
| "fill_strings str (s # ss) = do { str \<leftarrow> ailsa_fill_string str s; fill_strings str ss }"

subsection \<open>Trailing characters (ailsacmdb.c)\<close>

text \<open>\<open>member[strlen(member) - 1]\<close> of an empty string is outside it.\<close>

definition ailsa_add_trailing_slash :: "string \<Rightarrow> (int \<times> string) option" where
  "ailsa_add_trailing_slash member =
    (if member = [] then None
     else if last member \<noteq> CHR ''/'' \<and> length member < 254 then Some (0, member @ ''/'')
     else if last member = CHR ''/'' then Some (0, member)
     else Some (-1, member))"

definition ailsa_add_trailing_dot :: "string \<Rightarrow> (int \<times> string) option" where
  "ailsa_add_trailing_dot member =
    (if length member > 254 then Some (-1, member)
     else if member = [] then None
     else if last member \<noteq> CHR ''.'' then Some (0, member @ ''.'')
     else if last member = CHR ''.'' then Some (0, member)
     else Some (-1, member))"

definition ailsa_chomp :: "string \<Rightarrow> string" where
  "ailsa_chomp line = (case strchr line (CHR 0x0A) of None \<Rightarrow> line | Some p \<Rightarrow> take p line)"

text \<open>\<open>strstr(line, "\r\n")\<close>.\<close>

fun strstr_crlf :: "string \<Rightarrow> nat option" where
  "strstr_crlf (a # b # s) =
     (if a = CHR 0x0D \<and> b = CHR 0x0A then Some 0 else map_option Suc (strstr_crlf (b # s)))"
| "strstr_crlf _ = None"

definition ailsa_munch :: "string \<Rightarrow> string" where
  "ailsa_munch line = (case strstr_crlf line of None \<Rightarrow> line | Some p \<Rightarrow> take p line)"

subsection \<open>Cloning and replacing cells\<close>

text \<open>The union of an element overwritten with a zeroed one.\<close>

fun zero_union :: "ailsa_data \<Rightarrow> ailsa_data" where
  "zero_union D_NULL = D_NULL"
| "zero_union (D_TEXT s) = D_NULL"
| "zero_union (D_LINT _) = D_LINT 0"
| "zero_union (D_SINT _) = D_SINT 0"
| "zero_union (D_FLOAT _) = D_FLOAT 0"

text \<open>For every type but text \<open>memcpy(d->data, u, ...)\<close> copies from the fresh union \<open>u\<close> into the
  source element: both end up zero.\<close>

definition ailsa_clone_data_element ::
  "ailsa_data heap \<Rightarrow> addr option \<Rightarrow> (addr option \<times> ailsa_data heap) option" where
  "ailsa_clone_data_element h e =
    (if e = None then Some (None, h)
     else let (tmp, h) = calloc_elem h in do {
       x \<leftarrow> deref h e;
       d \<leftarrow> el_data x;
       (case d of
          D_TEXT s \<Rightarrow> do {
            h \<leftarrow> set_data tmp (Some (D_TEXT (strndup s CONFIG_LEN))) h;
            Some (tmp, h) }
        | _ \<Rightarrow> do {
            h \<leftarrow> set_data tmp (Some (zero_union d)) h;
            h \<leftarrow> set_data e (Some (zero_union d)) h;
            Some (tmp, h) })
     })"

definition copy_data :: "ailsa_data \<Rightarrow> ailsa_data" where
  "copy_data s = (case s of D_TEXT t \<Rightarrow> D_TEXT (strndup t DOMAIN_LEN) | _ \<Rightarrow> s)"

text \<open>\<open>cmdb_replace_data_element\<close>: the new cell starts as a copy of \<open>element\<close>, links included, and
  each case overwrites some of the links.\<close>

definition cmdb_replace_data_element ::
  "ailsa_data heap \<Rightarrow> AILLIST option \<Rightarrow> addr option \<Rightarrow> nat \<Rightarrow>
   (int \<times> ailsa_data heap \<times> AILLIST option) option" where
  "cmdb_replace_data_element h lst element number = (case lst of None \<Rightarrow> Some (AILSA_NO_DATA, h, lst)
   | Some list \<Rightarrow>
     if element = None then Some (AILSA_NO_DATA, h, lst)
     else let (r, h) = calloc_elem h in do {
       x \<leftarrow> deref h element;
       s \<leftarrow> el_data x;
       h \<leftarrow> set_prev r (el_prev x) h;
       h \<leftarrow> set_next r (el_next x) h;
       h \<leftarrow> set_data r (Some (copy_data s)) h;
       (e, h, list) \<leftarrow>
         (if number = 0 then do {
            let e = l_head list;
            c \<leftarrow> deref h e;
            h \<leftarrow> set_next r (el_next c) h;
            h \<leftarrow> set_prev (el_next c) r h;
            Some (e, h, list\<lparr>l_head := r\<rparr>)
          } else if number = l_total list - 1 then do {
            let e = l_tail list;
            c \<leftarrow> deref h e;
            h \<leftarrow> set_prev r (el_prev c) h;
            h \<leftarrow> set_next (el_prev c) r h;
            Some (e, h, list\<lparr>l_tail := r\<rparr>)
          } else do {
            e \<leftarrow> move_down number h (l_head list);
            c \<leftarrow> deref h e;
            h \<leftarrow> set_prev (el_next c) r h;
            h \<leftarrow> set_next (el_prev c) r h;
            c \<leftarrow> deref h e;
            h \<leftarrow> set_next r (el_next c) h;
            h \<leftarrow> set_prev r (el_prev c) h;
            Some (e, h, list)
          });
       c \<leftarrow> deref h e;
       let h = (if l_destroy list then run_destroy (el_data c) h else h);
       h \<leftarrow> my_free e h;
       Some (0, h, Some list)
     })"

subsection \<open>The adders\<close>

text \<open>\<open>db_insert\<close> provides the interface of a list, with the sequence itself as its state.\<close>

definition db_append :: "ailsa_data list \<Rightarrow> ailsa_data \<Rightarrow> (int \<times> ailsa_data list) option" where
  "db_append l d = (case db_insert d (Some l) of (r, Some l) \<Rightarrow> Some (r, l) | _ \<Rightarrow> None)"

interpretation dl: ail_sequence "\<lambda>l xs. l = xs" db_append length
  "\<lambda>l n. if 0 < n \<and> n \<le> length l then Some (l ! (n - 1)) else None"
  by unfold_locales (auto simp: db_append_def db_insert_def)

text \<open>A run of insertions into a heap list and into the sequence it represents stay in step.\<close>

lemma append_all_in_step:
  assumes "heap_rep s xs"
  shows "\<exists>s'. append_all heap_append ds s = Some (0, s') \<and>
    append_all db_append ds xs = Some (0, xs @ ds) \<and> heap_rep s' (xs @ ds)"
  using hl.append_all_rep [OF assms, of ds] dl.append_all_rep [of xs xs ds] by auto

lemma add_simps [simp]:
  "cmdb_add_string_to_list (Some s) (Some l) = (0, Some (l @ [D_TEXT (strndup s CONFIG_LEN)]))"
  "cmdb_add_string_to_list None list = (AILSA_NO_DATA, list)"
  "cmdb_add_number_to_list n (Some l) = (0, Some (l @ [D_LINT n]))"
  "cmdb_add_short_to_list m (Some l) = (0, Some (l @ [D_SINT m]))"
  "cmdb_populate_cuser_muser uid (Some l) = (0, Some (l @ [D_LINT (ucast uid), D_LINT (ucast uid)]))"
  by (simp_all add: cmdb_add_string_to_list_def cmdb_add_number_to_list_def db_insert_def
      cmdb_add_short_to_list_def cmdb_populate_cuser_muser_def)

subsection \<open>Partitions\<close>

text \<open>The six columns of a partition.\<close>

definition partition_row :: "ailsa_partition_s \<Rightarrow> ailsa_data list" where
  "partition_row p = [D_LINT (p_min p), D_LINT (p_max p), D_LINT (p_pri p), D_TEXT (p_mount p),
     D_TEXT (p_fs p), D_TEXT (p_logvol p)]"

definition partition_fits :: "ailsa_partition_s \<Rightarrow> bool" where
  "partition_fits p \<longleftrightarrow> length (p_mount p) \<le> DOMAIN_LEN \<and> length (p_fs p) \<le> SERVICE_LEN \<and>
     length (p_logvol p) \<le> MAC_LEN"

lemma fill_partitions_rows:
  "list_all partition_fits ps \<Longrightarrow> fill_partitions (concat (map partition_row ps)) ds = Some (ds @ ps)"
  by (induction ps arbitrary: ds) (simp_all add: partition_row_def partition_fits_def)

lemma length_partition_rows: "length (concat (map partition_row ps)) = 6 * length ps"
  by (induction ps) (simp_all add: partition_row_def)

subsection \<open>The string buffer\<close>

definition string_ok :: "ailsa_string_s \<Rightarrow> bool" where
  "string_ok str \<longleftrightarrow> as_len str = length (as_string str) \<and> as_len str < as_size str \<and>
     FILE_LEN \<le> as_size str"

lemma fill_string_fits:
  assumes "string_ok str" "as_len str + length s < 2 * as_size str"
  shows "\<exists>str'. ailsa_fill_string str s = Some str' \<and> string_ok str' \<and>
    as_string str' = as_string str @ s \<and> as_size str \<le> as_size str'"
  using assms
  by (auto simp: ailsa_fill_string_def ailsa_resize_string_def string_ok_def snprintf_s_def Let_def)

lemma fill_string_overruns:
  assumes "string_ok str" "2 * as_size str \<le> as_len str + length s"
  shows "ailsa_fill_string str s = None"
  using assms
  by (auto simp: ailsa_fill_string_def ailsa_resize_string_def string_ok_def Let_def)

lemma fill_strings_short:
  assumes "string_ok str" "list_all (\<lambda>s. length s \<le> FILE_LEN) ss"
  shows "\<exists>str'. fill_strings str ss = Some str' \<and> string_ok str' \<and>
    as_string str' = as_string str @ concat ss"
  using assms
proof (induction ss arbitrary: str)
  case (Cons s ss)
  then have "as_len str + length s < 2 * as_size str" by (simp add: string_ok_def)
  from fill_string_fits [OF Cons.prems(1) this] obtain str1 where
    "ailsa_fill_string str s = Some str1" "string_ok str1" "as_string str1 = as_string str @ s"
    by blast
  then show ?case using Cons.IH [of str1] Cons.prems(2) by auto
qed simp

lemma init_string_ok: "string_ok ailsa_init_string"
  by (simp add: string_ok_def ailsa_init_string_def)

subsection \<open>Cloning\<close>

definition clone_value :: "ailsa_data \<Rightarrow> ailsa_data" where
  "clone_value d = (case d of D_TEXT s \<Rightarrow> D_TEXT (strndup s CONFIG_LEN) | _ \<Rightarrow> zero_union d)"

definition clone_source :: "ailsa_data \<Rightarrow> ailsa_data" where
  "clone_source d = (case d of D_TEXT s \<Rightarrow> d | _ \<Rightarrow> zero_union d)"

lemma clone_element:
  assumes "heap_ok h" "cells h a = Some x" "el_data x = Some d"
  shows "ailsa_clone_data_element h (Some a) = Some (Some (brk h),
    h\<lparr>cells := (cells h)(brk h \<mapsto> \<lparr>el_prev = None, el_next = None, el_data = Some (clone_value d)\<rparr>,
                        a \<mapsto> x\<lparr>el_data := Some (clone_source d)\<rparr>),
      brk := Suc (brk h)\<rparr>)"
proof -
  have ne: "a \<noteq> brk h" using assms by auto
  have xd: "x\<lparr>el_data := Some d\<rparr> = x" using assms(3) by (cases x) simp
  have same: "(cells h)(brk h := c, a \<mapsto> x) = (cells h)(brk h := c)" for c
    by (rule fun_upd_idem) (use ne assms(2) in simp)
  show ?thesis
  proof (cases "\<exists>s. d = D_TEXT s")
    case True
    then obtain s where s: "d = D_TEXT s" by blast
    show ?thesis
      unfolding clone_source_def using assms ne s
      by (simp add: ailsa_clone_data_element_def heap_defs clone_value_def xd [unfolded s] same)
  next
    case False
    then show ?thesis
      using assms ne
      by (cases d) (simp_all add: ailsa_clone_data_element_def heap_defs clone_value_def clone_source_def)
  qed
qed

lemma insert_clone_effect:
  assumes "heap_ok h" "list_rep h l ps" "cells h a = Some x" "el_data x = Some d"
    and "a \<notin> fst ` set ps"
  shows "\<exists>h' l'. ailsa_insert_clone ailsa_clone_data_element h (Some l) (Some a) =
      Some (0, h', Some l') \<and>
    list_rep h' l' (ps @ [(Suc (brk h), Some (clone_value d))]) \<and>
    cells h' a = Some (x\<lparr>el_data := Some (clone_source d)\<rparr>)"
proof -
  have a: "a < brk h" using assms(1,3) by (force simp: heap_ok_def not_le [symmetric])
  define h1 where "h1 = h\<lparr>cells := (cells h)(brk h \<mapsto>
      \<lparr>el_prev = None, el_next = None, el_data = Some (clone_value d)\<rparr>,
      a \<mapsto> x\<lparr>el_data := Some (clone_source d)\<rparr>), brk := Suc (brk h)\<rparr>"
  have clone: "ailsa_clone_data_element h (Some a) = Some (Some (brk h), h1)"
    using clone_element [OF assms(1,3,4)] by (simp add: h1_def)
  have fr: "frame {brk h, a} h h1"
    using assms(1) a by (auto simp: frame_def heap_ok_def h1_def)
  then have rep1: "list_rep h1 l ps"
    using list_rep_frame [OF fr assms(2)] list_rep_fresh(1) [OF assms(1,2)] assms(5) by auto
  have ok1: "heap_ok h1" and b1: "brk h1 = Suc (brk h)" using fr by (simp_all add: frame_def h1_def)
  from insert_yields [OF ok1 rep1, of "clone_value d"] obtain h2 l' where
    ins: "ailsa_list_insert h1 (Some l) (Some (clone_value d)) = Some (0, h2, Some l')"
      "list_rep h2 l' (ps @ [(Suc (brk h), Some (clone_value d))])"
      "frame (insert (brk h1) (fst ` set ps)) h1 h2"
    by (auto simp: b1)
  have c: "cells h2 (brk h) = Some \<lparr>el_prev = None, el_next = None, el_data = Some (clone_value d)\<rparr>"
    "cells h2 a = Some (x\<lparr>el_data := Some (clone_source d)\<rparr>)"
    using ins(3) a assms(5) list_rep_fresh(1) [OF assms(1,2)] by (auto simp: frame_def b1 h1_def)
  have "frame {brk h} h2 (h2\<lparr>cells := (cells h2)(brk h := None)\<rparr>)"
    using ins(3) by (auto simp: frame_def heap_ok_def)
  then have "list_rep (h2\<lparr>cells := (cells h2)(brk h := None)\<rparr>) l'
      (ps @ [(Suc (brk h), Some (clone_value d))])"
    using list_rep_frame [OF _ ins(2)] list_rep_fresh(1) [OF assms(1,2)] by auto
  moreover have "cells h1 (brk h) = Some \<lparr>el_prev = None, el_next = None, el_data = Some (clone_value d)\<rparr>"
    using a by (simp add: h1_def)
  ultimately show ?thesis
    using clone ins(1) c a
    by (simp add: ailsa_insert_clone_def my_free_def)
qed

subsection \<open>Replacing\<close>

lemma replace_middle:
  assumes "heap_ok h" "list_rep h l (xs @ (b, y) # (a, x) # (c, z) # ys)"
    and "cells h q = Some e" "el_data e = Some s"
  defines "ps \<equiv> xs @ (b, y) # (a, x) # (c, z) # ys"
  shows "\<exists>h' l'. cmdb_replace_data_element h (Some l) (Some q) (Suc (length xs)) = Some (0, h', Some l') \<and>
    list_rep h' l' (xs @ (b, y) # (brk h, Some (copy_data s)) # (c, z) # ys) \<and>
    destroyed h' = destroyed h @ (if l_destroy l then [x] else []) \<and> cells h' a = None"
proof -
  note fresh = list_rep_fresh [OF assms(1,2)]
  have q: "q < brk h" using assms(1,3) by (force simp: heap_ok_def not_le [symmetric])
  define h1 where "h1 = h\<lparr>brk := Suc (brk h), cells := (cells h)(brk h \<mapsto>
      \<lparr>el_prev = el_prev e, el_next = el_next e, el_data = Some (copy_data s)\<rparr>)\<rparr>"
  have ds: "dseg (cells h1) None ps None"
    using assms(2) fresh(1) by (simp add: h1_def list_rep_def ps_def image_Un)
  have mv: "move_down (Suc (length xs)) h1 (l_head l) = Some (Some a)"
    using move_down_dseg [OF ds, of "Suc (length xs)"] assms(2) by (simp add: list_rep_def ps_def)
  have tot: "l_total l - 1 \<noteq> Suc (length xs)"
    using assms(2) by (simp add: list_rep_def)
  show ?thesis
    using assms(1-4) fresh q ds mv tot
    by (auto simp: cmdb_replace_data_element_def heap_defs list_rep_def image_Un h1_def ps_def
        run_destroy_def simp del: move_down.simps)
qed

text \<open>At an end the new cell keeps the other link of \<open>element\<close>: the list stays well formed when
  \<open>element\<close> is at that end of its own list.\<close>

lemma replace_head:
  assumes "heap_ok h" "list_rep h l ((a, x) # (c, z) # ys)"
    and "cells h q = Some e" "el_data e = Some s" "el_prev e = None"
  shows "\<exists>h' l'. cmdb_replace_data_element h (Some l) (Some q) 0 = Some (0, h', Some l') \<and>
    list_rep h' l' ((brk h, Some (copy_data s)) # (c, z) # ys)"
proof -
  note fresh = list_rep_fresh [OF assms(1,2)]
  have "q < brk h" using assms(1,3) by (force simp: heap_ok_def not_le [symmetric])
  then show ?thesis
    using assms fresh
    by (auto simp: cmdb_replace_data_element_def heap_defs list_rep_def run_destroy_def)
qed

lemma replace_last:
  assumes "heap_ok h" "list_rep h l (xs @ [(b, y), (a, x)])"
    and "cells h q = Some e" "el_data e = Some s" "el_next e = None"
  shows "\<exists>h' l'. cmdb_replace_data_element h (Some l) (Some q) (Suc (length xs)) = Some (0, h', Some l') \<and>
    list_rep h' l' (xs @ [(b, y), (brk h, Some (copy_data s))])"
proof -
  note fresh = list_rep_fresh [OF assms(1,2)]
  have "q < brk h" using assms(1,3) by (force simp: heap_ok_def not_le [symmetric])
  then show ?thesis
    using assms fresh
    by (auto simp: cmdb_replace_data_element_def heap_defs list_rep_def run_destroy_def image_Un)
qed

text \<open>The replacement on the sequence of data, for the callers that work on sequences.  A list of one
  element and a position outside the list are crashes.\<close>

definition replace_row :: "ailsa_data list \<Rightarrow> ailsa_data \<Rightarrow> nat \<Rightarrow> ailsa_data list option" where
  "replace_row row d n = (if length row < 2 \<or> length row \<le> n then None else Some (row[n := copy_data d]))"

lemma replace_refines:
  assumes "heap_ok h" "list_rep h l ps" "map snd ps = map Some row" "replace_row row d n = Some row'"
    and "cells h q = Some e" "el_data e = Some d"
    and "n = 0 \<Longrightarrow> el_prev e = None" "n = length row - 1 \<Longrightarrow> el_next e = None"
  shows "\<exists>h' l' ps'. cmdb_replace_data_element h (Some l) (Some q) n = Some (0, h', Some l') \<and>
    list_rep h' l' ps' \<and> map snd ps' = map Some row'"
proof -
  have len: "length ps = length row" using arg_cong [OF assms(3), of length] by simp
  have n: "2 \<le> length ps" "n < length ps" and row': "row' = row[n := copy_data d]"
    using assms(4) len by (auto simp: replace_row_def split: if_splits)
  have new: "map Some row' = (map snd ps)[n := Some (copy_data d)]" by (simp add: row' assms(3) map_update)
  consider "n = 0" | xs b y a x where "ps = xs @ [(b, y), (a, x)]" "n = Suc (length xs)"
    | xs b y a x c z ys where "ps = xs @ (b, y) # (a, x) # (c, z) # ys" "n = Suc (length xs)"
  proof -
    assume 1: "n = 0 \<Longrightarrow> thesis" and 2: "\<And>xs b y a x. ps = xs @ [(b, y), (a, x)] \<Longrightarrow> n = Suc (length xs) \<Longrightarrow> thesis"
      and 3: "\<And>xs b y a x c z ys. ps = xs @ (b, y) # (a, x) # (c, z) # ys \<Longrightarrow> n = Suc (length xs) \<Longrightarrow> thesis"
    show thesis
    proof (cases n)
      case (Suc m)
      then have "ps = take m ps @ (ps ! m) # (ps ! n) # drop (Suc n) ps"
        using n by (simp add: Cons_nth_drop_Suc)
      moreover have "n = Suc (length (take m ps))" using Suc n by simp
      ultimately show thesis using 2 3 by (metis list.exhaust surj_pair)
    qed (rule 1)
  qed
  then show ?thesis
  proof cases
    case 1
    obtain a x c z ys where ps: "ps = (a, x) # (c, z) # ys" using n(1) by (metis Suc_le_length_iff numeral_2_eq_2 surj_pair)
    show ?thesis using replace_head [OF assms(1) _ assms(5,6) assms(7) [OF 1], of l a x c z ys] assms(2) new
      unfolding 1 ps by fastforce
  next
    case 2
    have "el_next e = None" using assms(8) 2 len by simp
    from replace_last [OF assms(1) _ assms(5,6) this, of l _ _ _ _ _] show ?thesis
      using assms(2) new unfolding 2 by (fastforce simp: list_update_append)
  next
    case 3
    from replace_middle [OF assms(1) _ assms(5,6)] show ?thesis
      using assms(2) new unfolding 3 by (fastforce simp: list_update_append)
  qed
qed

subsection \<open>Properties\<close>

text \<open>A heap with one list of three rows (cells 0 to 2) and a cell 3 of another list.\<close>

definition heap4 :: "ailsa_data heap" where
  "heap4 = \<lparr>cells = [0 \<mapsto> \<lparr>el_prev = None, el_next = Some 1, el_data = Some (D_TEXT ''a'')\<rparr>,
                     1 \<mapsto> \<lparr>el_prev = Some 0, el_next = Some 2, el_data = Some (D_LINT 5)\<rparr>,
                     2 \<mapsto> \<lparr>el_prev = Some 1, el_next = None, el_data = Some (D_LINT 6)\<rparr>,
                     3 \<mapsto> \<lparr>el_prev = None, el_next = None, el_data = Some (D_LINT 7)\<rparr>],
             brk = 4, destroyed = []\<rparr>"

definition list4 :: AILLIST where
  "list4 = \<lparr>l_total = 3, l_destroy = True, l_head = Some 0, l_tail = Some 2\<rparr>"

lemma heap4_ok: "heap_ok heap4"
  by (simp add: heap_ok_def heap4_def)

lemma list4_rep: "list_rep heap4 list4 [(0, Some (D_TEXT ''a'')), (1, Some (D_LINT 5)), (2, Some (D_LINT 6))]"
  by (simp add: list_rep_def heap4_def list4_def)

lemma heap4_other: "cells heap4 3 = Some \<lparr>el_prev = None, el_next = None, el_data = Some (D_LINT 7)\<rparr>"
  by (simp add: heap4_def)

text \<open>\<open>ailsa_insert_clone\<close> appends the clone of an element of another list.  A text is copied (its
  first CONFIG\_LEN characters) and the source kept; of a number the clone is 0, and the source
  element becomes 0 as well.\<close>

theorem insert_clone_zeroes_numbers:
  assumes "heap_ok h" "list_rep h l ps" "cells h a = Some x" "el_data x = Some d"
    and "a \<notin> fst ` set ps"
  shows "\<exists>h' l'. ailsa_insert_clone ailsa_clone_data_element h (Some l) (Some a) =
      Some (0, h', Some l') \<and>
    list_rep h' l' (ps @ [(Suc (brk h), Some (case d of
        D_TEXT s \<Rightarrow> D_TEXT (strndup s CONFIG_LEN) | _ \<Rightarrow> zero_union d))]) \<and>
    cells h' a = Some (x\<lparr>el_data := Some (case d of D_TEXT s \<Rightarrow> d | _ \<Rightarrow> zero_union d)\<rparr>)"
  using insert_clone_effect [OF assms] by (simp add: clone_value_def clone_source_def)

theorem insert_clone_zeroes_numbers_witness:
  "\<exists>h' l'. ailsa_insert_clone ailsa_clone_data_element heap4 (Some list4) (Some 3) = Some (0, h', Some l') \<and>
     cells h' 3 = Some \<lparr>el_prev = None, el_next = None, el_data = Some (D_LINT 0)\<rparr>"
  using insert_clone_zeroes_numbers [OF heap4_ok list4_rep heap4_other, of "D_LINT 7"] by auto

text \<open>Replacing an inner element of a list by an element of any list returns 0, puts a copy of its
  data at that position, destroys the old data once and frees the old cell.\<close>

theorem replace_inner_element:
  assumes "heap_ok h" "list_rep h l (xs @ (b, y) # (a, x) # (c, z) # ys)"
    and "cells h q = Some e" "el_data e = Some s"
  shows "\<exists>h' l'. cmdb_replace_data_element h (Some l) (Some q) (Suc (length xs)) = Some (0, h', Some l') \<and>
    list_rep h' l' (xs @ (b, y) # (brk h, Some (copy_data s)) # (c, z) # ys) \<and>
    destroyed h' = destroyed h @ (if l_destroy l then [x] else []) \<and> cells h' a = None"
  using replace_middle [OF assms] .

theorem replace_inner_element_witness:
  "\<exists>h' l'. cmdb_replace_data_element heap4 (Some list4) (Some 3) 1 = Some (0, h', Some l') \<and>
     list_rep h' l' [(0, Some (D_TEXT ''a'')), (4, Some (D_LINT 7)), (2, Some (D_LINT 6))]"
proof -
  have "brk heap4 = 4" by (simp add: heap4_def)
  then show ?thesis
    using replace_inner_element [of heap4 list4 "[]" 0 "Some (D_TEXT ''a'')" 1 "Some (D_LINT 5)" 2
        "Some (D_LINT 6)" "[]" 3 _ "D_LINT 7"] heap4_ok list4_rep heap4_other
    by (force simp: copy_data_def)
qed

text \<open>From the rows of any partitions whose strings fit their columns the code rebuilds exactly
  these partitions, in order, at the end of the destination.\<close>

theorem partition_rows_roundtrip:
  assumes "list_all partition_fits ps"
  shows "cbc_fill_partition_details (Some (concat (map partition_row ps))) (Some ds) = Some (0, Some (ds @ ps))"
  using fill_partitions_rows [OF assms, of ds] length_partition_rows [of ps]
  by (cases ps) (simp_all add: cbc_fill_partition_details_def)

theorem partition_rows_roundtrip_witness:
  "cbc_fill_partition_details (Some [D_LINT 1, D_LINT 9, D_LINT 5, D_TEXT ''/'', D_TEXT ''ext4'', D_TEXT ''lv_root''])
     (Some []) = Some (0, Some [\<lparr>p_min = 1, p_max = 9, p_pri = 5, p_mount = ''/'', p_fs = ''ext4'', p_logvol = ''lv_root''\<rparr>])"
  using partition_rows_roundtrip [of
    "[\<lparr>p_min = 1, p_max = 9, p_pri = 5, p_mount = ''/'', p_fs = ''ext4'', p_logvol = ''lv_root''\<rparr>]" "[]"]
  by (simp add: partition_fits_def partition_row_def)

text \<open>Filling a fresh string buffer with texts of at most FILE\_LEN characters never overruns it and
  gives their concatenation, whatever their number.\<close>

theorem string_buffer_concatenates:
  assumes "list_all (\<lambda>s. length s \<le> FILE_LEN) ss"
  shows "\<exists>str. fill_strings ailsa_init_string ss = Some str \<and> as_string str = concat ss \<and>
    as_len str = length (concat ss) \<and> as_len str < as_size str"
  using fill_strings_short [OF init_string_ok assms] by (auto simp: ailsa_init_string_def string_ok_def)

theorem string_buffer_concatenates_witness:
  "\<exists>str. fill_strings ailsa_init_string [''zone '', ''{'', ''}''] = Some str \<and> as_string str = ''zone {}''"
  using string_buffer_concatenates [of "[''zone '', ''{'', ''}'']"] by auto

text \<open>The buffer doubles only once per text: a text is written past its end exactly when it does not
  fit twice the current size.\<close>

theorem string_buffer_overrun_iff:
  assumes "string_ok str"
  shows "ailsa_fill_string str s = None \<longleftrightarrow> 2 * as_size str \<le> as_len str + length s"
  using fill_string_fits [OF assms, of s] fill_string_overruns [OF assms, of s] by fastforce

theorem string_buffer_overrun_iff_witness:
  "ailsa_fill_string ailsa_init_string (replicate 8192 (CHR ''x'')) = None"
  using string_buffer_overrun_iff [OF init_string_ok, of "replicate 8192 (CHR ''x'')"]
  by (simp add: ailsa_init_string_def)

end
