(* ===== verification/Cmdb_Helper.thy ===== *)
theory Cmdb_Helper
  imports Sql_Statements Ailsa_Data
begin

text \<open>
  lib/helper.c: the functions every command uses to turn names into ids (each builds the argument
  list of one numbered statement and appends the rows it finds to the caller's list), the checks
  that exactly one row was found, the existence checks, and the update of a row's modification
  user.  The locale \<open>id_lookup\<close> states what a check needs of its lookup; every lookup of the file
  provides it.
\<close>

subsection \<open>Building an argument list\<close>

text \<open>The chain \<open>if ((retval = cmdb_add_string_to_list(s, l)) != 0) goto cleanup;\<close>.\<close>

fun add_strings :: "cstr list \<Rightarrow> db_list \<Rightarrow> int \<times> db_list" where
  "add_strings [] l = (0, l)"
| "add_strings (s # ss) l =
    (let (retval, l) = cmdb_add_string_to_list s l in
     if retval \<noteq> 0 then (retval, l) else add_strings ss l)"

text \<open>A fresh list, the strings, the query, and the cleanup of the fresh list.\<close>

definition id_query ::
  "'db sqlite3_api \<Rightarrow> 'db world \<Rightarrow> ailsa_cmdb_s option \<Rightarrow> cstr list \<Rightarrow> nat \<Rightarrow> db_list \<Rightarrow>
   'db query_result" where
  "id_query api w cc strs query list =
    (let (retval, l) = add_strings strs (Some []) in
     if retval \<noteq> 0 then Some (retval, w, list)
     else ailsa_argument_query api w cc query l list)"

text \<open>\<open>args[i]\<close> of an array of strings; \<open>None\<close> outside it or for a NULL array.\<close>

definition arg_at :: "cstr list option \<Rightarrow> nat \<Rightarrow> cstr option" where
  "arg_at args i = (case args of None \<Rightarrow> None | Some a \<Rightarrow> if i < length a then Some (a ! i) else None)"

subsection \<open>Lookups by one name\<close>

definition cmdb_add_hard_type_id_to_list ::
  "'db sqlite3_api \<Rightarrow> 'db world \<Rightarrow> cstr \<Rightarrow> ailsa_cmdb_s option \<Rightarrow> db_list \<Rightarrow> 'db query_result" where
  "cmdb_add_hard_type_id_to_list api w hclass cc list =
    (if hclass = None \<or> cc = None \<or> list = None then Some (AILSA_NO_DATA, w, list)
     else id_query api w cc [hclass] HARDWARE_TYPE_ID_ON_CLASS list)"

definition cmdb_add_server_id_to_list ::
  "'db sqlite3_api \<Rightarrow> 'db world \<Rightarrow> cstr \<Rightarrow> ailsa_cmdb_s option \<Rightarrow> db_list \<Rightarrow> 'db query_result" where
  "cmdb_add_server_id_to_list api w name cc list =
    (if name = None \<or> cc = None \<or> list = None then Some (AILSA_NO_DATA, w, list)
     else id_query api w cc [name] SERVER_ID_ON_NAME list)"

definition cmdb_add_service_type_id_to_list ::
  "'db sqlite3_api \<Rightarrow> 'db world \<Rightarrow> cstr \<Rightarrow> ailsa_cmdb_s option \<Rightarrow> db_list \<Rightarrow> 'db query_result" where
  "cmdb_add_service_type_id_to_list api w stype cc list =
    (if stype = None \<or> cc = None \<or> list = None then Some (AILSA_NO_DATA, w, list)
     else id_query api w cc [stype] SERVICE_TYPE_ID_ON_SERVICE list)"

definition cmdb_add_disk_dev_id_to_list ::
  "'db sqlite3_api \<Rightarrow> 'db world \<Rightarrow> cstr \<Rightarrow> ailsa_cmdb_s option \<Rightarrow> db_list \<Rightarrow> 'db query_result" where
  "cmdb_add_disk_dev_id_to_list api w server cc list =
    (if server = None \<or> cc = None \<or> list = None then Some (AILSA_NO_DATA, w, list)
     else id_query api w cc [server] DISK_ID_ON_SERVER_NAME list)"

definition cmdb_add_build_type_id_to_list ::
  "'db sqlite3_api \<Rightarrow> 'db world \<Rightarrow> cstr \<Rightarrow> ailsa_cmdb_s option \<Rightarrow> db_list \<Rightarrow> 'db query_result" where
  "cmdb_add_build_type_id_to_list api w alias cc list =
    (if alias = None \<or> cc = None \<or> list = None then Some (AILSA_NO_DATA, w, list)
     else id_query api w cc [alias] BT_ID_ON_ALIAS list)"

definition cmdb_add_sys_pack_id_to_list ::
  "'db sqlite3_api \<Rightarrow> 'db world \<Rightarrow> cstr \<Rightarrow> ailsa_cmdb_s option \<Rightarrow> db_list \<Rightarrow> 'db query_result" where
  "cmdb_add_sys_pack_id_to_list api w pack cc list =
    (if pack = None \<or> cc = None \<or> list = None then Some (AILSA_NO_DATA, w, list)
     else id_query api w cc [pack] SYSTEM_PACKAGE_ID list)"

definition cmdb_add_system_script_id_to_list ::
  "'db sqlite3_api \<Rightarrow> 'db world \<Rightarrow> cstr \<Rightarrow> ailsa_cmdb_s option \<Rightarrow> db_list \<Rightarrow> 'db query_result" where
  "cmdb_add_system_script_id_to_list api w name cc list =
    (if cc = None \<or> list = None then Some (AILSA_NO_DATA, w, list)
     else id_query api w cc [name] SYSTEM_SCRIPT_ID_ON_NAME list)"

definition cmdb_add_vm_server_id_to_list ::
  "'db sqlite3_api \<Rightarrow> 'db world \<Rightarrow> cstr \<Rightarrow> ailsa_cmdb_s option \<Rightarrow> db_list \<Rightarrow> 'db query_result" where
  "cmdb_add_vm_server_id_to_list api w name cc list =
    (if name = None \<or> cc = None \<or> list = None then Some (AILSA_NO_DATA, w, list)
     else id_query api w cc [name] VM_SERVER_ID_ON_NAME list)"

definition cmdb_add_build_id_to_list ::
  "'db sqlite3_api \<Rightarrow> 'db world \<Rightarrow> cstr \<Rightarrow> ailsa_cmdb_s option \<Rightarrow> db_list \<Rightarrow> 'db query_result" where
  "cmdb_add_build_id_to_list api w server cc list =
    (if server = None \<or> cc = None \<or> list = None then Some (AILSA_NO_DATA, w, list)
     else id_query api w cc [server] BUILD_ID_ON_SERVER_NAME list)"

definition cmdb_add_ip_id_to_list ::
  "'db sqlite3_api \<Rightarrow> 'db world \<Rightarrow> cstr \<Rightarrow> ailsa_cmdb_s option \<Rightarrow> db_list \<Rightarrow> 'db query_result" where
  "cmdb_add_ip_id_to_list api w server cc list =
    (if server = None \<or> cc = None \<or> list = None then Some (AILSA_NO_DATA, w, list)
     else id_query api w cc [server] IP_ID_ON_SERVER_NAME list)"

definition cmdb_add_disk_id_to_list ::
  "'db sqlite3_api \<Rightarrow> 'db world \<Rightarrow> cstr \<Rightarrow> ailsa_cmdb_s option \<Rightarrow> db_list \<Rightarrow> 'db query_result" where
  "cmdb_add_disk_id_to_list api w server cc list =
    (if server = None \<or> cc = None \<or> list = None then Some (AILSA_NO_DATA, w, list)
     else id_query api w cc [server] DISK_ID_ON_SERVER_NAME list)"

definition cmdb_add_os_alias_to_list ::
  "'db sqlite3_api \<Rightarrow> 'db world \<Rightarrow> cstr \<Rightarrow> ailsa_cmdb_s option \<Rightarrow> db_list \<Rightarrow> 'db query_result" where
  "cmdb_add_os_alias_to_list api w os cc list =
    (if os = None \<or> cc = None then Some (AILSA_NO_DATA, w, list)
     else (case list of None \<Rightarrow> Some (AILSA_NO_DATA, w, list) | Some l \<Rightarrow> do {
       (retval, w, list) \<leftarrow> id_query api w cc [os] OS_ALIAS_ON_OS_NAME (Some l);
       if retval \<noteq> 0 then Some (retval, w, list)
       else do {
         l' \<leftarrow> list;
         Some (if length l' = length l then AILSA_NO_OS else retval, w, list)
       } }))"

subsection \<open>Lookups with a default\<close>

definition cmdb_add_build_domain_id_to_list ::
  "'db sqlite3_api \<Rightarrow> 'db world \<Rightarrow> cstr \<Rightarrow> ailsa_cmdb_s option \<Rightarrow> db_list \<Rightarrow> 'db query_result" where
  "cmdb_add_build_domain_id_to_list api w domain cc list =
    (if cc = None \<or> list = None then Some (AILSA_NO_DATA, w, list)
     else if domain = None then ailsa_basic_query api w cc DEFAULT_DOMAIN list
     else id_query api w cc [domain] BUILD_DOMAIN_ID_ON_DOMAIN list)"

definition cmdb_add_cust_id_to_list ::
  "'db sqlite3_api \<Rightarrow> 'db world \<Rightarrow> cstr \<Rightarrow> ailsa_cmdb_s option \<Rightarrow> db_list \<Rightarrow> 'db query_result" where
  "cmdb_add_cust_id_to_list api w coid cc list =
    (if cc = None \<or> list = None then Some (AILSA_NO_DATA, w, list)
     else if coid = None then ailsa_basic_query api w cc DEFAULT_CUSTOMER list
     else id_query api w cc [coid] CUST_ID_ON_COID list)"

definition cmdb_add_varient_id_to_list ::
  "'db sqlite3_api \<Rightarrow> 'db world \<Rightarrow> cstr \<Rightarrow> ailsa_cmdb_s option \<Rightarrow> db_list \<Rightarrow> 'db query_result" where
  "cmdb_add_varient_id_to_list api w varient cc list =
    (if cc = None \<or> list = None then Some (AILSA_NO_DATA, w, list)
     else if varient = None then ailsa_basic_query api w cc DEFAULT_VARIENT list
     else id_query api w cc [varient, varient] VARIENT_ID_ON_VARIANT_OR_VALIAS list)"

definition cmdb_add_scheme_id_to_list ::
  "'db sqlite3_api \<Rightarrow> 'db world \<Rightarrow> cstr \<Rightarrow> ailsa_cmdb_s option \<Rightarrow> db_list \<Rightarrow> 'db query_result" where
  "cmdb_add_scheme_id_to_list api w scheme cc list =
    (if cc = None \<or> list = None then Some (AILSA_NO_DATA, w, list)
     else if scheme = None then ailsa_basic_query api w cc DEFAULT_SCHEME list
     else id_query api w cc [scheme] SCHEME_ID_ON_NAME list)"

definition cmdb_add_locale_id_to_list ::
  "'db sqlite3_api \<Rightarrow> 'db world \<Rightarrow> cstr \<Rightarrow> ailsa_cmdb_s option \<Rightarrow> db_list \<Rightarrow> 'db query_result" where
  "cmdb_add_locale_id_to_list api w loc cc list =
    (if cc = None \<or> list = None then Some (AILSA_NO_DATA, w, list)
     else if loc = None then ailsa_basic_query api w cc DEFAULT_LOCALE list
     else id_query api w cc [loc] LOCALE_ID_FROM_NAME list)"

subsection \<open>Lookups by several names\<close>

definition cmdb_add_default_part_id_to_list ::
  "'db sqlite3_api \<Rightarrow> 'db world \<Rightarrow> cstr list option \<Rightarrow> ailsa_cmdb_s option \<Rightarrow> db_list \<Rightarrow>
   'db query_result" where
  "cmdb_add_default_part_id_to_list api w args cc list =
    (if args = None \<or> cc = None \<or> list = None then Some (AILSA_NO_DATA, w, list)
     else do {
       scheme \<leftarrow> arg_at args 0;
       part \<leftarrow> (if scheme = None then Some None else arg_at args 1);
       id_query api w cc [scheme, part] PARTITION_ID_ON_SEED_MOUNT list
     })"

definition cmdb_add_os_id_to_list ::
  "'db sqlite3_api \<Rightarrow> 'db world \<Rightarrow> cstr list option \<Rightarrow> ailsa_cmdb_s option \<Rightarrow> db_list \<Rightarrow>
   'db query_result" where
  "cmdb_add_os_id_to_list api w args cc list =
    (if cc = None \<or> list = None then Some (AILSA_NO_DATA, w, list)
     else do {
       os \<leftarrow> arg_at args 0;
       version \<leftarrow> arg_at args 1;
       arch \<leftarrow> arg_at args 2;
       if os = None \<and> version = None \<and> arch = None then ailsa_basic_query api w cc DEFAULT_OS list
       else if arch = None
       then id_query api w cc [os, os, version, version] BUILD_OS_ON_NAME_VERSION list
       else id_query api w cc [os, os, version, version, arch] BUILD_OS_ON_ALL list
     })"

abbreviation FORWARD_ZONE :: int where "FORWARD_ZONE \<equiv> 1"
abbreviation REVERSE_ZONE :: int where "REVERSE_ZONE \<equiv> 2"

definition cmdb_add_zone_id_to_list ::
  "'db sqlite3_api \<Rightarrow> 'db world \<Rightarrow> cstr \<Rightarrow> int \<Rightarrow> cstr \<Rightarrow> ailsa_cmdb_s option \<Rightarrow> db_list \<Rightarrow>
   'db query_result" where
  "cmdb_add_zone_id_to_list api w zone type ztype cc list =
    (if zone = None \<or> cc = None \<or> list = None then Some (AILSA_NO_DATA, w, list)
     else let (retval, l) = add_strings [zone, if ztype \<noteq> None then ztype else Some ''master''] (Some []) in
       if retval \<noteq> 0 then Some (retval, w, list)
       else if type = FORWARD_ZONE then ailsa_argument_query api w cc FWD_ZONE_ID_ON_ZONE_NAME l list
       else if type = REVERSE_ZONE then ailsa_argument_query api w cc REV_ZONE_ID_ON_RANGE l list
       else Some (AILSA_WRONG_ZONE_TYPE, w, list))"

definition cmdb_add_sys_pack_arg_id_to_list ::
  "'db sqlite3_api \<Rightarrow> 'db world \<Rightarrow> cstr list option \<Rightarrow> ailsa_cmdb_s option \<Rightarrow> db_list \<Rightarrow>
   'db query_result" where
  "cmdb_add_sys_pack_arg_id_to_list api w args cc list =
    (if cc = None \<or> list = None then Some (AILSA_NO_DATA, w, list)
     else do {
       name \<leftarrow> arg_at args 0;
       field \<leftarrow> arg_at args 1;
       id_query api w cc [name, field] SYSTEM_PACKAGE_ARG_ID list
     })"

subsection \<open>Checked lookups\<close>

text \<open>
  The shape of every \<open>cmdb_check_add_...\<close> function: remember the length of the list, look up, pass
  an error on, and report \<open>err\<close> unless exactly one element was added.
\<close>

definition check_added ::
  "int \<Rightarrow> ('db world \<Rightarrow> db_list \<Rightarrow> 'db query_result) \<Rightarrow> 'db world \<Rightarrow> db_list \<Rightarrow> 'db query_result" where
  "check_added err lookup w list = do {
     l \<leftarrow> list;
     (retval, w, list) \<leftarrow> lookup w list;
     if retval \<noteq> 0 then Some (retval, w, list)
     else do {
       l' \<leftarrow> list;
       Some (if length l' \<noteq> length l + 1 then err else retval, w, list)
     } }"

definition cmdb_check_add_server_id_to_list ::
  "'db sqlite3_api \<Rightarrow> 'db world \<Rightarrow> cstr \<Rightarrow> ailsa_cmdb_s option \<Rightarrow> db_list \<Rightarrow> 'db query_result" where
  "cmdb_check_add_server_id_to_list api w server cc list =
    (if server = None \<or> cc = None \<or> list = None then Some (AILSA_NO_DATA, w, list)
     else check_added AILSA_SERVER_NOT_FOUND
            (\<lambda>w. cmdb_add_server_id_to_list api w server cc) w list)"

definition cmdb_check_add_cust_id_to_list ::
  "'db sqlite3_api \<Rightarrow> 'db world \<Rightarrow> cstr \<Rightarrow> ailsa_cmdb_s option \<Rightarrow> db_list \<Rightarrow> 'db query_result" where
  "cmdb_check_add_cust_id_to_list api w coid cc list =
    (if cc = None \<or> list = None then Some (AILSA_NO_DATA, w, list)
     else check_added AILSA_CUSTOMER_NOT_FOUND
            (\<lambda>w. cmdb_add_cust_id_to_list api w coid cc) w list)"

definition cmdb_check_add_zone_id_to_list ::
  "'db sqlite3_api \<Rightarrow> 'db world \<Rightarrow> cstr \<Rightarrow> int \<Rightarrow> cstr \<Rightarrow> ailsa_cmdb_s option \<Rightarrow> db_list \<Rightarrow>
   'db query_result" where
  "cmdb_check_add_zone_id_to_list api w zone type ztype cc list =
    (if zone = None \<or> cc = None \<or> list = None \<or> type = 0 then Some (AILSA_NO_DATA, w, list)
     else check_added AILSA_ZONE_NOT_FOUND
            (\<lambda>w. cmdb_add_zone_id_to_list api w zone type ztype cc) w list)"

definition cmdb_check_add_varient_id_to_list ::
  "'db sqlite3_api \<Rightarrow> 'db world \<Rightarrow> cstr \<Rightarrow> ailsa_cmdb_s option \<Rightarrow> db_list \<Rightarrow> 'db query_result" where
  "cmdb_check_add_varient_id_to_list api w varient cc list =
    (if cc = None \<or> list = None then Some (AILSA_NO_DATA, w, list)
     else check_added AILSA_VARIENT_NOT_FOUND
            (\<lambda>w. cmdb_add_varient_id_to_list api w varient cc) w list)"

definition cmdb_check_add_ip_id_to_list ::
  "'db sqlite3_api \<Rightarrow> 'db world \<Rightarrow> cstr \<Rightarrow> ailsa_cmdb_s option \<Rightarrow> db_list \<Rightarrow> 'db query_result" where
  "cmdb_check_add_ip_id_to_list api w host cc list =
    (if host = None \<or> cc = None \<or> list = None then Some (AILSA_NO_DATA, w, list)
     else check_added AILSA_BUILD_IP_NOT_FOUND
            (\<lambda>w. cmdb_add_ip_id_to_list api w host cc) w list)"

definition cmdb_add_identity_id_to_list ::
  "'db sqlite3_api \<Rightarrow> 'db world \<Rightarrow> cstr list option \<Rightarrow> ailsa_cmdb_s option \<Rightarrow> db_list \<Rightarrow>
   'db query_result" where
  "cmdb_add_identity_id_to_list api w ident cc list =
    (if ident = None \<or> cc = None \<or> list = None then Some (AILSA_NO_DATA, w, list)
     else do {
       server \<leftarrow> arg_at ident 0;
       (retval, w, l) \<leftarrow> cmdb_check_add_server_id_to_list api w server cc (Some []);
       if retval \<noteq> 0 then Some (retval, w, list)
       else do {
         user \<leftarrow> arg_at ident 1;
         let (retval, l) = cmdb_add_string_to_list user l;
         if retval \<noteq> 0 then Some (retval, w, list)
         else ailsa_argument_query api w cc IDENTITY_ID_ON_SERVER_USER l list
       } })"

definition cmdb_check_add_identity_id_to_list ::
  "'db sqlite3_api \<Rightarrow> 'db world \<Rightarrow> cstr list option \<Rightarrow> ailsa_cmdb_s option \<Rightarrow> db_list \<Rightarrow>
   'db query_result" where
  "cmdb_check_add_identity_id_to_list api w ident cc list =
    (if ident = None \<or> cc = None \<or> list = None then Some (AILSA_NO_DATA, w, list)
     else check_added CANNOT_FIND_IDENTITY_ID
            (\<lambda>w. cmdb_add_identity_id_to_list api w ident cc) w list)"

definition cmdb_check_add_scheme_id_to_list ::
  "'db sqlite3_api \<Rightarrow> 'db world \<Rightarrow> cstr \<Rightarrow> ailsa_cmdb_s option \<Rightarrow> db_list \<Rightarrow> 'db query_result" where
  "cmdb_check_add_scheme_id_to_list api w scheme cc list =
    (if scheme = None \<or> cc = None \<or> list = None then Some (AILSA_NO_DATA, w, list)
     else check_added AILSA_NO_SCHEME
            (\<lambda>w. cmdb_add_scheme_id_to_list api w scheme cc) w list)"

definition cmdb_check_add_vm_id_to_list ::
  "'db sqlite3_api \<Rightarrow> 'db world \<Rightarrow> cstr \<Rightarrow> ailsa_cmdb_s option \<Rightarrow> db_list \<Rightarrow> 'db query_result" where
  "cmdb_check_add_vm_id_to_list api w vm cc list =
    (if vm = None \<or> cc = None \<or> list = None then Some (AILSA_NO_DATA, w, list)
     else check_added AILSA_NO_VM_HOST
            (\<lambda>w. cmdb_add_vm_server_id_to_list api w vm cc) w list)"

subsection \<open>Existence checks\<close>

text \<open>
  \<open>strtoul(s, NULL, 10)\<close>: blanks, an optional sign, digits; a value of 2 to the 64 or more gives
  \<open>ULONG_MAX\<close>, a minus sign negates.
\<close>

definition is_space :: "char \<Rightarrow> bool" where
  "is_space c \<longleftrightarrow> c = CHR '' '' \<or> (9 \<le> (of_char c :: nat) \<and> (of_char c :: nat) \<le> 13)"

definition is_digit :: "char \<Rightarrow> bool" where
  "is_digit c \<longleftrightarrow> 48 \<le> (of_char c :: nat) \<and> (of_char c :: nat) \<le> 57"

definition digits_value :: "string \<Rightarrow> nat" where
  "digits_value s = fold (\<lambda>c n. n * 10 + (of_char c - 48)) (takeWhile is_digit s) 0"

definition ulong_of :: "nat \<Rightarrow> u64" where
  "ulong_of n = (if n < 2 ^ 64 then of_nat n else - 1)"

definition strtoul10 :: "string \<Rightarrow> u64" where
  "strtoul10 s = (case dropWhile is_space s of
     [] \<Rightarrow> 0
   | c # cs \<Rightarrow>
       if c = CHR ''-'' then
         (if digits_value cs < 2 ^ 64 then - ulong_of (digits_value cs) else - 1)
       else if c = CHR ''+'' then ulong_of (digits_value cs)
       else ulong_of (digits_value (c # cs)))"

text \<open>The result holds the new value of \<open>*prefix\<close>.\<close>

definition cmdb_get_rev_zone_prefix ::
  "'db sqlite3_api \<Rightarrow> 'db world \<Rightarrow> ailsa_cmdb_s option \<Rightarrow> cstr \<Rightarrow> u64 \<Rightarrow> (int \<times> 'db world \<times> u64) option" where
  "cmdb_get_rev_zone_prefix api w cc net_range prefix =
    (if cc = None \<or> net_range = None then Some (AILSA_NO_DATA, w, prefix)
     else do {
       (retval, w, p) \<leftarrow> id_query api w cc [net_range] PREFIX_ON_NET_RANGE (Some []);
       if retval \<noteq> 0 then Some (retval, w, prefix)
       else do {
         p \<leftarrow> p;
         (case p of
            [] \<Rightarrow> Some (retval, w, 0)
          | d # _ \<Rightarrow> do { t \<leftarrow> get_text d; s \<leftarrow> t; Some (retval, w, strtoul10 s) })
       } })"

text \<open>The number of rows found, or -1 when the lookup failed.\<close>

definition count_rows :: "'db query_result \<Rightarrow> (int \<times> 'db world) option" where
  "count_rows res = do {
     (retval, w, l) \<leftarrow> res;
     if retval \<noteq> 0 then Some (-1, w)
     else do { l \<leftarrow> l; Some (int (length l), w) } }"

definition cmdb_check_for_fwd_zone ::
  "'db sqlite3_api \<Rightarrow> 'db world \<Rightarrow> ailsa_cmdb_s option \<Rightarrow> cstr \<Rightarrow> cstr \<Rightarrow> (int \<times> 'db world) option" where
  "cmdb_check_for_fwd_zone api w cc zone type =
    (if cc = None \<or> zone = None then Some (AILSA_NO_DATA, w)
     else count_rows (cmdb_add_zone_id_to_list api w zone FORWARD_ZONE
            (if type \<noteq> None then type else Some ''master'') cc (Some [])))"

definition cmdb_check_for_rev_zone ::
  "'db sqlite3_api \<Rightarrow> 'db world \<Rightarrow> ailsa_cmdb_s option \<Rightarrow> cstr \<Rightarrow> cstr \<Rightarrow> (int \<times> 'db world) option" where
  "cmdb_check_for_rev_zone api w cc zone type =
    (if cc = None \<or> zone = None then Some (AILSA_NO_DATA, w)
     else count_rows (cmdb_add_zone_id_to_list api w zone REVERSE_ZONE
            (if type \<noteq> None then type else Some ''master'') cc (Some [])))"

text \<open>The statement depends on how many values identify the record.\<close>

definition fwd_record_query :: "nat \<Rightarrow> nat option" where
  "fwd_record_query n =
    (if n = 3 then Some RECORD_ID_ON_HOST_ZONE_TYPE
     else if n = 4 then Some RECORD_ID_BASE
     else if n = 5 then Some RECORD_ID_MX
     else if n = 7 then Some RECORD_ID_SRV
     else None)"

definition cmdb_check_for_fwd_record ::
  "'db sqlite3_api \<Rightarrow> 'db world \<Rightarrow> ailsa_cmdb_s option \<Rightarrow> db_list \<Rightarrow> (int \<times> 'db world) option" where
  "cmdb_check_for_fwd_record api w cc rec =
    (if cc = None then Some (AILSA_NO_DATA, w)
     else (case rec of None \<Rightarrow> Some (AILSA_NO_DATA, w) | Some r \<Rightarrow>
       (case fwd_record_query (length r) of
          None \<Rightarrow> Some (-1, w)
        | Some query \<Rightarrow> count_rows (ailsa_argument_query api w cc query rec (Some [])))))"

definition cmdb_check_for_os ::
  "'db sqlite3_api \<Rightarrow> 'db world \<Rightarrow> ailsa_cmdb_s option \<Rightarrow> cstr \<Rightarrow> cstr \<Rightarrow> cstr \<Rightarrow>
   (int \<times> 'db world) option" where
  "cmdb_check_for_os api w cc os arch version =
    (if cc = None \<or> os = None \<or> arch = None \<or> version = None then Some (0, w)
     else count_rows (cmdb_add_os_id_to_list api w (Some [os, version, arch]) cc (Some [])))"

definition check_builds_for_os_id ::
  "'db sqlite3_api \<Rightarrow> 'db world \<Rightarrow> ailsa_cmdb_s option \<Rightarrow> u64 \<Rightarrow> db_list \<Rightarrow> 'db query_result" where
  "check_builds_for_os_id api w cc os_id list =
    (if cc = None \<or> list = None \<or> os_id = 0 then Some (AILSA_NO_DATA, w, list)
     else let (retval, args) = db_insert (D_LINT os_id) (Some []) in
       if retval \<noteq> 0 then Some (retval, w, list)
       else ailsa_argument_query api w cc SERVERS_WITH_BUILDS_ON_OS_ID args list)"

subsection \<open>Marking a row as updated\<close>

text \<open>\<open>uid\<close> is the result of \<open>getuid()\<close>; \<open>update_queries[query]\<close> outside the table is undefined.\<close>

definition set_db_row_updated ::
  "'db sqlite3_api \<Rightarrow> u32 \<Rightarrow> 'db world \<Rightarrow> ailsa_cmdb_s option \<Rightarrow> nat \<Rightarrow> cstr \<Rightarrow> u64 \<Rightarrow>
   (int \<times> 'db world) option" where
  "set_db_row_updated api uid w cc query name number =
    (if cc = None \<or> query = 0 \<or> (name = None \<and> number = 0) then Some (AILSA_NO_DATA, w)
     else let (retval, a) = cmdb_add_number_to_list (ucast uid) (Some []) in
       if retval \<noteq> 0 then Some (retval, w)
       else let (retval, a) = (if name \<noteq> None then cmdb_add_string_to_list name a
                               else cmdb_add_number_to_list number a) in
         if retval \<noteq> 0 then Some (retval, w)
         else if query < length update_queries
         then ailsa_update_query api w cc (update_queries ! query) a
         else None)"

subsection \<open>Lookups only read and append\<close>

definition reads :: "'db world \<Rightarrow> db_list \<Rightarrow> 'db world \<Rightarrow> db_list \<Rightarrow> bool" where
  "reads w list w' list' \<longleftrightarrow> w_db w' = w_db w \<and> appends list list'"

lemma reads_refl [simp]: "reads w l w l"
  by (simp add: reads_def)

lemma reads_argument: "ailsa_argument_query api w cc n a l = Some (r, w', l') \<Longrightarrow> reads w l w' l'"
  using argument_query_reads by (fastforce simp: reads_def)

lemma reads_basic: "ailsa_basic_query api w cc n l = Some (r, w', l') \<Longrightarrow> reads w l w' l'"
  using basic_query_reads by (fastforce simp: reads_def)

lemma reads_id_query: "id_query api w cc ss n l = Some (r, w', l') \<Longrightarrow> reads w l w' l'"
  by (auto simp: id_query_def split_def Let_def split: if_splits intro: reads_argument)

lemmas reads_intros = reads_argument reads_basic reads_id_query

lemma reads_server: "cmdb_add_server_id_to_list api w name cc l = Some (r, w', l') \<Longrightarrow> reads w l w' l'"
  by (auto simp: cmdb_add_server_id_to_list_def split: if_splits intro: reads_intros)

lemma reads_cust: "cmdb_add_cust_id_to_list api w coid cc l = Some (r, w', l') \<Longrightarrow> reads w l w' l'"
  by (auto simp: cmdb_add_cust_id_to_list_def split: if_splits intro: reads_intros)

lemma reads_varient: "cmdb_add_varient_id_to_list api w v cc l = Some (r, w', l') \<Longrightarrow> reads w l w' l'"
  by (auto simp: cmdb_add_varient_id_to_list_def split: if_splits intro: reads_intros)

lemma reads_ip: "cmdb_add_ip_id_to_list api w s cc l = Some (r, w', l') \<Longrightarrow> reads w l w' l'"
  by (auto simp: cmdb_add_ip_id_to_list_def split: if_splits intro: reads_intros)

lemma reads_scheme: "cmdb_add_scheme_id_to_list api w s cc l = Some (r, w', l') \<Longrightarrow> reads w l w' l'"
  by (auto simp: cmdb_add_scheme_id_to_list_def split: if_splits intro: reads_intros)

lemma reads_vm: "cmdb_add_vm_server_id_to_list api w s cc l = Some (r, w', l') \<Longrightarrow> reads w l w' l'"
  by (auto simp: cmdb_add_vm_server_id_to_list_def split: if_splits intro: reads_intros)

lemma reads_zone: "cmdb_add_zone_id_to_list api w z t zt cc l = Some (r, w', l') \<Longrightarrow> reads w l w' l'"
  by (auto simp: cmdb_add_zone_id_to_list_def split_def Let_def split: if_splits intro: reads_intros)

lemma reads_os: "cmdb_add_os_id_to_list api w a cc l = Some (r, w', l') \<Longrightarrow> reads w l w' l'"
  by (auto simp: cmdb_add_os_id_to_list_def bind_eq_Some_conv split: if_splits intro: reads_intros)

text \<open>The interface: what \<open>check_added\<close> relies on in its lookup.\<close>

locale id_lookup =
  fixes lookup :: "'db world \<Rightarrow> db_list \<Rightarrow> 'db query_result"
  assumes lookup_reads: "lookup w list = Some (r, w', list') \<Longrightarrow> reads w list w' list'"
begin

lemma check_reads: "check_added err lookup w list = Some (r, w', list') \<Longrightarrow> reads w list w' list'"
  using lookup_reads by (auto simp: check_added_def bind_eq_Some_conv split: if_splits)

lemma check_found_one:
  assumes "check_added err lookup w (Some l) = Some (0, w', list')" "err \<noteq> 0"
  shows "\<exists>d. list' = Some (l @ [d]) \<and> w_db w' = w_db w"
proof -
  from assms obtain l' where l': "lookup w (Some l) = Some (0, w', Some l')" "list' = Some l'"
    "length l' = length l + 1"
    by (auto simp: check_added_def bind_eq_Some_conv split: if_splits)
  then have r: "w_db w' = w_db w" "appends (Some l) (Some l')"
    using lookup_reads by (fastforce simp: reads_def)+
  then obtain ys where "l' = l @ ys" using appends_Some by fastforce
  with l'(3) obtain d where "l' = l @ [d]" by (cases ys) auto
  then show ?thesis using l' r by blast
qed

lemma check_other_count:
  assumes "lookup w (Some l) = Some (0, w', Some l')" "length l' \<noteq> length l + 1"
  shows "check_added err lookup w (Some l) = Some (err, w', Some l')"
  using assms by (simp add: check_added_def)

end

interpretation server_lookup: id_lookup "\<lambda>w. cmdb_add_server_id_to_list api w name cc" for api name cc
  by unfold_locales (rule reads_server)

interpretation cust_lookup: id_lookup "\<lambda>w. cmdb_add_cust_id_to_list api w coid cc" for api coid cc
  by unfold_locales (rule reads_cust)

interpretation zone_lookup: id_lookup "\<lambda>w. cmdb_add_zone_id_to_list api w zone type ztype cc"
  for api zone type ztype cc
  by unfold_locales (rule reads_zone)

interpretation varient_lookup: id_lookup "\<lambda>w. cmdb_add_varient_id_to_list api w varient cc"
  for api varient cc
  by unfold_locales (rule reads_varient)

interpretation ip_lookup: id_lookup "\<lambda>w. cmdb_add_ip_id_to_list api w host cc" for api host cc
  by unfold_locales (rule reads_ip)

interpretation scheme_lookup: id_lookup "\<lambda>w. cmdb_add_scheme_id_to_list api w scheme cc"
  for api scheme cc
  by unfold_locales (rule reads_scheme)

interpretation vm_lookup: id_lookup "\<lambda>w. cmdb_add_vm_server_id_to_list api w vm cc" for api vm cc
  by unfold_locales (rule reads_vm)

lemma reads_check_server:
  "cmdb_check_add_server_id_to_list api w s cc l = Some (r, w', l') \<Longrightarrow> reads w l w' l'"
  by (auto simp: cmdb_check_add_server_id_to_list_def split: if_splits
      intro: server_lookup.check_reads)

lemma reads_identity:
  assumes "cmdb_add_identity_id_to_list api w ident cc l = Some (r, w', l')"
  shows "reads w l w' l'"
proof (cases "ident = None \<or> cc = None \<or> l = None")
  case True
  then show ?thesis using assms by (simp add: cmdb_add_identity_id_to_list_def)
next
  case False
  with assms obtain server r1 w1 l1 where s: "arg_at ident 0 = Some server"
    "cmdb_check_add_server_id_to_list api w server cc (Some []) = Some (r1, w1, l1)"
    and rest: "(if r1 \<noteq> 0 then Some (r1, w1, l)
         else do {
           user \<leftarrow> arg_at ident 1;
           let (retval, l1) = cmdb_add_string_to_list user l1;
           if retval \<noteq> 0 then Some (retval, w1, l)
           else ailsa_argument_query api w1 cc IDENTITY_ID_ON_SERVER_USER l1 l
         }) = Some (r, w', l')"
    by (auto simp: cmdb_add_identity_id_to_list_def bind_eq_Some_conv)
  have db: "w_db w1 = w_db w" using reads_check_server [OF s(2)] by (simp add: reads_def)
  from rest have "reads w1 l w' l'"
    by (auto simp: bind_eq_Some_conv split_def Let_def split: if_splits intro: reads_argument)
  then show ?thesis using db by (simp add: reads_def)
qed

interpretation identity_lookup: id_lookup "\<lambda>w. cmdb_add_identity_id_to_list api w ident cc"
  for api ident cc
  by unfold_locales (rule reads_identity)

subsection \<open>Lookups never confuse types\<close>

text \<open>The statements the lookups use take texts only.\<close>

definition text_query :: "nat \<Rightarrow> bool" where
  "text_query n \<longleftrightarrow> n < length argument_queries \<and>
     list_all (\<lambda>f. f = AILSA_DB_TEXT) (q_fields (argument_queries ! n))"

lemma text_queries:
  "text_query HARDWARE_TYPE_ID_ON_CLASS" "text_query SERVER_ID_ON_NAME"
  "text_query SERVICE_TYPE_ID_ON_SERVICE" "text_query DISK_ID_ON_SERVER_NAME"
  "text_query BT_ID_ON_ALIAS" "text_query SYSTEM_PACKAGE_ID" "text_query SYSTEM_SCRIPT_ID_ON_NAME"
  "text_query VM_SERVER_ID_ON_NAME" "text_query BUILD_ID_ON_SERVER_NAME"
  "text_query IP_ID_ON_SERVER_NAME" "text_query OS_ALIAS_ON_OS_NAME"
  "text_query BUILD_DOMAIN_ID_ON_DOMAIN" "text_query CUST_ID_ON_COID"
  "text_query VARIENT_ID_ON_VARIANT_OR_VALIAS" "text_query SCHEME_ID_ON_NAME"
  "text_query LOCALE_ID_FROM_NAME" "text_query PARTITION_ID_ON_SEED_MOUNT"
  "text_query BUILD_OS_ON_NAME_VERSION" "text_query BUILD_OS_ON_ALL"
  "text_query FWD_ZONE_ID_ON_ZONE_NAME" "text_query REV_ZONE_ID_ON_RANGE"
  "text_query SYSTEM_PACKAGE_ARG_ID" "text_query PREFIX_ON_NET_RANGE"
  by (simp_all add: text_query_def statement_fields argument_fields table_lengths del: nth_map)

definition dbtype_set :: "ailsa_cmdb_s option \<Rightarrow> bool" where
  "dbtype_set cmdb \<longleftrightarrow> (\<exists>cc t. cmdb = Some cc \<and> cc_dbtype cc = Some t)"

lemma on_dbtype_defined: "dbtype_set cmdb \<Longrightarrow> q \<noteq> None \<Longrightarrow> on_dbtype cmdb s q \<noteq> None"
  by (auto simp: on_dbtype_def dbtype_set_def)

lemma bind_loop_defined:
  "list_all (\<lambda>f. f = AILSA_DB_TEXT \<or> f = AILSA_DB_NULL) fs \<Longrightarrow> list_all (\<lambda>d. data_type d = AILSA_DB_TEXT) ds \<Longrightarrow>
    \<exists>r' b. bind_loop api db stmt fs i ds r bound = Some (r', b)"
proof (induction fs ds arbitrary: i r bound rule: args_values.induct)
  case (3 f fs d ds)
  then obtain s where "d = D_TEXT s" by (cases d) auto
  with 3 show ?case by (auto simp: Let_def)
qed simp_all

lemma text_query_defined:
  assumes "text_query n" "dbtype_set cc" "list_all (\<lambda>d. data_type d = AILSA_DB_TEXT) ds"
  shows "ailsa_argument_query api w cc n (Some ds) l \<noteq> None"
proof -
  let ?q = "argument_queries ! n"
  have "list_all (\<lambda>f. f = AILSA_DB_TEXT \<or> f = AILSA_DB_NULL) (map (field_at (q_fields ?q)) [0..<q_number ?q])"
    using assms(1) by (auto simp: text_query_def list_all_iff field_at_def)
  then have bound: "\<exists>r b. ailsa_bind_arguments_sqlite api db stmt (Some ds) (q_number ?q) (q_fields ?q) =
      Some (r, b)" for db stmt
    using bind_loop_defined [OF _ assms(3), of "map (field_at (q_fields ?q)) [0..<q_number ?q]" api db stmt 0 0 "[]"]
    by (auto simp: ailsa_bind_arguments_sqlite_def)
  have "ailsa_argument_query_sqlite api w cc ?q (Some ds) l \<noteq> None"
  proof (cases "cc = None \<or> l = None")
    case False
    then obtain c where c: "cc = Some c" by auto
    obtain r0 stmt w0 where s: "ailsa_setup_ro_sqlite api (q_query ?q) (cc_file c) w = (r0, stmt, w0)"
      by (metis prod_cases3)
    obtain r b where "ailsa_bind_arguments_sqlite api (w_db w0) stmt (Some ds) (q_number ?q) (q_fields ?q) =
        Some (r, b)" using bound by blast
    then show ?thesis using False c s by (simp add: ailsa_argument_query_sqlite_def split_def Let_def)
  qed (auto simp: ailsa_argument_query_sqlite_def split: option.splits)
  then show ?thesis
    using assms(1) on_dbtype_defined [OF assms(2)]
    by (simp add: ailsa_argument_query_def text_query_def del: not_None_eq)
qed

lemma add_strings_texts:
  "list_all (\<lambda>d. data_type d = AILSA_DB_TEXT) l \<Longrightarrow> add_strings ss (Some l) = (r, l') \<Longrightarrow>
    \<exists>ds. l' = Some ds \<and> list_all (\<lambda>d. data_type d = AILSA_DB_TEXT) ds"
proof (induction ss arbitrary: l)
  case (Cons s ss)
  then show ?case
    using Cons.IH [of "l @ [D_TEXT (strndup (the s) CONFIG_LEN)]"] by (cases s) auto
qed auto

lemma id_query_defined:
  assumes "text_query n" "dbtype_set cc"
  shows "id_query api w cc ss n l \<noteq> None"
proof -
  obtain r l' where a: "add_strings ss (Some []) = (r, l')" by (cases "add_strings ss (Some [])")
  then obtain ds where ds: "l' = Some ds" "list_all (\<lambda>d. data_type d = AILSA_DB_TEXT) ds"
    using add_strings_texts [OF _ a] by auto
  then show ?thesis
    using text_query_defined [OF assms ds(2), of api w l] by (simp add: id_query_def a)
qed

lemma basic_query_defined:
  assumes "n < length basic_queries" "dbtype_set cc"
  shows "ailsa_basic_query api w cc n l \<noteq> None"
proof -
  have "ailsa_basic_query_sqlite api w cc (basic_queries ! n) l \<noteq> None"
    by (auto simp: ailsa_basic_query_sqlite_def split_def Let_def split: option.splits)
  then show ?thesis
    using assms(1) on_dbtype_defined [OF assms(2)]
    by (simp add: ailsa_basic_query_def del: not_None_eq)
qed

lemmas defined_rules = id_query_defined [OF text_queries(1)] id_query_defined [OF text_queries(2)]
  id_query_defined [OF text_queries(3)] id_query_defined [OF text_queries(4)]
  id_query_defined [OF text_queries(5)] id_query_defined [OF text_queries(6)]
  id_query_defined [OF text_queries(7)] id_query_defined [OF text_queries(8)]
  id_query_defined [OF text_queries(9)] id_query_defined [OF text_queries(10)]
  id_query_defined [OF text_queries(11)] id_query_defined [OF text_queries(12)]
  id_query_defined [OF text_queries(13)] id_query_defined [OF text_queries(14)]
  id_query_defined [OF text_queries(15)] id_query_defined [OF text_queries(16)]
  id_query_defined [OF text_queries(17)] id_query_defined [OF text_queries(18)]
  id_query_defined [OF text_queries(19)] id_query_defined [OF text_queries(22)]

lemma zone_query_defined:
  assumes "dbtype_set cc"
  shows "cmdb_add_zone_id_to_list api w z t zt cc l \<noteq> None"
proof -
  let ?ss = "[z, if zt \<noteq> None then zt else Some ''master'']"
  obtain r l' where a: "add_strings ?ss (Some []) = (r, l')" by (cases "add_strings ?ss (Some [])")
  then obtain ds where ds: "l' = Some ds" "list_all (\<lambda>d. data_type d = AILSA_DB_TEXT) ds"
    using add_strings_texts [OF _ a] by auto
  then show ?thesis
    using text_query_defined [OF text_queries(20) assms ds(2), of api w l]
      text_query_defined [OF text_queries(21) assms ds(2), of api w l]
    unfolding cmdb_add_zone_id_to_list_def a by simp
qed

subsection \<open>What a lookup returns\<close>

text \<open>The contract of a lookup: the rows of one statement for the given values are appended, and the
  result is 0 when SQLite is done.\<close>

definition lookup_spec ::
  "'db sqlite3_api \<Rightarrow> 'db world \<Rightarrow> nat \<Rightarrow> sql_value list \<Rightarrow> ailsa_data list \<Rightarrow> 'db query_result" where
  "lookup_spec api w n vs l =
    (let (rows, code) = s3_rows api (w_db w) (q_query (argument_queries ! n)) vs
     in Some (done_code code, w, Some (l @ map store_column (concat rows))))"

text \<open>The database opens and every statement of the table can be prepared.\<close>

definition reader_ready :: "'db sqlite3_api \<Rightarrow> 'db world \<Rightarrow> ailsa_cmdb_s \<Rightarrow> bool" where
  "reader_ready api w cc \<longleftrightarrow> binds_by_marks api \<and>
     list_all (\<lambda>q. sqlite_ready api w cc False (q_query q)) argument_queries"

definition text_value :: "string \<Rightarrow> sql_value" where
  "text_value s = SQL_TEXT (strndup s CONFIG_LEN)"

lemma argument_query_runs:
  assumes "reader_ready api w cc" "n < length argument_queries"
    and "args_values (q_fields (argument_queries ! n)) args = Some vs"
  shows "ailsa_argument_query api w (Some cc) n (Some args) (Some l) = lookup_spec api w n vs l"
proof -
  have r: "sqlite_ready api w cc False (q_query (argument_queries ! n))"
    using assms(1,2) by (simp add: reader_ready_def list_all_length)
  then have "cc_dbtype cc = Some ''sqlite''" by (simp add: sqlite_ready_def)
  then show ?thesis
    using argument_query_sqlite_runs [OF r argument_query_within [OF assms(2)] _ assms(3)] assms(1,2)
    by (simp add: ailsa_argument_query_def on_dbtype_sqlite lookup_spec_def reader_ready_def)
qed

lemma add_strings_all:
  "add_strings (map Some ss) (Some l) = (0, Some (l @ map (\<lambda>s. D_TEXT (strndup s CONFIG_LEN)) ss))"
  by (induction ss arbitrary: l) simp_all

lemma args_values_texts:
  "list_all (\<lambda>f. f = AILSA_DB_TEXT) fs \<Longrightarrow> length fs = length ss \<Longrightarrow>
    args_values fs (map (\<lambda>s. D_TEXT (strndup s CONFIG_LEN)) ss) = Some (map text_value ss)"
proof (induction fs arbitrary: ss)
  case (Cons f fs)
  then show ?case by (cases ss) (simp_all add: text_value_def)
qed simp

lemma id_query_runs:
  assumes "reader_ready api w cc" "text_query n" "length (q_fields (argument_queries ! n)) = length ss"
  shows "id_query api w (Some cc) (map Some ss) n (Some l) = lookup_spec api w n (map text_value ss) l"
  using argument_query_runs [OF assms(1) _ args_values_texts] assms(2,3)
  by (simp add: id_query_def add_strings_all text_query_def)

lemma field_counts:
  "length (q_fields (argument_queries ! HARDWARE_TYPE_ID_ON_CLASS)) = 1"
  "length (q_fields (argument_queries ! SERVER_ID_ON_NAME)) = 1"
  "length (q_fields (argument_queries ! SERVICE_TYPE_ID_ON_SERVICE)) = 1"
  "length (q_fields (argument_queries ! DISK_ID_ON_SERVER_NAME)) = 1"
  "length (q_fields (argument_queries ! BT_ID_ON_ALIAS)) = 1"
  "length (q_fields (argument_queries ! SYSTEM_PACKAGE_ID)) = 1"
  "length (q_fields (argument_queries ! VM_SERVER_ID_ON_NAME)) = 1"
  "length (q_fields (argument_queries ! BUILD_ID_ON_SERVER_NAME)) = 1"
  "length (q_fields (argument_queries ! IP_ID_ON_SERVER_NAME)) = 1"
  "length (q_fields (argument_queries ! BUILD_OS_ON_NAME_VERSION)) = 4"
  "length (q_fields (argument_queries ! BUILD_OS_ON_ALL)) = 5"
  "length (q_fields (argument_queries ! VARIENT_ID_ON_VARIANT_OR_VALIAS)) = 2"
  by (simp_all add: statement_fields argument_fields table_lengths del: nth_map)

lemma one_name_runs:
  assumes "reader_ready api w cc" "text_query n" "length (q_fields (argument_queries ! n)) = 1"
  shows "id_query api w (Some cc) [Some s] n (Some l) = lookup_spec api w n [text_value s] l"
  using id_query_runs [OF assms(1,2), of "[s]"] assms(3) by simp

text \<open>Each checked lookup is \<open>check_added\<close> of its lookup behind the guards.\<close>

lemma found_one_server:
  "cmdb_check_add_server_id_to_list api w name cc (Some l) = Some (0, w', res) \<Longrightarrow>
    \<exists>d. res = Some (l @ [d]) \<and> w_db w' = w_db w"
  unfolding cmdb_check_add_server_id_to_list_def
  by (split if_splits (2)) (auto dest: server_lookup.check_found_one)

lemma found_one_cust:
  "cmdb_check_add_cust_id_to_list api w name cc (Some l) = Some (0, w', res) \<Longrightarrow>
    \<exists>d. res = Some (l @ [d]) \<and> w_db w' = w_db w"
  unfolding cmdb_check_add_cust_id_to_list_def
  by (split if_splits (2)) (auto dest: cust_lookup.check_found_one)

lemma found_one_zone:
  "cmdb_check_add_zone_id_to_list api w name type ztype cc (Some l) = Some (0, w', res) \<Longrightarrow>
    \<exists>d. res = Some (l @ [d]) \<and> w_db w' = w_db w"
  unfolding cmdb_check_add_zone_id_to_list_def
  by (split if_splits (2)) (auto dest: zone_lookup.check_found_one)

lemma found_one_varient:
  "cmdb_check_add_varient_id_to_list api w name cc (Some l) = Some (0, w', res) \<Longrightarrow>
    \<exists>d. res = Some (l @ [d]) \<and> w_db w' = w_db w"
  unfolding cmdb_check_add_varient_id_to_list_def
  by (split if_splits (2)) (auto dest: varient_lookup.check_found_one)

lemma found_one_ip:
  "cmdb_check_add_ip_id_to_list api w name cc (Some l) = Some (0, w', res) \<Longrightarrow>
    \<exists>d. res = Some (l @ [d]) \<and> w_db w' = w_db w"
  unfolding cmdb_check_add_ip_id_to_list_def
  by (split if_splits (2)) (auto dest: ip_lookup.check_found_one)

lemma found_one_identity:
  "cmdb_check_add_identity_id_to_list api w ident cc (Some l) = Some (0, w', res) \<Longrightarrow>
    \<exists>d. res = Some (l @ [d]) \<and> w_db w' = w_db w"
  unfolding cmdb_check_add_identity_id_to_list_def
  by (split if_splits (2)) (auto dest: identity_lookup.check_found_one)

lemma found_one_scheme:
  "cmdb_check_add_scheme_id_to_list api w name cc (Some l) = Some (0, w', res) \<Longrightarrow>
    \<exists>d. res = Some (l @ [d]) \<and> w_db w' = w_db w"
  unfolding cmdb_check_add_scheme_id_to_list_def
  by (split if_splits (2)) (auto dest: scheme_lookup.check_found_one)

lemma found_one_vm:
  "cmdb_check_add_vm_id_to_list api w name cc (Some l) = Some (0, w', res) \<Longrightarrow>
    \<exists>d. res = Some (l @ [d]) \<and> w_db w' = w_db w"
  unfolding cmdb_check_add_vm_id_to_list_def
  by (split if_splits (2)) (auto dest: vm_lookup.check_found_one)

lemmas checked_found_one = found_one_server found_one_cust found_one_zone found_one_varient
  found_one_ip found_one_identity found_one_scheme found_one_vm

text \<open>The statement for a record with \<open>n\<close> values has \<open>n\<close> parameters.\<close>

lemma fwd_record_query_fields:
  "fwd_record_query n = Some k \<Longrightarrow> k < length argument_queries \<and> length (q_fields (argument_queries ! k)) = n"
  by (auto simp: fwd_record_query_def statement_fields argument_fields table_lengths
      simp del: nth_map split: if_splits)

lemma fwd_record_query_None: "fwd_record_query n = None \<longleftrightarrow> n \<notin> {3, 4, 5, 7}"
  by (simp add: fwd_record_query_def)

definition rows_found :: "'db sqlite3_api \<Rightarrow> 'db world \<Rightarrow> nat \<Rightarrow> sql_value list \<Rightarrow> int" where
  "rows_found api w n vs =
    (let (rows, code) = s3_rows api (w_db w) (q_query (argument_queries ! n)) vs
     in if done_code code \<noteq> 0 then -1 else int (length (concat rows)))"

lemma count_rows_spec: "count_rows (lookup_spec api w n vs []) = Some (rows_found api w n vs, w)"
  by (simp add: count_rows_def lookup_spec_def rows_found_def split_def Let_def)

lemma update_query_runs:
  assumes "n < length update_queries" "sqlite_ready api w cc True (q_query (update_queries ! n))"
    and "binds_by_marks api" "args_values (q_fields (update_queries ! n)) args = Some vs"
  shows "ailsa_update_query api w (Some cc) (update_queries ! n) (Some args) =
    (let (code, db) = s3_write api (w_db w) (q_query (update_queries ! n)) vs
     in Some (if code = SQLITE_DONE then 0 else AILSA_STATEMENT_FAIL, w\<lparr>w_db := db\<rparr>))"
proof -
  have db: "cc_dbtype cc = Some ''sqlite''" using assms(2) by (simp add: sqlite_ready_def)
  have ok: "query_ok (update_queries ! n)" using list_all_nth [OF update_queries_ok assms(1)] .
  then have "map (field_at (q_fields (update_queries ! n))) [0..<q_number (update_queries ! n)] =
      q_fields (update_queries ! n)"
    by (simp add: query_ok_def field_at_all)
  then show ?thesis
    using write_sqlite_runs [OF assms(2,3), of "q_number (update_queries ! n)" "q_fields (update_queries ! n)"]
      assms(4) ok
    by (simp add: ailsa_update_query_def on_dbtype_sqlite [OF db] ailsa_delete_query_sqlite_def query_ok_def)
qed

lemma demo_reader_ready: "reader_ready demo_api demo_world (demo_cc ''sqlite'')"
  using demo_ready demo_binds by (simp add: reader_ready_def list_all_iff)

subsection \<open>Properties\<close>

text \<open>When a checked lookup returns 0, exactly one element was appended to the caller's list and the
  database is unchanged.\<close>

theorem checked_lookup_adds_exactly_one:
  assumes "cmdb_check_add_server_id_to_list api w name cc (Some l) = Some (0, w', res) \<or>
    cmdb_check_add_cust_id_to_list api w name cc (Some l) = Some (0, w', res) \<or>
    cmdb_check_add_zone_id_to_list api w name type ztype cc (Some l) = Some (0, w', res) \<or>
    cmdb_check_add_varient_id_to_list api w name cc (Some l) = Some (0, w', res) \<or>
    cmdb_check_add_ip_id_to_list api w name cc (Some l) = Some (0, w', res) \<or>
    cmdb_check_add_identity_id_to_list api w ident cc (Some l) = Some (0, w', res) \<or>
    cmdb_check_add_scheme_id_to_list api w name cc (Some l) = Some (0, w', res) \<or>
    cmdb_check_add_vm_id_to_list api w name cc (Some l) = Some (0, w', res)"
  shows "\<exists>d. res = Some (l @ [d]) \<and> w_db w' = w_db w"
  using assms by (elim disjE) (erule checked_found_one)+

theorem checked_lookup_adds_exactly_one_witness:
  "\<exists>w' d. cmdb_check_add_server_id_to_list demo_api demo_world (Some ''web01'') (Some (demo_cc ''sqlite''))
     (Some [D_NULL]) = Some (0, w', Some ([D_NULL] @ [d])) \<and> w_db w' = w_db demo_world"
proof -
  let ?cc = "demo_cc ''sqlite''"
  have "cmdb_add_server_id_to_list demo_api demo_world (Some ''web01'') (Some ?cc) (Some [D_NULL]) =
      Some (0, demo_world, Some [D_NULL, D_LINT 7])"
    using one_name_runs [OF demo_reader_ready text_queries(2) field_counts(2), of "''web01''" "[D_NULL]"]
    by (simp add: cmdb_add_server_id_to_list_def lookup_spec_def demo_api_def done_code_def)
  then have "cmdb_check_add_server_id_to_list demo_api demo_world (Some ''web01'') (Some ?cc) (Some [D_NULL]) =
      Some (0, demo_world, Some [D_NULL, D_LINT 7])"
    by (simp add: cmdb_check_add_server_id_to_list_def check_added_def)
  with checked_lookup_adds_exactly_one [OF disjI1 [OF this]] show ?thesis by auto
qed

text \<open>With a database type configured, no lookup ever reads a union member that was not written,
  takes the length of a NULL text or indexes a table out of range, whatever names it is given.\<close>

theorem lookups_are_always_defined:
  assumes "dbtype_set cc"
  shows "cmdb_add_hard_type_id_to_list api w name cc l \<noteq> None \<and>
    cmdb_add_server_id_to_list api w name cc l \<noteq> None \<and>
    cmdb_add_service_type_id_to_list api w name cc l \<noteq> None \<and>
    cmdb_add_build_domain_id_to_list api w name cc l \<noteq> None \<and>
    cmdb_add_cust_id_to_list api w name cc l \<noteq> None \<and>
    cmdb_add_varient_id_to_list api w name cc l \<noteq> None \<and>
    cmdb_add_scheme_id_to_list api w name cc l \<noteq> None \<and>
    cmdb_add_locale_id_to_list api w name cc l \<noteq> None \<and>
    cmdb_add_default_part_id_to_list api w (Some [name, name2]) cc l \<noteq> None \<and>
    cmdb_add_os_id_to_list api w (Some [name, name2, name3]) cc l \<noteq> None \<and>
    cmdb_add_zone_id_to_list api w name type name2 cc l \<noteq> None \<and>
    cmdb_add_sys_pack_arg_id_to_list api w (Some [name, name2]) cc l \<noteq> None \<and>
    cmdb_add_system_script_id_to_list api w name cc l \<noteq> None \<and>
    cmdb_add_vm_server_id_to_list api w name cc l \<noteq> None \<and>
    cmdb_add_ip_id_to_list api w name cc l \<noteq> None"
  by (intro conjI; simp add: defined_rules [OF assms] basic_query_defined [OF _ assms]
      zone_query_defined [OF assms] cmdb_add_hard_type_id_to_list_def cmdb_add_server_id_to_list_def
      cmdb_add_service_type_id_to_list_def cmdb_add_build_domain_id_to_list_def
      cmdb_add_cust_id_to_list_def cmdb_add_varient_id_to_list_def cmdb_add_scheme_id_to_list_def
      cmdb_add_locale_id_to_list_def cmdb_add_default_part_id_to_list_def arg_at_def
      cmdb_add_os_id_to_list_def cmdb_add_sys_pack_arg_id_to_list_def
      cmdb_add_system_script_id_to_list_def cmdb_add_vm_server_id_to_list_def
      cmdb_add_ip_id_to_list_def table_lengths del: not_None_eq)

theorem lookups_are_always_defined_witness:
  "cmdb_add_os_id_to_list demo_api demo_world (Some [Some ''debian'', None, None])
     (Some (demo_cc ''sqlite'')) (Some []) \<noteq> None"
proof -
  have "dbtype_set (Some (demo_cc ''sqlite''))" by (simp add: dbtype_set_def demo_cc_def)
  from lookups_are_always_defined [OF this] show ?thesis by blast
qed

text \<open>On a ready database a lookup by one name appends exactly the rows of its statement for that name
  (cut to CONFIG\_LEN characters) and returns 0 when SQLite is done.\<close>

theorem lookup_by_name_meets_spec:
  assumes "reader_ready api w cc"
  shows "cmdb_add_hard_type_id_to_list api w (Some s) (Some cc) (Some l) =
      lookup_spec api w HARDWARE_TYPE_ID_ON_CLASS [text_value s] l \<and>
    cmdb_add_server_id_to_list api w (Some s) (Some cc) (Some l) =
      lookup_spec api w SERVER_ID_ON_NAME [text_value s] l \<and>
    cmdb_add_service_type_id_to_list api w (Some s) (Some cc) (Some l) =
      lookup_spec api w SERVICE_TYPE_ID_ON_SERVICE [text_value s] l \<and>
    cmdb_add_disk_dev_id_to_list api w (Some s) (Some cc) (Some l) =
      lookup_spec api w DISK_ID_ON_SERVER_NAME [text_value s] l \<and>
    cmdb_add_build_type_id_to_list api w (Some s) (Some cc) (Some l) =
      lookup_spec api w BT_ID_ON_ALIAS [text_value s] l \<and>
    cmdb_add_sys_pack_id_to_list api w (Some s) (Some cc) (Some l) =
      lookup_spec api w SYSTEM_PACKAGE_ID [text_value s] l \<and>
    cmdb_add_vm_server_id_to_list api w (Some s) (Some cc) (Some l) =
      lookup_spec api w VM_SERVER_ID_ON_NAME [text_value s] l \<and>
    cmdb_add_build_id_to_list api w (Some s) (Some cc) (Some l) =
      lookup_spec api w BUILD_ID_ON_SERVER_NAME [text_value s] l \<and>
    cmdb_add_ip_id_to_list api w (Some s) (Some cc) (Some l) =
      lookup_spec api w IP_ID_ON_SERVER_NAME [text_value s] l \<and>
    cmdb_add_varient_id_to_list api w (Some s) (Some cc) (Some l) =
      lookup_spec api w VARIENT_ID_ON_VARIANT_OR_VALIAS [text_value s, text_value s] l"
  using one_name_runs [OF assms text_queries(1) field_counts(1)]
    one_name_runs [OF assms text_queries(2) field_counts(2)]
    one_name_runs [OF assms text_queries(3) field_counts(3)]
    one_name_runs [OF assms text_queries(4) field_counts(4)]
    one_name_runs [OF assms text_queries(5) field_counts(5)]
    one_name_runs [OF assms text_queries(6) field_counts(6)]
    one_name_runs [OF assms text_queries(8) field_counts(7)]
    one_name_runs [OF assms text_queries(9) field_counts(8)]
    one_name_runs [OF assms text_queries(10) field_counts(9)]
    id_query_runs [OF assms text_queries(14), of "[s, s]" l] field_counts(12)
  by (simp add: cmdb_add_hard_type_id_to_list_def cmdb_add_server_id_to_list_def
      cmdb_add_service_type_id_to_list_def cmdb_add_disk_dev_id_to_list_def
      cmdb_add_build_type_id_to_list_def cmdb_add_sys_pack_id_to_list_def
      cmdb_add_vm_server_id_to_list_def cmdb_add_build_id_to_list_def cmdb_add_ip_id_to_list_def
      cmdb_add_varient_id_to_list_def)

theorem lookup_by_name_meets_spec_witness:
  "cmdb_add_ip_id_to_list demo_api demo_world (Some ''web01'') (Some (demo_cc ''sqlite'')) (Some []) =
     Some (0, demo_world, Some [D_LINT 7])"
proof -
  have "lookup_spec demo_api demo_world IP_ID_ON_SERVER_NAME [text_value ''web01''] [] =
      Some (0, demo_world, Some [D_LINT 7])"
    by (simp add: lookup_spec_def demo_api_def done_code_def)
  then show ?thesis
    using lookup_by_name_meets_spec [OF demo_reader_ready, of "''web01''" "[]"] by simp
qed

text \<open>Matching forward records are counted with the statement for as many values as identify the
  record: with 3, 4, 5 or 7 values of that statement's types the result is the number of elements
  found, or -1 on an SQLite error; any other number of values gives -1 without a query.\<close>

theorem fwd_record_check_counts:
  assumes "reader_ready api w cc" "fwd_record_query (length rec) = Some n"
    and "args_values (q_fields (argument_queries ! n)) rec = Some vs"
  shows "cmdb_check_for_fwd_record api w (Some cc) (Some rec) = Some (rows_found api w n vs, w) \<and>
    (\<forall>other. length other \<notin> {3, 4, 5, 7} \<longrightarrow>
       cmdb_check_for_fwd_record api w (Some cc) (Some other) = Some (-1, w))"
proof
  have n: "n < length argument_queries" using fwd_record_query_fields [OF assms(2)] by blast
  show "cmdb_check_for_fwd_record api w (Some cc) (Some rec) = Some (rows_found api w n vs, w)"
    unfolding cmdb_check_for_fwd_record_def
    by (simp add: assms(2) argument_query_runs [OF assms(1) n assms(3)] count_rows_spec)
  show "\<forall>other. length other \<notin> {3, 4, 5, 7} \<longrightarrow>
      cmdb_check_for_fwd_record api w (Some cc) (Some other) = Some (-1, w)"
    unfolding cmdb_check_for_fwd_record_def fwd_record_query_None [symmetric] by simp
qed

theorem fwd_record_check_counts_witness:
  "cmdb_check_for_fwd_record demo_api demo_world (Some (demo_cc ''sqlite''))
     (Some [D_LINT 1, D_TEXT ''A'', D_TEXT ''www'']) = Some (1, demo_world)"
proof -
  have q: "fwd_record_query (length [D_LINT 1, D_TEXT ''A'', D_TEXT ''www'']) = Some RECORD_ID_ON_HOST_ZONE_TYPE"
    by (simp add: fwd_record_query_def)
  have "args_values (q_fields (argument_queries ! RECORD_ID_ON_HOST_ZONE_TYPE))
      [D_LINT 1, D_TEXT ''A'', D_TEXT ''www''] = Some [SQL_INT 1, SQL_TEXT ''A'', SQL_TEXT ''www'']"
    by (simp add: statement_fields argument_fields table_lengths del: nth_map)
  from fwd_record_check_counts [OF demo_reader_ready q this] show ?thesis
    by (simp add: rows_found_def demo_api_def done_code_def)
qed

text \<open>Checking for an operating system on a ready database counts the rows of the five-parameter
  statement with the name and the version each given twice, then the architecture; -1 on an error.\<close>

theorem os_check_counts:
  assumes "reader_ready api w cc"
  shows "cmdb_check_for_os api w (Some cc) (Some os) (Some arch) (Some version) =
    Some (rows_found api w BUILD_OS_ON_ALL
      [text_value os, text_value os, text_value version, text_value version, text_value arch], w)"
  using id_query_runs [OF assms text_queries(19), of "[os, os, version, version, arch]" "[]"] field_counts(11)
  by (simp add: cmdb_check_for_os_def cmdb_add_os_id_to_list_def arg_at_def count_rows_spec)

theorem os_check_counts_witness:
  "cmdb_check_for_os demo_api demo_world (Some (demo_cc ''sqlite'')) (Some ''debian'') (Some ''x86_64'')
     (Some ''11'') = Some (1, demo_world)"
  using os_check_counts [OF demo_reader_ready, of "''debian''" "''x86_64''" "''11''"]
  by (simp add: rows_found_def demo_api_def done_code_def)

text \<open>Marking a row as updated executes the update statement once with the user id and the row's
  name, or its number when no name is given, for statements of these types.\<close>

theorem row_update_binds_user_and_key:
  assumes "n < length update_queries" "n \<noteq> 0"
    and "sqlite_ready api w cc True (q_query (update_queries ! n))" "binds_by_marks api"
    and "q_fields (update_queries ! n) = [AILSA_DB_LINT, AILSA_DB_TEXT] \<and> name = Some s \<and> key = text_value s \<or>
      q_fields (update_queries ! n) = [AILSA_DB_LINT, AILSA_DB_LINT] \<and> name = None \<and> number \<noteq> 0 \<and>
        key = SQL_INT number"
  shows "set_db_row_updated api uid w (Some cc) n name number =
    (let (code, db) = s3_write api (w_db w) (q_query (update_queries ! n)) [SQL_INT (ucast uid), key]
     in Some (if code = SQLITE_DONE then 0 else AILSA_STATEMENT_FAIL, w\<lparr>w_db := db\<rparr>))"
proof -
  define d where "d = (case name of Some t \<Rightarrow> D_TEXT (strndup t CONFIG_LEN) | None \<Rightarrow> D_LINT number)"
  have args: "args_values (q_fields (update_queries ! n)) [D_LINT (ucast uid), d] =
      Some [SQL_INT (ucast uid), key]"
    using assms(5) by (auto simp: d_def text_value_def)
  have "set_db_row_updated api uid w (Some cc) n name number =
      ailsa_update_query api w (Some cc) (update_queries ! n) (Some [D_LINT (ucast uid), d])"
    using assms(1,2,5) by (cases name) (auto simp: set_db_row_updated_def d_def)
  then show ?thesis using update_query_runs [OF assms(1,3,4) args] by simp
qed

theorem row_update_binds_user_and_key_witness:
  "set_db_row_updated demo_api 1000 demo_world (Some (demo_cc ''sqlite'')) SET_FWD_ZONE_UPDATED None 12 =
     Some (0, demo_world\<lparr>w_db := 2\<rparr>)"
proof -
  have "q_fields (update_queries ! SET_FWD_ZONE_UPDATED) = [AILSA_DB_LINT, AILSA_DB_LINT]"
    by (simp add: statement_fields update_fields table_lengths del: nth_map)
  then show ?thesis
    using row_update_binds_user_and_key [OF _ _ demo_ready demo_binds, of SET_FWD_ZONE_UPDATED None "[]"
        "SQL_INT 12" 12 1000 demo_world]
    by (simp add: table_lengths demo_api_def demo_world_def)
qed

end
