(* ===== verification/Net_Range.thy ===== *)
theory Net_Range
  imports Cmdb_Helper
begin

text \<open>
  The IP arithmetic of lib/dnsa_net.c: textual and binary addresses, prefixes, the address
  range of a reverse zone and its sub-zones, its in-addr.arpa name and its search string.

  Binary addresses are \<open>unsigned long\<close> (64 bits) in host order, as the code keeps them.
  \<open>inet_pton\<close> and \<open>inet_ntop\<close> for IPv4 are modelled from their documentation: four decimal
  numbers of one to three digits from 0 to 255, without leading zeros, separated by dots.
\<close>

subsection \<open>Decimal numbers and dotted texts\<close>

text \<open>\<open>"%lu"\<close>.\<close>

fun dec :: "nat \<Rightarrow> string" where
  "dec n = (if n < 10 then [char_of (48 + n)] else dec (n div 10) @ [char_of (48 + n mod 10)])"

declare dec.simps [simp del]

fun split_dots :: "string \<Rightarrow> string list" where
  "split_dots [] = [[]]"
| "split_dots (x # xs) =
     (if x = CHR ''.'' then [] # split_dots xs
      else (case split_dots xs of [] \<Rightarrow> [[x]] | y # ys \<Rightarrow> (x # y) # ys))"

definition octet :: "string \<Rightarrow> nat option" where
  "octet s =
    (if s \<noteq> [] \<and> length s \<le> 3 \<and> list_all is_digit s \<and> (length s = 1 \<or> hd s \<noteq> CHR ''0'') \<and>
        digits_value s \<le> 255
     then Some (digits_value s) else None)"

definition of_octets :: "nat \<Rightarrow> nat \<Rightarrow> nat \<Rightarrow> nat \<Rightarrow> u32" where
  "of_octets a b c d = of_nat (a * 2 ^ 24 + b * 2 ^ 16 + c * 2 ^ 8 + d)"

text \<open>\<open>inet_pton(AF_INET, s, &bin)\<close> followed by \<open>ntohl\<close>, and \<open>htonl\<close> followed by
  \<open>inet_ntop(AF_INET, &bin, ...)\<close>.\<close>

definition pton4 :: "string \<Rightarrow> u32 option" where
  "pton4 s = (case split_dots s of
     [a, b, c, d] \<Rightarrow> do {
       a \<leftarrow> octet a; b \<leftarrow> octet b; c \<leftarrow> octet c; d \<leftarrow> octet d;
       Some (of_octets a b c d) }
   | _ \<Rightarrow> None)"

definition octet_of :: "u32 \<Rightarrow> nat \<Rightarrow> nat" where
  "octet_of w i = unat w div 256 ^ i mod 256"

definition ntop4 :: "u32 \<Rightarrow> string" where
  "ntop4 w = dec (octet_of w 3) @ ''.'' @ dec (octet_of w 2) @ ''.'' @ dec (octet_of w 1) @ ''.'' @
     dec (octet_of w 0)"

subsection \<open>Conversions\<close>

text \<open>The out parameters \<open>addr\<close> and \<open>ip\<close> are part of the result: \<open>None\<close> when they are not written.\<close>

definition convert_bin_ipv4_to_text :: "u64 \<Rightarrow> int \<times> string option" where
  "convert_bin_ipv4_to_text ip =
    (if ip = 0 then (AILSA_NO_DATA, None) else (0, Some (ntop4 (ucast ip))))"

definition convert_text_ipv4_to_bin :: "cstr \<Rightarrow> int \<times> u64 option" where
  "convert_text_ipv4_to_bin addr = (case addr of None \<Rightarrow> (AILSA_NO_DATA, None) | Some s \<Rightarrow>
     (case pton4 s of None \<Rightarrow> (AILSA_IP_CONVERT_FAILED, None) | Some host \<Rightarrow> (0, Some (ucast host))))"

text \<open>\<open>4294967295UL >> prefix\<close> is undefined from 64 on.\<close>

definition get_net_range :: "nat \<Rightarrow> u64 option" where
  "get_net_range prefix =
    (if prefix < 64 then Some (drop_bit prefix 4294967295 + 1) else None)"

text \<open>\<open>4294967295 << (32 - prefix)\<close> is a 64-bit signed shift, then cut to 32 bits; a prefix over 32
  wraps the distance round and is undefined.\<close>

definition prefix_to_mask_ipv4 :: "nat \<Rightarrow> u32 option" where
  "prefix_to_mask_ipv4 prefix =
    (if prefix = 0 then Some 0
     else if prefix \<le> 32 then Some (ucast (push_bit (32 - prefix) (4294967295 :: u64)))
     else None)"

subsection \<open>The range of a reverse zone\<close>

text \<open>\<open>pow(2, i)\<close> is exact for the exponents below 8 that occur.\<close>

definition get_zone_index :: "nat \<Rightarrow> int \<times> u64 option" where
  "get_zone_index prefix =
    (if prefix = 0 then (AILSA_NO_DATA, None)
     else if prefix < 8 then (AILSA_PREFIX_OUT_OF_RANGE, None)
     else
       let i = (if 8 < prefix \<and> prefix < 16 then 16 - prefix
                else if 16 < prefix \<and> prefix < 24 then 24 - prefix else 0)
       in (0, Some (if i \<noteq> 0 then 2 ^ i else 1)))"

definition get_offset_ip :: "cstr \<Rightarrow> nat \<Rightarrow> u64 \<Rightarrow> int \<times> string option" where
  "get_offset_ip net_range prefix index =
    (if net_range = None \<or> prefix = 0 then (AILSA_NO_DATA, None)
     else (case convert_text_ipv4_to_bin net_range of
         (retval, None) \<Rightarrow> (retval, None)
       | (retval, Some ip) \<Rightarrow>
           if retval \<noteq> 0 then (retval, None)
           else if 16 < prefix \<and> prefix \<le> 24 then
             convert_bin_ipv4_to_text (if index > 0 then ip + 256 * index else ip)
           else if 8 < prefix \<and> prefix \<le> 16 then
             convert_bin_ipv4_to_text (if index > 0 then ip + 65536 * index else ip)
           else if prefix = 8 then convert_bin_ipv4_to_text ip
           else (AILSA_IP_CONVERT_FAILED, None)))"

text \<open>The result holds \<open>*start\<close> and \<open>*end\<close> where the function wrote them.  The guard lets a NULL range
  with a non-zero prefix through; the conversion then refuses it.\<close>

definition get_start_finsh_ips :: "cstr \<Rightarrow> nat \<Rightarrow> int \<times> u64 option \<times> u64 option" where
  "get_start_finsh_ips net_range prefix =
    (if net_range = None \<and> prefix = 0 then (AILSA_NO_DATA, None, None)
     else let (retval, start) = convert_text_ipv4_to_bin net_range in
       if retval \<noteq> 0 then (retval, None, None)
       else (case get_zone_index prefix of
           (retval, None) \<Rightarrow> (retval, start, None)
         | (_, Some index) \<Rightarrow>
           (case get_offset_ip net_range prefix index of
               (retval, ip) \<Rightarrow>
                 if retval \<noteq> 0 then (retval, start, None)
                 else (case convert_text_ipv4_to_bin ip of
                     (retval, None) \<Rightarrow> (retval, start, None)
                   | (_, Some fin) \<Rightarrow> (0, start, Some (fin - 1))))))"

text \<open>\<open>strchr(p, '.')\<close> for a position \<open>p\<close> in \<open>s\<close>, then \<open>p++\<close>.\<close>

definition after_dot :: "string \<Rightarrow> nat \<Rightarrow> nat option" where
  "after_dot s p = map_option (\<lambda>i. p + i + 1) (strchr (drop p s) (CHR ''.''))"

definition get_range_search_string :: "cstr \<Rightarrow> nat \<Rightarrow> u64 \<Rightarrow> int \<times> string option" where
  "get_range_search_string net_range prefix index =
    (if net_range = None \<or> prefix = 0 then (AILSA_NO_DATA, None)
     else (case get_offset_ip net_range prefix index of
         (retval, search) \<Rightarrow>
           if retval \<noteq> 0 then (retval, search)
           else (case search of None \<Rightarrow> (retval, None) | Some s \<Rightarrow>
             (case do {
                p \<leftarrow> after_dot s 0;
                p \<leftarrow> (if prefix > 8 then after_dot s p else Some p);
                if prefix > 16 then after_dot s p else Some p } of
                None \<Rightarrow> (AILSA_IP_CONVERT_FAILED, search)
              | Some p \<Rightarrow> (retval, Some (take p s @ ''%''))))))"

text \<open>The range and the prefix of \<open>a.b.c.d/nn\<close>, where they were written.\<close>

definition get_ip_addr_and_prefix :: "cstr \<Rightarrow> int \<times> cstr \<times> u64 option" where
  "get_ip_addr_and_prefix ip = (case ip of None \<Rightarrow> (AILSA_NO_DATA, None, None) | Some s \<Rightarrow>
     let tmp = strndup s MAC_LEN in
     (case strchr tmp (CHR ''/'') of
        None \<Rightarrow> (AILSA_INPUT_INVALID, None, None)
      | Some p \<Rightarrow>
          let ptr = drop (p + 1) tmp; net_range = Some (strndup (take p tmp) SERVICE_LEN) in
          if length ptr > 2 then (AILSA_STRING_FAIL, net_range, None)
          else (0, net_range, Some (strtoul10 ptr))))"

subsection \<open>The in-addr.arpa name\<close>

text \<open>\<open>tmp = strrchr(line, '.'); *tmp = '\0';\<close> and the loop that moves labels to the name.\<close>

definition cut_last :: "string \<Rightarrow> string option" where
  "cut_last line = map_option (\<lambda>p. take p line) (strrchr line (CHR ''.''))"

lemma strrchr_less: "strrchr s c = Some p \<Longrightarrow> p < length s"
  by (auto simp: strrchr_def dest: strchr_Some)

function labels_loop :: "string \<Rightarrow> string \<Rightarrow> string \<times> string" where
  "labels_loop line in_addr = (case strrchr line (CHR ''.'') of
     None \<Rightarrow> (line, in_addr)
   | Some p \<Rightarrow> labels_loop (take p line)
       (in_addr @ take SERVICE_LEN (drop (p + 1) line) @ ''.''))"
  by pat_completeness auto

termination
  by (relation "measure (\<lambda>(line, in_addr). length line)") (auto dest: strrchr_less)

declare labels_loop.simps [simp del]

definition get_in_addr_string :: "string \<Rightarrow> string \<Rightarrow> nat \<Rightarrow> string option" where
  "get_in_addr_string in_addr net_range prefix = do {
     (line, in_addr) \<leftarrow>
       (if prefix \<le> 24 \<and> prefix > 16 then do {
          line \<leftarrow> cut_last net_range;
          Some (labels_loop line in_addr)
        } else if prefix \<le> 16 \<and> prefix > 8 then do {
          line \<leftarrow> cut_last net_range;
          line \<leftarrow> cut_last line;
          Some (labels_loop line in_addr)
        } else if prefix = 8 then do {
          line \<leftarrow> cut_last net_range;
          line \<leftarrow> cut_last line;
          line \<leftarrow> cut_last line;
          Some (labels_loop line in_addr)
        } else Some (net_range, in_addr));
     Some (in_addr @ take SERVICE_LEN line @ take SERVICE_LEN ''.in-addr.arpa'')
   }"

subsection \<open>Facts about decimal numbers\<close>

lemma dec_small: "n < 10 \<Longrightarrow> dec n = [char_of (48 + n)]"
  by (simp add: dec.simps)

lemma dec_big: "\<not> n < 10 \<Longrightarrow> dec n = dec (n div 10) @ [char_of (48 + n mod 10)]"
  by (subst dec.simps) simp

lemma of_digit: "n < 10 \<Longrightarrow> (of_char (char_of (48 + n) :: char) :: nat) = 48 + n"
  by simp

lemma is_digit_char [simp]: "(n :: nat) < 10 \<Longrightarrow> is_digit (char_of (48 + n))"
  by (simp add: is_digit_def)

lemma is_digit_char_mod [simp]: "is_digit (char_of (48 + (n :: nat) mod 10))"
  by simp

lemma dec_digits [simp]: "list_all is_digit (dec n)"
proof (induction n rule: dec.induct)
  case (1 n)
  then show ?case by (cases "n < 10") (simp_all add: dec_small dec_big)
qed

lemma dec_not_Nil [simp]: "dec n \<noteq> []"
  by (cases "n < 10") (simp_all add: dec_small dec_big)

lemma digits_value_snoc:
  assumes "list_all is_digit s" "n < 10"
  shows "digits_value (s @ [char_of (48 + n)]) = digits_value s * 10 + n"
proof -
  have t: "takeWhile is_digit s = s"
    using assms(1) by (simp add: list_all_iff takeWhile_eq_all_conv)
  have t2: "takeWhile is_digit (s @ [char_of (48 + n)]) = s @ [char_of (48 + n)]"
    using assms by (simp add: list_all_iff takeWhile_append2)
  show ?thesis unfolding digits_value_def t t2 using of_digit [OF assms(2)] by simp
qed

lemma digits_value_dec [simp]: "digits_value (dec n) = n"
proof (induction n rule: dec.induct)
  case (1 n)
  then show ?case
    using digits_value_snoc [of "[]" n] digits_value_snoc [of "dec (n div 10)" "n mod 10"]
    by (cases "n < 10") (simp_all add: dec_small dec_big digits_value_def [of "[]"])
qed

lemma hd_dec: "0 < n \<Longrightarrow> hd (dec n) \<noteq> CHR ''0''"
proof (induction n rule: dec.induct)
  case (1 n)
  show ?case
  proof (cases "n < 10")
    case True
    have "(of_char (CHR ''0'') :: nat) = 48" by simp
    then have "char_of (48 + n) \<noteq> CHR ''0''" using 1(2) of_digit [OF True] by (metis add_cancel_left_right not_gr_zero)
    then show ?thesis using True by (simp add: dec_small)
  qed (use 1 in \<open>simp add: dec_big\<close>)
qed

lemma length_dec: "n < 1000 \<Longrightarrow> length (dec n) \<le> 3"
  by (cases "n < 10"; cases "n < 100") (simp_all add: dec_small dec_big)

lemma octet_dec [simp]:
  assumes "n \<le> 255"
  shows "octet (dec n) = Some n"
proof -
  have "length (dec n) = 1 \<or> hd (dec n) \<noteq> CHR ''0''"
    using hd_dec [of n] by (cases "n = 0") (simp_all add: dec_small)
  then show ?thesis using assms length_dec [of n] by (auto simp: octet_def)
qed

lemma digit_char:
  assumes "is_digit c"
  obtains k :: nat where "k < 10" "c = char_of (48 + k)"
proof -
  have "c = char_of (48 + (of_char c - 48 :: nat))" "of_char c - 48 < (10 :: nat)"
    using assms unfolding is_digit_def by (simp, linarith)
  then show ?thesis using that by blast
qed

lemma dec_digits_value:
  "list_all is_digit s \<Longrightarrow> s \<noteq> [] \<Longrightarrow> length s = 1 \<or> hd s \<noteq> CHR ''0'' \<Longrightarrow> dec (digits_value s) = s"
proof (induction s rule: rev_induct)
  case (snoc c t)
  then obtain k :: nat where k: "k < 10" "c = char_of (48 + k)" by (auto elim: digit_char)
  have v: "digits_value (t @ [c]) = digits_value t * 10 + k"
    using snoc.prems(1) k by (simp add: digits_value_snoc)
  show ?case
  proof (cases "t = []")
    case True
    then show ?thesis using v k by (simp add: digits_value_def [of "[]"] dec_small)
  next
    case False
    then have hd: "hd t \<noteq> CHR ''0''" using snoc.prems(3) by (cases t) auto
    then have t: "dec (digits_value t) = t" using snoc False by simp
    have "dec 0 = ''0''" by code_simp
    then have "digits_value t \<noteq> 0" using hd t by (intro notI) (metis list.sel(1))
    then show ?thesis using v k t by (simp add: dec_big)
  qed
qed simp

lemma octet_cases: "octet s = Some n \<Longrightarrow> s = dec n"
  by (auto simp: octet_def dec_digits_value split: if_splits)

subsection \<open>Facts about dotted texts\<close>

fun join_dots :: "string list \<Rightarrow> string" where
  "join_dots [] = []"
| "join_dots [x] = x"
| "join_dots (x # y # ys) = x @ CHR ''.'' # join_dots (y # ys)"

lemma split_dots_not_Nil: "split_dots s \<noteq> []"
  by (induction s) (auto split: list.splits)

lemma join_split_dots: "join_dots (split_dots s) = s"
proof (induction s)
  case (Cons x s)
  show ?case
  proof (cases "split_dots s")
    case Nil
    then show ?thesis using split_dots_not_Nil by blast
  next
    case (Cons y ys)
    then show ?thesis using Cons.IH by (cases ys) simp_all
  qed
qed simp

lemma split_dots_append:
  "CHR ''.'' \<notin> set xs \<Longrightarrow> split_dots (xs @ CHR ''.'' # ys) = xs # split_dots ys"
  by (induction xs) auto

lemma split_dots_last: "CHR ''.'' \<notin> set xs \<Longrightarrow> split_dots xs = [xs]"
  by (induction xs) auto

lemma dec_no_dot [simp]: "CHR ''.'' \<notin> set (dec n)"
proof
  assume "CHR ''.'' \<in> set (dec n)"
  then have "is_digit (CHR ''.'')" using dec_digits [of n] by (auto simp: list_all_iff)
  then show False by (simp add: is_digit_def)
qed

definition dotted :: "nat \<Rightarrow> nat \<Rightarrow> nat \<Rightarrow> nat \<Rightarrow> string" where
  "dotted a b c d = dec a @ CHR ''.'' # dec b @ CHR ''.'' # dec c @ CHR ''.'' # dec d"

lemma split_dotted: "split_dots (dotted a b c d) = [dec a, dec b, dec c, dec d]"
  by (simp add: dotted_def split_dots_append split_dots_last)

lemma pton4_dotted:
  "a \<le> 255 \<Longrightarrow> b \<le> 255 \<Longrightarrow> c \<le> 255 \<Longrightarrow> d \<le> 255 \<Longrightarrow> pton4 (dotted a b c d) = Some (of_octets a b c d)"
  by (simp add: pton4_def split_dotted)

lemma octet_bound: "octet s = Some n \<Longrightarrow> n \<le> 255"
  by (auto simp: octet_def split: if_splits)

lemma pton4_cases:
  assumes "pton4 s = Some w"
  obtains a b c d where "a \<le> 255" "b \<le> 255" "c \<le> 255" "d \<le> 255" "s = dotted a b c d"
    "w = of_octets a b c d"
proof -
  from assms obtain p q r t a b c d where s: "split_dots s = [p, q, r, t]" "octet p = Some a"
    "octet q = Some b" "octet r = Some c" "octet t = Some d" "w = of_octets a b c d"
    by (auto simp: pton4_def bind_eq_Some_conv split: list.splits)
  have le: "a \<le> 255" "b \<le> 255" "c \<le> 255" "d \<le> 255" using s octet_bound by blast+
  with s have "p = dec a" "q = dec b" "r = dec c" "t = dec d" by (auto intro: octet_cases)
  then have "s = dotted a b c d"
    using join_split_dots [of s] s(1) by (simp add: dotted_def)
  with le s(6) show ?thesis using that by blast
qed

lemma ntop4_dotted: "ntop4 w = dotted (octet_of w 3) (octet_of w 2) (octet_of w 1) (octet_of w 0)"
  by (simp add: ntop4_def dotted_def)

lemma unat_of_nat_u32: "n < 2 ^ 32 \<Longrightarrow> unat (word_of_nat n :: u32) = n"
  by (simp add: unsigned_of_nat take_bit_nat_eq_self)

lemma octets_value:
  assumes "a \<le> 255" "b \<le> 255" "c \<le> 255" "d \<le> 255"
  shows "unat (of_octets a b c d) = a * 2 ^ 24 + b * 2 ^ 16 + c * 2 ^ 8 + d"
  unfolding of_octets_def by (rule unat_of_nat_u32) (use assms in simp)

lemma octet_of_simps:
  "octet_of w 0 = unat w mod 256" "octet_of w 1 = unat w div 256 mod 256"
  "octet_of w 2 = unat w div 256 div 256 mod 256"
  "octet_of w 3 = unat w div 256 div 256 div 256 mod 256"
  by (simp_all add: octet_of_def div_mult2_eq [symmetric])

lemma octet_of_octets:
  assumes "a \<le> 255" "b \<le> 255" "c \<le> 255" "d \<le> 255"
  shows "octet_of (of_octets a b c d) 0 = d" "octet_of (of_octets a b c d) 1 = c"
    "octet_of (of_octets a b c d) 2 = b" "octet_of (of_octets a b c d) 3 = a"
proof -
  have 0: "(256 * x + y) mod 256 = y" "(256 * x + y) div 256 = x" if "y \<le> 255" for x y :: nat
    using that by simp_all
  have v: "unat (of_octets a b c d) = 256 * (256 * (256 * a + b) + c) + d"
    using octets_value [OF assms] by simp
  show "octet_of (of_octets a b c d) 0 = d" "octet_of (of_octets a b c d) 1 = c"
    "octet_of (of_octets a b c d) 2 = b" "octet_of (of_octets a b c d) 3 = a"
    using assms by (simp_all only: octet_of_simps v 0) simp_all
qed

lemma octets_of_word: "of_octets (octet_of w 3) (octet_of w 2) (octet_of w 1) (octet_of w 0) = w"
proof -
  define n where "n = unat w"
  define n1 where "n1 = n div 256"
  define n2 where "n2 = n1 div 256"
  define n3 where "n3 = n2 div 256"
  have n: "n < 256 * (256 * (256 * 256))" using unsigned_less [of w] by (simp add: n_def)
  then have "n3 < 256" by (simp add: n1_def n2_def n3_def less_mult_imp_div_less)
  then have o: "octet_of w 3 = n3" "octet_of w 2 = n2 mod 256" "octet_of w 1 = n1 mod 256" "octet_of w 0 = n mod 256"
    by (simp_all add: octet_of_simps n_def n1_def n2_def n3_def del: One_nat_def)
  have "n = 256 * n1 + n mod 256" "n1 = 256 * n2 + n1 mod 256" "n2 = 256 * n3 + n2 mod 256"
    by (simp_all add: n1_def n2_def n3_def)
  then have eq: "octet_of w 3 * 2 ^ 24 + octet_of w 2 * 2 ^ 16 + octet_of w 1 * 2 ^ 8 + octet_of w 0 = n"
    unfolding o by simp
  show ?thesis unfolding of_octets_def eq by (simp add: n_def)
qed

lemma octet_of_le [simp]: "octet_of w i \<le> 255"
  using mod_less_divisor [of 256 "unat w div 256 ^ i"] by (simp add: octet_of_def)

lemma pton4_ntop4 [simp]: "pton4 (ntop4 w) = Some w"
  by (simp add: ntop4_dotted pton4_dotted octets_of_word del: One_nat_def)

lemma ntop4_pton4: "pton4 s = Some w \<Longrightarrow> ntop4 w = s"
  by (elim pton4_cases) (simp add: ntop4_dotted octet_of_octets del: One_nat_def)

subsection \<open>Facts about ranges\<close>

lemma unat_ucast_u64 [simp]: "unat (ucast (w :: u32) :: u64) = unat w"
proof -
  have "unat w < 2 ^ LENGTH(32)" by (rule unsigned_less)
  then show ?thesis by (simp add: unsigned_ucast_eq unsigned_take_bit_eq take_bit_nat_eq_self)
qed

lemma ucast_up_down [simp]: "ucast (ucast (w :: u32) :: u64) = w"
proof (rule word_unat_eq_iff [THEN iffD2])
  have "unat w < 2 ^ LENGTH(32)" by (rule unsigned_less)
  then show "unat (ucast (ucast w :: u64) :: u32) = unat w"
    unfolding unsigned_ucast_eq [of "ucast w :: u64"] unsigned_take_bit_eq unat_ucast_u64
    by (simp add: take_bit_nat_eq_self)
qed

lemma ucast_down_up: "unat (ip :: u64) < 2 ^ 32 \<Longrightarrow> ucast (ucast ip :: u32) = ip"
  by (rule word_unat_eq_iff [THEN iffD2])
     (simp add: unsigned_ucast_eq unsigned_take_bit_eq take_bit_nat_eq_self)

lemma convert_text_eq:
  "convert_text_ipv4_to_bin (Some s) = (0, Some ip) \<longleftrightarrow> (\<exists>w. pton4 s = Some w \<and> ip = ucast w)"
  by (auto simp: convert_text_ipv4_to_bin_def split: option.splits)

lemma convert_bin_text:
  assumes "ip \<noteq> 0" "unat ip < 2 ^ 32"
  shows "convert_text_ipv4_to_bin (snd (convert_bin_ipv4_to_text ip)) = (0, Some ip)"
  using assms by (simp add: convert_bin_ipv4_to_text_def convert_text_ipv4_to_bin_def ucast_down_up)

lemma zone_index:
  assumes "8 < p" "p \<le> 24"
  shows "get_zone_index p = (0, Some (2 ^ ((if p \<le> 16 then 16 else 24) - p)))"
  using assms by (auto simp: get_zone_index_def Let_def)

lemma unat_of_nat_u64: "n < 2 ^ 64 \<Longrightarrow> unat (word_of_nat n :: u64) = n"
  by (simp add: unsigned_of_nat take_bit_nat_eq_self)

lemma unat_power_u64: "k < 64 \<Longrightarrow> unat (2 ^ k :: u64) = 2 ^ k"
  using unat_of_nat_u64 [of "2 ^ k"] power_strict_increasing [of k 64 "2 :: nat"] by simp

lemma unat_add_power:
  assumes "unat (x :: u64) + 2 ^ k < 2 ^ 32" "k < 64"
  shows "unat (x + 2 ^ k) = unat x + 2 ^ k"
  using assms by (simp add: unat_word_ariths unat_power_u64)

lemma unat_range_end:
  assumes "unat (x :: u64) + 2 ^ k < 2 ^ 32" "k < 64"
  shows "unat (x + 2 ^ k - 1) = unat x + 2 ^ k - 1"
proof -
  have "x + 2 ^ k \<noteq> 0" using unat_add_power [OF assms] by (intro notI) simp
  then show ?thesis using unat_add_power [OF assms] by (simp add: unat_minus_one)
qed

lemma net_range_table:
  "list_all (\<lambda>p. get_net_range p = Some (2 ^ (32 - p)) \<and> prefix_to_mask_ipv4 p = Some (- (2 ^ (32 - p)))) [0..<33]"
  by code_simp

lemma net_range_value:
  "p \<le> 32 \<Longrightarrow> get_net_range p = Some (2 ^ (32 - p)) \<and> prefix_to_mask_ipv4 p = Some (- (2 ^ (32 - p)))"
  using net_range_table by (auto simp: list_all_iff simp del: upt_rec_numeral)

lemma unat_minus_power:
  assumes "k < 32"
  shows "unat (- (2 ^ k) :: u32) = 2 ^ 32 - 2 ^ k"
proof -
  have le: "(2 :: nat) ^ k < 2 ^ 32" by (rule power_strict_increasing) (use assms in simp_all)
  have "(word_of_nat (2 ^ 32 - 2 ^ k) :: u32) = word_of_nat (2 ^ 32) - word_of_nat (2 ^ k)"
    by (rule of_nat_diff) (use le in simp)
  then have "(- (2 ^ k) :: u32) = word_of_nat (2 ^ 32 - 2 ^ k)" by simp
  moreover have "unat (word_of_nat (2 ^ 32 - 2 ^ k) :: u32) = 2 ^ 32 - 2 ^ k"
    by (rule unat_of_nat_u32) simp
  ultimately show ?thesis by simp
qed

lemma offset_at_index:
  assumes "convert_text_ipv4_to_bin (Some s) = (0, Some start)" "8 < p" "p \<le> 24"
    "get_zone_index p = (r, Some idx)"
  shows "get_offset_ip (Some s) p idx = convert_bin_ipv4_to_text (start + 2 ^ (32 - p))"
proof -
  have idx: "idx = 2 ^ ((if p \<le> 16 then 16 else 24) - p)"
    using zone_index [OF assms(2,3)] assms(4) by simp
  have pos: "0 < idx"
    by (simp add: idx word_less_nat_alt unat_power_u64)
  show ?thesis
  proof (cases "p \<le> 16")
    case True
    then have "65536 * idx = 2 ^ (32 - p)" using idx power_add [of "2 :: u64" 16 "16 - p"] by simp
    then show ?thesis using True assms(1,2) pos by (simp add: get_offset_ip_def)
  next
    case False
    then have "256 * idx = 2 ^ (32 - p)" using idx assms(3) power_add [of "2 :: u64" 8 "24 - p"] by simp
    then show ?thesis using False assms(1,2,3) pos by (simp add: get_offset_ip_def)
  qed
qed

lemma start_finish:
  assumes "convert_text_ipv4_to_bin (Some s) = (0, Some start)" "8 < p" "p \<le> 24"
    "unat start + 2 ^ (32 - p) < 2 ^ 32"
  shows "get_start_finsh_ips (Some s) p = (0, Some start, Some (start + 2 ^ (32 - p) - 1))"
proof -
  let ?n = "start + 2 ^ (32 - p)"
  obtain idx where idx: "get_zone_index p = (0, Some idx)" using zone_index [OF assms(2,3)] by blast
  have n: "unat ?n = unat start + 2 ^ (32 - p)" by (rule unat_add_power [OF assms(4)]) simp
  then have n0: "?n \<noteq> 0" by (intro notI) simp
  have o: "get_offset_ip (Some s) p idx = (0, Some (ntop4 (ucast ?n)))"
    using offset_at_index [OF assms(1-3) idx] n0 by (simp add: convert_bin_ipv4_to_text_def)
  have "convert_text_ipv4_to_bin (Some (ntop4 (ucast ?n))) = (0, Some ?n)"
    using convert_bin_text [OF n0] n assms(4) n0 by (simp add: convert_bin_ipv4_to_text_def)
  then show ?thesis using o idx assms(1,2) by (simp add: get_start_finsh_ips_def)
qed

lemma start_finish_8:
  assumes "convert_text_ipv4_to_bin (Some s) = (0, Some start)" "start \<noteq> 0"
  shows "get_start_finsh_ips (Some s) 8 = (0, Some start, Some (start - 1))"
proof -
  obtain w where w: "pton4 s = Some w" "start = ucast w" using assms(1) by (auto simp: convert_text_eq)
  have "convert_text_ipv4_to_bin (snd (convert_bin_ipv4_to_text start)) = (0, Some start)"
    using w assms(2) unsigned_less [of w] by (intro convert_bin_text) simp_all
  then show ?thesis
    using assms by (simp add: get_start_finsh_ips_def get_zone_index_def Let_def get_offset_ip_def
        convert_bin_ipv4_to_text_def)
qed

subsection \<open>Facts about in-addr.arpa names\<close>

lemma cut_last_append: "CHR ''.'' \<notin> set ys \<Longrightarrow> cut_last (xs @ CHR ''.'' # ys) = Some xs"
  by (simp add: cut_last_def strrchr_append_last)

lemma labels_loop_append:
  "CHR ''.'' \<notin> set ys \<Longrightarrow> length ys \<le> SERVICE_LEN \<Longrightarrow>
    labels_loop (xs @ CHR ''.'' # ys) s = labels_loop xs (s @ ys @ ''.'')"
  by (subst labels_loop.simps) (simp add: strrchr_append_last)

lemma labels_loop_last: "CHR ''.'' \<notin> set xs \<Longrightarrow> labels_loop xs s = (xs, s)"
  by (subst labels_loop.simps) (simp add: strrchr_None [THEN iffD2])

lemma length_dec_octet: "n \<le> 255 \<Longrightarrow> length (dec n) \<le> 16"
  using length_dec [of n] by simp

lemma in_addr_name:
  assumes "a \<le> 255" "b \<le> 255" "c \<le> 255"
  shows "16 < p \<and> p \<le> 24 \<Longrightarrow> get_in_addr_string [] (dotted a b c d) p =
      Some (dec c @ ''.'' @ dec b @ ''.'' @ dec a @ ''.in-addr.arpa'')"
    and "8 < p \<and> p \<le> 16 \<Longrightarrow> get_in_addr_string [] (dotted a b c d) p =
      Some (dec b @ ''.'' @ dec a @ ''.in-addr.arpa'')"
    and "p = 8 \<Longrightarrow> get_in_addr_string [] (dotted a b c d) p = Some (dec a @ ''.in-addr.arpa'')"
proof -
  note l = cut_last_append labels_loop_append labels_loop_last length_dec_octet assms
  have 1: "cut_last (dotted a b c d) = Some (dec a @ CHR ''.'' # dec b @ CHR ''.'' # dec c)"
    using cut_last_append [of "dec d" "dec a @ CHR ''.'' # dec b @ CHR ''.'' # dec c"]
    by (simp add: dotted_def)
  have 2: "cut_last (dec a @ CHR ''.'' # dec b @ CHR ''.'' # dec c) = Some (dec a @ CHR ''.'' # dec b)"
    using cut_last_append [of "dec c" "dec a @ CHR ''.'' # dec b"] by simp
  have 3: "labels_loop (dec a @ CHR ''.'' # dec b @ CHR ''.'' # dec c) [] =
      (dec a, dec c @ ''.'' @ dec b @ ''.'')"
    using labels_loop_append [of "dec c" "dec a @ CHR ''.'' # dec b"] by (simp add: l)
  show "16 < p \<and> p \<le> 24 \<Longrightarrow> get_in_addr_string [] (dotted a b c d) p =
      Some (dec c @ ''.'' @ dec b @ ''.'' @ dec a @ ''.in-addr.arpa'')"
    and "8 < p \<and> p \<le> 16 \<Longrightarrow> get_in_addr_string [] (dotted a b c d) p =
      Some (dec b @ ''.'' @ dec a @ ''.in-addr.arpa'')"
    and "p = 8 \<Longrightarrow> get_in_addr_string [] (dotted a b c d) p = Some (dec a @ ''.in-addr.arpa'')"
    by (simp_all add: get_in_addr_string_def 1 2 3 l)
qed

subsection \<open>Facts about search strings\<close>

lemma after_dot_append:
  assumes "CHR ''.'' \<notin> set ys"
  shows "after_dot (xs @ ys @ CHR ''.'' # zs) (length xs) = Some (length xs + length ys + 1)"
  using assms by (simp add: after_dot_def strchr_append_first)

lemma search_string:
  assumes "a \<le> 255" "b \<le> 255" "c \<le> 255" "d \<le> 255" "0 < a" "8 \<le> p" "p \<le> 24"
  shows "get_range_search_string (Some (dotted a b c d)) p 0 =
    (0, Some (if p = 8 then dec a @ ''.%'' else if p \<le> 16 then dec a @ ''.'' @ dec b @ ''.%''
              else dec a @ ''.'' @ dec b @ ''.'' @ dec c @ ''.%''))"
proof -
  let ?s = "dotted a b c d" and ?w = "of_octets a b c d"
  have w: "pton4 ?s = Some ?w" by (rule pton4_dotted) (use assms in simp_all)
  have "unat ?w \<noteq> 0" using octets_value [OF assms(1-4)] assms(5) by simp
  then have nz: "(ucast ?w :: u64) \<noteq> 0" by (metis unat_0 unat_ucast_u64)
  have o: "get_offset_ip (Some ?s) p 0 = (0, Some ?s)"
    using w nz assms(6,7) ntop4_pton4 [OF w]
    by (auto simp: get_offset_ip_def convert_text_ipv4_to_bin_def convert_bin_ipv4_to_text_def)
  have 1: "after_dot ?s 0 = Some (length (dec a) + 1)"
    using after_dot_append [of "dec a" "[]"] by (simp add: dotted_def)
  have 2: "after_dot ?s (length (dec a) + 1) = Some (length (dec a) + length (dec b) + 2)"
    using after_dot_append [of "dec b" "dec a @ ''.''"] by (simp add: dotted_def)
  have 3: "after_dot ?s (length (dec a) + length (dec b) + 2) =
      Some (length (dec a) + length (dec b) + length (dec c) + 3)"
    using after_dot_append [of "dec c" "dec a @ ''.'' @ dec b @ ''.''"] by (simp add: dotted_def)
  have t: "take (length pre) ?s = pre" if "?s = pre @ post" for pre post using that by simp
  have "take (length (dec a) + 1) ?s = dec a @ ''.''"
    "take (length (dec a) + length (dec b) + 2) ?s = dec a @ ''.'' @ dec b @ ''.''"
    "take (length (dec a) + length (dec b) + length (dec c) + 3) ?s =
      dec a @ ''.'' @ dec b @ ''.'' @ dec c @ ''.''"
    using t [of "dec a @ ''.''"] t [of "dec a @ ''.'' @ dec b @ ''.''"]
      t [of "dec a @ ''.'' @ dec b @ ''.'' @ dec c @ ''.''"]
    by (simp_all add: dotted_def ac_simps)
  then show ?thesis
    using assms(6,7) o 1 2 3 by (auto simp: get_range_search_string_def simp del: One_nat_def)
qed

subsection \<open>Properties\<close>

text \<open>An IPv4 address of 32 bits other than 0.0.0.0 prints as a text, and this text is the only one
  that parses to it: printing and parsing are inverse to each other.\<close>

theorem ipv4_text_roundtrip:
  assumes "ip \<noteq> 0" "unat ip < 2 ^ 32"
  shows "(\<exists>s. convert_bin_ipv4_to_text ip = (0, Some s)) \<and>
    (convert_bin_ipv4_to_text ip = (0, Some s) \<longleftrightarrow> convert_text_ipv4_to_bin (Some s) = (0, Some ip))"
proof -
  have 1: "convert_bin_ipv4_to_text ip = (0, Some (ntop4 (ucast ip)))"
    using assms(1) by (simp add: convert_bin_ipv4_to_text_def)
  have 2: "convert_text_ipv4_to_bin (Some (ntop4 (ucast ip))) = (0, Some ip)"
    using convert_bin_text [OF assms] by (simp add: 1)
  have 3: "s = ntop4 (ucast ip)" if "convert_text_ipv4_to_bin (Some s) = (0, Some ip)" for s
  proof -
    from that obtain w :: u32 where w: "pton4 s = Some w" "ip = ucast w" by (auto simp: convert_text_eq)
    then show ?thesis using ntop4_pton4 [OF w(1)] by simp
  qed
  from 1 2 3 [of s] show ?thesis by (metis option.inject prod.inject)
qed

theorem ipv4_text_roundtrip_witness:
  "convert_bin_ipv4_to_text 3232235776 = (0, Some ''192.168.1.0'')"
proof -
  have "''192.168.1.0'' = dotted 192 168 1 0" by code_simp
  then have "convert_text_ipv4_to_bin (Some ''192.168.1.0'') = (0, Some 3232235776)"
    by (simp add: convert_text_ipv4_to_bin_def pton4_dotted of_octets_def)
  with ipv4_text_roundtrip [of 3232235776 "''192.168.1.0''"] show ?thesis by simp
qed

text \<open>C38: For a prefix from 9 to 24 the range of a reverse zone starts at its address and ends
  \<open>get_net_range\<close> addresses later, minus one, when it ends below 2^32; the mask has the same size.\<close>

theorem reverse_zone_range:
  assumes "convert_text_ipv4_to_bin (Some s) = (0, Some start)" "8 < p" "p \<le> 24"
    "unat start + 2 ^ (32 - p) < 2 ^ 32"
  shows "\<exists>n. get_net_range p = Some n \<and> unat n = 2 ^ (32 - p) \<and>
    get_start_finsh_ips (Some s) p = (0, Some start, Some (start + n - 1)) \<and>
    unat (start + n - 1) = unat start + unat n - 1 \<and>
    map_option unat (prefix_to_mask_ipv4 p) = Some (2 ^ 32 - unat n)"
proof -
  let ?n = "2 ^ (32 - p) :: u64"
  have n: "unat ?n = 2 ^ (32 - p)" by (simp add: unat_power_u64)
  have "unat (start + ?n - 1) = unat start + unat ?n - 1"
    using unat_range_end [OF assms(4)] n by simp
  then show ?thesis
    using start_finish [OF assms] net_range_value [of p] unat_minus_power [of "32 - p"] n assms(2,3)
    by simp
qed

theorem reverse_zone_range_witness:
  "get_start_finsh_ips (Some ''10.4.0.0'') 14 = (0, Some 168034304, Some 168296447)"
proof -
  have "''10.4.0.0'' = dotted 10 4 0 0" by code_simp
  then have "convert_text_ipv4_to_bin (Some ''10.4.0.0'') = (0, Some 168034304)"
    by (simp add: convert_text_ipv4_to_bin_def pton4_dotted of_octets_def)
  from reverse_zone_range [OF this, of 14] show ?thesis
    using net_range_value [of 14] by auto
qed

text \<open>The in-addr.arpa name of a reverse zone reverses the network octets of its address, and its
  search string keeps them in order before a wildcard.\<close>

theorem reverse_names_of_octets:
  assumes "a \<le> 255" "b \<le> 255" "c \<le> 255" "d \<le> 255" "0 < a" "8 \<le> p" "p \<le> 24"
  shows "get_in_addr_string [] (dotted a b c d) p =
      Some ((if p = 8 then dec a else if p \<le> 16 then dec b @ ''.'' @ dec a
             else dec c @ ''.'' @ dec b @ ''.'' @ dec a) @ ''.in-addr.arpa'') \<and>
    get_range_search_string (Some (dotted a b c d)) p 0 =
      (0, Some ((if p = 8 then dec a else if p \<le> 16 then dec a @ ''.'' @ dec b
                 else dec a @ ''.'' @ dec b @ ''.'' @ dec c) @ ''.%''))"
  using in_addr_name [OF assms(1-3), of p d] search_string [OF assms] assms(6,7)
  by (cases "p = 8"; cases "p \<le> 16") simp_all

theorem reverse_names_of_octets_witness:
  "get_in_addr_string [] ''10.4.3.0'' 22 = Some ''3.4.10.in-addr.arpa'' \<and>
   get_range_search_string (Some ''10.4.3.0'') 22 0 = (0, Some ''10.4.3.%'')"
proof -
  have "dotted 10 4 3 0 = ''10.4.3.0''" "dec 10 = ''10''" "dec 4 = ''4''" "dec 3 = ''3''"
    by code_simp+
  then show ?thesis using reverse_names_of_octets [of 10 4 3 0 22] by simp
qed

end
