(* ===== verification/Dns_Zones.thy ===== *)
theory Dns_Zones
  imports Net_Range
begin

text \<open>
  The zones of lib/dnsa_net.c and lib/sql_data.c: the serial number of a zone and its update, the
  argument lists of the statements that insert a zone, the overlap checks, the list of sub-zones of
  the reverse zones and the list of build domain networks.
\<close>

subsection \<open>Serial numbers\<close>

text \<open>What \<open>localtime(&now)\<close> delivers; \<open>None\<close> when it fails.\<close>

record tm =
  tm_year :: int
  tm_mon :: int
  tm_mday :: int

text \<open>\<open>"%d"\<close>.\<close>

definition dec_int :: "int \<Rightarrow> string" where
  "dec_int i = (if i < 0 then CHR ''-'' # dec (nat (- i)) else dec (nat i))"

definition generate_zone_serial :: "tm option \<Rightarrow> u64" where
  "generate_zone_serial now = (case now of None \<Rightarrow> 0 | Some lctime \<Rightarrow>
     let syear = snprintf_s SERVICE_LEN (dec_int (tm_year lctime + 1900));
         smonth = snprintf_s SERVICE_LEN
           (if tm_mon lctime < 9 then CHR ''0'' # dec_int (tm_mon lctime + 1)
            else dec_int (tm_mon lctime + 1));
         sday = snprintf_s SERVICE_LEN
           (if tm_mday lctime < 10 then CHR ''0'' # dec_int (tm_mday lctime)
            else dec_int (tm_mday lctime));
         sserial = snprintf_s HOST_LEN (syear @ smonth @ sday @ ''01'')
     in strtoul10 sserial)"

text \<open>
  \<open>ailsa_check_for_zone_update\<close> and \<open>ailsa_check_for_rev_zone_update\<close> have the same shape: the first row
  of the list holds the "updated" flag at one position and the serial at another, which is set in
  place (the tag of the element is not read later).  The result is the code, the world and the
  list.  \<open>None\<close> is a crash: the first row of an empty list does not exist.
\<close>

definition zone_update ::
  "'db sqlite3_api \<Rightarrow> 'db world \<Rightarrow> ailsa_cmdb_s option \<Rightarrow> nat \<Rightarrow> nat \<Rightarrow> nat \<Rightarrow> u64 \<Rightarrow> ailsa_data list \<Rightarrow>
   cstr \<Rightarrow> 'db query_result" where
  "zone_update api w cbs query updated pos serial l zone =
    (if length l \<le> updated then None
     else do {
       flag \<leftarrow> get_text (l ! updated);
       flag \<leftarrow> flag;
       if flag = ''yes'' then do {
         old \<leftarrow> get_number (l ! pos);
         let serial = (if serial \<le> old then old + 1 else serial);
             l = l[pos := D_LINT serial];
             (retval, s) = cmdb_add_number_to_list serial (Some []) in
         if retval \<noteq> 0 then Some (retval, w, Some l)
         else let (retval, s) = cmdb_add_string_to_list zone s in
           if retval \<noteq> 0 then Some (retval, w, Some l)
           else do {
             (retval, w) \<leftarrow> ailsa_update_query api w cbs (update_queries ! query) s;
             Some (retval, w, Some l)
           }
       } else Some (0, w, Some l)
     })"

definition ailsa_check_for_zone_update ::
  "'db sqlite3_api \<Rightarrow> 'db world \<Rightarrow> tm option \<Rightarrow> ailsa_cmdb_s option \<Rightarrow> db_list \<Rightarrow> cstr \<Rightarrow>
   'db query_result" where
  "ailsa_check_for_zone_update api w now cbs l zone =
    (case l of None \<Rightarrow> Some (AILSA_NO_DATA, w, l) | Some r \<Rightarrow>
     if cbs = None \<or> zone = None then Some (AILSA_NO_DATA, w, l)
     else if length r mod 6 \<noteq> 0 then Some (AILSA_WRONG_LIST_LENGHT, w, l)
     else zone_update api w cbs FWD_ZONE_SERIAL_UPDATE 5 1 (generate_zone_serial now) r zone)"

definition ailsa_check_for_rev_zone_update ::
  "'db sqlite3_api \<Rightarrow> 'db world \<Rightarrow> tm option \<Rightarrow> ailsa_cmdb_s option \<Rightarrow> db_list \<Rightarrow> cstr \<Rightarrow>
   'db query_result" where
  "ailsa_check_for_rev_zone_update api w now cbs l zone =
    (case l of None \<Rightarrow> Some (AILSA_NO_DATA, w, l) | Some r \<Rightarrow>
     if cbs = None \<or> zone = None then Some (AILSA_NO_DATA, w, l)
     else if length r mod 8 \<noteq> 0 then Some (AILSA_WRONG_LIST_LENGHT, w, l)
     else zone_update api w cbs REV_ZONE_SERIAL_UPDATE 7 3 (generate_zone_serial now) r zone)"

subsection \<open>The argument lists of a new zone\<close>

text \<open>\<open>if ((retval = m) != 0) return retval;\<close> for the functions that append to a list.\<close>

definition next_arg :: "(db_list \<Rightarrow> int \<times> db_list) \<Rightarrow> int \<times> db_list \<Rightarrow> int \<times> db_list" where
  "next_arg add r = (if fst r \<noteq> 0 then r else add (snd r))"

text \<open>The functions that follow append in the order of the list; the first that fails ends the
  chain.\<close>

definition add_args :: "(db_list \<Rightarrow> int \<times> db_list) list \<Rightarrow> db_list \<Rightarrow> int \<times> db_list" where
  "add_args adds list = fold next_arg adds (0, list)"

definition dnsa_populate_zone ::
  "u32 \<Rightarrow> tm option \<Rightarrow> ailsa_cmdb_s option \<Rightarrow> cstr \<Rightarrow> cstr \<Rightarrow> cstr \<Rightarrow> db_list \<Rightarrow> int \<times> db_list" where
  "dnsa_populate_zone uid now cbs domain type master zone =
    (case cbs of None \<Rightarrow> (AILSA_NO_DATA, zone) | Some cbs \<Rightarrow>
     if domain = None \<or> zone = None then (AILSA_NO_DATA, zone)
     else add_args (
       [cmdb_add_string_to_list domain,
        cmdb_add_string_to_list (cc_prins cbs),
        cmdb_add_string_to_list (if cc_secns cbs \<noteq> None then cc_secns cbs else Some ''none''),
        cmdb_add_number_to_list (cc_refresh cbs),
        cmdb_add_number_to_list (cc_retry cbs),
        cmdb_add_number_to_list (cc_expire cbs),
        cmdb_add_number_to_list (cc_ttl cbs),
        cmdb_add_number_to_list (generate_zone_serial now)] @
       (if master \<noteq> None then [cmdb_add_string_to_list type, cmdb_add_string_to_list master]
        else [cmdb_add_string_to_list (Some ''master'')]) @
       [cmdb_populate_cuser_muser uid]) zone)"

definition dnsa_populate_rev_zone ::
  "u32 \<Rightarrow> tm option \<Rightarrow> ailsa_cmdb_s option \<Rightarrow> cstr \<Rightarrow> cstr \<Rightarrow> nat \<Rightarrow> db_list \<Rightarrow> int \<times> db_list" where
  "dnsa_populate_rev_zone uid now cbc net_range master prefix list =
    (case cbc of None \<Rightarrow> (AILSA_NO_DATA, list) | Some cbc \<Rightarrow>
     if net_range = None \<or> prefix = 0 \<or> list = None then (AILSA_NO_DATA, list)
     else let (retval, list) = add_args
         [cmdb_add_string_to_list net_range,
          cmdb_add_string_to_list (Some (snprintf_s CONFIG_LEN (dec prefix))),
          cmdb_add_string_to_list net_range] list in
       if retval \<noteq> 0 then (retval, list)
       else (case get_start_finsh_ips net_range prefix of
           (retval, Some start, Some fin) \<Rightarrow>
             if retval \<noteq> 0 then (retval, list)
             else let (retval, list) = cmdb_add_number_to_list start list in
               if retval \<noteq> 0 then (retval, list)
               else (case convert_bin_ipv4_to_text fin of
                   (retval, buff) \<Rightarrow>
                     if retval \<noteq> 0 then (retval, list)
                     else add_args (
                       [cmdb_add_string_to_list buff,
                        cmdb_add_number_to_list fin,
                        cmdb_add_string_to_list (cc_prins cbc),
                        cmdb_add_string_to_list
                          (if cc_secns cbc \<noteq> None then cc_secns cbc else Some ''none''),
                        cmdb_add_number_to_list (generate_zone_serial now),
                        cmdb_add_number_to_list (cc_refresh cbc),
                        cmdb_add_number_to_list (cc_retry cbc),
                        cmdb_add_number_to_list (cc_expire cbc),
                        cmdb_add_number_to_list (cc_ttl cbc)] @
                       (if master = None
                        then [cmdb_add_string_to_list (Some ''master''),
                              cmdb_add_string_to_list (Some ''NULL'')]
                        else [cmdb_add_string_to_list (Some ''slave''),
                              cmdb_add_string_to_list master]) @
                       [cmdb_add_string_to_list (Some ''no''),
                        cmdb_populate_cuser_muser uid]) list)
         | (retval, _) \<Rightarrow> (retval, list)))"

subsection \<open>Overlap checks\<close>

text \<open>The numbers of the array up to its first zero; \<open>None\<close> when it holds none.\<close>

fun add_ips :: "u64 list \<Rightarrow> db_list \<Rightarrow> (int \<times> db_list) option" where
  "add_ips [] l = None"
| "add_ips (ip # ips) l =
    (if ip = 0 then Some (0, l)
     else let (retval, l) = cmdb_add_number_to_list ip l in
       if retval \<noteq> 0 then Some (retval, l) else add_ips ips l)"

definition overlap_query ::
  "'db sqlite3_api \<Rightarrow> 'db world \<Rightarrow> ailsa_cmdb_s option \<Rightarrow> nat \<Rightarrow> db_list \<Rightarrow> int \<Rightarrow> (int \<times> 'db world) option" where
  "overlap_query api w cbs query l overlap = do {
     (retval, w, r) \<leftarrow> ailsa_argument_query api w cbs query l (Some []);
     if retval \<noteq> 0 then Some (retval, w)
     else do { r \<leftarrow> r; Some (if length r > 0 then overlap else retval, w) }
   }"

definition check_for_build_domain_overlap ::
  "'db sqlite3_api \<Rightarrow> 'db world \<Rightarrow> ailsa_cmdb_s option \<Rightarrow> u64 list option \<Rightarrow> (int \<times> 'db world) option" where
  "check_for_build_domain_overlap api w cbs ips = (case ips of None \<Rightarrow> Some (AILSA_NO_DATA, w) | Some ips \<Rightarrow>
     if cbs = None then Some (AILSA_NO_DATA, w)
     else do {
       (retval, l) \<leftarrow> add_ips ips (Some []);
       if retval \<noteq> 0 then Some (retval, w)
       else overlap_query api w cbs BUILD_DOMAIN_OVERLAP l AILSA_BUILD_DOMAIN_OVERLAP
     })"

definition check_for_rev_zone_overlap ::
  "'db sqlite3_api \<Rightarrow> 'db world \<Rightarrow> ailsa_cmdb_s option \<Rightarrow> u64 \<Rightarrow> u64 \<Rightarrow> (int \<times> 'db world) option" where
  "check_for_rev_zone_overlap api w cbc start fin =
    (if cbc = None \<or> start = 0 \<or> fin = 0 \<or> fin < start then Some (AILSA_NO_DATA, w)
     else let (retval, l) = add_args (map cmdb_add_number_to_list
         ([start, fin] @ replicate 2 start @ replicate 2 fin)) (Some []) in
       if retval \<noteq> 0 then Some (retval, w)
       else overlap_query api w cbc REV_ZONE_OVERLAP l AILSA_REV_ZONE_OVERLAP)"

subsection \<open>The list of reverse zones\<close>

record ailsa_rev_zone_s =
  rz_type :: cstr
  rz_net_range :: cstr
  rz_pri_dns :: cstr
  rz_sec_dns :: cstr
  rz_master :: cstr
  rz_in_addr :: cstr

text \<open>\<open>ailsa_calloc(sizeof(ailsa_rev_zone_s), ...)\<close>.\<close>

definition new_rev_zone :: ailsa_rev_zone_s where
  "new_rev_zone = \<lparr>rz_type = None, rz_net_range = None, rz_pri_dns = None, rz_sec_dns = None,
     rz_master = None, rz_in_addr = None\<rparr>"

text \<open>\<open>get_in_addr_string\<close> into a zeroed buffer of \<open>HOST_LEN\<close> bytes, which it does not check.\<close>

definition in_addr_buffer :: "string \<Rightarrow> nat \<Rightarrow> string option" where
  "in_addr_buffer net_range prefix = do {
     s \<leftarrow> get_in_addr_string [] net_range prefix;
     if length s < HOST_LEN then Some s else None
   }"

text \<open>The loop over the sub-zones.  \<open>strndup\<close> of a NULL text is a crash, as are texts of other types.\<close>

fun rev_sub_zones ::
  "string \<Rightarrow> string \<Rightarrow> cstr \<Rightarrow> nat \<Rightarrow> nat list \<Rightarrow> ailsa_rev_zone_s list \<Rightarrow>
   (int \<times> ailsa_rev_zone_s list) option" where
  "rev_sub_zones type master net_range prefix [] z = Some (0, z)"
| "rev_sub_zones type master net_range prefix (i # is) z =
    (let rev = new_rev_zone\<lparr>rz_type := Some (strndup type SERVICE_LEN),
       rz_master := Some (strndup master DOMAIN_LEN)\<rparr> in
     case get_offset_ip net_range prefix (of_nat i) of
       (retval, addr) \<Rightarrow>
         let addr = (case addr of None \<Rightarrow> [] | Some s \<Rightarrow> s); rev = rev\<lparr>rz_net_range := Some addr\<rparr> in
         if retval \<noteq> 0 then Some (retval, z @ [rev])
         else do {
           in_addr \<leftarrow> in_addr_buffer addr prefix;
           rev_sub_zones type master net_range prefix is (z @ [rev\<lparr>rz_in_addr := Some in_addr\<rparr>])
         })"

text \<open>A row is type, net range, two unused columns, master and prefix.  The code is that of the last
  row: \<open>None\<close> stands for the variable that no row has set.\<close>

fun fill_rev_rows ::
  "int option \<Rightarrow> ailsa_data list \<Rightarrow> ailsa_rev_zone_s list \<Rightarrow> (int \<times> ailsa_rev_zone_s list) option" where
  "fill_rev_rows retval [] z = map_option (\<lambda>r. (r, z)) retval"
| "fill_rev_rows retval (t # r # pri # sec # m # p # rest) z = do {
     prefix \<leftarrow> get_text p; prefix \<leftarrow> prefix;
     type \<leftarrow> get_text t; type \<leftarrow> type;
     let prefix = unat (strtoul10 prefix) in
     if prefix \<noteq> 8 \<and> prefix \<noteq> 16 \<and> prefix \<noteq> 24 then
       (case get_zone_index prefix of
          (retval, None) \<Rightarrow> Some (retval, z)
        | (_, Some index) \<Rightarrow> do {
            master \<leftarrow> get_text m; master \<leftarrow> master;
            net_range \<leftarrow> get_text r;
            (retval, z) \<leftarrow> rev_sub_zones type master net_range prefix [0..<unat index] z;
            if retval \<noteq> 0 then Some (retval, z) else fill_rev_rows (Some retval) rest z })
     else do {
       master \<leftarrow> (if strncmp_eq (strndup type SERVICE_LEN) ''slave'' BYTE_LEN
         then do { master \<leftarrow> get_text m; master \<leftarrow> master; Some (Some (strndup master DOMAIN_LEN)) }
         else Some None);
       net_range \<leftarrow> get_text r; net_range \<leftarrow> net_range;
       in_addr \<leftarrow> in_addr_buffer (strndup net_range DOMAIN_LEN) prefix;
       fill_rev_rows (Some 0) rest (z @ [new_rev_zone\<lparr>rz_type := Some (strndup type SERVICE_LEN),
         rz_master := master, rz_net_range := Some (strndup net_range DOMAIN_LEN),
         rz_in_addr := Some in_addr\<rparr>])
     }
   }"
| "fill_rev_rows retval xs z = None"

definition ailsa_fill_rev_zone_list ::
  "db_list \<Rightarrow> ailsa_rev_zone_s list option \<Rightarrow> (int \<times> ailsa_rev_zone_s list option) option" where
  "ailsa_fill_rev_zone_list l z = (case (l, z) of
     (Some l, Some z) \<Rightarrow>
       if length l mod 6 \<noteq> 0 then Some (AILSA_WRONG_LIST_LENGHT, Some z)
       else map_option (apsnd Some) (fill_rev_rows None l z)
   | _ \<Rightarrow> Some (AILSA_NO_DATA, z))"

subsection \<open>The networks of the build domains\<close>

record ailsa_dhcp_s =
  dh_iname :: cstr
  dh_dname :: cstr
  dh_network :: cstr
  dh_gateway :: cstr
  dh_nameserver :: cstr
  dh_netmask :: cstr
  dh_gw :: u64
  dh_nw :: u64
  dh_nm :: u64
  dh_ns :: u64
  dh_ip :: u64

fun bdom_rows :: "ailsa_data list \<Rightarrow> ailsa_dhcp_s list \<Rightarrow> ailsa_dhcp_s list option" where
  "bdom_rows [] list = Some list"
| "bdom_rows (d # n # i # g # m # rest) list = do {
     dname \<leftarrow> get_text d; dname \<leftarrow> dname;
     ns \<leftarrow> get_number n; gw \<leftarrow> get_number g; nm \<leftarrow> get_number m; ip \<leftarrow> get_number i;
     let nw = and ip nm in
     bdom_rows rest (list @ [\<lparr>dh_iname = None, dh_dname = Some (strndup dname DOMAIN_LEN),
       dh_network = Some (ntop4 (ucast nw)), dh_gateway = Some (ntop4 (ucast gw)),
       dh_nameserver = Some (ntop4 (ucast ns)), dh_netmask = Some (ntop4 (ucast nm)),
       dh_gw = gw, dh_nw = nw, dh_nm = nm, dh_ns = ns, dh_ip = 0\<rparr>])
   }"
| "bdom_rows xs list = None"

text \<open>A wrong number of columns leaves the code of the query, 0.\<close>

definition ailsa_get_bdom_list ::
  "'db sqlite3_api \<Rightarrow> 'db world \<Rightarrow> ailsa_cmdb_s option \<Rightarrow> ailsa_dhcp_s list option \<Rightarrow>
   (int \<times> 'db world \<times> ailsa_dhcp_s list option) option" where
  "ailsa_get_bdom_list api w cbs list = (case list of None \<Rightarrow> Some (AILSA_NO_DATA, w, list) | Some ls \<Rightarrow>
     if cbs = None then Some (AILSA_NO_DATA, w, list)
     else do {
       (retval, w, dom) \<leftarrow> ailsa_basic_query api w cbs BUILD_DOMAIN_NETWORKS (Some []);
       if retval \<noteq> 0 then Some (retval, w, list)
       else do {
         dom \<leftarrow> dom;
         if length dom mod 5 \<noteq> 0 then Some (retval, w, list)
         else do { ls \<leftarrow> bdom_rows dom ls; Some (0, w, Some ls) }
       } })"

subsection \<open>What the argument lists bind to\<close>

text \<open>The values of a new forward zone in the order of the columns of its statement.\<close>

definition zone_values :: "u32 \<Rightarrow> u64 \<Rightarrow> ailsa_cmdb_s \<Rightarrow> string \<Rightarrow> string \<Rightarrow> string \<Rightarrow> string list \<Rightarrow> sql_value list" where
  "zone_values uid serial cbs domain pri sec ts =
    [text_value domain, text_value pri, text_value sec, SQL_INT (cc_refresh cbs), SQL_INT (cc_retry cbs),
     SQL_INT (cc_expire cbs), SQL_INT (cc_ttl cbs), SQL_INT serial] @ map text_value ts @
    [SQL_INT (ucast uid), SQL_INT (ucast uid)]"

definition rev_zone_values ::
  "u32 \<Rightarrow> u64 \<Rightarrow> ailsa_cmdb_s \<Rightarrow> string \<Rightarrow> nat \<Rightarrow> u64 \<Rightarrow> u64 \<Rightarrow> string \<Rightarrow> string \<Rightarrow> string \<Rightarrow> string list \<Rightarrow> sql_value list" where
  "rev_zone_values uid serial cbc net_range prefix start fin fin_text pri sec ts =
    [text_value net_range, text_value (dec prefix), text_value net_range, SQL_INT start,
     text_value fin_text, SQL_INT fin, text_value pri, text_value sec, SQL_INT serial,
     SQL_INT (cc_refresh cbc), SQL_INT (cc_retry cbc), SQL_INT (cc_expire cbc), SQL_INT (cc_ttl cbc)] @
    map text_value ts @ [text_value ''no'', SQL_INT (ucast uid), SQL_INT (ucast uid)]"

lemma zone_fields:
  "q_fields (insert_queries ! INSERT_FORWARD_ZONE) =
    replicate 3 AILSA_DB_TEXT @ replicate 5 AILSA_DB_LINT @ [AILSA_DB_TEXT] @ replicate 2 AILSA_DB_LINT"
  "q_fields (insert_queries ! INSERT_FORWARD_SLAVE_ZONE) =
    replicate 3 AILSA_DB_TEXT @ replicate 5 AILSA_DB_LINT @ replicate 2 AILSA_DB_TEXT @ replicate 2 AILSA_DB_LINT"
  "q_fields (insert_queries ! INSERT_REVERSE_ZONE) =
    replicate 3 AILSA_DB_TEXT @ [AILSA_DB_LINT, AILSA_DB_TEXT, AILSA_DB_LINT] @ replicate 2 AILSA_DB_TEXT @
    replicate 5 AILSA_DB_LINT @ replicate 3 AILSA_DB_TEXT @ replicate 2 AILSA_DB_LINT"
  by (simp_all add: statement_fields insert_fields table_lengths numeral_eq_Suc del: nth_map)

text \<open>The elements of these values.\<close>

definition text_element :: "string \<Rightarrow> ailsa_data" where
  "text_element s = D_TEXT (strndup s CONFIG_LEN)"

lemma next_string [simp]:
  "next_arg (cmdb_add_string_to_list (Some s)) (0, Some l) = (0, Some (l @ [text_element s]))"
  by (simp add: next_arg_def text_element_def)

lemma next_number [simp]:
  "next_arg (cmdb_add_number_to_list n) (0, Some l) = (0, Some (l @ [D_LINT n]))"
  by (simp add: next_arg_def)

lemma next_users [simp]:
  "next_arg (cmdb_populate_cuser_muser uid) (0, Some l) = (0, Some (l @ [D_LINT (ucast uid), D_LINT (ucast uid)]))"
  by (simp add: next_arg_def cmdb_populate_cuser_muser_def db_insert_def)

definition sec_dns :: "ailsa_cmdb_s \<Rightarrow> string" where
  "sec_dns cbs = (case cc_secns cbs of Some s \<Rightarrow> s | None \<Rightarrow> ''none'')"

lemma populate_zone_list:
  assumes "cc_prins cbs = Some pri"
  shows "dnsa_populate_zone uid now (Some cbs) (Some domain) type None (Some []) = (0, Some
      ([text_element domain, text_element pri, text_element (sec_dns cbs), D_LINT (cc_refresh cbs),
       D_LINT (cc_retry cbs), D_LINT (cc_expire cbs), D_LINT (cc_ttl cbs), D_LINT (generate_zone_serial now),
       text_element ''master'', D_LINT (ucast uid), D_LINT (ucast uid)]))"
    and "dnsa_populate_zone uid now (Some cbs) (Some domain) (Some t) (Some m) (Some []) = (0, Some
      ([text_element domain, text_element pri, text_element (sec_dns cbs), D_LINT (cc_refresh cbs),
       D_LINT (cc_retry cbs), D_LINT (cc_expire cbs), D_LINT (cc_ttl cbs), D_LINT (generate_zone_serial now),
       text_element t, text_element m, D_LINT (ucast uid), D_LINT (ucast uid)]))"
  using assms
  by (cases "cc_secns cbs"; simp add: dnsa_populate_zone_def add_args_def sec_dns_def)+

lemma populate_rev_zone_list:
  assumes "cc_prins cbc = Some pri" "get_start_finsh_ips (Some net_range) prefix = (0, Some start, Some fin)"
    and "prefix \<noteq> 0" "convert_bin_ipv4_to_text fin = (0, Some fin_text)" "length (dec prefix) < CONFIG_LEN"
  shows "dnsa_populate_rev_zone uid now (Some cbc) (Some net_range) master prefix (Some []) = (0, Some
    ([text_element net_range, text_element (dec prefix), text_element net_range, D_LINT start,
      text_element fin_text, D_LINT fin, text_element pri, text_element (sec_dns cbc),
      D_LINT (generate_zone_serial now), D_LINT (cc_refresh cbc), D_LINT (cc_retry cbc),
      D_LINT (cc_expire cbc), D_LINT (cc_ttl cbc)] @
     map text_element (case master of None \<Rightarrow> [''master'', ''NULL''] | Some m \<Rightarrow> [''slave'', m]) @
     [text_element ''no'', D_LINT (ucast uid), D_LINT (ucast uid)]))"
  using assms
  by (cases master; cases "cc_secns cbc")
     (simp_all add: dnsa_populate_rev_zone_def add_args_def snprintf_s_def sec_dns_def)

lemma populate_args_values:
  assumes "cc_prins cbs = Some pri"
  shows "\<exists>args. dnsa_populate_zone uid now (Some cbs) (Some domain) type None (Some []) = (0, Some args) \<and>
      args_values (q_fields (insert_queries ! INSERT_FORWARD_ZONE)) args =
        Some (zone_values uid (generate_zone_serial now) cbs domain pri (sec_dns cbs) [''master''])"
    and "\<exists>args. dnsa_populate_zone uid now (Some cbs) (Some domain) (Some t) (Some m) (Some []) = (0, Some args) \<and>
      args_values (q_fields (insert_queries ! INSERT_FORWARD_SLAVE_ZONE)) args =
        Some (zone_values uid (generate_zone_serial now) cbs domain pri (sec_dns cbs) [t, m])"
  unfolding zone_fields populate_zone_list [OF assms]
  by (simp_all add: zone_values_def text_element_def text_value_def numeral_eq_Suc)

lemma populate_rev_args_values:
  assumes "cc_prins cbc = Some pri" "get_start_finsh_ips (Some net_range) prefix = (0, Some start, Some fin)"
    and "prefix \<noteq> 0" "convert_bin_ipv4_to_text fin = (0, Some fin_text)" "length (dec prefix) < CONFIG_LEN"
  shows "\<exists>args. dnsa_populate_rev_zone uid now (Some cbc) (Some net_range) master prefix (Some []) = (0, Some args) \<and>
    args_values (q_fields (insert_queries ! INSERT_REVERSE_ZONE)) args =
      Some (rev_zone_values uid (generate_zone_serial now) cbc net_range prefix start fin fin_text pri (sec_dns cbc)
        (case master of None \<Rightarrow> [''master'', ''NULL''] | Some m \<Rightarrow> [''slave'', m]))"
  unfolding zone_fields populate_rev_zone_list [OF assms]
  by (cases master) (simp_all add: rev_zone_values_def text_element_def text_value_def numeral_eq_Suc)

subsection \<open>What the overlap queries find\<close>

text \<open>The condition of both overlap statements over a row's first and last address.  SQL integers are
  signed.\<close>

definition overlap_where :: "u64 list \<Rightarrow> u64 \<times> u64 \<times> u64 \<Rightarrow> bool" where
  "overlap_where ps row = (case (ps, row) of ([a, b, c, d, e, f], (_, s, t)) \<Rightarrow>
     sint a \<le> sint s \<and> sint t \<le> sint b \<or> sint s \<le> sint c \<and> sint d \<le> sint t \<or>
     sint s \<le> sint e \<and> sint f \<le> sint t | _ \<Rightarrow> False)"

text \<open>The documented behaviour of SQLite on these statements, for a table with the given rows.\<close>

definition answers_overlap ::
  "'db sqlite3_api \<Rightarrow> 'db \<Rightarrow> nat \<Rightarrow> (u64 \<times> u64 \<times> u64) list \<Rightarrow> bool" where
  "answers_overlap api db query rows \<longleftrightarrow> (\<forall>ps. length ps = 6 \<longrightarrow>
     s3_rows api db (q_query (argument_queries ! query)) (map SQL_INT ps) =
       (map (\<lambda>r. [SQL_INT (fst r)]) (filter (overlap_where ps) rows), SQLITE_DONE))"

definition intersects :: "u64 \<Rightarrow> u64 \<Rightarrow> u64 \<times> u64 \<times> u64 \<Rightarrow> bool" where
  "intersects start fin row \<longleftrightarrow> sint (fst (snd row)) \<le> sint fin \<and> sint start \<le> sint (snd (snd row))"

lemma sint_small: "unat (x :: u64) < 2 ^ 63 \<Longrightarrow> sint x = int (unat x)"
proof -
  assume "unat x < 2 ^ 63"
  then have "int (unat x) < int (2 ^ 63)" by (simp only: of_nat_less_iff)
  then have lt: "uint x < 2 ^ 63" by simp
  have "0 \<le> uint x" by simp
  then have "- (2 ^ 63) \<le> uint x" by (rule order_trans [rotated]) simp
  then have "signed_take_bit 63 (uint x) = uint x" using lt by (rule signed_take_bit_int_eq_self)
  then show ?thesis by (simp add: sint_uint)
qed

lemma overlap_where_intersects:
  assumes "sint (fst (snd row)) \<le> sint (snd (snd row))" "sint start \<le> sint fin"
  shows "overlap_where [start, fin, start, start, fin, fin] row \<longleftrightarrow> intersects start fin row"
  using assms by (cases row) (auto simp: overlap_where_def intersects_def)

lemma overlap_query_finds:
  assumes "reader_ready api w cc" "answers_overlap api (w_db w) query rows"
    and "query = REV_ZONE_OVERLAP \<or> query = BUILD_DOMAIN_OVERLAP" "length ps = 6"
  shows "overlap_query api w (Some cc) query (Some (map D_LINT ps)) code =
    Some (if \<exists>row\<in>set rows. overlap_where ps row then code else 0, w)"
proof -
  have f: "q_fields (argument_queries ! query) = replicate 6 AILSA_DB_LINT" "query < length argument_queries"
    using assms(3) by (auto simp: statement_fields argument_fields table_lengths numeral_eq_Suc simp del: nth_map)
  have "args_values (replicate (length ps) AILSA_DB_LINT) (map D_LINT ps) = Some (map SQL_INT ps)"
    by (induction ps) simp_all
  then have "args_values (q_fields (argument_queries ! query)) (map D_LINT ps) = Some (map SQL_INT ps)"
    using f assms(4) by simp
  from argument_query_runs [OF assms(1) f(2) this, of "[]"] assms(2,4) show ?thesis
    by (auto simp: overlap_query_def lookup_spec_def answers_overlap_def done_code_def filter_empty_conv)
qed

subsection \<open>The serial number of a day\<close>

definition two_digits :: "nat \<Rightarrow> string" where
  "two_digits n = [char_of (48 + n div 10), char_of (48 + n mod 10)]"

lemma dec_snoc: "0 < n \<Longrightarrow> k < 10 \<Longrightarrow> dec (n * 10 + k) = dec n @ [char_of (48 + k)]"
  by (simp add: dec_big)

lemma dec_two_digits:
  assumes "0 < n" "m < 100"
  shows "dec (n * 100 + m) = dec n @ two_digits m"
proof -
  have m: "m = m div 10 * 10 + m mod 10" by simp
  have "dec ((n * 10 + m div 10) * 10 + m mod 10) = dec n @ two_digits m"
    using assms dec_snoc [of "n * 10 + m div 10" "m mod 10"] dec_snoc [of n "m div 10"]
    by (simp add: two_digits_def)
  moreover have "(n * 10 + m div 10) * 10 + m mod 10 = n * 100 + m" using m by simp
  ultimately show ?thesis by argo
qed

lemma two_digits_small: "n < 10 \<Longrightarrow> CHR ''0'' # dec n = two_digits n"
proof -
  assume "n < 10"
  moreover have "char_of (48 :: nat) = CHR ''0''" by code_simp
  ultimately show ?thesis by (simp add: two_digits_def dec_small)
qed

lemma two_digits_big: "10 \<le> n \<Longrightarrow> n < 100 \<Longrightarrow> dec n = two_digits n"
  by (simp add: two_digits_def dec_big dec_small)

lemma digit_not_sign: "is_digit c \<Longrightarrow> \<not> is_space c \<and> c \<noteq> CHR ''-'' \<and> c \<noteq> CHR ''+''"
  by (auto simp: is_digit_def is_space_def)

lemma strtoul10_dec:
  assumes "n < 2 ^ 64"
  shows "strtoul10 (dec n) = of_nat n"
proof -
  obtain c cs where d: "dec n = c # cs" using dec_not_Nil by (cases "dec n") blast+
  then have "is_digit c" using dec_digits [of n] by simp
  then have "strtoul10 (dec n) = ulong_of (digits_value (dec n))"
    using digit_not_sign [of c] by (simp add: strtoul10_def d)
  then show ?thesis using assms by (simp add: ulong_of_def)
qed

lemma length_dec_le: "n < 10 ^ k \<Longrightarrow> 0 < k \<Longrightarrow> length (dec n) \<le> k"
proof (induction k arbitrary: n)
  case (Suc k)
  show ?case
  proof (cases "n < 10")
    case False
    then have "n div 10 < 10 ^ k" "0 < k" using Suc.prems by (cases k; simp)+
    then show ?thesis using Suc.IH False by (simp add: dec_big)
  qed (simp add: dec_small)
qed simp

lemma serial_of_date:
  assumes "0 < y" "y < 10 ^ 10" "1 \<le> m" "m \<le> 12" "1 \<le> d" "d \<le> 31"
  shows "generate_zone_serial (Some \<lparr>tm_year = int y - 1900, tm_mon = int m - 1, tm_mday = int d\<rparr>) =
    of_nat (y * 1000000 + m * 10000 + d * 100 + 1)"
proof -
  have i: "dec_int (int n) = dec n" for n by (simp add: dec_int_def)
  have ym: "snprintf_s SERVICE_LEN (dec y) = dec y"
    using length_dec_le [of y 10] assms(2) by (simp add: snprintf_s_def)
  have two: "snprintf_s SERVICE_LEN (two_digits n) = two_digits n" for n
    by (simp add: snprintf_s_def two_digits_def)
  have m: "(if int m - 1 < 9 then CHR ''0'' # dec_int (int m - 1 + 1) else dec_int (int m - 1 + 1)) = two_digits m"
    using assms two_digits_small [of m] two_digits_big [of m] by (simp add: i)
  have d: "(if int d < 10 then CHR ''0'' # dec_int (int d) else dec_int (int d)) = two_digits d"
    using assms two_digits_small [of d] two_digits_big [of d] by (simp add: i)
  have o: "''01'' = two_digits 1" by code_simp
  have "dec y @ two_digits m @ two_digits d @ two_digits 1 = dec (((y * 100 + m) * 100 + d) * 100 + 1)"
    using assms dec_two_digits [of y m] dec_two_digits [of "y * 100 + m" d]
      dec_two_digits [of "(y * 100 + m) * 100 + d" 1] by simp
  moreover have "((y * 100 + m) * 100 + d) * 100 + 1 = y * 1000000 + m * 10000 + d * 100 + 1" by simp
  moreover have "snprintf_s HOST_LEN (dec y @ two_digits m @ two_digits d @ two_digits 1) =
      dec y @ two_digits m @ two_digits d @ two_digits 1"
    using length_dec_le [of y 10] assms(2) by (simp add: snprintf_s_def two_digits_def)
  moreover have "int y - 1900 + 1900 = int y" by simp
  ultimately show ?thesis
    using strtoul10_dec [of "y * 1000000 + m * 10000 + d * 100 + 1"] assms
    unfolding generate_zone_serial_def option.case Let_def tm.select_convs m d two o
    by (simp only: i ym) simp
qed

lemma less_plus_one: "(x :: u64) \<noteq> - 1 \<Longrightarrow> x < x + 1"
proof -
  assume "x \<noteq> - 1"
  then have "x + 1 \<noteq> 0" by (simp add: eq_neg_iff_add_eq_0)
  then have nz: "unat (x + 1) \<noteq> 0" by (simp add: unat_eq_0)
  have u: "unat (x + 1) = (unat x + 1) mod 2 ^ 64" by (simp add: unat_word_ariths)
  have "unat x < 2 ^ LENGTH(64)" by (rule unsigned_less)
  then have "unat x + 1 < 2 ^ 64 \<or> unat x + 1 = 2 ^ 64" by auto
  then have "unat (x + 1) = unat x + 1" using nz u by (metis mod_less mod_self)
  then show ?thesis by (simp add: word_less_nat_alt)
qed

lemma zone_update_runs:
  assumes "updated < length l" "pos < length l" "l ! updated = D_TEXT ''yes''" "l ! pos = D_LINT old"
    and "query = FWD_ZONE_SERIAL_UPDATE \<or> query = REV_ZONE_SERIAL_UPDATE"
    and "sqlite_ready api w cc True (q_query (update_queries ! query))" "binds_by_marks api"
    and "new = (if serial \<le> old then old + 1 else serial)"
  shows "zone_update api w (Some cc) query updated pos serial l (Some zone) =
    (let (code, db) = s3_write api (w_db w) (q_query (update_queries ! query)) [SQL_INT new, text_value zone]
     in Some (if code = SQLITE_DONE then 0 else AILSA_STATEMENT_FAIL, w\<lparr>w_db := db\<rparr>, Some (l[pos := D_LINT new])))"
proof -
  have q: "query < length update_queries" "q_fields (update_queries ! query) = [AILSA_DB_LINT, AILSA_DB_TEXT]"
    using assms(5) by (auto simp: statement_fields update_fields table_lengths simp del: nth_map)
  have "args_values (q_fields (update_queries ! query)) [D_LINT new, D_TEXT (strndup zone CONFIG_LEN)] =
      Some [SQL_INT new, text_value zone]"
    by (simp add: q text_value_def)
  from update_query_runs [OF q(1) assms(6,7) this] show ?thesis
    using assms(1-4,8) by (simp add: zone_update_def Let_def split_def)
qed

subsection \<open>Instances for the witnesses\<close>

text \<open>A database whose two overlap statements are evaluated on a table with one range.\<close>

definition range_api :: "(u64 \<times> u64 \<times> u64) list \<Rightarrow> nat sqlite3_api" where
  "range_api rows = demo_api\<lparr>s3_rows := (\<lambda>_ _ vs.
     (map (\<lambda>r. [SQL_INT (fst r)]) (filter (overlap_where
        (map (\<lambda>v. case v of SQL_INT n \<Rightarrow> n | _ \<Rightarrow> 0) vs)) rows), SQLITE_DONE))\<rparr>"

lemma range_api_ready: "reader_ready (range_api rows) demo_world (demo_cc ''sqlite'')"
  using demo_reader_ready by (simp add: reader_ready_def range_api_def sqlite_ready_def binds_by_marks_def)

lemma range_api_answers: "answers_overlap (range_api rows) db query rows"
  by (simp add: answers_overlap_def range_api_def comp_def)

definition zone_cc :: ailsa_cmdb_s where
  "zone_cc = (demo_cc ''sqlite'')\<lparr>cc_prins := Some ''ns1.example.org.'', cc_refresh := 28800\<rparr>"

subsection \<open>Properties\<close>

text \<open>For the prefix 8 the range of a reverse zone ends one address before it starts, and the overlap
  check that precedes every insertion of a reverse zone refuses it without a query.\<close>

theorem slash_8_range_is_refused:
  assumes "convert_text_ipv4_to_bin (Some s) = (0, Some start)" "start \<noteq> 0"
  shows "get_start_finsh_ips (Some s) 8 = (0, Some start, Some (start - 1)) \<and>
    check_for_rev_zone_overlap api w (Some cc) start (start - 1) = Some (AILSA_NO_DATA, w)"
proof -
  have "0 < unat start" using assms(2) by (simp add: unat_gt_0)
  then have "start - 1 < start" using assms(2) by (simp add: word_less_nat_alt unat_minus_one)
  then show ?thesis using start_finish_8 [OF assms] by (simp add: check_for_rev_zone_overlap_def)
qed

theorem slash_8_range_is_refused_witness:
  "get_start_finsh_ips (Some ''10.0.0.0'') 8 = (0, Some 167772160, Some 167772159) \<and>
   check_for_rev_zone_overlap demo_api demo_world (Some (demo_cc ''sqlite'')) 167772160 167772159 =
     Some (AILSA_NO_DATA, demo_world)"
proof -
  have "''10.0.0.0'' = dotted 10 0 0 0" by code_simp
  then have "convert_text_ipv4_to_bin (Some ''10.0.0.0'') = (0, Some 167772160)"
    by (simp add: convert_text_ipv4_to_bin_def pton4_dotted of_octets_def)
  from slash_8_range_is_refused [OF this, of demo_api demo_world "demo_cc ''sqlite''"] show ?thesis by simp
qed

text \<open>The serial of a zone on a day is the number yyyymmdd01.\<close>

theorem zone_serial_is_date:
  assumes "0 < y" "y < 10 ^ 10" "1 \<le> m" "m \<le> 12" "1 \<le> d" "d \<le> 31"
  shows "generate_zone_serial (Some \<lparr>tm_year = int y - 1900, tm_mon = int m - 1, tm_mday = int d\<rparr>) =
    of_nat (y * 1000000 + m * 10000 + d * 100 + 1)"
  by (rule serial_of_date [OF assms])

theorem zone_serial_is_date_witness:
  "generate_zone_serial (Some \<lparr>tm_year = 123, tm_mon = 1, tm_mday = 28\<rparr>) = 2023022801"
  using zone_serial_is_date [of 2023 2 28] by simp

text \<open>C39: Checking an updated zone writes one new serial for it, in the database and in the list: the
  serial of the day, or the old one plus one when that is not below; so it is above the old one unless that is
  the largest number.  A zone that is not marked as updated is left alone.\<close>

theorem zone_update_raises_serial:
  assumes "length l mod 6 = 0" "5 < length l" "l ! 1 = D_LINT old" "length r mod 8 = 0" "7 < length r" "r ! 3 = D_LINT old"
    and "sqlite_ready api w cc True (q_query (update_queries ! FWD_ZONE_SERIAL_UPDATE))"
    and "sqlite_ready api w cc True (q_query (update_queries ! REV_ZONE_SERIAL_UPDATE))" "binds_by_marks api"
    and "l ! 5 = D_TEXT flag" "r ! 7 = D_TEXT flag" "old \<noteq> - 1"
  shows "\<exists>new. old < new \<and> generate_zone_serial now \<le> new \<and> (new = generate_zone_serial now \<or> new = old + 1) \<and>
    ailsa_check_for_zone_update api w now (Some cc) (Some l) (Some zone) =
      (if flag = ''yes'' then
         let (code, db) = s3_write api (w_db w) (q_query (update_queries ! FWD_ZONE_SERIAL_UPDATE))
           [SQL_INT new, text_value zone]
         in Some (if code = SQLITE_DONE then 0 else AILSA_STATEMENT_FAIL, w\<lparr>w_db := db\<rparr>, Some (l[1 := D_LINT new]))
       else Some (0, w, Some l)) \<and>
    ailsa_check_for_rev_zone_update api w now (Some cc) (Some r) (Some zone) =
      (if flag = ''yes'' then
         let (code, db) = s3_write api (w_db w) (q_query (update_queries ! REV_ZONE_SERIAL_UPDATE))
           [SQL_INT new, text_value zone]
         in Some (if code = SQLITE_DONE then 0 else AILSA_STATEMENT_FAIL, w\<lparr>w_db := db\<rparr>, Some (r[3 := D_LINT new]))
       else Some (0, w, Some r))"
proof -
  define new where "new = (if generate_zone_serial now \<le> old then old + 1 else generate_zone_serial now)"
  have "old < old + 1" using assms(12) by (rule less_plus_one)
  then have "old < new" "generate_zone_serial now \<le> new" by (auto simp: new_def)
  moreover have "new = generate_zone_serial now \<or> new = old + 1" by (simp add: new_def)
  moreover have "ailsa_check_for_zone_update api w now (Some cc) (Some l) (Some zone) =
      (if flag = ''yes'' then
         let (code, db) = s3_write api (w_db w) (q_query (update_queries ! FWD_ZONE_SERIAL_UPDATE))
           [SQL_INT new, text_value zone]
         in Some (if code = SQLITE_DONE then 0 else AILSA_STATEMENT_FAIL, w\<lparr>w_db := db\<rparr>, Some (l[1 := D_LINT new]))
       else Some (0, w, Some l))"
    using assms zone_update_runs [of 5 l 1 old FWD_ZONE_SERIAL_UPDATE api w cc new "generate_zone_serial now" zone]
    by (simp add: ailsa_check_for_zone_update_def new_def zone_update_def)
  moreover have "ailsa_check_for_rev_zone_update api w now (Some cc) (Some r) (Some zone) =
      (if flag = ''yes'' then
         let (code, db) = s3_write api (w_db w) (q_query (update_queries ! REV_ZONE_SERIAL_UPDATE))
           [SQL_INT new, text_value zone]
         in Some (if code = SQLITE_DONE then 0 else AILSA_STATEMENT_FAIL, w\<lparr>w_db := db\<rparr>, Some (r[3 := D_LINT new]))
       else Some (0, w, Some r))"
    using assms zone_update_runs [of 7 r 3 old REV_ZONE_SERIAL_UPDATE api w cc new "generate_zone_serial now" zone]
    by (simp add: ailsa_check_for_rev_zone_update_def new_def zone_update_def)
  ultimately show ?thesis by blast
qed

theorem zone_update_raises_serial_witness:
  "\<exists>new. 2023022801 < new \<and>
    ailsa_check_for_zone_update demo_api demo_world None (Some (demo_cc ''sqlite''))
      (Some [D_LINT 3600, D_LINT 2023022801, D_LINT 1, D_LINT 2, D_LINT 3, D_TEXT ''yes'']) (Some ''example.org'') =
    Some (0, demo_world\<lparr>w_db := 2\<rparr>,
      Some [D_LINT 3600, D_LINT new, D_LINT 1, D_LINT 2, D_LINT 3, D_TEXT ''yes''])"
  using zone_update_raises_serial [of "[D_LINT 3600, D_LINT 2023022801, D_LINT 1, D_LINT 2, D_LINT 3, D_TEXT ''yes'']"
      2023022801 "[D_LINT 3600, D_NULL, D_NULL, D_LINT 2023022801, D_LINT 1, D_LINT 2, D_LINT 3, D_TEXT ''yes'']",
      OF _ _ _ _ _ _ demo_ready demo_ready demo_binds, of "''yes''" None demo_world "''example.org''"]
  by (auto simp: demo_api_def demo_world_def)



text \<open>A new zone's argument list conforms to the statement that inserts it, column by column: for
  forward zones, forward slave zones and reverse zones of prefix 9 to 24.\<close>

theorem new_zone_arguments_conform:
  assumes "cc_prins cbs = Some pri" "convert_text_ipv4_to_bin (Some s) = (0, Some start)" "8 < p" "p \<le> 24"
    "unat start + 2 ^ (32 - p) < 2 ^ 32"
  shows "\<exists>args slave rev fin_text.
    dnsa_populate_zone uid now (Some cbs) (Some domain) type None (Some []) = (0, Some args) \<and>
    args_values (q_fields (insert_queries ! INSERT_FORWARD_ZONE)) args =
      Some (zone_values uid (generate_zone_serial now) cbs domain pri (sec_dns cbs) [''master'']) \<and>
    dnsa_populate_zone uid now (Some cbs) (Some domain) (Some t) (Some m) (Some []) = (0, Some slave) \<and>
    args_values (q_fields (insert_queries ! INSERT_FORWARD_SLAVE_ZONE)) slave =
      Some (zone_values uid (generate_zone_serial now) cbs domain pri (sec_dns cbs) [t, m]) \<and>
    dnsa_populate_rev_zone uid now (Some cbs) (Some s) master p (Some []) = (0, Some rev) \<and>
    convert_text_ipv4_to_bin (Some fin_text) = (0, Some (start + 2 ^ (32 - p) - 1)) \<and>
    args_values (q_fields (insert_queries ! INSERT_REVERSE_ZONE)) rev =
      Some (rev_zone_values uid (generate_zone_serial now) cbs s p start (start + 2 ^ (32 - p) - 1) fin_text pri (sec_dns cbs)
        (case master of None \<Rightarrow> [''master'', ''NULL''] | Some m \<Rightarrow> [''slave'', m]))"
proof -
  let ?fin = "start + 2 ^ (32 - p) - 1"
  have r: "get_start_finsh_ips (Some s) p = (0, Some start, Some ?fin)" by (rule start_finish [OF assms(2-5)])
  have "unat ?fin = unat start + 2 ^ (32 - p) - 1" by (rule unat_range_end [OF assms(5)]) simp
  moreover have "(2 :: nat) ^ 1 \<le> 2 ^ (32 - p)" by (rule power_increasing) (use assms(4) in simp_all)
  ultimately have "0 < unat ?fin" and fin2: "unat ?fin < 2 ^ 32" using assms(5) by simp_all
  then have fin1: "?fin \<noteq> 0" by (intro notI) simp
  note fin = fin1 fin2
  obtain ft where ft: "convert_bin_ipv4_to_text ?fin = (0, Some ft)"
    using fin(1) by (simp add: convert_bin_ipv4_to_text_def)
  then have "convert_text_ipv4_to_bin (Some ft) = (0, Some ?fin)" using convert_bin_text [OF fin] by simp
  moreover obtain rev where
    "dnsa_populate_rev_zone uid now (Some cbs) (Some s) master p (Some []) = (0, Some rev)"
    "args_values (q_fields (insert_queries ! INSERT_REVERSE_ZONE)) rev =
      Some (rev_zone_values uid (generate_zone_serial now) cbs s p start ?fin ft pri (sec_dns cbs)
        (case master of None \<Rightarrow> [''master'', ''NULL''] | Some m \<Rightarrow> [''slave'', m]))"
    using populate_rev_args_values [OF assms(1) r _ ft, of uid now master] length_dec [of p] assms(3,4) by auto
  ultimately show ?thesis
    using populate_args_values(1) [OF assms(1), of uid now domain type]
      populate_args_values(2) [OF assms(1), of uid now domain t m] by blast
qed

theorem new_zone_arguments_conform_witness:
  "\<exists>args slave rev.
    dnsa_populate_zone 1000 None (Some zone_cc) (Some ''example.org'') None None (Some []) = (0, Some args) \<and>
    args_values (q_fields (insert_queries ! INSERT_FORWARD_ZONE)) args =
      Some (zone_values 1000 0 zone_cc ''example.org'' ''ns1.example.org.'' ''none'' [''master'']) \<and>
    dnsa_populate_rev_zone 1000 None (Some zone_cc) (Some ''10.4.0.0'') None 14 (Some []) = (0, Some rev)"
proof -
  have "''10.4.0.0'' = dotted 10 4 0 0" by code_simp
  then have "convert_text_ipv4_to_bin (Some ''10.4.0.0'') = (0, Some 168034304)"
    by (simp add: convert_text_ipv4_to_bin_def pton4_dotted of_octets_def)
  from new_zone_arguments_conform [OF _ this, of zone_cc "''ns1.example.org.''" 14 1000 None "''example.org''" None]
  show ?thesis by (simp add: zone_cc_def generate_zone_serial_def sec_dns_def demo_cc_def) blast
qed

end
