(* ===== verification/Zone_Files.thy ===== *)
theory Zone_Files
  imports Dns_Zones
begin

text \<open>
  lib/dnsa\_net.c: the zone files and the configuration of the name server, and the operations that
  validate, add and commit zones.  The state is the database connection together with the files that
  were written and the commands that were run; what the operating system answers (opening a
  file, running a command, the services and hosts it knows, the time, the user) is a parameter.  The
  umask and the permissions of a file are not modelled, and a file descriptor is only its number.
\<close>

subsection \<open>The system around the program\<close>

datatype addr_info = AI_INET u32 | AI_INET6 string | AI_OTHER

text \<open>
  \<open>os_open\<close> is the descriptor \<open>open\<close> returns for a path, or -1; \<open>os_system\<close> the result of a command on the
  files there are; \<open>os_getservbyname\<close> the port of a service under a protocol; \<open>os_getaddrinfo\<close> the
  list of addresses of a name, or \<open>None\<close> when it fails, an IPv6 address as \<open>inet_ntop\<close> writes it.
\<close>

record services =
  os_open :: "string \<Rightarrow> int"
  os_system :: "(string \<Rightarrow> string option) \<Rightarrow> string \<Rightarrow> int"
  os_getservbyname :: "string \<Rightarrow> string \<Rightarrow> nat option"
  os_getaddrinfo :: "string \<Rightarrow> addr_info list option"
  os_now :: "tm option"
  os_uid :: u32

record 'db site =
  si_world :: "'db world"
  si_files :: "string \<Rightarrow> string option"
  si_commands :: "string list"

type_synonym 'db site_result = "(int \<times> 'db site) option"

text \<open>\<open>retval = system(command)\<close>.\<close>

definition run_system :: "services \<Rightarrow> string \<Rightarrow> 'db site \<Rightarrow> int \<times> 'db site" where
  "run_system os command st =
    (os_system os (si_files st) command, st\<lparr>si_commands := si_commands st @ [command]\<rparr>)"

text \<open>A file opened with \<open>O_TRUNC\<close> and what is then written to it.\<close>

definition put_file :: "string \<Rightarrow> string \<Rightarrow> 'db site \<Rightarrow> 'db site" where
  "put_file name text st = st\<lparr>si_files := (si_files st)(name := Some text)\<rparr>"

text \<open>A query on the connection: its code other than 0 ends the function, its list goes on.\<close>

definition on_query ::
  "'db site \<Rightarrow> ('db world \<Rightarrow> 'db query_result) \<Rightarrow> ('db site \<Rightarrow> ailsa_data list \<Rightarrow> 'db site_result) \<Rightarrow> 'db site_result" where
  "on_query st query rest = do {
     (retval, w, l) \<leftarrow> query (si_world st);
     rows \<leftarrow> l;
     let st = st\<lparr>si_world := w\<rparr>;
     if retval \<noteq> 0 then Some (retval, st) else rest st rows
   }"

text \<open>A call that changes only the connection, and its code.\<close>

definition on_world :: "'db site \<Rightarrow> ('db world \<Rightarrow> (int \<times> 'db world) option) \<Rightarrow> 'db site_result" where
  "on_world st call = do { (retval, w) \<leftarrow> call (si_world st); Some (retval, st\<lparr>si_world := w\<rparr>) }"

text \<open>A list function whose code other than 0 ends the function.\<close>

definition on_list :: "'db site \<Rightarrow> int \<times> db_list \<Rightarrow> (db_list \<Rightarrow> 'db site_result) \<Rightarrow> 'db site_result" where
  "on_list st call rest = (if fst call \<noteq> 0 then Some (fst call, st) else rest (snd call))"

definition tab :: string where
  "tab = [CHR 0x09]"

definition nl :: string where
  "nl = [CHR 0x0A]"

definition tabs :: "nat \<Rightarrow> string" where
  "tabs n = replicate n CHR 0x09"

text \<open>\<open>%lu\<close>.\<close>

definition lu :: "u64 \<Rightarrow> string" where
  "lu n = dec (unat n)"

text \<open>The text of an element where NULL must not occur, and \<open>s[i]\<close> in a buffer of \<open>strlen(s) + 1\<close> bytes.\<close>

definition element_text :: "ailsa_data \<Rightarrow> string option" where
  "element_text d = do { t \<leftarrow> get_text d; t }"

definition char_at :: "string \<Rightarrow> nat \<Rightarrow> char option" where
  "char_at s i = (if i < length s then Some (s ! i) else if i = length s then Some CHR 0x00 else None)"

text \<open>\<open>s[len - 1] != '.'\<close>, where a length of 0 is before the buffer.\<close>

definition no_dot_at_end :: "string \<Rightarrow> nat \<Rightarrow> bool option" where
  "no_dot_at_end s len = (if len = 0 then None else map_option (\<lambda>c. c \<noteq> CHR ''.'') (char_at s (len - 1)))"

subsection \<open>Forward zone files\<close>

definition write_zone_file_header :: "int \<Rightarrow> ailsa_data list \<Rightarrow> ailsa_data list \<Rightarrow> cstr \<Rightarrow> string option" where
  "write_zone_file_header fd n s master =
    (case master of None \<Rightarrow> Some [] | Some master \<Rightarrow>
     if fd = 0 then Some []
     else if length s \<noteq> 6 then Some []
     else (case n of
         p # q # _ \<Rightarrow> do {
           pri \<leftarrow> element_text p;
           sec \<leftarrow> element_text q;
           let plen = length pri;
           let slen = length pri;
           ttl \<leftarrow> get_number (s ! 0);
           serial \<leftarrow> get_number (s ! 1);
           refresh \<leftarrow> get_number (s ! 2);
           retry \<leftarrow> get_number (s ! 3);
           expire \<leftarrow> get_number (s ! 4);
           dotless \<leftarrow> no_dot_at_end pri plen;
           let pri_dot = (if dotless then pri @ ''.'' else pri);
           sec_line \<leftarrow> (if strncmp_eq sec ''none'' 4 then Some []
             else do {
               dotless \<leftarrow> no_dot_at_end sec slen;
               Some (tab @ ''IN'' @ tab @ ''NS'' @ tab @ (if dotless then sec @ ''.'' else sec) @ nl)
             });
           Some (''$TTL '' @ lu ttl @ nl @ ''@'' @ tab @ ''IN'' @ tab @ ''SOA'' @ tab @ pri_dot @ tab @ master @
             tab @ ''('' @ nl @
             tabs 4 @ lu serial @ tab @ ''; Serial'' @ nl @
             tabs 4 @ lu refresh @ tabs 2 @ ''; Refresh'' @ nl @
             tabs 4 @ lu retry @ tabs 2 @ ''; Retry'' @ nl @
             tabs 4 @ lu expire @ tabs 2 @ ''; Expire'' @ nl @
             tabs 4 @ lu ttl @ tabs 2 @ ''); TTL'' @ nl @ '';'' @ nl @
             tab @ ''IN'' @ tab @ ''NS'' @ tab @ pri_dot @ nl @ sec_line)
         }
       | _ \<Rightarrow> None))"

text \<open>The three loops over the rows of type, host, protocol, service, priority and destination.\<close>

fun ns_lines :: "ailsa_data list \<Rightarrow> string option" where
  "ns_lines [] = Some []"
| "ns_lines (t # h # p # s # n # d # rest) = do {
     type \<leftarrow> element_text t;
     if type \<noteq> ''NS'' then ns_lines rest
     else do {
       dest \<leftarrow> element_text d;
       more \<leftarrow> ns_lines rest;
       Some (tab @ ''IN'' @ tab @ ''NS'' @ tab @ dest @ nl @ more)
     }
   }"
| "ns_lines _ = None"

fun mx_lines :: "ailsa_data list \<Rightarrow> string option" where
  "mx_lines [] = Some []"
| "mx_lines (t # h # p # s # n # d # rest) = do {
     type \<leftarrow> element_text t;
     if type \<noteq> ''MX'' then mx_lines rest
     else do {
       pri \<leftarrow> get_number n;
       dest \<leftarrow> element_text d;
       more \<leftarrow> mx_lines rest;
       Some (tab @ ''IN'' @ tab @ ''MX'' @ tab @ lu pri @ tab @ dest @ nl @ more)
     }
   }"
| "mx_lines _ = None"

definition cmdb_get_port_number :: "services \<Rightarrow> cstr \<Rightarrow> cstr \<Rightarrow> int \<times> nat option" where
  "cmdb_get_port_number os proto service = (case (proto, service) of
     (Some p, Some s) \<Rightarrow>
       (case os_getservbyname os s p of None \<Rightarrow> (-1, None) | Some port \<Rightarrow> (0, Some port))
   | _ \<Rightarrow> (AILSA_NO_DATA, None))"

text \<open>A service without a port ends the loop.\<close>

fun srv_lines :: "services \<Rightarrow> string \<Rightarrow> ailsa_data list \<Rightarrow> string option" where
  "srv_lines os zone [] = Some []"
| "srv_lines os zone (t # h # p # s # n # d # rest) = do {
     type \<leftarrow> element_text t;
     if type \<noteq> ''SRV'' then srv_lines os zone rest
     else do {
       proto \<leftarrow> get_text p;
       service \<leftarrow> get_text s;
       pri \<leftarrow> get_number n;
       host \<leftarrow> get_text h;
       (case cmdb_get_port_number os proto service of
          (retval, None) \<Rightarrow> Some []
        | (retval, Some port) \<Rightarrow> do {
            dest \<leftarrow> element_text d;
            dotless \<leftarrow> no_dot_at_end dest (length dest);
            host \<leftarrow> host;
            proto \<leftarrow> proto;
            more \<leftarrow> srv_lines os zone rest;
            Some (''_'' @ host @ ''._'' @ proto @ ''.'' @ zone @ ''.'' @ tab @ ''IN SRV '' @ lu pri @ '' 0 '' @
              dec port @ tab @ (if dotless then dest @ ''.'' @ zone @ ''.'' else dest) @ nl @ more)
          })
     }
   }"
| "srv_lines os zone _ = None"

definition write_fwd_header_records :: "services \<Rightarrow> int \<Rightarrow> ailsa_data list \<Rightarrow> string \<Rightarrow> string option" where
  "write_fwd_header_records os fd r zone =
    (if fd = 0 then Some []
     else if length r mod 6 \<noteq> 0 then Some []
     else do {
       ns \<leftarrow> ns_lines r;
       mx \<leftarrow> mx_lines r;
       srv \<leftarrow> srv_lines os zone r;
       Some (ns @ mx @ srv)
     })"

definition fwd_record_line :: "string \<Rightarrow> string \<Rightarrow> string \<Rightarrow> string" where
  "fwd_record_line type host dest =
    (if length host < 8 then host @ tabs 2 @ ''IN'' @ tab @ type @ tab @ dest @ nl
     else host @ tab @ ''IN'' @ tab @ type @ tab @ dest @ nl)"

fun fwd_record_lines :: "ailsa_data list \<Rightarrow> string option" where
  "fwd_record_lines [] = Some []"
| "fwd_record_lines (t # h # d # rest) = do {
     type \<leftarrow> element_text t;
     host \<leftarrow> element_text h;
     dest \<leftarrow> element_text d;
     more \<leftarrow> fwd_record_lines rest;
     Some (fwd_record_line type host dest @ more)
   }"
| "fwd_record_lines _ = None"

definition write_fwd_records :: "int \<Rightarrow> ailsa_data list \<Rightarrow> string \<Rightarrow> string option" where
  "write_fwd_records fd r zone =
    (if fd = 0 then Some [] else if length r mod 3 \<noteq> 0 then Some [] else fwd_record_lines r)"

fun glue_lines :: "ailsa_data list \<Rightarrow> string option" where
  "glue_lines [] = Some []"
| "glue_lines (n # p # s # rest) = do {
     name \<leftarrow> element_text n;
     pri \<leftarrow> element_text p;
     sec \<leftarrow> get_text s;
     more \<leftarrow> glue_lines rest;
     Some (name @ ''.'' @ tab @ ''IN'' @ tab @ ''NS'' @ tab @ pri @ nl @
       (case sec of None \<Rightarrow> []
        | Some sec \<Rightarrow> if sec \<noteq> [] \<and> sec \<noteq> ''none''
            then name @ ''.'' @ tab @ ''IN'' @ tab @ ''NS'' @ tab @ sec @ nl else []) @ more)
   }"
| "glue_lines _ = None"

definition write_glue_records :: "int \<Rightarrow> ailsa_data list \<Rightarrow> (int \<times> string) option" where
  "write_glue_records fd g =
    (if fd = 0 then Some (AILSA_NO_DATA, [])
     else if length g mod 3 \<noteq> 0 then Some (0, [])
     else do { lines \<leftarrow> glue_lines g; Some (0, lines) })"

definition write_fwd_zone_file ::
  "'db sqlite3_api \<Rightarrow> services \<Rightarrow> ailsa_cmdb_s option \<Rightarrow> cstr \<Rightarrow> 'db site \<Rightarrow> 'db site_result" where
  "write_fwd_zone_file api os cbc zone st = (case (cbc, zone) of
     (Some cc, Some z) \<Rightarrow>
       on_list st (cmdb_add_string_to_list zone (Some [])) (\<lambda>a.
       on_query st (\<lambda>w. ailsa_argument_query api w cbc NAME_SERVERS_ON_NAME a (Some [])) (\<lambda>st n.
       on_query st (\<lambda>w. ailsa_argument_query api w cbc ZONE_SOA_ON_NAME a (Some [])) (\<lambda>st s.
       on_query st (\<lambda>w. ailsa_check_for_zone_update api w (os_now os) cbc (Some s) zone) (\<lambda>st s.
       on_query st (\<lambda>w. ailsa_argument_query api w cbc NS_MX_SRV_RECORDS a (Some [])) (\<lambda>st hr.
       on_query st (\<lambda>w. ailsa_argument_query api w cbc ZONE_RECORDS_ON_NAME a (Some [])) (\<lambda>st r.
       on_query st (\<lambda>w. ailsa_argument_query api w cbc GLUE_ZONE_ON_ZONE_NAME a (Some [])) (\<lambda>st g. do {
         dir \<leftarrow> cc_dir cc;
         let name = snprintf_s DOMAIN_LEN (dir @ z);
         let fd = os_open os name;
         if fd = -1 then Some (AILSA_FILE_ERROR, st)
         else do {
           header \<leftarrow> write_zone_file_header fd n s (cc_hostmaster cc);
           header_records \<leftarrow> write_fwd_header_records os fd hr z;
           records \<leftarrow> write_fwd_records fd r z;
           (retval, glue) \<leftarrow> write_glue_records fd g;
           Some (retval, put_file name (header @ header_records @ records @ glue) st)
         }
       })))))))
   | _ \<Rightarrow> Some (AILSA_NO_DATA, st))"

subsection \<open>Reverse zone files\<close>

definition write_rev_zone_header :: "int \<Rightarrow> ailsa_data list \<Rightarrow> cstr \<Rightarrow> string option" where
  "write_rev_zone_header fd soa hostmaster =
    (case hostmaster of None \<Rightarrow> Some [] | Some hostmaster \<Rightarrow>
     if fd = 0 then Some []
     else if length soa \<noteq> 8 then Some []
     else do {
       pri \<leftarrow> element_text (soa ! 1);
       sec \<leftarrow> element_text (soa ! 2);
       ttl \<leftarrow> get_number (soa ! 0);
       serial \<leftarrow> get_number (soa ! 3);
       refresh \<leftarrow> get_number (soa ! 4);
       retry \<leftarrow> get_number (soa ! 5);
       expire \<leftarrow> get_number (soa ! 6);
       dotless \<leftarrow> no_dot_at_end pri (length pri);
       let pri_dot = (if dotless then pri @ ''.'' else pri);
       dotless \<leftarrow> no_dot_at_end sec (length sec);
       let sec_dot = (if dotless then sec @ ''.'' else sec);
       Some (''$TTL '' @ lu ttl @ nl @
         ''@'' @ tab @ ''IN'' @ tab @ ''SOA'' @ tab @ pri_dot @ tab @ hostmaster @ '' ('' @ nl @
         tabs 4 @ lu serial @ tab @ ''; Serial'' @ nl @
         tabs 4 @ lu refresh @ tab @ ''; Refresh'' @ nl @
         tabs 4 @ lu retry @ tab @ ''; Retry'' @ nl @
         tabs 4 @ lu expire @ tab @ ''; Expire'' @ nl @
         tabs 4 @ lu ttl @ tab @ ''); Cache TTL'' @ nl @ '';'' @ nl @
         tabs 2 @ ''IN'' @ tab @ ''NS'' @ tab @ pri_dot @ nl @
         tabs 2 @ ''IN'' @ tab @ ''NS'' @ tab @ sec_dot @ nl)
     })"

fun ptr_lines :: "ailsa_data list \<Rightarrow> string option" where
  "ptr_lines [] = Some []"
| "ptr_lines (h # d # rest) = do {
     host \<leftarrow> element_text h;
     dest \<leftarrow> element_text d;
     more \<leftarrow> ptr_lines rest;
     Some (host @ tab @ ''PTR'' @ tab @ dest @ nl @ more)
   }"
| "ptr_lines _ = None"

definition write_rev_zone_records :: "int \<Rightarrow> ailsa_data list \<Rightarrow> string option" where
  "write_rev_zone_records fd soa =
    (if fd = 0 then Some [] else if length soa mod 2 \<noteq> 0 then Some [] else ptr_lines soa)"

definition write_rev_zone_file ::
  "'db sqlite3_api \<Rightarrow> services \<Rightarrow> ailsa_cmdb_s option \<Rightarrow> cstr \<Rightarrow> nat \<Rightarrow> u64 \<Rightarrow> 'db site \<Rightarrow> 'db site_result" where
  "write_rev_zone_file api os cbc zone prefix index st = (case cbc of None \<Rightarrow> Some (AILSA_NO_DATA, st) | Some cc \<Rightarrow>
     if zone = None then Some (AILSA_NO_DATA, st)
     else
       on_list st (cmdb_add_string_to_list zone (Some [])) (\<lambda>a.
       on_query st (\<lambda>w. ailsa_argument_query api w cbc REV_SOA_ON_NET_RANGE a (Some [])) (\<lambda>st s.
       on_query st (\<lambda>w. ailsa_check_for_rev_zone_update api w (os_now os) cbc (Some s) zone) (\<lambda>st s.
       on_list st (cmdb_add_number_to_list index a) (\<lambda>a.
       on_query st (\<lambda>w. ailsa_argument_query api w cbc REV_RECORDS_ON_NET_RANGE a (Some [])) (\<lambda>st r.
         case get_offset_ip zone prefix index of (retval, ip) \<Rightarrow>
         if retval \<noteq> 0 then Some (retval, st)
         else do {
           ip \<leftarrow> ip;
           dir \<leftarrow> cc_dir cc;
           let name = snprintf_s DOMAIN_LEN (dir @ ip);
           let fd = os_open os name;
           if fd = -1 then Some (AILSA_FILE_ERROR, st)
           else do {
             header \<leftarrow> write_rev_zone_header fd s (cc_hostmaster cc);
             records \<leftarrow> write_rev_zone_records fd r;
             Some (0, put_file name (header @ records) st)
           }
         }))))))"

subsection \<open>Validation\<close>

definition cmdb_check_zone :: "services \<Rightarrow> ailsa_cmdb_s option \<Rightarrow> cstr \<Rightarrow> 'db site \<Rightarrow> 'db site_result" where
  "cmdb_check_zone os cbs zone st = (case (cbs, zone) of
     (Some cc, Some z) \<Rightarrow> do {
       chkz \<leftarrow> cc_chkz cc;
       dir \<leftarrow> cc_dir cc;
       let (code, st) = run_system os (snprintf_s CONFIG_LEN (chkz @ '' '' @ z @ '' '' @ dir @ z)) st;
       Some (if code \<noteq> 0 then AILSA_CHKZONE_FAIL else 0, st)
     }
   | _ \<Rightarrow> Some (AILSA_NO_DATA, st))"

text \<open>The label \<open>validate\<close>: the verdict, the zone's name and the update of the row.\<close>

definition record_verdict ::
  "'db sqlite3_api \<Rightarrow> ailsa_cmdb_s option \<Rightarrow> nat \<Rightarrow> string \<Rightarrow> cstr \<Rightarrow> 'db site \<Rightarrow> 'db site_result" where
  "record_verdict api cbc query verdict zone st =
     on_list st (cmdb_add_string_to_list (Some verdict) (Some [])) (\<lambda>l.
     on_list st (cmdb_add_string_to_list zone l) (\<lambda>l.
     on_world st (\<lambda>w. ailsa_update_query api w cbc (update_queries ! query) l)))"

definition is_slave :: "cstr \<Rightarrow> bool" where
  "is_slave ztype = (case ztype of None \<Rightarrow> False | Some t \<Rightarrow> strncmp_eq t ''slave'' BYTE_LEN)"

definition cmdb_validate_fwd_zone ::
  "'db sqlite3_api \<Rightarrow> services \<Rightarrow> ailsa_cmdb_s option \<Rightarrow> cstr \<Rightarrow> cstr \<Rightarrow> 'db site \<Rightarrow> 'db site_result" where
  "cmdb_validate_fwd_zone api os cbc zone ztype st =
    (if cbc = None \<or> zone = None then Some (AILSA_NO_DATA, st)
     else if is_slave ztype then record_verdict api cbc FWD_ZONE_VALIDATE ''yes'' zone st
     else do {
       (retval, st) \<leftarrow> write_fwd_zone_file api os cbc zone st;
       if retval \<noteq> 0 then Some (retval, st)
       else do {
         (retval, st) \<leftarrow> cmdb_check_zone os cbc zone st;
         record_verdict api cbc FWD_ZONE_VALIDATE (if retval \<noteq> 0 then ''no'' else ''yes'') zone st
       }
     })"

text \<open>The loop over the sub-ranges: the first whose check fails ends it with the verdict \<open>no\<close>.\<close>

fun validate_ranges ::
  "'db sqlite3_api \<Rightarrow> services \<Rightarrow> ailsa_cmdb_s option \<Rightarrow> cstr \<Rightarrow> nat \<Rightarrow> nat list \<Rightarrow> 'db site \<Rightarrow>
   (int \<times> string \<times> 'db site) option" where
  "validate_ranges api os cbc zone prefix [] st = Some (0, ''yes'', st)"
| "validate_ranges api os cbc zone prefix (i # is) st =
    (case get_offset_ip zone prefix (of_nat i) of (retval, addr) \<Rightarrow>
     if retval \<noteq> 0 then Some (retval, [], st)
     else do {
       (retval, st) \<leftarrow> write_rev_zone_file api os cbc zone prefix (of_nat i) st;
       if retval \<noteq> 0 then Some (retval, [], st)
       else do {
         (retval, st) \<leftarrow> cmdb_check_zone os cbc addr st;
         if retval \<noteq> 0 then Some (0, ''no'', st) else validate_ranges api os cbc zone prefix is st
       }
     })"

definition cmdb_validate_rev_zone ::
  "'db sqlite3_api \<Rightarrow> services \<Rightarrow> ailsa_cmdb_s option \<Rightarrow> cstr \<Rightarrow> cstr \<Rightarrow> nat \<Rightarrow> 'db site \<Rightarrow> 'db site_result" where
  "cmdb_validate_rev_zone api os cbc zone ztype prefix st =
    (if cbc = None \<or> zone = None then Some (AILSA_NO_DATA, st)
     else if is_slave ztype then record_verdict api cbc REV_ZONE_VALIDATE ''yes'' zone st
     else (case get_zone_index prefix of
         (retval, None) \<Rightarrow> Some (retval, st)
       | (_, Some index) \<Rightarrow> do {
           (retval, verdict, st) \<leftarrow> validate_ranges api os cbc zone prefix [0..<unat index] st;
           if retval \<noteq> 0 then Some (retval, st)
           else record_verdict api cbc REV_ZONE_VALIDATE verdict zone st
         }))"

definition cmdb_validate_zone ::
  "'db sqlite3_api \<Rightarrow> services \<Rightarrow> ailsa_cmdb_s option \<Rightarrow> int \<Rightarrow> cstr \<Rightarrow> cstr \<Rightarrow> nat \<Rightarrow> 'db site \<Rightarrow> 'db site_result" where
  "cmdb_validate_zone api os cbc type zone ztype prefix st =
    (if cbc = None \<or> zone = None then Some (AILSA_NO_DATA, st)
     else if type = FORWARD_ZONE then cmdb_validate_fwd_zone api os cbc zone ztype st
     else if type = REVERSE_ZONE then cmdb_validate_rev_zone api os cbc zone ztype prefix st
     else Some (AILSA_WRONG_ZONE_TYPE, st))"

subsection \<open>The configuration of the name server\<close>

text \<open>The first address decides; the address and its type keep their values when there is none of a known
  family.\<close>

definition cmdb_getaddrinfo :: "services \<Rightarrow> cstr \<Rightarrow> string \<Rightarrow> int \<Rightarrow> int \<times> string \<times> int" where
  "cmdb_getaddrinfo os name ip type = (case name of None \<Rightarrow> (AILSA_NO_DATA, ip, type) | Some name \<Rightarrow>
     (case os_getaddrinfo os name of
        None \<Rightarrow> (AILSA_GETADDR_FAIL, ip, type)
      | Some (AI_INET a # _) \<Rightarrow> (0, ntop4 a, 4)
      | Some (AI_INET6 t # _) \<Rightarrow> (0, t, 6)
      | Some _ \<Rightarrow> (0, ip, type)))"

definition quoted :: "string \<Rightarrow> string" where
  "quoted s = [CHR 0x22] @ s @ [CHR 0x22]"

definition zone_block_start :: "string \<Rightarrow> string \<Rightarrow> string \<Rightarrow> string" where
  "zone_block_start name type dir =
     ''zone '' @ quoted name @ '' {'' @ nl @ tabs 3 @ ''type '' @ type @ '';'' @ nl @
     tabs 3 @ ''file '' @ quoted (dir @ name) @ '';'' @ nl"

definition zone_block_end :: string where
  "zone_block_end = tabs 2 @ ''};'' @ nl"

text \<open>The rows of name, type, secondary server and master; \<open>t\<close> is the address type of an earlier row.  The
  result is the code and the text written before the loop ended.\<close>

fun fwd_config_blocks :: "services \<Rightarrow> string \<Rightarrow> int \<Rightarrow> ailsa_data list \<Rightarrow> (int \<times> string) option" where
  "fwd_config_blocks os dir t [] = Some (0, [])"
| "fwd_config_blocks os dir t (n # ty # s # m # rest) = do {
     name \<leftarrow> element_text n;
     type \<leftarrow> element_text ty;
     sec \<leftarrow> (if type = ''master'' then map_option Some (element_text s) else Some None);
     if type = ''master'' \<and> sec \<noteq> Some ''none'' then
       (case cmdb_getaddrinfo os sec [] t of (retval, ip, t) \<Rightarrow>
          if retval \<noteq> 0 then Some (retval, zone_block_start name type dir)
          else do {
            (retval, more) \<leftarrow> fwd_config_blocks os dir t rest;
            Some (retval, zone_block_start name type dir @
              (if t = 4 then tabs 3 @ ''notify-source '' @ ip @ '';'' @ nl @ zone_block_end
               else if t = 6 then tabs 3 @ ''notify-source-v6 '' @ ip @ nl @ zone_block_end
               else []) @ more)
          })
     else do {
       line \<leftarrow> (if type = ''slave'' then do {
           master \<leftarrow> element_text m;
           Some (tabs 3 @ ''masters { '' @ master @ ''; };'' @ nl)
         } else Some []);
       (retval, more) \<leftarrow> fwd_config_blocks os dir t rest;
       Some (retval, zone_block_start name type dir @ line @ zone_block_end @ more)
     }
   }"
| "fwd_config_blocks os dir t _ = None"

definition cmdb_write_fwd_zone_config ::
  "'db sqlite3_api \<Rightarrow> services \<Rightarrow> ailsa_cmdb_s option \<Rightarrow> 'db site \<Rightarrow> 'db site_result" where
  "cmdb_write_fwd_zone_config api os cbs st = (case cbs of None \<Rightarrow> Some (AILSA_NO_DATA, st) | Some cc \<Rightarrow> do {
     bind \<leftarrow> cc_bind cc;
     dnsa \<leftarrow> cc_dnsa cc;
     let filename = snprintf_s DOMAIN_LEN (bind @ dnsa);
     if os_open os filename = -1 then Some (AILSA_FILE_ERROR, st)
     else on_query (put_file filename [] st) (\<lambda>w. ailsa_basic_query api w cbs FWD_ZONE_CONFIG (Some [])) (\<lambda>st l.
       if length l = 0 then Some (0, st)
       else if length l mod 4 \<noteq> 0 then Some (0, st)
       else do {
         dir \<leftarrow> cc_dir cc;
         (retval, text) \<leftarrow> fwd_config_blocks os dir 0 l;
         Some (retval, put_file filename text st)
       })
   })"

fun rev_config_blocks :: "string \<Rightarrow> ailsa_rev_zone_s list \<Rightarrow> string option" where
  "rev_config_blocks dir [] = Some []"
| "rev_config_blocks dir (r # rest) = do {
     in_addr \<leftarrow> rz_in_addr r;
     type \<leftarrow> rz_type r;
     lines \<leftarrow> (if type = ''master'' then Some (tabs 3 @ ''type master;'' @ nl)
       else if type = ''slave'' then do {
         master \<leftarrow> rz_master r;
         Some (tabs 3 @ ''type slave;'' @ nl @ tabs 3 @ ''masters { '' @ master @ ''; };'' @ nl)
       } else Some []);
     net_range \<leftarrow> rz_net_range r;
     more \<leftarrow> rev_config_blocks dir rest;
     Some (''zone '' @ quoted in_addr @ '' {'' @ nl @ lines @ tabs 3 @ ''file '' @ quoted (dir @ net_range) @ '';'' @
       nl @ zone_block_end @ more)
   }"

definition cmdb_write_rev_zone_config ::
  "'db sqlite3_api \<Rightarrow> services \<Rightarrow> ailsa_cmdb_s option \<Rightarrow> 'db site \<Rightarrow> 'db site_result" where
  "cmdb_write_rev_zone_config api os cbs st = (case cbs of None \<Rightarrow> Some (AILSA_NO_DATA, st) | Some cc \<Rightarrow>
     on_query st (\<lambda>w. ailsa_basic_query api w cbs REV_ZONE_CONFIG (Some [])) (\<lambda>st l.
       if length l = 0 then Some (0, st)
       else do {
         (retval, z) \<leftarrow> ailsa_fill_rev_zone_list (Some l) (Some []);
         zones \<leftarrow> z;
         if retval \<noteq> 0 then Some (retval, st)
         else do {
           bind \<leftarrow> cc_bind cc;
           revs \<leftarrow> cc_rev cc;
           let filename = snprintf_s DOMAIN_LEN (bind @ revs);
           if os_open os filename = -1 then Some (AILSA_FILE_ERROR, st)
           else do {
             dir \<leftarrow> cc_dir cc;
             text \<leftarrow> rev_config_blocks dir zones;
             Some (0, put_file filename text st)
           }
         }
       }))"

text \<open>\<open>snprintf(command, CONFIG_LEN, "%s reload", dc->rndc); retval = system(command);\<close>\<close>

definition reload :: "services \<Rightarrow> ailsa_cmdb_s option \<Rightarrow> 'db site \<Rightarrow> 'db site_result" where
  "reload os dc st = do {
     cc \<leftarrow> dc;
     rndc \<leftarrow> cc_rndc cc;
     Some (run_system os (snprintf_s CONFIG_LEN (rndc @ '' reload'')) st)
   }"

subsection \<open>Adding zones\<close>

definition add_forward_zone ::
  "'db sqlite3_api \<Rightarrow> services \<Rightarrow> ailsa_cmdb_s option \<Rightarrow> cstr \<Rightarrow> cstr \<Rightarrow> cstr \<Rightarrow> 'db site \<Rightarrow> 'db site_result" where
  "add_forward_zone api os dc domain type master st =
    (if dc = None \<or> domain = None then Some (AILSA_NO_DATA, st)
     else if is_slave type \<and> master = None then Some (AILSA_NO_MASTER, st)
     else do {
       let query = (if is_slave type then INSERT_FORWARD_SLAVE_ZONE else INSERT_FORWARD_ZONE);
       (retval, st) \<leftarrow> on_world st (\<lambda>w. cmdb_check_for_fwd_zone api w dc domain type);
       if retval > 0 then Some (0, st)
       else if retval = -1 then Some (retval, st)
       else
         on_list st (dnsa_populate_zone (os_uid os) (os_now os) dc domain type master (Some [])) (\<lambda>l.
         chk0 (on_world st (\<lambda>w. ailsa_insert_query api w dc query l)) (\<lambda>st.
         chk0 (cmdb_validate_zone api os dc FORWARD_ZONE domain type 0 st) (\<lambda>st.
         chk0 (cmdb_write_fwd_zone_config api os dc st) (reload os dc))))
     })"

definition add_reverse_zone ::
  "'db sqlite3_api \<Rightarrow> services \<Rightarrow> ailsa_cmdb_s option \<Rightarrow> cstr \<Rightarrow> cstr \<Rightarrow> cstr \<Rightarrow> nat \<Rightarrow> 'db site \<Rightarrow> 'db site_result" where
  "add_reverse_zone api os dc net_range type master prefix st =
    (if dc = None \<or> net_range = None \<or> prefix = 0 then Some (AILSA_NO_DATA, st)
     else (case get_start_finsh_ips net_range prefix of (retval, start, fin) \<Rightarrow>
       if retval \<noteq> 0 then Some (retval, st)
       else do {
         start \<leftarrow> start;
         fin \<leftarrow> fin;
         chk0 (on_world st (\<lambda>w. check_for_rev_zone_overlap api w dc start fin)) (\<lambda>st.
         on_list st (dnsa_populate_rev_zone (os_uid os) (os_now os) dc net_range master prefix (Some [])) (\<lambda>l.
         chk0 (on_world st (\<lambda>w. ailsa_insert_query api w dc INSERT_REVERSE_ZONE l)) (\<lambda>st.
         chk0 (cmdb_validate_zone api os dc REVERSE_ZONE net_range type prefix st) (\<lambda>st.
         chk0 (cmdb_write_rev_zone_config api os dc st) (reload os dc)))))
       }))"

end
