(* ===== verification/Posix_Regex.thy ===== *)
theory Posix_Regex
  imports Cmdb_Prelude
begin

text \<open>
  POSIX extended regular expressions, as \<open>regcomp\<close> and \<open>regexec\<close> of the C library define them in the C
  locale, for the constructs the program's patterns use: literal characters, escapes outside
  brackets, bracket expressions (in which a backslash is an ordinary character), groups,
  alternatives, the repetitions \<open>*\<close>, \<open>+\<close>, \<open>?\<close>, \<open>{m}\<close>, \<open>{m,n}\<close>, and the anchors at the two ends.
\<close>

subsection \<open>Expressions and what they denote\<close>

text \<open>A set is a list of ranges of character codes.\<close>

datatype ere = E_Empty | E_Set "(nat \<times> nat) list" | E_Seq ere ere | E_Alt ere ere | E_Star ere

definition in_ranges :: "(nat \<times> nat) list \<Rightarrow> char \<Rightarrow> bool" where
  "in_ranges rs c \<longleftrightarrow> list_ex (\<lambda>(a, b). a \<le> of_char c \<and> of_char c \<le> b) rs"

inductive denotes :: "ere \<Rightarrow> string \<Rightarrow> bool" where
  denotes_empty: "denotes E_Empty []"
| denotes_set: "in_ranges rs c \<Longrightarrow> denotes (E_Set rs) [c]"
| denotes_seq: "denotes r s \<Longrightarrow> denotes q t \<Longrightarrow> denotes (E_Seq r q) (s @ t)"
| denotes_left: "denotes r s \<Longrightarrow> denotes (E_Alt r q) s"
| denotes_right: "denotes q s \<Longrightarrow> denotes (E_Alt r q) s"
| denotes_stop: "denotes (E_Star r) []"
| denotes_more: "denotes r s \<Longrightarrow> denotes (E_Star r) t \<Longrightarrow> denotes (E_Star r) (s @ t)"

inductive_simps denotes_empty_iff [simp]: "denotes E_Empty s"
inductive_simps denotes_set_iff [simp]: "denotes (E_Set rs) s"
inductive_simps denotes_alt_iff [simp]: "denotes (E_Alt r q) s"
inductive_simps denotes_seq_iff: "denotes (E_Seq r q) s"

subsection \<open>Matching\<close>

fun accepts_empty :: "ere \<Rightarrow> bool" where
  "accepts_empty E_Empty = True"
| "accepts_empty (E_Set rs) = False"
| "accepts_empty (E_Seq r q) = (accepts_empty r \<and> accepts_empty q)"
| "accepts_empty (E_Alt r q) = (accepts_empty r \<or> accepts_empty q)"
| "accepts_empty (E_Star r) = True"

text \<open>What remains to be matched after a character.\<close>

fun after_char :: "char \<Rightarrow> ere \<Rightarrow> ere" where
  "after_char c E_Empty = E_Set []"
| "after_char c (E_Set rs) = (if in_ranges rs c then E_Empty else E_Set [])"
| "after_char c (E_Seq r q) =
     (let rest = E_Seq (after_char c r) q in
      if accepts_empty r then E_Alt rest (after_char c q) else rest)"
| "after_char c (E_Alt r q) = E_Alt (after_char c r) (after_char c q)"
| "after_char c (E_Star r) = E_Seq (after_char c r) (E_Star r)"

definition regexec :: "ere \<Rightarrow> string \<Rightarrow> bool" where
  "regexec r s = accepts_empty (fold after_char s r)"

lemma accepts_empty_iff: "accepts_empty r \<longleftrightarrow> denotes r []"
  by (induction r) (simp_all add: denotes_seq_iff denotes_stop)

lemma denotes_star_Cons:
  assumes "denotes (E_Star r) (c # s)"
  shows "\<exists>t u. s = t @ u \<and> denotes r (c # t) \<and> denotes (E_Star r) u"
proof -
  have "denotes q x \<Longrightarrow> q = E_Star r \<Longrightarrow> x = c # s \<Longrightarrow>
      \<exists>t u. s = t @ u \<and> denotes r (c # t) \<and> denotes (E_Star r) u" for q x
    by (induction rule: denotes.induct) (auto simp: append_eq_Cons_conv)
  then show ?thesis using assms by blast
qed

lemma after_char_iff: "denotes (after_char c r) s \<longleftrightarrow> denotes r (c # s)"
proof (induction r arbitrary: s)
  case (E_Seq r q)
  have "denotes (E_Seq r q) (c # s) \<longleftrightarrow>
      (\<exists>t u. s = t @ u \<and> denotes r (c # t) \<and> denotes q u) \<or> (denotes r [] \<and> denotes q (c # s))"
    unfolding denotes_seq_iff by (auto simp: Cons_eq_append_conv)
  then show ?case
    using E_Seq by (auto simp: Let_def denotes_seq_iff accepts_empty_iff)
next
  case (E_Star r)
  show ?case
  proof
    assume "denotes (after_char c (E_Star r)) s"
    then obtain t u where "s = t @ u" "denotes r (c # t)" "denotes (E_Star r) u"
      using E_Star by (auto simp: denotes_seq_iff)
    then show "denotes (E_Star r) (c # s)" using denotes_more [of r "c # t" u] by simp
  next
    assume "denotes (E_Star r) (c # s)"
    then show "denotes (after_char c (E_Star r)) s"
      using E_Star denotes_star_Cons by (fastforce simp: denotes_seq_iff)
  qed
qed (auto simp: in_ranges_def)

lemma regexec_iff: "regexec r s \<longleftrightarrow> denotes r s"
  by (induction s arbitrary: r) (simp_all add: regexec_def accepts_empty_iff after_char_iff)

subsection \<open>Reading a pattern\<close>

datatype token = T_Set "(nat \<times> nat) list" | T_Open | T_Close | T_Bar | T_Star | T_Plus | T_Opt
  | T_Rep nat nat

text \<open>The ranges of a bracket expression; a range whose end is before its start is \<open>REG_ERANGE\<close>.\<close>

fun bracket_ranges :: "string \<Rightarrow> (nat \<times> nat) list option" where
  "bracket_ranges [] = Some []"
| "bracket_ranges [c] = Some [(of_char c, of_char c)]"
| "bracket_ranges [c, d] = Some [(of_char c, of_char c), (of_char d, of_char d)]"
| "bracket_ranges (c # d # e # cs) =
     (if d = CHR ''-'' then
        if (of_char c :: nat) \<le> of_char e
        then map_option ((#) (of_char c, of_char e)) (bracket_ranges cs) else None
      else map_option ((#) (of_char c, of_char c)) (bracket_ranges (d # e # cs)))"

text \<open>The two numbers of an interval expression.\<close>

definition decimal :: "string \<Rightarrow> nat" where
  "decimal s = fold (\<lambda>c n. n * 10 + (of_char c - 48)) s 0"

definition interval :: "string \<Rightarrow> token" where
  "interval s = (case strchr s (CHR '','') of
     None \<Rightarrow> T_Rep (decimal s) (decimal s)
   | Some i \<Rightarrow> T_Rep (decimal (take i s)) (decimal (drop (i + 1) s)))"

datatype reading = Outside | In_Bracket string | In_Interval string | Escaped

definition operator :: "char \<Rightarrow> token" where
  "operator c =
    (if c = CHR ''('' then T_Open else if c = CHR '')'' then T_Close else if c = CHR ''|'' then T_Bar
     else if c = CHR ''*'' then T_Star else if c = CHR ''+'' then T_Plus
     else if c = CHR ''?'' then T_Opt else T_Set [(of_char c, of_char c)])"

fun tokens :: "reading \<Rightarrow> string \<Rightarrow> token list option" where
  "tokens m [] = (if m = Outside then Some [] else None)"
| "tokens Outside (c # cs) =
     (if c = CHR ''['' then tokens (In_Bracket []) cs
      else if c = CHR ''{'' then tokens (In_Interval []) cs
      else if c = CHR 0x5C then tokens Escaped cs
      else map_option ((#) (operator c)) (tokens Outside cs))"
| "tokens Escaped (c # cs) = map_option ((#) (T_Set [(of_char c, of_char c)])) (tokens Outside cs)"
| "tokens (In_Bracket acc) (c # cs) =
     (if c = CHR '']'' \<and> acc \<noteq> [] then
        do { rs \<leftarrow> bracket_ranges (rev acc); ts \<leftarrow> tokens Outside cs; Some (T_Set rs # ts) }
      else tokens (In_Bracket (c # acc)) cs)"
| "tokens (In_Interval acc) (c # cs) =
     (if c = CHR ''}'' then map_option ((#) (interval (rev acc))) (tokens Outside cs)
      else tokens (In_Interval (c # acc)) cs)"

text \<open>A frame holds the finished alternatives of a group and the items of the current one, the latest
  first.\<close>

type_synonym frame = "ere list \<times> ere list"

definition sequence_of :: "ere list \<Rightarrow> ere" where
  "sequence_of items = foldl (\<lambda>r q. E_Seq q r) E_Empty items"

definition group_of :: "frame \<Rightarrow> ere" where
  "group_of f = foldl (\<lambda>r q. E_Alt q r) (sequence_of (snd f)) (fst f)"

fun times :: "nat \<Rightarrow> ere \<Rightarrow> ere" where
  "times 0 r = E_Empty"
| "times (Suc n) r = E_Seq r (times n r)"

fun up_to :: "nat \<Rightarrow> ere \<Rightarrow> ere" where
  "up_to 0 r = E_Empty"
| "up_to (Suc n) r = E_Alt E_Empty (E_Seq r (up_to n r))"

definition repeated :: "token \<Rightarrow> ere \<Rightarrow> ere option" where
  "repeated t r = (case t of
     T_Star \<Rightarrow> Some (E_Star r)
   | T_Plus \<Rightarrow> Some (E_Seq r (E_Star r))
   | T_Opt \<Rightarrow> Some (E_Alt E_Empty r)
   | T_Rep m n \<Rightarrow> if m \<le> n then Some (E_Seq (times m r) (up_to (n - m) r)) else None
   | _ \<Rightarrow> None)"

fun parse_tokens :: "frame list \<Rightarrow> token list \<Rightarrow> ere option" where
  "parse_tokens [f] [] = Some (group_of f)"
| "parse_tokens fs [] = None"
| "parse_tokens fs (T_Open # ts) = parse_tokens (([], []) # fs) ts"
| "parse_tokens (f # (alts, items) # fs) (T_Close # ts) =
     parse_tokens ((alts, group_of f # items) # fs) ts"
| "parse_tokens ((alts, items) # fs) (T_Bar # ts) =
     parse_tokens ((sequence_of items # alts, []) # fs) ts"
| "parse_tokens ((alts, items) # fs) (T_Set rs # ts) = parse_tokens ((alts, E_Set rs # items) # fs) ts"
| "parse_tokens ((alts, r # items) # fs) (t # ts) =
     (case repeated t r of None \<Rightarrow> None | Some q \<Rightarrow> parse_tokens ((alts, q # items) # fs) ts)"
| "parse_tokens fs ts = None"

text \<open>\<open>regcomp(&re, pattern, REG_EXTENDED)\<close>; \<open>None\<close> is an error.  A pattern without an anchor at an end
  matches anything there.\<close>

definition any_text :: ere where
  "any_text = E_Star (E_Set [(0, 255)])"

definition regcomp :: "string \<Rightarrow> ere option" where
  "regcomp pattern =
    (let at_start = (pattern \<noteq> [] \<and> hd pattern = CHR ''^'');
         body = (if at_start then tl pattern else pattern);
         at_end = (body \<noteq> [] \<and> last body = CHR ''$'');
         body = (if at_end then butlast body else body)
     in do {
       ts \<leftarrow> tokens Outside body;
       r \<leftarrow> parse_tokens [([], [])] ts;
       Some (E_Seq (if at_start then E_Empty else any_text) (E_Seq r (if at_end then E_Empty else any_text)))
     })"

end
