(* ===== verification/Ailsa_Regexp.thy ===== *)
theory Ailsa_Regexp
  imports Posix_Regex Net_Range
begin

text \<open>
  lib/regexp.c: the table of patterns the commands check their input with, and the two checking
  functions.  In a bracket expression a backslash stands for itself, so several patterns
  do not mean what their authors intended; one of them does not even compile.
\<close>

subsection \<open>Patterns\<close>

abbreviation UUID_REGEX :: nat where "UUID_REGEX \<equiv> 0"
abbreviation NAME_REGEX :: nat where "NAME_REGEX \<equiv> 1"
abbreviation ID_REGEX :: nat where "ID_REGEX \<equiv> 2"
abbreviation CUSTOMER_REGEX :: nat where "CUSTOMER_REGEX \<equiv> 3"
abbreviation COID_REGEX :: nat where "COID_REGEX \<equiv> 4"
abbreviation MAC_REGEX :: nat where "MAC_REGEX \<equiv> 5"
abbreviation IP_REGEX :: nat where "IP_REGEX \<equiv> 6"
abbreviation DOMAIN_REGEX :: nat where "DOMAIN_REGEX \<equiv> 7"
abbreviation PATH_REGEX :: nat where "PATH_REGEX \<equiv> 8"
abbreviation LOGVOL_REGEX :: nat where "LOGVOL_REGEX \<equiv> 9"
abbreviation FS_REGEX :: nat where "FS_REGEX \<equiv> 10"
abbreviation ADDRESS_REGEX :: nat where "ADDRESS_REGEX \<equiv> 11"
abbreviation DEV_REGEX :: nat where "DEV_REGEX \<equiv> 12"
abbreviation CAPACITY_REGEX :: nat where "CAPACITY_REGEX \<equiv> 13"
abbreviation OS_VER_REGEX :: nat where "OS_VER_REGEX \<equiv> 14"
abbreviation POSTCODE_REGEX :: nat where "POSTCODE_REGEX \<equiv> 15"
abbreviation URL_REGEX :: nat where "URL_REGEX \<equiv> 16"
abbreviation PHONE_REGEX :: nat where "PHONE_REGEX \<equiv> 17"
abbreviation EMAIL_REGEX :: nat where "EMAIL_REGEX \<equiv> 18"
abbreviation TXTRR_REGEX :: nat where "TXTRR_REGEX \<equiv> 19"
abbreviation CN_REGEX :: nat where "CN_REGEX \<equiv> 20"
abbreviation DC_REGEX :: nat where "DC_REGEX \<equiv> 21"
abbreviation TIMEZONE_REGEX :: nat where "TIMEZONE_REGEX \<equiv> 22"
abbreviation PACKAGE_FIELD_REGEX :: nat where "PACKAGE_FIELD_REGEX \<equiv> 23"
abbreviation RESOURCE_TYPE_REGEX :: nat where "RESOURCE_TYPE_REGEX \<equiv> 24"
abbreviation SYSTEM_PACKAGE_ARG_REGEX :: nat where "SYSTEM_PACKAGE_ARG_REGEX \<equiv> 25"

text \<open>A backslash.\<close>

definition bs :: string where
  "bs = [CHR 0x5C]"

definition regexps :: "string list" where
  \<open>regexps = [
     ''^[a-fA-F0-9]{8}-[a-fA-F0-9]{4}-[a-fA-F0-9]{4}-[a-fA-F0-9]{4}-[a-fA-F0-9]{12}$'',
     ''^[a-zA-Z0-9][a-zA-Z0-9'' @ bs @ ''-]*[a-zA-Z0-9]$'',
     ''^[0-9]+$'',
     ''^[a-zA-Z0-9]*[a-zA-Z0-9'' @ bs @ ''_'' @ bs @ '' '' @ bs @ [CHR 0x27] @ bs @ ''.'' @ bs @ ''-]*[a-zA-Z0-9]$'',
     ''^[A-Z0-9]{4,14}[A-Z0-9]$'',
     ''^[a-f0-9]{2}:[a-f0-9]{2}:[a-f0-9]{2}:[a-f0-9]{2}:[a-f0-9]{2}:[a-f0-9]{2}$'',
     ''^(([0-9]|[1-9][0-9]|1[0-9]{2}|2[0-4][0-9]|25[0-5])'' @ bs @ ''.){3}([0-9]|[1-9][0-9]|1[0-9]{2}|2[0-4][0-9]|25[0-5])$'',
     ''^(([a-zA-Z]|[a-zA-Z][a-zA-Z0-9'' @ bs @ ''-]*[a-zA-Z0-9])'' @ bs @ ''.)*([A-Za-z]|[A-Za-z][A-Za-z0-9'' @ bs @ ''-]*[A-Za-z0-9])'' @ bs @ ''.*$'',
     ''^/([a-zA-Z0-9]*)(/([a-zA-Z0-9]+))*$'',
     ''^[a-zA-Z0-9]*[a-zA-Z0-9'' @ bs @ ''_]*[a-zA-Z0-9]$'',
     ''^[a-zA-Z0-9]+$'',
     ''^[a-zA-Z0-9][a-zA-Z0-9'' @ bs @ '' '' @ bs @ '','' @ bs @ ''.'' @ bs @ ''_'' @ bs @ ''-]*[a-zA-Z0-9]$'',
     ''^[a-z][a-z0-9]*$'',
     ''^[0-9]*'' @ bs @ '' [TGM]B$'',
     ''^[0-9]*'' @ bs @ ''.?[0-9]*$'',
     ''^[A-Z][A-Z]?[1-9][0-9]?'' @ bs @ '' ?[1-9][A-Z]{2}$'',
     ''^([a-z]{1,8}'' @ bs @ '':'' @ bs @ ''/{2})?(([a-z0-9]*([a-z0-9]['' @ bs @ ''-'' @ bs @ ''.])?[a-z0-9])+/?)*$'',
     ''^'' @ bs @ ''+?[0-9]*[0-9'' @ bs @ '' ]*[0-9]$'',
     ''^[a-zA-Z0-9]+[a-zA-Z0-9'' @ bs @ ''.'' @ bs @ ''_'' @ bs @ ''-]*@[a-zA-Z0-9]+[a-zA-Z0-9'' @ bs @ ''.'' @ bs @ ''-]+[a-zA-Z]*$'',
     ''^[a-zA-Z0-9][a-zA-Z0-9'' @ bs @ '' '' @ bs @ '','' @ bs @ ''.'' @ bs @ ''-'' @ bs @ ''_'' @ bs @ '':]*[a-zA-Z0-9]$'',
     ''^cn'' @ bs @ ''=[a-zA-Z0-9]*('' @ bs @ '',dc'' @ bs @ ''=([a-zA-Z]|[a-zA-Z][a-zA-Z0-9'' @ bs @ ''-]*[a-zA-Z0-9]))*$'',
     ''^dc'' @ bs @ ''=([a-zA-Z]|[a-zA-Z][a-zA-Z0-9'' @ bs @ ''-]*[a-zA-Z0-9])('' @ bs @ '',dc'' @ bs @ ''=([a-zA-Z]|[a-zA-Z][a-zA-Z0-9'' @ bs @ ''-]*[a-zA-Z0-9]))*$'',
     ''^[a-zA-Z]*[a-zA-Z0-9]*['' @ bs @ ''-/]*[a-zA-Z0-9]*$'',
     ''^[a-zA-Z]+[a-zA-Z0-9]*['' @ bs @ ''-]?[a-zA-Z0-9]*/[a-zA-Z0-9]+(['' @ bs @ ''_'' @ bs @ ''-]?[a-zA-Z0-9])*$'',
     ''^[a-zA-Z0-9]+$'',
     ''^[a-zA-Z0-9%]+[a-zA-Z0-9'' @ bs @ '' '' @ bs @ '','' @ bs @ ''@'' @ bs @ ''.]+$''
   ]\<close>

subsection \<open>Checking\<close>

text \<open>The code of \<open>regcomp\<close> on a range that ends before it starts.\<close>

abbreviation REG_ERANGE :: int where "REG_ERANGE \<equiv> 11"

definition ailsa_validate_string :: "cstr \<Rightarrow> string \<Rightarrow> int option" where
  "ailsa_validate_string input re_test = (case regcomp re_test of
     None \<Rightarrow> Some REG_ERANGE
   | Some re \<Rightarrow> (case input of None \<Rightarrow> None | Some s \<Rightarrow> Some (if regexec re s then 0 else -1)))"

text \<open>\<open>None\<close> for a NULL input or a test outside the table.\<close>

definition ailsa_validate_input :: "cstr \<Rightarrow> nat \<Rightarrow> int option" where
  "ailsa_validate_input input test =
    (if test < length regexps then ailsa_validate_string input (regexps ! test) else None)"

subsection \<open>What the patterns compile to\<close>

lemma length_regexps: "length regexps = 26"
  by (simp add: regexps_def)

lemmas compile_simps = regcomp_def regexps_def bs_def Let_def operator_def interval_def decimal_def
  repeated_def group_of_def sequence_of_def

definition alnum :: "(nat \<times> nat) list" where
  "alnum = [(97, 122), (65, 90), (48, 57)]"

definition digit :: ere where
  "digit = E_Set [(48, 57)]"

text \<open>The five cases of a number from 0 to 255.\<close>

definition octet_ere :: ere where
  "octet_ere = E_Alt (sequence_of [digit])
    (E_Alt (sequence_of [digit, E_Set [(49, 57)]])
    (E_Alt (sequence_of [E_Seq (times 2 digit) E_Empty, E_Set [(49, 49)]])
    (E_Alt (sequence_of [digit, E_Set [(48, 52)], E_Set [(50, 50)]])
           (sequence_of [E_Set [(48, 53)], E_Set [(53, 53)], E_Set [(50, 50)]]))))"

definition dot :: ere where
  "dot = E_Set [(46, 46)]"

lemma ip_pattern:
  "regcomp (regexps ! IP_REGEX) = Some (E_Seq E_Empty (E_Seq
     (sequence_of [octet_ere, E_Seq (times 3 (sequence_of [dot, octet_ere])) E_Empty]) E_Empty))"
  by (simp add: compile_simps octet_ere_def digit_def dot_def numeral_eq_Suc)

lemma name_pattern:
  "regcomp (regexps ! NAME_REGEX) = Some (E_Seq E_Empty (E_Seq
     (sequence_of [E_Set alnum, E_Star (E_Set (alnum @ [(92, 92), (45, 45)])), E_Set alnum]) E_Empty))"
  by (simp add: compile_simps alnum_def)

lemma timezone_pattern: "regcomp (regexps ! TIMEZONE_REGEX) = None"
  by (simp add: compile_simps)

subsection \<open>What they match\<close>

lemma validate_input:
  assumes "test < 26" "regcomp (regexps ! test) = Some r"
  shows "ailsa_validate_input (Some s) test = Some (if denotes r s then 0 else -1)"
  using assms by (simp add: ailsa_validate_input_def ailsa_validate_string_def length_regexps regexec_iff)

lemma denotes_sequence [simp]:
  "denotes (E_Seq E_Empty q) s \<longleftrightarrow> denotes q s" "denotes (E_Seq q E_Empty) s \<longleftrightarrow> denotes q s"
  by (auto simp: denotes_seq_iff)

lemma sequence_Nil [simp]: "sequence_of [] = E_Empty"
  by (simp add: sequence_of_def)

lemma denotes_set_seq [simp]:
  "denotes (E_Seq (E_Set rs) q) s \<longleftrightarrow> (\<exists>c t. s = c # t \<and> in_ranges rs c \<and> denotes q t)"
  unfolding denotes_seq_iff denotes_set_iff by (metis append_Cons append_Nil)

lemma denotes_star_set: "denotes (E_Star (E_Set rs)) s \<longleftrightarrow> list_all (in_ranges rs) s"
proof
  have "denotes q s \<Longrightarrow> q = E_Star (E_Set rs) \<Longrightarrow> list_all (in_ranges rs) s" for q
    by (induction rule: denotes.induct) auto
  then show "denotes (E_Star (E_Set rs)) s \<Longrightarrow> list_all (in_ranges rs) s" by blast
next
  show "list_all (in_ranges rs) s \<Longrightarrow> denotes (E_Star (E_Set rs)) s"
  proof (induction s)
    case (Cons c s)
    then show ?case using denotes_more [of "E_Set rs" "[c]" s] by simp
  qed (simp add: denotes_stop)
qed

lemma in_ranges_one [simp]: "in_ranges [(a, b)] c \<longleftrightarrow> a \<le> of_char c \<and> of_char c \<le> b"
  by (simp add: in_ranges_def)

lemma char_code: "(c = d) \<longleftrightarrow> (of_char c :: nat) = of_char d"
  by simp

lemma digits_value_Cons1: "is_digit a \<Longrightarrow> digits_value [a] = of_char a - 48"
  by (simp add: digits_value_def)

lemma digits_value_Cons2:
  "is_digit a \<Longrightarrow> is_digit b \<Longrightarrow> digits_value [a, b] = (of_char a - 48) * 10 + (of_char b - 48)"
  by (simp add: digits_value_def)

lemma digits_value_Cons3:
  "is_digit a \<Longrightarrow> is_digit b \<Longrightarrow> is_digit c \<Longrightarrow>
    digits_value [a, b, c] = ((of_char a - 48) * 10 + (of_char b - 48)) * 10 + (of_char c - 48)"
  by (simp add: digits_value_def)

lemma octet_ere_cases:
  "denotes octet_ere s \<longleftrightarrow>
    (\<exists>a. s = [a] \<and> is_digit a) \<or>
    (\<exists>a b. s = [a, b] \<and> 49 \<le> (of_char a :: nat) \<and> of_char a \<le> (57 :: nat) \<and> is_digit b) \<or>
    (\<exists>a b c. s = [a, b, c] \<and>
      ((of_char a = (49 :: nat) \<and> is_digit b \<and> is_digit c) \<or>
       (of_char a = (50 :: nat) \<and> 48 \<le> (of_char b :: nat) \<and> of_char b \<le> (52 :: nat) \<and> is_digit c) \<or>
       (of_char a = (50 :: nat) \<and> of_char b = (53 :: nat) \<and> 48 \<le> (of_char c :: nat) \<and>
         of_char c \<le> (53 :: nat))))"
  by (auto simp: octet_ere_def sequence_of_def digit_def is_digit_def numeral_2_eq_2)

lemma octet_denotes: "denotes octet_ere s \<longleftrightarrow> octet s \<noteq> None"
proof -
  have z: "c = CHR ''0'' \<longleftrightarrow> (of_char c :: nat) = 48" for c
    by (subst char_code) simp
  have len: "s = [] \<or> (\<exists>a. s = [a]) \<or> (\<exists>a b. s = [a, b]) \<or> (\<exists>a b c. s = [a, b, c]) \<or> 3 < length s"
    by (cases s; cases "tl s"; cases "tl (tl s)"; cases "tl (tl (tl s))") auto
  show ?thesis
    using len
  proof (elim disjE exE)
    fix a b c assume s: "s = [a, b, c]"
    show ?thesis
      unfolding octet_ere_cases using s
      by (auto simp: octet_def z is_digit_def digits_value_Cons3)
  next
    fix a b assume s: "s = [a, b]"
    show ?thesis
      unfolding octet_ere_cases using s
      by (auto simp: octet_def z is_digit_def digits_value_Cons2)
  next
    fix a assume s: "s = [a]"
    show ?thesis
      unfolding octet_ere_cases using s
      by (auto simp: octet_def is_digit_def digits_value_Cons1)
  qed (auto simp: octet_ere_cases octet_def)
qed

lemma octet_no_dot: "octet s = Some n \<Longrightarrow> CHR ''.'' \<notin> set s"
  using octet_cases by fastforce

lemma denotes_assoc: "denotes (E_Seq (E_Seq r q) p) s \<longleftrightarrow> denotes (E_Seq r (E_Seq q p)) s"
  unfolding denotes_seq_iff by (metis append_assoc)

lemma denotes_dotted:
  "denotes (E_Seq (sequence_of [dot, octet_ere]) q) s \<longleftrightarrow>
    (\<exists>a t. s = a @ ''.'' @ t \<and> denotes octet_ere a \<and> denotes q t)"
proof -
  have e: "in_ranges [(46, 46)] c \<longleftrightarrow> c = CHR ''.''" for c
    by (subst char_code) auto
  have "denotes (E_Seq (sequence_of [dot, octet_ere]) q) s \<longleftrightarrow>
      denotes (E_Seq octet_ere (E_Seq (E_Seq dot E_Empty) q)) s"
    by (simp add: sequence_of_def denotes_assoc)
  also have "\<dots> \<longleftrightarrow> (\<exists>a t. s = a @ ''.'' @ t \<and> denotes octet_ere a \<and> denotes q t)"
    unfolding denotes_seq_iff [of octet_ere] denotes_assoc dot_def denotes_set_seq e
    by (auto simp: denotes_seq_iff [of E_Empty])
  finally show ?thesis .
qed

lemma ip_denotes:
  "denotes (E_Seq E_Empty (E_Seq
     (sequence_of [octet_ere, E_Seq (times 3 (sequence_of [dot, octet_ere])) E_Empty]) E_Empty)) s \<longleftrightarrow>
   pton4 s \<noteq> None"
  (is "denotes ?r s \<longleftrightarrow> _")
proof -
  have "denotes ?r s \<longleftrightarrow> (\<exists>a b c d. s = a @ ''.'' @ b @ ''.'' @ c @ ''.'' @ d \<and> denotes octet_ere a \<and>
      denotes octet_ere b \<and> denotes octet_ere c \<and> denotes octet_ere d)"
    by (simp add: sequence_of_def [of "[_, E_Seq _ _]"] denotes_assoc numeral_3_eq_3 denotes_dotted)
       fastforce
  also have "\<dots> \<longleftrightarrow> pton4 s \<noteq> None"
  proof
    assume "\<exists>a b c d. s = a @ ''.'' @ b @ ''.'' @ c @ ''.'' @ d \<and> denotes octet_ere a \<and>
      denotes octet_ere b \<and> denotes octet_ere c \<and> denotes octet_ere d"
    then obtain a b c d k l m n where s: "s = a @ ''.'' @ b @ ''.'' @ c @ ''.'' @ d" "octet a = Some k"
      "octet b = Some l" "octet c = Some m" "octet d = Some n"
      by (auto simp: octet_denotes)
    then have "split_dots s = [a, b, c, d]"
      using octet_no_dot by (simp add: split_dots_append split_dots_last)
    then show "pton4 s \<noteq> None" using s by (simp add: pton4_def)
  next
    assume "pton4 s \<noteq> None"
    then obtain a b c d where "a \<le> 255" "b \<le> 255" "c \<le> 255" "d \<le> 255" "s = dotted a b c d"
      by (auto elim: pton4_cases)
    then show "\<exists>a b c d. s = a @ ''.'' @ b @ ''.'' @ c @ ''.'' @ d \<and> denotes octet_ere a \<and>
        denotes octet_ere b \<and> denotes octet_ere c \<and> denotes octet_ere d"
      by (intro exI [of _ "dec a"] exI [of _ "dec b"] exI [of _ "dec c"] exI [of _ "dec d"])
         (simp add: dotted_def octet_denotes)
  qed
  finally show ?thesis .
qed

text \<open>A name: at least two characters, letters and digits at both ends, and between them also hyphens
  and, because the bracket takes it literally, backslashes.\<close>

lemma name_denotes:
  "denotes (E_Seq E_Empty (E_Seq
     (sequence_of [E_Set alnum, E_Star (E_Set (alnum @ [(92, 92), (45, 45)])), E_Set alnum]) E_Empty)) s \<longleftrightarrow>
   (\<exists>a m z. s = a # m @ [z] \<and> in_ranges alnum a \<and> in_ranges alnum z \<and>
      list_all (in_ranges (alnum @ [(92, 92), (45, 45)])) m)"
  by (simp add: sequence_of_def denotes_seq_iff [of "E_Star _"] denotes_star_set) fastforce

lemma name_input_language:
  "ailsa_validate_input (Some s) NAME_REGEX = Some (if \<exists>a m z. s = a # m @ [z] \<and> in_ranges alnum a \<and>
      in_ranges alnum z \<and> list_all (in_ranges (alnum @ [(92, 92), (45, 45)])) m then 0 else -1)"
  using validate_input [OF _ name_pattern] name_denotes by simp

lemma name_with_backslash: "ailsa_validate_input (Some (''a'' @ bs @ ''b'')) NAME_REGEX = Some 0"
  unfolding name_input_language by (auto simp: bs_def alnum_def in_ranges_def intro: exI [of _ "bs"])

lemma ip_validates:
  "ailsa_validate_input (Some s) IP_REGEX = Some (if pton4 s \<noteq> None then 0 else -1)"
  using validate_input [OF _ ip_pattern] ip_denotes by simp

text \<open>A domain name: labels that start with a letter, each followed by a dot, and a last one.\<close>

definition domain_ere :: ere where
  "domain_ere =
    (let letters = [(97, 122), (65, 90)]; capitals = [(65, 90), (97, 122)]
     in E_Seq E_Empty (E_Seq (E_Seq
       (E_Star (E_Seq
         (E_Alt (E_Seq (E_Set letters) E_Empty)
           (E_Seq (E_Set letters) (E_Seq (E_Star (E_Set (alnum @ [(92, 92), (45, 45)])))
             (E_Seq (E_Set alnum) E_Empty))))
         (E_Seq dot E_Empty)))
       (E_Seq
         (E_Alt (E_Seq (E_Set capitals) E_Empty)
           (E_Seq (E_Set capitals) (E_Seq (E_Star (E_Set (capitals @ [(48, 57), (92, 92), (45, 45)])))
             (E_Seq (E_Set (capitals @ [(48, 57)])) E_Empty))))
         (E_Seq (E_Star dot) E_Empty))) E_Empty))"

lemma domain_pattern: "regcomp (regexps ! DOMAIN_REGEX) = Some domain_ere"
  by (simp add: compile_simps domain_ere_def alnum_def dot_def)

lemma denotes_alt_seq:
  "denotes (E_Seq (E_Alt r q) p) s \<longleftrightarrow> denotes (E_Seq r p) s \<or> denotes (E_Seq q p) s"
  by (auto simp: denotes_seq_iff)

lemma denotes_star_seq:
  assumes "denotes (E_Seq (E_Star r) q) (c # s)"
  shows "(\<exists>t. denotes r (c # t)) \<or> denotes q (c # s)"
  using assms unfolding denotes_seq_iff [of "E_Star r"]
  by (auto simp: Cons_eq_append_conv dest!: denotes_star_Cons)

lemma domain_starts_with_letter:
  assumes "denotes domain_ere (c # s)"
  shows "\<not> is_digit c"
proof -
  have "(65 :: nat) \<le> of_char c"
    using assms unfolding domain_ere_def Let_def
    by (auto simp: denotes_assoc denotes_alt_seq in_ranges_def dest!: denotes_star_seq)
  then show ?thesis by (simp add: is_digit_def)
qed

text \<open>No IP address is a name or a domain name.\<close>

lemma octet_digit: "octet s = Some n \<Longrightarrow> s \<noteq> [] \<and> is_digit (hd s)"
  by (cases s) (auto simp: octet_def split: if_splits)

lemma ip_not_name:
  assumes "pton4 s \<noteq> None" shows "ailsa_validate_input (Some s) NAME_REGEX = Some (-1)"
proof -
  obtain a b c d where s: "s = dotted a b c d" using assms by (auto elim: pton4_cases)
  have "CHR ''.'' \<in> set s" by (simp add: s dotted_def)
  moreover have "\<not> in_ranges (alnum @ [(92, 92), (45, 45)]) CHR ''.''" "\<not> in_ranges alnum CHR ''.''"
    by (simp_all add: alnum_def in_ranges_def)
  ultimately show ?thesis
    unfolding name_input_language by (auto simp: list_all_iff)
qed

lemma ip_not_domain:
  assumes "pton4 s \<noteq> None" shows "ailsa_validate_input (Some s) DOMAIN_REGEX = Some (-1)"
proof -
  obtain a b c d where s: "s = dotted a b c d" "a \<le> 255" using assms by (auto elim: pton4_cases)
  obtain x xs where x: "s = x # xs" "is_digit x"
    using octet_digit [OF octet_dec [OF s(2)]] s by (cases "dec a") (auto simp: dotted_def)
  then have "\<not> denotes domain_ere s" using domain_starts_with_letter by blast
  then show ?thesis using validate_input [OF _ domain_pattern] by simp
qed

subsection \<open>Properties\<close>

text \<open>A text passes the check for IP addresses exactly when the conversion to a binary address
  accepts it: no address that was checked fails to convert later.\<close>

theorem ip_check_agrees_with_conversion:
  "ailsa_validate_input (Some s) IP_REGEX =
    Some (if fst (convert_text_ipv4_to_bin (Some s)) = 0 then 0 else -1)"
  by (simp add: ip_validates convert_text_ipv4_to_bin_def split: option.splits)

text \<open>The pattern for time zones does not compile (its bracket holds a range from the backslash down to
  the slash), and the check returns the positive code of \<open>regcomp\<close>: no caller that looks for a negative
  result ever refuses a time zone.\<close>

theorem timezone_check_never_fails:
  "ailsa_validate_input tz TIMEZONE_REGEX = Some REG_ERANGE \<and> \<not> REG_ERANGE < 0"
  by (simp add: ailsa_validate_input_def ailsa_validate_string_def length_regexps timezone_pattern)

end
