(* ===== verification/Dnsa_Cmdline.thy ===== *)
theory Dnsa_Cmdline
  imports Ailsa_Regexp
begin

text \<open>
  src/dnsa.c: the command line of the DNS command.  The options are read in the order \<open>getopt_long\<close>
  delivers them (a list of option characters, each with its argument text, \<open>''''\<close> where it takes
  none), the action and the zone type are checked against each other, and the texts are checked
  against the patterns of lib/regexp.c.
\<close>

subsection \<open>The parsed command line\<close>

abbreviation GLUE_ZONE :: int where "GLUE_ZONE \<equiv> 3"
abbreviation TEST_ZONE :: int where "TEST_ZONE \<equiv> 4"

record dnsa_comm_line_s =
  dcl_action :: int
  dcl_type :: int
  dcl_prefix :: u64
  dcl_rtype :: cstr
  dcl_ztype :: cstr
  dcl_service :: cstr
  dcl_protocol :: cstr
  dcl_domain :: cstr
  dcl_toplevel :: cstr
  dcl_config :: cstr
  dcl_host :: cstr
  dcl_dest :: cstr
  dcl_master :: cstr
  dcl_glue_ip :: cstr
  dcl_glue_ns :: cstr

definition comm_line_zero :: dnsa_comm_line_s where
  "comm_line_zero = \<lparr>dcl_action = 0, dcl_type = 0, dcl_prefix = 0, dcl_rtype = None, dcl_ztype = None,
     dcl_service = None, dcl_protocol = None, dcl_domain = None, dcl_toplevel = None,
     dcl_config = None, dcl_host = None, dcl_dest = None, dcl_master = None, dcl_glue_ip = None,
     dcl_glue_ns = None\<rparr>"

subsection \<open>Options\<close>

text \<open>One option; \<open>None\<close> is the default case, which makes the command print its usage.\<close>

definition dnsa_option :: "char \<Rightarrow> string \<Rightarrow> dnsa_comm_line_s \<Rightarrow> dnsa_comm_line_s option" where
  "dnsa_option opt optarg cl =
    (if opt = CHR ''a'' then Some (cl\<lparr>dcl_action := DNSA_AHOST, dcl_type := FORWARD_ZONE\<rparr>)
     else if opt = CHR ''b'' then Some (cl\<lparr>dcl_action := DNSA_BREV, dcl_type := REVERSE_ZONE\<rparr>)
     else if opt = CHR ''d'' then Some (cl\<lparr>dcl_action := DNSA_DISPLAY\<rparr>)
     else if opt = CHR ''e'' then
       Some (cl\<lparr>dcl_action := DNSA_ADD_MULTI, dcl_type := REVERSE_ZONE, dcl_rtype := Some ''A''\<rparr>)
     else if opt = CHR ''g'' then Some (cl\<lparr>dcl_action := DNSA_DPREFA, dcl_type := REVERSE_ZONE\<rparr>)
     else if opt = CHR ''l'' then Some (cl\<lparr>dcl_action := DNSA_LIST\<rparr>)
     else if opt = CHR ''m'' then Some (cl\<lparr>dcl_action := DNSA_CNAME, dcl_type := FORWARD_ZONE\<rparr>)
     else if opt = CHR ''r'' then Some (cl\<lparr>dcl_action := DNSA_DREC, dcl_type := FORWARD_ZONE\<rparr>)
     else if opt = CHR ''u'' then Some (cl\<lparr>dcl_action := DNSA_DISPLAY_MULTI, dcl_type := REVERSE_ZONE\<rparr>)
     else if opt = CHR ''w'' then Some (cl\<lparr>dcl_action := DNSA_COMMIT\<rparr>)
     else if opt = CHR ''x'' then Some (cl\<lparr>dcl_action := DNSA_DZONE\<rparr>)
     else if opt = CHR ''z'' then Some (cl\<lparr>dcl_action := DNSA_AZONE\<rparr>)
     else if opt = CHR ''F'' then Some (cl\<lparr>dcl_type := FORWARD_ZONE\<rparr>)
     else if opt = CHR ''R'' then Some (cl\<lparr>dcl_type := REVERSE_ZONE\<rparr>)
     else if opt = CHR ''G'' then Some (cl\<lparr>dcl_type := GLUE_ZONE\<rparr>)
     else if opt = CHR ''T'' then Some (cl\<lparr>dcl_type := TEST_ZONE\<rparr>)
     else if opt = CHR ''S'' then Some (cl\<lparr>dcl_ztype := Some ''slave''\<rparr>)
     else if opt = CHR ''M'' then Some (cl\<lparr>dcl_master := Some (strndup optarg DOMAIN_LEN)\<rparr>)
     else if opt = CHR ''I'' then Some (cl\<lparr>dcl_glue_ip := Some (strndup optarg MAC_LEN)\<rparr>)
     else if opt = CHR ''N'' then Some (cl\<lparr>dcl_glue_ns := Some (strndup optarg FILE_LEN)\<rparr>)
     else if opt = CHR ''h'' then Some (cl\<lparr>dcl_host := Some (strndup optarg DOMAIN_LEN)\<rparr>)
     else if opt = CHR ''i'' then Some (cl\<lparr>dcl_dest := Some (strndup optarg DOMAIN_LEN)\<rparr>)
     else if opt = CHR ''n'' then Some (cl\<lparr>dcl_domain := Some (strndup optarg DOMAIN_LEN)\<rparr>)
     else if opt = CHR ''o'' then Some (cl\<lparr>dcl_protocol := Some (strndup optarg SERVICE_LEN)\<rparr>)
     else if opt = CHR ''p'' then Some (cl\<lparr>dcl_prefix := strtoul10 optarg\<rparr>)
     else if opt = CHR ''s'' then
       Some (cl\<lparr>dcl_service := Some (strndup optarg SERVICE_LEN),
         dcl_host := (case dcl_host cl of None \<Rightarrow> Some (strndup optarg SERVICE_LEN) | Some h \<Rightarrow> Some h)\<rparr>)
     else if opt = CHR ''t'' then Some (cl\<lparr>dcl_rtype := Some (strndup optarg SERVICE_LEN)\<rparr>)
     else if opt = CHR ''v'' then Some (cl\<lparr>dcl_action := AILSA_VERSION\<rparr>)
     else None)"

fun dnsa_options :: "(char \<times> string) list \<Rightarrow> dnsa_comm_line_s \<Rightarrow> int \<times> dnsa_comm_line_s" where
  "dnsa_options [] cl = (0, cl)"
| "dnsa_options ((opt, optarg) # rest) cl = (case dnsa_option opt optarg cl of
     None \<Rightarrow> (AILSA_DISPLAY_USAGE, cl)
   | Some cl' \<Rightarrow> dnsa_options rest cl')"

text \<open>A text that may be missing, compared as \<open>p && strncmp(p, t, BYTE_LEN) == 0\<close>.\<close>

fun text_is :: "cstr \<Rightarrow> string \<Rightarrow> bool" where
  "text_is None t = False"
| "text_is (Some s) t = strncmp_eq s t BYTE_LEN"

text \<open>The defaults of an SRV and of an MX record that is to be added.\<close>

definition dnsa_srv_defaults :: "dnsa_comm_line_s \<Rightarrow> int \<times> dnsa_comm_line_s" where
  "dnsa_srv_defaults cl0 =
    (let cl1 = (if dcl_host cl0 \<noteq> None \<and> dcl_dest cl0 = None
                  then cl0\<lparr>dcl_dest := map_option (\<lambda>h. strndup h DOMAIN_LEN) (dcl_host cl0)\<rparr>
                  else cl0);
         cl2 = (if dcl_protocol cl1 = None then cl1\<lparr>dcl_protocol := Some ''tcp''\<rparr> else cl1)
     in if \<not> (text_is (dcl_protocol cl2) ''tcp'' \<or> text_is (dcl_protocol cl2) ''udp'')
        then (PROTOCOL_INVALID, cl2)
        else (0, if dcl_prefix cl2 = 0 then cl2\<lparr>dcl_prefix := 100\<rparr> else cl2))"

definition dnsa_record_defaults :: "dnsa_comm_line_s \<Rightarrow> int \<times> dnsa_comm_line_s" where
  "dnsa_record_defaults cl =
    (if dcl_rtype cl \<noteq> None \<and> dcl_action cl = DNSA_AHOST then
       (let (retval, cl1) = (if text_is (dcl_rtype cl) ''SRV'' then dnsa_srv_defaults cl else (0, cl))
        in if retval \<noteq> 0 then (retval, cl1)
           else if text_is (dcl_rtype cl1) ''MX'' \<and> dcl_prefix cl1 = 0
           then (0, cl1\<lparr>dcl_prefix := 100\<rparr>) else (0, cl1))
     else (0, cl))"

text \<open>The checks of the action against the zone type and of the texts each action needs.\<close>

definition dnsa_check_action :: "dnsa_comm_line_s \<Rightarrow> int" where
  "dnsa_check_action cl =
    (let retval = (if dcl_ztype cl \<noteq> None \<and> dcl_master cl = None \<and> dcl_action cl \<noteq> DNSA_DZONE
                   then AILSA_NO_MASTER else 0)
     in if dcl_action cl = NONE \<and> dcl_type cl = NONE \<and> dcl_domain cl = None then AILSA_DISPLAY_USAGE
        else if dcl_action cl = AILSA_VERSION then AILSA_VERSION
        else if dcl_action cl = NONE then AILSA_NO_ACTION
        else if dcl_type cl = NONE then AILSA_NO_TYPE
        else if dcl_domain cl = None \<and> dcl_action cl \<noteq> DNSA_LIST \<and> dcl_action cl \<noteq> DNSA_DISPLAY_MULTI \<and>
          dcl_action cl \<noteq> DNSA_DPREFA \<and> dcl_action cl \<noteq> DNSA_COMMIT then AILSA_NO_DOMAIN_NAME
        else if dcl_action cl = DNSA_DISPLAY_MULTI \<and> dcl_domain cl = None \<and> dcl_dest cl = None
        then AILSA_NO_DOMAIN_NAME
        else if dcl_action cl = DNSA_DISPLAY_MULTI \<and> dcl_domain cl \<noteq> None \<and> dcl_dest cl \<noteq> None
        then AILSA_DOMAIN_AND_IP_GIVEN
        else if dcl_action cl = DNSA_AHOST \<and> dcl_dest cl = None then AILSA_NO_IP_ADDRESS
        else if (dcl_action cl = DNSA_AHOST \<or> dcl_action cl = DNSA_DREC \<or> dcl_action cl = DNSA_CNAME) \<and>
          dcl_host cl = None then AILSA_NO_HOST_NAME
        else if dcl_action cl = DNSA_AHOST \<and> dcl_rtype cl = None then AILSA_NO_RECORD_TYPE
        else if dcl_action cl = DNSA_AZONE \<and> dcl_type cl = REVERSE_ZONE \<and> dcl_prefix cl = 0
        then AILSA_NO_PREFIX
        else if dcl_type cl = GLUE_ZONE \<and> dcl_glue_ns cl = None \<and> dcl_action cl = DNSA_AZONE
        then AILSA_NO_GLUE_NS
        else retval)"

subsection \<open>Checking the texts\<close>

text \<open>
  Conditions of the checks: \<open>None\<close> is the undefined behaviour of passing NULL to \<open>strncmp\<close> or
  \<open>regexec\<close>.  \<open>refuse c code rest\<close> is \<open>if (c) return code; rest\<close>, \<open>given p c\<close> is \<open>p && c\<close>.
\<close>

definition invalid :: "cstr \<Rightarrow> nat \<Rightarrow> bool option" where
  "invalid s test = map_option (\<lambda>r. r < 0) (ailsa_validate_input s test)"

definition c_and :: "bool option \<Rightarrow> bool option \<Rightarrow> bool option" where
  "c_and a b = do { x \<leftarrow> a; if x then b else Some False }"

definition given :: "cstr \<Rightarrow> bool option \<Rightarrow> bool option" where
  "given p c = (if p = None then Some False else c)"

definition refuse :: "bool option \<Rightarrow> int \<Rightarrow> int option \<Rightarrow> int option" where
  "refuse c code rest = do { x \<leftarrow> c; if x then Some code else rest }"

definition differs :: "cstr \<Rightarrow> string \<Rightarrow> bool option" where
  "differs s t = map_option (\<lambda>x. \<not> strncmp_eq x t BYTE_LEN) s"

text \<open>The checks that depend on the type of the record.\<close>

definition validate_record_a :: "dnsa_comm_line_s \<Rightarrow> int option \<Rightarrow> int option" where
  "validate_record_a comm rest =
     refuse (given (dcl_dest comm) (invalid (dcl_dest comm) IP_REGEX)) DEST_INPUT_INVALID
      (do { named \<leftarrow> differs (dcl_host comm) ''@'';
            if \<not> named
            then refuse (c_and (invalid (dcl_dest comm) NAME_REGEX) (invalid (dcl_dest comm) DOMAIN_REGEX))
                   DEST_INPUT_INVALID rest
            else refuse (c_and (invalid (dcl_host comm) NAME_REGEX) (invalid (dcl_host comm) DOMAIN_REGEX))
                   HOST_INPUT_INVALID rest })"

definition validate_record_ns_mx :: "dnsa_comm_line_s \<Rightarrow> int option \<Rightarrow> int option" where
  "validate_record_ns_mx comm rest =
     refuse (given (dcl_dest comm) (invalid (dcl_dest comm) DOMAIN_REGEX)) DEST_INPUT_INVALID
      (refuse (c_and (differs (dcl_host comm) ''NULL'')
                (c_and (differs (dcl_host comm) ''@'') (invalid (dcl_host comm) NAME_REGEX)))
         HOST_INPUT_INVALID rest)"

definition validate_record_srv :: "dnsa_comm_line_s \<Rightarrow> int option \<Rightarrow> int option" where
  "validate_record_srv comm rest =
     refuse (given (dcl_dest comm)
         (c_and (invalid (dcl_dest comm) DOMAIN_REGEX) (invalid (dcl_dest comm) NAME_REGEX)))
       DEST_INPUT_INVALID
      (refuse (given (dcl_service comm) (invalid (dcl_service comm) NAME_REGEX))
         SERVICE_INPUT_INVALID rest)"

definition validate_record_cname :: "dnsa_comm_line_s \<Rightarrow> int option \<Rightarrow> int option" where
  "validate_record_cname comm rest =
     refuse (given (dcl_dest comm)
         (c_and (invalid (dcl_dest comm) DOMAIN_REGEX) (invalid (dcl_dest comm) NAME_REGEX)))
       DEST_INPUT_INVALID
      (refuse (c_and (invalid (dcl_host comm) DOMAIN_REGEX) (invalid (dcl_host comm) NAME_REGEX))
         HOST_INPUT_INVALID rest)"

definition validate_record :: "dnsa_comm_line_s \<Rightarrow> int option \<Rightarrow> int option" where
  "validate_record comm rest =
    (if text_is (dcl_rtype comm) ''A'' then validate_record_a comm rest
     else if text_is (dcl_rtype comm) ''NS'' \<or> text_is (dcl_rtype comm) ''MX''
     then validate_record_ns_mx comm rest
     else if text_is (dcl_rtype comm) ''SRV'' then validate_record_srv comm rest
     else if text_is (dcl_rtype comm) ''CNAME'' then validate_record_cname comm rest
     else rest)"

text \<open>To delete an SRV record its protocol, service and priority must all be there.\<close>

definition validate_delete :: "dnsa_comm_line_s \<Rightarrow> int option \<Rightarrow> int option" where
  "validate_delete comm rest =
    (if dcl_action comm \<noteq> DNSA_DREC then rest
     else if dcl_protocol comm \<noteq> None then
       (if dcl_prefix comm = 0 then Some AILSA_NO_PRIORITY
        else if dcl_service comm = None then Some AILSA_NO_SERVICE else rest)
     else if dcl_service comm \<noteq> None then
       (if dcl_prefix comm = 0 then Some AILSA_NO_PRIORITY else Some AILSA_NO_PROTOCOL)
     else rest)"

definition validate_cname_or_txt :: "dnsa_comm_line_s \<Rightarrow> int option \<Rightarrow> int option" where
  "validate_cname_or_txt comm rest =
    (if dcl_action comm = DNSA_CNAME then
       refuse (invalid (dcl_domain comm) DOMAIN_REGEX) DOMAIN_INPUT_INVALID
        (refuse (invalid (dcl_host comm) NAME_REGEX) HOST_INPUT_INVALID
          (refuse (given (dcl_toplevel comm) (invalid (dcl_toplevel comm) DOMAIN_REGEX))
             DOMAIN_INPUT_INVALID rest))
     else (case dcl_host comm of
       None \<Rightarrow> rest
     | Some host \<Rightarrow>
         if text_is (dcl_rtype comm) ''TXT'' then
           refuse (if host \<noteq> [] \<and> hd host = CHR ''_'' then invalid (Some (tl host)) NAME_REGEX
                   else invalid (Some host) NAME_REGEX) HOST_INPUT_INVALID
            (refuse (given (dcl_dest comm) (invalid (dcl_dest comm) TXTRR_REGEX)) DEST_INPUT_INVALID rest)
         else rest))"

text \<open>Two values and a comma: the pattern without its final \<open>$\<close>, the escaped comma, and the pattern again
  without its initial \<open>^\<close>, built in a buffer of \<open>CONFIG_LEN\<close> characters that holds it.\<close>

definition pair_pattern :: "nat \<Rightarrow> string" where
  "pair_pattern test = snprintf_s (length (regexps ! test)) (regexps ! test) @ bs @ '','' @
     drop 1 (regexps ! test)"

definition glue_ip_check :: "dnsa_comm_line_s \<Rightarrow> bool option" where
  "glue_ip_check comm = (case dcl_glue_ip comm of
     None \<Rightarrow> Some False
   | Some ip \<Rightarrow>
       if strchr ip CHR '','' \<noteq> None
       then map_option (\<lambda>r. r < 0) (ailsa_validate_string (Some ip) (pair_pattern IP_REGEX))
       else if dcl_action comm \<noteq> DNSA_DZONE then invalid (Some ip) IP_REGEX
       else Some False)"

definition glue_ns_check :: "dnsa_comm_line_s \<Rightarrow> bool option" where
  "glue_ns_check comm = (case dcl_glue_ns comm of
     None \<Rightarrow> Some False
   | Some ns \<Rightarrow>
       if strchr ns CHR '','' \<noteq> None
       then map_option (\<lambda>r. r < 0) (ailsa_validate_string (Some ns) (pair_pattern DOMAIN_REGEX))
       else invalid (Some ns) DOMAIN_REGEX)"

definition validate_glue_comm_line :: "dnsa_comm_line_s \<Rightarrow> int option" where
  "validate_glue_comm_line comm =
    (if length (regexps ! IP_REGEX) + length (regexps ! DOMAIN_REGEX) + 4 > CONFIG_LEN
     then Some AILSA_BUFFER_TOO_SMALL
     else refuse (glue_ip_check comm) GLUE_IP_INPUT_INVALID
           (refuse (glue_ns_check comm) GLUE_NS_INPUT_INVALID (Some 0)))"

definition validate_fwd_comm_line :: "dnsa_comm_line_s \<Rightarrow> int option" where
  "validate_fwd_comm_line comm =
     refuse (given (dcl_rtype comm) (invalid (dcl_rtype comm) RESOURCE_TYPE_REGEX)) RTYPE_INPUT_INVALID
      (refuse (given (dcl_domain comm) (invalid (dcl_domain comm) DOMAIN_REGEX)) DOMAIN_INPUT_INVALID
        (validate_record comm
          (validate_delete comm
            (validate_cname_or_txt comm
              (refuse (given (dcl_service comm) (invalid (dcl_service comm) NAME_REGEX)) SERVICE_INPUT_INVALID
                (if dcl_type comm = GLUE_ZONE \<and> dcl_action comm \<noteq> DNSA_DISPLAY
                 then validate_glue_comm_line comm else Some 0))))))"

definition validate_rev_comm_line :: "dnsa_comm_line_s \<Rightarrow> int option" where
  "validate_rev_comm_line comm =
     refuse (if dcl_domain comm \<noteq> None \<and> dcl_action comm \<noteq> DNSA_ADD_MULTI \<and> dcl_action comm \<noteq> DNSA_DPREFA
             then invalid (dcl_domain comm) IP_REGEX else Some False) DOMAIN_INPUT_INVALID
      ((if dcl_action comm = DNSA_ADD_MULTI then
          (\<lambda>rest. refuse (invalid (dcl_domain comm) DOMAIN_REGEX) DOMAIN_INPUT_INVALID
            (refuse (invalid (dcl_dest comm) IP_REGEX) DEST_INPUT_INVALID
              (refuse (invalid (dcl_host comm) NAME_REGEX) HOST_INPUT_INVALID rest)))
        else (\<lambda>rest. rest))
       (refuse (given (dcl_dest comm) (invalid (dcl_dest comm) IP_REGEX)) DEST_INPUT_INVALID (Some 0)))"

definition validate_comm_line :: "dnsa_comm_line_s \<Rightarrow> int option" where
  "validate_comm_line comm =
    (if dcl_action comm = DNSA_LIST \<or> dcl_action comm = DNSA_COMMIT then Some 0
     else if dcl_type comm = FORWARD_ZONE \<or> dcl_type comm = GLUE_ZONE then validate_fwd_comm_line comm
     else if dcl_type comm = REVERSE_ZONE then validate_rev_comm_line comm
     else Some AILSA_UNKNOWN_ZONE_TYPE)"

text \<open>The whole function.  Its test of the prefix asks for a prefix below 8 and above 24.\<close>

definition dnsa_finish :: "dnsa_comm_line_s \<Rightarrow> (int \<times> dnsa_comm_line_s) option" where
  "dnsa_finish cl =
    (let retval1 = dnsa_check_action cl;
         cl1 = (if retval1 = AILSA_NO_GLUE_NS then cl\<lparr>dcl_glue_ns := Some ''ns1,ns2''\<rparr> else cl);
         retval2 = (if retval1 = AILSA_NO_GLUE_NS then NONE else retval1);
         retval3 = (if 0 < dcl_prefix cl1 \<and> dcl_action cl1 = DNSA_AZONE \<and>
                       (dcl_prefix cl1 < 8 \<and> 24 < dcl_prefix cl1)
                    then AILSA_PREFIX_OUT_OF_RANGE else retval2)
     in if retval3 = 0 then map_option (\<lambda>r. (r, cl1)) (validate_comm_line cl1)
        else Some (retval3, cl1))"

definition parse_dnsa_command_line ::
  "(char \<times> string) list \<Rightarrow> dnsa_comm_line_s \<Rightarrow> (int \<times> dnsa_comm_line_s) option" where
  "parse_dnsa_command_line options cl =
    (let (retval, cl1) = dnsa_options options cl
     in if retval \<noteq> 0 then Some (retval, cl1)
        else let (retval2, cl2) = dnsa_record_defaults cl1
             in if retval2 \<noteq> 0 then Some (retval2, cl2) else dnsa_finish cl2)"

subsection \<open>Checked texts\<close>

lemma refuse_zero: "refuse c code rest = Some 0 \<Longrightarrow> code \<noteq> 0 \<Longrightarrow> c = Some False \<and> rest = Some 0"
  by (cases c) (auto simp: refuse_def split: if_splits)

lemma refuse_simps [simp]:
  "refuse (Some False) code rest = rest" "refuse (Some True) code rest = Some code"
  "refuse None code rest = None"
  by (simp_all add: refuse_def)

lemma given_simps [simp]: "given None c = Some False" "given (Some p) c = c"
  by (simp_all add: given_def)

lemma c_and_simps [simp]:
  "c_and (Some False) c = Some False" "c_and (Some True) c = c" "c_and None c = None"
  by (simp_all add: c_and_def)

lemma differs_simps [simp]:
  "differs None t = None" "differs (Some s) t = Some (\<not> strncmp_eq s t BYTE_LEN)"
  by (simp_all add: differs_def)

lemma invalid_ip: "invalid (Some s) IP_REGEX = Some (pton4 s = None)"
  by (simp add: invalid_def ip_validates)

lemma ip_no_name:
  "pton4 s \<noteq> None \<Longrightarrow> invalid (Some s) NAME_REGEX = Some True"
  "pton4 s \<noteq> None \<Longrightarrow> invalid (Some s) DOMAIN_REGEX = Some True"
  using ip_not_name [of s] ip_not_domain [of s] by (auto simp: invalid_def)

lemma invalid_NULL: "invalid None NAME_REGEX = None"
  using name_pattern by (simp del: One_nat_def add: invalid_def ailsa_validate_input_def
      ailsa_validate_string_def length_regexps)

text \<open>The codes the checks return: which of them a given code can come from.\<close>

lemma refuse_code:
  "refuse c code rest = Some r \<Longrightarrow> r = code \<or> rest = Some r"
  by (auto simp: refuse_def bind_eq_Some_conv split: if_splits)

subsection \<open>Accepted command lines\<close>

text \<open>What the operations of the DNS command rely on.\<close>

definition action_texts_ok :: "dnsa_comm_line_s \<Rightarrow> bool" where
  "action_texts_ok cl \<longleftrightarrow>
     dcl_action cl \<noteq> NONE \<and> dcl_action cl \<noteq> AILSA_VERSION \<and> dcl_type cl \<noteq> NONE \<and>
     (dcl_domain cl \<noteq> None \<or>
       dcl_action cl \<in> {DNSA_LIST, DNSA_DISPLAY_MULTI, DNSA_DPREFA, DNSA_COMMIT}) \<and>
     (dcl_action cl = DNSA_DISPLAY_MULTI \<longrightarrow> (dcl_domain cl = None) \<noteq> (dcl_dest cl = None)) \<and>
     (dcl_action cl = DNSA_AHOST \<longrightarrow> dcl_dest cl \<noteq> None \<and> dcl_rtype cl \<noteq> None) \<and>
     (dcl_action cl \<in> {DNSA_AHOST, DNSA_DREC, DNSA_CNAME} \<longrightarrow> dcl_host cl \<noteq> None) \<and>
     (dcl_action cl = DNSA_AHOST \<and> text_is (dcl_rtype cl) ''SRV'' \<longrightarrow>
       (text_is (dcl_protocol cl) ''tcp'' \<or> text_is (dcl_protocol cl) ''udp'') \<and> dcl_prefix cl \<noteq> 0) \<and>
     (dcl_action cl = DNSA_AHOST \<and> text_is (dcl_rtype cl) ''MX'' \<longrightarrow> dcl_prefix cl \<noteq> 0) \<and>
     (dcl_action cl = DNSA_AZONE \<and> dcl_type cl = REVERSE_ZONE \<longrightarrow> dcl_prefix cl \<noteq> 0)"

definition glue_ns_ok :: "dnsa_comm_line_s \<Rightarrow> bool" where
  "glue_ns_ok cl \<longleftrightarrow>
     (dcl_action cl = DNSA_AZONE \<and> dcl_type cl = GLUE_ZONE \<longrightarrow> dcl_glue_ns cl \<noteq> None)"

text \<open>Besides, the address of a reverse zone is an IP address, and so is the destination.\<close>

definition reverse_texts_ok :: "dnsa_comm_line_s \<Rightarrow> bool" where
  "reverse_texts_ok cl \<longleftrightarrow>
     (dcl_type cl = REVERSE_ZONE \<and> dcl_action cl \<notin> {DNSA_LIST, DNSA_COMMIT} \<longrightarrow>
       (\<forall>d. dcl_dest cl = Some d \<longrightarrow> pton4 d \<noteq> None) \<and>
       (dcl_action cl \<notin> {DNSA_ADD_MULTI, DNSA_DPREFA} \<longrightarrow>
         (\<forall>d. dcl_domain cl = Some d \<longrightarrow> pton4 d \<noteq> None)))"

lemma srv_defaults_ok:
  assumes "dnsa_srv_defaults cl = (0, cl')"
  shows "(text_is (dcl_protocol cl') ''tcp'' \<or> text_is (dcl_protocol cl') ''udp'') \<and> dcl_prefix cl' \<noteq> 0 \<and>
    dcl_rtype cl' = dcl_rtype cl \<and> dcl_action cl' = dcl_action cl \<and> dcl_type cl' = dcl_type cl"
  using assms by (auto simp: dnsa_srv_defaults_def Let_def split: if_splits)

lemma record_defaults_ok:
  assumes "dnsa_record_defaults cl = (0, cl')" "dcl_action cl' = DNSA_AHOST"
  shows "(text_is (dcl_rtype cl') ''SRV'' \<longrightarrow>
      (text_is (dcl_protocol cl') ''tcp'' \<or> text_is (dcl_protocol cl') ''udp'') \<and> dcl_prefix cl' \<noteq> 0) \<and>
    (text_is (dcl_rtype cl') ''MX'' \<longrightarrow> dcl_prefix cl' \<noteq> 0)"
proof (cases "text_is (dcl_rtype cl) ''SRV''")
  case True
  then have "dcl_rtype cl \<noteq> None" by (cases "dcl_rtype cl") auto
  then show ?thesis
    using assms True srv_defaults_ok
    by (auto simp: dnsa_record_defaults_def Let_def split: if_splits prod.splits)
next
  case False
  then show ?thesis
    using assms by (auto simp: dnsa_record_defaults_def Let_def split: if_splits prod.splits)
qed

text \<open>A code outside a set that the chain of checks ends in refutes its condition.\<close>

lemma if_codeD: "(if c then k else x) \<in> S \<Longrightarrow> k \<notin> S \<Longrightarrow> \<not> c \<and> x \<in> S"
  by (simp split: if_splits)

lemma check_action_ok:
  assumes checked: "dnsa_check_action cl \<in> {0, AILSA_NO_GLUE_NS}"
    and typed: "dcl_action cl = DNSA_AHOST \<longrightarrow> (text_is (dcl_rtype cl) ''SRV'' \<longrightarrow>
      (text_is (dcl_protocol cl) ''tcp'' \<or> text_is (dcl_protocol cl) ''udp'') \<and> dcl_prefix cl \<noteq> 0) \<and>
      (text_is (dcl_rtype cl) ''MX'' \<longrightarrow> dcl_prefix cl \<noteq> 0)"
  shows "action_texts_ok cl"
  using checked typed unfolding dnsa_check_action_def Let_def action_texts_ok_def
  apply -
  apply (drule if_codeD, simp (no_asm), erule conjE)+
  apply (simp only: insert_iff empty_iff simp_thms)
  by sat

lemma check_action_glue:
  assumes "dnsa_check_action cl = 0"
  shows "glue_ns_ok cl"
proof -
  have "dnsa_check_action cl \<in> {0}" using assms by simp
  then show ?thesis
    unfolding dnsa_check_action_def Let_def glue_ns_ok_def
    apply -
    apply (drule if_codeD, simp (no_asm), erule conjE)+
    by sat
qed

lemma rev_comm_line_ok:
  assumes "validate_comm_line cl = Some 0" shows "reverse_texts_ok cl"
  using assms
  by (auto simp: validate_comm_line_def validate_rev_comm_line_def reverse_texts_ok_def invalid_ip
    split: if_splits dest!: refuse_zero)

lemma finish_ok:
  assumes fin: "dnsa_finish cl = Some (0, cm)"
    and typed: "dcl_action cl = DNSA_AHOST \<longrightarrow> (text_is (dcl_rtype cl) ''SRV'' \<longrightarrow>
      (text_is (dcl_protocol cl) ''tcp'' \<or> text_is (dcl_protocol cl) ''udp'') \<and> dcl_prefix cl \<noteq> 0) \<and>
      (text_is (dcl_rtype cl) ''MX'' \<longrightarrow> dcl_prefix cl \<noteq> 0)"
  shows "action_texts_ok cm \<and> glue_ns_ok cm \<and> reverse_texts_ok cm"
proof (cases "dnsa_check_action cl = AILSA_NO_GLUE_NS")
  case True
  then have "action_texts_ok cl" using check_action_ok typed by simp
  moreover have "cm = cl\<lparr>dcl_glue_ns := Some ''ns1,ns2''\<rparr>" "validate_comm_line cm = Some 0"
    using fin True by (auto simp: dnsa_finish_def Let_def split: if_splits)
  ultimately show ?thesis
    using rev_comm_line_ok by (simp add: action_texts_ok_def glue_ns_ok_def)
next
  case False
  then have "dnsa_check_action cl = 0" "cm = cl" "validate_comm_line cm = Some 0"
    using fin by (auto simp: dnsa_finish_def Let_def split: if_splits)
  then show ?thesis using check_action_ok typed check_action_glue rev_comm_line_ok by simp
qed

lemma demo_ip: "pton4 ''10.1.0.0'' = Some (of_octets 10 1 0 0)"
  using pton4_dotted [of 10 1 0 0] by (simp add: dotted_def dec.simps char_of_def bit_Suc_0_iff)

lemma demo_number: "strtoul10 ''16'' = 16" "strtoul10 ''33'' = 33"
  by (simp_all add: strtoul10_def is_space_def is_digit_def digits_value_def ulong_of_def)

text \<open>Reading a new reverse zone.\<close>

definition reverse_zone_line :: "string \<Rightarrow> u64 \<Rightarrow> dnsa_comm_line_s" where
  "reverse_zone_line ip prefix = comm_line_zero\<lparr>dcl_action := DNSA_AZONE, dcl_type := REVERSE_ZONE,
     dcl_domain := Some ip, dcl_prefix := prefix\<rparr>"

lemma ip_text_short: "pton4 s \<noteq> None \<Longrightarrow> length s \<le> 15"
proof -
  have l: "length (dec n) \<le> 3" if "n \<le> 255" for n
    using octet_dec [OF that] by (auto simp: octet_def split: if_splits)
  assume "pton4 s \<noteq> None"
  then obtain a b c d where "a \<le> 255" "b \<le> 255" "c \<le> 255" "d \<le> 255" "s = dotted a b c d"
    by (auto elim: pton4_cases)
  then show ?thesis using l [of a] l [of b] l [of c] l [of d] by (simp add: dotted_def)
qed

lemma reverse_zone_parsed:
  assumes ip: "pton4 ip \<noteq> None" and p: "strtoul10 p \<noteq> 0"
  shows "parse_dnsa_command_line [(CHR ''z'', []), (CHR ''R'', []), (CHR ''n'', ip), (CHR ''p'', p)]
      comm_line_zero = Some (0, reverse_zone_line ip (strtoul10 p))"
proof -
  let ?cl = "reverse_zone_line ip (strtoul10 p)"
  have "dnsa_options [(CHR ''z'', []), (CHR ''R'', []), (CHR ''n'', ip), (CHR ''p'', p)]
      comm_line_zero = (0, ?cl)"
    using ip_text_short [OF ip] by (simp add: dnsa_option_def reverse_zone_line_def comm_line_zero_def)
  moreover have "dnsa_record_defaults ?cl = (0, ?cl)"
    by (simp add: dnsa_record_defaults_def reverse_zone_line_def comm_line_zero_def)
  moreover have "dnsa_check_action ?cl = 0"
    using p by (simp add: dnsa_check_action_def reverse_zone_line_def comm_line_zero_def)
  moreover have "validate_comm_line ?cl = Some 0"
    using ip by (auto simp add: validate_comm_line_def validate_rev_comm_line_def invalid_ip
        reverse_zone_line_def comm_line_zero_def)
  moreover have "\<not> (dcl_prefix ?cl < 8 \<and> 24 < dcl_prefix ?cl)"
    by (simp add: word_less_nat_alt)
  ultimately show ?thesis
    by (simp only: parse_dnsa_command_line_def Let_def prod.case dnsa_finish_def) simp
qed

subsection \<open>Two addresses and a comma\<close>

lemma ip_no_comma:
  assumes "pton4 s \<noteq> None" shows "CHR '','' \<notin> set s"
proof -
  have d: "CHR '','' \<notin> set (dec n)" if "n \<le> 255" for n
    using octet_dec [OF that] by (auto simp: octet_def list_all_iff is_digit_def split: if_splits)
  obtain a b c e where "a \<le> 255" "b \<le> 255" "c \<le> 255" "e \<le> 255" "s = dotted a b c e"
    using assms by (auto elim: pton4_cases)
  then show ?thesis using d by (simp add: dotted_def)
qed

definition ip_items :: "ere list" where
  "ip_items = [octet_ere, E_Seq (times 3 (sequence_of [dot, octet_ere])) E_Empty]"

lemma pair_pattern_ends:
  "pair_pattern test = butlast (regexps ! test) @ bs @ '','' @ tl (regexps ! test)"
  by (simp add: pair_pattern_def snprintf_s_def butlast_conv_take drop_Suc)

lemma pair_ip_pattern:
  "regcomp (pair_pattern IP_REGEX) = Some (E_Seq E_Empty (E_Seq
     (sequence_of (ip_items @ E_Set [(44, 44)] # ip_items)) E_Empty))"
  unfolding pair_pattern_ends
  by (simp add: compile_simps octet_ere_def digit_def dot_def ip_items_def numeral_3_eq_3 numeral_2_eq_2)

lemma denotes_sequence_append:
  "denotes (sequence_of (xs @ ys)) s \<longleftrightarrow> denotes (E_Seq (sequence_of ys) (sequence_of xs)) s"
proof -
  have "denotes (foldl (\<lambda>r q. E_Seq q r) r ys) s \<longleftrightarrow> denotes (E_Seq (sequence_of ys) r) s" for r s
    by (induction ys arbitrary: s rule: rev_induct)
       (simp_all add: sequence_of_def denotes_assoc denotes_seq_iff [of _ "foldl _ _ _"] denotes_seq_iff [of _ "E_Seq _ _"])
  then show ?thesis by (simp add: sequence_of_def)
qed

lemma denotes_seq_cong:
  "(\<And>s. denotes r s = denotes r' s) \<Longrightarrow> denotes (E_Seq r q) s = denotes (E_Seq r' q) s"
  by (simp add: denotes_seq_iff [of r] denotes_seq_iff [of r'])

lemma pair_ip_denotes:
  "denotes (sequence_of (ip_items @ E_Set [(44, 44)] # ip_items)) s \<longleftrightarrow>
    (\<exists>x y. s = x @ CHR '','' # y \<and> pton4 x \<noteq> None \<and> pton4 y \<noteq> None)"
proof -
  have c: "in_ranges [(44, 44)] c \<longleftrightarrow> c = CHR '',''" for c by (subst char_code) auto
  have comma: "denotes (E_Seq (sequence_of [E_Set [(44, 44)]]) q) s \<longleftrightarrow> (\<exists>t. s = CHR '','' # t \<and> denotes q t)"
    for q s
    by (simp only: sequence_of_def foldl.simps denotes_assoc denotes_set_seq c) (simp add: denotes_seq_iff [of E_Empty])
  have ip: "denotes (sequence_of ip_items) x \<longleftrightarrow> pton4 x \<noteq> None" for x
    using ip_denotes [of x] by (simp add: ip_items_def)
  have "denotes (sequence_of (ip_items @ E_Set [(44, 44)] # ip_items)) s \<longleftrightarrow>
      denotes (E_Seq (sequence_of ip_items) (E_Seq (sequence_of [E_Set [(44, 44)]]) (sequence_of ip_items))) s"
    unfolding denotes_sequence_append [of ip_items] denotes_assoc [symmetric]
    using denotes_sequence_append [of "[E_Set [(44, 44)]]" ip_items] by (intro denotes_seq_cong) simp
  also have "\<dots> \<longleftrightarrow> (\<exists>x y. s = x @ CHR '','' # y \<and> denotes (sequence_of ip_items) x \<and>
      denotes (sequence_of ip_items) y)"
    unfolding denotes_seq_iff [of "sequence_of ip_items"] comma by blast
  finally show ?thesis using ip by simp
qed

lemma glue_one_address:
  "CHR '','' \<notin> set a \<Longrightarrow> dcl_action cl \<noteq> DNSA_DZONE \<Longrightarrow>
    glue_ip_check (cl\<lparr>dcl_glue_ip := Some a\<rparr>) = Some (pton4 a = None)"
  by (simp add: glue_ip_check_def strchr_None [THEN iffD2] invalid_ip)

lemma top_level_option: "dnsa_option CHR ''j'' arg cl = None"
  by (simp add: dnsa_option_def)

lemma top_level_refused:
  "(CHR ''j'', arg) \<in> set options \<Longrightarrow> fst (dnsa_options options cl) = AILSA_DISPLAY_USAGE"
  by (induction options cl rule: dnsa_options.induct) (auto simp: top_level_option split: option.splits)

lemma address_type_without_host:
  assumes "text_is (dcl_rtype cl) ''A''" "dcl_host cl = None" "dcl_dest cl = None"
  shows "validate_record cl rest = None"
  using assms by (simp add: validate_record_def validate_record_a_def)

subsection \<open>Properties\<close>



text \<open>No prefix of a new reverse zone is refused but 0: the test for the range 8 to 24 asks for a
  number below 8 and above 24 at once, so that every command line with an address and a
  prefix that is not 0 is accepted as it stands.\<close>

theorem every_prefix_accepted:
  assumes "pton4 ip \<noteq> None" "strtoul10 p \<noteq> 0"
  shows "map_option (\<lambda>(r, cm). (r, dcl_domain cm, dcl_prefix cm))
      (parse_dnsa_command_line [(CHR ''z'', []), (CHR ''R'', []), (CHR ''n'', ip), (CHR ''p'', p)]
        comm_line_zero) = Some (0, Some ip, strtoul10 p)"
  using reverse_zone_parsed [OF assms] by (simp add: reverse_zone_line_def)

theorem every_prefix_accepted_witness:
  "map_option (\<lambda>(r, cm). (r, dcl_domain cm, dcl_prefix cm))
      (parse_dnsa_command_line [(CHR ''z'', []), (CHR ''R'', []), (CHR ''n'', ''10.1.0.0''),
        (CHR ''p'', ''33'')] comm_line_zero) = Some (0, Some ''10.1.0.0'', 33)"
proof -
  have "pton4 ''10.1.0.0'' \<noteq> None" "strtoul10 ''33'' = 33" using demo_ip demo_number by simp_all
  then show ?thesis using every_prefix_accepted [of "''10.1.0.0''" "''33''"] by simp
qed

text \<open>An address record for the zone itself (host \<open>@\<close>) is always refused: its destination must be an IP
  address, and must then also be a name or a domain name, which no IP address is.\<close>

theorem root_address_record_refused:
  assumes "text_is (dcl_rtype cl) ''A''" "dcl_host cl = Some ''@''"
  shows "validate_fwd_comm_line cl \<noteq> Some 0"
proof
  assume "validate_fwd_comm_line cl = Some 0"
  then obtain rest where "validate_record cl rest = Some 0"
    by (auto simp: validate_fwd_comm_line_def dest!: refuse_zero)
  then have "validate_record_a cl rest = Some 0" using assms(1) by (simp add: validate_record_def)
  then have ip: "given (dcl_dest cl) (invalid (dcl_dest cl) IP_REGEX) = Some False"
    and refused: "c_and (invalid (dcl_dest cl) NAME_REGEX) (invalid (dcl_dest cl) DOMAIN_REGEX) = Some False"
    using assms(2) by (auto simp: validate_record_a_def dest!: refuse_zero)
  show False
  proof (cases "dcl_dest cl")
    case None
    then show False using refused invalid_NULL by (simp del: One_nat_def)
  next
    case (Some d)
    then show False
      using ip refused ip_no_name [of d] invalid_ip [of d] by (simp del: One_nat_def)
  qed
qed

theorem root_address_record_witness:
  "validate_fwd_comm_line (comm_line_zero\<lparr>dcl_action := DNSA_AHOST, dcl_type := FORWARD_ZONE,
     dcl_rtype := Some ''A'', dcl_domain := Some ''example.com'', dcl_host := Some ''@'',
     dcl_dest := Some ''10.0.0.1''\<rparr>) \<noteq> Some 0"
  by (rule root_address_record_refused) (simp_all add: strncmp_eq_def)

text \<open>A list of glue addresses, that is a text with a comma, is accepted exactly when it is two IP
  addresses with the comma between them; in particular no list of three is.\<close>

theorem glue_addresses_are_a_pair:
  "glue_ip_check (cl\<lparr>dcl_glue_ip := Some (a @ CHR '','' # b)\<rparr>) = Some (pton4 a = None \<or> pton4 b = None)"
proof -
  have "(\<exists>x y. a @ CHR '','' # b = x @ CHR '','' # y \<and> pton4 x \<noteq> None \<and> pton4 y \<noteq> None) \<longleftrightarrow>
      pton4 a \<noteq> None \<and> pton4 b \<noteq> None"
    using ip_no_comma by (metis append_Cons_eq_iff)
  moreover have "strchr (a @ CHR '','' # b) CHR '','' \<noteq> None" by (simp add: strchr_None)
  ultimately show ?thesis
    using pair_ip_denotes [of "a @ CHR '','' # b"]
    by (simp add: glue_ip_check_def ailsa_validate_string_def pair_ip_pattern regexec_iff)
qed

end
