(* ===== verification/Dnsa_Reverse.thy ===== *)
theory Dnsa_Reverse
  imports Dns_Zones Dnsa_Cmdline
begin

text \<open>
  src/zones.c: how the records of a reverse zone are brought in line with the forward records.  The
  functions fetch the reverse, the forward and the preferred records of every sub-range of the
  zone, trim the forward records to the preferred ones, and compute the rows to remove and to
  add.  Lists of records are sequences; the trimming, which deletes elements while it walks the list,
  is also modelled on the cells of lib/list.c and proved to refine a filter.
\<close>

subsection \<open>Records\<close>

record ailsa_record_s =
  rc_host :: cstr
  rc_dest :: cstr
  rc_domain :: cstr
  rc_id :: u64
  rc_zone :: u64
  rc_index :: u64

record ailsa_preferred_s =
  pf_ip :: cstr
  pf_fqdn :: cstr
  pf_ip_addr :: u64
  pf_prefa_id :: u64
  pf_record_id :: u64

definition new_record :: ailsa_record_s where
  "new_record = \<lparr>rc_host = None, rc_dest = None, rc_domain = None, rc_id = 0, rc_zone = 0, rc_index = 0\<rparr>"

definition new_preferred :: ailsa_preferred_s where
  "new_preferred = \<lparr>pf_ip = None, pf_fqdn = None, pf_ip_addr = 0, pf_prefa_id = 0, pf_record_id = 0\<rparr>"

text \<open>The text of an element where NULL must not occur.\<close>

definition text_of :: "ailsa_data \<Rightarrow> string option" where
  "text_of d = do { t \<leftarrow> get_text d; t }"

subsection \<open>From rows to records\<close>

text \<open>A row that is cut short is a crash.\<close>

fun fill_rev_records :: "ailsa_data list \<Rightarrow> ailsa_record_s list \<Rightarrow> u64 \<Rightarrow> (int \<times> ailsa_record_s list) option" where
  "fill_rev_records [] revs index = Some (0, revs)"
| "fill_rev_records (h # d # i # z # rest) revs index = do {
     host \<leftarrow> text_of h;
     dest \<leftarrow> text_of d;
     rid \<leftarrow> get_number i;
     zone \<leftarrow> get_number z;
     fill_rev_records rest (revs @ [new_record\<lparr>rc_host := Some (strndup host HOST_LEN),
       rc_dest := Some (strndup dest DOMAIN_LEN), rc_id := rid, rc_zone := zone, rc_index := index\<rparr>]) index
   }"
| "fill_rev_records _ revs index = None"

fun fill_fwd_records :: "ailsa_data list \<Rightarrow> ailsa_record_s list \<Rightarrow> u64 \<Rightarrow> (int \<times> ailsa_record_s list) option" where
  "fill_fwd_records [] rec index = Some (0, rec)"
| "fill_fwd_records (d # i # h # z # rest) rec index = do {
     rid \<leftarrow> get_number i;
     dest \<leftarrow> text_of d;
     host \<leftarrow> text_of h;
     domain \<leftarrow> text_of z;
     fill_fwd_records rest (rec @ [new_record\<lparr>rc_id := rid, rc_index := index,
       rc_dest := Some (strndup dest DOMAIN_LEN), rc_host := Some (strndup host DOMAIN_LEN),
       rc_domain := Some (strndup domain DOMAIN_LEN)\<rparr>]) index
   }"
| "fill_fwd_records _ rec index = None"

fun fill_pref_records :: "ailsa_data list \<Rightarrow> ailsa_preferred_s list \<Rightarrow> (int \<times> ailsa_preferred_s list) option" where
  "fill_pref_records [] pref = Some (0, pref)"
| "fill_pref_records (a # n # i # rest) pref = do {
     ip \<leftarrow> text_of a;
     fqdn \<leftarrow> text_of n;
     rid \<leftarrow> get_number i;
     fill_pref_records rest (pref @ [new_preferred\<lparr>pf_ip := Some (strndup ip HOST_LEN),
       pf_fqdn := Some (strndup fqdn DOMAIN_LEN), pf_record_id := rid\<rparr>])
   }"
| "fill_pref_records _ pref = None"

subsection \<open>Fetching the records of each sub-range\<close>

text \<open>The loop of \<open>get_rev_records\<close>: the number of the sub-range is appended to the argument list
  and removed again, so that each query has the range and the number.\<close>

fun rev_records_loop ::
  "'db sqlite3_api \<Rightarrow> 'db world \<Rightarrow> ailsa_cmdb_s option \<Rightarrow> db_list \<Rightarrow> nat list \<Rightarrow> int \<Rightarrow> ailsa_record_s list \<Rightarrow>
   (int \<times> 'db world \<times> ailsa_record_s list) option" where
  "rev_records_loop api w dc net [] retval r = Some (retval, w, r)"
| "rev_records_loop api w dc net (i # is) retval r =
    (case cmdb_add_number_to_list (of_nat i) net of (retval, args) \<Rightarrow>
       if retval \<noteq> 0 then Some (retval, w, r)
       else do {
         (retval, w, l) \<leftarrow> ailsa_argument_query api w dc FULL_REV_RECORDS args (Some []);
         if retval \<noteq> 0 then Some (retval, w, r)
         else do {
           rows \<leftarrow> l;
           (retval, r) \<leftarrow> fill_rev_records rows r (of_nat i);
           if retval \<noteq> 0 then Some (retval, w, r)
           else rev_records_loop api w dc net is retval r
         }
       })"

definition get_rev_records ::
  "'db sqlite3_api \<Rightarrow> 'db world \<Rightarrow> ailsa_cmdb_s option \<Rightarrow> ailsa_record_s list option \<Rightarrow> cstr \<Rightarrow> u64 \<Rightarrow>
   (int \<times> 'db world \<times> ailsa_record_s list option) option" where
  "get_rev_records api w dc r net_range index = (case r of None \<Rightarrow> Some (AILSA_NO_DATA, w, r) | Some rs \<Rightarrow>
     if dc = None \<or> net_range = None then Some (AILSA_NO_DATA, w, r)
     else (case cmdb_add_string_to_list net_range (Some []) of (retval, net) \<Rightarrow>
       if retval \<noteq> 0 then Some (retval, w, r)
       else do {
         (retval, w, rs) \<leftarrow> rev_records_loop api w dc net [0..<unat index] retval rs;
         Some (retval, w, Some rs)
       }))"

text \<open>The loops of \<open>get_fwd_records\<close> and \<open>get_pref_records\<close>: a pattern such as \<open>10.1.4.%\<close> for each
  sub-range, and the rows that match it.\<close>

fun search_rows ::
  "'db sqlite3_api \<Rightarrow> 'db world \<Rightarrow> ailsa_cmdb_s option \<Rightarrow> nat \<Rightarrow> cstr \<Rightarrow> nat \<Rightarrow> nat \<Rightarrow> 'db query_result" where
  "search_rows api w dc query net_range prefix i =
    (case get_range_search_string net_range prefix (of_nat i) of (retval, search) \<Rightarrow>
       if retval \<noteq> 0 then Some (retval, w, Some [])
       else (case cmdb_add_string_to_list search (Some []) of (retval, net) \<Rightarrow>
         if retval \<noteq> 0 then Some (retval, w, Some [])
         else ailsa_argument_query api w dc query net (Some [])))"

fun fwd_records_loop ::
  "'db sqlite3_api \<Rightarrow> 'db world \<Rightarrow> ailsa_cmdb_s option \<Rightarrow> cstr \<Rightarrow> nat \<Rightarrow> nat list \<Rightarrow> int \<Rightarrow> ailsa_record_s list \<Rightarrow>
   (int \<times> 'db world \<times> ailsa_record_s list) option" where
  "fwd_records_loop api w dc net_range prefix [] retval r = Some (retval, w, r)"
| "fwd_records_loop api w dc net_range prefix (i # is) retval r = do {
     (retval, w, l) \<leftarrow> search_rows api w dc RECORDS_ON_NET_RANGE net_range prefix i;
     if retval \<noteq> 0 then Some (retval, w, r)
     else do {
       rows \<leftarrow> l;
       (retval, r) \<leftarrow> fill_fwd_records rows r (of_nat i);
       if retval \<noteq> 0 then Some (retval, w, r)
       else fwd_records_loop api w dc net_range prefix is retval r
     }
   }"

definition get_fwd_records ::
  "'db sqlite3_api \<Rightarrow> 'db world \<Rightarrow> ailsa_cmdb_s option \<Rightarrow> ailsa_record_s list option \<Rightarrow> cstr \<Rightarrow> nat \<Rightarrow>
   (int \<times> 'db world \<times> ailsa_record_s list option) option" where
  "get_fwd_records api w dc r net_range prefix = (case r of None \<Rightarrow> Some (AILSA_NO_DATA, w, r) | Some rs \<Rightarrow>
     if dc = None \<or> net_range = None \<or> prefix = 0 then Some (AILSA_NO_DATA, w, r)
     else (case get_zone_index prefix of
         (retval, None) \<Rightarrow> Some (retval, w, r)
       | (retval, Some index) \<Rightarrow> do {
           (retval, w, rs) \<leftarrow> fwd_records_loop api w dc net_range prefix [0..<unat index] retval rs;
           Some (retval, w, Some rs)
         }))"

fun pref_records_loop ::
  "'db sqlite3_api \<Rightarrow> 'db world \<Rightarrow> ailsa_cmdb_s option \<Rightarrow> cstr \<Rightarrow> nat \<Rightarrow> nat list \<Rightarrow> int \<Rightarrow>
   ailsa_preferred_s list \<Rightarrow> (int \<times> 'db world \<times> ailsa_preferred_s list) option" where
  "pref_records_loop api w dc net_range prefix [] retval r = Some (retval, w, r)"
| "pref_records_loop api w dc net_range prefix (i # is) retval r = do {
     (retval, w, p) \<leftarrow> search_rows api w dc PREFER_A_INFO_ON_RANGE net_range prefix i;
     if retval \<noteq> 0 then Some (retval, w, r)
     else do {
       rows \<leftarrow> p;
       (retval, r) \<leftarrow> fill_pref_records rows r;
       if retval \<noteq> 0 then Some (retval, w, r)
       else pref_records_loop api w dc net_range prefix is retval r
     }
   }"

definition get_pref_records ::
  "'db sqlite3_api \<Rightarrow> 'db world \<Rightarrow> ailsa_cmdb_s option \<Rightarrow> ailsa_preferred_s list option \<Rightarrow> cstr \<Rightarrow> nat \<Rightarrow>
   (int \<times> 'db world \<times> ailsa_preferred_s list option) option" where
  "get_pref_records api w dc r net_range prefix = (case r of None \<Rightarrow> Some (AILSA_NO_DATA, w, r) | Some rs \<Rightarrow>
     if dc = None \<or> net_range = None then Some (AILSA_NO_DATA, w, r)
     else (case get_zone_index prefix of
         (retval, None) \<Rightarrow> Some (retval, w, r)
       | (retval, Some index) \<Rightarrow> do {
           (retval, w, rs) \<leftarrow> pref_records_loop api w dc net_range prefix [0..<unat index] retval rs;
           Some (retval, w, Some rs)
         }))"

subsection \<open>Trimming to the preferred records\<close>

text \<open>\<open>strncmp(pref->ip, rec->dest, DOMAIN_LEN) == 0 && rec->id != pref->record_id\<close>.\<close>

definition outranked :: "ailsa_preferred_s \<Rightarrow> ailsa_record_s \<Rightarrow> bool option" where
  "outranked pref rc = do {
     ip \<leftarrow> pf_ip pref;
     dest \<leftarrow> rc_dest rc;
     Some (strncmp_eq ip dest DOMAIN_LEN \<and> rc_id rc \<noteq> pf_record_id pref)
   }"

text \<open>The inner loop on the cells of the list: \<open>record\<close> is the element it looks at.  A removal goes on with
  what follows the predecessor, or with the new head.\<close>

partial_function (option) trim_cells ::
  "ailsa_preferred_s \<Rightarrow> ailsa_record_s heap \<Rightarrow> AILLIST \<Rightarrow> addr option \<Rightarrow>
   (int \<times> ailsa_record_s heap \<times> AILLIST) option" where
  [code]: "trim_cells pref h r record =
    (if record = None then Some (0, h, r)
     else do {
       c \<leftarrow> deref h record;
       rc \<leftarrow> el_data c;
       remove \<leftarrow> outranked pref rc;
       if \<not> remove then trim_cells pref h r (el_next c)
       else if el_prev c \<noteq> None then do {
         t \<leftarrow> deref h (el_prev c);
         (retval, data, h, r) \<leftarrow> ailsa_list_remove h r (el_next t) None;
         if retval \<noteq> 0 then Some (AILSA_LIST_CANNOT_REMOVE, h, r)
         else do {
           let h = run_destroy data h;
           t \<leftarrow> deref h (el_prev c);
           trim_cells pref h r (el_next t)
         }
       } else do {
         (retval, data, h, r) \<leftarrow> ailsa_list_remove h r (l_head r) None;
         if retval \<noteq> 0 then Some (AILSA_LIST_CANNOT_REMOVE, h, r)
         else trim_cells pref (run_destroy data h) r (l_head r)
       }
     })"

fun trim_prefs ::
  "ailsa_preferred_s list \<Rightarrow> ailsa_record_s heap \<Rightarrow> AILLIST \<Rightarrow> (int \<times> ailsa_record_s heap \<times> AILLIST) option" where
  "trim_prefs [] h r = Some (0, h, r)"
| "trim_prefs (pref # prefs) h r = do {
     (retval, h, r) \<leftarrow> trim_cells pref h r (l_head r);
     if retval \<noteq> 0 then Some (retval, h, r) else trim_prefs prefs h r
   }"

definition cmdb_trim_record_list ::
  "ailsa_record_s heap \<Rightarrow> AILLIST option \<Rightarrow> ailsa_preferred_s list option \<Rightarrow>
   (int \<times> ailsa_record_s heap \<times> AILLIST option) option" where
  "cmdb_trim_record_list h r p = (case (r, p) of
     (Some list, Some prefs) \<Rightarrow>
       if l_total list = 0 \<or> length prefs = 0 then Some (0, h, r)
       else if \<not> l_destroy list then Some (AILSA_LIST_NO_DESTROY, h, r)
       else do { (retval, h, list) \<leftarrow> trim_prefs prefs h list; Some (retval, h, Some list) }
   | _ \<Rightarrow> Some (AILSA_NO_DATA, h, r))"

text \<open>The same on sequences: a record is kept when no preferred record outranks it.\<close>

fun trim_records :: "ailsa_preferred_s list \<Rightarrow> ailsa_record_s list \<Rightarrow> ailsa_record_s list" where
  "trim_records [] rs = rs"
| "trim_records (pref # prefs) rs = trim_records prefs (filter (\<lambda>rc. outranked pref rc \<noteq> Some True) rs)"

subsection \<open>Rows to remove\<close>

definition fqdn_of :: "ailsa_record_s \<Rightarrow> string option" where
  "fqdn_of forward = do {
     host \<leftarrow> rc_host forward;
     domain \<leftarrow> rc_domain forward;
     Some (snprintf_s DOMAIN_LEN
       (if strncmp_eq ''@'' host BYTE_LEN then domain @ ''.'' else host @ ''.'' @ domain @ ''.''))
   }"

text \<open>The search pattern of a sub-range without its percent sign; no text when it has none.\<close>

definition search_base :: "cstr \<Rightarrow> nat \<Rightarrow> nat \<Rightarrow> int \<times> string option" where
  "search_base net_range prefix i =
    (case get_range_search_string net_range prefix (of_nat i) of (retval, search) \<Rightarrow>
       if retval \<noteq> 0 then (retval, None)
       else (0, do { s \<leftarrow> search; p \<leftarrow> strrchr s (CHR ''%''); Some (take p s) }))"

text \<open>The loop over the forward records: does one have the address \<open>search\<close> and the name of the reverse
  record?\<close>

fun has_forward :: "string \<Rightarrow> ailsa_record_s \<Rightarrow> ailsa_record_s list \<Rightarrow> bool option" where
  "has_forward search reverse [] = Some False"
| "has_forward search reverse (forward # rest) = do {
     dest \<leftarrow> rc_dest forward;
     if strncmp_eq search dest HOST_LEN then do {
       fqdn \<leftarrow> fqdn_of forward;
       rdest \<leftarrow> rc_dest reverse;
       if strncmp_eq rdest fqdn DOMAIN_LEN then Some True else has_forward search reverse rest
     } else has_forward search reverse rest
   }"

fun remove_scan ::
  "string \<Rightarrow> u64 \<Rightarrow> ailsa_record_s list \<Rightarrow> ailsa_record_s list \<Rightarrow> int \<Rightarrow> db_list \<Rightarrow> (int \<times> db_list) option" where
  "remove_scan base i recs [] retval remove = Some (retval, remove)"
| "remove_scan base i recs (reverse # rest) retval remove =
    (if rc_index reverse \<noteq> i then remove_scan base i recs rest retval remove
     else do {
       host \<leftarrow> rc_host reverse;
       found \<leftarrow> has_forward (base @ snprintf_s SERVICE_LEN host) reverse recs;
       if found then remove_scan base i recs rest retval remove
       else (case cmdb_add_number_to_list (rc_id reverse) remove of (retval, remove) \<Rightarrow>
         if retval \<noteq> 0 then Some (retval, remove) else remove_scan base i recs rest retval remove)
     })"

fun rev_remove_loop ::
  "cstr \<Rightarrow> nat \<Rightarrow> nat list \<Rightarrow> ailsa_record_s list \<Rightarrow> ailsa_record_s list \<Rightarrow> int \<Rightarrow> db_list \<Rightarrow>
   (int \<times> db_list) option" where
  "rev_remove_loop net_range prefix [] recs revs retval remove = Some (retval, remove)"
| "rev_remove_loop net_range prefix (i # is) recs revs retval remove =
    (case search_base net_range prefix i of
       (retval, None) \<Rightarrow> Some (if retval \<noteq> 0 then retval else AILSA_STRING_FAIL, remove)
     | (_, Some base) \<Rightarrow> do {
         (retval, remove) \<leftarrow> remove_scan base (of_nat i) recs revs 0 remove;
         if retval \<noteq> 0 then Some (retval, remove)
         else rev_remove_loop net_range prefix is recs revs retval remove
       })"

definition cmdb_records_to_remove ::
  "cstr \<Rightarrow> nat \<Rightarrow> ailsa_record_s list \<Rightarrow> ailsa_record_s list \<Rightarrow> db_list \<Rightarrow> (int \<times> db_list) option" where
  "cmdb_records_to_remove net_range prefix recs revs remove =
    (if net_range = None \<or> remove = None then Some (AILSA_NO_DATA, remove)
     else (case get_zone_index prefix of
         (retval, None) \<Rightarrow> Some (retval, remove)
       | (retval, Some index) \<Rightarrow> rev_remove_loop net_range prefix [0..<unat index] recs revs retval remove))"

subsection \<open>Rows to add\<close>

text \<open>The loop over the reverse records leaves the host of the last one it looked at in the search
  buffer.\<close>

fun add_scan :: "string \<Rightarrow> string \<Rightarrow> ailsa_record_s \<Rightarrow> ailsa_record_s list \<Rightarrow> (string \<times> bool) option" where
  "add_scan base search forward [] = Some (search, False)"
| "add_scan base search forward (reverse # rest) = do {
     host \<leftarrow> rc_host reverse;
     dest \<leftarrow> rc_dest forward;
     let search = base @ snprintf_s MAC_LEN host in
     if strncmp_eq dest search DOMAIN_LEN then do {
       fqdn \<leftarrow> fqdn_of forward;
       rdest \<leftarrow> rc_dest reverse;
       if strncmp_eq fqdn rdest DOMAIN_LEN then Some (search, True)
       else add_scan base search forward rest
     } else add_scan base search forward rest
   }"

text \<open>\<open>dest + strlen(search) - 1\<close>, which must not lie beyond the end of the text.\<close>

definition cmdb_get_rev_dest_from_search :: "cstr \<Rightarrow> cstr \<Rightarrow> (int \<times> string option) option" where
  "cmdb_get_rev_dest_from_search search dest = (case (search, dest) of
     (Some s, Some d) \<Rightarrow>
       if s \<noteq> [] \<and> length s - 1 \<le> length d
       then Some (0, Some (snprintf_s MAC_LEN (drop (length s - 1) d))) else None
   | _ \<Rightarrow> Some (AILSA_NO_DATA, None))"

text \<open>The row of one forward record that no reverse record matches.  The result also holds the search
  buffer.\<close>

definition add_row ::
  "u32 \<Rightarrow> cstr \<Rightarrow> u64 \<Rightarrow> nat \<Rightarrow> nat \<Rightarrow> string \<Rightarrow> ailsa_record_s \<Rightarrow> db_list \<Rightarrow> (int \<times> string \<times> db_list) option" where
  "add_row uid net_range zone_id prefix i search forward add = do {
     pts \<leftarrow> strrchr (snprintf_s DOMAIN_LEN search) (CHR ''.'');
     let fqdn = take pts search;
     dest \<leftarrow> rc_dest forward;
     if \<not> strncmp_eq fqdn dest (length fqdn) then Some (0, search, add)
     else (case next_arg (cmdb_add_number_to_list (of_nat i)) (cmdb_add_number_to_list zone_id add) of
       (retval, add) \<Rightarrow>
         if retval \<noteq> 0 then Some (retval, search, add)
         else (case get_range_search_string net_range prefix (of_nat i) of
             (retval, None) \<Rightarrow> Some (retval, [], add)
           | (retval, Some search) \<Rightarrow>
             if retval \<noteq> 0 then Some (retval, search, add)
             else do {
               (retval, host) \<leftarrow> cmdb_get_rev_dest_from_search (Some search) (Some dest);
               if retval \<noteq> 0 then Some (retval, search, add)
               else do {
                 name \<leftarrow> fqdn_of forward;
                 (case add_args [cmdb_add_string_to_list host, cmdb_add_string_to_list (Some name),
                     cmdb_populate_cuser_muser uid] add of
                   (retval, add) \<Rightarrow> Some (retval, search, add))
               }
             }))
   }"

fun add_forwards ::
  "u32 \<Rightarrow> cstr \<Rightarrow> u64 \<Rightarrow> nat \<Rightarrow> nat \<Rightarrow> string \<Rightarrow> string \<Rightarrow> ailsa_record_s list \<Rightarrow> ailsa_record_s list \<Rightarrow>
   db_list \<Rightarrow> (int \<times> db_list) option" where
  "add_forwards uid net_range zone_id prefix i base search [] revs add = Some (0, add)"
| "add_forwards uid net_range zone_id prefix i base search (forward # rest) revs add = do {
     (search, found) \<leftarrow> add_scan base search forward revs;
     if found then add_forwards uid net_range zone_id prefix i base search rest revs add
     else do {
       (retval, search, add) \<leftarrow> add_row uid net_range zone_id prefix i search forward add;
       if retval \<noteq> 0 then Some (retval, add)
       else add_forwards uid net_range zone_id prefix i base search rest revs add
     }
   }"

fun add_loop ::
  "u32 \<Rightarrow> cstr \<Rightarrow> u64 \<Rightarrow> nat \<Rightarrow> nat list \<Rightarrow> ailsa_record_s list \<Rightarrow> ailsa_record_s list \<Rightarrow> int \<Rightarrow> db_list \<Rightarrow>
   (int \<times> db_list) option" where
  "add_loop uid net_range zone_id prefix [] recs revs retval add = Some (retval, add)"
| "add_loop uid net_range zone_id prefix (i # is) recs revs retval add =
    (case search_base net_range prefix i of
       (retval, None) \<Rightarrow> Some (retval, add)
     | (_, Some base) \<Rightarrow> do {
         (retval, add) \<leftarrow> add_forwards uid net_range zone_id prefix i base (base @ ''%'') recs revs add;
         if retval \<noteq> 0 then Some (retval, add)
         else add_loop uid net_range zone_id prefix is recs revs retval add
       })"

definition cmdb_records_to_add ::
  "u32 \<Rightarrow> cstr \<Rightarrow> u64 \<Rightarrow> nat \<Rightarrow> ailsa_record_s list \<Rightarrow> ailsa_record_s list \<Rightarrow> db_list \<Rightarrow> (int \<times> db_list) option" where
  "cmdb_records_to_add uid net_range zone_id prefix recs revs add =
    (if net_range = None \<or> add = None then Some (AILSA_NO_DATA, add)
     else (case get_zone_index prefix of
         (retval, None) \<Rightarrow> Some (retval, add)
       | (retval, Some index) \<Rightarrow> add_loop uid net_range zone_id prefix [0..<unat index] recs revs retval add))"

subsection \<open>The walk that removes while it looks\<close>

definition keeps :: "ailsa_preferred_s \<Rightarrow> addr \<times> ailsa_record_s option \<Rightarrow> bool" where
  "keeps pref q = (case snd q of None \<Rightarrow> True | Some rc \<Rightarrow> outranked pref rc \<noteq> Some True)"

lemma keeps_Some [simp]: "keeps pref (a, Some rc) \<longleftrightarrow> outranked pref rc \<noteq> Some True"
  by (simp add: keeps_def)

text \<open>Removing one element in the middle of the walk.\<close>

lemma trim_cells_filter:
  assumes "heap_ok h" "list_rep h r (xs @ ys)" "l_destroy r"
    and "\<forall>q \<in> set ys. \<exists>rc. snd q = Some rc \<and> outranked pref rc \<noteq> None"
  shows "\<exists>h' r'. trim_cells pref h r (first None ys) = Some (0, h', r') \<and>
    list_rep h' r' (xs @ filter (keeps pref) ys) \<and> heap_ok h' \<and> l_destroy r'"
  using assms
proof (induction ys arbitrary: xs h r)
  case Nil
  then show ?case by (subst trim_cells.simps) simp
next
  case (Cons q ys)
  obtain a rc out where q: "q = (a, Some rc)" "outranked pref rc = Some out"
    using Cons.prems(4) by (cases q) auto
  have cell: "cells h a = Some \<lparr>el_prev = final None xs, el_next = first None ys, el_data = Some rc\<rparr>"
    using Cons.prems by (simp add: list_rep_def q)
  show ?case
  proof (cases out)
    case False
    have "list_rep h r ((xs @ [q]) @ ys)" using Cons.prems by simp
    from Cons.IH [OF Cons.prems(1) this Cons.prems(3)] Cons.prems(4) show ?thesis
      using cell q False by (subst trim_cells.simps) simp
  next
    case True
    from remove_yields [of h r xs a "Some rc" ys None] Cons.prems obtain h1 r1 where
      rem: "ailsa_list_remove h r (Some a) None = Some (0, Some rc, h1, r1)" "list_rep h1 r1 (xs @ ys)"
        "frame (fst ` set (xs @ q # ys)) h h1" "l_destroy r1 = l_destroy r"
      by (auto simp: q)
    define h2 where "h2 = run_destroy (Some rc) h1"
    have h2: "heap_ok h2" "list_rep h2 r1 (xs @ ys)" "cells h2 = cells h1"
      using rem by (auto simp: h2_def run_destroy_def frame_def heap_ok_def list_rep_def)
    have "trim_cells pref h r (Some a) = trim_cells pref h2 r1 (first None ys)"
    proof (cases xs rule: rev_cases)
      case Nil
      then have "l_head r = Some a" "l_head r1 = first None ys"
        using Cons.prems(2) rem(2) by (simp_all add: list_rep_def q)
      then show ?thesis
        using cell q True rem(1) Nil by (subst trim_cells.simps) (simp add: h2_def)
    next
      case (snoc zs p)
      obtain b y where p: "p = (b, y)" by (cases p)
      have "cells h b = Some \<lparr>el_prev = final None zs, el_next = Some a, el_data = y\<rparr>"
        using Cons.prems(2) by (simp add: list_rep_def q snoc p)
      moreover have "cells h2 b = Some \<lparr>el_prev = final None zs, el_next = first None ys, el_data = y\<rparr>"
        using h2(2) by (simp add: list_rep_def snoc p)
      ultimately show ?thesis
        using cell q True rem(1) snoc p by (subst trim_cells.simps) (simp add: h2_def Let_def)
    qed
    then show ?thesis
      using Cons.IH [OF h2(1,2)] Cons.prems(3,4) rem(4) q True by simp
  qed
qed

lemma trim_prefs_records:
  assumes "heap_rep (h, r) recs" "l_destroy r"
    and "\<forall>p \<in> set prefs. \<forall>rc \<in> set recs. outranked p rc \<noteq> None"
  shows "\<exists>h' r'. trim_prefs prefs h r = Some (0, h', r') \<and> heap_rep (h', r') (trim_records prefs recs)"
  using assms
proof (induction prefs arbitrary: h r recs)
  case (Cons p prefs)
  obtain ps where ps: "heap_ok h" "list_rep h r ps" "map snd ps = map Some recs"
    using Cons.prems(1) by (auto simp: heap_rep_def)
  have "\<forall>q \<in> set ps. \<exists>rc. snd q = Some rc \<and> outranked p rc \<noteq> None"
  proof
    fix q assume "q \<in> set ps"
    then have "snd q \<in> set (map Some recs)" unfolding ps(3) [symmetric] by simp
    then show "\<exists>rc. snd q = Some rc \<and> outranked p rc \<noteq> None" using Cons.prems(3) by auto
  qed
  then obtain h1 r1 where t: "trim_cells p h r (first None ps) = Some (0, h1, r1)"
    "list_rep h1 r1 (filter (keeps p) ps)" "heap_ok h1" "l_destroy r1"
    using trim_cells_filter [of h r "[]" ps p] ps(1,2) Cons.prems(2) by auto
  have "map snd (filter (keeps p) ps) = map Some (filter (\<lambda>rc. outranked p rc \<noteq> Some True) recs)"
    using ps(3)
  proof (induction ps arbitrary: recs)
    case (Cons q ps)
    then show ?case by (cases recs) (auto simp: keeps_def)
  qed simp
  then have "heap_rep (h1, r1) (filter (\<lambda>rc. outranked p rc \<noteq> Some True) recs)"
    using t by (auto simp: heap_rep_def)
  then show ?case
    using Cons.IH [of h1 r1] Cons.prems(3) t ps(2) by (simp add: list_rep_def)
qed auto

lemma trim_records_filter:
  "trim_records prefs rs = filter (\<lambda>rc. \<forall>p \<in> set prefs. outranked p rc \<noteq> Some True) rs"
  by (induction prefs arbitrary: rs) (auto intro: filter_cong)

lemma outranked_defined:
  "pf_ip p \<noteq> None \<Longrightarrow> rc_dest rc \<noteq> None \<Longrightarrow> outranked p rc \<noteq> None"
  by (auto simp: outranked_def)

subsection \<open>A zone of one range\<close>

text \<open>
  The range \<open>a.b.c.0/24\<close>.  A forward record belongs to it when its address starts with \<open>base\<close>; what
  the reverse zone should hold for it is the rest of the address with the full name.
\<close>

definition fwd_in :: "string \<Rightarrow> ailsa_record_s \<Rightarrow> bool" where
  "fwd_in base f \<longleftrightarrow> (\<exists>h host dom. rc_dest f = Some (base @ h) \<and> length h < SERVICE_LEN \<and>
     rc_host f = Some host \<and> rc_domain f = Some dom)"

definition rev_in :: "ailsa_record_s \<Rightarrow> bool" where
  "rev_in r \<longleftrightarrow> rc_index r = 0 \<and> (\<exists>h d. rc_host r = Some h \<and> CHR ''.'' \<notin> set h \<and> length h < SERVICE_LEN \<and>
     rc_dest r = Some d \<and> length d \<le> DOMAIN_LEN)"

definition wanted :: "string \<Rightarrow> ailsa_record_s \<Rightarrow> string \<times> string" where
  "wanted base f = (drop (length base) (the (rc_dest f)), the (fqdn_of f))"

definition present :: "ailsa_record_s \<Rightarrow> string \<times> string" where
  "present r = (the (rc_host r), the (rc_dest r))"

definition base_ok :: "string \<Rightarrow> bool" where
  "base_ok base \<longleftrightarrow> base \<noteq> [] \<and> last base = CHR ''.'' \<and> length base \<le> 12"

definition new_row :: "u32 \<Rightarrow> u64 \<Rightarrow> string \<Rightarrow> ailsa_record_s \<Rightarrow> ailsa_data list" where
  "new_row uid zone_id base f = [D_LINT zone_id, D_LINT 0, D_TEXT (fst (wanted base f)),
     D_TEXT (snd (wanted base f)), D_LINT (ucast uid), D_LINT (ucast uid)]"

lemma strncmp_eq_within:
  "length a \<le> n \<Longrightarrow> length b \<le> n \<Longrightarrow> strncmp_eq a b n \<longleftrightarrow> a = b"
  by (simp add: strncmp_eq_def)

lemma snprintf_short: "length s < n \<Longrightarrow> snprintf_s n s = s"
  by (simp add: snprintf_s_def)

lemma fqdn_defined:
  assumes "fwd_in base f"
  obtains n where "fqdn_of f = Some n" "length n < DOMAIN_LEN"
  using assms by (auto simp: fwd_in_def fqdn_of_def snprintf_s_def)

lemma has_forward_iff:
  assumes "base_ok base" "rev_in r" "\<forall>f \<in> set recs. fwd_in base f"
  shows "has_forward (base @ snprintf_s SERVICE_LEN (fst (present r))) r recs =
    Some (present r \<in> set (map (wanted base) recs))"
  using assms(3)
proof (induction recs)
  case (Cons f recs)
  obtain h d where r: "rc_host r = Some h" "rc_dest r = Some d" "length h < 16" "length d \<le> 256"
    using assms(2) by (auto simp: rev_in_def)
  obtain n where n: "fqdn_of f = Some n" "length n < 256" using fqdn_defined Cons.prems by auto
  obtain k where k: "rc_dest f = Some (base @ k)" "length k < 16" using Cons.prems by (auto simp: fwd_in_def)
  have "length base \<le> 12" using assms(1) by (simp add: base_ok_def)
  then have "strncmp_eq (base @ h) (base @ k) HOST_LEN \<longleftrightarrow> h = k" "strncmp_eq d n DOMAIN_LEN \<longleftrightarrow> d = n"
    using r n k by (simp_all add: strncmp_eq_within)
  then show ?case
    using Cons r n k by (auto simp: present_def wanted_def snprintf_short)
qed (simp add: present_def)

lemma remove_scan_list:
  assumes "base_ok base" "\<forall>f \<in> set recs. fwd_in base f" "\<forall>r \<in> set revs. rev_in r"
  shows "remove_scan base 0 recs revs 0 (Some l) = Some (0, Some (l @
    map (\<lambda>r. D_LINT (rc_id r)) (filter (\<lambda>r. present r \<notin> set (map (wanted base) recs)) revs)))"
  using assms(3)
proof (induction revs arbitrary: l)
  case (Cons r revs)
  have r: "rev_in r" "rc_index r = 0" "rc_host r = Some (fst (present r))"
    using Cons.prems by (auto simp: rev_in_def present_def)
  show ?case
    using Cons r has_forward_iff [OF assms(1) r(1) assms(2)]
    by (simp add: cmdb_add_number_to_list_def db_insert_def)
qed simp

lemma add_scan_found:
  assumes "base_ok base" "fwd_in base f" "\<forall>r \<in> set revs. rev_in r"
    and "search = base @ t" "CHR ''.'' \<notin> set t" "length t < SERVICE_LEN"
  shows "\<exists>t'. add_scan base search f revs = Some (base @ t', wanted base f \<in> set (map present revs)) \<and>
    CHR ''.'' \<notin> set t' \<and> length t' < SERVICE_LEN"
  using assms(3-6)
proof (induction revs arbitrary: search t)
  case (Cons r revs)
  obtain h d where r: "rc_host r = Some h" "rc_dest r = Some d" "length h < 16" "length d \<le> 256" "CHR ''.'' \<notin> set h"
    using Cons.prems by (auto simp: rev_in_def)
  obtain n where n: "fqdn_of f = Some n" "length n < 256" using fqdn_defined assms(2) by auto
  obtain k where k: "rc_dest f = Some (base @ k)" "length k < 16" using assms(2) by (auto simp: fwd_in_def)
  have "length base \<le> 12" using assms(1) by (simp add: base_ok_def)
  then have e: "strncmp_eq (base @ k) (base @ h) DOMAIN_LEN \<longleftrightarrow> h = k" "strncmp_eq n d DOMAIN_LEN \<longleftrightarrow> d = n"
    using r n k by (auto simp: strncmp_eq_within)
  have ih: "\<exists>t'. add_scan base (base @ h) f revs = Some (base @ t', wanted base f \<in> set (map present revs)) \<and>
    CHR ''.'' \<notin> set t' \<and> length t' < SERVICE_LEN"
    using Cons r by simp
  show ?case
  proof (cases "h = k \<and> d = n")
    case True
    then show ?thesis using r n k e by (auto simp: wanted_def present_def snprintf_short Let_def)
  next
    case False
    then show ?thesis using r n k e ih by (auto simp: wanted_def present_def snprintf_short Let_def)
  qed
qed auto

lemma add_row_list:
  assumes "base_ok base" "fwd_in base f" "CHR ''.'' \<notin> set t" "length t < SERVICE_LEN"
    and "get_range_search_string net_range 24 0 = (0, Some (base @ ''%''))"
  shows "add_row uid net_range zone_id 24 0 (base @ t) f (Some l) =
    Some (0, base @ ''%'', Some (l @ new_row uid zone_id base f))"
proof -
  obtain b where b: "base = b @ ''.''" "length b < 12"
    using assms(1) by (cases base rule: rev_cases) (auto simp: base_ok_def)
  obtain n where n: "fqdn_of f = Some n" "length n < 256" using fqdn_defined assms(2) by auto
  obtain k where k: "rc_dest f = Some (base @ k)" "length k < 16" using assms(2) by (auto simp: fwd_in_def)
  have "strrchr (snprintf_s DOMAIN_LEN (base @ t)) (CHR ''.'') = Some (length b)"
    using b assms(3,4) by (simp add: snprintf_short strrchr_append_last)
  moreover have "strncmp_eq b (base @ k) (length b)" by (simp add: strncmp_eq_def b)
  moreover have "cmdb_get_rev_dest_from_search (Some (base @ ''%'')) (Some (base @ k)) = Some (0, Some k)"
    using k by (simp add: cmdb_get_rev_dest_from_search_def snprintf_short)
  ultimately show ?thesis
    using n k assms(5) by (simp add: add_row_def b next_arg_def add_args_def cmdb_add_number_to_list_def
        cmdb_add_string_to_list_def cmdb_populate_cuser_muser_def db_insert_def new_row_def wanted_def Let_def)
qed

lemma add_forwards_list:
  assumes "base_ok base" "\<forall>f \<in> set recs. fwd_in base f" "\<forall>r \<in> set revs. rev_in r"
    and "CHR ''.'' \<notin> set t" "length t < SERVICE_LEN"
    and "get_range_search_string net_range 24 0 = (0, Some (base @ ''%''))"
  shows "add_forwards uid net_range zone_id 24 0 base (base @ t) recs revs (Some l) = Some (0, Some (l @
    concat (map (new_row uid zone_id base) (filter (\<lambda>f. wanted base f \<notin> set (map present revs)) recs))))"
  using assms(2,4,5)
proof (induction recs arbitrary: t l)
  case (Cons f recs)
  obtain t' where t': "add_scan base (base @ t) f revs = Some (base @ t', wanted base f \<in> set (map present revs))"
    "CHR ''.'' \<notin> set t'" "length t' < SERVICE_LEN"
    using add_scan_found [OF assms(1) _ assms(3) refl Cons.prems(2,3), of f] Cons.prems(1) by auto
  show ?case
  proof (cases "wanted base f \<in> set (map present revs)")
    case True
    then show ?thesis using Cons.IH [of t'] Cons.prems t' by simp
  next
    case False
    have "add_row uid net_range zone_id 24 0 (base @ t') f (Some l) =
        Some (0, base @ ''%'', Some (l @ new_row uid zone_id base f))"
      using add_row_list [OF assms(1) _ t'(2,3) assms(6)] Cons.prems(1) by simp
    then show ?thesis using Cons.IH [of "''%''"] Cons.prems t' False by simp
  qed
qed simp

lemma search_base_percent:
  "get_range_search_string net_range p (of_nat i) = (0, Some (base @ ''%'')) \<Longrightarrow>
    search_base net_range p i = (0, Some base)"
  using strrchr_append_last [of "CHR ''%''" "[]" base] by (simp add: search_base_def)


definition range_base :: "nat \<Rightarrow> nat \<Rightarrow> nat \<Rightarrow> string" where
  "range_base a b c = dec a @ ''.'' @ dec b @ ''.'' @ dec c @ ''.''"

lemma dec_octet_length: "n \<le> 255 \<Longrightarrow> length (dec n) \<le> 3"
  using octet_dec [of n] by (auto simp: octet_def split: if_splits)

lemma range_base_ok:
  assumes "a \<le> 255" "b \<le> 255" "c \<le> 255" shows "base_ok (range_base a b c)"
  using dec_octet_length [OF assms(1)] dec_octet_length [OF assms(2)] dec_octet_length [OF assms(3)]
  by (simp add: base_ok_def range_base_def)

lemma range_search:
  assumes "a \<le> 255" "b \<le> 255" "c \<le> 255" "d \<le> 255" "0 < a"
  shows "get_range_search_string (Some (dotted a b c d)) 24 0 = (0, Some (range_base a b c @ ''%''))"
  using search_string [OF assms, of 24] by (simp add: range_base_def)

lemma kept_and_fresh:
  "set (map p (filter (\<lambda>r. p r \<in> set (map w xs)) ys)) \<union> set (map w (filter (\<lambda>f. w f \<notin> set (map p ys)) xs)) =
    set (map w xs)"
proof (rule set_eqI)
  fix v
  show "v \<in> set (map p (filter (\<lambda>r. p r \<in> set (map w xs)) ys)) \<union>
      set (map w (filter (\<lambda>f. w f \<notin> set (map p ys)) xs)) \<longleftrightarrow> v \<in> set (map w xs)"
    by (cases "v \<in> set (map p ys)") auto
qed

subsection \<open>Sample records\<close>

definition rev_of :: "string \<Rightarrow> string \<Rightarrow> u64 \<Rightarrow> ailsa_record_s" where
  "rev_of host dest n = new_record\<lparr>rc_host := Some host, rc_dest := Some dest, rc_id := n\<rparr>"

lemma demo_base: "range_base 10 1 1 = ''10.1.1.''" "dotted 10 1 1 0 = ''10.1.1.0''"
  by (simp_all add: range_base_def dotted_def dec.simps char_of_def bit_Suc_0_iff)


definition record_of :: "string \<Rightarrow> string \<Rightarrow> u64 \<Rightarrow> ailsa_record_s" where
  "record_of host dest n = new_record\<lparr>rc_host := Some host, rc_dest := Some dest, rc_domain := Some ''example.org'',
     rc_id := n\<rparr>"

definition preferred_of :: "string \<Rightarrow> u64 \<Rightarrow> ailsa_preferred_s" where
  "preferred_of ip n = new_preferred\<lparr>pf_ip := Some ip, pf_record_id := n\<rparr>"

definition record_heap :: "ailsa_record_s heap" where
  "record_heap = \<lparr>cells = [0 \<mapsto> \<lparr>el_prev = None, el_next = Some 1, el_data = Some (record_of ''www'' ''10.1.1.5'' 7)\<rparr>,
      1 \<mapsto> \<lparr>el_prev = Some 0, el_next = None, el_data = Some (record_of ''mail'' ''10.1.1.5'' 8)\<rparr>],
    brk = 2, destroyed = []\<rparr>"

definition record_list :: AILLIST where
  "record_list = \<lparr>l_total = 2, l_destroy = True, l_head = Some 0, l_tail = Some 1\<rparr>"

subsection \<open>Zones of other prefixes\<close>

lemma demo_sub_range: "get_range_search_string (Some ''10.1.0.0'') 20 1 = (0, Some ''10.1.1.%'')"
proof -
  have b: "of_octets 10 1 0 0 = 167837696" "of_octets 10 1 1 0 = 167837952"
    by (simp_all add: of_octets_def)
  have "pton4 ''10.1.1.0'' = Some (of_octets 10 1 1 0)"
    using pton4_dotted [of 10 1 1 0] demo_base by simp
  then have "ntop4 167837952 = ''10.1.1.0''" using ntop4_pton4 b by simp
  then have "get_offset_ip (Some ''10.1.0.0'') 20 1 = (0, Some ''10.1.1.0'')"
    using demo_ip b by (simp add: get_offset_ip_def convert_text_ipv4_to_bin_def convert_bin_ipv4_to_text_def)
  then show ?thesis by (simp add: get_range_search_string_def after_dot_def)
qed

text \<open>In a zone of several ranges the test for the range compares without the final dot: the record of
  10.1.10.5 also gets a row in the range 10.1.1, with the host \<open>.5\<close>.\<close>

lemma neighbour_range_row_added:
  "add_row 1000 (Some ''10.1.0.0'') 3 20 1 ''10.1.1.%'' (record_of ''www'' ''10.1.10.5'' 7) (Some []) =
    Some (0, ''10.1.1.%'', Some [D_LINT 3, D_LINT 1, D_TEXT ''.5'', D_TEXT ''www.example.org.'',
      D_LINT 1000, D_LINT 1000])"
  by (simp add: add_row_def record_of_def new_record_def snprintf_s_def strrchr_def strncmp_eq_def demo_sub_range
      next_arg_def add_args_def cmdb_add_number_to_list_def cmdb_add_string_to_list_def fqdn_of_def
      cmdb_populate_cuser_muser_def db_insert_def cmdb_get_rev_dest_from_search_def)

text \<open>In a zone of prefix 16 the hosts have a dot, so that the host the scan leaves in the buffer decides
  which records are looked at: the record of 10.1.7.9 gets no row when the last reverse record
  is that of 10.1.3.4.\<close>

lemma wide_zone_row_missed:
  "cmdb_records_to_add 1000 (Some ''10.1.0.0'') 3 16 [record_of ''www'' ''10.1.7.9'' 7]
     [rev_of ''3.4'' ''a.example.org.'' 4] (Some []) = Some (0, Some [])"
proof -
  have "get_range_search_string (Some ''10.1.0.0'') 16 0 = (0, Some ''10.1.%'')"
    using search_string [of 10 1 0 0 16]
    by (simp add: dotted_def dec.simps char_of_def bit_Suc_0_iff)
  then have "search_base (Some ''10.1.0.0'') 16 0 = (0, Some ''10.1.'')"
    by (simp add: search_base_def strrchr_def)
  then show ?thesis
    by (simp add: cmdb_records_to_add_def get_zone_index_def record_of_def rev_of_def new_record_def snprintf_s_def
        strncmp_eq_def add_row_def strrchr_def Let_def)
qed

subsection \<open>Properties\<close>

text \<open>C33: Trimming the list of forward records, cell by cell, leaves exactly the records that no preferred
  record outranks, in their order: the deletions during the walk skip no element and lose none.\<close>

theorem trimming_refines_filter:
  assumes "heap_rep (h, r) recs" "l_destroy r" "\<forall>p \<in> set prefs. pf_ip p \<noteq> None" "\<forall>rc \<in> set recs. rc_dest rc \<noteq> None"
  shows "\<exists>h' r'. cmdb_trim_record_list h (Some r) (Some prefs) = Some (0, h', Some r') \<and>
    heap_rep (h', r') (filter (\<lambda>rc. \<forall>p \<in> set prefs. outranked p rc \<noteq> Some True) recs)"
proof (cases "l_total r = 0 \<or> prefs = []")
  case True
  then have "recs = [] \<or> prefs = []" using assms(1) by (auto simp: heap_rep_def list_rep_def)
  then show ?thesis using assms(1) True by (auto simp: cmdb_trim_record_list_def)
next
  case False
  obtain h' r' where "trim_prefs prefs h r = Some (0, h', r')" "heap_rep (h', r') (trim_records prefs recs)"
    using trim_prefs_records [OF assms(1,2)] assms(3,4) outranked_defined by blast
  then show ?thesis using False assms(2) by (simp add: cmdb_trim_record_list_def trim_records_filter)
qed

theorem trimming_refines_filter_witness:
  "\<exists>h' r'. cmdb_trim_record_list record_heap (Some record_list) (Some [preferred_of ''10.1.1.5'' 8]) =
      Some (0, h', Some r') \<and> heap_rep (h', r') [record_of ''mail'' ''10.1.1.5'' 8]"
proof -
  let ?recs = "[record_of ''www'' ''10.1.1.5'' 7, record_of ''mail'' ''10.1.1.5'' 8]"
  have "list_rep record_heap record_list [(0, Some (?recs ! 0)), (1, Some (?recs ! 1))]"
    by (simp add: list_rep_def record_heap_def record_list_def)
  then have "heap_rep (record_heap, record_list) ?recs"
    by (fastforce simp: heap_rep_def heap_ok_def record_heap_def)
  from trimming_refines_filter [OF this, of "[preferred_of ''10.1.1.5'' 8]"] show ?thesis
    by (simp add: record_list_def outranked_def record_of_def preferred_of_def new_record_def new_preferred_def)
qed

text \<open>C4: For a reverse zone of one range \<open>a.b.c.0/24\<close> the rows to remove are the reverse records whose
  address and name no forward record asks for, the rows to add are those of the forward records
  that no reverse record answers, and the records that stay together with the new rows are
  exactly what the forward records ask for.\<close>

theorem reverse_zone_in_step:
  fixes a b c d :: nat
  assumes range: "a \<le> 255" "b \<le> 255" "c \<le> 255" "d \<le> 255" "0 < a"
    and recs: "\<forall>f \<in> set recs. fwd_in (range_base a b c) f" and revs: "\<forall>r \<in> set revs. rev_in r"
  shows "let want = map (wanted (range_base a b c)) recs; have = map present revs;
      stale = filter (\<lambda>r. present r \<notin> set want) revs;
      fresh = filter (\<lambda>f. wanted (range_base a b c) f \<notin> set have) recs in
    cmdb_records_to_remove (Some (dotted a b c d)) 24 recs revs (Some []) =
      Some (0, Some (map (\<lambda>r. D_LINT (rc_id r)) stale)) \<and>
    cmdb_records_to_add uid (Some (dotted a b c d)) zone_id 24 recs revs (Some []) =
      Some (0, Some (concat (map (new_row uid zone_id (range_base a b c)) fresh))) \<and>
    set (map present (filter (\<lambda>r. present r \<in> set want) revs)) \<union>
      set (map (wanted (range_base a b c)) fresh) = set want"
proof -
  let ?base = "range_base a b c"
  have index: "get_zone_index 24 = (0, Some 1)" by (simp add: get_zone_index_def)
  have base: "search_base (Some (dotted a b c d)) 24 0 = (0, Some ?base)"
    using search_base_percent [of _ 24 0] range_search [OF range] by simp
  have ok: "base_ok ?base" using range_base_ok range by simp
  have rem: "cmdb_records_to_remove (Some (dotted a b c d)) 24 recs revs (Some []) =
      Some (0, Some (map (\<lambda>r. D_LINT (rc_id r)) (filter (\<lambda>r. present r \<notin> set (map (wanted ?base) recs)) revs)))"
    using remove_scan_list [OF ok recs revs, of "[]"] base index
    by (simp add: cmdb_records_to_remove_def)
  have add: "cmdb_records_to_add uid (Some (dotted a b c d)) zone_id 24 recs revs (Some []) =
      Some (0, Some (concat (map (new_row uid zone_id ?base)
        (filter (\<lambda>f. wanted ?base f \<notin> set (map present revs)) recs))))"
    using add_forwards_list [OF ok recs revs _ _ range_search [OF range], of "''%''" uid zone_id "[]"] base index
    by (simp add: cmdb_records_to_add_def)
  show ?thesis unfolding Let_def by (rule conjI [OF rem conjI [OF add kept_and_fresh]])
qed

theorem reverse_zone_in_step_witness:
  "cmdb_records_to_add 1000 (Some ''10.1.1.0'') 3 24 [record_of ''www'' ''10.1.1.5'' 7]
     [rev_of ''9'' ''old.example.org.'' 4] (Some []) =
   Some (0, Some [D_LINT 3, D_LINT 0, D_TEXT ''5'', D_TEXT ''www.example.org.'', D_LINT 1000, D_LINT 1000])"
proof -
  have f: "fwd_in (range_base 10 1 1) (record_of ''www'' ''10.1.1.5'' 7)"
    unfolding demo_base by (auto simp: fwd_in_def record_of_def new_record_def)
  have r: "rev_in (rev_of ''9'' ''old.example.org.'' 4)"
    by (simp add: rev_in_def rev_of_def new_record_def)
  show ?thesis
    using reverse_zone_in_step [of 10 1 1 0 "[record_of ''www'' ''10.1.1.5'' 7]"
        "[rev_of ''9'' ''old.example.org.'' 4]" 1000 3] f r
    unfolding demo_base
    by (simp add: Let_def wanted_def present_def record_of_def rev_of_def new_record_def fqdn_of_def
        strncmp_eq_def snprintf_s_def new_row_def)
qed

end
