(* ===== verification/Zone_Commands.thy ===== *)
theory Zone_Commands
  imports Zone_Files Dnsa_Reverse
begin

text \<open>
  src/zones.c: the operations of the DNS command on whole zones: adding, deleting and committing forward
  and reverse zones, and building a reverse zone from the forward records.
\<close>

subsection \<open>Committing zones\<close>

definition check_zone :: "services \<Rightarrow> cstr \<Rightarrow> ailsa_cmdb_s option \<Rightarrow> 'db site \<Rightarrow> 'db site_result" where
  "check_zone os domain dc st = do {
     cc \<leftarrow> dc;
     chkz \<leftarrow> cc_chkz cc;
     domain \<leftarrow> domain;
     dir \<leftarrow> cc_dir cc;
     let (retval, st) = run_system os (snprintf_s CONFIG_LEN (chkz @ '' '' @ domain @ '' '' @ dir @ domain)) st;
     Some (if retval \<noteq> 0 then AILSA_CHKZONE_FAIL else retval, st)
   }"

text \<open>The loop over all zones goes on when the validation of one fails.\<close>

fun validate_all_fwd ::
  "'db sqlite3_api \<Rightarrow> services \<Rightarrow> ailsa_cmdb_s option \<Rightarrow> ailsa_data list \<Rightarrow> 'db site \<Rightarrow> 'db site option" where
  "validate_all_fwd api os dc [] st = Some st"
| "validate_all_fwd api os dc (z # t # rest) st = do {
     zone \<leftarrow> get_text z;
     type \<leftarrow> get_text t;
     (retval, st) \<leftarrow> cmdb_validate_zone api os dc FORWARD_ZONE zone type 0 st;
     validate_all_fwd api os dc rest st
   }"
| "validate_all_fwd api os dc _ st = None"

definition commit_fwd_zones ::
  "'db sqlite3_api \<Rightarrow> services \<Rightarrow> ailsa_cmdb_s option \<Rightarrow> cstr \<Rightarrow> 'db site \<Rightarrow> 'db site_result" where
  "commit_fwd_zones api os dc name st =
    (if dc = None then Some (AILSA_NO_DATA, st)
     else
       let config_and_reload = (\<lambda>st. chk0 (cmdb_write_fwd_zone_config api os dc st) (reload os dc))
       in if name \<noteq> None then
         on_list st (cmdb_add_string_to_list name (Some [])) (\<lambda>l.
         on_query st (\<lambda>w. ailsa_argument_query api w dc ZONE_TYPE_ON_NAME l (Some [])) (\<lambda>st r.
         case r of [] \<Rightarrow> Some (0, st)
         | t # _ \<Rightarrow> do {
             type \<leftarrow> get_text t;
             chk0 (cmdb_validate_zone api os dc FORWARD_ZONE name type 0 st) config_and_reload
           }))
       else
         on_query st (\<lambda>w. ailsa_basic_query api w dc ZONE_NAME_TYPES (Some [])) (\<lambda>st r.
         if length r = 0 then Some (0, st)
         else if length r mod 2 \<noteq> 0 then Some (0, st)
         else do { st \<leftarrow> validate_all_fwd api os dc r st; config_and_reload st }))"

fun validate_all_rev ::
  "'db sqlite3_api \<Rightarrow> services \<Rightarrow> ailsa_cmdb_s option \<Rightarrow> cstr \<Rightarrow> ailsa_data list \<Rightarrow> 'db site \<Rightarrow> 'db site option" where
  "validate_all_rev api os dc name [] st = Some st"
| "validate_all_rev api os dc name (z # t # p # rest) st = do {
     zone \<leftarrow> get_text z;
     type \<leftarrow> get_text t;
     text \<leftarrow> text_of p;
     let prefix = unat (strtoul10 text);
     wanted \<leftarrow> (case name of None \<Rightarrow> Some True
       | Some n \<Rightarrow> map_option (\<lambda>z. strncmp_eq n z DOMAIN_LEN) zone);
     st \<leftarrow> (if wanted then map_option snd (cmdb_validate_zone api os dc REVERSE_ZONE zone type prefix st)
           else Some st);
     validate_all_rev api os dc name rest st
   }"
| "validate_all_rev api os dc name _ st = None"

definition commit_rev_zones ::
  "'db sqlite3_api \<Rightarrow> services \<Rightarrow> ailsa_cmdb_s option \<Rightarrow> cstr \<Rightarrow> 'db site \<Rightarrow> 'db site_result" where
  "commit_rev_zones api os dc name st =
    (if dc = None then Some (AILSA_NO_DATA, st)
     else on_query st (\<lambda>w. ailsa_basic_query api w dc REV_ZONES_NET_RANGE (Some [])) (\<lambda>st l.
       if length l = 0 then Some (0, st)
       else do {
         st \<leftarrow> validate_all_rev api os dc name l st;
         chk0 (cmdb_write_rev_zone_config api os dc st) (reload os dc)
       }))"

subsection \<open>Adding and deleting zones\<close>

definition add_fwd_zone ::
  "'db sqlite3_api \<Rightarrow> services \<Rightarrow> ailsa_cmdb_s option \<Rightarrow> dnsa_comm_line_s option \<Rightarrow> 'db site \<Rightarrow> 'db site_result" where
  "add_fwd_zone api os dc cm st = (case cm of None \<Rightarrow> Some (AILSA_NO_DATA, st) | Some cm \<Rightarrow>
     if dc = None then Some (AILSA_NO_DATA, st)
     else add_forward_zone api os dc (dcl_domain cm) (dcl_ztype cm) (dcl_master cm) st)"

definition zone_type :: "dnsa_comm_line_s \<Rightarrow> cstr" where
  "zone_type cm = (if dcl_ztype cm \<noteq> None then dcl_ztype cm else Some ''master'')"

definition delete_fwd_zone ::
  "'db sqlite3_api \<Rightarrow> services \<Rightarrow> ailsa_cmdb_s option \<Rightarrow> dnsa_comm_line_s option \<Rightarrow> 'db site \<Rightarrow> 'db site_result" where
  "delete_fwd_zone api os dc cm st = (case cm of None \<Rightarrow> Some (AILSA_NO_DATA, st) | Some cm \<Rightarrow>
     if dc = None then Some (AILSA_NO_DATA, st)
     else on_query st (\<lambda>w. cmdb_check_add_zone_id_to_list api w (dcl_domain cm) FORWARD_ZONE (zone_type cm) dc (Some []))
       (\<lambda>st z.
       chk0 (on_world st (\<lambda>w. ailsa_delete_query api w dc (delete_queries ! DELETE_FWD_ZONE) (Some z))) (\<lambda>st.
       chk0 (cmdb_write_fwd_zone_config api os dc st) (reload os dc))))"

definition add_rev_zone ::
  "'db sqlite3_api \<Rightarrow> services \<Rightarrow> ailsa_cmdb_s option \<Rightarrow> dnsa_comm_line_s option \<Rightarrow> 'db site \<Rightarrow> 'db site_result" where
  "add_rev_zone api os dc cm st = (case cm of None \<Rightarrow> Some (AILSA_NO_DATA, st) | Some cm \<Rightarrow>
     if dc = None then Some (AILSA_NO_DATA, st)
     else add_reverse_zone api os dc (dcl_domain cm) (dcl_ztype cm) (dcl_master cm) (unat (dcl_prefix cm)) st)"

text \<open>A reverse zone that is not found is no error here.\<close>

definition delete_reverse_zone ::
  "'db sqlite3_api \<Rightarrow> services \<Rightarrow> ailsa_cmdb_s option \<Rightarrow> dnsa_comm_line_s option \<Rightarrow> 'db site \<Rightarrow> 'db site_result" where
  "delete_reverse_zone api os dc cm st = (case cm of None \<Rightarrow> Some (AILSA_NO_DATA, st) | Some cm \<Rightarrow>
     if dc = None then Some (AILSA_NO_DATA, st)
     else do {
       (retval, w, z) \<leftarrow> cmdb_check_add_zone_id_to_list api (si_world st) (dcl_domain cm) REVERSE_ZONE
         (zone_type cm) dc (Some []);
       let st = st\<lparr>si_world := w\<rparr>;
       if retval \<noteq> 0 then Some (0, st)
       else
         chk0 (on_world st (\<lambda>w. ailsa_delete_query api w dc (delete_queries ! DELETE_REV_ZONE) z)) (\<lambda>st.
         chk0 (cmdb_write_rev_zone_config api os dc st) (reload os dc))
     })"

subsection \<open>Building a reverse zone\<close>

text \<open>The records are fetched; what follows works on the lists.\<close>

definition reverse_updates ::
  "'db sqlite3_api \<Rightarrow> services \<Rightarrow> ailsa_cmdb_s option \<Rightarrow> cstr \<Rightarrow> nat \<Rightarrow> u64 \<Rightarrow> 'db world \<Rightarrow>
   (int \<times> 'db world \<times> ailsa_data list \<times> ailsa_data list) option" where
  "reverse_updates api os dc domain prefix zone_id w =
    (case get_zone_index prefix of (retval, index) \<Rightarrow>
     if retval \<noteq> 0 then Some (retval, w, [], [])
     else do {
       index \<leftarrow> index;
       (retval, w, revs) \<leftarrow> get_rev_records api w dc (Some []) domain index;
       revs \<leftarrow> revs;
       if retval \<noteq> 0 then Some (retval, w, [], [])
       else do {
         (retval, w, recs) \<leftarrow> get_fwd_records api w dc (Some []) domain prefix;
         recs \<leftarrow> recs;
         if retval \<noteq> 0 then Some (retval, w, [], [])
         else do {
           (retval, w, prefs) \<leftarrow> get_pref_records api w dc (Some []) domain prefix;
           prefs \<leftarrow> prefs;
           if retval \<noteq> 0 then Some (retval, w, [], [])
           else let recs = trim_records prefs recs in do {
             (retval, rem) \<leftarrow> cmdb_records_to_remove domain prefix recs revs (Some []);
             rem \<leftarrow> rem;
             if retval \<noteq> 0 then Some (retval, w, rem, [])
             else do {
               (retval, add) \<leftarrow> cmdb_records_to_add (os_uid os) domain zone_id prefix recs revs (Some []);
               add \<leftarrow> add;
               Some (retval, w, rem, add)
             }
           }
         }
       }
     })"

definition apply_reverse_updates ::
  "'db sqlite3_api \<Rightarrow> services \<Rightarrow> ailsa_cmdb_s option \<Rightarrow> cstr \<Rightarrow> nat \<Rightarrow> ailsa_data list \<Rightarrow> ailsa_data list \<Rightarrow>
   'db site \<Rightarrow> 'db site_result" where
  "apply_reverse_updates api os dc domain prefix rem add st =
     chk0 (if rem \<noteq> [] then on_world st (\<lambda>w. ailsa_multiple_delete api w dc (delete_queries ! DELETE_REVERSE_RECORD) (Some rem))
           else Some (0, st)) (\<lambda>st.
     chk0 (if add \<noteq> [] then on_world st (\<lambda>w. ailsa_multiple_query api w dc (insert_queries ! INSERT_REVERSE_RECORD) (Some add))
           else Some (0, st)) (\<lambda>st.
     on_list st (cmdb_add_number_to_list (ucast (os_uid os)) (Some [])) (\<lambda>net.
     on_list st (cmdb_add_string_to_list domain net) (\<lambda>net.
     chk0 (on_world st (\<lambda>w. ailsa_update_query api w dc (update_queries ! SET_REV_ZONE_UPDATED) net)) (\<lambda>st.
     chk0 (cmdb_validate_zone api os dc REVERSE_ZONE domain (Some ''master'') prefix st) (reload os dc))))))"

definition build_reverse_zone ::
  "'db sqlite3_api \<Rightarrow> services \<Rightarrow> ailsa_cmdb_s option \<Rightarrow> dnsa_comm_line_s option \<Rightarrow> 'db site \<Rightarrow> 'db site_result" where
  "build_reverse_zone api os dc cm st = (case cm of None \<Rightarrow> Some (AILSA_NO_DATA, st) | Some cm \<Rightarrow>
     if dc = None then Some (AILSA_NO_DATA, st)
     else
       on_list st (cmdb_add_string_to_list (dcl_domain cm) (Some [])) (\<lambda>net.
       on_query st (\<lambda>w. ailsa_argument_query api w dc PREFIX_ON_NET_RANGE net (Some [])) (\<lambda>st fix.
       case fix of [] \<Rightarrow> Some (0, st)
       | p # _ \<Rightarrow> do {
           text \<leftarrow> text_of p;
           let prefix = unat (strtoul10 text);
           on_list st (cmdb_add_string_to_list (Some ''master'') net) (\<lambda>net.
           on_query st (\<lambda>w. ailsa_argument_query api w dc REV_ZONE_ID_ON_RANGE net (Some [])) (\<lambda>st fix.
           case fix of [] \<Rightarrow> Some (0, st)
           | z # _ \<Rightarrow> do {
               zone_id \<leftarrow> get_number z;
               (retval, w, rem, add) \<leftarrow> reverse_updates api os dc (dcl_domain cm) prefix zone_id (si_world st);
               let st = st\<lparr>si_world := w\<rparr>;
               if retval \<noteq> 0 then Some (retval, st)
               else if rem \<noteq> [] \<or> add \<noteq> [] then apply_reverse_updates api os dc (dcl_domain cm) prefix rem add st
               else Some (0, st)
             }))
         })))"

end
