(* ===== verification/Dnsa_Records.thy ===== *)
theory Dnsa_Records
  imports Zone_Files Dnsa_Reverse
begin

text \<open>
  src/zones.c: the operations of the DNS command on the records of a forward zone, on preferred address
  records and on glue zones.  They change only the database.
\<close>

subsection \<open>Steps\<close>

text \<open>A query whose code other than 0 ends the function; an argument list likewise.\<close>

definition then_rows ::
  "'db query_result \<Rightarrow> ('db world \<Rightarrow> ailsa_data list \<Rightarrow> (int \<times> 'db world) option) \<Rightarrow> (int \<times> 'db world) option" where
  "then_rows query rest = do {
     (retval, w, l) \<leftarrow> query;
     rows \<leftarrow> l;
     if retval \<noteq> 0 then Some (retval, w) else rest w rows
   }"

definition then_list ::
  "'db world \<Rightarrow> int \<times> db_list \<Rightarrow> (db_list \<Rightarrow> (int \<times> 'db world) option) \<Rightarrow> (int \<times> 'db world) option" where
  "then_list w call rest = (if fst call \<noteq> 0 then Some (fst call, w) else rest (snd call))"

subsection \<open>Adding a record\<close>

text \<open>\<open>strcmp\<close> on a NULL record type is a crash; the first call refuses NULL.\<close>

definition dnsa_populate_record :: "ailsa_cmdb_s option \<Rightarrow> dnsa_comm_line_s option \<Rightarrow> db_list \<Rightarrow> int \<times> db_list" where
  "dnsa_populate_record cbc dcl list = (case dcl of None \<Rightarrow> (AILSA_NO_DATA, list) | Some dcl \<Rightarrow>
     if cbc = None \<or> list = None then (AILSA_NO_DATA, list)
     else add_args (
       [cmdb_add_string_to_list (dcl_rtype dcl),
        cmdb_add_string_to_list (dcl_host dcl),
        cmdb_add_string_to_list (dcl_dest dcl)] @
       (if dcl_rtype dcl = Some ''MX'' \<or> dcl_rtype dcl = Some ''SRV''
        then [cmdb_add_number_to_list (dcl_prefix dcl)] else []) @
       (if dcl_rtype dcl = Some ''SRV''
        then [cmdb_add_string_to_list (dcl_protocol dcl), cmdb_add_string_to_list (dcl_service dcl)] else [])) list)"

definition insert_record_query :: "nat \<Rightarrow> nat option" where
  "insert_record_query n =
    (if n = 6 then Some INSERT_RECORD_BASE else if n = 7 then Some INSERT_RECORD_MX
     else if n = 9 then Some INSERT_RECORD_SRV else None)"

definition add_host ::
  "'db sqlite3_api \<Rightarrow> u32 \<Rightarrow> ailsa_cmdb_s option \<Rightarrow> dnsa_comm_line_s option \<Rightarrow> 'db world \<Rightarrow> (int \<times> 'db world) option" where
  "add_host api uid dc cm w = (case cm of None \<Rightarrow> Some (AILSA_NO_DATA, w) | Some cl \<Rightarrow>
     if dc = None then Some (AILSA_NO_DATA, w)
     else then_rows (cmdb_check_add_zone_id_to_list api w (dcl_domain cl) FORWARD_ZONE (Some ''master'') dc (Some []))
       (\<lambda>w rec.
       then_list w (dnsa_populate_record dc cm (Some rec)) (\<lambda>rec. do {
         (retval, w) \<leftarrow> cmdb_check_for_fwd_record api w dc rec;
         if retval < 0 then Some (retval, w)
         else if retval > 0 then Some (0, w)
         else then_list w (cmdb_populate_cuser_muser uid rec) (\<lambda>rec. do {
           r \<leftarrow> rec;
           (case insert_record_query (length r) of
              None \<Rightarrow> Some (AILSA_WRONG_LIST_LENGHT, w)
            | Some query \<Rightarrow>
                chk0 (ailsa_insert_query api w dc query rec) (\<lambda>w.
                set_db_row_updated api uid w dc SET_FWD_ZONE_UPDATED_ON_NAME (dcl_domain cl) 0))
         })
       })))"

subsection \<open>Deleting a record\<close>

definition delete_record_queries :: "nat \<Rightarrow> (nat \<times> nat) option" where
  "delete_record_queries n =
    (if n = 3 then Some (RECORD_ID_ON_HOST_ZONE_TYPE, DELETE_REC_TYPE_HOST)
     else if n = 4 then Some (RECORD_IN_ON_PRI, DELETE_REC_PRI)
     else if n = 6 then Some (RECORD_IN_ON_PROTOCOL, DELETE_REC_PROTO) else None)"

text \<open>The code of the delete statement is overwritten by that of the update that follows it.\<close>

definition delete_record ::
  "'db sqlite3_api \<Rightarrow> u32 \<Rightarrow> ailsa_cmdb_s option \<Rightarrow> dnsa_comm_line_s option \<Rightarrow> 'db world \<Rightarrow> (int \<times> 'db world) option" where
  "delete_record api uid dc cm w = (case cm of None \<Rightarrow> Some (AILSA_NO_DATA, w) | Some cl \<Rightarrow>
     if dc = None then Some (AILSA_NO_DATA, w)
     else then_rows (cmdb_check_add_zone_id_to_list api w (dcl_domain cl) FORWARD_ZONE (Some ''master'') dc (Some []))
       (\<lambda>w rec.
       then_list w (add_args (
           [cmdb_add_string_to_list (dcl_rtype cl), cmdb_add_string_to_list (dcl_host cl)] @
           (if dcl_prefix cl \<noteq> 0 then [cmdb_add_number_to_list (dcl_prefix cl)] else []) @
           (if dcl_protocol cl \<noteq> None
            then [cmdb_add_string_to_list (dcl_protocol cl), cmdb_add_string_to_list (dcl_service cl)] else []))
         (Some rec)) (\<lambda>rec. do {
         r \<leftarrow> rec;
         (case delete_record_queries (length r) of
            None \<Rightarrow> Some (AILSA_WRONG_LIST_LENGHT, w)
          | Some (query, del) \<Rightarrow>
              then_rows (ailsa_argument_query api w dc query rec (Some [])) (\<lambda>w list.
              if length list = 0 then Some (0, w)
              else do {
                (retval, w) \<leftarrow> ailsa_delete_query api w dc (delete_queries ! del) rec;
                set_db_row_updated api uid w dc SET_FWD_ZONE_UPDATED_ON_NAME (dcl_domain cl) 0
              }))
       })))"

subsection \<open>Aliases in the domain above\<close>

text \<open>The domain after the first dot.\<close>

definition parent_domain :: "string \<Rightarrow> string option" where
  "parent_domain domain = map_option (\<lambda>i. drop (i + 1) domain) (strchr domain (CHR ''.''))"

definition check_for_zones_and_hosts ::
  "'db sqlite3_api \<Rightarrow> ailsa_cmdb_s option \<Rightarrow> cstr \<Rightarrow> cstr \<Rightarrow> cstr \<Rightarrow> 'db world \<Rightarrow> (int \<times> 'db world) option" where
  "check_for_zones_and_hosts api dc domain toplevel host w =
    (if dc = None \<or> domain = None \<or> host = None then Some (AILSA_NO_DATA, w)
     else then_rows (cmdb_check_add_zone_id_to_list api w domain FORWARD_ZONE (Some ''master'') dc (Some [])) (\<lambda>w d.
       (case (if toplevel \<noteq> None then toplevel else do { s \<leftarrow> domain; parent_domain (snprintf_s DOMAIN_LEN s) }) of
          None \<Rightarrow> Some (AILSA_NO_TOP_LEVEL_DOMAIN, w)
        | Some parent \<Rightarrow>
            then_rows (cmdb_check_add_zone_id_to_list api w (Some parent) FORWARD_ZONE (Some ''master'') dc (Some []))
            (\<lambda>w t.
            if toplevel = None \<and> length t = 0 then Some (0, w)
            else then_list w (cmdb_add_string_to_list host (Some d)) (\<lambda>d.
            then_list w (cmdb_add_string_to_list host (Some t)) (\<lambda>t.
            then_rows (ailsa_argument_query api w dc RECORD_ON_ZONE_AND_HOST_AND_A d (Some [])) (\<lambda>w z.
            if length z = 0 then Some (AILSA_NO_HOST, w)
            else then_rows (ailsa_argument_query api w dc RECORD_ON_ZONE_AND_HOST t (Some z)) (\<lambda>w z'.
            Some (if length z \<noteq> length z' then AILSA_HOST_EXISTS else 0, w))))))))) "

text \<open>The command line's toplevel domain, when it was missing, is set in passing and not used again.\<close>

definition add_cname_to_root_domain ::
  "'db sqlite3_api \<Rightarrow> u32 \<Rightarrow> ailsa_cmdb_s option \<Rightarrow> dnsa_comm_line_s option \<Rightarrow> 'db world \<Rightarrow> (int \<times> 'db world) option" where
  "add_cname_to_root_domain api uid dc cm w = (case cm of None \<Rightarrow> Some (AILSA_NO_DATA, w) | Some cl \<Rightarrow>
     if dc = None then Some (AILSA_NO_DATA, w)
     else chk0 (check_for_zones_and_hosts api dc (dcl_domain cl) (dcl_toplevel cl) (dcl_host cl) w) (\<lambda>w. do {
       domain \<leftarrow> dcl_domain cl;
       host \<leftarrow> dcl_host cl;
       (case (if dcl_toplevel cl \<noteq> None then dcl_toplevel cl else parent_domain (snprintf_s DOMAIN_LEN domain)) of
          None \<Rightarrow> Some (AILSA_NO_TOP_LEVEL_DOMAIN, w)
        | Some parent \<Rightarrow>
            then_rows (cmdb_check_add_zone_id_to_list api w (Some parent) FORWARD_ZONE (Some ''master'') dc (Some []))
            (\<lambda>w c.
            then_list w (add_args
              [cmdb_add_string_to_list (Some ''CNAME''),
               cmdb_add_string_to_list (Some host),
               cmdb_add_string_to_list (Some (snprintf_s DOMAIN_LEN (host @ ''.'' @ domain @ ''.''))),
               cmdb_populate_cuser_muser uid] (Some c)) (\<lambda>c.
            chk0 (ailsa_insert_query api w dc INSERT_RECORD_BASE c) (\<lambda>w. do {
              l \<leftarrow> c;
              n \<leftarrow> (case l of [] \<Rightarrow> None | z # _ \<Rightarrow> get_number z);
              set_db_row_updated api uid w dc SET_FWD_ZONE_UPDATED None n
            }))))
     }))"

subsection \<open>Preferred address records\<close>

definition mark_preferred_a_record ::
  "'db sqlite3_api \<Rightarrow> u32 \<Rightarrow> ailsa_cmdb_s option \<Rightarrow> dnsa_comm_line_s option \<Rightarrow> 'db world \<Rightarrow> (int \<times> 'db world) option" where
  "mark_preferred_a_record api uid dc cm w = (case cm of None \<Rightarrow> Some (AILSA_NO_DATA, w) | Some cl \<Rightarrow>
     if dc = None then Some (AILSA_NO_DATA, w)
     else then_list w (cmdb_add_string_to_list (dcl_dest cl) (Some [])) (\<lambda>i.
       then_rows (ailsa_argument_query api w dc DUP_IP_A_RECORD i (Some [])) (\<lambda>w r.
       if length r = 0 then Some (0, w)
       else then_rows (ailsa_argument_query api w dc FQDN_PREF_A_ON_IP i (Some [])) (\<lambda>w r.
       if length r > 0 then Some (0, w)
       else do {
         dest \<leftarrow> dcl_dest cl;
         (case pton4 dest of
            None \<Rightarrow> Some (DEST_INPUT_INVALID, w)
          | Some ip \<Rightarrow>
              then_list w (cmdb_add_number_to_list (ucast ip) i) (\<lambda>i.
              then_rows (cmdb_check_add_zone_id_to_list api w (dcl_domain cl) FORWARD_ZONE (Some ''master'') dc (Some []))
              (\<lambda>w r.
              then_list w (dnsa_populate_record dc cm (Some r)) (\<lambda>r. do {
                args \<leftarrow> i;
                host \<leftarrow> dcl_host cl;
                domain \<leftarrow> dcl_domain cl;
                let fqdn = snprintf_s DOMAIN_LEN (host @ ''.'' @ domain);
                then_rows (ailsa_argument_query api w dc RECORD_ID_BASE r i) (\<lambda>w i.
                if length i = length args then Some (0, w)
                else then_list w (add_args [cmdb_add_string_to_list (Some fqdn), cmdb_populate_cuser_muser uid] (Some i))
                  (\<lambda>i. ailsa_insert_query api w dc INSERT_PREF_A i))
              }))))
       }))))"

definition delete_preferred_a ::
  "'db sqlite3_api \<Rightarrow> ailsa_cmdb_s option \<Rightarrow> dnsa_comm_line_s option \<Rightarrow> 'db world \<Rightarrow> (int \<times> 'db world) option" where
  "delete_preferred_a api dc cm w = (case cm of None \<Rightarrow> Some (AILSA_NO_DATA, w) | Some cl \<Rightarrow>
     if dc = None then Some (AILSA_NO_DATA, w)
     else then_list w (cmdb_add_string_to_list (dcl_dest cl) (Some [])) (\<lambda>l.
       ailsa_delete_query api w dc (delete_queries ! DELETE_PREF_A) l))"

subsection \<open>Addresses with several records\<close>

text \<open>The search pattern of a net range, in the buffer \<open>range\<close>: the last one, two or three octets are replaced.\<close>

definition get_search_net_range :: "cstr \<Rightarrow> u64 \<Rightarrow> int \<times> string" where
  "get_search_net_range domain prefix = (case domain of None \<Rightarrow> (AILSA_NO_DATA, []) | Some domain \<Rightarrow>
     if prefix = 0 then (AILSA_NO_DATA, [])
     else let r = snprintf_s (MAC_LEN) domain in
       (case strrchr r (CHR ''.'') of
          None \<Rightarrow> (AILSA_RANGE_ERROR, r)
        | Some p \<Rightarrow>
            if prefix < 24 then
              (case strrchr (take p r) (CHR ''.'') of
                 None \<Rightarrow> (AILSA_RANGE_ERROR, take p r)
               | Some q \<Rightarrow>
                   if prefix < 16 then
                     (case strrchr (take q r) (CHR ''.'') of
                        None \<Rightarrow> (AILSA_RANGE_ERROR, take q r)
                      | Some s \<Rightarrow> (0, take (s + 1) r @ ''%''))
                   else (0, take (q + 1) r @ ''%''))
            else (0, take (p + 1) r @ ''%'')))"

text \<open>The result holds the contents of the caller's buffer, which is empty before.\<close>

definition setup_net_range ::
  "'db sqlite3_api \<Rightarrow> ailsa_cmdb_s option \<Rightarrow> cstr \<Rightarrow> 'db world \<Rightarrow> (int \<times> 'db world \<times> string) option" where
  "setup_net_range api dc domain w =
    (if dc = None \<or> domain = None then Some (AILSA_NO_DATA, w, [])
     else (case cmdb_add_string_to_list domain (Some []) of (retval, net) \<Rightarrow>
       if retval \<noteq> 0 then Some (retval, w, [])
       else do {
         (retval, w, pre) \<leftarrow> ailsa_argument_query api w dc PREFIX_ON_NET_RANGE net (Some []);
         rows \<leftarrow> pre;
         if retval \<noteq> 0 then Some (retval, w, [])
         else (case rows of
             [] \<Rightarrow> Some (0, w, [])
           | p # _ \<Rightarrow> do {
               text \<leftarrow> text_of p;
               (case get_search_net_range domain (strtoul10 text) of (retval, search) \<Rightarrow> Some (retval, w, search))
             })
       }))"

text \<open>What is printed is the last part of the result.\<close>

fun multi_a_rows ::
  "'db sqlite3_api \<Rightarrow> ailsa_cmdb_s option \<Rightarrow> ailsa_data list \<Rightarrow> 'db world \<Rightarrow> (int \<times> 'db world \<times> string) option" where
  "multi_a_rows api dc [] w = Some (0, w, [])"
| "multi_a_rows api dc (a # n # rest) w = do {
     ip \<leftarrow> get_text a;
     (case cmdb_add_string_to_list ip (Some []) of (retval, pre) \<Rightarrow>
        if retval \<noteq> 0 then Some (retval, w, [])
        else do {
          (retval, w, md) \<leftarrow> ailsa_argument_query api w dc FQDN_PREF_A_ON_IP pre (Some []);
          rows \<leftarrow> md;
          if retval \<noteq> 0 then Some (retval, w, [])
          else do {
            ip \<leftarrow> ip;
            count \<leftarrow> get_number n;
            pref \<leftarrow> (case rows of [] \<Rightarrow> Some ''No preferred A record set'' | d # _ \<Rightarrow> text_of d);
            (retval, w, more) \<leftarrow> multi_a_rows api dc rest w;
            Some (retval, w, ip @ (if length ip < 8 then tabs 2 else tab) @ lu count @ tab @ pref @ nl @ more)
          }
        })
   }"
| "multi_a_rows api dc _ w = None"

definition multi_a_range ::
  "'db sqlite3_api \<Rightarrow> ailsa_cmdb_s option \<Rightarrow> dnsa_comm_line_s option \<Rightarrow> 'db world \<Rightarrow>
   (int \<times> 'db world \<times> string) option" where
  "multi_a_range api dc dcl w = (case dcl of None \<Rightarrow> Some (AILSA_NO_DATA, w, []) | Some cl \<Rightarrow>
     if dc = None then Some (AILSA_NO_DATA, w, [])
     else do {
       (retval, w, search) \<leftarrow> setup_net_range api dc (dcl_domain cl) w;
       if retval \<noteq> 0 then Some (retval, w, [])
       else (case cmdb_add_string_to_list (Some search) (Some []) of (retval, net) \<Rightarrow>
         if retval \<noteq> 0 then Some (retval, w, [])
         else do {
           (retval, w, ip) \<leftarrow> ailsa_argument_query api w dc DUP_IP_NET_RANGE net (Some []);
           rows \<leftarrow> ip;
           if retval \<noteq> 0 \<or> length rows = 0 \<or> length rows mod 2 \<noteq> 0 then Some (retval, w, [])
           else do {
             (retval, w, text) \<leftarrow> multi_a_rows api dc rows w;
             Some (retval, w, ''Destination'' @ tab @ ''#'' @ tab @ ''host'' @ nl @ text)
           }
         })
     })"

text \<open>The names of one address; the star marks the preferred one.\<close>

fun multi_a_names :: "cstr option \<Rightarrow> ailsa_data list \<Rightarrow> string option" where
  "multi_a_names preferred [] = Some []"
| "multi_a_names preferred (h # d # rest) = do {
     host \<leftarrow> text_of h;
     domain \<leftarrow> text_of d;
     let hostname = snprintf_s DOMAIN_LEN (host @ ''.'' @ domain);
     star \<leftarrow> (case preferred of None \<Rightarrow> Some False
       | Some p \<Rightarrow> map_option (\<lambda>p. strncmp_eq hostname p DOMAIN_LEN) p);
     more \<leftarrow> multi_a_names preferred rest;
     Some ((if star then ''   *'' else []) @ tab @ hostname @ nl @ more)
   }"
| "multi_a_names preferred _ = None"

definition multi_a_ip_address ::
  "'db sqlite3_api \<Rightarrow> ailsa_cmdb_s option \<Rightarrow> dnsa_comm_line_s option \<Rightarrow> 'db world \<Rightarrow>
   (int \<times> 'db world \<times> string) option" where
  "multi_a_ip_address api dc dcl w = (case dcl of None \<Rightarrow> Some (AILSA_NO_DATA, w, []) | Some cl \<Rightarrow>
     if dc = None then Some (AILSA_NO_DATA, w, [])
     else (case cmdb_add_string_to_list (dcl_dest cl) (Some []) of (retval, ip) \<Rightarrow>
       if retval \<noteq> 0 then Some (retval, w, [])
       else do {
         (retval, w, l) \<leftarrow> ailsa_argument_query api w dc A_RECORDS_WITH_IP ip (Some []);
         rows \<leftarrow> l;
         if retval \<noteq> 0 \<or> length rows = 0 \<or> length rows mod 2 \<noteq> 0 then Some (retval, w, [])
         else do {
           (retval, w, fqdn) \<leftarrow> ailsa_argument_query api w dc FQDN_PREF_A_ON_IP ip (Some []);
           names \<leftarrow> fqdn;
           if retval \<noteq> 0 then Some (retval, w, [])
           else do {
             dest \<leftarrow> dcl_dest cl;
             preferred \<leftarrow> (case names of [] \<Rightarrow> Some None | d # _ \<Rightarrow> map_option Some (get_text d));
             text \<leftarrow> multi_a_names preferred rows;
             Some (0, w, ''Displaying A records with IP address '' @ dest @
               ''. * indicates preferred A record'' @ nl @ nl @ text)
           }
         }
       }))"

definition display_multi_a_records ::
  "'db sqlite3_api \<Rightarrow> ailsa_cmdb_s option \<Rightarrow> dnsa_comm_line_s option \<Rightarrow> 'db world \<Rightarrow>
   (int \<times> 'db world \<times> string) option" where
  "display_multi_a_records api dc cm w = (case cm of None \<Rightarrow> Some (AILSA_NO_DATA, w, []) | Some cl \<Rightarrow>
     if dc = None then Some (AILSA_NO_DATA, w, [])
     else if dcl_domain cl \<noteq> None then multi_a_range api dc cm w
     else if dcl_dest cl \<noteq> None then multi_a_ip_address api dc cm w
     else Some (0, w, []))"

subsection \<open>Glue zones\<close>

text \<open>The text up to a comma, and what follows the comma.\<close>

definition cut_comma :: "string \<Rightarrow> string \<times> cstr" where
  "cut_comma s = (case strchr s (CHR '','') of None \<Rightarrow> (s, None) | Some i \<Rightarrow> (take i s, Some (drop (i + 1) s)))"

definition dnsa_split_glue_ns :: "cstr \<Rightarrow> db_list \<Rightarrow> int \<times> db_list" where
  "dnsa_split_glue_ns ns l = (case ns of None \<Rightarrow> (AILSA_NO_DATA, l) | Some ns \<Rightarrow>
     if l = None then (AILSA_NO_DATA, l)
     else let (server, ptr) = cut_comma (strndup ns FILE_LEN) in
       add_args [cmdb_add_string_to_list (Some server),
         cmdb_add_string_to_list (Some (case ptr of None \<Rightarrow> ''none'' | Some tmp \<Rightarrow> fst (cut_comma tmp)))] l)"

text \<open>Here the statement that should cut off a third address sets the pointer and not the character.\<close>

definition dnsa_split_glue_ip :: "cstr \<Rightarrow> db_list \<Rightarrow> int \<times> db_list" where
  "dnsa_split_glue_ip ip list = (case ip of None \<Rightarrow> (AILSA_NO_DATA, list) | Some ip \<Rightarrow>
     if list = None then (AILSA_NO_DATA, list)
     else let (ip_addr, ptr) = cut_comma (strndup ip DOMAIN_LEN) in
       add_args [cmdb_add_string_to_list (Some ip_addr),
         cmdb_add_string_to_list (Some (case ptr of None \<Rightarrow> ''none'' | Some tmp \<Rightarrow> tmp))] list)"

text \<open>The names of the servers are the third and the fourth element of the list.\<close>

definition resolve_to_list :: "services \<Rightarrow> cstr \<Rightarrow> db_list \<Rightarrow> int \<times> db_list" where
  "resolve_to_list os name list = (case cmdb_getaddrinfo os name [] 0 of (retval, ip_addr, _) \<Rightarrow>
     if retval \<noteq> 0 then (retval, list) else cmdb_add_string_to_list (Some ip_addr) list)"

definition dnsa_get_ip_for_glue_ns :: "services \<Rightarrow> cstr \<Rightarrow> db_list \<Rightarrow> (int \<times> db_list) option" where
  "dnsa_get_ip_for_glue_ns os ip list = (case list of None \<Rightarrow> Some (AILSA_NO_DATA, list) | Some l \<Rightarrow>
     if ip \<noteq> None then Some (dnsa_split_glue_ip ip list)
     else if length l < 3 then None
     else do {
       name \<leftarrow> get_text (l ! 2);
       (case resolve_to_list os name list of (retval, list) \<Rightarrow>
          if retval \<noteq> 0 then Some (retval, list)
          else do {
            l \<leftarrow> list;
            second \<leftarrow> text_of (l ! 3);
            Some (if strncmp_eq second ''none'' BYTE_LEN then cmdb_add_string_to_list (Some ''none'') list
                  else resolve_to_list os (Some second) list)
          })
     })"

definition add_glue_zone ::
  "'db sqlite3_api \<Rightarrow> services \<Rightarrow> ailsa_cmdb_s option \<Rightarrow> dnsa_comm_line_s option \<Rightarrow> 'db world \<Rightarrow> (int \<times> 'db world) option" where
  "add_glue_zone api os dc cm w = (case cm of None \<Rightarrow> Some (AILSA_NO_DATA, w) | Some cl \<Rightarrow>
     if dc = None then Some (AILSA_NO_DATA, w)
     else do {
       domain \<leftarrow> dcl_domain cl;
       (case parent_domain domain of
          None \<Rightarrow> Some (AILSA_CANNOT_GET_PARENT, w)
        | Some parent \<Rightarrow>
            then_list w (cmdb_add_string_to_list (Some parent) (Some [])) (\<lambda>p.
            then_rows (cmdb_check_add_zone_id_to_list api w (Some parent) FORWARD_ZONE (Some ''master'') dc (Some []))
            (\<lambda>w z.
            then_list w (add_args [cmdb_add_string_to_list (Some domain), dnsa_split_glue_ns (dcl_glue_ns cl)] (Some z))
            (\<lambda>z. do {
              filled \<leftarrow> dnsa_get_ip_for_glue_ns os (dcl_glue_ip cl) z;
              then_list w filled (\<lambda>z.
              then_list w (cmdb_populate_cuser_muser (os_uid os) z) (\<lambda>z.
              chk0 (ailsa_insert_query api w dc INSERT_GLUE_ZONE z) (\<lambda>w.
              set_db_row_updated api (os_uid os) w dc SET_FWD_ZONE_UPDATED_ON_NAME (Some parent) 0)))
            }))))
     })"

definition delete_glue_zone ::
  "'db sqlite3_api \<Rightarrow> u32 \<Rightarrow> ailsa_cmdb_s option \<Rightarrow> dnsa_comm_line_s option \<Rightarrow> 'db world \<Rightarrow> (int \<times> 'db world) option" where
  "delete_glue_zone api uid dc cm w = (case cm of None \<Rightarrow> Some (AILSA_NO_DATA, w) | Some cl \<Rightarrow>
     if dc = None then Some (AILSA_NO_DATA, w)
     else then_list w (cmdb_add_string_to_list (dcl_domain cl) (Some [])) (\<lambda>g.
       then_rows (ailsa_argument_query api w dc PARENT_ZONE_ID_ON_GLUE_ZONE g (Some [])) (\<lambda>w i.
       chk0 (ailsa_delete_query api w dc (delete_queries ! DELETE_GLUE_ZONE) g) (\<lambda>w.
       case i of [] \<Rightarrow> Some (0, w)
       | z # _ \<Rightarrow> do {
           n \<leftarrow> get_number z;
           set_db_row_updated api uid w dc SET_FWD_ZONE_UPDATED None n
         }))))"

subsection \<open>Two of three\<close>

text \<open>Of three name servers the third is cut off; of three addresses it is kept, with its comma.\<close>

lemma third_name_server_is_cut:
  "dnsa_split_glue_ns (Some ''ns1,ns2,ns3'') (Some []) = (0, Some [D_TEXT ''ns1'', D_TEXT ''ns2''])"
  by (simp add: dnsa_split_glue_ns_def cut_comma_def add_args_def text_element_def)

lemma third_address_is_kept:
  "dnsa_split_glue_ip (Some ''10.0.0.1,10.0.0.2,10.0.0.3'') (Some []) =
    (0, Some [D_TEXT ''10.0.0.1'', D_TEXT ''10.0.0.2,10.0.0.3''])"
  by (simp add: dnsa_split_glue_ip_def cut_comma_def add_args_def text_element_def)

end
