(* ===== verification/Zone_Display.thy ===== *)
theory Zone_Display
  imports Dnsa_Records
begin

text \<open>
  src/zones.c: the operations of the DNS command that print: the lists of zones, the contents of a zone, and
  the ranges of the test zones.  The result is the connection and the printed text; \<open>None\<close> is a
  crash, as for a missing text.
\<close>

subsection \<open>Lists of zones\<close>

text \<open>A query whose failure, or whose rows, end the function with nothing printed.\<close>

definition shown ::
  "'db query_result \<Rightarrow> ('db world \<Rightarrow> ailsa_data list \<Rightarrow> ('db world \<times> string) option) \<Rightarrow> ('db world \<times> string) option" where
  "shown query rest = do {
     (retval, w, l) \<leftarrow> query;
     rows \<leftarrow> l;
     if retval \<noteq> 0 then Some (w, []) else rest w rows
   }"

definition master_text :: "cstr \<Rightarrow> string" where
  "master_text master = (case master of None \<Rightarrow> ''N/A'' | Some m \<Rightarrow> m)"

fun zone_list_lines :: "ailsa_data list \<Rightarrow> string option" where
  "zone_list_lines [] = Some []"
| "zone_list_lines (z # v # s # t # m # rest) = do {
     zone \<leftarrow> text_of z;
     valid \<leftarrow> text_of v;
     serial \<leftarrow> get_number s;
     type \<leftarrow> text_of t;
     master \<leftarrow> get_text m;
     others \<leftarrow> zone_list_lines rest;
     let len = length zone;
     Some (zone @ (if len < 8 then tabs 4 else if len < 16 then tabs 3 else if len < 24 then tabs 2
         else if len < 32 then tab else nl @ tabs 4) @
       valid @ tab @ lu serial @ tab @ type @ tab @ master_text master @ nl @ others)
   }"
| "zone_list_lines _ = None"

text \<open>\<open>"Listing ... from database %s on %s\n"\<close>\<close>

definition list_title :: "string \<Rightarrow> ailsa_cmdb_s option \<Rightarrow> string option" where
  "list_title what dc = do {
     cc \<leftarrow> dc;
     db \<leftarrow> cc_db cc;
     dbtype \<leftarrow> cc_dbtype cc;
     Some (''Listing '' @ what @ '' from database '' @ db @ '' on '' @ dbtype @ nl)
   }"

definition list_zones :: "'db sqlite3_api \<Rightarrow> ailsa_cmdb_s option \<Rightarrow> 'db world \<Rightarrow> ('db world \<times> string) option" where
  "list_zones api dc w = shown (ailsa_basic_query api w dc ZONE_INFORMATION (Some [])) (\<lambda>w z.
     if length z = 0 \<or> length z mod 5 \<noteq> 0 then Some (w, [])
     else do {
       title \<leftarrow> list_title ''zones'' dc;
       lines \<leftarrow> zone_list_lines z;
       Some (w, title @ ''Name'' @ tabs 4 @ ''Valid'' @ tab @ ''Serial'' @ tabs 2 @ ''Type'' @ tab @ ''Master'' @ nl @
         lines)
     })"

fun rev_zone_list_lines :: "ailsa_data list \<Rightarrow> string option" where
  "rev_zone_list_lines [] = Some []"
| "rev_zone_list_lines (r # p # v # s # t # m # rest) = do {
     net_range \<leftarrow> text_of r;
     prefix \<leftarrow> text_of p;
     valid \<leftarrow> text_of v;
     serial \<leftarrow> get_number s;
     type \<leftarrow> text_of t;
     master \<leftarrow> get_text m;
     others \<leftarrow> rev_zone_list_lines rest;
     let len = length net_range + length prefix + 1;
     Some (net_range @ ''/'' @ prefix @ (if len < 8 then tabs 3 else if len < 16 then tabs 2 else tab) @
       valid @ tab @ lu serial @ tab @ type @ tab @ master_text master @ nl @ others)
   }"
| "rev_zone_list_lines _ = None"

definition list_rev_zones :: "'db sqlite3_api \<Rightarrow> ailsa_cmdb_s option \<Rightarrow> 'db world \<Rightarrow> ('db world \<times> string) option" where
  "list_rev_zones api dc w =
    (if dc = None then Some (w, [])
     else shown (ailsa_basic_query api w dc REV_ZONE_INFORMATION (Some [])) (\<lambda>w r.
       if length r = 0 \<or> length r mod 6 \<noteq> 0 then Some (w, [])
       else do {
         title \<leftarrow> list_title ''reverse zones'' dc;
         lines \<leftarrow> rev_zone_list_lines r;
         Some (w, title @ ''Range'' @ tabs 3 @ ''valid'' @ tab @ ''Serial'' @ tabs 2 @ ''Type'' @ tab @ ''Master'' @ nl @
           lines)
       }))"

fun glue_list_lines :: "ailsa_data list \<Rightarrow> string option" where
  "glue_list_lines [] = Some []"
| "glue_list_lines (z # g # pn # sn # pd # sd # rest) = do {
     zone \<leftarrow> text_of z;
     glue \<leftarrow> text_of g;
     pri_ns \<leftarrow> text_of pn;
     pri_dns \<leftarrow> text_of pd;
     sec_ns \<leftarrow> text_of sn;
     sec_dns \<leftarrow> text_of sd;
     others \<leftarrow> glue_list_lines rest;
     Some (zone @ (if length zone < 8 then tabs 2 else if length zone < 16 then tab else nl @ tabs 2) @
       glue @ (if length glue < 8 then tabs 3 else if length glue < 16 then tabs 2
         else if length glue < 24 then tab else nl @ tabs 3) @
       pri_ns @ '' '' @ pri_dns @ '' '' @ sec_ns @ tab @ sec_dns @ nl @ others)
   }"
| "glue_list_lines _ = None"

definition list_glue_zones :: "'db sqlite3_api \<Rightarrow> ailsa_cmdb_s option \<Rightarrow> 'db world \<Rightarrow> ('db world \<times> string) option" where
  "list_glue_zones api dc w =
    (if dc = None then Some (w, [])
     else shown (ailsa_basic_query api w dc GLUE_ZONE_INFORMATION (Some [])) (\<lambda>w g.
       if length g = 0 then Some (w, ''There are no glue zones to list'' @ nl)
       else if length g mod 6 \<noteq> 0 then Some (w, [])
       else do { lines \<leftarrow> glue_list_lines g; Some (w, ''Glue zones'' @ nl @ nl @ lines) }))"

subsection \<open>One zone\<close>

fun print_fwd_lines :: "ailsa_data list \<Rightarrow> string option" where
  "print_fwd_lines [] = Some []"
| "print_fwd_lines (t # h # d # rest) = do {
     type \<leftarrow> text_of t;
     host \<leftarrow> text_of h;
     dest \<leftarrow> text_of d;
     others \<leftarrow> print_fwd_lines rest;
     let len = length host;
     Some (host @ (if len \<ge> 24 then nl @ tabs 3 else if len \<ge> 16 then tab else if len \<ge> 8 then tabs 2 else tabs 3) @
       ''IN'' @ tab @ type @ tab @ dest @ nl @ others)
   }"
| "print_fwd_lines _ = None"

definition print_fwd_zone_records :: "ailsa_data list \<Rightarrow> string option" where
  "print_fwd_zone_records r = (if length r = 0 \<or> length r mod 3 \<noteq> 0 then Some [] else print_fwd_lines r)"

text \<open>A service without a port ends the listing.\<close>

fun print_srv_lines :: "services \<Rightarrow> string \<Rightarrow> ailsa_data list \<Rightarrow> string option" where
  "print_srv_lines os zone [] = Some []"
| "print_srv_lines os zone (t # h # p # s # n # d # rest) = do {
     type \<leftarrow> text_of t;
     proto \<leftarrow> get_text p;
     service \<leftarrow> get_text s;
     pri \<leftarrow> get_number n;
     dest \<leftarrow> get_text d;
     if type = ''SRV'' then
       (case cmdb_get_port_number os proto service of
          (retval, None) \<Rightarrow> Some []
        | (retval, Some port) \<Rightarrow> do {
            service \<leftarrow> service;
            proto \<leftarrow> proto;
            dest \<leftarrow> dest;
            others \<leftarrow> print_srv_lines os zone rest;
            Some (''_'' @ service @ ''._'' @ proto @ ''.'' @ zone @ ''.'' @ tab @ ''IN'' @ tab @ ''SRV'' @ tab @
              lu pri @ '' 0 '' @ dec port @ '' '' @ dest @ nl @ others)
          })
     else if type = ''MX'' then do {
       dest \<leftarrow> dest;
       others \<leftarrow> print_srv_lines os zone rest;
       Some (tabs 3 @ ''IN'' @ tab @ ''MX'' @ tab @ lu pri @ ''  '' @ dest @ nl @ others)
     } else if type = ''NS'' then do {
       dest \<leftarrow> dest;
       others \<leftarrow> print_srv_lines os zone rest;
       Some (tabs 3 @ ''IN'' @ tab @ ''NS'' @ tab @ dest @ nl @ others)
     } else print_srv_lines os zone rest
   }"
| "print_srv_lines os zone _ = None"

definition print_fwd_ns_mx_srv_records :: "services \<Rightarrow> string \<Rightarrow> ailsa_data list \<Rightarrow> string option" where
  "print_fwd_ns_mx_srv_records os zone m =
    (if length m = 0 \<or> length m mod 6 \<noteq> 0 then Some [] else print_srv_lines os zone m)"

definition glue_line :: "string \<Rightarrow> string \<Rightarrow> string" where
  "glue_line name server =
     name @ ''.'' @ (if length name \<ge> 15 then tab else if length name \<ge> 7 then tabs 2 else tabs 3) @
     ''IN'' @ tab @ ''NS'' @ tab @ server @ nl"

fun print_glue_lines :: "ailsa_data list \<Rightarrow> string option" where
  "print_glue_lines [] = Some []"
| "print_glue_lines (n # p # s # rest) = do {
     name \<leftarrow> text_of n;
     pri \<leftarrow> text_of p;
     sec \<leftarrow> get_text s;
     others \<leftarrow> print_glue_lines rest;
     Some (glue_line name pri @
       (case sec of None \<Rightarrow> [] | Some sec \<Rightarrow> if sec \<noteq> ''none'' then glue_line name sec else []) @ others)
   }"
| "print_glue_lines _ = None"

definition print_glue_records :: "ailsa_data list \<Rightarrow> string option" where
  "print_glue_records g = (if length g = 0 \<or> length g mod 3 \<noteq> 0 then Some [] else print_glue_lines g)"

definition display_zone ::
  "'db sqlite3_api \<Rightarrow> services \<Rightarrow> cstr \<Rightarrow> ailsa_cmdb_s option \<Rightarrow> 'db world \<Rightarrow> ('db world \<times> string) option" where
  "display_zone api os zone dc w = (case (zone, dc) of
     (Some name, Some cc) \<Rightarrow>
       (case cmdb_add_string_to_list zone (Some []) of (retval, z) \<Rightarrow>
          if retval \<noteq> 0 then Some (w, [])
          else shown (ailsa_argument_query api w dc ZONE_SERIAL_ON_NAME z (Some [])) (\<lambda>w s.
            if length s = 0 then Some (w, [])
            else shown (ailsa_argument_query api w dc ZONE_RECORDS_ON_NAME z (Some [])) (\<lambda>w r.
            shown (ailsa_argument_query api w dc NS_MX_SRV_RECORDS z (Some [])) (\<lambda>w m.
            shown (ailsa_argument_query api w dc GLUE_ZONE_ON_ZONE_NAME z (Some [])) (\<lambda>w g. do {
              prins \<leftarrow> cc_prins cc;
              hostmaster \<leftarrow> cc_hostmaster cc;
              serial \<leftarrow> get_number (s ! 0);
              records \<leftarrow> print_fwd_zone_records r;
              services \<leftarrow> print_fwd_ns_mx_srv_records os name m;
              glue \<leftarrow> print_glue_records g;
              Some (w, name @ ''.'' @ tab @ prins @ ''.'' @ tab @ hostmaster @ tab @ lu serial @ nl @
                records @ services @ glue)
            })))))
   | _ \<Rightarrow> Some (w, []))"

definition print_rev_zone_info :: "string \<Rightarrow> ailsa_data list \<Rightarrow> string option" where
  "print_rev_zone_info in_addr z = (case z of
     s # n # _ \<Rightarrow> do {
       name \<leftarrow> text_of n;
       serial \<leftarrow> get_number s;
       Some (''domain: '' @ in_addr @ nl @ ''name server: '' @ name @ nl @ ''serial #: '' @ lu serial @ nl @ nl)
     }
   | _ \<Rightarrow> None)"

fun print_rev_zone_records :: "ailsa_data list \<Rightarrow> string option" where
  "print_rev_zone_records [] = Some []"
| "print_rev_zone_records (h # d # rest) = do {
     host \<leftarrow> text_of h;
     dest \<leftarrow> text_of d;
     others \<leftarrow> print_rev_zone_records rest;
     Some (host @ tab @ dest @ nl @ others)
   }"
| "print_rev_zone_records _ = None"

text \<open>The row is serial, primary server, prefix and type; the name buffer is one of \<open>MAC_LEN\<close> bytes, and the
  clone of the last element becomes the second argument.\<close>

definition display_rev_zone ::
  "'db sqlite3_api \<Rightarrow> cstr \<Rightarrow> ailsa_cmdb_s option \<Rightarrow> 'db world \<Rightarrow> ('db world \<times> string) option" where
  "display_rev_zone api domain dc w = (case domain of None \<Rightarrow> Some (w, []) | Some name \<Rightarrow>
     if dc = None then Some (w, [])
     else (case cmdb_add_string_to_list domain (Some []) of (retval, l) \<Rightarrow>
       if retval \<noteq> 0 then Some (w, [])
       else shown (ailsa_argument_query api w dc REV_ZONE_INFO_ON_RANGE l (Some [])) (\<lambda>w z.
         if length z = 0 then Some (w, [])
         else if length z < 4 then None
         else do {
           type \<leftarrow> text_of (z ! 3);
           if type \<noteq> ''master'' then Some (w, [])
           else do {
             text \<leftarrow> text_of (z ! 2);
             in_addr \<leftarrow> get_in_addr_string [] name (unat (strtoul10 text));
             if length in_addr \<ge> MAC_LEN then None
             else do {
               args \<leftarrow> l;
               shown (ailsa_argument_query api w dc REV_ZONE_ID_ON_RANGE (Some (args @ [last z])) (Some [])) (\<lambda>w i.
               shown (ailsa_argument_query api w dc REV_RECORDS_ON_ZONE_ID (Some i) (Some [])) (\<lambda>w r. do {
                 info \<leftarrow> print_rev_zone_info in_addr z;
                 records \<leftarrow> print_rev_zone_records r;
                 Some (w, info @ records)
               }))
             }
           }
         })))"

subsection \<open>Test zones\<close>

definition test_zones :: "string list" where
  "test_zones = [''192.168.1.0/24'', ''192.168.80.0/21'', ''172.16.0.0/14'', ''10.0.0.0/8'', ''172.24.0.0/16'']"

text \<open>The search patterns of the sub-ranges; an error ends the whole listing.  The buffer has \<open>SERVICE_LEN\<close>
  bytes.\<close>

fun test_zone_searches :: "cstr \<Rightarrow> nat \<Rightarrow> nat list \<Rightarrow> int \<times> string" where
  "test_zone_searches ip prefix [] = (0, [])"
| "test_zone_searches ip prefix (j # js) =
    (case get_range_search_string ip prefix (of_nat j) of (retval, search) \<Rightarrow>
       if retval \<noteq> 0 then (retval, [])
       else (case test_zone_searches ip prefix js of (retval, others) \<Rightarrow>
         (retval, tab @ (case search of None \<Rightarrow> [] | Some s \<Rightarrow> s) @ tab @ dec j @ nl @ others)))"

definition test_zone_text :: "string \<Rightarrow> int \<times> string" where
  "test_zone_text zone = (case get_ip_addr_and_prefix (Some zone) of
     (retval, ip, Some prefix) \<Rightarrow>
       if retval \<noteq> 0 then (retval, [])
       else (case get_zone_index (unat prefix) of
           (retval, None) \<Rightarrow> (retval, [])
         | (_, Some index) \<Rightarrow>
           (case get_start_finsh_ips ip (unat prefix) of
               (retval, Some start, Some fin) \<Rightarrow>
                 if retval \<noteq> 0 then (retval, [])
                 else let addr = (case ip of None \<Rightarrow> [] | Some s \<Rightarrow> s);
                   head = ''Range: '' @ zone @ nl @ tab @ ''Network: '' @ addr @ tab @ ''Prefix: '' @ lu prefix @ tab @
                     ''Indexes: '' @ lu index @ nl @ ''  Start IP: '' @ lu start @ tab @ ''  End IP: '' @ lu fin @ nl
                 in (case test_zone_searches ip (unat prefix) [0..<unat index] of (retval, lines) \<Rightarrow>
                   (retval, head @ lines @ (if retval = 0 then nl else [])))
             | (retval, _) \<Rightarrow> (retval, [])))
   | (retval, _, _) \<Rightarrow> (retval, []))"

fun test_zone_texts :: "string list \<Rightarrow> string" where
  "test_zone_texts [] = []"
| "test_zone_texts (z # zs) = (case test_zone_text z of (retval, text) \<Rightarrow>
     text @ (if retval = 0 then test_zone_texts zs else []))"

definition list_test_zones :: "ailsa_cmdb_s option \<Rightarrow> string" where
  "list_test_zones dc = (if dc = None then [] else test_zone_texts test_zones)"

end
