(* ===== verification/Cmdb_Cmdline.thy ===== *)
theory Cmdb_Cmdline
  imports Dnsa_Cmdline
begin

text \<open>
  src/cmdb.c: the command line of the server and customer command.  As for the DNS command the
  options come in the order \<open>getopt_long\<close> delivers them; the action and the type are checked, missing
  texts get their defaults, and the texts are checked against the patterns of lib/regexp.c.  The
  UUID libuuid generates for a new server is the parameter \<open>uuid\<close>.
\<close>

subsection \<open>Actions, types and codes\<close>

abbreviation CMDB_ADD :: int where "CMDB_ADD \<equiv> 1"
abbreviation CMDB_DISPLAY :: int where "CMDB_DISPLAY \<equiv> 2"
abbreviation CMDB_LIST :: int where "CMDB_LIST \<equiv> 3"
abbreviation CMDB_RM :: int where "CMDB_RM \<equiv> 4"
abbreviation CMDB_MOD :: int where "CMDB_MOD \<equiv> 5"
abbreviation CMDB_DEFAULT :: int where "CMDB_DEFAULT \<equiv> 7"
abbreviation CMDB_VIEW_DEFAULT :: int where "CMDB_VIEW_DEFAULT \<equiv> 9"

abbreviation SERVER :: int where "SERVER \<equiv> 1"
abbreviation SERVER_TYPE :: int where "SERVER_TYPE \<equiv> 2"
abbreviation CUSTOMER :: int where "CUSTOMER \<equiv> 3"
abbreviation CONTACT :: int where "CONTACT \<equiv> 4"
abbreviation SERVICE :: int where "SERVICE \<equiv> 5"
abbreviation SERVICE_TYPE :: int where "SERVICE_TYPE \<equiv> 6"
abbreviation HARDWARE :: int where "HARDWARE \<equiv> 7"
abbreviation HARDWARE_TYPE :: int where "HARDWARE_TYPE \<equiv> 8"
abbreviation VM_HOST :: int where "VM_HOST \<equiv> 9"

abbreviation AILSA_NO_NAME :: int where "AILSA_NO_NAME \<equiv> 3"
abbreviation AILSA_NO_COID :: int where "AILSA_NO_COID \<equiv> 8"
abbreviation AILSA_NO_NAME_OR_ID :: int where "AILSA_NO_NAME_OR_ID \<equiv> 10"
abbreviation AILSA_NO_CONTACT_NAME :: int where "AILSA_NO_CONTACT_NAME \<equiv> 15"
abbreviation AILSA_NO_EMAIL_ADDRESS :: int where "AILSA_NO_EMAIL_ADDRESS \<equiv> 16"
abbreviation AILSA_NO_PHONE_NUMBER :: int where "AILSA_NO_PHONE_NUMBER \<equiv> 17"
abbreviation AILSA_NO_CLASS :: int where "AILSA_NO_CLASS \<equiv> 19"
abbreviation AILSA_NO_DETAIL :: int where "AILSA_NO_DETAIL \<equiv> 20"
abbreviation AILSA_NO_VHOST_TYPE :: int where "AILSA_NO_VHOST_TYPE \<equiv> 21"
abbreviation AILSA_NO_DEVICE :: int where "AILSA_NO_DEVICE \<equiv> 22"
abbreviation AILSA_NO_SERVICE_URL :: int where "AILSA_NO_SERVICE_URL \<equiv> 23"
abbreviation AILSA_NO_FULLNAME :: int where "AILSA_NO_FULLNAME \<equiv> 25"
abbreviation AILSA_WRONG_TYPE_DISPLAY :: int where "AILSA_WRONG_TYPE_DISPLAY \<equiv> 28"
abbreviation AILSA_NO_ID_OR_CLASS :: int where "AILSA_NO_ID_OR_CLASS \<equiv> 29"
abbreviation AILSA_NO_DEVICE_DETAIL :: int where "AILSA_NO_DEVICE_DETAIL \<equiv> 31"
abbreviation AILSA_WRONG_TYPE :: int where "AILSA_WRONG_TYPE \<equiv> 52"

abbreviation UUID_INPUT_INVALID :: int where "UUID_INPUT_INVALID \<equiv> 611"
abbreviation SERVER_NAME_INVALID :: int where "SERVER_NAME_INVALID \<equiv> 612"
abbreviation VMHOST_INVALID :: int where "VMHOST_INVALID \<equiv> 624"
abbreviation VENDOR_INVALID :: int where "VENDOR_INVALID \<equiv> 625"
abbreviation MAKE_INVALID :: int where "MAKE_INVALID \<equiv> 626"
abbreviation MODEL_INVALID :: int where "MODEL_INVALID \<equiv> 627"
abbreviation CUSTOMER_NAME_INVALID :: int where "CUSTOMER_NAME_INVALID \<equiv> 628"
abbreviation ADDRESS_INVALID :: int where "ADDRESS_INVALID \<equiv> 629"
abbreviation CITY_INVALID :: int where "CITY_INVALID \<equiv> 630"
abbreviation EMAIL_ADDRESS_INVALID :: int where "EMAIL_ADDRESS_INVALID \<equiv> 631"
abbreviation DETAIL_INVALID :: int where "DETAIL_INVALID \<equiv> 632"
abbreviation HCLASS_INVALID :: int where "HCLASS_INVALID \<equiv> 633"
abbreviation URL_INVALID :: int where "URL_INVALID \<equiv> 634"
abbreviation DEVICE_INVALID :: int where "DEVICE_INVALID \<equiv> 635"
abbreviation PHONE_NUMBER_INVALID :: int where "PHONE_NUMBER_INVALID \<equiv> 636"
abbreviation POSTCODE_INVALID :: int where "POSTCODE_INVALID \<equiv> 637"
abbreviation COUNTY_INVALID :: int where "COUNTY_INVALID \<equiv> 638"
abbreviation COID_INVALID :: int where "COID_INVALID \<equiv> 639"
abbreviation TYPE_INVALID :: int where "TYPE_INVALID \<equiv> 640"

subsection \<open>The parsed command line\<close>

text \<open>The members \<open>config\<close> and \<open>stype\<close> are never set.\<close>

record cmdb_comm_line_s =
  ccl_vmhost :: cstr
  ccl_vendor :: cstr
  ccl_make :: cstr
  ccl_model :: cstr
  ccl_id :: cstr
  ccl_uuid :: cstr
  ccl_name :: cstr
  ccl_address :: cstr
  ccl_city :: cstr
  ccl_email :: cstr
  ccl_detail :: cstr
  ccl_hclass :: cstr
  ccl_url :: cstr
  ccl_device :: cstr
  ccl_phone :: cstr
  ccl_postcode :: cstr
  ccl_county :: cstr
  ccl_coid :: cstr
  ccl_service :: cstr
  ccl_shtype :: cstr
  ccl_fullname :: cstr
  ccl_action :: int
  ccl_type :: int
  ccl_force :: int
  ccl_sid :: u64

definition cmdb_line_zero :: cmdb_comm_line_s where
  "cmdb_line_zero = \<lparr>ccl_vmhost = None, ccl_vendor = None, ccl_make = None, ccl_model = None, ccl_id = None,
     ccl_uuid = None, ccl_name = None, ccl_address = None, ccl_city = None, ccl_email = None,
     ccl_detail = None, ccl_hclass = None, ccl_url = None, ccl_device = None, ccl_phone = None,
     ccl_postcode = None, ccl_county = None, ccl_coid = None, ccl_service = None, ccl_shtype = None,
     ccl_fullname = None, ccl_action = 0, ccl_type = 0, ccl_force = 0, ccl_sid = 0\<rparr>"

subsection \<open>Options\<close>

text \<open>The options that name a type, an action, and the force flag.\<close>

definition cmdb_flag_option :: "char \<Rightarrow> cmdb_comm_line_s \<Rightarrow> cmdb_comm_line_s option" where
  "cmdb_flag_option opt cl =
    (if opt = CHR ''s'' then Some (cl\<lparr>ccl_type := SERVER\<rparr>)
     else if opt = CHR ''u'' then Some (cl\<lparr>ccl_type := CUSTOMER\<rparr>)
     else if opt = CHR ''t'' then Some (cl\<lparr>ccl_type := CONTACT\<rparr>)
     else if opt = CHR ''e'' then Some (cl\<lparr>ccl_type := SERVICE\<rparr>)
     else if opt = CHR ''j'' then Some (cl\<lparr>ccl_type := SERVICE_TYPE\<rparr>)
     else if opt = CHR ''w'' then Some (cl\<lparr>ccl_type := HARDWARE\<rparr>)
     else if opt = CHR ''g'' then Some (cl\<lparr>ccl_type := HARDWARE_TYPE\<rparr>)
     else if opt = CHR ''o'' then Some (cl\<lparr>ccl_type := VM_HOST\<rparr>)
     else if opt = CHR ''d'' then Some (cl\<lparr>ccl_action := CMDB_DISPLAY\<rparr>)
     else if opt = CHR ''v'' then Some (cl\<lparr>ccl_action := AILSA_VERSION\<rparr>)
     else if opt = CHR ''l'' then Some (cl\<lparr>ccl_action := CMDB_LIST\<rparr>)
     else if opt = CHR ''a'' then Some (cl\<lparr>ccl_action := CMDB_ADD\<rparr>)
     else if opt = CHR ''r'' then Some (cl\<lparr>ccl_action := CMDB_RM\<rparr>)
     else if opt = CHR ''z'' then Some (cl\<lparr>ccl_action := CMDB_DEFAULT\<rparr>)
     else if opt = CHR ''q'' then Some (cl\<lparr>ccl_action := CMDB_VIEW_DEFAULT\<rparr>)
     else if opt = CHR ''m'' then Some (cl\<lparr>ccl_action := CMDB_MOD\<rparr>)
     else if opt = CHR ''f'' then Some (cl\<lparr>ccl_force := 1\<rparr>)
     else None)"

text \<open>The options with a text; \<open>k\<close>, which \<open>getopt\<close> knows, is not among them.\<close>

definition cmdb_text_option :: "char \<Rightarrow> string \<Rightarrow> cmdb_comm_line_s \<Rightarrow> cmdb_comm_line_s option" where
  "cmdb_text_option opt optarg cl =
    (if opt = CHR ''n'' then Some (cl\<lparr>ccl_name := Some (strndup optarg HOST_LEN)\<rparr>)
     else if opt = CHR ''i'' then Some (cl\<lparr>ccl_id := Some (strndup optarg CONFIG_LEN)\<rparr>)
     else if opt = CHR ''x'' then Some (cl\<lparr>ccl_vmhost := Some (strndup optarg HOST_LEN)\<rparr>)
     else if opt = CHR ''y'' then Some (cl\<lparr>ccl_shtype := Some (strndup optarg MAC_LEN)\<rparr>)
     else if opt = CHR ''V'' then Some (cl\<lparr>ccl_vendor := Some (strndup optarg CONFIG_LEN)\<rparr>)
     else if opt = CHR ''M'' then Some (cl\<lparr>ccl_make := Some (strndup optarg CONFIG_LEN)\<rparr>)
     else if opt = CHR ''O'' then Some (cl\<lparr>ccl_model := Some (strndup optarg CONFIG_LEN)\<rparr>)
     else if opt = CHR ''U'' then Some (cl\<lparr>ccl_uuid := Some (strndup optarg CONFIG_LEN)\<rparr>)
     else if opt = CHR ''C'' then Some (cl\<lparr>ccl_coid := Some (strndup optarg SERVICE_LEN)\<rparr>)
     else if opt = CHR ''A'' then Some (cl\<lparr>ccl_address := Some (strndup optarg CONFIG_LEN)\<rparr>)
     else if opt = CHR ''T'' then Some (cl\<lparr>ccl_city := Some (strndup optarg HOST_LEN)\<rparr>)
     else if opt = CHR ''Y'' then Some (cl\<lparr>ccl_county := Some (strndup optarg MAC_LEN)\<rparr>)
     else if opt = CHR ''Z'' then Some (cl\<lparr>ccl_postcode := Some (strndup optarg SERVICE_LEN)\<rparr>)
     else if opt = CHR ''N'' then Some (cl\<lparr>ccl_fullname := Some (strndup optarg HOST_LEN)\<rparr>)
     else if opt = CHR ''P'' then Some (cl\<lparr>ccl_phone := Some (strndup optarg MAC_LEN)\<rparr>)
     else if opt = CHR ''E'' then Some (cl\<lparr>ccl_email := Some (strndup optarg HOST_LEN)\<rparr>)
     else if opt = CHR ''D'' then Some (cl\<lparr>ccl_detail := Some (strndup optarg HOST_LEN)\<rparr>)
     else if opt = CHR ''I'' then Some (cl\<lparr>ccl_sid := strtoul10 optarg\<rparr>)
     else if opt = CHR ''L'' then Some (cl\<lparr>ccl_url := Some (strndup optarg CONFIG_LEN)\<rparr>)
     else if opt = CHR ''B'' then Some (cl\<lparr>ccl_device := Some (strndup optarg MAC_LEN)\<rparr>)
     else if opt = CHR ''S'' then Some (cl\<lparr>ccl_service := Some (strndup optarg SERVICE_LEN)\<rparr>)
     else if opt = CHR ''H'' then Some (cl\<lparr>ccl_hclass := Some (strndup optarg MAC_LEN)\<rparr>)
     else None)"

text \<open>\<open>h\<close> and every other option make the command print its usage.\<close>

fun cmdb_options :: "(char \<times> string) list \<Rightarrow> cmdb_comm_line_s \<Rightarrow> int \<times> cmdb_comm_line_s" where
  "cmdb_options [] cl = (0, cl)"
| "cmdb_options ((opt, optarg) # rest) cl = (case cmdb_flag_option opt cl of
     Some cl' \<Rightarrow> cmdb_options rest cl'
   | None \<Rightarrow> (case cmdb_text_option opt optarg cl of
       Some cl' \<Rightarrow> cmdb_options rest cl'
     | None \<Rightarrow> (AILSA_DISPLAY_USAGE, cl)))"

subsection \<open>Checks and defaults\<close>

definition or_none :: "cstr \<Rightarrow> cstr" where
  "or_none s = (case s of None \<Rightarrow> Some ''none'' | Some t \<Rightarrow> Some t)"

definition check_cmdb_list :: "cmdb_comm_line_s \<Rightarrow> int" where
  "check_cmdb_list cl =
    (if ccl_type cl = CONTACT then
       (if ccl_id cl = None \<and> ccl_coid cl = None then AILSA_NO_COID else NONE)
     else if ccl_type cl = SERVICE then
       (if ccl_id cl = None \<and> ccl_name cl = None then AILSA_NO_NAME_OR_ID else NONE)
     else if ccl_type cl = HARDWARE then
       (if ccl_id cl = None \<and> ccl_name cl = None then AILSA_NO_NAME_OR_ID else NONE)
     else NONE)"

text \<open>A new server gets every default; a new customer only the first that is missing.\<close>

definition check_cmdb_add_server :: "string \<Rightarrow> cmdb_comm_line_s \<Rightarrow> int \<times> cmdb_comm_line_s" where
  "check_cmdb_add_server uuid cl =
    (if ccl_name cl = None then AILSA_NO_NAME else NONE,
     cl\<lparr>ccl_make := or_none (ccl_make cl), ccl_model := or_none (ccl_model cl),
       ccl_vendor := or_none (ccl_vendor cl),
       ccl_uuid := (case ccl_uuid cl of None \<Rightarrow> Some uuid | Some u \<Rightarrow> Some u)\<rparr>)"

definition check_cmdb_add_customer :: "cmdb_comm_line_s \<Rightarrow> int \<times> cmdb_comm_line_s" where
  "check_cmdb_add_customer cl =
    (if ccl_fullname cl = None then (AILSA_NO_FULLNAME, cl)
     else if ccl_coid cl = None then (AILSA_NO_COID, cl)
     else if ccl_county cl = None then (NONE, cl\<lparr>ccl_county := Some ''none''\<rparr>)
     else if ccl_address cl = None then (NONE, cl\<lparr>ccl_address := Some ''none''\<rparr>)
     else if ccl_city cl = None then (NONE, cl\<lparr>ccl_city := Some ''none''\<rparr>)
     else if ccl_postcode cl = None then (NONE, cl\<lparr>ccl_postcode := Some ''none''\<rparr>)
     else (NONE, cl))"

definition check_cmdb_add_other :: "cmdb_comm_line_s \<Rightarrow> int" where
  "check_cmdb_add_other cl =
    (if ccl_type cl = CONTACT then
       (if ccl_fullname cl = None then AILSA_NO_CONTACT_NAME
        else if ccl_email cl = None then AILSA_NO_EMAIL_ADDRESS
        else if ccl_phone cl = None then AILSA_NO_PHONE_NUMBER else NONE)
     else if ccl_type cl = SERVICE_TYPE then
       (if ccl_detail cl = None then AILSA_NO_DETAIL
        else if ccl_service cl = None then AILSA_NO_SERVICE else NONE)
     else if ccl_type cl = HARDWARE_TYPE then
       (if ccl_hclass cl = None then AILSA_NO_CLASS
        else if ccl_shtype cl = None then AILSA_NO_TYPE else NONE)
     else if ccl_type cl = VM_HOST then
       (if ccl_name cl = None then AILSA_NO_NAME
        else if ccl_shtype cl = None then AILSA_NO_VHOST_TYPE else NONE)
     else if ccl_type cl = HARDWARE then
       (if ccl_name cl = None then AILSA_NO_NAME
        else if ccl_detail cl = None then AILSA_NO_DETAIL
        else if ccl_device cl = None then AILSA_NO_DEVICE
        else if ccl_hclass cl = None \<and> ccl_sid cl = 0 then AILSA_NO_ID_OR_CLASS else NONE)
     else if ccl_type cl = SERVICE then
       (if ccl_name cl = None then AILSA_NO_NAME
        else if ccl_detail cl = None then AILSA_NO_DETAIL
        else if ccl_url cl = None then AILSA_NO_SERVICE_URL
        else if ccl_service cl = None then AILSA_NO_SERVICE else NONE)
     else NONE)"

definition check_cmdb_add :: "string \<Rightarrow> cmdb_comm_line_s \<Rightarrow> int \<times> cmdb_comm_line_s" where
  "check_cmdb_add uuid cl =
    (if ccl_type cl = SERVER then check_cmdb_add_server uuid cl
     else if ccl_type cl = CUSTOMER then check_cmdb_add_customer cl
     else (check_cmdb_add_other cl, cl))"

definition check_cmdb_display :: "cmdb_comm_line_s \<Rightarrow> int" where
  "check_cmdb_display cl =
    (if ccl_type cl \<noteq> SERVER \<and> ccl_type cl \<noteq> CUSTOMER \<and> ccl_type cl \<noteq> VM_HOST then AILSA_WRONG_TYPE_DISPLAY
     else if ccl_type cl = CUSTOMER then (if ccl_coid cl = None then AILSA_NO_COID else NONE)
     else if ccl_name cl = None then AILSA_NO_NAME else NONE)"

definition check_cmdb_rm :: "cmdb_comm_line_s \<Rightarrow> int" where
  "check_cmdb_rm cl =
    (if ccl_type cl = SERVICE then
       (if ccl_id cl = None \<and> ccl_coid cl = None \<and> ccl_name cl = None then AILSA_NO_NAME_OR_ID
        else if ccl_service cl = None \<and> ccl_url cl = None \<and> ccl_force cl \<noteq> 1 then AILSA_NO_SERVICE_URL
        else NONE)
     else if ccl_type cl = SERVER then (if ccl_name cl = None then AILSA_NO_NAME else NONE)
     else if ccl_type cl = HARDWARE then
       (if ccl_name cl = None then AILSA_NO_NAME
        else if ccl_device cl = None \<and> ccl_detail cl = None then AILSA_NO_DEVICE_DETAIL else NONE)
     else NONE)"

definition check_cmdb_comm_options :: "string \<Rightarrow> cmdb_comm_line_s \<Rightarrow> int \<times> cmdb_comm_line_s" where
  "check_cmdb_comm_options uuid cl =
    (if ccl_name cl = None \<and> ccl_id cl = None \<and> ccl_type cl = 0 \<and> ccl_action cl = 0
     then (AILSA_DISPLAY_USAGE, cl)
     else if ccl_action cl = AILSA_VERSION then (AILSA_VERSION, cl)
     else if ccl_action cl = NONE then (AILSA_NO_ACTION, cl)
     else if ccl_type cl = NONE then (AILSA_NO_TYPE, cl)
     else if ccl_action cl = CMDB_LIST then (check_cmdb_list cl, cl)
     else if ccl_action cl = CMDB_ADD then check_cmdb_add uuid cl
     else if ccl_action cl = CMDB_DISPLAY then (check_cmdb_display cl, cl)
     else if ccl_action cl = CMDB_VIEW_DEFAULT
     then (if ccl_type cl \<noteq> CUSTOMER then AILSA_WRONG_TYPE else NONE, cl)
     else if ccl_action cl = CMDB_DEFAULT
     then (if ccl_coid cl = None then AILSA_NO_COID
           else if ccl_type cl \<noteq> CUSTOMER then AILSA_WRONG_TYPE else NONE, cl)
     else if ccl_name cl = None \<and> ccl_id cl = None \<and> (ccl_type cl \<noteq> NONE \<or> ccl_action cl \<noteq> NONE) \<and>
       ccl_type cl \<noteq> CONTACT \<and> ccl_type cl \<noteq> CUSTOMER then (AILSA_NO_NAME_OR_ID, cl)
     else if ccl_action cl = CMDB_RM then (check_cmdb_rm cl, cl)
     else (NONE, cl))"

subsection \<open>Checking the texts\<close>

text \<open>Here a test fails unless the check returned 0.\<close>

definition unfit :: "cstr \<Rightarrow> nat \<Rightarrow> bool option" where
  "unfit s test = map_option (\<lambda>r. r \<noteq> 0) (ailsa_validate_input s test)"

definition unless_fit :: "cstr \<Rightarrow> nat \<Rightarrow> int \<Rightarrow> int option \<Rightarrow> int option" where
  "unless_fit s test code rest = refuse (given s (unfit s test)) code rest"

definition validate_cmdb_comm_line :: "cmdb_comm_line_s \<Rightarrow> int option" where
  "validate_cmdb_comm_line cl =
    refuse (given (ccl_vmhost cl)
        (c_and (unfit (ccl_vmhost cl) DOMAIN_REGEX) (unfit (ccl_vmhost cl) NAME_REGEX))) VMHOST_INVALID
   (unless_fit (ccl_vendor cl) CUSTOMER_REGEX VENDOR_INVALID
   (unless_fit (ccl_make cl) CUSTOMER_REGEX MAKE_INVALID
   (unless_fit (ccl_model cl) CUSTOMER_REGEX MODEL_INVALID
   (unless_fit (ccl_uuid cl) UUID_REGEX UUID_INPUT_INVALID
   (unless_fit (ccl_name cl) NAME_REGEX SERVER_NAME_INVALID
   (unless_fit (ccl_fullname cl) CUSTOMER_REGEX CUSTOMER_NAME_INVALID
   (unless_fit (ccl_address cl) ADDRESS_REGEX ADDRESS_INVALID
   (unless_fit (ccl_city cl) ADDRESS_REGEX CITY_INVALID
   (unless_fit (ccl_email cl) EMAIL_REGEX EMAIL_ADDRESS_INVALID
   (refuse (given (ccl_detail cl) (c_and (unfit (ccl_detail cl) MAC_REGEX)
        (c_and (unfit (ccl_detail cl) ADDRESS_REGEX) (unfit (ccl_detail cl) CUSTOMER_REGEX)))) DETAIL_INVALID
   (unless_fit (ccl_hclass cl) CUSTOMER_REGEX HCLASS_INVALID
   (unless_fit (ccl_url cl) URL_REGEX URL_INVALID
   (unless_fit (ccl_device cl) DEV_REGEX DEVICE_INVALID
   (unless_fit (ccl_phone cl) PHONE_REGEX PHONE_NUMBER_INVALID
   (unless_fit (ccl_postcode cl) POSTCODE_REGEX POSTCODE_INVALID
   (unless_fit (ccl_county cl) ADDRESS_REGEX COUNTY_INVALID
   (unless_fit (ccl_coid cl) COID_REGEX COID_INVALID
   (unless_fit (ccl_service cl) NAME_REGEX SERVICE_INPUT_INVALID
   (unless_fit (ccl_shtype cl) ADDRESS_REGEX TYPE_INVALID
   (Some 0))))))))))))))))))))"

definition parse_cmdb_command_line ::
  "string \<Rightarrow> (char \<times> string) list \<Rightarrow> cmdb_comm_line_s \<Rightarrow> (int \<times> cmdb_comm_line_s) option" where
  "parse_cmdb_command_line uuid options cl =
    (case cmdb_options options cl of (retval, cl) \<Rightarrow>
       if retval \<noteq> 0 then Some (retval, cl)
       else (case check_cmdb_comm_options uuid cl of (retval, cl) \<Rightarrow>
         if retval \<noteq> 0 then Some (retval, cl)
         else map_option (\<lambda>r. (r, cl)) (validate_cmdb_comm_line cl)))"

end
