(* ===== verification/Command_Errors.thy ===== *)
theory Command_Errors
  imports Zone_Files Cmdb_Cmdline
begin

text \<open>
  lib/errors.c and lib/logging.c: what a command prints when its command line was not accepted, and the texts
  of the return codes.  A message goes to the error output or to the log, the usage to the standard
  output; \<open>version\<close> is the version of the package, which the build sets.
\<close>

subsection \<open>Codes\<close>

abbreviation AILSA_NO_LOGVOL :: int where "AILSA_NO_LOGVOL \<equiv> 4"
abbreviation AILSA_NO_DIRECTORY :: int where "AILSA_NO_DIRECTORY \<equiv> 5"
abbreviation AILSA_NO_POOL :: int where "AILSA_NO_POOL \<equiv> 6"
abbreviation AILSA_NO_NETWORK :: int where "AILSA_NO_NETWORK \<equiv> 7"
abbreviation AILSA_NO_NUMBER :: int where "AILSA_NO_NUMBER \<equiv> 11"
abbreviation AILSA_NO_BUILD_DOMAIN :: int where "AILSA_NO_BUILD_DOMAIN \<equiv> 13"
abbreviation AILSA_NO_ARG :: int where "AILSA_NO_ARG \<equiv> 14"
abbreviation AILSA_NO_VARIENT :: int where "AILSA_NO_VARIENT \<equiv> 18"
abbreviation AILSA_NO_COUNTY :: int where "AILSA_NO_COUNTY \<equiv> 24"
abbreviation AILSA_NO_CITY :: int where "AILSA_NO_CITY \<equiv> 26"
abbreviation AILSA_NO_POSTCODE :: int where "AILSA_NO_POSTCODE \<equiv> 27"
abbreviation AILSA_NO_DOMAIN_OR_NAME :: int where "AILSA_NO_DOMAIN_OR_NAME \<equiv> 30"
abbreviation AILSA_NO_OPTION :: int where "AILSA_NO_OPTION \<equiv> 40"
abbreviation AILSA_NO_FILESYSTEM :: int where "AILSA_NO_FILESYSTEM \<equiv> 41"
abbreviation AILSA_NO_URI :: int where "AILSA_NO_URI \<equiv> 42"
abbreviation AILSA_WRONG_ACTION :: int where "AILSA_WRONG_ACTION \<equiv> 53"
abbreviation AILSA_NO_PACKAGE :: int where "AILSA_NO_PACKAGE \<equiv> 54"
abbreviation AILSA_NO_MASTER_NAME :: int where "AILSA_NO_MASTER_NAME \<equiv> 55"
abbreviation AILSA_NO_CONNECT :: int where "AILSA_NO_CONNECT \<equiv> 201"
abbreviation AILSA_NO_DISK_DEV :: int where "AILSA_NO_DISK_DEV \<equiv> 215"
abbreviation AILSA_NO_MOD_BUILD_DOM_NET :: int where "AILSA_NO_MOD_BUILD_DOM_NET \<equiv> 235"
abbreviation AILSA_NO_PARTITION :: int where "AILSA_NO_PARTITION \<equiv> 238"
abbreviation AILSA_NO_QUERY :: int where "AILSA_NO_QUERY \<equiv> 300"
abbreviation AILSA_NO_DBTYPE :: int where "AILSA_NO_DBTYPE \<equiv> 301"
abbreviation AILSA_NO_PARAMETERS :: int where "AILSA_NO_PARAMETERS \<equiv> 303"
abbreviation AILSA_NO_QUERY_NO :: int where "AILSA_NO_QUERY_NO \<equiv> 304"
abbreviation AILSA_NO_FIELDS :: int where "AILSA_NO_FIELDS \<equiv> 305"
abbreviation ZTYPE_INPUT_INVALID :: int where "ZTYPE_INPUT_INVALID \<equiv> 601"
abbreviation PROTOCOL_INPUT_INVALID :: int where "PROTOCOL_INPUT_INVALID \<equiv> 603"
abbreviation CONFIG_INPUT_INVALID :: int where "CONFIG_INPUT_INVALID \<equiv> 605"
abbreviation MASTER_INPUT_INVALID :: int where "MASTER_INPUT_INVALID \<equiv> 608"
abbreviation OS_INVALID :: int where "OS_INVALID \<equiv> 613"
abbreviation OS_VERSION_INVALID :: int where "OS_VERSION_INVALID \<equiv> 614"
abbreviation PART_SCHEME_INVALID :: int where "PART_SCHEME_INVALID \<equiv> 615"
abbreviation VARIENT_INVALID :: int where "VARIENT_INVALID \<equiv> 616"
abbreviation ARCH_INVALID :: int where "ARCH_INVALID \<equiv> 617"
abbreviation NET_CARD_INVALID :: int where "NET_CARD_INVALID \<equiv> 618"
abbreviation HARD_DISK_INVALID :: int where "HARD_DISK_INVALID \<equiv> 619"
abbreviation CONFIG_INVALID :: int where "CONFIG_INVALID \<equiv> 620"
abbreviation LOCALE_INVALID :: int where "LOCALE_INVALID \<equiv> 621"
abbreviation IP_INVALID :: int where "IP_INVALID \<equiv> 641"
abbreviation NTP_SERVER_INVALID :: int where "NTP_SERVER_INVALID \<equiv> 642"
abbreviation BUILD_DOMAIN_NETWORK_INVALID :: int where "BUILD_DOMAIN_NETWORK_INVALID \<equiv> 643"
abbreviation LANGUAGE_INVALID :: int where "LANGUAGE_INVALID \<equiv> 644"
abbreviation KEYMAP_INVALID :: int where "KEYMAP_INVALID \<equiv> 645"
abbreviation TIMEZONE_INVALID :: int where "TIMEZONE_INVALID \<equiv> 646"
abbreviation COUNTRY_INVALID :: int where "COUNTRY_INVALID \<equiv> 648"
abbreviation MIN_INVALID :: int where "MIN_INVALID \<equiv> 649"
abbreviation MAX_INVALID :: int where "MAX_INVALID \<equiv> 650"
abbreviation PRI_INVALID :: int where "PRI_INVALID \<equiv> 651"
abbreviation FILESYSTEM_INVALID :: int where "FILESYSTEM_INVALID \<equiv> 652"
abbreviation LOG_VOL_INVALID :: int where "LOG_VOL_INVALID \<equiv> 653"
abbreviation FS_PATH_INVALID :: int where "FS_PATH_INVALID \<equiv> 654"
abbreviation PACKAGE_FIELD_INVALID :: int where "PACKAGE_FIELD_INVALID \<equiv> 656"
abbreviation PACKAGE_ARG_INVALID :: int where "PACKAGE_ARG_INVALID \<equiv> 657"
abbreviation PACKAGE_NAME_INVALID :: int where "PACKAGE_NAME_INVALID \<equiv> 658"
abbreviation PACKAGE_TYPE_INVALID :: int where "PACKAGE_TYPE_INVALID \<equiv> 659"

subsection \<open>Usage\<close>

definition display_cmdb_usage :: "string \<Rightarrow> string" where
  "display_cmdb_usage version =
     ''CMDB: Configuration Management Database'' @ nl @
     ''Version: '' @ version @ nl @
     ''Action options:'' @ nl @
     ''-a: add'' @ nl @ ''-d: display'' @ nl @ ''-l: list'' @ nl @ ''-m: modify'' @ nl @ ''-r: remove'' @ nl @ ''-f: force'' @ nl @
     ''-z: set-default (for customer)'' @ nl @
     ''Type options:'' @ nl @
     ''-s: server'' @ nl @ ''-u: customer'' @ nl @ ''-t: contact'' @ nl @
     ''-e: services'' @ nl @ ''-w: hardware'' @ nl @ ''-o: virtual machine hosts'' @ nl @
     ''-j: service types'' @ nl @ ''-g: hardware types'' @ nl @
     ''Name options:'' @ nl @
     ''-n: name'' @ nl @ ''-i: uuid for server or coid for customer'' @ nl @
     ''-x: vmhost server name for adding a vm server'' @ nl @
     ''Adding options:'' @ nl @
     ''For server (with -s; need to add -n for name and -m for vm_host (if required))'' @ nl @
     ''-V: Vendor'' @ tab @ ''-M: Make'' @ tab @ ''-O: Model'' @ tab @ ''-U: UUID'' @ tab @ ''-C: COID'' @ nl @
     ''For customer (with -u; need -N for name)'' @ nl @
     ''-A: Address'' @ tab @ ''-T: City'' @ tab @ ''-Y: County'' @ tab @ ''-Z: Postcode'' @ tab @ ''-C: COID'' @ nl @
     ''For services (with -C COID for customer, -n name for server)'' @ nl @
     ''-D: Detail'' @ tab @ ''-L: URL'' @ tabs 2 @ ''[ -I service id | -S service ]'' @ nl @
     ''For service types'' @ nl @
     ''-D detail'' @ tab @ ''-S service'' @ nl @
     ''For hardware (with -n name to specify server)'' @ nl @
     ''-D: Detail'' @ tab @ ''-B: Device'' @ tab @ ''[ -I: hardware id | -H hardware description ]'' @ nl @
     ''For hardware types'' @ nl @
     ''-y: type'' @ tab @ ''-H Description'' @ nl @
     ''For Contact (with -i coid to specify customer)'' @ nl @
     ''-N: Name'' @ tab @ ''-P: Phone'' @ tab @ ''-E: email'' @ nl @
     ''For VM Host Server (with -n name to specify server)'' @ nl @
     ''-y: VM Host type (e.g. libvirt. vmware)'' @ nl"

definition display_cbc_usage :: "string \<Rightarrow> string" where
  "display_cbc_usage version =
     ''cbc: Create Build Configuration'' @ nl @ nl @
     ''Version: '' @ version @ nl @
     ''Action options:'' @ nl @
     ''-a: add build for server'' @ nl @ ''-d: display build details'' @ nl @
     ''-l: list servers with a build'' @ nl @ ''-m: modify build options'' @ nl @
     ''-r: remove build for server'' @ nl @ ''-u: show defaults'' @ nl @
     ''-w: write build files'' @ nl @ nl @
     ''Display and write options:'' @ nl @
     ''cbc ( -d | -w ) -n <server name>'' @ nl @ nl @
     ''Remove options:'' @ nl @
     ''cbc -r [ -g ] -n <server name>'' @ nl @
     ''-g will remove the build IP from DB. Dangerous if server is still online'' @ nl @ nl @
     ''Create and modify options:'' @ nl @
     ''cbc ( -a | -m ) -o<OS> -s<version> -t<arch> -b<domain> -x'' @
     ''<varient> -e<locale_id>'' @ nl @ '' -p<scheme> -k<network device> -j<hardisk device> '' @
     ''-n <server name>'' @ nl @ nl @
     ''The various associated programs will give you the names '' @
     ''for these options.'' @ nl @ nl @
     ''cbcos cbcdomain cbcvarient cbcpart cbclocale'' @ nl"

definition display_cbcdomain_usage :: "string \<Rightarrow> string" where
  "display_cbcdomain_usage version =
     ''cbcdomain: Program to manipulate build domains'' @ nl @ nl @
     ''Version: '' @ version @ nl @
     ''Action Options:'' @ nl @
     ''-a: add build domain'' @ nl @ ''-d: display build domain'' @ nl @
     ''-l: list build domain names'' @ nl @ ''-m: modify build domain'' @ nl @
     ''-r: remove build domain'' @ nl @ ''-w: write dhcp network config'' @ nl @
     ''-z: set default build domain'' @ nl @
     ''All actions apart from -l and -w need -n <domain name>'' @ nl @ nl @
     ''Network Details:'' @ nl @
     ''-k: start_ip,end_ip,gateway,netmask,nameserver'' @ nl @ nl @
     ''NTP server configuration:'' @ nl @
     ''-t ntp_server'' @ nl @ nl @
     ''cbcdomain ( action ) [ -n build-domain ] ( app options )'' @ nl @ nl"

definition display_cbcos_usage :: "string \<Rightarrow> string" where
  "display_cbcos_usage version =
     ''cbcos: Program to manipulate build operating systems'' @ nl @ nl @
     ''Version: '' @ version @ nl @
     ''Action Options:'' @ nl @
     ''-a: add OS'' @ nl @ ''-d: display OS'' @ nl @ ''-g: grab boot files'' @ nl @ ''-l: list OS'' @ nl @
     ''-q: query servers build with os'' @ nl @
     ''-r: remove OS'' @ nl @ ''-z: set default OS'' @ nl @
     ''All actions apart from -l and -g need -n <OS name>'' @ nl @ nl @
     ''Detail Options:'' @ nl @
     ''-e: <version alias>'' @ nl @ ''-o: <os version>'' @ nl @
     ''-s: <alias>'' @ nl @ ''-t: <os architecture'' @ nl @ nl @
     ''cbcos ( -a | -d | -l  | -q | -r | -z ) [ -n ] [ detail options ]'' @ nl @ nl"

definition display_cbcvarient_usage :: "string \<Rightarrow> string" where
  "display_cbcvarient_usage version =
     ''cbcvarient: Program to manipulate build varients'' @ nl @ nl @
     ''Version: '' @ version @ nl @
     ''Action Options:'' @ nl @
     ''-a: add varient'' @ nl @ ''-d: display varient'' @ nl @ ''-l: list varients'' @ nl @
     ''-q: query servers build with build varient'' @ nl @
     ''-r: remove varient'' @ nl @ ''-z: set-default'' @ nl @ nl @
     ''-d, -q, -r and -z actions need -x <varient name> or -k <valias>'' @ nl @
     ''-a will need both -x <varient name> and -k <valias>'' @ nl @ nl @
     ''Definition Options:'' @ nl @
     ''-g: package'' @ nl @ ''-j: varient'' @ nl @ nl @
     ''Name Options:'' @ nl @
     ''-x: <varient>'' @ nl @ ''-k: <valias>'' @ nl @ ''-p: <package>'' @ nl @ nl @
     ''Detail Options:'' @ nl @
     ''-n: <os name>'' @ nl @ ''-e: <version alias>'' @ nl @ ''-o: <os version>'' @ nl @
     ''-s: <os alias>'' @ nl @ ''-t: <os architecture'' @ nl @ nl @
     ''cbcvarient ( -a | -d | -l | -q | -r | -z ) ( -g | -j ) ( -x | -k ) [ detail options ]'' @ nl @ nl"

definition display_cbcpart_usage :: "string \<Rightarrow> string" where
  "display_cbcpart_usage version =
     ''cbcpart: Program to manipulate build partitions & schemes'' @ nl @ nl @
     ''Version: '' @ version @ nl @
     ''Action Options:'' @ nl @
     ''-a: add scheme / partition'' @ nl @ ''-d: display scheme'' @ nl @
     ''-l: list schemes'' @ nl @ ''-q: query servers build with scheme'' @ nl @
     ''-r: remove scheme / partition'' @ nl @
     ''-m: modify'' @ nl @ ''-z: set-default'' @ nl @ nl @
     ''Definition Options:'' @ nl @
     ''-p: partition'' @ nl @ ''-s: scheme'' @ nl @ ''-o: option'' @ nl @ nl @
     ''Detail Options'' @ nl @
     ''-j: Use lvm (when adding a scheme)'' @ nl @
     ''-g: <logical-volume> (if using lvm)'' @ nl @
     ''-n: <scheme name>'' @ nl @ nl @
     ''Partition Details:'' @ nl @
     ''-i: <minimum-size>'' @ nl @
     ''-x: <maximum-size>'' @ nl @
     ''-y: <priority>'' @ nl @
     ''-b: <mount-option>'' @ nl @
     ''-f: <file-system-type>'' @ nl @
     ''-t: <mount point>'' @ nl @ nl @
     ''cbcpart: ( -a | -d | -l | -m | -q | -r | -z ) ( -p | -s | -o ) [ ( -j -g log vol ) ] [ -n ] ( -f -x -t [ -i ] [ -y ] [ -b ] )'' @ nl"

definition display_dnsa_usage :: "string \<Rightarrow> string" where
  "display_dnsa_usage version =
     ''Version: '' @ version @ nl @
     ''Action options (and needed options)'' @ nl @
     ''-a: add host record'' @ nl @ tab @ ''-t -h -i -n (-p) (-o -s)'' @ nl @
     ''-b: build reverse zone'' @ nl @ tab @ ''-n'' @ nl @
     ''-d: display zone'' @ nl @ tab @ ''( -F | -R | -G ) -n'' @ nl @
     ''-e: add preferred A record for reverse DNS'' @
     nl @ tab @ ''-h -n -i'' @ nl @
     ''-g: remove preferred A record'' @ nl @ tab @ '' -i'' @ nl @
     ''-l: list zones'' @ nl @ tab @ ''( -F | -R )'' @ nl @
     ''-m: add CNAME to root domain'' @ nl @ tab @ ''-h -n [ -j top-level domain ]'' @ nl @
     ''-r: remove record'' @ nl @ tab @ ''-h -n -t'' @ nl @
     ''-u: display IP'' @ [CHR 0x27] @ ''s with multiple A records'' @ nl @ tab @ ''( -n domain | -i ip-address )'' @ nl @
     ''-w: commit valid zones on nameserver'' @ nl @ tab @ ''( -F | -R )'' @ nl @
     ''-x: remove zone'' @ nl @ tab @ ''( -F |-R ) -n'' @ nl @
     ''-z: add zone'' @ nl @ tab @ ''( -F | -R [-p] | -G -N [ -I ] ) [ -S -M ] -n'' @ nl @ nl @
     ''Zone details:'' @ nl @
     ''-M: master IP address'' @ nl @ ''-N: name server(s) (comma separated)'' @ nl @
     ''-I: IP('' @ [CHR 0x27] @ ''s) (comma separated)'' @ nl @ nl @
     ''Reverse: -p'' @ tab @ ''Slave: -M'' @ tab @ ''Glue -N -I'' @ nl @ nl @
     ''Options for use with adding a host record or zone:'' @ nl @
     ''-i: IP Address'' @ nl @ ''-t: record type (A, MX etc)'' @ nl @ ''-h: host'' @
     nl @ ''-p: priority (for MX and SRV records), prefix for reverse zone'' @ nl @
     ''-o: protocol'' @ nl @ ''-s: service (for SRV records)'' @ nl @ nl"

definition display_cpc_usage :: "string \<Rightarrow> string" where
  "display_cpc_usage version =
     ''cpc: create preseed config '' @ version @ nl @
     ''Usage'' @ nl @
     ''-d <domain>'' @ tab @ ''DNS domain name'' @ nl @
     ''-e <ntp-server>'' @ nl @
     ''-f <filename>'' @ tab @ ''Output to the named file'' @ nl @
     ''-y <keyboard county layout>'' @ nl @
     ''-l <locale>'' @ nl @
     ''-i <interface>'' @ nl @
     ''-n <hostname>'' @ tab @ ''Host name'' @ nl @
     ''-m <mirror>'' @ nl @
     ''-p <pack1,pack2,...,packn>'' @ nl @
     ''-s <suite>'' @ nl @
     ''-t <timezone>'' @ nl @
     ''-u <url>'' @ nl @
     ''-k <disk drive id>'' @ nl"

definition display_ckc_usage :: "string \<Rightarrow> string" where
  "display_ckc_usage version =
     ''ckc: create kickstart config '' @ version @ nl @
     ''Usage'' @ nl @
     ''-d <domain>'' @ tab @ ''DNS domain name'' @ nl @
     ''-f <filename>'' @ tab @ ''Filename to output kickstart file to'' @ nl @
     ''-i <ip address>'' @ tab @ ''IP address for the server'' @ nl @
     ''-k <disk>'' @ tab @ ''Disk to install on (no /dev/ needed)'' @ nl @
     ''-l <language>'' @ tab @ ''Default language for system'' @ nl @
     ''-n <name>'' @ tab @ ''Hostname for the server'' @ nl @
     ''-p <packages>'' @ tab @ ''Comma separated list of extra packages'' @ nl @
     ''-t <timezone>'' @ tab @ ''Timezone for the server'' @ nl @
     ''-u <url>'' @ tab @ ''Url location of kickstart file'' @ nl @
     ''-y <country>'' @ tab @ ''Country keyboard mapping'' @ nl @
     nl @
     ''-h'' @ tab @ ''Display this help message'' @ nl @
     ''-v'' @ tab @ ''Display cpc version number'' @ nl"

definition display_cbcsysp_usage :: "string \<Rightarrow> string" where
  "display_cbcsysp_usage version =
     ''cbcsysp: cbc system package '' @ version @ nl @
     ''Usage:'' @ tab @
     ''cbcsysp <action> <type> <arguments>'' @ nl @
     ''Action options'' @ nl @
     ''-a: add -l: list -r: remove -m: modify'' @ nl @
     ''Type options'' @ nl @
     ''-p: package'' @ tab @ ''-o: config'' @ tab @ ''-y: arguments'' @ nl @
     ''Arguments'' @ nl @
     ''-b <domain>'' @ tab @ ''-f <field>'' @ tab @ ''-n <name>'' @ tab @ ''-g <arg>'' @ nl @
     ''-t <type>'' @ nl @
     ''See man page for full details'' @ nl"

definition display_cbcscript_usage :: "string \<Rightarrow> string" where
  "display_cbcscript_usage version =
     ''cbcscript: cbc scripts '' @ version @ nl @
     ''Usage:'' @ tab @
     ''cbcscript <action> [ <type> ] <arguments>'' @ nl @
     ''Action options'' @ nl @
     ''-a: add'' @ tab @ ''-d: display'' @ tab @ ''-l: list'' @ tab @ ''-r: remove'' @ nl @
     ''Type options'' @ nl @
     ''-f: arg'' @ tab @ ''-s: script'' @ nl @
     ''Arguments'' @ nl @
     ''-b <domain>'' @ tab @ ''-o <number>'' @ tab @ ''-g <arg>'' @ tab @ ''-n <name>'' @ nl @
     ''-t <build os>'' @ nl @
     ''See man page for full details'' @ nl"

definition display_cbclocale_usage :: "string \<Rightarrow> string" where
  "display_cbclocale_usage version =
     ''cbclocale: create build config locale '' @ version @ nl @
     ''Usage:'' @ tab @
     ''cbclocale <action> <options>'' @ nl @ nl @
     ''Action options'' @ nl @
     ''-a: add'' @ nl @ ''-d display'' @ nl @ ''-l: list'' @ nl @ ''-q: query servers in locale'' @ nl @ ''-r: remove'' @ nl @
     ''-z: set default locale'' @ nl @ nl @
     ''Options'' @ nl @
     ''-g language'' @ nl @ ''-k keymap'' @ nl @ ''-o locale'' @ nl @ ''-n name'' @ nl @
     ''-t timezone'' @ nl @ ''-u country'' @ nl @ nl @
     ''See man page for full details'' @ nl"

subsection \<open>Texts of the codes\<close>

definition ailsa_comm_line_strerror :: "int \<Rightarrow> string" where
  "ailsa_comm_line_strerror error =
    (if error = RTYPE_INPUT_INVALID then ''Resource type was invalid''
     else if error = ZTYPE_INPUT_INVALID then ''Zone type was invalid''
     else if error = SERVICE_INPUT_INVALID then ''Service was invalid''
     else if error = PROTOCOL_INPUT_INVALID then ''Protocol was invalid''
     else if error = DOMAIN_INPUT_INVALID then ''Domain name was invalid''
     else if error = CONFIG_INPUT_INVALID then ''Config file location was invalid''
     else if error = HOST_INPUT_INVALID then ''Hostname was invalid''
     else if error = DEST_INPUT_INVALID then ''Destination was invalid''
     else if error = MASTER_INPUT_INVALID then ''Master IP or hostname was invalid''
     else if error = GLUE_IP_INPUT_INVALID then ''Glue IP address was invalid''
     else if error = GLUE_NS_INPUT_INVALID then ''Glue hostname was invalid''
     else if error = UUID_INPUT_INVALID then ''UUID supplied was invalid''
     else if error = SERVER_NAME_INVALID then ''Server name supplied was invalid''
     else if error = OS_INVALID then ''Operating System supplied was invalid''
     else if error = OS_VERSION_INVALID then ''Operating System version was invalid''
     else if error = PART_SCHEME_INVALID then ''Partition scheme name was invalid''
     else if error = VARIENT_INVALID then ''Varient name supplied was invalid''
     else if error = ARCH_INVALID then ''Architecture supplied was invalid''
     else if error = NET_CARD_INVALID then ''Network card device name was invalid''
     else if error = HARD_DISK_INVALID then ''Hard disk device name was invalid''
     else if error = CONFIG_INVALID then ''Config file path was invalid''
     else if error = LOCALE_INVALID then ''Locale name supplied was invalid''
     else if error = PROTOCOL_INVALID then ''Protocol supplied was neither tcp nor udp''
     else if error = VMHOST_INVALID then ''VM hostname supplied was invalid''
     else if error = MAKE_INVALID then ''Make supplied was invalid''
     else if error = VENDOR_INVALID then ''Vendor supplied was invalid''
     else if error = CUSTOMER_NAME_INVALID then ''Customer name supplied was invalid''
     else if error = ADDRESS_INVALID then ''Address supplied was invalid''
     else if error = CITY_INVALID then ''City supplied was invalid''
     else if error = EMAIL_ADDRESS_INVALID then ''Email address supplied was invalid''
     else if error = DETAIL_INVALID then ''Service or hardware detail was invalid''
     else if error = HCLASS_INVALID then ''Hardware class supplied was invalid''
     else if error = URL_INVALID then ''URL specified was invalid''
     else if error = TYPE_INVALID then ''VM host or hardware type supplied was invalid''
     else if error = IP_INVALID then ''IP Supplied was invalid''
     else if error = NTP_SERVER_INVALID then ''NTP server supplied was invalid''
     else if error = LANGUAGE_INVALID then ''Language supplied was invalid''
     else if error = KEYMAP_INVALID then ''Keymap supplied was invalid''
     else if error = COUNTRY_INVALID then ''Country supplied was invalid''
     else if error = TIMEZONE_INVALID then ''Timezone supplied was invalid''
     else if error = MIN_INVALID then ''Number supplied for minimum invalid''
     else if error = MAX_INVALID then ''Number supplied for maximum invalid''
     else if error = PRI_INVALID then ''Number supplied for priority invalid''
     else if error = FILESYSTEM_INVALID then ''Filesystem supplied was invalid''
     else if error = LOG_VOL_INVALID then ''Logical volume name supplied was invalid''
     else if error = FS_PATH_INVALID then ''Filesystem path supplied was invalid''
     else if error = PACKAGE_FIELD_INVALID then ''Field for package supplied was invalid''
     else if error = PACKAGE_ARG_INVALID then ''Argument for package supplied was invalid''
     else if error = PACKAGE_NAME_INVALID then ''Package name supplied was invalid''
     else if error = PACKAGE_TYPE_INVALID then ''Package type supplied was invalid''
     else ''Unknown command line error'')"

definition ailsa_strerror :: "int \<Rightarrow> string" where
  "ailsa_strerror type =
    (if type = AILSA_NO_QUERY then ''No query was passed''
     else if type = AILSA_NO_DBTYPE then ''There is no DB type configured''
     else if type = AILSA_INVALID_DBTYPE then ''An invalid DB type was used''
     else if type = AILSA_NO_PARAMETERS then ''No parameters for MySQL bind operation''
     else if type = AILSA_NO_QUERY_NO then ''Query number passed was 0''
     else if type = AILSA_NO_FIELDS then ''No feilds to select in MySQL query''
     else ''Unknown type error'')"

text \<open>What is printed to the error output.\<close>

definition ailsa_show_error :: "int \<Rightarrow> string" where
  "ailsa_show_error retval =
    (if retval = AILSA_NO_ACTION then ''No action was specified on the command line'' @ nl @ nl
     else if retval = AILSA_NO_TYPE then ''No type was specified on the command line'' @ nl @ nl
     else if retval = AILSA_NO_NAME then ''No name was specified on the command line'' @ nl @ nl
     else if retval = AILSA_NO_LOGVOL then ''A logical volume pool was specified, but no name provided'' @ nl @ nl
     else if retval = AILSA_NO_POOL then ''Program was unable to create or activate th storage pool'' @ nl @ nl
     else if retval = AILSA_NO_DIRECTORY then ''A directory pool was specified, but no path provided'' @ nl @ nl
     else if retval = AILSA_NO_NETWORK then ''There was no network specified for the virtual machine'' @ nl @ nl
     else if retval = AILSA_NO_CONNECT then ''Program was unable to make connection to libvirtd'' @ nl @ nl
     else [])"

text \<open>The type is a short; an unknown one is printed as a number.  The buffer holds every message.\<close>

definition signed_dec :: "int \<Rightarrow> string" where
  "signed_dec n = (if n < 0 then ''-'' @ dec (nat (- n)) else dec (nat n))"

definition display_type_error :: "int \<Rightarrow> string" where
  "display_type_error type = ''Unable to perform requested action on '' @
    (if type = SERVER then ''server'' @ nl
     else if type = CUSTOMER then ''customer'' @ nl
     else if type = CONTACT then ''contact'' @ nl
     else if type = SERVICE then ''service'' @ nl
     else if type = HARDWARE then ''hardware'' @ nl
     else if type = HARDWARE_TYPE then ''hardware type'' @ nl
     else if type = SERVICE_TYPE then ''service type'' @ nl
     else if type = SERVER_TYPE then ''server type'' @ nl
     else if type = VM_HOST then ''virtual machine host'' @ nl
     else ''unknown type '' @ signed_dec type @ nl)"

subsection \<open>A command line that was not accepted\<close>

datatype channel = Stderr | Log

text \<open>\<open>None\<close> for the usage and for a code without a message.\<close>

definition command_line_message :: "string \<Rightarrow> string \<Rightarrow> int \<Rightarrow> (channel \<times> string) option" where
  "command_line_message version program retval =
    (if retval = AILSA_NO_NAME then Some (Stderr, ''No name specified with -n.'' @ nl)
     else if retval = AILSA_NO_TYPE then Some (Stderr, ''No type specified on command line.'' @ nl)
     else if retval = AILSA_NO_ACTION then Some (Stderr, ''No action specified on command line.'' @ nl)
     else if retval = AILSA_WRONG_ACTION then Some (Stderr, ''Unable to complete this action.'' @ nl)
     else if retval = AILSA_NO_NAME_OR_ID then Some (Stderr, ''No name or ID specified on command line.'' @ nl)
     else if retval = AILSA_NO_SERVICE then Some (Stderr, ''No service provided on command line'' @ nl)
     else if retval = AILSA_NO_DETAIL then Some (Stderr, ''No detail provided on command line'' @ nl)
     else if retval = AILSA_NO_DEVICE then Some (Stderr, ''No device provided on command line'' @ nl)
     else if retval = AILSA_NO_VHOST_TYPE then Some (Stderr, ''No virtual machine host type specified on command line'' @ nl)
     else if retval = AILSA_NO_ID_OR_CLASS then Some (Stderr, ''No hardware ID or class was specified on command line'' @ nl)
     else if retval = AILSA_NO_DOMAIN_NAME then Some (Stderr, ''No domain specified on command line.'' @ nl)
     else if retval = AILSA_NO_IP_ADDRESS then Some (Stderr, ''No IP address specified on command line.'' @ nl)
     else if retval = AILSA_NO_HOST_NAME then Some (Stderr, ''No hostname specified on command line.'' @ nl)
     else if retval = AILSA_NO_RECORD_TYPE then Some (Stderr, ''No record type specified on command line.'' @ nl)
     else if retval = AILSA_NO_CLASS then Some (Stderr, ''No hardware class specified on command line.'' @ nl)
     else if retval = AILSA_NO_FULLNAME then Some (Stderr, ''No full name specified on command line.'' @ nl)
     else if retval = AILSA_NO_CITY then Some (Stderr, ''No city specified on command line.'' @ nl)
     else if retval = AILSA_NO_COUNTY then Some (Stderr, ''No county specified on command line.'' @ nl)
     else if retval = AILSA_NO_POSTCODE then Some (Stderr, ''No postcode specified on command line.'' @ nl)
     else if retval = AILSA_NO_COID then Some (Stderr, ''No coid specified on command line.'' @ nl)
     else if retval = AILSA_NO_CONTACT_NAME then Some (Stderr, ''No name specified with -N.'' @ nl)
     else if retval = AILSA_NO_SERVICE_URL then Some (Stderr, ''A service name or URL was not specified'' @ nl @ ''If you wish to remove all services (for a server or customer) add the -f option'' @ nl)
     else if retval = AILSA_NO_PHONE_NUMBER then Some (Stderr, ''No phone no. specified with -P.'' @ nl)
     else if retval = AILSA_NO_PACKAGE then Some (Stderr, ''No package supplied.'' @ nl)
     else if retval = AILSA_NO_OS then Some (Stderr, ''No os or alias supplied.'' @ nl)
     else if retval = AILSA_NO_VARIENT then Some (Stderr, ''No varient or valias supplied.'' @ nl)
     else if retval = AILSA_NO_EMAIL_ADDRESS then Some (Stderr, ''No email address specified with -E.'' @ nl)
     else if retval = AILSA_WRONG_TYPE_DISPLAY then Some (Stderr, ''Cannot display this type in cmdb'' @ nl)
     else if retval = AILSA_DOMAIN_AND_IP_GIVEN then Some (Stderr, ''Both domain name and IP given on command line.'' @ nl)
     else if retval = AILSA_NO_DOMAIN_OR_NAME then Some (Log, ''Neither build domaion nor script name was provided'')
     else if retval = AILSA_NO_PARTITION then Some (Stderr, ''No partition information on command line.'' @ nl)
     else if retval = AILSA_NO_SCHEME then Some (Stderr, ''No scheme name was supplied on the command line.'' @ nl)
     else if retval = AILSA_NO_BUILD_DOMAIN then Some (Stderr, ''No Build Domain supplied on command line'' @ nl)
     else if retval = AILSA_NO_MOD_BUILD_DOM_NET then Some (Stderr, ''Cowardly refusal to modify network settings for build domain'' @ nl)
     else if retval = AILSA_NO_MASTER then Some (Stderr, ''Slave zone specified but no master IP given'' @ nl)
     else if retval = AILSA_NO_MASTER_NAME then Some (Stderr, ''Slave zone specified but no master name given'' @ nl)
     else if retval = AILSA_NO_PREFIX then Some (Stderr, ''No reverse zone prefix was supplied'' @ nl)
     else if retval = AILSA_NO_ARG then Some (Stderr, ''No arguemt was supplied'' @ nl)
     else if retval = AILSA_NO_NUMBER then Some (Stderr, ''No number was supplied'' @ nl)
     else if retval = BUILD_DOMAIN_NETWORK_INVALID then Some (Stderr, ''Check your network input please. It seems wrong!'' @ nl)
     else if retval = AILSA_NO_DISK_DEV then Some (Log, ''No disk device was provided'')
     else if retval = AILSA_INVALID_DBTYPE then Some (Log, ''DB type was invalid in the query'')
     else if retval = AILSA_NO_PRIORITY then Some (Log, ''No priority was specified'')
     else if retval = AILSA_NO_PROTOCOL then Some (Log, ''No protocol was specified'')
     else if retval = AILSA_NO_SERVICE then Some (Log, ''No service was specified'')
     else if retval = AILSA_NO_FILESYSTEM then Some (Log, ''No file system type was supplied'')
     else if retval = AILSA_NO_RECORD_TYPE then Some (Log, ''No record type was specified'')
     else if retval = AILSA_NO_LOGVOL then Some (Log, ''No logical volume name supplied'')
     else if 600 \<le> retval \<and> retval < 700 then Some (Log, ''Input validation failed: '' @ ailsa_comm_line_strerror retval)
     else if retval = AILSA_NO_OPTION then Some (Log, ''Partition option specified but no option supplied'')
     else if retval = AILSA_PREFIX_OUT_OF_RANGE then Some (Log, ''Prefix provided out of range. Allow ranges: 8, 16, 24 and above'')
     else if retval = AILSA_VERSION then Some (Log, program @ '': '' @ version)
     else if retval = AILSA_NO_URI then Some (Log, ''No URI was specified for the libvirt connection'')
     else None)"

text \<open>The name of the program without its directory.\<close>

definition program_name :: "string \<Rightarrow> string" where
  "program_name program = (case strrchr program (CHR ''/'') of None \<Rightarrow> program | Some i \<Rightarrow> drop (i + 1) program)"

definition program_usage :: "string \<Rightarrow> string \<Rightarrow> string" where
  "program_usage version program =
    (if strncmp_eq program ''cmdb'' CONFIG_LEN \<or> strncmp_eq program ''cmdb2'' CONFIG_LEN then display_cmdb_usage version
     else if strncmp_eq program ''cbc'' CONFIG_LEN then display_cbc_usage version
     else if strncmp_eq program ''dnsa'' CONFIG_LEN then display_dnsa_usage version
     else if strncmp_eq program ''cbcdomain'' CONFIG_LEN then display_cbcdomain_usage version
     else if strncmp_eq program ''cbcos'' CONFIG_LEN then display_cbcos_usage version
     else if strncmp_eq program ''cbcvarient'' CONFIG_LEN then display_cbcvarient_usage version
     else if strncmp_eq program ''cbcpart'' CONFIG_LEN then display_cbcpart_usage version
     else if strncmp_eq program ''cpc'' CONFIG_LEN then display_cpc_usage version
     else if strncmp_eq program ''cbcsysp'' CONFIG_LEN then display_cbcsysp_usage version
     else if strncmp_eq program ''cbcscript'' CONFIG_LEN then display_cbcscript_usage version
     else if strncmp_eq program ''cbclocale'' CONFIG_LEN then display_cbclocale_usage version
     else [])"

text \<open>Standard output, message, and the code the command exits with.\<close>

definition display_command_line_error ::
  "string \<Rightarrow> int \<Rightarrow> string \<Rightarrow> string \<times> (channel \<times> string) option \<times> int" where
  "display_command_line_error version retval prog =
    (let program = program_name prog
     in (case command_line_message version program retval of
           Some message \<Rightarrow> ([], Some message, retval)
         | None \<Rightarrow>
             if retval = AILSA_DISPLAY_USAGE then (program_usage version program, None, 0)
             else (''Usage: run '' @ program @ '' on its own or check man pages'' @ nl,
               Some (Stderr, ''Unknown error code '' @ signed_dec retval @ ''!'' @ nl), retval)))"

end
