(* ===== verification/Dnsa_Main.thy ===== *)
theory Dnsa_Main
  imports Zone_Commands Zone_Display Command_Errors
begin

text \<open>
  src/dnsa.c: \<open>main\<close> of the DNS command.  The command line is read and checked; the zone type and the
  action choose one operation of src/zones.c.  The result is the exit code, the text that was printed
  and the site; \<open>None\<close> is a crash.  The configuration \<open>parse_cmdb_config\<close> read is the
  parameter \<open>dc\<close>.
\<close>

type_synonym 'db command_result = "(int \<times> string \<times> 'db site) option"

text \<open>The operations return a site, a connection, or a connection and a text.\<close>

definition silent :: "'db site_result \<Rightarrow> 'db command_result" where
  "silent r = map_option (\<lambda>(retval, st). (retval, [], st)) r"

definition connected :: "'db site \<Rightarrow> (int \<times> 'db world) option \<Rightarrow> 'db command_result" where
  "connected st r = map_option (\<lambda>(retval, w). (retval, [], st\<lparr>si_world := w\<rparr>)) r"

definition printed :: "'db site \<Rightarrow> ('db world \<times> string) option \<Rightarrow> 'db command_result" where
  "printed st r = map_option (\<lambda>(w, text). (0, text, st\<lparr>si_world := w\<rparr>)) r"

definition not_implemented :: "int \<Rightarrow> 'db site \<Rightarrow> 'db command_result" where
  "not_implemented action st = Some (0, ''Action code '' @ dec (nat action) @ '' not implemented'' @ nl, st)"

definition dnsa_forward ::
  "'db sqlite3_api \<Rightarrow> services \<Rightarrow> ailsa_cmdb_s option \<Rightarrow> dnsa_comm_line_s \<Rightarrow> 'db site \<Rightarrow> 'db command_result" where
  "dnsa_forward api os dc cm st =
    (let action = dcl_action cm; domain = dcl_domain cm; w = si_world st; uid = os_uid os in
     if action = DNSA_LIST then printed st (list_zones api dc w)
     else if action = DNSA_DISPLAY then printed st (display_zone api os domain dc w)
     else if action = DNSA_COMMIT then silent (commit_fwd_zones api os dc domain st)
     else if action = DNSA_AHOST then connected st (add_host api uid dc (Some cm) w)
     else if action = DNSA_AZONE then silent (add_fwd_zone api os dc (Some cm) st)
     else if action = DNSA_DREC then connected st (delete_record api uid dc (Some cm) w)
     else if action = DNSA_DZONE then silent (delete_fwd_zone api os dc (Some cm) st)
     else if action = DNSA_CNAME then connected st (add_cname_to_root_domain api uid dc (Some cm) w)
     else not_implemented action st)"

definition dnsa_reverse ::
  "'db sqlite3_api \<Rightarrow> services \<Rightarrow> ailsa_cmdb_s option \<Rightarrow> dnsa_comm_line_s \<Rightarrow> 'db site \<Rightarrow> 'db command_result" where
  "dnsa_reverse api os dc cm st =
    (let action = dcl_action cm; domain = dcl_domain cm; w = si_world st; uid = os_uid os in
     if action = DNSA_LIST then printed st (list_rev_zones api dc w)
     else if action = DNSA_DISPLAY then printed st (display_rev_zone api domain dc w)
     else if action = DNSA_COMMIT then silent (commit_rev_zones api os dc domain st)
     else if action = DNSA_AZONE then silent (add_rev_zone api os dc (Some cm) st)
     else if action = DNSA_DISPLAY_MULTI then
       map_option (\<lambda>(retval, w, text). (retval, text, st\<lparr>si_world := w\<rparr>)) (display_multi_a_records api dc (Some cm) w)
     else if action = DNSA_ADD_MULTI then connected st (mark_preferred_a_record api uid dc (Some cm) w)
     else if action = DNSA_BREV then silent (build_reverse_zone api os dc (Some cm) st)
     else if action = DNSA_DPREFA then connected st (delete_preferred_a api dc (Some cm) w)
     else if action = DNSA_DZONE then silent (delete_reverse_zone api os dc (Some cm) st)
     else not_implemented action st)"

text \<open>The code of \<open>delete_glue_zone\<close> is dropped.\<close>

definition dnsa_glue ::
  "'db sqlite3_api \<Rightarrow> services \<Rightarrow> ailsa_cmdb_s option \<Rightarrow> dnsa_comm_line_s \<Rightarrow> 'db site \<Rightarrow> 'db command_result" where
  "dnsa_glue api os dc cm st =
    (let action = dcl_action cm; w = si_world st in
     if action = DNSA_AZONE then connected st (add_glue_zone api os dc (Some cm) w)
     else if action = DNSA_LIST then printed st (list_glue_zones api dc w)
     else if action = DNSA_DZONE then
       map_option (\<lambda>(retval, text, st). (0, text, st)) (connected st (delete_glue_zone api (os_uid os) dc (Some cm) w))
     else not_implemented action st)"

text \<open>What \<open>main\<close> does with a command line that was accepted: \<open>retval\<close> is 0 at first.\<close>

definition dnsa_dispatch ::
  "'db sqlite3_api \<Rightarrow> services \<Rightarrow> ailsa_cmdb_s option \<Rightarrow> dnsa_comm_line_s \<Rightarrow> 'db site \<Rightarrow> 'db command_result" where
  "dnsa_dispatch api os dc cm st =
    (if dcl_type cm = FORWARD_ZONE then dnsa_forward api os dc cm st
     else if dcl_type cm = REVERSE_ZONE then dnsa_reverse api os dc cm st
     else if dcl_type cm = GLUE_ZONE then dnsa_glue api os dc cm st
     else if dcl_type cm = TEST_ZONE then
       (if dcl_action cm = DNSA_LIST then Some (0, list_test_zones dc, st) else not_implemented (dcl_action cm) st)
     else Some (0, [], st))"

text \<open>\<open>prog\<close> is \<open>argv[0]\<close>.  The configuration is read after the command line; the usage and the messages of a
  command line that was not accepted are those of theory Command\_Errors.\<close>

definition dnsa_main ::
  "string \<Rightarrow> string \<Rightarrow> 'db sqlite3_api \<Rightarrow> services \<Rightarrow> ailsa_cmdb_s option \<Rightarrow> (char \<times> string) list \<Rightarrow> 'db site \<Rightarrow>
   'db command_result" where
  "dnsa_main version prog api os dc options st = do {
     (retval, cm) \<leftarrow> parse_dnsa_command_line options comm_line_zero;
     if retval \<noteq> 0
     then (case display_command_line_error version retval prog of (out, err, code) \<Rightarrow> Some (code, out, st))
     else dnsa_dispatch api os dc cm st
   }"

end
