(* ===== verification/Dnsa_Frame.thy ===== *)
theory Dnsa_Frame
  imports Dnsa_Main
begin

text \<open>
  What the DNS command may change outside the database: only the files the configuration names, and only by
  the two commands the configuration names.  The rules for the steps (a query, a list, a checked call)
  carry the proof through every operation; the operations meet one contract, stated as a locale.  A second
  group of lemmas shows that listing and displaying leave the database alone.
\<close>

subsection \<open>The files and the commands of a configuration\<close>

definition own_file :: "ailsa_cmdb_s \<Rightarrow> string \<Rightarrow> bool" where
  "own_file cc f \<longleftrightarrow>
     (\<exists>dir zone. cc_dir cc = Some dir \<and> f = snprintf_s DOMAIN_LEN (dir @ zone)) \<or>
     (\<exists>bind name. cc_bind cc = Some bind \<and> (cc_dnsa cc = Some name \<or> cc_rev cc = Some name) \<and>
        f = snprintf_s DOMAIN_LEN (bind @ name))"

definition own_command :: "ailsa_cmdb_s \<Rightarrow> string \<Rightarrow> bool" where
  "own_command cc c \<longleftrightarrow>
     (\<exists>chkz dir zone. cc_chkz cc = Some chkz \<and> cc_dir cc = Some dir \<and>
        c = snprintf_s CONFIG_LEN (chkz @ '' '' @ zone @ '' '' @ dir @ zone)) \<or>
     (\<exists>rndc. cc_rndc cc = Some rndc \<and> c = snprintf_s CONFIG_LEN (rndc @ '' reload''))"

definition confined :: "ailsa_cmdb_s \<Rightarrow> 'db site \<Rightarrow> 'db site \<Rightarrow> bool" where
  "confined cc st st' \<longleftrightarrow>
     (\<forall>f. si_files st' f \<noteq> si_files st f \<longrightarrow> own_file cc f) \<and>
     (\<exists>cs. si_commands st' = si_commands st @ cs \<and> (\<forall>c\<in>set cs. own_command cc c))"

lemma confined_refl: "confined cc st st"
  by (simp add: confined_def)

lemma confined_trans:
  assumes "confined cc a b" "confined cc b c" shows "confined cc a c"
  using assms unfolding confined_def by (metis Un_iff append.assoc set_append)

lemma confined_world: "confined cc a b \<Longrightarrow> confined cc a (b\<lparr>si_world := w\<rparr>)"
  by (simp add: confined_def)

lemma confined_put: "confined cc a b \<Longrightarrow> own_file cc f \<Longrightarrow> confined cc a (put_file f text b)"
  by (auto simp: confined_def put_file_def)

lemma confined_system: "confined cc a b \<Longrightarrow> own_command cc c \<Longrightarrow> confined cc a (snd (run_system os c b))"
  by (auto simp: confined_def run_system_def)

lemma own_command_check: "cc_chkz cc = Some chkz \<Longrightarrow> cc_dir cc = Some dir \<Longrightarrow>
    own_command cc (snprintf_s CONFIG_LEN (chkz @ '' '' @ zone @ '' '' @ dir @ zone))"
  by (auto simp: own_command_def)

lemma own_command_reload: "cc_rndc cc = Some rndc \<Longrightarrow> own_command cc (snprintf_s CONFIG_LEN (rndc @ '' reload''))"
  by (auto simp: own_command_def)

lemma own_file_zone: "cc_dir cc = Some dir \<Longrightarrow> own_file cc (snprintf_s DOMAIN_LEN (dir @ zone))"
  by (auto simp: own_file_def)

lemma own_file_config:
  "cc_bind cc = Some b \<Longrightarrow> cc_dnsa cc = Some n \<Longrightarrow> own_file cc (snprintf_s DOMAIN_LEN (b @ n))"
  "cc_bind cc = Some b \<Longrightarrow> cc_rev cc = Some n \<Longrightarrow> own_file cc (snprintf_s DOMAIN_LEN (b @ n))"
  by (auto simp: own_file_def)

lemmas own_rules = own_command_check own_command_reload own_file_zone own_file_config

subsection \<open>Steps that stay within them\<close>

text \<open>\<open>stays P m\<close>: when \<open>m\<close> returns, the site it returns satisfies \<open>P\<close>.\<close>

definition stays :: "('s \<Rightarrow> bool) \<Rightarrow> ('a \<times> 's) option \<Rightarrow> bool" where
  "stays P m \<longleftrightarrow> (\<forall>r st. m = Some (r, st) \<longrightarrow> P st)"

lemma staysD: "stays P m \<Longrightarrow> m = Some (r, st) \<Longrightarrow> P st"
  by (simp add: stays_def)

lemma stays_Some: "P st \<Longrightarrow> stays P (Some (r, st))"
  by (simp add: stays_def)

lemma stays_None: "stays P None"
  by (simp add: stays_def)

lemma stays_bind: "(\<And>x. m = Some x \<Longrightarrow> stays P (k x)) \<Longrightarrow> stays P (m \<bind> k)"
  by (cases m) (simp_all add: stays_def)

lemma stays_call:
  assumes "stays P m" "\<And>r st. P st \<Longrightarrow> stays Q (k (r, st))" shows "stays Q (m \<bind> k)"
  using assms by (cases m) (fastforce simp: stays_def)+

lemma stays_if: "(b \<Longrightarrow> stays P x) \<Longrightarrow> (\<not> b \<Longrightarrow> stays P y) \<Longrightarrow> stays P (if b then x else y)"
  by simp

lemma stays_chk0:
  assumes "stays P m" "\<And>st. P st \<Longrightarrow> stays P (k st)" shows "stays P (chk0 m k)"
  using assms by (auto simp: stays_def chk0_def bind_eq_Some_conv split: if_splits)

lemma stays_list: "P st \<Longrightarrow> (\<And>l. stays P (k l)) \<Longrightarrow> stays P (on_list st call k)"
  by (simp add: on_list_def stays_def)

lemma stays_query:
  assumes "P st" "\<And>w. P (st\<lparr>si_world := w\<rparr>)" "\<And>st rows. P st \<Longrightarrow> stays P (k st rows)"
  shows "stays P (on_query st q k)"
proof -
  have "P s" if "k (st\<lparr>si_world := w\<rparr>) rows = Some (r, s)" for w rows r s
    using assms(3) [OF assms(2)] that by (auto simp: stays_def)
  then show ?thesis using assms(2)
    by (auto simp: on_query_def stays_def Let_def bind_eq_Some_conv split: if_splits)
qed

lemma stays_world:
  assumes "\<And>w. P (st\<lparr>si_world := w\<rparr>)" shows "stays P (on_world st call)"
  using assms by (auto simp: on_world_def stays_def bind_eq_Some_conv)

lemma stays_system:
  "confined cc a b \<Longrightarrow> own_command cc c \<Longrightarrow> stays (confined cc a) (Some (run_system os c b))"
  using confined_system [of cc a b c os] by (simp add: stays_def run_system_def)

lemmas stays_steps = stays_chk0 stays_list stays_query stays_world stays_if

subsection \<open>Each operation\<close>

abbreviation (input) kept :: "ailsa_cmdb_s \<Rightarrow> 'db site \<Rightarrow> (int \<times> 'db site) option \<Rightarrow> bool" where
  "kept cc a m \<equiv> stays (confined cc a) m"

lemmas opened_up = option.case prod.case fst_conv snd_conv Let_def split_def option.distinct(2) simp_thms if_False if_True

lemma write_fwd_zone_file_kept:
  assumes "confined cc a st" shows "kept cc a (write_fwd_zone_file api os (Some cc) zone st)"
proof (cases zone)
  case None
  then show ?thesis using assms by (simp add: write_fwd_zone_file_def stays_Some)
next
  case (Some z)
  have "kept cc a (write_fwd_zone_file api os (Some cc) (Some z) st)"
    unfolding write_fwd_zone_file_def
    by (simp only: opened_up) (intro assms stays_list stays_query stays_bind stays_if stays_Some confined_world confined_put own_file_zone)
  then show ?thesis using Some by simp
qed

lemma write_rev_zone_file_kept:
  assumes "confined cc a st" shows "kept cc a (write_rev_zone_file api os (Some cc) zone prefix index st)"
  unfolding write_rev_zone_file_def
  by (simp only: opened_up)
    (intro assms stays_list stays_query stays_bind stays_if stays_Some confined_world confined_put own_file_zone)

lemma cmdb_check_zone_kept:
  assumes "confined cc a st" shows "kept cc a (cmdb_check_zone os (Some cc) zone st)"
  unfolding cmdb_check_zone_def
  by (cases zone; simp only: opened_up)
    (intro assms stays_bind stays_Some confined_system own_command_check; assumption)+

lemma record_verdict_kept:
  assumes "confined cc a st" shows "kept cc a (record_verdict api (Some cc) query verdict zone st)"
  unfolding record_verdict_def by (intro assms stays_list stays_world confined_world)

text \<open>The rules for the calls, with the predicate written out.\<close>

lemma kept_call:
  "kept cc a m \<Longrightarrow> (\<And>r st. confined cc a st \<Longrightarrow> kept cc a (k (r, st))) \<Longrightarrow> kept cc a (m \<bind> k)"
  by (rule stays_call)

lemma confined_snd: "confined cc a st \<Longrightarrow> confined cc a (snd (r, st))"
  by simp

lemmas kept_steps = stays_chk0 stays_list stays_query stays_world stays_if stays_Some stays_bind
  confined_world confined_snd

lemma cmdb_validate_fwd_zone_kept:
  assumes "confined cc a st" shows "kept cc a (cmdb_validate_fwd_zone api os (Some cc) zone ztype st)"
  unfolding cmdb_validate_fwd_zone_def
  by (simp only: opened_up)
    (intro assms stays_if stays_Some record_verdict_kept write_fwd_zone_file_kept cmdb_check_zone_kept kept_call
      confined_snd)

lemma validate_ranges_kept:
  assumes "confined cc a st"
  shows "validate_ranges api os (Some cc) zone prefix is st = Some (r, v, st') \<Longrightarrow> confined cc a st'"
  using assms
proof (induction "is" arbitrary: st)
  case Nil
  then show ?case by simp
next
  case (Cons i "is")
  have w: "write_rev_zone_file api os (Some cc) zone prefix (of_nat i) st = Some (x, s) \<Longrightarrow> confined cc a s" for x s
    by (rule staysD [OF write_rev_zone_file_kept [OF Cons.prems(2)]])
  have c: "confined cc a s \<Longrightarrow> cmdb_check_zone os (Some cc) z s = Some (x, t) \<Longrightarrow> confined cc a t" for x s t z
    by (rule staysD [OF cmdb_check_zone_kept])
  show ?case using Cons.prems Cons.IH w c
    by (auto simp: bind_eq_Some_conv split: prod.splits if_splits)
qed

lemma cmdb_validate_rev_zone_kept:
  assumes "confined cc a st" shows "kept cc a (cmdb_validate_rev_zone api os (Some cc) zone ztype prefix st)"
proof (cases "zone = None \<or> is_slave ztype")
  case True
  then show ?thesis using assms record_verdict_kept
    by (auto simp: cmdb_validate_rev_zone_def stays_Some)
next
  case False
  obtain r i where i: "get_zone_index prefix = (r, i)" by (cases "get_zone_index prefix")
  have v: "validate_ranges api os (Some cc) zone prefix is st = Some (x, y, s) \<Longrightarrow> confined cc a s" for "is" x y s
    using validate_ranges_kept assms by blast
  have k: "kept cc a (if x \<noteq> 0 then Some (x, s) else record_verdict api (Some cc) REV_ZONE_VALIDATE y zone s)"
    if "confined cc a s" for x y s
    using that record_verdict_kept by (auto simp: stays_Some)
  show ?thesis using False assms v k
    by (cases i) (auto simp: cmdb_validate_rev_zone_def i stays_Some intro!: stays_bind)
qed

lemma cmdb_validate_zone_kept:
  assumes "confined cc a st" shows "kept cc a (cmdb_validate_zone api os (Some cc) type zone ztype prefix st)"
  unfolding cmdb_validate_zone_def
  by (simp only: opened_up)
    (intro assms stays_if stays_Some cmdb_validate_fwd_zone_kept cmdb_validate_rev_zone_kept)

lemma cmdb_write_fwd_zone_config_kept:
  assumes "confined cc a st" shows "kept cc a (cmdb_write_fwd_zone_config api os (Some cc) st)"
  unfolding cmdb_write_fwd_zone_config_def
  by (simp only: opened_up) (intro assms kept_steps confined_put own_file_config; assumption)

lemma cmdb_write_rev_zone_config_kept:
  assumes "confined cc a st" shows "kept cc a (cmdb_write_rev_zone_config api os (Some cc) st)"
  unfolding cmdb_write_rev_zone_config_def
  by (simp only: opened_up) (intro assms kept_steps confined_put own_file_config; assumption)

lemma reload_kept:
  assumes "confined cc a st" shows "kept cc a (reload os (Some cc) st)"
  using assms by (auto simp: reload_def intro!: stays_bind stays_system own_command_reload)

lemmas operation_kept = cmdb_validate_zone_kept cmdb_write_fwd_zone_config_kept cmdb_write_rev_zone_config_kept
  reload_kept

subsection \<open>The operations on zones\<close>

lemma add_forward_zone_kept:
  assumes "confined cc a st" shows "kept cc a (add_forward_zone api os (Some cc) domain type master st)"
  unfolding add_forward_zone_def
  by (simp only: opened_up) (intro assms stays_chk0 stays_list stays_world stays_if stays_Some
      confined_world confined_snd operation_kept kept_call)

lemma add_reverse_zone_kept:
  assumes "confined cc a st" shows "kept cc a (add_reverse_zone api os (Some cc) net_range type master prefix st)"
  unfolding add_reverse_zone_def
  by (simp only: opened_up) (intro assms kept_steps operation_kept)

lemma validate_all_fwd_kept:
  "confined cc a st \<Longrightarrow> validate_all_fwd api os (Some cc) zs st = Some st' \<Longrightarrow> confined cc a st'"
proof (induction api os "Some cc" zs st rule: validate_all_fwd.induct)
  case (2 api os z t rest st)
  then show ?case using staysD [OF cmdb_validate_zone_kept [OF 2(2)]]
    by (auto simp: bind_eq_Some_conv)
qed simp_all

lemma validate_all_rev_kept:
  "confined cc a st \<Longrightarrow> validate_all_rev api os (Some cc) name zs st = Some st' \<Longrightarrow> confined cc a st'"
proof (induction api os "Some cc" name zs st rule: validate_all_rev.induct)
  case (2 api os name z t p rest st)
  then show ?case using staysD [OF cmdb_validate_zone_kept [OF 2(2)]]
    by (auto simp: bind_eq_Some_conv split: if_splits)
qed simp_all

lemma stays_loop:
  assumes "\<And>st. m = Some st \<Longrightarrow> P st" "\<And>st. P st \<Longrightarrow> stays P (k st)" shows "stays P (m \<bind> k)"
  using assms by (cases m) (simp_all add: stays_None)

lemma stays_option:
  "(x = None \<Longrightarrow> stays P m) \<Longrightarrow> (\<And>y. x = Some y \<Longrightarrow> stays P (k y)) \<Longrightarrow> stays P (case x of None \<Rightarrow> m | Some y \<Rightarrow> k y)"
  by (cases x) simp_all

lemma stays_rows:
  "(x = [] \<Longrightarrow> stays P m) \<Longrightarrow> (\<And>y ys. x = y # ys \<Longrightarrow> stays P (k y ys)) \<Longrightarrow>
   stays P (case x of [] \<Rightarrow> m | y # ys \<Rightarrow> k y ys)"
  by (cases x) simp_all

lemma commit_fwd_zones_kept:
  assumes "confined cc a st" shows "kept cc a (commit_fwd_zones api os (Some cc) name st)"
  unfolding commit_fwd_zones_def
  by (simp only: opened_up)
    (intro assms stays_chk0 stays_list stays_query stays_if stays_Some stays_rows confined_world operation_kept
      stays_loop [OF validate_all_fwd_kept]; (assumption | intro stays_bind)?;
     (intro assms stays_chk0 stays_Some operation_kept)?)

lemma commit_rev_zones_kept:
  assumes "confined cc a st" shows "kept cc a (commit_rev_zones api os (Some cc) name st)"
  unfolding commit_rev_zones_def
  by (simp only: opened_up)
    (intro assms stays_chk0 stays_list stays_query stays_if stays_Some confined_world operation_kept
      stays_loop [where P = "confined cc a"];
      (assumption | erule (1) validate_all_rev_kept))

lemma delete_fwd_zone_kept:
  assumes "confined cc a st" shows "kept cc a (delete_fwd_zone api os (Some cc) cm st)"
  unfolding delete_fwd_zone_def
  by (simp only: opened_up) (intro assms stays_option kept_steps operation_kept)

lemma delete_reverse_zone_kept:
  assumes "confined cc a st" shows "kept cc a (delete_reverse_zone api os (Some cc) cm st)"
  unfolding delete_reverse_zone_def
  by (simp only: opened_up) (intro assms stays_option kept_steps operation_kept)

lemma add_zone_kept:
  assumes "confined cc a st"
  shows "kept cc a (add_fwd_zone api os (Some cc) cm st)" "kept cc a (add_rev_zone api os (Some cc) cm st)"
  using assms unfolding add_fwd_zone_def add_rev_zone_def
  by (auto split: option.split intro: stays_Some add_forward_zone_kept add_reverse_zone_kept)

lemma apply_reverse_updates_kept:
  assumes "confined cc a st" shows "kept cc a (apply_reverse_updates api os (Some cc) domain prefix rem add st)"
  unfolding apply_reverse_updates_def
  by (intro assms kept_steps operation_kept)

lemma build_reverse_zone_kept:
  assumes "confined cc a st" shows "kept cc a (build_reverse_zone api os (Some cc) cm st)"
  unfolding build_reverse_zone_def
  by (simp only: opened_up)
    (intro assms stays_option stays_rows kept_steps apply_reverse_updates_kept)

subsection \<open>The contract of an operation, and the command\<close>

locale confined_operation =
  fixes operation :: "'db site \<Rightarrow> (int \<times> 'db site) option" and cc :: ailsa_cmdb_s
  assumes operation_keeps: "confined cc a st \<Longrightarrow> kept cc a (operation st)"
begin

lemma command_confined: "silent (operation st) = Some (r, text, st') \<Longrightarrow> confined cc st st'"
  using staysD [OF operation_keeps [OF confined_refl]] by (auto simp: silent_def)

lemma then_keeps:
  assumes "confined cc a st" "\<And>st. confined cc a st \<Longrightarrow> kept cc a (k st)"
  shows "kept cc a (chk0 (operation st) k)"
  using assms by (intro stays_chk0 [where P = "confined cc a"] operation_keeps)

end

interpretation fwd_commit: confined_operation "commit_fwd_zones api os (Some cc) name" cc for api os cc name
  by unfold_locales (rule commit_fwd_zones_kept)

interpretation rev_commit: confined_operation "commit_rev_zones api os (Some cc) name" cc for api os cc name
  by unfold_locales (rule commit_rev_zones_kept)

interpretation fwd_add: confined_operation "add_fwd_zone api os (Some cc) cm" cc for api os cc cm
  by unfold_locales (rule add_zone_kept)

interpretation rev_add: confined_operation "add_rev_zone api os (Some cc) cm" cc for api os cc cm
  by unfold_locales (rule add_zone_kept)

interpretation fwd_delete: confined_operation "delete_fwd_zone api os (Some cc) cm" cc for api os cc cm
  by unfold_locales (rule delete_fwd_zone_kept)

interpretation rev_delete: confined_operation "delete_reverse_zone api os (Some cc) cm" cc for api os cc cm
  by unfold_locales (rule delete_reverse_zone_kept)

interpretation rev_build: confined_operation "build_reverse_zone api os (Some cc) cm" cc for api os cc cm
  by unfold_locales (rule build_reverse_zone_kept)

lemmas command_confined = fwd_commit.command_confined rev_commit.command_confined fwd_add.command_confined
  rev_add.command_confined fwd_delete.command_confined rev_delete.command_confined rev_build.command_confined

lemma connection_confined:
  "connected st m = Some (r, text, st') \<Longrightarrow> confined cc st st'"
  "printed st p = Some (r, text, st') \<Longrightarrow> confined cc st st'"
  "not_implemented action st = Some (r, text, st') \<Longrightarrow> confined cc st st'"
  by (auto simp: connected_def printed_def not_implemented_def confined_def)

lemma dispatch_confined:
  assumes "dnsa_dispatch api os (Some cc) cm st = Some (r, text, st')"
  shows "confined cc st st'"
proof -
  have "dnsa_forward api os (Some cc) cm st = Some (r, text, st') \<Longrightarrow> ?thesis"
    by (auto simp: dnsa_forward_def Let_def split: if_splits elim: command_confined connection_confined)
  moreover have "dnsa_reverse api os (Some cc) cm st = Some (r, text, st') \<Longrightarrow> ?thesis"
    by (auto simp: dnsa_reverse_def Let_def confined_world confined_refl split: if_splits
        elim: command_confined connection_confined)
  moreover have "dnsa_glue api os (Some cc) cm st = Some (r, text, st') \<Longrightarrow> ?thesis"
    by (auto simp: dnsa_glue_def Let_def split: if_splits elim: connection_confined)
  ultimately show ?thesis using assms
    by (auto simp: dnsa_dispatch_def confined_refl split: if_splits elim: connection_confined)
qed

subsection \<open>Looking changes nothing\<close>

definition same_db :: "'db \<Rightarrow> ('db world \<times> 'a) option \<Rightarrow> bool" where
  "same_db v m \<longleftrightarrow> (\<forall>w a. m = Some (w, a) \<longrightarrow> w_db w = v)"

lemma same_db_Some: "w_db w = v \<Longrightarrow> same_db v (Some (w, a))"
  by (simp add: same_db_def)

lemma same_db_None: "same_db v None"
  by (simp add: same_db_def)

lemma same_db_bind:
  assumes "\<And>x. m = Some x \<Longrightarrow> same_db v (k x)" shows "same_db v (m \<bind> k)"
proof (cases m)
  case None
  then show ?thesis by (simp add: same_db_def)
next
  case (Some x)
  then show ?thesis using assms [OF Some] by simp
qed

lemma same_db_if: "(b \<Longrightarrow> same_db v x) \<Longrightarrow> (\<not> b \<Longrightarrow> same_db v y) \<Longrightarrow> same_db v (if b then x else y)"
  by simp

lemma same_db_shown:
  assumes q: "\<And>r w l. q = Some (r, w, l) \<Longrightarrow> w_db w = v"
    and k: "\<And>w rows. w_db w = v \<Longrightarrow> same_db v (rest w rows)"
  shows "same_db v (shown q rest)"
  unfolding shown_def split_def
proof (intro same_db_bind)
  fix x rows assume "q = Some x" "snd (snd x) = Some rows"
  then have "w_db (fst (snd x)) = v" using q by (cases x) auto
  then show "same_db v (if fst x \<noteq> 0 then Some (fst (snd x), []) else rest (fst (snd x)) rows)"
    using k by (intro same_db_if same_db_Some) simp_all
qed

lemma query_db:
  "ailsa_basic_query api w cc n l = Some (r, w', l') \<Longrightarrow> w_db w = v \<Longrightarrow> w_db w' = v"
  "ailsa_argument_query api w cc n a l = Some (r, w', l') \<Longrightarrow> w_db w = v \<Longrightarrow> w_db w' = v"
  by (drule reads_basic, simp add: reads_def) (drule reads_argument, simp add: reads_def)

lemma same_db_basic:
  assumes "w_db w = v" "\<And>w rows. w_db w = v \<Longrightarrow> same_db v (rest w rows)"
  shows "same_db v (shown (ailsa_basic_query api w cc n l) rest)"
  using assms by (intro same_db_shown) (erule query_db)

lemma same_db_argument:
  assumes "w_db w = v" "\<And>w rows. w_db w = v \<Longrightarrow> same_db v (rest w rows)"
  shows "same_db v (shown (ailsa_argument_query api w cc n a l) rest)"
  using assms by (intro same_db_shown) (erule query_db)

lemmas same_db_steps = same_db_Some same_db_None same_db_bind same_db_if same_db_basic same_db_argument refl

lemma list_zones_same_db: "same_db (w_db w) (list_zones api dc w)"
  unfolding list_zones_def by (intro same_db_steps)

lemma list_rev_zones_same_db: "same_db (w_db w) (list_rev_zones api dc w)"
  unfolding list_rev_zones_def by (intro same_db_steps)

lemma list_glue_zones_same_db: "same_db (w_db w) (list_glue_zones api dc w)"
  unfolding list_glue_zones_def by (intro same_db_steps)

lemma display_zone_same_db: "same_db (w_db w) (display_zone api os zone dc w)"
  unfolding display_zone_def
  by (cases zone; cases dc; simp only: opened_up) (intro same_db_steps; assumption)+

lemma display_rev_zone_same_db: "same_db (w_db w) (display_rev_zone api domain dc w)"
  unfolding display_rev_zone_def
  by (cases domain; simp only: opened_up) (intro same_db_steps; assumption)+

text \<open>The same for the results with a code and a text.\<close>

abbreviation (input) looks :: "'db \<Rightarrow> (int \<times> 'db world \<times> 'a) option \<Rightarrow> bool" where
  "looks v m \<equiv> stays (\<lambda>s. w_db (fst s) = v) m"

lemma looks_query:
  assumes "w_db w = v" "\<And>x. w_db (fst (snd x)) = v \<Longrightarrow> looks v (k x)"
  shows "looks v (ailsa_argument_query api w cc n a l \<bind> k)"
proof (rule stays_bind)
  fix x assume x: "ailsa_argument_query api w cc n a l = Some x"
  obtain r w' l' where "x = (r, w', l')" by (rule prod_cases3)
  then have "w_db (fst (snd x)) = v" using query_db(2) [OF _ assms(1)] x by simp
  then show "looks v (k x)" by (rule assms(2))
qed

lemma looks_call:
  assumes "looks v m" "\<And>x. w_db (fst (snd x)) = v \<Longrightarrow> looks v (k x)"
  shows "looks v (m \<bind> k)"
proof (rule stays_bind)
  fix x assume "m = Some x"
  then have "m = Some (fst x, snd x)" by simp
  from staysD [OF assms(1) this] show "looks v (k x)" by (rule assms(2))
qed

lemma looks_Some: "w_db w = v \<Longrightarrow> looks v (Some (r, w, t))"
  by (simp add: stays_def)

lemmas looks_steps = looks_Some looks_query stays_if stays_rows stays_option

lemma setup_net_range_looks: "looks (w_db w) (setup_net_range api dc domain w)"
  unfolding setup_net_range_def split_def Let_def
  by (intro looks_steps stays_bind refl)

lemma multi_a_rows_looks: "w_db w = v \<Longrightarrow> looks v (multi_a_rows api dc rows w)"
proof (induction rows arbitrary: w rule: induct_list012)
  case (3 a n rest)
  show ?case unfolding multi_a_rows.simps split_def Let_def
    by (intro looks_query stays_if looks_Some looks_call [where m = "multi_a_rows _ _ _ _"] stays_bind 3)
qed (simp_all add: stays_def)

lemma display_multi_looks: "looks (w_db w) (display_multi_a_records api dc cm w)"
  unfolding display_multi_a_records_def multi_a_range_def multi_a_ip_address_def
  by (cases cm; simp only: opened_up)
    (intro refl looks_Some looks_query looks_call [OF setup_net_range_looks]
      looks_call [where m = "multi_a_rows _ _ _ _"] multi_a_rows_looks stays_if stays_bind; assumption)+

end
