(* ===== verification/Sql_Up.thy ===== *)
theory Sql_Up
  imports Cmdb_Helper
begin

text \<open>
  A database that is up: the file opens, every statement can be prepared and takes values at its marks.  Each
  query by number then runs its statement once; the lemmas of this theory are the rules the operations of
  the commands are evaluated with.
\<close>

definition database_up :: "'db sqlite3_api \<Rightarrow> ailsa_cmdb_s \<Rightarrow> bool" where
  "database_up api cc \<longleftrightarrow> cc_dbtype cc = Some ''sqlite'' \<and> binds_by_marks api \<and>
     (\<forall>db rw. s3_open api db (cc_file cc) rw = 0) \<and> (\<forall>db stmt. s3_prepare api db stmt = 0)"

lemma up_ready: "database_up api cc \<Longrightarrow> sqlite_ready api w cc rw stmt"
  by (simp add: database_up_def sqlite_ready_def)

lemma up_reader: "database_up api cc \<Longrightarrow> reader_ready api w cc"
  by (auto simp: reader_ready_def list_all_iff up_ready) (simp add: database_up_def)

text \<open>The rows of a statement, and what a statement that writes does.\<close>

definition rows_of :: "'db sqlite3_api \<Rightarrow> 'db world \<Rightarrow> string \<Rightarrow> sql_value list \<Rightarrow> ailsa_data list" where
  "rows_of api w stmt vs = map store_column (concat (fst (s3_rows api (w_db w) stmt vs)))"

definition executed :: "'db sqlite3_api \<Rightarrow> 'db world \<Rightarrow> string \<Rightarrow> sql_value list \<Rightarrow> int \<times> 'db world" where
  "executed api w stmt vs = (let (code, db) = s3_write api (w_db w) stmt vs
     in (if code = SQLITE_DONE then 0 else AILSA_STATEMENT_FAIL, w\<lparr>w_db := db\<rparr>))"

text \<open>Reading never fails half way.\<close>

definition reads_up :: "'db sqlite3_api \<Rightarrow> bool" where
  "reads_up api \<longleftrightarrow> (\<forall>db stmt vs. snd (s3_rows api db stmt vs) = SQLITE_DONE)"

lemma up_basic:
  assumes "database_up api cc" "reads_up api" "n < length basic_queries"
  shows "ailsa_basic_query api w (Some cc) n (Some l) =
    Some (0, w, Some (l @ rows_of api w (basic_queries ! n) []))"
proof -
  have "length (basic_queries ! n) \<le> BUFFER_LEN"
    using list_all_nth [OF basic_queries_short assms(3)] by simp
  then show ?thesis
    using assms setup_ro_ready [OF up_ready [OF assms(1)]]
    by (simp add: ailsa_basic_query_def on_dbtype_sqlite database_up_def ailsa_basic_query_sqlite_def
        step_rows_Some rows_of_def reads_up_def done_code_def split_def Let_def)
qed

lemma up_argument:
  assumes "database_up api cc" "reads_up api" "n < length argument_queries"
    and "args_values (q_fields (argument_queries ! n)) args = Some vs"
  shows "ailsa_argument_query api w (Some cc) n (Some args) (Some l) =
    Some (0, w, Some (l @ rows_of api w (q_query (argument_queries ! n)) vs))"
  using argument_query_runs [OF up_reader [OF assms(1)] assms(3,4)] assms(2)
  by (simp add: lookup_spec_def rows_of_def reads_up_def done_code_def split_def Let_def)

lemma up_insert:
  assumes "database_up api cc" "n < length insert_queries"
    and "args_values (q_fields (insert_queries ! n)) args = Some vs"
  shows "ailsa_insert_query api w (Some cc) n (Some args) = Some (executed api w (q_query (insert_queries ! n)) vs)"
  using insert_query_runs [OF assms(2) up_ready [OF assms(1)] _ assms(3)] assms(1)
  by (simp add: executed_def database_up_def split_def Let_def)

lemma up_update:
  assumes "database_up api cc" "n < length update_queries"
    and "args_values (q_fields (update_queries ! n)) args = Some vs"
  shows "ailsa_update_query api w (Some cc) (update_queries ! n) (Some args) =
    Some (executed api w (q_query (update_queries ! n)) vs)"
  using update_query_runs [OF assms(2) up_ready [OF assms(1)] _ assms(3)] assms(1)
  by (simp add: executed_def database_up_def split_def Let_def)

lemma up_delete_query:
  assumes "database_up api cc" "query_ok q" "args_values (q_fields q) args = Some vs"
  shows "ailsa_delete_query api w (Some cc) q (Some args) = Some (executed api w (q_query q) vs)"
proof -
  have db: "cc_dbtype cc = Some ''sqlite''" using assms(1) by (simp add: database_up_def)
  have "map (field_at (q_fields q)) [0..<q_number q] = q_fields q"
    using assms(2) by (simp add: query_ok_def field_at_all)
  then show ?thesis
    using write_sqlite_runs [OF up_ready [OF assms(1)], where t = "q_number q" and f = "q_fields q"] assms
    by (simp add: ailsa_delete_query_def on_dbtype_sqlite [OF db] ailsa_delete_query_sqlite_def query_ok_def
        executed_def database_up_def split_def Let_def)
qed

lemma up_delete:
  assumes "database_up api cc" "n < length delete_queries"
    and "args_values (q_fields (delete_queries ! n)) args = Some vs"
  shows "ailsa_delete_query api w (Some cc) (delete_queries ! n) (Some args) =
    Some (executed api w (q_query (delete_queries ! n)) vs)"
  by (rule up_delete_query [OF assms(1) list_all_nth [OF delete_queries_ok assms(2)] assms(3)])

text \<open>Several rows in one statement, and several keys.\<close>

definition multi_insert :: "ailsa_sql_query \<Rightarrow> nat \<Rightarrow> string" where
  "multi_insert q k = q_query q @ concat (replicate (k - 1) (value_text (q_number q)))"

definition multi_delete :: "ailsa_sql_query \<Rightarrow> nat \<Rightarrow> string" where
  "multi_delete q k = take (length (q_query q) - 3) (q_query q) @ ''IN ('' @ concat (replicate (k - 1) ''?, '') @ ''?)''"

lemma up_multiple_insert:
  assumes "database_up api cc" "n < length insert_queries" "0 < k" "k * q_number (insert_queries ! n) < 2 ^ 32"
    and "length args = k * q_number (insert_queries ! n)"
    and "args_values (concat (replicate k (q_fields (insert_queries ! n)))) args = Some vs"
  shows "ailsa_multiple_query api w (Some cc) (insert_queries ! n) (Some args) =
    Some (executed api w (multi_insert (insert_queries ! n) k) vs)"
proof -
  have b: "binds_by_marks api" using assms(1) by (simp add: database_up_def)
  from multiple_insert_runs [OF assms(2) refl assms(3-6) refl up_ready [OF assms(1)] b]
  show ?thesis by (simp add: executed_def multi_insert_def split_def Let_def)
qed

lemma up_multiple_delete:
  assumes "database_up api cc" "n < length delete_queries" "q_fields (delete_queries ! n) = [f]" "args \<noteq> []"
    and "args_values (replicate (length args) f) args = Some vs"
  shows "ailsa_multiple_delete api w (Some cc) (delete_queries ! n) (Some args) =
    Some (executed api w (multi_delete (delete_queries ! n) (length args)) vs)"
proof -
  have b: "binds_by_marks api" using assms(1) by (simp add: database_up_def)
  have one: "q_number (delete_queries ! n) = 1"
    using list_all_nth [OF delete_queries_ok assms(2)] by (simp add: query_ok_def assms(3))
  have "args_values (replicate (length args) (field_at (q_fields (delete_queries ! n)) 0)) args = Some vs"
    using assms(5) by (simp add: assms(3) field_at_def)
  from multiple_delete_runs [OF nth_mem [OF assms(2)] one assms(4) this refl up_ready [OF assms(1)] b]
  show ?thesis by (simp add: executed_def multi_delete_def split_def Let_def)
qed

lemma demo_up: "database_up demo_api (demo_cc ''sqlite'')"
  using demo_binds by (simp add: database_up_def demo_api_def demo_cc_def)

end
