(* ===== verification/Dnsa_Specs.thy ===== *)
theory Dnsa_Specs
  imports Dnsa_Frame Sql_Up
begin

text \<open>
  What the DNS command promises as a whole, from its options to the database, the files and the commands.
\<close>

subsection \<open>From the options to the operation\<close>

lemma dnsa_main_parsed:
  "parse_dnsa_command_line options comm_line_zero = Some (0, cm) \<Longrightarrow>
     dnsa_main version prog api os dc options st = dnsa_dispatch api os dc cm st"
  "parse_dnsa_command_line options comm_line_zero = Some (r, cm) \<Longrightarrow> r \<noteq> 0 \<Longrightarrow>
     dnsa_main version prog api os dc options st =
       Some (snd (snd (display_command_line_error version r prog)), fst (display_command_line_error version r prog), st)"
  by (simp_all add: dnsa_main_def split_def)

lemma rev_overlap_found:
  assumes "reader_ready api w cc" "answers_overlap api (w_db w) REV_ZONE_OVERLAP rows"
    and "list_all (\<lambda>row. sint (fst (snd row)) \<le> sint (snd (snd row))) rows"
    and "0 < start" "start \<le> fin" "unat fin < 2 ^ 63" "list_ex (intersects start fin) rows"
  shows "check_for_rev_zone_overlap api w (Some cc) start fin = Some (AILSA_REV_ZONE_OVERLAP, w)"
proof -
  let ?ps = "[start, fin, start, start, fin, fin]"
  have le: "unat start \<le> unat fin" using assms(5) by (simp add: word_le_nat_alt)
  then have sl: "sint start \<le> sint fin" using assms(5,6) by (simp add: sint_small word_le_def)
  have "\<exists>row\<in>set rows. overlap_where ?ps row"
    using assms(3,7) overlap_where_intersects [OF _ sl] by (auto simp: list_all_iff list_ex_iff)
  moreover have "start \<noteq> 0" "fin \<noteq> 0" "\<not> fin < start" using assms(4,5) by auto
  ultimately show ?thesis
    using overlap_query_finds [OF assms(1,2) disjI1 [OF refl], of ?ps AILSA_REV_ZONE_OVERLAP]
    by (simp add: check_for_rev_zone_overlap_def add_args_def numeral_eq_Suc)
qed

lemma word_addr_small: "unat (start :: u64) + 2 ^ (32 - p) < 2 ^ 32 \<Longrightarrow> 1 \<le> p \<Longrightarrow> p \<le> 24 \<Longrightarrow>
    unat (start + 2 ^ (32 - p) - 1) < 2 ^ 63 \<and> start \<le> start + 2 ^ (32 - p) - 1"
proof -
  assume a: "unat start + 2 ^ (32 - p) < 2 ^ 32" "1 \<le> p" "p \<le> 24"
  have u: "unat (start + 2 ^ (32 - p) - 1) = unat start + 2 ^ (32 - p) - 1"
    by (rule unat_range_end [OF a(1)]) simp
  have "(1 :: nat) \<le> 2 ^ (32 - p)" "(2 :: nat) ^ 32 \<le> 2 ^ 63" by simp_all
  then show ?thesis using a(1) unfolding u word_le_nat_alt by (intro conjI) linarith+
qed

subsection \<open>An instance, for the witnesses\<close>

definition demo_site :: "nat site" where
  "demo_site = \<lparr>si_world = demo_world, si_files = (\<lambda>_. None), si_commands = []\<rparr>"

definition demo_services :: services where
  "demo_services = \<lparr>os_open = (\<lambda>_. 3), os_system = (\<lambda>_ _. 0), os_getservbyname = (\<lambda>_ _. None),
     os_getaddrinfo = (\<lambda>_. None), os_now = None, os_uid = 1000\<rparr>"

definition dns_cc :: ailsa_cmdb_s where
  "dns_cc = (demo_cc ''sqlite'')\<lparr>cc_dir := Some ''/var/named/'', cc_bind := Some ''/etc/bind/'',
     cc_dnsa := Some ''dnsa.conf'', cc_rev := Some ''rev.conf'', cc_rndc := Some ''rndc'',
     cc_chkz := Some ''named-checkzone'', cc_hostmaster := Some ''hostmaster.example.org.'',
     cc_prins := Some ''ns1''\<rparr>"

definition rows_api :: "sql_value list list \<Rightarrow> nat sqlite3_api" where
  "rows_api rows = demo_api\<lparr>s3_rows := (\<lambda>_ _ _. (rows, SQLITE_DONE))\<rparr>"

lemma rows_api_up: "database_up (rows_api rows) dns_cc" "reads_up (rows_api rows)"
  using demo_binds by (simp_all add: database_up_def reads_up_def rows_api_def demo_api_def dns_cc_def demo_cc_def
      binds_by_marks_def)

lemma rows_of_rows_api [simp]: "rows_of (rows_api rows) w q vs = map store_column (concat rows)"
  by (simp add: rows_of_def rows_api_def)

lemma executed_rows_api [simp]: "executed (rows_api rows) w q vs = (0, w\<lparr>w_db := w_db w + length vs\<rparr>)"
  by (simp add: executed_def rows_api_def demo_api_def)

lemma dns_cc_simps [simp]:
  "cc_dir dns_cc = Some ''/var/named/''" "cc_bind dns_cc = Some ''/etc/bind/''" "cc_dnsa dns_cc = Some ''dnsa.conf''"
  "cc_rev dns_cc = Some ''rev.conf''" "cc_rndc dns_cc = Some ''rndc''" "cc_chkz dns_cc = Some ''named-checkzone''"
  "cc_hostmaster dns_cc = Some ''hostmaster.example.org.''" "cc_prins dns_cc = Some ''ns1''"
  by (simp_all add: dns_cc_def)

lemma verdict_fields:
  "q_fields (update_queries ! FWD_ZONE_VALIDATE) = [AILSA_DB_TEXT, AILSA_DB_TEXT]"
  "q_fields (update_queries ! REV_ZONE_VALIDATE) = [AILSA_DB_TEXT, AILSA_DB_TEXT]"
  by (simp_all add: statement_fields update_fields table_lengths del: nth_map)

lemma record_verdict_runs:
  assumes "database_up api cc" "query = FWD_ZONE_VALIDATE \<or> query = REV_ZONE_VALIDATE"
  shows "record_verdict api (Some cc) query verdict (Some zone) st =
    (case executed api (si_world st) (q_query (update_queries ! query)) [text_value verdict, text_value zone] of
       (r, w) \<Rightarrow> Some (r, st\<lparr>si_world := w\<rparr>))"
proof -
  have "query < length update_queries" "args_values (q_fields (update_queries ! query))
      [D_TEXT (strndup verdict CONFIG_LEN), D_TEXT (strndup zone CONFIG_LEN)] =
      Some [text_value verdict, text_value zone]"
    using assms(2) by (auto simp: verdict_fields text_value_def table_lengths)
  from up_update [OF assms(1) this] show ?thesis
    by (simp add: record_verdict_def on_list_def on_world_def split_def)
qed

lemma zone_statements_differ:
  "q_query (argument_queries ! ZONE_SOA_ON_NAME) \<noteq> q_query (argument_queries ! NAME_SERVERS_ON_NAME)"
  "q_query (argument_queries ! ZONE_RECORDS_ON_NAME) \<noteq> q_query (argument_queries ! NAME_SERVERS_ON_NAME)"
  "q_query (argument_queries ! ZONE_RECORDS_ON_NAME) \<noteq> q_query (argument_queries ! ZONE_SOA_ON_NAME)"
  "q_query (argument_queries ! NS_MX_SRV_RECORDS) \<notin> {q_query (argument_queries ! NAME_SERVERS_ON_NAME),
     q_query (argument_queries ! ZONE_SOA_ON_NAME), q_query (argument_queries ! ZONE_RECORDS_ON_NAME)}"
  "q_query (argument_queries ! GLUE_ZONE_ON_ZONE_NAME) \<notin> {q_query (argument_queries ! NAME_SERVERS_ON_NAME),
     q_query (argument_queries ! ZONE_SOA_ON_NAME), q_query (argument_queries ! ZONE_RECORDS_ON_NAME)}"
  by code_simp+

lemma zone_query_fields:
  "q_fields (argument_queries ! NAME_SERVERS_ON_NAME) = [AILSA_DB_TEXT]"
  "q_fields (argument_queries ! ZONE_SOA_ON_NAME) = [AILSA_DB_TEXT]"
  "q_fields (argument_queries ! ZONE_RECORDS_ON_NAME) = [AILSA_DB_TEXT]"
  "q_fields (argument_queries ! NS_MX_SRV_RECORDS) = [AILSA_DB_TEXT]"
  "q_fields (argument_queries ! GLUE_ZONE_ON_ZONE_NAME) = [AILSA_DB_TEXT]"
  by (simp_all add: statement_fields argument_fields table_lengths del: nth_map)
definition zone_api :: "nat sqlite3_api" where
  "zone_api = demo_api\<lparr>s3_rows := (\<lambda>_ stmt _.
     (if stmt = q_query (argument_queries ! NAME_SERVERS_ON_NAME) then [[SQL_TEXT ''ns1'', SQL_TEXT ''none'']]
      else if stmt = q_query (argument_queries ! ZONE_SOA_ON_NAME)
      then [[SQL_INT 3600, SQL_INT 2023022801, SQL_INT 28800, SQL_INT 7200, SQL_INT 1209600, SQL_TEXT ''no'']]
      else if stmt = q_query (argument_queries ! ZONE_RECORDS_ON_NAME) then [[SQL_TEXT ''A'', SQL_TEXT ''www'', SQL_TEXT ''10.1.0.1'']]
      else [], SQLITE_DONE))\<rparr>"

lemma zone_api_up: "database_up zone_api dns_cc" "reads_up zone_api"
  using demo_binds by (simp_all add: database_up_def reads_up_def zone_api_def demo_api_def dns_cc_def demo_cc_def
      binds_by_marks_def)

lemma zone_api_rows:
  "rows_of zone_api w (q_query (argument_queries ! NAME_SERVERS_ON_NAME)) vs = [D_TEXT ''ns1'', D_TEXT ''none'']"
  "rows_of zone_api w (q_query (argument_queries ! ZONE_SOA_ON_NAME)) vs =
     [D_LINT 3600, D_LINT 2023022801, D_LINT 28800, D_LINT 7200, D_LINT 1209600, D_TEXT ''no'']"
  "rows_of zone_api w (q_query (argument_queries ! ZONE_RECORDS_ON_NAME)) vs = [D_TEXT ''A'', D_TEXT ''www'', D_TEXT ''10.1.0.1'']"
  "rows_of zone_api w (q_query (argument_queries ! NS_MX_SRV_RECORDS)) vs = []"
  "rows_of zone_api w (q_query (argument_queries ! GLUE_ZONE_ON_ZONE_NAME)) vs = []"
  using zone_statements_differ by (simp_all add: rows_of_def zone_api_def del: nth_map)

lemma executed_zone_api [simp]: "executed zone_api w q vs = (0, w\<lparr>w_db := w_db w + length vs\<rparr>)"
  by (simp add: executed_def zone_api_def demo_api_def)

subsection \<open>Properties\<close>

text \<open>C7: Adding a reverse zone from the command line, of prefix 9 to 24, whose range shares an address
  with a reverse zone of the database is refused: the command ends with the code for an overlap and has
  printed nothing, and the database, the connections, the files and the commands run are as before.\<close>

theorem overlapping_zone_is_refused:
  assumes "pton4 ip = Some addr" "0 < addr" "strtoul10 p = of_nat prefix" "8 < prefix" "prefix \<le> 24"
    and "unat addr + 2 ^ (32 - prefix) < 2 ^ 32"
    and "reader_ready api (si_world st) cc"
    and "answers_overlap api (w_db (si_world st)) REV_ZONE_OVERLAP rows"
    and "list_all (\<lambda>row. sint (fst (snd row)) \<le> sint (snd (snd row))) rows"
    and "list_ex (intersects (ucast addr) (ucast addr + 2 ^ (32 - prefix) - 1)) rows"
  shows "dnsa_main version prog api os (Some cc) [(CHR ''z'', []), (CHR ''R'', []), (CHR ''n'', ip), (CHR ''p'', p)] st =
    Some (AILSA_REV_ZONE_OVERLAP, [], st)"
proof -
  let ?start = "ucast addr :: u64" and ?cl = "reverse_zone_line ip (strtoul10 p)"
  have "parse_dnsa_command_line [(CHR ''z'', []), (CHR ''R'', []), (CHR ''n'', ip), (CHR ''p'', p)]
      comm_line_zero = Some (0, ?cl)"
    by (rule reverse_zone_parsed) (use assms(1,3,4,5) in \<open>auto simp: word_of_nat_eq_0_iff dest: dvd_imp_le\<close>)
  then have main: "dnsa_main version prog api os (Some cc) [(CHR ''z'', []), (CHR ''R'', []), (CHR ''n'', ip), (CHR ''p'', p)] st =
      silent (add_reverse_zone api os (Some cc) (Some ip) None None prefix st)"
    using assms(3,5) by (simp add: dnsa_main_parsed dnsa_dispatch_def dnsa_reverse_def add_rev_zone_def
        reverse_zone_line_def comm_line_zero_def unat_of_nat)
  have s: "convert_text_ipv4_to_bin (Some ip) = (0, Some ?start)"
    using assms(1) by (simp add: convert_text_ipv4_to_bin_def)
  have u: "unat ?start + 2 ^ (32 - prefix) < 2 ^ 32" using assms(6) by simp
  have r: "get_start_finsh_ips (Some ip) prefix = (0, Some ?start, Some (?start + 2 ^ (32 - prefix) - 1))"
    by (rule start_finish [OF s assms(4,5) u])
  have "0 < ?start" using assms(2) by (simp add: word_less_nat_alt)
  then have "check_for_rev_zone_overlap api (si_world st) (Some cc) ?start (?start + 2 ^ (32 - prefix) - 1) =
      Some (AILSA_REV_ZONE_OVERLAP, si_world st)"
    using rev_overlap_found [OF assms(7-9) _ _ _ assms(10)] word_addr_small [OF u] assms(4,5) by simp
  then show ?thesis
    unfolding main using assms(4) by (simp add: add_reverse_zone_def r on_world_def silent_def)
qed

theorem overlapping_zone_is_refused_witness:
  "dnsa_main ''1.0'' ''dnsa'' (range_api [(7, 167837696, 167838207)]) demo_services (Some (demo_cc ''sqlite''))
     [(CHR ''z'', []), (CHR ''R'', []), (CHR ''n'', ''10.1.0.0''), (CHR ''p'', ''16'')] demo_site =
   Some (AILSA_REV_ZONE_OVERLAP, [], demo_site)"
  by (rule overlapping_zone_is_refused [OF demo_ip _ _ _ _ _ _ range_api_answers, where prefix = 16])
    (simp_all add: of_octets_def demo_number demo_site_def range_api_ready intersects_def word_less_nat_alt)

text \<open>C9: Whatever its options, the DNS command changes no file but the zone files of its zone
  directory and the two configuration files, and runs no command but the zone check of a zone
  file and the reload of the name server.\<close>

theorem dnsa_keeps_to_its_files:
  assumes "dnsa_main version prog api os (Some cc) options st = Some (retval, text, st')"
  shows "(\<forall>f. si_files st' f \<noteq> si_files st f \<longrightarrow> own_file cc f) \<and>
    (\<exists>cs. si_commands st' = si_commands st @ cs \<and> (\<forall>c\<in>set cs. own_command cc c))"
proof -
  obtain r cm where p: "parse_dnsa_command_line options comm_line_zero = Some (r, cm)"
    using assms by (auto simp: dnsa_main_def bind_eq_Some_conv)
  then have "confined cc st st'"
    using assms dispatch_confined [of api os cc cm st retval "text" st']
    by (cases "r = 0") (auto simp: dnsa_main_parsed confined_refl)
  then show ?thesis by (simp add: confined_def)
qed

lemma commit_parsed:
  "parse_dnsa_command_line [(CHR ''w'', []), (CHR ''F'', [])] comm_line_zero =
     Some (0, comm_line_zero\<lparr>dcl_action := DNSA_COMMIT, dcl_type := FORWARD_ZONE\<rparr>)"
  by (simp add: parse_dnsa_command_line_def dnsa_option_def comm_line_zero_def dnsa_record_defaults_def
      dnsa_finish_def dnsa_check_action_def validate_comm_line_def)

lemma commit_slave:
  "dnsa_main ''1.0'' ''dnsa'' (rows_api [[SQL_TEXT ''example.org'', SQL_TEXT ''slave'']]) demo_services (Some dns_cc)
     [(CHR ''w'', []), (CHR ''F'', [])] demo_site =
   Some (0, [], demo_site\<lparr>si_world := demo_world\<lparr>w_db := 2\<rparr>, si_files := [''/etc/bind/dnsa.conf'' \<mapsto> []],
     si_commands := [''rndc reload'']\<rparr>)"
proof -
  let ?api = "rows_api [[SQL_TEXT ''example.org'', SQL_TEXT ''slave'']]"
  note up = up_basic [OF rows_api_up] record_verdict_runs [OF rows_api_up(1) disjI1 [OF refl]]
  have "commit_fwd_zones ?api demo_services (Some dns_cc) None demo_site = Some (0, demo_site\<lparr>si_world :=
      demo_world\<lparr>w_db := 2\<rparr>, si_files := [''/etc/bind/dnsa.conf'' \<mapsto> []], si_commands := [''rndc reload'']\<rparr>)"
    by (simp add: commit_fwd_zones_def on_query_def up table_lengths cmdb_validate_zone_def cmdb_validate_fwd_zone_def
        is_slave_def cmdb_write_fwd_zone_config_def reload_def put_file_def run_system_def
        demo_services_def demo_site_def demo_world_def snprintf_s_def strncmp_eq_def)
  then show ?thesis
    by (simp add: dnsa_main_parsed [OF commit_parsed] dnsa_dispatch_def dnsa_forward_def Let_def silent_def comm_line_zero_def)
qed

theorem dnsa_keeps_to_its_files_witness:
  "own_file dns_cc ''/etc/bind/dnsa.conf'' \<and> own_command dns_cc ''rndc reload''"
  using dnsa_keeps_to_its_files [OF commit_slave] by (simp add: demo_site_def)

definition untouched :: "'db site \<Rightarrow> 'db site \<Rightarrow> bool" where
  "untouched st st' \<longleftrightarrow> w_db (si_world st') = w_db (si_world st) \<and> si_files st' = si_files st \<and>
     si_commands st' = si_commands st"

lemma printed_untouched:
  "same_db (w_db (si_world st)) m \<Longrightarrow> printed st m = Some (r, t, st') \<Longrightarrow> untouched st st'"
  by (auto simp: printed_def same_db_def untouched_def)

lemma not_implemented_untouched: "not_implemented action st = Some (r, t, st') \<Longrightarrow> untouched st st'"
  by (simp add: not_implemented_def untouched_def)

lemmas looking_rules = list_zones_same_db list_rev_zones_same_db list_glue_zones_same_db display_zone_same_db
  display_rev_zone_same_db

lemma forward_looking:
  assumes "dnsa_forward api os dc cm st = Some (r, t, st')" "dcl_action cm \<in> {DNSA_LIST, DNSA_DISPLAY, DNSA_DISPLAY_MULTI}"
  shows "untouched st st'"
  using assms looking_rules [THEN printed_untouched] not_implemented_untouched
  unfolding dnsa_forward_def Let_def by (auto split: if_splits)

lemma reverse_looking:
  assumes "dnsa_reverse api os dc cm st = Some (r, t, st')" "dcl_action cm \<in> {DNSA_LIST, DNSA_DISPLAY, DNSA_DISPLAY_MULTI}"
  shows "untouched st st'"
proof -
  have "untouched st (st\<lparr>si_world := w'\<rparr>)"
    if "display_multi_a_records api dc (Some cm) (si_world st) = Some (x, w', y)" for x w' y
    using staysD [OF display_multi_looks that] by (simp add: untouched_def)
  then show ?thesis
    using assms looking_rules [THEN printed_untouched] not_implemented_untouched
    unfolding dnsa_reverse_def Let_def by (auto split: if_splits)
qed

lemma glue_looking:
  assumes "dnsa_glue api os dc cm st = Some (r, t, st')" "dcl_action cm \<in> {DNSA_LIST, DNSA_DISPLAY, DNSA_DISPLAY_MULTI}"
  shows "untouched st st'"
  using assms looking_rules [THEN printed_untouched] not_implemented_untouched
  unfolding dnsa_glue_def Let_def by (auto split: if_splits)

text \<open>Listing and displaying, of whatever zones, changes neither the database nor a file and runs
  no command.\<close>

theorem looking_changes_nothing:
  assumes "parse_dnsa_command_line options comm_line_zero = Some (0, cm)"
    and "dcl_action cm \<in> {DNSA_LIST, DNSA_DISPLAY, DNSA_DISPLAY_MULTI}"
    and "dnsa_main version prog api os dc options st = Some (retval, text, st')"
  shows "w_db (si_world st') = w_db (si_world st) \<and> si_files st' = si_files st \<and> si_commands st' = si_commands st"
proof -
  have d: "dnsa_dispatch api os dc cm st = Some (retval, text, st')" using assms(1,3) by (simp add: dnsa_main_parsed)
  have "untouched st st'"
  proof (cases "dcl_type cm = FORWARD_ZONE \<or> dcl_type cm = REVERSE_ZONE \<or> dcl_type cm = GLUE_ZONE")
    case True
    then show ?thesis using d forward_looking [OF _ assms(2)] reverse_looking [OF _ assms(2)] glue_looking [OF _ assms(2)]
      by (auto simp: dnsa_dispatch_def)
  next
    case False
    then show ?thesis using d
      by (auto simp: dnsa_dispatch_def untouched_def not_implemented_def split: if_splits)
  qed
  then show ?thesis by (simp add: untouched_def)
qed

lemma list_parsed:
  "parse_dnsa_command_line [(CHR ''l'', []), (CHR ''G'', [])] comm_line_zero =
     Some (0, comm_line_zero\<lparr>dcl_action := DNSA_LIST, dcl_type := GLUE_ZONE\<rparr>)"
  by (simp add: parse_dnsa_command_line_def dnsa_option_def comm_line_zero_def dnsa_record_defaults_def
      dnsa_finish_def dnsa_check_action_def validate_comm_line_def)

lemma list_run:
  "dnsa_main ''1.0'' ''dnsa'' (rows_api []) demo_services (Some dns_cc) [(CHR ''l'', []), (CHR ''G'', [])] demo_site =
     Some (0, ''There are no glue zones to list'' @ nl, demo_site)"
  by (simp add: dnsa_main_parsed [OF list_parsed] dnsa_dispatch_def dnsa_glue_def Let_def printed_def comm_line_zero_def
      list_glue_zones_def shown_def up_basic [OF rows_api_up] table_lengths)

theorem looking_changes_nothing_witness:
  "\<exists>text st'. dnsa_main ''1.0'' ''dnsa'' (rows_api []) demo_services (Some dns_cc) [(CHR ''l'', []), (CHR ''G'', [])] demo_site =
     Some (0, text, st') \<and> text \<noteq> [] \<and> w_db (si_world st') = w_db (si_world demo_site)"
  using looking_changes_nothing [OF list_parsed _ list_run] list_run by (auto simp: comm_line_zero_def)

subsection \<open>Validating a zone\<close>

text \<open>What holds when a function returns 0.\<close>

definition succeeds :: "('s \<Rightarrow> bool) \<Rightarrow> (int \<times> 's) option \<Rightarrow> bool" where
  "succeeds P m \<longleftrightarrow> (\<forall>s. m = Some (0, s) \<longrightarrow> P s)"

lemma succeeds_Some: "(r = 0 \<Longrightarrow> P s) \<Longrightarrow> succeeds P (Some (r, s))"
  by (simp add: succeeds_def)

lemma succeeds_bind: "(\<And>x. m = Some x \<Longrightarrow> succeeds P (k x)) \<Longrightarrow> succeeds P (m \<bind> k)"
  by (cases m) (simp_all add: succeeds_def)

lemma succeeds_if: "(b \<Longrightarrow> succeeds P x) \<Longrightarrow> (\<not> b \<Longrightarrow> succeeds P y) \<Longrightarrow> succeeds P (if b then x else y)"
  by simp

lemma succeeds_list: "(\<And>l. succeeds P (k l)) \<Longrightarrow> succeeds P (on_list st call k)"
  by (simp add: on_list_def succeeds_def)

lemma succeeds_query:
  assumes "\<And>w rows. succeeds P (k (st\<lparr>si_world := w\<rparr>) rows)" shows "succeeds P (on_query st q k)"
proof -
  have "P s" if "k (st\<lparr>si_world := w\<rparr>) rows = Some (0, s)" for w rows s
    using assms that by (auto simp: succeeds_def)
  then show ?thesis
    by (auto simp: on_query_def succeeds_def Let_def bind_eq_Some_conv split: if_splits)
qed

lemmas succeeds_steps = succeeds_Some succeeds_bind succeeds_if succeeds_list succeeds_query

text \<open>A zone file that was written is the only file that changed.\<close>

lemma zone_file_written:
  assumes "cc_dir cc = Some dir"
  shows "succeeds (\<lambda>st'. \<exists>text. si_files st' = (si_files st)(snprintf_s DOMAIN_LEN (dir @ zone) \<mapsto> text) \<and>
    si_commands st' = si_commands st) (write_fwd_zone_file api os (Some cc) (Some zone) st)"
proof -
  have put: "(r = 0 \<Longrightarrow> \<exists>text. si_files (put_file (snprintf_s DOMAIN_LEN (d @ zone)) t s) =
      (si_files st)(snprintf_s DOMAIN_LEN (dir @ zone) \<mapsto> text) \<and>
      si_commands (put_file (snprintf_s DOMAIN_LEN (d @ zone)) t s) = si_commands st)"
    if "cc_dir cc = Some d" "si_files s = si_files st" "si_commands s = si_commands st" for r :: int and d t and s :: "'a site"
    using that assms by (auto simp: put_file_def)
  show ?thesis
    unfolding write_fwd_zone_file_def
    by (simp only: opened_up) (intro succeeds_steps put; simp)
qed

text \<open>Validating a master zone writes the one zone file, runs the zone check on that file, and
  records for the zone the verdict \<open>yes\<close> exactly when the check returned 0.\<close>

theorem verdict_is_the_checkers:
  assumes "database_up api cc" "cc_dir cc = Some dir" "cc_chkz cc = Some chkz" "\<not> is_slave ztype"
    and "write_fwd_zone_file api os (Some cc) (Some zone) st = Some (0, st1)"
    and "check = snprintf_s CONFIG_LEN (chkz @ '' '' @ zone @ '' '' @ dir @ zone)"
  shows "\<exists>text. si_files st1 = (si_files st)(snprintf_s DOMAIN_LEN (dir @ zone) \<mapsto> text) \<and>
    cmdb_validate_fwd_zone api os (Some cc) (Some zone) ztype st =
      (case executed api (si_world st1) (q_query (update_queries ! FWD_ZONE_VALIDATE))
         [text_value (if os_system os (si_files st1) check = 0 then ''yes'' else ''no''), text_value zone] of
       (r, w) \<Rightarrow> Some (r, st1\<lparr>si_world := w, si_commands := si_commands st @ [check]\<rparr>))"
proof -
  obtain t where t: "si_files st1 = (si_files st)(snprintf_s DOMAIN_LEN (dir @ zone) \<mapsto> t)"
      "si_commands st1 = si_commands st"
    using zone_file_written [OF assms(2), of st zone api os] assms(5) unfolding succeeds_def by blast
  have "cmdb_check_zone os (Some cc) (Some zone) st1 =
      Some (if os_system os (si_files st1) check = 0 then 0 else AILSA_CHKZONE_FAIL, st1\<lparr>si_commands := si_commands st @ [check]\<rparr>)"
    using assms(2,3,6) t(2) by (simp add: cmdb_check_zone_def run_system_def)
  then have "cmdb_validate_fwd_zone api os (Some cc) (Some zone) ztype st =
      record_verdict api (Some cc) FWD_ZONE_VALIDATE (if os_system os (si_files st1) check = 0 then ''yes'' else ''no'')
        (Some zone) (st1\<lparr>si_commands := si_commands st @ [check]\<rparr>)"
    using assms(4,5) by (simp add: cmdb_validate_fwd_zone_def)
  then show ?thesis using t record_verdict_runs [OF assms(1) disjI1 [OF refl]] by (intro exI [of _ t]) (simp add: split_def)
qed

lemma demo_zone_file:
  "\<exists>text. write_fwd_zone_file zone_api demo_services (Some dns_cc) (Some ''example.org'') demo_site =
     Some (0, put_file ''/var/named/example.org'' text demo_site)"
  by (simp add: write_fwd_zone_file_def on_list_def on_query_def up_argument [OF zone_api_up] table_lengths
      zone_query_fields zone_api_rows ailsa_check_for_zone_update_def zone_update_def
      demo_services_def snprintf_s_def write_zone_file_header_def write_fwd_header_records_def
      write_fwd_records_def write_glue_records_def element_text_def no_dot_at_end_def char_at_def strncmp_eq_def
      del: nth_map) (rule exI, rule refl)

theorem verdict_is_the_checkers_witness:
  "\<exists>text. cmdb_validate_fwd_zone zone_api demo_services (Some dns_cc) (Some ''example.org'') (Some ''master'') demo_site =
     Some (0, demo_site\<lparr>si_world := demo_world\<lparr>w_db := 2\<rparr>, si_files := [''/var/named/example.org'' \<mapsto> text],
       si_commands := [''named-checkzone example.org /var/named/example.org'']\<rparr>)"
proof -
  obtain t where w: "write_fwd_zone_file zone_api demo_services (Some dns_cc) (Some ''example.org'') demo_site =
     Some (0, put_file ''/var/named/example.org'' t demo_site)"
    using demo_zone_file by blast
  have "\<not> is_slave (Some ''master'')" by (simp add: is_slave_def strncmp_eq_def)
  from verdict_is_the_checkers [OF zone_api_up(1) _ _ this w refl] show ?thesis
    by (auto simp: put_file_def demo_site_def demo_services_def demo_world_def snprintf_s_def)
qed

subsection \<open>Adding a zone\<close>

text \<open>Writing never fails.\<close>

definition writes_up :: "'db sqlite3_api \<Rightarrow> bool" where
  "writes_up api \<longleftrightarrow> (\<forall>db stmt vs. fst (s3_write api db stmt vs) = SQLITE_DONE)"

lemma executed_up: "writes_up api \<Longrightarrow> executed api w q vs = (0, w\<lparr>w_db := snd (s3_write api (w_db w) q vs)\<rparr>)"
  by (simp add: executed_def writes_up_def split_def Let_def)

lemma zone_id_fields: "q_fields (argument_queries ! FWD_ZONE_ID_ON_ZONE_NAME) = [AILSA_DB_TEXT, AILSA_DB_TEXT]"
  by (simp add: statement_fields argument_fields table_lengths del: nth_map)

lemma zone_id_runs:
  assumes "database_up api cc" "reads_up api"
  shows "cmdb_add_zone_id_to_list api w (Some zone) FORWARD_ZONE (Some type) (Some cc) (Some l) =
    Some (0, w, Some (l @ rows_of api w (q_query (argument_queries ! FWD_ZONE_ID_ON_ZONE_NAME))
      [text_value zone, text_value type]))"
proof -
  have "args_values (q_fields (argument_queries ! FWD_ZONE_ID_ON_ZONE_NAME))
      [D_TEXT (strndup zone CONFIG_LEN), D_TEXT (strndup type CONFIG_LEN)] = Some [text_value zone, text_value type]"
    by (simp add: zone_id_fields text_value_def)
  from up_argument [OF assms _ this] show ?thesis
    using add_strings_all [of "[zone, type]" "[]"] by (simp add: cmdb_add_zone_id_to_list_def table_lengths)
qed

text \<open>C6: A new slave zone goes live.  With a database that is up, no zone of that name and type, and a
  configuration file that can be written, adding the zone returns, its row is inserted with the values of
  its columns, the verdict is recorded, and the last thing done is the reload of the name server with the
  new configuration file in place; the result is the code of that command.\<close>

theorem slave_zone_goes_live:
  assumes "database_up api cc" "reads_up api" "writes_up api" "cc_prins cc = Some pri"
    and "cc_dir cc = Some dir" "cc_bind cc = Some bdir" "cc_dnsa cc = Some name" "cc_rndc cc = Some rndc"
    and "rows_of api (si_world st) (q_query (argument_queries ! FWD_ZONE_ID_ON_ZONE_NAME)) [text_value zone, text_value ''slave''] = []"
    and "os_open os (snprintf_s DOMAIN_LEN (bdir @ name)) \<noteq> -1"
    and "\<And>w. \<exists>text. fwd_config_blocks os dir 0 (rows_of api w (basic_queries ! FWD_ZONE_CONFIG) []) = Some (0, text)"
  shows "\<exists>st' text. add_forward_zone api os (Some cc) (Some zone) (Some ''slave'') (Some master) st =
      Some (os_system os (si_files st') (snprintf_s CONFIG_LEN (rndc @ '' reload'')), st') \<and>
    si_files st' = (si_files st)(snprintf_s DOMAIN_LEN (bdir @ name) \<mapsto> text) \<and>
    si_commands st' = si_commands st @ [snprintf_s CONFIG_LEN (rndc @ '' reload'')] \<and>
    w_db (si_world st') = snd (s3_write api (snd (s3_write api (w_db (si_world st))
      (q_query (insert_queries ! INSERT_FORWARD_SLAVE_ZONE))
      (zone_values (os_uid os) (generate_zone_serial (os_now os)) cc zone pri (sec_dns cc) [''slave'', master])))
      (q_query (update_queries ! FWD_ZONE_VALIDATE)) [text_value ''yes'', text_value zone])"
proof -
  obtain args where args: "dnsa_populate_zone (os_uid os) (os_now os) (Some cc) (Some zone) (Some ''slave'') (Some master)
      (Some []) = (0, Some args)"
    "args_values (q_fields (insert_queries ! INSERT_FORWARD_SLAVE_ZONE)) args =
       Some (zone_values (os_uid os) (generate_zone_serial (os_now os)) cc zone pri (sec_dns cc) [''slave'', master])"
    using populate_args_values(2) [OF assms(4)] by blast
  have slave: "is_slave (Some ''slave'')" by (simp add: is_slave_def strncmp_eq_def)
  let ?file = "snprintf_s DOMAIN_LEN (bdir @ name)" and ?l = "\<lambda>w. rows_of api w (basic_queries ! FWD_ZONE_CONFIG) []"
  have config: "\<exists>text. cmdb_write_fwd_zone_config api os (Some cc) st = Some (0, put_file ?file text st)" for st
  proof -
    obtain t where t: "fwd_config_blocks os dir 0 (?l (si_world st)) = Some (0, t)" using assms(11) by blast
    show ?thesis
      using assms(5-7,10) t up_basic [OF assms(1,2)]
      by (auto simp: cmdb_write_fwd_zone_config_def on_query_def table_lengths put_file_def Let_def)
  qed
  let ?w1 = "\<lambda>w. snd (executed api w (q_query (insert_queries ! INSERT_FORWARD_SLAVE_ZONE))
      (zone_values (os_uid os) (generate_zone_serial (os_now os)) cc zone pri (sec_dns cc) [''slave'', master]))"
  let ?w2 = "snd (executed api (?w1 (si_world st)) (q_query (update_queries ! FWD_ZONE_VALIDATE)) [text_value ''yes'', text_value zone])"
  obtain t where written: "cmdb_write_fwd_zone_config api os (Some cc) (st\<lparr>si_world := ?w2\<rparr>) =
      Some (0, put_file ?file t (st\<lparr>si_world := ?w2\<rparr>))"
    using config by blast
  have check: "cmdb_check_for_fwd_zone api (si_world st) (Some cc) (Some zone) (Some ''slave'') = Some (0, si_world st)"
    using assms(9) zone_id_runs [OF assms(1,2)] by (simp add: cmdb_check_for_fwd_zone_def count_rows_def)
  show ?thesis
    using slave args(1) check written assms(8) up_insert [OF assms(1) _ args(2)]
      record_verdict_runs [OF assms(1) disjI1 [OF refl]] executed_up [OF assms(3)]
    by (auto simp: add_forward_zone_def on_world_def on_list_def table_lengths cmdb_validate_zone_def
        cmdb_validate_fwd_zone_def reload_def run_system_def put_file_def)
qed

lemma rows_api_writes: "writes_up (rows_api rows)"
  by (simp add: writes_up_def rows_api_def demo_api_def)

theorem slave_zone_goes_live_witness:
  "\<exists>st'. add_forward_zone (rows_api []) demo_services (Some dns_cc) (Some ''example.org'') (Some ''slave'')
      (Some ''10.0.0.1'') demo_site = Some (0, st') \<and> si_commands st' = [''rndc reload''] \<and>
    si_files st' ''/etc/bind/dnsa.conf'' \<noteq> None"
  using slave_zone_goes_live [OF rows_api_up rows_api_writes dns_cc_simps(8,1,2,3,5), of "[]" demo_site "''example.org''"
      demo_services "''10.0.0.1''"]
  by (auto simp: demo_services_def demo_site_def snprintf_s_def)

subsection \<open>Records\<close>

lemma zone_id_checked:
  assumes "database_up api cc" "reads_up api"
    and "rows_of api w (q_query (argument_queries ! FWD_ZONE_ID_ON_ZONE_NAME)) [text_value zone, text_value ''master''] =
      [D_LINT zone_id]"
  shows "cmdb_check_add_zone_id_to_list api w (Some zone) FORWARD_ZONE (Some ''master'') (Some cc) (Some []) =
    Some (0, w, Some [D_LINT zone_id])"
  using zone_id_runs [OF assms(1,2), of w zone "''master''" "[]"] assms(3)
  by (simp add: cmdb_check_add_zone_id_to_list_def check_added_def)

text \<open>The values of a record: its type, host and destination, the priority of MX and SRV, and for SRV the
  protocol and the service.\<close>

definition record_values :: "u64 \<Rightarrow> string \<Rightarrow> string \<Rightarrow> string \<Rightarrow> u64 \<Rightarrow> string \<Rightarrow> string \<Rightarrow> sql_value list" where
  "record_values zone_id type host dest prefix proto service =
    [SQL_INT zone_id, text_value type, text_value host, text_value dest] @
    (if type = ''MX'' then [SQL_INT prefix]
     else if type = ''SRV'' then [SQL_INT prefix, text_value proto, text_value service] else [])"

definition record_line :: "string \<Rightarrow> string \<Rightarrow> string \<Rightarrow> string \<Rightarrow> u64 \<Rightarrow> string \<Rightarrow> string \<Rightarrow> dnsa_comm_line_s" where
  "record_line zone type host dest prefix proto service = comm_line_zero\<lparr>dcl_action := DNSA_AHOST,
     dcl_type := FORWARD_ZONE, dcl_domain := Some zone, dcl_rtype := Some type, dcl_host := Some host,
     dcl_dest := Some dest, dcl_prefix := prefix, dcl_protocol := Some proto, dcl_service := Some service\<rparr>"

text \<open>The statements that look for a record and that insert it, by its type.\<close>

definition record_statements :: "string \<Rightarrow> nat \<times> nat" where
  "record_statements type = (if type = ''MX'' then (RECORD_ID_MX, INSERT_RECORD_MX)
     else if type = ''SRV'' then (RECORD_ID_SRV, INSERT_RECORD_SRV) else (RECORD_ID_BASE, INSERT_RECORD_BASE))"

lemma record_fields:
  "q_fields (argument_queries ! RECORD_ID_BASE) = [AILSA_DB_LINT, AILSA_DB_TEXT, AILSA_DB_TEXT, AILSA_DB_TEXT]"
  "q_fields (argument_queries ! RECORD_ID_MX) = [AILSA_DB_LINT, AILSA_DB_TEXT, AILSA_DB_TEXT, AILSA_DB_TEXT, AILSA_DB_LINT]"
  "q_fields (argument_queries ! RECORD_ID_SRV) =
     [AILSA_DB_LINT, AILSA_DB_TEXT, AILSA_DB_TEXT, AILSA_DB_TEXT, AILSA_DB_LINT, AILSA_DB_TEXT, AILSA_DB_TEXT]"
  by (simp_all add: statement_fields argument_fields table_lengths del: nth_map)

lemma record_insert_fields:
  "q_fields (insert_queries ! INSERT_RECORD_BASE) =
     [AILSA_DB_LINT, AILSA_DB_TEXT, AILSA_DB_TEXT, AILSA_DB_TEXT, AILSA_DB_LINT, AILSA_DB_LINT]"
  "q_fields (insert_queries ! INSERT_RECORD_MX) =
     [AILSA_DB_LINT, AILSA_DB_TEXT, AILSA_DB_TEXT, AILSA_DB_TEXT, AILSA_DB_LINT, AILSA_DB_LINT, AILSA_DB_LINT]"
  "q_fields (insert_queries ! INSERT_RECORD_SRV) =
     [AILSA_DB_LINT, AILSA_DB_TEXT, AILSA_DB_TEXT, AILSA_DB_TEXT, AILSA_DB_LINT, AILSA_DB_TEXT, AILSA_DB_TEXT,
      AILSA_DB_LINT, AILSA_DB_LINT]"
  "q_fields (update_queries ! SET_FWD_ZONE_UPDATED_ON_NAME) = [AILSA_DB_LINT, AILSA_DB_TEXT]"
  by (simp_all add: statement_fields insert_fields update_fields table_lengths del: nth_map)

text \<open>The list of a record's values, and its values.\<close>

definition record_args :: "u64 \<Rightarrow> string \<Rightarrow> string \<Rightarrow> string \<Rightarrow> u64 \<Rightarrow> string \<Rightarrow> string \<Rightarrow> ailsa_data list" where
  "record_args zone_id type host dest prefix proto service =
    [D_LINT zone_id, D_TEXT (strndup type CONFIG_LEN), D_TEXT (strndup host CONFIG_LEN), D_TEXT (strndup dest CONFIG_LEN)] @
    (if type = ''MX'' then [D_LINT prefix]
     else if type = ''SRV'' then [D_LINT prefix, D_TEXT (strndup proto CONFIG_LEN), D_TEXT (strndup service CONFIG_LEN)]
     else [])"

lemma record_populated:
  "dnsa_populate_record (Some cc) (Some (record_line zone type host dest prefix proto service)) (Some [D_LINT zone_id]) =
    (0, Some (record_args zone_id type host dest prefix proto service))"
  by (simp add: dnsa_populate_record_def record_line_def comm_line_zero_def record_args_def add_args_def
      text_element_def)

lemma record_args_values:
  assumes "record_statements type = (look, ins)"
  shows "look < length argument_queries" "ins < length insert_queries"
    "fwd_record_query (length (record_args zone_id type host dest prefix proto service)) = Some look"
    "insert_record_query (length (record_args zone_id type host dest prefix proto service) + 2) = Some ins"
    "args_values (q_fields (argument_queries ! look)) (record_args zone_id type host dest prefix proto service) =
       Some (record_values zone_id type host dest prefix proto service)"
    "args_values (q_fields (insert_queries ! ins))
       (record_args zone_id type host dest prefix proto service @ [D_LINT (ucast uid), D_LINT (ucast uid)]) =
       Some (record_values zone_id type host dest prefix proto service @ [SQL_INT (ucast (uid :: u32)), SQL_INT (ucast uid)])"
  using assms by (auto simp: record_statements_def record_args_def record_values_def table_lengths fwd_record_query_def
      insert_record_query_def record_fields record_insert_fields text_value_def split: if_splits)

lemma zone_marked_updated:
  assumes "database_up api cc"
  shows "set_db_row_updated api uid w (Some cc) SET_FWD_ZONE_UPDATED_ON_NAME (Some zone) 0 =
    Some (executed api w (q_query (update_queries ! SET_FWD_ZONE_UPDATED_ON_NAME)) [SQL_INT (ucast uid), text_value zone])"
proof -
  have "args_values (q_fields (update_queries ! SET_FWD_ZONE_UPDATED_ON_NAME))
      [D_LINT (ucast uid), D_TEXT (strndup zone CONFIG_LEN)] = Some [SQL_INT (ucast uid), text_value zone]"
    by (simp add: record_insert_fields text_value_def)
  from up_update [OF assms _ this] show ?thesis by (simp add: set_db_row_updated_def table_lengths)
qed


lemma record_statements_differ:
  "q_query (argument_queries ! FWD_ZONE_ID_ON_ZONE_NAME) \<noteq> q_query (argument_queries ! RECORD_ID_MX)"
  by code_simp

definition record_api :: "nat sqlite3_api" where
  "record_api = demo_api\<lparr>s3_rows := (\<lambda>_ stmt _.
     (if stmt = q_query (argument_queries ! RECORD_ID_MX) then [] else [[SQL_INT 7]], SQLITE_DONE))\<rparr>"

lemma record_api_up: "database_up record_api dns_cc" "reads_up record_api"
  using demo_binds by (simp_all add: database_up_def reads_up_def record_api_def demo_api_def dns_cc_def demo_cc_def
      binds_by_marks_def)


text \<open>Deleting a record hides the failure of its delete statement: the result is that of the update that
  follows, so a record that could not be deleted is reported as deleted.\<close>

lemma failed_delete_is_hidden:
  assumes "database_up api cc" "reads_up api" "dcl_domain cl = Some zone" "dcl_rtype cl = Some type" "dcl_host cl = Some host"
    and "dcl_prefix cl = 0" "dcl_protocol cl = None"
    and "rows_of api w (q_query (argument_queries ! FWD_ZONE_ID_ON_ZONE_NAME)) [text_value zone, text_value ''master''] =
      [D_LINT zone_id]"
    and "vs = [SQL_INT zone_id, text_value type, text_value host]"
    and "rows_of api w (q_query (argument_queries ! RECORD_ID_ON_HOST_ZONE_TYPE)) vs \<noteq> []"
    and "executed api w (q_query (delete_queries ! DELETE_REC_TYPE_HOST)) vs = (AILSA_STATEMENT_FAIL, w1)"
  shows "delete_record api uid (Some cc) (Some cl) w =
    Some (executed api w1 (q_query (update_queries ! SET_FWD_ZONE_UPDATED_ON_NAME)) [SQL_INT (ucast uid), text_value zone])"
proof -
  let ?args = "[D_LINT zone_id, D_TEXT (strndup type CONFIG_LEN), D_TEXT (strndup host CONFIG_LEN)]"
  have "args_values (q_fields (argument_queries ! RECORD_ID_ON_HOST_ZONE_TYPE)) ?args = Some vs"
    "args_values (q_fields (delete_queries ! DELETE_REC_TYPE_HOST)) ?args = Some vs"
    by (simp_all add: assms(9) text_value_def statement_fields argument_fields delete_fields table_lengths del: nth_map)
  then show ?thesis
    using up_argument [OF assms(1,2)] up_delete [OF assms(1)] assms(3-7,10,11) zone_marked_updated [OF assms(1)]
    by (simp add: delete_record_def then_rows_def zone_id_checked [OF assms(1,2,8)] then_list_def add_args_def
        text_element_def delete_record_queries_def table_lengths)
qed

end
