(* ===== verification/Cmdb_Customers.thy ===== *)
theory Cmdb_Customers
  imports Zone_Display Cmdb_Cmdline
begin

text \<open>
  src/customers.c: the operations of the server and customer command on customers and their contacts.
  Those that change the database return a code, those that print return the printed text; the messages
  of the log are not modelled.
\<close>

subsection \<open>Names of users\<close>

text \<open>lib/data.c: \<open>pw\<close> is \<open>getpwuid_r\<close>; the buffer holds \<open>LOGIN_NAME_MAX\<close> bytes, 256 where the system does
  not say.\<close>

definition cmdb_get_uname :: "(u32 \<Rightarrow> string option) \<Rightarrow> u64 \<Rightarrow> string" where
  "cmdb_get_uname pw uid = (case pw (ucast uid) of None \<Rightarrow> ''NULL'' | Some name \<Rightarrow> snprintf_s 256 name)"

text \<open>A user, a time, and how both are printed.\<close>

definition stamp :: "(u32 \<Rightarrow> string option) \<Rightarrow> string \<Rightarrow> ailsa_data \<Rightarrow> ailsa_data \<Rightarrow> string option" where
  "stamp pw what user time = do {
     uid \<leftarrow> get_number user;
     at_time \<leftarrow> text_of time;
     Some (''  '' @ what @ '' by '' @ cmdb_get_uname pw uid @ '' @ '' @ at_time @ nl)
   }"

subsection \<open>Adding\<close>

definition cmdb_populate_customer_details ::
  "u32 \<Rightarrow> cmdb_comm_line_s option \<Rightarrow> ailsa_cmdb_s option \<Rightarrow> db_list \<Rightarrow> int \<times> db_list" where
  "cmdb_populate_customer_details uid cm cc customer = (case cm of None \<Rightarrow> (AILSA_NO_DATA, customer) | Some cl \<Rightarrow>
     if cc = None \<or> customer = None then (AILSA_NO_DATA, customer)
     else add_args
       [cmdb_add_string_to_list (ccl_fullname cl),
        cmdb_add_string_to_list (ccl_address cl),
        cmdb_add_string_to_list (ccl_city cl),
        cmdb_add_string_to_list (ccl_county cl),
        cmdb_add_string_to_list (ccl_postcode cl),
        cmdb_add_string_to_list (ccl_coid cl),
        cmdb_populate_cuser_muser uid] customer)"

definition cmdb_add_customer_to_database ::
  "'db sqlite3_api \<Rightarrow> u32 \<Rightarrow> cmdb_comm_line_s option \<Rightarrow> ailsa_cmdb_s option \<Rightarrow> 'db world \<Rightarrow> (int \<times> 'db world) option" where
  "cmdb_add_customer_to_database api uid cm cc w = (case cm of None \<Rightarrow> Some (AILSA_NO_DATA, w) | Some cl \<Rightarrow>
     if cc = None then Some (AILSA_NO_DATA, w)
     else then_list w (cmdb_add_string_to_list (ccl_coid cl) (Some [])) (\<lambda>args.
       then_rows (ailsa_argument_query api w cc CUST_ID_ON_COID args (Some [])) (\<lambda>w customer.
       if length customer > 0 then Some (0, w)
       else then_list w (cmdb_populate_customer_details uid cm cc (Some customer)) (\<lambda>customer.
       ailsa_insert_query api w cc INSERT_CUSTOMER customer))))"

text \<open>A customer that does not exist is not an error here: the list stays without its id.\<close>

definition cmdb_populate_contact_details ::
  "cmdb_comm_line_s option \<Rightarrow> db_list \<Rightarrow> ailsa_data list \<Rightarrow> (int \<times> db_list) option" where
  "cmdb_populate_contact_details cm contacts customer = (case cm of None \<Rightarrow> Some (AILSA_NO_DATA, contacts) | Some cl \<Rightarrow>
     if contacts = None then Some (AILSA_NO_DATA, contacts)
     else (case add_args
         [cmdb_add_string_to_list (ccl_fullname cl),
          cmdb_add_string_to_list (ccl_phone cl),
          cmdb_add_string_to_list (ccl_email cl)] contacts of (retval, contacts) \<Rightarrow>
       if retval \<noteq> 0 then Some (retval, contacts)
       else (case customer of
           [] \<Rightarrow> Some (retval, contacts)
         | some # _ \<Rightarrow> map_option (\<lambda>number. cmdb_add_number_to_list number contacts) (get_number some))))"

definition cmdb_add_contacts_to_database ::
  "'db sqlite3_api \<Rightarrow> u32 \<Rightarrow> cmdb_comm_line_s option \<Rightarrow> ailsa_cmdb_s option \<Rightarrow> 'db world \<Rightarrow> (int \<times> 'db world) option" where
  "cmdb_add_contacts_to_database api uid cm cc w = (case cm of None \<Rightarrow> Some (AILSA_NO_DATA, w) | Some cl \<Rightarrow>
     if cc = None then Some (AILSA_NO_DATA, w)
     else then_list w (cmdb_add_string_to_list (ccl_coid cl) (Some [])) (\<lambda>args.
       then_rows (ailsa_argument_query api w cc CUST_ID_ON_COID args (Some [])) (\<lambda>w customer. do {
       details \<leftarrow> cmdb_populate_contact_details cm (Some []) customer;
       then_list w details (\<lambda>contacts.
       then_rows (ailsa_argument_query api w cc CONT_ID_ON_CONTACT_DETAILS contacts (Some [])) (\<lambda>w check_contact.
       if length check_contact > 0 then Some (0, w)
       else then_list w (add_args
           [cmdb_add_number_to_list (ucast uid), cmdb_add_number_to_list (ucast uid)] contacts) (\<lambda>contacts.
       ailsa_insert_query api w cc INSERT_CONTACT contacts)))
     })))"

subsection \<open>The default customer\<close>

definition cmdb_set_default_customer ::
  "'db sqlite3_api \<Rightarrow> u32 \<Rightarrow> cmdb_comm_line_s option \<Rightarrow> ailsa_cmdb_s option \<Rightarrow> 'db world \<Rightarrow> (int \<times> 'db world) option" where
  "cmdb_set_default_customer api uid cm cc w = (case cm of None \<Rightarrow> Some (AILSA_NO_DATA, w) | Some cl \<Rightarrow>
     if cc = None \<or> ccl_coid cl = None then Some (AILSA_NO_DATA, w)
     else then_rows (cmdb_check_add_cust_id_to_list api w (ccl_coid cl) cc (Some [])) (\<lambda>w cust.
       then_rows (ailsa_basic_query api w cc DEFAULT_CUSTOMER (Some [])) (\<lambda>w def.
       if length def = 0
       then then_list w (cmdb_populate_cuser_muser uid (Some cust)) (\<lambda>cust.
         ailsa_insert_query api w cc INSERT_DEFAULT_CUSTOMER cust)
       else then_list w (cmdb_add_number_to_list (ucast uid) (Some cust)) (\<lambda>cust.
         ailsa_update_query api w cc (update_queries ! UPDATE_DEFAULT_CUSTOMER) cust))))"

definition cmdb_remove_customer_from_database ::
  "'db sqlite3_api \<Rightarrow> cmdb_comm_line_s option \<Rightarrow> ailsa_cmdb_s option \<Rightarrow> 'db world \<Rightarrow> (int \<times> 'db world) option" where
  "cmdb_remove_customer_from_database api cm cc w = (case cm of None \<Rightarrow> Some (AILSA_NO_DATA, w) | Some cl \<Rightarrow>
     if cc = None then Some (AILSA_NO_DATA, w)
     else then_rows (cmdb_check_add_cust_id_to_list api w (ccl_coid cl) cc (Some [])) (\<lambda>w customer.
       ailsa_delete_query api w cc (delete_queries ! DELETE_CUSTOMER) (Some customer)))"

subsection \<open>Printing\<close>

text \<open>An incomplete row ends a loop where the code tests for the next element and crashes where it does not.\<close>

fun customer_lines :: "ailsa_data list \<Rightarrow> string option" where
  "customer_lines (c # n # t # rest) = do {
     coid \<leftarrow> text_of c;
     name \<leftarrow> text_of n;
     city \<leftarrow> text_of t;
     others \<leftarrow> customer_lines rest;
     Some (coid @ (if length coid < 8 then tabs 2 else tab) @ name @ '' of '' @ city @ nl @ others)
   }"
| "customer_lines [_, _] = None"
| "customer_lines _ = Some []"

definition cmdb_list_customers :: "'db sqlite3_api \<Rightarrow> ailsa_cmdb_s option \<Rightarrow> 'db world \<Rightarrow> ('db world \<times> string) option" where
  "cmdb_list_customers api cc w =
    (if cc = None then Some (w, [])
     else shown (ailsa_basic_query api w cc COID_NAME_CITY (Some [])) (\<lambda>w list.
       if length list = 0 then Some (w, [])
       else do { lines \<leftarrow> customer_lines list; Some (w, ''COID'' @ tabs 2 @ ''Name'' @ nl @ lines) }))"

fun contact_lines :: "ailsa_data list \<Rightarrow> string option" where
  "contact_lines (n # p # e # rest) = do {
     name \<leftarrow> text_of n;
     phone \<leftarrow> text_of p;
     email \<leftarrow> text_of e;
     others \<leftarrow> contact_lines rest;
     Some (''  '' @ name @ tab @ phone @ tab @ email @ nl @ others)
   }"
| "contact_lines _ = Some []"

definition cmdb_display_contacts :: "db_list \<Rightarrow> string option" where
  "cmdb_display_contacts list = (case list of None \<Rightarrow> Some [] | Some rows \<Rightarrow> contact_lines rows)"

definition cmdb_list_contacts_for_customer ::
  "'db sqlite3_api \<Rightarrow> cmdb_comm_line_s option \<Rightarrow> ailsa_cmdb_s option \<Rightarrow> 'db world \<Rightarrow> ('db world \<times> string) option" where
  "cmdb_list_contacts_for_customer api cm cc w = (case cm of None \<Rightarrow> Some (w, []) | Some cl \<Rightarrow>
     if cc = None then Some (w, [])
     else (case cmdb_add_string_to_list (ccl_coid cl) (Some []) of (retval, args) \<Rightarrow>
       if retval \<noteq> 0 then Some (w, [])
       else shown (ailsa_argument_query api w cc CONTACT_DETAILS_ON_COID args (Some [])) (\<lambda>w results.
         if length results = 0 then Some (w, [])
         else do {
           coid \<leftarrow> ccl_coid cl;
           lines \<leftarrow> cmdb_display_contacts (Some results);
           Some (w, ''Contacts for COID '' @ coid @ nl @ lines)
         })))"

text \<open>The row is name, address, city, county and postcode, who created it and when, who changed it and when.\<close>

definition cmdb_display_customer_details :: "(u32 \<Rightarrow> string option) \<Rightarrow> db_list \<Rightarrow> string option" where
  "cmdb_display_customer_details pw list = (case list of None \<Rightarrow> Some [] | Some rows \<Rightarrow>
     (case rows of
        [] \<Rightarrow> Some []
      | n # a # c # co # p # cu # ct # mu # mt # _ \<Rightarrow> do {
          name \<leftarrow> text_of n;
          address \<leftarrow> text_of a;
          city \<leftarrow> text_of c;
          county \<leftarrow> text_of co;
          postcode \<leftarrow> text_of p;
          created \<leftarrow> stamp pw ''Created'' cu ct;
          modified \<leftarrow> stamp pw ''Modified'' mu mt;
          Some ('' '' @ name @ nl @ ''  '' @ address @ '','' @ nl @ ''  '' @ city @ '','' @ nl @
            ''  '' @ county @ '','' @ nl @ ''  '' @ postcode @ nl @ created @ modified)
        }
      | _ \<Rightarrow> None))"

definition cmdb_display_customer ::
  "'db sqlite3_api \<Rightarrow> (u32 \<Rightarrow> string option) \<Rightarrow> cmdb_comm_line_s option \<Rightarrow> ailsa_cmdb_s option \<Rightarrow> 'db world \<Rightarrow>
   ('db world \<times> string) option" where
  "cmdb_display_customer api pw cm cc w = (case cm of None \<Rightarrow> Some (w, []) | Some cl \<Rightarrow>
     if cc = None then Some (w, [])
     else (case cmdb_add_string_to_list (ccl_coid cl) (Some []) of (retval, args) \<Rightarrow>
       if retval \<noteq> 0 then Some (w, [])
       else shown (ailsa_argument_query api w cc CUSTOMER_DETAILS_ON_COID args (Some [])) (\<lambda>w customer.
         shown (ailsa_argument_query api w cc CONTACT_DETAILS_ON_COID args (Some [])) (\<lambda>w contacts. do {
           coid \<leftarrow> ccl_coid cl;
           if length customer = 0 then Some (w, ''Coid '' @ coid @ '' not found in DB'' @ nl)
           else do {
             details \<leftarrow> cmdb_display_customer_details pw (Some customer);
             lines \<leftarrow> cmdb_display_contacts (Some contacts);
             Some (w, ''Details for coid '' @ coid @ nl @ details @
               (if length contacts > 0 then ''Contacts:'' @ nl @ lines else ''No contacts for customer'' @ nl))
           }
         }))))"

definition cmdb_display_default_customer ::
  "'db sqlite3_api \<Rightarrow> ailsa_cmdb_s option \<Rightarrow> 'db world \<Rightarrow> ('db world \<times> string) option" where
  "cmdb_display_default_customer api cc w =
    (if cc = None then Some (w, [])
     else shown (ailsa_basic_query api w cc DEFAULT_CUSTOMER_DETAILS (Some [])) (\<lambda>w list.
       case list of
         [] \<Rightarrow> Some (w, [])
       | [_] \<Rightarrow> None
       | c # n # _ \<Rightarrow> do {
           coid \<leftarrow> text_of c;
           name \<leftarrow> text_of n;
           Some (w, ''COID'' @ tabs 2 @ ''Customer'' @ nl @ coid @ (if length coid < 8 then tabs 2 else tab) @
             name @ nl)
         }))"

end
