(* ===== verification/Cmdb_Servers.thy ===== *)
theory Cmdb_Servers
  imports Cmdb_Customers
begin

text \<open>
  src/servers.c: the operations of the server and customer command on servers, their services and hardware,
  on the types of both, and on hosts of virtual machines.
\<close>

subsection \<open>Servers\<close>

definition cmdb_populate_server_details ::
  "'db sqlite3_api \<Rightarrow> u32 \<Rightarrow> cmdb_comm_line_s option \<Rightarrow> ailsa_cmdb_s option \<Rightarrow> 'db world \<Rightarrow> db_list \<Rightarrow> 'db query_result" where
  "cmdb_populate_server_details api uid cm cc w server = (case cm of None \<Rightarrow> Some (AILSA_NO_DATA, w, server) | Some cl \<Rightarrow>
     if cc = None \<or> server = None then Some (AILSA_NO_DATA, w, server)
     else (case add_args
         [cmdb_add_string_to_list (ccl_name cl),
          cmdb_add_string_to_list (ccl_make cl),
          cmdb_add_string_to_list (ccl_model cl),
          cmdb_add_string_to_list (ccl_vendor cl),
          cmdb_add_string_to_list (ccl_uuid cl)] server of (retval, server) \<Rightarrow>
       if retval \<noteq> 0 then Some (retval, w, server)
       else do {
         (retval, w, server) \<leftarrow> cmdb_check_add_cust_id_to_list api w (ccl_coid cl) cc server;
         if retval \<noteq> 0 then Some (retval, w, server)
         else do {
           (retval, w, server) \<leftarrow> (if ccl_vmhost cl \<noteq> None
             then cmdb_check_add_vm_id_to_list api w (ccl_vmhost cl) cc server
             else (case cmdb_add_number_to_list 0 server of (retval, server) \<Rightarrow> Some (retval, w, server)));
           if retval \<noteq> 0 then Some (retval, w, server)
           else (case cmdb_populate_cuser_muser uid server of (retval, server) \<Rightarrow> Some (retval, w, server))
         }
       }))"

text \<open>A list of another length than 9 is only logged.\<close>

definition cmdb_add_server_to_database ::
  "'db sqlite3_api \<Rightarrow> u32 \<Rightarrow> cmdb_comm_line_s option \<Rightarrow> ailsa_cmdb_s option \<Rightarrow> 'db world \<Rightarrow> (int \<times> 'db world) option" where
  "cmdb_add_server_to_database api uid cm cc w = (case cm of None \<Rightarrow> Some (AILSA_NO_DATA, w) | Some cl \<Rightarrow>
     if cc = None then Some (AILSA_NO_DATA, w)
     else then_list w (cmdb_add_string_to_list (ccl_name cl) (Some [])) (\<lambda>args.
       then_rows (ailsa_argument_query api w cc SERVER_DETAILS_ON_NAME args (Some [])) (\<lambda>w server.
       if length server > 0 then Some (0, w)
       else then_rows (cmdb_populate_server_details api uid cm cc w (Some server)) (\<lambda>w server.
       if length server \<noteq> 9 then Some (0, w)
       else ailsa_insert_query api w cc INSERT_SERVER (Some server)))))"

definition cmdb_remove_server_from_database ::
  "'db sqlite3_api \<Rightarrow> cmdb_comm_line_s option \<Rightarrow> ailsa_cmdb_s option \<Rightarrow> 'db world \<Rightarrow> (int \<times> 'db world) option" where
  "cmdb_remove_server_from_database api cm cc w = (case cm of None \<Rightarrow> Some (AILSA_NO_DATA, w) | Some cl \<Rightarrow>
     if cc = None then Some (AILSA_NO_DATA, w)
     else then_rows (cmdb_check_add_server_id_to_list api w (ccl_name cl) cc (Some [])) (\<lambda>w server.
       ailsa_delete_query api w cc (delete_queries ! DELETE_SERVER_ON_ID) (Some server)))"

subsection \<open>Types of services and hardware\<close>

definition cmdb_add_service_type_to_database ::
  "'db sqlite3_api \<Rightarrow> cmdb_comm_line_s option \<Rightarrow> ailsa_cmdb_s option \<Rightarrow> 'db world \<Rightarrow> (int \<times> 'db world) option" where
  "cmdb_add_service_type_to_database api cm cc w = (case cm of None \<Rightarrow> Some (AILSA_NO_DATA, w) | Some cl \<Rightarrow>
     if cc = None then Some (AILSA_NO_DATA, w)
     else then_list w (add_args
         [cmdb_add_string_to_list (ccl_service cl), cmdb_add_string_to_list (ccl_detail cl)] (Some [])) (\<lambda>args.
       then_rows (ailsa_argument_query api w cc SERVICE_TYPE_ID_ON_DETAILS args (Some [])) (\<lambda>w results.
       if length results > 0 then Some (0, w) else ailsa_insert_query api w cc INSERT_SERVICE_TYPE args)))"

definition cmdb_add_hardware_type_to_database ::
  "'db sqlite3_api \<Rightarrow> cmdb_comm_line_s option \<Rightarrow> ailsa_cmdb_s option \<Rightarrow> 'db world \<Rightarrow> (int \<times> 'db world) option" where
  "cmdb_add_hardware_type_to_database api cm cc w = (case cm of None \<Rightarrow> Some (AILSA_NO_DATA, w) | Some cl \<Rightarrow>
     if cc = None then Some (AILSA_NO_DATA, w)
     else then_list w (add_args
         [cmdb_add_string_to_list (ccl_shtype cl), cmdb_add_string_to_list (ccl_hclass cl)] (Some [])) (\<lambda>args.
       then_rows (ailsa_argument_query api w cc HARDWARE_TYPE_ID_ON_DETAILS args (Some [])) (\<lambda>w results.
       if length results > 0 then Some (0, w) else ailsa_insert_query api w cc INSERT_HARDWARE_TYPE args)))"

subsection \<open>Hosts of virtual machines\<close>

text \<open>The id of the server is appended to the host's own list; without it the function ends with 0.\<close>

definition cmdb_add_vm_host_to_database ::
  "'db sqlite3_api \<Rightarrow> u32 \<Rightarrow> cmdb_comm_line_s option \<Rightarrow> ailsa_cmdb_s option \<Rightarrow> 'db world \<Rightarrow> (int \<times> 'db world) option" where
  "cmdb_add_vm_host_to_database api uid cm cc w = (case cm of None \<Rightarrow> Some (AILSA_NO_DATA, w) | Some cl \<Rightarrow>
     if cc = None then Some (AILSA_NO_DATA, w)
     else then_list w (cmdb_add_string_to_list (ccl_name cl) (Some [])) (\<lambda>vm.
       then_rows (ailsa_argument_query api w cc VM_SERVER_ID_ON_NAME vm (Some [])) (\<lambda>w results.
       if length results > 0 then Some (0, w)
       else then_list w (cmdb_add_string_to_list (ccl_shtype cl) vm) (\<lambda>vm.
       then_list w (cmdb_add_string_to_list (ccl_name cl) (Some [])) (\<lambda>server.
       then_rows (ailsa_argument_query api w cc SERVER_ID_ON_NAME server vm) (\<lambda>w vm.
       if length vm < 3 then Some (0, w)
       else then_list w (cmdb_populate_cuser_muser uid (Some vm)) (\<lambda>vm.
       ailsa_insert_query api w cc INSERT_VM_HOST vm)))))))"

subsection \<open>Hardware and services of a server\<close>

definition cmdb_populate_hardware_details :: "u32 \<Rightarrow> cmdb_comm_line_s \<Rightarrow> db_list \<Rightarrow> int \<times> db_list" where
  "cmdb_populate_hardware_details uid cl list = add_args
     [cmdb_add_string_to_list (ccl_detail cl), cmdb_add_string_to_list (ccl_device cl),
      cmdb_populate_cuser_muser uid] list"

definition cmdb_populate_service_details :: "u32 \<Rightarrow> cmdb_comm_line_s \<Rightarrow> db_list \<Rightarrow> int \<times> db_list" where
  "cmdb_populate_service_details uid cl list = add_args
     [cmdb_add_string_to_list (ccl_detail cl), cmdb_add_string_to_list (ccl_url cl),
      cmdb_populate_cuser_muser uid] list"

text \<open>The ids of a class of hardware and of a service are looked up, but not checked to be there.\<close>

definition cmdb_add_hardware_to_database ::
  "'db sqlite3_api \<Rightarrow> u32 \<Rightarrow> cmdb_comm_line_s option \<Rightarrow> ailsa_cmdb_s option \<Rightarrow> 'db world \<Rightarrow> (int \<times> 'db world) option" where
  "cmdb_add_hardware_to_database api uid cm cc w = (case cm of None \<Rightarrow> Some (AILSA_NO_DATA, w) | Some cl \<Rightarrow>
     if cc = None then Some (AILSA_NO_DATA, w)
     else then_rows (cmdb_check_add_server_id_to_list api w (ccl_name cl) cc (Some [])) (\<lambda>w hardware.
       then_rows (if ccl_sid cl \<noteq> 0
         then (case cmdb_add_number_to_list (ccl_sid cl) (Some hardware) of (retval, l) \<Rightarrow> Some (retval, w, l))
         else cmdb_add_hard_type_id_to_list api w (ccl_hclass cl) cc (Some hardware)) (\<lambda>w hardware.
       then_list w (cmdb_populate_hardware_details uid cl (Some hardware)) (\<lambda>hardware.
       then_rows (ailsa_argument_query api w cc HARDWARE_ID_ON_DETAILS hardware (Some [])) (\<lambda>w results.
       if length results > 0 then Some (0, w)
       else ailsa_insert_query api w cc INSERT_HARDWARE hardware)))))"

definition cmdb_add_services_to_database ::
  "'db sqlite3_api \<Rightarrow> u32 \<Rightarrow> cmdb_comm_line_s option \<Rightarrow> ailsa_cmdb_s option \<Rightarrow> 'db world \<Rightarrow> (int \<times> 'db world) option" where
  "cmdb_add_services_to_database api uid cm cc w = (case cm of None \<Rightarrow> Some (AILSA_NO_DATA, w) | Some cl \<Rightarrow>
     if cc = None then Some (AILSA_NO_DATA, w)
     else then_rows (cmdb_check_add_server_id_to_list api w (ccl_name cl) cc (Some [])) (\<lambda>w service.
       then_rows (cmdb_check_add_cust_id_to_list api w (ccl_coid cl) cc (Some service)) (\<lambda>w service.
       then_rows (cmdb_add_service_type_id_to_list api w (ccl_service cl) cc (Some service)) (\<lambda>w service.
       then_list w (cmdb_populate_service_details uid cl (Some service)) (\<lambda>service.
       then_rows (ailsa_argument_query api w cc SERVICE_ID_ON_DETAILS service (Some [])) (\<lambda>w results.
       if length results > 0 then Some (0, w)
       else ailsa_insert_query api w cc INSERT_SERVICE service))))))"

subsection \<open>Printing\<close>

fun server_lines :: "ailsa_data list \<Rightarrow> string option" where
  "server_lines [] = Some []"
| "server_lines (n # c # rest) = do {
     name \<leftarrow> text_of n;
     coid \<leftarrow> text_of c;
     others \<leftarrow> server_lines rest;
     Some (name @ (if length name < 8 then tabs 3 else if length name < 16 then tabs 2 else tab) @ coid @ nl @ others)
   }"
| "server_lines _ = None"

definition cmdb_list_servers :: "'db sqlite3_api \<Rightarrow> ailsa_cmdb_s option \<Rightarrow> 'db world \<Rightarrow> ('db world \<times> string) option" where
  "cmdb_list_servers api cc w =
    (if cc = None then Some (w, [])
     else shown (ailsa_basic_query api w cc SERVER_NAME_COID (Some [])) (\<lambda>w list.
       if length list = 0 then Some (w, [])
       else do { lines \<leftarrow> server_lines list; Some (w, ''Server Name'' @ tabs 2 @ ''COID'' @ nl @ lines) }))"

text \<open>The row is vendor, make, model, UUID and coid, who created it and when, who changed it and when.\<close>

definition cmdb_display_server_details :: "(u32 \<Rightarrow> string option) \<Rightarrow> db_list \<Rightarrow> string option" where
  "cmdb_display_server_details pw server = (case server of None \<Rightarrow> Some [] | Some rows \<Rightarrow>
     (case rows of
        v # m # md # u # c # cu # ct # mu # mt # _ \<Rightarrow> do {
          vendor \<leftarrow> text_of v;
          make \<leftarrow> text_of m;
          model \<leftarrow> text_of md;
          uuid \<leftarrow> text_of u;
          coid \<leftarrow> text_of c;
          created \<leftarrow> stamp pw ''Created'' cu ct;
          modified \<leftarrow> stamp pw ''Modified'' mu mt;
          Some (''  Vendor: '' @ vendor @ nl @ ''  Make: '' @ make @ nl @ ''  Model: '' @ model @ nl @
            ''  UUID: '' @ uuid @ nl @ ''  Customer COID: '' @ coid @ nl @ created @ modified)
        }
      | _ \<Rightarrow> None))"

fun service_lines :: "ailsa_data list \<Rightarrow> string option" where
  "service_lines (s # u # d # rest) = do {
     service \<leftarrow> text_of s;
     url \<leftarrow> text_of u;
     detail \<leftarrow> text_of d;
     others \<leftarrow> service_lines rest;
     Some (''  '' @ service @ '' service'' @ tab @ ''@ '' @ url @ tab @ detail @ nl @ others)
   }"
| "service_lines [_, _] = None"
| "service_lines _ = Some []"

definition cmdb_display_services :: "db_list \<Rightarrow> string option" where
  "cmdb_display_services list = (case list of None \<Rightarrow> Some [] | Some rows \<Rightarrow> service_lines rows)"

fun hardware_lines :: "ailsa_data list \<Rightarrow> string option" where
  "hardware_lines (c # v # d # rest) = do {
     hclass \<leftarrow> text_of c;
     device \<leftarrow> text_of v;
     detail \<leftarrow> text_of d;
     others \<leftarrow> hardware_lines rest;
     Some (''  '' @ hclass @ '' /dev/'' @ device @ '' '' @ detail @ nl @ others)
   }"
| "hardware_lines [_, _] = None"
| "hardware_lines _ = Some []"

definition cmdb_display_hardware :: "db_list \<Rightarrow> string option" where
  "cmdb_display_hardware list = (case list of None \<Rightarrow> Some [] | Some rows \<Rightarrow> hardware_lines rows)"

definition cmdb_display_server ::
  "'db sqlite3_api \<Rightarrow> (u32 \<Rightarrow> string option) \<Rightarrow> cmdb_comm_line_s option \<Rightarrow> ailsa_cmdb_s option \<Rightarrow> 'db world \<Rightarrow>
   ('db world \<times> string) option" where
  "cmdb_display_server api pw cm cc w = (case cm of None \<Rightarrow> Some (w, []) | Some cl \<Rightarrow>
     if cc = None then Some (w, [])
     else (case cmdb_add_string_to_list (ccl_name cl) (Some []) of (retval, args) \<Rightarrow>
       if retval \<noteq> 0 then Some (w, [])
       else shown (ailsa_argument_query api w cc SERVER_DETAILS_ON_NAME args (Some [])) (\<lambda>w server.
         shown (ailsa_argument_query api w cc SERVICES_ON_SERVER args (Some [])) (\<lambda>w services.
         shown (ailsa_argument_query api w cc HARDWARE_ON_SERVER args (Some [])) (\<lambda>w hardware.
         if length server = 0 then Some (w, [])
         else do {
           name \<leftarrow> ccl_name cl;
           details \<leftarrow> cmdb_display_server_details pw (Some server);
           service \<leftarrow> cmdb_display_services (Some services);
           hard \<leftarrow> cmdb_display_hardware (Some hardware);
           Some (w, ''Details for server '' @ name @ '':'' @ nl @ details @
             (if length services > 0 then ''Services:'' @ nl @ service else ''No Services'' @ nl) @
             (if length hardware > 0 then ''Hardware:'' @ nl @ hard else ''No Hardware'' @ nl))
         })))))"

definition cmdb_list_services_for_server ::
  "'db sqlite3_api \<Rightarrow> cmdb_comm_line_s option \<Rightarrow> ailsa_cmdb_s option \<Rightarrow> 'db world \<Rightarrow> ('db world \<times> string) option" where
  "cmdb_list_services_for_server api cm cc w = (case cm of None \<Rightarrow> Some (w, []) | Some cl \<Rightarrow>
     if cc = None then Some (w, [])
     else (case cmdb_add_string_to_list (ccl_name cl) (Some []) of (retval, args) \<Rightarrow>
       if retval \<noteq> 0 then Some (w, [])
       else shown (ailsa_argument_query api w cc SERVICES_ON_SERVER args (Some [])) (\<lambda>w results.
         if length results = 0 then Some (w, [])
         else do {
           name \<leftarrow> ccl_name cl;
           lines \<leftarrow> cmdb_display_services (Some results);
           Some (w, ''Services for server '' @ name @ '':'' @ nl @ lines)
         })))"

definition cmdb_list_hardware_for_server ::
  "'db sqlite3_api \<Rightarrow> cmdb_comm_line_s option \<Rightarrow> ailsa_cmdb_s option \<Rightarrow> 'db world \<Rightarrow> ('db world \<times> string) option" where
  "cmdb_list_hardware_for_server api cm cc w = (case cm of None \<Rightarrow> Some (w, []) | Some cl \<Rightarrow>
     if cc = None then Some (w, [])
     else (case cmdb_add_string_to_list (ccl_name cl) (Some []) of (retval, args) \<Rightarrow>
       if retval \<noteq> 0 then Some (w, [])
       else shown (ailsa_argument_query api w cc HARDWARE_ON_SERVER args (Some [])) (\<lambda>w results.
         if length results = 0 then Some (w, [])
         else do {
           name \<leftarrow> ccl_name cl;
           lines \<leftarrow> cmdb_display_hardware (Some results);
           Some (w, ''Hardware for server '' @ name @ '':'' @ nl @ lines)
         })))"

text \<open>In the lists of pairs a single last element ends the listing.\<close>

fun pair_lines :: "(string \<Rightarrow> string \<Rightarrow> string) \<Rightarrow> ailsa_data list \<Rightarrow> string option" where
  "pair_lines line (x # y # rest) = do {
     one \<leftarrow> text_of x;
     two \<leftarrow> text_of y;
     others \<leftarrow> pair_lines line rest;
     Some (line one two @ others)
   }"
| "pair_lines line _ = Some []"

definition list_pairs ::
  "'db sqlite3_api \<Rightarrow> ailsa_cmdb_s option \<Rightarrow> nat \<Rightarrow> string \<Rightarrow> (string \<Rightarrow> string \<Rightarrow> string) \<Rightarrow> 'db world \<Rightarrow>
   ('db world \<times> string) option" where
  "list_pairs api cc query title line w =
    (if cc = None then Some (w, [])
     else shown (ailsa_basic_query api w cc query (Some [])) (\<lambda>w list.
       if length list = 0 then Some (w, [])
       else do { lines \<leftarrow> pair_lines line list; Some (w, title @ nl @ lines) }))"

definition cmdb_list_service_types :: "'db sqlite3_api \<Rightarrow> ailsa_cmdb_s option \<Rightarrow> 'db world \<Rightarrow> ('db world \<times> string) option" where
  "cmdb_list_service_types api cc = list_pairs api cc SERVICE_TYPES_ALL ''Service Types:''
     (\<lambda>name type. '' '' @ name @ tabs 2 @ type @ nl)"

definition cmdb_list_hardware_types :: "'db sqlite3_api \<Rightarrow> ailsa_cmdb_s option \<Rightarrow> 'db world \<Rightarrow> ('db world \<times> string) option" where
  "cmdb_list_hardware_types api cc = list_pairs api cc HARDWARE_TYPES_ALL ''Hardware Types:''
     (\<lambda>hclass type. '' '' @ hclass @ (if length hclass > 6 then tab else tabs 2) @ type @ nl)"

definition cmdb_list_vm_server_hosts :: "'db sqlite3_api \<Rightarrow> ailsa_cmdb_s option \<Rightarrow> 'db world \<Rightarrow> ('db world \<times> string) option" where
  "cmdb_list_vm_server_hosts api cc = list_pairs api cc VM_SERVERS ''Virtual Machine hosts:''
     (\<lambda>name type. '' '' @ name @ '', type '' @ type @ nl)"

fun built_vm_lines :: "ailsa_data list \<Rightarrow> string option" where
  "built_vm_lines [] = Some []"
| "built_vm_lines (n # v # rest) = do {
     name \<leftarrow> text_of n;
     varient \<leftarrow> text_of v;
     others \<leftarrow> built_vm_lines rest;
     Some (''  '' @ name @ '' built as '' @ varient @ nl @ others)
   }"
| "built_vm_lines _ = None"

definition cmdb_display_built_vms :: "db_list \<Rightarrow> string option" where
  "cmdb_display_built_vms list = (case list of None \<Rightarrow> Some [] | Some rows \<Rightarrow> built_vm_lines rows)"

definition cmdb_display_vm_server ::
  "'db sqlite3_api \<Rightarrow> cmdb_comm_line_s option \<Rightarrow> ailsa_cmdb_s option \<Rightarrow> 'db world \<Rightarrow> ('db world \<times> string) option" where
  "cmdb_display_vm_server api cm cc w = (case cm of None \<Rightarrow> Some (w, []) | Some cl \<Rightarrow>
     if cc = None then Some (w, [])
     else (case cmdb_add_string_to_list (ccl_name cl) (Some []) of (retval, args) \<Rightarrow>
       if retval \<noteq> 0 then Some (w, [])
       else shown (ailsa_argument_query api w cc VM_HOST_BUILT_SERVERS args (Some [])) (\<lambda>w results.
         if length results = 0 then Some (w, [])
         else do {
           name \<leftarrow> ccl_name cl;
           lines \<leftarrow> cmdb_display_built_vms (Some results);
           Some (w, ''VM host '' @ name @ '' built virtual machines:'' @ nl @ lines)
         })))"

end
