(* ===== verification/Cmdb_Main.thy ===== *)
theory Cmdb_Main
  imports Cmdb_Servers Command_Errors
begin

text \<open>
  src/cmdb.c: \<open>main\<close> of the server and customer command.  The result is the value \<open>main\<close> returns or exits with, the text that was
  printed and the database connection; \<open>None\<close> is a crash.  The configuration is the parameter \<open>cc\<close>.
\<close>

type_synonym 'db cmdb_result = "(int \<times> string \<times> 'db world) option"

definition coded :: "(int \<times> 'db world) option \<Rightarrow> 'db cmdb_result" where
  "coded r = map_option (\<lambda>(retval, w). (retval, [], w)) r"

definition listed :: "('db world \<times> string) option \<Rightarrow> 'db cmdb_result" where
  "listed r = map_option (\<lambda>(w, text). (0, text, w)) r"

text \<open>Where the code of the operation is dropped.\<close>

definition uncoded :: "(int \<times> 'db world) option \<Rightarrow> 'db cmdb_result" where
  "uncoded r = map_option (\<lambda>(retval, w). (0, [], w)) r"

definition wrong_action :: "'db world \<Rightarrow> 'db cmdb_result" where
  "wrong_action w = Some (AILSA_WRONG_TYPE, [], w)"

definition cmdb_server_actions ::
  "'db sqlite3_api \<Rightarrow> u32 \<Rightarrow> (u32 \<Rightarrow> string option) \<Rightarrow> cmdb_comm_line_s \<Rightarrow> ailsa_cmdb_s option \<Rightarrow> 'db world \<Rightarrow> 'db cmdb_result" where
  "cmdb_server_actions api uid pw cm cc w =
    (if cc = None then Some (AILSA_NO_DATA, [], w)
     else if ccl_action cm = CMDB_ADD then coded (cmdb_add_server_to_database api uid (Some cm) cc w)
     else if ccl_action cm = CMDB_LIST then listed (cmdb_list_servers api cc w)
     else if ccl_action cm = CMDB_DISPLAY then listed (cmdb_display_server api pw (Some cm) cc w)
     else if ccl_action cm = CMDB_RM then coded (cmdb_remove_server_from_database api (Some cm) cc w)
     else wrong_action w)"

definition cmdb_customer_actions ::
  "'db sqlite3_api \<Rightarrow> u32 \<Rightarrow> (u32 \<Rightarrow> string option) \<Rightarrow> cmdb_comm_line_s \<Rightarrow> ailsa_cmdb_s option \<Rightarrow> 'db world \<Rightarrow> 'db cmdb_result" where
  "cmdb_customer_actions api uid pw cm cc w =
    (if cc = None then Some (AILSA_NO_DATA, [], w)
     else if ccl_action cm = CMDB_ADD then coded (cmdb_add_customer_to_database api uid (Some cm) cc w)
     else if ccl_action cm = CMDB_LIST then listed (cmdb_list_customers api cc w)
     else if ccl_action cm = CMDB_DISPLAY then listed (cmdb_display_customer api pw (Some cm) cc w)
     else if ccl_action cm = CMDB_DEFAULT then coded (cmdb_set_default_customer api uid (Some cm) cc w)
     else if ccl_action cm = CMDB_VIEW_DEFAULT then listed (cmdb_display_default_customer api cc w)
     else if ccl_action cm = CMDB_RM then coded (cmdb_remove_customer_from_database api (Some cm) cc w)
     else wrong_action w)"

definition cmdb_contact_actions ::
  "'db sqlite3_api \<Rightarrow> u32 \<Rightarrow> cmdb_comm_line_s \<Rightarrow> ailsa_cmdb_s option \<Rightarrow> 'db world \<Rightarrow> 'db cmdb_result" where
  "cmdb_contact_actions api uid cm cc w =
    (if cc = None then Some (AILSA_NO_DATA, [], w)
     else if ccl_action cm = CMDB_ADD then coded (cmdb_add_contacts_to_database api uid (Some cm) cc w)
     else if ccl_action cm = CMDB_LIST then listed (cmdb_list_contacts_for_customer api (Some cm) cc w)
     else wrong_action w)"

definition cmdb_service_actions ::
  "'db sqlite3_api \<Rightarrow> u32 \<Rightarrow> cmdb_comm_line_s \<Rightarrow> ailsa_cmdb_s option \<Rightarrow> 'db world \<Rightarrow> 'db cmdb_result" where
  "cmdb_service_actions api uid cm cc w =
    (if cc = None then Some (AILSA_NO_DATA, [], w)
     else if ccl_action cm = CMDB_LIST then listed (cmdb_list_services_for_server api (Some cm) cc w)
     else if ccl_action cm = CMDB_ADD then uncoded (cmdb_add_services_to_database api uid (Some cm) cc w)
     else wrong_action w)"

definition cmdb_hardware_actions ::
  "'db sqlite3_api \<Rightarrow> u32 \<Rightarrow> cmdb_comm_line_s \<Rightarrow> ailsa_cmdb_s option \<Rightarrow> 'db world \<Rightarrow> 'db cmdb_result" where
  "cmdb_hardware_actions api uid cm cc w =
    (if cc = None then Some (AILSA_NO_DATA, [], w)
     else if ccl_action cm = CMDB_LIST then listed (cmdb_list_hardware_for_server api (Some cm) cc w)
     else if ccl_action cm = CMDB_ADD then uncoded (cmdb_add_hardware_to_database api uid (Some cm) cc w)
     else wrong_action w)"

definition cmdb_vm_host_actions ::
  "'db sqlite3_api \<Rightarrow> u32 \<Rightarrow> cmdb_comm_line_s \<Rightarrow> ailsa_cmdb_s option \<Rightarrow> 'db world \<Rightarrow> 'db cmdb_result" where
  "cmdb_vm_host_actions api uid cm cc w =
    (if cc = None then Some (AILSA_NO_DATA, [], w)
     else if ccl_action cm = CMDB_LIST then listed (cmdb_list_vm_server_hosts api cc w)
     else if ccl_action cm = CMDB_DISPLAY then listed (cmdb_display_vm_server api (Some cm) cc w)
     else if ccl_action cm = CMDB_ADD then coded (cmdb_add_vm_host_to_database api uid (Some cm) cc w)
     else wrong_action w)"

definition cmdb_service_type_actions ::
  "'db sqlite3_api \<Rightarrow> cmdb_comm_line_s \<Rightarrow> ailsa_cmdb_s option \<Rightarrow> 'db world \<Rightarrow> 'db cmdb_result" where
  "cmdb_service_type_actions api cm cc w =
    (if cc = None then Some (AILSA_NO_DATA, [], w)
     else if ccl_action cm = CMDB_LIST then listed (cmdb_list_service_types api cc w)
     else if ccl_action cm = CMDB_ADD then coded (cmdb_add_service_type_to_database api (Some cm) cc w)
     else wrong_action w)"

definition cmdb_hardware_type_actions ::
  "'db sqlite3_api \<Rightarrow> cmdb_comm_line_s \<Rightarrow> ailsa_cmdb_s option \<Rightarrow> 'db world \<Rightarrow> 'db cmdb_result" where
  "cmdb_hardware_type_actions api cm cc w =
    (if cc = None then Some (AILSA_NO_DATA, [], w)
     else if ccl_action cm = CMDB_LIST then listed (cmdb_list_hardware_types api cc w)
     else if ccl_action cm = CMDB_ADD then coded (cmdb_add_hardware_type_to_database api (Some cm) cc w)
     else wrong_action w)"

definition cmdb_dispatch ::
  "'db sqlite3_api \<Rightarrow> u32 \<Rightarrow> (u32 \<Rightarrow> string option) \<Rightarrow> cmdb_comm_line_s \<Rightarrow> ailsa_cmdb_s option \<Rightarrow> 'db world \<Rightarrow> 'db cmdb_result" where
  "cmdb_dispatch api uid pw cm cc w =
    (if ccl_type cm = SERVER then cmdb_server_actions api uid pw cm cc w
     else if ccl_type cm = CUSTOMER then cmdb_customer_actions api uid pw cm cc w
     else if ccl_type cm = CONTACT then cmdb_contact_actions api uid cm cc w
     else if ccl_type cm = SERVICE then cmdb_service_actions api uid cm cc w
     else if ccl_type cm = SERVICE_TYPE then cmdb_service_type_actions api cm cc w
     else if ccl_type cm = HARDWARE then cmdb_hardware_actions api uid cm cc w
     else if ccl_type cm = HARDWARE_TYPE then cmdb_hardware_type_actions api cm cc w
     else if ccl_type cm = VM_HOST then cmdb_vm_host_actions api uid cm cc w
     else Some (0, [], w))"

definition cmdb_main ::
  "string \<Rightarrow> string \<Rightarrow> 'db sqlite3_api \<Rightarrow> u32 \<Rightarrow> (u32 \<Rightarrow> string option) \<Rightarrow> string \<Rightarrow> ailsa_cmdb_s option \<Rightarrow>
   (char \<times> string) list \<Rightarrow> 'db world \<Rightarrow> 'db cmdb_result" where
  "cmdb_main version prog api uid pw uuid cc options w = do {
     (retval, cm) \<leftarrow> parse_cmdb_command_line uuid options cmdb_line_zero;
     if retval \<noteq> 0
     then (case display_command_line_error version retval prog of (out, err, code) \<Rightarrow> Some (code, out, w))
     else cmdb_dispatch api uid pw cm cc w
   }"

end
