(* ===== verification/Cmdb_Accepted.thy ===== *)
theory Cmdb_Accepted
  imports Command_Errors
begin

text \<open>
  What an accepted command line of the server and customer command has, and what a refused one reports: the
  codes of src/cmdb.c and their messages in lib/errors.c.
\<close>

subsection \<open>Texts that are there\<close>

definition cmdb_add_texts :: "cmdb_comm_line_s \<Rightarrow> bool" where
  "cmdb_add_texts cl \<longleftrightarrow>
     (ccl_type cl = SERVER \<longrightarrow> ccl_name cl \<noteq> None \<and> ccl_make cl \<noteq> None \<and> ccl_model cl \<noteq> None \<and>
        ccl_vendor cl \<noteq> None \<and> ccl_uuid cl \<noteq> None) \<and>
     (ccl_type cl = CUSTOMER \<longrightarrow> ccl_fullname cl \<noteq> None \<and> ccl_coid cl \<noteq> None) \<and>
     (ccl_type cl = CONTACT \<longrightarrow> ccl_fullname cl \<noteq> None \<and> ccl_email cl \<noteq> None \<and> ccl_phone cl \<noteq> None) \<and>
     (ccl_type cl = SERVICE_TYPE \<longrightarrow> ccl_detail cl \<noteq> None \<and> ccl_service cl \<noteq> None) \<and>
     (ccl_type cl = HARDWARE_TYPE \<longrightarrow> ccl_hclass cl \<noteq> None \<and> ccl_shtype cl \<noteq> None) \<and>
     (ccl_type cl = VM_HOST \<longrightarrow> ccl_name cl \<noteq> None \<and> ccl_shtype cl \<noteq> None) \<and>
     (ccl_type cl = HARDWARE \<longrightarrow> ccl_name cl \<noteq> None \<and> ccl_detail cl \<noteq> None \<and> ccl_device cl \<noteq> None \<and>
        (ccl_hclass cl \<noteq> None \<or> ccl_sid cl \<noteq> 0)) \<and>
     (ccl_type cl = SERVICE \<longrightarrow> ccl_name cl \<noteq> None \<and> ccl_detail cl \<noteq> None \<and> ccl_url cl \<noteq> None \<and>
        ccl_service cl \<noteq> None)"

definition cmdb_look_texts :: "cmdb_comm_line_s \<Rightarrow> bool" where
  "cmdb_look_texts cl \<longleftrightarrow>
     (ccl_action cl = CMDB_LIST \<longrightarrow>
        (ccl_type cl = CONTACT \<longrightarrow> ccl_id cl \<noteq> None \<or> ccl_coid cl \<noteq> None) \<and>
        (ccl_type cl \<in> {SERVICE, HARDWARE} \<longrightarrow> ccl_id cl \<noteq> None \<or> ccl_name cl \<noteq> None)) \<and>
     (ccl_action cl = CMDB_DISPLAY \<longrightarrow> ccl_type cl \<in> {SERVER, CUSTOMER, VM_HOST} \<and>
        (if ccl_type cl = CUSTOMER then ccl_coid cl \<noteq> None else ccl_name cl \<noteq> None)) \<and>
     (ccl_action cl = CMDB_VIEW_DEFAULT \<longrightarrow> ccl_type cl = CUSTOMER) \<and>
     (ccl_action cl = CMDB_DEFAULT \<longrightarrow> ccl_type cl = CUSTOMER \<and> ccl_coid cl \<noteq> None)"

definition cmdb_texts_ok :: "cmdb_comm_line_s \<Rightarrow> bool" where
  "cmdb_texts_ok cl \<longleftrightarrow> ccl_action cl \<noteq> NONE \<and> ccl_action cl \<noteq> AILSA_VERSION \<and> ccl_type cl \<noteq> NONE \<and>
     (ccl_action cl = CMDB_ADD \<longrightarrow> cmdb_add_texts cl) \<and> cmdb_look_texts cl \<and>
     (ccl_action cl = CMDB_RM \<and> ccl_type cl \<in> {SERVER, HARDWARE} \<longrightarrow> ccl_name cl \<noteq> None)"

lemma add_server_ok:
  "check_cmdb_add_server uuid cl = (0, cl') \<Longrightarrow> ccl_type cl = SERVER \<Longrightarrow> cmdb_add_texts cl' \<and>
     ccl_type cl' = ccl_type cl \<and> ccl_action cl' = ccl_action cl"
  by (auto simp: check_cmdb_add_server_def cmdb_add_texts_def or_none_def split: if_splits option.splits)

lemma add_customer_ok:
  "check_cmdb_add_customer cl = (0, cl') \<Longrightarrow> ccl_type cl = CUSTOMER \<Longrightarrow> cmdb_add_texts cl' \<and>
     ccl_type cl' = ccl_type cl \<and> ccl_action cl' = ccl_action cl"
  by (auto simp: check_cmdb_add_customer_def cmdb_add_texts_def split: if_splits)

lemma add_other_ok:
  "check_cmdb_add_other cl = 0 \<Longrightarrow> ccl_type cl \<notin> {SERVER, CUSTOMER} \<Longrightarrow> cmdb_add_texts cl"
  by (auto simp: check_cmdb_add_other_def cmdb_add_texts_def split: if_splits)

lemma check_add_ok:
  "check_cmdb_add uuid cl = (0, cl') \<Longrightarrow> cmdb_add_texts cl' \<and> ccl_type cl' = ccl_type cl \<and>
     ccl_action cl' = ccl_action cl"
  using add_server_ok add_customer_ok add_other_ok
  by (auto simp: check_cmdb_add_def split: if_splits)

lemma check_look_ok:
  "ccl_action cl = CMDB_LIST \<Longrightarrow> check_cmdb_list cl = 0 \<Longrightarrow> cmdb_look_texts cl"
  "ccl_action cl = CMDB_DISPLAY \<Longrightarrow> check_cmdb_display cl = 0 \<Longrightarrow> cmdb_look_texts cl"
  by (auto simp: check_cmdb_list_def check_cmdb_display_def cmdb_look_texts_def split: if_splits)

lemma check_rm_ok:
  "check_cmdb_rm cl = 0 \<Longrightarrow> ccl_type cl \<in> {SERVER, HARDWARE} \<longrightarrow> ccl_name cl \<noteq> None"
  by (auto simp: check_cmdb_rm_def split: if_splits)

lemma check_options_ok:
  assumes "check_cmdb_comm_options uuid cl = (0, cl')" shows "cmdb_texts_ok cl'"
proof (cases "ccl_action cl = CMDB_ADD")
  case True
  then have "check_cmdb_add uuid cl = (0, cl')" "ccl_type cl \<noteq> 0"
    using assms by (auto simp: check_cmdb_comm_options_def split: if_splits)
  then show ?thesis
    using check_add_ok [of uuid cl cl'] True by (auto simp: cmdb_texts_ok_def cmdb_look_texts_def)
next
  case False
  then have "cl' = cl" and ok: "ccl_action cl \<noteq> NONE" "ccl_action cl \<noteq> AILSA_VERSION" "ccl_type cl \<noteq> NONE"
    "ccl_action cl = CMDB_LIST \<Longrightarrow> check_cmdb_list cl = 0"
    "ccl_action cl = CMDB_DISPLAY \<Longrightarrow> check_cmdb_display cl = 0"
    "ccl_action cl = CMDB_VIEW_DEFAULT \<Longrightarrow> ccl_type cl = CUSTOMER"
    "ccl_action cl = CMDB_DEFAULT \<Longrightarrow> ccl_type cl = CUSTOMER \<and> ccl_coid cl \<noteq> None"
    "ccl_action cl = CMDB_RM \<Longrightarrow> check_cmdb_rm cl = 0"
    using assms by (auto simp: check_cmdb_comm_options_def split: if_splits)
  moreover have "cmdb_look_texts cl"
    using ok check_look_ok [of cl] by (auto simp: cmdb_look_texts_def)
  ultimately show ?thesis using False check_rm_ok [of cl] by (auto simp: cmdb_texts_ok_def)
qed

subsection \<open>Texts that fit their patterns\<close>

definition fits :: "cstr \<Rightarrow> nat \<Rightarrow> bool" where
  "fits s test \<longleftrightarrow> s = None \<or> ailsa_validate_input s test = Some 0"

definition cmdb_texts_fit :: "cmdb_comm_line_s \<Rightarrow> bool" where
  "cmdb_texts_fit cl \<longleftrightarrow>
     (fits (ccl_vmhost cl) DOMAIN_REGEX \<or> fits (ccl_vmhost cl) NAME_REGEX) \<and>
     (fits (ccl_detail cl) MAC_REGEX \<or> fits (ccl_detail cl) ADDRESS_REGEX \<or> fits (ccl_detail cl) CUSTOMER_REGEX) \<and>
     list_all (\<lambda>(s, test). fits s test)
       [(ccl_vendor cl, CUSTOMER_REGEX), (ccl_make cl, CUSTOMER_REGEX), (ccl_model cl, CUSTOMER_REGEX),
        (ccl_uuid cl, UUID_REGEX), (ccl_name cl, NAME_REGEX), (ccl_fullname cl, CUSTOMER_REGEX),
        (ccl_address cl, ADDRESS_REGEX), (ccl_city cl, ADDRESS_REGEX), (ccl_email cl, EMAIL_REGEX),
        (ccl_hclass cl, CUSTOMER_REGEX), (ccl_url cl, URL_REGEX), (ccl_device cl, DEV_REGEX),
        (ccl_phone cl, PHONE_REGEX), (ccl_postcode cl, POSTCODE_REGEX), (ccl_county cl, ADDRESS_REGEX),
        (ccl_coid cl, COID_REGEX), (ccl_service cl, NAME_REGEX), (ccl_shtype cl, ADDRESS_REGEX)]"

lemma given_fits: "given s (unfit s test) = Some False \<Longrightarrow> fits s test"
  by (cases s) (auto simp: unfit_def fits_def)

lemma unless_fit_zero:
  "unless_fit s test code rest = Some 0 \<Longrightarrow> code \<noteq> 0 \<Longrightarrow> fits s test \<and> rest = Some 0"
  using refuse_zero given_fits unfolding unless_fit_def by blast

lemma given_or:
  "given s (c_and (unfit s test) c) = Some False \<Longrightarrow> fits s test \<or> given s c = Some False"
  by (cases s; cases "unfit s test") (auto simp: unfit_def fits_def c_and_def split: if_splits)

lemma validated_fits:
  assumes "validate_cmdb_comm_line cl = Some 0" shows "cmdb_texts_fit cl"
  using assms unfolding validate_cmdb_comm_line_def
  apply -
  apply ((drule refuse_zero unless_fit_zero, simp (no_asm), erule conjE)+)
  apply (drule given_or)+
  apply (simp only: cmdb_texts_fit_def list.pred_inject prod.case simp_thms)
  apply (fastforce dest: given_or given_fits)
  done

subsection \<open>Codes of the checks\<close>

text \<open>A text is checked only when it is there, so no check crashes.\<close>

lemma given_unfit_defined: "test < length regexps \<Longrightarrow> given s (unfit s test) \<noteq> None"
  by (cases s) (auto simp: unfit_def ailsa_validate_input_def ailsa_validate_string_def split: option.splits)

lemma given_or_defined:
  "test < length regexps \<Longrightarrow> given s c \<noteq> None \<Longrightarrow> given s (c_and (unfit s test) c) \<noteq> None"
  using given_unfit_defined [of test s] by (cases s) (auto simp: c_and_def)

lemma refuse_in: "c \<noteq> None \<Longrightarrow> code \<in> S \<Longrightarrow> rest \<in> Some ` S \<Longrightarrow> refuse c code rest \<in> Some ` S"
  by (auto simp: refuse_def)

lemma unless_fit_in:
  "test < length regexps \<Longrightarrow> code \<in> S \<Longrightarrow> rest \<in> Some ` S \<Longrightarrow> unless_fit s test code rest \<in> Some ` S"
  unfolding unless_fit_def by (intro refuse_in given_unfit_defined)

definition text_codes :: "int list" where
  "text_codes = [VMHOST_INVALID, VENDOR_INVALID, MAKE_INVALID, MODEL_INVALID, UUID_INPUT_INVALID, SERVER_NAME_INVALID,
     CUSTOMER_NAME_INVALID, ADDRESS_INVALID, CITY_INVALID, EMAIL_ADDRESS_INVALID, DETAIL_INVALID, HCLASS_INVALID,
     URL_INVALID, DEVICE_INVALID, PHONE_NUMBER_INVALID, POSTCODE_INVALID, COUNTY_INVALID, COID_INVALID,
     SERVICE_INPUT_INVALID, TYPE_INVALID]"

definition check_codes :: "int list" where
  "check_codes = [AILSA_DISPLAY_USAGE, AILSA_VERSION, AILSA_NO_ACTION, AILSA_NO_TYPE, AILSA_NO_COID,
     AILSA_NO_NAME_OR_ID, AILSA_NO_NAME, AILSA_NO_FULLNAME, AILSA_NO_CONTACT_NAME, AILSA_NO_EMAIL_ADDRESS,
     AILSA_NO_PHONE_NUMBER, AILSA_NO_DETAIL, AILSA_NO_SERVICE, AILSA_NO_CLASS, AILSA_NO_VHOST_TYPE, AILSA_NO_DEVICE,
     AILSA_NO_ID_OR_CLASS, AILSA_NO_SERVICE_URL, AILSA_WRONG_TYPE_DISPLAY, AILSA_WRONG_TYPE, AILSA_NO_DEVICE_DETAIL]"

lemma validated_code: "validate_cmdb_comm_line cl \<in> Some ` insert 0 (set text_codes)"
  unfolding validate_cmdb_comm_line_def
  by (intro unless_fit_in refuse_in given_or_defined given_unfit_defined)
    (simp_all add: length_regexps text_codes_def)

lemma value_if: "(b \<Longrightarrow> x \<in> S) \<Longrightarrow> (\<not> b \<Longrightarrow> y \<in> S) \<Longrightarrow> (if b then x else y) \<in> S"
  by simp

lemma add_codes:
  "check_cmdb_add_other cl \<in> insert 0 (set check_codes)"
  "fst (check_cmdb_add_server uuid cl) \<in> insert 0 (set check_codes)"
  "fst (check_cmdb_add_customer cl) \<in> insert 0 (set check_codes)"
  unfolding check_cmdb_add_other_def check_cmdb_add_server_def check_cmdb_add_customer_def if_distrib [of fst] fst_conv
  by ((intro value_if; simp add: check_codes_def))+

lemma look_codes:
  "check_cmdb_list cl \<in> insert 0 (set check_codes)" "check_cmdb_display cl \<in> insert 0 (set check_codes)"
  "check_cmdb_rm cl \<in> insert 0 (set check_codes)"
  unfolding check_cmdb_list_def check_cmdb_display_def check_cmdb_rm_def
  by ((intro value_if; simp add: check_codes_def))+

lemma code_if: "(b \<Longrightarrow> fst x \<in> S) \<Longrightarrow> (\<not> b \<Longrightarrow> fst y \<in> S) \<Longrightarrow> fst (if b then x else y) \<in> S"
  by simp

lemma checked_code: "fst (check_cmdb_comm_options uuid cl) \<in> insert 0 (set check_codes)"
  unfolding check_cmdb_comm_options_def check_cmdb_add_def
  by (intro code_if add_codes; simp only: fst_conv; (intro look_codes add_codes)?; simp add: check_codes_def)

lemma options_code: "fst (cmdb_options options cl) \<in> {0, AILSA_DISPLAY_USAGE}"
  by (induction options cl rule: cmdb_options.induct) (auto split: option.splits)

lemma parsed_code:
  "\<exists>r cm. parse_cmdb_command_line uuid options cl = Some (r, cm) \<and>
     r \<in> insert 0 (set check_codes \<union> set text_codes)"
proof -
  obtain r1 cl1 where o1: "cmdb_options options cl = (r1, cl1)" by (cases "cmdb_options options cl")
  obtain r2 cl2 where o2: "check_cmdb_comm_options uuid cl1 = (r2, cl2)"
    by (cases "check_cmdb_comm_options uuid cl1")
  obtain r3 where o3: "validate_cmdb_comm_line cl2 = Some r3" "r3 \<in> insert 0 (set text_codes)"
    using validated_code [of cl2] by auto
  have "r1 \<in> insert 0 (set check_codes)" using options_code [of options cl] o1 by (auto simp: check_codes_def)
  moreover have "r2 \<in> insert 0 (set check_codes)" using checked_code [of uuid cl1] o2 by simp
  ultimately show ?thesis using o1 o2 o3 by (auto simp: parse_cmdb_command_line_def)
qed

subsection \<open>Messages\<close>

text \<open>A code has a message of its own when the usage is printed, or a text other than those for unknown codes.\<close>

definition own_message :: "string \<Rightarrow> string \<Rightarrow> int \<Rightarrow> bool" where
  "own_message version program r \<longleftrightarrow> r = AILSA_DISPLAY_USAGE \<or>
     (case command_line_message version program r of
        None \<Rightarrow> False
      | Some (channel, text) \<Rightarrow> text \<noteq> ''Input validation failed: Unknown command line error'')"

definition speechless :: "int list" where
  "speechless = [AILSA_WRONG_TYPE, AILSA_NO_DEVICE_DETAIL, MODEL_INVALID, DEVICE_INVALID, PHONE_NUMBER_INVALID,
     POSTCODE_INVALID, COUNTY_INVALID, COID_INVALID]"

lemma check_messages:
  "list_all (\<lambda>r. r = AILSA_VERSION \<or> (own_message version program r \<longleftrightarrow> r \<notin> set speechless)) check_codes"
  by (simp add: check_codes_def speechless_def own_message_def command_line_message_def nl_def)

lemma text_messages:
  "list_all (\<lambda>r. own_message version program r \<longleftrightarrow> r \<notin> set speechless) text_codes"
  by (simp add: text_codes_def speechless_def own_message_def command_line_message_def ailsa_comm_line_strerror_def nl_def)

end
