(* ===== verification/Cmdb_Specs.thy ===== *)
theory Cmdb_Specs
  imports Cmdb_Main Cmdb_Accepted Dnsa_Specs
begin

text \<open>
  What the server and customer command promises as a whole, from its options to the database: what it
  accepts and reports, what it adds and removes, and that looking changes nothing.  The operations that add a row
  meet one contract, stated as a locale.
\<close>

subsection \<open>From the options to the operation\<close>

lemma cmdb_main_parsed:
  "parse_cmdb_command_line uuid options cmdb_line_zero = Some (0, cm) \<Longrightarrow>
     cmdb_main version prog api uid pw uuid cc options w = cmdb_dispatch api uid pw cm cc w"
  "parse_cmdb_command_line uuid options cmdb_line_zero = Some (r, cm) \<Longrightarrow> r \<noteq> 0 \<Longrightarrow>
     cmdb_main version prog api uid pw uuid cc options w =
       Some (snd (snd (display_command_line_error version r prog)), fst (display_command_line_error version r prog), w)"
  by (simp_all add: cmdb_main_def split_def)

lemma error_code: "snd (snd (display_command_line_error version r prog)) = (if r = AILSA_DISPLAY_USAGE then 0 else r)"
proof -
  have "command_line_message version program AILSA_DISPLAY_USAGE = None" for program
    by (simp add: command_line_message_def)
  then show ?thesis by (auto simp: display_command_line_error_def Let_def split: option.split)
qed

lemma parse_accepted:
  assumes "parse_cmdb_command_line uuid options cmdb_line_zero = Some (0, cm)"
  shows "\<exists>cl. cmdb_options options cmdb_line_zero = (0, cl) \<and> check_cmdb_comm_options uuid cl = (0, cm) \<and>
    validate_cmdb_comm_line cm = Some 0"
proof -
  obtain r1 cl1 r2 cl2 where p: "cmdb_options options cmdb_line_zero = (r1, cl1)"
    "check_cmdb_comm_options uuid cl1 = (r2, cl2)"
    by (metis surj_pair)
  then have "r1 = 0" "r2 = 0" "cl2 = cm" "validate_cmdb_comm_line cl2 = Some 0"
    using assms by (auto simp: parse_cmdb_command_line_def split: if_splits)
  then show ?thesis using p by (intro exI [of _ cl1]) simp
qed

lemma untexted_valid:
  "validate_cmdb_comm_line (cmdb_line_zero\<lparr>ccl_action := a, ccl_type := t\<rparr>) = Some 0"
  by (simp add: validate_cmdb_comm_line_def unless_fit_def cmdb_line_zero_def)

subsection \<open>Looking changes nothing\<close>

lemma lines_same_db: "same_db (w_db w) (do { x \<leftarrow> m; Some (w, f x) })"
  by (intro same_db_steps)

lemma list_pairs_same_db: "same_db (w_db w) (list_pairs api cc query title line w)"
  unfolding list_pairs_def by (intro same_db_steps)

lemma listing_same_db:
  "same_db (w_db w) (cmdb_list_customers api cc w)" "same_db (w_db w) (cmdb_list_servers api cc w)"
  "same_db (w_db w) (cmdb_display_default_customer api cc w)"
  "same_db (w_db w) (cmdb_list_service_types api cc w)" "same_db (w_db w) (cmdb_list_hardware_types api cc w)"
  "same_db (w_db w) (cmdb_list_vm_server_hosts api cc w)"
  unfolding cmdb_list_customers_def cmdb_list_servers_def cmdb_display_default_customer_def
    cmdb_list_service_types_def cmdb_list_hardware_types_def cmdb_list_vm_server_hosts_def
  by (intro same_db_steps list_pairs_same_db; (split list.split)?; auto intro: same_db_steps split: list.split)+

lemma display_same_db:
  "same_db (w_db w) (cmdb_list_contacts_for_customer api cm cc w)"
  "same_db (w_db w) (cmdb_display_customer api pw cm cc w)"
  "same_db (w_db w) (cmdb_display_server api pw cm cc w)"
  "same_db (w_db w) (cmdb_list_services_for_server api cm cc w)"
  "same_db (w_db w) (cmdb_list_hardware_for_server api cm cc w)"
  "same_db (w_db w) (cmdb_display_vm_server api cm cc w)"
  unfolding cmdb_list_contacts_for_customer_def cmdb_display_customer_def cmdb_display_server_def
    cmdb_list_services_for_server_def cmdb_list_hardware_for_server_def cmdb_display_vm_server_def
  by (cases cm; simp only: opened_up; intro same_db_steps; assumption)+

lemma listed_same: "same_db (w_db w) m \<Longrightarrow> listed m = Some (r, t, w') \<Longrightarrow> r = 0 \<and> w_db w' = w_db w"
  by (auto simp: listed_def same_db_def)

lemmas looked = listing_same_db [THEN listed_same] display_same_db [THEN listed_same]

lemmas actions = cmdb_server_actions_def cmdb_customer_actions_def cmdb_contact_actions_def cmdb_service_actions_def
  cmdb_service_type_actions_def cmdb_hardware_actions_def cmdb_hardware_type_actions_def cmdb_vm_host_actions_def

lemma looking_dispatch:
  assumes "cmdb_texts_ok cm" "ccl_action cm \<in> {CMDB_LIST, CMDB_DISPLAY, CMDB_VIEW_DEFAULT}"
    and "cmdb_dispatch api uid pw cm (Some cc) w = Some (r, t, w')"
  shows "r = 0 \<and> w_db w' = w_db w"
proof -
  have "ccl_action cm = CMDB_VIEW_DEFAULT \<longrightarrow> ccl_type cm = CUSTOMER"
    "ccl_action cm = CMDB_DISPLAY \<longrightarrow> ccl_type cm \<in> {SERVER, CUSTOMER, VM_HOST}"
    using assms(1) by (auto simp: cmdb_texts_ok_def cmdb_look_texts_def)
  then show ?thesis
    using assms(2,3)
    by (auto simp: cmdb_dispatch_def actions wrong_action_def split: if_splits dest: looked)
qed

subsection \<open>Lookups of a database that is up\<close>

definition customer_rows :: "'db sqlite3_api \<Rightarrow> 'db world \<Rightarrow> cstr \<Rightarrow> ailsa_data list" where
  "customer_rows api w coid = (case coid of
     None \<Rightarrow> rows_of api w (basic_queries ! DEFAULT_CUSTOMER) []
   | Some c \<Rightarrow> rows_of api w (q_query (argument_queries ! CUST_ID_ON_COID)) [text_value c])"

text \<open>The fields of the statements used here.\<close>

lemma one_text_fields:
  "q_fields (argument_queries ! CUST_ID_ON_COID) = [AILSA_DB_TEXT]"
  "q_fields (argument_queries ! SERVER_ID_ON_NAME) = [AILSA_DB_TEXT]"
  "q_fields (argument_queries ! SERVER_DETAILS_ON_NAME) = [AILSA_DB_TEXT]"
  "q_fields (argument_queries ! VM_SERVER_ID_ON_NAME) = [AILSA_DB_TEXT]"
  "q_fields (argument_queries ! HARDWARE_TYPE_ID_ON_CLASS) = [AILSA_DB_TEXT]"
  "q_fields (argument_queries ! SERVICE_TYPE_ID_ON_SERVICE) = [AILSA_DB_TEXT]"
  "q_fields (argument_queries ! SERVICE_TYPE_ID_ON_DETAILS) = [AILSA_DB_TEXT, AILSA_DB_TEXT]"
  "q_fields (argument_queries ! HARDWARE_TYPE_ID_ON_DETAILS) = [AILSA_DB_TEXT, AILSA_DB_TEXT]"
  "q_fields (argument_queries ! CONT_ID_ON_CONTACT_DETAILS) = [AILSA_DB_TEXT, AILSA_DB_TEXT, AILSA_DB_TEXT, AILSA_DB_LINT]"
  "q_fields (argument_queries ! HARDWARE_ID_ON_DETAILS) = [AILSA_DB_LINT, AILSA_DB_LINT, AILSA_DB_TEXT, AILSA_DB_TEXT]"
  "q_fields (argument_queries ! SERVICE_ID_ON_DETAILS) =
     [AILSA_DB_LINT, AILSA_DB_LINT, AILSA_DB_LINT, AILSA_DB_TEXT, AILSA_DB_TEXT]"
  by (simp_all add: statement_fields argument_fields table_lengths del: nth_map)

lemma row_fields:
  "q_fields (insert_queries ! INSERT_SERVER) = [AILSA_DB_TEXT, AILSA_DB_TEXT, AILSA_DB_TEXT, AILSA_DB_TEXT,
     AILSA_DB_TEXT, AILSA_DB_LINT, AILSA_DB_LINT, AILSA_DB_LINT, AILSA_DB_LINT]"
  "q_fields (insert_queries ! INSERT_CUSTOMER) = [AILSA_DB_TEXT, AILSA_DB_TEXT, AILSA_DB_TEXT, AILSA_DB_TEXT,
     AILSA_DB_TEXT, AILSA_DB_TEXT, AILSA_DB_LINT, AILSA_DB_LINT]"
  "q_fields (insert_queries ! INSERT_CONTACT) = [AILSA_DB_TEXT, AILSA_DB_TEXT, AILSA_DB_TEXT, AILSA_DB_LINT,
     AILSA_DB_LINT, AILSA_DB_LINT]"
  "q_fields (insert_queries ! INSERT_SERVICE_TYPE) = [AILSA_DB_TEXT, AILSA_DB_TEXT]"
  "q_fields (insert_queries ! INSERT_HARDWARE_TYPE) = [AILSA_DB_TEXT, AILSA_DB_TEXT]"
  "q_fields (insert_queries ! INSERT_VM_HOST) = [AILSA_DB_TEXT, AILSA_DB_TEXT, AILSA_DB_LINT, AILSA_DB_LINT, AILSA_DB_LINT]"
  "q_fields (insert_queries ! INSERT_HARDWARE) = [AILSA_DB_LINT, AILSA_DB_LINT, AILSA_DB_TEXT, AILSA_DB_TEXT,
     AILSA_DB_LINT, AILSA_DB_LINT]"
  "q_fields (insert_queries ! INSERT_SERVICE) = [AILSA_DB_LINT, AILSA_DB_LINT, AILSA_DB_LINT, AILSA_DB_TEXT,
     AILSA_DB_TEXT, AILSA_DB_LINT, AILSA_DB_LINT]"
  "q_fields (insert_queries ! INSERT_DEFAULT_CUSTOMER) = [AILSA_DB_LINT, AILSA_DB_LINT, AILSA_DB_LINT]"
  "q_fields (update_queries ! UPDATE_DEFAULT_CUSTOMER) = [AILSA_DB_LINT, AILSA_DB_LINT]"
  "q_fields (delete_queries ! DELETE_CUSTOMER) = [AILSA_DB_LINT]"
  "q_fields (delete_queries ! DELETE_SERVER_ON_ID) = [AILSA_DB_LINT]"
  by (simp_all add: statement_fields insert_fields update_fields delete_fields table_lengths del: nth_map)

lemma name_query_runs:
  assumes "database_up api cc" "reads_up api" "n < length argument_queries"
    and "q_fields (argument_queries ! n) = [AILSA_DB_TEXT]"
  shows "id_query api w (Some cc) [Some s] n (Some l) =
    Some (0, w, Some (l @ rows_of api w (q_query (argument_queries ! n)) [text_value s]))"
proof -
  have "args_values (q_fields (argument_queries ! n)) [D_TEXT (strndup s CONFIG_LEN)] = Some [text_value s]"
    by (simp add: assms(4) text_value_def)
  from up_argument [OF assms(1-3) this] show ?thesis by (simp add: id_query_def)
qed

lemma cust_id_runs:
  assumes "database_up api cc" "reads_up api"
  shows "cmdb_add_cust_id_to_list api w coid (Some cc) (Some l) = Some (0, w, Some (l @ customer_rows api w coid))"
proof (cases coid)
  case None
  then show ?thesis
    using up_basic [OF assms, of DEFAULT_CUSTOMER] by (simp add: cmdb_add_cust_id_to_list_def customer_rows_def table_lengths)
next
  case (Some c)
  then show ?thesis
    using name_query_runs [OF assms _ one_text_fields(1)]
    by (simp add: cmdb_add_cust_id_to_list_def customer_rows_def table_lengths)
qed

lemma cust_checked:
  assumes "database_up api cc" "reads_up api"
  shows "cmdb_check_add_cust_id_to_list api w coid (Some cc) (Some l) =
    Some (if length (customer_rows api w coid) \<noteq> 1 then AILSA_CUSTOMER_NOT_FOUND else 0, w,
      Some (l @ customer_rows api w coid))"
  using cust_id_runs [OF assms] by (simp add: cmdb_check_add_cust_id_to_list_def check_added_def)

definition name_rows :: "'db sqlite3_api \<Rightarrow> 'db world \<Rightarrow> nat \<Rightarrow> string \<Rightarrow> ailsa_data list" where
  "name_rows api w query name = rows_of api w (q_query (argument_queries ! query)) [text_value name]"

lemma server_checked:
  assumes "database_up api cc" "reads_up api"
  shows "cmdb_check_add_server_id_to_list api w (Some name) (Some cc) (Some l) =
    Some (if length (name_rows api w SERVER_ID_ON_NAME name) \<noteq> 1 then AILSA_SERVER_NOT_FOUND else 0, w,
      Some (l @ name_rows api w SERVER_ID_ON_NAME name))"
proof -
  have "cmdb_add_server_id_to_list api w (Some name) (Some cc) (Some l) =
      Some (0, w, Some (l @ name_rows api w SERVER_ID_ON_NAME name))"
    using name_query_runs [OF assms _ one_text_fields(2)]
    by (simp add: cmdb_add_server_id_to_list_def name_rows_def table_lengths)
  then show ?thesis by (simp add: cmdb_check_add_server_id_to_list_def check_added_def)
qed

lemma vm_checked:
  assumes "database_up api cc" "reads_up api"
  shows "cmdb_check_add_vm_id_to_list api w (Some name) (Some cc) (Some l) =
    Some (if length (name_rows api w VM_SERVER_ID_ON_NAME name) \<noteq> 1 then AILSA_NO_VM_HOST else 0, w,
      Some (l @ name_rows api w VM_SERVER_ID_ON_NAME name))"
proof -
  have "cmdb_add_vm_server_id_to_list api w (Some name) (Some cc) (Some l) =
      Some (0, w, Some (l @ name_rows api w VM_SERVER_ID_ON_NAME name))"
    using name_query_runs [OF assms _ one_text_fields(4)]
    by (simp add: cmdb_add_vm_server_id_to_list_def name_rows_def table_lengths)
  then show ?thesis by (simp add: cmdb_check_add_vm_id_to_list_def check_added_def)
qed

subsection \<open>A new server\<close>

text \<open>The rows that give a server its host; a server that is not virtual has the host 0.\<close>

definition host_rows :: "'db sqlite3_api \<Rightarrow> 'db world \<Rightarrow> cstr \<Rightarrow> ailsa_data list" where
  "host_rows api w vmhost = (case vmhost of None \<Rightarrow> [D_LINT 0] | Some h \<Rightarrow> name_rows api w VM_SERVER_ID_ON_NAME h)"

definition server_texts :: "cmdb_comm_line_s \<Rightarrow> cstr list" where
  "server_texts cm = [ccl_name cm, ccl_make cm, ccl_model cm, ccl_vendor cm, ccl_uuid cm]"

lemma texts_added:
  "add_args (map cmdb_add_string_to_list (map Some ts)) (Some l) = (0, Some (l @ map text_element ts))"
  by (induction ts arbitrary: l) (simp_all add: add_args_def)

lemma server_populated:
  assumes "database_up api cc" "reads_up api" "server_texts cm = map Some ts"
  shows "cmdb_populate_server_details api uid (Some cm) (Some cc) w (Some []) =
    (let args = map text_element ts;
         cust = customer_rows api w (ccl_coid cm); host = host_rows api w (ccl_vmhost cm) in
     if length cust \<noteq> 1 then Some (AILSA_CUSTOMER_NOT_FOUND, w, Some (args @ cust))
     else if length host \<noteq> 1 then Some (AILSA_NO_VM_HOST, w, Some (args @ cust @ host))
     else Some (0, w, Some (args @ cust @ host @ [D_LINT (ucast uid), D_LINT (ucast uid)])))"
proof -
  have t: "add_args [cmdb_add_string_to_list (ccl_name cm), cmdb_add_string_to_list (ccl_make cm),
      cmdb_add_string_to_list (ccl_model cm), cmdb_add_string_to_list (ccl_vendor cm),
      cmdb_add_string_to_list (ccl_uuid cm)] (Some []) = (0, Some (map text_element ts))"
    using texts_added [of ts "[]"] assms(3) [symmetric] by (simp add: server_texts_def)
  show ?thesis
    by (cases "ccl_vmhost cm")
      (simp_all add: cmdb_populate_server_details_def t cust_checked [OF assms(1,2)] vm_checked [OF assms(1,2)]
        host_rows_def Let_def cmdb_add_number_to_list_def cmdb_populate_cuser_muser_def db_insert_def)
qed

lemma server_dispatched:
  "ccl_type cm = SERVER \<Longrightarrow> ccl_action cm = CMDB_ADD \<Longrightarrow>
     cmdb_dispatch api uid pw cm (Some cc) w = coded (cmdb_add_server_to_database api uid (Some cm) (Some cc) w)"
  by (simp add: cmdb_dispatch_def cmdb_server_actions_def)

lemma server_added:
  assumes "database_up api cc" "reads_up api" "server_texts cm = map Some ts"
    and "customer_rows api w (ccl_coid cm) = map D_LINT custs" "host_rows api w (ccl_vmhost cm) = map D_LINT hosts"
  shows "cmdb_add_server_to_database api uid (Some cm) (Some cc) w =
    (if name_rows api w SERVER_DETAILS_ON_NAME (hd ts) \<noteq> [] then Some (0, w)
     else if length custs \<noteq> 1 then Some (AILSA_CUSTOMER_NOT_FOUND, w)
     else if length hosts \<noteq> 1 then Some (AILSA_NO_VM_HOST, w)
     else Some (executed api w (q_query (insert_queries ! INSERT_SERVER))
       (map text_value ts @ map SQL_INT (custs @ hosts @ [ucast uid, ucast uid]))))"
proof -
  obtain name make model vendor uu where ts: "ts = [name, make, model, vendor, uu]" "ccl_name cm = Some name"
    using assms(3) by (auto simp: server_texts_def)
  have "args_values (q_fields (argument_queries ! SERVER_DETAILS_ON_NAME)) [text_element name] =
      Some [text_value name]"
    by (simp add: one_text_fields text_value_def text_element_def)
  note q = up_argument [OF assms(1,2) _ this]
  have i: "args_values (q_fields (insert_queries ! INSERT_SERVER)) (map text_element ts @
      [D_LINT c, D_LINT h, D_LINT (ucast uid), D_LINT (ucast uid)]) =
      Some (map text_value ts @ map SQL_INT [c, h, ucast uid, ucast uid])" for c h
    by (simp add: row_fields ts(1) text_value_def text_element_def del: One_nat_def)
  note ins = up_insert [OF assms(1) _ i]
  note run = cmdb_add_server_to_database_def ts q [unfolded text_element_def] table_lengths then_list_def then_rows_def name_rows_def
    server_populated [OF assms(1,2,3)] assms(4,5) Let_def
  show ?thesis
  proof (cases "length custs = 1 \<and> length hosts = 1")
    case True
    then obtain c h where "custs = [c]" "hosts = [h]" by (auto simp: length_Suc_conv)
    then show ?thesis using ins [of w c h] by (simp add: run del: One_nat_def)
  next
    case False
    then show ?thesis by (auto simp: run)
  qed
qed

subsection \<open>Adding the same again\<close>

text \<open>The contract of an operation that adds a row unless it is found: what it inserts it finds again.\<close>

locale adds_once =
  fixes usable :: "'w \<Rightarrow> bool" and operation :: "'w \<Rightarrow> (int \<times> 'w) option" and found :: "'w \<Rightarrow> bool"
  assumes skips: "usable w \<Longrightarrow> found w \<Longrightarrow> operation w = Some (0, w)"
    and finds: "usable w \<Longrightarrow> operation w = Some (0, w1) \<Longrightarrow> found w1"
    and usable_after: "usable w \<Longrightarrow> usable w1"
begin

lemma again: "usable w \<Longrightarrow> operation w = Some (0, w1) \<Longrightarrow> operation w1 = Some (0, w1)"
  using skips [of w1] finds [of w w1] usable_after [of w w1] by blast

end

text \<open>The insertions, each with the statement that looks for the row and the values of the row it looks for.\<close>

definition found_by :: "(nat \<times> nat \<times> nat list) list" where
  "found_by = [(INSERT_SERVER, SERVER_DETAILS_ON_NAME, [0]), (INSERT_CUSTOMER, CUST_ID_ON_COID, [5]),
     (INSERT_SERVICE_TYPE, SERVICE_TYPE_ID_ON_DETAILS, [0, 1]), (INSERT_HARDWARE_TYPE, HARDWARE_TYPE_ID_ON_DETAILS, [0, 1])]"

definition remembers :: "'db sqlite3_api \<Rightarrow> bool" where
  "remembers api \<longleftrightarrow> (\<forall>(ins, look, key)\<in>set found_by. \<forall>w vs w1. list_all (\<lambda>i. i < length vs) key \<and>
     executed api w (q_query (insert_queries ! ins)) vs = (0, w1) \<longrightarrow>
     rows_of api w1 (q_query (argument_queries ! look)) (map (\<lambda>i. vs ! i) key) \<noteq> [])"

lemma remembered:
  assumes "remembers api" "(ins, look, key) \<in> set found_by" "executed api w (q_query (insert_queries ! ins)) vs = (0, w1)"
    and "list_all (\<lambda>i. i < length vs) key"
  shows "rows_of api w1 (q_query (argument_queries ! look)) (map (\<lambda>i. vs ! i) key) \<noteq> []"
  using assms unfolding remembers_def by fastforce

text \<open>The columns of ids hold integers.\<close>

definition integral_ids :: "'db sqlite3_api \<Rightarrow> bool" where
  "integral_ids api \<longleftrightarrow> (\<forall>w coid. customer_rows api w coid \<in> range (map D_LINT)) \<and>
     (\<forall>w vmhost. host_rows api w vmhost \<in> range (map D_LINT))"

definition good_database :: "'db sqlite3_api \<Rightarrow> ailsa_cmdb_s \<Rightarrow> bool" where
  "good_database api cc \<longleftrightarrow> database_up api cc \<and> reads_up api \<and> remembers api \<and> integral_ids api"

text \<open>Two texts, looked for and inserted as they are.\<close>

definition type_operation ::
  "'db sqlite3_api \<Rightarrow> ailsa_cmdb_s \<Rightarrow> nat \<Rightarrow> nat \<Rightarrow> cstr \<Rightarrow> cstr \<Rightarrow> 'db world \<Rightarrow> (int \<times> 'db world) option" where
  "type_operation api cc look ins s t w = then_list w (add_args [cmdb_add_string_to_list s, cmdb_add_string_to_list t] (Some []))
     (\<lambda>args. then_rows (ailsa_argument_query api w (Some cc) look args (Some [])) (\<lambda>w results.
        if length results > 0 then Some (0, w) else ailsa_insert_query api w (Some cc) ins args))"

lemma type_operations:
  "cmdb_add_service_type_to_database api (Some cm) (Some cc) = type_operation api cc SERVICE_TYPE_ID_ON_DETAILS
     INSERT_SERVICE_TYPE (ccl_service cm) (ccl_detail cm)"
  "cmdb_add_hardware_type_to_database api (Some cm) (Some cc) = type_operation api cc HARDWARE_TYPE_ID_ON_DETAILS
     INSERT_HARDWARE_TYPE (ccl_shtype cm) (ccl_hclass cm)"
  by (simp_all add: fun_eq_iff cmdb_add_service_type_to_database_def cmdb_add_hardware_type_to_database_def type_operation_def)

lemma type_runs:
  assumes "database_up api cc" "reads_up api" "(ins, look) \<in> {(INSERT_SERVICE_TYPE, SERVICE_TYPE_ID_ON_DETAILS),
    (INSERT_HARDWARE_TYPE, HARDWARE_TYPE_ID_ON_DETAILS)}"
  shows "type_operation api cc look ins (Some s) (Some t) w =
    (if rows_of api w (q_query (argument_queries ! look)) [text_value s, text_value t] \<noteq> [] then Some (0, w)
     else Some (executed api w (q_query (insert_queries ! ins)) [text_value s, text_value t]))"
proof -
  have look: "args_values (q_fields (argument_queries ! look)) [text_element s, text_element t] = Some [text_value s, text_value t]"
    and ins: "args_values (q_fields (insert_queries ! ins)) [text_element s, text_element t] = Some [text_value s, text_value t]"
    and n: "look < length argument_queries" "ins < length insert_queries"
    using assms(3) by (auto simp: one_text_fields row_fields table_lengths text_value_def text_element_def)
  have a: "add_args [cmdb_add_string_to_list (Some s), cmdb_add_string_to_list (Some t)] (Some []) =
      (0, Some [text_element s, text_element t])"
    using texts_added [of "[s, t]" "[]"] by simp
  show ?thesis
    by (simp add: type_operation_def a then_list_def then_rows_def up_argument [OF assms(1,2) n(1) look]
        up_insert [OF assms(1) n(2) ins])
qed

text \<open>A customer needs all six texts.\<close>

definition customer_texts :: "cmdb_comm_line_s \<Rightarrow> cstr list" where
  "customer_texts cm = [ccl_fullname cm, ccl_address cm, ccl_city cm, ccl_county cm, ccl_postcode cm, ccl_coid cm]"

lemma next_missing: "next_arg (cmdb_add_string_to_list None) (0, l) = (AILSA_NO_DATA, l)"
  "r \<noteq> 0 \<Longrightarrow> next_arg f (r, l) = (r, l)"
  by (simp_all add: next_arg_def cmdb_add_string_to_list_def)

lemma customer_populated:
  "cmdb_populate_customer_details uid (Some cm) (Some cc) (Some []) =
    (if None \<in> set (customer_texts cm)
     then (AILSA_NO_DATA, Some (map (\<lambda>t. text_element (the t)) (takeWhile (\<lambda>t. t \<noteq> None) (customer_texts cm))))
     else (0, Some (map (\<lambda>t. text_element (the t)) (customer_texts cm) @ [D_LINT (ucast uid), D_LINT (ucast uid)])))"
  by (cases "ccl_fullname cm"; cases "ccl_address cm"; cases "ccl_city cm"; cases "ccl_county cm"; cases "ccl_postcode cm";
      cases "ccl_coid cm"; simp add: cmdb_populate_customer_details_def customer_texts_def add_args_def next_missing)

lemma customer_added:
  assumes "database_up api cc" "reads_up api" "ccl_coid cm = Some coid"
  shows "cmdb_add_customer_to_database api uid (Some cm) (Some cc) w =
    (if customer_rows api w (Some coid) \<noteq> [] then Some (0, w)
     else if None \<in> set (customer_texts cm) then Some (AILSA_NO_DATA, w)
     else Some (executed api w (q_query (insert_queries ! INSERT_CUSTOMER))
       (map (\<lambda>t. text_value (the t)) (customer_texts cm) @ [SQL_INT (ucast uid), SQL_INT (ucast uid)])))"
proof -
  have look: "args_values (q_fields (argument_queries ! CUST_ID_ON_COID)) [text_element coid] = Some [text_value coid]"
    and ins: "args_values (q_fields (insert_queries ! INSERT_CUSTOMER))
      (map (\<lambda>t. text_element (the t)) (customer_texts cm) @ [D_LINT (ucast uid), D_LINT (ucast uid)]) =
      Some (map (\<lambda>t. text_value (the t)) (customer_texts cm) @ [SQL_INT (ucast uid), SQL_INT (ucast uid)])"
    by (simp_all add: one_text_fields row_fields customer_texts_def text_value_def text_element_def)
  have "(CUST_ID_ON_COID :: nat) < length argument_queries" "(INSERT_CUSTOMER :: nat) < length insert_queries"
    by (simp_all add: table_lengths)
  note q = up_argument [OF assms(1,2) this(1) look, unfolded text_element_def] up_insert [OF assms(1) this(2) ins]
  show ?thesis
    by (simp add: cmdb_add_customer_to_database_def assms(3) then_list_def then_rows_def q customer_populated customer_rows_def)
qed

lemma all_there: "None \<notin> set ss \<Longrightarrow> ss = map Some (map the ss)"
  by (induction ss) auto

interpretation server_once: adds_once "\<lambda>w. good_database api cc \<and> None \<notin> set (server_texts cm)"
    "cmdb_add_server_to_database api uid (Some cm) (Some cc)"
    "\<lambda>w. name_rows api w SERVER_DETAILS_ON_NAME (the (ccl_name cm)) \<noteq> []"
  for api cc uid cm
proof unfold_locales
  fix w w1
  assume good: "good_database api cc \<and> None \<notin> set (server_texts cm)"
  obtain custs hosts where rows: "customer_rows api w (ccl_coid cm) = map D_LINT custs"
    "host_rows api w (ccl_vmhost cm) = map D_LINT hosts"
    using good unfolding good_database_def integral_ids_def image_def by fast
  have hd: "hd (map the (server_texts cm)) = the (ccl_name cm)" by (simp add: server_texts_def)
  note run = server_added [OF _ _ all_there rows, unfolded hd]
  show "name_rows api w SERVER_DETAILS_ON_NAME (the (ccl_name cm)) \<noteq> [] \<Longrightarrow>
      cmdb_add_server_to_database api uid (Some cm) (Some cc) w = Some (0, w)"
    using good run by (simp add: good_database_def)
  assume ok: "cmdb_add_server_to_database api uid (Some cm) (Some cc) w = Some (0, w1)"
  show "name_rows api w1 SERVER_DETAILS_ON_NAME (the (ccl_name cm)) \<noteq> []"
  proof (cases "name_rows api w SERVER_DETAILS_ON_NAME (the (ccl_name cm)) \<noteq> []")
    case True
    then show ?thesis using ok good run by (simp add: good_database_def)
  next
    case False
    let ?vs = "map text_value (map the (server_texts cm)) @ map SQL_INT (custs @ hosts @ [ucast uid, ucast uid])"
    have "executed api w (q_query (insert_queries ! INSERT_SERVER)) ?vs = (0, w1)"
      using ok good run False by (simp add: good_database_def split: if_splits)
    then have "rows_of api w1 (q_query (argument_queries ! SERVER_DETAILS_ON_NAME)) (map (\<lambda>i. ?vs ! i) [0]) \<noteq> []"
      using good by (intro remembered [where ins = INSERT_SERVER]) (simp_all add: good_database_def found_by_def server_texts_def)
    then show ?thesis by (simp add: name_rows_def server_texts_def)
  qed
qed simp

interpretation customer_once: adds_once "\<lambda>w. good_database api cc \<and> ccl_coid cm \<noteq> None"
    "cmdb_add_customer_to_database api uid (Some cm) (Some cc)" "\<lambda>w. customer_rows api w (ccl_coid cm) \<noteq> []"
  for api cc uid cm
proof unfold_locales
  fix w w1
  assume good: "good_database api cc \<and> ccl_coid cm \<noteq> None"
  then obtain coid where coid: "ccl_coid cm = Some coid" by blast
  note run = customer_added [OF _ _ coid]
  show "customer_rows api w (ccl_coid cm) \<noteq> [] \<Longrightarrow> cmdb_add_customer_to_database api uid (Some cm) (Some cc) w = Some (0, w)"
    using good by (simp add: good_database_def coid run)
  assume ok: "cmdb_add_customer_to_database api uid (Some cm) (Some cc) w = Some (0, w1)"
  show "customer_rows api w1 (ccl_coid cm) \<noteq> []"
  proof (cases "customer_rows api w (ccl_coid cm) \<noteq> []")
    case True
    then show ?thesis using ok good by (simp add: good_database_def coid run)
  next
    case False
    let ?vs = "map (\<lambda>t. text_value (the t)) (customer_texts cm) @ [SQL_INT (ucast uid), SQL_INT (ucast uid)]"
    have "executed api w (q_query (insert_queries ! INSERT_CUSTOMER)) ?vs = (0, w1)"
      using ok good False by (simp add: good_database_def coid run split: if_splits)
    then have "rows_of api w1 (q_query (argument_queries ! CUST_ID_ON_COID)) (map (\<lambda>i. ?vs ! i) [5]) \<noteq> []"
      using good by (intro remembered [where ins = INSERT_CUSTOMER]) (simp_all add: good_database_def found_by_def customer_texts_def)
    then show ?thesis by (simp add: customer_rows_def customer_texts_def coid)
  qed
qed simp

interpretation type_once: adds_once
    "\<lambda>w. good_database api cc \<and> (ins, look) \<in> {(INSERT_SERVICE_TYPE, SERVICE_TYPE_ID_ON_DETAILS),
       (INSERT_HARDWARE_TYPE, HARDWARE_TYPE_ID_ON_DETAILS)}"
    "type_operation api cc look ins (Some s) (Some t)"
    "\<lambda>w. rows_of api w (q_query (argument_queries ! look)) [text_value s, text_value t] \<noteq> []"
  for api cc look ins s t
proof unfold_locales
  fix w w1
  assume good: "good_database api cc \<and> (ins, look) \<in> {(INSERT_SERVICE_TYPE, SERVICE_TYPE_ID_ON_DETAILS),
     (INSERT_HARDWARE_TYPE, HARDWARE_TYPE_ID_ON_DETAILS)}"
  then have run: "type_operation api cc look ins (Some s) (Some t) w =
    (if rows_of api w (q_query (argument_queries ! look)) [text_value s, text_value t] \<noteq> [] then Some (0, w)
     else Some (executed api w (q_query (insert_queries ! ins)) [text_value s, text_value t]))"
    by (intro type_runs) (simp_all add: good_database_def)
  then show "rows_of api w (q_query (argument_queries ! look)) [text_value s, text_value t] \<noteq> [] \<Longrightarrow>
      type_operation api cc look ins (Some s) (Some t) w = Some (0, w)" by simp
  assume ok: "type_operation api cc look ins (Some s) (Some t) w = Some (0, w1)"
  have "(ins, look, [0, 1]) \<in> set found_by" using good by (auto simp: found_by_def)
  from remembered [OF _ this, where vs = "[text_value s, text_value t]"]
  show "rows_of api w1 (q_query (argument_queries ! look)) [text_value s, text_value t] \<noteq> []"
    using ok run good by (simp add: good_database_def split: if_splits)
qed simp

subsection \<open>Properties\<close>


lemma list_servers_parsed:
  "parse_cmdb_command_line uuid [(CHR ''l'', []), (CHR ''s'', [])] cmdb_line_zero =
     Some (0, cmdb_line_zero\<lparr>ccl_action := CMDB_LIST, ccl_type := SERVER\<rparr>)"
  by (simp add: parse_cmdb_command_line_def cmdb_flag_option_def check_cmdb_comm_options_def check_cmdb_list_def
      untexted_valid)


text \<open>A refused command line has one of the codes of the checks, leaves the database as it was, and is the
  value the command exits with (0 when the usage is printed).  What is printed on the way tells
  the cause, except for the codes in \<open>speechless\<close>, for which only an unknown error is reported.\<close>

theorem refused_cmdb_line_reports_its_cause:
  assumes "parse_cmdb_command_line uuid options cmdb_line_zero = Some (r, cm)" "r \<noteq> 0"
  shows "(\<exists>out. cmdb_main version prog api uid pw uuid cc options w =
      Some (if r = AILSA_DISPLAY_USAGE then 0 else r, out, w)) \<and>
    r \<in> set check_codes \<union> set text_codes \<and>
    (r \<noteq> AILSA_VERSION \<longrightarrow> (own_message version program r \<longleftrightarrow> r \<notin> set speechless))"
proof -
  have r: "r \<in> set check_codes \<union> set text_codes"
    using parsed_code [of uuid options cmdb_line_zero] assms by auto
  then have "r \<noteq> AILSA_VERSION \<Longrightarrow> own_message version program r \<longleftrightarrow> r \<notin> set speechless"
    using check_messages [of version program] text_messages [of version program] unfolding list_all_iff by blast
  moreover have "\<exists>out. cmdb_main version prog api uid pw uuid cc options w =
      Some (if r = AILSA_DISPLAY_USAGE then 0 else r, out, w)"
    by (intro exI) (simp add: cmdb_main_parsed(2) [OF assms] error_code)
  ultimately show ?thesis using r by blast
qed

lemma view_default_parsed:
  "parse_cmdb_command_line uuid [(CHR ''q'', []), (CHR ''s'', [])] cmdb_line_zero =
     Some (AILSA_WRONG_TYPE, cmdb_line_zero\<lparr>ccl_action := CMDB_VIEW_DEFAULT, ccl_type := SERVER\<rparr>)"
  by (simp add: parse_cmdb_command_line_def cmdb_flag_option_def check_cmdb_comm_options_def cmdb_line_zero_def)

theorem refused_cmdb_line_reports_its_cause_witness:
  "(\<exists>out. cmdb_main ''1.0'' ''cmdb'' (rows_api []) 1000 (\<lambda>_. None) [] (Some dns_cc) [(CHR ''q'', []), (CHR ''s'', [])]
      demo_world = Some (AILSA_WRONG_TYPE, out, demo_world)) \<and> \<not> own_message ''1.0'' ''cmdb'' AILSA_WRONG_TYPE"
  using refused_cmdb_line_reports_its_cause [OF view_default_parsed, of "''1.0''" "''cmdb''" "rows_api []" 1000
      "\<lambda>_. None" "[]" "Some dns_cc" demo_world "''cmdb''"]
  by (simp add: speechless_def)

text \<open>Listing, displaying and viewing the default, of whatever the command knows, ends with 0 and leaves
  the database as it was.\<close>

theorem cmdb_looking_changes_nothing:
  assumes "parse_cmdb_command_line uuid options cmdb_line_zero = Some (0, cm)"
    and "ccl_action cm \<in> {CMDB_LIST, CMDB_DISPLAY, CMDB_VIEW_DEFAULT}"
    and "cmdb_main version prog api uid pw uuid (Some cc) options w = Some (retval, text, w')"
  shows "retval = 0 \<and> w_db w' = w_db w"
proof -
  have "cmdb_texts_ok cm"
    using parse_accepted [OF assms(1)] by (elim exE conjE) (rule check_options_ok)
  then show ?thesis using looking_dispatch assms(2,3) cmdb_main_parsed(1) [OF assms(1)] by metis
qed

lemma list_servers_run:
  "cmdb_main ''1.0'' ''cmdb'' (rows_api [[SQL_TEXT ''web'', SQL_TEXT ''ACME'']]) 1000 (\<lambda>_. None) [] (Some dns_cc)
     [(CHR ''l'', []), (CHR ''s'', [])] demo_world =
   Some (0, ''Server Name'' @ tabs 2 @ ''COID'' @ nl @ ''web'' @ tabs 3 @ ''ACME'' @ nl, demo_world)"
  by (simp add: cmdb_main_parsed(1) [OF list_servers_parsed] cmdb_dispatch_def cmdb_server_actions_def cmdb_list_servers_def
      listed_def shown_def up_basic [OF rows_api_up] table_lengths text_of_def cmdb_line_zero_def)

theorem cmdb_looking_changes_nothing_witness:
  "\<exists>text w'. cmdb_main ''1.0'' ''cmdb'' (rows_api [[SQL_TEXT ''web'', SQL_TEXT ''ACME'']]) 1000 (\<lambda>_. None) [] (Some dns_cc)
     [(CHR ''l'', []), (CHR ''s'', [])] demo_world = Some (0, text, w') \<and> w_db w' = w_db demo_world"
  using cmdb_looking_changes_nothing [OF list_servers_parsed _ list_servers_run] list_servers_run
  by (auto simp: cmdb_line_zero_def)

lemma accepted_texts:
  assumes "parse_cmdb_command_line uuid options cmdb_line_zero = Some (0, cm)"
  shows "cmdb_texts_ok cm" "cmdb_texts_fit cm"
proof -
  obtain cl where c: "check_cmdb_comm_options uuid cl = (0, cm)" and v: "validate_cmdb_comm_line cm = Some 0"
    using parse_accepted [OF assms] by blast
  show "cmdb_texts_ok cm" by (rule check_options_ok [OF c])
  show "cmdb_texts_fit cm" by (rule validated_fits [OF v])
qed

lemma accepted_texts_there:
  assumes "parse_cmdb_command_line uuid options cmdb_line_zero = Some (0, cm)" "ccl_action cm = CMDB_ADD"
  shows "ccl_type cm = SERVER \<Longrightarrow> None \<notin> set (server_texts cm)"
    "ccl_type cm = CUSTOMER \<Longrightarrow> ccl_coid cm \<noteq> None"
    "ccl_type cm = SERVICE_TYPE \<Longrightarrow> \<exists>s t. ccl_service cm = Some s \<and> ccl_detail cm = Some t"
    "ccl_type cm = HARDWARE_TYPE \<Longrightarrow> \<exists>s t. ccl_shtype cm = Some s \<and> ccl_hclass cm = Some t"
  using accepted_texts(1) [OF assms(1)] assms(2)
  by (simp_all add: cmdb_texts_ok_def cmdb_add_texts_def server_texts_def) (metis not_Some_eq)+


definition web_line :: cmdb_comm_line_s where
  "web_line = cmdb_line_zero\<lparr>ccl_action := CMDB_ADD, ccl_type := SERVER, ccl_name := Some ''web'', ccl_make := Some ''none'',
     ccl_model := Some ''none'', ccl_vendor := Some ''none'', ccl_uuid := Some ''123e4567-e89b-12d3-a456-426614174000''\<rparr>"

lemma times_numeral: "times (numeral n) r = E_Seq r (times (pred_numeral n) r)"
  by (simp add: numeral_eq_Suc)

lemma demo_uuid_fits: "ailsa_validate_input (Some ''123e4567-e89b-12d3-a456-426614174000'') UUID_REGEX = Some 0"
proof -
  obtain r where "regcomp (regexps ! UUID_REGEX) = Some r" "denotes r ''123e4567-e89b-12d3-a456-426614174000''"
    by (simp add: compile_simps times_numeral denotes_assoc in_ranges_def)
  then show ?thesis using validate_input [of UUID_REGEX r] by simp
qed

lemma demo_texts_fit:
  "ailsa_validate_input (Some ''none'') CUSTOMER_REGEX = Some 0"
  "ailsa_validate_input (Some ''web'') NAME_REGEX = Some 0"
  by code_simp+

lemma refuse_False: "refuse (Some False) code rest = rest"
  by (simp add: refuse_def)

lemma add_server_parsed:
  "parse_cmdb_command_line ''123e4567-e89b-12d3-a456-426614174000'' [(CHR ''a'', []), (CHR ''s'', []), (CHR ''n'', ''web'')]
     cmdb_line_zero = Some (0, web_line)"
proof -
  have "validate_cmdb_comm_line web_line = Some 0"
    by (simp add: web_line_def cmdb_line_zero_def validate_cmdb_comm_line_def unless_fit_def unfit_def demo_texts_fit demo_uuid_fits
        refuse_False del: One_nat_def)
  then show ?thesis
    by (simp add: parse_cmdb_command_line_def cmdb_flag_option_def cmdb_text_option_def check_cmdb_comm_options_def
        check_cmdb_add_def check_cmdb_add_server_def or_none_def web_line_def cmdb_line_zero_def)
qed

text \<open>A database in which every statement but the one for the details of a server finds the number 7.\<close>

definition seven_api :: "nat sqlite3_api" where
  "seven_api = demo_api\<lparr>s3_rows := (\<lambda>_ stmt _.
     (if stmt = q_query (argument_queries ! SERVER_DETAILS_ON_NAME) then [] else [[SQL_INT 7]], SQLITE_DONE))\<rparr>"

lemma seven_api_up: "database_up seven_api dns_cc" "reads_up seven_api"
  using demo_binds by (simp_all add: database_up_def reads_up_def seven_api_def demo_api_def dns_cc_def demo_cc_def
      binds_by_marks_def)

lemma executed_seven: "executed seven_api w q vs = (0, w\<lparr>w_db := w_db w + length vs\<rparr>)"
  by (simp add: executed_def seven_api_def demo_api_def)

lemma default_customer_differs: "basic_queries ! DEFAULT_CUSTOMER \<noteq> q_query (argument_queries ! SERVER_DETAILS_ON_NAME)"
  by code_simp


lemma add_operations:
  assumes "ccl_action cm = CMDB_ADD"
  shows "ccl_type cm = SERVER \<Longrightarrow> cmdb_dispatch api uid pw cm (Some cc) w =
      coded (cmdb_add_server_to_database api uid (Some cm) (Some cc) w)"
    "ccl_type cm = CUSTOMER \<Longrightarrow> cmdb_dispatch api uid pw cm (Some cc) w =
      coded (cmdb_add_customer_to_database api uid (Some cm) (Some cc) w)"
    "ccl_type cm = SERVICE_TYPE \<Longrightarrow> cmdb_dispatch api uid pw cm (Some cc) w =
      coded (cmdb_add_service_type_to_database api (Some cm) (Some cc) w)"
    "ccl_type cm = HARDWARE_TYPE \<Longrightarrow> cmdb_dispatch api uid pw cm (Some cc) w =
      coded (cmdb_add_hardware_type_to_database api (Some cm) (Some cc) w)"
  using assms by (simp_all add: cmdb_dispatch_def actions)

lemma coded_zero: "coded m = Some (0, t, w1) \<longleftrightarrow> m = Some (0, w1) \<and> t = []"
  by (cases m) (auto simp: coded_def)

lemma coded_again:
  assumes "\<And>w. command w = coded (operation w)" "operation w = Some (0, w1) \<Longrightarrow> operation w1 = Some (0, w1)"
    and "command w = Some (0, t, w1)"
  shows "command w1 = Some (0, [], w1)"
  using assms by (simp add: coded_zero)


text \<open>A database in which every lookup finds the number 7 once something was written.\<close>

definition later_api :: "nat sqlite3_api" where
  "later_api = demo_api\<lparr>s3_rows := (\<lambda>db _ _. (if db = 0 then [] else [[SQL_INT 7]], SQLITE_DONE))\<rparr>"

lemma later_rows: "rows_of later_api w q vs = (if w_db w = 0 then [] else [D_LINT 7])"
  by (simp add: rows_of_def later_api_def)

lemma executed_later: "executed later_api w q vs = (0, w\<lparr>w_db := w_db w + length vs\<rparr>)"
  by (simp add: executed_def later_api_def demo_api_def)

lemma later_good: "good_database later_api dns_cc"
proof -
  have "database_up later_api dns_cc" "reads_up later_api"
    using demo_binds by (simp_all add: database_up_def reads_up_def later_api_def demo_api_def dns_cc_def demo_cc_def
        binds_by_marks_def)
  moreover have "remembers later_api"
    by (auto simp: remembers_def found_by_def executed_later later_rows)
  moreover have "[] \<in> range (map D_LINT)" "[D_LINT n] \<in> range (map D_LINT)" for n
    by (rule image_eqI [of _ _ "[]"], simp_all) (rule image_eqI [of _ _ "[n]"], simp_all)
  then have "integral_ids later_api"
    by (auto simp: integral_ids_def customer_rows_def host_rows_def name_rows_def later_rows split: option.split)
  ultimately show ?thesis by (simp add: good_database_def)
qed

definition type_line :: cmdb_comm_line_s where
  "type_line = cmdb_line_zero\<lparr>ccl_action := CMDB_ADD, ccl_type := SERVICE_TYPE, ccl_service := Some ''web'',
     ccl_detail := Some ''none''\<rparr>"

abbreviation (input) type_options :: "(char \<times> string) list" where
  "type_options \<equiv> [(CHR ''a'', []), (CHR ''j'', []), (CHR ''S'', ''web''), (CHR ''D'', ''none'')]"

lemma none_detail:
  "ailsa_validate_input (Some ''none'') MAC_REGEX = Some (-1)" "ailsa_validate_input (Some ''none'') ADDRESS_REGEX = Some 0"
  by code_simp+

lemma add_type_parsed: "parse_cmdb_command_line uuid type_options cmdb_line_zero = Some (0, type_line)"
proof -
  have "validate_cmdb_comm_line type_line = Some 0"
    by (simp add: type_line_def cmdb_line_zero_def validate_cmdb_comm_line_def unless_fit_def unfit_def demo_texts_fit
        none_detail refuse_False c_and_def del: One_nat_def)
  then show ?thesis
    by (simp add: parse_cmdb_command_line_def cmdb_flag_option_def cmdb_text_option_def check_cmdb_comm_options_def
        check_cmdb_add_def check_cmdb_add_other_def type_line_def cmdb_line_zero_def)
qed

lemma add_type_run:
  "cmdb_main ''1.0'' ''cmdb'' later_api 1000 (\<lambda>_. None) [] (Some dns_cc) type_options demo_world =
     Some (0, [], demo_world\<lparr>w_db := 2\<rparr>)"
proof -
  have up: "database_up later_api dns_cc" "reads_up later_api" using later_good by (simp_all add: good_database_def)
  have "cmdb_dispatch later_api 1000 (\<lambda>_. None) type_line (Some dns_cc) demo_world =
      coded (type_operation later_api dns_cc SERVICE_TYPE_ID_ON_DETAILS INSERT_SERVICE_TYPE (Some ''web'') (Some ''none'') demo_world)"
    by (simp add: add_operations(3) type_operations(1) type_line_def)
  then show ?thesis
    by (simp add: cmdb_main_parsed(1) [OF add_type_parsed] type_runs [OF up] later_rows executed_later coded_def demo_world_def
        del: One_nat_def)
qed


text \<open>Removing a customer without naming one removes the default customer: the statement that deletes a
  customer is executed with the id the default customer has.\<close>

theorem removing_no_customer_removes_the_default:
  assumes "database_up api cc" "reads_up api" "rows_of api w (basic_queries ! DEFAULT_CUSTOMER) [] = [D_LINT default_id]"
  shows "cmdb_main version prog api uid pw uuid (Some cc) [(CHR ''r'', []), (CHR ''u'', [])] w =
    coded (Some (executed api w (q_query (delete_queries ! DELETE_CUSTOMER)) [SQL_INT default_id]))"
proof -
  let ?cm = "cmdb_line_zero\<lparr>ccl_action := CMDB_RM, ccl_type := CUSTOMER\<rparr>"
  have parsed: "parse_cmdb_command_line uuid [(CHR ''r'', []), (CHR ''u'', [])] cmdb_line_zero = Some (0, ?cm)"
    by (simp add: parse_cmdb_command_line_def cmdb_flag_option_def check_cmdb_comm_options_def check_cmdb_rm_def
        untexted_valid)
  have "args_values (q_fields (delete_queries ! DELETE_CUSTOMER)) [D_LINT default_id] = Some [SQL_INT default_id]"
    by (simp add: row_fields)
  from up_delete [OF assms(1) _ this] have "cmdb_remove_customer_from_database api (Some ?cm) (Some cc) w =
      Some (executed api w (q_query (delete_queries ! DELETE_CUSTOMER)) [SQL_INT default_id])"
    using cust_checked [OF assms(1,2), of w None "[]"] assms(3)
    by (simp add: cmdb_remove_customer_from_database_def then_rows_def customer_rows_def table_lengths cmdb_line_zero_def)
  then show ?thesis
    by (simp add: cmdb_main_parsed(1) [OF parsed] cmdb_dispatch_def cmdb_customer_actions_def)
qed

theorem removing_no_customer_removes_the_default_witness:
  "cmdb_main ''1.0'' ''cmdb'' (rows_api [[SQL_INT 7]]) 1000 (\<lambda>_. None) [] (Some dns_cc) [(CHR ''r'', []), (CHR ''u'', [])]
     demo_world = Some (0, [], demo_world\<lparr>w_db := 1\<rparr>)"
  using removing_no_customer_removes_the_default [OF rows_api_up, of "[[SQL_INT 7]]" demo_world 7 "''1.0''" "''cmdb''" 1000 "\<lambda>_. None"
      "[]"]
  by (simp add: coded_def demo_world_def)

lemma options_postcode:
  "CHR ''Z'' \<notin> fst ` set options \<Longrightarrow> ccl_postcode (snd (cmdb_options options cl)) = ccl_postcode cl"
proof (induction options cl rule: cmdb_options.induct)
  case (2 opt optarg rest cl)
  have flag: "cmdb_flag_option opt cl = Some cl' \<Longrightarrow> ccl_postcode cl' = ccl_postcode cl" for cl'
    unfolding cmdb_flag_option_def by (auto split: if_splits)
  have opt: "opt \<noteq> CHR ''Z''" using 2(3) by auto
  have texted: "cmdb_text_option opt optarg cl = Some cl' \<Longrightarrow> ccl_postcode cl' = ccl_postcode cl" for cl'
    using opt unfolding cmdb_text_option_def by (auto split: if_splits)
  show ?case using 2 flag texted by (auto split: option.split)
qed simp

lemma postcode_fits: "cmdb_texts_fit cm \<Longrightarrow> fits (ccl_postcode cm) POSTCODE_REGEX"
  by (simp add: cmdb_texts_fit_def)

lemma no_postcode:
  assumes "CHR ''Z'' \<notin> fst ` set options" "parse_cmdb_command_line uuid options cmdb_line_zero = Some (0, cm)"
    and "ccl_type cm = CUSTOMER" "ccl_action cm = CMDB_ADD"
  shows "ccl_postcode cm = None"
proof -
  obtain cl where cl: "cmdb_options options cmdb_line_zero = (0, cl)" "check_cmdb_comm_options uuid cl = (0, cm)"
    using parse_accepted [OF assms(2)] by blast
  then have c: "check_cmdb_comm_options uuid cl = (0, cm)" "ccl_postcode cl = None"
    using options_postcode [OF assms(1), of cmdb_line_zero] by (simp_all add: cmdb_line_zero_def)
  have "ailsa_validate_input (Some ''none'') POSTCODE_REGEX \<noteq> Some 0" by code_simp
  then have "ccl_postcode cm \<noteq> Some ''none''"
    using postcode_fits [OF accepted_texts(2) [OF assms(2)]] unfolding fits_def by (metis option.distinct(1))
  moreover have "check_cmdb_add uuid cl = (0, cm)"
  proof (cases "ccl_action cl = CMDB_ADD")
    case True
    then show ?thesis using c(1) by (auto simp: check_cmdb_comm_options_def split: if_splits)
  next
    case False
    then have "cm = cl" using c(1) by (simp add: check_cmdb_comm_options_def split: if_splits)
    then show ?thesis using False assms(4) by simp
  qed
  then have "check_cmdb_add_customer cl = (0, cm)"
    using check_add_ok [of uuid cl cm] assms(3) by (simp add: check_cmdb_add_def)
  ultimately show ?thesis
    using c(2) by (auto simp: check_cmdb_add_customer_def split: if_splits)
qed

text \<open>Without a postcode among the options a new customer is accepted or refused, but never added: the default
  the check supplies for one missing part of the address does not pass the pattern of postcodes, and without one
  the row is incomplete.\<close>

theorem customer_needs_a_postcode:
  assumes "CHR ''Z'' \<notin> fst ` set options" "parse_cmdb_command_line uuid options cmdb_line_zero = Some (0, cm)"
    and "ccl_type cm = CUSTOMER" "ccl_action cm = CMDB_ADD"
    and "cmdb_main version prog api uid pw uuid (Some cc) options w = Some (retval, text, w')"
  shows "w_db w' = w_db w"
proof -
  have "None \<in> set (customer_texts cm)" using no_postcode [OF assms(1-4)] by (simp add: customer_texts_def)
  note populated = customer_populated [of _ cm cc] this
  have "cmdb_add_customer_to_database api uid (Some cm) (Some cc) w = Some (retval, w')"
    using assms(5) by (auto simp: cmdb_main_parsed(1) [OF assms(2)] add_operations(2) [OF assms(4,3)] coded_def)
  then show ?thesis
    using populated query_db(2) [OF _ refl]
    by (fastforce simp: cmdb_add_customer_to_database_def then_list_def then_rows_def bind_eq_Some_conv split: if_splits)
qed


abbreviation (input) customer_options :: "(char \<times> string) list" where
  "customer_options \<equiv> [(CHR ''a'', []), (CHR ''u'', []), (CHR ''N'', ''none''), (CHR ''C'', ''ACME1'')]"

definition customer_line :: cmdb_comm_line_s where
  "customer_line = cmdb_line_zero\<lparr>ccl_action := CMDB_ADD, ccl_type := CUSTOMER, ccl_fullname := Some ''none'',
     ccl_coid := Some ''ACME1'', ccl_county := Some ''none''\<rparr>"

lemma acme_coid: "ailsa_validate_input (Some ''ACME1'') COID_REGEX = Some 0"
  by code_simp

lemma add_customer_parsed: "parse_cmdb_command_line uuid customer_options cmdb_line_zero = Some (0, customer_line)"
proof -
  have "validate_cmdb_comm_line customer_line = Some 0"
    by (simp add: customer_line_def cmdb_line_zero_def validate_cmdb_comm_line_def unless_fit_def unfit_def demo_texts_fit
        none_detail acme_coid refuse_False del: One_nat_def)
  then show ?thesis
    by (simp add: parse_cmdb_command_line_def cmdb_flag_option_def cmdb_text_option_def check_cmdb_comm_options_def
        check_cmdb_add_def check_cmdb_add_customer_def customer_line_def cmdb_line_zero_def)
qed

lemma add_customer_run:
  "cmdb_main ''1.0'' ''cmdb'' (rows_api []) 1000 (\<lambda>_. None) [] (Some dns_cc) customer_options demo_world =
     Some (AILSA_NO_DATA, [], demo_world)"
proof -
  have "cmdb_add_customer_to_database (rows_api []) 1000 (Some customer_line) (Some dns_cc) demo_world =
      Some (AILSA_NO_DATA, demo_world)"
    using customer_added [OF rows_api_up, of customer_line "''ACME1''" "[]" 1000 demo_world]
    by (simp add: customer_rows_def customer_line_def customer_texts_def cmdb_line_zero_def)
  then show ?thesis
    by (simp add: cmdb_main_parsed(1) [OF add_customer_parsed] add_operations(2) customer_line_def coded_def)
qed

theorem customer_needs_a_postcode_witness:
  "\<exists>w'. cmdb_main ''1.0'' ''cmdb'' (rows_api []) 1000 (\<lambda>_. None) [] (Some dns_cc) customer_options demo_world =
     Some (AILSA_NO_DATA, [], w') \<and> w_db w' = w_db demo_world"
  using customer_needs_a_postcode [OF _ add_customer_parsed _ _ add_customer_run] add_customer_run
  by (auto simp: customer_line_def)

end
