(* ===== verification/Zone_Text.thy ===== *)
theory Zone_Text
  imports Zone_Files
begin

text \<open>
  Reading the zone files back: a reader for the lines of resource records, as a name server splits them into
  fields, and the proof that it gives back the rows the lines were written from.  Then what the writing code
  gets wrong in the lines around them.
\<close>

subsection \<open>A reader\<close>

fun split_on :: "char \<Rightarrow> string \<Rightarrow> string list" where
  "split_on c [] = [[]]"
| "split_on c (x # xs) = (if x = c then [] # split_on c xs
     else case split_on c xs of [] \<Rightarrow> [[x]] | w # ws \<Rightarrow> (x # w) # ws)"

lemma split_on_not_Nil: "split_on c s \<noteq> []"
  by (induction s) (auto split: list.splits)

lemma split_on_cut: "c \<notin> set a \<Longrightarrow> split_on c (a @ c # b) = a # split_on c b"
  by (induction a) (auto split: list.splits)

lemma split_on_last: "c \<notin> set a \<Longrightarrow> split_on c a = [a]"
  by (induction a) (auto split: list.splits)

definition fields :: "string \<Rightarrow> string list" where
  "fields line = filter (\<lambda>w. w \<noteq> []) (split_on CHR 0x09 line)"

text \<open>A line of host, class, type and destination; the last line is the empty text after the last newline.\<close>

definition read_record :: "string \<Rightarrow> string \<times> string \<times> string" where
  "read_record line = (case fields line of [host, _, type, dest] \<Rightarrow> (type, host, dest) | _ \<Rightarrow> ([], [], []))"

definition read_pointer :: "string \<Rightarrow> string \<times> string" where
  "read_pointer line = (case fields line of [host, _, dest] \<Rightarrow> (host, dest) | _ \<Rightarrow> ([], []))"

definition read_lines :: "(string \<Rightarrow> 'a) \<Rightarrow> string \<Rightarrow> 'a list" where
  "read_lines f text = map f (butlast (split_on CHR 0x0A text))"

definition field :: "string \<Rightarrow> bool" where
  "field s \<longleftrightarrow> s \<noteq> [] \<and> CHR 0x09 \<notin> set s \<and> CHR 0x0A \<notin> set s"

lemma read_lines_Nil [simp]: "read_lines f [] = []"
  by (simp add: read_lines_def)

lemma read_lines_cut: "CHR 0x0A \<notin> set a \<Longrightarrow> read_lines f (a @ nl @ b) = f a # read_lines f b"
  by (simp add: read_lines_def nl_def split_on_cut split_on_not_Nil)

lemma fields_cut: "field a \<Longrightarrow> fields (a @ tab @ b) = a # fields b"
  by (simp add: fields_def tab_def split_on_cut field_def)

lemma fields_last: "field a \<Longrightarrow> fields a = [a]"
  by (simp add: fields_def split_on_last field_def)

lemma fields_tab: "fields (tab @ b) = fields b"
  using split_on_cut [of "CHR 0x09" "[]" b] by (simp add: fields_def tab_def)

lemma tabs_Suc: "tabs (Suc n) = tab @ tabs n"
  by (simp add: tabs_def tab_def)

lemma tabs_two: "tabs 2 = tab @ tab"
  by (simp add: tabs_def tab_def numeral_2_eq_2)

lemma class_field: "field ''IN''" "field ''PTR''"
  by (simp_all add: field_def)

lemma record_read:
  assumes "field type" "field host" "field dest"
  shows "read_lines read_record (fwd_record_line type host dest @ rest) = (type, host, dest) # read_lines read_record rest"
proof -
  define line where "line = host @ (if length host < 8 then tabs 2 else tab) @ ''IN'' @ tab @ type @ tab @ dest"
  have "fwd_record_line type host dest @ rest = line @ nl @ rest"
    by (simp add: fwd_record_line_def line_def)
  moreover have "CHR 0x0A \<notin> set line"
    using assms by (auto simp: line_def field_def tabs_def tab_def split: if_splits)
  moreover have "read_record line = (type, host, dest)"
    using assms fields_cut [OF class_field(1), of "type @ tab @ dest"]
    by (simp add: line_def read_record_def fields_cut fields_last fields_tab tabs_two)
  ultimately show ?thesis by (simp add: read_lines_cut)
qed

lemma pointer_read:
  assumes "field host" "field dest"
  shows "read_lines read_pointer (host @ tab @ ''PTR'' @ tab @ dest @ nl @ rest) =
    (host, dest) # read_lines read_pointer rest"
proof -
  define line where "line = host @ tab @ ''PTR'' @ tab @ dest"
  have "CHR 0x0A \<notin> set line" using assms by (auto simp: line_def field_def tab_def)
  moreover have "read_pointer line = (host, dest)"
    using assms fields_cut [OF class_field(2), of dest] by (simp add: line_def read_pointer_def fields_cut fields_last)
  ultimately have "read_lines read_pointer (line @ nl @ rest) = (host, dest) # read_lines read_pointer rest"
    by (simp add: read_lines_cut)
  then show ?thesis by (simp add: line_def)
qed

lemma element_text_Text [simp]: "element_text (D_TEXT s) = Some s"
  by (simp add: element_text_def)

lemma fwd_rows_read:
  "list_all (\<lambda>(t, h, d). field t \<and> field h \<and> field d) rs \<Longrightarrow>
   \<exists>text. fwd_record_lines (concat (map (\<lambda>(t, h, d). [D_TEXT t, D_TEXT h, D_TEXT d]) rs)) = Some text \<and>
     read_lines read_record text = rs"
proof (induction rs)
  case (Cons r rs)
  obtain t h d where r: "r = (t, h, d)" by (cases r)
  from Cons show ?case by (auto simp: r record_read)
qed simp

lemma ptr_rows_read:
  "list_all (\<lambda>(h, d). field h \<and> field d) rs \<Longrightarrow>
   \<exists>text. ptr_lines (concat (map (\<lambda>(h, d). [D_TEXT h, D_TEXT d]) rs)) = Some text \<and> read_lines read_pointer text = rs"
proof (induction rs)
  case (Cons r rs)
  obtain h d where r: "r = (h, d)" by (cases r)
  from Cons pointer_read [of h d] show ?case by (auto simp: r)
qed simp

subsection \<open>Property\<close>

lemma rows_length:
  "length (concat (map (\<lambda>(t, h, d). [D_TEXT t, D_TEXT h, D_TEXT d]) rs)) mod 3 = 0"
  "length (concat (map (\<lambda>(h, d). [D_TEXT h, D_TEXT d]) ps)) mod 2 = 0"
  by (induction rs, auto) (induction ps, auto)

text \<open>C8: The records of a zone file and the pointers of a reverse zone file, split into lines and fields
  the way a name server reads them, are the rows they were written from, in their order, whatever the
  lengths of the host names.\<close>

theorem zone_file_reads_back:
  assumes "fd \<noteq> 0" "list_all (\<lambda>(t, h, d). field t \<and> field h \<and> field d) rs" "list_all (\<lambda>(h, d). field h \<and> field d) ps"
  shows "\<exists>records pointers.
    write_fwd_records fd (concat (map (\<lambda>(t, h, d). [D_TEXT t, D_TEXT h, D_TEXT d]) rs)) zone = Some records \<and>
    read_lines read_record records = rs \<and>
    write_rev_zone_records fd (concat (map (\<lambda>(h, d). [D_TEXT h, D_TEXT d]) ps)) = Some pointers \<and>
    read_lines read_pointer pointers = ps"
  using fwd_rows_read [OF assms(2)] ptr_rows_read [OF assms(3)] assms(1)
  by (simp add: write_fwd_records_def write_rev_zone_records_def rows_length)

theorem zone_file_reads_back_witness:
  "\<exists>records. write_fwd_records 3 [D_TEXT ''A'', D_TEXT ''www'', D_TEXT ''10.1.0.1'',
      D_TEXT ''CNAME'', D_TEXT ''web-server'', D_TEXT ''www''] ''example.org'' = Some records \<and>
    read_lines read_record records = [(''A'', ''www'', ''10.1.0.1''), (''CNAME'', ''web-server'', ''www'')]"
  using zone_file_reads_back [of 3 "[(''A'', ''www'', ''10.1.0.1''), (''CNAME'', ''web-server'', ''www'')]" "[]" "''example.org''"]
  by (auto simp: field_def)

subsection \<open>What goes wrong around the records\<close>

text \<open>The header looks for the dot at the end of the secondary server at the position of the end of the
  primary one: for a shorter secondary that is behind its text, and a name that ends in a dot gets a second
  one.\<close>

lemma secondary_read_past_its_end:
  assumes "length s = 6" "length sec + 1 < length pri" "\<not> strncmp_eq sec ''none'' 4" "fd \<noteq> 0"
  shows "write_zone_file_header fd (D_TEXT pri # D_TEXT sec # ns) s (Some master) = None"
proof -
  have "no_dot_at_end sec (length pri) = None"
    using assms(2) by (auto simp: no_dot_at_end_def char_at_def)
  then show ?thesis using assms(1,3,4)
    by (simp add: write_zone_file_header_def bind_eq_None_conv)
qed

lemma secondary_gets_two_dots:
  "\<exists>text. write_zone_file_header 3 [D_TEXT ''ns1'', D_TEXT ''ns2.example.org.'']
     [D_LINT 1, D_LINT 2, D_LINT 3, D_LINT 4, D_LINT 5, D_TEXT ''no''] (Some ''h.'') =
   Some (text @ tab @ ''IN'' @ tab @ ''NS'' @ tab @ ''ns2.example.org..'' @ nl)"
  by (simp add: write_zone_file_header_def no_dot_at_end_def char_at_def strncmp_eq_def)

text \<open>A notify source of the family IPv6 is written without the semicolon its statement needs.\<close>

lemma ipv6_source_not_terminated:
  "fwd_config_blocks (os\<lparr>os_getaddrinfo := \<lambda>_. Some [AI_INET6 ''fd00::2'']\<rparr>) ''/var/named/'' 0
     [D_TEXT ''example.org'', D_TEXT ''master'', D_TEXT ''ns2'', D_NULL] =
   Some (0, zone_block_start ''example.org'' ''master'' ''/var/named/'' @ tabs 3 @ ''notify-source-v6 fd00::2'' @ nl @
     zone_block_end)"
  by (simp add: cmdb_getaddrinfo_def)

text \<open>With the last reverse zone gone the configuration file keeps what it held.\<close>

lemma stale_reverse_config:
  assumes "ailsa_basic_query api (si_world st) (Some cc) REV_ZONE_CONFIG (Some []) = Some (0, w, Some [])"
  shows "cmdb_write_rev_zone_config api os (Some cc) st = Some (0, st\<lparr>si_world := w\<rparr>)"
  using assms by (simp add: cmdb_write_rev_zone_config_def on_query_def)

text \<open>The line of a service in the zone file has the host where the listing of the zone has the service.\<close>

lemma service_line_names_host:
  assumes "os_getservbyname os ''ldap'' ''tcp'' = Some 389"
  shows "srv_lines os ''example.org'' [D_TEXT ''SRV'', D_TEXT ''ds1'', D_TEXT ''tcp'', D_TEXT ''ldap'', D_LINT 10, D_TEXT ''ds1.''] =
    Some (''_ds1._tcp.example.org.'' @ tab @ ''IN SRV '' @ lu 10 @ '' 0 '' @ dec 389 @ tab @ ''ds1.'' @ nl)"
  using assms by (simp add: cmdb_get_port_number_def no_dot_at_end_def char_at_def)

end
