(* ===== verification/Cbc_Cmdline.thy ===== *)
theory Cbc_Cmdline
  imports Command_Errors
begin

text \<open>
  src/cbc.c: the command line of the build command.  The options come in the order \<open>getopt_long\<close> delivers
  them; the action is checked, the disk and the network card of a new build get their defaults, and the texts
  are checked against the patterns of lib/regexp.c.  Here a text is refused when the check is negative only.
\<close>

subsection \<open>Actions\<close>

abbreviation CMDB_WRITE :: int where "CMDB_WRITE \<equiv> 6"
abbreviation CMDB_QUERY :: int where "CMDB_QUERY \<equiv> 8"

subsection \<open>The parsed command line\<close>

text \<open>The members \<open>lvm\<close>, \<open>server_id\<close>, \<open>os_id\<close> and \<open>locale_id\<close> are neither set nor read.\<close>

record cbc_comm_line_s =
  bcl_config :: cstr
  bcl_name :: cstr
  bcl_uuid :: cstr
  bcl_partition :: cstr
  bcl_varient :: cstr
  bcl_os :: cstr
  bcl_os_version :: cstr
  bcl_build_domain :: cstr
  bcl_action_type :: cstr
  bcl_arch :: cstr
  bcl_netcard :: cstr
  bcl_harddisk :: cstr
  bcl_locale :: cstr
  bcl_action :: int
  bcl_server :: int
  bcl_removeip :: int
  bcl_gui :: int

definition cbc_line_zero :: cbc_comm_line_s where
  "cbc_line_zero = \<lparr>bcl_config = None, bcl_name = None, bcl_uuid = None, bcl_partition = None, bcl_varient = None,
     bcl_os = None, bcl_os_version = None, bcl_build_domain = None, bcl_action_type = None, bcl_arch = None,
     bcl_netcard = None, bcl_harddisk = None, bcl_locale = None, bcl_action = 0, bcl_server = 0,
     bcl_removeip = 0, bcl_gui = 0\<rparr>"

subsection \<open>Options\<close>

text \<open>\<open>None\<close> for \<open>h\<close> and every unknown option: the usage is printed.\<close>

definition cbc_option :: "char \<Rightarrow> string \<Rightarrow> cbc_comm_line_s \<Rightarrow> cbc_comm_line_s option" where
  "cbc_option opt optarg cb =
    (if opt = CHR ''n'' then Some (cb\<lparr>bcl_name := Some (strndup optarg CONFIG_LEN)\<rparr>)
     else if opt = CHR ''u'' then Some (cb\<lparr>bcl_action := CMDB_DEFAULT\<rparr>)
     else if opt = CHR ''a'' then Some (cb\<lparr>bcl_action := CMDB_ADD\<rparr>)
     else if opt = CHR ''d'' then Some (cb\<lparr>bcl_action := CMDB_DISPLAY\<rparr>)
     else if opt = CHR ''g'' then Some (cb\<lparr>bcl_removeip := 1\<rparr>)
     else if opt = CHR ''l'' then Some (cb\<lparr>bcl_action := CMDB_LIST\<rparr>)
     else if opt = CHR ''m'' then Some (cb\<lparr>bcl_action := CMDB_MOD\<rparr>)
     else if opt = CHR ''q'' then Some (cb\<lparr>bcl_action := CMDB_QUERY\<rparr>)
     else if opt = CHR ''r'' then Some (cb\<lparr>bcl_action := CMDB_RM\<rparr>)
     else if opt = CHR ''w'' then Some (cb\<lparr>bcl_action := CMDB_WRITE\<rparr>)
     else if opt = CHR ''b'' then Some (cb\<lparr>bcl_build_domain := Some (strndup optarg CONFIG_LEN)\<rparr>)
     else if opt = CHR ''e'' then Some (cb\<lparr>bcl_locale := Some (strndup optarg CONFIG_LEN)\<rparr>)
     else if opt = CHR ''k'' then Some (cb\<lparr>bcl_netcard := Some (strndup optarg HOST_LEN)\<rparr>)
     else if opt = CHR ''j'' then Some (cb\<lparr>bcl_harddisk := Some (strndup optarg HOST_LEN)\<rparr>)
     else if opt = CHR ''o'' then Some (cb\<lparr>bcl_os := Some (strndup optarg MAC_LEN)\<rparr>)
     else if opt = CHR ''p'' then Some (cb\<lparr>bcl_partition := Some (strndup optarg CONFIG_LEN)\<rparr>)
     else if opt = CHR ''t'' then Some (cb\<lparr>bcl_arch := Some (strndup optarg SERVICE_LEN)\<rparr>)
     else if opt = CHR ''s'' then Some (cb\<lparr>bcl_os_version := Some (strndup optarg MAC_LEN)\<rparr>)
     else if opt = CHR ''x'' then Some (cb\<lparr>bcl_varient := Some (strndup optarg CONFIG_LEN)\<rparr>)
     else if opt = CHR ''y'' then Some (cb\<lparr>bcl_gui := 1\<rparr>)
     else if opt = CHR ''v'' then Some (cb\<lparr>bcl_action := AILSA_VERSION\<rparr>)
     else None)"

fun cbc_options :: "(char \<times> string) list \<Rightarrow> cbc_comm_line_s \<Rightarrow> int \<times> cbc_comm_line_s" where
  "cbc_options [] cb = (0, cb)"
| "cbc_options ((opt, optarg) # rest) cb = (case cbc_option opt optarg cb of
     Some cb' \<Rightarrow> cbc_options rest cb'
   | None \<Rightarrow> (AILSA_DISPLAY_USAGE, cb))"

subsection \<open>Checks\<close>

definition check_cbc_action :: "cbc_comm_line_s \<Rightarrow> int" where
  "check_cbc_action cb =
    (if bcl_action cb = NONE \<and> bcl_server cb = NONE \<and> bcl_action_type cb = None then AILSA_DISPLAY_USAGE
     else if bcl_action cb = AILSA_VERSION then AILSA_VERSION
     else if bcl_action cb = CMDB_QUERY then NONE
     else if bcl_action cb = NONE then AILSA_NO_ACTION
     else if bcl_action cb \<noteq> CMDB_LIST \<and> bcl_action cb \<noteq> CMDB_DEFAULT \<and> bcl_name cb = None then AILSA_NO_NAME_OR_ID
     else NONE)"

definition cbc_add_defaults :: "cbc_comm_line_s \<Rightarrow> cbc_comm_line_s" where
  "cbc_add_defaults cb =
    (if bcl_action cb = CMDB_ADD
     then cb\<lparr>bcl_harddisk := (if bcl_harddisk cb = None then Some ''vda'' else bcl_harddisk cb),
       bcl_netcard := (if bcl_netcard cb = None then Some ''eth0'' else bcl_netcard cb)\<rparr>
     else cb)"

text \<open>A text that does not match gives -1, a pattern that cannot be compiled a positive code.\<close>

definition misfit :: "cstr \<Rightarrow> nat \<Rightarrow> bool option" where
  "misfit s test = map_option (\<lambda>r. r < 0) (ailsa_validate_input s test)"

definition unless_misfit :: "cstr \<Rightarrow> nat \<Rightarrow> int \<Rightarrow> int option \<Rightarrow> int option" where
  "unless_misfit s test code rest = refuse (given s (misfit s test)) code rest"

definition validate_cbc_comm_line :: "cbc_comm_line_s \<Rightarrow> int option" where
  "validate_cbc_comm_line cml =
    unless_misfit (bcl_uuid cml) UUID_REGEX UUID_INPUT_INVALID
   (unless_misfit (bcl_name cml) NAME_REGEX SERVER_NAME_INVALID
   (unless_misfit (bcl_os cml) NAME_REGEX OS_INVALID
   (unless_misfit (bcl_os_version cml) OS_VER_REGEX OS_VERSION_INVALID
   (unless_misfit (bcl_partition cml) NAME_REGEX PART_SCHEME_INVALID
   (unless_misfit (bcl_varient cml) NAME_REGEX VARIENT_INVALID
   (unless_misfit (bcl_build_domain cml) DOMAIN_REGEX DOMAIN_INPUT_INVALID
   (unless_misfit (bcl_arch cml) CUSTOMER_REGEX ARCH_INVALID
   (unless_misfit (bcl_netcard cml) DEV_REGEX NET_CARD_INVALID
   (unless_misfit (bcl_harddisk cml) DEV_REGEX HARD_DISK_INVALID
   (unless_misfit (bcl_config cml) PATH_REGEX CONFIG_INVALID
   (unless_misfit (bcl_locale cml) NAME_REGEX LOCALE_INVALID
   (Some 0))))))))))))"

text \<open>The query for the configuration returns before the texts are checked.\<close>

definition parse_cbc_command_line ::
  "(char \<times> string) list \<Rightarrow> cbc_comm_line_s \<Rightarrow> (int \<times> cbc_comm_line_s) option" where
  "parse_cbc_command_line options cb =
    (case cbc_options options cb of (retval, cb) \<Rightarrow>
       if retval \<noteq> 0 then Some (retval, cb)
       else if check_cbc_action cb \<noteq> NONE then Some (check_cbc_action cb, cb)
       else if bcl_action cb = CMDB_QUERY then Some (NONE, cb)
       else map_option (\<lambda>r. (r, cbc_add_defaults cb)) (validate_cbc_comm_line (cbc_add_defaults cb)))"

end
