(* ===== verification/Build_Create.thy ===== *)
theory Build_Create
  imports Cbc_Cmdline Dnsa_Records
begin

text \<open>
  src/createbuild.c: creating, changing and removing the build configuration of a server, as compiled with
  \<open>HAVE_DNSA\<close>.  The list of values that grows through the steps is the list \<open>build\<close> of the code.
\<close>

abbreviation AILSA_NO_MAC_ADDR :: int where "AILSA_NO_MAC_ADDR \<equiv> 214"
abbreviation AILSA_VARIENT_REPLACE_FAIL :: int where "AILSA_VARIENT_REPLACE_FAIL \<equiv> 220"
abbreviation AILSA_PARTITION_REPLACE_FAIL :: int where "AILSA_PARTITION_REPLACE_FAIL \<equiv> 221"
abbreviation AILSA_LOCALE_REPLACE_FAIL :: int where "AILSA_LOCALE_REPLACE_FAIL \<equiv> 222"
abbreviation AILSA_OS_REPLACE_FAIL :: int where "AILSA_OS_REPLACE_FAIL \<equiv> 223"

subsection \<open>Steps\<close>

text \<open>A step of a function that works on the list \<open>build\<close>: a code other than 0 ends the function, which
  returns that list as it is by then.  The second form is for a step that appends to \<open>build\<close> itself.\<close>

definition then_build ::
  "ailsa_data list \<Rightarrow> 'db query_result \<Rightarrow> ('db world \<Rightarrow> ailsa_data list \<Rightarrow> 'db query_result) \<Rightarrow> 'db query_result" where
  "then_build build query rest = do {
     (retval, w, l) \<leftarrow> query;
     rows \<leftarrow> l;
     if retval \<noteq> 0 then Some (retval, w, Some build) else rest w rows
   }"

definition then_same ::
  "'db query_result \<Rightarrow> ('db world \<Rightarrow> ailsa_data list \<Rightarrow> 'db query_result) \<Rightarrow> 'db query_result" where
  "then_same query rest = do {
     (retval, w, l) \<leftarrow> query;
     rows \<leftarrow> l;
     if retval \<noteq> 0 then Some (retval, w, l) else rest w rows
   }"

text \<open>A list function that does not touch the connection.\<close>

definition listed_in :: "'db world \<Rightarrow> int \<times> db_list \<Rightarrow> 'db query_result" where
  "listed_in w call = (case call of (retval, l) \<Rightarrow> Some (retval, w, l))"

text \<open>The two ways to get a domain: the one given, or the default one of the database.\<close>

definition domain_or_default ::
  "'db sqlite3_api \<Rightarrow> 'db world \<Rightarrow> ailsa_cmdb_s option \<Rightarrow> cstr \<Rightarrow> db_list \<Rightarrow> 'db query_result" where
  "domain_or_default api w cc domain list =
    (if domain \<noteq> None then listed_in w (cmdb_add_string_to_list domain list)
     else ailsa_basic_query api w cc DEFAULT_DOMAIN_DETAILS list)"

subsection \<open>Details of a new build\<close>

text \<open>The network device goes into the list before the query: the server's id and the device are its arguments.\<close>

definition cbc_get_network_info ::
  "'db sqlite3_api \<Rightarrow> ailsa_cmdb_s option \<Rightarrow> cbc_comm_line_s option \<Rightarrow> 'db world \<Rightarrow> db_list \<Rightarrow> 'db query_result" where
  "cbc_get_network_info api cbt cml w build = (case cml of None \<Rightarrow> Some (AILSA_NO_DATA, w, build) | Some cl \<Rightarrow>
     if cbt = None \<or> build = None then Some (AILSA_NO_DATA, w, build)
     else (case cmdb_add_string_to_list (bcl_netcard cl) build of (retval, build) \<Rightarrow>
       if retval \<noteq> 0 then Some (retval, w, build)
       else do {
         (retval, w, l) \<leftarrow> ailsa_argument_query api w cbt MAC_ADDRESS_FOR_BUILD build (Some []);
         rows \<leftarrow> l;
         if retval \<noteq> 0 then Some (retval, w, build)
         else (case rows of
             [] \<Rightarrow> Some (AILSA_NO_MAC_ADDR, w, build)
           | d # _ \<Rightarrow> do { mac \<leftarrow> get_text d; listed_in w (cmdb_add_string_to_list mac build) })
       }))"

definition cbc_get_build_dom_info ::
  "'db sqlite3_api \<Rightarrow> ailsa_cmdb_s option \<Rightarrow> cbc_comm_line_s option \<Rightarrow> 'db world \<Rightarrow> db_list \<Rightarrow> 'db query_result" where
  "cbc_get_build_dom_info api cbt cml w bdom = (case cml of None \<Rightarrow> Some (AILSA_NO_DATA, w, bdom) | Some cl \<Rightarrow>
     (case bdom of None \<Rightarrow> Some (AILSA_NO_DATA, w, bdom) | Some bd \<Rightarrow>
     if cbt = None then Some (AILSA_NO_DATA, w, bdom)
     else then_build bd (domain_or_default api w cbt (bcl_build_domain cl) (Some [])) (\<lambda>w list.
       then_same (ailsa_argument_query api w cbt BUILD_DOMAIN_NET_INFO (Some list) bdom) (\<lambda>w bd.
       Some (if length bd = 0 then AILSA_NO_BUILD_DOMAIN else 0, w, Some bd)))))"

subsection \<open>An address for the build\<close>

text \<open>\<open>strncmp\<close> with a NULL pointer is a crash.  An address that is in the DNS under the same host and domain only
  counts as free; otherwise the result is the number of values found, two for each record.\<close>

definition cbc_check_ip_in_dns ::
  "'db sqlite3_api \<Rightarrow> ailsa_cmdb_s option \<Rightarrow> cstr \<Rightarrow> cstr \<Rightarrow> u64 \<Rightarrow> 'db world \<Rightarrow> (int \<times> 'db world) option" where
  "cbc_check_ip_in_dns api cbt domain host ip w =
    (if cbt = None \<or> domain = None \<or> ip = 0 then Some (AILSA_NO_DATA, w)
     else (case cmdb_add_string_to_list (Some (ntop4 (ucast ip))) (Some []) of (retval, l) \<Rightarrow>
       if retval \<noteq> 0 then Some (-1, w)
       else do {
         (retval, w, r) \<leftarrow> ailsa_argument_query api w cbt A_RECORDS_WITH_IP l (Some []);
         rows \<leftarrow> r;
         if retval \<noteq> 0 then Some (-1, w)
         else (case rows of
             [d, e] \<Rightarrow> do {
               h \<leftarrow> host;
               dom \<leftarrow> domain;
               name \<leftarrow> element_text d;
               if strncmp_eq h name HOST_LEN
               then do {
                 zone \<leftarrow> element_text e;
                 Some (if strncmp_eq dom zone DOMAIN_LEN then 0 else 2, w)
               }
               else Some (2, w)
             }
           | _ \<Rightarrow> Some (int (length rows), w))
       }))"

text \<open>
  The search of a free address: \<open>rest\<close> is the list from the element \<open>e\<close> on, \<open>r\<close> the whole list of the addresses
  in use, ordered by the query, and \<open>lip\<close> the last address of the domain.  An address in use, or found in the
  DNS at the end of the list, moves on to the next address and back to the head of the list.  \<open>Inl\<close> is the code
  with which the function ends, the value \<open>retval\<close> has by then; \<open>Inr\<close> is the address found.
\<close>

partial_function (option) free_ip ::
  "'db sqlite3_api \<Rightarrow> ailsa_cmdb_s option \<Rightarrow> cstr \<Rightarrow> cstr \<Rightarrow> u64 \<Rightarrow> ailsa_data list \<Rightarrow> int \<Rightarrow> u64 \<Rightarrow>
   ailsa_data list \<Rightarrow> 'db world \<Rightarrow> ((int + u64) \<times> 'db world) option" where
  "free_ip api cbt domain host lip r retval ip rest w = (case rest of
     [] \<Rightarrow> Some (Inr ip, w)
   | d # ds \<Rightarrow>
       if ip > lip then Some (Inl retval, w)
       else do {
         bip \<leftarrow> get_number d;
         if bip = ip then free_ip api cbt domain host lip r retval (ip + 1) r w
         else if ds = [] then do {
           (retval, w) \<leftarrow> cbc_check_ip_in_dns api cbt domain host ip w;
           if retval > 0 then free_ip api cbt domain host lip r retval (ip + 1) r w
           else if retval < 0 then Some (Inl retval, w)
           else free_ip api cbt domain host lip r retval ip ds w
         }
         else free_ip api cbt domain host lip r retval ip ds w
       })"

definition cbc_add_ip_to_build ::
  "'db sqlite3_api \<Rightarrow> u32 \<Rightarrow> ailsa_cmdb_s option \<Rightarrow> cbc_comm_line_s option \<Rightarrow> u64 \<Rightarrow> 'db world \<Rightarrow> (int \<times> 'db world) option" where
  "cbc_add_ip_to_build api uid cbt cml ip w = (case cml of None \<Rightarrow> Some (AILSA_NO_DATA, w) | Some cl \<Rightarrow>
     if cbt = None \<or> ip = 0 then Some (AILSA_NO_DATA, w)
     else then_list w (add_args
         [cmdb_add_number_to_list ip, cmdb_add_string_to_list (bcl_name cl)] (Some [])) (\<lambda>l.
       then_rows (domain_or_default api w cbt (bcl_build_domain cl) l) (\<lambda>w l.
       then_rows (cmdb_add_build_domain_id_to_list api w (bcl_build_domain cl) cbt (Some l)) (\<lambda>w l.
       then_rows (cmdb_check_add_server_id_to_list api w (bcl_name cl) cbt (Some l)) (\<lambda>w l.
       then_list w (cmdb_populate_cuser_muser uid (Some l)) (\<lambda>l.
       ailsa_insert_query api w cbt INSERT_BUILD_IP l))))))"

definition cbc_add_host_to_dns ::
  "'db sqlite3_api \<Rightarrow> u32 \<Rightarrow> ailsa_cmdb_s option \<Rightarrow> cstr \<Rightarrow> cstr \<Rightarrow> u64 \<Rightarrow> 'db world \<Rightarrow> (int \<times> 'db world) option" where
  "cbc_add_host_to_dns api uid cbt domain host ip w =
    (if cbt = None \<or> domain = None \<or> host = None \<or> ip = 0 then Some (AILSA_NO_DATA, w)
     else then_rows (cmdb_check_add_zone_id_to_list api w domain FORWARD_ZONE (Some ''master'') cbt (Some [])) (\<lambda>w rec.
       then_list w (add_args
         [cmdb_add_string_to_list (Some ''A''), cmdb_add_string_to_list host,
          cmdb_add_string_to_list (Some (ntop4 (ucast ip)))] (Some rec)) (\<lambda>rec. do {
       n \<leftarrow> map_option length rec;
       if n \<noteq> 4 then Some (AILSA_WRONG_LIST_LENGHT, w)
       else do {
         (retval, w) \<leftarrow> cmdb_check_for_fwd_record api w cbt rec;
         if retval < 0 then Some (retval, w)
         else if retval > 0 then Some (0, w)
         else then_list w (cmdb_populate_cuser_muser uid rec) (\<lambda>rec.
           chk0 (ailsa_insert_query api w cbt INSERT_RECORD_BASE rec) (\<lambda>w.
           then_list w (cmdb_add_number_to_list (ucast uid) (Some [])) (\<lambda>zone.
           then_rows (cmdb_check_add_zone_id_to_list api w domain FORWARD_ZONE (Some ''master'') cbt zone) (\<lambda>w zone.
           ailsa_update_query api w cbt (update_queries ! SET_FWD_ZONE_UPDATED) (Some zone)))))
       } })))"

text \<open>The start and the end of the domain are the second and third value of its row, read before anything else;
  a shorter list is a crash, and so is a missing default domain.\<close>

definition cbc_calculate_build_ip ::
  "'db sqlite3_api \<Rightarrow> u32 \<Rightarrow> ailsa_cmdb_s option \<Rightarrow> cbc_comm_line_s option \<Rightarrow> 'db world \<Rightarrow> db_list \<Rightarrow> (int \<times> 'db world) option" where
  "cbc_calculate_build_ip api uid cbt cml w bdom = (case cml of None \<Rightarrow> Some (AILSA_NO_DATA, w) | Some cl \<Rightarrow>
     (case bdom of None \<Rightarrow> Some (AILSA_NO_DATA, w) | Some bd \<Rightarrow>
     if cbt = None then Some (AILSA_NO_DATA, w)
     else if length bd < 3 then None
     else then_rows (cmdb_add_build_domain_id_to_list api w (bcl_build_domain cl) cbt (Some [])) (\<lambda>w l.
       then_rows (ailsa_argument_query api w cbt BUILD_IP_ON_BUILD_DOMAIN_ID (Some l) (Some [])) (\<lambda>w r.
       then_rows (if bcl_build_domain cl = None then ailsa_basic_query api w cbt DEFAULT_DOMAIN_DETAILS (Some [])
                  else Some (0, w, Some [])) (\<lambda>w m. do {
       domain \<leftarrow> (if bcl_build_domain cl = None
         then (case m of [] \<Rightarrow> None | d # _ \<Rightarrow> get_text d) else Some (bcl_build_domain cl));
       ip \<leftarrow> get_number (bd ! 1);
       lip \<leftarrow> get_number (bd ! 2);
       (found, w) \<leftarrow> free_ip api cbt domain (bcl_name cl) lip r 0 ip r w;
       (case found of
          Inl retval \<Rightarrow> Some (retval, w)
        | Inr ip \<Rightarrow> chk0 (cbc_add_ip_to_build api uid cbt cml ip w) (\<lambda>w.
            then_rows (cmdb_add_ip_id_to_list api w (bcl_name cl) cbt bdom) (\<lambda>w bd.
            cbc_add_host_to_dns api uid cbt domain (bcl_name cl) ip w)))
     })))))"

text \<open>The loop that removes the tail until one id is left.\<close>

function cut_down :: "nat \<Rightarrow> ailsa_data list \<Rightarrow> ailsa_data list" where
  "cut_down n l = (if length l \<le> n then l else cut_down n (butlast l))"
  by pat_completeness auto
termination by (relation "measure (\<lambda>(n, l). length l)") auto

declare cut_down.simps [simp del]

definition cbc_get_ip_info ::
  "'db sqlite3_api \<Rightarrow> u32 \<Rightarrow> ailsa_cmdb_s option \<Rightarrow> cbc_comm_line_s option \<Rightarrow> 'db world \<Rightarrow> db_list \<Rightarrow> 'db query_result" where
  "cbc_get_ip_info api uid cbt cml w build = (case cml of None \<Rightarrow> Some (AILSA_NO_DATA, w, build) | Some cl \<Rightarrow>
     (case build of None \<Rightarrow> Some (AILSA_NO_DATA, w, build) | Some b \<Rightarrow>
     if cbt = None then Some (AILSA_NO_DATA, w, build)
     else then_same (cmdb_add_ip_id_to_list api w (bcl_name cl) cbt build) (\<lambda>w b'.
       if length b' \<ge> length b + 1 then Some (0, w, Some (cut_down (length b + 1) b'))
       else then_build b' (cbc_get_build_dom_info api cbt cml w (Some [])) (\<lambda>w bdom. do {
         (retval, w) \<leftarrow> cbc_calculate_build_ip api uid cbt cml w (Some bdom);
         if retval \<noteq> 0 then Some (retval, w, Some b')
         else cmdb_add_ip_id_to_list api w (bcl_name cl) cbt (Some b')
       }))))"

subsection \<open>The disk\<close>

text \<open>The id of the partition scheme is the last value of the build so far.\<close>

definition cbc_add_disk ::
  "'db sqlite3_api \<Rightarrow> ailsa_cmdb_s option \<Rightarrow> cbc_comm_line_s option \<Rightarrow> 'db world \<Rightarrow> db_list \<Rightarrow> (int \<times> 'db world) option" where
  "cbc_add_disk api cbt cml w build = (case cml of None \<Rightarrow> Some (AILSA_NO_DATA, w) | Some cl \<Rightarrow>
     (case build of None \<Rightarrow> Some (AILSA_NO_DATA, w) | Some b \<Rightarrow>
     if cbt = None then Some (AILSA_NO_DATA, w)
     else then_rows (cmdb_add_disk_dev_id_to_list api w (bcl_name cl) cbt (Some [])) (\<lambda>w list.
       if length list > 0 then Some (0, w)
       else then_rows (cmdb_check_add_server_id_to_list api w (bcl_name cl) cbt (Some [])) (\<lambda>w args. do {
         disk \<leftarrow> bcl_harddisk cl;
         then_list w (cmdb_add_string_to_list (Some (snprintf_s HOST_LEN (''/dev/'' @ disk))) (Some args)) (\<lambda>args.
         if b = [] then None
         else do {
           scheme \<leftarrow> get_number (last b);
           then_list w (cmdb_add_number_to_list scheme (Some list)) (\<lambda>list.
           then_rows (ailsa_argument_query api w cbt SEED_SCHEME_LVM_ON_ID list args) (\<lambda>w args.
           ailsa_insert_query api w cbt INSERT_DISK_DEV (Some args)))
         })
       }))))"

definition cbc_update_disk_lvm ::
  "'db sqlite3_api \<Rightarrow> ailsa_cmdb_s option \<Rightarrow> cbc_comm_line_s option \<Rightarrow> 'db world \<Rightarrow> (int \<times> 'db world) option" where
  "cbc_update_disk_lvm api cbt cml w = (case cml of None \<Rightarrow> Some (AILSA_NO_DATA, w) | Some cl \<Rightarrow>
     if cbt = None then Some (AILSA_NO_DATA, w)
     else then_list w (cmdb_add_string_to_list (bcl_partition cl) (Some [])) (\<lambda>part.
       then_rows (ailsa_argument_query api w cbt SCHEME_LVM_INFO part (Some [])) (\<lambda>w lvm.
       then_rows (cmdb_check_add_server_id_to_list api w (bcl_name cl) cbt (Some lvm)) (\<lambda>w lvm.
       ailsa_update_query api w cbt (update_queries ! UPDATE_DISK_DEV_LVM) (Some lvm)))))"

subsection \<open>Creating a build\<close>

text \<open>After each step the length of the list shows whether the value was found; if not, the function ends with the
  code 0.  The disk is inserted before the address is looked for.\<close>

definition create_build_config ::
  "'db sqlite3_api \<Rightarrow> u32 \<Rightarrow> ailsa_cmdb_s option \<Rightarrow> cbc_comm_line_s option \<Rightarrow> 'db world \<Rightarrow> (int \<times> 'db world) option" where
  "create_build_config api uid cbt cml w = (case cml of None \<Rightarrow> Some (AILSA_NO_DATA, w) | Some cl \<Rightarrow>
     if cbt = None then Some (AILSA_NO_DATA, w)
     else let os = [bcl_os cl, bcl_os_version cl, bcl_arch cl] in
       then_rows (cmdb_add_build_id_to_list api w (bcl_name cl) cbt (Some [])) (\<lambda>w l.
       if length l > 0 then Some (0, w)
       else then_rows (cmdb_check_add_server_id_to_list api w (bcl_name cl) cbt (Some [])) (\<lambda>w b.
       then_rows (cbc_get_network_info api cbt cml w (Some b)) (\<lambda>w b.
       if length b \<noteq> 3 then Some (0, w)
       else then_rows (cmdb_check_add_varient_id_to_list api w (bcl_varient cl) cbt (Some b)) (\<lambda>w b.
       then_rows (cmdb_add_os_id_to_list api w (Some os) cbt (Some b)) (\<lambda>w b.
       if length b \<noteq> 5 then Some (0, w)
       else then_rows (cmdb_add_locale_id_to_list api w (bcl_locale cl) cbt (Some b)) (\<lambda>w b.
       if length b \<noteq> 6 then Some (0, w)
       else then_rows (cmdb_add_scheme_id_to_list api w (bcl_partition cl) cbt (Some b)) (\<lambda>w b.
       if length b \<noteq> 7 then Some (0, w)
       else chk0 (cbc_add_disk api cbt cml w (Some b)) (\<lambda>w.
       then_rows (cbc_get_ip_info api uid cbt cml w (Some b)) (\<lambda>w b.
       if length b \<noteq> 8 then Some (0, w)
       else then_list w (cmdb_populate_cuser_muser uid (Some b)) (\<lambda>b.
       ailsa_insert_query api w cbt INSERT_BUILD b)))))))))))"

subsection \<open>Removing a build\<close>

definition remove_build_config ::
  "'db sqlite3_api \<Rightarrow> ailsa_cmdb_s option \<Rightarrow> cbc_comm_line_s option \<Rightarrow> 'db world \<Rightarrow> (int \<times> 'db world) option" where
  "remove_build_config api cbt cml w = (case cml of None \<Rightarrow> Some (AILSA_NO_DATA, w) | Some cl \<Rightarrow>
     if cbt = None then Some (AILSA_NO_DATA, w)
     else then_rows (cmdb_add_build_id_to_list api w (bcl_name cl) cbt (Some [])) (\<lambda>w bld.
       if length bld = 0 then Some (0, w)
       else then_rows (cmdb_check_add_server_id_to_list api w (bcl_name cl) cbt (Some [])) (\<lambda>w args.
       then_rows (cmdb_check_add_ip_id_to_list api w (bcl_name cl) cbt (Some [])) (\<lambda>w ip.
       then_rows (cmdb_add_disk_id_to_list api w (bcl_name cl) cbt (Some [])) (\<lambda>w disk.
       chk0 (ailsa_delete_query api w cbt (delete_queries ! DELETE_BUILD_ON_SERVER_ID) (Some args)) (\<lambda>w.
       chk0 (if length disk > 0
         then ailsa_delete_query api w cbt (delete_queries ! DELETE_DISK_DEV) (Some disk) else Some (0, w)) (\<lambda>w.
       if bcl_removeip cl \<noteq> 0
       then ailsa_delete_query api w cbt (delete_queries ! DELETE_BUILD_IP) (Some ip) else Some (0, w))))))))"

subsection \<open>Changing a build\<close>

text \<open>\<open>cmdb_replace_data_element\<close> with the element of another list, which is never NULL here.\<close>

definition replaced :: "'db world \<Rightarrow> ailsa_data list \<Rightarrow> ailsa_data \<Rightarrow> nat \<Rightarrow> 'db query_result" where
  "replaced w build d n = map_option (\<lambda>b. (0, w, Some b)) (replace_row build d n)"

definition ailsa_modify_build_varient ::
  "'db sqlite3_api \<Rightarrow> cstr \<Rightarrow> ailsa_cmdb_s option \<Rightarrow> 'db world \<Rightarrow> db_list \<Rightarrow> 'db query_result" where
  "ailsa_modify_build_varient api varient cbt w build = (case build of None \<Rightarrow> Some (AILSA_NO_DATA, w, build) | Some b \<Rightarrow>
     if varient = None \<or> cbt = None then Some (AILSA_NO_DATA, w, build)
     else then_build b (cmdb_check_add_varient_id_to_list api w varient cbt (Some [])) (\<lambda>w l.
       (case l of [] \<Rightarrow> Some (AILSA_VARIENT_REPLACE_FAIL, w, build) | d # _ \<Rightarrow> replaced w b d 0)))"

text \<open>A NULL argument of the next two goes to the cleanup before anything is initialised: a crash.\<close>

definition ailsa_modify_build_partition_scheme ::
  "'db sqlite3_api \<Rightarrow> cstr \<Rightarrow> ailsa_cmdb_s option \<Rightarrow> 'db world \<Rightarrow> db_list \<Rightarrow> 'db query_result" where
  "ailsa_modify_build_partition_scheme api scheme cbt w build = (case build of None \<Rightarrow> None | Some b \<Rightarrow>
     if scheme = None \<or> cbt = None then None
     else then_build b (cmdb_add_scheme_id_to_list api w scheme cbt (Some [])) (\<lambda>w l.
       (case l of [] \<Rightarrow> Some (0, w, build) | d # _ \<Rightarrow> replaced w b d 4)))"

definition ailsa_modify_build_locale ::
  "'db sqlite3_api \<Rightarrow> cstr \<Rightarrow> ailsa_cmdb_s option \<Rightarrow> 'db world \<Rightarrow> db_list \<Rightarrow> 'db query_result" where
  "ailsa_modify_build_locale api loc cbt w build = (case build of None \<Rightarrow> None | Some b \<Rightarrow>
     if loc = None \<or> cbt = None then None
     else then_build b (cmdb_add_locale_id_to_list api w loc cbt (Some [])) (\<lambda>w l.
       (case l of [] \<Rightarrow> Some (0, w, build) | d # _ \<Rightarrow> replaced w b d 3)))"

text \<open>The device is the last value of the argument list, the MAC address the first of the answer.\<close>

definition ailsa_modify_build_netcard ::
  "'db sqlite3_api \<Rightarrow> cstr \<Rightarrow> cstr \<Rightarrow> ailsa_cmdb_s option \<Rightarrow> 'db world \<Rightarrow> db_list \<Rightarrow> 'db query_result" where
  "ailsa_modify_build_netcard api netdev server cbt w build = (case build of None \<Rightarrow> Some (AILSA_NO_DATA, w, build) | Some b \<Rightarrow>
     if netdev = None \<or> cbt = None then Some (AILSA_NO_DATA, w, build)
     else then_build b (cmdb_check_add_server_id_to_list api w server cbt (Some [])) (\<lambda>w l.
       then_build b (listed_in w (cmdb_add_string_to_list netdev (Some l))) (\<lambda>w l.
       then_build b (ailsa_argument_query api w cbt MAC_ADDRESS_FOR_BUILD (Some l) (Some [])) (\<lambda>w m.
       (case m of [] \<Rightarrow> Some (0, w, build)
        | mac # _ \<Rightarrow> then_same (replaced w b (last l) 6) (\<lambda>w b. replaced w b mac 5))))))"

text \<open>The names of the operating system that were not given, from the row of the present one.\<close>

fun fill_os :: "cstr list \<Rightarrow> ailsa_data list \<Rightarrow> cstr list option" where
  "fill_os (o' # os) (d # ds) = do {
     n \<leftarrow> (if o' = None then do { t \<leftarrow> element_text d; Some (Some (strndup t MAC_LEN)) } else Some o');
     ns \<leftarrow> fill_os os ds;
     Some (n # ns)
   }"
| "fill_os os _ = Some os"

definition cmdb_get_full_os ::
  "'db sqlite3_api \<Rightarrow> cstr list \<Rightarrow> ailsa_cmdb_s option \<Rightarrow> u64 \<Rightarrow> 'db world \<Rightarrow> (int \<times> 'db world \<times> cstr list) option" where
  "cmdb_get_full_os api os cbt os_id w =
    (if cbt = None \<or> os_id = 0 then Some (AILSA_NO_DATA, w, os)
     else (case cmdb_add_number_to_list os_id (Some []) of (retval, args) \<Rightarrow>
       if retval \<noteq> 0 then Some (retval, w, os)
       else do {
         (retval, w, build_os) \<leftarrow> ailsa_argument_query api w cbt BUILD_OS_DETAILS_ON_OS_ID args (Some []);
         rows \<leftarrow> build_os;
         if retval \<noteq> 0 then Some (retval, w, os)
         else if length rows = 0 then Some (AILSA_NO_OS, w, os)
         else do { os \<leftarrow> fill_os os rows; Some (0, w, os) }
       }))"

definition ailsa_modify_build_os ::
  "'db sqlite3_api \<Rightarrow> cstr list \<Rightarrow> ailsa_cmdb_s option \<Rightarrow> 'db world \<Rightarrow> db_list \<Rightarrow> 'db query_result" where
  "ailsa_modify_build_os api os cbt w build = (case build of None \<Rightarrow> Some (AILSA_NO_DATA, w, build) | Some b \<Rightarrow>
     if cbt = None then Some (AILSA_NO_DATA, w, build)
     else if length b < 2 then None
     else do {
       (retval, w, os) \<leftarrow> (if None \<in> set os
         then do { os_id \<leftarrow> get_number (b ! 1); cmdb_get_full_os api os cbt os_id w } else Some (0, w, os));
       if retval \<noteq> 0 then Some (retval, w, build)
       else then_build b (cmdb_add_os_id_to_list api w (Some os) cbt (Some [])) (\<lambda>w bos.
         (case bos of [] \<Rightarrow> Some (0, w, build) | d # _ \<Rightarrow> replaced w b d 1))
     })"

text \<open>One option after the other: \<open>retval\<close> is -1 at first and the code of the last change that was asked for.\<close>

definition when_given ::
  "bool \<Rightarrow> ('db world \<Rightarrow> db_list \<Rightarrow> 'db query_result) \<Rightarrow> (int \<Rightarrow> 'db world \<Rightarrow> db_list \<Rightarrow> 'db query_result) \<Rightarrow>
   int \<Rightarrow> 'db world \<Rightarrow> db_list \<Rightarrow> 'db query_result" where
  "when_given asked change rest retval w build =
    (if asked then do {
       (retval, w, build) \<leftarrow> change w build;
       if retval \<noteq> 0 then Some (retval, w, build) else rest retval w build
     } else rest retval w build)"

definition ailsa_get_modified_build ::
  "'db sqlite3_api \<Rightarrow> ailsa_cmdb_s option \<Rightarrow> cbc_comm_line_s option \<Rightarrow> 'db world \<Rightarrow> db_list \<Rightarrow> 'db query_result" where
  "ailsa_get_modified_build api cbt cml w build = (case cml of None \<Rightarrow> Some (AILSA_NO_DATA, w, build) | Some cl \<Rightarrow>
     if cbt = None \<or> build = None then Some (AILSA_NO_DATA, w, build)
     else let os = [map_option (\<lambda>s. strndup s MAC_LEN) (bcl_os cl),
                    map_option (\<lambda>s. strndup s SERVICE_LEN) (bcl_os_version cl),
                    map_option (\<lambda>s. strndup s SERVICE_LEN) (bcl_arch cl)] in
       when_given (bcl_varient cl \<noteq> None) (ailsa_modify_build_varient api (bcl_varient cl) cbt)
      (when_given (bcl_partition cl \<noteq> None) (ailsa_modify_build_partition_scheme api (bcl_partition cl) cbt)
      (when_given (bcl_locale cl \<noteq> None) (ailsa_modify_build_locale api (bcl_locale cl) cbt)
      (when_given (bcl_netcard cl \<noteq> None) (ailsa_modify_build_netcard api (bcl_netcard cl) (bcl_name cl) cbt)
      (when_given (bcl_os cl \<noteq> None \<or> bcl_os_version cl \<noteq> None \<or> bcl_arch cl \<noteq> None)
         (ailsa_modify_build_os api os cbt)
      (\<lambda>retval w build. Some (retval, w, build)))))) (-1) w build)"

definition modify_build_config ::
  "'db sqlite3_api \<Rightarrow> u32 \<Rightarrow> ailsa_cmdb_s option \<Rightarrow> cbc_comm_line_s option \<Rightarrow> 'db world \<Rightarrow> (int \<times> 'db world) option" where
  "modify_build_config api uid cbt cml w = (case cml of None \<Rightarrow> Some (AILSA_NO_DATA, w) | Some cl \<Rightarrow>
     if cbt = None then Some (AILSA_NO_DATA, w)
     else then_list w (cmdb_add_string_to_list (bcl_name cl) (Some [])) (\<lambda>args.
       then_rows (ailsa_argument_query api w cbt BUILD_DETAILS_ON_SERVER_NAME args (Some [])) (\<lambda>w build.
       if length build = 0 then Some (0, w)
       else do {
         (retval, w, build) \<leftarrow> ailsa_get_modified_build api cbt cml w (Some build);
         if retval > 0 then Some (retval, w)
         else if retval < 0 then Some (0, w)
         else then_list w (cmdb_add_number_to_list (ucast uid) build) (\<lambda>build.
           then_rows (cmdb_check_add_server_id_to_list api w (bcl_name cl) cbt build) (\<lambda>w build.
           chk0 (ailsa_update_query api w cbt (update_queries ! UPDATE_BUILD) (Some build)) (\<lambda>w.
           if bcl_partition cl \<noteq> None then cbc_update_disk_lvm api cbt cml w else Some (0, w))))
       })))"

end
