(* ===== verification/Build_Display.thy ===== *)
theory Build_Display
  imports Build_Create Cmdb_Main
begin

text \<open>
  src/build.c, the part that prints: the configuration of one build, the list of servers with a build, and the
  defaults.  A result is the code, the text printed and the connection; what was printed before an error stays.
\<close>

subsection \<open>Steps that print\<close>

fun print_until_error :: "('db world \<Rightarrow> 'db cmdb_result) list \<Rightarrow> 'db world \<Rightarrow> 'db cmdb_result" where
  "print_until_error [] w = Some (0, [], w)"
| "print_until_error (f # fs) w = do {
     (retval, text, w) \<leftarrow> f w;
     if retval \<noteq> 0 then Some (retval, text, w)
     else do { (retval, text', w) \<leftarrow> print_until_error fs w; Some (retval, text @ text', w) }
   }"

text \<open>A query whose rows are printed when there are any.\<close>

definition print_rows ::
  "'db query_result \<Rightarrow> (ailsa_data list \<Rightarrow> string option) \<Rightarrow> 'db cmdb_result" where
  "print_rows query display = do {
     (retval, w, l) \<leftarrow> query;
     rows \<leftarrow> l;
     if retval \<noteq> 0 \<or> length rows = 0 then Some (retval, [], w)
     else do { text \<leftarrow> display rows; Some (0, text, w) }
   }"

definition print_for_server ::
  "'db sqlite3_api \<Rightarrow> ailsa_cmdb_s option \<Rightarrow> db_list \<Rightarrow> nat \<Rightarrow> (ailsa_data list \<Rightarrow> string option) \<Rightarrow> 'db world \<Rightarrow> 'db cmdb_result" where
  "print_for_server api cbc list query display w =
    (if cbc = None \<or> list = None then Some (AILSA_NO_DATA, [], w)
     else print_rows (ailsa_argument_query api w cbc query list (Some [])) display)"

subsection \<open>The details of a build\<close>

fun display_cbc_ip_net_info :: "ailsa_data list \<Rightarrow> string option" where
  "display_cbc_ip_net_info (d # i # _) = do {
     domain \<leftarrow> text_of d;
     ip \<leftarrow> get_number i;
     Some (''Domain name:'' @ tab @ domain @ nl @ ''IP Address:'' @ tab @ ntop4 (ucast ip) @ nl)
   }"
| "display_cbc_ip_net_info _ = None"

definition cbc_print_ip_net_info ::
  "'db sqlite3_api \<Rightarrow> ailsa_cmdb_s option \<Rightarrow> db_list \<Rightarrow> 'db world \<Rightarrow> 'db cmdb_result" where
  "cbc_print_ip_net_info api cbc list = print_for_server api cbc list IP_NET_ON_SERVER_ID display_cbc_ip_net_info"

fun display_build_os_info :: "ailsa_data list \<Rightarrow> string option" where
  "display_build_os_info (a # b # c # d # _) = do {
     os \<leftarrow> text_of a;
     version \<leftarrow> text_of b;
     arch \<leftarrow> text_of c;
     type \<leftarrow> text_of d;
     Some (''Build OS:'' @ tab @ os @ '', Version '' @ version @ '', Architecture '' @ arch @ nl @
       ''Build Type:'' @ tab @ type @ nl)
   }"
| "display_build_os_info _ = None"

definition cbc_print_os_build_type ::
  "'db sqlite3_api \<Rightarrow> ailsa_cmdb_s option \<Rightarrow> db_list \<Rightarrow> 'db world \<Rightarrow> 'db cmdb_result" where
  "cbc_print_os_build_type api cbc list = print_for_server api cbc list BUILD_OS_AND_TYPE display_build_os_info"

fun first_text :: "string \<Rightarrow> ailsa_data list \<Rightarrow> string option" where
  "first_text what (d # _) = do { t \<leftarrow> text_of d; Some (what @ t @ nl) }"
| "first_text what [] = None"

definition cbc_print_build_varient ::
  "'db sqlite3_api \<Rightarrow> ailsa_cmdb_s option \<Rightarrow> db_list \<Rightarrow> 'db world \<Rightarrow> 'db cmdb_result" where
  "cbc_print_build_varient api cbc list =
     print_for_server api cbc list BUILD_VARIENT_ON_SERVER_ID (first_text (''Build Varient'' @ tab))"

fun display_build_locale :: "ailsa_data list \<Rightarrow> string option" where
  "display_build_locale (a # b # c # _) = do {
     loc \<leftarrow> text_of a;
     language \<leftarrow> text_of b;
     timezone \<leftarrow> text_of c;
     Some (''Locale:'' @ tabs 2 @ loc @ nl @ ''Language:'' @ tab @ language @ nl @ ''Timezone:'' @ tab @ timezone @ nl)
   }"
| "display_build_locale _ = None"

definition cbc_print_build_locale ::
  "'db sqlite3_api \<Rightarrow> ailsa_cmdb_s option \<Rightarrow> db_list \<Rightarrow> 'db world \<Rightarrow> 'db cmdb_result" where
  "cbc_print_build_locale api cbc list = print_for_server api cbc list LOCALE_DETAILS_ON_SERVER_ID display_build_locale"

fun display_build_times_and_users :: "(u32 \<Rightarrow> string option) \<Rightarrow> ailsa_data list \<Rightarrow> string option" where
  "display_build_times_and_users pw (cu # ct # mu # mt # _) = do {
     uid \<leftarrow> get_number cu;
     created \<leftarrow> text_of ct;
     cid \<leftarrow> get_number mu;
     modified \<leftarrow> text_of mt;
     Some (''Build created by '' @ cmdb_get_uname pw uid @ '' on '' @ created @ nl @
       ''Build modified by '' @ cmdb_get_uname pw cid @ '' on '' @ modified @ nl)
   }"
| "display_build_times_and_users pw _ = None"

definition cbc_print_build_times_and_users ::
  "'db sqlite3_api \<Rightarrow> (u32 \<Rightarrow> string option) \<Rightarrow> ailsa_cmdb_s option \<Rightarrow> db_list \<Rightarrow> 'db world \<Rightarrow> 'db cmdb_result" where
  "cbc_print_build_times_and_users api pw cbc list =
     print_for_server api cbc list BUILD_TIMES_AND_USERS (display_build_times_and_users pw)"

definition print_string_8_16 :: "string \<Rightarrow> string" where
  "print_string_8_16 s = (if length s < 8 then s @ tabs 2 else s @ tab)"

fun scheme_lines :: "ailsa_data list \<Rightarrow> string option" where
  "scheme_lines [] = Some []"
| "scheme_lines (a # b # c # rest) = do {
     mount \<leftarrow> text_of a;
     fs \<leftarrow> text_of b;
     logvol \<leftarrow> text_of c;
     others \<leftarrow> scheme_lines rest;
     Some (print_string_8_16 mount @ print_string_8_16 fs @ print_string_8_16 logvol @ nl @ others)
   }"
| "scheme_lines _ = None"

text \<open>A list that is not made of rows of three is not printed.\<close>

definition display_build_scheme :: "ailsa_data list \<Rightarrow> string option" where
  "display_build_scheme rows =
    (if length rows mod 3 \<noteq> 0 then Some [] else map_option (\<lambda>lines. lines @ nl) (scheme_lines rows))"

definition cbc_print_build_scheme ::
  "'db sqlite3_api \<Rightarrow> ailsa_cmdb_s option \<Rightarrow> db_list \<Rightarrow> 'db world \<Rightarrow> 'db cmdb_result" where
  "cbc_print_build_scheme api cbc list w =
    (if cbc = None \<or> list = None then Some (AILSA_NO_DATA, [], w)
     else do {
       (retval, w, scheme) \<leftarrow> ailsa_argument_query api w cbc PART_SCHEME_NAME_ON_SERVER_ID list (Some []);
       names \<leftarrow> scheme;
       if retval \<noteq> 0 \<or> length names = 0 then Some (retval, [], w)
       else do {
         name \<leftarrow> text_of (hd names);
         (retval, text, w) \<leftarrow> print_rows (ailsa_argument_query api w cbc PARTITIOINS_ON_SERVER_ID list (Some []))
           (\<lambda>rows. map_option (\<lambda>t. ''Mount Point'' @ tab @ ''Filesystem'' @ tab @ ''Logical Volume'' @ nl @ t)
              (display_build_scheme rows));
         Some (retval, nl @ ''Part scheme'' @ tab @ name @ nl @ text, w)
       }
     })"

definition display_build_config ::
  "'db sqlite3_api \<Rightarrow> (u32 \<Rightarrow> string option) \<Rightarrow> ailsa_cmdb_s option \<Rightarrow> cbc_comm_line_s option \<Rightarrow> 'db world \<Rightarrow> 'db cmdb_result" where
  "display_build_config api pw cbt cml w = (case cml of None \<Rightarrow> Some (AILSA_NO_DATA, [], w) | Some cl \<Rightarrow>
     if cbt = None then Some (AILSA_NO_DATA, [], w)
     else do {
       (retval, w, server) \<leftarrow> cmdb_check_add_server_id_to_list api w (bcl_name cl) cbt (Some []);
       if retval \<noteq> 0 then Some (retval, [], w)
       else do {
         (retval, w, build) \<leftarrow> cmdb_add_build_id_to_list api w (bcl_name cl) cbt (Some []);
         rows \<leftarrow> build;
         if retval \<noteq> 0 \<or> length rows = 0 then Some (retval, [], w)
         else do {
           name \<leftarrow> bcl_name cl;
           (retval, text, w) \<leftarrow> print_until_error
             [cbc_print_ip_net_info api cbt server,
              cbc_print_os_build_type api cbt server,
              cbc_print_build_varient api cbt server,
              cbc_print_build_locale api cbt server,
              cbc_print_build_scheme api cbt server,
              cbc_print_build_times_and_users api pw cbt server] w;
           Some (retval, ''Build details for server '' @ name @ nl @ nl @ text, w)
         }
       }
     })"

subsection \<open>Servers with a build\<close>

text \<open>A name without a domain after it is a crash.\<close>

fun build_server_lines :: "ailsa_data list \<Rightarrow> string option" where
  "build_server_lines [] = Some []"
| "build_server_lines (d # f # rest) = do {
     name \<leftarrow> text_of d;
     domain \<leftarrow> text_of f;
     others \<leftarrow> build_server_lines rest;
     Some (name @ ''.'' @ domain @ nl @ others)
   }"
| "build_server_lines _ = None"

definition list_build_servers :: "'db sqlite3_api \<Rightarrow> ailsa_cmdb_s option \<Rightarrow> 'db world \<Rightarrow> ('db world \<times> string) option" where
  "list_build_servers api cmc w =
    (if cmc = None then Some (w, [])
     else shown (ailsa_basic_query api w cmc ALL_SERVERS_WITH_BUILD (Some [])) (\<lambda>w list. do {
       lines \<leftarrow> build_server_lines list;
       Some (w, lines)
     }))"

subsection \<open>The defaults\<close>

definition default_line :: "string \<Rightarrow> string \<Rightarrow> ailsa_data list \<Rightarrow> string option" where
  "default_line none some rows = (case rows of
     [] \<Rightarrow> Some (none @ nl)
   | d # _ \<Rightarrow> do { t \<leftarrow> text_of d; Some (some @ t @ nl) })"

fun default_os_line :: "ailsa_data list \<Rightarrow> string option" where
  "default_os_line [] = Some (''No default build OS'' @ nl)"
| "default_os_line (a # b # c # _) = do {
     os \<leftarrow> text_of a;
     version \<leftarrow> text_of b;
     arch \<leftarrow> text_of c;
     Some (''Default build os: '' @ os @ ''; Version: '' @ version @ ''; Arch: '' @ arch @ nl)
   }"
| "default_os_line _ = None"

definition view_defaults_for_cbc ::
  "'db sqlite3_api \<Rightarrow> ailsa_cmdb_s option \<Rightarrow> cbc_comm_line_s option \<Rightarrow> 'db world \<Rightarrow> 'db cmdb_result" where
  "view_defaults_for_cbc api cbt cml w =
    (if cbt = None \<or> cml = None then Some (AILSA_NO_DATA, [], w)
     else do {
       (retval, w, dom) \<leftarrow> ailsa_basic_query api w cbt DEFAULT_DOMAIN_DETAILS (Some []);
       if retval \<noteq> 0 then Some (retval, [], w) else do {
       (retval, w, os) \<leftarrow> ailsa_basic_query api w cbt DEFAULT_OS_DETAILS (Some []);
       if retval \<noteq> 0 then Some (retval, [], w) else do {
       (retval, w, part) \<leftarrow> ailsa_basic_query api w cbt DEFAULT_SCHEME_DETAILS (Some []);
       if retval \<noteq> 0 then Some (retval, [], w) else do {
       (retval, w, var) \<leftarrow> ailsa_basic_query api w cbt DEFAULT_VARIENT_DETAILS (Some []);
       if retval \<noteq> 0 then Some (retval, [], w) else do {
         dom \<leftarrow> dom; os \<leftarrow> os; part \<leftarrow> part; var \<leftarrow> var;
         domains \<leftarrow> default_line ''No default build domain'' ''Default build domain: '' dom;
         schemes \<leftarrow> default_line ''No default partition scheme'' ''Default partition scheme: '' part;
         varients \<leftarrow> default_line ''No default varient'' ''Default build varient: '' var;
         systems \<leftarrow> default_os_line os;
         Some (0, domains @ schemes @ varients @ systems, w)
       } } } }
     })"

end
