(* ===== verification/Build_Boot.thy ===== *)
theory Build_Boot
  imports Build_Display Zone_Commands
begin

text \<open>
  src/build.c, the boot files: the hosts of the DHCP server, and the boot menu of one server for TFTP.  A file is
  written as in theory Zone\_Files.
\<close>

subsection \<open>The hosts of the DHCP server\<close>

record ailsa_dhcp_conf_s =
  dh_name :: string
  dh_mac :: string
  dh_ip :: string
  dh_domain :: string

fun dhcp_confs :: "ailsa_data list \<Rightarrow> ailsa_dhcp_conf_s list option" where
  "dhcp_confs [] = Some []"
| "dhcp_confs (a # b # c # d # rest) = do {
     name \<leftarrow> text_of a;
     mac \<leftarrow> text_of b;
     ip \<leftarrow> get_number c;
     domain \<leftarrow> text_of d;
     others \<leftarrow> dhcp_confs rest;
     Some (\<lparr>dh_name = strndup name DOMAIN_LEN, dh_mac = strndup mac DOMAIN_LEN,
       dh_ip = strndup (ntop4 (ucast ip)) HOST_LEN, dh_domain = strndup domain DOMAIN_LEN\<rparr> # others)
   }"
| "dhcp_confs _ = None"

text \<open>The first element is read before the length is looked at: without any build this is a crash.\<close>

definition cbc_fill_dhcp_conf ::
  "db_list \<Rightarrow> ailsa_dhcp_conf_s list option \<Rightarrow> (int \<times> ailsa_dhcp_conf_s list option) option" where
  "cbc_fill_dhcp_conf db dhcp = (case (db, dhcp) of
     (Some rows, Some ds) \<Rightarrow>
       if rows = [] then None
       else if length rows mod 4 \<noteq> 0 then Some (-1, dhcp)
       else do { confs \<leftarrow> dhcp_confs rows; Some (0, Some (ds @ confs)) }
   | _ \<Rightarrow> Some (AILSA_NO_DATA, dhcp))"

text \<open>The guard is \<open>!(cbc || !(dhcp))\<close>.\<close>

definition cbc_get_dhcp_info ::
  "'db sqlite3_api \<Rightarrow> ailsa_cmdb_s option \<Rightarrow> ailsa_dhcp_conf_s list option \<Rightarrow> 'db world \<Rightarrow>
   (int \<times> 'db world \<times> ailsa_dhcp_conf_s list option) option" where
  "cbc_get_dhcp_info api cbc dhcp w =
    (if \<not> (cbc \<noteq> None \<or> dhcp = None) then Some (AILSA_NO_DATA, w, dhcp)
     else do {
       (retval, w, db) \<leftarrow> ailsa_basic_query api w cbc DHCP_INFORMATION (Some []);
       if retval \<noteq> 0 then Some (retval, w, dhcp)
       else do { (retval, dhcp) \<leftarrow> cbc_fill_dhcp_conf db dhcp; Some (retval, w, dhcp) }
     })"

definition dhcp_host_line :: "ailsa_dhcp_conf_s \<Rightarrow> string" where
  "dhcp_host_line d = ''host '' @ dh_name d @ '' { hardware ethernet '' @ dh_mac d @ ''; fixed-address '' @ dh_ip d @
     ''; option domain-name '' @ quoted (dh_domain d) @ ''; }'' @ nl"

definition cbc_write_dhcp_config_file ::
  "services \<Rightarrow> string \<Rightarrow> ailsa_dhcp_conf_s list option \<Rightarrow> 'db site \<Rightarrow> int \<times> 'db site" where
  "cbc_write_dhcp_config_file os filename dhcp st = (case dhcp of None \<Rightarrow> (AILSA_NO_DATA, st) | Some ds \<Rightarrow>
     if os_open os filename = -1 then (AILSA_FILE_ERROR, st)
     else (0, put_file filename (concat (map dhcp_host_line ds)) st))"

definition write_dhcp_config ::
  "'db sqlite3_api \<Rightarrow> services \<Rightarrow> ailsa_cmdb_s option \<Rightarrow> cbc_comm_line_s option \<Rightarrow> 'db site \<Rightarrow> 'db site_result" where
  "write_dhcp_config api os cmc cml st = (case cmc of None \<Rightarrow> Some (AILSA_NO_DATA, st) | Some cc \<Rightarrow>
     if cml = None then Some (AILSA_NO_DATA, st)
     else do {
       (retval, w, dhcp) \<leftarrow> cbc_get_dhcp_info api cmc (Some []) (si_world st);
       let st = st\<lparr>si_world := w\<rparr>;
       if retval \<noteq> 0 then Some (retval, st)
       else do {
         dir \<leftarrow> cc_dhcpconf cc;
         Some (cbc_write_dhcp_config_file os (snprintf_s DOMAIN_LEN (dir @ ''dhcpd.hosts'')) dhcp st)
       }
     })"

subsection \<open>The boot menu\<close>

record ailsa_tftp_s =
  tf_alias :: string
  tf_version :: string
  tf_arch :: string
  tf_build_type :: string
  tf_country :: string
  tf_locale :: string
  tf_keymap :: string
  tf_boot_line :: string
  tf_arg :: string
  tf_url :: string
  tf_net_int :: string

text \<open>\<open>%lX\<close>.\<close>

definition hex_digit :: "nat \<Rightarrow> char" where
  "hex_digit n = char_of (if n < 10 then 48 + n else 55 + n)"

fun hex_upper :: "nat \<Rightarrow> string" where
  "hex_upper n = (if n < 16 then [hex_digit n] else hex_upper (n div 16) @ [hex_digit (n mod 16)])"

declare hex_upper.simps [simp del]

text \<open>The inner \<open>None\<close> is the NULL that stands for lists of a wrong length; the first value of an empty list of the
  operating system is read before its length.\<close>

definition cbc_fill_tftp_values :: "ailsa_data list \<Rightarrow> ailsa_data list \<Rightarrow> ailsa_data list \<Rightarrow> ailsa_tftp_s option option" where
  "cbc_fill_tftp_values os loc tftp =
    (if os = [] then None
     else if loc = [] \<or> tftp = [] then Some None
     else if length os mod 3 \<noteq> 0 \<or> length loc mod 4 \<noteq> 0 \<or> length tftp mod 5 \<noteq> 0 then Some None
     else do {
       alias \<leftarrow> text_of (os ! 0);
       version \<leftarrow> text_of (os ! 1);
       arch \<leftarrow> text_of (os ! 2);
       country \<leftarrow> text_of (loc ! 0);
       locale' \<leftarrow> text_of (loc ! 1);
       keymap \<leftarrow> text_of (loc ! 2);
       boot_line \<leftarrow> text_of (tftp ! 0);
       net_int \<leftarrow> text_of (tftp ! 1);
       arg \<leftarrow> text_of (tftp ! 2);
       url \<leftarrow> text_of (tftp ! 3);
       build_type \<leftarrow> text_of (tftp ! 4);
       Some (Some \<lparr>tf_alias = strndup alias MAC_LEN, tf_version = strndup version MAC_LEN,
         tf_arch = strndup arch SERVICE_LEN, tf_build_type = strndup build_type MAC_LEN,
         tf_country = strndup country SERVICE_LEN, tf_locale = strndup locale' SERVICE_LEN,
         tf_keymap = strndup keymap SERVICE_LEN, tf_boot_line = strndup boot_line CONFIG_LEN,
         tf_arg = strndup arg SERVICE_LEN, tf_url = strndup url CONFIG_LEN, tf_net_int = strndup net_int SERVICE_LEN\<rparr>)
     })"

definition kernel_name :: "ailsa_tftp_s \<Rightarrow> string" where
  "kernel_name t = tf_alias t @ ''-'' @ tf_version t @ ''-'' @ tf_arch t"

definition tftp_config_text :: "string \<Rightarrow> int \<Rightarrow> ailsa_tftp_s \<Rightarrow> string" where
  "tftp_config_text host gui t =
     ''default '' @ host @ nl @ nl @ ''label '' @ host @ nl @
     ''kernel vmlinuz-'' @ kernel_name t @ nl @
     ''append initrd=initrd-'' @ kernel_name t @ ''.img '' @
     (if strncmp_eq (tf_build_type t) ''preseed'' SERVICE_LEN
      then ''county='' @ tf_country t @ '' console-setup/layoutcode='' @ tf_country t @ '' '' @ tf_boot_line t @ '' '' @
        tf_arg t @ ''='' @ tf_url t @ host @ ''.cfg interface='' @ tf_net_int t @ '' '' @
        (if tf_alias t = ''debian'' \<and> tf_version t = ''10'' then ''lowmem/low=true '' else []) @
        (if gui > 0 then ''vga=788'' else ''vga=off console=ttyS0,115200n8'') @ nl @ nl
      else []) @
     (if strncmp_eq (tf_build_type t) ''kickstart'' SERVICE_LEN
      then ''ksdevice='' @ tf_net_int t @ '' ramdisk_size=8192 '' @ tf_arg t @ ''='' @ tf_url t @ host @ ''.cfg '' @
        (if gui > 0 then ''console=tty0'' else ''console=ttyS0,115200n8'') @ nl @ nl
      else [])"

definition cbc_write_tftp_config_file ::
  "services \<Rightarrow> cbc_comm_line_s \<Rightarrow> string \<Rightarrow> ailsa_tftp_s \<Rightarrow> 'db site \<Rightarrow> 'db site_result" where
  "cbc_write_tftp_config_file os cl filename tftp st =
    (if os_open os filename = -1 then Some (AILSA_FILE_ERROR, st)
     else do {
       host \<leftarrow> bcl_name cl;
       Some (0, put_file filename (tftp_config_text host (bcl_gui cl) tftp) st)
     })"

text \<open>The name of the file is the address in hexadecimal after the directory and the prefix.  \<open>cml->os\<close> is set to
  the alias, for which it must not be NULL; nothing reads it afterwards.\<close>

definition write_tftp_config ::
  "'db sqlite3_api \<Rightarrow> services \<Rightarrow> ailsa_cmdb_s option \<Rightarrow> cbc_comm_line_s option \<Rightarrow> 'db site \<Rightarrow> 'db site_result" where
  "write_tftp_config api os cmc cml st = (case (cmc, cml) of
     (Some cc, Some cl) \<Rightarrow>
       on_query st (\<lambda>w. cmdb_check_add_server_id_to_list api w (bcl_name cl) cmc (Some [])) (\<lambda>st server.
       on_query st (\<lambda>w. ailsa_argument_query api w cmc IP_NET_ON_SERVER_ID (Some server) (Some [])) (\<lambda>st ip.
       if length ip < 2 then Some (0, st)
       else do {
         addr \<leftarrow> get_number (ip ! 1);
         dir \<leftarrow> cc_tftpdir cc;
         pxe \<leftarrow> cc_pxe cc;
         let filename = snprintf_s DOMAIN_LEN (dir @ pxe @ hex_upper (unat addr));
         on_query st (\<lambda>w. ailsa_argument_query api w cmc BUILD_OS_DETAILS_ON_SERVER_ID (Some server) (Some [])) (\<lambda>st b_os.
           if b_os = [] then None
           else do {
             alias \<leftarrow> text_of (hd b_os);
             on_query st (\<lambda>w. ailsa_argument_query api w cmc FULL_LOCALE_DETAILS_ON_SERVER_ID (Some server) (Some [])) (\<lambda>st loc.
             on_query st (\<lambda>w. ailsa_argument_query api w cmc TFTP_DETAILS_ON_SERVER_ID (Some server) (Some [])) (\<lambda>st tftp. do {
               values \<leftarrow> cbc_fill_tftp_values b_os loc tftp;
               (case values of None \<Rightarrow> Some (0, st)
                | Some t \<Rightarrow> cbc_write_tftp_config_file os cl filename t st)
             }))
           })
       }))
   | _ \<Rightarrow> Some (AILSA_NO_DATA, st))"

end
