(* ===== verification/Build_Details.thy ===== *)
theory Build_Details
  imports Build_Boot
begin

text \<open>
  src/build.c, the values the build files are made of: the details of the build, the accounts, the settings of the
  installed packages with their variables replaced, and the scripts.
\<close>

subsection \<open>Texts\<close>

definition text_lines :: "string list \<Rightarrow> string" where
  "text_lines ls = concat (map (\<lambda>l. l @ nl) ls)"

text \<open>The writers of the parts of a file give a code and the text they wrote; a code other than 0 ends the file.\<close>

fun written :: "(int \<times> string) option list \<Rightarrow> (int \<times> string) option" where
  "written [] = Some (0, [])"
| "written (part # parts) = do {
     (retval, text) \<leftarrow> part;
     if retval \<noteq> 0 then Some (retval, text)
     else do { (retval, text') \<leftarrow> written parts; Some (retval, text @ text') }
   }"

fun strstr :: "string \<Rightarrow> string \<Rightarrow> nat option" where
  "strstr s pat = (if take (length pat) s = pat then Some 0
     else (case s of [] \<Rightarrow> None | _ # cs \<Rightarrow> map_option Suc (strstr cs pat)))"

declare strstr.simps [simp del]

subsection \<open>The build\<close>

record ailsa_build_s =
  bs_locale :: string
  bs_language :: string
  bs_keymap :: string
  bs_country :: string
  bs_net_int :: string
  bs_ip :: string
  bs_ns :: string
  bs_nm :: string
  bs_gw :: string
  bs_ntp :: string
  bs_host :: string
  bs_domain :: string
  bs_mirror :: string
  bs_os :: string
  bs_version :: string
  bs_os_ver :: string
  bs_arch :: string
  bs_url :: string
  bs_fqdn :: string
  bs_do_ntp :: i16

definition address_text :: "ailsa_data \<Rightarrow> string option" where
  "address_text d = map_option (\<lambda>n. strndup (ntop4 (ucast n)) SERVICE_LEN) (get_number d)"

definition cut_text :: "nat \<Rightarrow> ailsa_data \<Rightarrow> string option" where
  "cut_text n d = map_option (\<lambda>t. strndup t n) (text_of d)"

text \<open>The inner \<open>None\<close> is NULL, for less than 18 values; the nineteen values of a row are all read, the first before the
  length is looked at.\<close>

definition cbc_fill_build_details :: "ailsa_data list \<Rightarrow> ailsa_build_s option option" where
  "cbc_fill_build_details build =
    (if build = [] then None
     else if length build < 18 then Some None
     else if length build < 19 then None
     else do {
       locale' \<leftarrow> cut_text MAC_LEN (build ! 0);
       language \<leftarrow> cut_text SERVICE_LEN (build ! 1);
       keymap \<leftarrow> cut_text SERVICE_LEN (build ! 2);
       country \<leftarrow> cut_text SERVICE_LEN (build ! 3);
       net_int \<leftarrow> cut_text SERVICE_LEN (build ! 4);
       ip \<leftarrow> address_text (build ! 5);
       ns \<leftarrow> address_text (build ! 6);
       nm \<leftarrow> address_text (build ! 7);
       gw \<leftarrow> address_text (build ! 8);
       do_ntp \<leftarrow> get_small (build ! 9);
       ntp \<leftarrow> cut_text DOMAIN_LEN (build ! 10);
       host \<leftarrow> cut_text HOST_LEN (build ! 11);
       domain \<leftarrow> cut_text DOMAIN_LEN (build ! 12);
       mirror \<leftarrow> cut_text DOMAIN_LEN (build ! 13);
       os \<leftarrow> cut_text MAC_LEN (build ! 14);
       version \<leftarrow> cut_text SERVICE_LEN (build ! 15);
       os_ver \<leftarrow> cut_text SERVICE_LEN (build ! 16);
       arch \<leftarrow> cut_text SERVICE_LEN (build ! 17);
       url \<leftarrow> cut_text DOMAIN_LEN (build ! 18);
       Some (Some \<lparr>bs_locale = locale', bs_language = language, bs_keymap = keymap, bs_country = country,
         bs_net_int = net_int, bs_ip = ip, bs_ns = ns, bs_nm = nm, bs_gw = gw, bs_ntp = ntp, bs_host = host,
         bs_domain = domain, bs_mirror = mirror, bs_os = os, bs_version = version, bs_os_ver = os_ver,
         bs_arch = arch, bs_url = url, bs_fqdn = snprintf_s DOMAIN_LEN (host @ ''.'' @ domain), bs_do_ntp = do_ntp\<rparr>)
     })"

text \<open>The members of the structure seen as an array of pointers.\<close>

definition build_members :: "ailsa_build_s \<Rightarrow> string list" where
  "build_members b = [bs_locale b, bs_language b, bs_keymap b, bs_country b, bs_net_int b, bs_ip b, bs_ns b, bs_nm b,
     bs_gw b, bs_ntp b, bs_host b, bs_domain b, bs_mirror b, bs_os b, bs_version b, bs_os_ver b, bs_arch b, bs_url b,
     bs_fqdn b]"

subsection \<open>Accounts\<close>

record ailsa_account_s =
  ac_username :: string
  ac_hash :: string
  ac_pass :: string
  ac_server_id :: u64
  ac_identity_id :: u64

fun fill_accounts :: "u64 \<Rightarrow> ailsa_data list \<Rightarrow> ailsa_account_s list option" where
  "fill_accounts sid [] = Some []"
| "fill_accounts sid (a # b # c # d # rest) = do {
     username \<leftarrow> cut_text CONFIG_LEN a;
     pass \<leftarrow> cut_text SQL_TEXT_MAX b;
     hash \<leftarrow> cut_text CONFIG_LEN c;
     identity \<leftarrow> get_number d;
     others \<leftarrow> fill_accounts sid rest;
     Some (\<lparr>ac_username = username, ac_hash = hash, ac_pass = pass, ac_server_id = sid, ac_identity_id = identity\<rparr> # others)
   }"
| "fill_accounts sid _ = None"

definition get_server_accounts ::
  "'db sqlite3_api \<Rightarrow> ailsa_cmdb_s option \<Rightarrow> cbc_comm_line_s option \<Rightarrow> ailsa_account_s list option \<Rightarrow> 'db world \<Rightarrow>
   (int \<times> 'db world \<times> ailsa_account_s list option) option" where
  "get_server_accounts api cbc cml acc w = (case (cml, acc) of
     (Some cl, Some accounts) \<Rightarrow>
       if cbc = None then Some (AILSA_NO_DATA, w, acc)
       else (case cmdb_add_string_to_list (bcl_name cl) (Some []) of (retval, server) \<Rightarrow>
         if retval \<noteq> 0 then Some (retval, w, acc)
         else do {
           (retval, w, server_id) \<leftarrow> cmdb_check_add_server_id_to_list api w (bcl_name cl) cbc (Some []);
           ids \<leftarrow> server_id;
           if retval \<noteq> 0 then Some (retval, w, acc)
           else (case ids of [] \<Rightarrow> None | i # _ \<Rightarrow> do {
             sid \<leftarrow> get_number i;
             (retval, w, results) \<leftarrow> ailsa_argument_query api w cbc IDENTITIES_ON_SERVER_NAME server (Some []);
             rows \<leftarrow> results;
             if retval \<noteq> 0 then Some (retval, w, acc)
             else do { more_accounts \<leftarrow> fill_accounts sid rows; Some (0, w, Some (accounts @ more_accounts)) }
           })
         })
   | _ \<Rightarrow> Some (AILSA_NO_DATA, w, acc))"

subsection \<open>Settings of packages\<close>

record ailsa_syspack_s =
  sp_name :: string
  sp_field :: string
  sp_type :: string
  sp_arg :: string
  sp_newarg :: cstr

definition spvars :: "string list" where
  "spvars = [''%baseip'', ''%domain'', ''%fqdn'', ''%hostname'', ''%ip'']"

definition sp_position :: "nat list" where
  "sp_position = [5, 11, 18, 10, 5]"

text \<open>A variable that is found but not at the start leaves the empty text of the fresh block.\<close>

definition sys_newarg :: "ailsa_build_s \<Rightarrow> string \<Rightarrow> cstr \<Rightarrow> string \<times> nat \<Rightarrow> cstr" where
  "sys_newarg bld arg newarg entry = (case entry of (var, pos) \<Rightarrow>
     let new = build_members bld ! pos in
     (case strstr arg var of
        None \<Rightarrow> newarg
      | Some at \<Rightarrow>
          if length var = length arg then Some (snprintf_s DOMAIN_LEN new)
          else if at = 0 then Some (snprintf_s DOMAIN_LEN (new @ drop (length var) arg))
          else Some []))"

definition cbc_get_sys_newarg :: "ailsa_syspack_s \<Rightarrow> ailsa_build_s \<Rightarrow> ailsa_syspack_s" where
  "cbc_get_sys_newarg sys bld =
     sys\<lparr>sp_newarg := foldl (sys_newarg bld (sp_arg sys)) (sp_newarg sys) (zip spvars sp_position)\<rparr>"

fun fill_sys_packs :: "ailsa_build_s \<Rightarrow> ailsa_data list \<Rightarrow> ailsa_syspack_s list option" where
  "fill_sys_packs bld [] = Some []"
| "fill_sys_packs bld (a # b # c # d # rest) = do {
     name \<leftarrow> cut_text CONFIG_LEN a;
     field \<leftarrow> cut_text CONFIG_LEN b;
     type \<leftarrow> cut_text MAC_LEN c;
     arg \<leftarrow> cut_text CONFIG_LEN d;
     others \<leftarrow> fill_sys_packs bld rest;
     Some (cbc_get_sys_newarg
       \<lparr>sp_name = name, sp_field = field, sp_type = type, sp_arg = arg, sp_newarg = None\<rparr> bld # others)
   }"
| "fill_sys_packs bld _ = None"

definition cbc_fill_sys_pack_details ::
  "db_list \<Rightarrow> ailsa_syspack_s list option \<Rightarrow> ailsa_build_s option \<Rightarrow> (int \<times> ailsa_syspack_s list option) option" where
  "cbc_fill_sys_pack_details sys pack bld = (case (sys, pack, bld) of
     (Some rows, Some packs, Some b) \<Rightarrow>
       if length rows mod 4 \<noteq> 0 then Some (AILSA_WRONG_LIST_LENGHT, pack)
       else if length rows = 0 then Some (0, pack)
       else do { more_packs \<leftarrow> fill_sys_packs b rows; Some (0, Some (packs @ more_packs)) }
   | _ \<Rightarrow> Some (AILSA_NO_DATA, pack))"

subsection \<open>Scripts\<close>

record ailsa_sysscript_s =
  sc_name :: string
  sc_arg :: string
  sc_no :: u64

fun fill_scripts :: "ailsa_data list \<Rightarrow> ailsa_sysscript_s list option" where
  "fill_scripts [] = Some []"
| "fill_scripts (a # b # c # rest) = do {
     name \<leftarrow> cut_text DOMAIN_LEN a;
     arg \<leftarrow> cut_text DOMAIN_LEN b;
     no \<leftarrow> get_number c;
     others \<leftarrow> fill_scripts rest;
     Some (\<lparr>sc_name = name, sc_arg = arg, sc_no = no\<rparr> # others)
   }"
| "fill_scripts _ = None"

definition cbc_fill_system_scripts ::
  "db_list \<Rightarrow> ailsa_sysscript_s list option \<Rightarrow> (int \<times> ailsa_sysscript_s list option) option" where
  "cbc_fill_system_scripts list dest = (case (list, dest) of
     (Some rows, Some scripts) \<Rightarrow>
       if length rows mod 3 \<noteq> 0 then Some (AILSA_WRONG_LIST_LENGHT, dest)
       else do { more_scripts \<leftarrow> fill_scripts rows; Some (0, Some (scripts @ more_scripts)) }
   | _ \<Rightarrow> Some (AILSA_NO_DATA, dest))"

text \<open>Every script is fetched and started at its first argument; the arguments after it follow on the same line, and the
  line ends with the log when another script begins or the list ends.\<close>

fun system_script_lines :: "string \<Rightarrow> string \<Rightarrow> ailsa_sysscript_s list \<Rightarrow> string" where
  "system_script_lines url name [] = '' > '' @ name @ ''.log 2>&1'' @ nl"
| "system_script_lines url name (s # ss) =
    (if sc_no s = 1
     then (if \<not> strncmp_eq name (sc_name s) DOMAIN_LEN then '' > '' @ name @ ''.log 2>&1'' @ nl else []) @
       nl @ ''$WGET '' @ url @ ''scripts/'' @ sc_name s @ nl @ ''chmod 755 '' @ sc_name s @ nl @
       ''./'' @ sc_name s @ '' '' @ sc_arg s @ system_script_lines url (sc_name s) ss
     else '' '' @ sc_arg s @ system_script_lines url name ss)"

definition cbc_write_system_scripts :: "string \<Rightarrow> int \<Rightarrow> ailsa_sysscript_s list \<Rightarrow> string" where
  "cbc_write_system_scripts url fd sys =
    (if fd = 0 then []
     else (case sys of [] \<Rightarrow> [] | s # _ \<Rightarrow> system_script_lines url (sc_name s) sys))"

end
