(* ===== verification/Build_Preseed.thy ===== *)
theory Build_Preseed
  imports Build_Details Dnsa_Main
begin

text \<open>
  src/build.c, the answer file of the Debian installer: its parts in the order they are written, and the function
  that reads the database and writes the file.  A file that could be opened keeps what was written before an error.
\<close>

definition backslash :: string where
  "backslash = [CHR 0x5C]"

definition blanks :: "nat \<Rightarrow> string" where
  "blanks n = replicate n CHR 0x20"

subsection \<open>Locale, network and mirror\<close>

definition preseed_net_mirror :: "ailsa_build_s \<Rightarrow> string" where
  "preseed_net_mirror b =
     text_lines
       [''d-i console-setup/ask_detect boolean false'',
        ''d-i debian-installer/locale string '' @ bs_locale b,
        ''d-i debian-installer/language string '' @ bs_language b,
        ''d-i debian-installer/country string '' @ bs_country b,
        ''d-i console-keymaps-at/keymap select '' @ bs_keymap b,
        ''d-i keyboard-configuration/xkb-keymap select '' @ bs_keymap b,
        ''d-i keymap select '' @ bs_keymap b,
        []] @
     (if strncmp_eq (bs_os b) ''debian'' SERVICE_LEN
      then text_lines [''d-i preseed/early_command string /bin/killall.sh; /bin/netcfg''] else []) @
     text_lines
       [''d-i netcfg/enable boolean true'',
        ''d-i netcfg/confirm_static boolean true'',
        ''d-i netcfg/disable_dhcp boolean true'',
        ''d-i netcfg/choose_interface select '' @ bs_net_int b,
        ''d-i netcfg/get_nameservers string '' @ bs_ns b,
        ''d-i netcfg/get_ipaddress string '' @ bs_ip b,
        ''d-i netcfg/get_netmask string '' @ bs_nm b,
        ''d-i netcfg/get_gateway string '' @ bs_gw b,
        ''d-i netcfg/get_hostname string '' @ bs_host b,
        ''d-i netcfg/get_domain string '' @ bs_domain b,
        []] @
     (if strncmp_eq (bs_os b) ''debian'' SERVICE_LEN
      then text_lines [''d-i netcfg/wireless_wep string'', ''d-i hw-detect/load_firmware boolean true''] else []) @
     text_lines
       [[],
        ''d-i mirror/country string manual'',
        ''d-i mirror/http/hostname string '' @ bs_mirror b,
        ''d-i mirror/http/directory string /'' @ bs_os b,
        ''d-i mirror/suite string '' @ bs_version b,
        [],
        ''d-i time/zone string '' @ bs_country b] @
     (if 0 <s bs_do_ntp b
      then text_lines [''d-i clock-setup/ntp boolean true'', ''d-i clock-setup/ntp-server string '' @ bs_ntp b]
      else text_lines [''d-i clock-setup/ntp boolean false'']) @
     text_lines [''d-i clock-setup/utc boolean true'']"

definition write_preseed_net_mirror :: "int \<Rightarrow> ailsa_build_s option \<Rightarrow> int \<times> string" where
  "write_preseed_net_mirror fd bld = (case bld of None \<Rightarrow> (AILSA_NO_DATA, []) | Some b \<Rightarrow> (0, preseed_net_mirror b))"

subsection \<open>Accounts\<close>

text \<open>The first account whose name starts with the four characters \<open>root\<close>.\<close>

definition root_account :: "ailsa_account_s list \<Rightarrow> ailsa_account_s option" where
  "root_account acc = List.find (\<lambda>a. strncmp_eq ''root'' (ac_username a) 4) acc"

definition write_preseed_user_accounts :: "int \<Rightarrow> ailsa_account_s list option \<Rightarrow> int \<times> string" where
  "write_preseed_user_accounts fd acc = (case acc of None \<Rightarrow> (AILSA_NO_DATA, []) | Some accounts \<Rightarrow>
     if fd = 0 then (AILSA_NO_DATA, [])
     else (0, text_lines
       [''d-i passwd/root-password-crypted password '' @ (case root_account accounts of
           Some a \<Rightarrow> ac_hash a
         | None \<Rightarrow> ''$6$SF7COIid$q3o/XlLgy95kfJTuJwqshfRrVmZlhqT3sKDxUiyUd6OV2W0uwphXDJm.T1nXTJgY4.5UaFyhYjaixZvToazrZ/''),
        ''d-i passwd/user-fullname string Admin User'',
        ''d-i passwd/username string sysadmin'',
        ''d-i passwd/user-password-crypted password $6$loNBON/G$GN9geXUrajd7lPAZETkCz/c2DgkeZqNwMR9W.YpCqxAIxoNXdaHjXj1MH7DM3gMjoUvkIdgeRnkB4QDwrgqUS1'',
        ''d-i passwd/user-default-groups string audio cdrom video dip floppy plugdev netdev sudo'',
        []]))"

subsection \<open>Partitions\<close>

text \<open>The disk and whether it uses LVM are the first two values of the row; less is a crash.\<close>

definition write_partition_head :: "int \<Rightarrow> ailsa_data list option \<Rightarrow> ailsa_build_s option \<Rightarrow> (int \<times> string) option" where
  "write_partition_head fd disk build = (case disk of None \<Rightarrow> Some (AILSA_NO_DATA, []) | Some ds \<Rightarrow>
     if fd = 0 \<or> build = None then Some (AILSA_NO_DATA, [])
     else if length ds < 2 then None
     else do {
       dev \<leftarrow> text_of (ds ! 0);
       lvm \<leftarrow> get_number (ds ! 1);
       Some (0, text_lines
         [''d-i partman-auto/disk string '' @ dev,
          ''d-i partman-auto/choose_recipe select monkey'',
          if lvm > 0 then ''d-i partman-auto/method string lvm'' else ''d-i partman-auto/method string regular'',
          ''d-i partman-auto/purge_lvm_from_device boolean true'',
          ''d-i partman-auto-lvm/guided_size string 100%'',
          ''d-i partman-auto-lvm/no_boot boolean true'',
          ''d-i partman/choose_partition select finish'',
          ''d-i partman/confirm_nooverwrite boolean true'',
          ''d-i partman/confirm boolean true'',
          ''d-i partman-lvm/confirm boolean true'',
          ''d-i partman-lvm/confirm_nooverwrite boolean true'',
          ''d-i partman-lvm/device_remove_lvm boolean true'',
          ''d-i partman-lvm/device_remove_lvm_span boolean true'',
          ''d-i partman-md/device_remove_md boolean true'',
          ''d-i partman-md/confirm boolean true'',
          ''d-i partman-partitioning/confirm_write_new_label boolean true'',
          ''d-i partman/mount_style select uuid''])
     })"

definition write_preseed_lvm_group :: "string \<Rightarrow> string" where
  "write_preseed_lvm_group dev = text_lines
     [blanks 14 @ ''100 1000 1000000000 ext3 '' @ backslash,
      blanks 23 @ ''$defaultignore{} '' @ backslash,
      blanks 23 @ ''$primary{} '' @ backslash,
      blanks 23 @ ''method{ lvm } '' @ backslash,
      blanks 23 @ ''device{ '' @ dev @ '' } '' @ backslash,
      blanks 23 @ ''vg_name{ systemvg }'' @ backslash,
      blanks 14 @ ''. '' @ backslash]"

text \<open>One entry of the recipe; the last one ends without a backslash.\<close>

definition recipe_entry :: "bool \<Rightarrow> ailsa_partition_s \<Rightarrow> string" where
  "recipe_entry lvm p =
     text_lines [blanks 14 @ lu (p_pri p) @ '' '' @ lu (p_min p) @ '' '' @ lu (p_max p) @ '' '' @ p_fs p @ ''  '' @ backslash] @
     (if lvm then text_lines
       [blanks 23 @ ''$lvmok '' @ backslash,
        blanks 23 @ ''in_vg{ systemvg } '' @ backslash,
        blanks 23 @ ''lv_name{ '' @ p_logvol p @ '' }'' @ backslash]
      else []) @
     (if \<not> strncmp_eq (p_fs p) ''swap'' BYTE_LEN then text_lines
       [blanks 23 @ ''method{ format } format{ } '' @ backslash,
        blanks 23 @ ''use_filesystem{ } filesystem{ '' @ p_fs p @ '' } '' @ backslash,
        blanks 23 @ ''mountpoint{ '' @ p_mount p @ '' } '' @ backslash]
      else text_lines [blanks 23 @ ''method{ swap } format{ } '' @ backslash])"

fun recipe_entries :: "bool \<Rightarrow> ailsa_partition_s list \<Rightarrow> string" where
  "recipe_entries lvm [] = []"
| "recipe_entries lvm [p] = recipe_entry lvm p @ text_lines [blanks 14 @ ''.'', []]"
| "recipe_entries lvm (p # ps) = recipe_entry lvm p @ text_lines [blanks 14 @ ''. '' @ backslash] @ recipe_entries lvm ps"

definition write_preseed_partitions ::
  "int \<Rightarrow> ailsa_data list option \<Rightarrow> ailsa_partition_s list option \<Rightarrow> (int \<times> string) option" where
  "write_preseed_partitions fd disk part = (case part of None \<Rightarrow> Some (AILSA_NO_DATA, []) | Some ps \<Rightarrow>
     if fd = 0 then Some (AILSA_NO_DATA, [])
     else do {
       ds \<leftarrow> disk;
       if length ds < 2 then None
       else do {
         small \<leftarrow> get_small (ds ! 1);
         dev \<leftarrow> text_of (ds ! 0);
         let lvm = (0 <s small);
         Some (0, text_lines [[], ''d-i partman-auto/expert_recipe string '' @ backslash, blanks 6 @ ''monkey :: '' @ backslash] @
           (if lvm then write_preseed_lvm_group dev else []) @
           recipe_entries lvm ps @
           text_lines [''d-i grub-installer/only_debian boolean true'', ''d-i grub-installer/bootdev string '' @ dev])
       }
     })"

subsection \<open>Packages\<close>

fun package_words :: "ailsa_data list \<Rightarrow> string option" where
  "package_words [] = Some []"
| "package_words (d # ds) = do { t \<leftarrow> text_of d; others \<leftarrow> package_words ds; Some ('' '' @ t @ others) }"

definition write_preseed_packages ::
  "int \<Rightarrow> ailsa_build_s option \<Rightarrow> ailsa_data list option \<Rightarrow> (int \<times> string) option" where
  "write_preseed_packages fd bld pack = (case (bld, pack) of
     (Some b, Some ds) \<Rightarrow>
       if fd = 0 then Some (AILSA_NO_DATA, [])
       else do {
         packages \<leftarrow> package_words ds;
         Some (0, text_lines [''d-i apt-setup/non-free boolean true'', ''d-i apt-setup/contrib boolean true''] @
           (if strncmp_eq (bs_os b) ''debian'' BYTE_LEN then text_lines
             [''d-i apt-setup/services-select multiselect security'',
              ''d-i apt-setup/security_host string security.'' @ bs_os b @ ''.org'']
            else []) @
           text_lines
             [''tasksel tasksel/first multiselect standard'',
              [],
              ''d-i pkgsel/upgrade select none'',
              ''d-i pkgsel/include string'' @ packages,
              ''popularity-contest popularity-contest/participate boolean false'',
              ''d-i finish-install/keep-consoles boolean true'',
              ''d-i finish-install/reboot_in_progress note'',
              ''d-i cdrom-detect/eject boolean false'',
              ''d-i preseed/late_command string cd /target/root; wget '' @ bs_url b @ ''hosts/'' @ bs_host b @
                ''.sh && sh /target/root/'' @ bs_host b @ ''.sh >> /target/root/'' @ bs_host b @ ''.log 2>&1'',
              []])
       }
   | _ \<Rightarrow> Some (AILSA_NO_DATA, []))"

definition syspack_line :: "ailsa_syspack_s \<Rightarrow> string" where
  "syspack_line p = sp_name p @ tab @ sp_field p @ tab @ sp_type p @ tab @
     (case sp_newarg p of Some arg \<Rightarrow> arg | None \<Rightarrow> sp_arg p) @ nl"

definition write_preseed_system_packages :: "int \<Rightarrow> ailsa_syspack_s list option \<Rightarrow> int \<times> string" where
  "write_preseed_system_packages fd sys = (case sys of None \<Rightarrow> (AILSA_NO_DATA, []) | Some packs \<Rightarrow>
     if fd = 0 then (AILSA_NO_DATA, []) else (0, concat (map syspack_line packs)))"

subsection \<open>The file\<close>

text \<open>The details of the build that cannot be filled end the function with the code 0 of the last query.\<close>

definition write_preseed_build_file ::
  "'db sqlite3_api \<Rightarrow> services \<Rightarrow> ailsa_cmdb_s option \<Rightarrow> cbc_comm_line_s option \<Rightarrow> 'db site \<Rightarrow> 'db site_result" where
  "write_preseed_build_file api os cmc cml st = do {
     cc \<leftarrow> cmc;
     cl \<leftarrow> cml;
     top_dir \<leftarrow> cc_toplevelos cc;
     name \<leftarrow> bcl_name cl;
     let path = snprintf_s DOMAIN_LEN (top_dir @ ''web/'' @ name @ ''.cfg'');
     let rows = (\<lambda>query server w. ailsa_argument_query api w cmc query (Some server) (Some []));
     on_query st (\<lambda>w. cmdb_check_add_server_id_to_list api w (bcl_name cl) cmc (Some [])) (\<lambda>st server.
     on_query st (rows BUILD_DETAILS server) (\<lambda>st build. do {
       (retval, w, acc) \<leftarrow> get_server_accounts api cmc cml (Some []) (si_world st);
       let st = st\<lparr>si_world := w\<rparr>;
       if retval \<noteq> 0 then Some (retval, st)
       else
         on_query st (rows DISK_DEV_DETAILS_ON_SERVER_ID server) (\<lambda>st disk.
         on_query st (rows BUILD_PARTITIONS_ON_SERVER_ID server) (\<lambda>st partitions.
         on_query st (rows BUILD_PACKAGES_ON_SERVER_ID server) (\<lambda>st packages.
         on_query st (rows SYSTEM_PACKAGES_ON_SERVER_ID server) (\<lambda>st sys. do {
           details \<leftarrow> cbc_fill_build_details build;
           (case details of None \<Rightarrow> Some (0, st)
            | Some bld \<Rightarrow> do {
                (retval, part) \<leftarrow> cbc_fill_partition_details (Some partitions) (Some []);
                if retval \<noteq> 0 then Some (retval, st)
                else do {
                  (retval, syspack) \<leftarrow> cbc_fill_sys_pack_details (Some sys) (Some []) details;
                  if retval \<noteq> 0 then Some (retval, st)
                  else let fd = os_open os path in
                    if fd = -1 then Some (AILSA_FILE_ERROR, st)
                    else do {
                      (retval, text) \<leftarrow> written
                        [Some (write_preseed_net_mirror fd details),
                         Some (write_preseed_user_accounts fd acc),
                         write_partition_head fd (Some disk) details,
                         write_preseed_partitions fd (Some disk) part,
                         write_preseed_packages fd details (Some packages),
                         Some (write_preseed_system_packages fd syspack)];
                      Some (retval, put_file path text st)
                    }
                }
              })
         }))))
     }))
   }"

end
