(* ===== verification/Build_Kickstart.thy ===== *)
theory Build_Kickstart
  imports Build_Preseed
begin

text \<open>
  src/build.c, the answer file of the Red Hat installer, the script a new host runs, and the command that writes all
  files of a build.
\<close>

subsection \<open>The keyboard\<close>

text \<open>For version 6 the keyboard \<open>gb\<close> is called \<open>uk\<close>: the third value of the locale is overwritten in place.\<close>

definition cbc_check_gb_keyboard ::
  "'db sqlite3_api \<Rightarrow> ailsa_cmdb_s option \<Rightarrow> cstr \<Rightarrow> 'db world \<Rightarrow> db_list \<Rightarrow> 'db query_result" where
  "cbc_check_gb_keyboard api cmc host w list = (case list of None \<Rightarrow> Some (AILSA_NO_DATA, w, list) | Some l \<Rightarrow>
     if cmc = None \<or> host = None then Some (AILSA_NO_DATA, w, list)
     else then_build l (cmdb_check_add_server_id_to_list api w host cmc (Some [])) (\<lambda>w server.
       then_build l (ailsa_argument_query api w cmc BUILD_OS_DETAILS_ON_SERVER_ID (Some server) (Some [])) (\<lambda>w b_os.
       if length b_os < 2 then Some (0, w, list)
       else do {
         version \<leftarrow> text_of (b_os ! 1);
         if strncmp_eq version ''6'' BYTE_LEN
         then if length l < 3 then None
           else do {
             key \<leftarrow> text_of (l ! 2);
             Some (0, w, Some (if strncmp_eq key ''gb'' BYTE_LEN then l[2 := D_TEXT ''uk''] else l))
           }
         else Some (0, w, list)
       })))"

subsection \<open>The parts of the file\<close>

definition kickstart_base :: "string \<Rightarrow> string \<Rightarrow> string \<Rightarrow> string" where
  "kickstart_base key lang time = text_lines
     [''auth --useshadow --enablemd5'',
      ''bootloader --location=mbr'',
      ''text'',
      ''firewall --disabled'',
      ''firstboot --disable'',
      ''keyboard '' @ key,
      ''lang '' @ lang,
      ''logging --level=info'',
      ''reboot'',
      ''rootpw --iscrypted $6$YuyiUAiz$8w/kg1ZGEnp0YqHTPuz2WpveT0OaYG6Vw89P.CYRAox7CaiaQE49xFclS07BgBHoGaDK4lcJEZIMs8ilgqV84.'',
      ''selinux --disabled'',
      ''skipx'',
      ''timezone  '' @ time,
      ''install'']"

definition cbc_write_kickstart_base ::
  "'db sqlite3_api \<Rightarrow> ailsa_cmdb_s option \<Rightarrow> cstr \<Rightarrow> int \<Rightarrow> db_list \<Rightarrow> 'db world \<Rightarrow> (int \<times> string \<times> 'db world) option" where
  "cbc_write_kickstart_base api cmc name fd list w = (case list of None \<Rightarrow> Some (AILSA_NO_DATA, [], w) | Some l \<Rightarrow>
     if cmc = None \<or> name = None \<or> fd = 0 then Some (AILSA_NO_DATA, [], w)
     else if length l = 0 \<or> length l mod 4 \<noteq> 0 then Some (AILSA_WRONG_LIST_LENGHT, [], w)
     else do {
       lang \<leftarrow> get_text (l ! 1);
       time \<leftarrow> get_text (last l);
       (retval, w, list) \<leftarrow> cbc_check_gb_keyboard api cmc name w list;
       l \<leftarrow> list;
       if retval \<noteq> 0 then Some (retval, [], w)
       else do {
         key \<leftarrow> text_of (l ! 2);
         lang \<leftarrow> lang;
         time \<leftarrow> time;
         Some (0, kickstart_base key lang time, w)
       }
     })"

definition kickstart_partition :: "bool \<Rightarrow> ailsa_partition_s \<Rightarrow> string" where
  "kickstart_partition lvm p =
    (if lvm
     then ''logvol '' @ p_mount p @ '' --fstype='' @ quoted (p_fs p) @ '' --name='' @ p_logvol p @
       '' --vgname=system_vg --size='' @ lu (p_min p) @ nl
     else ''part '' @ p_mount p @ '' --fstype='' @ quoted (p_fs p) @ '' --size='' @ lu (p_min p) @ nl)"

definition cbc_write_kickstart_partitions ::
  "int \<Rightarrow> ailsa_data list option \<Rightarrow> ailsa_partition_s list option \<Rightarrow> (int \<times> string) option" where
  "cbc_write_kickstart_partitions fd disk part = (case (disk, part) of
     (Some ds, Some ps) \<Rightarrow>
       if fd = 0 \<or> length ds = 0 \<or> length ps = 0 then Some (AILSA_NO_DATA, [])
       else if length ds < 2 then None
       else do {
         dev \<leftarrow> text_of (ds ! 0);
         small \<leftarrow> get_small (ds ! 1);
         let lvm = (0 <s small);
         Some (0, text_lines
           [[], ''zerombr'', ''bootloader --location=mbr --driveorder='' @ dev, ''clearpart --all --initlabel''] @
           (if lvm then text_lines
             [''part /boot --asprimary --fstype='' @ quoted ''ext3'' @ '' --size=512'',
              ''part pv.1 --asprimary --size=1 --grow'',
              ''volgroup system_vg --pesize=32768 pv.1''] else []) @
           concat (map (kickstart_partition lvm) ps) @ nl)
       }
   | _ \<Rightarrow> Some (AILSA_NO_DATA, []))"

definition cbc_write_kickstart_net :: "int \<Rightarrow> ailsa_build_s option \<Rightarrow> int \<times> string" where
  "cbc_write_kickstart_net fd bld = (case bld of None \<Rightarrow> (AILSA_NO_DATA, []) | Some b \<Rightarrow>
     if fd = 0 then (AILSA_NO_DATA, [])
     else (0, nl @
       ''url --url=http://'' @ bs_mirror b @ ''/'' @ bs_os b @ ''/'' @ bs_os_ver b @ ''/os/'' @ bs_arch b @ nl @
       ''network --bootproto=static --device='' @ bs_net_int b @ '' --ip='' @ bs_ip b @ '' --netmask='' @ bs_nm b @
       '' --gateway='' @ bs_gw b @ '' --nameserver='' @ bs_ns b @ '' --hostname='' @ bs_host b @ ''.'' @ bs_domain b @
       '' --onboot=on'' @ nl))"

fun package_names :: "ailsa_data list \<Rightarrow> string option" where
  "package_names [] = Some []"
| "package_names (d # ds) = do { t \<leftarrow> text_of d; others \<leftarrow> package_names ds; Some (t @ nl @ others) }"

definition cbc_write_kickstart_packages :: "int \<Rightarrow> ailsa_data list option \<Rightarrow> (int \<times> string) option" where
  "cbc_write_kickstart_packages fd pack = (case pack of None \<Rightarrow> Some (AILSA_NO_DATA, []) | Some ds \<Rightarrow>
     if fd = 0 then Some (AILSA_NO_DATA, [])
     else do {
       names \<leftarrow> package_names ds;
       Some (0, text_lines [[], ''%packages'', [], ''@Base''] @ names @ text_lines [[], ''%end'', []])
     })"

definition cbc_write_kickstart_scripts ::
  "int \<Rightarrow> string \<Rightarrow> ailsa_sysscript_s list option \<Rightarrow> int \<times> string" where
  "cbc_write_kickstart_scripts fd url sys = (case sys of None \<Rightarrow> (AILSA_NO_DATA, []) | Some ss \<Rightarrow>
     if fd = 0 then (AILSA_NO_DATA, [])
     else (0, text_lines
       [''%post'',
        [],
        ''WGET=/usr/bin/wget'',
        ''cd /root'',
        ''$WGET '' @ url @ ''scripts/disable_install.php > disable.log 2>&1'',
        [],
        ''$WGET '' @ url @ ''scripts/firstboot.sh'',
        ''chmod 755 firstboot.sh'',
        ''./firstboot.sh > firstboot.log 2>&1'',
        [],
        ''wget '' @ url @ ''scripts/motd.sh'',
        ''chmod 755 motd.sh'',
        ''./motd.sh > motd.log 2>&1''] @ cbc_write_system_scripts url fd ss))"

subsection \<open>The file\<close>

definition write_kickstart_build_file ::
  "'db sqlite3_api \<Rightarrow> services \<Rightarrow> ailsa_cmdb_s option \<Rightarrow> cbc_comm_line_s option \<Rightarrow> 'db site \<Rightarrow> 'db site_result" where
  "write_kickstart_build_file api os cmc cml st = (case (cmc, cml) of
     (Some cc, Some cl) \<Rightarrow>
       let rows = (\<lambda>query server w. ailsa_argument_query api w cmc query (Some server) (Some [])) in
       on_query st (\<lambda>w. cmdb_check_add_server_id_to_list api w (bcl_name cl) cmc (Some [])) (\<lambda>st server.
       on_query st (rows FULL_LOCALE_DETAILS_ON_SERVER_ID server) (\<lambda>st loc.
       on_query st (rows DISK_DEV_DETAILS_ON_SERVER_ID server) (\<lambda>st disk.
       on_query st (rows BUILD_PARTITIONS_ON_SERVER_ID server) (\<lambda>st partitions.
       on_query st (rows BUILD_PACKAGES_ON_SERVER_ID server) (\<lambda>st pack.
       on_query st (rows DOMAIN_BUILD_ALIAS_ON_SERVER_ID server) (\<lambda>st domain.
       on_query st (rows SYSTEM_SCRIPTS_ON_DOMAIN_AND_BUILD_TYPE domain) (\<lambda>st scripts.
       on_query st (rows BUILD_DETAILS server) (\<lambda>st build. do {
         (retval, part) \<leftarrow> cbc_fill_partition_details (Some partitions) (Some []);
         if retval \<noteq> 0 then Some (retval, st)
         else do {
           details \<leftarrow> cbc_fill_build_details build;
           (case details of None \<Rightarrow> Some (0, st)
            | Some bld \<Rightarrow> do {
                (retval, sys) \<leftarrow> cbc_fill_system_scripts (Some scripts) (Some []);
                if retval \<noteq> 0 then Some (retval, st)
                else do {
                  top_dir \<leftarrow> cc_toplevelos cc;
                  name \<leftarrow> bcl_name cl;
                  let path = snprintf_s DOMAIN_LEN (top_dir @ ''web/'' @ name @ ''.cfg'');
                  let fd = os_open os path;
                  if fd = -1 then Some (AILSA_FILE_ERROR, st)
                  else do {
                    (retval, text, w) \<leftarrow> cbc_write_kickstart_base api cmc (bcl_name cl) fd (Some loc) (si_world st);
                    let st = st\<lparr>si_world := w\<rparr>;
                    if retval \<noteq> 0 then Some (retval, put_file path text st)
                    else do {
                      (retval, text') \<leftarrow> written
                        [cbc_write_kickstart_partitions fd (Some disk) part,
                         Some (cbc_write_kickstart_net fd details),
                         cbc_write_kickstart_packages fd (Some pack),
                         Some (cbc_write_kickstart_scripts fd (bs_url bld) sys)];
                      Some (retval, put_file path (text @ text') st)
                    }
                  }
                }
              })
         }
       }))))))))
   | _ \<Rightarrow> Some (AILSA_NO_DATA, st))"

subsection \<open>The script of a new host\<close>

definition host_script :: "string \<Rightarrow> string \<Rightarrow> string" where
  "host_script host url = text_lines
     [''#!/bin/sh'',
      ''#'',
      ''#'',
      ''# Auto Generated install script for '' @ host,
      ''#'',
      ''#'',
      ''#'',
      ''###################'',
      [],
      [],
      ''WGET=/usr/bin/wget'',
      ''if [ -d /target ]; then'',
      ''  cd /target/root'',
      ''else'',
      ''  cd /root'',
      ''fi'',
      [],
      ''$WGET '' @ url @ ''scripts/disable_install.php > scripts.log 2>&1'',
      [],
      ''$WGET '' @ url @ ''scripts/firstboot.sh'',
      ''chmod 755 firstboot.sh'',
      ''./firstboot.sh >> scripts.log 2>&1'',
      [],
      ''$WGET '' @ url @ ''scripts/motd.sh'',
      ''chmod 755 motd.sh'',
      ''./motd.sh >> scripts.log 2>&1'']"

definition cbc_write_script_file ::
  "services \<Rightarrow> string \<Rightarrow> cstr \<Rightarrow> db_list \<Rightarrow> ailsa_sysscript_s list option \<Rightarrow> 'db site \<Rightarrow> 'db site_result" where
  "cbc_write_script_file os path host domain sys st = (case (domain, sys) of
     (Some ds, Some ss) \<Rightarrow>
       if length ds = 0 \<or> length ds mod 3 \<noteq> 0 then Some (AILSA_NO_DATA, st)
       else let fd = os_open os path in
         if fd = -1 then Some (AILSA_FILE_ERROR, st)
         else do {
           url \<leftarrow> text_of (ds ! 2);
           name \<leftarrow> host;
           Some (0, put_file path (host_script name url @ cbc_write_system_scripts url fd ss) st)
         }
   | _ \<Rightarrow> Some (AILSA_NO_DATA, st))"

definition write_build_host_script ::
  "'db sqlite3_api \<Rightarrow> services \<Rightarrow> ailsa_cmdb_s option \<Rightarrow> cbc_comm_line_s option \<Rightarrow> 'db site \<Rightarrow> 'db site_result" where
  "write_build_host_script api os cbc cml st = (case (cbc, cml) of
     (Some cc, Some cl) \<Rightarrow> do {
       top_dir \<leftarrow> cc_toplevelos cc;
       name \<leftarrow> bcl_name cl;
       let path = snprintf_s DOMAIN_LEN (top_dir @ ''hosts/'' @ name @ ''.sh'');
       on_query st (\<lambda>w. cmdb_check_add_server_id_to_list api w (bcl_name cl) cbc (Some [])) (\<lambda>st server.
       on_query st (\<lambda>w. ailsa_argument_query api w cbc DOMAIN_BUILD_ALIAS_ON_SERVER_ID (Some server) (Some [])) (\<lambda>st domain.
       on_query st (\<lambda>w. ailsa_argument_query api w cbc SYSTEM_SCRIPTS_ON_DOMAIN_AND_BUILD_TYPE (Some domain) (Some [])) (\<lambda>st script. do {
         (retval, sys) \<leftarrow> cbc_fill_system_scripts (Some script) (Some []);
         if retval \<noteq> 0 then Some (retval, st)
         else cbc_write_script_file os path (bcl_name cl) (Some domain) sys st
       })))
     }
   | _ \<Rightarrow> Some (AILSA_NO_DATA, st))"

subsection \<open>All files of a build\<close>

text \<open>A type of build other than the two is only logged.\<close>

definition write_build_config_file ::
  "'db sqlite3_api \<Rightarrow> services \<Rightarrow> ailsa_cmdb_s option \<Rightarrow> cbc_comm_line_s option \<Rightarrow> 'db site \<Rightarrow> 'db site_result" where
  "write_build_config_file api os cbc cml st = (case (cbc, cml) of
     (Some cc, Some cl) \<Rightarrow>
       on_query st (\<lambda>w. cmdb_check_add_server_id_to_list api w (bcl_name cl) cbc (Some [])) (\<lambda>st server.
       on_query st (\<lambda>w. ailsa_argument_query api w cbc BUILD_TYPE_ON_SERVER_ID (Some server) (Some [])) (\<lambda>st build.
       (case build of
          [] \<Rightarrow> Some (0, st)
        | d # _ \<Rightarrow> do {
            type \<leftarrow> text_of d;
            if type = ''preseed'' then write_preseed_build_file api os cbc cml st
            else if type = ''kickstart'' then write_kickstart_build_file api os cbc cml st
            else Some (0, st)
          })))
   | _ \<Rightarrow> Some (AILSA_NO_DATA, st))"

fun write_in_turn :: "(('db site \<Rightarrow> 'db site_result) \<times> string) list \<Rightarrow> 'db site \<Rightarrow> 'db command_result" where
  "write_in_turn [] st = Some (0, [], st)"
| "write_in_turn ((step, message) # steps) st = do {
     (retval, st) \<leftarrow> step st;
     if retval \<noteq> 0 then Some (retval, [], st)
     else do { (retval, text, st) \<leftarrow> write_in_turn steps st; Some (retval, message @ nl @ text, st) }
   }"

definition write_build_config ::
  "'db sqlite3_api \<Rightarrow> services \<Rightarrow> ailsa_cmdb_s option \<Rightarrow> cbc_comm_line_s option \<Rightarrow> 'db site \<Rightarrow> 'db command_result" where
  "write_build_config api os cmc cml st = write_in_turn
     [(write_dhcp_config api os cmc cml, ''dhcpd.hosts file written''),
      (write_tftp_config api os cmc cml, ''tftp configuration file written''),
      (write_build_config_file api os cmc cml, ''build configuration file written''),
      (write_build_host_script api os cmc cml, ''host script file written'')] st"

end
