(* ===== verification/Cbc_Main.thy ===== *)
theory Cbc_Main
  imports Build_Kickstart
begin

text \<open>
  src/cbc.c: \<open>main\<close> of the build command.  The result is the exit code, the text that was printed and the site;
  \<open>None\<close> is a crash.  The configuration \<open>parse_cmdb_config\<close> read is the parameter \<open>cmc\<close>, and the
  database is SQLite, as compiled with \<open>HAVE_SQLITE3\<close> only.
\<close>

definition query_config :: "int \<times> string" where
  "query_config = (NONE, ''sqlite'' @ nl)"

definition on_connection :: "'db site \<Rightarrow> 'db cmdb_result \<Rightarrow> 'db command_result" where
  "on_connection st r = map_option (\<lambda>(retval, text, w). (retval, text, st\<lparr>si_world := w\<rparr>)) r"

definition cbc_dispatch ::
  "'db sqlite3_api \<Rightarrow> services \<Rightarrow> (u32 \<Rightarrow> string option) \<Rightarrow> ailsa_cmdb_s option \<Rightarrow> cbc_comm_line_s \<Rightarrow> 'db site \<Rightarrow> 'db command_result" where
  "cbc_dispatch api os pw cmc cl st =
    (let w = si_world st; cml = Some cl in
     if bcl_action cl = CMDB_DISPLAY then on_connection st (display_build_config api pw cmc cml w)
     else if bcl_action cl = CMDB_LIST then printed st (list_build_servers api cmc w)
     else if bcl_action cl = CMDB_WRITE then write_build_config api os cmc cml st
     else if bcl_action cl = CMDB_ADD then connected st (create_build_config api (os_uid os) cmc cml w)
     else if bcl_action cl = CMDB_MOD then connected st (modify_build_config api (os_uid os) cmc cml w)
     else if bcl_action cl = CMDB_RM then connected st (remove_build_config api cmc cml w)
     else if bcl_action cl = CMDB_DEFAULT then on_connection st (view_defaults_for_cbc api cmc cml w)
     else if bcl_action cl = CMDB_QUERY then (case query_config of (retval, text) \<Rightarrow> Some (retval, text, st))
     else Some (0, ''Case '' @ dec_int (bcl_action cl) @ '' not implemented yet'' @ nl, st))"

text \<open>The code AILSA\_DISPLAY\_USAGE becomes 0.\<close>

definition cbc_main ::
  "string \<Rightarrow> string \<Rightarrow> 'db sqlite3_api \<Rightarrow> services \<Rightarrow> (u32 \<Rightarrow> string option) \<Rightarrow> ailsa_cmdb_s option \<Rightarrow>
   (char \<times> string) list \<Rightarrow> 'db site \<Rightarrow> 'db command_result" where
  "cbc_main version prog api os pw cmc options st = do {
     (retval, cl) \<leftarrow> parse_cbc_command_line options cbc_line_zero;
     if retval \<noteq> 0
     then (case display_command_line_error version retval prog of (out, err, code) \<Rightarrow> Some (code, out, st))
     else do {
       (retval, text, st) \<leftarrow> cbc_dispatch api os pw cmc cl st;
       Some (if retval = AILSA_DISPLAY_USAGE then NONE else retval, text, st)
     }
   }"

end
