(* ===== verification/Tool_Steps.thy ===== *)
theory Tool_Steps
  imports Cbc_Main
begin

text \<open>
  What the commands that maintain the data of builds (src/cbcdomain.c, cbclocale.c, cbcos.c, cbcpart.c, cbcscript.c,
  cbcsysp.c, cbcvarient.c) share: steps of functions that print, lists of one column, and the choice of a default
  row.  A command line is the list of options \<open>getopt_long\<close> delivers, in its order, with \<open>argc\<close> beside
  it where the code looks at it.
\<close>

subsection \<open>Codes and actions\<close>

abbreviation LOCAL_NAME_INVALID :: int where "LOCAL_NAME_INVALID \<equiv> 647"
abbreviation CBC_SERVER :: int where "CBC_SERVER \<equiv> 30"
abbreviation DOWNLOAD :: int where "DOWNLOAD \<equiv> 31"
abbreviation AILSA_BUILD_TYPE_NO_FOUND :: int where "AILSA_BUILD_TYPE_NO_FOUND \<equiv> 228"
abbreviation AILSA_BUILD_OS_IN_USE :: int where "AILSA_BUILD_OS_IN_USE \<equiv> 229"
abbreviation AILSA_OS_NOT_FOUND :: int where "AILSA_OS_NOT_FOUND \<equiv> 705"
abbreviation AILSA_NO_OS_VERSION :: int where "AILSA_NO_OS_VERSION \<equiv> 218"
abbreviation PART_OPTION_INVALID :: int where "PART_OPTION_INVALID \<equiv> 655"

subsection \<open>Steps of functions that print\<close>

text \<open>A query or a list function whose code other than 0 ends the function.\<close>

definition ask ::
  "'db query_result \<Rightarrow> ('db world \<Rightarrow> ailsa_data list \<Rightarrow> 'db cmdb_result) \<Rightarrow> 'db cmdb_result" where
  "ask query rest = do {
     (retval, w, l) \<leftarrow> query;
     rows \<leftarrow> l;
     if retval \<noteq> 0 then Some (retval, [], w) else rest w rows
   }"

definition ask_list :: "'db world \<Rightarrow> int \<times> db_list \<Rightarrow> (db_list \<Rightarrow> 'db cmdb_result) \<Rightarrow> 'db cmdb_result" where
  "ask_list w call rest = (if fst call \<noteq> 0 then Some (fst call, [], w) else rest (snd call))"

text \<open>The end of a function that prints, and what was printed before it.\<close>

definition says :: "'db world \<Rightarrow> string option \<Rightarrow> 'db cmdb_result" where
  "says w text = map_option (\<lambda>t. (0, t, w)) text"

definition saying :: "string \<Rightarrow> 'db cmdb_result \<Rightarrow> 'db cmdb_result" where
  "saying text m = map_option (\<lambda>(retval, text', w). (retval, text @ text', w)) m"

text \<open>One line for each row of one column.\<close>

fun text_rows :: "string \<Rightarrow> ailsa_data list \<Rightarrow> string option" where
  "text_rows margin [] = Some []"
| "text_rows margin (d # ds) = do { t \<leftarrow> text_of d; others \<leftarrow> text_rows margin ds; Some (margin @ t @ nl @ others) }"

subsection \<open>Comparing without case\<close>

text \<open>\<open>strncasecmp(a, b, n) == 0\<close> in the C locale.\<close>

definition lower :: "char \<Rightarrow> char" where
  "lower c = (let n = (of_char c :: nat) in if 65 \<le> n \<and> n \<le> 90 then char_of (n + 32) else c)"

definition strncasecmp_eq :: "string \<Rightarrow> string \<Rightarrow> nat \<Rightarrow> bool" where
  "strncasecmp_eq a b n \<longleftrightarrow> map lower (take n a) = map lower (take n b)"

text \<open>A flag of a bit set.\<close>

definition bit_if :: "bool \<Rightarrow> u32 \<Rightarrow> u32" where
  "bit_if b n = (if b then n else 0)"

subsection \<open>The default row\<close>

text \<open>The default is inserted when there is none yet, and changed otherwise; \<open>ids\<close> is the row it points to.\<close>

definition set_default_row ::
  "'db sqlite3_api \<Rightarrow> u32 \<Rightarrow> ailsa_cmdb_s option \<Rightarrow> nat \<Rightarrow> nat \<Rightarrow> nat \<Rightarrow> 'db world \<Rightarrow> ailsa_data list \<Rightarrow>
   (int \<times> 'db world) option" where
  "set_default_row api uid cc default_query insert_no update_no w ids =
     then_rows (ailsa_basic_query api w cc default_query (Some [])) (\<lambda>w def.
       if length def = 0
       then then_list w (cmdb_populate_cuser_muser uid (Some ids)) (\<lambda>l. ailsa_insert_query api w cc insert_no l)
       else then_list w (cmdb_add_number_to_list (ucast uid) (Some ids)) (\<lambda>l.
         ailsa_update_query api w cc (update_queries ! update_no) l))"

subsection \<open>Refusals\<close>

text \<open>A command whose line was refused prints the message of the code and exits with the code of the message.\<close>

definition unless_refused ::
  "string \<Rightarrow> string \<Rightarrow> (int \<times> 'line) option \<Rightarrow> 'st \<Rightarrow> ('line \<Rightarrow> (int \<times> string \<times> 'st) option) \<Rightarrow> (int \<times> string \<times> 'st) option" where
  "unless_refused version prog parsed st run = do {
     (retval, cl) \<leftarrow> parsed;
     if retval \<noteq> 0
     then (case display_command_line_error version retval prog of (out, err, code) \<Rightarrow> Some (code, out, st))
     else run cl
   }"

end
