(* ===== verification/Cbc_Domain.thy ===== *)
theory Cbc_Domain
  imports Tool_Steps
begin

text \<open>
  src/cbcdomain.c: the command that maintains build domains, their networks and the networks of the DHCP server.
  The interfaces \<open>getifaddrs\<close> lists are a parameter, with the code it returns.
\<close>

record cbcdomain_comm_line_s =
  cdl_domain :: cstr
  cdl_ntpserver :: cstr
  cdl_config :: cstr
  cdl_action :: int
  cdl_confntp :: i16
  cdl_start_ip :: u64
  cdl_end_ip :: u64
  cdl_netmask :: u64
  cdl_gateway :: u64
  cdl_ns :: u64

definition cbcdomain_line_zero :: cbcdomain_comm_line_s where
  "cbcdomain_line_zero = \<lparr>cdl_domain = None, cdl_ntpserver = None, cdl_config = None, cdl_action = 0, cdl_confntp = 0,
     cdl_start_ip = 0, cdl_end_ip = 0, cdl_netmask = 0, cdl_gateway = 0, cdl_ns = 0\<rparr>"

subsection \<open>Command line\<close>

text \<open>The first addresses of a text, each before a comma, and the text after the last comma; the inner \<open>None\<close> is
  a text that has fewer, or another text in their place.\<close>

fun split_ips :: "nat \<Rightarrow> string \<Rightarrow> (u64 list \<times> string) option option" where
  "split_ips 0 ip = Some (Some ([], ip))"
| "split_ips (Suc n) ip = (case strchr ip CHR '','' of
     None \<Rightarrow> Some None
   | Some at \<Rightarrow> do {
       bad \<leftarrow> misfit (Some (take at ip)) IP_REGEX;
       if bad then Some None
       else (case pton4 (take at ip) of
           None \<Rightarrow> Some None
         | Some addr \<Rightarrow> map_option (map_option (\<lambda>(ips, rest). (ucast addr # ips, rest))) (split_ips n (drop (Suc at) ip)))
     })"

text \<open>The four addresses are stored before the last one is looked at.\<close>

definition split_network_args :: "cbcdomain_comm_line_s \<Rightarrow> string \<Rightarrow> (int \<times> cbcdomain_comm_line_s) option" where
  "split_network_args cdl netinfo = do {
     parts \<leftarrow> split_ips 4 netinfo;
     (case parts of
        None \<Rightarrow> Some (BUILD_DOMAIN_NETWORK_INVALID, cdl)
      | Some (ips, ip) \<Rightarrow>
          let cdl = cdl\<lparr>cdl_start_ip := ips ! 0, cdl_end_ip := ips ! 1, cdl_gateway := ips ! 2, cdl_netmask := ips ! 3\<rparr> in do {
          bad \<leftarrow> misfit (Some ip) IP_REGEX;
          if bad then Some (BUILD_DOMAIN_NETWORK_INVALID, cdl)
          else (case pton4 ip of
              None \<Rightarrow> Some (BUILD_DOMAIN_NETWORK_INVALID, cdl)
            | Some addr \<Rightarrow> Some (NONE, cdl\<lparr>cdl_ns := ucast addr\<rparr>))
        })
   }"

text \<open>\<open>Inr\<close> is the new line, \<open>Inl\<close> the usage.  The code of \<open>split_network_args\<close> is overwritten by the checks that
  follow the options: only what it stored counts.\<close>

definition cbcdomain_option :: "char \<Rightarrow> string \<Rightarrow> cbcdomain_comm_line_s \<Rightarrow> (int + cbcdomain_comm_line_s) option" where
  "cbcdomain_option opt optarg cdl =
    (if opt = CHR ''a'' then Some (Inr (cdl\<lparr>cdl_action := CMDB_ADD\<rparr>))
     else if opt = CHR ''d'' then Some (Inr (cdl\<lparr>cdl_action := CMDB_DISPLAY\<rparr>))
     else if opt = CHR ''l'' then Some (Inr (cdl\<lparr>cdl_action := CMDB_LIST\<rparr>))
     else if opt = CHR ''m'' then Some (Inr (cdl\<lparr>cdl_action := CMDB_MOD\<rparr>))
     else if opt = CHR ''r'' then Some (Inr (cdl\<lparr>cdl_action := CMDB_RM\<rparr>))
     else if opt = CHR ''w'' then Some (Inr (cdl\<lparr>cdl_action := CMDB_WRITE\<rparr>))
     else if opt = CHR ''z'' then Some (Inr (cdl\<lparr>cdl_action := CMDB_DEFAULT\<rparr>))
     else if opt = CHR ''k'' then map_option (\<lambda>(_, cdl). Inr cdl) (split_network_args cdl optarg)
     else if opt = CHR ''n'' then Some (Inr (cdl\<lparr>cdl_domain := Some (strndup optarg DOMAIN_LEN)\<rparr>))
     else if opt = CHR ''t'' then Some (Inr (cdl\<lparr>cdl_ntpserver := Some (strndup optarg DOMAIN_LEN), cdl_confntp := 1\<rparr>))
     else if opt = CHR ''v'' then Some (Inr (cdl\<lparr>cdl_action := AILSA_VERSION\<rparr>))
     else Some (Inl AILSA_DISPLAY_USAGE))"

fun cbcdomain_options :: "(char \<times> string) list \<Rightarrow> cbcdomain_comm_line_s \<Rightarrow> (int \<times> cbcdomain_comm_line_s) option" where
  "cbcdomain_options [] cdl = Some (0, cdl)"
| "cbcdomain_options ((opt, optarg) # rest) cdl = do {
     next \<leftarrow> cbcdomain_option opt optarg cdl;
     (case next of Inl code \<Rightarrow> Some (code, cdl) | Inr cdl \<Rightarrow> cbcdomain_options rest cdl)
   }"

definition validate_cbcdomain_comm_line :: "cbcdomain_comm_line_s \<Rightarrow> int option" where
  "validate_cbcdomain_comm_line cdl =
     refuse (given (cdl_ntpserver cdl) (c_and (misfit (cdl_ntpserver cdl) DOMAIN_REGEX) (misfit (cdl_ntpserver cdl) IP_REGEX)))
       NTP_SERVER_INVALID
    (unless_misfit (cdl_domain cdl) DOMAIN_REGEX DOMAIN_INPUT_INVALID (Some 0))"

definition check_cbcdomain_action :: "nat \<Rightarrow> cbcdomain_comm_line_s \<Rightarrow> int" where
  "check_cbcdomain_action argc cdl =
    (if argc = 1 then AILSA_DISPLAY_USAGE
     else if cdl_action cdl = AILSA_VERSION then AILSA_VERSION
     else if cdl_action cdl = NONE then AILSA_NO_ACTION
     else if cdl_action cdl \<noteq> CMDB_LIST \<and> cdl_action cdl \<noteq> CMDB_WRITE \<and> cdl_domain cdl = None then AILSA_NO_BUILD_DOMAIN
     else if cdl_action cdl = CMDB_MOD \<and> (cdl_start_ip cdl \<noteq> 0 \<or> cdl_end_ip cdl \<noteq> 0 \<or> cdl_netmask cdl \<noteq> 0 \<or>
         cdl_gateway cdl \<noteq> 0 \<or> cdl_ns cdl \<noteq> 0)
     then AILSA_NO_MOD_BUILD_DOM_NET
     else 0)"

definition parse_cbcdomain_comm_line ::
  "nat \<Rightarrow> (char \<times> string) list \<Rightarrow> cbcdomain_comm_line_s \<Rightarrow> (int \<times> cbcdomain_comm_line_s) option" where
  "parse_cbcdomain_comm_line argc options cdl = do {
     (retval, cdl) \<leftarrow> cbcdomain_options options cdl;
     if retval \<noteq> 0 then Some (retval, cdl)
     else do {
       retval \<leftarrow> validate_cbcdomain_comm_line cdl;
       Some (if retval \<noteq> 0 then retval else check_cbcdomain_action argc cdl, cdl)
     }
   }"

subsection \<open>Listing and displaying\<close>

definition list_cbc_build_domain ::
  "'db sqlite3_api \<Rightarrow> ailsa_cmdb_s option \<Rightarrow> cbcdomain_comm_line_s option \<Rightarrow> 'db world \<Rightarrow> 'db cmdb_result" where
  "list_cbc_build_domain api cbs cdl w =
    (if cbs = None \<or> cdl = None then Some (AILSA_NO_DATA, [], w)
     else ask (ailsa_basic_query api w cbs BUILD_DOMAIN_NAMES (Some [])) (\<lambda>w list. says w (text_rows [] list)))"

definition ip_line :: "string \<Rightarrow> ailsa_data \<Rightarrow> string option" where
  "ip_line what d = map_option (\<lambda>ip. what @ ntop4 (ucast ip) @ nl) (get_number d)"

text \<open>A row without exactly eleven values is not printed.\<close>

fun display_build_domain_details :: "(u32 \<Rightarrow> string option) \<Rightarrow> ailsa_data list \<Rightarrow> string option" where
  "display_build_domain_details pw [s, e, m, g, n, has_ntp, ntp, cu, ct, mu, mt] = do {
     start \<leftarrow> ip_line (tab @ ''Start IP: '') s;
     finish \<leftarrow> ip_line (tab @ ''End IP: '') e;
     mask \<leftarrow> ip_line (tab @ ''Netmask: '') m;
     gateway \<leftarrow> ip_line (tab @ ''Gateway: '') g;
     server \<leftarrow> ip_line (tab @ ''Name Server: '') n;
     small \<leftarrow> get_small has_ntp;
     time_line \<leftarrow> (if 0 <s small then map_option (\<lambda>t. ''NTP Server: '' @ t @ nl) (text_of ntp)
       else Some (''No NTP configuration'' @ nl));
     cuser \<leftarrow> get_number cu;
     ctime \<leftarrow> text_of ct;
     muser \<leftarrow> get_number mu;
     mtime \<leftarrow> text_of mt;
     Some (nl @ ''Network Configuration:'' @ nl @ start @ finish @ mask @ gateway @ server @ time_line @
       ''Created by:'' @ tab @ cmdb_get_uname pw cuser @ '' @ '' @ ctime @ nl @
       ''Modified by:'' @ tab @ cmdb_get_uname pw muser @ '' @ '' @ mtime @ nl)
   }"
| "display_build_domain_details pw _ = Some []"

fun domain_server_lines :: "ailsa_data list \<Rightarrow> string option" where
  "domain_server_lines [] = Some []"
| "domain_server_lines (n # i # v # rest) = do {
     name \<leftarrow> text_of n;
     ip \<leftarrow> get_number i;
     varient \<leftarrow> text_of v;
     others \<leftarrow> domain_server_lines rest;
     Some (print_string_8_16 name @ ntop4 (ucast ip) @ tab @ varient @ nl @ others)
   }"
| "domain_server_lines _ = None"

definition display_build_domain_servers :: "ailsa_data list \<Rightarrow> string option" where
  "display_build_domain_servers b = (if length b mod 3 \<noteq> 0 then Some [] else domain_server_lines b)"

definition display_cbc_build_domain ::
  "'db sqlite3_api \<Rightarrow> (u32 \<Rightarrow> string option) \<Rightarrow> ailsa_cmdb_s option \<Rightarrow> cbcdomain_comm_line_s option \<Rightarrow> 'db world \<Rightarrow> 'db cmdb_result" where
  "display_cbc_build_domain api pw cbs cdl w = (case cdl of None \<Rightarrow> Some (AILSA_NO_DATA, [], w) | Some cl \<Rightarrow>
     if cbs = None then Some (AILSA_NO_DATA, [], w)
     else ask_list w (cmdb_add_string_to_list (cdl_domain cl) (Some [])) (\<lambda>doms.
       ask (ailsa_argument_query api w cbs BUILD_DOMAIN_DETAILS_ON_NAME doms (Some [])) (\<lambda>w res.
       if length res = 0 then Some (0, [], w)
       else do {
         name \<leftarrow> cdl_domain cl;
         details \<leftarrow> display_build_domain_details pw res;
         saying (''Details for build domain: '' @ name @ nl @ details)
          (ask (ailsa_argument_query api w cbs BUILD_DETAILS_ON_DOMAIN doms (Some [])) (\<lambda>w bld.
           says w (map_option (\<lambda>t. nl @ ''Servers build in domain: '' @ name @ nl @
             ''Server Name'' @ tab @ ''IP Address'' @ tab @ ''Build Varient'' @ nl @ t) (display_build_domain_servers bld))))
       })))"

subsection \<open>The networks of the DHCP server\<close>

text \<open>lib/dnsa\_net.c: the address of an interface may be missing, where reading its family is a crash.\<close>

datatype iface_addr = IF_NULL | IF_INET u32 u32 | IF_OTHER

record ailsa_iface_s =
  if_name :: string
  if_flag :: int
  if_ip :: u32
  if_sip :: u32
  if_fip :: u32
  if_nm :: u32
  if_bc :: u32
  if_nw :: u32

definition iface_of :: "string \<Rightarrow> u32 \<Rightarrow> u32 \<Rightarrow> ailsa_iface_s" where
  "iface_of name ip nm = (let nw = and ip nm; bc = or nw (not nm) in
     \<lparr>if_name = strndup name SERVICE_LEN, if_flag = 0, if_ip = ip, if_sip = nw + 1, if_fip = bc - 1, if_nm = nm, if_bc = bc,
      if_nw = nw\<rparr>)"

fun ifaces_of :: "(string \<times> iface_addr) list \<Rightarrow> ailsa_iface_s list option" where
  "ifaces_of [] = Some []"
| "ifaces_of ((name, IF_NULL) # rest) = None"
| "ifaces_of ((name, IF_OTHER) # rest) = ifaces_of rest"
| "ifaces_of ((name, IF_INET ip nm) # rest) = map_option (\<lambda>is. iface_of name ip nm # is) (ifaces_of rest)"

type_synonym interfaces = "int \<times> (string \<times> iface_addr) list"

definition ailsa_get_iface_list :: "interfaces \<Rightarrow> ailsa_iface_s list option \<Rightarrow> (int \<times> ailsa_iface_s list option) option" where
  "ailsa_get_iface_list ifs list = (case list of None \<Rightarrow> Some (AILSA_NO_DATA, list) | Some l \<Rightarrow>
     if fst ifs \<noteq> 0 then Some (fst ifs, list)
     else map_option (\<lambda>is. (0, Some (l @ is))) (ifaces_of (snd ifs)))"

text \<open>The first interface of the network that serves no domain yet.\<close>

fun claim_iface :: "u64 \<Rightarrow> ailsa_iface_s list \<Rightarrow> ailsa_iface_s list option" where
  "claim_iface nw [] = None"
| "claim_iface nw (i # is) =
    (if ucast (if_nw i) = nw \<and> if_flag i = 0 then Some (i\<lparr>if_flag := 1\<rparr> # is)
     else map_option (\<lambda>is. i # is) (claim_iface nw is))"

definition dhcp_network_text :: "ailsa_dhcp_s \<Rightarrow> string option" where
  "dhcp_network_text d = do {
     dname \<leftarrow> dh_dname d;
     nameserver \<leftarrow> dh_nameserver d;
     gateway \<leftarrow> dh_gateway d;
     network \<leftarrow> dh_network d;
     netmask \<leftarrow> dh_netmask d;
     Some (text_lines
       [''shared-network '' @ dname @ '' {'',
        tab @ ''option domain-name-servers '' @ nameserver @ '';'',
        tab @ ''option domain-search '' @ quoted dname @ '';'',
        tab @ ''option routers '' @ gateway @ '';'',
        tab @ ''subnet '' @ network @ '' netmask '' @ netmask @ '' {'',
        tabs 2 @ ''authoratative;'',
        tabs 2 @ ''next-server '' @ gateway @ '';'',
        tabs 2 @ ''filename '' @ quoted ''pxelinux.0'' @ '';'',
        tab @ ''}'',
        ''}'',
        []])
   }"

fun dhcp_networks :: "ailsa_iface_s list \<Rightarrow> ailsa_dhcp_s list \<Rightarrow> string option" where
  "dhcp_networks ice [] = Some []"
| "dhcp_networks ice (d # ds) = (case claim_iface (dh_nw d) ice of
     None \<Rightarrow> dhcp_networks ice ds
   | Some ice' \<Rightarrow> do { network \<leftarrow> dhcp_network_text d; others \<leftarrow> dhcp_networks ice' ds; Some (network @ others) })"

definition write_dhcp_config_file ::
  "services \<Rightarrow> ailsa_cmdb_s \<Rightarrow> ailsa_iface_s list option \<Rightarrow> ailsa_dhcp_s list option \<Rightarrow> 'db site \<Rightarrow> 'db site option" where
  "write_dhcp_config_file os cc ice doms st = (case (ice, doms) of
     (Some is, Some ds) \<Rightarrow> do {
       dir \<leftarrow> cc_dhcpconf cc;
       let path = snprintf_s DOMAIN_LEN (dir @ ''/dhcpd.networks'');
       if os_open os path = -1 then Some st
       else map_option (\<lambda>text. put_file path text st) (dhcp_networks is ds)
     }
   | _ \<Rightarrow> Some st)"

definition write_dhcp_net_config ::
  "'db sqlite3_api \<Rightarrow> services \<Rightarrow> interfaces \<Rightarrow> ailsa_cmdb_s option \<Rightarrow> 'db site \<Rightarrow> 'db site_result" where
  "write_dhcp_net_config api os ifs cbs st = (case cbs of None \<Rightarrow> Some (AILSA_NO_DATA, st) | Some cc \<Rightarrow> do {
     (retval, ice) \<leftarrow> ailsa_get_iface_list ifs (Some []);
     if retval \<noteq> 0 then Some (retval, st)
     else do {
       (retval, w, doms) \<leftarrow> ailsa_get_bdom_list api (si_world st) cbs (Some []);
       let st = st\<lparr>si_world := w\<rparr>;
       if retval \<noteq> 0 then Some (retval, st)
       else map_option (\<lambda>st. (0, st)) (write_dhcp_config_file os cc ice doms st)
     }
   })"

subsection \<open>Adding, changing and removing\<close>

definition cbc_populate_domain ::
  "u32 \<Rightarrow> ailsa_cmdb_s option \<Rightarrow> cbcdomain_comm_line_s option \<Rightarrow> db_list \<Rightarrow> int \<times> db_list" where
  "cbc_populate_domain uid cbs cdl doms = (case cdl of None \<Rightarrow> (AILSA_NO_DATA, doms) | Some cl \<Rightarrow>
     if cbs = None \<or> doms = None then (AILSA_NO_DATA, doms)
     else add_args (
       [cmdb_add_number_to_list (cdl_start_ip cl),
        cmdb_add_number_to_list (cdl_end_ip cl),
        cmdb_add_number_to_list (cdl_ns cl),
        cmdb_add_number_to_list (cdl_gateway cl),
        cmdb_add_number_to_list (cdl_netmask cl),
        cmdb_add_string_to_list (cdl_domain cl)] @
       (if cdl_confntp cl \<noteq> 0
        then [cmdb_add_short_to_list (cdl_confntp cl), cmdb_add_string_to_list (cdl_ntpserver cl)] else []) @
       [cmdb_populate_cuser_muser uid]) doms)"

text \<open>A new build domain also gets the networks of the DHCP server, whose code is lost, and a forward zone.\<close>

definition add_cbc_build_domain ::
  "'db sqlite3_api \<Rightarrow> services \<Rightarrow> interfaces \<Rightarrow> ailsa_cmdb_s option \<Rightarrow> cbcdomain_comm_line_s option \<Rightarrow> 'db site \<Rightarrow> 'db site_result" where
  "add_cbc_build_domain api os ifs cbs cdl st = (case cdl of None \<Rightarrow> Some (AILSA_NO_DATA, st) | Some line \<Rightarrow>
     if cbs = None then Some (AILSA_NO_DATA, st)
     else let cl = line\<lparr>cdl_ntpserver := (if cdl_ntpserver line = None then Some ''none'' else cdl_ntpserver line)\<rparr> in
       on_list st (cmdb_add_string_to_list (cdl_domain cl) (Some [])) (\<lambda>r.
       on_query st (\<lambda>w. ailsa_argument_query api w cbs BUILD_DOMAIN_ID_ON_DOMAIN r (Some [])) (\<lambda>st d.
       if length d > 0 then Some (0, st)
       else chk0 (on_world st (\<lambda>w. check_for_build_domain_overlap api w cbs
           (Some [cdl_start_ip cl, cdl_end_ip cl, cdl_start_ip cl, cdl_start_ip cl, cdl_end_ip cl, cdl_end_ip cl, 0]))) (\<lambda>st.
         on_list st (cbc_populate_domain (os_uid os) cbs (Some cl) (Some d)) (\<lambda>d.
         chk0 (on_world st (\<lambda>w. ailsa_insert_query api w cbs
             (if cdl_confntp cl \<noteq> 0 then INSERT_BUILD_DOMAIN else INSERT_BUILD_DOMAIN_NO_NTP) d)) (\<lambda>st. do {
         (_, st) \<leftarrow> write_dhcp_net_config api os ifs cbs st;
         add_forward_zone api os cbs (cdl_domain cl) (Some ''master'') None st
       }))))))"

definition remove_cbc_build_domain ::
  "'db sqlite3_api \<Rightarrow> services \<Rightarrow> interfaces \<Rightarrow> ailsa_cmdb_s option \<Rightarrow> cbcdomain_comm_line_s option \<Rightarrow> 'db site \<Rightarrow> 'db site_result" where
  "remove_cbc_build_domain api os ifs cbs cdl st = (case cdl of None \<Rightarrow> Some (AILSA_NO_DATA, st) | Some cl \<Rightarrow>
     if cbs = None then Some (AILSA_NO_DATA, st)
     else on_list st (cmdb_add_string_to_list (cdl_domain cl) (Some [])) (\<lambda>doms.
       chk0 (on_world st (\<lambda>w. ailsa_delete_query api w cbs (delete_queries ! DELETE_BUILD_DOMAIN_ON_NAME) doms)) (\<lambda>st.
       write_dhcp_net_config api os ifs cbs st)))"

text \<open>The code is always 0.\<close>

definition modify_cbc_build_domain ::
  "'db sqlite3_api \<Rightarrow> u32 \<Rightarrow> ailsa_cmdb_s option \<Rightarrow> cbcdomain_comm_line_s option \<Rightarrow> 'db world \<Rightarrow> (int \<times> 'db world) option" where
  "modify_cbc_build_domain api uid cbs cdl w = (case cdl of None \<Rightarrow> Some (AILSA_NO_DATA, w) | Some cl \<Rightarrow>
     if cbs = None then Some (AILSA_NO_DATA, w)
     else map_option (\<lambda>(retval, w). (0, w)) (then_list w (add_args
       [cmdb_add_string_to_list (cdl_ntpserver cl), cmdb_add_number_to_list (ucast uid),
        cmdb_add_string_to_list (cdl_domain cl)] (Some [])) (\<lambda>doms.
       ailsa_update_query api w cbs (update_queries ! UPDATE_BUILD_DOMAIN) doms)))"

definition set_default_cbc_build_domain ::
  "'db sqlite3_api \<Rightarrow> u32 \<Rightarrow> ailsa_cmdb_s option \<Rightarrow> cbcdomain_comm_line_s option \<Rightarrow> 'db world \<Rightarrow> (int \<times> 'db world) option" where
  "set_default_cbc_build_domain api uid cbs cdl w = (case cdl of None \<Rightarrow> Some (AILSA_NO_DATA, w) | Some cl \<Rightarrow>
     if cbs = None \<or> cdl_domain cl = None then Some (AILSA_NO_DATA, w)
     else then_rows (cmdb_add_build_domain_id_to_list api w (cdl_domain cl) cbs (Some [])) (\<lambda>w domain.
       if length domain = 0 then Some (0, w)
       else set_default_row api uid cbs DEFAULT_DOMAIN INSERT_DEFAULT_DOMAIN UPDATE_DEFAULT_DOMAIN w domain))"

subsection \<open>The command\<close>

definition cbcdomain_dispatch ::
  "'db sqlite3_api \<Rightarrow> services \<Rightarrow> interfaces \<Rightarrow> (u32 \<Rightarrow> string option) \<Rightarrow> ailsa_cmdb_s option \<Rightarrow> cbcdomain_comm_line_s \<Rightarrow>
   'db site \<Rightarrow> 'db command_result" where
  "cbcdomain_dispatch api os ifs pw cmc cl st =
    (let w = si_world st; cdl = Some cl in
     if cdl_action cl = CMDB_LIST then on_connection st (list_cbc_build_domain api cmc cdl w)
     else if cdl_action cl = CMDB_DISPLAY then on_connection st (display_cbc_build_domain api pw cmc cdl w)
     else if cdl_action cl = CMDB_ADD then silent (add_cbc_build_domain api os ifs cmc cdl st)
     else if cdl_action cl = CMDB_RM then silent (remove_cbc_build_domain api os ifs cmc cdl st)
     else if cdl_action cl = CMDB_MOD then connected st (modify_cbc_build_domain api (os_uid os) cmc cdl w)
     else if cdl_action cl = CMDB_WRITE then silent (write_dhcp_net_config api os ifs cmc st)
     else if cdl_action cl = CMDB_DEFAULT then connected st (set_default_cbc_build_domain api (os_uid os) cmc cdl w)
     else Some (0, ''Unknown Action type'' @ nl, st))"

definition cbcdomain_main ::
  "string \<Rightarrow> string \<Rightarrow> 'db sqlite3_api \<Rightarrow> services \<Rightarrow> interfaces \<Rightarrow> (u32 \<Rightarrow> string option) \<Rightarrow> ailsa_cmdb_s option \<Rightarrow>
   nat \<Rightarrow> (char \<times> string) list \<Rightarrow> 'db site \<Rightarrow> 'db command_result" where
  "cbcdomain_main version prog api os ifs pw cmc argc options st =
     unless_refused version prog (parse_cbcdomain_comm_line argc options cbcdomain_line_zero) st
       (\<lambda>cl. cbcdomain_dispatch api os ifs pw cmc cl st)"

end
