(* ===== verification/Cbc_Locale.thy ===== *)
theory Cbc_Locale
  imports Tool_Steps
begin

text \<open>
  src/cbclocale.c: the command that maintains the locales of builds.
\<close>

record locale_comm_line_s =
  lcl_country :: cstr
  lcl_keymap :: cstr
  lcl_language :: cstr
  lcl_locale :: cstr
  lcl_name :: cstr
  lcl_timezone :: cstr
  lcl_action :: int

definition locale_line_zero :: locale_comm_line_s where
  "locale_line_zero = \<lparr>lcl_country = None, lcl_keymap = None, lcl_language = None, lcl_locale = None, lcl_name = None,
     lcl_timezone = None, lcl_action = 0\<rparr>"

subsection \<open>Command line\<close>

definition locale_option :: "char \<Rightarrow> string \<Rightarrow> locale_comm_line_s \<Rightarrow> int + locale_comm_line_s" where
  "locale_option opt optarg cl =
    (if opt = CHR ''a'' then Inr (cl\<lparr>lcl_action := CMDB_ADD\<rparr>)
     else if opt = CHR ''d'' then Inr (cl\<lparr>lcl_action := CMDB_DISPLAY\<rparr>)
     else if opt = CHR ''l'' then Inr (cl\<lparr>lcl_action := CMDB_LIST\<rparr>)
     else if opt = CHR ''q'' then Inr (cl\<lparr>lcl_action := CBC_SERVER\<rparr>)
     else if opt = CHR ''r'' then Inr (cl\<lparr>lcl_action := CMDB_RM\<rparr>)
     else if opt = CHR ''v'' then Inl AILSA_VERSION
     else if opt = CHR ''z'' then Inr (cl\<lparr>lcl_action := CMDB_DEFAULT\<rparr>)
     else if opt = CHR ''g'' then Inr (cl\<lparr>lcl_language := Some (strndup optarg SERVICE_LEN)\<rparr>)
     else if opt = CHR ''k'' then Inr (cl\<lparr>lcl_keymap := Some (strndup optarg SERVICE_LEN)\<rparr>)
     else if opt = CHR ''o'' then Inr (cl\<lparr>lcl_locale := Some (strndup optarg MAC_LEN)\<rparr>)
     else if opt = CHR ''n'' then Inr (cl\<lparr>lcl_name := Some (strndup optarg HOST_LEN)\<rparr>)
     else if opt = CHR ''t'' then Inr (cl\<lparr>lcl_timezone := Some (strndup optarg HOST_LEN)\<rparr>)
     else if opt = CHR ''u'' then Inr (cl\<lparr>lcl_country := Some (strndup optarg HOST_LEN)\<rparr>)
     else Inl AILSA_DISPLAY_USAGE)"

fun locale_options :: "(char \<times> string) list \<Rightarrow> locale_comm_line_s \<Rightarrow> int \<times> locale_comm_line_s" where
  "locale_options [] cl = (0, cl)"
| "locale_options ((opt, optarg) # rest) cl = (case locale_option opt optarg cl of
     Inl code \<Rightarrow> (code, cl)
   | Inr cl \<Rightarrow> locale_options rest cl)"

definition validate_locale_comm_line :: "locale_comm_line_s \<Rightarrow> int option" where
  "validate_locale_comm_line cl =
     unless_misfit (lcl_language cl) NAME_REGEX LANGUAGE_INVALID
    (unless_misfit (lcl_keymap cl) NAME_REGEX KEYMAP_INVALID
    (unless_misfit (lcl_locale cl) LOGVOL_REGEX LOCALE_INVALID
    (unless_misfit (lcl_name cl) NAME_REGEX LOCAL_NAME_INVALID
    (unless_misfit (lcl_timezone cl) TIMEZONE_REGEX TIMEZONE_INVALID
    (unless_misfit (lcl_country cl) NAME_REGEX COUNTRY_INVALID (Some 0))))))"

text \<open>The code of \<open>validate_locale_comm_line\<close> is dropped: a text that does not fit is accepted.\<close>

definition parse_locale_comm_line ::
  "nat \<Rightarrow> (char \<times> string) list \<Rightarrow> locale_comm_line_s \<Rightarrow> (int \<times> locale_comm_line_s) option" where
  "parse_locale_comm_line argc options cl =
    (if argc = 1 then Some (AILSA_DISPLAY_USAGE, cl)
     else case locale_options options cl of (retval, cl) \<Rightarrow>
       if retval \<noteq> 0 then Some (retval, cl)
       else if lcl_action cl = AILSA_VERSION \<or> lcl_action cl = CMDB_LIST then Some (retval, cl)
       else if lcl_action cl \<noteq> CMDB_LIST \<and> lcl_name cl = None then Some (AILSA_NO_NAME, cl)
       else if lcl_action cl = 0 then Some (AILSA_NO_ACTION, cl)
       else if lcl_action cl = CMDB_ADD \<and> (lcl_language cl = None \<or> lcl_keymap cl = None \<or> lcl_locale cl = None \<or>
           lcl_timezone cl = None \<or> lcl_country cl = None)
       then Some (AILSA_DISPLAY_USAGE, cl)
       else map_option (\<lambda>_. (retval, cl)) (validate_locale_comm_line cl))"

subsection \<open>Listing and displaying\<close>

text \<open>The id of the default locale, 0 when there is none.\<close>

definition get_default_locale ::
  "'db sqlite3_api \<Rightarrow> 'db world \<Rightarrow> ailsa_cmdb_s option \<Rightarrow> (u64 \<Rightarrow> 'db world \<Rightarrow> 'db cmdb_result) \<Rightarrow> 'db cmdb_result" where
  "get_default_locale api w ccs rest = (if ccs = None then Some (AILSA_NO_DATA, [], w)
     else ask (ailsa_basic_query api w ccs DEFAULT_LOCALE (Some [])) (\<lambda>w d. do {
       lid \<leftarrow> (if length d = 0 then Some 0 else get_number (hd d));
       rest lid w
     }))"

fun locale_lines :: "u64 \<Rightarrow> ailsa_data list \<Rightarrow> string option" where
  "locale_lines isdefault [] = Some []"
| "locale_lines isdefault (i # n # rest) = do {
     others \<leftarrow> locale_lines isdefault rest;
     Some ((case n of D_TEXT t \<Rightarrow> t | _ \<Rightarrow> []) @ (if i = D_LINT isdefault then '' *'' else []) @ nl @ others)
   }"
| "locale_lines isdefault [i] = None"

definition list_locales :: "'db sqlite3_api \<Rightarrow> ailsa_cmdb_s option \<Rightarrow> 'db world \<Rightarrow> 'db cmdb_result" where
  "list_locales api ccs w = get_default_locale api w ccs (\<lambda>isdefault w.
     ask (ailsa_basic_query api w ccs LOCALE_NAMES (Some [])) (\<lambda>w l. says w (locale_lines isdefault l)))"

fun locale_text :: "u64 \<Rightarrow> string \<Rightarrow> ailsa_data list \<Rightarrow> string option" where
  "locale_text isdefault name (i # l # c # g # k # t # _) = do {
     lid \<leftarrow> get_number i;
     locale_name \<leftarrow> text_of l;
     country \<leftarrow> text_of c;
     language \<leftarrow> text_of g;
     keymap \<leftarrow> text_of k;
     timezone \<leftarrow> text_of t;
     Some (''Locale: '' @ name @ (if isdefault = lid then ''  * Default'' else []) @ nl @
       ''  Locale:'' @ tab @ locale_name @ nl @
       ''  Country:'' @ tab @ country @ nl @
       ''  Language:'' @ tab @ language @ nl @
       ''  Keymap:'' @ tab @ keymap @ nl @
       ''  Timezone:'' @ tab @ timezone @ nl)
   }"
| "locale_text isdefault name _ = None"

definition display_locale ::
  "'db sqlite3_api \<Rightarrow> ailsa_cmdb_s option \<Rightarrow> locale_comm_line_s option \<Rightarrow> 'db world \<Rightarrow> 'db cmdb_result" where
  "display_locale api ccs cl w = (case cl of None \<Rightarrow> Some (AILSA_NO_DATA, [], w) | Some line \<Rightarrow>
     if ccs = None then Some (AILSA_NO_DATA, [], w)
     else get_default_locale api w ccs (\<lambda>isdefault w.
       ask_list w (cmdb_add_string_to_list (lcl_name line) (Some [])) (\<lambda>l.
       ask (ailsa_argument_query api w ccs LOCALE_ON_NAME l (Some [])) (\<lambda>w r.
       if length r = 0 then Some (0, [], w)
       else if length r \<noteq> 8 then Some (AILSA_WRONG_LIST_LENGHT, [], w)
       else do { name \<leftarrow> lcl_name line; says w (locale_text isdefault name r) }))))"

definition display_servers_in_locale ::
  "'db sqlite3_api \<Rightarrow> ailsa_cmdb_s option \<Rightarrow> locale_comm_line_s option \<Rightarrow> 'db world \<Rightarrow> 'db cmdb_result" where
  "display_servers_in_locale api ccs cl w = (case cl of None \<Rightarrow> Some (AILSA_NO_DATA, [], w) | Some line \<Rightarrow>
     if ccs = None then Some (AILSA_NO_DATA, [], w)
     else ask_list w (cmdb_add_string_to_list (lcl_name line) (Some [])) (\<lambda>l.
       ask (ailsa_argument_query api w ccs SERVERS_IN_LOCALE l (Some [])) (\<lambda>w server.
       if length server = 0 then Some (0, [], w)
       else do {
         name \<leftarrow> lcl_name line;
         saying (''Servers build with locale '' @ name @ nl) (says w (text_rows '' '' server))
       })))"

subsection \<open>Adding, removing and choosing\<close>

definition add_locale ::
  "'db sqlite3_api \<Rightarrow> u32 \<Rightarrow> ailsa_cmdb_s option \<Rightarrow> locale_comm_line_s \<Rightarrow> 'db world \<Rightarrow> (int \<times> 'db world) option" where
  "add_locale api uid ccs cl w =
     then_list w (cmdb_add_string_to_list (lcl_name cl) (Some [])) (\<lambda>a.
     then_rows (ailsa_argument_query api w ccs LOCALE_ON_NAME a (Some [])) (\<lambda>w r.
     if length r > 0 then Some (0, w)
     else then_list w (add_args
       [cmdb_add_string_to_list (lcl_locale cl),
        cmdb_add_string_to_list (lcl_country cl),
        cmdb_add_string_to_list (lcl_language cl),
        cmdb_add_string_to_list (lcl_keymap cl),
        cmdb_add_string_to_list (lcl_timezone cl),
        cmdb_add_string_to_list (lcl_name cl),
        cmdb_populate_cuser_muser uid] (Some [])) (\<lambda>l.
       ailsa_insert_query api w ccs INSERT_LOCALE l)))"

definition remove_locale ::
  "'db sqlite3_api \<Rightarrow> ailsa_cmdb_s option \<Rightarrow> locale_comm_line_s option \<Rightarrow> 'db world \<Rightarrow> (int \<times> 'db world) option" where
  "remove_locale api ccs cl w = (case cl of None \<Rightarrow> Some (AILSA_NO_DATA, w) | Some line \<Rightarrow>
     if ccs = None then Some (AILSA_NO_DATA, w)
     else then_list w (cmdb_add_string_to_list (lcl_name line) (Some [])) (\<lambda>l.
       ailsa_delete_query api w ccs (delete_queries ! DELETE_LOCALE) l))"

definition set_default_locale ::
  "'db sqlite3_api \<Rightarrow> u32 \<Rightarrow> ailsa_cmdb_s option \<Rightarrow> locale_comm_line_s option \<Rightarrow> 'db world \<Rightarrow> (int \<times> 'db world) option" where
  "set_default_locale api uid ccs cl w = (case cl of None \<Rightarrow> Some (AILSA_NO_DATA, w) | Some line \<Rightarrow>
     if ccs = None then Some (AILSA_NO_DATA, w)
     else then_list w (add_args [cmdb_add_string_to_list (lcl_name line), cmdb_add_number_to_list (ucast uid)] (Some [])) (\<lambda>u.
       ailsa_update_query api w ccs (update_queries ! SET_DEFAULT_LOCALE) u))"

subsection \<open>The command\<close>

definition cbclocale_dispatch ::
  "'db sqlite3_api \<Rightarrow> u32 \<Rightarrow> ailsa_cmdb_s option \<Rightarrow> locale_comm_line_s \<Rightarrow> 'db site \<Rightarrow> 'db command_result" where
  "cbclocale_dispatch api uid ccs cl st =
    (let w = si_world st in
     if lcl_action cl = CMDB_LIST then on_connection st (list_locales api ccs w)
     else if lcl_action cl = CMDB_DISPLAY then on_connection st (display_locale api ccs (Some cl) w)
     else if lcl_action cl = CMDB_ADD then connected st (add_locale api uid ccs cl w)
     else if lcl_action cl = CBC_SERVER then on_connection st (display_servers_in_locale api ccs (Some cl) w)
     else if lcl_action cl = CMDB_RM then connected st (remove_locale api ccs (Some cl) w)
     else if lcl_action cl = CMDB_DEFAULT then connected st (set_default_locale api uid ccs (Some cl) w)
     else Some (AILSA_DISPLAY_USAGE, [], st))"

definition cbclocale_main ::
  "string \<Rightarrow> string \<Rightarrow> 'db sqlite3_api \<Rightarrow> u32 \<Rightarrow> ailsa_cmdb_s option \<Rightarrow> nat \<Rightarrow> (char \<times> string) list \<Rightarrow> 'db site \<Rightarrow>
   'db command_result" where
  "cbclocale_main version prog api uid ccs argc options st =
     unless_refused version prog (parse_locale_comm_line argc options locale_line_zero) st
       (\<lambda>cl. cbclocale_dispatch api uid ccs cl st)"

end
