(* ===== verification/Boot_Files.thy ===== *)
theory Boot_Files
  imports Tool_Steps
begin

text \<open>
  The download of the kernel and the initial ramdisk an operating system boots from (lib/dnsa\_net.c).  The network
  is a parameter: for the name of a host it tells how far \<open>getaddrinfo\<close>, \<open>connect\<close>, \<open>fdopen\<close> and \<open>setvbuf\<close>
  got, and what the host answers to a request.  A request is only sent once the answer to the one before was read;
  what was left of that answer is read first.  Whatever is written to a file is written in full.
\<close>

datatype http =
    HTTP_NO_HOST int
  | HTTP_NO_CONNECTION
  | HTTP_NO_STREAM
  | HTTP_NO_BUFFER int
  | HTTP_UP "string \<Rightarrow> string"

type_synonym network = "string \<Rightarrow> http"

abbreviation MAXDATASIZE :: nat where "MAXDATASIZE \<equiv> 1048576"
abbreviation AILSA_DOWNLOAD_FAIL :: int where "AILSA_DOWNLOAD_FAIL \<equiv> 234"
abbreviation AILSA_NO_MIRROR :: int where "AILSA_NO_MIRROR \<equiv> 224"

definition crlf :: string where
  "crlf = [CHR 0x0D, CHR 0x0A]"

subsection \<open>Reading a header\<close>

text \<open>\<open>fgets\<close>: the line with its newline, and what is left.  A line is a C string up to its first NUL.\<close>

definition line_of :: "string \<Rightarrow> string" where
  "line_of s = (case strchr s (CHR 0x0A) of None \<Rightarrow> s | Some i \<Rightarrow> take (Suc i) s)"

definition fgets :: "nat \<Rightarrow> string \<Rightarrow> (string \<times> string) option" where
  "fgets n s = (if s = [] then None else let l = take (n - 1) (line_of s) in Some (l, drop (length l) s))"

definition c_string :: "string \<Rightarrow> string" where
  "c_string s = takeWhile (\<lambda>c. c \<noteq> CHR 0x00) s"

text \<open>\<open>strtok(s, " ")\<close>: the token, and where the next call goes on.\<close>

definition strtok :: "string \<Rightarrow> (string \<times> string) option" where
  "strtok s = (case dropWhile (\<lambda>c. c = CHR '' '') s of
     [] \<Rightarrow> None
   | t \<Rightarrow> Some (takeWhile (\<lambda>c. c \<noteq> CHR '' '') t, drop 1 (dropWhile (\<lambda>c. c \<noteq> CHR '' '') t)))"

lemma fgets_shorter: "fgets n s = Some (l, s') \<Longrightarrow> 1 < n \<Longrightarrow> length s' < length s"
  by (cases s) (auto simp: fgets_def line_of_def Let_def min_def split: option.splits if_splits)

text \<open>The lines of a header up to the empty one.  A line without any token is a crash; \<open>len\<close> is the length, where
  \<open>None\<close> is a variable that was never set.\<close>

function header_lines :: "u64 option \<Rightarrow> string \<Rightarrow> (int \<times> u64 option \<times> string) option" where
  "header_lines len s = (case fgets MAXDATASIZE s of
     None \<Rightarrow> Some (AILSA_DOWNLOAD_FAIL, len, s)
   | Some (line, s') \<Rightarrow>
       if strncmp_eq (c_string line) crlf 2 then Some (0, len, s')
       else (case strtok (c_string line) of
           None \<Rightarrow> None
         | Some (t, others) \<Rightarrow>
             if strncmp_eq t ''Content-Length:'' SERVICE_LEN
             then (case strtok others of
                 None \<Rightarrow> Some (AILSA_DOWNLOAD_FAIL, len, s')
               | Some (n, _) \<Rightarrow> header_lines (Some (strtoul10 n)) s')
             else header_lines len s'))"
  by pat_completeness auto
termination
  by (relation "measure (\<lambda>(len, s). length s)") (auto dest: fgets_shorter)

declare header_lines.simps [simp del]

definition decode_http_header :: "u64 option \<Rightarrow> string \<Rightarrow> (int \<times> u64 option \<times> string) option" where
  "decode_http_header len s = (case fgets MAXDATASIZE s of
     None \<Rightarrow> Some (AILSA_DOWNLOAD_FAIL, len, s)
   | Some (line, s) \<Rightarrow> (case strtok (c_string line) of
         None \<Rightarrow> Some (AILSA_DOWNLOAD_FAIL, len, s)
       | Some (_, others) \<Rightarrow> (case strtok others of
             None \<Rightarrow> Some (AILSA_DOWNLOAD_FAIL, len, s)
           | Some (code, _) \<Rightarrow> if strtoul10 code \<noteq> 200 then Some (AILSA_DOWNLOAD_FAIL, len, s) else header_lines len s)))"

subsection \<open>The requests\<close>

abbreviation fed_tld :: string where
  "fed_tld \<equiv> ''/sites/dl.fedoraproject.org/pub/fedora/linux''"

text \<open>Where the installers of Debian and Ubuntu are, for an architecture they have.\<close>

definition netboot :: "string \<Rightarrow> string \<Rightarrow> string option" where
  "netboot os arch =
    (if strncmp_eq arch ''i386'' BYTE_LEN
     then Some (''/main/installer-i386/current/images/netboot/'' @ os @ ''-installer/i386'')
     else if strncmp_eq arch ''x86_64'' BYTE_LEN
     then Some (''/main/installer-amd64/current/images/netboot/'' @ os @ ''-installer/amd64'')
     else None)"

definition get_request :: "string \<Rightarrow> string \<Rightarrow> string \<Rightarrow> string" where
  "get_request path host ending = snprintf_s BUFFER_LEN (''GET '' @ path @ '' HTTP/1.1'' @ crlf @ ''HOST: '' @ host @ ending)"

definition netboot_requests :: "string \<Rightarrow> string \<Rightarrow> string \<Rightarrow> string \<Rightarrow> string \<times> string" where
  "netboot_requests os vail arch host = (case netboot os arch of
     None \<Rightarrow> ([], [])
   | Some boot \<Rightarrow>
       (get_request (''/'' @ os @ ''/dists/'' @ vail @ boot @ ''/linux'') host (crlf @ crlf),
        get_request (''/'' @ os @ ''/dists/'' @ vail @ boot @ ''/initrd.gz'') host (crlf @ crlf)))"

text \<open>The requests for the kernel and the ramdisk, empty for another system.  Those to Fedora's mirror lack the empty
  line that ends a request.\<close>

definition boot_requests :: "string \<Rightarrow> string \<Rightarrow> string \<Rightarrow> string \<Rightarrow> string \<Rightarrow> string \<times> string" where
  "boot_requests os ver arch vail host =
    (if strncmp_eq os ''debian'' BYTE_LEN then netboot_requests ''debian'' vail arch host
     else if strncmp_eq os ''ubuntu'' BYTE_LEN then netboot_requests ''ubuntu'' vail arch host
     else if strncmp_eq os ''centos'' BYTE_LEN
     then (get_request (''/centos/'' @ ver @ ''/os/'' @ arch @ ''/isolinux/vmlinuz'') host (crlf @ crlf),
           get_request (''/centos/'' @ ver @ ''/os/'' @ arch @ ''/isolinux/initrd.img'') host (crlf @ crlf))
     else if strncmp_eq os ''fedora'' BYTE_LEN
     then (get_request (fed_tld @ ''/releases/'' @ ver @ ''/Server/'' @ arch @ ''/os/isolinux/vmlinuz'') host crlf,
           get_request (fed_tld @ ''/releases/'' @ ver @ ''/Server/'' @ arch @ ''/os/isolinux/initrd.img'') host crlf)
     else ([], []))"

subsection \<open>The download\<close>

text \<open>One file: its header, and as much of what follows as the header said, written to the file.  The rest of the
  stream goes on only when the file could be written; a size of 0 ends the download with 0.\<close>

definition grab_file ::
  "services \<Rightarrow> string \<Rightarrow> u64 option \<Rightarrow> string \<Rightarrow> 'db site \<Rightarrow> (string \<Rightarrow> 'db site \<Rightarrow> 'db site_result) \<Rightarrow> 'db site_result" where
  "grab_file os path len s st rest = do {
     (retval, len, s) \<leftarrow> decode_http_header len s;
     if retval \<noteq> 0 then Some (retval, st)
     else do {
       size \<leftarrow> len;
       if size = 0 then Some (0, st)
       else if os_open os path = -1 then Some (0, st)
       else rest (drop (unat size) s) (put_file path (take (unat size) s) st)
     }
   }"

definition cbc_get_boot_files ::
  "'db sqlite3_api \<Rightarrow> services \<Rightarrow> network \<Rightarrow> ailsa_cmdb_s option \<Rightarrow> cstr \<Rightarrow> string \<Rightarrow> string \<Rightarrow> string \<Rightarrow> 'db site \<Rightarrow> 'db site_result" where
  "cbc_get_boot_files api os net cmc alias ver arch vail st =
     on_list st (cmdb_add_string_to_list alias (Some [])) (\<lambda>list.
     on_query st (\<lambda>w. ailsa_argument_query api w cmc MIRROR_ON_BUILD_ALIAS list (Some [])) (\<lambda>st mirror.
     if mirror = [] then Some (AILSA_NO_MIRROR, st)
     else do {
       host \<leftarrow> text_of (hd mirror);
       name \<leftarrow> alias;
       (case net host of
          HTTP_NO_HOST code \<Rightarrow> Some (code, st)
        | HTTP_NO_CONNECTION \<Rightarrow> Some (1, st)
        | HTTP_NO_STREAM \<Rightarrow> Some (0, st)
        | HTTP_NO_BUFFER code \<Rightarrow> Some (code, st)
        | HTTP_UP answer \<Rightarrow> do {
            cc \<leftarrow> cmc;
            dir \<leftarrow> cc_tftpdir cc;
            let (kernel, initrd) = boot_requests name ver arch vail host;
            let file = name @ ''-'' @ ver @ ''-'' @ arch;
            grab_file os (snprintf_s CONFIG_LEN (dir @ ''/vmlinuz-'' @ file)) None (answer kernel) st (\<lambda>left st.
            grab_file os (snprintf_s CONFIG_LEN (dir @ ''/initrd-'' @ file @ ''.img'')) (Some 0) (left @ answer initrd) st (\<lambda>_ st.
            Some (0, st)))
          })
     }))"

end
