(* ===== verification/Cbc_Os.thy ===== *)
theory Cbc_Os
  imports Boot_Files
begin

text \<open>
  src/cbcos.c: the command that maintains the operating systems that can be built.  A line the command refuses may
  print a message of its own before the one of the code.
\<close>

record cbcos_comm_line_s =
  ocl_alias :: cstr
  ocl_arch :: cstr
  ocl_os :: cstr
  ocl_ver_alias :: cstr
  ocl_version :: cstr
  ocl_action :: int
  ocl_force :: int

definition cbcos_line_zero :: cbcos_comm_line_s where
  "cbcos_line_zero = \<lparr>ocl_alias = None, ocl_arch = None, ocl_os = None, ocl_ver_alias = None, ocl_version = None,
     ocl_action = 0, ocl_force = 0\<rparr>"

subsection \<open>Command line\<close>

definition cbcos_option :: "char \<Rightarrow> string \<Rightarrow> cbcos_comm_line_s \<Rightarrow> cbcos_comm_line_s option" where
  "cbcos_option opt optarg col =
    (if opt = CHR ''a'' then Some (col\<lparr>ocl_action := CMDB_ADD\<rparr>)
     else if opt = CHR ''d'' then Some (col\<lparr>ocl_action := CMDB_DISPLAY\<rparr>)
     else if opt = CHR ''l'' then Some (col\<lparr>ocl_action := CMDB_LIST\<rparr>)
     else if opt = CHR ''q'' then Some (col\<lparr>ocl_action := CBC_SERVER\<rparr>)
     else if opt = CHR ''r'' then Some (col\<lparr>ocl_action := CMDB_RM\<rparr>)
     else if opt = CHR ''v'' then Some (col\<lparr>ocl_action := AILSA_VERSION\<rparr>)
     else if opt = CHR ''g'' then Some (col\<lparr>ocl_action := DOWNLOAD\<rparr>)
     else if opt = CHR ''z'' then Some (col\<lparr>ocl_action := CMDB_DEFAULT\<rparr>)
     else if opt = CHR ''e'' then Some (col\<lparr>ocl_ver_alias := Some (strndup optarg MAC_LEN)\<rparr>)
     else if opt = CHR ''f'' then Some (col\<lparr>ocl_force := 1\<rparr>)
     else if opt = CHR ''n'' then Some (col\<lparr>ocl_os := Some (strndup optarg MAC_LEN)\<rparr>)
     else if opt = CHR ''o'' then Some (col\<lparr>ocl_version := Some (strndup optarg MAC_LEN)\<rparr>)
     else if opt = CHR ''s'' then Some (col\<lparr>ocl_alias := Some (strndup optarg MAC_LEN)\<rparr>)
     else if opt = CHR ''t'' then Some (col\<lparr>ocl_arch := Some (strndup optarg SERVICE_LEN)\<rparr>)
     else None)"

fun cbcos_options :: "(char \<times> string) list \<Rightarrow> cbcos_comm_line_s \<Rightarrow> int \<times> cbcos_comm_line_s" where
  "cbcos_options [] col = (0, col)"
| "cbcos_options ((opt, optarg) # rest) col = (case cbcos_option opt optarg col of
     None \<Rightarrow> (AILSA_DISPLAY_USAGE, col)
   | Some col \<Rightarrow> cbcos_options rest col)"

text \<open>The code and what is printed with it.\<close>

definition check_cbcos_line :: "nat \<Rightarrow> cbcos_comm_line_s \<Rightarrow> int \<times> string" where
  "check_cbcos_line argc col =
    (if argc = 1 then (AILSA_DISPLAY_USAGE, [])
     else if ocl_action col = AILSA_VERSION then (AILSA_VERSION, [])
     else if ocl_action col = 0 \<and> argc \<noteq> 1 then (AILSA_NO_ACTION, ''No action provided'' @ nl)
     else if (ocl_action col = CMDB_DEFAULT \<or> ocl_action col = CMDB_ADD) \<and>
         (ocl_version col = None \<or> ocl_os col = None \<or> ocl_arch col = None)
     then (AILSA_DISPLAY_USAGE, ''Some details were not provided'' @ nl)
     else if (ocl_action col = CMDB_RM \<or> ocl_action col = CBC_SERVER) \<and>
         (ocl_version col = None \<or> (ocl_os col = None \<and> ocl_alias col = None))
     then (AILSA_DISPLAY_USAGE, [])
     else if (ocl_action col \<noteq> CMDB_LIST \<and> ocl_action col \<noteq> DOWNLOAD) \<and> ocl_os col = None
     then (AILSA_DISPLAY_USAGE, ''No OS name was provided'' @ nl)
     else (NONE, []))"

definition parse_cbcos_comm_line ::
  "nat \<Rightarrow> (char \<times> string) list \<Rightarrow> cbcos_comm_line_s \<Rightarrow> int \<times> string \<times> cbcos_comm_line_s" where
  "parse_cbcos_comm_line argc options col = (case cbcos_options options col of (retval, col) \<Rightarrow>
     if retval \<noteq> 0 then (retval, [], col)
     else case check_cbcos_line argc col of (retval, said) \<Rightarrow> (retval, said, col))"

subsection \<open>Listing and displaying\<close>

text \<open>The code of the query is dropped.\<close>

definition list_cbc_build_os :: "'db sqlite3_api \<Rightarrow> ailsa_cmdb_s option \<Rightarrow> 'db world \<Rightarrow> 'db cmdb_result" where
  "list_cbc_build_os api cmc w = (if cmc = None then Some (0, [], w)
     else map_option (\<lambda>(_, text, w). (0, text, w))
      (ask (ailsa_basic_query api w cmc BUILD_OS_NAME_TYPE (Some [])) (\<lambda>w list.
       if length list = 0 then Some (0, [], w)
       else saying (''Operating Systems'' @ nl) (says w (text_rows [] list)))))"

record ailsa_cbcos_s =
  co_os :: string
  co_os_version :: string
  co_alias :: string
  co_arch :: string
  co_ver_alias :: string
  co_cuser :: u64
  co_ctime :: string

text \<open>The operating systems of a name, from rows of seven values.\<close>

fun cbcos_rows :: "string \<Rightarrow> ailsa_data list \<Rightarrow> ailsa_cbcos_s list option" where
  "cbcos_rows name [] = Some []"
| "cbcos_rows name (o1 # v # a # r # va # cu # ct # rest) = do {
     os \<leftarrow> text_of o1;
     if \<not> strncasecmp_eq os name MAC_LEN then cbcos_rows name rest
     else do {
       version \<leftarrow> text_of v;
       alias \<leftarrow> text_of a;
       arch \<leftarrow> text_of r;
       valias \<leftarrow> text_of va;
       cuser \<leftarrow> get_number cu;
       ctime \<leftarrow> text_of ct;
       others \<leftarrow> cbcos_rows name rest;
       Some (\<lparr>co_os = strndup os MAC_LEN, co_os_version = strndup version SERVICE_LEN, co_alias = strndup alias SERVICE_LEN,
         co_arch = strndup arch SERVICE_LEN, co_ver_alias = strndup valias SERVICE_LEN, co_cuser = cuser,
         co_ctime = strndup ctime HOST_LEN\<rparr> # others)
     }
   }"
| "cbcos_rows name _ = None"

text \<open>Without a name there is no data: the test of the name in the loop never fails.\<close>

definition cbc_fill_os_details :: "cstr \<Rightarrow> ailsa_data list \<Rightarrow> (int \<times> ailsa_cbcos_s list) option" where
  "cbc_fill_os_details name list = (case name of None \<Rightarrow> Some (AILSA_NO_DATA, []) | Some n \<Rightarrow>
     if length list = 0 \<or> length list mod 7 \<noteq> 0 then Some (AILSA_NO_DATA, [])
     else map_option (\<lambda>os. (0, os)) (cbcos_rows n list))"

definition same_text :: "string \<Rightarrow> cstr \<Rightarrow> nat \<Rightarrow> bool" where
  "same_text s t n = (case t of None \<Rightarrow> False | Some t \<Rightarrow> strncmp_eq s t n)"

definition check_for_build_os :: "ailsa_cbcos_s \<Rightarrow> cstr \<Rightarrow> cstr \<Rightarrow> cstr \<Rightarrow> bool" where
  "check_for_build_os cos version valias arch =
    (if version = None \<and> valias = None \<and> arch = None then True
     else let right_version = (if version \<noteq> None then same_text (co_os_version cos) version MAC_LEN
         else same_text (co_ver_alias cos) valias MAC_LEN) in
       if arch \<noteq> None
       then (if version \<noteq> None \<or> valias \<noteq> None then right_version \<and> same_text (co_arch cos) arch SERVICE_LEN
         else same_text (co_arch cos) arch SERVICE_LEN)
       else right_version)"

definition cbcos_line :: "(u32 \<Rightarrow> string option) \<Rightarrow> ailsa_cbcos_s \<Rightarrow> string" where
  "cbcos_line pw cos = co_os_version cos @ tab @
     (if strncasecmp_eq (co_ver_alias cos) ''none'' BYTE_LEN then ''none'' @ tabs 2
      else print_string_8_16 (co_ver_alias cos)) @ co_arch cos @ tabs 2 @
     print_string_8_16 (cmdb_get_uname pw (co_cuser cos)) @ co_ctime cos @ nl"

definition display_cbc_build_os ::
  "'db sqlite3_api \<Rightarrow> (u32 \<Rightarrow> string option) \<Rightarrow> ailsa_cmdb_s option \<Rightarrow> cbcos_comm_line_s option \<Rightarrow> 'db world \<Rightarrow> 'db cmdb_result" where
  "display_cbc_build_os api pw cmc col w = (case col of None \<Rightarrow> Some (AILSA_NO_DATA, [], w) | Some cl \<Rightarrow>
     if cmc = None then Some (AILSA_NO_DATA, [], w)
     else ask (ailsa_basic_query api w cmc BUILD_OSES (Some [])) (\<lambda>w list. do {
       (retval, os) \<leftarrow> cbc_fill_os_details (ocl_os cl) list;
       if retval \<noteq> 0 then Some (retval, [], w)
       else do {
         name \<leftarrow> ocl_os cl;
         if length os > 0
         then Some (0, ''Operating System '' @ name @ nl @
           ''Version'' @ tab @ ''Version alias'' @ tab @ ''Architecture'' @ tab @ ''Created by'' @ tab @ ''Creation time'' @ nl @
           concat (map (cbcos_line pw)
             (filter (\<lambda>cos. check_for_build_os cos (ocl_version cl) (ocl_ver_alias cl) (ocl_arch cl)) os)), w)
         else Some (0, ''OS '' @ name @ '' not found'' @ nl, w)
       }
     }))"

subsection \<open>Servers of an operating system\<close>

definition get_cbcos_id_list ::
  "'db sqlite3_api \<Rightarrow> 'db world \<Rightarrow> ailsa_cmdb_s option \<Rightarrow> cbcos_comm_line_s option \<Rightarrow> db_list \<Rightarrow> 'db query_result" where
  "get_cbcos_id_list api w cmc cl list = (case cl of None \<Rightarrow> Some (AILSA_NO_DATA, w, list) | Some cl \<Rightarrow>
     let os = (if ocl_os cl \<noteq> None then ocl_os cl else ocl_alias cl);
         version = (if ocl_version cl \<noteq> None then ocl_version cl else ocl_ver_alias cl) in
     if os = None then Some (AILSA_NO_OS, w, list)
     else if version = None then Some (AILSA_NO_OS_VERSION, w, list)
     else do {
       (retval, w, list) \<leftarrow> cmdb_add_os_id_to_list api w (Some [os, version, ocl_arch cl]) cmc list;
       if retval \<noteq> 0 then Some (retval, w, list)
       else do { rows \<leftarrow> list; Some (if length rows = 0 then AILSA_OS_NOT_FOUND else 0, w, list) }
     })"

fun server_names :: "ailsa_data list \<Rightarrow> string option" where
  "server_names [] = Some []"
| "server_names (d # ds) = do { t \<leftarrow> text_of d; others \<leftarrow> server_names ds; Some ('' '' @ t @ others) }"

definition display_server_name_for_build_os_id :: "ailsa_data list \<Rightarrow> string option" where
  "display_server_name_for_build_os_id list = map_option (\<lambda>names. names @ nl) (server_names list)"

text \<open>The list of ids the details are looked up with grows with every operating system.\<close>

fun os_servers ::
  "'db sqlite3_api \<Rightarrow> ailsa_cmdb_s option \<Rightarrow> db_list \<Rightarrow> 'db world \<Rightarrow> ailsa_data list \<Rightarrow> 'db cmdb_result" where
  "os_servers api cmc os_id w [] = Some (0, [], w)"
| "os_servers api cmc os_id w (e # es) = do {
     id \<leftarrow> get_number e;
     ask_list w (cmdb_add_number_to_list id os_id) (\<lambda>os_id.
     ask (ailsa_argument_query api w cmc BUILD_OS_DETAILS_ON_OS_ID os_id (Some [])) (\<lambda>w details.
     if length details = 0 \<or> length details mod 3 \<noteq> 0 then Some (0, [], w)
     else do {
       name \<leftarrow> text_of (details ! 0);
       version \<leftarrow> text_of (details ! 1);
       arch \<leftarrow> text_of (details ! 2);
       ask (check_builds_for_os_id api w cmc id (Some [])) (\<lambda>w server. do {
         let os = ''os '' @ name @ '', version '' @ version @ '', arch '' @ arch @ nl;
         said \<leftarrow> (if length server = 0 then Some (''No builds for '' @ os)
           else map_option (\<lambda>t. ''Servers built with '' @ os @ t) (display_server_name_for_build_os_id server));
         saying said (os_servers api cmc os_id w es)
       })
     }))
   }"

definition display_servers_with_build_os ::
  "'db sqlite3_api \<Rightarrow> ailsa_cmdb_s option \<Rightarrow> cbcos_comm_line_s option \<Rightarrow> 'db world \<Rightarrow> 'db cmdb_result" where
  "display_servers_with_build_os api cmc col w = (if cmc = None \<or> col = None then Some (AILSA_NO_DATA, [], w)
     else ask (get_cbcos_id_list api w cmc col (Some [])) (\<lambda>w os. os_servers api cmc (Some []) w os))"

subsection \<open>Adding\<close>

text \<open>The build type is looked up with the alias of the line, also where the alias in the list is one of the
  database.\<close>

definition cmdb_fill_os_details ::
  "'db sqlite3_api \<Rightarrow> u32 \<Rightarrow> 'db world \<Rightarrow> ailsa_cmdb_s option \<Rightarrow> cbcos_comm_line_s option \<Rightarrow> db_list \<Rightarrow> 'db query_result" where
  "cmdb_fill_os_details api uid w cmc col os = (case col of None \<Rightarrow> Some (AILSA_NO_DATA, w, os) | Some cl \<Rightarrow>
     if cmc = None \<or> os = None then Some (AILSA_NO_DATA, w, os)
     else (case add_args [cmdb_add_string_to_list (ocl_os cl), cmdb_add_string_to_list (ocl_version cl)] os of (retval, os) \<Rightarrow>
       if retval \<noteq> 0 then Some (retval, w, os)
       else do {
         (retval, w, os) \<leftarrow> (if ocl_alias cl \<noteq> None then listed_in w (cmdb_add_string_to_list (ocl_alias cl) os)
           else cmdb_add_os_alias_to_list api w (ocl_os cl) cmc os);
         if retval \<noteq> 0 then Some (retval, w, os)
         else (case add_args [cmdb_add_string_to_list (ocl_ver_alias cl), cmdb_add_string_to_list (ocl_arch cl)] os of (retval, os) \<Rightarrow>
           if retval \<noteq> 0 then Some (retval, w, os)
           else do {
             before \<leftarrow> os;
             (retval, w, os) \<leftarrow> cmdb_add_build_type_id_to_list api w (ocl_alias cl) cmc os;
             if retval \<noteq> 0 then Some (AILSA_BUILD_TYPE_NO_FOUND, w, os)
             else do {
               l \<leftarrow> os;
               if length l \<noteq> length before + 1 then Some (AILSA_BUILD_TYPE_NO_FOUND, w, os)
               else listed_in w (cmdb_populate_cuser_muser uid os)
             }
           })
       }))"

text \<open>The id of the new system and the user, twice, after each pair of values.\<close>

fun pack_with_os :: "u32 \<Rightarrow> u64 \<Rightarrow> ailsa_data list \<Rightarrow> ailsa_data list" where
  "pack_with_os uid os_id (a # b # rest) =
     a # b # D_LINT os_id # D_LINT (ucast uid) # D_LINT (ucast uid) # pack_with_os uid os_id rest"
| "pack_with_os uid os_id rest = rest"

definition cbcos_insert_os_id_user_into_list :: "u32 \<Rightarrow> u64 \<Rightarrow> ailsa_data list \<Rightarrow> int \<times> ailsa_data list" where
  "cbcos_insert_os_id_user_into_list uid os_id pack =
    (if os_id = 0 then (AILSA_NO_DATA, pack) else (0, pack_with_os uid os_id pack))"

text \<open>The packages of the systems of the same build type and architecture are inserted for the new one, the first of
  the systems found.\<close>

definition cbcos_create_os_profile ::
  "'db sqlite3_api \<Rightarrow> u32 \<Rightarrow> 'db world \<Rightarrow> ailsa_cmdb_s option \<Rightarrow> db_list \<Rightarrow> (int \<times> 'db world) option" where
  "cbcos_create_os_profile api uid w cmc os = (case os of None \<Rightarrow> Some (AILSA_NO_DATA, w) | Some l \<Rightarrow>
     if cmc = None then Some (AILSA_NO_DATA, w)
     else if length l \<noteq> 8 then Some (AILSA_WRONG_LIST_LENGHT, w)
     else do {
       bt_id \<leftarrow> get_number (l ! 5);
       then_list w (cmdb_add_number_to_list bt_id (Some [])) (\<lambda>list. do {
         arch \<leftarrow> get_text (l ! 4);
         then_list w (cmdb_add_string_to_list arch list) (\<lambda>list.
         then_rows (ailsa_argument_query api w cmc OS_FROM_BUILD_TYPE_AND_ARCH list (Some [])) (\<lambda>w results.
         if length results < 2 then Some (0, w)
         else do {
           new_os_id \<leftarrow> get_number (hd results);
           then_rows (ailsa_argument_query api w cmc PACKAGE_DETAIL_ON_OS_ID (Some (tl results)) (Some [])) (\<lambda>w pack.
           if length pack = 0 then Some (0, w)
           else (case cbcos_insert_os_id_user_into_list uid new_os_id pack of (retval, pack) \<Rightarrow>
             if retval \<noteq> 0 then Some (retval, w)
             else ailsa_multiple_query api w cmc (insert_queries ! INSERT_BUILD_PACKAGE) (Some pack)))
         }))
       })
     })"

definition add_cbc_build_os ::
  "'db sqlite3_api \<Rightarrow> services \<Rightarrow> network \<Rightarrow> ailsa_cmdb_s option \<Rightarrow> cbcos_comm_line_s \<Rightarrow> 'db site \<Rightarrow> 'db site_result" where
  "add_cbc_build_os api os net cmc line st = do {
     let cl = line\<lparr>ocl_ver_alias := or_none (ocl_ver_alias line)\<rparr>;
     (retval, st) \<leftarrow> on_world st (\<lambda>w. cmdb_check_for_os api w cmc (ocl_os cl) (ocl_arch cl) (ocl_version cl));
     if retval > 0 then Some (0, st)
     else if retval < 0 then Some (retval, st)
     else on_query st (\<lambda>w. cmdb_fill_os_details api (os_uid os) w cmc (Some cl) (Some [])) (\<lambda>st row.
       chk0 (on_world st (\<lambda>w. ailsa_insert_query api w cmc INSERT_BUILD_OS (Some row))) (\<lambda>st.
       chk0 (on_world st (\<lambda>w. cbcos_create_os_profile api (os_uid os) w cmc (Some row))) (\<lambda>st. do {
         version \<leftarrow> ocl_version cl;
         arch \<leftarrow> ocl_arch cl;
         valias \<leftarrow> ocl_ver_alias cl;
         cbc_get_boot_files api os net cmc (ocl_alias cl) version arch valias st
       })))
   }"

subsection \<open>Removing\<close>

text \<open>The builds of the first operating system are looked at; every operating system found is removed.\<close>

definition remove_cbc_build_os ::
  "'db sqlite3_api \<Rightarrow> ailsa_cmdb_s option \<Rightarrow> cbcos_comm_line_s option \<Rightarrow> 'db world \<Rightarrow> 'db cmdb_result" where
  "remove_cbc_build_os api cmc col w = (case col of None \<Rightarrow> Some (AILSA_NO_DATA, [], w) | Some cl \<Rightarrow>
     if cmc = None then Some (AILSA_NO_DATA, [], w)
     else ask (get_cbcos_id_list api w cmc col (Some [])) (\<lambda>w list. do {
       id \<leftarrow> get_number (hd list);
       ask (check_builds_for_os_id api w cmc id (Some [])) (\<lambda>w build.
         if length build > 0
         then do {
           names \<leftarrow> display_server_name_for_build_os_id build;
           saying (''The following servers are using the build os:'' @ nl @ tab @ names)
             (if ocl_force cl = 0 then Some (AILSA_BUILD_OS_IN_USE, [], w)
              else coded (ailsa_multiple_delete api w cmc (delete_queries ! DELETE_BUILD_OS) (Some list)))
         }
         else coded (ailsa_multiple_delete api w cmc (delete_queries ! DELETE_BUILD_OS) (Some list)))
     }))"

subsection \<open>Downloading\<close>

text \<open>Bits 1, 2 and 4 of \<open>test\<close>: the line has no architecture, no version, no name.  Bits 8, 16 and 32: a system
  has the right ones.\<close>

definition cbcos_check_for_null_in_comm_line :: "cbcos_comm_line_s \<Rightarrow> u32" where
  "cbcos_check_for_null_in_comm_line col =
     or (or (bit_if (ocl_arch col = None) 1) (bit_if (ocl_version col = None \<and> ocl_ver_alias col = None) 2))
       (bit_if (ocl_os col = None \<and> ocl_alias col = None) 4)"

definition like_text :: "cstr \<Rightarrow> string \<Rightarrow> nat \<Rightarrow> bool" where
  "like_text t s n = (case t of None \<Rightarrow> False | Some t \<Rightarrow> strncasecmp_eq t s n)"

text \<open>Comparing the architecture of a line that has none is a crash, unless bit 1 says so.\<close>

definition cbcos_check_for_os :: "cbcos_comm_line_s \<Rightarrow> ailsa_cbcos_s \<Rightarrow> u32 \<Rightarrow> u32 option" where
  "cbcos_check_for_os col os test = do {
     let test = or test (bit_if (and test 4 = 4 \<or> (if ocl_os col \<noteq> None then like_text (ocl_os col) (co_os os) MAC_LEN
       else like_text (ocl_alias col) (co_alias os) MAC_LEN)) 32);
     right_arch \<leftarrow> (if and test 1 = 1 then Some True
       else map_option (\<lambda>arch. strncasecmp_eq arch (co_arch os) SERVICE_LEN) (ocl_arch col));
     let test = or test (bit_if right_arch 8);
     Some (or test (bit_if (and test 2 = 2 \<or> (if ocl_version col \<noteq> None then like_text (ocl_version col) (co_os_version os) MAC_LEN
       else like_text (ocl_ver_alias col) (co_ver_alias os) MAC_LEN)) 16))
   }"

text \<open>The code is that of the last download.\<close>

fun grab_boot_files ::
  "'db sqlite3_api \<Rightarrow> services \<Rightarrow> network \<Rightarrow> ailsa_cmdb_s option \<Rightarrow> cbcos_comm_line_s \<Rightarrow> u32 \<Rightarrow> int \<Rightarrow> 'db site \<Rightarrow>
   ailsa_cbcos_s list \<Rightarrow> 'db command_result" where
  "grab_boot_files api os net cmc col test retval st [] = Some (retval, [], st)"
| "grab_boot_files api os net cmc col test retval st (cos # rest) = do {
     wanted \<leftarrow> (if and test 7 = 7 then Some True else map_option (\<lambda>t. and t 56 = 56) (cbcos_check_for_os col cos test));
     if wanted
     then do {
       (retval, st) \<leftarrow> cbc_get_boot_files api os net cmc (Some (co_alias cos)) (co_os_version cos) (co_arch cos) (co_ver_alias cos) st;
       (retval, said, st) \<leftarrow> grab_boot_files api os net cmc col test retval st rest;
       Some (retval, ''Will download OS '' @ co_os cos @ '', version '' @ co_os_version cos @ '', arch '' @ co_arch cos @ nl @ said, st)
     }
     else grab_boot_files api os net cmc col test retval st rest
   }"

definition cbcos_grab_boot_files ::
  "'db sqlite3_api \<Rightarrow> services \<Rightarrow> network \<Rightarrow> ailsa_cmdb_s option \<Rightarrow> cbcos_comm_line_s \<Rightarrow> 'db site \<Rightarrow> 'db command_result" where
  "cbcos_grab_boot_files api os net cmc col st = do {
     (retval, w, list) \<leftarrow> ailsa_basic_query api (si_world st) cmc BUILD_OSES (Some []);
     rows \<leftarrow> list;
     let st = st\<lparr>si_world := w\<rparr>;
     if retval \<noteq> 0 then Some (retval, [], st)
     else do {
       (retval, oses) \<leftarrow> cbc_fill_os_details (if ocl_os col \<noteq> None then ocl_os col else ocl_alias col) rows;
       if retval \<noteq> 0 then Some (retval, [], st)
       else grab_boot_files api os net cmc col (cbcos_check_for_null_in_comm_line col) 0 st oses
     }
   }"

subsection \<open>The default operating system\<close>

definition cbcos_set_default_os ::
  "'db sqlite3_api \<Rightarrow> u32 \<Rightarrow> ailsa_cmdb_s option \<Rightarrow> cbcos_comm_line_s option \<Rightarrow> 'db world \<Rightarrow> (int \<times> 'db world) option" where
  "cbcos_set_default_os api uid cc ccl w = (case ccl of None \<Rightarrow> Some (AILSA_NO_DATA, w) | Some cl \<Rightarrow>
     if cc = None \<or> (ocl_os cl = None \<and> ocl_alias cl = None) \<or> (ocl_version cl = None \<and> ocl_ver_alias cl = None) \<or>
       ocl_arch cl = None then Some (AILSA_NO_DATA, w)
     else let args = [if ocl_os cl \<noteq> None then ocl_os cl else ocl_alias cl,
         if ocl_version cl \<noteq> None then ocl_version cl else ocl_ver_alias cl, ocl_arch cl] in
       then_rows (cmdb_add_os_id_to_list api w (Some args) cc (Some [])) (\<lambda>w os.
       if length os = 0 then Some (0, w)
       else set_default_row api uid cc DEFAULT_OS INSERT_DEFAULT_OS UPDATE_DEFAULT_OS w os))"

subsection \<open>The command\<close>

definition cbcos_dispatch ::
  "'db sqlite3_api \<Rightarrow> services \<Rightarrow> network \<Rightarrow> (u32 \<Rightarrow> string option) \<Rightarrow> ailsa_cmdb_s option \<Rightarrow> cbcos_comm_line_s \<Rightarrow>
   'db site \<Rightarrow> 'db command_result" where
  "cbcos_dispatch api os net pw cmc cl st =
    (let w = si_world st in
     if ocl_action cl = CMDB_LIST then on_connection st (list_cbc_build_os api cmc w)
     else if ocl_action cl = CMDB_DISPLAY then on_connection st (display_cbc_build_os api pw cmc (Some cl) w)
     else if ocl_action cl = CBC_SERVER then on_connection st (display_servers_with_build_os api cmc (Some cl) w)
     else if ocl_action cl = CMDB_ADD then silent (add_cbc_build_os api os net cmc cl st)
     else if ocl_action cl = CMDB_RM then on_connection st (remove_cbc_build_os api cmc (Some cl) w)
     else if ocl_action cl = DOWNLOAD then cbcos_grab_boot_files api os net cmc cl st
     else if ocl_action cl = CMDB_DEFAULT then connected st (cbcos_set_default_os api (os_uid os) cmc (Some cl) w)
     else Some (0, ''Unknown action type'' @ nl, st))"

definition cbcos_main ::
  "string \<Rightarrow> string \<Rightarrow> 'db sqlite3_api \<Rightarrow> services \<Rightarrow> network \<Rightarrow> (u32 \<Rightarrow> string option) \<Rightarrow> ailsa_cmdb_s option \<Rightarrow>
   nat \<Rightarrow> (char \<times> string) list \<Rightarrow> 'db site \<Rightarrow> 'db command_result" where
  "cbcos_main version prog api os net pw cmc argc options st =
    (case parse_cbcos_comm_line argc options cbcos_line_zero of (retval, said, cl) \<Rightarrow>
       if retval \<noteq> 0
       then (case display_command_line_error version retval prog of (out, err, code) \<Rightarrow> Some (code, said @ out, st))
       else cbcos_dispatch api os net pw cmc cl st)"

end
