(* ===== verification/Cbc_Part.thy ===== *)
theory Cbc_Part
  imports Tool_Steps
begin

text \<open>
  src/cbcpart.c: the command that maintains partition schemes, their partitions and the options of a partition.
\<close>

abbreviation PARTITION :: int where "PARTITION \<equiv> 1"
abbreviation SCHEME :: int where "SCHEME \<equiv> 2"
abbreviation OPTION :: int where "OPTION \<equiv> 3"

record cbcpart_comm_line_s =
  pcl_min :: u64
  pcl_max :: u64
  pcl_pri :: u64
  pcl_scheme_id :: u64
  pcl_fs :: cstr
  pcl_log_vol :: cstr
  pcl_option :: cstr
  pcl_partition :: cstr
  pcl_scheme :: cstr
  pcl_action :: int
  pcl_lvm :: i16
  pcl_type :: int

definition cbcpart_line_zero :: cbcpart_comm_line_s where
  "cbcpart_line_zero = \<lparr>pcl_min = 0, pcl_max = 0, pcl_pri = 0, pcl_scheme_id = 0, pcl_fs = None, pcl_log_vol = None,
     pcl_option = None, pcl_partition = None, pcl_scheme = None, pcl_action = 0, pcl_lvm = 0, pcl_type = 0\<rparr>"

subsection \<open>Command line\<close>

text \<open>A number is checked, and the line refused with the code when it does not fit.\<close>

definition cbcpart_number ::
  "string \<Rightarrow> int \<Rightarrow> (u64 \<Rightarrow> cbcpart_comm_line_s) \<Rightarrow> (int + cbcpart_comm_line_s) option" where
  "cbcpart_number optarg code keep =
     map_option (\<lambda>bad. if bad then Inl code else Inr (keep (strtoul10 optarg))) (misfit (Some optarg) ID_REGEX)"

definition cbcpart_option :: "char \<Rightarrow> string \<Rightarrow> cbcpart_comm_line_s \<Rightarrow> (int + cbcpart_comm_line_s) option" where
  "cbcpart_option opt optarg cpl =
    (if opt = CHR ''a'' then Some (Inr (cpl\<lparr>pcl_action := CMDB_ADD\<rparr>))
     else if opt = CHR ''d'' then Some (Inr (cpl\<lparr>pcl_action := CMDB_DISPLAY\<rparr>))
     else if opt = CHR ''l'' then Some (Inr (cpl\<lparr>pcl_action := CMDB_LIST\<rparr>))
     else if opt = CHR ''m'' then Some (Inr (cpl\<lparr>pcl_action := CMDB_MOD\<rparr>))
     else if opt = CHR ''q'' then Some (Inr (cpl\<lparr>pcl_action := CBC_SERVER\<rparr>))
     else if opt = CHR ''r'' then Some (Inr (cpl\<lparr>pcl_action := CMDB_RM\<rparr>))
     else if opt = CHR ''z'' then Some (Inr (cpl\<lparr>pcl_action := CMDB_DEFAULT\<rparr>))
     else if opt = CHR ''j'' then Some (Inr (cpl\<lparr>pcl_lvm := 1\<rparr>))
     else if opt = CHR ''v'' then Some (Inr (cpl\<lparr>pcl_action := AILSA_VERSION\<rparr>))
     else if opt = CHR ''p'' then Some (Inr (cpl\<lparr>pcl_type := PARTITION\<rparr>))
     else if opt = CHR ''s'' then Some (Inr (cpl\<lparr>pcl_type := SCHEME\<rparr>))
     else if opt = CHR ''o'' then Some (Inr (cpl\<lparr>pcl_type := OPTION\<rparr>))
     else if opt = CHR ''f'' then Some (Inr (cpl\<lparr>pcl_fs := Some (strndup optarg SERVICE_LEN)\<rparr>))
     else if opt = CHR ''g'' then Some (Inr (cpl\<lparr>pcl_lvm := 1, pcl_log_vol := Some (strndup optarg MAC_LEN)\<rparr>))
     else if opt = CHR ''n'' then Some (Inr (cpl\<lparr>pcl_scheme := Some (strndup optarg CONFIG_LEN)\<rparr>))
     else if opt = CHR ''b'' then Some (Inr (cpl\<lparr>pcl_option := Some (strndup optarg CONFIG_LEN)\<rparr>))
     else if opt = CHR ''t'' then Some (Inr (cpl\<lparr>pcl_partition := Some (strndup optarg CONFIG_LEN)\<rparr>))
     else if opt = CHR ''i'' then cbcpart_number optarg MIN_INVALID (\<lambda>n. cpl\<lparr>pcl_min := n\<rparr>)
     else if opt = CHR ''x'' then cbcpart_number optarg MAX_INVALID (\<lambda>n. cpl\<lparr>pcl_max := n\<rparr>)
     else if opt = CHR ''y'' then cbcpart_number optarg PRI_INVALID (\<lambda>n. cpl\<lparr>pcl_pri := n\<rparr>)
     else Some (Inl AILSA_DISPLAY_USAGE))"

fun cbcpart_options :: "(char \<times> string) list \<Rightarrow> cbcpart_comm_line_s \<Rightarrow> (int \<times> cbcpart_comm_line_s) option" where
  "cbcpart_options [] cpl = Some (0, cpl)"
| "cbcpart_options ((opt, optarg) # rest) cpl = do {
     next \<leftarrow> cbcpart_option opt optarg cpl;
     (case next of Inl code \<Rightarrow> Some (code, cpl) | Inr cpl \<Rightarrow> cbcpart_options rest cpl)
   }"

text \<open>Only the first of the texts that are there is checked.\<close>

definition validate_cbcpart_comm_line :: "cbcpart_comm_line_s \<Rightarrow> int option" where
  "validate_cbcpart_comm_line cpl =
    (if pcl_fs cpl \<noteq> None then unless_misfit (pcl_fs cpl) FS_REGEX FILESYSTEM_INVALID (Some 0)
     else if pcl_log_vol cpl \<noteq> None then unless_misfit (pcl_log_vol cpl) LOGVOL_REGEX LOG_VOL_INVALID (Some 0)
     else if pcl_partition cpl \<noteq> None then unless_misfit (pcl_partition cpl) PATH_REGEX FS_PATH_INVALID (Some 0)
     else if pcl_option cpl \<noteq> None then unless_misfit (pcl_option cpl) FS_REGEX PART_OPTION_INVALID (Some 0)
     else if pcl_scheme cpl \<noteq> None then unless_misfit (pcl_scheme cpl) NAME_REGEX PART_SCHEME_INVALID (Some 0)
     else Some 0)"

text \<open>What a new partition gets when its line does not say.\<close>

definition partition_defaults :: "cbcpart_comm_line_s \<Rightarrow> cbcpart_comm_line_s" where
  "partition_defaults cpl =
    (let cpl = (if pcl_min cpl = 0 \<and> pcl_max cpl > 0 then cpl\<lparr>pcl_min := pcl_max cpl\<rparr> else cpl);
         cpl = (if pcl_max cpl = 0 \<and> pcl_min cpl > 0 then cpl\<lparr>pcl_max := pcl_min cpl\<rparr> else cpl) in
     if pcl_pri cpl = 0 then cpl\<lparr>pcl_pri := 100\<rparr> else cpl)"

definition validate_cbcpart_user_input :: "nat \<Rightarrow> cbcpart_comm_line_s \<Rightarrow> int \<times> cbcpart_comm_line_s" where
  "validate_cbcpart_user_input argc cpl =
    (if pcl_action cpl = AILSA_VERSION then (AILSA_VERSION, cpl)
     else if pcl_action cpl = NONE \<and> argc \<noteq> 1 then (AILSA_NO_ACTION, cpl)
     else if pcl_action cpl \<noteq> CMDB_LIST \<and> pcl_scheme cpl = None then (AILSA_NO_SCHEME, cpl)
     else if pcl_action cpl \<in> {CMDB_ADD, CMDB_RM, CMDB_MOD} \<and> pcl_type cpl = NONE then (AILSA_NO_TYPE, cpl)
     else if pcl_action cpl \<in> {CMDB_ADD, CMDB_RM, CMDB_MOD} \<and> pcl_partition cpl = None \<and> pcl_type cpl = PARTITION
     then (AILSA_NO_PARTITION, cpl)
     else if pcl_action cpl = CMDB_ADD \<and> pcl_type cpl = PARTITION
     then let cpl = partition_defaults cpl in
       (if pcl_fs cpl = None then AILSA_NO_FILESYSTEM
        else if 0 <s pcl_lvm cpl \<and> pcl_log_vol cpl = None then AILSA_NO_LOGVOL else 0, cpl)
     else if pcl_action cpl = CMDB_ADD \<and> pcl_type cpl = OPTION \<and> pcl_option cpl = None then (AILSA_NO_OPTION, cpl)
     else (0, cpl))"

definition parse_cbcpart_comm_line ::
  "nat \<Rightarrow> (char \<times> string) list \<Rightarrow> cbcpart_comm_line_s \<Rightarrow> (int \<times> cbcpart_comm_line_s) option" where
  "parse_cbcpart_comm_line argc options cpl = do {
     (retval, cpl) \<leftarrow> cbcpart_options options cpl;
     if retval \<noteq> 0 then Some (retval, cpl)
     else do {
       retval \<leftarrow> validate_cbcpart_comm_line cpl;
       Some (if retval \<noteq> 0 then (retval, cpl)
         else if argc = 1 then (AILSA_DISPLAY_USAGE, cpl)
         else validate_cbcpart_user_input argc cpl)
     }
   }"

subsection \<open>Listing and displaying\<close>

text \<open>A name without its flag ends the list.\<close>

fun seed_scheme_lines :: "ailsa_data list \<Rightarrow> string option" where
  "seed_scheme_lines (n # s # rest) = do {
     small \<leftarrow> get_small s;
     name \<leftarrow> text_of n;
     others \<leftarrow> seed_scheme_lines rest;
     Some ((if 0 <s small then ''  *'' else []) @ tab @ name @ nl @ others)
   }"
| "seed_scheme_lines _ = Some []"

definition list_seed_schemes :: "'db sqlite3_api \<Rightarrow> ailsa_cmdb_s option \<Rightarrow> 'db world \<Rightarrow> 'db cmdb_result" where
  "list_seed_schemes api cbc w = (if cbc = None then Some (AILSA_NO_DATA, [], w)
     else ask (ailsa_basic_query api w cbc PARTITION_SCHEME_NAMES (Some [])) (\<lambda>w l.
       if length l = 0 then Some (0, [], w)
       else saying (''Partition Schemes'' @ nl @ '' LVM'' @ tab @ ''Name'' @ nl) (says w (seed_scheme_lines l))))"

text \<open>The options with commas between them once something was printed, and the number of their characters.\<close>

fun option_texts :: "nat \<Rightarrow> ailsa_data list \<Rightarrow> (string \<times> nat) option" where
  "option_texts len [] = Some ([], len)"
| "option_texts len (d # ds) = do {
     t \<leftarrow> text_of d;
     (others, n) \<leftarrow> option_texts (len + length t) ds;
     Some ((if len > 0 then '','' else []) @ t @ others, n)
   }"

definition options_column :: "ailsa_data list \<Rightarrow> string option" where
  "options_column opts = (if length opts = 0 then Some (''none'' @ tabs 3)
     else map_option (\<lambda>(t, len). t @ (if len \<ge> 16 then tab else if len \<ge> 8 then tabs 2 else tabs 3)) (option_texts 0 opts))"

definition mount_column :: "string \<Rightarrow> string" where
  "mount_column mount = mount @ tab @
     (if length mount < 7 then tab else if length mount > 15 then nl @ tabs 2 else [])"

fun scheme_partitions ::
  "'db sqlite3_api \<Rightarrow> ailsa_cmdb_s option \<Rightarrow> cstr \<Rightarrow> i16 \<Rightarrow> 'db world \<Rightarrow> ailsa_partition_s list \<Rightarrow> 'db cmdb_result" where
  "scheme_partitions api cbc scheme lvm w [] = Some (0, [], w)"
| "scheme_partitions api cbc scheme lvm w (r # rs) =
     ask_list w (add_args [cmdb_add_string_to_list scheme, cmdb_add_string_to_list (Some (p_mount r))] (Some [])) (\<lambda>a.
     ask (ailsa_argument_query api w cbc PART_OPTIONS_ON_SCHEME_NAME_AND_PARTITION a (Some [])) (\<lambda>w opts. do {
       options \<leftarrow> options_column opts;
       saying (mount_column (p_mount r) @ p_fs r @ tab @ lu (p_min r) @ tab @ lu (p_max r) @ tab @ options @
           (if 0 <s lvm then p_logvol r else []) @ nl)
         (scheme_partitions api cbc scheme lvm w rs)
     }))"

definition display_full_seed_scheme ::
  "'db sqlite3_api \<Rightarrow> (u32 \<Rightarrow> string option) \<Rightarrow> ailsa_cmdb_s option \<Rightarrow> cbcpart_comm_line_s option \<Rightarrow> 'db world \<Rightarrow> 'db cmdb_result" where
  "display_full_seed_scheme api pw cbc cpl w = (case cpl of None \<Rightarrow> Some (AILSA_NO_DATA, [], w) | Some cl \<Rightarrow>
     if cbc = None \<or> pcl_scheme cl = None then Some (AILSA_NO_DATA, [], w)
     else ask_list w (cmdb_add_string_to_list (pcl_scheme cl) (Some [])) (\<lambda>a.
       ask (ailsa_argument_query api w cbc SEED_SCHEME_ON_NAME a (Some [])) (\<lambda>w s.
       ask (ailsa_argument_query api w cbc PARTITIONS_ON_SCHEME_NAME a (Some [])) (\<lambda>w p.
       if length s \<noteq> 4 \<or> length p mod 6 \<noteq> 0 then Some (AILSA_NO_DATA, [], w)
       else do {
         (retval, part) \<leftarrow> cbc_fill_partition_details (Some p) (Some []);
         parts \<leftarrow> part;
         if retval \<noteq> 0 then Some (retval, [], w)
         else if length parts = 0 then Some (0, [], w)
         else do {
           name \<leftarrow> pcl_scheme cl;
           lvm \<leftarrow> get_small (s ! 1);
           cuser \<leftarrow> get_number (s ! 2);
           ctime \<leftarrow> text_of (s ! 3);
           saying (''Partitioning scheme: '' @ name @ '', '' @ (if 0 <s lvm then ''with LVM,'' else ''no LVM,'') @
               ''  Created by: '' @ cmdb_get_uname pw cuser @ '' @ '' @ ctime @ nl @ nl @
               ''Mount'' @ tabs 2 @ ''FS'' @ tab @ ''Min'' @ tab @ ''Max'' @ tab @ ''Options'' @ tabs 2 @
               (if 0 <s lvm then tab @ ''Volume'' @ nl else nl))
             (scheme_partitions api cbc (pcl_scheme cl) lvm w parts)
         }
       }))))"

definition display_servers_with_scheme ::
  "'db sqlite3_api \<Rightarrow> ailsa_cmdb_s option \<Rightarrow> cbcpart_comm_line_s option \<Rightarrow> 'db world \<Rightarrow> 'db cmdb_result" where
  "display_servers_with_scheme api cbc cpl w = (case cpl of None \<Rightarrow> Some (AILSA_NO_DATA, [], w) | Some cl \<Rightarrow>
     if cbc = None then Some (AILSA_NO_DATA, [], w)
     else ask_list w (cmdb_add_string_to_list (pcl_scheme cl) (Some [])) (\<lambda>scheme.
       ask (ailsa_argument_query api w cbc SERVERS_IN_SCHEME scheme (Some [])) (\<lambda>w server.
       if length server = 0 then Some (0, [], w)
       else do {
         name \<leftarrow> pcl_scheme cl;
         saying (''Servers build with partition scheme '' @ name @ nl) (says w (text_rows '' '' server))
       })))"

subsection \<open>Adding\<close>

text \<open>A scheme that is not there has no row to read its flag from: that is a crash.  A logical volume where the scheme
  has none, or none where it needs one, ends with 0.\<close>

definition add_partition_to_scheme ::
  "'db sqlite3_api \<Rightarrow> u32 \<Rightarrow> ailsa_cmdb_s option \<Rightarrow> cbcpart_comm_line_s option \<Rightarrow> 'db world \<Rightarrow> (int \<times> 'db world) option" where
  "add_partition_to_scheme api uid cbc cpl w = (case cpl of None \<Rightarrow> Some (AILSA_NO_DATA, w) | Some cl \<Rightarrow>
     if cbc = None then Some (AILSA_NO_DATA, w)
     else then_list w (cmdb_add_string_to_list (pcl_scheme cl) (Some [])) (\<lambda>a.
       then_rows (ailsa_argument_query api w cbc SCHEME_LVM_INFO a (Some [])) (\<lambda>w l. do {
         lvm \<leftarrow> (case l of [] \<Rightarrow> None | d # _ \<Rightarrow> get_small d);
         if 0 <s lvm \<and> pcl_log_vol cl = None then Some (0, w)
         else if lvm = 0 \<and> pcl_log_vol cl \<noteq> None then Some (0, w)
         else then_rows (cmdb_check_add_scheme_id_to_list api w (pcl_scheme cl) cbc (Some [])) (\<lambda>w i.
           then_list w (cmdb_add_string_to_list (pcl_partition cl) a) (\<lambda>a.
           then_rows (ailsa_argument_query api w cbc IDENTIFY_PARTITION a (Some l)) (\<lambda>w l'.
           if length l' > length l then Some (0, w)
           else then_list w (add_args
               [cmdb_add_number_to_list (pcl_min cl),
                cmdb_add_number_to_list (pcl_max cl),
                cmdb_add_number_to_list (pcl_pri cl),
                cmdb_add_string_to_list (pcl_partition cl),
                cmdb_add_string_to_list (pcl_fs cl),
                cmdb_add_string_to_list (or_none (pcl_log_vol cl)),
                cmdb_populate_cuser_muser uid] (Some i)) (\<lambda>i.
             chk0 (ailsa_insert_query api w cbc INSERT_PARTITION i) (\<lambda>w.
             set_db_row_updated api uid w cbc SET_PART_SCHEME_UPDATED (pcl_scheme cl) 0)))))
       })))"

definition add_new_scheme ::
  "'db sqlite3_api \<Rightarrow> u32 \<Rightarrow> ailsa_cmdb_s option \<Rightarrow> cbcpart_comm_line_s option \<Rightarrow> 'db world \<Rightarrow> (int \<times> 'db world) option" where
  "add_new_scheme api uid cbc cpl w = (case cpl of None \<Rightarrow> Some (AILSA_NO_DATA, w) | Some cl \<Rightarrow>
     if cbc = None then Some (AILSA_NO_DATA, w)
     else then_list w (cmdb_add_string_to_list (pcl_scheme cl) (Some [])) (\<lambda>a.
       then_rows (ailsa_argument_query api w cbc SEED_SCHEME_ON_NAME a (Some [])) (\<lambda>w r.
       if length r > 0 then Some (0, w)
       else then_list w (add_args [cmdb_add_short_to_list (pcl_lvm cl), cmdb_populate_cuser_muser uid] a) (\<lambda>a.
         ailsa_insert_query api w cbc INSERT_SEED_SCHEME a))))"

text \<open>The ids of a scheme and a partition; a list of another length ends the function with 0.\<close>

definition with_partition ::
  "'db sqlite3_api \<Rightarrow> ailsa_cmdb_s option \<Rightarrow> cbcpart_comm_line_s \<Rightarrow> 'db world \<Rightarrow>
   ('db world \<Rightarrow> ailsa_data list \<Rightarrow> (int \<times> 'db world) option) \<Rightarrow> (int \<times> 'db world) option" where
  "with_partition api cbc cl w rest =
     then_rows (cmdb_add_scheme_id_to_list api w (pcl_scheme cl) cbc (Some [])) (\<lambda>w list.
     if length list \<noteq> 1 then Some (0, w)
     else then_rows (cmdb_add_default_part_id_to_list api w (Some [pcl_scheme cl, pcl_partition cl]) cbc (Some list)) (\<lambda>w list.
       if length list \<noteq> 2 then Some (0, w) else rest w list))"

definition add_new_partition_option ::
  "'db sqlite3_api \<Rightarrow> u32 \<Rightarrow> ailsa_cmdb_s option \<Rightarrow> cbcpart_comm_line_s option \<Rightarrow> 'db world \<Rightarrow> (int \<times> 'db world) option" where
  "add_new_partition_option api uid cbc cpl w = (case cpl of None \<Rightarrow> Some (AILSA_NO_DATA, w) | Some cl \<Rightarrow>
     if cbc = None then Some (AILSA_NO_DATA, w)
     else with_partition api cbc cl w (\<lambda>w list.
       then_list w (cmdb_add_string_to_list (pcl_option cl) (Some list)) (\<lambda>list.
       then_rows (ailsa_argument_query api w cbc IDENTIFY_PART_OPTION list (Some [])) (\<lambda>w results.
       if length results > 0 then Some (0, w)
       else then_list w (cmdb_populate_cuser_muser uid list) (\<lambda>list.
         chk0 (ailsa_insert_query api w cbc INSERT_PART_OPTION list) (\<lambda>w.
         set_db_row_updated api uid w cbc SET_PART_SCHEME_UPDATED (pcl_scheme cl) 0))))))"

definition add_scheme_part ::
  "'db sqlite3_api \<Rightarrow> u32 \<Rightarrow> ailsa_cmdb_s option \<Rightarrow> cbcpart_comm_line_s \<Rightarrow> 'db world \<Rightarrow> (int \<times> 'db world) option" where
  "add_scheme_part api uid cbc cpl w =
    (if pcl_type cpl = PARTITION then add_partition_to_scheme api uid cbc (Some cpl) w
     else if pcl_type cpl = SCHEME then add_new_scheme api uid cbc (Some cpl) w
     else if pcl_type cpl = OPTION then add_new_partition_option api uid cbc (Some cpl) w
     else Some (AILSA_WRONG_TYPE, w))"

subsection \<open>Removing\<close>

definition remove_partition_from_scheme ::
  "'db sqlite3_api \<Rightarrow> ailsa_cmdb_s option \<Rightarrow> cbcpart_comm_line_s option \<Rightarrow> 'db world \<Rightarrow> (int \<times> 'db world) option" where
  "remove_partition_from_scheme api cbc cpl w = (case cpl of None \<Rightarrow> Some (AILSA_NO_DATA, w) | Some cl \<Rightarrow>
     if cbc = None then Some (AILSA_NO_DATA, w)
     else then_rows (cmdb_add_default_part_id_to_list api w (Some [pcl_scheme cl, pcl_partition cl]) cbc (Some [])) (\<lambda>w list.
       ailsa_delete_query api w cbc (delete_queries ! DELETE_PARTITION) (Some list)))"

definition remove_scheme ::
  "'db sqlite3_api \<Rightarrow> ailsa_cmdb_s option \<Rightarrow> cbcpart_comm_line_s \<Rightarrow> 'db world \<Rightarrow> (int \<times> 'db world) option" where
  "remove_scheme api cbc cpl w =
     then_list w (cmdb_add_string_to_list (pcl_scheme cpl) (Some [])) (\<lambda>list.
     ailsa_delete_query api w cbc (delete_queries ! DELETE_SCHEME_ON_NAME) list)"

definition remove_part_option ::
  "'db sqlite3_api \<Rightarrow> ailsa_cmdb_s option \<Rightarrow> cbcpart_comm_line_s option \<Rightarrow> 'db world \<Rightarrow> (int \<times> 'db world) option" where
  "remove_part_option api cbc cpl w = (case cpl of None \<Rightarrow> Some (AILSA_NO_DATA, w) | Some cl \<Rightarrow>
     if cbc = None then Some (AILSA_NO_DATA, w)
     else with_partition api cbc cl w (\<lambda>w list.
       then_list w (cmdb_add_string_to_list (pcl_option cl) (Some list)) (\<lambda>list.
       ailsa_delete_query api w cbc (delete_queries ! DELETE_PART_OPTION) list)))"

definition remove_scheme_part ::
  "'db sqlite3_api \<Rightarrow> ailsa_cmdb_s option \<Rightarrow> cbcpart_comm_line_s \<Rightarrow> 'db world \<Rightarrow> (int \<times> 'db world) option" where
  "remove_scheme_part api cbc cpl w =
    (if pcl_type cpl = PARTITION then remove_partition_from_scheme api cbc (Some cpl) w
     else if pcl_type cpl = SCHEME then remove_scheme api cbc cpl w
     else if pcl_type cpl = OPTION then remove_part_option api cbc (Some cpl) w
     else Some (AILSA_WRONG_TYPE, w))"

definition set_default_scheme ::
  "'db sqlite3_api \<Rightarrow> u32 \<Rightarrow> ailsa_cmdb_s option \<Rightarrow> cbcpart_comm_line_s option \<Rightarrow> 'db world \<Rightarrow> (int \<times> 'db world) option" where
  "set_default_scheme api uid cbc cpl w = (case cpl of None \<Rightarrow> Some (AILSA_NO_DATA, w) | Some cl \<Rightarrow>
     if cbc = None \<or> pcl_scheme cl = None then Some (AILSA_NO_DATA, w)
     else then_rows (cmdb_add_scheme_id_to_list api w (pcl_scheme cl) cbc (Some [])) (\<lambda>w part.
       if length part = 0 then Some (0, w)
       else set_default_row api uid cbc DEFAULT_SCHEME INSERT_DEFAULT_SCHEME UPDATE_DEFAULT_SCHEME w part))"

subsection \<open>The command\<close>

text \<open>Another action does nothing and ends with 0.\<close>

definition cbcpart_dispatch ::
  "'db sqlite3_api \<Rightarrow> u32 \<Rightarrow> (u32 \<Rightarrow> string option) \<Rightarrow> ailsa_cmdb_s option \<Rightarrow> cbcpart_comm_line_s \<Rightarrow> 'db site \<Rightarrow> 'db command_result" where
  "cbcpart_dispatch api uid pw cmc cpl st =
    (let w = si_world st in
     if pcl_action cpl = CMDB_ADD then connected st (add_scheme_part api uid cmc cpl w)
     else if pcl_action cpl = CMDB_DISPLAY then on_connection st (display_full_seed_scheme api pw cmc (Some cpl) w)
     else if pcl_action cpl = CMDB_LIST then on_connection st (list_seed_schemes api cmc w)
     else if pcl_action cpl = CBC_SERVER then on_connection st (display_servers_with_scheme api cmc (Some cpl) w)
     else if pcl_action cpl = CMDB_RM then connected st (remove_scheme_part api cmc cpl w)
     else if pcl_action cpl = CMDB_DEFAULT then connected st (set_default_scheme api uid cmc (Some cpl) w)
     else Some (0, [], st))"

definition cbcpart_main ::
  "string \<Rightarrow> string \<Rightarrow> 'db sqlite3_api \<Rightarrow> u32 \<Rightarrow> (u32 \<Rightarrow> string option) \<Rightarrow> ailsa_cmdb_s option \<Rightarrow> nat \<Rightarrow>
   (char \<times> string) list \<Rightarrow> 'db site \<Rightarrow> 'db command_result" where
  "cbcpart_main version prog api uid pw cmc argc options st =
     unless_refused version prog (parse_cbcpart_comm_line argc options cbcpart_line_zero) st
       (\<lambda>cpl. cbcpart_dispatch api uid pw cmc cpl st)"

end
