(* ===== verification/Cbc_Script.thy ===== *)
theory Cbc_Script
  imports Tool_Steps
begin

text \<open>
  src/cbcscript.c: the command that maintains the scripts run on a new system, and their arguments for a build domain
  and a build type.
\<close>

abbreviation CBCSCRIPT :: int where "CBCSCRIPT \<equiv> 1"
abbreviation CBCSCRARG :: int where "CBCSCRARG \<equiv> 2"

record cbc_syss_s =
  ss_name :: cstr
  ss_arg :: cstr
  ss_domain :: cstr
  ss_type :: cstr
  ss_action :: int
  ss_what :: int
  ss_no :: u64

definition script_line_zero :: cbc_syss_s where
  "script_line_zero = \<lparr>ss_name = None, ss_arg = None, ss_domain = None, ss_type = None, ss_action = 0, ss_what = 0, ss_no = 0\<rparr>"

subsection \<open>Command line\<close>

definition script_option :: "char \<Rightarrow> string \<Rightarrow> cbc_syss_s \<Rightarrow> int + cbc_syss_s" where
  "script_option opt optarg cbcs =
    (if opt = CHR ''a'' then Inr (cbcs\<lparr>ss_action := CMDB_ADD\<rparr>)
     else if opt = CHR ''d'' then Inr (cbcs\<lparr>ss_action := CMDB_DISPLAY\<rparr>)
     else if opt = CHR ''l'' then Inr (cbcs\<lparr>ss_action := CMDB_LIST\<rparr>)
     else if opt = CHR ''r'' then Inr (cbcs\<lparr>ss_action := CMDB_RM\<rparr>)
     else if opt = CHR ''v'' then Inl AILSA_VERSION
     else if opt = CHR ''s'' then Inr (cbcs\<lparr>ss_what := CBCSCRIPT\<rparr>)
     else if opt = CHR ''f'' then Inr (cbcs\<lparr>ss_what := CBCSCRARG\<rparr>)
     else if opt = CHR ''o'' then Inr (cbcs\<lparr>ss_no := strtoul10 optarg\<rparr>)
     else if opt = CHR ''b'' then Inr (cbcs\<lparr>ss_domain := Some (strndup optarg CONFIG_LEN)\<rparr>)
     else if opt = CHR ''g'' then Inr (cbcs\<lparr>ss_arg := Some (strndup optarg (CONFIG_LEN - 1))\<rparr>)
     else if opt = CHR ''n'' then Inr (cbcs\<lparr>ss_name := Some (strndup optarg (CONFIG_LEN - 1))\<rparr>)
     else if opt = CHR ''t'' then Inr (cbcs\<lparr>ss_type := Some (strndup optarg (MAC_LEN - 1))\<rparr>)
     else Inl AILSA_DISPLAY_USAGE)"

fun script_options :: "(char \<times> string) list \<Rightarrow> cbc_syss_s \<Rightarrow> int \<times> cbc_syss_s" where
  "script_options [] cbcs = (0, cbcs)"
| "script_options ((opt, optarg) # rest) cbcs = (case script_option opt optarg cbcs of
     Inl code \<Rightarrow> (code, cbcs)
   | Inr cbcs \<Rightarrow> script_options rest cbcs)"

text \<open>The texts of a line are not checked against any pattern.\<close>

definition check_cbc_script_comm_line :: "cbc_syss_s \<Rightarrow> int \<times> cbc_syss_s" where
  "check_cbc_script_comm_line cbcs =
    (if ss_action cbcs = 0 then (AILSA_NO_ACTION, cbcs)
     else if ss_action cbcs = CMDB_DISPLAY
     then (if ss_domain cbcs = None \<and> ss_name cbcs = None then AILSA_NO_DOMAIN_OR_NAME else 0, cbcs)
     else if ss_action cbcs = CMDB_LIST then (0, cbcs\<lparr>ss_what := CBCSCRIPT\<rparr>)
     else (if ss_name cbcs = None then AILSA_NO_NAME
       else if ss_what cbcs = 0 then AILSA_NO_TYPE
       else if ss_what cbcs = CBCSCRARG
       then (if ss_no cbcs = 0 then AILSA_NO_NUMBER
         else if ss_type cbcs = None then AILSA_NO_OS
         else if ss_domain cbcs = None then AILSA_NO_BUILD_DOMAIN
         else if ss_arg cbcs = None then AILSA_NO_ARG else 0)
       else 0, cbcs))"

definition parse_cbc_script_comm_line :: "nat \<Rightarrow> (char \<times> string) list \<Rightarrow> cbc_syss_s \<Rightarrow> int \<times> cbc_syss_s" where
  "parse_cbc_script_comm_line argc options cbcs = (case script_options options cbcs of (retval, cbcs) \<Rightarrow>
     if retval \<noteq> 0 then (retval, cbcs)
     else if argc = 1 then (AILSA_DISPLAY_USAGE, cbcs)
     else check_cbc_script_comm_line cbcs)"

subsection \<open>Adding and removing\<close>

definition cbc_script_add_script ::
  "'db sqlite3_api \<Rightarrow> u32 \<Rightarrow> ailsa_cmdb_s option \<Rightarrow> cbc_syss_s option \<Rightarrow> 'db world \<Rightarrow> (int \<times> 'db world) option" where
  "cbc_script_add_script api uid cbc scr w = (case scr of None \<Rightarrow> Some (AILSA_NO_DATA, w) | Some sl \<Rightarrow>
     if cbc = None then Some (AILSA_NO_DATA, w)
     else then_list w (cmdb_add_string_to_list (ss_name sl) (Some [])) (\<lambda>l.
       then_rows (ailsa_argument_query api w cbc SYSTEM_SCRIPT_ID_ON_NAME l (Some [])) (\<lambda>w res.
       if length res > 0 then Some (0, w)
       else then_list w (cmdb_populate_cuser_muser uid l) (\<lambda>l.
         ailsa_insert_query api w cbc INSERT_SYSTEM_SCRIPT l))))"

text \<open>The values of an argument, and the rows that have them.  The ids of the script, the domain and the type are
  appended without a look at whether they were found.\<close>

definition with_script_arg ::
  "'db sqlite3_api \<Rightarrow> ailsa_cmdb_s option \<Rightarrow> cbc_syss_s \<Rightarrow> 'db world \<Rightarrow>
   ('db world \<Rightarrow> ailsa_data list \<Rightarrow> ailsa_data list \<Rightarrow> (int \<times> 'db world) option) \<Rightarrow> (int \<times> 'db world) option" where
  "with_script_arg api cbc sl w rest =
     then_list w (add_args [cmdb_add_string_to_list (ss_arg sl), cmdb_add_number_to_list (ss_no sl)] (Some [])) (\<lambda>l.
     then_rows (cmdb_add_system_script_id_to_list api w (ss_name sl) cbc l) (\<lambda>w l.
     then_rows (cmdb_add_build_domain_id_to_list api w (ss_domain sl) cbc (Some l)) (\<lambda>w l.
     then_rows (cmdb_add_build_type_id_to_list api w (ss_type sl) cbc (Some l)) (\<lambda>w l.
     then_rows (ailsa_argument_query api w cbc SYSTEM_SCRIPT_ARG_ID (Some l) (Some [])) (\<lambda>w res.
     rest w l res)))))"

definition cbc_script_add_script_arg ::
  "'db sqlite3_api \<Rightarrow> u32 \<Rightarrow> ailsa_cmdb_s option \<Rightarrow> cbc_syss_s option \<Rightarrow> 'db world \<Rightarrow> (int \<times> 'db world) option" where
  "cbc_script_add_script_arg api uid cbc scr w = (case scr of None \<Rightarrow> Some (AILSA_NO_DATA, w) | Some sl \<Rightarrow>
     if cbc = None then Some (AILSA_NO_DATA, w)
     else with_script_arg api cbc sl w (\<lambda>w l res.
       if length res > 0 then Some (0, w)
       else then_list w (cmdb_populate_cuser_muser uid (Some l)) (\<lambda>l.
         ailsa_insert_query api w cbc INSERT_SYSTEM_SCRIPT_ARGS l)))"

definition cbc_script_rm_script ::
  "'db sqlite3_api \<Rightarrow> ailsa_cmdb_s option \<Rightarrow> cbc_syss_s option \<Rightarrow> 'db world \<Rightarrow> (int \<times> 'db world) option" where
  "cbc_script_rm_script api cbc scr w = (case scr of None \<Rightarrow> Some (AILSA_NO_DATA, w) | Some sl \<Rightarrow>
     if cbc = None then Some (AILSA_NO_DATA, w)
     else then_list w (cmdb_add_string_to_list (ss_name sl) (Some [])) (\<lambda>l.
       then_rows (ailsa_argument_query api w cbc SYSTEM_SCRIPT_ID_ON_NAME l (Some [])) (\<lambda>w res.
       if length res = 0 then Some (0, w)
       else ailsa_delete_query api w cbc (delete_queries ! DELETE_SYSTEM_SCRIPT) (Some res))))"

definition cbc_script_rm_arg ::
  "'db sqlite3_api \<Rightarrow> ailsa_cmdb_s option \<Rightarrow> cbc_syss_s option \<Rightarrow> 'db world \<Rightarrow> (int \<times> 'db world) option" where
  "cbc_script_rm_arg api cbc scr w = (case scr of None \<Rightarrow> Some (AILSA_NO_DATA, w) | Some sl \<Rightarrow>
     if cbc = None then Some (AILSA_NO_DATA, w)
     else with_script_arg api cbc sl w (\<lambda>w l res.
       if length res = 0 then Some (0, w)
       else ailsa_delete_query api w cbc (delete_queries ! DELETE_SYSTEM_SCRIPT_ARG) (Some res)))"

subsection \<open>Listing and displaying\<close>

definition cbc_script_list_script :: "'db sqlite3_api \<Rightarrow> ailsa_cmdb_s option \<Rightarrow> 'db world \<Rightarrow> 'db cmdb_result" where
  "cbc_script_list_script api cbc w = (if cbc = None then Some (AILSA_NO_DATA, [], w)
     else ask (ailsa_basic_query api w cbc SYSTEM_SCRIPT_NAMES (Some [])) (\<lambda>w l. says w (text_rows [] l)))"

definition build_heading :: "string \<Rightarrow> string" where
  "build_heading build = '' '' @ build @ '' build'' @ nl"

text \<open>The domain and the build type of the row before: a heading is printed where they change.  A new domain does not
  forget the build type.\<close>

fun all_domain_lines :: "string \<Rightarrow> string option \<Rightarrow> string option \<Rightarrow> ailsa_data list \<Rightarrow> string option" where
  "all_domain_lines name domain alias [] = Some []"
| "all_domain_lines name domain alias (d # b # _ # a # rest) = do {
     dname \<leftarrow> text_of d;
     build \<leftarrow> text_of b;
     arg \<leftarrow> text_of a;
     others \<leftarrow> all_domain_lines name (Some dname) (Some build) rest;
     Some ((case domain of None \<Rightarrow> ''Domain: '' @ dname
         | Some old \<Rightarrow> if old \<noteq> dname then nl @ nl @ ''Domain: '' @ dname else []) @
       (if alias \<noteq> Some build then nl @ build_heading build @ tab @ name else []) @ '' '' @ arg @ others)
   }"
| "all_domain_lines name domain alias _ = None"

fun one_domain_lines :: "string option \<Rightarrow> string option \<Rightarrow> ailsa_data list \<Rightarrow> string option" where
  "one_domain_lines script build [] = Some []"
| "one_domain_lines script build (s # b # _ # a # rest) = do {
     name \<leftarrow> text_of s;
     type \<leftarrow> text_of b;
     arg \<leftarrow> text_of a;
     others \<leftarrow> one_domain_lines (Some name) (Some type) rest;
     Some ((if build = Some type
         then (case script of None \<Rightarrow> tab @ name | Some old \<Rightarrow> if old \<noteq> name then nl @ tab @ name else [])
         else (if build = None then [] else nl) @ build_heading type @ tab @ name) @ '' '' @ arg @ others)
   }"
| "one_domain_lines script build _ = None"

fun one_script_lines :: "string \<Rightarrow> string option \<Rightarrow> ailsa_data list \<Rightarrow> string option" where
  "one_script_lines name build [] = Some []"
| "one_script_lines name build (b # _ # a # rest) = do {
     type \<leftarrow> text_of b;
     arg \<leftarrow> text_of a;
     others \<leftarrow> one_script_lines name (Some type) rest;
     Some ((if build = Some type then []
         else (if build = None then [] else nl) @ build_heading type @ tab @ name) @ '' '' @ arg @ others)
   }"
| "one_script_lines name build _ = None"

definition cbc_script_args_display_all_domain ::
  "'db sqlite3_api \<Rightarrow> ailsa_cmdb_s option \<Rightarrow> cbc_syss_s \<Rightarrow> 'db world \<Rightarrow> 'db cmdb_result" where
  "cbc_script_args_display_all_domain api cbc scr w = (if cbc = None then Some (AILSA_NO_DATA, [], w)
     else ask_list w (cmdb_add_string_to_list (ss_name scr) (Some [])) (\<lambda>l.
       ask (ailsa_argument_query api w cbc SYSTEM_SCRIPTS_ON_NAME l (Some [])) (\<lambda>w s.
       if length s = 0 \<or> length s mod 4 \<noteq> 0 then Some (0, [], w)
       else do {
         name \<leftarrow> ss_name scr;
         says w (map_option (\<lambda>t. t @ nl) (all_domain_lines name None None s))
       })))"

definition cbc_script_args_display_one_domain ::
  "'db sqlite3_api \<Rightarrow> ailsa_cmdb_s option \<Rightarrow> cbc_syss_s \<Rightarrow> 'db world \<Rightarrow> 'db cmdb_result" where
  "cbc_script_args_display_one_domain api cbc scr w = (if cbc = None then Some (AILSA_NO_DATA, [], w)
     else ask_list w (cmdb_add_string_to_list (ss_domain scr) (Some [])) (\<lambda>l.
       ask (ailsa_argument_query api w cbc SYSTEM_SCRIPTS_ON_DOMAIN l (Some [])) (\<lambda>w s.
       if length s = 0 \<or> length s mod 4 \<noteq> 0 then Some (0, [], w)
       else do {
         domain \<leftarrow> ss_domain scr;
         says w (map_option (\<lambda>t. ''Domain: '' @ domain @ nl @ t @ nl) (one_domain_lines None None s))
       })))"

definition cbc_script_args_display_one_script ::
  "'db sqlite3_api \<Rightarrow> ailsa_cmdb_s option \<Rightarrow> cbc_syss_s \<Rightarrow> 'db world \<Rightarrow> 'db cmdb_result" where
  "cbc_script_args_display_one_script api cbc scr w = (if cbc = None then Some (AILSA_NO_DATA, [], w)
     else ask_list w (add_args [cmdb_add_string_to_list (ss_name scr), cmdb_add_string_to_list (ss_domain scr)] (Some [])) (\<lambda>l.
       ask (ailsa_argument_query api w cbc SYSTEM_SCRIPTS_ON_NAME_DOMAIN l (Some [])) (\<lambda>w s.
       if length s = 0 \<or> length s mod 3 \<noteq> 0 then Some (0, [], w)
       else do {
         name \<leftarrow> ss_name scr;
         domain \<leftarrow> ss_domain scr;
         says w (map_option (\<lambda>t. ''Domain: '' @ domain @ nl @ t @ nl) (one_script_lines name None s))
       })))"

definition cbc_script_display_script ::
  "'db sqlite3_api \<Rightarrow> ailsa_cmdb_s option \<Rightarrow> cbc_syss_s \<Rightarrow> 'db world \<Rightarrow> 'db cmdb_result" where
  "cbc_script_display_script api cbc scr w =
    (if ss_domain scr = None \<and> ss_name scr \<noteq> None then cbc_script_args_display_all_domain api cbc scr w
     else if ss_domain scr \<noteq> None \<and> ss_name scr = None then cbc_script_args_display_one_domain api cbc scr w
     else cbc_script_args_display_one_script api cbc scr w)"

subsection \<open>The command\<close>

definition cbcscript_dispatch ::
  "'db sqlite3_api \<Rightarrow> u32 \<Rightarrow> ailsa_cmdb_s option \<Rightarrow> cbc_syss_s \<Rightarrow> 'db site \<Rightarrow> 'db command_result" where
  "cbcscript_dispatch api uid cbc scr st =
    (let w = si_world st in
     if ss_action scr = CMDB_ADD
     then (if ss_what scr = CBCSCRIPT then connected st (cbc_script_add_script api uid cbc (Some scr) w)
       else if ss_what scr = CBCSCRARG then connected st (cbc_script_add_script_arg api uid cbc (Some scr) w)
       else Some (AILSA_WRONG_TYPE, [], st))
     else if ss_action scr = CMDB_RM
     then (if ss_what scr = CBCSCRIPT then connected st (cbc_script_rm_script api cbc (Some scr) w)
       else if ss_what scr = CBCSCRARG then connected st (cbc_script_rm_arg api cbc (Some scr) w)
       else Some (AILSA_WRONG_TYPE, [], st))
     else if ss_action scr = CMDB_LIST then on_connection st (cbc_script_list_script api cbc w)
     else if ss_action scr = CMDB_DISPLAY then on_connection st (cbc_script_display_script api cbc scr w)
     else Some (AILSA_WRONG_ACTION, [], st))"

definition cbcscript_main ::
  "string \<Rightarrow> string \<Rightarrow> 'db sqlite3_api \<Rightarrow> u32 \<Rightarrow> ailsa_cmdb_s option \<Rightarrow> nat \<Rightarrow> (char \<times> string) list \<Rightarrow> 'db site \<Rightarrow>
   'db command_result" where
  "cbcscript_main version prog api uid cbc argc options st =
     unless_refused version prog (Some (parse_cbc_script_comm_line argc options script_line_zero)) st
       (\<lambda>scr. cbcscript_dispatch api uid cbc scr st)"

end
