(* ===== verification/Cbc_Sysp.thy ===== *)
theory Cbc_Sysp
  imports Tool_Steps
begin

text \<open>
  src/cbcsysp.c: the command that maintains the packages of a system, the arguments a package has, and the values of the
  arguments in a build domain.  What is written to standard error and to the log is left out.
\<close>

abbreviation SPACKAGE :: int where "SPACKAGE \<equiv> 1"
abbreviation SPACKARG :: int where "SPACKARG \<equiv> 2"
abbreviation SPACKCNF :: int where "SPACKCNF \<equiv> 3"

record cbc_sysp_s =
  sp_arg :: cstr
  sp_domain :: cstr
  sp_field :: cstr
  sp_name :: cstr
  sp_type :: cstr
  sp_action :: int
  sp_what :: int

definition sysp_line_zero :: cbc_sysp_s where
  "sysp_line_zero = \<lparr>sp_arg = None, sp_domain = None, sp_field = None, sp_name = None, sp_type = None, sp_action = 0, sp_what = 0\<rparr>"

subsection \<open>Command line\<close>

definition sysp_option :: "char \<Rightarrow> string \<Rightarrow> cbc_sysp_s \<Rightarrow> cbc_sysp_s option" where
  "sysp_option opt optarg cbcs =
    (if opt = CHR ''a'' then Some (cbcs\<lparr>sp_action := CMDB_ADD\<rparr>)
     else if opt = CHR ''l'' then Some (cbcs\<lparr>sp_action := CMDB_LIST\<rparr>)
     else if opt = CHR ''m'' then Some (cbcs\<lparr>sp_action := CMDB_MOD\<rparr>)
     else if opt = CHR ''r'' then Some (cbcs\<lparr>sp_action := CMDB_RM\<rparr>)
     else if opt = CHR ''o'' then Some (cbcs\<lparr>sp_what := SPACKCNF\<rparr>)
     else if opt = CHR ''p'' then Some (cbcs\<lparr>sp_what := SPACKAGE\<rparr>)
     else if opt = CHR ''y'' then Some (cbcs\<lparr>sp_what := SPACKARG\<rparr>)
     else if opt = CHR ''v'' then Some (cbcs\<lparr>sp_action := AILSA_VERSION\<rparr>)
     else if opt = CHR ''b'' then Some (cbcs\<lparr>sp_domain := Some (strndup optarg DOMAIN_LEN)\<rparr>)
     else if opt = CHR ''f'' then Some (cbcs\<lparr>sp_field := Some (strndup optarg DOMAIN_LEN)\<rparr>)
     else if opt = CHR ''g'' then Some (cbcs\<lparr>sp_arg := Some (strndup optarg DOMAIN_LEN)\<rparr>)
     else if opt = CHR ''n'' then Some (cbcs\<lparr>sp_name := Some (strndup optarg DOMAIN_LEN)\<rparr>)
     else if opt = CHR ''t'' then Some (cbcs\<lparr>sp_type := Some (strndup optarg DOMAIN_LEN)\<rparr>)
     else None)"

fun sysp_options :: "(char \<times> string) list \<Rightarrow> cbc_sysp_s \<Rightarrow> int \<times> cbc_sysp_s" where
  "sysp_options [] cbcs = (0, cbcs)"
| "sysp_options ((opt, optarg) # rest) cbcs = (case sysp_option opt optarg cbcs of
     None \<Rightarrow> (AILSA_DISPLAY_USAGE, cbcs)
   | Some cbcs \<Rightarrow> sysp_options rest cbcs)"

definition validate_cbcsysp_comm_line :: "cbc_sysp_s \<Rightarrow> int option" where
  "validate_cbcsysp_comm_line cbs =
     unless_fit (sp_domain cbs) DOMAIN_REGEX DOMAIN_INPUT_INVALID
    (unless_fit (sp_field cbs) PACKAGE_FIELD_REGEX PACKAGE_FIELD_INVALID
    (unless_fit (sp_arg cbs) SYSTEM_PACKAGE_ARG_REGEX PACKAGE_ARG_INVALID
    (unless_fit (sp_name cbs) DOMAIN_REGEX PACKAGE_NAME_INVALID
    (unless_fit (sp_type cbs) DOMAIN_REGEX PACKAGE_TYPE_INVALID (Some 0)))))"

definition check_sysp_comm_line_for_errors :: "cbc_sysp_s \<Rightarrow> int" where
  "check_sysp_comm_line_for_errors cbcs =
    (if sp_action cbcs = AILSA_VERSION then 0
     else if sp_action cbcs = 0 \<or> sp_what cbcs = 0 then AILSA_DISPLAY_USAGE
     else if sp_what cbcs = SPACKAGE
     then (if sp_name cbcs = None \<and> sp_action cbcs \<noteq> CMDB_LIST then AILSA_DISPLAY_USAGE else 0)
     else if sp_what cbcs = SPACKARG
     then (if sp_action cbcs \<noteq> CMDB_LIST
       then (if sp_action cbcs \<noteq> CMDB_RM \<and> (sp_type cbcs = None \<or> sp_field cbcs = None) then AILSA_DISPLAY_USAGE
         else if sp_action cbcs = CMDB_RM \<and> sp_field cbcs = None then AILSA_DISPLAY_USAGE else 0)
       else if sp_name cbcs = None then AILSA_DISPLAY_USAGE else 0)
     else if sp_what cbcs = SPACKCNF
     then (if sp_domain cbcs = None then AILSA_DISPLAY_USAGE
       else if sp_action cbcs \<noteq> CMDB_LIST \<and> (sp_name cbcs = None \<or> sp_field cbcs = None) then AILSA_DISPLAY_USAGE
       else if sp_action cbcs \<noteq> CMDB_LIST \<and> sp_arg cbcs = None then AILSA_DISPLAY_USAGE else 0)
     else 0)"

definition parse_cbc_sysp_comm_line ::
  "nat \<Rightarrow> (char \<times> string) list \<Rightarrow> cbc_sysp_s \<Rightarrow> (int \<times> cbc_sysp_s) option" where
  "parse_cbc_sysp_comm_line argc options cbcs = (case sysp_options options cbcs of (retval, cbcs) \<Rightarrow>
     if retval \<noteq> 0 then Some (retval, cbcs)
     else do {
       retval \<leftarrow> (if argc = 1 then Some 0 else validate_cbcsysp_comm_line cbcs);
       Some (if retval \<noteq> 0 then retval else check_sysp_comm_line_for_errors cbcs, cbcs)
     })"

subsection \<open>Listing\<close>

definition list_cbc_syspackage :: "'db sqlite3_api \<Rightarrow> ailsa_cmdb_s option \<Rightarrow> 'db world \<Rightarrow> 'db cmdb_result" where
  "list_cbc_syspackage api cbc w = (if cbc = None then Some (AILSA_NO_DATA, [], w)
     else ask (ailsa_basic_query api w cbc SYSTEM_PACKAGE_NAMES (Some [])) (\<lambda>w sysp. says w (text_rows [] sysp)))"

text \<open>The name of a package is printed where it changes.\<close>

fun sysp_conf_lines :: "string option \<Rightarrow> ailsa_data list \<Rightarrow> string option" where
  "sysp_conf_lines package [] = Some []"
| "sysp_conf_lines package (p # f # t # a # rest) = do {
     name \<leftarrow> text_of p;
     field \<leftarrow> text_of f;
     type \<leftarrow> text_of t;
     arg \<leftarrow> text_of a;
     let same = (case package of None \<Rightarrow> False | Some old \<Rightarrow> strncmp_eq old name DOMAIN_LEN);
     others \<leftarrow> sysp_conf_lines (if same then package else Some name) rest;
     Some ((if same then [] else nl @ name @ nl) @ tab @ field @
       (if length field > 23 then tab else if length field > 15 then tabs 2 else tabs 3) @ type @ tab @ arg @ nl @ others)
   }"
| "sysp_conf_lines package _ = None"

definition list_cbc_syspackage_conf ::
  "'db sqlite3_api \<Rightarrow> ailsa_cmdb_s option \<Rightarrow> cbc_sysp_s \<Rightarrow> 'db world \<Rightarrow> 'db cmdb_result" where
  "list_cbc_syspackage_conf api cbc css w =
     ask_list w (add_args ([cmdb_add_string_to_list (sp_domain css)] @
         (if sp_name css \<noteq> None then [cmdb_add_string_to_list (sp_name css)] else []) @
         (if sp_field css \<noteq> None then [cmdb_add_string_to_list (sp_field css)] else [])) (Some [])) (\<lambda>pack.
     ask (ailsa_argument_query api w cbc
         (if sp_field css \<noteq> None then SYS_PACK_DETAILS_MIN
          else if sp_name css \<noteq> None then SYS_PACK_DETAILS_ON_NAME_DOMAIN else SYS_PACK_DETAILS_ON_DOMAIN) pack (Some [])) (\<lambda>w res.
     if length res = 0 \<or> length res mod 4 \<noteq> 0 then Some (0, [], w)
     else do {
       domain \<leftarrow> sp_domain css;
       says w (map_option (\<lambda>t. ''System package config for build domain '' @ domain @ nl @ t) (sysp_conf_lines None res))
     }))"

fun sysp_arg_lines :: "ailsa_data list \<Rightarrow> string option" where
  "sysp_arg_lines [] = Some []"
| "sysp_arg_lines (f # t # rest) = do {
     field \<leftarrow> text_of f;
     type \<leftarrow> text_of t;
     others \<leftarrow> sysp_arg_lines rest;
     let len = length field;
     Some (field @ (if len > 39 then nl @ tabs 4 else if len > 31 then tab else if len > 23 then tabs 2
       else if len > 15 then tabs 3 else if len > 7 then tabs 4 else tabs 5) @ type @ nl @ others)
   }"
| "sysp_arg_lines _ = None"

definition list_cbc_syspackage_arg ::
  "'db sqlite3_api \<Rightarrow> ailsa_cmdb_s option \<Rightarrow> cbc_sysp_s option \<Rightarrow> 'db world \<Rightarrow> 'db cmdb_result" where
  "list_cbc_syspackage_arg api cbc css w = (case css of None \<Rightarrow> Some (AILSA_NO_DATA, [], w) | Some cl \<Rightarrow>
     if cbc = None then Some (AILSA_NO_DATA, [], w)
     else ask_list w (cmdb_add_string_to_list (sp_name cl) (Some [])) (\<lambda>pack.
       ask (ailsa_argument_query api w cbc SYS_PACK_ARGS_ON_NAME pack (Some [])) (\<lambda>w res.
       if length res = 0 \<or> length res mod 2 \<noteq> 0 then Some (0, [], w)
       else do {
         package \<leftarrow> sp_name cl;
         says w (map_option (\<lambda>t. ''Arguments available for package '' @ package @ nl @ ''Argument'' @ tabs 4 @ ''Type'' @ nl @ t)
           (sysp_arg_lines res))
       })))"

subsection \<open>Adding\<close>

definition add_cbc_syspackage ::
  "'db sqlite3_api \<Rightarrow> u32 \<Rightarrow> ailsa_cmdb_s option \<Rightarrow> cbc_sysp_s option \<Rightarrow> 'db world \<Rightarrow> (int \<times> 'db world) option" where
  "add_cbc_syspackage api uid cbc cbcs w = (case cbcs of None \<Rightarrow> Some (AILSA_NO_DATA, w) | Some cl \<Rightarrow>
     if cbc = None then Some (AILSA_NO_DATA, w)
     else then_list w (add_args [cmdb_add_string_to_list (sp_name cl), cmdb_populate_cuser_muser uid] (Some [])) (\<lambda>pack.
       ailsa_insert_query api w cbc INSERT_SYSTEM_PACKAGE pack))"

text \<open>A package that is not found ends the function with 0.\<close>

definition add_cbc_syspackage_arg ::
  "'db sqlite3_api \<Rightarrow> u32 \<Rightarrow> ailsa_cmdb_s option \<Rightarrow> cbc_sysp_s option \<Rightarrow> 'db world \<Rightarrow> (int \<times> 'db world) option" where
  "add_cbc_syspackage_arg api uid cbc cbcs w = (case cbcs of None \<Rightarrow> Some (AILSA_NO_DATA, w) | Some cl \<Rightarrow>
     if cbc = None then Some (AILSA_NO_DATA, w)
     else then_list w (add_args [cmdb_add_string_to_list (sp_field cl), cmdb_add_string_to_list (sp_type cl)] (Some [])) (\<lambda>l.
       then_rows (cmdb_add_sys_pack_id_to_list api w (sp_name cl) cbc l) (\<lambda>w l.
       if length l \<noteq> 3 then Some (0, w)
       else then_list w (cmdb_populate_cuser_muser uid (Some l)) (\<lambda>l.
         ailsa_insert_query api w cbc INSERT_SYSTEM_PACKAGE_ARGS l))))"

text \<open>The value of an argument, and the ids of the package, the argument and the domain.\<close>

definition with_syspack_conf ::
  "'db sqlite3_api \<Rightarrow> ailsa_cmdb_s option \<Rightarrow> cbc_sysp_s \<Rightarrow> 'db world \<Rightarrow>
   ('db world \<Rightarrow> ailsa_data list \<Rightarrow> (int \<times> 'db world) option) \<Rightarrow> (int \<times> 'db world) option" where
  "with_syspack_conf api cbc cl w rest =
     then_list w (cmdb_add_string_to_list (sp_arg cl) (Some [])) (\<lambda>l.
     then_rows (cmdb_add_sys_pack_id_to_list api w (sp_name cl) cbc l) (\<lambda>w l.
     then_rows (cmdb_add_sys_pack_arg_id_to_list api w (Some [sp_name cl, sp_field cl]) cbc (Some l)) (\<lambda>w l.
     then_rows (cmdb_add_build_domain_id_to_list api w (sp_domain cl) cbc (Some l)) rest)))"

definition add_cbc_syspackage_conf ::
  "'db sqlite3_api \<Rightarrow> u32 \<Rightarrow> ailsa_cmdb_s option \<Rightarrow> cbc_sysp_s option \<Rightarrow> 'db world \<Rightarrow> (int \<times> 'db world) option" where
  "add_cbc_syspackage_conf api uid cbc cbs w = (case cbs of None \<Rightarrow> Some (AILSA_NO_DATA, w) | Some cl \<Rightarrow>
     if cbc = None then Some (AILSA_NO_DATA, w)
     else with_syspack_conf api cbc cl w (\<lambda>w l.
       then_list w (cmdb_populate_cuser_muser uid (Some l)) (\<lambda>l.
       ailsa_insert_query api w cbc INSERT_SYSTEM_PACKAGE_CONF l)))"

subsection \<open>Removing\<close>

definition rem_cbc_syspackage ::
  "'db sqlite3_api \<Rightarrow> ailsa_cmdb_s option \<Rightarrow> cbc_sysp_s option \<Rightarrow> 'db world \<Rightarrow> (int \<times> 'db world) option" where
  "rem_cbc_syspackage api cbc cbs w = (case cbs of None \<Rightarrow> Some (AILSA_NO_DATA, w) | Some cl \<Rightarrow>
     if cbc = None then Some (AILSA_NO_DATA, w)
     else then_list w (cmdb_add_string_to_list (sp_name cl) (Some [])) (\<lambda>l.
       ailsa_delete_query api w cbc (delete_queries ! DELETE_SYSTEM_PACKAGE) l))"

definition rem_cbc_syspackage_arg ::
  "'db sqlite3_api \<Rightarrow> ailsa_cmdb_s option \<Rightarrow> cbc_sysp_s option \<Rightarrow> 'db world \<Rightarrow> (int \<times> 'db world) option" where
  "rem_cbc_syspackage_arg api cbc cbs w = (case cbs of None \<Rightarrow> Some (AILSA_NO_DATA, w) | Some cl \<Rightarrow>
     if cbc = None then Some (AILSA_NO_DATA, w)
     else then_list w (cmdb_add_string_to_list (sp_field cl) (Some [])) (\<lambda>l.
       then_rows (cmdb_add_sys_pack_id_to_list api w (sp_name cl) cbc l) (\<lambda>w l.
       ailsa_delete_query api w cbc (delete_queries ! DELETE_SYS_PACK_ARG) (Some l))))"

definition rem_cbc_syspackage_conf ::
  "'db sqlite3_api \<Rightarrow> ailsa_cmdb_s option \<Rightarrow> cbc_sysp_s option \<Rightarrow> 'db world \<Rightarrow> (int \<times> 'db world) option" where
  "rem_cbc_syspackage_conf api cbc cbs w = (case cbs of None \<Rightarrow> Some (AILSA_NO_DATA, w) | Some cl \<Rightarrow>
     if cbc = None then Some (AILSA_NO_DATA, w)
     else with_syspack_conf api cbc cl w (\<lambda>w l.
       ailsa_delete_query api w cbc (delete_queries ! DELETE_SYS_PACK_CONF) (Some l)))"

subsection \<open>The command\<close>

definition display_version :: "string \<Rightarrow> string \<Rightarrow> string" where
  "display_version version prog = program_name prog @ '': '' @ version @ nl"

text \<open>With neither a kind nor the action for the version nothing is done.\<close>

definition cbcsysp_dispatch ::
  "string \<Rightarrow> string \<Rightarrow> 'db sqlite3_api \<Rightarrow> u32 \<Rightarrow> ailsa_cmdb_s option \<Rightarrow> cbc_sysp_s \<Rightarrow> 'db site \<Rightarrow> 'db command_result" where
  "cbcsysp_dispatch version prog api uid cbc cbs st =
    (let w = si_world st; cl = Some cbs in
     if sp_what cbs = SPACKAGE
     then (if sp_action cbs = CMDB_LIST then on_connection st (list_cbc_syspackage api cbc w)
       else if sp_action cbs = CMDB_ADD then connected st (add_cbc_syspackage api uid cbc cl w)
       else if sp_action cbs = CMDB_RM then connected st (rem_cbc_syspackage api cbc cl w)
       else Some (AILSA_WRONG_ACTION, [], st))
     else if sp_what cbs = SPACKARG
     then (if sp_action cbs = CMDB_LIST then on_connection st (list_cbc_syspackage_arg api cbc cl w)
       else if sp_action cbs = CMDB_ADD then connected st (add_cbc_syspackage_arg api uid cbc cl w)
       else if sp_action cbs = CMDB_RM then connected st (rem_cbc_syspackage_arg api cbc cl w)
       else Some (AILSA_WRONG_ACTION, [], st))
     else if sp_what cbs = SPACKCNF
     then (if sp_action cbs = CMDB_LIST then on_connection st (list_cbc_syspackage_conf api cbc cbs w)
       else if sp_action cbs = CMDB_ADD then connected st (add_cbc_syspackage_conf api uid cbc cl w)
       else if sp_action cbs = CMDB_RM then connected st (rem_cbc_syspackage_conf api cbc cl w)
       else Some (AILSA_WRONG_ACTION, [], st))
     else if sp_action cbs = AILSA_VERSION then Some (0, display_version version prog, st)
     else Some (0, [], st))"

definition cbcsysp_main ::
  "string \<Rightarrow> string \<Rightarrow> 'db sqlite3_api \<Rightarrow> u32 \<Rightarrow> ailsa_cmdb_s option \<Rightarrow> nat \<Rightarrow> (char \<times> string) list \<Rightarrow> 'db site \<Rightarrow>
   'db command_result" where
  "cbcsysp_main version prog api uid cbc argc options st =
     unless_refused version prog (parse_cbc_sysp_comm_line argc options sysp_line_zero) st
       (\<lambda>cbs. cbcsysp_dispatch version prog api uid cbc cbs st)"

end
