(* ===== verification/Cbc_Varient.thy ===== *)
theory Cbc_Varient
  imports Tool_Steps
begin

text \<open>
  src/cbcvarient.c: the command that maintains the varients of a build, the sets of packages it installs.  It has
  statements of its own beside those of the library.
\<close>

abbreviation CVARIENT :: int where "CVARIENT \<equiv> 1"
abbreviation CPACKAGE :: int where "CPACKAGE \<equiv> 2"
abbreviation OSV :: u32 where "OSV \<equiv> 1"
abbreviation VERSIONV :: u32 where "VERSIONV \<equiv> 2"
abbreviation ARCHV :: u32 where "ARCHV \<equiv> 4"

record cbcvari_comm_line_s =
  vcl_alias :: cstr
  vcl_arch :: cstr
  vcl_os :: cstr
  vcl_ver_alias :: cstr
  vcl_version :: cstr
  vcl_varient :: cstr
  vcl_valias :: cstr
  vcl_package :: cstr
  vcl_new :: cstr
  vcl_action :: int
  vcl_type :: int

definition cbcvarient_line_zero :: cbcvari_comm_line_s where
  "cbcvarient_line_zero = \<lparr>vcl_alias = None, vcl_arch = None, vcl_os = None, vcl_ver_alias = None, vcl_version = None,
     vcl_varient = None, vcl_valias = None, vcl_package = None, vcl_new = None, vcl_action = 0, vcl_type = 0\<rparr>"

subsection \<open>Statements\<close>

text \<open>A statement for each set of flags: the packages of a varient, and the packages to remove.\<close>

definition varient_queries :: "ailsa_sql_query list" where
  "varient_queries =
    [sql_query ''SELECT p.package, o.os, o.os_version, o.arch FROM packages p JOIN build_os o ON p.os_id = o.os_id WHERE p.varient_id = ? ORDER BY o.os, o.os_version, o.arch'' 1
       [AILSA_DB_LINT],
     sql_query ''SELECT p.package, o.os, o.os_version, o.arch FROM packages p JOIN build_os o ON p.os_id = o.os_id WHERE p.varient_id = ? AND (o.os = ? OR o.alias = ?) ORDER BY o.os, o.os_version, o.arch'' 3
       [AILSA_DB_LINT, AILSA_DB_TEXT, AILSA_DB_TEXT],
     sql_query ''SELECT p.package, o.os, o.os_version, o.arch FROM packages p JOIN build_os o ON p.os_id = o.os_id WHERE p.varient_id = ? AND (o.os_version = ? OR o.ver_alias = ?) ORDER BY o.os, o.os_version, o.arch'' 2
       [AILSA_DB_LINT, AILSA_DB_TEXT],
     sql_query ''SELECT p.package, o.os, o.os_version, o.arch FROM packages p JOIN build_os o ON p.os_id = o.os_id WHERE p.varient_id = ? AND (o.os = ? OR o.alias = ?) AND (o.os_version = ? OR o.ver_alias = ?) ORDER BY o.os, o.os_version, o.arch'' 5
       [AILSA_DB_LINT, AILSA_DB_TEXT, AILSA_DB_TEXT, AILSA_DB_TEXT, AILSA_DB_TEXT],
     sql_query ''SELECT p.package, o.os, o.os_version, o.arch FROM packages p JOIN build_os o ON p.os_id = o.os_id WHERE p.varient_id = ? AND o.arch = ? ORDER BY o.os, o.os_version, o.arch'' 2
       [AILSA_DB_LINT, AILSA_DB_TEXT],
     sql_query ''SELECT p.package, o.os, o.os_version, o.arch FROM packages p JOIN build_os o ON p.os_id = o.os_id WHERE p.varient_id = ? AND (o.os = ? OR o.alias = ?) AND o.arch = ? ORDER BY o.os, o.os_version, o.arch'' 4
       [AILSA_DB_LINT, AILSA_DB_TEXT, AILSA_DB_TEXT, AILSA_DB_TEXT],
     sql_query ''SELECT p.package, o.os, o.os_version, o.arch FROM packages p JOIN build_os o ON p.os_id = o.os_id WHERE p.varient_id = ? AND (o.os_version = ? OR o.ver_alias = ?) AND o.arch = ? ORDER BY o.os, o.os_version, o.arch'' 4
       [AILSA_DB_LINT, AILSA_DB_TEXT, AILSA_DB_TEXT, AILSA_DB_TEXT],
     sql_query ''SELECT p.package, o.os, o.os_version, o.arch FROM packages p JOIN build_os o ON p.os_id = o.os_id WHERE p.varient_id = ? AND (o.os = ? OR o.alias = ?) AND (o.os_version = ? OR o.ver_alias = ?) AND o.arch = ? ORDER BY o.os, o.os_version, o.arch'' 6
       [AILSA_DB_LINT, AILSA_DB_TEXT, AILSA_DB_TEXT, AILSA_DB_TEXT, AILSA_DB_TEXT, AILSA_DB_TEXT]]"

definition package_deletes :: "ailsa_sql_query list" where
  "package_deletes =
    [sql_query ''DELETE FROM packages WHERE package = ? AND os_id IN (SELECT os_id FROM build_os WHERE alias = ? OR os = ?)'' 3
       [AILSA_DB_TEXT, AILSA_DB_TEXT, AILSA_DB_TEXT],
     sql_query ''DELETE FROM packages WHERE package = ? AND os_id IN (SELECT os_id FROM build_os WHERE (alias = ? OR os = ?) AND (os_version = ? OR ver_alias = ?))'' 5
       [AILSA_DB_TEXT, AILSA_DB_TEXT, AILSA_DB_TEXT, AILSA_DB_TEXT, AILSA_DB_TEXT],
     sql_query ''DELETE FROM packages WHERE package = ? AND os_id IN (SELECT os_id FROM build_os WHERE (alias = ? OR os = ?) AND arch = ?'' 4
       [AILSA_DB_TEXT, AILSA_DB_TEXT, AILSA_DB_TEXT, AILSA_DB_TEXT],
     sql_query ''DELETE FROM packages WHERE package = ? AND os_id IN (SELECT os_id FROM build_os WHERE (alias = ? OR os = ?) AND (os_version = ? OR ver_alias = ?) AND arch = ?)'' 6
       [AILSA_DB_TEXT, AILSA_DB_TEXT, AILSA_DB_TEXT, AILSA_DB_TEXT, AILSA_DB_TEXT, AILSA_DB_TEXT],
     sql_query ''DELETE FROM packages WHERE package = ? AND os_id IN (SELECT os_id FROM build_os WHERE alias = ? OR os = ?) AND varient_id IN (SELECT varient_id FROM varient WHERE varient = ? OR valias = ?)'' 5
       [AILSA_DB_TEXT, AILSA_DB_TEXT, AILSA_DB_TEXT, AILSA_DB_TEXT, AILSA_DB_TEXT],
     sql_query ''DELETE FROM packages WHERE package = ? AND os_id IN (SELECT os_id FROM build_os WHERE (alias = ? OR os = ?) AND (os_version = ? OR ver_alias = ?)) AND varient_id IN (SELECT varient_id FROM varient WHERE varient = ? OR valias = ?)'' 7
       [AILSA_DB_TEXT, AILSA_DB_TEXT, AILSA_DB_TEXT, AILSA_DB_TEXT, AILSA_DB_TEXT, AILSA_DB_TEXT, AILSA_DB_TEXT],
     sql_query ''DELETE FROM packages WHERE package = ? AND os_id IN (SELECT os_id FROM build_os WHERE (alias = ? OR os = ?) AND arch = ? AND varient_id IN (SELECT varient_id FROM varient WHERE varient = ? OR valias = ?)'' 6
       [AILSA_DB_TEXT, AILSA_DB_TEXT, AILSA_DB_TEXT, AILSA_DB_TEXT, AILSA_DB_TEXT, AILSA_DB_TEXT],
     sql_query ''DELETE FROM packages WHERE package = ? AND os_id IN (SELECT os_id FROM build_os WHERE (alias = ? OR os = ?) AND (os_version = ? OR ver_alias = ?) AND arch = ?) AND varient_id IN (SELECT varient_id FROM varient WHERE varient = ? OR valias = ?)'' 8
       [AILSA_DB_TEXT, AILSA_DB_TEXT, AILSA_DB_TEXT, AILSA_DB_TEXT, AILSA_DB_TEXT, AILSA_DB_TEXT, AILSA_DB_TEXT, AILSA_DB_TEXT]]"

subsection \<open>Command line\<close>

definition cbcvarient_option :: "char \<Rightarrow> string \<Rightarrow> cbcvari_comm_line_s \<Rightarrow> cbcvari_comm_line_s option" where
  "cbcvarient_option opt optarg cvl =
    (if opt = CHR ''a'' then Some (cvl\<lparr>vcl_action := CMDB_ADD\<rparr>)
     else if opt = CHR ''d'' then Some (cvl\<lparr>vcl_action := CMDB_DISPLAY, vcl_type := CVARIENT\<rparr>)
     else if opt = CHR ''l'' then Some (cvl\<lparr>vcl_action := CMDB_LIST\<rparr>)
     else if opt = CHR ''q'' then Some (cvl\<lparr>vcl_action := CBC_SERVER\<rparr>)
     else if opt = CHR ''r'' then Some (cvl\<lparr>vcl_action := CMDB_RM\<rparr>)
     else if opt = CHR ''m'' then Some (cvl\<lparr>vcl_action := CMDB_MOD\<rparr>)
     else if opt = CHR ''z'' then Some (cvl\<lparr>vcl_action := CMDB_DEFAULT\<rparr>)
     else if opt = CHR ''v'' then Some (cvl\<lparr>vcl_action := AILSA_VERSION\<rparr>)
     else if opt = CHR ''g'' then Some (cvl\<lparr>vcl_type := CPACKAGE\<rparr>)
     else if opt = CHR ''j'' then Some (cvl\<lparr>vcl_type := CVARIENT\<rparr>)
     else if opt = CHR ''e'' then Some (cvl\<lparr>vcl_ver_alias := Some (strndup optarg MAC_LEN)\<rparr>)
     else if opt = CHR ''k'' then Some (cvl\<lparr>vcl_valias := Some (strndup optarg MAC_LEN)\<rparr>)
     else if opt = CHR ''n'' then Some (cvl\<lparr>vcl_os := Some (strndup optarg MAC_LEN)\<rparr>)
     else if opt = CHR ''o'' then Some (cvl\<lparr>vcl_version := Some (strndup optarg MAC_LEN)\<rparr>)
     else if opt = CHR ''p'' then Some (cvl\<lparr>vcl_package := Some (strndup optarg HOST_LEN)\<rparr>)
     else if opt = CHR ''s'' then Some (cvl\<lparr>vcl_alias := Some (strndup optarg MAC_LEN)\<rparr>)
     else if opt = CHR ''t'' then Some (cvl\<lparr>vcl_arch := Some (strndup optarg SERVICE_LEN)\<rparr>)
     else if opt = CHR ''x'' then Some (cvl\<lparr>vcl_varient := Some (strndup optarg HOST_LEN)\<rparr>)
     else if opt = CHR ''w'' then Some (cvl\<lparr>vcl_new := Some optarg\<rparr>)
     else None)"

fun cbcvarient_options :: "(char \<times> string) list \<Rightarrow> cbcvari_comm_line_s \<Rightarrow> int \<times> cbcvari_comm_line_s" where
  "cbcvarient_options [] cvl = (0, cvl)"
| "cbcvarient_options ((opt, optarg) # rest) cvl = (case cbcvarient_option opt optarg cvl of
     None \<Rightarrow> (AILSA_DISPLAY_USAGE, cvl)
   | Some cvl \<Rightarrow> cbcvarient_options rest cvl)"

text \<open>Nothing is checked against a pattern.\<close>

definition check_cbcvarient_line :: "nat \<Rightarrow> cbcvari_comm_line_s \<Rightarrow> int \<times> cbcvari_comm_line_s" where
  "check_cbcvarient_line argc line =
    (if argc = 1 then (AILSA_DISPLAY_USAGE, line)
     else if vcl_action line = AILSA_VERSION then (AILSA_VERSION, line)
     else if vcl_action line = 0 \<and> argc \<noteq> 1 then (AILSA_NO_ACTION, line)
     else let cvl = (if vcl_action line = CMDB_DEFAULT then line\<lparr>vcl_type := CVARIENT\<rparr> else line) in
       (if vcl_type cvl = 0 \<and> vcl_action cvl \<noteq> CMDB_LIST \<and> vcl_action cvl \<noteq> CBC_SERVER \<and> vcl_action cvl \<noteq> CMDB_MOD
        then AILSA_NO_TYPE
        else if vcl_action cvl \<noteq> CMDB_LIST \<and> vcl_varient cvl = None \<and> vcl_valias cvl = None then AILSA_NO_VARIENT
        else if (vcl_action cvl = CMDB_ADD \<or> vcl_action cvl = CMDB_MOD) \<and> vcl_type cvl = CVARIENT \<and>
            (vcl_varient cvl = None \<or> vcl_valias cvl = None)
        then AILSA_DISPLAY_USAGE
        else if vcl_type cvl = CPACKAGE
        then (if vcl_package cvl = None then AILSA_NO_PACKAGE
          else if vcl_action cvl \<noteq> CMDB_ADD \<and> vcl_action cvl \<noteq> CMDB_RM then AILSA_WRONG_ACTION
          else if vcl_os cvl = None \<and> vcl_alias cvl = None then AILSA_NO_OS else NONE)
        else NONE, cvl))"

definition parse_cbcvarient_comm_line :: "nat \<Rightarrow> (char \<times> string) list \<Rightarrow> cbcvari_comm_line_s \<Rightarrow> int \<times> cbcvari_comm_line_s" where
  "parse_cbcvarient_comm_line argc options cvl = (case cbcvarient_options options cvl of (retval, cvl) \<Rightarrow>
     if retval \<noteq> 0 then (retval, cvl) else check_cbcvarient_line argc cvl)"

text \<open>The first of two texts that is there.\<close>

definition either_text :: "cstr \<Rightarrow> cstr \<Rightarrow> cstr" where
  "either_text a b = (if a \<noteq> None then a else b)"

subsection \<open>Listing\<close>

text \<open>A text and the tabs after it, fewer the longer it is, or a new line and the tabs of the next column.\<close>

definition wide_column :: "nat \<Rightarrow> nat \<Rightarrow> string \<Rightarrow> string" where
  "wide_column n after t =
    (if length t < 8 then t @ tabs n
     else if length t < 16 then t @ tabs (n - 1)
     else if 2 < n \<and> length t < 24 then t @ tabs (n - 2)
     else t @ nl @ tabs after)"

text \<open>Rows of seven values, of which the first, the fifth and the sixth are not printed.  A row that ends early ends
  the list.\<close>

fun varient_lines :: "(u32 \<Rightarrow> string option) \<Rightarrow> ailsa_data list \<Rightarrow> string option" where
  "varient_lines pw [] = Some []"
| "varient_lines pw [_] = Some []"
| "varient_lines pw (_ # a # row) = do {
     alias \<leftarrow> text_of a;
     others \<leftarrow> (case row of
         [] \<Rightarrow> Some []
       | n # row \<Rightarrow> do {
           name \<leftarrow> text_of n;
           others \<leftarrow> (case row of
               [] \<Rightarrow> Some []
             | u # row \<Rightarrow> do {
                 cuser \<leftarrow> get_number u;
                 others \<leftarrow> (case row of
                     _ # _ # m # row \<Rightarrow> do { mtime \<leftarrow> text_of m; others \<leftarrow> varient_lines pw row; Some (mtime @ nl @ others) }
                   | _ \<Rightarrow> Some []);
                 Some (wide_column 2 6 (cmdb_get_uname pw cuser) @ others)
               });
           Some (wide_column 3 5 name @ others)
         });
     Some (wide_column 2 4 alias @ others)
   }"

definition list_cbc_build_varient ::
  "'db sqlite3_api \<Rightarrow> (u32 \<Rightarrow> string option) \<Rightarrow> ailsa_cmdb_s option \<Rightarrow> 'db world \<Rightarrow> 'db cmdb_result" where
  "list_cbc_build_varient api pw cmc w = (if cmc = None then Some (AILSA_NO_DATA, [], w)
     else ask (ailsa_basic_query api w cmc BUILD_VARIENTS (Some [])) (\<lambda>w list.
       if length list = 0 then Some (0, [], w)
       else saying (''Alias'' @ tabs 2 @ ''Name'' @ tabs 3 @ ''Created By'' @ tab @ ''Last Modified'' @ nl)
         (says w (varient_lines pw list))))"

subsection \<open>Displaying\<close>

text \<open>The flags of the line choose the statement, and the values of the line follow the id of the varient.\<close>

definition varient_flags :: "cbcvari_comm_line_s \<Rightarrow> u32" where
  "varient_flags cvl = or (or (bit_if (vcl_os cvl \<noteq> None \<or> vcl_alias cvl \<noteq> None) OSV)
     (bit_if (vcl_version cvl \<noteq> None \<or> vcl_ver_alias cvl \<noteq> None) VERSIONV)) (bit_if (vcl_arch cvl \<noteq> None) ARCHV)"

definition varient_get_display_query :: "cbcvari_comm_line_s \<Rightarrow> db_list \<Rightarrow> db_list \<times> ailsa_sql_query" where
  "varient_get_display_query cvl list =
    (let list = cmdb_add_os_name_or_alias_to_list (vcl_os cvl) (vcl_alias cvl) list;
         list = cmdb_add_os_version_or_alias_to_list (vcl_version cvl) (vcl_ver_alias cvl) list;
         list = (if vcl_arch cvl \<noteq> None then snd (cmdb_add_string_to_list (vcl_arch cvl) list) else list) in
     (list, varient_queries ! unat (varient_flags cvl)))"

text \<open>The package, the system, the version and the architecture of row \<open>i\<close>.\<close>

definition detail_at :: "ailsa_data list \<Rightarrow> nat \<Rightarrow> nat \<Rightarrow> cstr" where
  "detail_at list i n = cmdb_get_string_from_data_list (Some list) (n + 4 * i)"

definition details_of_os :: "ailsa_data list \<Rightarrow> nat \<Rightarrow> (string \<times> string \<times> string) option" where
  "details_of_os list i = do {
     os \<leftarrow> detail_at list i 2; version \<leftarrow> detail_at list i 3; arch \<leftarrow> detail_at list i 4;
     Some (os, version, arch) }"

definition os_heading :: "string \<times> string \<times> string \<Rightarrow> string" where
  "os_heading d = (case d of (os, version, arch) \<Rightarrow> ''OS: '' @ os @ '', Version: '' @ version @ '', arch '' @ arch @ nl @ ''  '')"

text \<open>The rows from \<open>i\<close> on: a heading is printed where the system differs from the one of the last heading.\<close>

fun varient_details :: "ailsa_data list \<Rightarrow> (string \<times> string \<times> string) \<Rightarrow> nat \<Rightarrow> nat \<Rightarrow> string option" where
  "varient_details list saved i 0 = Some []"
| "varient_details list saved i (Suc n) = do {
     pack \<leftarrow> detail_at list i 1;
     os \<leftarrow> details_of_os list i;
     others \<leftarrow> varient_details list os (Suc i) n;
     Some ((if i = 0 then os_heading os else if os = saved then '' '' else nl @ nl @ os_heading os) @ pack @ others)
   }"

definition print_varient_details :: "ailsa_data list \<Rightarrow> string option" where
  "print_varient_details list = (if length list mod 4 \<noteq> 0 then Some []
     else case (detail_at list 0 1, details_of_os list 0) of
       (Some pack, Some os) \<Rightarrow> map_option (\<lambda>t. t @ nl @ nl) (varient_details list os 0 (length list div 4))
     | _ \<Rightarrow> Some [])"

definition display_cbc_build_varient ::
  "'db sqlite3_api \<Rightarrow> ailsa_cmdb_s option \<Rightarrow> cbcvari_comm_line_s option \<Rightarrow> 'db world \<Rightarrow> 'db cmdb_result" where
  "display_cbc_build_varient api cmc cvl w = (case cvl of None \<Rightarrow> Some (AILSA_NO_DATA, [], w) | Some cl \<Rightarrow>
     if cmc = None then Some (AILSA_NO_DATA, [], w)
     else let varient = either_text (vcl_varient cl) (vcl_valias cl) in
       if varient = None then Some (AILSA_NO_VARIENT, [], w)
       else ask (cmdb_check_add_varient_id_to_list api w varient cmc (Some [])) (\<lambda>w list.
         case varient_get_display_query cl (Some list) of (list, query) \<Rightarrow>
         ask (ailsa_individual_query api w cmc query list (Some [])) (\<lambda>w v.
         if length v > 0 then says w (print_varient_details v) else Some (0, [], w))))"

definition display_servers_with_varient ::
  "'db sqlite3_api \<Rightarrow> ailsa_cmdb_s option \<Rightarrow> cbcvari_comm_line_s option \<Rightarrow> 'db world \<Rightarrow> 'db cmdb_result" where
  "display_servers_with_varient api cmc cvl w = (case cvl of None \<Rightarrow> Some (AILSA_NO_DATA, [], w) | Some cl \<Rightarrow>
     if cmc = None then Some (AILSA_NO_DATA, [], w)
     else (case either_text (vcl_varient cl) (vcl_valias cl) of None \<Rightarrow> Some (AILSA_NO_VARIENT, [], w)
       | Some name \<Rightarrow> ask (cmdb_check_add_varient_id_to_list api w (Some name) cmc (Some [])) (\<lambda>w varient.
           ask (ailsa_argument_query api w cmc SERVERS_IN_VARIENT (Some varient) (Some [])) (\<lambda>w server.
           if length server = 0 then Some (0, [], w)
           else saying (''Server(s) build with varient '' @ name @ nl) (says w (text_rows '' '' server))))))"

subsection \<open>Adding a varient\<close>

text \<open>The packages of the base varient, with the ids of the new one.\<close>

fun base_packages :: "u32 \<Rightarrow> u64 \<Rightarrow> ailsa_data list \<Rightarrow> db_list \<Rightarrow> (int \<times> db_list) option" where
  "base_packages uid vid (p # d # rest) pack = do {
     name \<leftarrow> get_text p;
     os_id \<leftarrow> (if name = None then Some 0 else get_number d);
     (case add_args
         [cmdb_add_string_to_list name,
          cmdb_add_number_to_list vid,
          cmdb_add_number_to_list os_id,
          cmdb_populate_cuser_muser uid] pack of (retval, pack) \<Rightarrow>
       if retval \<noteq> 0 then Some (retval, pack) else base_packages uid vid rest pack)
   }"
| "base_packages uid vid _ pack = Some (0, pack)"

definition add_cbc_build_varient ::
  "'db sqlite3_api \<Rightarrow> u32 \<Rightarrow> ailsa_cmdb_s option \<Rightarrow> cbcvari_comm_line_s option \<Rightarrow> 'db world \<Rightarrow> (int \<times> 'db world) option" where
  "add_cbc_build_varient api uid cmc cvl w = (case cvl of None \<Rightarrow> Some (AILSA_NO_DATA, w) | Some cl \<Rightarrow>
     if cmc = None then Some (AILSA_NO_DATA, w)
     else then_list w (add_args [cmdb_add_string_to_list (vcl_varient cl), cmdb_add_string_to_list (vcl_valias cl)] (Some [])) (\<lambda>v.
       then_rows (ailsa_argument_query api w cmc VARIENT_ID_ON_VARIANT_OR_VALIAS v (Some [])) (\<lambda>w r.
       if length r > 0 then Some (0, w)
       else then_list w (cmdb_populate_cuser_muser uid v) (\<lambda>v.
         chk0 (ailsa_insert_query api w cmc INSERT_VARIENT v) (\<lambda>w.
         then_rows (ailsa_argument_query api w cmc VARIENT_ID_ON_VARIANT_OR_VALIAS v (Some r)) (\<lambda>w r. do {
           vid \<leftarrow> (case r of [] \<Rightarrow> None | d # _ \<Rightarrow> get_number d);
           then_rows (ailsa_basic_query api w cmc BASE_VARIENT_PACKAGES (Some [])) (\<lambda>w base.
           if length base = 0 then Some (0, w)
           else do {
             (retval, pack) \<leftarrow> base_packages uid vid base (Some []);
             if retval \<noteq> 0 then Some (retval, w)
             else ailsa_multiple_query api w cmc (insert_queries ! INSERT_BUILD_PACKAGE) pack
           })
         }))))))"

definition remove_cbc_build_varient ::
  "'db sqlite3_api \<Rightarrow> ailsa_cmdb_s option \<Rightarrow> cbcvari_comm_line_s option \<Rightarrow> 'db world \<Rightarrow> (int \<times> 'db world) option" where
  "remove_cbc_build_varient api cmc cvl w = (case cvl of None \<Rightarrow> Some (AILSA_NO_DATA, w) | Some cl \<Rightarrow>
     let varient = either_text (vcl_varient cl) (vcl_valias cl) in
     if cmc = None \<or> varient = None then Some (AILSA_NO_DATA, w)
     else then_list w (add_args [cmdb_add_string_to_list varient, cmdb_add_string_to_list varient] (Some [])) (\<lambda>list.
       ailsa_delete_query api w cmc (delete_queries ! DELETE_VARIENT) list))"

definition update_cbcvarient ::
  "'db sqlite3_api \<Rightarrow> ailsa_cmdb_s option \<Rightarrow> cbcvari_comm_line_s option \<Rightarrow> 'db world \<Rightarrow> (int \<times> 'db world) option" where
  "update_cbcvarient api cmc cvl w = (case cvl of None \<Rightarrow> Some (AILSA_NO_DATA, w) | Some cl \<Rightarrow>
     if cmc = None then Some (AILSA_NO_DATA, w)
     else then_list w (add_args [cmdb_add_string_to_list (vcl_varient cl), cmdb_add_string_to_list (vcl_new cl)] (Some [])) (\<lambda>list.
       then_rows (cmdb_check_add_varient_id_to_list api w (vcl_valias cl) cmc list) (\<lambda>w list.
       ailsa_update_query api w cmc (update_queries ! UPDATE_VARIENT_NAME) (Some list))))"

subsection \<open>Packages\<close>

definition os_version_flags :: "cstr \<Rightarrow> cstr \<Rightarrow> u32" where
  "os_version_flags vers arch = or (bit_if (vers \<noteq> None) 1) (bit_if (arch \<noteq> None) 2)"

text \<open>The values that identify an operating system, and the number of the query for them.\<close>

definition get_build_os_query :: "cstr \<Rightarrow> cstr \<Rightarrow> cstr \<Rightarrow> db_list \<Rightarrow> int \<times> db_list \<times> nat" where
  "get_build_os_query os vers arch list =
    (let query = unat (os_version_flags vers arch) + BUILD_OS_ON_NAME_OR_ALIAS in
     if list = None \<or> os = None then (AILSA_NO_DATA, list, query)
     else (case add_args
         ([cmdb_add_string_to_list os, cmdb_add_string_to_list os] @
          (if vers \<noteq> None then [cmdb_add_string_to_list vers, cmdb_add_string_to_list vers] else []) @
          (if arch \<noteq> None then [cmdb_add_string_to_list arch] else [])) list of (retval, list) \<Rightarrow> (retval, list, query)))"

text \<open>The values of a statement that removes packages, and its row in the table.\<close>

definition get_delete_package_query ::
  "cstr \<Rightarrow> cstr \<Rightarrow> cstr \<Rightarrow> cstr \<Rightarrow> cstr \<Rightarrow> db_list \<Rightarrow> int \<times> db_list \<times> nat" where
  "get_delete_package_query pack os vers arch vari list =
    (let query = unat (or (os_version_flags vers arch) (bit_if (vari \<noteq> None) 4)) in
     if list = None \<or> os = None then (AILSA_NO_DATA, list, query)
     else (case cmdb_add_string_to_list pack list of (retval, list) \<Rightarrow>
       if retval \<noteq> 0 then (retval, list, query)
       else (case get_build_os_query os vers arch list of (retval, list, _) \<Rightarrow>
         if retval \<noteq> 0 then (retval, list, query)
         else if vari \<noteq> None
         then (case add_args [cmdb_add_string_to_list vari, cmdb_add_string_to_list vari] list of (retval, list) \<Rightarrow>
           (retval, list, query))
         else (retval, list, query))))"

text \<open>A row of five values for each operating system.\<close>

fun package_rows :: "u32 \<Rightarrow> cstr \<Rightarrow> u64 \<Rightarrow> ailsa_data list \<Rightarrow> db_list \<Rightarrow> (int \<times> db_list) option" where
  "package_rows uid pack vid [] list = Some (0, list)"
| "package_rows uid pack vid (d # oses) list = do {
     os_id \<leftarrow> get_number d;
     (case add_args
         [cmdb_add_string_to_list pack,
          cmdb_add_number_to_list vid,
          cmdb_add_number_to_list os_id,
          cmdb_populate_cuser_muser uid] list of (retval, list) \<Rightarrow>
       if retval \<noteq> 0 then Some (retval, list) else package_rows uid pack vid oses list)
   }"

definition build_package_list ::
  "'db sqlite3_api \<Rightarrow> u32 \<Rightarrow> ailsa_cmdb_s option \<Rightarrow> 'db world \<Rightarrow> db_list \<Rightarrow> cstr \<Rightarrow> cstr \<Rightarrow> cstr \<Rightarrow> cstr \<Rightarrow> cstr \<Rightarrow> 'db query_result" where
  "build_package_list api uid cbc w list pack vari os vers arch =
    (if cbc = None \<or> list = None \<or> pack = None \<or> vari = None \<or> os = None then Some (AILSA_NO_DATA, w, list)
     else do {
       (retval, w, varient) \<leftarrow> cmdb_check_add_varient_id_to_list api w vari cbc (Some []);
       if retval \<noteq> 0 then Some (retval, w, list)
       else do {
         v \<leftarrow> varient;
         vid \<leftarrow> (case v of [] \<Rightarrow> None | d # _ \<Rightarrow> get_number d);
         (case get_build_os_query os vers arch (Some []) of (retval, scratch, query) \<Rightarrow>
           if retval \<noteq> 0 then Some (retval, w, list)
           else do {
             (retval, w, build_os) \<leftarrow> ailsa_argument_query api w cbc query scratch (Some []);
             if retval \<noteq> 0 then Some (retval, w, list)
             else do {
               oses \<leftarrow> build_os;
               (retval, list) \<leftarrow> package_rows uid pack vid oses list;
               Some (retval, w, list)
             }
           })
       }
     })"

text \<open>The rows that are in the database already are taken out of the list; \<open>kept\<close> are the rows before the one that is
  looked at.\<close>

fun check_packages ::
  "'db sqlite3_api \<Rightarrow> ailsa_cmdb_s option \<Rightarrow> 'db world \<Rightarrow> ailsa_data list \<Rightarrow> ailsa_data list \<Rightarrow> 'db query_result" where
  "check_packages api cbc w kept [] = Some (0, w, Some kept)"
| "check_packages api cbc w kept (p # v # d # c # m # rest) = do {
     name \<leftarrow> get_text p;
     vid \<leftarrow> (if name = None then Some 0 else get_number v);
     os_id \<leftarrow> (if name = None then Some 0 else get_number d);
     (case add_args [cmdb_add_string_to_list name, cmdb_add_number_to_list vid, cmdb_add_number_to_list os_id] (Some [])
       of (retval, pack) \<Rightarrow>
       if retval \<noteq> 0 then Some (retval, w, Some (kept @ p # v # d # c # m # rest))
       else do {
         (retval, w, results) \<leftarrow> ailsa_argument_query api w cbc PACKAGE_FULL pack (Some []);
         if retval \<noteq> 0 then Some (retval, w, Some (kept @ p # v # d # c # m # rest))
         else do {
           r \<leftarrow> results;
           check_packages api cbc w (if length r > 0 then kept else kept @ [p, v, d, c, m]) rest
         }
       })
   }"
| "check_packages api cbc w kept _ = None"

definition check_package_list ::
  "'db sqlite3_api \<Rightarrow> ailsa_cmdb_s option \<Rightarrow> 'db world \<Rightarrow> db_list \<Rightarrow> 'db query_result" where
  "check_package_list api cbc w list = (case list of None \<Rightarrow> Some (AILSA_NO_DATA, w, None) | Some l \<Rightarrow>
     if cbc = None then Some (AILSA_NO_DATA, w, Some l) else check_packages api cbc w [] l)"

definition add_cbc_package ::
  "'db sqlite3_api \<Rightarrow> u32 \<Rightarrow> ailsa_cmdb_s option \<Rightarrow> cbcvari_comm_line_s option \<Rightarrow> 'db world \<Rightarrow> (int \<times> 'db world) option" where
  "add_cbc_package api uid cbc cvl w = (case cvl of None \<Rightarrow> Some (AILSA_NO_DATA, w) | Some cl \<Rightarrow>
     let varient = either_text (vcl_valias cl) (vcl_varient cl);
         os = either_text (vcl_os cl) (vcl_alias cl);
         version = either_text (vcl_version cl) (vcl_ver_alias cl) in
     if cbc = None \<or> varient = None \<or> os = None then Some (AILSA_NO_DATA, w)
     else then_rows (build_package_list api uid cbc w (Some []) (vcl_package cl) varient os version (vcl_arch cl)) (\<lambda>w list.
       then_rows (check_package_list api cbc w (Some list)) (\<lambda>w list.
       if length list > 0
       then ailsa_multiple_query api w cbc (insert_queries ! INSERT_BUILD_PACKAGE) (Some list)
       else Some (0, w))))"

definition remove_cbc_package ::
  "'db sqlite3_api \<Rightarrow> ailsa_cmdb_s option \<Rightarrow> cbcvari_comm_line_s option \<Rightarrow> 'db world \<Rightarrow> (int \<times> 'db world) option" where
  "remove_cbc_package api cbc cvl w = (case cvl of None \<Rightarrow> Some (AILSA_NO_DATA, w) | Some cl \<Rightarrow>
     if cbc = None then Some (AILSA_NO_DATA, w)
     else (case get_delete_package_query (vcl_package cl) (either_text (vcl_os cl) (vcl_alias cl))
         (either_text (vcl_version cl) (vcl_ver_alias cl)) (vcl_arch cl) (either_text (vcl_varient cl) (vcl_valias cl)) (Some [])
       of (retval, list, query) \<Rightarrow>
       if retval \<noteq> 0 then Some (retval, w)
       else ailsa_delete_query api w cbc (package_deletes ! query) list))"

definition set_default_cbc_varient ::
  "'db sqlite3_api \<Rightarrow> u32 \<Rightarrow> ailsa_cmdb_s option \<Rightarrow> cbcvari_comm_line_s option \<Rightarrow> 'db world \<Rightarrow> (int \<times> 'db world) option" where
  "set_default_cbc_varient api uid cmc cvl w = (case cvl of None \<Rightarrow> Some (AILSA_NO_DATA, w) | Some cl \<Rightarrow>
     let v = either_text (vcl_varient cl) (vcl_valias cl) in
     if cmc = None \<or> v = None then Some (AILSA_NO_DATA, w)
     else then_rows (cmdb_check_add_varient_id_to_list api w v cmc (Some [])) (\<lambda>w varient.
       set_default_row api uid cmc DEFAULT_VARIENT INSERT_DEFAULT_VARIENT UPDATE_DEFAULT_VARIENT w varient))"

subsection \<open>The command\<close>

definition cbcvarient_dispatch ::
  "'db sqlite3_api \<Rightarrow> u32 \<Rightarrow> (u32 \<Rightarrow> string option) \<Rightarrow> ailsa_cmdb_s option \<Rightarrow> cbcvari_comm_line_s \<Rightarrow> 'db site \<Rightarrow> 'db command_result" where
  "cbcvarient_dispatch api uid pw cmc cvl st =
    (let w = si_world st; cl = Some cvl in
     if vcl_action cvl = CMDB_LIST then on_connection st (list_cbc_build_varient api pw cmc w)
     else if vcl_action cvl = CMDB_DISPLAY then on_connection st (display_cbc_build_varient api cmc cl w)
     else if vcl_action cvl = CMDB_ADD \<and> vcl_type cvl = CVARIENT then connected st (add_cbc_build_varient api uid cmc cl w)
     else if vcl_action cvl = CBC_SERVER then on_connection st (display_servers_with_varient api cmc cl w)
     else if vcl_action cvl = CMDB_ADD \<and> vcl_type cvl = CPACKAGE then connected st (add_cbc_package api uid cmc cl w)
     else if vcl_action cvl = CMDB_RM \<and> vcl_type cvl = CVARIENT then connected st (remove_cbc_build_varient api cmc cl w)
     else if vcl_action cvl = CMDB_RM \<and> vcl_type cvl = CPACKAGE then connected st (remove_cbc_package api cmc cl w)
     else if vcl_action cvl = CMDB_MOD then connected st (update_cbcvarient api cmc cl w)
     else if vcl_action cvl = CMDB_DEFAULT then connected st (set_default_cbc_varient api uid cmc cl w)
     else Some (0, ''Unknown action type'' @ nl, st))"

definition cbcvarient_main ::
  "string \<Rightarrow> string \<Rightarrow> 'db sqlite3_api \<Rightarrow> u32 \<Rightarrow> (u32 \<Rightarrow> string option) \<Rightarrow> ailsa_cmdb_s option \<Rightarrow> nat \<Rightarrow>
   (char \<times> string) list \<Rightarrow> 'db site \<Rightarrow> 'db command_result" where
  "cbcvarient_main version prog api uid pw cmc argc options st =
     unless_refused version prog (Some (parse_cbcvarient_comm_line argc options cbcvarient_line_zero)) st
       (\<lambda>cvl. cbcvarient_dispatch api uid pw cmc cvl st)"

end
