(* ===== verification/Build_Address.thy ===== *)
theory Build_Address
  imports Cbc_Main Cmdb_Specs
begin

text \<open>
  The address of a new build.  The search of src/createbuild.c starts again at the head of the list of used
  addresses whenever it moves on; here it is shown to be one pass over the addresses of the build domain, and so to
  end with the lowest free one.
\<close>

subsection \<open>Addresses in the DNS\<close>

text \<open>What the check of an address in the DNS counts, when the database answers; the names of hosts and zones are texts.\<close>

definition dns_count :: "'db sqlite3_api \<Rightarrow> 'db world \<Rightarrow> string \<Rightarrow> string \<Rightarrow> u64 \<Rightarrow> int" where
  "dns_count api w domain host ip = (let rows = name_rows api w A_RECORDS_WITH_IP (ntop4 (ucast ip)) in
     if ip = 0 then AILSA_NO_DATA
     else (case rows of
         [D_TEXT h, D_TEXT z] \<Rightarrow>
           if strncmp_eq host h HOST_LEN \<and> strncmp_eq domain z DOMAIN_LEN then 0 else 2
       | _ \<Rightarrow> int (length rows)))"

definition dns_names_texts :: "'db sqlite3_api \<Rightarrow> 'db world \<Rightarrow> bool" where
  "dns_names_texts api w \<longleftrightarrow> (\<forall>ip. list_all (\<lambda>d. data_type d = AILSA_DB_TEXT) (name_rows api w A_RECORDS_WITH_IP ip))"

lemma dns_fields: "q_fields (argument_queries ! A_RECORDS_WITH_IP) = [AILSA_DB_TEXT]"
  by (simp_all add: statement_fields argument_fields table_lengths del: nth_map)

lemma dns_checked:
  assumes "database_up api cc" "reads_up api" "dns_names_texts api w"
  shows "cbc_check_ip_in_dns api (Some cc) (Some domain) (Some host) ip w = Some (dns_count api w domain host ip, w)"
proof (cases "ip = 0")
  case True
  then show ?thesis by (simp add: cbc_check_ip_in_dns_def dns_count_def)
next
  case False
  let ?rows = "name_rows api w A_RECORDS_WITH_IP (ntop4 (ucast ip))"
  have "args_values (q_fields (argument_queries ! A_RECORDS_WITH_IP)) [D_TEXT (strndup (ntop4 (ucast ip)) CONFIG_LEN)] =
      Some [text_value (ntop4 (ucast ip))]"
    by (simp add: dns_fields text_value_def)
  from up_argument [OF assms(1,2) _ this]
  have q: "ailsa_argument_query api w (Some cc) A_RECORDS_WITH_IP (Some [D_TEXT (strndup (ntop4 (ucast ip)) CONFIG_LEN)]) (Some []) =
      Some (0, w, Some ?rows)"
    by (simp add: name_rows_def table_lengths)
  have t: "list_all (\<lambda>d. data_type d = AILSA_DB_TEXT) ?rows" using assms(3) by (simp add: dns_names_texts_def)
  show ?thesis
  proof (cases "\<exists>d e. ?rows = [d, e]")
    case True
    then obtain d e where r: "?rows = [d, e]" by blast
    with t obtain h z where "d = D_TEXT h" "e = D_TEXT z" by (cases d; cases e) auto
    then show ?thesis using False r by (simp add: cbc_check_ip_in_dns_def q dns_count_def element_text_def)
  next
    case n: False
    consider "?rows = []" | d where "?rows = [d]" | d e f ds where "?rows = d # e # f # ds"
      using n by (metis neq_Nil_conv)
    then show ?thesis using False
      by cases (auto simp: cbc_check_ip_in_dns_def q dns_count_def Let_def split: ailsa_data.split list.split)
  qed
qed

lemma dns_count_nonneg: "0 \<le> dns_count api w domain host ip"
  by (auto simp: dns_count_def Let_def split: list.split ailsa_data.split)

subsection \<open>The search as one pass\<close>

text \<open>The addresses of a range, and the search as one pass over them.\<close>

definition addresses :: "u64 \<Rightarrow> u64 \<Rightarrow> u64 list" where
  "addresses start end = map of_nat [unat start..<Suc (unat end)]"

fun first_free :: "(u64 \<Rightarrow> int) \<Rightarrow> u64 list \<Rightarrow> u64 list \<Rightarrow> int \<Rightarrow> int + u64" where
  "first_free dns used [] retval = Inl retval"
| "first_free dns used (ip # ips) retval =
    (if ip \<in> set used then first_free dns used ips retval
     else if dns ip > 0 then first_free dns used ips (dns ip)
     else Inr ip)"


lemma addresses_step:
  assumes "start \<le> lip" "unat lip < 2 ^ 64 - 1"
  shows "addresses start lip = start # addresses (start + 1) lip"
proof -
  have 1: "unat start \<le> unat lip" using assms(1) by (simp add: word_le_nat_alt)
  have 2: "unat (start + 1) = Suc (unat start)"
    using 1 assms(2) by (simp add: unat_word_ariths)
  show ?thesis using 1 by (simp add: addresses_def 2 upt_conv_Cons del: upt_Suc)
qed

lemma addresses_none: "lip < start \<Longrightarrow> addresses start lip = []"
  by (simp add: addresses_def word_less_nat_alt del: upt_Suc)

lemma walk:
  assumes "database_up api cc" "reads_up api" "dns_names_texts api w" "ip \<le> lip" "rest \<noteq> []" "ip \<notin> set rest"
  shows "free_ip api (Some cc) (Some domain) (Some host) lip r retval ip (map D_LINT rest) w =
    (if dns_count api w domain host ip > 0
     then free_ip api (Some cc) (Some domain) (Some host) lip r (dns_count api w domain host ip) (ip + 1) r w
     else Some (Inr ip, w))"
  using assms(5,6)
proof (induction rest)
  case (Cons u us)
  show ?case
  proof (cases us)
    case Nil
    then show ?thesis
      using Cons.prems assms(4) dns_count_nonneg [of api w domain host ip]
      by (subst free_ip.simps) (auto simp: dns_checked [OF assms(1-3)] not_less free_ip.simps [where rest = "[]"])
  next
    case (Cons v vs)
    show ?thesis
      using Cons.IH Cons.prems assms(4) \<open>us = v # vs\<close> by (subst free_ip.simps) (auto simp: not_less)
  qed
qed simp

lemma walk_used:
  assumes "ip \<le> lip" "ip \<in> set rest"
  shows "free_ip api cc domain host lip r retval ip (map D_LINT rest) w = free_ip api cc domain host lip r retval (ip + 1) r w"
  using assms(2)
proof (induction rest)
  case (Cons u us)
  then show ?case using assms(1) by (subst free_ip.simps) (auto simp: not_less)
qed simp


lemma stopped: "lip < ip \<Longrightarrow> r \<noteq> [] \<Longrightarrow> free_ip api cc domain host lip r' retval ip r w = Some (Inl retval, w)"
  by (cases r) (simp_all add: free_ip.simps)

lemma search_is_first_free:
  assumes "database_up api cc" "reads_up api" "dns_names_texts api w" "used \<noteq> []" "unat lip < 2 ^ 64 - 1"
  shows "free_ip api (Some cc) (Some domain) (Some host) lip (map D_LINT used) retval ip (map D_LINT used) w =
    Some (first_free (dns_count api w domain host) used (addresses ip lip) retval, w)"
proof (induction "Suc (unat lip) - unat ip" arbitrary: ip retval rule: less_induct)
  case less
  show ?case
  proof (cases "ip \<le> lip")
    case False
    then show ?thesis using assms(4) by (simp add: stopped addresses_none not_le)
  next
    case True
    have "unat (ip + 1) = Suc (unat ip)"
      using True assms(5) by (simp add: word_le_nat_alt unat_word_ariths)
    then have IH: "free_ip api (Some cc) (Some domain) (Some host) lip (map D_LINT used) rv (ip + 1) (map D_LINT used) w =
        Some (first_free (dns_count api w domain host) used (addresses (ip + 1) lip) rv, w)" for rv
      using less True by (simp add: word_le_nat_alt)
    show ?thesis
      by (cases "ip \<in> set used")
        (simp_all add: walk_used [OF True] walk [OF assms(1-3) True assms(4)] IH addresses_step [OF True assms(5)])
  qed
qed


lemma set_addresses: "set (addresses start lip) = {start..lip}"
proof -
  have "x \<in> of_nat ` {unat start..<Suc (unat lip)}" if "start \<le> x" "x \<le> lip" for x
    using that by (intro image_eqI [of _ _ "unat x"]) (simp_all add: word_le_nat_alt)
  moreover have "start \<le> of_nat n \<and> of_nat n \<le> lip" if "unat start \<le> n" "n \<le> unat lip" for n
  proof -
    have "unat lip < 2 ^ LENGTH(64)" by (rule unsigned_less)
    then have "n < 2 ^ 64" using that(2) by simp
    then have "unat (of_nat n :: u64) = n" by (simp add: unat_of_nat)
    then show ?thesis using that by (simp add: word_le_nat_alt)
  qed
  ultimately show ?thesis by (auto simp: addresses_def simp del: upt_Suc)
qed

lemma first_free_found:
  "first_free dns used (addresses start lip) retval = Inr a \<Longrightarrow> unat lip < 2 ^ 64 - 1 \<Longrightarrow>
     start \<le> a \<and> a \<le> lip \<and> a \<notin> set used \<and> dns a \<le> 0 \<and> (\<forall>x. start \<le> x \<and> x < a \<longrightarrow> x \<in> set used \<or> 0 < dns x)"
proof (induction "Suc (unat lip) - unat start" arbitrary: start retval rule: less_induct)
  case less
  have le: "start \<le> lip"
  proof (rule ccontr)
    assume "\<not> start \<le> lip"
    then show False using less.prems by (simp add: addresses_none not_le)
  qed
  have n: "unat (start + 1) = Suc (unat start)"
    using le less.prems(2) by (simp add: word_le_nat_alt unat_word_ariths)
  note step = addresses_step [OF le less.prems(2)]
  show ?case
  proof (cases "start \<in> set used \<or> 0 < dns start")
    case True
    then obtain rv where "first_free dns used (addresses (start + 1) lip) rv = Inr a"
      using less.prems(1) by (auto simp: step split: if_splits)
    from less.hyps [OF _ this less.prems(2)] n le
    have IH: "start + 1 \<le> a" "a \<le> lip" "a \<notin> set used" "dns a \<le> 0" "\<forall>x. start + 1 \<le> x \<and> x < a \<longrightarrow> x \<in> set used \<or> 0 < dns x"
      by (auto simp: word_le_nat_alt)
    have "x = start \<or> start + 1 \<le> x" if "start \<le> x" for x
      using that n by (auto simp: word_le_nat_alt le_less_Suc_eq not_less_eq_eq [symmetric] word_unat_eq_iff)
    then show ?thesis using IH True n by (auto simp: word_le_nat_alt)
  next
    case False
    then show ?thesis using less.prems(1) le by (auto simp: step dest: leD)
  qed
qed

lemma first_free_none:
  "first_free dns used ips retval = Inl code \<Longrightarrow> (\<forall>x\<in>set ips. x \<in> set used \<or> 0 < dns x) \<and>
     (0 \<le> retval \<longrightarrow> 0 \<le> code) \<and> (set ips \<subseteq> set used \<longrightarrow> code = retval)"
  by (induction ips arbitrary: retval) (fastforce split: if_splits)+


subsection \<open>Properties\<close>


lemma no_dns: "dns_names_texts (rows_api []) w" "dns_count (rows_api []) w domain host ip = (if ip = 0 then AILSA_NO_DATA else 0)"
  by (simp_all add: dns_names_texts_def dns_count_def name_rows_def rows_of_def rows_api_def)


end
