(* ===== verification/Build_Frame.thy ===== *)
theory Build_Frame
  imports Build_Address
begin

text \<open>
  What the build command may change: the database only by adding, changing and removing a build, files only by
  writing the files of a build, and nothing through commands of the system.
\<close>

subsection \<open>Queries that read\<close>

definition answers :: "'db \<Rightarrow> 'db query_result \<Rightarrow> bool" where
  "answers v q \<longleftrightarrow> (\<forall>r w l. q = Some (r, w, l) \<longrightarrow> w_db w = v)"

lemma reads_answers: "(\<And>r w' l'. q = Some (r, w', l') \<Longrightarrow> reads w l w' l') \<Longrightarrow> w_db w = v \<Longrightarrow> answers v q"
  unfolding answers_def reads_def by metis

lemma answers_queries:
  assumes "w_db w = v"
  shows "answers v (ailsa_argument_query api w cc n a l)" "answers v (ailsa_basic_query api w cc n l)"
    "answers v (cmdb_check_add_server_id_to_list api w s cc l)" "answers v (id_query api w cc ss n l)"
  by (rule reads_answers [OF _ assms], erule reads_argument reads_basic reads_check_server reads_id_query)+

lemma answers_build_id: "w_db w = v \<Longrightarrow> answers v (cmdb_add_build_id_to_list api w s cc l)"
  by (simp add: cmdb_add_build_id_to_list_def answers_queries) (simp add: answers_def)

subsection \<open>Printing reads\<close>

abbreviation (input) prints :: "'db \<Rightarrow> 'db cmdb_result \<Rightarrow> bool" where
  "prints v m \<equiv> stays (\<lambda>s. w_db (snd s) = v) m"

lemma prints_Some: "w_db w = v \<Longrightarrow> prints v (Some (r, t, w))"
  by (simp add: stays_def)

lemma prints_query:
  assumes "answers v q" "\<And>x. w_db (fst (snd x)) = v \<Longrightarrow> prints v (k x)"
  shows "prints v (q \<bind> k)"
  using assms by (cases q) (fastforce simp: answers_def stays_def)+

lemma prints_call:
  assumes "prints v m" "\<And>x. w_db (snd (snd x)) = v \<Longrightarrow> prints v (k x)"
  shows "prints v (m \<bind> k)"
  using assms by (cases m) (fastforce simp: stays_def)+

lemma print_rows_prints: "answers v query \<Longrightarrow> prints v (print_rows query display)"
  unfolding print_rows_def
  by (simp only: opened_up) (intro prints_Some stays_if prints_query [where q = query] stays_bind; assumption)

lemma print_for_server_prints: "w_db w = v \<Longrightarrow> prints v (print_for_server api cbc list query display w)"
  unfolding print_for_server_def by (intro prints_Some stays_if answers_queries print_rows_prints)

lemma print_until_error_prints:
  "(\<And>f w. f \<in> set fs \<Longrightarrow> w_db w = v \<Longrightarrow> prints v (f w)) \<Longrightarrow> w_db w = v \<Longrightarrow> prints v (print_until_error fs w)"
proof (induction fs arbitrary: w)
  case (Cons f fs)
  have "prints v (f w)" using Cons.prems by simp
  moreover have "prints v (print_until_error fs w')" if "w_db w' = v" for w'
    using Cons.IH [OF _ that] Cons.prems(1) by simp
  ultimately show ?case unfolding print_until_error.simps
    by (simp only: opened_up)
      (intro prints_Some stays_if prints_call [where m = "f _"] prints_call [where m = "print_until_error _ _"]; assumption)
qed (simp add: stays_def)

lemma build_scheme_prints: "w_db w = v \<Longrightarrow> prints v (cbc_print_build_scheme api cbc list w)"
  unfolding cbc_print_build_scheme_def
  by (simp only: opened_up)
    (intro stays_if prints_Some prints_query [where q = "ailsa_argument_query _ _ _ _ _ _"] answers_queries
      prints_call [where m = "print_rows _ _"] print_rows_prints
      stays_bind; assumption)

lemma build_steps_print:
  "f \<in> set [cbc_print_ip_net_info api cbt server, cbc_print_os_build_type api cbt server,
      cbc_print_build_varient api cbt server, cbc_print_build_locale api cbt server,
      cbc_print_build_scheme api cbt server, cbc_print_build_times_and_users api pw cbt server] \<Longrightarrow>
   w_db w = v \<Longrightarrow> prints v (f w)"
  by (auto simp: cbc_print_ip_net_info_def cbc_print_os_build_type_def cbc_print_build_varient_def
      cbc_print_build_locale_def cbc_print_build_times_and_users_def intro: print_for_server_prints build_scheme_prints)

lemma display_build_prints: "prints (w_db w) (display_build_config api pw cbt cml w)"
  unfolding display_build_config_def
  by (simp only: opened_up)
    (intro stays_option stays_if prints_Some prints_query [where q = "cmdb_check_add_server_id_to_list _ _ _ _ _"]
      prints_query [where q = "cmdb_add_build_id_to_list _ _ _ _ _"] answers_queries answers_build_id
      prints_call [where m = "print_until_error _ _"] print_until_error_prints stays_bind refl;
      (assumption | erule (1) build_steps_print))

lemma list_build_servers_same_db: "same_db (w_db w) (list_build_servers api cmc w)"
  unfolding list_build_servers_def by (intro same_db_steps)

lemma view_defaults_prints: "prints (w_db w) (view_defaults_for_cbc api cbt cml w)"
  unfolding view_defaults_for_cbc_def
  by (simp only: opened_up)
    (intro stays_if prints_Some prints_query [where q = "ailsa_basic_query _ _ _ _ _"] answers_queries stays_bind refl; assumption)

subsection \<open>Writing the files of a build\<close>

definition build_file :: "ailsa_cmdb_s \<Rightarrow> string \<Rightarrow> bool" where
  "build_file cc f \<longleftrightarrow>
     (\<exists>dir. cc_dhcpconf cc = Some dir \<and> f = snprintf_s DOMAIN_LEN (dir @ ''dhcpd.hosts'')) \<or>
     (\<exists>dir pxe n. cc_tftpdir cc = Some dir \<and> cc_pxe cc = Some pxe \<and> f = snprintf_s DOMAIN_LEN (dir @ pxe @ hex_upper n)) \<or>
     (\<exists>dir name. cc_toplevelos cc = Some dir \<and>
        (f = snprintf_s DOMAIN_LEN (dir @ ''web/'' @ name @ ''.cfg'') \<or> f = snprintf_s DOMAIN_LEN (dir @ ''hosts/'' @ name @ ''.sh'')))"

lemma build_file_names:
  "cc_dhcpconf cc = Some dir \<Longrightarrow> build_file cc (snprintf_s DOMAIN_LEN (dir @ ''dhcpd.hosts''))"
  "cc_tftpdir cc = Some dir \<Longrightarrow> cc_pxe cc = Some pxe \<Longrightarrow> build_file cc (snprintf_s DOMAIN_LEN (dir @ pxe @ hex_upper n))"
  "cc_toplevelos cc = Some dir \<Longrightarrow> build_file cc (snprintf_s DOMAIN_LEN (dir @ ''web/'' @ name @ ''.cfg''))"
  "cc_toplevelos cc = Some dir \<Longrightarrow> build_file cc (snprintf_s DOMAIN_LEN (dir @ ''hosts/'' @ name @ ''.sh''))"
  by (auto simp: build_file_def)

definition writes_files :: "ailsa_cmdb_s \<Rightarrow> 'db site \<Rightarrow> 'db site \<Rightarrow> bool" where
  "writes_files cc st st' \<longleftrightarrow> w_db (si_world st') = w_db (si_world st) \<and> si_commands st' = si_commands st \<and>
     (\<forall>f. si_files st' f \<noteq> si_files st f \<longrightarrow> build_file cc f)"

lemma writes_refl: "writes_files cc st st"
  by (simp add: writes_files_def)

lemma writes_world: "writes_files cc a b \<Longrightarrow> w_db w = w_db (si_world b) \<Longrightarrow> writes_files cc a (b\<lparr>si_world := w\<rparr>)"
  by (simp add: writes_files_def)

lemma writes_put: "writes_files cc a b \<Longrightarrow> build_file cc f \<Longrightarrow> writes_files cc a (put_file f text b)"
  by (auto simp: writes_files_def put_file_def)

abbreviation (input) wrote :: "ailsa_cmdb_s \<Rightarrow> 'db site \<Rightarrow> (int \<times> 'db site) option \<Rightarrow> bool" where
  "wrote cc a m \<equiv> stays (writes_files cc a) m"

lemma wrote_query:
  assumes "writes_files cc a st" "\<And>w. w_db w = w_db (si_world st) \<Longrightarrow> answers (w_db w) (q w)"
    and "\<And>st rows. writes_files cc a st \<Longrightarrow> wrote cc a (k st rows)"
  shows "wrote cc a (on_query st q k)"
proof -
  have s: "writes_files cc a (st\<lparr>si_world := w\<rparr>)" if "q (si_world st) = Some (r, w, l)" for r w l
    using assms(2) [OF refl] that by (intro writes_world assms(1)) (auto simp: answers_def)
  have "writes_files cc a st'" if "q (si_world st) = Some (r, w, l)" "k (st\<lparr>si_world := w\<rparr>) rows = Some (r', st')" for r w l rows r' st'
    using assms(3) [OF s [OF that(1)]] that(2) by (auto simp: stays_def)
  then show ?thesis using s
    by (auto simp: on_query_def stays_def Let_def bind_eq_Some_conv split: if_splits)
qed

lemmas wrote_steps = stays_None stays_option stays_rows stays_if stays_Some stays_bind wrote_query answers_queries writes_put build_file_names

lemma fill_dhcp_answer:
  assumes "writes_files cc a st" "cbc_get_dhcp_info api cbc dhcp (si_world st) = Some (r, w, d)"
  shows "writes_files cc a (st\<lparr>si_world := w\<rparr>)"
  using assms(2) by (intro writes_world assms(1))
    (auto simp: cbc_get_dhcp_info_def bind_eq_Some_conv split: if_splits dest: query_db(1) [OF _ refl])

lemma write_dhcp_config_wrote: "wrote cc st (write_dhcp_config api os (Some cc) cml st)"
  using fill_dhcp_answer [OF writes_refl]
  by (fastforce simp: write_dhcp_config_def cbc_write_dhcp_config_file_def stays_def bind_eq_Some_conv writes_refl Let_def
      split: if_splits option.splits intro: writes_put build_file_names)

lemma write_tftp_config_wrote: "wrote cc st (write_tftp_config api os (Some cc) cml st)"
  unfolding write_tftp_config_def cbc_write_tftp_config_file_def
  by (cases cml; simp only: opened_up) (intro wrote_steps writes_refl; (assumption | rule refl))+

lemma accounts_answer:
  assumes "writes_files cc a st" "get_server_accounts api cbc cml acc (si_world st) = Some (r, w, d)"
  shows "writes_files cc a (st\<lparr>si_world := w\<rparr>)"
proof -
  have s: "w_db w' = w_db w1" if "cmdb_check_add_server_id_to_list api w1 s cbc l = Some (r, w', l')" for w1 s cbc l r w' l'
    using answers_queries(3) [OF refl, of w1 api s cbc l] that by (simp add: answers_def)
  show ?thesis using assms(2)
    by (intro writes_world assms(1))
      (auto simp: get_server_accounts_def bind_eq_Some_conv split: option.splits prod.splits if_splits list.splits
        dest!: query_db(2) [OF _ refl] s)
qed

lemma answers_Some: "w_db w = v \<Longrightarrow> answers v (Some (r, w, l))"
  by (simp add: answers_def)

lemma answers_None: "answers v None"
  by (simp add: answers_def)

lemma answers_if: "(b \<Longrightarrow> answers v x) \<Longrightarrow> (\<not> b \<Longrightarrow> answers v y) \<Longrightarrow> answers v (if b then x else y)"
  by simp

lemma answers_bind: "(\<And>x. m = Some x \<Longrightarrow> answers v (k x)) \<Longrightarrow> answers v (m \<bind> k)"
  by (cases m) (simp_all add: answers_def)

lemma answers_call:
  assumes "answers v q" "\<And>x. w_db (fst (snd x)) = v \<Longrightarrow> answers v (k x)"
  shows "answers v (q \<bind> k)"
proof (cases q)
  case None
  then show ?thesis by (simp add: answers_None)
next
  case (Some x)
  then have "w_db (fst (snd x)) = v" using assms(1) by (cases x) (simp add: answers_def)
  then show ?thesis using assms(2) Some by simp
qed

lemma answers_then:
  assumes "answers v q" "\<And>w rows. w_db w = v \<Longrightarrow> answers v (k w rows)"
  shows "answers v (then_build b q k)"
  unfolding then_build_def
  by (simp only: opened_up) (intro answers_call [OF assms(1)] answers_bind answers_if answers_Some assms(2); assumption)

lemma gb_keyboard_answers: "w_db w = v \<Longrightarrow> answers v (cbc_check_gb_keyboard api cmc host w l)"
  unfolding cbc_check_gb_keyboard_def
  by (cases l; simp only: opened_up)
    (intro answers_Some answers_None answers_if answers_then answers_queries answers_bind; assumption)+

lemma kickstart_base_prints: "w_db w = v \<Longrightarrow> prints v (cbc_write_kickstart_base api cmc name fd l w)"
  unfolding cbc_write_kickstart_base_def
  by (cases l; simp only: opened_up)
    (intro prints_Some stays_None stays_if prints_query [where q = "cbc_check_gb_keyboard _ _ _ _ _"] gb_keyboard_answers
      stays_bind; assumption)+

lemma base_answer:
  assumes "writes_files cc a st" "cbc_write_kickstart_base api cmc name fd l (si_world st) = Some (r, t, w)"
  shows "writes_files cc a (st\<lparr>si_world := w\<rparr>)"
  using kickstart_base_prints [OF refl, of "si_world st" api cmc name fd l] assms(2)
  by (intro writes_world assms(1)) (simp add: stays_def)

lemma accounts_pair:
  "writes_files cc a st \<Longrightarrow> get_server_accounts api cbc cml acc (si_world st) = Some x \<Longrightarrow>
     writes_files cc a (st\<lparr>si_world := fst (snd x)\<rparr>)"
  by (cases x) (auto intro: accounts_answer)

lemma base_pair:
  "writes_files cc a st \<Longrightarrow> cbc_write_kickstart_base api cmc name fd l (si_world st) = Some x \<Longrightarrow>
     writes_files cc a (st\<lparr>si_world := snd (snd x)\<rparr>)"
  by (cases x) (auto intro: base_answer)

lemma write_preseed_wrote:
  assumes "writes_files cc a st" shows "wrote cc a (write_preseed_build_file api os (Some cc) cml st)"
  unfolding write_preseed_build_file_def
  by (simp only: opened_up option.inject)
    (intro wrote_steps assms accounts_pair; (assumption | rule refl | simp))

lemma write_kickstart_wrote:
  assumes "writes_files cc a st" shows "wrote cc a (write_kickstart_build_file api os (Some cc) cml st)"
  unfolding write_kickstart_build_file_def
  by (cases cml; simp only: opened_up)
    (intro wrote_steps assms base_pair; (assumption | rule refl))+

lemma write_config_file_wrote: "wrote cc st (write_build_config_file api os (Some cc) cml st)"
  unfolding write_build_config_file_def
  by (cases cml; simp only: opened_up)
    (intro wrote_steps write_preseed_wrote write_kickstart_wrote writes_refl; (assumption | rule refl)?)+

lemma write_host_script_wrote: "wrote cc st (write_build_host_script api os (Some cc) cml st)"
  unfolding write_build_host_script_def cbc_write_script_file_def
  by (cases cml; simp only: opened_up)
    (intro wrote_steps writes_refl; (assumption | rule refl)?)+

subsection \<open>The command\<close>

lemma writes_trans: "writes_files cc a b \<Longrightarrow> writes_files cc b c \<Longrightarrow> writes_files cc a c"
  unfolding writes_files_def by metis

lemma write_in_turn_wrote:
  assumes "\<And>step m. (step, m) \<in> set steps \<Longrightarrow> \<forall>st. wrote cc st (step st)"
    and "write_in_turn steps st = Some (r, t, st')"
  shows "writes_files cc st st'"
  using assms
proof (induction steps arbitrary: st t)
  case Nil
  then show ?case by (simp add: writes_refl)
next
  case (Cons sm steps)
  obtain step m where sm: "sm = (step, m)" by (cases sm)
  obtain r1 st1 where s: "step st = Some (r1, st1)"
    using Cons.prems(2) by (auto simp: sm bind_eq_Some_conv)
  have "\<forall>st. wrote cc st (step st)" by (rule Cons.prems(1) [of step m]) (simp add: sm)
  then have 1: "writes_files cc st st1" using s by (simp add: stays_def)
  show ?case
  proof (cases "r1 = 0")
    case True
    then obtain t' where "write_in_turn steps st1 = Some (r, t', st')"
      using Cons.prems(2) by (auto simp: sm s bind_eq_Some_conv)
    then have "writes_files cc st1 st'" by (rule Cons.IH [rotated]) (erule Cons.prems(1) [OF list.set_intros(2)])
    then show ?thesis by (rule writes_trans [OF 1])
  next
    case False
    then show ?thesis using 1 Cons.prems(2) by (simp add: sm s)
  qed
qed

lemma write_build_config_wrote:
  "write_build_config api os (Some cc) cml st = Some (r, text, st') \<Longrightarrow> writes_files cc st st'"
  unfolding write_build_config_def
  by (erule write_in_turn_wrote [rotated])
    (auto intro: write_dhcp_config_wrote write_tftp_config_wrote write_config_file_wrote write_host_script_wrote)

lemma parsed_line:
  assumes "parse_cbc_command_line options cbc_line_zero = Some (0, cl)"
  shows "cbc_main version prog api os pw cmc options st = do {
     (retval, text, st) \<leftarrow> cbc_dispatch api os pw cmc cl st;
     Some (if retval = AILSA_DISPLAY_USAGE then NONE else retval, text, st) }"
  by (simp add: cbc_main_def assms)

lemma on_connection_files: "on_connection st m = Some (r, t, st') \<Longrightarrow> \<exists>w. m = Some (r, t, w) \<and> st' = st\<lparr>si_world := w\<rparr>"
  by (auto simp: on_connection_def)

lemma connection_files:
  "connected st m = Some (r, t, st') \<Longrightarrow> \<exists>w. st' = st\<lparr>si_world := w\<rparr>"
  "printed st q = Some (r, t, st') \<Longrightarrow> \<exists>w t. q = Some (w, t) \<and> st' = st\<lparr>si_world := w\<rparr>"
  by (auto simp: connected_def printed_def)

lemma dispatch_looks:
  assumes "cbc_dispatch api os pw cmc cl st = Some (r, t, st')" "bcl_action cl \<notin> {CMDB_ADD, CMDB_MOD, CMDB_RM, CMDB_WRITE}"
  shows "si_files st' = si_files st \<and> si_commands st' = si_commands st \<and> w_db (si_world st') = w_db (si_world st)"
proof -
  note d = staysD [OF display_build_prints] and v = staysD [OF view_defaults_prints]
  have l: "list_build_servers api cmc w = Some (w', t) \<Longrightarrow> w_db w' = w_db w" for w w' t
    using list_build_servers_same_db [of w api cmc] by (simp add: same_db_def)
  consider "bcl_action cl = CMDB_DISPLAY" | "bcl_action cl = CMDB_LIST" | "bcl_action cl = CMDB_DEFAULT"
    | "bcl_action cl \<notin> {CMDB_DISPLAY, CMDB_LIST, CMDB_DEFAULT}"
    by blast
  then show ?thesis
  proof cases
    case 1
    then show ?thesis using assms(1) by (auto simp: cbc_dispatch_def dest!: on_connection_files d)
  next
    case 2
    then show ?thesis using assms(1) by (auto simp: cbc_dispatch_def dest!: connection_files l)
  next
    case 3
    then show ?thesis using assms(1) by (auto simp: cbc_dispatch_def dest!: on_connection_files v)
  next
    case 4
    then show ?thesis using assms by (auto simp: cbc_dispatch_def query_config_def split: if_splits)
  qed
qed

text \<open>C14: The build command runs no command of the system; it changes files only when it writes a build, and then only
  those the configuration and the build name; it changes the database only when it adds, changes or removes a
  build.\<close>

theorem cbc_keeps_to_its_part:
  assumes "cbc_main version prog api os pw (Some cc) options st = Some (retval, text, st')"
  shows "si_commands st' = si_commands st \<and>
    (si_files st' \<noteq> si_files st \<longrightarrow> (\<exists>cl. parse_cbc_command_line options cbc_line_zero = Some (0, cl) \<and> bcl_action cl = CMDB_WRITE) \<and>
       (\<forall>f. si_files st' f \<noteq> si_files st f \<longrightarrow> build_file cc f)) \<and>
    (w_db (si_world st') \<noteq> w_db (si_world st) \<longrightarrow>
       (\<exists>cl. parse_cbc_command_line options cbc_line_zero = Some (0, cl) \<and> bcl_action cl \<in> {CMDB_ADD, CMDB_MOD, CMDB_RM}))"
proof -
  obtain r cl where p: "parse_cbc_command_line options cbc_line_zero = Some (r, cl)"
    using assms by (cases "parse_cbc_command_line options cbc_line_zero") (auto simp: cbc_main_def)
  show ?thesis
  proof (cases "r = 0")
    case False
    then show ?thesis using assms by (simp add: cbc_main_def p split_def)
  next
    case True
    note p = p [unfolded True]
    from assms obtain r1 where d: "cbc_dispatch api os pw (Some cc) cl st = Some (r1, text, st')"
      by (auto simp: parsed_line [OF p] bind_eq_Some_conv)
    consider "bcl_action cl = CMDB_WRITE" | "bcl_action cl \<in> {CMDB_ADD, CMDB_MOD, CMDB_RM}"
      | "bcl_action cl \<notin> {CMDB_ADD, CMDB_MOD, CMDB_RM, CMDB_WRITE}"
      by blast
    then show ?thesis
    proof cases
      case 1
      then show ?thesis using d write_build_config_wrote p by (fastforce simp: cbc_dispatch_def writes_files_def)
    next
      case 2
      then have "si_files st' = si_files st \<and> si_commands st' = si_commands st"
        using d by (auto simp: cbc_dispatch_def dest!: connection_files)
      then show ?thesis using p 2 by simp
    next
      case 3
      then show ?thesis using dispatch_looks [OF d] by simp
    qed
  qed
qed

end
