(* ===== verification/Build_Specs.thy ===== *)
theory Build_Specs
  imports Build_Frame
begin

text \<open>
  What creating, removing and changing a build promises, on a database that is up.
\<close>

subsection \<open>Lookups\<close>

lemma build_fields:
  "q_fields (argument_queries ! BUILD_ID_ON_SERVER_NAME) = [AILSA_DB_TEXT]"
  "q_fields (argument_queries ! IP_ID_ON_SERVER_NAME) = [AILSA_DB_TEXT]"
  "q_fields (argument_queries ! DISK_ID_ON_SERVER_NAME) = [AILSA_DB_TEXT]"
  "q_fields (argument_queries ! LOCALE_ID_FROM_NAME) = [AILSA_DB_TEXT]"
  "q_fields (argument_queries ! SCHEME_ID_ON_NAME) = [AILSA_DB_TEXT]"
  "q_fields (argument_queries ! BUILD_DOMAIN_ID_ON_DOMAIN) = [AILSA_DB_TEXT]"
  "q_fields (argument_queries ! BUILD_DOMAIN_NET_INFO) = [AILSA_DB_TEXT]"
  "q_fields (argument_queries ! VARIENT_ID_ON_VARIANT_OR_VALIAS) = [AILSA_DB_TEXT, AILSA_DB_TEXT]"
  "q_fields (argument_queries ! MAC_ADDRESS_FOR_BUILD) = [AILSA_DB_LINT, AILSA_DB_TEXT]"
  "q_fields (argument_queries ! BUILD_IP_ON_BUILD_DOMAIN_ID) = [AILSA_DB_LINT]"
  "q_fields (argument_queries ! SEED_SCHEME_LVM_ON_ID) = [AILSA_DB_LINT]"
  "q_fields (delete_queries ! DELETE_BUILD_ON_SERVER_ID) = [AILSA_DB_LINT]"
  "q_fields (delete_queries ! DELETE_DISK_DEV) = [AILSA_DB_LINT]"
  "q_fields (delete_queries ! DELETE_BUILD_IP) = [AILSA_DB_LINT]"
  "q_fields (insert_queries ! INSERT_BUILD) = [AILSA_DB_LINT, AILSA_DB_TEXT, AILSA_DB_TEXT, AILSA_DB_LINT, AILSA_DB_LINT,
     AILSA_DB_LINT, AILSA_DB_LINT, AILSA_DB_LINT, AILSA_DB_LINT, AILSA_DB_LINT]"
  "q_fields (insert_queries ! INSERT_DISK_DEV) = [AILSA_DB_LINT, AILSA_DB_TEXT, AILSA_DB_SINT]"
  by (simp_all add: statement_fields argument_fields insert_fields delete_fields table_lengths del: nth_map)

lemma disk_dev_fields: "q_fields (argument_queries ! DISK_ID_ON_SERVER_NAME) = [AILSA_DB_TEXT]"
  by (rule build_fields)

lemma lookups_run:
  assumes "database_up api cc" "reads_up api"
  shows "cmdb_add_build_id_to_list api w (Some s) (Some cc) (Some l) = Some (0, w, Some (l @ name_rows api w BUILD_ID_ON_SERVER_NAME s))"
    "cmdb_add_ip_id_to_list api w (Some s) (Some cc) (Some l) = Some (0, w, Some (l @ name_rows api w IP_ID_ON_SERVER_NAME s))"
    "cmdb_add_disk_id_to_list api w (Some s) (Some cc) (Some l) = Some (0, w, Some (l @ name_rows api w DISK_ID_ON_SERVER_NAME s))"
    "cmdb_add_disk_dev_id_to_list api w (Some s) (Some cc) (Some l) = Some (0, w, Some (l @ name_rows api w DISK_ID_ON_SERVER_NAME s))"
  using name_query_runs [OF assms _ build_fields(1)] name_query_runs [OF assms _ build_fields(2)]
    name_query_runs [OF assms _ build_fields(3)]
  by (simp_all add: cmdb_add_build_id_to_list_def cmdb_add_ip_id_to_list_def cmdb_add_disk_id_to_list_def
      cmdb_add_disk_dev_id_to_list_def name_rows_def table_lengths)

lemma ip_checked:
  assumes "database_up api cc" "reads_up api"
  shows "cmdb_check_add_ip_id_to_list api w (Some s) (Some cc) (Some l) =
    Some (if length (name_rows api w IP_ID_ON_SERVER_NAME s) \<noteq> 1 then AILSA_BUILD_IP_NOT_FOUND else 0, w,
      Some (l @ name_rows api w IP_ID_ON_SERVER_NAME s))"
  using lookups_run(2) [OF assms] by (simp add: cmdb_check_add_ip_id_to_list_def check_added_def)

subsection \<open>Removing a build\<close>

lemma one_id_deleted:
  assumes "database_up api cc" "n < length delete_queries" "q_fields (delete_queries ! n) = [AILSA_DB_LINT]"
  shows "ailsa_delete_query api w (Some cc) (delete_queries ! n) (Some (D_LINT i # ds)) =
    Some (executed api w (q_query (delete_queries ! n)) [SQL_INT i])"
  by (rule up_delete [OF assms(1,2)]) (simp add: assms(3))

lemma build_removed:
  assumes "database_up api cc" "reads_up api" "bcl_name cl = Some name"
    and "name_rows api w SERVER_ID_ON_NAME name = [D_LINT sid]"
    and "name_rows api w IP_ID_ON_SERVER_NAME name = map D_LINT ips"
    and "name_rows api w DISK_ID_ON_SERVER_NAME name = map D_LINT disks"
  shows "remove_build_config api (Some cc) (Some cl) w =
    (if name_rows api w BUILD_ID_ON_SERVER_NAME name = [] then Some (0, w)
     else if length ips \<noteq> 1 then Some (AILSA_BUILD_IP_NOT_FOUND, w)
     else chk0 (Some (executed api w (q_query (delete_queries ! DELETE_BUILD_ON_SERVER_ID)) [SQL_INT sid])) (\<lambda>w.
       chk0 (Some (if disks = [] then (0, w) else executed api w (q_query (delete_queries ! DELETE_DISK_DEV)) [SQL_INT (hd disks)])) (\<lambda>w.
       Some (if bcl_removeip cl = 0 then (0, w)
             else executed api w (q_query (delete_queries ! DELETE_BUILD_IP)) [SQL_INT (hd ips)]))))"
proof -
  have del: "ailsa_delete_query api w (Some cc) (delete_queries ! DELETE_BUILD_ON_SERVER_ID) (Some (D_LINT i # ds)) =
      Some (executed api w (q_query (delete_queries ! DELETE_BUILD_ON_SERVER_ID)) [SQL_INT i])"
    "ailsa_delete_query api w (Some cc) (delete_queries ! DELETE_DISK_DEV) (Some (D_LINT i # ds)) =
      Some (executed api w (q_query (delete_queries ! DELETE_DISK_DEV)) [SQL_INT i])"
    "ailsa_delete_query api w (Some cc) (delete_queries ! DELETE_BUILD_IP) (Some (D_LINT i # ds)) =
      Some (executed api w (q_query (delete_queries ! DELETE_BUILD_IP)) [SQL_INT i])" for w i ds
    by (rule one_id_deleted [OF assms(1)], simp_all add: build_fields table_lengths)+
  note run = remove_build_config_def assms(3-6) lookups_run [OF assms(1,2)] server_checked [OF assms(1,2)] ip_checked [OF assms(1,2)]
    then_rows_def
  show ?thesis
    by (cases ips; cases disks) (simp_all add: run del chk0_def split: prod.split)
qed

text \<open>C13: Removing a build: without a build nothing is done; a server without exactly one address keeps its build; otherwise
  the build is deleted, then one disk of the server if it has any, and the address only when asked for.\<close>

theorem removing_a_build:
  assumes "database_up api cc" "reads_up api" "bcl_name cl = Some name"
    and "name_rows api w SERVER_ID_ON_NAME name = [D_LINT sid]"
    and "name_rows api w IP_ID_ON_SERVER_NAME name = map D_LINT ips"
    and "name_rows api w DISK_ID_ON_SERVER_NAME name = map D_LINT disks"
  shows "remove_build_config api (Some cc) (Some cl) w =
    (if name_rows api w BUILD_ID_ON_SERVER_NAME name = [] then Some (0, w)
     else if length ips \<noteq> 1 then Some (AILSA_BUILD_IP_NOT_FOUND, w)
     else chk0 (Some (executed api w (q_query (delete_queries ! DELETE_BUILD_ON_SERVER_ID)) [SQL_INT sid])) (\<lambda>w.
       chk0 (Some (if disks = [] then (0, w) else executed api w (q_query (delete_queries ! DELETE_DISK_DEV)) [SQL_INT (hd disks)])) (\<lambda>w.
       Some (if bcl_removeip cl = 0 then (0, w)
             else executed api w (q_query (delete_queries ! DELETE_BUILD_IP)) [SQL_INT (hd ips)]))))"
  by (rule build_removed [OF assms])

theorem removing_a_build_witness:
  "remove_build_config (rows_api [[SQL_INT 7]]) (Some dns_cc) (Some (cbc_line_zero\<lparr>bcl_name := Some ''web'', bcl_removeip := 1\<rparr>))
     demo_world = Some (0, demo_world\<lparr>w_db := 3\<rparr>)"
  using removing_a_build [OF rows_api_up, of _ "''web''" "[[SQL_INT 7]]" demo_world 7 "[7]" "[7]"]
  by (simp add: name_rows_def chk0_def demo_world_def)

lemma remove_web_line: "ailsa_validate_input (Some ''web'') NAME_REGEX = Some 0"
  by code_simp

abbreviation (input) remove_options :: "(char \<times> string) list" where
  "remove_options \<equiv> [(CHR ''r'', []), (CHR ''n'', ''web''), (CHR ''g'', [])]"

definition remove_line :: cbc_comm_line_s where
  "remove_line = cbc_line_zero\<lparr>bcl_action := CMDB_RM, bcl_name := Some ''web'', bcl_removeip := 1\<rparr>"

lemma remove_parsed: "parse_cbc_command_line remove_options cbc_line_zero = Some (0, remove_line)"
  by (simp add: parse_cbc_command_line_def cbc_option_def check_cbc_action_def cbc_add_defaults_def remove_line_def
      cbc_line_zero_def validate_cbc_comm_line_def unless_misfit_def misfit_def remove_web_line refuse_def given_def del: One_nat_def)

lemma remove_runs:
  "cbc_main ''1.0'' ''cbc'' (rows_api [[SQL_INT 7]]) demo_services (\<lambda>_. None) (Some dns_cc) remove_options demo_site =
    Some (0, [], demo_site\<lparr>si_world := demo_world\<lparr>w_db := 3\<rparr>\<rparr>)"
proof -
  have "remove_build_config (rows_api [[SQL_INT 7]]) (Some dns_cc) (Some remove_line) demo_world = Some (0, demo_world\<lparr>w_db := 3\<rparr>)"
    using build_removed [OF rows_api_up, of remove_line "''web''" "[[SQL_INT 7]]" demo_world 7 "[7]" "[7]"]
    by (simp add: remove_line_def cbc_line_zero_def name_rows_def chk0_def demo_world_def)
  moreover have "bcl_action remove_line = CMDB_RM" by (simp add: remove_line_def)
  ultimately show ?thesis
    by (simp add: cbc_main_def remove_parsed cbc_dispatch_def connected_def demo_site_def)
qed
theorem cbc_keeps_to_its_part_witness:
  "si_files (demo_site\<lparr>si_world := demo_world\<lparr>w_db := 3\<rparr>\<rparr>) = si_files demo_site \<and>
   (\<exists>cl. parse_cbc_command_line remove_options cbc_line_zero = Some (0, cl) \<and> bcl_action cl \<in> {CMDB_ADD, CMDB_MOD, CMDB_RM})"
proof -
  have "w_db (demo_world\<lparr>w_db := 3\<rparr>) \<noteq> w_db (si_world demo_site)" by (simp add: demo_site_def demo_world_def)
  then show ?thesis
    using cbc_keeps_to_its_part [OF remove_runs] remove_parsed by (auto simp: demo_site_def)
qed

subsection \<open>Creating a build\<close>

definition varient_rows :: "'db sqlite3_api \<Rightarrow> 'db world \<Rightarrow> cstr \<Rightarrow> ailsa_data list" where
  "varient_rows api w varient = (case varient of
     None \<Rightarrow> rows_of api w (basic_queries ! DEFAULT_VARIENT) []
   | Some v \<Rightarrow> rows_of api w (q_query (argument_queries ! VARIENT_ID_ON_VARIANT_OR_VALIAS)) [text_value v, text_value v])"

definition named_or_default :: "'db sqlite3_api \<Rightarrow> 'db world \<Rightarrow> nat \<Rightarrow> nat \<Rightarrow> cstr \<Rightarrow> ailsa_data list" where
  "named_or_default api w default_query query name = (case name of
     None \<Rightarrow> rows_of api w (basic_queries ! default_query) []
   | Some s \<Rightarrow> name_rows api w query s)"

lemma named_or_default_runs:
  assumes "database_up api cc" "reads_up api" "d < length basic_queries" "n < length argument_queries"
    and "q_fields (argument_queries ! n) = [AILSA_DB_TEXT]"
  shows "(if name = None then ailsa_basic_query api w (Some cc) d (Some l) else id_query api w (Some cc) [name] n (Some l)) =
    Some (0, w, Some (l @ named_or_default api w d n name))"
  using up_basic [OF assms(1-3)] name_query_runs [OF assms(1,2,4,5)]
  by (cases name) (simp_all add: named_or_default_def name_rows_def)

lemma detail_lookups:
  assumes "database_up api cc" "reads_up api"
  shows "cmdb_add_locale_id_to_list api w loc (Some cc) (Some l) =
      Some (0, w, Some (l @ named_or_default api w DEFAULT_LOCALE LOCALE_ID_FROM_NAME loc))"
    "cmdb_add_scheme_id_to_list api w scheme (Some cc) (Some l) =
      Some (0, w, Some (l @ named_or_default api w DEFAULT_SCHEME SCHEME_ID_ON_NAME scheme))"
    "cmdb_add_build_domain_id_to_list api w domain (Some cc) (Some l) =
      Some (0, w, Some (l @ named_or_default api w DEFAULT_DOMAIN BUILD_DOMAIN_ID_ON_DOMAIN domain))"
  using named_or_default_runs [OF assms _ _ build_fields(4), of DEFAULT_LOCALE loc w l]
    named_or_default_runs [OF assms _ _ build_fields(5), of DEFAULT_SCHEME scheme w l]
    named_or_default_runs [OF assms _ _ build_fields(6), of DEFAULT_DOMAIN domain w l]
  by (simp_all add: cmdb_add_locale_id_to_list_def cmdb_add_scheme_id_to_list_def cmdb_add_build_domain_id_to_list_def table_lengths)

lemma varient_checked:
  assumes "database_up api cc" "reads_up api"
  shows "cmdb_check_add_varient_id_to_list api w varient (Some cc) (Some l) =
    Some (if length (varient_rows api w varient) \<noteq> 1 then AILSA_VARIENT_NOT_FOUND else 0, w, Some (l @ varient_rows api w varient))"
proof -
  have "cmdb_add_varient_id_to_list api w varient (Some cc) (Some l) = Some (0, w, Some (l @ varient_rows api w varient))"
  proof (cases varient)
    case None
    then show ?thesis using up_basic [OF assms, of DEFAULT_VARIENT]
      by (simp add: cmdb_add_varient_id_to_list_def varient_rows_def table_lengths)
  next
    case (Some v)
    have "args_values (q_fields (argument_queries ! VARIENT_ID_ON_VARIANT_OR_VALIAS))
        [D_TEXT (strndup v CONFIG_LEN), D_TEXT (strndup v CONFIG_LEN)] = Some [text_value v, text_value v]"
      by (simp add: build_fields text_value_def)
    from up_argument [OF assms _ this] show ?thesis
      by (simp add: Some cmdb_add_varient_id_to_list_def id_query_def varient_rows_def table_lengths)
  qed
  then show ?thesis by (simp add: cmdb_check_add_varient_id_to_list_def check_added_def)
qed

text \<open>The rows of an operating system: by name, version and, when given, architecture, or the default one.\<close>

definition os_rows :: "'db sqlite3_api \<Rightarrow> 'db world \<Rightarrow> ailsa_cmdb_s \<Rightarrow> cbc_comm_line_s \<Rightarrow> ailsa_data list \<Rightarrow> bool" where
  "os_rows api w cc cl rows \<longleftrightarrow> (\<forall>l. cmdb_add_os_id_to_list api w (Some [bcl_os cl, bcl_os_version cl, bcl_arch cl]) (Some cc) (Some l) =
     Some (0, w, Some (l @ rows)))"

lemma default_os_rows:
  assumes "database_up api cc" "reads_up api" "bcl_os cl = None" "bcl_os_version cl = None" "bcl_arch cl = None"
  shows "os_rows api w cc cl (rows_of api w (basic_queries ! DEFAULT_OS) [])"
  using up_basic [OF assms(1,2), of DEFAULT_OS]
  by (simp add: os_rows_def cmdb_add_os_id_to_list_def arg_at_def assms(3-5) table_lengths)

lemma network_runs:
  assumes "database_up api cc" "reads_up api" "bcl_netcard cl = Some netdev"
    and "rows_of api w (q_query (argument_queries ! MAC_ADDRESS_FOR_BUILD)) [SQL_INT sid, text_value netdev] = macs"
  shows "cbc_get_network_info api (Some cc) (Some cl) w (Some [D_LINT sid]) =
    (case macs of [] \<Rightarrow> Some (AILSA_NO_MAC_ADDR, w, Some [D_LINT sid, text_element netdev])
     | d # _ \<Rightarrow> do { mac \<leftarrow> get_text d; listed_in w (cmdb_add_string_to_list mac (Some [D_LINT sid, text_element netdev])) })"
proof -
  have "args_values (q_fields (argument_queries ! MAC_ADDRESS_FOR_BUILD)) [D_LINT sid, text_element netdev] =
      Some [SQL_INT sid, text_value netdev]"
    by (simp add: build_fields text_value_def text_element_def)
  from up_argument [OF assms(1,2) _ this, of w "[]"] show ?thesis
    by (simp add: cbc_get_network_info_def assms(3,4) text_element_def table_lengths split: list.split)
qed

text \<open>A build that can be created: its server is known, it has none yet, and every value of it is found once.\<close>

definition new_build ::
  "'db sqlite3_api \<Rightarrow> 'db world \<Rightarrow> ailsa_cmdb_s \<Rightarrow> cbc_comm_line_s \<Rightarrow> string \<Rightarrow> u64 \<Rightarrow> string \<Rightarrow> string \<Rightarrow> u64 list \<Rightarrow> bool" where
  "new_build api w cc cl name sid netdev mac ids \<longleftrightarrow>
     bcl_name cl = Some name \<and> bcl_netcard cl = Some netdev \<and>
     name_rows api w BUILD_ID_ON_SERVER_NAME name = [] \<and> name_rows api w SERVER_ID_ON_NAME name = [D_LINT sid] \<and>
     (\<exists>macs. rows_of api w (q_query (argument_queries ! MAC_ADDRESS_FOR_BUILD)) [SQL_INT sid, text_value netdev] =
        text_element mac # macs) \<and>
     (\<exists>v os loc scheme. ids = [v, os, loc, scheme] \<and> varient_rows api w (bcl_varient cl) = [D_LINT v] \<and>
        os_rows api w cc cl [D_LINT os] \<and>
        named_or_default api w DEFAULT_LOCALE LOCALE_ID_FROM_NAME (bcl_locale cl) = [D_LINT loc] \<and>
        named_or_default api w DEFAULT_SCHEME SCHEME_ID_ON_NAME (bcl_partition cl) = [D_LINT scheme])"

definition build_list :: "u64 \<Rightarrow> string \<Rightarrow> string \<Rightarrow> u64 list \<Rightarrow> ailsa_data list" where
  "build_list sid netdev mac ids = [D_LINT sid, text_element netdev, text_element mac] @ map D_LINT ids"

lemma cut_twice: "strndup (strndup s n) n = strndup s n"
  by (simp add: strndup_def)

lemma create_reaches_disk:
  assumes "database_up api cc" "reads_up api" "new_build api w cc cl name sid netdev mac ids"
  shows "create_build_config api uid (Some cc) (Some cl) w =
    chk0 (cbc_add_disk api (Some cc) (Some cl) w (Some (build_list sid netdev mac ids))) (\<lambda>w.
    then_rows (cbc_get_ip_info api uid (Some cc) (Some cl) w (Some (build_list sid netdev mac ids))) (\<lambda>w b.
    if length b \<noteq> 8 then Some (0, w)
    else then_list w (cmdb_populate_cuser_muser uid (Some b)) (\<lambda>b. ailsa_insert_query api w (Some cc) INSERT_BUILD b)))"
proof -
  obtain macs v os loc scheme where n: "bcl_name cl = Some name" "bcl_netcard cl = Some netdev"
    "name_rows api w BUILD_ID_ON_SERVER_NAME name = []" "name_rows api w SERVER_ID_ON_NAME name = [D_LINT sid]"
    "rows_of api w (q_query (argument_queries ! MAC_ADDRESS_FOR_BUILD)) [SQL_INT sid, text_value netdev] = text_element mac # macs"
    "ids = [v, os, loc, scheme]" "varient_rows api w (bcl_varient cl) = [D_LINT v]" "os_rows api w cc cl [D_LINT os]"
    "named_or_default api w DEFAULT_LOCALE LOCALE_ID_FROM_NAME (bcl_locale cl) = [D_LINT loc]"
    "named_or_default api w DEFAULT_SCHEME SCHEME_ID_ON_NAME (bcl_partition cl) = [D_LINT scheme]"
    using assms(3) unfolding new_build_def by blast
  have net: "cbc_get_network_info api (Some cc) (Some cl) w (Some [D_LINT sid]) =
      Some (0, w, Some [D_LINT sid, text_element netdev, text_element mac])"
    by (simp add: network_runs [OF assms(1,2) n(2,5)] listed_in_def text_element_def cut_twice)
  note run = lookups_run [OF assms(1,2)] server_checked [OF assms(1,2)] varient_checked [OF assms(1,2)] detail_lookups [OF assms(1,2)]
    n(8) [unfolded os_rows_def, rule_format]
  show ?thesis
    by (simp add: create_build_config_def then_rows_def n(1,3,4,6,7,9,10) run net build_list_def del: One_nat_def)
qed

text \<open>The values of the row that is inserted.\<close>

definition build_values :: "u64 \<Rightarrow> string \<Rightarrow> string \<Rightarrow> u64 list \<Rightarrow> u64 \<Rightarrow> u32 \<Rightarrow> sql_value list" where
  "build_values sid netdev mac ids ip uid =
     [SQL_INT sid, text_value netdev, text_value mac] @ map SQL_INT (ids @ [ip, ucast uid, ucast uid])"

lemma build_inserted:
  assumes "database_up api cc" "length ids = 4"
  shows "then_list w (0, Some (build_list sid netdev mac ids @ [D_LINT ip, D_LINT (ucast uid), D_LINT (ucast uid)]))
      (ailsa_insert_query api w (Some cc) INSERT_BUILD) =
    Some (executed api w (q_query (insert_queries ! INSERT_BUILD)) (build_values sid netdev mac ids ip uid))"
proof -
  obtain v os loc scheme where ids: "ids = [v, os, loc, scheme]"
    using assms(2) by (auto simp: length_Suc_conv eval_nat_numeral)
  have "args_values (q_fields (insert_queries ! INSERT_BUILD))
      (build_list sid netdev mac ids @ [D_LINT ip, D_LINT (ucast uid), D_LINT (ucast uid)]) = Some (build_values sid netdev mac ids ip uid)"
    by (simp add: build_fields build_list_def build_values_def ids text_value_def text_element_def)
  from up_insert [OF assms(1) _ this] show ?thesis
    by (simp add: then_list_def table_lengths)
qed

lemma new_build_ids: "new_build api w cc cl name sid netdev mac ids \<Longrightarrow> length ids = 4 \<and> bcl_name cl = Some name"
  by (auto simp: new_build_def)


text \<open>A database that answers a statement by how its text starts, and everything else with the number 7.\<close>

definition answer_of :: "(string \<times> sql_value list list) list \<Rightarrow> string \<Rightarrow> sql_value list list" where
  "answer_of t stmt = (case List.find (\<lambda>(start, _). take (length start) stmt = start) t of
     Some (_, rows) \<Rightarrow> rows | None \<Rightarrow> [[SQL_INT 7]])"

definition table_api :: "(string \<times> sql_value list list) list \<Rightarrow> nat sqlite3_api" where
  "table_api t = demo_api\<lparr>s3_rows := (\<lambda>_ stmt _. (answer_of t stmt, SQLITE_DONE))\<rparr>"

lemma table_api_up: "database_up (table_api t) dns_cc" "reads_up (table_api t)"
  using demo_binds by (simp_all add: database_up_def reads_up_def table_api_def demo_api_def dns_cc_def demo_cc_def
      binds_by_marks_def)

lemma executed_table [simp]: "executed (table_api t) w q vs = (0, w\<lparr>w_db := w_db w + length vs\<rparr>)"
  by (simp add: executed_def table_api_def demo_api_def)

lemma rows_table: "rows_of (table_api t) w stmt vs = map store_column (concat (answer_of t stmt))"
  by (simp add: rows_of_def table_api_def)

definition mac_table :: "(string \<times> sql_value list list) list" where
  "mac_table = [(''SELECT build_id FROM build WHERE'', []), (''SELECT detail FROM hardware'', [[SQL_TEXT ''00:16:3e'']])]"

lemma mac_table_answers:
  "answer_of mac_table (q_query (argument_queries ! BUILD_ID_ON_SERVER_NAME)) = []"
  "answer_of mac_table (q_query (argument_queries ! MAC_ADDRESS_FOR_BUILD)) = [[SQL_TEXT ''00:16:3e'']]"
  "answer_of mac_table (q_query (argument_queries ! SERVER_ID_ON_NAME)) = [[SQL_INT 7]]"
  "answer_of mac_table (basic_queries ! DEFAULT_VARIENT) = [[SQL_INT 7]]"
  "answer_of mac_table (basic_queries ! DEFAULT_OS) = [[SQL_INT 7]]"
  "answer_of mac_table (basic_queries ! DEFAULT_LOCALE) = [[SQL_INT 7]]"
  "answer_of mac_table (basic_queries ! DEFAULT_SCHEME) = [[SQL_INT 7]]"
  "answer_of mac_table (q_query (argument_queries ! DISK_ID_ON_SERVER_NAME)) = [[SQL_INT 7]]"
  "answer_of mac_table (q_query (argument_queries ! IP_ID_ON_SERVER_NAME)) = [[SQL_INT 7]]"
  by code_simp+

definition mac_line :: cbc_comm_line_s where
  "mac_line = cbc_line_zero\<lparr>bcl_name := Some ''web'', bcl_netcard := Some ''eth0'', bcl_harddisk := Some ''vda'',
     bcl_build_domain := Some ''ailsa.org''\<rparr>"

lemma mac_new_build:
  assumes "answer_of t (q_query (argument_queries ! BUILD_ID_ON_SERVER_NAME)) = []"
    and "answer_of t (q_query (argument_queries ! MAC_ADDRESS_FOR_BUILD)) = [[SQL_TEXT ''00:16:3e'']]"
    and "answer_of t (q_query (argument_queries ! SERVER_ID_ON_NAME)) = [[SQL_INT 7]]"
    and "answer_of t (basic_queries ! DEFAULT_VARIENT) = [[SQL_INT 7]]" "answer_of t (basic_queries ! DEFAULT_OS) = [[SQL_INT 7]]"
    and "answer_of t (basic_queries ! DEFAULT_LOCALE) = [[SQL_INT 7]]" "answer_of t (basic_queries ! DEFAULT_SCHEME) = [[SQL_INT 7]]"
  shows "new_build (table_api t) w dns_cc mac_line ''web'' 7 ''eth0'' ''00:16:3e'' [7, 7, 7, 7]"
proof -
  have "os_rows (table_api t) w dns_cc mac_line [D_LINT 7]"
    using default_os_rows [OF table_api_up, of mac_line t w] assms(5) by (simp add: rows_table mac_line_def cbc_line_zero_def)
  moreover have "strndup ''00:16:3e'' CONFIG_LEN = ''00:16:3e''" by (simp add: strndup_def)
  ultimately show ?thesis
    using assms
    by (simp add: new_build_def name_rows_def rows_table named_or_default_def varient_rows_def mac_line_def cbc_line_zero_def
        text_element_def del: nth_map)
qed


subsection \<open>A domain without a free address\<close>

definition disk_values :: "u64 \<Rightarrow> string \<Rightarrow> u64 \<Rightarrow> sql_value list" where
  "disk_values sid disk lvm = [SQL_INT sid, text_value (snprintf_s HOST_LEN (''/dev/'' @ disk)), SQL_INT (scast (ucast lvm :: i16))]"

lemma disk_added:
  assumes "database_up api cc" "reads_up api" "bcl_name cl = Some name" "bcl_harddisk cl = Some disk"
    and "name_rows api w DISK_ID_ON_SERVER_NAME name = []" "name_rows api w SERVER_ID_ON_NAME name = [D_LINT sid]"
    and "rows_of api w (q_query (argument_queries ! SEED_SCHEME_LVM_ON_ID)) [SQL_INT scheme] = [D_LINT lvm]"
  shows "cbc_add_disk api (Some cc) (Some cl) w (Some (b @ [D_LINT scheme])) =
    Some (executed api w (q_query (insert_queries ! INSERT_DISK_DEV)) (disk_values sid disk lvm))"
proof -
  have lvm: "args_values (q_fields (argument_queries ! SEED_SCHEME_LVM_ON_ID)) [D_LINT scheme] = Some [SQL_INT scheme]"
    by (simp add: build_fields)
  have row: "args_values (q_fields (insert_queries ! INSERT_DISK_DEV))
      [D_LINT sid, D_TEXT (strndup (snprintf_s HOST_LEN (''/dev/'' @ disk)) CONFIG_LEN), D_LINT lvm] = Some (disk_values sid disk lvm)"
    by (simp add: build_fields disk_values_def text_value_def)
  show ?thesis
    using up_argument [OF assms(1,2) _ lvm, of w] up_insert [OF assms(1) _ row, of w] assms(7)
    by (simp add: cbc_add_disk_def assms(3-6) lookups_run [OF assms(1,2)] server_checked [OF assms(1,2)] then_rows_def
        then_list_def table_lengths)
qed

lemma domain_full:
  assumes "database_up api cc" "reads_up api" "dns_names_texts api w" "bcl_name cl = Some name" "bcl_build_domain cl = Some zone"
    and "name_rows api w BUILD_DOMAIN_ID_ON_DOMAIN zone = [D_LINT bd]"
    and "rows_of api w (q_query (argument_queries ! BUILD_IP_ON_BUILD_DOMAIN_ID)) [SQL_INT bd] = map D_LINT used" "used \<noteq> []"
    and "{start..lip} \<subseteq> set used" "unat lip < 2 ^ 64 - 1"
  shows "cbc_calculate_build_ip api uid (Some cc) (Some cl) w (Some [D_LINT bd, D_LINT start, D_LINT lip]) = Some (0, w)"
proof -
  have a: "args_values (q_fields (argument_queries ! BUILD_IP_ON_BUILD_DOMAIN_ID)) [D_LINT bd] = Some [SQL_INT bd]"
    by (simp add: build_fields)
  have none: "first_free dns used (addresses start lip) 0 = Inl 0" for dns
  proof (cases "first_free dns used (addresses start lip) 0")
    case (Inl code)
    then show ?thesis using first_free_none [OF Inl] assms(9) by (simp add: set_addresses)
  next
    case (Inr a)
    then show ?thesis using first_free_found [OF Inr assms(10)] assms(9) by (auto dest: subsetD [of _ _ a])
  qed
  show ?thesis
    using up_argument [OF assms(1,2) _ a, of w "[]"] detail_lookups(3) [OF assms(1,2), of w "Some zone" "[]"]
    by (simp add: cbc_calculate_build_ip_def assms(4-7) named_or_default_def then_rows_def table_lengths none
        search_is_first_free [OF assms(1-3,8,10)])
qed

text \<open>A build domain whose addresses are all in use: the command to create a build on a server without a disk inserts the
  disk, finds no address, inserts no build and returns 0.\<close>

theorem full_domain_ends_with_success:
  assumes "database_up api cc" "reads_up api" "new_build api w cc cl name sid netdev mac ids"
    and "bcl_harddisk cl = Some disk" "bcl_build_domain cl = Some zone" "name_rows api w DISK_ID_ON_SERVER_NAME name = []"
    and "rows_of api w (q_query (argument_queries ! SEED_SCHEME_LVM_ON_ID)) [SQL_INT (ids ! 3)] = [D_LINT lvm]"
    and "executed api w (q_query (insert_queries ! INSERT_DISK_DEV)) (disk_values sid disk lvm) = (0, w1)"
    and "name_rows api w1 IP_ID_ON_SERVER_NAME name = []" "dns_names_texts api w1"
    and "name_rows api w1 BUILD_DOMAIN_NET_INFO zone = [D_LINT bd, D_LINT start, D_LINT lip]"
    and "name_rows api w1 BUILD_DOMAIN_ID_ON_DOMAIN zone = [D_LINT bd]"
    and "rows_of api w1 (q_query (argument_queries ! BUILD_IP_ON_BUILD_DOMAIN_ID)) [SQL_INT bd] = map D_LINT used" "used \<noteq> []"
    and "{start..lip} \<subseteq> set used" "unat lip < 2 ^ 64 - 1"
  shows "create_build_config api uid (Some cc) (Some cl) w = Some (0, w1)"
proof -
  have n: "length ids = 4" "bcl_name cl = Some name" "name_rows api w SERVER_ID_ON_NAME name = [D_LINT sid]"
    using new_build_ids [OF assms(3)] assms(3) by (simp_all add: new_build_def)
  then obtain v os loc scheme where ids: "ids = [v, os, loc, scheme]"
    by (auto simp: length_Suc_conv eval_nat_numeral)
  then have b: "build_list sid netdev mac ids =
      [D_LINT sid, text_element netdev, text_element mac, D_LINT v, D_LINT os, D_LINT loc] @ [D_LINT (ids ! 3)]"
    by (simp add: build_list_def)
  have "args_values (q_fields (argument_queries ! BUILD_DOMAIN_NET_INFO)) [text_element zone] = Some [text_value zone]"
    by (simp add: build_fields text_value_def text_element_def)
  from up_argument [OF assms(1,2) _ this, of w1 "[]"]
  have net: "cbc_get_build_dom_info api (Some cc) (Some cl) w1 (Some []) =
      Some (0, w1, Some [D_LINT bd, D_LINT start, D_LINT lip])"
    using assms(11) by (simp add: cbc_get_build_dom_info_def domain_or_default_def assms(5) listed_in_def then_build_def then_same_def
        name_rows_def text_element_def table_lengths)
  have ip: "cbc_get_ip_info api uid (Some cc) (Some cl) w1 (Some l) = Some (0, w1, Some l)" for l
    by (simp add: cbc_get_ip_info_def n(2) lookups_run [OF assms(1,2)] then_same_def then_build_def assms(9) net
        domain_full [OF assms(1,2,10) n(2) assms(5,12-16)])
  have disk: "cbc_add_disk api (Some cc) (Some cl) w (Some (build_list sid netdev mac ids)) = Some (0, w1)"
    unfolding b disk_added [OF assms(1,2) n(2) assms(4,6) n(3) assms(7)] by (simp only: assms(8))
  have "length (build_list sid netdev mac ids) \<noteq> 8" by (simp add: build_list_def n(1))
  then show ?thesis
    by (simp add: create_reaches_disk [OF assms(1-3)] disk chk0_def ip then_rows_def)
qed

definition full_table :: "(string \<times> sql_value list list) list" where
  "full_table = mac_table @
    [(''SELECT disk_id FROM disk_dev'', []), (''SELECT ip_id FROM build_ip'', []), (''SELECT r.host, z.name FROM records'', []),
     (''SELECT bd_id, start_ip, end_ip FROM build_domain'', [[SQL_INT 7, SQL_INT 10, SQL_INT 11]]),
     (''SELECT ip FROM build_ip WHERE bd_id'', [[SQL_INT 10], [SQL_INT 11]])]"

lemma full_table_answers:
  "answer_of full_table (q_query (argument_queries ! BUILD_ID_ON_SERVER_NAME)) = []"
  "answer_of full_table (q_query (argument_queries ! MAC_ADDRESS_FOR_BUILD)) = [[SQL_TEXT ''00:16:3e'']]"
  "answer_of full_table (q_query (argument_queries ! SERVER_ID_ON_NAME)) = [[SQL_INT 7]]"
  "answer_of full_table (basic_queries ! DEFAULT_VARIENT) = [[SQL_INT 7]]"
  "answer_of full_table (basic_queries ! DEFAULT_OS) = [[SQL_INT 7]]"
  "answer_of full_table (basic_queries ! DEFAULT_LOCALE) = [[SQL_INT 7]]"
  "answer_of full_table (basic_queries ! DEFAULT_SCHEME) = [[SQL_INT 7]]"
  by code_simp+

lemma full_table_domain:
  "answer_of full_table (q_query (argument_queries ! DISK_ID_ON_SERVER_NAME)) = []"
  "answer_of full_table (q_query (argument_queries ! IP_ID_ON_SERVER_NAME)) = []"
  "answer_of full_table (q_query (argument_queries ! A_RECORDS_WITH_IP)) = []"
  "answer_of full_table (q_query (argument_queries ! BUILD_DOMAIN_NET_INFO)) = [[SQL_INT 7, SQL_INT 10, SQL_INT 11]]"
  "answer_of full_table (q_query (argument_queries ! BUILD_IP_ON_BUILD_DOMAIN_ID)) = [[SQL_INT 10], [SQL_INT 11]]"
  "answer_of full_table (q_query (argument_queries ! BUILD_DOMAIN_ID_ON_DOMAIN)) = [[SQL_INT 7]]"
  "answer_of full_table (q_query (argument_queries ! SEED_SCHEME_LVM_ON_ID)) = [[SQL_INT 7]]"
  by code_simp+

lemma ten_eleven: "{10..11} \<subseteq> {10, 11 :: u64}"
  unfolding set_addresses [symmetric] by (simp add: addresses_def upt_conv_Cons)

theorem full_domain_ends_with_success_witness:
  "create_build_config (table_api full_table) 1000 (Some dns_cc) (Some mac_line) demo_world = Some (0, demo_world\<lparr>w_db := 3\<rparr>)"
  by (rule full_domain_ends_with_success [OF table_api_up mac_new_build [OF full_table_answers],
        where disk = "''vda''" and zone = "''ailsa.org''" and lvm = 7 and bd = 7 and start = 10 and lip = 11 and used = "[10, 11]"])
    (use ten_eleven in \<open>simp_all add: name_rows_def rows_table full_table_domain mac_line_def disk_values_def demo_world_def dns_names_texts_def del: nth_map\<close>)

subsection \<open>Changing a build\<close>

text \<open>A step that leaves every value but those at the given positions, and the database, as they were.\<close>

definition touches :: "nat set \<Rightarrow> 'db \<Rightarrow> ailsa_data list \<Rightarrow> 'db query_result \<Rightarrow> bool" where
  "touches ns v b m \<longleftrightarrow> (\<forall>r w l. m = Some (r, w, l) \<longrightarrow> w_db w = v \<and>
     (\<exists>b'. l = Some b' \<and> length b' = length b \<and> (\<forall>n<length b. n \<notin> ns \<longrightarrow> b' ! n = b ! n)))"

lemma touches_Some: "w_db w = v \<Longrightarrow> touches ns v b (Some (r, w, Some b))"
  by (simp add: touches_def)

lemma touches_replaced: "w_db w = v \<Longrightarrow> n \<in> ns \<Longrightarrow> touches ns v b (replaced w b d n)"
proof -
  assume "w_db w = v" "n \<in> ns"
  moreover have "b[n := x] ! k = b ! k" if "k \<notin> ns" for x k
    using that \<open>n \<in> ns\<close> by (metis nth_list_update_neq)
  ultimately show ?thesis by (auto simp: touches_def replaced_def replace_row_def)
qed

lemma touchesD: "touches ns v b m \<Longrightarrow> m = Some (r, w, l) \<Longrightarrow> w_db w = v \<and>
     (\<exists>b'. l = Some b' \<and> length b' = length b \<and> (\<forall>n<length b. n \<notin> ns \<longrightarrow> b' ! n = b ! n))"
  by (simp add: touches_def)

lemma touches_build:
  assumes "answers v q" "\<And>w rows. w_db w = v \<Longrightarrow> touches ns v b (k w rows)"
  shows "touches ns v b (then_build b q k)"
proof -
  have "touches ns v b (if r \<noteq> 0 then Some (r, w, Some b) else k w rows)" if "q = Some (r, w, Some rows)" for r w rows
    using assms(1) assms(2) [of w rows] that by (auto simp: answers_def touches_def)
  then show ?thesis by (cases q) (auto simp: then_build_def touches_def bind_eq_Some_conv)
qed

lemma touches_mono:
  assumes "touches ns v b m" "ns \<subseteq> ms" shows "touches ms v b m"
  unfolding touches_def
proof (intro allI impI)
  fix r w l assume "m = Some (r, w, l)"
  from touchesD [OF assms(1) this] show "w_db w = v \<and>
     (\<exists>b'. l = Some b' \<and> length b' = length b \<and> (\<forall>n<length b. n \<notin> ms \<longrightarrow> b' ! n = b ! n))"
    using assms(2) by blast
qed

lemma reads_check_varient: "cmdb_check_add_varient_id_to_list api w x cc l = Some (r, w', l') \<Longrightarrow> reads w l w' l'"
  by (auto simp: cmdb_check_add_varient_id_to_list_def split: if_splits intro: varient_lookup.check_reads)

lemma reads_locale: "cmdb_add_locale_id_to_list api w x cc l = Some (r, w', l') \<Longrightarrow> reads w l w' l'"
  by (auto simp: cmdb_add_locale_id_to_list_def split: if_splits intro: reads_intros)

lemma lookup_answers:
  assumes "w_db w = v"
  shows "answers v (cmdb_check_add_varient_id_to_list api w x cc l)" "answers v (cmdb_add_scheme_id_to_list api w x cc l)"
    "answers v (cmdb_add_locale_id_to_list api w x cc l)" "answers v (cmdb_add_os_id_to_list api w os cc l)"
  by (rule reads_answers [OF _ assms], erule reads_check_varient reads_scheme reads_locale reads_os)+

lemma listed_answers: "w_db w = v \<Longrightarrow> answers v (listed_in w call)"
  by (simp add: listed_in_def answers_def split: prod.split)

lemma touches_rows:
  "touches ns v b m \<Longrightarrow> (\<And>d ds. touches ns v b (k d ds)) \<Longrightarrow> touches ns v b (case rows of [] \<Rightarrow> m | d # ds \<Rightarrow> k d ds)"
  by (cases rows) simp_all

lemma touches_if: "(c \<Longrightarrow> touches ns v b x) \<Longrightarrow> (\<not> c \<Longrightarrow> touches ns v b y) \<Longrightarrow> touches ns v b (if c then x else y)"
  by simp

lemma touches_None: "touches ns v b None"
  by (simp add: touches_def)

lemma touches_bind: "(\<And>x. m = Some x \<Longrightarrow> touches ns v b (k x)) \<Longrightarrow> touches ns v b (m \<bind> k)"
  by (cases m) (simp_all add: touches_def)

lemmas touches_steps = touches_Some touches_None touches_if touches_rows touches_build touches_replaced insertI1 insertI2
  lookup_answers listed_answers answers_queries

lemma varient_touches: "w_db w = v \<Longrightarrow> touches {0} v b (ailsa_modify_build_varient api varient cbt w (Some b))"
  unfolding ailsa_modify_build_varient_def by (simp only: opened_up) (intro touches_steps; assumption)

lemma scheme_touches: "w_db w = v \<Longrightarrow> touches {4} v b (ailsa_modify_build_partition_scheme api scheme cbt w (Some b))"
  unfolding ailsa_modify_build_partition_scheme_def by (simp only: opened_up) (intro touches_steps; assumption)

lemma locale_touches: "w_db w = v \<Longrightarrow> touches {3} v b (ailsa_modify_build_locale api loc cbt w (Some b))"
  unfolding ailsa_modify_build_locale_def by (simp only: opened_up) (intro touches_steps; assumption)

lemma full_os_answers: "cmdb_get_full_os api os cbt i w = Some (r, w', os') \<Longrightarrow> w_db w' = w_db w"
  by (auto simp: cmdb_get_full_os_def bind_eq_Some_conv split: prod.splits if_splits dest!: query_db(2) [OF _ refl])

lemma touches_call:
  assumes "\<And>x. m = Some x \<Longrightarrow> w_db (fst (snd x)) = v" "\<And>x. w_db (fst (snd x)) = v \<Longrightarrow> touches ns v b (k x)"
  shows "touches ns v b (m \<bind> k)"
  using assms by (intro touches_bind) simp

lemma os_touches:
  assumes "w_db w = v" shows "touches {1} v b (ailsa_modify_build_os api os cbt w (Some b))"
proof -
  have "w_db (fst (snd x)) = v" if "(if None \<in> set os then get_number (b ! 1) \<bind> (\<lambda>i. cmdb_get_full_os api os cbt i w)
      else Some (0, w, os)) = Some x" for x
    using that assms by (cases x) (auto simp: bind_eq_Some_conv split: if_splits dest!: full_os_answers)
  then show ?thesis
    unfolding ailsa_modify_build_os_def
    by (simp only: opened_up)
      (intro touches_Some touches_None touches_if assms touches_call; (assumption | intro touches_steps; assumption)?)
qed

text \<open>The chain of changes: every option that was given adds its positions.\<close>

definition changes :: "nat set \<Rightarrow> (int \<Rightarrow> 'db world \<Rightarrow> db_list \<Rightarrow> 'db query_result) \<Rightarrow> bool" where
  "changes ns f \<longleftrightarrow> (\<forall>r w b. touches ns (w_db w) b (f r w (Some b)))"

lemma changes_end: "changes {} (\<lambda>retval w build. Some (retval, w, build))"
  by (simp add: changes_def touches_Some)

lemma changes_when:
  assumes "\<And>w b. touches ns (w_db w) b (change w (Some b))" "changes ms rest"
  shows "changes ((if asked then ns else {}) \<union> ms) (when_given asked change rest)"
proof -
  have "touches (ns \<union> ms) (w_db w) b (change w (Some b) \<bind>
      (\<lambda>(retval, w, build). if retval \<noteq> 0 then Some (retval, w, build) else rest retval w build))" for w b
  proof (rule touches_bind)
    fix x assume x: "change w (Some b) = Some x"
    obtain r w1 l1 where l1: "x = (r, w1, l1)" by (rule prod_cases3)
    from touchesD [OF assms(1) x [unfolded l1]]
    obtain b1 where x': "x = (r, w1, Some b1)" "w_db w1 = w_db w" "length b1 = length b"
      "\<forall>n<length b. n \<notin> ns \<longrightarrow> b1 ! n = b ! n"
      using l1 by blast
    have "touches (ns \<union> ms) (w_db w) b (rest r w1 (Some b1))"
      unfolding touches_def
    proof (intro allI impI)
      fix r2 w2 l2 assume "rest r w1 (Some b1) = Some (r2, w2, l2)"
      with assms(2) have "w_db w2 = w_db w1 \<and>
          (\<exists>b2. l2 = Some b2 \<and> length b2 = length b1 \<and> (\<forall>n<length b1. n \<notin> ms \<longrightarrow> b2 ! n = b1 ! n))"
        unfolding changes_def by (blast dest: touchesD)
      then show "w_db w2 = w_db w \<and>
          (\<exists>b2. l2 = Some b2 \<and> length b2 = length b \<and> (\<forall>n<length b. n \<notin> ns \<union> ms \<longrightarrow> b2 ! n = b ! n))"
        using x'(2-4) by (metis UnCI)
    qed
    moreover have "touches (ns \<union> ms) (w_db w) b (Some (r, w1, Some b1))"
      unfolding touches_def using x'(2-4) by blast
    ultimately show "touches (ns \<union> ms) (w_db w) b (case x of (retval, w, build) \<Rightarrow>
        if retval \<noteq> 0 then Some (retval, w, build) else rest retval w build)"
      by (simp only: x'(1) prod.case split: if_split) simp
  qed
  then show ?thesis using assms(2) by (cases asked) (simp_all add: changes_def when_given_def)
qed

lemma netcard_touches: "w_db w = v \<Longrightarrow> touches {5, 6} v b (ailsa_modify_build_netcard api netdev server cbt w (Some b))"
proof -
  assume w: "w_db w = v"
  have "touches {5, 6} v b (then_same (replaced w b d 6) (\<lambda>w b. replaced w b mac 5))" if "w_db w = v" for w d mac
    using that by (auto simp: touches_def then_same_def replaced_def replace_row_def bind_eq_Some_conv)
  then show ?thesis using w unfolding ailsa_modify_build_netcard_def
    by (simp only: opened_up) (intro touches_Some touches_if touches_rows touches_build answers_queries listed_answers; assumption)
qed

definition asked_positions :: "cbc_comm_line_s \<Rightarrow> nat set" where
  "asked_positions cl = (if bcl_varient cl \<noteq> None then {0} else {}) \<union> (if bcl_partition cl \<noteq> None then {4} else {}) \<union>
     (if bcl_locale cl \<noteq> None then {3} else {}) \<union> (if bcl_netcard cl \<noteq> None then {5, 6} else {}) \<union>
     (if bcl_os cl \<noteq> None \<or> bcl_os_version cl \<noteq> None \<or> bcl_arch cl \<noteq> None then {1} else {})"

lemma asked_changes:
  "changes (asked_positions cl)
     (when_given (bcl_varient cl \<noteq> None) (ailsa_modify_build_varient api (bcl_varient cl) cbt)
     (when_given (bcl_partition cl \<noteq> None) (ailsa_modify_build_partition_scheme api (bcl_partition cl) cbt)
     (when_given (bcl_locale cl \<noteq> None) (ailsa_modify_build_locale api (bcl_locale cl) cbt)
     (when_given (bcl_netcard cl \<noteq> None) (ailsa_modify_build_netcard api (bcl_netcard cl) (bcl_name cl) cbt)
     (when_given (bcl_os cl \<noteq> None \<or> bcl_os_version cl \<noteq> None \<or> bcl_arch cl \<noteq> None) (ailsa_modify_build_os api os cbt)
     (\<lambda>retval w build. Some (retval, w, build)))))))"
  using changes_when [OF varient_touches [OF refl] changes_when [OF scheme_touches [OF refl] changes_when [OF locale_touches [OF refl]
        changes_when [OF netcard_touches [OF refl] changes_when [OF os_touches [OF refl] changes_end]]]]]
  by (simp only: asked_positions_def Un_assoc Un_empty_right)


lemma varient_changed:
  "ailsa_get_modified_build (rows_api [[SQL_INT 7]]) (Some dns_cc) (Some (cbc_line_zero\<lparr>bcl_varient := Some ''base''\<rparr>)) demo_world
     (Some (map D_LINT [1, 2, 3, 4, 5, 6, 8])) = Some (0, demo_world, Some (map D_LINT [7, 2, 3, 4, 5, 6, 8]))"
  by (simp add: ailsa_get_modified_build_def when_given_def ailsa_modify_build_varient_def varient_checked [OF rows_api_up]
      varient_rows_def then_build_def replaced_def replace_row_def copy_data_def cbc_line_zero_def)

lemma varient_asked: "asked_positions (cbc_line_zero\<lparr>bcl_varient := Some ''base''\<rparr>) = {0}"
  by (simp add: asked_positions_def cbc_line_zero_def)


end
