(* ===== verification/Tool_Frame.thy ===== *)
theory Tool_Frame
  imports Cbc_Domain Cbc_Locale Cbc_Os Cbc_Part Cbc_Script Cbc_Sysp Cbc_Varient Build_Specs
begin

text \<open>
  The commands that maintain the data of builds change nothing when they list and display: rules for the steps they print
  with, and what follows for each of the seven commands.
\<close>

lemma prints_ask:
  assumes "answers v q" "\<And>w rows. w_db w = v \<Longrightarrow> prints v (rest w rows)"
  shows "prints v (ask q rest)"
  unfolding ask_def
  by (simp only: opened_up) (intro prints_query [where q = q] assms stays_bind stays_if prints_Some; assumption)

lemma prints_ask_list: "w_db w = v \<Longrightarrow> (\<And>l. prints v (rest l)) \<Longrightarrow> prints v (ask_list w call rest)"
  unfolding ask_list_def by (intro stays_if prints_Some)

lemma prints_says: "w_db w = v \<Longrightarrow> prints v (says w t)"
  by (cases t) (simp_all add: says_def stays_def)

lemma prints_saying: "prints v m \<Longrightarrow> prints v (saying t m)"
  by (auto simp: saying_def stays_def)

lemma prints_coded_text: "prints v m \<Longrightarrow> prints v (map_option (\<lambda>x. (0, fst (snd x), snd (snd x))) m)"
  by (auto simp: stays_def)

lemma reads_builds: "check_builds_for_os_id api w cc i l = Some (r, w', l') \<Longrightarrow> reads w l w' l'"
  by (auto simp: check_builds_for_os_id_def split: if_splits prod.splits dest: reads_argument)

lemma answers_lookups:
  assumes "w_db w = v"
  shows "answers v (check_builds_for_os_id api w cc i l)" "answers v (cmdb_add_os_id_to_list api w a cc l)"
    "answers v (cmdb_check_add_varient_id_to_list api w x cc l)" "answers v (cmdb_add_varient_id_to_list api w x cc l)"
  by (rule reads_answers [OF _ assms], erule reads_builds reads_os reads_check_varient reads_varient)+

lemma answers_individual: "w_db w = v \<Longrightarrow> answers v (ailsa_individual_query api w cc q a l)"
  unfolding answers_def ailsa_individual_query_def
  by (intro allI impI, elim on_dbtype_cases) (use argument_query_sqlite_reads in blast, simp)

lemmas printing = prints_ask prints_ask_list prints_says prints_saying prints_Some stays_None stays_if stays_bind stays_option
  answers_queries answers_lookups answers_individual

subsection \<open>The seven commands\<close>

lemma domain_looks:
  "prints (w_db w) (list_cbc_build_domain api cc dl w)" "prints (w_db w) (display_cbc_build_domain api pw cc dl w)"
  unfolding list_cbc_build_domain_def display_cbc_build_domain_def
  by (cases dl; (simp only: opened_up)?; intro printing; (assumption | rule refl))+

lemma locale_looks:
  "prints (w_db w) (list_locales api cc w)" "prints (w_db w) (display_locale api cc ll w)" "prints (w_db w) (display_servers_in_locale api cc ll w)"
  unfolding list_locales_def display_locale_def display_servers_in_locale_def get_default_locale_def
  by (cases ll; (simp only: opened_up)?; intro printing; (assumption | rule refl))+

lemma part_rows_print: "w_db w = v \<Longrightarrow> prints v (scheme_partitions api cc s lvm w rs)"
proof (induction rs arbitrary: w)
  case (Cons r rs)
  note IH = Cons.IH
  show ?case unfolding scheme_partitions.simps
    by (intro printing IH Cons.prems; assumption)
qed (simp add: stays_def)

lemma part_looks:
  "prints (w_db w) (list_seed_schemes api cc w)" "prints (w_db w) (display_full_seed_scheme api pw cc pl w)"
  "prints (w_db w) (display_servers_with_scheme api cc pl w)"
  unfolding list_seed_schemes_def display_full_seed_scheme_def display_servers_with_scheme_def
  by (cases pl; (simp only: opened_up)?; intro printing part_rows_print; (assumption | rule refl))+

lemma script_looks:
  "prints (w_db w) (cbc_script_list_script api cc w)" "prints (w_db w) (cbc_script_display_script api cc sl w)"
  unfolding cbc_script_list_script_def cbc_script_display_script_def cbc_script_args_display_all_domain_def
    cbc_script_args_display_one_domain_def cbc_script_args_display_one_script_def
  by ((simp only: opened_up)?; intro printing; (assumption | rule refl))+

lemma sysp_looks:
  "prints (w_db w) (list_cbc_syspackage api cc w)" "prints (w_db w) (list_cbc_syspackage_arg api cc so w)"
  "prints (w_db w) (list_cbc_syspackage_conf api cc sl w)"
  unfolding list_cbc_syspackage_def list_cbc_syspackage_arg_def list_cbc_syspackage_conf_def
  by (cases so; (simp only: opened_up)?; intro printing; (assumption | rule refl))+

lemma os_ids_answer: "w_db w = v \<Longrightarrow> answers v (get_cbcos_id_list api w cc cl l)"
  unfolding get_cbcos_id_list_def
  by (cases cl; simp only: opened_up)
    (intro answers_Some answers_if answers_bind answers_call [where q = "cmdb_add_os_id_to_list _ _ _ _ _"] answers_lookups; assumption)+

lemma os_servers_print: "w_db w = v \<Longrightarrow> prints v (os_servers api cc os_id w es)"
proof (induction es arbitrary: os_id w)
  case (Cons e es)
  note IH = Cons.IH
  show ?case unfolding os_servers.simps Let_def
    by (intro printing IH Cons.prems; assumption)
qed (simp add: stays_def)

lemma os_looks:
  "prints (w_db w) (list_cbc_build_os api cc w)" "prints (w_db w) (display_cbc_build_os api pw cc ol w)"
  "prints (w_db w) (display_servers_with_build_os api cc ol w)"
  unfolding list_cbc_build_os_def display_cbc_build_os_def display_servers_with_build_os_def
  by (cases ol; (simp only: opened_up)?; intro printing prints_coded_text os_servers_print os_ids_answer; (assumption | rule refl))+

lemma varient_looks:
  "prints (w_db w) (list_cbc_build_varient api pw cc w)" "prints (w_db w) (display_servers_with_varient api cc vl w)"
  "prints (w_db w) (display_cbc_build_varient api cc vl w)"
  unfolding list_cbc_build_varient_def display_servers_with_varient_def display_cbc_build_varient_def
  by (cases vl; (simp only: opened_up)?; intro printing; (assumption | rule refl))+

subsection \<open>Looking\<close>

lemma connection_untouched: "prints (w_db (si_world st)) m \<Longrightarrow> on_connection st m = Some (r, t, st') \<Longrightarrow> untouched st st'"
  by (auto simp: on_connection_def untouched_def stays_def)

lemma untouched_refl: "untouched st st"
  by (simp add: untouched_def)

lemmas looks = domain_looks locale_looks part_looks script_looks sysp_looks os_looks varient_looks

text \<open>C28: Listing, displaying and asking for the servers of a thing leave the database, the files and the commands as they
  were, in each of the seven commands that maintain the data of builds.\<close>

theorem data_looking_changes_nothing:
  assumes "a \<in> {CMDB_LIST, CMDB_DISPLAY, CBC_SERVER}"
    and "result \<in> {cbcdomain_dispatch api os ifs pw cc (dl\<lparr>cdl_action := a\<rparr>) st, cbclocale_dispatch api uid cc (ll\<lparr>lcl_action := a\<rparr>) st,
      cbcos_dispatch api os net pw cc (ol\<lparr>ocl_action := a\<rparr>) st, cbcpart_dispatch api uid pw cc (pl\<lparr>pcl_action := a\<rparr>) st,
      cbcscript_dispatch api uid cc (sl\<lparr>ss_action := a\<rparr>) st, cbcsysp_dispatch version prog api uid cc (yl\<lparr>sp_action := a\<rparr>) st,
      cbcvarient_dispatch api uid pw cc (vl\<lparr>vcl_action := a\<rparr>) st}"
    and "result = Some (r, t, st')"
  shows "w_db (si_world st') = w_db (si_world st) \<and> si_files st' = si_files st \<and> si_commands st' = si_commands st"
proof -
  note look = looks [THEN connection_untouched]
  have "untouched st st'"
    using assms
    by (elim insertE emptyE; simp only: cbcdomain_dispatch_def cbclocale_dispatch_def cbcos_dispatch_def cbcpart_dispatch_def
        cbcscript_dispatch_def cbcsysp_dispatch_def cbcvarient_dispatch_def Let_def;
      auto split: if_splits intro: untouched_refl dest: look)
  then show ?thesis by (simp add: untouched_def)
qed

theorem data_looking_changes_nothing_witness:
  "\<exists>st'. cbcscript_dispatch (table_api [(''SELECT'', [[SQL_TEXT ''motd'']])]) 1000 (Some dns_cc)
     (script_line_zero\<lparr>ss_action := CMDB_LIST\<rparr>) demo_site = Some (0, ''motd'' @ nl, st') \<and> w_db (si_world st') = w_db (si_world demo_site)"
proof -
  let ?api = "table_api [(''SELECT'', [[SQL_TEXT ''motd'']])]"
  have "answer_of [(''SELECT'', [[SQL_TEXT ''motd'']])] (basic_queries ! SYSTEM_SCRIPT_NAMES) = [[SQL_TEXT ''motd'']]" by code_simp
  then have "ailsa_basic_query ?api w (Some dns_cc) SYSTEM_SCRIPT_NAMES (Some []) = Some (0, w, Some [D_TEXT (strndup ''motd'' SQL_TEXT_MAX)])" for w
    using up_basic [OF table_api_up, of SYSTEM_SCRIPT_NAMES _ w "[]"] by (simp add: rows_table table_lengths del: nth_map)
  then have run: "cbcscript_dispatch ?api 1000 (Some dns_cc) (script_line_zero\<lparr>ss_action := CMDB_LIST\<rparr>) demo_site =
      Some (0, ''motd'' @ nl, demo_site)"
    by (simp add: cbcscript_dispatch_def on_connection_def cbc_script_list_script_def ask_def says_def text_of_def strndup_def Let_def)
  show ?thesis
    using data_looking_changes_nothing [OF _ _ run, of CMDB_LIST] run by blast
qed

end
