(* ===== verification/Tool_Specs.thy ===== *)
theory Tool_Specs
  imports Cbc_Domain Cbc_Os Cbc_Part Cbc_Varient Build_Specs
begin

text \<open>
  What the commands that maintain the data of builds promise when they choose a default, on a database that is up.
  The four commands that keep a default row of their own share one contract, stated as a locale.
\<close>

subsection \<open>The default row\<close>

text \<open>What a database does with a table of one default: an insertion adds the id to the rows that are read, an
  update without a condition sets it in all of them.\<close>

definition keeps_defaults :: "'db sqlite3_api \<Rightarrow> nat \<Rightarrow> nat \<Rightarrow> nat \<Rightarrow> bool" where
  "keeps_defaults api query ins upd \<longleftrightarrow> (\<forall>w w1 rid u.
     (executed api w (q_query (insert_queries ! ins)) [SQL_INT rid, SQL_INT u, SQL_INT u] = (0, w1) \<longrightarrow>
        rows_of api w1 (basic_queries ! query) [] = rows_of api w (basic_queries ! query) [] @ [D_LINT rid]) \<and>
     (executed api w (q_query (update_queries ! upd)) [SQL_INT rid, SQL_INT u] = (0, w1) \<longrightarrow>
        rows_of api w1 (basic_queries ! query) [] = map (\<lambda>_. D_LINT rid) (rows_of api w (basic_queries ! query) [])))"

locale default_row =
  fixes query ins upd :: nat
  assumes known: "query < length basic_queries" "ins < length insert_queries" "upd < length update_queries"
    and row: "q_fields (insert_queries ! ins) = [AILSA_DB_LINT, AILSA_DB_LINT, AILSA_DB_LINT]"
    and change: "q_fields (update_queries ! upd) = [AILSA_DB_LINT, AILSA_DB_LINT]"
begin

lemma chosen:
  assumes "database_up api cc" "reads_up api"
  shows "set_default_row api uid (Some cc) query ins upd w [D_LINT rid] =
    Some (if rows_of api w (basic_queries ! query) [] = []
      then executed api w (q_query (insert_queries ! ins)) [SQL_INT rid, SQL_INT (ucast uid), SQL_INT (ucast uid)]
      else executed api w (q_query (update_queries ! upd)) [SQL_INT rid, SQL_INT (ucast uid)])"
proof -
  have i: "args_values (q_fields (insert_queries ! ins)) [D_LINT rid, D_LINT (ucast uid), D_LINT (ucast uid)] =
      Some [SQL_INT rid, SQL_INT (ucast uid), SQL_INT (ucast uid)]"
    by (simp add: row)
  have u: "args_values (q_fields (update_queries ! upd)) [D_LINT rid, D_LINT (ucast uid)] =
      Some [SQL_INT rid, SQL_INT (ucast uid)]"
    by (simp add: change)
  show ?thesis
    using up_insert [OF assms(1) known(2) i] up_update [OF assms(1) known(3) u]
    by (simp add: set_default_row_def then_rows_def then_list_def up_basic [OF assms known(1)]
        cmdb_populate_cuser_muser_def cmdb_add_number_to_list_def db_insert_def)
qed

lemma sole:
  assumes "database_up api cc" "reads_up api" "keeps_defaults api query ins upd"
    and "length (rows_of api w (basic_queries ! query) []) \<le> 1"
    and "set_default_row api uid (Some cc) query ins upd w [D_LINT rid] = Some (0, w1)"
  shows "rows_of api w1 (basic_queries ! query) [] = [D_LINT rid]"
proof (cases "rows_of api w (basic_queries ! query) [] = []")
  case True
  then have "executed api w (q_query (insert_queries ! ins)) [SQL_INT rid, SQL_INT (ucast uid), SQL_INT (ucast uid)] = (0, w1)"
    using assms(5) by (simp add: chosen [OF assms(1,2)])
  then show ?thesis using assms(3) True unfolding keeps_defaults_def by fastforce
next
  case False
  then obtain d where d: "rows_of api w (basic_queries ! query) [] = [d]"
    using assms(4) by (cases "rows_of api w (basic_queries ! query) []") auto
  have "executed api w (q_query (update_queries ! upd)) [SQL_INT rid, SQL_INT (ucast uid)] = (0, w1)"
    using assms(5) False by (simp add: chosen [OF assms(1,2)])
  then show ?thesis using assms(3) d unfolding keeps_defaults_def by fastforce
qed

end

lemma default_fields:
  "q_fields (insert_queries ! INSERT_DEFAULT_OS) = [AILSA_DB_LINT, AILSA_DB_LINT, AILSA_DB_LINT]"
  "q_fields (insert_queries ! INSERT_DEFAULT_SCHEME) = [AILSA_DB_LINT, AILSA_DB_LINT, AILSA_DB_LINT]"
  "q_fields (insert_queries ! INSERT_DEFAULT_VARIENT) = [AILSA_DB_LINT, AILSA_DB_LINT, AILSA_DB_LINT]"
  "q_fields (insert_queries ! INSERT_DEFAULT_DOMAIN) = [AILSA_DB_LINT, AILSA_DB_LINT, AILSA_DB_LINT]"
  "q_fields (update_queries ! UPDATE_DEFAULT_OS) = [AILSA_DB_LINT, AILSA_DB_LINT]"
  "q_fields (update_queries ! UPDATE_DEFAULT_SCHEME) = [AILSA_DB_LINT, AILSA_DB_LINT]"
  "q_fields (update_queries ! UPDATE_DEFAULT_VARIENT) = [AILSA_DB_LINT, AILSA_DB_LINT]"
  "q_fields (update_queries ! UPDATE_DEFAULT_DOMAIN) = [AILSA_DB_LINT, AILSA_DB_LINT]"
  by (simp_all add: statement_fields insert_fields update_fields table_lengths del: nth_map)

interpretation os_default: default_row DEFAULT_OS INSERT_DEFAULT_OS UPDATE_DEFAULT_OS
  by unfold_locales (simp_all add: default_fields table_lengths)

interpretation scheme_default: default_row DEFAULT_SCHEME INSERT_DEFAULT_SCHEME UPDATE_DEFAULT_SCHEME
  by unfold_locales (simp_all add: default_fields table_lengths)

interpretation varient_default: default_row DEFAULT_VARIENT INSERT_DEFAULT_VARIENT UPDATE_DEFAULT_VARIENT
  by unfold_locales (simp_all add: default_fields table_lengths)

interpretation domain_default: default_row DEFAULT_DOMAIN INSERT_DEFAULT_DOMAIN UPDATE_DEFAULT_DOMAIN
  by unfold_locales (simp_all add: default_fields table_lengths)

text \<open>The rows a line names: exactly one, for each of the four commands.\<close>

lemma default_operations:
  assumes "database_up api cc" "reads_up api"
  shows "pcl_scheme pl = Some s \<Longrightarrow> name_rows api w SCHEME_ID_ON_NAME s = [D_LINT rid] \<Longrightarrow>
      set_default_scheme api uid (Some cc) (Some pl) w =
        set_default_row api uid (Some cc) DEFAULT_SCHEME INSERT_DEFAULT_SCHEME UPDATE_DEFAULT_SCHEME w [D_LINT rid]"
    "cdl_domain dl = Some s \<Longrightarrow> name_rows api w BUILD_DOMAIN_ID_ON_DOMAIN s = [D_LINT rid] \<Longrightarrow>
      set_default_cbc_build_domain api uid (Some cc) (Some dl) w =
        set_default_row api uid (Some cc) DEFAULT_DOMAIN INSERT_DEFAULT_DOMAIN UPDATE_DEFAULT_DOMAIN w [D_LINT rid]"
    "either_text (vcl_varient vl) (vcl_valias vl) = Some s \<Longrightarrow> varient_rows api w (Some s) = [D_LINT rid] \<Longrightarrow>
      set_default_cbc_varient api uid (Some cc) (Some vl) w =
        set_default_row api uid (Some cc) DEFAULT_VARIENT INSERT_DEFAULT_VARIENT UPDATE_DEFAULT_VARIENT w [D_LINT rid]"
  by (simp_all add: set_default_scheme_def set_default_cbc_build_domain_def set_default_cbc_varient_def then_rows_def
      detail_lookups [OF assms] varient_checked [OF assms] named_or_default_def)

lemma default_os_operation:
  assumes "cmdb_add_os_id_to_list api w (Some [Some os, Some version, Some arch]) (Some cc) (Some []) = Some (0, w, Some [D_LINT rid])"
    and "ocl_os ol = Some os" "ocl_version ol = Some version" "ocl_arch ol = Some arch"
  shows "cbcos_set_default_os api uid (Some cc) (Some ol) w =
    set_default_row api uid (Some cc) DEFAULT_OS INSERT_DEFAULT_OS UPDATE_DEFAULT_OS w [D_LINT rid]"
  using assms by (simp add: cbcos_set_default_os_def then_rows_def)

text \<open>C27: Choosing a default leaves exactly one: after cbcpart, cbcdomain, cbcvarient or cbcos has set the default to the
  scheme, domain, varient or operating system of the line, the default that is read is that one and no other, whether
  there was a default before or none.\<close>

theorem chosen_default_is_the_only_one:
  assumes "database_up api cc" "reads_up api"
    and "keeps_defaults api DEFAULT_SCHEME INSERT_DEFAULT_SCHEME UPDATE_DEFAULT_SCHEME"
      "keeps_defaults api DEFAULT_DOMAIN INSERT_DEFAULT_DOMAIN UPDATE_DEFAULT_DOMAIN"
      "keeps_defaults api DEFAULT_VARIENT INSERT_DEFAULT_VARIENT UPDATE_DEFAULT_VARIENT"
      "keeps_defaults api DEFAULT_OS INSERT_DEFAULT_OS UPDATE_DEFAULT_OS"
    and "\<forall>q\<in>{DEFAULT_SCHEME, DEFAULT_DOMAIN, DEFAULT_VARIENT, DEFAULT_OS}. length (rows_of api w (basic_queries ! q) []) \<le> 1"
  shows "(pcl_scheme pl = Some s \<and> name_rows api w SCHEME_ID_ON_NAME s = [D_LINT rid] \<and>
       set_default_scheme api uid (Some cc) (Some pl) w = Some (0, w1) \<longrightarrow>
       rows_of api w1 (basic_queries ! DEFAULT_SCHEME) [] = [D_LINT rid]) \<and>
    (cdl_domain dl = Some s \<and> name_rows api w BUILD_DOMAIN_ID_ON_DOMAIN s = [D_LINT rid] \<and>
       set_default_cbc_build_domain api uid (Some cc) (Some dl) w = Some (0, w1) \<longrightarrow>
       rows_of api w1 (basic_queries ! DEFAULT_DOMAIN) [] = [D_LINT rid]) \<and>
    (either_text (vcl_varient vl) (vcl_valias vl) = Some s \<and> varient_rows api w (Some s) = [D_LINT rid] \<and>
       set_default_cbc_varient api uid (Some cc) (Some vl) w = Some (0, w1) \<longrightarrow>
       rows_of api w1 (basic_queries ! DEFAULT_VARIENT) [] = [D_LINT rid]) \<and>
    (ocl_os ol = Some s \<and> ocl_version ol = Some version \<and> ocl_arch ol = Some arch \<and>
       cmdb_add_os_id_to_list api w (Some [Some s, Some version, Some arch]) (Some cc) (Some []) = Some (0, w, Some [D_LINT rid]) \<and>
       cbcos_set_default_os api uid (Some cc) (Some ol) w = Some (0, w1) \<longrightarrow>
       rows_of api w1 (basic_queries ! DEFAULT_OS) [] = [D_LINT rid])"
proof -
  note up = assms(1,2)
  have "length (rows_of api w (basic_queries ! DEFAULT_SCHEME) []) \<le> 1" "length (rows_of api w (basic_queries ! DEFAULT_DOMAIN) []) \<le> 1"
    "length (rows_of api w (basic_queries ! DEFAULT_VARIENT) []) \<le> 1" "length (rows_of api w (basic_queries ! DEFAULT_OS) []) \<le> 1"
    using assms(7) by blast+
  note s = scheme_default.sole [OF up assms(3) this(1)] domain_default.sole [OF up assms(4) this(2)]
    varient_default.sole [OF up assms(5) this(3)] os_default.sole [OF up assms(6) this(4)]
  show ?thesis
    by (intro conjI impI; elim conjE)
      (rule s, simp only: default_operations [OF up] default_os_operation)+
qed

text \<open>A database of four defaults, which answers everything else with the number 7.\<close>

definition default_writes :: "(string \<times> string \<times> bool) list" where
  "default_writes = concat (map (\<lambda>(q, i, u). [(q_query (insert_queries ! i), basic_queries ! q, True),
       (q_query (update_queries ! u), basic_queries ! q, False)])
     [(DEFAULT_SCHEME, INSERT_DEFAULT_SCHEME, UPDATE_DEFAULT_SCHEME), (DEFAULT_DOMAIN, INSERT_DEFAULT_DOMAIN, UPDATE_DEFAULT_DOMAIN),
      (DEFAULT_VARIENT, INSERT_DEFAULT_VARIENT, UPDATE_DEFAULT_VARIENT), (DEFAULT_OS, INSERT_DEFAULT_OS, UPDATE_DEFAULT_OS)])"

definition default_api :: "(string \<Rightarrow> sql_value list) sqlite3_api" where
  "default_api = \<lparr>s3_open = (\<lambda>_ _ _. 0), s3_prepare = (\<lambda>_ _. 0),
     s3_bind = (\<lambda>_ stmt i v. if 1 \<le> i \<and> i \<le> marks stmt then 0 else 25),
     s3_rows = (\<lambda>db stmt _. (if stmt \<in> fst ` set (map snd default_writes) then map (\<lambda>v. [v]) (db stmt) else [[SQL_INT 7]], SQLITE_DONE)),
     s3_write = (\<lambda>db stmt vs. (SQLITE_DONE, case map_of default_writes stmt of
         None \<Rightarrow> db
       | Some (q, inserted) \<Rightarrow> db(q := (if inserted then db q @ [hd vs] else map (\<lambda>_. hd vs) (db q)))))\<rparr>"

lemma default_written:
  "map_of default_writes (q_query (insert_queries ! INSERT_DEFAULT_SCHEME)) = Some (basic_queries ! DEFAULT_SCHEME, True)"
  "map_of default_writes (q_query (insert_queries ! INSERT_DEFAULT_DOMAIN)) = Some (basic_queries ! DEFAULT_DOMAIN, True)"
  "map_of default_writes (q_query (insert_queries ! INSERT_DEFAULT_VARIENT)) = Some (basic_queries ! DEFAULT_VARIENT, True)"
  "map_of default_writes (q_query (insert_queries ! INSERT_DEFAULT_OS)) = Some (basic_queries ! DEFAULT_OS, True)"
  "map_of default_writes (q_query (update_queries ! UPDATE_DEFAULT_SCHEME)) = Some (basic_queries ! DEFAULT_SCHEME, False)"
  "map_of default_writes (q_query (update_queries ! UPDATE_DEFAULT_DOMAIN)) = Some (basic_queries ! DEFAULT_DOMAIN, False)"
  "map_of default_writes (q_query (update_queries ! UPDATE_DEFAULT_VARIENT)) = Some (basic_queries ! DEFAULT_VARIENT, False)"
  "map_of default_writes (q_query (update_queries ! UPDATE_DEFAULT_OS)) = Some (basic_queries ! DEFAULT_OS, False)"
  by code_simp+

lemma default_read:
  "basic_queries ! DEFAULT_SCHEME \<in> fst ` set (map snd default_writes)" "basic_queries ! DEFAULT_DOMAIN \<in> fst ` set (map snd default_writes)"
  "basic_queries ! DEFAULT_VARIENT \<in> fst ` set (map snd default_writes)" "basic_queries ! DEFAULT_OS \<in> fst ` set (map snd default_writes)"
  "q_query (argument_queries ! SCHEME_ID_ON_NAME) \<notin> fst ` set (map snd default_writes)"
  by code_simp+

lemma default_api_up: "database_up default_api dns_cc" "reads_up default_api"
  by (simp_all add: database_up_def reads_up_def default_api_def dns_cc_def demo_cc_def binds_by_marks_def)

lemma default_rows: "q \<in> fst ` set (map snd default_writes) \<Longrightarrow> rows_of default_api w q [] = map store_column (w_db w q)"
  by (simp add: rows_of_def default_api_def comp_def)

lemma default_executed:
  "executed default_api w stmt vs = (0, w\<lparr>w_db := (case map_of default_writes stmt of None \<Rightarrow> w_db w
     | Some (q, inserted) \<Rightarrow> (w_db w)(q := (if inserted then w_db w q @ [hd vs] else map (\<lambda>_. hd vs) (w_db w q))))\<rparr>)"
  by (simp add: executed_def default_api_def)

lemma default_keeps:
  assumes "map_of default_writes (q_query (insert_queries ! ins)) = Some (basic_queries ! q, True)"
    and "map_of default_writes (q_query (update_queries ! upd)) = Some (basic_queries ! q, False)"
    and "basic_queries ! q \<in> fst ` set (map snd default_writes)"
  shows "keeps_defaults default_api q ins upd"
  by (auto simp: keeps_defaults_def default_executed default_rows [OF assms(3)] assms(1,2))

lemmas default_api_keeps = default_keeps [OF default_written(1,5) default_read(1)] default_keeps [OF default_written(2,6) default_read(2)]
  default_keeps [OF default_written(3,7) default_read(3)] default_keeps [OF default_written(4,8) default_read(4)]

theorem chosen_default_is_the_only_one_witness:
  "\<exists>w1. set_default_scheme default_api 1000 (Some dns_cc) (Some (cbcpart_line_zero\<lparr>pcl_scheme := Some ''base''\<rparr>))
       \<lparr>w_db = (\<lambda>_. []), w_open = 0\<rparr> = Some (0, w1) \<and>
     rows_of default_api w1 (basic_queries ! DEFAULT_SCHEME) [] = [D_LINT 7]"
proof -
  let ?w = "\<lparr>w_db = (\<lambda>_. []), w_open = 0\<rparr> :: (string \<Rightarrow> sql_value list) world"
  let ?pl = "cbcpart_line_zero\<lparr>pcl_scheme := Some ''base''\<rparr>"
  have n: "name_rows default_api ?w SCHEME_ID_ON_NAME ''base'' = [D_LINT 7]"
    using default_read(5) by (simp add: name_rows_def rows_of_def default_api_def del: nth_map)
  have l: "\<forall>q\<in>{DEFAULT_SCHEME, DEFAULT_DOMAIN, DEFAULT_VARIENT, DEFAULT_OS}. length (rows_of default_api ?w (basic_queries ! q) []) \<le> 1"
    by (simp add: default_rows [OF default_read(1)] default_rows [OF default_read(2)] default_rows [OF default_read(3)]
        default_rows [OF default_read(4)])
  have e: "(rows_of default_api ?w (basic_queries ! DEFAULT_SCHEME) [] = []) = True"
    by (simp add: default_rows [OF default_read(1)])
  have p: "pcl_scheme ?pl = Some ''base''" by simp
  obtain w1 where r: "set_default_scheme default_api 1000 (Some dns_cc) (Some ?pl) ?w = Some (0, w1)"
    unfolding default_operations(1) [OF default_api_up p n] scheme_default.chosen [OF default_api_up] default_executed
    by (simp only: e if_True)
  then show ?thesis
    using chosen_default_is_the_only_one [OF default_api_up default_api_keeps l, of ?pl "''base''" 7 1000 w1] n p by blast
qed

end
