(* ===== verification/Package_Specs.thy ===== *)
theory Package_Specs
  imports Cbc_Varient Cbc_Os Build_Specs
begin

text \<open>
  What the commands promise that add and remove the packages of builds (src/cbcvarient.c, src/cbcos.c), on a database
  that is up: the statement that is executed, and the rows it is executed with.
\<close>

subsection \<open>The values that name operating systems\<close>

definition os_texts :: "string \<Rightarrow> cstr \<Rightarrow> cstr \<Rightarrow> string list" where
  "os_texts os vers arch = [os, os] @ (case vers of None \<Rightarrow> [] | Some v \<Rightarrow> [v, v]) @ (case arch of None \<Rightarrow> [] | Some a \<Rightarrow> [a])"

definition os_flags :: "cstr \<Rightarrow> cstr \<Rightarrow> nat" where
  "os_flags vers arch = (if vers = None then 0 else 1) + (if arch = None then 0 else 2)"

lemma unat_os_flags:
  "unat (os_version_flags vers arch) = os_flags vers arch"
  "unat (or (os_version_flags vers arch) 4) = os_flags vers arch + 4"
  by (cases vers; cases arch; simp add: os_version_flags_def os_flags_def bit_if_def)+

lemmas adding = add_args_def next_arg_def cmdb_add_string_to_list_def cmdb_add_number_to_list_def
  cmdb_populate_cuser_muser_def db_insert_def

lemma os_query_built:
  "get_build_os_query (Some os) vers arch (Some l) =
     (0, Some (l @ map text_element (os_texts os vers arch)), os_flags vers arch + BUILD_OS_ON_NAME_OR_ALIAS)"
  by (cases vers; cases arch; simp add: get_build_os_query_def unat_os_flags(1) adding os_texts_def text_element_def)

lemma delete_query_built:
  "get_delete_package_query (Some p) (Some os) vers arch vari (Some []) =
     (0, Some (map text_element (p # os_texts os vers arch @ (case vari of None \<Rightarrow> [] | Some v \<Rightarrow> [v, v]))),
      os_flags vers arch + (if vari = None then 0 else 4))"
  by (cases vari; simp add: get_delete_package_query_def os_query_built unat_os_flags adding text_element_def bit_if_def)

subsection \<open>Removing packages\<close>

text \<open>As many closing parentheses as opening ones.\<close>

definition parentheses_match :: "string \<Rightarrow> bool" where
  "parentheses_match s \<longleftrightarrow> length (filter (\<lambda>c. c = CHR ''('') s) = length (filter (\<lambda>c. c = CHR '')'') s)"

lemma package_deletes_ok: "list_all query_ok package_deletes"
  by code_simp

lemma package_deletes_texts: "list_all (\<lambda>q. q_fields q = replicate (q_number q) AILSA_DB_TEXT) package_deletes"
  by code_simp

lemma package_deletes_shape:
  "map q_number package_deletes = [3, 5, 4, 6, 5, 7, 6, 8]"
  "map (\<lambda>q. parentheses_match (q_query q)) package_deletes = [True, True, False, True, True, True, False, True]"
  by code_simp+

lemma texts_values: "args_values (replicate (length ts) AILSA_DB_TEXT) (map text_element ts) = Some (map text_value ts)"
  by (induction ts) (simp_all add: text_element_def text_value_def)

lemma package_delete_row:
  fixes vers arch vari :: cstr
  defines "k \<equiv> os_flags vers arch + (if vari = None then 0 else 4)"
  shows "k < length package_deletes"
    "q_number (package_deletes ! k) = length (p # os_texts os vers arch @ (case vari of None \<Rightarrow> [] | Some v \<Rightarrow> [v, v]))"
    "parentheses_match (q_query (package_deletes ! k)) \<longleftrightarrow> arch = None \<or> vers \<noteq> None"
proof -
  have l: "length package_deletes = 8" using arg_cong [OF package_deletes_shape(1), of length] by simp
  show k: "k < length package_deletes" by (simp add: l k_def os_flags_def)
  have "q_number (package_deletes ! k) = [3, 5, 4, 6, 5, 7, 6, 8] ! k"
    using k by (simp flip: package_deletes_shape(1))
  then show "q_number (package_deletes ! k) = length (p # os_texts os vers arch @ (case vari of None \<Rightarrow> [] | Some v \<Rightarrow> [v, v]))"
    by (cases vers; cases arch; cases vari) (simp_all add: k_def os_flags_def os_texts_def)
  have "parentheses_match (q_query (package_deletes ! k)) = [True, True, False, True, True, True, False, True] ! k"
    using k by (simp flip: package_deletes_shape(2))
  then show "parentheses_match (q_query (package_deletes ! k)) \<longleftrightarrow> arch = None \<or> vers \<noteq> None"
    by (cases vers; cases arch; cases vari) (simp_all add: k_def os_flags_def)
qed

text \<open>Removing a package with cbcvarient executes one statement, chosen by which of the version, the architecture
  and the varient are on the line, with the package, the system twice, the version twice, the architecture and the
  varient twice as its values, as many as the statement has marks.  The statement has matching parentheses exactly
  when there is no architecture or there is a version: an architecture without a version leaves one open.\<close>

theorem removing_packages:
  assumes "database_up api cc" "vcl_package cl = Some p" "either_text (vcl_os cl) (vcl_alias cl) = Some os"
    and "version = either_text (vcl_version cl) (vcl_ver_alias cl)" "varient = either_text (vcl_varient cl) (vcl_valias cl)"
    and "stmt = q_query (package_deletes ! (os_flags version (vcl_arch cl) + (if varient = None then 0 else 4)))"
    and "texts = p # os_texts os version (vcl_arch cl) @ (case varient of None \<Rightarrow> [] | Some v \<Rightarrow> [v, v])"
  shows "remove_cbc_package api (Some cc) (Some cl) w = Some (executed api w stmt (map text_value texts)) \<and>
    marks stmt = length texts \<and> (parentheses_match stmt \<longleftrightarrow> vcl_arch cl = None \<or> version \<noteq> None)"
proof -
  let ?k = "os_flags version (vcl_arch cl) + (if varient = None then 0 else 4)"
  note row = package_delete_row [where vers = version and arch = "vcl_arch cl" and vari = varient]
  have ok: "query_ok (package_deletes ! ?k)" using list_all_nth [OF package_deletes_ok row(1)] .
  have fields: "q_fields (package_deletes ! ?k) = replicate (length texts) AILSA_DB_TEXT"
    using list_all_nth [OF package_deletes_texts row(1)] row(2) [of p os] assms(7) by simp
  have "ailsa_delete_query api w (Some cc) (package_deletes ! ?k) (Some (map text_element texts)) =
      Some (executed api w stmt (map text_value texts))"
    unfolding assms(6) by (rule up_delete_query [OF assms(1) ok]) (simp only: fields texts_values)
  moreover have "remove_cbc_package api (Some cc) (Some cl) w =
      ailsa_delete_query api w (Some cc) (package_deletes ! ?k) (Some (map text_element texts))"
    by (simp only: remove_cbc_package_def option.case assms(2,3) assms(4,5) [symmetric] assms(7) delete_query_built prod.case
        option.distinct if_False) simp
  moreover have "marks stmt = length texts" using ok row(2) [of p os] by (simp add: query_ok_def assms(6,7))
  ultimately show ?thesis using row(3) assms(6) by simp
qed

definition package_line :: cbcvari_comm_line_s where
  "package_line = cbcvarient_line_zero\<lparr>vcl_package := Some ''vim'', vcl_os := Some ''debian'', vcl_arch := Some ''x86_64'',
     vcl_varient := Some ''base''\<rparr>"

lemma package_line_texts:
  "vcl_package package_line = Some ''vim''" "either_text (vcl_os package_line) (vcl_alias package_line) = Some ''debian''"
  "vcl_arch package_line = Some ''x86_64''" "either_text (vcl_version package_line) (vcl_ver_alias package_line) = None"
  "either_text (vcl_varient package_line) (vcl_valias package_line) = Some ''base''"
  "either_text (vcl_valias package_line) (vcl_varient package_line) = Some ''base''"
  by (simp_all add: package_line_def cbcvarient_line_zero_def either_text_def)

theorem removing_packages_witness:
  "remove_cbc_package demo_api (Some (demo_cc ''sqlite'')) (Some package_line) demo_world = Some (0, demo_world\<lparr>w_db := 6\<rparr>) \<and>
   \<not> parentheses_match (q_query (package_deletes ! 6))"
  using removing_packages [OF demo_up package_line_texts(1,2) refl refl refl refl, of demo_world]
  by (simp add: package_line_texts os_flags_def os_texts_def executed_def demo_api_def demo_world_def)

subsection \<open>Adding packages\<close>

definition package_row :: "u32 \<Rightarrow> string \<Rightarrow> u64 \<Rightarrow> u64 \<Rightarrow> ailsa_data list" where
  "package_row uid p vid os = [text_element p, D_LINT vid, D_LINT os, D_LINT (ucast uid), D_LINT (ucast uid)]"

definition package_values :: "u32 \<Rightarrow> string \<Rightarrow> u64 \<Rightarrow> u64 \<Rightarrow> sql_value list" where
  "package_values uid p vid os = [text_value p, SQL_INT vid, SQL_INT os, SQL_INT (ucast uid), SQL_INT (ucast uid)]"

lemma package_fields:
  "q_fields (insert_queries ! INSERT_BUILD_PACKAGE) = [AILSA_DB_TEXT, AILSA_DB_LINT, AILSA_DB_LINT, AILSA_DB_LINT, AILSA_DB_LINT]"
  "q_number (insert_queries ! INSERT_BUILD_PACKAGE) = 5"
  "q_fields (argument_queries ! PACKAGE_FULL) = [AILSA_DB_TEXT, AILSA_DB_LINT, AILSA_DB_LINT]"
proof -
  show f: "q_fields (insert_queries ! INSERT_BUILD_PACKAGE) = [AILSA_DB_TEXT, AILSA_DB_LINT, AILSA_DB_LINT, AILSA_DB_LINT, AILSA_DB_LINT]"
    by (simp add: statement_fields insert_fields table_lengths del: nth_map)
  show "q_number (insert_queries ! INSERT_BUILD_PACKAGE) = 5"
    using list_all_nth [OF insert_queries_ok, of INSERT_BUILD_PACKAGE] by (simp add: query_ok_def f table_lengths)
  show "q_fields (argument_queries ! PACKAGE_FULL) = [AILSA_DB_TEXT, AILSA_DB_LINT, AILSA_DB_LINT]"
    by (simp add: statement_fields argument_fields table_lengths del: nth_map)
qed

lemma package_row_some [simp]: "package_row uid p vid os \<noteq> []"
  by (simp add: package_row_def)

text \<open>Rows inserted by one statement.\<close>

lemma package_rows_values:
  "args_values (concat (replicate (length rs) (q_fields (insert_queries ! INSERT_BUILD_PACKAGE))))
     (concat (map (\<lambda>(p, vid, os). package_row uid p vid os) rs)) = Some (concat (map (\<lambda>(p, vid, os). package_values uid p vid os) rs))"
  by (induction rs) (auto simp: package_fields package_row_def package_values_def text_element_def text_value_def simp del: One_nat_def)

lemma packages_inserted:
  assumes "database_up api cc" "rs \<noteq> []" "length rs * 5 < 2 ^ 32"
  shows "ailsa_multiple_query api w (Some cc) (insert_queries ! INSERT_BUILD_PACKAGE)
      (Some (concat (map (\<lambda>(p, vid, os). package_row uid p vid os) rs))) =
    Some (executed api w (multi_insert (insert_queries ! INSERT_BUILD_PACKAGE) (length rs))
      (concat (map (\<lambda>(p, vid, os). package_values uid p vid os) rs)))"
proof -
  have "length (concat (map (\<lambda>(p, vid, os). package_row uid p vid os) rs)) = length rs * 5"
    by (induction rs) (auto simp: package_row_def)
  then show ?thesis
    using up_multiple_insert [OF assms(1), of INSERT_BUILD_PACKAGE "length rs", OF _ _ _ _ package_rows_values] assms(2,3)
    by (simp add: table_lengths package_fields)
qed

lemma package_rows_built:
  "package_rows uid (Some p) vid (map D_LINT oses) (Some l) = Some (0, Some (l @ concat (map (package_row uid p vid) oses)))"
  by (induction oses arbitrary: l) (simp_all add: adding package_row_def text_element_def)

definition package_listed :: "'db sqlite3_api \<Rightarrow> 'db world \<Rightarrow> string \<Rightarrow> u64 \<Rightarrow> u64 \<Rightarrow> bool" where
  "package_listed api w p vid os \<longleftrightarrow>
     rows_of api w (q_query (argument_queries ! PACKAGE_FULL)) [text_value p, SQL_INT vid, SQL_INT os] \<noteq> []"

lemma packages_checked:
  assumes "database_up api cc" "reads_up api"
  shows "check_packages api (Some cc) w before (concat (map (package_row uid p vid) oses)) =
    Some (0, w, Some (before @ concat (map (package_row uid p vid) (filter (\<lambda>os. \<not> package_listed api w p vid os) oses))))"
proof (induction oses arbitrary: before)
  case (Cons os oses)
  have "args_values (q_fields (argument_queries ! PACKAGE_FULL)) [text_element p, D_LINT vid, D_LINT os] =
      Some [text_value p, SQL_INT vid, SQL_INT os]"
    by (simp add: package_fields text_element_def text_value_def del: One_nat_def)
  from up_argument [OF assms _ this, of w "[]"] Cons.IH show ?case
    by (simp add: package_row_def adding text_element_def cut_twice package_listed_def text_value_def table_lengths)
qed simp

lemma os_query_fields:
  "os_flags vers arch + BUILD_OS_ON_NAME_OR_ALIAS < length argument_queries"
  "q_fields (argument_queries ! (os_flags vers arch + BUILD_OS_ON_NAME_OR_ALIAS)) =
     replicate (length (os_texts os vers arch)) AILSA_DB_TEXT"
proof -
  have f: "q_fields (argument_queries ! 18) = replicate 2 AILSA_DB_TEXT" "q_fields (argument_queries ! 19) = replicate 4 AILSA_DB_TEXT"
    "q_fields (argument_queries ! 20) = replicate 3 AILSA_DB_TEXT" "q_fields (argument_queries ! 21) = replicate 5 AILSA_DB_TEXT"
    by (simp_all add: statement_fields argument_fields table_lengths numeral_eq_Suc del: nth_map)
  show "q_fields (argument_queries ! (os_flags vers arch + BUILD_OS_ON_NAME_OR_ALIAS)) =
     replicate (length (os_texts os vers arch)) AILSA_DB_TEXT"
    using f by (cases vers; cases arch; simp add: os_flags_def os_texts_def numeral_eq_Suc)
qed (simp add: os_flags_def table_lengths)

text \<open>C23: Adding a package with cbcvarient inserts, in one statement, one row for each operating system the line names that
  does not have the package in the varient yet, with the package, the ids of the varient and the system and the user;
  it inserts nothing when every one of them has it.\<close>

theorem packages_are_added_where_missing:
  assumes "database_up api cc" "reads_up api"
    and "vcl_package cl = Some p" "either_text (vcl_valias cl) (vcl_varient cl) = Some v" "either_text (vcl_os cl) (vcl_alias cl) = Some os"
    and "version = either_text (vcl_version cl) (vcl_ver_alias cl)"
    and "varient_rows api w (Some v) = [D_LINT vid]"
    and "rows_of api w (q_query (argument_queries ! (os_flags version (vcl_arch cl) + BUILD_OS_ON_NAME_OR_ALIAS)))
      (map text_value (os_texts os version (vcl_arch cl))) = map D_LINT oses"
    and "length oses * 5 < 2 ^ 32" and "missing = filter (\<lambda>os. \<not> package_listed api w p vid os) oses"
  shows "add_cbc_package api uid (Some cc) (Some cl) w = Some (if missing = [] then (0, w)
    else executed api w (multi_insert (insert_queries ! INSERT_BUILD_PACKAGE) (length missing)) (concat (map (package_values uid p vid) missing)))"
proof -
  have "args_values (q_fields (argument_queries ! (os_flags version (vcl_arch cl) + BUILD_OS_ON_NAME_OR_ALIAS)))
      (map text_element (os_texts os version (vcl_arch cl))) = Some (map text_value (os_texts os version (vcl_arch cl)))"
    by (simp only: os_query_fields(2) [of _ _ os] texts_values)
  note q = up_argument [OF assms(1,2) os_query_fields(1) this, of w "[]"]
  have b: "build_package_list api uid (Some cc) w (Some []) (Some p) (Some v) (Some os) version (vcl_arch cl) =
      Some (0, w, Some (concat (map (package_row uid p vid) oses)))"
    by (simp add: build_package_list_def varient_checked [OF assms(1,2)] assms(7) os_query_built q assms(8) package_rows_built)
  have l: "length (concat (map (package_row uid p vid) missing)) = 5 * length missing"
    by (induction missing) (simp_all add: package_row_def)
  have "length missing * 5 < 2 ^ 32"
    using assms(9) length_filter_le [of "\<lambda>os. \<not> package_listed api w p vid os" oses] unfolding assms(10) by linarith
  then have "ailsa_multiple_query api w (Some cc) (insert_queries ! INSERT_BUILD_PACKAGE) (Some (concat (map (package_row uid p vid) missing))) =
      Some (executed api w (multi_insert (insert_queries ! INSERT_BUILD_PACKAGE) (length missing))
        (concat (map (package_values uid p vid) missing)))" if "missing \<noteq> []"
    using packages_inserted [OF assms(1), of "map (\<lambda>os. (p, vid, os)) missing" w uid] that by (simp add: comp_def)
  then show ?thesis
    using l by (cases missing) (simp_all add: add_cbc_package_def assms(3-5) assms(6) [symmetric] then_rows_def b check_package_list_def
        packages_checked [OF assms(1,2), of w "[]", simplified] assms(10) [symmetric])
qed

definition no_package :: "(string \<times> sql_value list list) list" where
  "no_package = [(''SELECT pack_id FROM packages'', [])]"

lemma no_package_answers:
  "answer_of no_package (q_query (argument_queries ! PACKAGE_FULL)) = []"
  "answer_of no_package (q_query (argument_queries ! VARIENT_ID_ON_VARIANT_OR_VALIAS)) = [[SQL_INT 7]]"
  "answer_of no_package (q_query (argument_queries ! 20)) = [[SQL_INT 7]]"
  by code_simp+

theorem packages_are_added_where_missing_witness:
  "add_cbc_package (table_api no_package) 1000 (Some dns_cc) (Some package_line) demo_world = Some (0, demo_world\<lparr>w_db := 5\<rparr>)"
proof -
  have v: "varient_rows (table_api no_package) demo_world (Some ''base'') = [D_LINT 7]"
    by (simp add: varient_rows_def rows_table no_package_answers del: nth_map)
  have o: "rows_of (table_api no_package) demo_world (q_query (argument_queries ! (os_flags None (vcl_arch package_line) +
      BUILD_OS_ON_NAME_OR_ALIAS))) (map text_value (os_texts ''debian'' None (vcl_arch package_line))) = map D_LINT [7]"
    using no_package_answers(3) by (simp add: os_flags_def package_line_texts rows_table del: nth_map)
  have m: "package_listed (table_api no_package) w p vid os = False" for w p vid os
    by (simp add: package_listed_def rows_table no_package_answers del: nth_map)
  show ?thesis
    using packages_are_added_where_missing [OF table_api_up package_line_texts(1,6,2) package_line_texts(4) [symmetric] v o _ refl, of 1000]
    by (simp add: m package_values_def demo_world_def)
qed

subsection \<open>The packages of a new varient and of a new operating system\<close>

lemma base_packages_built:
  "base_packages uid vid (concat (map (\<lambda>(p, os). [D_TEXT p, D_LINT os]) base)) (Some l) =
     Some (0, Some (l @ concat (map (\<lambda>(p, os). package_row uid p vid os) base)))"
  by (induction base arbitrary: l) (auto simp: adding package_row_def text_element_def)

lemma varient_fields: "q_fields (insert_queries ! INSERT_VARIENT) = [AILSA_DB_TEXT, AILSA_DB_TEXT, AILSA_DB_LINT, AILSA_DB_LINT]"
  by (simp add: statement_fields insert_fields table_lengths del: nth_map)

lemma pairs_empty: "(\<forall>x\<in>set base. (case x of (p, os) \<Rightarrow> [D_TEXT p, D_LINT os]) = []) \<longleftrightarrow> base = []"
  by (cases base) auto

text \<open>A new varient gets the packages of the base varient: cbcvarient inserts the varient with its alias and user, reads
  the id it got, and inserts in one statement a row for each package and system of the base varient with the id of the
  new one; nothing follows when the base varient has no packages.\<close>

theorem new_varient_gets_base_packages:
  assumes "database_up api cc" "reads_up api" "vcl_varient cl = Some v" "vcl_valias cl = Some a"
    and "stmt = q_query (argument_queries ! VARIENT_ID_ON_VARIANT_OR_VALIAS)"
    and "rows_of api w stmt [text_value v, text_value a] = []"
    and "executed api w (q_query (insert_queries ! INSERT_VARIENT)) [text_value v, text_value a, SQL_INT (ucast uid), SQL_INT (ucast uid)] = (0, w1)"
    and "rows_of api w1 stmt [text_value v, text_value a] = [D_LINT vid]"
    and "rows_of api w1 (basic_queries ! BASE_VARIENT_PACKAGES) [] = concat (map (\<lambda>(p, os). [D_TEXT p, D_LINT os]) base)"
    and "length base * 5 < 2 ^ 32"
  shows "add_cbc_build_varient api uid (Some cc) (Some cl) w = Some (if base = [] then (0, w1)
    else executed api w1 (multi_insert (insert_queries ! INSERT_BUILD_PACKAGE) (length base))
      (concat (map (\<lambda>(p, os). package_values uid p vid os) base)))"
proof -
  let ?u = "[D_LINT (ucast uid), D_LINT (ucast uid)]"
  have f: "args_values (q_fields (argument_queries ! VARIENT_ID_ON_VARIANT_OR_VALIAS)) (text_element v # text_element a # ds) =
      Some [text_value v, text_value a]" for ds
    by (simp add: build_fields text_element_def text_value_def)
  note q = up_argument [OF assms(1,2) _ f [of "[]"], of w "[]"] up_argument [OF assms(1,2) _ f [of ?u], of w1 "[]"]
  have i: "args_values (q_fields (insert_queries ! INSERT_VARIENT)) [text_element v, text_element a, D_LINT (ucast uid), D_LINT (ucast uid)] =
      Some [text_value v, text_value a, SQL_INT (ucast uid), SQL_INT (ucast uid)]"
    by (simp add: varient_fields text_element_def text_value_def del: One_nat_def)
  note ins = up_insert [OF assms(1) _ i, of w]
  have "ailsa_multiple_query api w1 (Some cc) (insert_queries ! INSERT_BUILD_PACKAGE)
      (Some (concat (map (\<lambda>(p, os). package_row uid p vid os) base))) =
      Some (executed api w1 (multi_insert (insert_queries ! INSERT_BUILD_PACKAGE) (length base))
        (concat (map (\<lambda>(p, os). package_values uid p vid os) base)))" if "base \<noteq> []"
    using packages_inserted [OF assms(1), of "map (\<lambda>(p, os). (p, vid, os)) base" w1 uid] that assms(10)
    by (simp add: comp_def split_def)
  moreover have "ailsa_basic_query api w1 (Some cc) BASE_VARIENT_PACKAGES (Some []) =
      Some (0, w1, Some (concat (map (\<lambda>(p, os). [D_TEXT p, D_LINT os]) base)))"
    using up_basic [OF assms(1,2), of BASE_VARIENT_PACKAGES w1 "[]"] by (simp add: table_lengths assms(9))
  ultimately show ?thesis
    using q ins assms(6-8)
    by (simp add: add_cbc_build_varient_def assms(3,4) adding chk0_def then_rows_def then_list_def table_lengths
        text_element_def [symmetric] assms(5) [symmetric] base_packages_built pairs_empty)
qed

text \<open>A database that finds a varient once one was inserted, and two packages of the base varient.\<close>

definition varient_api :: "nat sqlite3_api" where
  "varient_api = demo_api\<lparr>s3_rows := (\<lambda>db stmt _.
     (if stmt = basic_queries ! BASE_VARIENT_PACKAGES then [[SQL_TEXT ''vim'', SQL_INT 1], [SQL_TEXT ''ssh'', SQL_INT 2]]
      else if db = 0 then [] else [[SQL_INT 7]], SQLITE_DONE))\<rparr>"

lemma varient_api_up: "database_up varient_api dns_cc" "reads_up varient_api"
  using demo_binds by (simp_all add: database_up_def reads_up_def varient_api_def demo_api_def dns_cc_def demo_cc_def binds_by_marks_def)

lemma varient_api_runs:
  "executed varient_api w q vs = (0, w\<lparr>w_db := w_db w + length vs\<rparr>)"
  "rows_of varient_api w (basic_queries ! BASE_VARIENT_PACKAGES) [] = concat (map (\<lambda>(p, os). [D_TEXT p, D_LINT os]) [(''vim'', 1), (''ssh'', 2)])"
  "rows_of varient_api w (q_query (argument_queries ! VARIENT_ID_ON_VARIANT_OR_VALIAS)) vs = (if w_db w = 0 then [] else [D_LINT 7])"
proof -
  have "q_query (argument_queries ! VARIENT_ID_ON_VARIANT_OR_VALIAS) \<noteq> basic_queries ! BASE_VARIENT_PACKAGES" by code_simp
  then show "rows_of varient_api w (q_query (argument_queries ! VARIENT_ID_ON_VARIANT_OR_VALIAS)) vs = (if w_db w = 0 then [] else [D_LINT 7])"
    by (simp add: rows_of_def varient_api_def del: nth_map)
qed (simp_all add: executed_def rows_of_def varient_api_def demo_api_def del: nth_map)

theorem new_varient_gets_base_packages_witness:
  "add_cbc_build_varient varient_api 1000 (Some dns_cc) (Some (cbcvarient_line_zero\<lparr>vcl_varient := Some ''web'', vcl_valias := Some ''w''\<rparr>))
     demo_world = Some (0, demo_world\<lparr>w_db := 14\<rparr>)"
  using new_varient_gets_base_packages [OF varient_api_up, of "cbcvarient_line_zero\<lparr>vcl_varient := Some ''web'', vcl_valias := Some ''w''\<rparr>"
      "''web''" "''w''", OF _ _ refl _ varient_api_runs(1) _ varient_api_runs(2), of demo_world 1000 7]
  by (simp add: varient_api_runs package_values_def demo_world_def)

end
