(* ===== verification/Os_Specs.thy ===== *)
theory Os_Specs
  imports Package_Specs
begin

text \<open>
  What cbcos promises (src/cbcos.c), on a database that is up: which operating systems it removes, which it never adds,
  and what a new one gets.
\<close>

subsection \<open>The operating systems a line names\<close>

definition named_systems :: "'db sqlite3_api \<Rightarrow> 'db world \<Rightarrow> string \<Rightarrow> string \<Rightarrow> cstr \<Rightarrow> ailsa_data list" where
  "named_systems api w os version arch = rows_of api w
     (q_query (argument_queries ! (os_flags (Some version) arch + BUILD_OS_ON_NAME_OR_ALIAS)))
     (map text_value (os_texts os (Some version) arch))"

lemma systems_found:
  assumes "database_up api cc" "reads_up api"
  shows "cmdb_add_os_id_to_list api w (Some [Some os, Some version, arch]) (Some cc) (Some l) =
    Some (0, w, Some (l @ named_systems api w os version arch))"
proof -
  have "args_values (q_fields (argument_queries ! (os_flags (Some version) arch + BUILD_OS_ON_NAME_OR_ALIAS)))
      (map text_element (os_texts os (Some version) arch)) = Some (map text_value (os_texts os (Some version) arch))"
    by (simp only: os_query_fields(2) [of _ _ os] texts_values)
  from up_argument [OF assms os_query_fields(1) this, of w l] show ?thesis
    by (cases arch) (simp_all add: cmdb_add_os_id_to_list_def arg_at_def id_query_def named_systems_def os_flags_def os_texts_def
        text_element_def)
qed

lemma os_fields:
  "q_fields (argument_queries ! SERVERS_WITH_BUILDS_ON_OS_ID) = [AILSA_DB_LINT]"
  "q_fields (argument_queries ! OS_FROM_BUILD_TYPE_AND_ARCH) = [AILSA_DB_LINT, AILSA_DB_TEXT]"
  "q_fields (argument_queries ! PACKAGE_DETAIL_ON_OS_ID) = [AILSA_DB_LINT]"
  "q_fields (delete_queries ! DELETE_BUILD_OS) = [AILSA_DB_LINT]"
  by (simp_all add: statement_fields argument_fields delete_fields table_lengths del: nth_map)

definition servers_on :: "'db sqlite3_api \<Rightarrow> 'db world \<Rightarrow> u64 \<Rightarrow> ailsa_data list" where
  "servers_on api w os = rows_of api w (q_query (argument_queries ! SERVERS_WITH_BUILDS_ON_OS_ID)) [SQL_INT os]"

lemma builds_checked:
  assumes "database_up api cc" "reads_up api" "os \<noteq> 0"
  shows "check_builds_for_os_id api w (Some cc) os (Some l) = Some (0, w, Some (l @ servers_on api w os))"
proof -
  have "args_values (q_fields (argument_queries ! SERVERS_WITH_BUILDS_ON_OS_ID)) [D_LINT os] = Some [SQL_INT os]"
    by (simp add: os_fields)
  from up_argument [OF assms(1,2) _ this, of w l] show ?thesis
    by (simp add: check_builds_for_os_id_def db_insert_def assms(3) servers_on_def table_lengths)
qed

subsection \<open>Removing\<close>

lemma names_printed: "server_names (map D_TEXT names) = Some (concat (map (\<lambda>n. CHR '' '' # n) names))"
  by (induction names) (simp_all add: text_of_def)

lemma ids_values: "args_values (replicate (length ids) AILSA_DB_LINT) (map D_LINT ids) = Some (map SQL_INT ids)"
  by (induction ids) simp_all

lemma systems_deleted:
  assumes "database_up api cc" "ids \<noteq> []"
  shows "ailsa_multiple_delete api w (Some cc) (delete_queries ! DELETE_BUILD_OS) (Some (map D_LINT ids)) =
    Some (executed api w (multi_delete (delete_queries ! DELETE_BUILD_OS) (length ids)) (map SQL_INT ids))"
  using up_multiple_delete [OF assms(1) _ os_fields(4), of "map D_LINT ids"] assms(2) ids_values [of ids]
  by (simp add: table_lengths)

text \<open>C16: Removing an operating system with cbcos looks only at the builds of the first system that the line names.  When
  it has some, their servers are printed, and without the force option nothing is removed and the code is
  AILSA\_BUILD\_OS\_IN\_USE; otherwise one statement deletes every system that was found, whether or not the others have
  builds.\<close>

theorem removing_an_os:
  assumes "database_up api cc" "reads_up api"
    and "ocl_os cl = Some os" "ocl_version cl = Some version"
    and "named_systems api w os version (ocl_arch cl) = map D_LINT (i # ids)" "i \<noteq> 0"
    and "servers_on api w i = map D_TEXT names"
    and "said = (if names = [] then [] else ''The following servers are using the build os:'' @ nl @ tab @
      concat (map (\<lambda>n. CHR '' '' # n) names) @ nl)"
  shows "remove_cbc_build_os api (Some cc) (Some cl) w =
    (if names \<noteq> [] \<and> ocl_force cl = 0 then Some (AILSA_BUILD_OS_IN_USE, said, w)
     else case executed api w (multi_delete (delete_queries ! DELETE_BUILD_OS) (Suc (length ids))) (map SQL_INT (i # ids))
       of (retval, w') \<Rightarrow> Some (retval, said, w'))"
proof -
  have g: "get_cbcos_id_list api w (Some cc) (Some cl) (Some []) = Some (0, w, Some (map D_LINT (i # ids)))"
    using systems_found [OF assms(1,2), of w os version "ocl_arch cl" "[]"]
    by (simp add: get_cbcos_id_list_def assms(3,4,5))
  have d: "ailsa_multiple_delete api w (Some cc) (delete_queries ! DELETE_BUILD_OS) (Some (map D_LINT (i # ids))) =
      Some (executed api w (multi_delete (delete_queries ! DELETE_BUILD_OS) (Suc (length ids))) (map SQL_INT (i # ids)))"
    using systems_deleted [OF assms(1), of "i # ids"] by simp
  show ?thesis
    using d names_printed [of names]
    by (simp add: remove_cbc_build_os_def ask_def g builds_checked [OF assms(1,2,6)] assms(7,8) saying_def coded_def
        display_server_name_for_build_os_id_def split_def)
qed

theorem removing_an_os_witness:
  "remove_cbc_build_os (table_api [(''SELECT s.name FROM server s'', [[SQL_TEXT ''web'']])]) (Some dns_cc)
     (Some (cbcos_line_zero\<lparr>ocl_os := Some ''debian'', ocl_version := Some ''12'', ocl_arch := Some ''x86_64''\<rparr>)) demo_world =
   Some (AILSA_BUILD_OS_IN_USE, ''The following servers are using the build os:'' @ nl @ tab @ '' web'' @ nl, demo_world)"
proof -
  let ?t = "[(''SELECT s.name FROM server s'', [[SQL_TEXT ''web'']])]"
  let ?cl = "cbcos_line_zero\<lparr>ocl_os := Some ''debian'', ocl_version := Some ''12'', ocl_arch := Some ''x86_64''\<rparr>"
  have a: "answer_of ?t (q_query (argument_queries ! SERVERS_WITH_BUILDS_ON_OS_ID)) = [[SQL_TEXT ''web'']]"
    "answer_of ?t (q_query (argument_queries ! 21)) = [[SQL_INT 7]]"
    by code_simp+
  have s: "named_systems (table_api ?t) demo_world ''debian'' ''12'' (ocl_arch ?cl) = map D_LINT [7]"
    using a(2) by (simp add: named_systems_def os_flags_def rows_table del: nth_map)
  have n: "servers_on (table_api ?t) demo_world 7 = map D_TEXT [''web'']"
    using a(1) by (simp add: servers_on_def rows_table del: nth_map)
  show ?thesis
    using removing_an_os [OF table_api_up _ _ s _ n refl] by (simp add: cbcos_line_zero_def)
qed

subsection \<open>Adding\<close>

lemma fill_answers:
  assumes "w_db w = v" shows "answers v (cmdb_fill_os_details api uid w cmc col os)"
proof -
  have id_type: "answers v (cmdb_add_build_type_id_to_list api w a cc l)" if "w_db w = v" for w a cc l
    unfolding cmdb_add_build_type_id_to_list_def by (intro answers_if answers_Some answers_queries that)
  have os_alias: "answers v (cmdb_add_os_alias_to_list api w a cc l)" if "w_db w = v" for w a cc l
    unfolding cmdb_add_os_alias_to_list_def
    by (cases l; simp only: opened_up)
      (intro answers_if answers_Some answers_bind answers_call [where q = "id_query _ _ _ _ _ _"] answers_queries that; assumption)+
  show ?thesis
    unfolding cmdb_fill_os_details_def
    by (cases col; simp only: opened_up)
      (intro assms answers_if answers_Some answers_bind answers_call [where q = "if _ then _ else _"]
        answers_call [where q = "cmdb_add_build_type_id_to_list _ _ _ _ _"] id_type os_alias listed_answers; (assumption | rule assms)?)+
qed

lemma fill_without_alias:
  assumes "cmdb_fill_os_details api uid w cmc (Some cl) os = Some (r, w', os')" "ocl_alias cl = None"
  shows "r \<noteq> 0"
  using assms by (auto simp: cmdb_fill_os_details_def cmdb_add_build_type_id_to_list_def bind_eq_Some_conv split: if_splits prod.splits)

lemma option_keeps_alias: "opt \<noteq> CHR ''s'' \<Longrightarrow> cbcos_option opt optarg col = Some col' \<Longrightarrow> ocl_alias col' = ocl_alias col"
  by (auto simp: cbcos_option_def split: if_splits)

lemma options_keep_alias:
  "CHR ''s'' \<notin> fst ` set options \<Longrightarrow> cbcos_options options col = (r, col') \<Longrightarrow> ocl_alias col' = ocl_alias col"
proof (induction options arbitrary: col)
  case (Cons a options)
  then show ?case
    using option_keeps_alias [of "fst a" "snd a" col] by (cases a) (auto split: option.splits)
qed simp

lemma parsed_alias:
  assumes "parse_cbcos_comm_line argc options cbcos_line_zero = (r, said, cl)" "CHR ''s'' \<notin> fst ` set options"
  shows "ocl_alias cl = None"
proof -
  obtain r' cl' where o: "cbcos_options options cbcos_line_zero = (r', cl')" by (metis surj_pair)
  then have "cl' = cl" using assms(1) by (auto simp: parse_cbcos_comm_line_def split: if_splits prod.splits)
  then show ?thesis using options_keep_alias [OF assms(2) o] by (simp add: cbcos_line_zero_def)
qed

lemma check_os_reads: "cmdb_check_for_os api w cc os arch version = Some (n, w') \<Longrightarrow> w_db w' = w_db w"
  by (auto simp: cmdb_check_for_os_def count_rows_def bind_eq_Some_conv reads_def split: if_splits dest!: reads_os)

text \<open>Without the option for its alias cbcos never adds an operating system, although its checks accept such a line
  and the alias is looked up in the database: the build type is then looked for without an alias, which fails.  The
  database, the files and the commands stay as they were, and the code is 0 only when the system was there before.\<close>

theorem os_without_alias_is_never_added:
  assumes "parse_cbcos_comm_line argc options cbcos_line_zero = (0, said, cl)" "ocl_action cl = CMDB_ADD"
    and "CHR ''s'' \<notin> fst ` set options"
    and "cbcos_main version prog api os net pw (Some cc) argc options st = Some (r, t, st')"
  shows "w_db (si_world st') = w_db (si_world st) \<and> si_files st' = si_files st \<and> si_commands st' = si_commands st \<and>
    (r = 0 \<longrightarrow> (\<exists>n w. cmdb_check_for_os api (si_world st) (Some cc) (ocl_os cl) (ocl_arch cl) (ocl_version cl) = Some (n, w) \<and> 0 < n))"
proof -
  let ?cl = "cl\<lparr>ocl_ver_alias := or_none (ocl_ver_alias cl)\<rparr>"
  have "ocl_alias ?cl = None" using parsed_alias [OF assms(1,3)] by simp
  note fails = fill_without_alias [OF _ this]
  have run: "add_cbc_build_os api os net (Some cc) cl st = Some (r, st')"
    using assms(1,2,4) by (auto simp: cbcos_main_def cbcos_dispatch_def silent_def)
  obtain n w where c: "cmdb_check_for_os api (si_world st) (Some cc) (ocl_os cl) (ocl_arch cl) (ocl_version cl) = Some (n, w)"
    using run by (auto simp: add_cbc_build_os_def on_world_def bind_eq_Some_conv Let_def)
  show ?thesis
  proof (cases "n = 0")
    case True
    obtain q w' l where f: "cmdb_fill_os_details api (os_uid os) w (Some cc) (Some ?cl) (Some []) = Some (q, w', l)"
      using run c True by (auto simp: add_cbc_build_os_def on_world_def on_query_def bind_eq_Some_conv Let_def)
    have "w_db w' = w_db w" using fill_answers [OF refl, of w api "os_uid os" "Some cc" "Some ?cl" "Some []"] f by (simp add: answers_def)
    moreover have "r = q \<and> st' = st\<lparr>si_world := w'\<rparr>"
      using run c True f fails [OF f] by (auto simp: add_cbc_build_os_def on_world_def on_query_def bind_eq_Some_conv Let_def)
    ultimately show ?thesis using check_os_reads [OF c] fails [OF f] by simp
  next
    case False
    then have "(r = 0 \<longrightarrow> 0 < n) \<and> st' = st\<lparr>si_world := w\<rparr>"
      using run c by (auto simp: add_cbc_build_os_def on_world_def Let_def split: if_splits)
    then show ?thesis using check_os_reads [OF c] c by auto
  qed
qed

definition os_options :: "(char \<times> string) list" where
  "os_options = [(CHR ''a'', []), (CHR ''n'', ''debian''), (CHR ''o'', ''12''), (CHR ''t'', ''x86_64'')]"

definition os_line :: cbcos_comm_line_s where
  "os_line = cbcos_line_zero\<lparr>ocl_action := CMDB_ADD, ocl_os := Some ''debian'', ocl_version := Some ''12'', ocl_arch := Some ''x86_64''\<rparr>"

lemma os_line_parsed: "parse_cbcos_comm_line 8 os_options cbcos_line_zero = (0, [], os_line)"
  by (simp add: parse_cbcos_comm_line_def os_options_def cbcos_option_def check_cbcos_line_def cbcos_line_zero_def os_line_def strndup_def)

definition no_os :: "(string \<times> sql_value list list) list" where
  "no_os = [(''SELECT os_id FROM build_os WHERE'', []), (''SELECT DISTINCT alias'', [[SQL_TEXT ''deb'']])]"

lemma no_os_answers:
  "answer_of no_os (q_query (argument_queries ! 21)) = []"
  "answer_of no_os (q_query (argument_queries ! OS_ALIAS_ON_OS_NAME)) = [[SQL_TEXT ''deb'']]"
  by code_simp+

lemma alias_fields: "q_fields (argument_queries ! OS_ALIAS_ON_OS_NAME) = [AILSA_DB_TEXT]"
  by (simp add: statement_fields argument_fields table_lengths del: nth_map)

lemma no_os_added:
  "cbcos_main ''1.0'' ''cbcos'' (table_api no_os) demo_services net pw (Some dns_cc) 8 os_options demo_site =
     Some (AILSA_BUILD_TYPE_NO_FOUND, [], demo_site)"
proof -
  have s: "named_systems (table_api no_os) demo_world ''debian'' ''12'' (Some ''x86_64'') = []"
    by (simp add: named_systems_def os_flags_def rows_table no_os_answers del: nth_map)
  have n: "id_query (table_api no_os) demo_world (Some dns_cc) [Some ''debian''] OS_ALIAS_ON_OS_NAME (Some l) =
      Some (0, demo_world, Some (l @ [D_TEXT ''deb'']))" for l
    using name_query_runs [OF table_api_up _ alias_fields, of no_os demo_world "''debian''" l]
    by (simp add: rows_table no_os_answers table_lengths del: nth_map)
  have c: "cmdb_check_for_os (table_api no_os) demo_world (Some dns_cc) (Some ''debian'') (Some ''x86_64'') (Some ''12'') =
      Some (0, demo_world)"
    using systems_found [OF table_api_up, of no_os demo_world "''debian''" "''12''" "Some ''x86_64''" "[]"]
    by (simp add: cmdb_check_for_os_def count_rows_def s)
  have w: "si_world demo_site = demo_world" by (simp add: demo_site_def)
  have l: "ocl_os os_line = Some ''debian''" "ocl_version os_line = Some ''12''" "ocl_arch os_line = Some ''x86_64''"
    "ocl_alias os_line = None" "ocl_ver_alias os_line = None" "ocl_action os_line = CMDB_ADD"
    by (simp_all add: os_line_def cbcos_line_zero_def)
  have "add_cbc_build_os (table_api no_os) demo_services net (Some dns_cc) os_line demo_site =
      Some (AILSA_BUILD_TYPE_NO_FOUND, demo_site)"
    by (simp add: add_cbc_build_os_def l w on_world_def c on_query_def cmdb_fill_os_details_def adding or_none_def
        cmdb_add_os_alias_to_list_def n cmdb_add_build_type_id_to_list_def Let_def)
  then show ?thesis by (simp add: cbcos_main_def os_line_parsed cbcos_dispatch_def l silent_def)
qed

theorem os_without_alias_is_never_added_witness:
  "\<exists>st'. cbcos_main ''1.0'' ''cbcos'' (table_api no_os) demo_services (\<lambda>_. HTTP_NO_CONNECTION) (\<lambda>_. None) (Some dns_cc) 8
     os_options demo_site = Some (AILSA_BUILD_TYPE_NO_FOUND, [], st') \<and> w_db (si_world st') = w_db (si_world demo_site)"
  using os_without_alias_is_never_added [OF os_line_parsed _ _ no_os_added [of "\<lambda>_. HTTP_NO_CONNECTION" "\<lambda>_. None"]]
  by (intro exI [of _ demo_site] conjI no_os_added) (simp add: os_line_def os_options_def)

subsection \<open>The packages of a new system\<close>

lemma packed: "pack_with_os uid os (concat (map (\<lambda>(p, v). [text_element p, D_LINT v]) packs)) =
  concat (map (\<lambda>(p, v). package_row uid p v os) packs)"
  by (induction packs) (auto simp: package_row_def)

text \<open>A new operating system gets the packages of the one before it: of the systems with its build type and
  architecture, newest first, cbcos takes the second, and inserts in one statement each of its packages, in its varient,
  for the new one; with no other system or no packages nothing is inserted.\<close>

theorem new_os_gets_packages:
  assumes "database_up api cc" "reads_up api"
    and "length l = 8" "l ! 5 = D_LINT bt" "l ! 4 = text_element arch"
    and "rows_of api w (q_query (argument_queries ! OS_FROM_BUILD_TYPE_AND_ARCH)) [SQL_INT bt, text_value arch] = map D_LINT systems"
    and "\<forall>new old others. systems = new # old # others \<longrightarrow> new \<noteq> 0 \<and>
      rows_of api w (q_query (argument_queries ! PACKAGE_DETAIL_ON_OS_ID)) [SQL_INT old] =
        concat (map (\<lambda>(p, v). [text_element p, D_LINT v]) packs)"
    and "length packs * 5 < 2 ^ 32"
  shows "cbcos_create_os_profile api uid w (Some cc) (Some l) = Some (if length systems < 2 \<or> packs = [] then (0, w)
    else executed api w (multi_insert (insert_queries ! INSERT_BUILD_PACKAGE) (length packs))
      (concat (map (\<lambda>(p, v). package_values uid p v (hd systems)) packs)))"
proof -
  have f: "args_values (q_fields (argument_queries ! OS_FROM_BUILD_TYPE_AND_ARCH)) [D_LINT bt, text_element arch] =
      Some [SQL_INT bt, text_value arch]"
    by (simp add: os_fields text_element_def text_value_def)
  note q = up_argument [OF assms(1,2) _ f, of w "[]"]
  have t: "get_text (text_element arch) = Some (Some (strndup arch CONFIG_LEN))"
    "cmdb_add_number_to_list bt (Some []) = (0, Some [D_LINT bt])"
    "cmdb_add_string_to_list (Some (strndup arch CONFIG_LEN)) (Some [D_LINT bt]) = (0, Some [D_LINT bt, text_element arch])"
    by (simp_all add: adding text_element_def cut_twice)
  note run = cbcos_create_os_profile_def t then_list_def then_rows_def table_lengths text_element_def [of arch]
  show ?thesis
  proof (cases "\<exists>new old others. systems = new # old # others")
    case False
    then have "length systems < 2" by (cases systems rule: list.exhaust; cases "tl systems") auto
    then show ?thesis
      using q assms(3-6) by (simp add: run)
  next
    case True
    then obtain new old others where s: "systems = new # old # others" by blast
    have "args_values (q_fields (argument_queries ! PACKAGE_DETAIL_ON_OS_ID)) (map D_LINT (old # others)) = Some [SQL_INT old]"
      by (simp add: os_fields)
    note p = up_argument [OF assms(1,2) _ this, of w "[]"]
    have rows: "rows_of api w (q_query (argument_queries ! PACKAGE_DETAIL_ON_OS_ID)) [SQL_INT old] =
        concat (map (\<lambda>(p, v). [text_element p, D_LINT v]) packs)" and new: "new \<noteq> 0"
      using assms(7) s by blast+
    have e: "concat (map (\<lambda>(p, v). [text_element p, D_LINT v]) packs) = [] \<longleftrightarrow> packs = []" by (cases packs) auto
    have "ailsa_multiple_query api w (Some cc) (insert_queries ! INSERT_BUILD_PACKAGE)
        (Some (concat (map (\<lambda>(p, v). package_row uid p v new) packs))) =
        Some (executed api w (multi_insert (insert_queries ! INSERT_BUILD_PACKAGE) (length packs))
          (concat (map (\<lambda>(p, v). package_values uid p v new) packs)))" if "packs \<noteq> []"
      using packages_inserted [OF assms(1), of "map (\<lambda>(p, v). (p, v, new)) packs" w uid] that assms(8)
      by (simp add: comp_def split_def)
    then show ?thesis
      using q p assms(3-6) rows new
      by (simp add: run s e
          cbcos_insert_os_id_user_into_list_def packed del: concat_eq_Nil_conv)
  qed
qed

definition two_systems :: "(string \<times> sql_value list list) list" where
  "two_systems = [(''SELECT os_id FROM build_os WHERE bt_id'', [[SQL_INT 7], [SQL_INT 6]]),
     (''SELECT package, varient_id'', [[SQL_TEXT ''vim'', SQL_INT 3]])]"

lemma two_systems_answers:
  "answer_of two_systems (q_query (argument_queries ! OS_FROM_BUILD_TYPE_AND_ARCH)) = [[SQL_INT 7], [SQL_INT 6]]"
  "answer_of two_systems (q_query (argument_queries ! PACKAGE_DETAIL_ON_OS_ID)) = [[SQL_TEXT ''vim'', SQL_INT 3]]"
  by code_simp+

theorem new_os_gets_packages_witness:
  "cbcos_create_os_profile (table_api two_systems) 1000 demo_world (Some dns_cc)
     (Some [D_TEXT ''debian'', D_TEXT ''12'', D_TEXT ''deb'', D_TEXT ''none'', D_TEXT ''x86_64'', D_LINT 1, D_LINT 1000, D_LINT 1000]) =
   Some (0, demo_world\<lparr>w_db := 5\<rparr>)"
proof -
  let ?l = "[D_TEXT ''debian'', D_TEXT ''12'', D_TEXT ''deb'', D_TEXT ''none'', D_TEXT ''x86_64'', D_LINT 1, D_LINT 1000, D_LINT 1000]"
  have l: "length ?l = 8" "?l ! 5 = D_LINT 1" "?l ! 4 = text_element ''x86_64''"
    by (simp_all add: text_element_def strndup_def)
  have o: "rows_of (table_api two_systems) demo_world (q_query (argument_queries ! OS_FROM_BUILD_TYPE_AND_ARCH))
      [SQL_INT 1, text_value ''x86_64''] = map D_LINT [7, 6]"
    by (simp add: rows_table two_systems_answers del: nth_map)
  have p: "rows_of (table_api two_systems) demo_world (q_query (argument_queries ! PACKAGE_DETAIL_ON_OS_ID)) [SQL_INT old] =
      concat (map (\<lambda>(p, v). [text_element p, D_LINT v]) [(''vim'', 3)])" for old
    by (simp add: rows_table two_systems_answers text_element_def strndup_def del: nth_map)
  have "\<forall>new old others. [7, 6] = new # old # others \<longrightarrow> new \<noteq> (0 :: u64) \<and>
      rows_of (table_api two_systems) demo_world (q_query (argument_queries ! PACKAGE_DETAIL_ON_OS_ID)) [SQL_INT old] =
      concat (map (\<lambda>(p, v). [text_element p, D_LINT v]) [(''vim'', 3)])"
    using p by auto
  from new_os_gets_packages [OF table_api_up l o this, of 1000] show ?thesis
    by (simp add: package_values_def demo_world_def)
qed

end
