(* ===== verification/Boot_Specs.thy ===== *)
theory Boot_Specs
  imports Boot_Files Build_Specs
begin

text \<open>
  What the download of the boot files promises (lib/dnsa\_net.c): from an answer of the form HTTP prescribes exactly the
  body is taken, and the kernel and the ramdisk become exactly the bodies of their answers.
\<close>

subsection \<open>Answers\<close>

text \<open>A header line other than the length: a name, a blank and a value, on one line.\<close>

definition plain_header :: "string \<Rightarrow> bool" where
  "plain_header h \<longleftrightarrow> (let name = takeWhile (\<lambda>c. c \<noteq> CHR '' '') h in
     name \<noteq> [] \<and> CHR '' '' \<in> set h \<and> hd h \<noteq> CHR 0x0D \<and> \<not> strncmp_eq name ''Content-Length:'' SERVICE_LEN \<and>
     CHR 0x0A \<notin> set h \<and> CHR 0x00 \<notin> set h \<and> length h + 3 < MAXDATASIZE)"

definition header_text :: "string list \<Rightarrow> string" where
  "header_text hs = concat (map (\<lambda>h. h @ crlf) hs)"

definition length_line :: "nat \<Rightarrow> string" where
  "length_line n = ''Content-Length: '' @ dec n"

definition ok_line :: string where
  "ok_line = ''HTTP/1.1 200 OK'' @ crlf"

definition http_answer :: "string list \<Rightarrow> string list \<Rightarrow> string \<Rightarrow> string" where
  "http_answer before after body =
     ok_line @ header_text before @ length_line (length body) @ crlf @ header_text after @ crlf @ body"

subsection \<open>Lines and tokens\<close>

lemma fgets_line:
  assumes "CHR 0x0A \<notin> set l" "length l + 3 < n"
  shows "fgets n (l @ crlf @ s) = Some (l @ crlf, s)"
proof -
  have "strchr ((l @ [CHR 0x0D]) @ CHR 0x0A # s) (CHR 0x0A) = Some (length (l @ [CHR 0x0D]))"
    by (rule strchr_append_first) (simp add: assms(1))
  then have "line_of (l @ crlf @ s) = l @ crlf" by (simp add: line_of_def crlf_def)
  then show ?thesis using assms(2) by (simp add: fgets_def crlf_def)
qed

lemma c_string_id: "CHR 0x00 \<notin> set l \<Longrightarrow> c_string (l @ crlf) = l @ crlf"
  by (auto simp: c_string_def crlf_def takeWhile_append1 takeWhile_eq_all_conv)

lemma strtok_starts: "c \<noteq> CHR '' '' \<Longrightarrow> strtok (c # s) =
  Some (c # takeWhile (\<lambda>c. c \<noteq> CHR '' '') s, drop 1 (dropWhile (\<lambda>c. c \<noteq> CHR '' '') s))"
  by (simp add: strtok_def)

lemma strtok_first:
  assumes "name \<noteq> []" "CHR '' '' \<notin> set name"
  shows "strtok (name @ CHR '' '' # s) = Some (name, s)" "strtok name = Some (name, [])"
proof -
  obtain c cs where n: "name = c # cs" using assms(1) by (cases name) auto
  have c: "c \<noteq> CHR '' ''" and cs: "CHR '' '' \<notin> set cs" using assms(2) by (auto simp: n)
  have t: "takeWhile (\<lambda>c. c \<noteq> CHR '' '') (cs @ CHR '' '' # s) = cs" "dropWhile (\<lambda>c. c \<noteq> CHR '' '') (cs @ CHR '' '' # s) = CHR '' '' # s"
    "takeWhile (\<lambda>c. c \<noteq> CHR '' '') cs = cs" "dropWhile (\<lambda>c. c \<noteq> CHR '' '') cs = []"
    using cs by (induction cs) auto
  show "strtok (name @ CHR '' '' # s) = Some (name, s)" "strtok name = Some (name, [])"
    by (simp_all add: n strtok_starts [OF c] t)
qed

lemma not_empty_line: "h \<noteq> [] \<Longrightarrow> hd h \<noteq> CHR 0x0D \<Longrightarrow> \<not> strncmp_eq (h @ crlf) crlf 2"
  by (cases h) (auto simp: strncmp_eq_def crlf_def)

lemma plain_line:
  assumes "plain_header h" shows "header_lines len (h @ crlf @ s) = header_lines len s"
proof -
  let ?name = "takeWhile (\<lambda>c. c \<noteq> CHR '' '') h"
  have p: "?name \<noteq> []" "CHR '' '' \<in> set h" "hd h \<noteq> CHR 0x0D" "\<not> strncmp_eq ?name ''Content-Length:'' SERVICE_LEN"
    "CHR 0x0A \<notin> set h" "CHR 0x00 \<notin> set h" "length h + 3 < MAXDATASIZE"
    using assms by (simp_all add: plain_header_def Let_def)
  obtain name r where r: "h = name @ CHR '' '' # r" "CHR '' '' \<notin> set name" using split_list_first [OF p(2)] by blast
  then have n: "?name = name" by (induction name arbitrary: h) auto
  have "strtok (h @ crlf) = Some (?name, r @ crlf)"
    using strtok_first(1) [OF _ r(2), of "r @ crlf"] p(1) unfolding n by (simp add: r(1))
  moreover have "h \<noteq> []" using p(1) by auto
  ultimately show ?thesis
    using p(4) not_empty_line [OF _ p(3)]
    by (subst header_lines.simps) (simp add: fgets_line [OF p(5,7)] c_string_id [OF p(6)])
qed

lemma plain_lines: "list_all plain_header hs \<Longrightarrow> header_lines len (header_text hs @ s) = header_lines len s"
  by (induction hs) (simp_all add: header_text_def plain_line)

lemma end_of_header: "header_lines len (crlf @ s) = Some (0, len, s)"
  using fgets_line [of "[]" MAXDATASIZE s] by (subst header_lines.simps) (simp add: c_string_id [of "[]", simplified])

lemma digits_plain:
  "c \<in> set (dec n) \<Longrightarrow> is_digit c"
  using dec_digits [of n] by (auto simp: list_all_iff)

lemma dec_crlf: "n < 2 ^ 64 \<Longrightarrow> strtoul10 (dec n @ crlf) = of_nat n"
proof -
  assume n: "n < 2 ^ 64"
  obtain c cs where d: "dec n = c # cs" using dec_not_Nil by (cases "dec n") blast+
  have "takeWhile is_digit (dec n @ crlf) = dec n" "takeWhile is_digit (dec n) = dec n"
    using dec_digits [of n] by (simp_all add: list_all_iff takeWhile_append2 crlf_def is_digit_def takeWhile_eq_all_conv)
  then have "digits_value (dec n @ crlf) = digits_value (dec n)" by (simp only: digits_value_def)
  moreover have "is_digit c" using dec_digits [of n] by (simp add: d)
  ultimately show ?thesis
    using digit_not_sign [of c] strtoul10_dec [OF n] by (simp add: strtoul10_def d)
qed

lemma length_line_read:
  assumes "n < 2 ^ 64" shows "header_lines len (length_line n @ crlf @ s) = header_lines (Some (of_nat n)) s"
proof -
  have no: "CHR 0x0A \<notin> set (dec n)" "CHR 0x00 \<notin> set (dec n)" "CHR '' '' \<notin> set (dec n)"
    using digits_plain [of "CHR 0x0A" n] digits_plain [of "CHR 0x00" n] digits_plain [of "CHR '' ''" n] by (auto simp: is_digit_def)
  have "length (dec n) \<le> 20" using assms by (intro length_dec_le) simp_all
  then have f: "fgets MAXDATASIZE (length_line n @ crlf @ s) = Some (length_line n @ crlf, s)"
    using no(1) by (intro fgets_line) (auto simp: length_line_def)
  have c: "c_string (length_line n @ crlf) = length_line n @ crlf"
    using no(2) by (intro c_string_id) (auto simp: length_line_def)
  have e: "\<not> strncmp_eq (length_line n @ crlf) crlf 2"
    by (rule not_empty_line) (simp_all add: length_line_def)
  have t: "strtok (length_line n @ crlf) = Some (''Content-Length:'', dec n @ crlf)"
    using strtok_first(1) [of "''Content-Length:''" "dec n @ crlf"] by (simp add: length_line_def)
  have u: "strtok (dec n @ crlf) = Some (dec n @ crlf, [])"
    using no(3) by (intro strtok_first(2)) (auto simp: crlf_def)
  show ?thesis
    using e by (subst header_lines.simps) (simp add: f c t u dec_crlf [OF assms])
qed

lemma status_line: "decode_http_header len (ok_line @ s) = header_lines len s"
proof -
  have f: "fgets MAXDATASIZE (ok_line @ s) = Some (ok_line, s)"
    using fgets_line [of "''HTTP/1.1 200 OK''" MAXDATASIZE s] by (simp add: ok_line_def)
  have c: "c_string ok_line = ok_line" unfolding ok_line_def by (rule c_string_id) simp
  have t: "strtok ok_line = Some (''HTTP/1.1'', ''200 OK'' @ crlf)"
    using strtok_first(1) [of "''HTTP/1.1''" "''200 OK'' @ crlf"] by (simp add: ok_line_def)
  have u: "strtok (''200 OK'' @ crlf) = Some (''200'', ''OK'' @ crlf)"
    using strtok_first(1) [of "''200''" "''OK'' @ crlf"] by simp
  have n: "strtoul10 ''200'' = 200"
    by (simp add: strtoul10_def is_space_def digits_value_def is_digit_def ulong_of_def)
  show ?thesis
    unfolding decode_http_header_def f option.case prod.case c t u n by simp
qed

lemma answer_decoded:
  assumes "list_all plain_header before" "list_all plain_header after" "length body < 2 ^ 64"
  shows "decode_http_header len (http_answer before after body) = Some (0, Some (of_nat (length body)), body)"
  by (simp only: http_answer_def status_line plain_lines [OF assms(1)] length_line_read [OF assms(3)] plain_lines [OF assms(2)]
      end_of_header)

subsection \<open>The download\<close>

lemma file_grabbed:
  assumes "list_all plain_header before" "list_all plain_header after" "length body < 2 ^ 64" "body \<noteq> []" "os_open os path \<noteq> -1"
  shows "grab_file os path len (http_answer before after body) st rest = rest [] (put_file path body st)"
proof -
  have u: "unat (of_nat (length body) :: u64) = length body" using assms(3) by (simp add: unat_of_nat take_bit_nat_eq_self)
  then have "(of_nat (length body) :: u64) \<noteq> 0" using assms(4) by (metis length_0_conv unat_0)
  then show ?thesis using assms(5) u by (simp add: grab_file_def answer_decoded [OF assms(1-3)])
qed

text \<open>A header without its length keeps what the variable held: a 0 for the ramdisk, which ends the download.\<close>

lemma file_without_length:
  assumes "list_all plain_header hs"
  shows "grab_file os path (Some 0) (ok_line @ header_text hs @ crlf @ body) st rest = Some (0, st)"
  by (simp add: grab_file_def status_line plain_lines [OF assms] end_of_header)

definition kernel_path :: "string \<Rightarrow> string \<Rightarrow> string" where
  "kernel_path dir system = snprintf_s CONFIG_LEN (dir @ ''/vmlinuz-'' @ system)"

definition initrd_path :: "string \<Rightarrow> string \<Rightarrow> string" where
  "initrd_path dir system = snprintf_s CONFIG_LEN (dir @ ''/initrd-'' @ system @ ''.img'')"

lemma mirror_fields: "q_fields (argument_queries ! MIRROR_ON_BUILD_ALIAS) = [AILSA_DB_TEXT]"
  by (simp add: statement_fields argument_fields table_lengths del: nth_map)

lemma mirror_answers:
  assumes "database_up api cc" "reads_up api"
    and "name_rows api (si_world st) MIRROR_ON_BUILD_ALIAS name = D_TEXT host # ms" "net host = HTTP_UP answer"
    and "cc_tftpdir cc = Some dir" "boot_requests name ver arch vail host = (krequest, irequest)"
    and "system = name @ ''-'' @ ver @ ''-'' @ arch"
  shows "cbc_get_boot_files api os net (Some cc) (Some name) ver arch vail st =
    grab_file os (kernel_path dir system) None (answer krequest) st (\<lambda>left st.
    grab_file os (initrd_path dir system) (Some 0) (left @ answer irequest) st (\<lambda>_ st. Some (0, st)))"
proof -
  have "args_values (q_fields (argument_queries ! MIRROR_ON_BUILD_ALIAS)) [D_TEXT (strndup name CONFIG_LEN)] = Some [text_value name]"
    by (simp add: mirror_fields text_value_def)
  from up_argument [OF assms(1,2) _ this, of "si_world st" "[]"] show ?thesis
    by (simp add: cbc_get_boot_files_def on_list_def on_query_def table_lengths name_rows_def [symmetric] assms(3-7) text_of_def
        kernel_path_def initrd_path_def Let_def)
qed

text \<open>C15: When the mirror answers both requests as HTTP prescribes, with the length among any other header lines, the
  download ends with 0 and the files of the kernel and the ramdisk hold exactly the bodies of the two answers, under
  the names of the system, its version and its architecture; nothing else changes.  When the answer for the ramdisk
  has no length, the download also ends with 0, but only the kernel was written.\<close>

theorem downloaded_files_are_the_bodies:
  assumes "database_up api cc" "reads_up api"
    and "name_rows api (si_world st) MIRROR_ON_BUILD_ALIAS name = D_TEXT host # ms" "net host = HTTP_UP answer"
    and "cc_tftpdir cc = Some dir" "boot_requests name ver arch vail host = (krequest, irequest)"
    and "system = name @ ''-'' @ ver @ ''-'' @ arch"
    and "list_all plain_header (b1 @ a1)" "length vmlinuz < 2 ^ 64" "vmlinuz \<noteq> []" "answer krequest = http_answer b1 a1 vmlinuz"
    and "os_open os (kernel_path dir system) \<noteq> -1" "os_open os (initrd_path dir system) \<noteq> -1"
    and "list_all plain_header (b2 @ a2)" "length ramdisk < 2 ^ 64" "ramdisk \<noteq> []"
  shows "(answer irequest = http_answer b2 a2 ramdisk \<longrightarrow>
      cbc_get_boot_files api os net (Some cc) (Some name) ver arch vail st =
        Some (0, put_file (initrd_path dir system) ramdisk (put_file (kernel_path dir system) vmlinuz st))) \<and>
    (answer irequest = ok_line @ header_text (b2 @ a2) @ crlf @ ramdisk \<longrightarrow>
      cbc_get_boot_files api os net (Some cc) (Some name) ver arch vail st =
        Some (0, put_file (kernel_path dir system) vmlinuz st))"
proof -
  have h: "list_all plain_header b1" "list_all plain_header a1" "list_all plain_header b2" "list_all plain_header a2"
    using assms(8,14) by simp_all
  show ?thesis
    by (simp add: mirror_answers [of api cc st name host ms net answer dir, OF assms(1-7)] assms(11) file_grabbed [OF h(1,2) assms(9,10,12)]
        file_grabbed [OF h(3,4) assms(15,16,13)] file_without_length [OF assms(14)])
qed

theorem downloaded_files_are_the_bodies_witness:
  "cbc_get_boot_files (table_api [(''SELECT mirror'', [[SQL_TEXT ''mirror.org'']])]) demo_services
     (\<lambda>_. HTTP_UP (\<lambda>_. http_answer [''Server: web''] [] ''data'')) (Some (dns_cc\<lparr>cc_tftpdir := Some ''/tftp''\<rparr>))
     (Some ''debian'') ''12'' ''x86_64'' ''bookworm'' demo_site =
   Some (0, put_file (initrd_path ''/tftp'' ''debian-12-x86_64'') ''data'' (put_file (kernel_path ''/tftp'' ''debian-12-x86_64'') ''data'' demo_site))"
proof -
  let ?t = "[(''SELECT mirror'', [[SQL_TEXT ''mirror.org'']])]"
  let ?cc = "dns_cc\<lparr>cc_tftpdir := Some ''/tftp''\<rparr>"
  obtain k i where r: "boot_requests ''debian'' ''12'' ''x86_64'' ''bookworm'' ''mirror.org'' = (k, i)" by (metis surj_pair)
  have up: "database_up (table_api ?t) ?cc" using table_api_up(1) [of ?t] by (simp add: database_up_def)
  have "answer_of ?t (q_query (argument_queries ! MIRROR_ON_BUILD_ALIAS)) = [[SQL_TEXT ''mirror.org'']]" by code_simp
  then have m: "name_rows (table_api ?t) (si_world demo_site) MIRROR_ON_BUILD_ALIAS ''debian'' = D_TEXT ''mirror.org'' # []"
    by (simp add: name_rows_def rows_table del: nth_map)
  have p: "plain_header ''Server: web''" by (simp add: plain_header_def Let_def strncmp_eq_def)
  have s: "''debian-12-x86_64'' = ''debian'' @ ''-'' @ ''12'' @ ''-'' @ ''x86_64''" by simp
  show ?thesis
    using downloaded_files_are_the_bodies [OF up table_api_up(2) m, where net = "\<lambda>_. HTTP_UP (\<lambda>_. http_answer [''Server: web''] [] ''data'')",
        OF refl _ r s, where os = demo_services and vmlinuz = "''data''" and ramdisk = "''data''" and ?b1.0 = "[''Server: web'']" and
        ?a1.0 = "[]" and ?b2.0 = "[''Server: web'']" and ?a2.0 = "[]"]
    by (simp add: p demo_services_def del: append_Cons)
qed

end
