(* ===== verification/Domain_Specs.thy ===== *)
theory Domain_Specs
  imports Cbc_Domain Dnsa_Specs "HOL-Library.Sublist"
begin

text \<open>
  What cbcdomain promises (src/cbcdomain.c): which texts it reads as the network of a build domain, and which domains the
  networks of the DHCP server are written for.
\<close>

subsection \<open>The network of a line\<close>

lemma ip_misfit: "misfit (Some s) IP_REGEX = Some (pton4 s = None)"
  by (simp add: misfit_def ip_validates split: option.split)

lemma no_comma: "CHR '','' \<notin> set (ntop4 a)"
proof -
  have "CHR '','' \<notin> set (dec n)" for n
    using dec_digits [of n] by (auto simp: list_all_iff is_digit_def)
  then show ?thesis by (simp add: ntop4_dotted dotted_def)
qed

definition with_commas :: "u32 list \<Rightarrow> string" where
  "with_commas as = concat (map (\<lambda>a. ntop4 a @ [CHR '','']) as)"

lemma split_read: "split_ips (length as) (with_commas as @ rest) = Some (Some (map ucast as, rest))"
proof (induction as)
  case (Cons a as)
  have "with_commas (a # as) @ rest = ntop4 a @ CHR '','' # with_commas as @ rest" by (simp add: with_commas_def)
  then show ?case using Cons strchr_append_first [OF no_comma, of a] by (simp add: ip_misfit)
qed (simp add: with_commas_def)

lemma split_reads:
  "split_ips n ip \<noteq> None \<and> (\<forall>ips rest. split_ips n ip = Some (Some (ips, rest)) \<longrightarrow>
     (\<exists>as. length as = n \<and> ips = map ucast as \<and> ip = with_commas as @ rest))"
proof (induction n arbitrary: ip)
  case 0
  then show ?case by (auto simp: with_commas_def)
next
  case (Suc n)
  show ?case
  proof (cases "strchr ip CHR '',''")
    case (Some i)
    then have i: "i < length ip" "ip ! i = CHR '',''" using strchr_Some by blast+
    show ?thesis
    proof (cases "pton4 (take i ip)")
      case None
      then show ?thesis using Some by (simp add: ip_misfit)
    next
      case addr: (Some a)
      have ip: "ip = ntop4 a @ CHR '','' # drop (Suc i) ip"
        using id_take_nth_drop [OF i(1)] ntop4_pton4 [OF addr] i(2) by simp
      have eq: "split_ips (Suc n) ip = map_option (map_option (\<lambda>(ips, rest). (ucast a # ips, rest))) (split_ips n (drop (Suc i) ip))"
        using Some addr by (simp add: ip_misfit)
      have "\<exists>as. length as = Suc n \<and> ips = map ucast as \<and> ip = with_commas as @ rest"
        if split: "split_ips (Suc n) ip = Some (Some (ips, rest))" for ips rest
      proof -
        obtain js where j: "split_ips n (drop (Suc i) ip) = Some (Some (js, rest))" "ips = ucast a # js"
          using split unfolding eq by auto
        obtain as where "length as = n" "js = map ucast as" "drop (Suc i) ip = with_commas as @ rest"
          using Suc.IH j(1) by blast
        then show ?thesis using ip j(2) by (intro exI [of _ "a # as"]) (simp add: with_commas_def)
      qed
      then show ?thesis using Suc.IH [of "drop (Suc i) ip"] unfolding eq by auto
    qed
  next
    case None
    then show ?thesis by simp
  qed
qed


subsection \<open>The networks of the DHCP server\<close>

text \<open>How many interfaces of a network are free, and the domains served when each takes one.\<close>

definition free_ifaces :: "ailsa_iface_s list \<Rightarrow> u64 \<Rightarrow> nat" where
  "free_ifaces is nw = length (filter (\<lambda>i. ucast (if_nw i) = nw \<and> if_flag i = 0) is)"

fun served :: "(u64 \<Rightarrow> nat) \<Rightarrow> ailsa_dhcp_s list \<Rightarrow> ailsa_dhcp_s list" where
  "served free [] = []"
| "served free (d # ds) = (case free (dh_nw d) of 0 \<Rightarrow> served free ds | Suc n \<Rightarrow> d # served (free(dh_nw d := n)) ds)"

definition of_network :: "u64 \<Rightarrow> ailsa_dhcp_s list \<Rightarrow> nat" where
  "of_network nw ds = length (filter (\<lambda>d. dh_nw d = nw) ds)"

lemma served_subseq: "subseq (served free ds) ds"
  by (induction ds arbitrary: free) (auto split: nat.split)

lemma served_count: "of_network nw (served free ds) = min (free nw) (of_network nw ds)"
  by (induction ds arbitrary: free) (auto simp: of_network_def split: nat.split)

lemma claim_none: "claim_iface nw is = None \<longleftrightarrow> free_ifaces is nw = 0"
  by (induction "is") (auto simp: free_ifaces_def)

lemma claim_some: "claim_iface nw is = Some is' \<Longrightarrow> free_ifaces is nw = Suc (free_ifaces is' nw) \<and>
    (\<forall>n. n \<noteq> nw \<longrightarrow> free_ifaces is' n = free_ifaces is n)"
  by (induction "is" arbitrary: is') (auto simp: free_ifaces_def split: if_splits)

lemma networks_served:
  assumes "list_all (\<lambda>d. dhcp_network_text d = Some (block d)) ds"
  shows "dhcp_networks is ds = Some (concat (map block (served (free_ifaces is) ds)))"
  using assms
proof (induction ds arbitrary: "is")
  case (Cons d ds)
  show ?case
  proof (cases "claim_iface (dh_nw d) is")
    case None
    then have "free_ifaces is (dh_nw d) = 0" using claim_none by blast
    then show ?thesis using Cons None by simp
  next
    case (Some is')
    note c = claim_some [OF Some]
    have "(free_ifaces is)(dh_nw d := free_ifaces is' (dh_nw d)) = free_ifaces is'"
      using c by (auto simp: fun_eq_iff)
    then show ?thesis using Cons Some c by simp
  qed
qed simp

text \<open>C24: The file of the DHCP networks gets the block of a domain for each interface that can serve one: the domains
  appear in the order they were read, and of the domains of a network exactly as many as the host has interfaces in
  it, the first ones, so that no interface serves two domains and none is left free while a domain of its network
  waits.\<close>

theorem dhcp_networks_match_interfaces:
  assumes "cc_dhcpconf cc = Some dir" "path = snprintf_s DOMAIN_LEN (dir @ ''/dhcpd.networks'')" "os_open os path \<noteq> -1"
    and "list_all (\<lambda>d. dhcp_network_text d = Some (block d)) ds"
    and "list_all (\<lambda>i. if_flag i = 0) is" "chosen = served (free_ifaces is) ds"
  shows "write_dhcp_config_file os cc (Some is) (Some ds) st = Some (put_file path (concat (map block chosen)) st) \<and>
    subseq chosen ds \<and> (\<forall>nw. of_network nw chosen = min (length (filter (\<lambda>i. ucast (if_nw i) = nw) is)) (of_network nw ds))"
proof -
  have "free_ifaces is nw = length (filter (\<lambda>i. ucast (if_nw i) = nw) is)" for nw
    using assms(5) unfolding free_ifaces_def by (induction "is") auto
  then show ?thesis
    using assms(1-3) networks_served [OF assms(4), of "is"]
    by (simp add: write_dhcp_config_file_def assms(6) served_subseq served_count Let_def)
qed

text \<open>One interface, and two domains in its network.\<close>

definition demo_dhcp :: "string \<Rightarrow> u64 \<Rightarrow> ailsa_dhcp_s" where
  "demo_dhcp name nw = \<lparr>dh_iname = None, dh_dname = Some name, dh_network = Some ''192.168.1.0'', dh_gateway = Some ''192.168.1.1'',
     dh_nameserver = Some ''192.168.1.2'', dh_netmask = Some ''255.255.255.0'', dh_gw = 0, dh_nw = nw, dh_nm = 0, dh_ns = 0, dh_ip = 0\<rparr>"

theorem dhcp_networks_match_interfaces_witness:
  "write_dhcp_config_file demo_services (dns_cc\<lparr>cc_dhcpconf := Some ''/etc/dhcp''\<rparr>) (Some [iface_of ''eth0'' 0xC0A80105 0xFFFFFF00])
     (Some [demo_dhcp ''a.org'' 0xC0A80100, demo_dhcp ''b.org'' 0xC0A80100]) demo_site =
   Some (put_file (snprintf_s DOMAIN_LEN (''/etc/dhcp'' @ ''/dhcpd.networks'')) (the (dhcp_network_text (demo_dhcp ''a.org'' 0xC0A80100))) demo_site)"
proof -
  let ?is = "[iface_of ''eth0'' 0xC0A80105 0xFFFFFF00]"
  let ?ds = "[demo_dhcp ''a.org'' 0xC0A80100, demo_dhcp ''b.org'' 0xC0A80100]"
  have t: "list_all (\<lambda>d. dhcp_network_text d = Some (the (dhcp_network_text d))) ?ds"
    by (simp add: dhcp_network_text_def demo_dhcp_def)
  have f: "list_all (\<lambda>i. if_flag i = 0) ?is" by (simp add: iface_of_def Let_def)
  have n: "(ucast (if_nw (iface_of ''eth0'' 0xC0A80105 0xFFFFFF00)) :: u64) = 0xC0A80100" by (simp add: iface_of_def Let_def)
  have "served (free_ifaces ?is) ?ds = [demo_dhcp ''a.org'' 0xC0A80100]"
    using n f by (simp add: free_ifaces_def demo_dhcp_def)
  then show ?thesis
    using dhcp_networks_match_interfaces [OF _ refl _ t f refl, of "dns_cc\<lparr>cc_dhcpconf := Some ''/etc/dhcp''\<rparr>" "''/etc/dhcp''" demo_services demo_site]
    by (simp add: demo_services_def)
qed

end
