(* ===== verification/Part_Specs.thy ===== *)
theory Part_Specs
  imports Cbc_Part Build_Specs
begin

text \<open>
  What cbcpart promises (src/cbcpart.c): the lines it accepts for a new partition, and what a new partition inserts.
\<close>

subsection \<open>Accepted lines\<close>

lemma accepted_parts:
  assumes "parse_cbcpart_comm_line argc options cpl = Some (0, cl)"
  shows "\<exists>line. validate_cbcpart_comm_line line = Some 0 \<and> argc \<noteq> 1 \<and> validate_cbcpart_user_input argc line = (0, cl)"
proof -
  obtain r line where o: "cbcpart_options options cpl = Some (r, line)"
    using assms by (auto simp: parse_cbcpart_comm_line_def bind_eq_Some_conv)
  then have "r = 0" using assms by (auto simp: parse_cbcpart_comm_line_def split: if_splits)
  then obtain v where v: "validate_cbcpart_comm_line line = Some v"
    using assms o by (auto simp: parse_cbcpart_comm_line_def bind_eq_Some_conv)
  have "v = 0" "argc \<noteq> 1" "validate_cbcpart_user_input argc line = (0, cl)"
    using assms o v \<open>r = 0\<close> by (auto simp: parse_cbcpart_comm_line_def split: if_splits)
  then show ?thesis using v by blast
qed

lemma defaults_of_partition:
  "pcl_fs (partition_defaults cl) = pcl_fs cl" "pcl_scheme (partition_defaults cl) = pcl_scheme cl"
  "pcl_partition (partition_defaults cl) = pcl_partition cl" "pcl_log_vol (partition_defaults cl) = pcl_log_vol cl"
  "pcl_lvm (partition_defaults cl) = pcl_lvm cl" "pcl_action (partition_defaults cl) = pcl_action cl"
  "pcl_type (partition_defaults cl) = pcl_type cl" "pcl_pri (partition_defaults cl) \<noteq> 0"
  "pcl_min (partition_defaults cl) = (if pcl_min cl = 0 then pcl_max cl else pcl_min cl)"
  "pcl_max (partition_defaults cl) = (if pcl_max cl = 0 then pcl_min cl else pcl_max cl)"
  by (auto simp: partition_defaults_def Let_def word_gt_0)

text \<open>An accepted line of cbcpart for a new partition names its scheme, its mount point and its file system, which fits
  the pattern for file systems, and its volume when it is for LVM; its priority is not 0, and its minimum and maximum
  are both given or both 0.\<close>

theorem accepted_partition_line_is_complete:
  assumes "parse_cbcpart_comm_line argc options cpl = Some (0, cl)" "pcl_action cl = CMDB_ADD" "pcl_type cl = PARTITION"
  shows "pcl_scheme cl \<noteq> None \<and> pcl_partition cl \<noteq> None \<and> (\<exists>fs. pcl_fs cl = Some fs \<and> misfit (Some fs) FS_REGEX = Some False) \<and>
    (0 <s pcl_lvm cl \<longrightarrow> pcl_log_vol cl \<noteq> None) \<and> pcl_pri cl \<noteq> 0 \<and> (pcl_min cl = 0 \<longleftrightarrow> pcl_max cl = 0)"
proof -
  obtain line where l: "validate_cbcpart_comm_line line = Some 0" "validate_cbcpart_user_input argc line = (0, cl)"
    using accepted_parts [OF assms(1)] by blast
  have a: "pcl_action line = CMDB_ADD \<and> pcl_type line = PARTITION \<and> cl = partition_defaults line \<and> pcl_scheme line \<noteq> None \<and>
      pcl_partition line \<noteq> None \<and> pcl_fs line \<noteq> None \<and> (0 <s pcl_lvm line \<longrightarrow> pcl_log_vol line \<noteq> None)"
    using l(2) assms(2,3)
    by (auto simp: validate_cbcpart_user_input_def defaults_of_partition Let_def split: if_splits)
  then obtain fs where f: "pcl_fs line = Some fs" by blast
  then have "misfit (Some fs) FS_REGEX = Some False"
    using l(1) by (auto simp: validate_cbcpart_comm_line_def unless_misfit_def refuse_def given_def bind_eq_Some_conv split: if_splits)
  then show ?thesis using a f by (auto simp: defaults_of_partition)
qed

definition partition_options :: "(char \<times> string) list" where
  "partition_options = [(CHR ''a'', []), (CHR ''p'', []), (CHR ''n'', ''base''), (CHR ''t'', ''/boot''), (CHR ''f'', ''ext4'')]"

definition partition_line :: cbcpart_comm_line_s where
  "partition_line = cbcpart_line_zero\<lparr>pcl_action := CMDB_ADD, pcl_type := PARTITION, pcl_scheme := Some ''base'',
     pcl_partition := Some ''/boot'', pcl_fs := Some ''ext4'', pcl_pri := 100\<rparr>"

lemma fs_fits: "ailsa_validate_input (Some ''ext4'') FS_REGEX = Some 0"
  by code_simp

lemma partition_parsed: "parse_cbcpart_comm_line 9 partition_options cbcpart_line_zero = Some (0, partition_line)"
  by (simp add: parse_cbcpart_comm_line_def partition_options_def cbcpart_option_def cbcpart_line_zero_def strndup_def
      validate_cbcpart_comm_line_def unless_misfit_def refuse_def given_def misfit_def fs_fits validate_cbcpart_user_input_def
      partition_defaults_def partition_line_def)

theorem accepted_partition_line_is_complete_witness:
  "parse_cbcpart_comm_line 9 partition_options cbcpart_line_zero = Some (0, partition_line) \<and> pcl_pri partition_line \<noteq> 0"
  using accepted_partition_line_is_complete [OF partition_parsed] partition_parsed by (simp add: partition_line_def)

subsection \<open>A new partition\<close>

lemma partition_fields:
  "q_fields (argument_queries ! SCHEME_LVM_INFO) = [AILSA_DB_TEXT]"
  "q_fields (argument_queries ! IDENTIFY_PARTITION) = [AILSA_DB_TEXT, AILSA_DB_TEXT]"
  "q_fields (update_queries ! SET_PART_SCHEME_UPDATED) = [AILSA_DB_LINT, AILSA_DB_TEXT]"
  "q_fields (insert_queries ! INSERT_PARTITION) = [AILSA_DB_LINT, AILSA_DB_LINT, AILSA_DB_LINT, AILSA_DB_LINT, AILSA_DB_TEXT,
     AILSA_DB_TEXT, AILSA_DB_TEXT, AILSA_DB_LINT, AILSA_DB_LINT]"
  by (simp_all add: statement_fields argument_fields update_fields insert_fields table_lengths del: nth_map)

lemma scheme_updated:
  assumes "database_up api cc"
  shows "set_db_row_updated api uid w (Some cc) SET_PART_SCHEME_UPDATED (Some s) 0 =
    Some (executed api w (q_query (update_queries ! SET_PART_SCHEME_UPDATED)) [SQL_INT (ucast uid), text_value s])"
proof -
  have "args_values (q_fields (update_queries ! SET_PART_SCHEME_UPDATED)) [D_LINT (ucast uid), text_element s] =
      Some [SQL_INT (ucast uid), text_value s]"
    by (simp add: partition_fields text_element_def text_value_def del: One_nat_def)
  from up_update [OF assms _ this, of w] show ?thesis
    by (simp add: set_db_row_updated_def cmdb_add_number_to_list_def db_insert_def text_element_def table_lengths)
qed

definition partition_values :: "u32 \<Rightarrow> u64 \<Rightarrow> cbcpart_comm_line_s \<Rightarrow> string \<Rightarrow> string \<Rightarrow> sql_value list" where
  "partition_values uid scheme cl mount fs = map SQL_INT [scheme, pcl_min cl, pcl_max cl, pcl_pri cl] @ [text_value mount, text_value fs,
     text_value (case pcl_log_vol cl of None \<Rightarrow> ''none'' | Some v \<Rightarrow> v), SQL_INT (ucast uid), SQL_INT (ucast uid)]"

text \<open>C26: A new partition of cbcpart is inserted with the id of its scheme, its sizes, its priority, its mount point, its
  file system and its volume, or none, and then the scheme is marked as changed.  Nothing is inserted, and the code is 0,
  when the scheme already has a partition at the mount point, when it uses LVM and there is no volume, and when it does not
  and there is one.\<close>

theorem adding_a_partition:
  assumes "database_up api cc" "reads_up api"
    and "pcl_scheme cl = Some s" "pcl_partition cl = Some m" "pcl_fs cl = Some f"
    and "name_rows api w SCHEME_LVM_INFO s = [D_LINT lvm]" "name_rows api w SCHEME_ID_ON_NAME s = [D_LINT scheme]"
    and "rows_of api w (q_query (argument_queries ! IDENTIFY_PARTITION)) [text_value s, text_value m] = existing"
    and "executed api w (q_query (insert_queries ! INSERT_PARTITION)) (partition_values uid scheme cl m f) = (r, w1)"
  shows "add_partition_to_scheme api uid (Some cc) (Some cl) w =
    (if (0 <s (ucast lvm :: i16) \<and> pcl_log_vol cl = None) \<or> ((ucast lvm :: i16) = 0 \<and> pcl_log_vol cl \<noteq> None) \<or> existing \<noteq> [] then Some (0, w)
     else if r \<noteq> 0 then Some (r, w1)
     else Some (executed api w1 (q_query (update_queries ! SET_PART_SCHEME_UPDATED)) [SQL_INT (ucast uid), text_value s]))"
proof -
  have l: "args_values (q_fields (argument_queries ! SCHEME_LVM_INFO)) [text_element s] = Some [text_value s]"
    "args_values (q_fields (argument_queries ! IDENTIFY_PARTITION)) [text_element s, text_element m] = Some [text_value s, text_value m]"
    by (simp_all add: partition_fields text_element_def text_value_def)
  have i: "args_values (q_fields (insert_queries ! INSERT_PARTITION)) ([D_LINT scheme, D_LINT (pcl_min cl), D_LINT (pcl_max cl),
      D_LINT (pcl_pri cl), text_element m, text_element f, text_element (case pcl_log_vol cl of None \<Rightarrow> ''none'' | Some v \<Rightarrow> v),
      D_LINT (ucast uid), D_LINT (ucast uid)]) = Some (partition_values uid scheme cl m f)"
    by (simp add: partition_fields partition_values_def text_element_def text_value_def del: One_nat_def)
  have c: "cmdb_check_add_scheme_id_to_list api w (Some s) (Some cc) (Some []) = Some (0, w, Some [D_LINT scheme])"
    using detail_lookups(2) [OF assms(1,2), of w "Some s" "[]"] assms(7)
    by (simp add: cmdb_check_add_scheme_id_to_list_def check_added_def named_or_default_def)
  note q = up_argument [OF assms(1,2) _ l(1), of w "[]"] up_argument [OF assms(1,2) _ l(2), of w "[D_LINT lvm]"]
  have ins: "ailsa_insert_query api w (Some cc) INSERT_PARTITION (Some [D_LINT scheme, D_LINT (pcl_min cl), D_LINT (pcl_max cl),
      D_LINT (pcl_pri cl), text_element m, text_element f, text_element (case pcl_log_vol cl of None \<Rightarrow> ''none'' | Some v \<Rightarrow> v),
      D_LINT (ucast uid), D_LINT (ucast uid)]) = Some (r, w1)"
    using up_insert [OF assms(1) _ i, of w] assms(9) by (simp add: table_lengths)
  show ?thesis
    using q [unfolded text_element_def] ins [unfolded text_element_def] assms(6,8)
    by (cases "pcl_log_vol cl")
      (simp_all add: add_partition_to_scheme_def assms(3-5) or_none_def then_list_def then_rows_def c chk0_def scheme_updated [OF assms(1)]
        table_lengths name_rows_def add_args_def next_arg_def cmdb_add_number_to_list_def cmdb_populate_cuser_muser_def db_insert_def
        del: One_nat_def)
qed

theorem adding_a_partition_witness:
  "add_partition_to_scheme (table_api [(''SELECT def_part_id, ss.'', []), (''SELECT lvm'', [[SQL_INT 0]])]) 1000 (Some dns_cc)
     (Some partition_line) demo_world = Some (0, demo_world\<lparr>w_db := 11\<rparr>)"
proof -
  let ?t = "[(''SELECT def_part_id, ss.'', []), (''SELECT lvm'', [[SQL_INT 0]])]"
  have a: "answer_of ?t (q_query (argument_queries ! SCHEME_LVM_INFO)) = [[SQL_INT 0]]"
    "answer_of ?t (q_query (argument_queries ! SCHEME_ID_ON_NAME)) = [[SQL_INT 7]]"
    "answer_of ?t (q_query (argument_queries ! IDENTIFY_PARTITION)) = []"
    by code_simp+
  have l: "pcl_scheme partition_line = Some ''base''" "pcl_partition partition_line = Some ''/boot''" "pcl_fs partition_line = Some ''ext4''"
    "pcl_log_vol partition_line = None"
    by (simp_all add: partition_line_def cbcpart_line_zero_def)
  have r: "name_rows (table_api ?t) demo_world SCHEME_LVM_INFO ''base'' = [D_LINT 0]"
    "name_rows (table_api ?t) demo_world SCHEME_ID_ON_NAME ''base'' = [D_LINT 7]"
    using a by (simp_all add: name_rows_def rows_table del: nth_map)
  have n: "rows_of (table_api ?t) demo_world (q_query (argument_queries ! IDENTIFY_PARTITION)) [text_value ''base'', text_value ''/boot''] = []"
    using a(3) by (simp add: rows_table del: nth_map)
  show ?thesis
    using adding_a_partition [OF table_api_up l(1-3) r n executed_table, of 1000]
    by (simp add: l(4) partition_values_def demo_world_def)
qed

end
