(* ===== verification/Cmdb_Config.thy ===== *)
theory Cmdb_Config
  imports Cmdb_Helper
begin

text \<open>
  lib/config.c: the configuration of the commands.  The system file is read first, then the file of the user; in each
  file every setting is searched from the top, and the last value found is taken.  The directories the build sets, the files
  that can be opened and what \<open>wordexp\<close> and \<open>getenv\<close> answer are parameters; as compiled with
  \<open>HAVE_WORDEXP\<close>.
\<close>

subsection \<open>Reading a file\<close>

text \<open>What one call of \<open>fgets\<close> reads into a buffer that has place for \<open>n\<close> characters, and what it leaves.\<close>

fun fgets_piece :: "nat \<Rightarrow> string \<Rightarrow> string \<times> string" where
  "fgets_piece 0 s = ([], s)"
| "fgets_piece (Suc n) [] = ([], [])"
| "fgets_piece (Suc n) (c # cs) =
    (if c = CHR 0x0A then ([c], cs) else (case fgets_piece n cs of (p, r) \<Rightarrow> (c # p, r)))"

lemma fgets_piece_left: "0 < n \<Longrightarrow> s \<noteq> [] \<Longrightarrow> length (snd (fgets_piece n s)) < length s"
proof (induction n s rule: fgets_piece.induct)
  case (3 n c cs)
  show ?case
  proof (cases "n = 0 \<or> cs = []")
    case True
    then show ?thesis by (cases n) auto
  next
    case False
    then show ?thesis using 3 by (auto split: prod.splits)
  qed
qed simp_all

lemma fgets_piece_shorter: "fgets_piece n s = (p, r) \<Longrightarrow> 0 < n \<Longrightarrow> s \<noteq> [] \<Longrightarrow> length r < length s"
  using fgets_piece_left [of n s] by simp

text \<open>The buffers a loop over the file sees; a string ends at its first NUL.\<close>

function config_lines :: "string \<Rightarrow> string list" where
  "config_lines conf = (if conf = [] then [] else
     (case fgets_piece (CONFIG_LEN - 1) conf of (buff, conf) \<Rightarrow>
       takeWhile (\<lambda>c. c \<noteq> CHR 0x00) buff # config_lines conf))"
  by auto

termination
  by (relation "measure length") (auto intro: fgets_piece_shorter [OF sym])

declare config_lines.simps [simp del]

subsection \<open>One setting\<close>

text \<open>\<open>sscanf(buff, "KEY=%s", temp)\<close>: \<open>None\<close> when nothing was stored.\<close>

definition scan_text :: "string \<Rightarrow> string \<Rightarrow> string option" where
  "scan_text key buff = (if take (length key) buff \<noteq> key then None
     else (case takeWhile (\<lambda>c. \<not> is_space c) (dropWhile is_space (drop (length key) buff)) of
         [] \<Rightarrow> None
       | c # cs \<Rightarrow> Some (c # cs)))"

definition get_config_option :: "string list \<Rightarrow> string \<Rightarrow> cstr \<Rightarrow> cstr" where
  "get_config_option conf key option =
    (let temp = fold (\<lambda>buff temp. case scan_text key buff of None \<Rightarrow> temp | Some v \<Rightarrow> v) conf []
     in if temp = [] then option else Some (snprintf_s CONFIG_LEN temp))"

text \<open>\<open>sscanf(buff, "KEY=%lu", &option)\<close>, and \<open>%u\<close>: a number the type cannot hold is undefined.\<close>

definition scan_digits :: "string \<Rightarrow> int option" where
  "scan_digits s = (if takeWhile is_digit s = [] then None else Some (int (digits_value s)))"

definition scan_number :: "string \<Rightarrow> string \<Rightarrow> int option" where
  "scan_number key buff = (if take (length key) buff \<noteq> key then None
     else (case dropWhile is_space (drop (length key) buff) of
         [] \<Rightarrow> None
       | c # cs \<Rightarrow>
           if c = CHR ''-'' then map_option uminus (scan_digits cs)
           else if c = CHR ''+'' then scan_digits cs
           else scan_digits (c # cs)))"

definition get_config_int :: "string list \<Rightarrow> string \<Rightarrow> 'a::len word \<Rightarrow> 'a word option" where
  "get_config_int conf key option =
     fold (\<lambda>buff r. do {
       v \<leftarrow> r;
       (case scan_number key buff of
         None \<Rightarrow> Some v
       | Some n \<Rightarrow> if \<bar>n\<bar> < 2 ^ LENGTH('a) then Some (of_int n) else None)
     }) conf (Some option)"

subsection \<open>All settings\<close>

text \<open>The first \<open>@\<close> of the mail address of the host master becomes a dot.\<close>

fun replace_at :: "string \<Rightarrow> string" where
  "replace_at [] = []"
| "replace_at (c # cs) = (if c = CHR 0x40 then CHR ''.'' # cs else c # replace_at cs)"

text \<open>When the character cannot be added, the text stays and the log says so.\<close>

definition with_trailing :: "(string \<Rightarrow> (int \<times> string) option) \<Rightarrow> cstr \<Rightarrow> cstr option" where
  "with_trailing add member = (case member of None \<Rightarrow> Some None | Some s \<Rightarrow> map_option (\<lambda>(retval, s). Some s) (add s))"

definition get_config_options :: "string list \<Rightarrow> ailsa_cmdb_s \<Rightarrow> ailsa_cmdb_s" where
  "get_config_options conf cmdb =
    (let get = get_config_option conf in
     cmdb\<lparr>cc_tmpdir := get ''TMPDIR='' (cc_tmpdir cmdb),
       cc_toplevelos := get ''TOPLEVELOS='' (cc_toplevelos cmdb),
       cc_pxe := get ''PXE='' (cc_pxe cmdb),
       cc_dbtype := get ''DBTYPE='' (cc_dbtype cmdb),
       cc_db := get ''DB='' (cc_db cmdb),
       cc_file := get ''FILE='' (cc_file cmdb),
       cc_user := get ''USER='' (cc_user cmdb),
       cc_pass := get ''PASS='' (cc_pass cmdb),
       cc_host := get ''HOST='' (cc_host cmdb),
       cc_dir := get ''DIR='' (cc_dir cmdb),
       cc_bind := get ''BIND='' (cc_bind cmdb),
       cc_dnsa := get ''DNSA='' (cc_dnsa cmdb),
       cc_rev := get ''REV='' (cc_rev cmdb),
       cc_rndc := get ''RNDC='' (cc_rndc cmdb),
       cc_chkz := get ''CHKZ='' (cc_chkz cmdb),
       cc_chkc := get ''CHKC='' (cc_chkc cmdb),
       cc_socket := get ''SOCKET='' (cc_socket cmdb),
       cc_hostmaster := get ''HOSTMASTER='' (cc_hostmaster cmdb),
       cc_prins := get ''PRINS='' (cc_prins cmdb),
       cc_secns := get ''SECNS='' (cc_secns cmdb),
       cc_pridns := get ''PRIDNS='' (cc_pridns cmdb),
       cc_secdns := get ''SECDNS='' (cc_secdns cmdb),
       cc_tftpdir := get ''TFTPDIR='' (cc_tftpdir cmdb),
       cc_dhcpconf := get ''DHCPCONF='' (cc_dhcpconf cmdb)\<rparr>)"

definition get_config_ints :: "string list \<Rightarrow> ailsa_cmdb_s \<Rightarrow> ailsa_cmdb_s option" where
  "get_config_ints conf cmdb = do {
     port \<leftarrow> get_config_int conf ''PORT='' (cc_port cmdb);
     refresh \<leftarrow> get_config_int conf ''REFRESH='' (cc_refresh cmdb);
     retry \<leftarrow> get_config_int conf ''RETRY='' (cc_retry cmdb);
     expire \<leftarrow> get_config_int conf ''EXPIRE='' (cc_expire cmdb);
     ttl \<leftarrow> get_config_int conf ''TTL='' (cc_ttl cmdb);
     cliflag \<leftarrow> get_config_int conf ''CLIFLAG='' (cc_cliflag cmdb);
     Some (cmdb\<lparr>cc_port := port, cc_refresh := refresh, cc_retry := retry, cc_expire := expire, cc_ttl := ttl,
       cc_cliflag := cliflag\<rparr>)
   }"

text \<open>The host master is searched for \<open>@\<close> before it is tested to be there.\<close>

definition complete_config :: "ailsa_cmdb_s \<Rightarrow> ailsa_cmdb_s option" where
  "complete_config cmdb = do {
     hostmaster \<leftarrow> cc_hostmaster cmdb;
     hostmaster \<leftarrow> with_trailing ailsa_add_trailing_dot (Some (replace_at hostmaster));
     dir \<leftarrow> with_trailing ailsa_add_trailing_slash (cc_dir cmdb);
     pxe \<leftarrow> with_trailing ailsa_add_trailing_slash (cc_pxe cmdb);
     bind \<leftarrow> with_trailing ailsa_add_trailing_slash (cc_bind cmdb);
     tmpdir \<leftarrow> with_trailing ailsa_add_trailing_slash (cc_tmpdir cmdb);
     tftpdir \<leftarrow> with_trailing ailsa_add_trailing_slash (cc_tftpdir cmdb);
     toplevelos \<leftarrow> with_trailing ailsa_add_trailing_slash (cc_toplevelos cmdb);
     dhcpconf \<leftarrow> with_trailing ailsa_add_trailing_slash (cc_dhcpconf cmdb);
     Some (cmdb\<lparr>cc_hostmaster := hostmaster, cc_dir := dir, cc_pxe := pxe, cc_bind := bind, cc_tmpdir := tmpdir,
       cc_tftpdir := tftpdir, cc_toplevelos := toplevelos, cc_dhcpconf := dhcpconf\<rparr>)
   }"

definition parse_cmdb_config_values :: "ailsa_cmdb_s \<Rightarrow> string \<Rightarrow> ailsa_cmdb_s option" where
  "parse_cmdb_config_values cmdb conf =
    (let buffs = config_lines conf in
     do { cmdb \<leftarrow> get_config_ints buffs (get_config_options buffs cmdb); complete_config cmdb })"

subsection \<open>The two files\<close>

record config_env =
  ce_sysconfdir :: string
  ce_localstatedir :: string
  ce_open :: "string \<Rightarrow> string option"
  ce_wordexp :: "string \<Rightarrow> string option"
  ce_home :: cstr

text \<open>Without the system file the program ends with code 1.\<close>

definition parse_system_cmdb_config :: "config_env \<Rightarrow> ailsa_cmdb_s \<Rightarrow> (int + ailsa_cmdb_s) option" where
  "parse_system_cmdb_config env cmdb =
    (case ce_open env (snprintf_s FILE_LEN (ce_sysconfdir env @ ''/cmdb/cmdb.conf'')) of
       None \<Rightarrow> Some (Inl 1)
     | Some conf \<Rightarrow> map_option Inr (parse_cmdb_config_values cmdb conf))"

text \<open>The file below the home directory, when the expanded name could not be opened; a path that is too long is
  not tried.\<close>

definition open_below_home :: "config_env \<Rightarrow> string \<Rightarrow> string option option" where
  "open_below_home env name = do {
     home \<leftarrow> ce_home env;
     Some (if length (home @ name) \<ge> CONFIG_LEN then None else ce_open env (home @ name))
   }"

text \<open>When \<open>wordexp\<close> fails, \<open>wordfree\<close> is given a structure nobody has initialised.\<close>

definition parse_user_cmdb_config :: "config_env \<Rightarrow> ailsa_cmdb_s \<Rightarrow> ailsa_cmdb_s option" where
  "parse_user_cmdb_config env cmdb = do {
     path \<leftarrow> ce_wordexp env ''~/.cmdb.conf'';
     conf \<leftarrow> (case ce_open env path of
         Some conf \<Rightarrow> Some (Some conf)
       | None \<Rightarrow> open_below_home env ''/.cmdb.conf'');
     (case conf of
        None \<Rightarrow> Some cmdb
      | Some conf \<Rightarrow> if 0 < length conf then parse_cmdb_config_values cmdb conf else Some cmdb)
   }"

definition cmdb_defaults :: "config_env \<Rightarrow> ailsa_cmdb_s \<Rightarrow> ailsa_cmdb_s" where
  "cmdb_defaults env cmdb = cmdb\<lparr>
     cc_toplevelos := Some (snprintf_s CONFIG_LEN (ce_localstatedir env @ ''/lib/cmdb'')),
     cc_tmpdir := Some (snprintf_s CONFIG_LEN (ce_localstatedir env @ ''/lib/cmdb/tmp'')),
     cc_file := Some (snprintf_s CONFIG_LEN (ce_localstatedir env @ ''/lib/cmdb/sql/cmdb.sql'')),
     cc_pxe := Some ''pxelinux.cfg''\<rparr>"

definition parse_cmdb_config :: "config_env \<Rightarrow> ailsa_cmdb_s \<Rightarrow> (int + ailsa_cmdb_s) option" where
  "parse_cmdb_config env cmdb = do {
     r \<leftarrow> parse_system_cmdb_config env (cmdb_defaults env cmdb);
     (case r of
        Inl code \<Rightarrow> Some (Inl code)
      | Inr cmdb \<Rightarrow> map_option Inr (parse_user_cmdb_config env cmdb))
   }"

text \<open>The configuration \<open>calloc\<close> delivers.\<close>

definition cmdb_zero :: ailsa_cmdb_s where
  "cmdb_zero = \<lparr>cc_dbtype = None, cc_db = None, cc_file = None, cc_user = None, cc_pass = None, cc_host = None,
     cc_dir = None, cc_bind = None, cc_dnsa = None, cc_rev = None, cc_rndc = None, cc_chkz = None, cc_chkc = None,
     cc_socket = None, cc_hostmaster = None, cc_prins = None, cc_secns = None, cc_pridns = None, cc_secdns = None,
     cc_toplevelos = None, cc_pxe = None, cc_tmpdir = None, cc_tftpdir = None, cc_dhcpconf = None, cc_port = 0,
     cc_refresh = 0, cc_retry = 0, cc_expire = 0, cc_ttl = 0, cc_cliflag = 0\<rparr>"

end
