(* ===== verification/Config_Specs.thy ===== *)
theory Config_Specs
  imports Cmdb_Config
begin

text \<open>
  What reading the configuration promises (lib/config.c): the settings of a file are read back as written, the file of the
  user wins over the file of the system, and every directory ends with a slash.
\<close>

subsection \<open>Files of settings\<close>

definition config_line :: "string \<times> string \<Rightarrow> string" where
  "config_line kv = fst kv @ ''='' @ snd kv @ [CHR 0x0A]"

definition config_text :: "(string \<times> string) list \<Rightarrow> string" where
  "config_text kvs = concat (map config_line kvs)"

text \<open>A key without sign, blank or NUL, a value without blank or NUL, and both fit a buffer.\<close>

definition plain_setting :: "string \<times> string \<Rightarrow> bool" where
  "plain_setting kv \<longleftrightarrow>
     (\<forall>c\<in>set (fst kv). c \<noteq> CHR ''='' \<and> \<not> is_space c \<and> c \<noteq> CHR 0x00) \<and>
     snd kv \<noteq> [] \<and> (\<forall>c\<in>set (snd kv). \<not> is_space c \<and> c \<noteq> CHR 0x00) \<and>
     length (fst kv) + length (snd kv) + 2 < CONFIG_LEN"

lemma newline_is_space: "is_space (CHR 0x0A)"
  by (simp add: is_space_def)

lemma no_newline: "\<forall>c\<in>set s. \<not> is_space c \<and> c \<noteq> CHR 0x00 \<Longrightarrow> CHR 0x0A \<notin> set s"
  using newline_is_space by blast

lemma fgets_piece_line:
  "CHR 0x0A \<notin> set l \<Longrightarrow> length l < n \<Longrightarrow> fgets_piece n (l @ CHR 0x0A # rest) = (l @ [CHR 0x0A], rest)"
proof (induction l arbitrary: n)
  case Nil
  then show ?case by (cases n) simp_all
next
  case (Cons c l)
  then show ?case by (cases n) auto
qed

lemma config_lines_line:
  assumes "CHR 0x0A \<notin> set l" and "CHR 0x00 \<notin> set l" and "length l + 1 < CONFIG_LEN"
  shows "config_lines (l @ CHR 0x0A # rest) = (l @ [CHR 0x0A]) # config_lines rest"
proof -
  have "takeWhile (\<lambda>c. c \<noteq> CHR 0x00) (l @ [CHR 0x0A]) = l @ [CHR 0x0A]"
    using assms(2) by (auto simp: takeWhile_append)
  then show ?thesis
    using assms fgets_piece_line [of l "CONFIG_LEN - 1" rest]
    by (subst config_lines.simps) simp
qed

lemma config_lines_text:
  "\<forall>kv\<in>set kvs. plain_setting kv \<Longrightarrow> config_lines (config_text kvs) = map config_line kvs"
proof (induction kvs)
  case Nil
  show ?case by (simp add: config_text_def config_lines.simps)
next
  case (Cons kv kvs)
  let ?l = "fst kv @ CHR ''='' # snd kv"
  have "plain_setting kv" using Cons.prems by simp
  then have "CHR 0x0A \<notin> set ?l" "CHR 0x00 \<notin> set ?l" "length ?l + 1 < CONFIG_LEN"
    using newline_is_space by (auto simp: plain_setting_def)
  then have "config_lines (?l @ CHR 0x0A # config_text kvs) = (?l @ [CHR 0x0A]) # config_lines (config_text kvs)"
    by (rule config_lines_line)
  then show ?case using Cons by (simp add: config_text_def config_line_def)
qed

text \<open>A line gives its value to its own key and nothing to another one.\<close>

lemma key_prefix:
  "CHR ''='' \<notin> set k \<Longrightarrow> CHR ''='' \<notin> set k' \<Longrightarrow>
   take (length k + 1) (k' @ CHR ''='' # s) = k @ [CHR ''=''] \<longleftrightarrow> k = k'"
proof (induction k arbitrary: k')
  case Nil
  then show ?case by (cases k') auto
next
  case (Cons c k)
  then show ?case by (cases k') auto
qed

lemma scan_line:
  assumes "plain_setting kv" and "CHR ''='' \<notin> set k"
  shows "scan_text (k @ ''='') (config_line kv) = (if k = fst kv then Some (snd kv) else None)"
proof -
  have plain: "CHR ''='' \<notin> set (fst kv)" "\<forall>c\<in>set (snd kv). \<not> is_space c" "snd kv \<noteq> []"
    using assms(1) by (auto simp: plain_setting_def)
  have found: "takeWhile (\<lambda>c. \<not> is_space c) (dropWhile is_space (snd kv @ [CHR 0x0A])) = snd kv"
    using plain(2,3) newline_is_space by (cases "snd kv") (auto simp: takeWhile_append)
  have key: "take (length k + 1) (config_line kv) = k @ ''='' \<longleftrightarrow> k = fst kv"
    using key_prefix [OF assms(2) plain(1)] by (simp add: config_line_def)
  show ?thesis
    using key found plain(3) by (cases "snd kv") (auto simp: scan_text_def config_line_def)
qed

lemma last_value:
  assumes "\<forall>kv\<in>set kvs. plain_setting kv" and "CHR ''='' \<notin> set k"
  shows "fold (\<lambda>buff temp. case scan_text (k @ ''='') buff of None \<Rightarrow> temp | Some v \<Rightarrow> v) (map config_line kvs) t =
    (case map_of (rev kvs) k of None \<Rightarrow> t | Some v \<Rightarrow> v)"
  using assms(1)
proof (induction kvs arbitrary: t)
  case Nil
  show ?case by simp
next
  case (Cons kv kvs)
  then show ?case
    using assms(2) by (cases kv) (auto simp: scan_line map_add_def split: option.split)
qed

text \<open>C20: The settings of a file are read as they were written: from lines of a key, an equals sign and a value the last
  value of a key is taken, and a setting without a line keeps its value.\<close>

theorem written_settings_are_read:
  assumes "\<forall>kv\<in>set kvs. plain_setting kv" and "CHR ''='' \<notin> set k"
  shows "get_config_option (config_lines (config_text kvs)) (k @ ''='') old =
    (case map_of (rev kvs) k of None \<Rightarrow> old | Some v \<Rightarrow> Some v)"
proof (cases "map_of (rev kvs) k")
  case None
  then show ?thesis using assms last_value [of kvs k "[]"] by (simp add: get_config_option_def config_lines_text)
next
  case (Some v)
  then have "plain_setting (k, v)" using assms(1) map_of_SomeD [OF Some] by auto
  then have "v \<noteq> []" "length v \<le> CONFIG_LEN - 1" by (auto simp: plain_setting_def)
  then show ?thesis
    using Some assms last_value [of kvs k "[]"]
    by (simp add: get_config_option_def config_lines_text snprintf_s_def)
qed

theorem written_settings_are_read_witness:
  "get_config_option (config_lines (config_text [(''DB'', ''cmdb''), (''DBTYPE'', ''sqlite''), (''DB'', ''test'')]))
     (''DB'' @ ''='') None = Some ''test''"
  using written_settings_are_read
    [of "[(''DB'', ''cmdb''), (''DBTYPE'', ''sqlite''), (''DB'', ''test'')]" "''DB''" None]
  by (simp add: plain_setting_def is_space_def)

subsection \<open>Which file a setting is from\<close>

text \<open>The settings that are taken as they are.\<close>

definition plain_settings :: "(string \<times> (ailsa_cmdb_s \<Rightarrow> cstr)) list" where
  "plain_settings =
     [(''DBTYPE='', cc_dbtype), (''DB='', cc_db), (''FILE='', cc_file), (''USER='', cc_user), (''PASS='', cc_pass),
      (''HOST='', cc_host), (''DNSA='', cc_dnsa), (''REV='', cc_rev), (''RNDC='', cc_rndc), (''CHKZ='', cc_chkz),
      (''CHKC='', cc_chkc), (''SOCKET='', cc_socket), (''PRINS='', cc_prins), (''SECNS='', cc_secns),
      (''PRIDNS='', cc_pridns), (''SECDNS='', cc_secdns)]"

text \<open>The settings that name directories.\<close>

definition config_directories :: "(ailsa_cmdb_s \<Rightarrow> cstr) list" where
  "config_directories = [cc_dir, cc_pxe, cc_bind, cc_tmpdir, cc_tftpdir, cc_toplevelos, cc_dhcpconf]"

definition system_file :: "config_env \<Rightarrow> string option" where
  "system_file env = ce_open env (snprintf_s FILE_LEN (ce_sysconfdir env @ ''/cmdb/cmdb.conf''))"

text \<open>The text of the file of the user, empty when there is none.\<close>

definition users_text :: "config_env \<Rightarrow> string" where
  "users_text env = (case ce_wordexp env ''~/.cmdb.conf'' of None \<Rightarrow> [] | Some path \<Rightarrow>
     (case ce_open env path of
        Some conf \<Rightarrow> conf
      | None \<Rightarrow> (case open_below_home env ''/.cmdb.conf'' of Some (Some conf) \<Rightarrow> conf | _ \<Rightarrow> [])))"

lemma config_lines_Nil [simp]: "config_lines [] = []"
  by (simp add: config_lines.simps)

lemma get_config_option_Nil [simp]: "get_config_option [] key old = old"
  by (simp add: get_config_option_def)

text \<open>Only the settings a step is about change in it.\<close>

lemma config_ints_keep:
  assumes "get_config_ints ls cmdb = Some c"
  shows "map (\<lambda>(k, f). f c) plain_settings = map (\<lambda>(k, f). f cmdb) plain_settings"
    and "map (\<lambda>f. f c) config_directories = map (\<lambda>f. f cmdb) config_directories"
    and "cc_hostmaster c = cc_hostmaster cmdb"
  using assms by (auto simp: get_config_ints_def bind_eq_Some_conv plain_settings_def config_directories_def)

lemma complete_config_keeps:
  assumes "complete_config cmdb = Some c"
  shows "map (\<lambda>(k, f). f c) plain_settings = map (\<lambda>(k, f). f cmdb) plain_settings"
  using assms by (auto simp: complete_config_def bind_eq_Some_conv plain_settings_def)

lemma config_values_steps:
  assumes "parse_cmdb_config_values cmdb conf = Some cmdb'"
  obtains c where "get_config_ints (config_lines conf) (get_config_options (config_lines conf) cmdb) = Some c"
    and "complete_config c = Some cmdb'"
  using assms by (auto simp: parse_cmdb_config_values_def Let_def bind_eq_Some_conv)

lemma values_plain:
  assumes "parse_cmdb_config_values cmdb conf = Some cmdb'" and "(k, f) \<in> set plain_settings"
  shows "f cmdb' = get_config_option (config_lines conf) k (f cmdb)"
proof -
  let ?ls = "config_lines conf"
  obtain c where ints: "get_config_ints ?ls (get_config_options ?ls cmdb) = Some c"
    and complete: "complete_config c = Some cmdb'"
    using config_values_steps [OF assms(1)] .
  have "f cmdb' = f (get_config_options ?ls cmdb)"
    using complete_config_keeps [OF complete] config_ints_keep(1) [OF ints] assms(2) by fastforce
  then show ?thesis using assms(2) by (auto simp: plain_settings_def get_config_options_def Let_def)
qed

text \<open>The two steps of a successful run.\<close>

lemma parse_cmdb_config_steps:
  assumes "parse_cmdb_config env cmdb = Some (Inr cfg)" and "system_file env = Some sys"
  obtains mid where "parse_cmdb_config_values (cmdb_defaults env cmdb) sys = Some mid"
    and "if users_text env = [] then cfg = mid else parse_cmdb_config_values mid (users_text env) = Some cfg"
proof -
  obtain mid where mid: "parse_cmdb_config_values (cmdb_defaults env cmdb) sys = Some mid"
    and user: "parse_user_cmdb_config env mid = Some cfg"
    using assms by (auto simp: parse_cmdb_config_def parse_system_cmdb_config_def system_file_def bind_eq_Some_conv)
  have "if users_text env = [] then cfg = mid else parse_cmdb_config_values mid (users_text env) = Some cfg"
    using user
    by (auto simp: parse_user_cmdb_config_def users_text_def bind_eq_Some_conv split: option.splits if_splits)
  then show thesis using mid that by blast
qed

text \<open>Each setting is the value of the file of the user, else that of the file of the system, else the default of the
  build.\<close>

theorem the_users_file_wins:
  assumes "parse_cmdb_config env cmdb_zero = Some (Inr cfg)" and "system_file env = Some sys"
    and "(k, f) \<in> set plain_settings"
  shows "f cfg = get_config_option (config_lines (users_text env)) k
    (get_config_option (config_lines sys) k (f (cmdb_defaults env cmdb_zero)))"
proof -
  obtain mid where mid: "parse_cmdb_config_values (cmdb_defaults env cmdb_zero) sys = Some mid"
    and cfg: "if users_text env = [] then cfg = mid else parse_cmdb_config_values mid (users_text env) = Some cfg"
    using parse_cmdb_config_steps [OF assms(1,2)] .
  show ?thesis
    using values_plain [OF mid assms(3)] values_plain [OF _ assms(3), of mid "users_text env" cfg] cfg
    by (cases "users_text env = []") auto
qed

subsection \<open>Directories and the host master\<close>

definition ends_with :: "char \<Rightarrow> cstr \<Rightarrow> bool" where
  "ends_with c s \<longleftrightarrow> (\<forall>p. s = Some p \<longrightarrow> p \<noteq> [] \<and> last p = c \<and> length p \<le> 254)"

definition can_end_with :: "char \<Rightarrow> cstr \<Rightarrow> bool" where
  "can_end_with c s \<longleftrightarrow> (\<forall>p. s = Some p \<longrightarrow> p \<noteq> [] \<and> (length p < 254 \<or> last p = c \<and> length p \<le> 254))"

lemma ends_can_end: "ends_with c s \<Longrightarrow> can_end_with c s"
  by (auto simp: ends_with_def can_end_with_def)

lemma fgets_piece_length: "length (fst (fgets_piece n s)) \<le> n"
  by (induction n s rule: fgets_piece.induct) (auto split: prod.splits)

lemma config_lines_length: "buff \<in> set (config_lines conf) \<Longrightarrow> length buff < CONFIG_LEN"
proof (induction "length conf" arbitrary: conf rule: less_induct)
  case less
  obtain p r where piece: "fgets_piece (CONFIG_LEN - 1) conf = (p, r)" by (cases "fgets_piece (CONFIG_LEN - 1) conf")
  have conf: "conf \<noteq> []" using less.prems by (auto simp: config_lines.simps)
  then have lines: "config_lines conf = takeWhile (\<lambda>c. c \<noteq> CHR 0x00) p # config_lines r"
    using piece by (subst config_lines.simps) simp
  have "length (takeWhile (\<lambda>c. c \<noteq> CHR 0x00) p) < CONFIG_LEN"
    using fgets_piece_length [of "CONFIG_LEN - 1" conf] length_takeWhile_le [of "\<lambda>c. c \<noteq> CHR 0x00" p] piece by simp
  moreover have "length r < length conf" using fgets_piece_shorter [OF piece] conf by simp
  ultimately show ?case using less lines by auto
qed

lemma scan_text_length:
  assumes "scan_text key buff = Some v"
  shows "v \<noteq> []" and "length v + length key \<le> length buff"
proof -
  have pre: "take (length key) buff = key"
    and v: "v = takeWhile (\<lambda>c. \<not> is_space c) (dropWhile is_space (drop (length key) buff))" "v \<noteq> []"
    using assms by (auto simp: scan_text_def split: if_splits list.splits)
  show "v \<noteq> []" by (rule v(2))
  have "length v \<le> length (drop (length key) buff)"
    unfolding v(1) by (rule order_trans [OF length_takeWhile_le length_dropWhile_le])
  moreover have "length key \<le> length buff" using arg_cong [OF pre, of length] by simp
  ultimately show "length v + length key \<le> length buff" by simp
qed

lemma scanned_values:
  assumes "\<forall>buff\<in>set ls. length buff < CONFIG_LEN" and "t = [] \<or> length t + length key < CONFIG_LEN"
  shows "(let v = fold (\<lambda>buff temp. case scan_text key buff of None \<Rightarrow> temp | Some v \<Rightarrow> v) ls t in
    v = [] \<or> length v + length key < CONFIG_LEN)"
  using assms
proof (induction ls arbitrary: t)
  case Nil
  then show ?case by simp
next
  case (Cons b ls)
  show ?case
  proof (cases "scan_text key b")
    case None
    then show ?thesis using Cons by simp
  next
    case (Some v)
    then have "length v + length key < CONFIG_LEN" using scan_text_length(2) [OF Some] Cons.prems(1) by simp
    then show ?thesis using Some Cons by simp
  qed
qed

lemma get_config_option_ends:
  assumes "can_end_with c old" and "2 \<le> length key"
  shows "can_end_with c (get_config_option (config_lines conf) key old)"
  using scanned_values [of "config_lines conf" "[]" key] assms config_lines_length [of _ conf]
  by (auto simp: get_config_option_def can_end_with_def Let_def snprintf_s_def)

lemma trailing_slash_ends:
  "with_trailing ailsa_add_trailing_slash s = Some s' \<Longrightarrow> can_end_with (CHR ''/'') s \<Longrightarrow> ends_with (CHR ''/'') s'"
  by (auto simp: with_trailing_def ailsa_add_trailing_slash_def can_end_with_def ends_with_def
      split: option.splits if_splits)

lemma trailing_dot_ends:
  "with_trailing ailsa_add_trailing_dot s = Some s' \<Longrightarrow> can_end_with (CHR ''.'') s \<Longrightarrow> ends_with (CHR ''.'') s'"
  by (auto simp: with_trailing_def ailsa_add_trailing_dot_def can_end_with_def ends_with_def
      split: option.splits if_splits)

lemma replace_at_ends: "can_end_with (CHR ''.'') (Some s) \<Longrightarrow> can_end_with (CHR ''.'') (Some (replace_at s))"
proof -
  have "length (replace_at s) = length s" by (induction s) auto
  moreover have "s \<noteq> [] \<Longrightarrow> last s = CHR ''.'' \<Longrightarrow> last (replace_at s) = CHR ''.''"
  proof (induction s)
    case (Cons c s)
    then show ?case by (cases s) auto
  qed simp
  ultimately show "can_end_with (CHR ''.'') (Some s) \<Longrightarrow> can_end_with (CHR ''.'') (Some (replace_at s))"
    by (auto simp: can_end_with_def)
qed

definition can_be_completed :: "ailsa_cmdb_s \<Rightarrow> bool" where
  "can_be_completed cmdb \<longleftrightarrow>
     list_all (\<lambda>f. can_end_with (CHR ''/'') (f cmdb)) config_directories \<and> can_end_with (CHR ''.'') (cc_hostmaster cmdb)"

definition completed :: "ailsa_cmdb_s \<Rightarrow> bool" where
  "completed cmdb \<longleftrightarrow>
     list_all (\<lambda>f. ends_with (CHR ''/'') (f cmdb)) config_directories \<and> cc_hostmaster cmdb \<noteq> None \<and>
     ends_with (CHR ''.'') (cc_hostmaster cmdb)"

lemma completed_can_be: "completed cmdb \<Longrightarrow> can_be_completed cmdb"
  by (auto simp: completed_def can_be_completed_def list_all_iff intro: ends_can_end)

lemma options_can_be_completed: "can_be_completed cmdb \<Longrightarrow> can_be_completed (get_config_options (config_lines conf) cmdb)"
  by (simp add: can_be_completed_def config_directories_def get_config_options_def Let_def get_config_option_ends)

lemma ints_can_be_completed:
  assumes "get_config_ints ls cmdb = Some c" and "can_be_completed cmdb"
  shows "can_be_completed c"
  using config_ints_keep(2,3) [OF assms(1)] assms(2) by (simp add: can_be_completed_def config_directories_def)

lemma with_trailing_Some: "with_trailing add (Some s) = Some s' \<Longrightarrow> s' \<noteq> None"
  by (auto simp: with_trailing_def)

lemma complete_config_completes: "complete_config cmdb = Some c \<Longrightarrow> can_be_completed cmdb \<Longrightarrow> completed c"
  by (auto simp: complete_config_def can_be_completed_def completed_def config_directories_def bind_eq_Some_conv
      intro: trailing_slash_ends trailing_dot_ends [OF _ replace_at_ends] dest: with_trailing_Some)

lemma values_completed: "parse_cmdb_config_values cmdb conf = Some c \<Longrightarrow> can_be_completed cmdb \<Longrightarrow> completed c"
  by (erule config_values_steps)
     (blast intro: complete_config_completes ints_can_be_completed options_can_be_completed)

lemma defaults_can_be_completed: "length (ce_localstatedir env) \<le> 200 \<Longrightarrow> can_be_completed (cmdb_defaults env cmdb_zero)"
  by (simp add: can_be_completed_def config_directories_def cmdb_defaults_def cmdb_zero_def can_end_with_def snprintf_s_def)

text \<open>C21: In the configuration a program works with, every directory ends with a slash and the mail address of the host
  master, which is there, ends with a dot.\<close>

theorem directories_end_with_a_slash:
  assumes "parse_cmdb_config env cmdb_zero = Some (Inr cfg)" and "length (ce_localstatedir env) \<le> 200"
  shows "(\<forall>f\<in>set config_directories. \<forall>p. f cfg = Some p \<longrightarrow> p \<noteq> [] \<and> last p = CHR ''/'' \<and> length p < CONFIG_LEN) \<and>
    (\<exists>h. cc_hostmaster cfg = Some h \<and> h \<noteq> [] \<and> last h = CHR ''.'' \<and> length h < CONFIG_LEN)"
proof -
  obtain sys where sys: "system_file env = Some sys"
    using assms(1)
    by (auto simp: parse_cmdb_config_def parse_system_cmdb_config_def system_file_def bind_eq_Some_conv split: option.splits)
  obtain mid where mid: "parse_cmdb_config_values (cmdb_defaults env cmdb_zero) sys = Some mid"
    and cfg: "if users_text env = [] then cfg = mid else parse_cmdb_config_values mid (users_text env) = Some cfg"
    using parse_cmdb_config_steps [OF assms(1) sys] .
  have "completed mid" using values_completed [OF mid defaults_can_be_completed [OF assms(2)]] .
  then have "completed cfg"
    using cfg values_completed completed_can_be by (auto split: if_splits)
  then show ?thesis by (fastforce simp: completed_def list_all_iff ends_with_def)
qed

text \<open>A system file without a host master is a crash, whatever the file of the user says.\<close>

theorem no_host_master_is_a_crash:
  assumes "system_file env = Some sys" and "get_config_option (config_lines sys) ''HOSTMASTER='' None = None"
  shows "parse_cmdb_config env cmdb_zero = None"
proof -
  let ?ls = "config_lines sys" and ?d = "cmdb_defaults env cmdb_zero"
  have "cc_hostmaster (get_config_options ?ls ?d) = None"
    using assms(2) by (simp add: get_config_options_def cmdb_defaults_def cmdb_zero_def Let_def)
  then have "complete_config c = None" if "get_config_ints ?ls (get_config_options ?ls ?d) = Some c" for c
    using config_ints_keep(3) [OF that] by (simp add: complete_config_def)
  then have "parse_cmdb_config_values ?d sys = None"
    by (cases "get_config_ints ?ls (get_config_options ?ls ?d)") (simp_all add: parse_cmdb_config_values_def Let_def)
  then show ?thesis
    using assms(1) by (simp add: parse_cmdb_config_def parse_system_cmdb_config_def system_file_def)
qed

subsection \<open>A configuration\<close>

text \<open>A system file, and a file of the user below the home directory.\<close>

definition demo_settings :: "(string \<times> string) list" where
  "demo_settings = [(''DBTYPE'', ''sqlite''), (''DB'', ''cmdb''), (''DIR'', ''/var/named''), (''HOSTMASTER'', ''root@example.com'')]"

definition demo_config_env :: config_env where
  "demo_config_env = \<lparr>ce_sysconfdir = ''/etc'', ce_localstatedir = ''/var'',
     ce_open = (\<lambda>path. if path = ''/etc/cmdb/cmdb.conf'' then Some (config_text demo_settings)
       else if path = ''/home/me/.cmdb.conf'' then Some (config_text [(''DB'', ''mine'')]) else None),
     ce_wordexp = (\<lambda>_. Some ''/home/me/.cmdb.conf''), ce_home = Some ''/home/me''\<rparr>"

lemma demo_config_parsed: "\<exists>cfg. parse_cmdb_config demo_config_env cmdb_zero = Some (Inr cfg)"
proof -
  have "case parse_cmdb_config demo_config_env cmdb_zero of Some (Inr _) \<Rightarrow> True | _ \<Rightarrow> False" by code_simp
  then show ?thesis by (auto split: option.splits sum.splits)
qed

lemma demo_system_file: "system_file demo_config_env = Some (config_text demo_settings)"
  by code_simp

theorem the_users_file_wins_witness:
  "\<exists>cfg. parse_cmdb_config demo_config_env cmdb_zero = Some (Inr cfg) \<and> cc_db cfg = Some ''mine'' \<and>
     cc_dbtype cfg = Some ''sqlite''"
proof -
  obtain cfg where cfg: "parse_cmdb_config demo_config_env cmdb_zero = Some (Inr cfg)" using demo_config_parsed by blast
  note read = the_users_file_wins [OF cfg demo_system_file]
  have "cc_db cfg = Some ''mine''"
    by (subst read [of "''DB=''" cc_db], simp add: plain_settings_def, code_simp)
  moreover have "cc_dbtype cfg = Some ''sqlite''"
    by (subst read [of "''DBTYPE=''" cc_dbtype], simp add: plain_settings_def, code_simp)
  ultimately show ?thesis using cfg by blast
qed

theorem directories_end_with_a_slash_witness:
  "\<exists>cfg d h. parse_cmdb_config demo_config_env cmdb_zero = Some (Inr cfg) \<and> cc_dir cfg = Some d \<and> last d = CHR ''/'' \<and>
     cc_hostmaster cfg = Some h \<and> last h = CHR ''.''"
proof -
  obtain cfg where cfg: "parse_cmdb_config demo_config_env cmdb_zero = Some (Inr cfg)" using demo_config_parsed by blast
  have "case parse_cmdb_config demo_config_env cmdb_zero of Some (Inr c) \<Rightarrow> cc_dir c \<noteq> None | _ \<Rightarrow> False" by code_simp
  then have "cc_dir cfg \<noteq> None" using cfg by simp
  moreover have "length (ce_localstatedir demo_config_env) \<le> 200" by code_simp
  ultimately show ?thesis
    using directories_end_with_a_slash [OF cfg] cfg by (auto simp: config_directories_def)
qed

theorem no_host_master_is_a_crash_witness:
  "parse_cmdb_config (demo_config_env\<lparr>ce_open := (\<lambda>_. Some ''DB=cmdb'')\<rparr>) cmdb_zero = None"
  by (rule no_host_master_is_a_crash [of _ "''DB=cmdb''"]) code_simp+

end
