(* ===== verification/Cmdb_Identity.thy ===== *)
theory Cmdb_Identity
  imports Tool_Steps Cmdb_Config
begin

text \<open>
  src/cmdb-identity.c: the command that keeps the accounts of servers, with their passwords and hashes.  Parameters are
  \<open>crypt\<close>, the numbers \<open>rand\<close> delivers after a seed, the seeds (the seconds of the clock at the two
  calls of \<open>srand\<close>) and the password that is typed in.
\<close>

abbreviation CMDB_USAGE :: int where "CMDB_USAGE \<equiv> 10"
abbreviation AILSA_NO_USER :: int where "AILSA_NO_USER \<equiv> 9"

record cmdb_identity_comm_line_s =
  icl_hash :: cstr
  icl_pass :: cstr
  icl_server :: cstr
  icl_user :: cstr
  icl_action :: int
  icl_ask_pass :: bool

definition identity_line_zero :: cmdb_identity_comm_line_s where
  "identity_line_zero = \<lparr>icl_hash = None, icl_pass = None, icl_server = None, icl_user = None, icl_action = 0,
     icl_ask_pass = False\<rparr>"

subsection \<open>Command line\<close>

definition identity_option :: "char \<Rightarrow> string \<Rightarrow> cmdb_identity_comm_line_s \<Rightarrow> int + cmdb_identity_comm_line_s" where
  "identity_option opt optarg cml =
    (if opt = CHR ''a'' then Inr (cml\<lparr>icl_action := CMDB_ADD\<rparr>)
     else if opt = CHR ''l'' then Inr (cml\<lparr>icl_action := CMDB_LIST\<rparr>)
     else if opt = CHR ''r'' then Inr (cml\<lparr>icl_action := CMDB_RM\<rparr>)
     else if opt = CHR ''s'' then Inr (cml\<lparr>icl_server := Some (strndup optarg HOST_LEN)\<rparr>)
     else if opt = CHR ''u'' then Inr (cml\<lparr>icl_user := Some (strndup optarg CONFIG_LEN)\<rparr>)
     else if opt = CHR ''p'' then Inr (cml\<lparr>icl_ask_pass := True\<rparr>)
     else Inl CMDB_USAGE)"

fun identity_options :: "(char \<times> string) list \<Rightarrow> cmdb_identity_comm_line_s \<Rightarrow> int \<times> cmdb_identity_comm_line_s" where
  "identity_options [] cml = (0, cml)"
| "identity_options ((opt, optarg) # rest) cml = (case identity_option opt optarg cml of
     Inl code \<Rightarrow> (code, cml)
   | Inr cml \<Rightarrow> identity_options rest cml)"

definition check_identity_line :: "cmdb_identity_comm_line_s \<Rightarrow> int" where
  "check_identity_line cml =
    (if icl_action cml = 0 then AILSA_NO_ACTION
     else if icl_action cml = CMDB_ADD \<or> icl_action cml = CMDB_RM
     then if icl_server cml = None then AILSA_NO_NAME
          else if icl_user cml = None then AILSA_NO_USER
          else 0
     else 0)"

definition unless_invalid :: "cstr \<Rightarrow> nat \<Rightarrow> int option \<Rightarrow> int option" where
  "unless_invalid s test rest = (if s = None then rest
     else do { retval \<leftarrow> ailsa_validate_input s test; if retval \<noteq> 0 then Some AILSA_INPUT_INVALID else rest })"

definition validate_identity_line :: "cmdb_identity_comm_line_s \<Rightarrow> int option" where
  "validate_identity_line cml =
     unless_invalid (icl_user cml) DEV_REGEX (unless_invalid (icl_server cml) NAME_REGEX (Some 0))"

definition parse_identity_line ::
  "(char \<times> string) list \<Rightarrow> cmdb_identity_comm_line_s \<Rightarrow> (int \<times> cmdb_identity_comm_line_s) option" where
  "parse_identity_line options cml = (case identity_options options cml of (retval, cml) \<Rightarrow>
     if retval \<noteq> 0 then Some (retval, cml)
     else if check_identity_line cml \<noteq> 0 then Some (check_identity_line cml, cml)
     else map_option (\<lambda>retval. (retval, cml)) (validate_identity_line cml))"

subsection \<open>Random texts\<close>

text \<open>lib/data.c: \<open>rand seed i\<close> is the number the call \<open>i\<close> of \<open>rand\<close> delivers after \<open>srand(seed)\<close>.\<close>

definition charset :: string where
  "charset = ''0123456789abcdefghijklmnopqrstuvwxyzABCDEFGHIJKLMNOPQRSTUVWXYZ''"

definition random_string :: "(u32 \<Rightarrow> nat \<Rightarrow> nat) \<Rightarrow> u32 \<Rightarrow> nat \<Rightarrow> string" where
  "random_string rand seed len = map (\<lambda>pos. charset ! (rand seed pos mod length charset)) [0..<len - 1]"

record identity_env =
  ie_rand :: "u32 \<Rightarrow> nat \<Rightarrow> nat"
  ie_seed_pass :: u32
  ie_seed_salt :: u32
  ie_getpass :: cstr
  ie_crypt :: "string \<Rightarrow> string \<Rightarrow> cstr"

text \<open>The last character of the salt is overwritten by the dollar that ends it.\<close>

definition identity_salt :: "identity_env \<Rightarrow> string" where
  "identity_salt env = take 10 (''$6$'' @ random_string (ie_rand env) (ie_seed_salt env) 9) @ ''$''"

definition identity_pass :: "identity_env \<Rightarrow> bool \<Rightarrow> cstr" where
  "identity_pass env ask_pass =
    (if ask_pass then ie_getpass env else Some (random_string (ie_rand env) (ie_seed_pass env) 25))"

subsection \<open>Adding and changing\<close>

definition insert_identity ::
  "'db sqlite3_api \<Rightarrow> u32 \<Rightarrow> ailsa_cmdb_s option \<Rightarrow> cmdb_identity_comm_line_s \<Rightarrow> 'db world \<Rightarrow> (int \<times> 'db world) option" where
  "insert_identity api uid cc cml w =
     then_rows (cmdb_check_add_server_id_to_list api w (icl_server cml) cc (Some [])) (\<lambda>w server.
     then_list w (add_args
       [cmdb_add_string_to_list (icl_user cml),
        cmdb_add_string_to_list (icl_pass cml),
        cmdb_add_string_to_list (icl_hash cml),
        cmdb_populate_cuser_muser uid] (Some server)) (\<lambda>l.
     ailsa_insert_query api w cc INSERT_IDENTITY l))"

definition update_identity ::
  "'db sqlite3_api \<Rightarrow> u32 \<Rightarrow> ailsa_cmdb_s option \<Rightarrow> cmdb_identity_comm_line_s \<Rightarrow> 'db world \<Rightarrow> (int \<times> 'db world) option" where
  "update_identity api uid cc cml w =
     then_list w (add_args
       [cmdb_add_string_to_list (icl_pass cml),
        cmdb_add_string_to_list (icl_hash cml),
        cmdb_add_number_to_list (ucast uid)] (Some [])) (\<lambda>l.
     then_rows (cmdb_check_add_identity_id_to_list api w (Some [icl_server cml, icl_user cml]) cc l) (\<lambda>w l.
     ailsa_update_query api w cc (update_queries ! UPDATE_IDENTITY) (Some l)))"

text \<open>Every code but the one for an identity that is not there and 0 ends the function with the code.\<close>

definition store_identity ::
  "'db sqlite3_api \<Rightarrow> u32 \<Rightarrow> ailsa_cmdb_s option \<Rightarrow> cmdb_identity_comm_line_s \<Rightarrow> 'db world \<Rightarrow> (int \<times> 'db world) option" where
  "store_identity api uid cc cml w = do {
     (retval, w, check) \<leftarrow> cmdb_check_add_identity_id_to_list api w (Some [icl_server cml, icl_user cml]) cc (Some []);
     if retval = CANNOT_FIND_IDENTITY_ID then insert_identity api uid cc cml w
     else if retval = 0 then update_identity api uid cc cml w
     else Some (retval, w)
   }"

text \<open>The password and the hash stay in the command line; printing a hash that is NULL is undefined.\<close>

definition add_identity ::
  "'db sqlite3_api \<Rightarrow> u32 \<Rightarrow> identity_env \<Rightarrow> ailsa_cmdb_s option \<Rightarrow> cmdb_identity_comm_line_s option \<Rightarrow> 'db world \<Rightarrow>
   (int \<times> string \<times> 'db world \<times> cmdb_identity_comm_line_s option) option" where
  "add_identity api uid env cc cml w = (case cml of None \<Rightarrow> Some (AILSA_NO_DATA, [], w, cml) | Some line \<Rightarrow>
     if cc = None then Some (AILSA_NO_DATA, [], w, cml)
     else do {
       pass \<leftarrow> identity_pass env (icl_ask_pass line);
       hash \<leftarrow> ie_crypt env pass (identity_salt env);
       let line = line\<lparr>icl_pass := Some pass, icl_hash := Some hash\<rparr>;
       (retval, w) \<leftarrow> store_identity api uid cc line w;
       Some (retval, ''Salt: '' @ identity_salt env @ nl @ ''Pass: '' @ pass @ nl @ ''Hash: '' @ hash @ nl, w, Some line)
     })"

subsection \<open>Listing\<close>

text \<open>An element that is not there is a crash.\<close>

fun identity_text :: "(u32 \<Rightarrow> string option) \<Rightarrow> ailsa_data list \<Rightarrow> string option" where
  "identity_text pw (s # u # c # m # ct # mt # _) = do {
     server \<leftarrow> text_of s;
     user \<leftarrow> text_of u;
     cuser \<leftarrow> get_number c;
     muser \<leftarrow> get_number m;
     ctime \<leftarrow> text_of ct;
     mtime \<leftarrow> text_of mt;
     Some (server @ (if length server < 8 then tabs 2 else tab) @ user @ tab @
       cmdb_get_uname pw cuser @ tabs 2 @ cmdb_get_uname pw muser @ tabs 2 @ ctime @ tab @ mtime @ nl)
   }"
| "identity_text pw _ = None"

definition identity_selected :: "cmdb_identity_comm_line_s \<Rightarrow> ailsa_data \<Rightarrow> ailsa_data \<Rightarrow> bool option" where
  "identity_selected cml s u = (case (icl_server cml, icl_user cml) of
     (Some server, Some user) \<Rightarrow> do {
       u \<leftarrow> text_of u;
       if strncmp_eq user u CONFIG_LEN then do { s \<leftarrow> text_of s; Some (strncmp_eq server s HOST_LEN) } else Some False
     }
   | (Some server, None) \<Rightarrow> do { s \<leftarrow> text_of s; Some (strncmp_eq server s HOST_LEN) }
   | (None, Some user) \<Rightarrow> do { u \<leftarrow> text_of u; Some (strncmp_eq user u CONFIG_LEN) }
   | (None, None) \<Rightarrow> Some True)"

fun identity_rows :: "(u32 \<Rightarrow> string option) \<Rightarrow> cmdb_identity_comm_line_s \<Rightarrow> ailsa_data list \<Rightarrow> string option" where
  "identity_rows pw cml [] = Some []"
| "identity_rows pw cml [_] = None"
| "identity_rows pw cml (s # u # rest) = do {
     selected \<leftarrow> identity_selected cml s u;
     text \<leftarrow> (if selected then identity_text pw (s # u # rest) else Some []);
     others \<leftarrow> identity_rows pw cml (drop 4 rest);
     Some (text @ others)
   }"

definition list_identity ::
  "'db sqlite3_api \<Rightarrow> (u32 \<Rightarrow> string option) \<Rightarrow> ailsa_cmdb_s option \<Rightarrow> cmdb_identity_comm_line_s option \<Rightarrow> 'db world \<Rightarrow>
   'db cmdb_result" where
  "list_identity api pw cc cml w = (case cml of None \<Rightarrow> Some (AILSA_NO_DATA, [], w) | Some line \<Rightarrow>
     if cc = None then Some (AILSA_NO_DATA, [], w)
     else ask (ailsa_basic_query api w cc IDENTITIES_NO_SERVER_NAME (Some [])) (\<lambda>w sn.
       if length sn = 0 then Some (0, [], w)
       else ask (ailsa_basic_query api w cc IDENTITIES (Some [])) (\<lambda>w rows.
         saying (if rows = [] then [] else ''Server'' @ tabs 2 @ ''User'' @ tab @ ''Created by'' @ tab @ ''Modified by'' @ tab @
             ''Creation time'' @ tabs 2 @ ''Modification Time'' @ nl)
           (says w (identity_rows pw line rows)))))"

subsection \<open>Removing\<close>

definition remove_identity ::
  "'db sqlite3_api \<Rightarrow> ailsa_cmdb_s option \<Rightarrow> cmdb_identity_comm_line_s option \<Rightarrow> 'db world \<Rightarrow> (int \<times> 'db world) option" where
  "remove_identity api cc cml w = (case cml of None \<Rightarrow> Some (AILSA_NO_DATA, w) | Some line \<Rightarrow>
     if cc = None then Some (AILSA_NO_DATA, w)
     else then_rows (cmdb_check_add_server_id_to_list api w (icl_server line) cc (Some [])) (\<lambda>w server.
       then_list w (cmdb_add_string_to_list (icl_user line) (Some server)) (\<lambda>l.
       ailsa_delete_query api w cc (delete_queries ! DELETE_IDENTITY) l)))"

subsection \<open>The command\<close>

text \<open>The cleanup frees the hash and a password that was typed in, which \<open>crypt\<close> and \<open>getpass\<close> keep in
  storage of their own: that is undefined.\<close>

definition clean_identity_line :: "cmdb_identity_comm_line_s option \<Rightarrow> unit option" where
  "clean_identity_line comm = (case comm of None \<Rightarrow> Some () | Some line \<Rightarrow>
     if icl_hash line \<noteq> None then None
     else if icl_pass line \<noteq> None \<and> icl_ask_pass line then None
     else Some ())"

definition identity_dispatch ::
  "'db sqlite3_api \<Rightarrow> u32 \<Rightarrow> (u32 \<Rightarrow> string option) \<Rightarrow> identity_env \<Rightarrow> ailsa_cmdb_s option \<Rightarrow> cmdb_identity_comm_line_s \<Rightarrow>
   'db world \<Rightarrow> (int \<times> string \<times> 'db world \<times> cmdb_identity_comm_line_s option) option" where
  "identity_dispatch api uid pw env cc cml w =
    (let same = map_option (\<lambda>(retval, text, w). (retval, text, w, Some cml)) in
     if icl_action cml = CMDB_ADD then add_identity api uid env cc (Some cml) w
     else if icl_action cml = CMDB_LIST then same (list_identity api pw cc (Some cml) w)
     else if icl_action cml = CMDB_RM then same (coded (remove_identity api cc (Some cml) w))
     else same (Some (0, [], w)))"

text \<open>The usage goes to the log.\<close>

definition identity_main ::
  "'db sqlite3_api \<Rightarrow> u32 \<Rightarrow> (u32 \<Rightarrow> string option) \<Rightarrow> identity_env \<Rightarrow> config_env \<Rightarrow> (char \<times> string) list \<Rightarrow> 'db world \<Rightarrow>
   'db cmdb_result" where
  "identity_main api uid pw env cenv options w = do {
     (retval, cml) \<leftarrow> parse_identity_line options identity_line_zero;
     if retval \<noteq> 0 then Some (retval, [], w)
     else do {
       config \<leftarrow> parse_cmdb_config cenv cmdb_zero;
       (case config of
          Inl code \<Rightarrow> Some (code, [], w)
        | Inr cc \<Rightarrow> do {
            (retval, text, w, cml) \<leftarrow> identity_dispatch api uid pw env (Some cc) cml w;
            _ \<leftarrow> clean_identity_line cml;
            Some (retval, text, w)
          })
     }
   }"

end
