(* ===== verification/Identity_Specs.thy ===== *)
theory Identity_Specs
  imports Cmdb_Identity Build_Specs Config_Specs
begin

text \<open>
  What cmdb-identity promises (src/cmdb-identity.c): an account is stored once, under its server; and two facts about its
  passwords and its end that its authors can not have wanted.
\<close>

subsection \<open>Storing\<close>

definition identity_rows_of :: "'db sqlite3_api \<Rightarrow> 'db world \<Rightarrow> u64 \<Rightarrow> string \<Rightarrow> ailsa_data list" where
  "identity_rows_of api w sid user =
     rows_of api w (q_query (argument_queries ! IDENTITY_ID_ON_SERVER_USER)) [SQL_INT sid, text_value user]"

lemma identity_fields:
  "q_fields (argument_queries ! IDENTITY_ID_ON_SERVER_USER) = [AILSA_DB_LINT, AILSA_DB_TEXT]"
  "q_fields (insert_queries ! INSERT_IDENTITY) = [AILSA_DB_LINT, AILSA_DB_TEXT, AILSA_DB_TEXT, AILSA_DB_TEXT, AILSA_DB_LINT,
     AILSA_DB_LINT]"
  "q_fields (update_queries ! UPDATE_IDENTITY) = [AILSA_DB_TEXT, AILSA_DB_TEXT, AILSA_DB_LINT, AILSA_DB_LINT]"
  "q_fields (delete_queries ! DELETE_IDENTITY) = [AILSA_DB_LINT, AILSA_DB_TEXT]"
  by (simp_all add: statement_fields argument_fields update_fields insert_fields delete_fields table_lengths del: nth_map)

lemma identity_checked:
  assumes "database_up api cc" "reads_up api" "name_rows api w SERVER_ID_ON_NAME server = map D_LINT sids"
  shows "cmdb_check_add_identity_id_to_list api w (Some [Some server, Some user]) (Some cc) (Some l) =
    (if length sids \<noteq> 1 then Some (AILSA_SERVER_NOT_FOUND, w, Some l)
     else Some (if length (identity_rows_of api w (hd sids) user) \<noteq> 1 then CANNOT_FIND_IDENTITY_ID else 0, w,
       Some (l @ identity_rows_of api w (hd sids) user)))"
proof (cases "length sids = 1")
  case True
  then obtain sid where sid: "sids = [sid]" by (auto simp: length_Suc_conv)
  have "args_values (q_fields (argument_queries ! IDENTITY_ID_ON_SERVER_USER)) [D_LINT sid, text_element user] =
      Some [SQL_INT sid, text_value user]"
    by (simp add: identity_fields text_element_def text_value_def)
  from up_argument [OF assms(1,2) _ this] show ?thesis
    using server_checked [OF assms(1,2), of w server "[]"] assms(3) sid
    by (simp add: cmdb_check_add_identity_id_to_list_def check_added_def cmdb_add_identity_id_to_list_def arg_at_def
        identity_rows_of_def table_lengths text_element_def)
next
  case False
  then show ?thesis
    using server_checked [OF assms(1,2), of w server "[]"] assms(3)
    by (simp add: cmdb_check_add_identity_id_to_list_def check_added_def cmdb_add_identity_id_to_list_def arg_at_def)
qed

text \<open>C19: An account of a known server is inserted with the id of the server, the name, the password, the hash and twice the
  user when the server has not exactly one of the name; otherwise the password, the hash and the user of that one are
  replaced.  For an unknown server nothing changes.\<close>

theorem storing_an_identity:
  assumes "database_up api cc" "reads_up api"
    and "icl_server cml = Some server" "icl_user cml = Some user" "icl_pass cml = Some pass" "icl_hash cml = Some hash"
    and "name_rows api w SERVER_ID_ON_NAME server = map D_LINT sids"
    and "identity_rows_of api w (hd sids) user = map D_LINT ids"
  shows "store_identity api uid (Some cc) cml w =
    (if length sids \<noteq> 1 then Some (AILSA_SERVER_NOT_FOUND, w)
     else if length ids \<noteq> 1
     then Some (executed api w (q_query (insert_queries ! INSERT_IDENTITY))
       ([SQL_INT (hd sids)] @ map text_value [user, pass, hash] @ map SQL_INT [ucast uid, ucast uid]))
     else Some (executed api w (q_query (update_queries ! UPDATE_IDENTITY))
       (map text_value [pass, hash] @ map SQL_INT [ucast uid, hd ids])))"
proof (cases "length sids = 1")
  case True
  then obtain sid where sid: "sids = [sid]" by (auto simp: length_Suc_conv)
  note chk = identity_checked [OF assms(1,2,7), of user] and srv = server_checked [OF assms(1,2), of w server "[]"]
  have ins: "args_values (q_fields (insert_queries ! INSERT_IDENTITY)) [D_LINT sid, text_element user, text_element pass,
      text_element hash, D_LINT (ucast uid), D_LINT (ucast uid)] =
      Some ([SQL_INT sid] @ map text_value [user, pass, hash] @ map SQL_INT [ucast uid, ucast uid])"
    by (simp add: identity_fields text_element_def text_value_def del: One_nat_def)
  have upd: "args_values (q_fields (update_queries ! UPDATE_IDENTITY)) [text_element pass, text_element hash, D_LINT (ucast uid),
      D_LINT i] = Some (map text_value [pass, hash] @ map SQL_INT [ucast uid, i])" for i
    by (simp add: identity_fields text_element_def text_value_def del: One_nat_def)
  note run = store_identity_def insert_identity_def update_identity_def assms(3-8) sid chk srv then_rows_def then_list_def
    add_args_def next_arg_def cmdb_add_number_to_list_def cmdb_populate_cuser_muser_def db_insert_def table_lengths
  show ?thesis
  proof (cases "length ids = 1")
    case True
    then obtain i where i: "ids = [i]" by (auto simp: length_Suc_conv)
    show ?thesis
      using up_update [OF assms(1) _ upd, of w i, unfolded text_element_def] i assms(8) sid
      by (simp add: run del: One_nat_def)
  next
    case False
    then show ?thesis
      using up_insert [OF assms(1) _ ins, of w, unfolded text_element_def] assms(8) sid
      by (simp add: run del: One_nat_def)
  qed
next
  case False
  then show ?thesis
    using identity_checked [OF assms(1,2,7), of user "[]"] by (simp add: store_identity_def assms(3-6))
qed

definition web_identity :: cmdb_identity_comm_line_s where
  "web_identity = identity_line_zero\<lparr>icl_action := CMDB_ADD, icl_server := Some ''web'', icl_user := Some ''root'',
     icl_pass := Some ''secret'', icl_hash := Some ''hash''\<rparr>"

theorem storing_an_identity_witness:
  "store_identity (table_api [(''SELECT identity_id'', [])]) 1000 (Some dns_cc) web_identity demo_world =
     Some (0, demo_world\<lparr>w_db := 6\<rparr>)"
proof -
  let ?t = "[(''SELECT identity_id'', [])]"
  have a: "answer_of ?t (q_query (argument_queries ! SERVER_ID_ON_NAME)) = [[SQL_INT 7]]"
    "answer_of ?t (q_query (argument_queries ! IDENTITY_ID_ON_SERVER_USER)) = []"
    by code_simp+
  have l: "icl_server web_identity = Some ''web''" "icl_user web_identity = Some ''root''"
    "icl_pass web_identity = Some ''secret''" "icl_hash web_identity = Some ''hash''"
    by (simp_all add: web_identity_def)
  have s: "name_rows (table_api ?t) demo_world SERVER_ID_ON_NAME ''web'' = map D_LINT [7]"
    using a(1) by (simp add: name_rows_def rows_table del: nth_map)
  have i: "identity_rows_of (table_api ?t) demo_world (hd [7]) ''root'' = map D_LINT []"
    using a(2) by (simp add: identity_rows_of_def rows_table del: nth_map)
  show ?thesis
    using storing_an_identity [OF table_api_up l s i, of 1000] by (simp add: demo_world_def)
qed

subsection \<open>Passwords\<close>

text \<open>Both random texts start again from the seconds of the clock.\<close>

text \<open>When the clock shows the same second, the salt that is stored with the hash holds the first seven characters of the
  generated password.\<close>

theorem salt_shows_the_password:
  assumes "ie_seed_salt env = ie_seed_pass env" and "identity_pass env False = Some pass"
  shows "take 7 (drop 3 (identity_salt env)) = take 7 pass"
proof -
  have "take 7 (drop 3 (identity_salt env)) = take 7 (random_string (ie_rand env) (ie_seed_salt env) 9)"
    by (simp add: identity_salt_def random_string_def)
  also have "\<dots> = take 7 (random_string (ie_rand env) (ie_seed_pass env) 25)"
    using assms(1) by (simp add: random_string_def take_map)
  finally show ?thesis using assms(2) by (simp add: identity_pass_def)
qed

subsection \<open>The end of the command\<close>

text \<open>Adding an account ends in a crash: the cleanup frees what \<open>crypt\<close> has delivered.\<close>

theorem adding_an_identity_crashes:
  assumes "parse_identity_line options identity_line_zero = Some (0, cml)" and "icl_action cml = CMDB_ADD"
    and "parse_cmdb_config cenv cmdb_zero = Some (Inr cc)"
  shows "identity_main api uid pw env cenv options w = None"
proof -
  have "clean_identity_line line = None" if "add_identity api uid env (Some cc) (Some cml) w = Some (r, t, w1, line)"
    for r t w1 line
    using that by (auto simp: add_identity_def clean_identity_line_def bind_eq_Some_conv Let_def split: prod.splits)
  then show ?thesis
    using assms by (cases "add_identity api uid env (Some cc) (Some cml) w") (auto simp: identity_main_def identity_dispatch_def)
qed

definition demo_identity_env :: identity_env where
  "demo_identity_env = \<lparr>ie_rand = (\<lambda>seed i. unat seed + i), ie_seed_pass = 5, ie_seed_salt = 5, ie_getpass = None,
     ie_crypt = (\<lambda>pass salt. Some (salt @ ''x''))\<rparr>"

theorem salt_shows_the_password_witness:
  "identity_salt demo_identity_env = ''$6$56789ab$'' \<and> (\<exists>pass. identity_pass demo_identity_env False = Some pass \<and> take 7 pass = ''56789ab'')"
proof -
  obtain pass where p: "identity_pass demo_identity_env False = Some pass" by (simp add: identity_pass_def)
  have s: "identity_salt demo_identity_env = ''$6$56789ab$''" by code_simp
  have "take 7 pass = ''56789ab''"
    using salt_shows_the_password [OF _ p] s by (simp add: demo_identity_env_def)
  then show ?thesis using p s by blast
qed

lemma identity_line_parsed:
  "\<exists>cml. parse_identity_line [(CHR ''a'', []), (CHR ''s'', ''web''), (CHR ''u'', ''root'')] identity_line_zero = Some (0, cml) \<and>
     icl_action cml = CMDB_ADD"
proof -
  have "ailsa_validate_input (Some ''root'') DEV_REGEX = Some 0" "ailsa_validate_input (Some ''web'') NAME_REGEX = Some 0"
    by code_simp+
  then show ?thesis
    by (simp add: parse_identity_line_def identity_option_def identity_line_zero_def check_identity_line_def
        validate_identity_line_def unless_invalid_def strndup_def)
qed

theorem adding_an_identity_crashes_witness:
  "identity_main (table_api []) 1000 (\<lambda>_. None) demo_identity_env demo_config_env
     [(CHR ''a'', []), (CHR ''s'', ''web''), (CHR ''u'', ''root'')] demo_world = None"
  using adding_an_identity_crashes identity_line_parsed demo_config_parsed by blast

end
