(* ===== verification/Virt_Config.thy ===== *)
theory Virt_Config
  imports Cmdb_Config
begin

text \<open>
  The settings of the commands that make virtual machines, storage pools and networks: \<open>ailsa_mkvm_s\<close>, the part of
  lib/config.c that reads mkvm.conf, and texts that are overwritten in place.
\<close>

subsection \<open>Texts in blocks of memory\<close>

text \<open>The size of the block beside the text: the command line overwrites a text whose block may be shorter than the new
  one, which is undefined.\<close>

type_synonym heap_text = "(nat \<times> string) option"

definition text_at :: "heap_text \<Rightarrow> cstr" where
  "text_at m = map_option snd m"

definition duplicated :: "nat \<Rightarrow> string \<Rightarrow> heap_text" where
  "duplicated n s = (let t = strndup s n in Some (length t + 1, t))"

definition overwritten :: "nat \<Rightarrow> nat \<times> string \<Rightarrow> string \<Rightarrow> heap_text option" where
  "overwritten n m s = (let t = snprintf_s n s in if length t < fst m then Some (Some (fst m, t)) else None)"

text \<open>\<open>if (!(p)) p = strndup(s, n); else snprintf(p, n, "%s", s);\<close>\<close>

definition set_text :: "nat \<Rightarrow> heap_text \<Rightarrow> string \<Rightarrow> heap_text option" where
  "set_text n m s = (case m of None \<Rightarrow> Some (duplicated n s) | Some block \<Rightarrow> overwritten n block s)"

subsection \<open>The settings\<close>

text \<open>The addresses \<open>vm_nm\<close> and \<open>vm_ip\<close> are kept in host order here, in network order in the code.\<close>

record ailsa_mkvm_s =
  vm_name :: heap_text
  vm_pool :: heap_text
  vm_uri :: heap_text
  vm_storxml :: cstr
  vm_path :: heap_text
  vm_network :: heap_text
  vm_netdev :: heap_text
  vm_vt :: cstr
  vm_vtstr :: cstr
  vm_mac :: cstr
  vm_logvol :: heap_text
  vm_uuid :: cstr
  vm_coid :: cstr
  vm_range :: cstr
  vm_domain :: heap_text
  vm_interface :: cstr
  vm_size :: u64
  vm_ram :: u64
  vm_cpus :: u64
  vm_sptype :: u64
  vm_prefix :: u64
  vm_nm :: u32
  vm_ip :: u32
  vm_action :: int
  vm_cmdb :: int

definition mkvm_zero :: ailsa_mkvm_s where
  "mkvm_zero = \<lparr>vm_name = None, vm_pool = None, vm_uri = None, vm_storxml = None, vm_path = None, vm_network = None,
     vm_netdev = None, vm_vt = None, vm_vtstr = None, vm_mac = None, vm_logvol = None, vm_uuid = None, vm_coid = None,
     vm_range = None, vm_domain = None, vm_interface = None, vm_size = 0, vm_ram = 0, vm_cpus = 0, vm_sptype = 0,
     vm_prefix = 0, vm_nm = 0, vm_ip = 0, vm_action = 0, vm_cmdb = 0\<rparr>"

subsection \<open>The configuration files\<close>

definition get_config_heap :: "string list \<Rightarrow> string \<Rightarrow> heap_text \<Rightarrow> heap_text option" where
  "get_config_heap conf key option = (case get_config_option conf key None of
     None \<Rightarrow> Some option
   | Some temp \<Rightarrow> (case option of
       None \<Rightarrow> Some (Some (CONFIG_LEN, temp))
     | Some block \<Rightarrow> overwritten CONFIG_LEN block temp))"

definition parse_mkvm_config_values :: "ailsa_mkvm_s \<Rightarrow> string \<Rightarrow> ailsa_mkvm_s option" where
  "parse_mkvm_config_values vm file =
    (let conf = config_lines file in do {
       uri \<leftarrow> get_config_heap conf ''URI='' (vm_uri vm);
       pool \<leftarrow> get_config_heap conf ''POOL='' (vm_pool vm);
       name \<leftarrow> get_config_heap conf ''NAME='' (vm_name vm);
       netdev \<leftarrow> get_config_heap conf ''INTERFACE='' (vm_netdev vm);
       network \<leftarrow> get_config_heap conf ''NETWORK='' (vm_network vm);
       ram \<leftarrow> get_config_int conf ''RAM='' (vm_ram vm);
       cpus \<leftarrow> get_config_int conf ''CPUS='' (vm_cpus vm);
       size \<leftarrow> get_config_int conf ''STORAGE='' (vm_size vm);
       Some (vm\<lparr>vm_uri := uri, vm_pool := pool, vm_name := name, vm_netdev := netdev, vm_network := network,
         vm_ram := ram, vm_cpus := cpus, vm_size := size\<rparr>)
     })"

text \<open>An empty file is not read.\<close>

definition parse_mkvm_file :: "string option \<Rightarrow> ailsa_mkvm_s \<Rightarrow> ailsa_mkvm_s option" where
  "parse_mkvm_file conf vm = (case conf of None \<Rightarrow> Some vm | Some file \<Rightarrow>
     if 0 < length file then parse_mkvm_config_values vm file else Some vm)"

definition parse_system_mkvm_config :: "config_env \<Rightarrow> ailsa_mkvm_s \<Rightarrow> ailsa_mkvm_s option" where
  "parse_system_mkvm_config env vm =
     parse_mkvm_file (ce_open env (snprintf_s FILE_LEN (ce_sysconfdir env @ ''/cmdb/mkvm.conf''))) vm"

text \<open>A file \<open>wordexp\<close> names but nobody can open ends the search; when \<open>wordexp\<close> fails, the structure
  \<open>wordfree\<close> is given at the end was never initialised.\<close>

definition parse_user_mkvm_config :: "config_env \<Rightarrow> ailsa_mkvm_s \<Rightarrow> ailsa_mkvm_s option" where
  "parse_user_mkvm_config env vm = do {
     path \<leftarrow> ce_wordexp env ''~/.mkvm.conf'';
     parse_mkvm_file (ce_open env path) vm
   }"

definition parse_mkvm_config :: "config_env \<Rightarrow> ailsa_mkvm_s \<Rightarrow> ailsa_mkvm_s option" where
  "parse_mkvm_config env vm = do { vm \<leftarrow> parse_system_mkvm_config env vm; parse_user_mkvm_config env vm }"

end
