(* ===== verification/Virt_Machines.thy ===== *)
theory Virt_Machines
  imports Virt_Config Tool_Steps Cbc_Domain
begin

text \<open>
  src/virtual.c, the virtual machines and storage pools.  The library that drives the hypervisor, libvirt, is a parameter: what
  it answers to a call may depend on all calls before it.  The calls that look up or change something are recorded;
  what only frees memory is not.
\<close>

abbreviation AILSA_ADD :: int where "AILSA_ADD \<equiv> 1"
abbreviation AILSA_HELP :: int where "AILSA_HELP \<equiv> 100"
abbreviation AILSA_CMDB_ADD :: int where "AILSA_CMDB_ADD \<equiv> 50"
abbreviation AILSA_LOGVOL :: u64 where "AILSA_LOGVOL \<equiv> 1"
abbreviation AILSA_DIRECTORY :: u64 where "AILSA_DIRECTORY \<equiv> 2"
abbreviation AILSA_ESX :: int where "AILSA_ESX \<equiv> 1"
abbreviation AILSA_KVM :: int where "AILSA_KVM \<equiv> 2"
abbreviation UUID_LEN :: nat where "UUID_LEN \<equiv> 37"
abbreviation AILSA_XML_DEFINED :: int where "AILSA_XML_DEFINED \<equiv> 241"
abbreviation VIR_STORAGE_VOL_FILE :: int where "VIR_STORAGE_VOL_FILE \<equiv> 0"
abbreviation VIR_STORAGE_VOL_BLOCK :: int where "VIR_STORAGE_VOL_BLOCK \<equiv> 1"

subsection \<open>The hypervisor\<close>

datatype vir_call =
    ConnectOpen string
  | DomainLookupByName cstr
  | DomainDefineXML string
  | DomainSetAutostart int
  | StoragePoolLookupByName cstr
  | StoragePoolDefineXML string
  | StoragePoolCreate
  | StoragePoolIsActive
  | StoragePoolSetAutostart int
  | StorageVolLookupByName cstr
  | StorageVolCreateXML string
  | StorageVolGetInfo
  | StorageVolGetPath
  | ConnectListAllNetworks
  | NetworkLookupByName cstr
  | NetworkDefineXML string
  | NetworkSetAutostart int
  | NetworkCreate
  | NetworkFree

text \<open>Whether a call that returns a pointer delivers one, the code of the others, and what \<open>virStorageVolGetInfo\<close>,
  \<open>virStorageVolGetPath\<close> and \<open>virConnectListAllNetworks\<close> deliver.\<close>

record libvirt =
  lv_found :: "vir_call list \<Rightarrow> vir_call \<Rightarrow> bool"
  lv_code :: "vir_call list \<Rightarrow> vir_call \<Rightarrow> int"
  lv_vol_type :: int
  lv_vol_path :: cstr
  lv_networks :: "string list"

definition vir_ptr :: "libvirt \<Rightarrow> vir_call \<Rightarrow> vir_call list \<Rightarrow> bool \<times> vir_call list" where
  "vir_ptr lv c calls = (lv_found lv calls c, calls @ [c])"

definition vir_code :: "libvirt \<Rightarrow> vir_call \<Rightarrow> vir_call list \<Rightarrow> int \<times> vir_call list" where
  "vir_code lv c calls = (lv_code lv calls c, calls @ [c])"

definition ailsa_connect_libvirt :: "libvirt \<Rightarrow> cstr \<Rightarrow> vir_call list \<Rightarrow> int \<times> vir_call list" where
  "ailsa_connect_libvirt lv uri calls =
    (let uri = (case uri of None \<Rightarrow> ''qemu:///system'' | Some uri \<Rightarrow> uri) in
     case vir_ptr lv (ConnectOpen uri) calls of (conn, calls) \<Rightarrow>
       if \<not> conn then (AILSA_NO_CONNECT, calls) else (0, calls))"

subsection \<open>Numbers in hexadecimal, addresses of network cards\<close>

definition hex_digit :: "nat \<Rightarrow> char" where
  "hex_digit n = ''0123456789abcdef'' ! n"

fun hex :: "nat \<Rightarrow> string" where
  "hex n = (if n < 16 then [hex_digit n] else hex (n div 16) @ [hex_digit (n mod 16)])"

declare hex.simps [simp del]

text \<open>lib/ailsacmdb.c: \<open>r\<close> is what \<open>random\<close> delivers; the text fits its buffer.\<close>

definition ailsa_gen_mac :: "nat \<Rightarrow> int \<Rightarrow> string" where
  "ailsa_gen_mac r type =
    snprintf_s MAC_LEN
     ((if type = AILSA_ESX then ''00:50:56:'' else if type = AILSA_KVM then ''52:54:00:'' else ''26:20:31:'') @
      hex (r div 2 ^ 24) @ '':'' @ hex (r div 2 ^ 16 mod 256) @ '':'' @ hex (r div 2 ^ 8 mod 256))"

definition apos :: "string \<Rightarrow> string" where
  "apos s = [CHR 0x27] @ s @ [CHR 0x27]"

subsection \<open>Storage\<close>

text \<open>A NULL name is undefined for \<open>%s\<close>; the block of the text holds \<open>FILE_LEN\<close> bytes.\<close>

definition ailsa_create_volume_xml :: "ailsa_mkvm_s \<Rightarrow> ailsa_mkvm_s option" where
  \<open>ailsa_create_volume_xml vm = do {
     name \<leftarrow> text_at (vm_name vm);
     let capacity = vm_size vm * 1024 * 1024 * 1024;
     let xml = text_lines
      [''<volume>'',
      ''  <name>'' @ name @ ''</name>'',
      ''  <capacity unit=\'bytes\'>'' @ lu capacity @ ''</capacity>'',
      ''  <allocation unit=\'bytes\'>'' @ lu capacity @ ''</allocation>'',
      ''</volume>''];
     if length xml < FILE_LEN then Some (vm\<lparr>vm_storxml := Some xml\<rparr>) else None
   }\<close>

definition ailsa_get_vol_type :: "libvirt \<Rightarrow> ailsa_mkvm_s \<Rightarrow> int \<times> ailsa_mkvm_s" where
  "ailsa_get_vol_type lv vm =
    (if lv_vol_type lv = VIR_STORAGE_VOL_FILE then (0, vm\<lparr>vm_vt := Some ''file'', vm_vtstr := Some ''file''\<rparr>)
     else if lv_vol_type lv = VIR_STORAGE_VOL_BLOCK then (0, vm\<lparr>vm_vt := Some ''block'', vm_vtstr := Some ''dev''\<rparr>)
     else (-1, vm\<lparr>vm_vt := None, vm_vtstr := None\<rparr>))"

definition ailsa_get_vol :: "libvirt \<Rightarrow> ailsa_mkvm_s \<Rightarrow> vir_call list \<Rightarrow> int \<times> vir_call list \<times> ailsa_mkvm_s" where
  "ailsa_get_vol lv vm calls =
    (case vir_code lv StorageVolGetInfo calls of (retval, calls) \<Rightarrow>
       if retval \<noteq> 0 then (retval, calls, vm)
       else (case ailsa_get_vol_type lv vm of (retval, vm) \<Rightarrow>
         if retval \<noteq> 0 then (-1, calls, vm)
         else (case lv_vol_path lv of
             None \<Rightarrow> (-1, calls @ [StorageVolGetPath], vm\<lparr>vm_path := None\<rparr>)
           | Some path \<Rightarrow> (0, calls @ [StorageVolGetPath], vm\<lparr>vm_path := Some (length path + 1, path)\<rparr>))))"

subsection \<open>The description of a machine\<close>

record virt_env =
  ve_uid :: u32
  ve_random :: nat
  ve_uuid :: string
  ve_hostname :: "int \<times> string"

definition domain_head :: "string \<Rightarrow> string \<Rightarrow> u64 \<Rightarrow> u64 \<Rightarrow> string" where
  \<open>domain_head name uuid ram cpus = text_lines
     [''<domain type=\'kvm\'>'',
      ''  <name>'' @ name @ ''</name>'',
      ''  <uuid>'' @ uuid @ ''</uuid>'',
      ''  <memory unit=\'KiB\'>'' @ lu ram @ ''</memory>'',
      ''  <currentMemory unit=\'KiB\'>'' @ lu ram @ ''</currentMemory>'',
      ''  <vcpu placement=\'static\'>'' @ lu cpus @ ''</vcpu>'',
      ''  <os>'',
      ''    <type arch=\'x86_64\' machine=\'pc-i440fx-2.1\'>hvm</type>'',
      ''  </os>'',
      ''  <features>'',
      ''    <acpi/>'',
      ''    <apic/>'',
      ''    <pae/>'',
      ''  </features>'',
      ''  <cpu mode=\'custom\' match=\'exact\'>'',
      ''    <model fallback=\'allow\'>Westmere</model>'',
      ''  </cpu>'',
      ''  <clock offset=\'utc\'>'',
      ''    <timer name=\'rtc\' tickpolicy=\'catchup\'/>'',
      ''    <timer name=\'pit\' tickpolicy=\'delay\'/>'',
      ''    <timer name=\'hpet\' present=\'no\'/>'',
      ''  </clock>'',
      ''  <on_poweroff>destroy</on_poweroff>'',
      ''  <on_reboot>restart</on_reboot>'',
      ''  <on_crash>restart</on_crash>'',
      ''  <pm>'',
      ''    <suspend-to-mem enabled=\'no\'/>'',
      ''    <suspend-to-disk enabled=\'no\'/>'',
      ''  </pm>'']\<close>

definition domain_disk :: "string \<Rightarrow> string \<Rightarrow> string \<Rightarrow> string" where
  \<open>domain_disk vt vtstr path = text_lines
     [''  <devices>'',
      ''    <emulator>/usr/bin/kvm</emulator>'',
      ''    <disk type='' @ apos vt @ '' device=\'disk\'>'',
      ''      <driver name=\'qemu\' type=\'raw\'/>'',
      ''      <source '' @ vtstr @ ''='' @ apos path @ ''/>'',
      ''      <target dev=\'vda\' bus=\'virtio\'/>'',
      ''      <boot order=\'2\'/>'',
      ''      <address type=\'pci\' domain=\'0x0000\' bus=\'0x00\' slot=\'0x07\' function=\'0x0\'/>'',
      ''    </disk>'']\<close>

definition domain_controllers :: string where
  \<open>domain_controllers = text_lines
     [''    <controller type=\'usb\' index=\'0\' model=\'ich9-ehci1\'>'',
      ''      <address type=\'pci\' domain=\'0x0000\' bus=\'0x00\' slot=\'0x05\' function=\'0x7\'/>'',
      ''    </controller>'',
      ''    <controller type=\'usb\' index=\'0\' model=\'ich9-uhci1\'>'',
      ''      <master startport=\'0\'/>'',
      ''      <address type=\'pci\' domain=\'0x0000\' bus=\'0x00\' slot=\'0x05\' function=\'0x0\' multifunction=\'on\'/>'',
      ''    </controller>'',
      ''    <controller type=\'usb\' index=\'0\' model=\'ich9-uhci2\'>'',
      ''      <master startport=\'2\'/>'',
      ''      <address type=\'pci\' domain=\'0x0000\' bus=\'0x00\' slot=\'0x05\' function=\'0x1\'/>'',
      ''    </controller>'',
      ''    <controller type=\'usb\' index=\'0\' model=\'ich9-uhci3\'>'',
      ''      <master startport=\'4\'/>'',
      ''      <address type=\'pci\' domain=\'0x0000\' bus=\'0x00\' slot=\'0x05\' function=\'0x2\'/>'',
      ''    </controller>'',
      ''    <controller type=\'pci\' index=\'0\' model=\'pci-root\'/>'',
      ''    <controller type=\'virtio-serial\' index=\'0\'>'',
      ''      <address type=\'pci\' domain=\'0x0000\' bus=\'0x00\' slot=\'0x06\' function=\'0x0\'/>'',
      ''    </controller>'']\<close>

definition domain_bridge :: "string \<Rightarrow> string \<Rightarrow> string" where
  \<open>domain_bridge mac bridge = text_lines
     [''    <interface type=\'bridge\'>'',
      ''      <mac address='' @ apos mac @ ''/>'',
      ''      <source bridge='' @ apos bridge @ ''/>'',
      ''      <model type=\'virtio\'/>'',
      ''      <boot order=\'1\'/>'',
      ''      <address type=\'pci\' domain=\'0x0000\' bus=\'0x00\' slot=\'0x03\' function=\'0x0\'/>'',
      ''    </interface>'']\<close>

definition domain_network :: "string \<Rightarrow> string \<Rightarrow> string" where
  \<open>domain_network mac network = text_lines
     [''    <interface type=\'network\'>'',
      ''      <mac address='' @ apos mac @ ''/>'',
      ''      <source network='' @ apos network @ ''/>'',
      ''      <model type=\'virtio\'/>'',
      ''      <boot order=\'1\'/>'',
      ''      <address type=\'pci\' domain=\'0x0000\' bus=\'0x00\' slot=\'0x03\' function=\'0x0\'/>'',
      ''    </interface>'']\<close>

definition domain_consoles :: string where
  \<open>domain_consoles = text_lines
     [''    <serial type=\'pty\'>'',
      ''      <source path=\'/dev/pts/1\'/>'',
      ''      <target port=\'0\'/>'',
      ''      <alias name=\'serial0\'/>'',
      ''    </serial>'',
      ''    <console type=\'pty\' tty=\'/dev/pts/1\'>'',
      ''      <source path=\'/dev/pts/1\'/>'',
      ''      <target type=\'serial\' port=\'0\'/>'',
      ''      <alias name=\'serial0\'/>'',
      ''    </console>'',
      ''    <channel type=\'spicevmc\'>'',
      ''      <target type=\'virtio\' name=\'com.redhat.spice.0\'/>'',
      ''      <alias name=\'channel0\'/>'',
      ''      <address type=\'virtio-serial\' controller=\'0\' bus=\'0\' port=\'1\'/>'',
      ''    </channel>'',
      ''    <input type=\'mouse\' bus=\'ps2\'/>'',
      ''    <input type=\'keyboard\' bus=\'ps2\'/>'',
      ''    <graphics type=\'spice\' port=\'5901\' autoport=\'yes\' listen=\'127.0.0.1\'>'',
      ''      <listen type=\'address\' address=\'127.0.0.1\'/>'',
      ''    </graphics>'']\<close>

definition domain_video :: string where
  \<open>domain_video = text_lines
     [''    <video>'',
      ''      <model type=\'qxl\' ram=\'65536\' vram=\'65536\' heads=\'1\'/>'',
      ''      <alias name=\'video0\'/>'',
      ''      <address type=\'pci\' domain=\'0x0000\' bus=\'0x00\' slot=\'0x02\' function=\'0x0\'/>'',
      ''    </video>'',
      ''    <redirdev bus=\'usb\' type=\'spicevmc\'>'',
      ''      <alias name=\'redir0\'/>'',
      ''    </redirdev>'',
      ''    <redirdev bus=\'usb\' type=\'spicevmc\'>'',
      ''      <alias name=\'redir1\'/>'',
      ''    </redirdev>'',
      ''    <redirdev bus=\'usb\' type=\'spicevmc\'>'',
      ''      <alias name=\'redir2\'/>'',
      ''    </redirdev>'',
      ''    <redirdev bus=\'usb\' type=\'spicevmc\'>'',
      ''      <alias name=\'redir3\'/>'',
      ''    </redirdev>'',
      ''    <memballoon model=\'virtio\'>'',
      ''      <alias name=\'balloon0\'/>'',
      ''      <address type=\'pci\' domain=\'0x0000\' bus=\'0x00\' slot=\'0x08\' function=\'0x0\'/>'',
      ''    </memballoon>'',
      ''  </devices>'',
      ''</domain>'']\<close>

text \<open>A name that is NULL is undefined for \<open>%s\<close>.\<close>

definition domain_interface :: "string \<Rightarrow> ailsa_mkvm_s \<Rightarrow> string option" where
  "domain_interface mac vm = (case vm_netdev vm of
     Some bridge \<Rightarrow> Some (domain_bridge mac (snd bridge))
   | None \<Rightarrow> map_option (domain_network mac) (text_at (vm_network vm)))"

definition ailsa_create_domain_xml :: "virt_env \<Rightarrow> ailsa_mkvm_s \<Rightarrow> (ailsa_mkvm_s \<times> string) option" where
  "ailsa_create_domain_xml env vm = do {
     let ram = vm_ram vm * 1024;
     let mac = ailsa_gen_mac (ve_random env) AILSA_KVM;
     let vm = vm\<lparr>vm_mac := Some (strndup mac MAC_LEN), vm_uuid := Some (strndup (ve_uuid env) UUID_LEN)\<rparr>;
     name \<leftarrow> text_at (vm_name vm);
     vt \<leftarrow> vm_vt vm;
     vtstr \<leftarrow> vm_vtstr vm;
     path \<leftarrow> text_at (vm_path vm);
     interface \<leftarrow> domain_interface mac vm;
     str \<leftarrow> fill_strings ailsa_init_string (map (snprintf_s FILE_LEN)
       [domain_head name (ve_uuid env) ram (vm_cpus vm), domain_disk vt vtstr path, domain_controllers, interface,
        domain_consoles, domain_video]);
     Some (vm, as_string str)
   }"

subsection \<open>The machine in the database\<close>

text \<open>A code other than 0 ends the function with the list as it is.\<close>

definition next_list :: "'db query_result \<Rightarrow> ('db world \<Rightarrow> ailsa_data list \<Rightarrow> 'db query_result) \<Rightarrow> 'db query_result" where
  "next_list query rest = do {
     (retval, w, l) \<leftarrow> query;
     rows \<leftarrow> l;
     if retval \<noteq> 0 then Some (retval, w, Some rows) else rest w rows
   }"

definition added :: "'db world \<Rightarrow> int \<times> db_list \<Rightarrow> 'db query_result" where
  "added w call = Some (fst call, w, snd call)"

definition mkvm_fill_server_list ::
  "'db sqlite3_api \<Rightarrow> virt_env \<Rightarrow> ailsa_cmdb_s option \<Rightarrow> ailsa_mkvm_s \<Rightarrow> 'db world \<Rightarrow> db_list \<Rightarrow> 'db query_result" where
  "mkvm_fill_server_list api env cmdb vm w server =
    (if cmdb = None \<or> server = None then Some (AILSA_NO_DATA, w, server)
     else next_list (added w (add_args
         [cmdb_add_string_to_list (Some ''Virtual Machine''),
          cmdb_add_string_to_list (Some ''x86_64''),
          cmdb_add_string_to_list (Some ''KVM''),
          cmdb_add_string_to_list (vm_uuid vm)] server)) (\<lambda>w server.
       next_list (cmdb_check_add_cust_id_to_list api w (vm_coid vm) cmdb (Some server)) (\<lambda>w server.
       if length server \<noteq> 6 then Some (0, w, Some server)
       else if fst (ve_hostname env) \<noteq> 0 then Some (fst (ve_hostname env), w, Some server)
       else next_list (cmdb_add_vm_server_id_to_list api w (Some (snd (ve_hostname env))) cmdb (Some server)) (\<lambda>w server.
         next_list (added w (if length server \<noteq> 7 then cmdb_add_number_to_list 0 (Some server) else (0, Some server)))
           (\<lambda>w server.
         next_list (added w (cmdb_populate_cuser_muser (ve_uid env) (Some server))) (\<lambda>w server.
         if length server \<noteq> 9 then Some (-1, w, Some server) else Some (0, w, Some server)))))))"

text \<open>One row of hardware; the values after the type of the hardware.\<close>

definition vm_hardware_row ::
  "'db sqlite3_api \<Rightarrow> u32 \<Rightarrow> ailsa_cmdb_s option \<Rightarrow> string \<Rightarrow> cstr \<Rightarrow> string \<Rightarrow> 'db world \<Rightarrow> ailsa_data list \<Rightarrow>
   'db query_result" where
  "vm_hardware_row api uid cmdb hclass detail device w l =
     next_list (cmdb_add_hard_type_id_to_list api w (Some hclass) cmdb (Some l)) (\<lambda>w l.
     added w (add_args
       [cmdb_add_string_to_list detail,
        cmdb_add_string_to_list (Some device),
        cmdb_populate_cuser_muser uid] (Some l)))"

text \<open>A number of values that makes no full rows ends the function with code 0.\<close>

definition cmdb_add_hardware_to_new_vm ::
  "'db sqlite3_api \<Rightarrow> virt_env \<Rightarrow> ailsa_cmdb_s option \<Rightarrow> ailsa_mkvm_s \<Rightarrow> 'db world \<Rightarrow> (int \<times> 'db world) option" where
  "cmdb_add_hardware_to_new_vm api env cmdb vm w =
    (if cmdb = None then Some (AILSA_NO_DATA, w)
     else then_rows (cmdb_check_add_server_id_to_list api w (text_at (vm_name vm)) cmdb (Some [])) (\<lambda>w l. do {
       first_id \<leftarrow> (case l of [] \<Rightarrow> None | d # _ \<Rightarrow> Some d);
       server_id \<leftarrow> get_number first_id;
       let row = vm_hardware_row api (ve_uid env) cmdb;
       let again = (\<lambda>w l. added w (cmdb_add_number_to_list server_id (Some l)));
       then_rows (next_list (row ''Network Card'' (vm_mac vm) ''eth0'' w l) again) (\<lambda>w l.
       then_rows (next_list (row ''Hard Disk'' (Some (snprintf_s MAC_LEN (lu (vm_size vm) @ '' GB''))) ''vda'' w l) again) (\<lambda>w l.
       then_rows (next_list (row ''Virtual CPU'' (Some (snprintf_s MAC_LEN (lu (vm_cpus vm) @ '' vCPU''))) ''cpu'' w l) again) (\<lambda>w l.
       then_rows (row ''Virtual RAM'' (Some (snprintf_s MAC_LEN (lu (vm_ram vm) @ '' RAM''))) ''ram'' w l) (\<lambda>w l.
       if length l mod 6 \<noteq> 0 then Some (0, w)
       else ailsa_multiple_query api w cmdb (insert_queries ! INSERT_HARDWARE) (Some l)))))
     }))"

definition mkvm_add_to_cmdb ::
  "'db sqlite3_api \<Rightarrow> virt_env \<Rightarrow> ailsa_cmdb_s option \<Rightarrow> ailsa_mkvm_s \<Rightarrow> 'db world \<Rightarrow> (int \<times> 'db world) option" where
  "mkvm_add_to_cmdb api env cmdb vm w =
    (if cmdb = None then Some (AILSA_NO_DATA, w)
     else then_list w (cmdb_add_string_to_list (text_at (vm_name vm)) (Some [])) (\<lambda>server.
       then_rows (ailsa_argument_query api w cmdb SERVER_ID_ON_NAME server (Some [])) (\<lambda>w res.
       if length res > 0 then Some (0, w)
       else then_rows (mkvm_fill_server_list api env cmdb vm w server) (\<lambda>w server.
         chk0 (ailsa_insert_query api w cmdb INSERT_SERVER (Some server)) (\<lambda>w.
         cmdb_add_hardware_to_new_vm api env cmdb vm w)))))"

subsection \<open>Creating a machine\<close>

type_synonym 'db vm_result = "(int \<times> vir_call list \<times> 'db world) option"

definition when_found ::
  "bool \<times> vir_call list \<Rightarrow> int \<Rightarrow> 'db world \<Rightarrow> (vir_call list \<Rightarrow> 'db vm_result) \<Rightarrow> 'db vm_result" where
  "when_found p code w rest = (if fst p then rest (snd p) else Some (code, snd p, w))"

definition find_volume ::
  "libvirt \<Rightarrow> ailsa_mkvm_s \<Rightarrow> vir_call list \<Rightarrow> 'db world \<Rightarrow> (ailsa_mkvm_s \<Rightarrow> vir_call list \<Rightarrow> 'db vm_result) \<Rightarrow> 'db vm_result" where
  "find_volume lv vm calls w rest =
    (case vir_ptr lv (StorageVolLookupByName (text_at (vm_name vm))) calls of (vol, calls) \<Rightarrow>
       if vol then rest vm calls
       else do {
         vm \<leftarrow> ailsa_create_volume_xml vm;
         xml \<leftarrow> vm_storxml vm;
         when_found (vir_ptr lv (StorageVolCreateXML xml) calls) (-1) w (rest vm)
       })"

text \<open>The code of the last call, which lets the machine start with the host, is lost when the database is written.\<close>

definition define_machine ::
  "'db sqlite3_api \<Rightarrow> virt_env \<Rightarrow> libvirt \<Rightarrow> ailsa_cmdb_s option \<Rightarrow> 'db world \<Rightarrow> ailsa_mkvm_s \<Rightarrow> vir_call list \<Rightarrow>
   'db vm_result" where
  "define_machine api env lv cms w vm calls =
    (case ailsa_get_vol lv vm calls of (retval, calls, vm) \<Rightarrow>
     if retval \<noteq> 0 then Some (-1, calls, w)
     else when_found (vir_ptr lv (NetworkLookupByName (text_at (vm_network vm))) calls) (-1) w (\<lambda>calls. do {
       (vm, xml) \<leftarrow> ailsa_create_domain_xml env vm;
       when_found (vir_ptr lv (DomainDefineXML xml) calls) (-1) w (\<lambda>calls.
         case vir_code lv (DomainSetAutostart 1) calls of (retval, calls) \<Rightarrow>
         if vm_cmdb vm > 0
         then map_option (\<lambda>(retval, w). (retval, calls, w)) (mkvm_add_to_cmdb api env cms vm w)
         else Some (retval, calls, w))
     }))"

text \<open>A machine that exists is not an error; nor does it get into the database then.\<close>

definition mkvm_create_vm ::
  "'db sqlite3_api \<Rightarrow> virt_env \<Rightarrow> libvirt \<Rightarrow> ailsa_cmdb_s option \<Rightarrow> ailsa_mkvm_s \<Rightarrow> vir_call list \<Rightarrow> 'db world \<Rightarrow>
   'db vm_result" where
  "mkvm_create_vm api env lv cms vm calls w =
    (case ailsa_connect_libvirt lv (text_at (vm_uri vm)) calls of (retval, calls) \<Rightarrow>
     if retval \<noteq> 0 then Some (retval, calls, w)
     else (case vir_ptr lv (DomainLookupByName (text_at (vm_name vm))) calls of (there, calls) \<Rightarrow>
     if there then Some (0, calls, w)
     else when_found (vir_ptr lv (StoragePoolLookupByName (text_at (vm_pool vm))) calls) (-1) w (\<lambda>calls.
       find_volume lv vm calls w (define_machine api env lv cms w))))"

end
