(* ===== verification/Virt_Networks.thy ===== *)
theory Virt_Networks
  imports Virt_Machines
begin

text \<open>
  src/virtual.c, the storage pools and the virtual networks, with \<open>get_iface_name\<close> of lib/dnsa\_net.c.
\<close>

subsection \<open>Storage pools\<close>

definition pool_head :: "string \<Rightarrow> string \<Rightarrow> string" where
  \<open>pool_head type name = text_lines
     [''<pool type='' @ apos type @ ''>'',
      ''  <name>'' @ name @ ''</name>'',
      ''  <source>'']\<close>

definition pool_volumes :: "string \<Rightarrow> string" where
  \<open>pool_volumes logvol = text_lines
     [''    <name>'' @ logvol @ ''</name>'',
      ''    <format type=\'lvm2\'/>'']\<close>

definition pool_target :: "string \<Rightarrow> string" where
  "pool_target target = text_lines
     [''  </source>'',
      ''  <target>'',
      ''    <path>'' @ target @ ''</path>'',
      ''  </target>'',
      ''</pool>'']"

text \<open>The path is written to a buffer of \<open>MAC_LEN\<close> bytes without a bound.\<close>

definition ailsa_create_storage_pool_xml :: "ailsa_mkvm_s \<Rightarrow> (int \<times> string) option" where
  "ailsa_create_storage_pool_xml vm =
    (if vm_sptype vm \<noteq> AILSA_LOGVOL \<and> vm_sptype vm \<noteq> AILSA_DIRECTORY then Some (0, [])
     else do {
       name \<leftarrow> text_at (vm_name vm);
       volumes \<leftarrow> (if vm_sptype vm = AILSA_LOGVOL
         then do {
           logvol \<leftarrow> text_at (vm_logvol vm);
           if length (pool_volumes logvol) < FILE_LEN then Some [pool_volumes logvol] else None
         }
         else Some []);
       target \<leftarrow> (if vm_sptype vm = AILSA_LOGVOL then map_option (\<lambda>logvol. ''/dev/'' @ logvol) (text_at (vm_logvol vm))
         else text_at (vm_path vm));
       if MAC_LEN \<le> length target then None
       else do {
         str \<leftarrow> fill_strings ailsa_init_string
           (snprintf_s FILE_LEN (pool_head (if vm_sptype vm = AILSA_LOGVOL then ''logical'' else ''dir'') name) #
            volumes @ [snprintf_s FILE_LEN (pool_target target)]);
         Some (0, as_string str)
       }
     })"

text \<open>The pool is started and set to start with the host; the code of the last call is kept as it is.\<close>

definition pool_autostart :: "libvirt \<Rightarrow> vir_call list \<Rightarrow> int \<times> vir_call list" where
  "pool_autostart lv calls = vir_code lv (StoragePoolSetAutostart 1) calls"

definition pool_create :: "libvirt \<Rightarrow> vir_call list \<Rightarrow> int \<times> vir_call list" where
  "pool_create lv calls = (case vir_code lv StoragePoolCreate calls of (retval, calls) \<Rightarrow>
     if retval \<noteq> 0 then (AILSA_NO_POOL, calls) else pool_autostart lv calls)"

definition mksp_create_storage_pool :: "libvirt \<Rightarrow> ailsa_mkvm_s \<Rightarrow> vir_call list \<Rightarrow> (int \<times> vir_call list) option" where
  "mksp_create_storage_pool lv sp calls =
    (case ailsa_connect_libvirt lv (text_at (vm_uri sp)) calls of (retval, calls) \<Rightarrow>
     if retval \<noteq> 0 then Some (retval, calls)
     else (case vir_ptr lv (StoragePoolLookupByName (text_at (vm_name sp))) calls of (pool, calls) \<Rightarrow>
     if \<not> pool
     then do {
       (retval, xml) \<leftarrow> ailsa_create_storage_pool_xml sp;
       if retval \<noteq> 0 then Some (retval, calls)
       else (case vir_ptr lv (StoragePoolDefineXML xml) calls of (pool, calls) \<Rightarrow>
         if \<not> pool then Some (AILSA_NO_POOL, calls) else Some (pool_create lv calls))
     }
     else (case vir_code lv StoragePoolIsActive calls of (retval, calls) \<Rightarrow>
       Some (if retval = 0 then pool_create lv calls else pool_autostart lv calls))))"

subsection \<open>Networks\<close>

text \<open>The names of the networks are printed; the code is their number.\<close>

definition ailsa_list_networks :: "libvirt \<Rightarrow> ailsa_mkvm_s \<Rightarrow> vir_call list \<Rightarrow> int \<times> string \<times> vir_call list" where
  "ailsa_list_networks lv vm calls =
    (case ailsa_connect_libvirt lv (text_at (vm_uri vm)) calls of (retval, calls) \<Rightarrow>
     if retval \<noteq> 0 then (retval, [], calls)
     else (case vir_code lv ConnectListAllNetworks calls of (retval, calls) \<Rightarrow>
       if retval = -1 then (retval, [], calls)
       else (retval, text_lines (take (nat retval) (lv_networks lv)), calls)))"

text \<open>The first number whose name no interface has, of the first 1024.\<close>

definition get_iface_name :: "string \<Rightarrow> interfaces \<Rightarrow> cstr option" where
  "get_iface_name name ifs = do {
     (retval, ice) \<leftarrow> ailsa_get_iface_list ifs (Some []);
     ice \<leftarrow> ice;
     if retval \<noteq> 0 then Some None
     else (let numbered = (\<lambda>counter. snprintf_s SERVICE_LEN (name @ dec counter));
               taken = (\<lambda>counter. list_ex (\<lambda>i. strncmp_eq (numbered counter) (if_name i) SERVICE_LEN) ice) in
       Some (Some (case find (\<lambda>counter. \<not> taken counter) [0..<BUFFER_LEN] of
         None \<Rightarrow> numbered (BUFFER_LEN - 1)
       | Some counter \<Rightarrow> numbered counter)))
   }"

text \<open>The range must be the address of the network itself; the host takes the first address in it.\<close>

definition get_ip_and_netmask :: "ailsa_mkvm_s \<Rightarrow> (int \<times> ailsa_mkvm_s) option" where
  "get_ip_and_netmask vm = do {
     nm \<leftarrow> prefix_to_mask_ipv4 (unat (vm_prefix vm));
     let vm = vm\<lparr>vm_nm := nm\<rparr>;
     s \<leftarrow> vm_range vm;
     (case pton4 s of
        None \<Rightarrow> Some (AILSA_IP_CONVERT_FAILED, vm)
      | Some inet \<Rightarrow>
          if or nm inet \<noteq> nm then Some (AILSA_RANGE_ERROR, vm)
          else Some (0, vm\<lparr>vm_ip := inet + 1\<rparr>))
   }"

definition network_head :: "string \<Rightarrow> string \<Rightarrow> string \<Rightarrow> string" where
  \<open>network_head network uuid netdev = text_lines
     [''<network>'',
      ''  <name>'' @ network @ ''</name>'',
      ''  <uuid>'' @ uuid @ ''</uuid>'',
      ''  <forward dev='' @ apos netdev @ '' mode=\'route\'>'',
      ''    <interface dev='' @ apos netdev @ ''/>'',
      ''  </forward>'']\<close>

definition network_tail :: "string \<Rightarrow> string \<Rightarrow> string \<Rightarrow> string \<Rightarrow> string \<Rightarrow> string" where
  \<open>network_tail network mac domain ip nm = text_lines
     [''  <bridge name='' @ apos network @ '' stp=\'on\' delay=\'0\'/>'',
      ''  <mac address='' @ apos mac @ ''/>'',
      ''  <domain name='' @ apos domain @ ''/>'',
      ''  <ip address='' @ apos ip @ '' netmask='' @ apos nm @ ''>'',
      ''  </ip>'',
      ''</network>'']\<close>

text \<open>A text that is NULL is undefined for \<open>%s\<close>.\<close>

definition ailsa_define_network_xml :: "ailsa_mkvm_s \<Rightarrow> (int \<times> ailsa_mkvm_s) option" where
  "ailsa_define_network_xml vm =
    (if vm_storxml vm \<noteq> None then Some (AILSA_XML_DEFINED, vm)
     else do {
       network \<leftarrow> text_at (vm_network vm);
       uuid \<leftarrow> vm_uuid vm;
       netdev \<leftarrow> text_at (vm_netdev vm);
       mac \<leftarrow> vm_mac vm;
       domain \<leftarrow> text_at (vm_domain vm);
       let head = snprintf_s FILE_LEN (network_head network uuid netdev);
       let max = (if length head > FILE_LEN div 2 then FILE_LEN * 2 else FILE_LEN);
       let rest = snprintf_s (max - length head) (network_tail network mac domain (ntop4 (vm_ip vm)) (ntop4 (vm_nm vm)));
       Some (0, vm\<lparr>vm_storxml := Some (head @ rest)\<rparr>)
     })"

text \<open>The complement of the mask is taken in 64 bits.\<close>

definition network_numbers :: "ailsa_mkvm_s \<Rightarrow> u64 list" where
  "network_numbers vm =
    (let gateway = ucast (vm_ip vm);
         netmask = ucast (vm_nm vm);
         start = gateway + 15;
         hostmask = not netmask;
         last_ip = or start hostmask - 1
     in [start, last_ip, gateway, gateway, netmask])"

definition ailsa_add_build_domain_to_cmdb ::
  "'db sqlite3_api \<Rightarrow> u32 \<Rightarrow> ailsa_cmdb_s option \<Rightarrow> ailsa_mkvm_s \<Rightarrow> 'db world \<Rightarrow> (int \<times> 'db world) option" where
  "ailsa_add_build_domain_to_cmdb api uid cbs vm w =
     then_list w (cmdb_add_string_to_list (text_at (vm_domain vm)) (Some [])) (\<lambda>check.
     then_rows (ailsa_argument_query api w cbs BUILD_DOMAIN_ID_ON_DOMAIN check (Some [])) (\<lambda>w l.
     if length l > 0 then Some (0, w)
     else then_list w (add_args
         (map cmdb_add_number_to_list (network_numbers vm) @
          [cmdb_add_string_to_list (text_at (vm_domain vm)), cmdb_populate_cuser_muser uid]) (Some l)) (\<lambda>l.
       ailsa_insert_query api w cbs INSERT_BUILD_DOMAIN_NO_NTP l)))"

text \<open>At the end, a network that was found or defined is released; the code of that call replaces every other.\<close>

definition release_network :: "libvirt \<Rightarrow> vir_call list \<Rightarrow> 'db site \<Rightarrow> (int \<times> vir_call list \<times> 'db site)" where
  "release_network lv calls st = (case vir_code lv NetworkFree calls of (retval, calls) \<Rightarrow> (retval, calls, st))"

definition network_to_cmdb ::
  "'db sqlite3_api \<Rightarrow> services \<Rightarrow> libvirt \<Rightarrow> ailsa_cmdb_s option \<Rightarrow> ailsa_mkvm_s \<Rightarrow> vir_call list \<Rightarrow> 'db site \<Rightarrow>
   (int \<times> vir_call list \<times> 'db site) option" where
  "network_to_cmdb api os lv cbs vm calls st =
    (if vm_cmdb vm = 0 then Some (release_network lv calls st)
     else do {
       (retval, st) \<leftarrow> chk0 (on_world st (\<lambda>w. ailsa_add_build_domain_to_cmdb api (os_uid os) cbs vm w)) (\<lambda>st.
         add_forward_zone api os cbs (text_at (vm_domain vm)) (Some ''master'') None st);
       Some (release_network lv calls st)
     })"

text \<open>When the network could not be defined, the code is the 0 of the step before.\<close>

definition start_network ::
  "'db sqlite3_api \<Rightarrow> services \<Rightarrow> libvirt \<Rightarrow> ailsa_cmdb_s option \<Rightarrow> ailsa_mkvm_s \<Rightarrow> string \<Rightarrow> vir_call list \<Rightarrow> 'db site \<Rightarrow>
   (int \<times> vir_call list \<times> 'db site) option" where
  "start_network api os lv cbs vm xml calls st =
    (case vir_ptr lv (NetworkDefineXML xml) calls of (vnet, calls) \<Rightarrow>
     if \<not> vnet then Some (0, calls, st)
     else (case vir_code lv (NetworkSetAutostart 1) calls of (retval, calls) \<Rightarrow>
     if retval \<noteq> 0 then Some (release_network lv calls st)
     else (case vir_code lv NetworkCreate calls of (retval, calls) \<Rightarrow>
     if retval \<noteq> 0 then Some (release_network lv calls st)
     else network_to_cmdb api os lv cbs vm calls st)))"

definition define_network ::
  "'db sqlite3_api \<Rightarrow> services \<Rightarrow> virt_env \<Rightarrow> libvirt \<Rightarrow> interfaces \<Rightarrow> ailsa_cmdb_s option \<Rightarrow> ailsa_mkvm_s \<Rightarrow>
   vir_call list \<Rightarrow> 'db site \<Rightarrow> (int \<times> vir_call list \<times> 'db site) option" where
  "define_network api os env lv ifs cbs vm calls st = do {
     interface \<leftarrow> get_iface_name ''virbr'' ifs;
     if interface = None then Some (AILSA_NO_DATA, calls, st)
     else do {
       (retval, vm) \<leftarrow> ailsa_define_network_xml (vm\<lparr>vm_interface := interface, vm_uuid := Some (ve_uuid env),
         vm_mac := Some (ailsa_gen_mac (ve_random env) AILSA_KVM)\<rparr>);
       if retval \<noteq> 0 then Some (retval, calls, st)
       else do { xml \<leftarrow> vm_storxml vm; start_network api os lv cbs vm xml calls st }
     }
   }"

definition ailsa_add_network ::
  "'db sqlite3_api \<Rightarrow> services \<Rightarrow> virt_env \<Rightarrow> libvirt \<Rightarrow> interfaces \<Rightarrow> ailsa_cmdb_s option \<Rightarrow> ailsa_mkvm_s \<Rightarrow>
   vir_call list \<Rightarrow> 'db site \<Rightarrow> (int \<times> vir_call list \<times> 'db site) option" where
  "ailsa_add_network api os env lv ifs cbs vm calls st =
    (if cbs = None then Some (AILSA_NO_DATA, calls, st)
     else (case ailsa_connect_libvirt lv (text_at (vm_uri vm)) calls of (retval, calls) \<Rightarrow>
     if retval \<noteq> 0 then Some (retval, calls, st)
     else do {
       (retval, vm) \<leftarrow> get_ip_and_netmask vm;
       if retval \<noteq> 0 then Some (retval, calls, st)
       else (case vir_ptr lv (NetworkLookupByName (text_at (vm_network vm))) calls of (vnet, calls) \<Rightarrow>
         if vnet then network_to_cmdb api os lv cbs vm calls st
         else define_network api os env lv ifs cbs vm calls st)
     }))"

end
