(* ===== verification/Virt_Main.thy ===== *)
theory Virt_Main
  imports Virt_Networks Cbc_Sysp
begin

text \<open>
  src/mkvm.c, src/mksp.c and src/mknet.c: the commands that make virtual machines, storage pools and networks.  The options come
  in the order \<open>getopt\<close> delivers them; the macro that guards the long options is misspelt, so there are
  none.  A result is the exit code, the text printed, the calls made to libvirt, and the connection or the site.
\<close>

subsection \<open>Usages (lib/config.c)\<close>

definition display_mkvm_usage :: "string \<Rightarrow> string" where
  \<open>display_mkvm_usage version = text_lines
     [''mkvm: make virtual machine '' @ version,
      ''Usage:'' @ tab @ ''mkvm <action> <options>'',
      ''Actions'',
      tab @ ''-a: add'',
      tab @ ''-h: help'' @ tab @ ''-v: version'',
      tab @ ''-d: add to cmdb'',
      ''Options'',
      tab @ ''-u <uri>: Connection URI for libvirtd'',
      tab @ ''-n <name>: Supply VM name'',
      tab @ ''-p <pool>: Provide the storage pool name'',
      tab @ ''-g <size>: Size (in GB) of disk (default\'s to 10GB)'',
      tab @ ''-c <cpus>: No of CPU\'s the vm should have (default\'s to 1)'',
      tab @ ''-r <ram>: Amount of RAM (in MB) the vm should have (default\'s to 256MB)'',
      tab @ ''-C <coid>: COID of customer in CMDB'',
      ''Mutually exclusive Options'',
      tab @ ''[ -k <network>: Name of the network | -b <bridge-device>: Name of the bridge ]'']\<close>

definition display_mksp_usage :: "string \<Rightarrow> string" where
  "display_mksp_usage version = text_lines
     [''mksp: make storage pool '' @ version,
      ''Usage:'' @ tab @ ''mksp <action> <type> <options>'',
      ''Actions'',
      tab @ ''-a: add'',
      tab @ ''-h: help'' @ tab @ ''-v: version'',
      ''Type'',
      tab @ ''-g: Volume Group'',
      tab @ ''-y: Directory'',
      ''Options'',
      tab @ ''-n <name>: Specify the name of the storage pool'',
      tab @ ''-l <volume-group>: Specify the name of the volume group'',
      tab @ ''-p <path>: Specify the path to the storage directory'']"

definition display_mknet_usage :: "string \<Rightarrow> string" where
  "display_mknet_usage version = text_lines
     [''mknet: make virtual network '' @ version,
      ''Usage:'' @ tab @ ''mknet <action> <options>'',
      ''Actions'',
      tab @ ''-a: add'',
      tab @ ''-l: list'',
      tab @ ''-h: help'',
      tab @ ''-v: version'',
      ''Options'',
      tab @ ''-b <domain>: Build domain for the network'',
      tab @ ''-g <network/prefix>: Network range'',
      tab @ ''-u <uri>: Connection URI for libvirtd'',
      tab @ ''-n <network>: Name of the libvirt network'',
      tab @ ''-d Add network to cmdb'']"

text \<open>What the commands print for a code: the message goes to the error output.\<close>

definition virt_exit ::
  "string \<Rightarrow> (int \<times> string \<times> vir_call list \<times> 'st) \<Rightarrow> int \<times> string \<times> vir_call list \<times> 'st" where
  "virt_exit usage r = (case r of (retval, out, calls, st) \<Rightarrow>
     (retval, out @ (if retval > 0 then usage else []), calls, st))"

subsection \<open>mkvm\<close>

definition mkvm_option :: "char \<Rightarrow> string \<Rightarrow> ailsa_mkvm_s \<Rightarrow> (int + ailsa_mkvm_s) option" where
  "mkvm_option opt optarg vm =
    (if opt = CHR ''g'' then Some (Inr (vm\<lparr>vm_size := strtoul10 optarg\<rparr>))
     else if opt = CHR ''c'' then Some (Inr (vm\<lparr>vm_cpus := strtoul10 optarg\<rparr>))
     else if opt = CHR ''r'' then Some (Inr (vm\<lparr>vm_ram := strtoul10 optarg\<rparr>))
     else if opt = CHR ''n'' then map_option (\<lambda>t. Inr (vm\<lparr>vm_name := t\<rparr>)) (set_text CONFIG_LEN (vm_name vm) optarg)
     else if opt = CHR ''p'' then map_option (\<lambda>t. Inr (vm\<lparr>vm_pool := t\<rparr>)) (set_text CONFIG_LEN (vm_pool vm) optarg)
     else if opt = CHR ''u'' then map_option (\<lambda>t. Inr (vm\<lparr>vm_uri := t\<rparr>)) (set_text CONFIG_LEN (vm_uri vm) optarg)
     else if opt = CHR ''k'' then map_option (\<lambda>t. Inr (vm\<lparr>vm_network := t\<rparr>)) (set_text CONFIG_LEN (vm_network vm) optarg)
     else if opt = CHR ''b'' then Some (Inr (vm\<lparr>vm_netdev := duplicated CONFIG_LEN optarg\<rparr>))
     else if opt = CHR ''a'' then Some (Inr (vm\<lparr>vm_action := AILSA_ADD\<rparr>))
     else if opt = CHR ''h'' then Some (Inr (vm\<lparr>vm_action := AILSA_HELP\<rparr>))
     else if opt = CHR ''v'' then Some (Inr (vm\<lparr>vm_action := AILSA_VERSION\<rparr>))
     else if opt = CHR ''C'' then Some (Inr (vm\<lparr>vm_coid := Some (strndup optarg (BYTE_LEN + 1))\<rparr>))
     else if opt = CHR ''d'' then Some (Inr (vm\<lparr>vm_cmdb := AILSA_CMDB_ADD\<rparr>))
     else Some (Inl 1))"

fun virt_options ::
  "(char \<Rightarrow> string \<Rightarrow> ailsa_mkvm_s \<Rightarrow> (int + ailsa_mkvm_s) option) \<Rightarrow> (char \<times> string) list \<Rightarrow> ailsa_mkvm_s \<Rightarrow>
   (int \<times> ailsa_mkvm_s) option" where
  "virt_options step [] vm = Some (0, vm)"
| "virt_options step ((opt, optarg) # rest) vm = do {
     r \<leftarrow> step opt optarg vm;
     (case r of Inl code \<Rightarrow> Some (code, vm) | Inr vm \<Rightarrow> virt_options step rest vm)
   }"

definition parse_mkvm_command_line :: "(char \<times> string) list \<Rightarrow> ailsa_mkvm_s \<Rightarrow> (int \<times> ailsa_mkvm_s) option" where
  "parse_mkvm_command_line options vm = do {
     (retval, vm) \<leftarrow> virt_options mkvm_option options vm;
     if retval \<noteq> 0 then Some (retval, vm)
     else (let vm = (if vm_size vm = 0 then vm\<lparr>vm_size := 10\<rparr> else vm);
               vm = (if vm_cpus vm = 0 then vm\<lparr>vm_cpus := 1\<rparr> else vm);
               vm = (if vm_ram vm = 0 then vm\<lparr>vm_ram := 256\<rparr> else vm) in
       Some (if vm_network vm = None \<and> vm_netdev vm = None then AILSA_NO_NETWORK
             else if vm_action vm = AILSA_ADD \<and> vm_name vm = None then AILSA_NO_NAME
             else if vm_action vm = 0 then AILSA_NO_ACTION
             else 0, vm))
   }"

definition mkvm_main ::
  "string \<Rightarrow> string \<Rightarrow> 'db sqlite3_api \<Rightarrow> virt_env \<Rightarrow> libvirt \<Rightarrow> config_env \<Rightarrow> (char \<times> string) list \<Rightarrow> 'db world \<Rightarrow>
   (int \<times> string \<times> vir_call list \<times> 'db world) option" where
  "mkvm_main version prog api env lv cenv options w = do {
     vm \<leftarrow> parse_mkvm_config cenv mkvm_zero;
     config \<leftarrow> parse_cmdb_config cenv cmdb_zero;
     (case config of
        Inl code \<Rightarrow> Some (code, [], [], w)
      | Inr cmdb \<Rightarrow> do {
          (retval, vm) \<leftarrow> parse_mkvm_command_line options vm;
          map_option (virt_exit (display_mkvm_usage version))
           (if retval \<noteq> 0 then Some (retval, [], [], w)
            else if vm_action vm = AILSA_ADD
            then map_option (\<lambda>(retval, calls, w). (retval, [], calls, w)) (mkvm_create_vm api env lv (Some cmdb) vm [] w)
            else if vm_action vm = AILSA_HELP then Some (0, display_mkvm_usage version, [], w)
            else if vm_action vm = AILSA_VERSION then Some (0, display_version version prog, [], w)
            else Some (0, [], [], w))
        })
   }"

subsection \<open>mksp\<close>

definition mksp_option :: "char \<Rightarrow> string \<Rightarrow> ailsa_mkvm_s \<Rightarrow> (int + ailsa_mkvm_s) option" where
  "mksp_option opt optarg vm =
    (if opt = CHR ''n'' then map_option (\<lambda>t. Inr (vm\<lparr>vm_name := t\<rparr>)) (set_text CONFIG_LEN (vm_name vm) optarg)
     else if opt = CHR ''l'' then map_option (\<lambda>t. Inr (vm\<lparr>vm_logvol := t\<rparr>)) (set_text CONFIG_LEN (vm_logvol vm) optarg)
     else if opt = CHR ''u'' then map_option (\<lambda>t. Inr (vm\<lparr>vm_uri := t\<rparr>)) (set_text CONFIG_LEN (vm_uri vm) optarg)
     else if opt = CHR ''p'' then map_option (\<lambda>t. Inr (vm\<lparr>vm_path := t\<rparr>)) (set_text CONFIG_LEN (vm_path vm) optarg)
     else if opt = CHR ''g'' then Some (Inr (vm\<lparr>vm_sptype := AILSA_LOGVOL\<rparr>))
     else if opt = CHR ''y'' then Some (Inr (vm\<lparr>vm_sptype := AILSA_DIRECTORY\<rparr>))
     else if opt = CHR ''a'' then Some (Inr (vm\<lparr>vm_action := AILSA_ADD\<rparr>))
     else if opt = CHR ''h'' then Some (Inr (vm\<lparr>vm_action := AILSA_HELP\<rparr>))
     else if opt = CHR ''v'' then Some (Inr (vm\<lparr>vm_action := AILSA_VERSION\<rparr>))
     else Some (Inl 1))"

text \<open>A text that is there and not empty.\<close>

definition has_text :: "heap_text \<Rightarrow> bool" where
  "has_text m = (case text_at m of None \<Rightarrow> False | Some s \<Rightarrow> length s > 0)"

text \<open>A later code replaces an earlier one.\<close>

definition check_mksp_line :: "ailsa_mkvm_s \<Rightarrow> int" where
  "check_mksp_line vm =
    (let retval = (if vm_action vm = 0 then AILSA_NO_ACTION else 0);
         retval = (if vm_sptype vm = 0 then AILSA_NO_TYPE else retval);
         retval = (if vm_action vm = AILSA_ADD \<and> \<not> has_text (vm_name vm) then AILSA_NO_NAME else retval) in
     if vm_action vm = AILSA_HELP \<or> vm_action vm = AILSA_VERSION then 0
     else if vm_sptype vm = AILSA_LOGVOL \<and> \<not> has_text (vm_logvol vm) then AILSA_NO_LOGVOL
     else if vm_sptype vm = AILSA_DIRECTORY \<and> \<not> has_text (vm_path vm) then AILSA_NO_DIRECTORY
     else retval)"

definition parse_mksp_command_line :: "(char \<times> string) list \<Rightarrow> ailsa_mkvm_s \<Rightarrow> (int \<times> ailsa_mkvm_s) option" where
  "parse_mksp_command_line options vm = do {
     (retval, vm) \<leftarrow> virt_options mksp_option options vm;
     Some (if retval \<noteq> 0 then retval else check_mksp_line vm, vm)
   }"

definition mksp_main ::
  "string \<Rightarrow> string \<Rightarrow> libvirt \<Rightarrow> config_env \<Rightarrow> (char \<times> string) list \<Rightarrow> (int \<times> string \<times> vir_call list \<times> unit) option" where
  "mksp_main version prog lv cenv options = do {
     vm \<leftarrow> parse_mkvm_config cenv mkvm_zero;
     (retval, vm) \<leftarrow> parse_mksp_command_line options vm;
     map_option (virt_exit (display_mksp_usage version))
      (if retval \<noteq> 0 then Some (retval, [], [], ())
       else if vm_action vm = AILSA_ADD
       then map_option (\<lambda>(retval, calls). (retval, [], calls, ())) (mksp_create_storage_pool lv vm [])
       else if vm_action vm = AILSA_HELP then Some (0, display_mksp_usage version, [], ())
       else if vm_action vm = AILSA_VERSION then Some (0, display_version version prog, [], ())
       else Some (0, [], [], ()))
   }"

subsection \<open>mknet\<close>

definition mknet_option :: "char \<Rightarrow> string \<Rightarrow> ailsa_mkvm_s \<Rightarrow> (int + ailsa_mkvm_s) option" where
  "mknet_option opt optarg vm =
    (if opt = CHR ''a'' then Some (Inr (vm\<lparr>vm_action := CMDB_ADD\<rparr>))
     else if opt = CHR ''l'' then Some (Inr (vm\<lparr>vm_action := CMDB_LIST\<rparr>))
     else if opt = CHR ''h'' then Some (Inr (vm\<lparr>vm_action := AILSA_DISPLAY_USAGE\<rparr>))
     else if opt = CHR ''v'' then Some (Inr (vm\<lparr>vm_action := AILSA_VERSION\<rparr>))
     else if opt = CHR ''g'' then
       Some (case get_ip_addr_and_prefix (Some optarg) of (retval, net_range, prefix) \<Rightarrow>
         if retval \<noteq> 0 then Inl retval
         else Inr (vm\<lparr>vm_range := net_range, vm_prefix := (case prefix of None \<Rightarrow> vm_prefix vm | Some p \<Rightarrow> p)\<rparr>))
     else if opt = CHR ''b'' then map_option (\<lambda>t. Inr (vm\<lparr>vm_domain := t\<rparr>)) (set_text DOMAIN_LEN (vm_domain vm) optarg)
     else if opt = CHR ''n'' then map_option (\<lambda>t. Inr (vm\<lparr>vm_network := t\<rparr>)) (set_text CONFIG_LEN (vm_network vm) optarg)
     else if opt = CHR ''u'' then map_option (\<lambda>t. Inr (vm\<lparr>vm_uri := t\<rparr>)) (set_text CONFIG_LEN (vm_uri vm) optarg)
     else if opt = CHR ''d'' then Some (Inr (vm\<lparr>vm_cmdb := AILSA_CMDB_ADD\<rparr>))
     else Some (Inl 1))"

definition parse_mknet_command_line :: "(char \<times> string) list \<Rightarrow> ailsa_mkvm_s \<Rightarrow> (int \<times> ailsa_mkvm_s) option" where
  "parse_mknet_command_line options vm = do {
     (retval, vm) \<leftarrow> virt_options mknet_option options vm;
     Some (if retval \<noteq> 0 then retval
           else if vm_uri vm = None then AILSA_NO_URI
           else if vm_action vm = 0 then AILSA_NO_ACTION
           else 0, vm)
   }"

definition mknet_main ::
  "string \<Rightarrow> 'db sqlite3_api \<Rightarrow> services \<Rightarrow> virt_env \<Rightarrow> libvirt \<Rightarrow> interfaces \<Rightarrow> config_env \<Rightarrow> (char \<times> string) list \<Rightarrow>
   'db site \<Rightarrow> (int \<times> string \<times> vir_call list \<times> 'db site) option" where
  "mknet_main version api os env lv ifs cenv options st = do {
     vm \<leftarrow> parse_mkvm_config cenv mkvm_zero;
     config \<leftarrow> parse_cmdb_config cenv cmdb_zero;
     (case config of
        Inl code \<Rightarrow> Some (code, [], [], st)
      | Inr cmdb \<Rightarrow> do {
          (retval, vm) \<leftarrow> parse_mknet_command_line options vm;
          if retval \<noteq> 0 then Some (retval, display_mknet_usage version, [], st)
          else if vm_action vm = CMDB_LIST
          then (case ailsa_list_networks lv vm [] of (retval, out, calls) \<Rightarrow> Some (retval, out, calls, st))
          else if vm_action vm = AILSA_DISPLAY_USAGE then Some (0, display_mknet_usage version, [], st)
          else if vm_action vm = CMDB_ADD
          then map_option (\<lambda>(retval, calls, st). (retval, [], calls, st))
            (ailsa_add_network api os env lv ifs (Some cmdb) vm [] st)
          else Some (0, [], [], st)
        })
   }"

end
