(* ===== verification/Virt_Specs.thy ===== *)
theory Virt_Specs
  imports Virt_Main Build_Specs
begin

text \<open>
  What mkvm, mksp and mknet promise (src/virtual.c): the rows a new machine gets in the database, what must be there before a
  machine is defined, the descriptions of storage pools, the numbers of a network, and which codes are lost.
\<close>

subsection \<open>A machine in the database\<close>

lemma virt_fields:
  "q_fields (argument_queries ! HARDWARE_TYPE_ID_ON_CLASS) = [AILSA_DB_TEXT]"
  "q_fields (argument_queries ! VM_SERVER_ID_ON_NAME) = [AILSA_DB_TEXT]"
  "q_fields (argument_queries ! SERVER_ID_ON_NAME) = [AILSA_DB_TEXT]"
  "q_fields (insert_queries ! INSERT_HARDWARE) = [AILSA_DB_LINT, AILSA_DB_LINT, AILSA_DB_TEXT, AILSA_DB_TEXT, AILSA_DB_LINT,
     AILSA_DB_LINT]"
  "q_fields (insert_queries ! INSERT_SERVER) = [AILSA_DB_TEXT, AILSA_DB_TEXT, AILSA_DB_TEXT, AILSA_DB_TEXT, AILSA_DB_TEXT,
     AILSA_DB_LINT, AILSA_DB_LINT, AILSA_DB_LINT, AILSA_DB_LINT]"
  by (simp_all add: statement_fields argument_fields insert_fields table_lengths del: nth_map)

lemma hardware_type_added:
  assumes "database_up api cc" "reads_up api"
  shows "cmdb_add_hard_type_id_to_list api w (Some hclass) (Some cc) (Some l) =
    Some (0, w, Some (l @ name_rows api w HARDWARE_TYPE_ID_ON_CLASS hclass))"
  using name_query_runs [OF assms _ virt_fields(1)]
  by (simp add: cmdb_add_hard_type_id_to_list_def name_rows_def table_lengths)

lemma vm_host_added:
  assumes "database_up api cc" "reads_up api"
  shows "cmdb_add_vm_server_id_to_list api w (Some name) (Some cc) (Some l) =
    Some (0, w, Some (l @ name_rows api w VM_SERVER_ID_ON_NAME name))"
  using name_query_runs [OF assms _ virt_fields(2)]
  by (simp add: cmdb_add_vm_server_id_to_list_def name_rows_def table_lengths)

text \<open>The four rows of hardware.\<close>

definition vm_hardware :: "ailsa_mkvm_s \<Rightarrow> string \<Rightarrow> (string \<times> string \<times> string) list" where
  "vm_hardware vm mac =
     [(''Network Card'', mac, ''eth0''),
      (''Hard Disk'', snprintf_s MAC_LEN (lu (vm_size vm) @ '' GB''), ''vda''),
      (''Virtual CPU'', snprintf_s MAC_LEN (lu (vm_cpus vm) @ '' vCPU''), ''cpu''),
      (''Virtual RAM'', snprintf_s MAC_LEN (lu (vm_ram vm) @ '' RAM''), ''ram'')]"

definition hardware_row :: "u32 \<Rightarrow> u64 \<Rightarrow> (string \<Rightarrow> u64) \<Rightarrow> string \<times> string \<times> string \<Rightarrow> sql_value list" where
  "hardware_row uid sid type h = (case h of (hclass, detail, device) \<Rightarrow>
     [SQL_INT sid, SQL_INT (type hclass), text_value detail, text_value device, SQL_INT (ucast uid), SQL_INT (ucast uid)])"

definition hardware_elements :: "u32 \<Rightarrow> u64 \<Rightarrow> (string \<Rightarrow> u64) \<Rightarrow> string \<times> string \<times> string \<Rightarrow> ailsa_data list" where
  "hardware_elements uid sid type h = (case h of (hclass, detail, device) \<Rightarrow>
     [D_LINT sid, D_LINT (type hclass), text_element detail, text_element device, D_LINT (ucast uid), D_LINT (ucast uid)])"

lemma hardware_row_added:
  assumes "database_up api cc" "reads_up api" "name_rows api w HARDWARE_TYPE_ID_ON_CLASS hclass = [D_LINT ty]"
  shows "vm_hardware_row api uid (Some cc) hclass (Some detail) device w l =
    Some (0, w, Some (l @ [D_LINT ty, text_element detail, text_element device, D_LINT (ucast uid), D_LINT (ucast uid)]))"
  by (simp add: vm_hardware_row_def hardware_type_added [OF assms(1,2)] assms(3) next_list_def added_def add_args_def next_arg_def
      cmdb_populate_cuser_muser_def cmdb_add_number_to_list_def db_insert_def text_element_def)

lemma four_times: "replicate 4 x = [x, x, x, x]"
  by (simp add: numeral_eq_Suc)

lemma hardware_added:
  assumes "database_up api cc" "reads_up api" "vm_name vm = Some (n, name)" "vm_mac vm = Some mac"
    and "name_rows api w SERVER_ID_ON_NAME name = map D_LINT sids"
    and "\<forall>(hclass, d)\<in>set (vm_hardware vm mac). name_rows api w HARDWARE_TYPE_ID_ON_CLASS hclass = [D_LINT (type hclass)]"
  shows "cmdb_add_hardware_to_new_vm api env (Some cc) vm w =
    (if length sids \<noteq> 1 then Some (AILSA_SERVER_NOT_FOUND, w)
     else Some (executed api w (multi_insert (insert_queries ! INSERT_HARDWARE) 4)
       (concat (map (hardware_row (ve_uid env) (hd sids) type) (vm_hardware vm mac)))))"
proof (cases "length sids = 1")
  case False
  then show ?thesis
    using server_checked [OF assms(1,2), of w name "[]"] assms(5)
    by (simp add: cmdb_add_hardware_to_new_vm_def assms(3) text_at_def then_rows_def)
next
  case True
  then obtain sid where sid: "sids = [sid]" by (auto simp: length_Suc_conv)
  let ?rows = "concat (map (hardware_elements (ve_uid env) sid type) (vm_hardware vm mac))"
  have srv: "cmdb_check_add_server_id_to_list api w (text_at (vm_name vm)) (Some cc) (Some []) = Some (0, w, Some [D_LINT sid])"
    using server_checked [OF assms(1,2), of w name "[]"] assms(3,5) sid by (simp add: text_at_def)
  note row = hardware_row_added [OF assms(1,2)]
  have types: "name_rows api w HARDWARE_TYPE_ID_ON_CLASS ''Network Card'' = [D_LINT (type ''Network Card'')]"
    "name_rows api w HARDWARE_TYPE_ID_ON_CLASS ''Hard Disk'' = [D_LINT (type ''Hard Disk'')]"
    "name_rows api w HARDWARE_TYPE_ID_ON_CLASS ''Virtual CPU'' = [D_LINT (type ''Virtual CPU'')]"
    "name_rows api w HARDWARE_TYPE_ID_ON_CLASS ''Virtual RAM'' = [D_LINT (type ''Virtual RAM'')]"
    using assms(6) by (auto simp: vm_hardware_def)
  have vals: "args_values (concat (replicate 4 (q_fields (insert_queries ! INSERT_HARDWARE)))) ?rows =
      Some (concat (map (hardware_row (ve_uid env) sid type) (vm_hardware vm mac)))"
    by (simp add: virt_fields vm_hardware_def hardware_elements_def hardware_row_def text_element_def text_value_def
        four_times del: One_nat_def)
  have n: "q_number (insert_queries ! INSERT_HARDWARE) = 6" by code_simp
  have len: "length ?rows = 24" by (simp add: vm_hardware_def hardware_elements_def)
  have ins: "ailsa_multiple_query api w (Some cc) (insert_queries ! INSERT_HARDWARE) (Some ?rows) =
      Some (executed api w (multi_insert (insert_queries ! INSERT_HARDWARE) 4)
        (concat (map (hardware_row (ve_uid env) sid type) (vm_hardware vm mac))))"
    by (rule up_multiple_insert [OF assms(1) _ _ _ _ vals]) (simp_all add: table_lengths n len)
  show ?thesis
    using ins
    by (simp add: cmdb_add_hardware_to_new_vm_def srv then_rows_def row [OF types(1)] row [OF types(2)] row [OF types(3)]
        row [OF types(4)] assms(4) next_list_def added_def cmdb_add_number_to_list_def db_insert_def sid vm_hardware_def
        hardware_elements_def)
qed

definition machine_texts :: "string \<Rightarrow> string \<Rightarrow> string list" where
  "machine_texts name uuid = [name, ''Virtual Machine'', ''x86_64'', ''KVM'', uuid]"

lemma machine_list_filled:
  assumes "database_up api cc" "reads_up api" "vm_uuid vm = Some uuid" "ve_hostname env = (0, host)"
    and "customer_rows api w (vm_coid vm) = map D_LINT custs" "name_rows api w VM_SERVER_ID_ON_NAME host = map D_LINT hosts"
  shows "\<exists>l. mkvm_fill_server_list api env (Some cc) vm w (Some [text_element name]) =
      Some (if length custs \<noteq> 1 then AILSA_CUSTOMER_NOT_FOUND else if 1 < length hosts then -1 else 0, w, Some l) \<and>
    (length custs = 1 \<longrightarrow> length hosts \<le> 1 \<longrightarrow> l = map text_element (machine_texts name uuid) @
      map D_LINT (custs @ (if hosts = [] then [0] else hosts) @ [ucast (ve_uid env), ucast (ve_uid env)]))"
proof (cases "length custs = 1")
  case False
  then show ?thesis
    using cust_checked [OF assms(1,2), of w "vm_coid vm"] assms(3,5)
    by (auto simp: mkvm_fill_server_list_def next_list_def added_def add_args_def next_arg_def)
next
  case True
  then obtain c where c: "custs = [c]" by (auto simp: length_Suc_conv)
  consider "hosts = []" | h where "hosts = [h]" | "1 < length hosts" by (cases hosts rule: remdups_adj.cases) auto
  then show ?thesis
    using cust_checked [OF assms(1,2), of w "vm_coid vm"] vm_host_added [OF assms(1,2), of w host] assms(3-6) c
    by cases (auto simp: mkvm_fill_server_list_def next_list_def added_def add_args_def next_arg_def machine_texts_def
        cmdb_add_number_to_list_def cmdb_populate_cuser_muser_def db_insert_def text_element_def)
qed


text \<open>A database in which every statement finds the number 7, but the server only after something was written.\<close>

definition machine_api :: "nat sqlite3_api" where
  "machine_api = demo_api\<lparr>s3_rows := (\<lambda>db stmt _.
     (if stmt = q_query (argument_queries ! SERVER_ID_ON_NAME) \<and> db = 0 then [] else [[SQL_INT 7]], SQLITE_DONE))\<rparr>"

definition demo_virt_env :: virt_env where
  "demo_virt_env = \<lparr>ve_uid = 1000, ve_random = 0x12345678, ve_uuid = ''0a1b'', ve_hostname = (0, ''kvm1'')\<rparr>"

definition demo_machine :: ailsa_mkvm_s where
  "demo_machine = mkvm_zero\<lparr>vm_name := Some (256, ''web''), vm_pool := Some (256, ''default''),
     vm_network := Some (256, ''net''), vm_size := 10, vm_cpus := 1, vm_ram := 256, vm_cmdb := 50\<rparr>"

lemma machine_api_up: "database_up machine_api dns_cc" "reads_up machine_api"
  using demo_binds by (simp_all add: database_up_def reads_up_def machine_api_def demo_api_def dns_cc_def demo_cc_def
      binds_by_marks_def)

lemma executed_machine: "executed machine_api w q vs = (0, w\<lparr>w_db := w_db w + length vs\<rparr>)"
  by (simp add: executed_def machine_api_def demo_api_def)


subsection \<open>What a new machine needs\<close>

text \<open>Whether the call \<open>c\<close> of a run delivered a pointer, and the calls that change something.\<close>

definition answered :: "libvirt \<Rightarrow> vir_call list \<Rightarrow> vir_call \<Rightarrow> bool" where
  "answered lv calls c \<longleftrightarrow> c \<in> set calls \<and> lv_found lv (takeWhile (\<lambda>x. x \<noteq> c) calls) c"

definition defines_machine :: "vir_call \<Rightarrow> bool" where
  "defines_machine c \<longleftrightarrow> (case c of DomainDefineXML _ \<Rightarrow> True | _ \<Rightarrow> False)"

definition creates_volume :: "vir_call \<Rightarrow> bool" where
  "creates_volume c \<longleftrightarrow> (case c of StorageVolCreateXML _ \<Rightarrow> True | _ \<Rightarrow> False)"

lemma answered_at: "c \<notin> set pre \<Longrightarrow> answered lv (pre @ c # post) c = lv_found lv pre c"
  by (simp add: answered_def takeWhile_append)

lemma when_foundE:
  assumes "when_found (vir_ptr lv c calls) code w rest = Some (r, calls', w')"
  obtains "\<not> lv_found lv calls c" "calls' = calls @ [c]" "w' = w" "r = code"
  | "lv_found lv calls c" "rest (calls @ [c]) = Some (r, calls', w')"
  using assms by (auto simp: when_found_def vir_ptr_def split: if_splits)

lemma get_vol_fields:
  assumes "ailsa_get_vol lv vm calls = (r, calls', vm')"
  shows "\<exists>post. calls' = calls @ post \<and> set post \<subseteq> {StorageVolGetInfo, StorageVolGetPath} \<and> vm_network vm' = vm_network vm"
  using assms
  by (auto simp: ailsa_get_vol_def vir_code_def ailsa_get_vol_type_def split: if_splits option.splits)

lemma define_machine_calls:
  assumes "define_machine api env lv cms w vm pre = Some (r, calls, w')"
    and "\<forall>n. NetworkLookupByName n \<notin> set pre"
  shows "\<exists>post. calls = pre @ post \<and> filter creates_volume post = [] \<and>
    (filter defines_machine post \<noteq> [] \<or> w' \<noteq> w \<longrightarrow> answered lv calls (NetworkLookupByName (text_at (vm_network vm))))"
proof -
  obtain g c1 vm1 where vol: "ailsa_get_vol lv vm pre = (g, c1, vm1)" by (cases "ailsa_get_vol lv vm pre") auto
  then obtain m where m: "c1 = pre @ m" "set m \<subseteq> {StorageVolGetInfo, StorageVolGetPath}" "vm_network vm1 = vm_network vm"
    using get_vol_fields by blast
  then have quiet: "filter creates_volume m = []" "filter defines_machine m = []" "\<forall>n. NetworkLookupByName n \<notin> set m"
    by (auto simp: creates_volume_def defines_machine_def filter_empty_conv)
  let ?net = "NetworkLookupByName (text_at (vm_network vm))"
  have at: "answered lv ((pre @ m) @ ?net # post) ?net = lv_found lv (pre @ m) ?net" for post
    by (rule answered_at) (use assms(2) quiet(3) in simp)
  show ?thesis
  proof (cases "g = 0")
    case False
    then show ?thesis using assms(1) vol m(1) quiet by (intro exI [of _ m]) (auto simp: define_machine_def)
  next
    case True
    from assms(1) have run: "when_found (vir_ptr lv ?net c1) (-1) w (\<lambda>calls. do {
       (vm, xml) \<leftarrow> ailsa_create_domain_xml env vm1;
       when_found (vir_ptr lv (DomainDefineXML xml) calls) (-1) w (\<lambda>calls.
         case vir_code lv (DomainSetAutostart 1) calls of (retval, calls) \<Rightarrow>
         if vm_cmdb vm > 0
         then map_option (\<lambda>(retval, w). (retval, calls, w)) (mkvm_add_to_cmdb api env cms vm w)
         else Some (retval, calls, w)) }) = Some (r, calls, w')"
      by (simp add: define_machine_def vol True m(3))
    then show ?thesis
    proof (cases rule: when_foundE)
      case 1
      then show ?thesis using m(1) quiet
        by (intro exI [of _ "m @ [?net]"]) (simp add: creates_volume_def defines_machine_def)
    next
      case 2
      then obtain vm2 xml where xml: "when_found (vir_ptr lv (DomainDefineXML xml) (c1 @ [?net])) (-1) w (\<lambda>calls.
         case vir_code lv (DomainSetAutostart 1) calls of (retval, calls) \<Rightarrow>
         if vm_cmdb vm2 > 0
         then map_option (\<lambda>(retval, w). (retval, calls, w)) (mkvm_add_to_cmdb api env cms vm2 w)
         else Some (retval, calls, w)) = Some (r, calls, w')"
        by (auto simp: bind_eq_Some_conv)
      then obtain post where "calls = (pre @ m) @ ?net # post" "filter creates_volume post = []"
        by (cases rule: when_foundE) (auto simp: vir_code_def creates_volume_def m(1) split: if_splits)
      then show ?thesis using at [of post] 2(1) m(1) quiet(1)
        by (intro exI [of _ "m @ ?net # post"]) (simp add: creates_volume_def)
    qed
  qed
qed

text \<open>What a run has changed, and what it then had.\<close>

definition machine_parts :: "libvirt \<Rightarrow> ailsa_mkvm_s \<Rightarrow> vir_call list \<Rightarrow> bool" where
  "machine_parts lv vm calls \<longleftrightarrow>
     answered lv calls (NetworkLookupByName (text_at (vm_network vm))) \<and>
     (answered lv calls (StorageVolLookupByName (text_at (vm_name vm))) \<or>
       list_ex (\<lambda>c. creates_volume c \<and> answered lv calls c) calls)"

lemma find_volume_calls:
  assumes "find_volume lv vm pre w (define_machine api env lv cms w) = Some (r, calls, w')"
    and pre: "pre = [ConnectOpen u, DomainLookupByName n, StoragePoolLookupByName p]"
  shows "(\<exists>post. calls = pre @ post) \<and> (filter defines_machine calls \<noteq> [] \<or> w' \<noteq> w \<longrightarrow> machine_parts lv vm calls)"
proof -
  let ?vol = "StorageVolLookupByName (text_at (vm_name vm))"
  have fresh: "filter defines_machine pre = []" "\<forall>n. NetworkLookupByName n \<notin> set (pre @ [?vol, StorageVolCreateXML xml])" for xml
    by (auto simp: pre defines_machine_def)
  have kinds: "\<not> defines_machine ?vol" "\<not> defines_machine (StorageVolCreateXML xml)" "creates_volume (StorageVolCreateXML xml)" for xml
    by (simp_all add: defines_machine_def creates_volume_def)
  show ?thesis
  proof (cases "lv_found lv pre ?vol")
    case True
    then have run: "define_machine api env lv cms w vm (pre @ [?vol]) = Some (r, calls, w')"
      using assms(1) by (simp add: find_volume_def vir_ptr_def)
    obtain post where post: "calls = pre @ ?vol # post"
      "filter defines_machine post \<noteq> [] \<or> w' \<noteq> w \<longrightarrow> answered lv calls (NetworkLookupByName (text_at (vm_network vm)))"
      using define_machine_calls [OF run] fresh(2) by auto
    have "answered lv calls ?vol"
      using answered_at [of ?vol pre lv post] True by (simp add: post(1) pre)
    then show ?thesis using post(2) fresh(1) kinds(1) by (auto simp: machine_parts_def post(1))
  next
    case False
    then obtain vm1 xml where xml: "ailsa_create_volume_xml vm = Some vm1" "vm_storxml vm1 = Some xml"
      "when_found (vir_ptr lv (StorageVolCreateXML xml) (pre @ [?vol])) (-1) w (define_machine api env lv cms w vm1) = Some (r, calls, w')"
      using assms(1) by (auto simp: find_volume_def vir_ptr_def bind_eq_Some_conv)
    have net: "vm_network vm1 = vm_network vm"
      using xml(1) by (auto simp: ailsa_create_volume_xml_def bind_eq_Some_conv Let_def split: if_splits)
    from xml(3) show ?thesis
    proof (cases rule: when_foundE)
      case 1
      then show ?thesis using fresh(1) kinds by simp
    next
      case 2
      obtain post where post: "calls = (pre @ [?vol]) @ StorageVolCreateXML xml # post"
        "filter defines_machine post \<noteq> [] \<or> w' \<noteq> w \<longrightarrow> answered lv calls (NetworkLookupByName (text_at (vm_network vm)))"
        using define_machine_calls [OF 2(2)] fresh(2) net by auto
      have "answered lv calls (StorageVolCreateXML xml)"
        using answered_at [of "StorageVolCreateXML xml" "pre @ [?vol]" lv post] 2(1) by (simp add: post(1) pre)
      then have "list_ex (\<lambda>c. creates_volume c \<and> answered lv calls c) calls"
        using kinds(3) by (auto simp: list_ex_iff post(1))
      then show ?thesis using post(2) fresh(1) kinds by (auto simp: machine_parts_def post(1))
    qed
  qed
qed

lemma machine_needs_parts:
  assumes "mkvm_create_vm api env lv cms vm [] w = Some (r, calls, w')"
  shows "(answered lv calls (DomainLookupByName (text_at (vm_name vm))) \<longrightarrow> r = 0 \<and> w' = w \<and> length calls = 2) \<and>
    (filter defines_machine calls \<noteq> [] \<or> w' \<noteq> w \<longrightarrow>
       answered lv calls (StoragePoolLookupByName (text_at (vm_pool vm))) \<and> machine_parts lv vm calls)"
proof -
  let ?u = "ConnectOpen (case text_at (vm_uri vm) of None \<Rightarrow> ''qemu:///system'' | Some uri \<Rightarrow> uri)"
  let ?d = "DomainLookupByName (text_at (vm_name vm))" and ?p = "StoragePoolLookupByName (text_at (vm_pool vm))"
  have kinds: "\<not> defines_machine ?u" "\<not> defines_machine ?d" "\<not> defines_machine ?p"
    by (simp_all add: defines_machine_def)
  consider "\<not> lv_found lv [] ?u" | "lv_found lv [] ?u" "lv_found lv [?u] ?d"
    | "lv_found lv [] ?u" "\<not> lv_found lv [?u] ?d" by blast
  then show ?thesis
  proof cases
    case 1
    then show ?thesis using assms kinds
      by (auto simp: mkvm_create_vm_def ailsa_connect_libvirt_def vir_ptr_def answered_def)
  next
    case 2
    then show ?thesis using assms kinds
      by (auto simp: mkvm_create_vm_def ailsa_connect_libvirt_def vir_ptr_def)
  next
    case 3
    then have run: "when_found (vir_ptr lv ?p [?u, ?d]) (-1) w (\<lambda>calls. find_volume lv vm calls w (define_machine api env lv cms w)) =
        Some (r, calls, w')"
      using assms by (simp add: mkvm_create_vm_def ailsa_connect_libvirt_def vir_ptr_def)
    then show ?thesis
    proof (cases rule: when_foundE)
      case 1
      then show ?thesis using 3 kinds by (simp add: answered_def)
    next
      case 2
      then have f: "find_volume lv vm [?u, ?d, ?p] w (define_machine api env lv cms w) = Some (r, calls, w')" by simp
      obtain post where post: "calls = [?u, ?d, ?p] @ post" using find_volume_calls [OF f refl] by blast
      have "answered lv calls ?d \<longleftrightarrow> lv_found lv [?u] ?d" "answered lv calls ?p \<longleftrightarrow> lv_found lv [?u, ?d] ?p"
        using answered_at [of ?d "[?u]" lv "?p # post"] answered_at [of ?p "[?u, ?d]" lv post] by (simp_all add: post)
      then show ?thesis using find_volume_calls [OF f refl] 3 2(1) by simp
    qed
  qed
qed

text \<open>C18: A machine is defined, and the database is written, only when there is no machine of the name, its storage pool and its
  network are there, and its volume was there or could be created; for a machine that is there nothing is changed and
  the code is 0.\<close>

theorem new_machine_needs_its_parts:
  assumes "mkvm_create_vm api env lv cms vm [] w = Some (r, calls, w')"
  shows "(answered lv calls (DomainLookupByName (text_at (vm_name vm))) \<longrightarrow> r = 0 \<and> w' = w \<and> length calls = 2) \<and>
    (filter defines_machine calls \<noteq> [] \<or> w' \<noteq> w \<longrightarrow>
       answered lv calls (StoragePoolLookupByName (text_at (vm_pool vm))) \<and> machine_parts lv vm calls)"
  by (rule machine_needs_parts [OF assms])

lemma domain_xml_defined:
  assumes "text_at (vm_name vm) = Some name" "vm_vt vm = Some vt" "vm_vtstr vm = Some vtstr" "text_at (vm_path vm) = Some path"
    and "vm_netdev vm \<noteq> None \<or> vm_network vm \<noteq> None"
  shows "\<exists>vm' xml. ailsa_create_domain_xml env vm = Some (vm', xml) \<and> vm_cmdb vm' = vm_cmdb vm"
proof -
  let ?vm = "vm\<lparr>vm_mac := Some (strndup (ailsa_gen_mac (ve_random env) AILSA_KVM) MAC_LEN), vm_uuid := Some (strndup (ve_uuid env) UUID_LEN)\<rparr>"
  have filled: "\<exists>str. fill_strings ailsa_init_string (map (snprintf_s FILE_LEN) ss) = Some str" for ss
  proof -
    have "list_all (\<lambda>s. length s \<le> FILE_LEN) (map (snprintf_s FILE_LEN) ss)" by (auto simp: list_all_iff snprintf_s_def min_def)
    from fill_strings_short [OF init_string_ok this] show ?thesis by blast
  qed
  have "domain_interface mac ?vm \<noteq> None" for mac
    using assms(5) by (cases "vm_netdev vm") (auto simp: domain_interface_def text_at_def)
  then obtain i where "domain_interface (ailsa_gen_mac (ve_random env) AILSA_KVM) ?vm = Some i" by blast
  moreover obtain str where "fill_strings ailsa_init_string (map (snprintf_s FILE_LEN)
       [domain_head name (ve_uuid env) (vm_ram vm * 1024) (vm_cpus vm), domain_disk vt vtstr path, domain_controllers, i,
        domain_consoles, domain_video]) = Some str"
    using filled by blast
  ultimately show ?thesis
    using assms(1-4) by (simp add: ailsa_create_domain_xml_def Let_def del: fill_strings.simps list.map)
qed

text \<open>A hypervisor that has everything but the machine.\<close>

definition demo_libvirt :: libvirt where
  "demo_libvirt = \<lparr>lv_found = (\<lambda>_ c. case c of DomainLookupByName _ \<Rightarrow> False | _ \<Rightarrow> True), lv_code = (\<lambda>_ _. 0), lv_vol_type = 0,
     lv_vol_path = Some ''/vm/web'', lv_networks = []\<rparr>"

lemma demo_machine_created:
  "\<exists>calls. mkvm_create_vm machine_api demo_virt_env demo_libvirt (Some dns_cc) (demo_machine\<lparr>vm_cmdb := 0\<rparr>) [] demo_world =
     Some (0, calls, demo_world) \<and> filter defines_machine calls \<noteq> []"
proof -
  let ?vm = "demo_machine\<lparr>vm_cmdb := 0\<rparr>"
  let ?filled = "?vm\<lparr>vm_vt := Some ''file'', vm_vtstr := Some ''file'', vm_path := Some (length ''/vm/web'' + 1, ''/vm/web'')\<rparr>"
  obtain vm' xml where "ailsa_create_domain_xml demo_virt_env ?filled = Some (vm', xml)" "vm_cmdb vm' = 0"
    using domain_xml_defined [of ?filled "''web''" "''file''" "''file''" "''/vm/web''" demo_virt_env]
    by (auto simp: demo_machine_def mkvm_zero_def text_at_def)
  then show ?thesis
    by (simp add: mkvm_create_vm_def ailsa_connect_libvirt_def vir_ptr_def vir_code_def when_found_def find_volume_def
        define_machine_def ailsa_get_vol_def ailsa_get_vol_type_def demo_libvirt_def defines_machine_def)
qed

theorem new_machine_needs_its_parts_witness:
  "\<exists>calls. mkvm_create_vm machine_api demo_virt_env demo_libvirt (Some dns_cc) (demo_machine\<lparr>vm_cmdb := 0\<rparr>) [] demo_world =
     Some (0, calls, demo_world) \<and> answered demo_libvirt calls (NetworkLookupByName (Some ''net''))"
proof -
  obtain calls where c: "mkvm_create_vm machine_api demo_virt_env demo_libvirt (Some dns_cc) (demo_machine\<lparr>vm_cmdb := 0\<rparr>) [] demo_world =
     Some (0, calls, demo_world)" "filter defines_machine calls \<noteq> []"
    using demo_machine_created by blast
  show ?thesis
    using new_machine_needs_its_parts [OF c(1)] c
    by (auto simp: machine_parts_def demo_machine_def mkvm_zero_def text_at_def)
qed

text \<open>A machine that is given a bridge, as the usage offers, and no network is never made, as libvirt finds no network without a
  name.\<close>

theorem bridged_machine_is_never_made:
  assumes "vm_network vm = None" "\<forall>calls. \<not> lv_found lv calls (NetworkLookupByName None)"
    and "mkvm_create_vm api env lv cms vm [] w = Some (r, calls, w')"
  shows "filter defines_machine calls = [] \<and> w' = w"
  using machine_needs_parts [OF assms(3)] assms(1,2) by (auto simp: machine_parts_def answered_def text_at_def)

theorem bridged_machine_is_never_made_witness:
  "mkvm_create_vm machine_api demo_virt_env (demo_libvirt\<lparr>lv_found := (\<lambda>_ c. case c of DomainLookupByName _ \<Rightarrow> False
       | NetworkLookupByName n \<Rightarrow> n \<noteq> None | _ \<Rightarrow> True)\<rparr>) (Some dns_cc)
     (demo_machine\<lparr>vm_network := None, vm_netdev := Some (4, ''br0'')\<rparr>) [] demo_world \<noteq> None"
proof -
  let ?lv = "demo_libvirt\<lparr>lv_found := (\<lambda>_ c. case c of DomainLookupByName _ \<Rightarrow> False | NetworkLookupByName n \<Rightarrow> n \<noteq> None | _ \<Rightarrow> True)\<rparr>"
  let ?vm = "demo_machine\<lparr>vm_network := None, vm_netdev := Some (4, ''br0'')\<rparr>"
  obtain r calls w' where "mkvm_create_vm machine_api demo_virt_env ?lv (Some dns_cc) ?vm [] demo_world = Some (r, calls, w')"
    by (simp add: mkvm_create_vm_def ailsa_connect_libvirt_def vir_ptr_def vir_code_def when_found_def find_volume_def
        define_machine_def ailsa_get_vol_def ailsa_get_vol_type_def demo_libvirt_def text_at_def)
  then show ?thesis using bridged_machine_is_never_made [of ?vm ?lv] by simp
qed

subsection \<open>Storage pools\<close>

text \<open>What a pool is on, how its type is called, and what it names as its source.\<close>

definition pool_on :: "ailsa_mkvm_s \<Rightarrow> (string \<times> string \<times> string) option" where
  "pool_on vm =
    (if vm_sptype vm = AILSA_LOGVOL
     then map_option (\<lambda>v. (''logical'', pool_volumes v, ''/dev/'' @ v)) (text_at (vm_logvol vm))
     else if vm_sptype vm = AILSA_DIRECTORY then map_option (\<lambda>p. (''dir'', [], p)) (text_at (vm_path vm))
     else None)"

lemma pool_text_lengths:
  "length (pool_head type name) \<le> 100 + length type + length name" "length (pool_volumes logvol) \<le> 100 + length logvol"
  "length (pool_target target) \<le> 100 + length target"
  by (simp_all add: pool_head_def pool_volumes_def pool_target_def text_lines_def nl_def apos_def)

lemma pool_texts_filled:
  assumes "list_all (\<lambda>s. length s < FILE_LEN) ss"
  shows "\<exists>str. fill_strings ailsa_init_string ss = Some str \<and> as_string str = concat ss"
proof -
  have "list_all (\<lambda>s. length s \<le> FILE_LEN) ss" using assms by (auto simp: list_all_iff)
  from fill_strings_short [OF init_string_ok this] show ?thesis by (auto simp: ailsa_init_string_def)
qed

text \<open>The description of a pool is written in full when its directory, or the device of its volume group, is shorter
  than 32 characters; a longer one is written past the end of a buffer.\<close>

theorem pool_needs_a_short_path:
  assumes "text_at (vm_name vm) = Some name" "length name \<le> CONFIG_LEN" "pool_on vm = Some (type, volumes, target)"
  shows "ailsa_create_storage_pool_xml vm =
    (if length target < MAC_LEN then Some (0, pool_head type name @ volumes @ pool_target target) else None)"
proof (cases "length target < MAC_LEN")
  case False
  then show ?thesis
    using assms(1,3)
    by (auto simp: ailsa_create_storage_pool_xml_def pool_on_def split: if_splits)
next
  case True
  have "length type \<le> 7" using assms(3) by (auto simp: pool_on_def split: if_splits)
  then have short: "length (pool_head type name) < FILE_LEN" "length (pool_target target) < FILE_LEN"
    using assms(2) True pool_text_lengths(1) [of type name] pool_text_lengths(3) [of target] by simp_all
  then have whole: "snprintf_s FILE_LEN (pool_head type name) = pool_head type name"
    "snprintf_s FILE_LEN (pool_target target) = pool_target target"
    by (simp_all add: snprintf_s_def)
  consider v where "vm_sptype vm = AILSA_LOGVOL" "text_at (vm_logvol vm) = Some v" "type = ''logical''" "volumes = pool_volumes v"
      "target = ''/dev/'' @ v"
    | "vm_sptype vm = AILSA_DIRECTORY" "text_at (vm_path vm) = Some target" "type = ''dir''" "volumes = []"
    using assms(3) by (auto simp: pool_on_def split: if_splits)
  then show ?thesis
  proof cases
    case 1
    then have vols: "length volumes < FILE_LEN" using True pool_text_lengths(2) [of v] by simp
    obtain str where "fill_strings ailsa_init_string [pool_head type name, volumes, pool_target target] = Some str"
      "as_string str = pool_head type name @ volumes @ pool_target target"
      using pool_texts_filled [of "[pool_head type name, volumes, pool_target target]"] short vols by auto
    then show ?thesis
      using assms(1) True whole vols 1 by (simp add: ailsa_create_storage_pool_xml_def del: fill_strings.simps)
  next
    case 2
    obtain str where "fill_strings ailsa_init_string [pool_head type name, pool_target target] = Some str"
      "as_string str = pool_head type name @ pool_target target"
      using pool_texts_filled [of "[pool_head type name, pool_target target]"] short by auto
    then show ?thesis
      using assms(1) True whole 2 by (simp add: ailsa_create_storage_pool_xml_def del: fill_strings.simps)
  qed
qed

definition demo_pool :: "string \<Rightarrow> ailsa_mkvm_s" where
  "demo_pool path = mkvm_zero\<lparr>vm_name := Some (6, ''pool''), vm_sptype := AILSA_DIRECTORY, vm_path := Some (256, path)\<rparr>"

theorem pool_needs_a_short_path_witness:
  "ailsa_create_storage_pool_xml (demo_pool ''/srv/vm'') = Some (0, pool_head ''dir'' ''pool'' @ pool_target ''/srv/vm'') \<and>
     ailsa_create_storage_pool_xml (demo_pool ''/var/lib/libvirt/images/customers'') = None"
proof -
  have "text_at (vm_name (demo_pool path)) = Some ''pool''" "pool_on (demo_pool path) = Some (''dir'', [], path)" for path
    by (simp_all add: demo_pool_def mkvm_zero_def text_at_def pool_on_def)
  note pool = pool_needs_a_short_path [OF this(1) _ this(2)]
  show ?thesis by (simp add: pool)
qed

subsection \<open>Networks\<close>

lemma outside_mask: "or (- (2 ^ k)) a = - (2 ^ k) \<longleftrightarrow> unat a mod 2 ^ k = 0" for a :: u32
proof -
  have "or (not (mask k)) a = not (mask k) \<longleftrightarrow> and a (mask k) = 0"
    by (auto simp: bit_eq_iff bit_simps)
  also have "\<dots> \<longleftrightarrow> unat (take_bit k a) = 0"
    by (simp add: take_bit_eq_mask unat_eq_0)
  also have "\<dots> \<longleftrightarrow> unat a mod 2 ^ k = 0"
    by (subst unsigned_take_bit_eq) (simp only: take_bit_eq_mod)
  finally show ?thesis by (simp add: minus_exp_eq_not_mask)
qed

text \<open>The range of a new network is accepted exactly when it is an address whose part for hosts is 0; the host then takes
  the address after it.\<close>

theorem network_of_a_range:
  assumes "vm_range vm = Some s" "unat (vm_prefix vm) = p" "p \<le> 32"
  shows "get_ip_and_netmask vm =
    (let vm = vm\<lparr>vm_nm := - (2 ^ (32 - p))\<rparr> in
     Some (case pton4 s of
         None \<Rightarrow> (AILSA_IP_CONVERT_FAILED, vm)
       | Some a \<Rightarrow> if unat a mod 2 ^ (32 - p) = 0 then (0, vm\<lparr>vm_ip := a + 1\<rparr>) else (AILSA_RANGE_ERROR, vm)))"
  using assms net_range_value [of p]
  by (simp add: get_ip_and_netmask_def outside_mask Let_def split: option.split)

definition demo_network :: "string \<Rightarrow> ailsa_mkvm_s" where
  "demo_network s = mkvm_zero\<lparr>vm_uri := Some (2, ''u''), vm_network := Some (4, ''net''), vm_range := Some s, vm_prefix := 24\<rparr>"

lemma demo_ranges: "pton4 ''10.0.0.0'' = Some 0x0A000000" "pton4 ''10.0.0.7'' = Some 0x0A000007"
  by (simp_all add: pton4_def octet_def is_digit_def digits_value_def of_octets_def)

theorem network_of_a_range_witness:
  "map_option fst (get_ip_and_netmask (demo_network ''10.0.0.0'')) = Some 0 \<and>
     map_option fst (get_ip_and_netmask (demo_network ''10.0.0.7'')) = Some AILSA_RANGE_ERROR"
proof -
  have "vm_range (demo_network s) = Some s" "unat (vm_prefix (demo_network s)) = 24" for s
    by (simp_all add: demo_network_def)
  note range = network_of_a_range [OF this]
  show ?thesis by (simp add: range demo_ranges Let_def)
qed

text \<open>The last address of the build domain of a new network is no IPv4 address: the complement of the mask has the upper 32
  bits set.\<close>

theorem last_address_is_none: "2 ^ 32 \<le> unat (network_numbers vm ! 1)"
proof -
  let ?x = "or (ucast (vm_ip vm) + 15) (not (ucast (vm_nm vm))) :: u64"
  have "\<not> bit (vm_nm vm) 33" using bit_imp_le_length [of "vm_nm vm" 33] by auto
  then have "bit (unat ?x) 33" by (simp add: bit_simps)
  then have "odd (unat ?x div 2 ^ 33)" by (simp add: bit_iff_odd)
  then have x: "2 ^ 33 \<le> unat ?x"
    by (intro leI notI) (simp add: div_less)
  then have "?x \<noteq> 0" by (intro notI) simp
  then have "unat (?x - 1) = unat ?x - 1" by (rule unat_minus_one)
  then show ?thesis using x by (simp add: network_numbers_def Let_def)
qed

definition released :: "libvirt \<Rightarrow> int \<Rightarrow> vir_call list \<Rightarrow> bool" where
  "released lv r calls \<longleftrightarrow> (\<exists>before. calls = before @ [NetworkFree] \<and> r = lv_code lv before NetworkFree)"

lemma release_network_released: "release_network lv c s = (r, calls, s') \<Longrightarrow> released lv r calls"
  by (auto simp: release_network_def vir_code_def released_def)

lemma network_to_cmdb_released:
  "network_to_cmdb api os lv cbs vm c s = Some (r, calls, s') \<Longrightarrow> released lv r calls"
  unfolding network_to_cmdb_def
  by (auto simp: bind_eq_Some_conv dest: release_network_released split: if_splits)

lemma start_network_ends:
  assumes "start_network api os lv cbs vm xml c s = Some (r, calls, s')"
  shows "released lv r calls \<or> calls = c @ [NetworkDefineXML xml] \<and> r = 0"
  using assms
  by (auto simp: start_network_def vir_ptr_def vir_code_def dest: release_network_released network_to_cmdb_released
      split: if_splits)

lemma define_network_ends:
  assumes "define_network api os env lv ifs cbs vm c s = Some (r, calls, s')"
  shows "released lv r calls \<or> calls = c \<or> (\<exists>xml. calls = c @ [NetworkDefineXML xml] \<and> r = 0)"
  using assms unfolding define_network_def
  by (auto simp: bind_eq_Some_conv dest: start_network_ends split: if_splits)

text \<open>The calls of a run, and its code where the calls decide it.\<close>

definition network_end :: "libvirt \<Rightarrow> int \<Rightarrow> vir_call list \<Rightarrow> bool" where
  "network_end lv r calls \<longleftrightarrow> released lv r calls \<or> (\<exists>u. calls = [ConnectOpen u]) \<or>
     (\<exists>u n. calls = [ConnectOpen u, NetworkLookupByName n]) \<or>
     (\<exists>u n xml. calls = [ConnectOpen u, NetworkLookupByName n, NetworkDefineXML xml] \<and> r = 0)"

lemma define_network_end:
  "define_network api os env lv ifs cbs vm [ConnectOpen u, NetworkLookupByName n] st = Some (r, calls, st') \<Longrightarrow>
     network_end lv r calls"
  by (drule define_network_ends) (auto simp: network_end_def)

lemma network_to_cmdb_end: "network_to_cmdb api os lv cbs vm c s = Some (r, calls, s') \<Longrightarrow> network_end lv r calls"
  by (simp add: network_end_def network_to_cmdb_released)

lemma early_network_end: "network_end lv r [ConnectOpen u]"
  by (simp add: network_end_def)

lemma add_network_ends:
  assumes "ailsa_add_network api os env lv ifs cbs vm [] st = Some (r, calls, st')"
  shows "calls = [] \<or> network_end lv r calls"
  using assms unfolding ailsa_add_network_def ailsa_connect_libvirt_def vir_ptr_def
  by (auto simp: bind_eq_Some_conv Let_def early_network_end dest: define_network_end network_to_cmdb_end split: if_splits)


text \<open>Libvirt defines the network and then fails to let it start with the host: the code is 0.\<close>

definition failing_libvirt :: libvirt where
  "failing_libvirt = demo_libvirt\<lparr>lv_found := (\<lambda>_ c. case c of NetworkLookupByName _ \<Rightarrow> False | _ \<Rightarrow> True),
     lv_code := (\<lambda>_ c. if c = NetworkFree then 0 else -1)\<rparr>"

lemma find_first: "P 0 \<Longrightarrow> 0 < n \<Longrightarrow> find P [0..<n] = Some 0"
  by (simp add: upt_conv_Cons)

lemma first_bridge: "get_iface_name ''virbr'' (0, []) = Some (Some ''virbr0'')"
proof -
  have "dec 0 = ''0''" by code_simp
  then show ?thesis
    by (simp add: get_iface_name_def ailsa_get_iface_list_def snprintf_s_def find_first del: upt_rec_numeral)
qed

lemma failing_run:
  "\<exists>calls. ailsa_add_network machine_api demo_services demo_virt_env failing_libvirt (0, []) (Some dns_cc)
     ((demo_network ''10.0.0.0'')\<lparr>vm_netdev := Some (5, ''eth0''), vm_domain := Some (6, ''lan.'')\<rparr>) [] st =
   Some (0, calls, st) \<and> NetworkFree \<in> set calls"
proof -
  let ?vm = "(demo_network ''10.0.0.0'')\<lparr>vm_netdev := Some (5, ''eth0''), vm_domain := Some (6, ''lan.'')\<rparr>"
  have p: "prefix_to_mask_ipv4 24 = Some (- (2 ^ 8))" using net_range_value [of 24] by simp
  have z: "or (- (2 ^ 8)) 0x0A000000 = (- (2 ^ 8) :: u32)" by (simp only: outside_mask) simp
  have ip: "get_ip_and_netmask ?vm = Some (0, ?vm\<lparr>vm_nm := - (2 ^ 8), vm_ip := 0x0A000001\<rparr>)"
    using p z by (simp add: get_ip_and_netmask_def demo_network_def mkvm_zero_def demo_ranges Let_def)
  have f: "text_at (vm_uri (demo_network s)) = Some ''u''" "text_at (vm_network (demo_network s)) = Some ''net''"
    "vm_storxml (demo_network s) = None" for s
    by (simp_all add: demo_network_def mkvm_zero_def text_at_def)
  have t: "text_at (Some (n, s)) = Some s" for n s by (simp add: text_at_def)
  show ?thesis
    by (simp add: ailsa_add_network_def ailsa_connect_libvirt_def vir_ptr_def vir_code_def ip define_network_def first_bridge
        ailsa_define_network_xml_def start_network_def release_network_def failing_libvirt_def f t Let_def)
qed


end
