(* ===== verification/Spec2Isabelle.thy ===== *)
theory Spec2Isabelle
  imports Ailsa_Hash Dnsa_Specs Cmdb_Specs Zone_Text Tool_Frame Tool_Specs Package_Specs Os_Specs Boot_Specs Domain_Specs Part_Specs Config_Specs Identity_Specs Virt_Specs
begin

text \<open>
  A verification development for cmdb, a configuration management database with its tools: \<open>cmdb\<close>
  (servers, customers), \<open>cmdb-identity\<close> (accounts), \<open>cbc\<close> and its data commands (network builds), \<open>dnsa\<close> (DNS
  zones), and \<open>mkvm\<close>, \<open>mksp\<close> and \<open>mknet\<close> (virtual machines, storage pools and networks of libvirt).  All of them sit on the library in lib/: lists and a hash table, the tables of SQL statements and the code that
  executes them on SQLite, the row data passed in and out, the lookups that turn names into ids, and
  the IP ranges, zones and downloads of the network part.  The library and the commands are modelled
  from their options to the database, the files they write and the commands they run.

  \<^bold>\<open>The library.\<close>

  \<^item> Cmdb\_Prelude: buffer lengths and return codes of include/ailsacmdb.h; the idiom of a call
    whose non-zero code jumps to the cleanup label (\<open>chk0\<close>); \<open>strndup\<close>, \<open>strncmp\<close>, \<open>strchr\<close>, ...
  \<^item> Cmdb\_Types: \<open>ailsa_data_s\<close> (the tagged union of a row element), \<open>ailsa_cmdb_s\<close> (the
    configuration), and the database: the SQLite C interface is a parameter, a record of functions
    over an abstract database state, with the open connections counted in the \<open>world\<close>.
  \<^item> Ailsa\_List: lib/list.c on an explicit heap of cells, every function.  \<open>list_rep\<close> relates a heap
    list to the sequence of its cells; the locale \<open>ail_sequence\<close> is the interface its clients use,
    interpreted on the heap lists here and on the sequences of row elements in Ailsa\_Data.
  \<^item> Ailsa\_Hash: lib/hash.c over these lists; the tables an initialisation, insertions and removals
    can reach are the rule-inductive \<open>hash_reach\<close>.
  \<^item> Sql\_Queries: every query number of include/ailsasql.h and every row of the five statement tables of
    lib/queries.c.  Sql\_Exec: the SQLite half of lib/queries.c and lib/sql.c (setup, binding,
    stepping, storing, dispatch on the database type, statements built for several rows).
    Sql\_Statements: what the two give together.  Sql\_Up: the rules for a database that is up.
  \<^item> Ailsa\_Data: lib/data.c and lib/ailsacmdb.c: adders, partition rows, the growing string
    buffer, trailing characters, cloning and replacing row elements in place.
  \<^item> Cmdb\_Helper: lib/helper.c: the lookups (each builds the arguments of one numbered statement and
    appends the rows found), the checked lookups over the locale \<open>id_lookup\<close> with one interpretation
    per lookup, the existence checks, the update of a row.
  \<^item> Net\_Range: the IPv4 half of lib/dnsa\_net.c: conversions, prefixes, ranges, sub-zones,
    in-addr.arpa names.  Dns\_Zones: zone serials and their update, the argument lists of new
    zones, the overlap checks, the list of reverse zones, and the build domain networks of
    lib/sql\_data.c.  Boot\_Files: the HTTP part of lib/dnsa\_net.c, which downloads kernel and ramdisk; the
    network is the parameter \<open>network\<close>.
  \<^item> Posix\_Regex: the POSIX regular expressions the patterns rest on (the C library's part: parser,
    matcher, and the language a compiled pattern denotes).  Ailsa\_Regexp: lib/regexp.c.
  \<^item> Command\_Errors: lib/errors.c, the messages of the return codes and the usages.
  \<^item> Cmdb\_Config: the part of lib/config.c that reads \<open>cmdb.conf\<close>: the lines as \<open>fgets\<close> delivers them, the
    settings as \<open>sscanf\<close> stores them, the files of the system and of the user, the completion of
    the directories.  Config\_Specs: settings are read as written, and what every configuration satisfies.

  \<^bold>\<open>The commands.\<close>

  \<^item> \<open>dnsa\<close>: Dnsa\_Cmdline (src/dnsa.c, the options and their checks); Zone\_Files (the rest of the zone
    part of lib/dnsa\_net.c: the text of zone and configuration files, the zone check and its
    verdict, adding zones; the state is a \<open>site\<close>: the connection, the files and the commands that were
    run, with the operating system as the parameter \<open>services\<close>); src/zones.c in Dnsa\_Records (records,
    preferred addresses, glue zones), Dnsa\_Reverse (the synchronisation of a reverse zone; the trimming of
    its list also on heap cells), Zone\_Commands (committing, adding, deleting and building zones)
    and Zone\_Display; Dnsa\_Main (\<open>main\<close>).  Dnsa\_Frame: what the operations may change, with the locale
    \<open>confined_operation\<close> interpreted on each of them.  Dnsa\_Specs: what the command promises as a
    whole.  Zone\_Text: reading the zone files back.
  \<^item> \<open>cmdb\<close>: Cmdb\_Cmdline and Cmdb\_Main (src/cmdb.c), Cmdb\_Customers (src/customers.c), Cmdb\_Servers
    (src/servers.c).  Cmdb\_Accepted: the complete command lines.  Cmdb\_Specs: what is added, removed and
    reported, with the locale \<open>adds_once\<close> for the operations that add a row.
  \<^item> \<open>cbc\<close>: Cbc\_Cmdline and Cbc\_Main (src/cbc.c), Build\_Create and Build\_Address (src/createbuild.c and the
    choice of an address), and src/build.c in Build\_Display, Build\_Boot (DHCP and TFTP), Build\_Details,
    Build\_Preseed and Build\_Kickstart.  Build\_Frame: what the command may change.  Build\_Specs: what creating,
    modifying and removing a build do.
  \<^item> The data commands of \<open>cbc\<close>, one theory each: Cbc\_Domain, Cbc\_Locale, Cbc\_Os, Cbc\_Part, Cbc\_Script, Cbc\_Sysp,
    Cbc\_Varient (src/cbcdomain.c, ...), on the steps of Tool\_Steps.  Tool\_Frame: looking changes nothing.
    Tool\_Specs: the commands that set a default, over the locale \<open>default_row\<close> with four interpretations.
    Package\_Specs, Os\_Specs, Part\_Specs, Domain\_Specs, Boot\_Specs: what they promise about packages, operating
    systems, partitions, networks and downloads.
  \<^item> \<open>cmdb-identity\<close>: Cmdb\_Identity (src/cmdb-identity.c, the whole command).  Identity\_Specs: what storing an
    account does, how salt and password depend on each other, how the command ends.
  \<^item> \<open>mkvm\<close>, \<open>mksp\<close>, \<open>mknet\<close>: Virt\_Config (\<open>ailsa_mkvm_s\<close>, texts with the size of their memory, the part of
    lib/config.c that reads \<open>mkvm.conf\<close>), Virt\_Machines and Virt\_Networks (src/virtual.c: machines and their
    rows, storage pools, networks, the XML texts), Virt\_Main (the three command lines and programs).  The calls of
    libvirt are recorded in their order as a list of \<open>vir_call\<close>; what each delivers is the parameter \<open>libvirt\<close>, a
    function of the calls before it.  Virt\_Specs: the rows of a new machine, what must be there before one is
    defined, the numbers of a network, and which codes get lost.

  \<^bold>\<open>State and errors.\<close>  A pointer that may be NULL is an option; a result \<open>None\<close> of a function whose C
  code returns an \<open>int\<close> is behaviour the C standard leaves undefined (a NULL dereference, a union member
  that was not written, a buffer overrun, an uninitialised variable) or, in a loop on cells or addresses, that it
  does not return.  A return code is an \<open>int\<close> in the result, beside the objects the function changed.
  \<open>unsigned long\<close> is \<open>64 word\<close>.  A list whose cells do not matter is the list of its data
  (\<open>db_list\<close>).  A command gives its exit code, the text it prints and the changed \<open>world\<close> or \<open>site\<close>.
  Memory exhaustion (\<open>ailsa_calloc\<close> exits the program) and log messages are left out.

  \<^bold>\<open>What the lemmas show.\<close>  Lists: each operation refines the operation on sequences and changes no
  cell outside its list.  Hash table: the invariant of reachable tables and what insertion, lookup and
  removal then do.  Statements: the tables are well formed; a query that is given arguments of its
  types executes its statement once, with exactly these values; short and partial argument lists
  end in errors; writing queries close what they open.  Lookups: defined for all names, exact on a ready
  database, and one element per checked lookup.  Ranges and zones: printing and parsing
  addresses are inverse; the range of a prefix has the size of the prefix, except for the
  prefix 8; serials increase; overlap checks find exactly the intersecting ranges; zone files can be read
  back.  Commands: what an accepted line contains and what a refused one reports; which files, commands
  and rows an operation can touch; the exact statements an operation executes, with their values, on a
  database that is up; the address a build gets is the lowest free one; a virtual machine is
  defined only with its pool, its volume and its network.

  \<^bold>\<open>Bounds.\<close>  No fuel is used.  Loops over rows and arguments recurse on their list; the label loop
  of \<open>get_in_addr_string\<close>, the pieces \<open>fgets\<close> reads and the loop over the header of an HTTP answer have measures; loops over cells (\<open>clean_loop\<close>,
  \<open>lookup_loop\<close>, the search loops of \<open>pop_element\<close>) and the search for a free address are partial
  functions whose value \<open>None\<close> includes not returning, and that they return is proved where they do.  Hypotheses on SQLite
  (\<open>binds_by_marks\<close>, \<open>sqlite_ready\<close>, \<open>answers_overlap\<close>, \<open>codes_nonneg\<close>) state
  its documented behaviour and hold for the concrete databases \<open>demo_api\<close> and \<open>range_api\<close>; \<open>database_up\<close>, \<open>reads_up\<close> and
  \<open>writes_up\<close> say that nothing fails, and hold for \<open>rows_api\<close>, \<open>zone_api\<close> and \<open>record_api\<close>.

  \<^bold>\<open>Parameters.\<close>  Code outside the repository is an argument of the definitions that use it: SQLite
  (\<open>sqlite3_api\<close>), the operating system (\<open>services\<close>: opening files, running commands, resolving names, the
  time, the user), libvirt, \<open>crypt\<close>, \<open>rand\<close> and \<open>getpass\<close> (\<open>identity_env\<close>), the files, directories and the
  environment a configuration is read from (\<open>config_env\<close>), the name of the host and the random numbers of a new
  machine (\<open>virt_env\<close>), the network of a download, the interfaces \<open>getifaddrs\<close> lists, the UUID of a new server, and the
  options as \<open>getopt_long\<close> delivers them.

  \<^bold>\<open>Not modelled.\<close>  The MySQL half (compiled only with HAVE\_MYSQL); syslog and what goes to standard
  error; file permissions and the umask; the destructors of structures that only free memory; the test program
  src/hellolv.c; the sources in old/, which no build file compiles.  \<open>cmdb\<close>, \<open>cbc\<close> and \<open>dnsa\<close> take the configuration
  they work with as a parameter.
\<close>

end
